(* ===== verification/Harness_Prelude.thy ===== *)
theory Harness_Prelude
  imports Complex_Main "HOL-Library.AList" "HOL-Library.List_Lexorder" "HOL-Library.Char_ord"
begin

text \<open>
  What every component of the harness model shares: Python's exceptions as values, dictionaries as
  association lists in insertion order, timestamps, the string helpers the sources call, the
  state-and-exception computations of the gateways, and three interfaces (write-once stores,
  systems with an invariant, systems that only grow) whose laws the components discharge.
\<close>

named_theorems checks "constructor checks (the __post_init__ methods)"
named_theorems sm_simps "unfolding of state-and-exception computations"

section \<open>Exceptions\<close>

text \<open>
  The built-in exceptions the sources raise, each with the literal text of its message (the parts an
  f-string interpolates are left out). A function that may raise returns a sum, \<open>Inl\<close> the
  exception.
\<close>

datatype py_error =
    ValueError string
  | KeyError string
  | TypeError string
  | PermissionError string
  | AssertionError

type_synonym 'a checked = "py_error + 'a"

lemma guard_Inr: "(if b then Inl e else r) = Inr x \<longleftrightarrow> \<not> b \<and> r = Inr x"
  by simp

text \<open>Sequencing of checks: the first exception wins.\<close>

definition ck_bind :: "'e + 'a \<Rightarrow> ('a \<Rightarrow> 'e + 'b) \<Rightarrow> 'e + 'b" where
  "ck_bind r f = (case r of Inl e \<Rightarrow> Inl e | Inr x \<Rightarrow> f x)"

lemma ck_bind_simps [simp]: "ck_bind (Inl e) f = Inl e" "ck_bind (Inr x) f = f x"
  by (simp_all add: ck_bind_def)

lemma ck_bind_Inr: "ck_bind r f = Inr y \<longleftrightarrow> (\<exists>x. r = Inr x \<and> f x = Inr y)"
  by (cases r) simp_all

primrec check_all :: "('a \<Rightarrow> 'e + 'b) \<Rightarrow> 'a list \<Rightarrow> 'e + 'b list" where
  "check_all f [] = Inr []"
| "check_all f (x # xs) =
     (case f x of Inl e \<Rightarrow> Inl e
      | Inr y \<Rightarrow> (case check_all f xs of Inl e \<Rightarrow> Inl e | Inr ys \<Rightarrow> Inr (y # ys)))"

lemma check_all_Inr: "check_all f xs = Inr ys \<longleftrightarrow> list_all2 (\<lambda>x y. f x = Inr y) xs ys"
  by (induction xs arbitrary: ys) (auto simp: list_all2_Cons1 split: sum.splits, metis Inr_inject)

lemma check_all_left: "check_all f xs = Inr ys \<Longrightarrow> x \<in> set xs \<Longrightarrow> \<exists>y \<in> set ys. f x = Inr y"
  by (induction xs arbitrary: ys) (auto split: sum.splits)

lemma check_all_right: "check_all f xs = Inr ys \<Longrightarrow> y \<in> set ys \<Longrightarrow> \<exists>x \<in> set xs. f x = Inr y"
  by (induction xs arbitrary: ys) (auto split: sum.splits)

lemma check_all_length: "check_all f xs = Inr ys \<Longrightarrow> length ys = length xs"
  by (induction xs arbitrary: ys) (auto split: sum.splits)

lemma check_all_total: "(\<And>x. x \<in> set xs \<Longrightarrow> \<exists>y. f x = Inr y) \<Longrightarrow> \<exists>ys. check_all f xs = Inr ys"
  by (induction xs) (force split: sum.split)+

lemma check_all_map:
  "check_all f xs = Inr ys \<Longrightarrow> (\<And>x y. f x = Inr y \<Longrightarrow> g y = h x) \<Longrightarrow> map g ys = map h xs"
  by (induction xs arbitrary: ys) (auto split: sum.splits)

definition attempt :: "('s \<Rightarrow> 'e + 's) \<Rightarrow> 's \<Rightarrow> 's" where
  \<comment> \<open>the caller catches the exception; the operation left the state as it was\<close>
  "attempt f s = (case f s of Inl _ \<Rightarrow> s | Inr s' \<Rightarrow> s')"

lemma attempt_Inl [simp]: "f s = Inl e \<Longrightarrow> attempt f s = s"
  and attempt_Inr [simp]: "f s = Inr s' \<Longrightarrow> attempt f s = s'"
  by (simp_all add: attempt_def)

lemma attempt_cases [case_names refused performed]:
  assumes "\<And>e. f s = Inl e \<Longrightarrow> P s" and "\<And>s'. f s = Inr s' \<Longrightarrow> P s'"
  shows "P (attempt f s)"
  using assms by (cases "f s") simp_all

section \<open>Dictionaries in insertion order\<close>

text \<open>
  A Python dictionary is an association list with distinct keys: \<open>map_of\<close> looks a key up,
  \<open>AList.update\<close> stores a value where the key already stands, or at the end.
\<close>

type_synonym ('k, 'v) dict = "('k \<times> 'v) list"

abbreviation dict_get :: "('k, 'v) dict \<Rightarrow> 'k \<Rightarrow> 'v option" where
  "dict_get \<equiv> map_of"

abbreviation dict_set :: "'k \<Rightarrow> 'v \<Rightarrow> ('k, 'v) dict \<Rightarrow> ('k, 'v) dict" where
  "dict_set \<equiv> AList.update"

abbreviation dict_keys :: "('k, 'v) dict \<Rightarrow> 'k list" where
  "dict_keys d \<equiv> map fst d"

abbreviation dict_wf :: "('k, 'v) dict \<Rightarrow> bool" where
  "dict_wf d \<equiv> distinct (dict_keys d)"

lemma dict_get_set [simp]: "dict_get (dict_set k v d) = (dict_get d)(k \<mapsto> v)"
  by (simp add: update_conv' fun_eq_iff)

lemma dict_wf_set [simp, intro]: "dict_wf d \<Longrightarrow> dict_wf (dict_set k v d)"
  by (rule distinct_update)

lemma dict_set_new: "k \<notin> set (dict_keys d) \<Longrightarrow> dict_set k v d = d @ [(k, v)]"
  by (induction d) auto

lemma dict_get_Some_in: "dict_wf d \<Longrightarrow> dict_get d k = Some v \<longleftrightarrow> (k, v) \<in> set d"
  by (rule map_of_eq_Some_iff)

lemma dict_get_None: "dict_get d k = None \<longleftrightarrow> k \<notin> set (dict_keys d)"
  by (simp add: map_of_eq_None_iff)

lemma in_keys: "k \<in> set (dict_keys d) \<longleftrightarrow> dict_get d k \<noteq> None"
  by (simp add: map_of_eq_None_iff)

lemma length_remdups_iff: "length (remdups xs) = length xs \<longleftrightarrow> distinct xs"
  by simp

text \<open>Look-ups stay look-ups: membership of the pair is derived by \<open>dict_get_Some_in\<close> where wanted.\<close>

declare map_of_eq_Some_iff [simp del] Some_eq_map_of_iff [simp del]

lemma keys_dict_set [simp]: "fst ` set (dict_set k v d) = insert k (fst ` set d)"
  by (metis dom_map_of_conv_image_fst dom_fun_upd option.distinct(1) dict_get_set)

text \<open>A property of every entry of a dictionary.\<close>

definition dict_all :: "('k \<Rightarrow> 'v \<Rightarrow> bool) \<Rightarrow> ('k, 'v) dict \<Rightarrow> bool" where
  "dict_all P d \<longleftrightarrow> (\<forall>k v. dict_get d k = Some v \<longrightarrow> P k v)"

lemma dict_all_Nil [simp]: "dict_all P []"
  by (simp add: dict_all_def)

lemma dict_all_set [intro]: "dict_all P d \<Longrightarrow> P k v \<Longrightarrow> dict_all P (dict_set k v d)"
  by (simp add: dict_all_def)

lemma dict_allD: "dict_all P d \<Longrightarrow> dict_get d k = Some v \<Longrightarrow> P k v"
  by (simp add: dict_all_def)

lemma dict_all_mono: "dict_all P d \<Longrightarrow> (\<And>k v. P k v \<Longrightarrow> Q k v) \<Longrightarrow> dict_all Q d"
  by (simp add: dict_all_def)

text \<open>\<open>d.setdefault(k, []).append(v)\<close>, and the grouping of a list by it.\<close>

definition setdefault_append :: "'k \<Rightarrow> 'v \<Rightarrow> ('k, 'v list) dict \<Rightarrow> ('k, 'v list) dict" where
  "setdefault_append k v d =
     (case dict_get d k of None \<Rightarrow> dict_set k [v] d | Some vs \<Rightarrow> dict_set k (vs @ [v]) d)"

lemma dict_get_setdefault_append:
  "dict_get (setdefault_append k v d) = (dict_get d)(k \<mapsto>
     (case dict_get d k of None \<Rightarrow> [v] | Some vs \<Rightarrow> vs @ [v]))"
  by (simp add: setdefault_append_def split: option.split)

lemma dict_wf_setdefault_append [simp]: "dict_wf d \<Longrightarrow> dict_wf (setdefault_append k v d)"
  by (simp add: setdefault_append_def split: option.split)

definition group_by :: "('a \<Rightarrow> 'k) \<Rightarrow> ('a \<Rightarrow> 'v) \<Rightarrow> 'a list \<Rightarrow> ('k, 'v list) dict \<Rightarrow> ('k, 'v list) dict" where
  "group_by f g xs d = fold (\<lambda>x. setdefault_append (f x) (g x)) xs d"

lemma group_by_simps [simp]:
  "group_by f g [] d = d" "group_by f g (x # xs) d = group_by f g xs (setdefault_append (f x) (g x) d)"
  by (simp_all add: group_by_def)

lemma dict_wf_group_by [simp]: "dict_wf d \<Longrightarrow> dict_wf (group_by f g xs d)"
  by (induction xs arbitrary: d) simp_all

lemma dict_get_group_by:
  "dict_get (group_by f g xs d) k =
     (let new = map g (filter (\<lambda>x. f x = k) xs)
      in case dict_get d k of None \<Rightarrow> if new = [] then None else Some new | Some vs \<Rightarrow> Some (vs @ new))"
  by (induction xs arbitrary: d) (auto simp: dict_get_setdefault_append Let_def split: option.split)

lemma dict_get_group_by_Nil:
  "dict_get (group_by f g xs []) k =
     (if k \<in> f ` set xs then Some (map g (filter (\<lambda>x. f x = k) xs)) else None)"
  by (auto simp: dict_get_group_by Let_def filter_empty_conv)

lemma keys_group_by_Nil: "fst ` set (group_by f g xs []) = f ` set xs"
proof (rule set_eqI)
  show "k \<in> fst ` set (group_by f g xs []) \<longleftrightarrow> k \<in> f ` set xs" for k
    using in_keys [of k "group_by f g xs []"] by (simp add: dict_get_group_by_Nil)
qed

section \<open>Sorting and uniqueness\<close>

text \<open>
  \<open>sorted(xs, key=f)\<close> is a stable sort, HOL's \<open>sort_key\<close>; strings compare by code point, which
  is the lexicographic order of \<open>List_Lexorder\<close> over \<open>Char_ord\<close>. \<open>sorted(set(xs))\<close> drops
  repetitions first.
\<close>

definition sorted_set :: "'a::linorder list \<Rightarrow> 'a list" where
  "sorted_set xs = sort (remdups xs)"

lemma set_sorted_set [simp]: "set (sorted_set xs) = set xs"
  by (simp add: sorted_set_def)

lemma sorted_sorted_set [simp]: "sorted (sorted_set xs)"
  by (simp add: sorted_set_def)

lemma distinct_sorted_set [simp]: "distinct (sorted_set xs)"
  by (simp add: sorted_set_def)

lemma sorted_set_Nil [simp]: "sorted_set xs = [] \<longleftrightarrow> xs = []"
  by (metis set_empty set_sorted_set)

lemma dict_wf_sort_key [simp]: "dict_wf (sort_key f d) \<longleftrightarrow> dict_wf d"
  by (simp only: distinct_map set_sort distinct_sort)

lemma dict_get_sort_key: "dict_wf d \<Longrightarrow> dict_get (sort_key f d) = dict_get d"
  using map_of_inject_set [of "sort_key f d" d] by simp

text \<open>A stable sort by one key and then by another orders by the second key first.\<close>

lemma sorted_wrt_groups:
  assumes "sorted (map f xs)" and "\<And>k. sorted_wrt R (filter (\<lambda>x. f x = k) xs)"
  shows "sorted_wrt (\<lambda>a b. f a < f b \<or> f a = f b \<and> R a b) xs"
  using assms
proof (induction xs)
  case (Cons x xs)
  have "sorted_wrt R (filter (\<lambda>y. f y = k) xs)" for k
    using Cons.prems(2) [of k] by (cases "f x = k") simp_all
  with Cons.IH Cons.prems(1) have rest: "sorted_wrt (\<lambda>a b. f a < f b \<or> f a = f b \<and> R a b) xs" by simp
  have "f x < f y \<or> f x = f y \<and> R x y" if "y \<in> set xs" for y
  proof (cases "f x = f y")
    case True
    with that Cons.prems(2) [of "f x"] show ?thesis by auto
  next
    case False
    with that Cons.prems(1) show ?thesis by auto
  qed
  with rest show ?case by simp
qed simp

lemma sorted_by_two_keys:
  "sorted_wrt (\<lambda>a b. f a < f b \<or> f a = f b \<and> g a \<le> g b) (sort_key f (sort_key g xs))"
proof (rule sorted_wrt_groups)
  show "sorted_wrt (\<lambda>a b. g a \<le> g b) (filter (\<lambda>x. f x = k) (sort_key f (sort_key g xs)))" for k
    unfolding sort_key_stable by (metis sorted_filter sorted_map sorted_sort_key)
qed simp

section \<open>Strings\<close>

definition str_startswith :: "string \<Rightarrow> string \<Rightarrow> bool" where
  "str_startswith s p \<longleftrightarrow> take (length p) s = p"

definition str_removeprefix :: "string \<Rightarrow> string \<Rightarrow> string" where
  "str_removeprefix s p = (if str_startswith s p then drop (length p) s else s)"

definition is_space :: "char \<Rightarrow> bool" where
  "is_space c \<longleftrightarrow> c \<in> {CHR 0x20, CHR 0x09, CHR 0x0A, CHR 0x0B, CHR 0x0C, CHR 0x0D,
     CHR 0x1C, CHR 0x1D, CHR 0x1E, CHR 0x1F, CHR 0x85, CHR 0xA0}"

definition str_strip :: "string \<Rightarrow> string" where
  "str_strip s = rev (dropWhile is_space (rev (dropWhile is_space s)))"

definition lower_char :: "char \<Rightarrow> char" where
  "lower_char c = (if 65 \<le> (of_char c :: nat) \<and> (of_char c :: nat) \<le> 90
     \<or> 192 \<le> (of_char c :: nat) \<and> (of_char c :: nat) \<le> 222 \<and> (of_char c :: nat) \<noteq> 215
     then char_of (of_char c + 32 :: nat) else c)"

definition str_lower :: "string \<Rightarrow> string" where
  "str_lower s = map lower_char s"

definition str_contains :: "string \<Rightarrow> string \<Rightarrow> bool" where
  "str_contains s p \<longleftrightarrow> (\<exists>n \<in> set [0..<Suc (length s)]. str_startswith (drop n s) p)"

lemma str_startswith_append [simp]: "str_startswith (p @ s) p"
  by (simp add: str_startswith_def)

lemma str_startswith_iff: "str_startswith s p \<longleftrightarrow> (\<exists>r. s = p @ r)"
  by (metis append_eq_conv_conj str_startswith_append str_startswith_def)

lemma str_removeprefix_append [simp]: "str_removeprefix (p @ s) p = s"
  by (simp add: str_removeprefix_def)

text \<open>\<open>s.rsplit(sep, 1)\<close>: the text before and after the last \<open>sep\<close>, if there is one.\<close>

definition str_rsplit1 :: "char \<Rightarrow> string \<Rightarrow> (string \<times> string) option" where
  "str_rsplit1 c s =
     (if c \<in> set s
      then Some (rev (tl (dropWhile (\<lambda>d. d \<noteq> c) (rev s))), rev (takeWhile (\<lambda>d. d \<noteq> c) (rev s)))
      else None)"

lemma str_rsplit1_last:
  assumes "c \<notin> set t"
  shows "str_rsplit1 c (s @ c # t) = Some (s, t)"
proof -
  have r: "rev (s @ c # t) = rev t @ c # rev s" by simp
  have "takeWhile (\<lambda>d. d \<noteq> c) (rev t @ c # rev s) = rev t"
    using assms by (subst takeWhile_append2) auto
  moreover have "dropWhile (\<lambda>d. d \<noteq> c) (rev t @ c # rev s) = c # rev s"
    using assms by (subst dropWhile_append2) auto
  ultimately show ?thesis by (simp add: str_rsplit1_def)
qed

text \<open>\<open>s.split(c)\<close> for a separator of one character, and the slice \<open>xs[a:b]\<close> with Python's negative indices.\<close>

fun split_on :: "char \<Rightarrow> string \<Rightarrow> string list" where
  "split_on c [] = [[]]"
| "split_on c (x # s) =
     (if x = c then [] # split_on c s else (x # hd (split_on c s)) # tl (split_on c s))"

definition slice_bound :: "int \<Rightarrow> int \<Rightarrow> int" where
  "slice_bound n i = (if i < 0 then max 0 (n + i) else min i n)"

definition py_slice :: "'a list \<Rightarrow> int \<Rightarrow> int \<Rightarrow> 'a list" where
  "py_slice xs a b =
     (let n = int (length xs)
      in take (nat (slice_bound n b - slice_bound n a)) (drop (nat (slice_bound n a)) xs))"

lemma set_py_slice: "set (py_slice xs a b) \<subseteq> set xs"
  unfolding py_slice_def Let_def by (meson order_trans set_drop_subset set_take_subset)

lemma py_slice_prefix: "0 \<le> b \<Longrightarrow> py_slice xs 0 b = take (nat b) xs"
  by (simp add: py_slice_def slice_bound_def Let_def min_def)

lemma py_slice_nonneg:
  assumes "0 \<le> a" and "a \<le> b"
  shows "py_slice xs a b = take (nat (b - a)) (drop (nat a) xs)"
  using assms by (cases "a \<le> int (length xs)"; cases "b \<le> int (length xs)")
    (simp_all add: py_slice_def slice_bound_def Let_def min_def)

section \<open>Timestamps\<close>

text \<open>
  A \<open>datetime\<close> is its instant in microseconds of UTC (the wall clock, for a naive one) with the
  offset of its time zone; \<open>tzinfo is None\<close> is \<open>utcoffset = None\<close>. Aware datetimes compare by
  instant; comparing an aware with a naive one raises \<open>TypeError\<close>, which \<open>dt_comparable\<close> decides.
  A \<open>timedelta\<close> is a number of microseconds.
\<close>

record datetime =
  instant :: int
  utcoffset :: "int option"

type_synonym timedelta = int

definition aware :: "datetime \<Rightarrow> bool" where
  "aware d \<longleftrightarrow> utcoffset d \<noteq> None"

definition utc :: "int \<Rightarrow> datetime" where
  "utc t = \<lparr>instant = t, utcoffset = Some 0\<rparr>"

definition dt_comparable :: "datetime \<Rightarrow> datetime \<Rightarrow> bool" where
  "dt_comparable a b \<longleftrightarrow> (aware a \<longleftrightarrow> aware b)"

definition dt_add :: "datetime \<Rightarrow> timedelta \<Rightarrow> datetime" where
  "dt_add d t = d\<lparr>instant := instant d + t\<rparr>"

lemma aware_utc [simp]: "aware (utc t)" and instant_utc [simp]: "instant (utc t) = t"
  by (simp_all add: aware_def utc_def)

lemma aware_dt_add [simp]: "aware (dt_add d t) = aware d"
  and instant_dt_add [simp]: "instant (dt_add d t) = instant d + t"
  by (simp_all add: aware_def dt_add_def)

section \<open>Computations over a state that may raise\<close>

text \<open>
  A method of a stateful object takes the state and returns its result or exception together with the
  state it leaves: what was written before an exception stays written.
\<close>

type_synonym ('s, 'e, 'a) sm = "'s \<Rightarrow> ('e + 'a) \<times> 's"

definition sm_return :: "'a \<Rightarrow> ('s, 'e, 'a) sm" where
  "sm_return x s = (Inr x, s)"

definition sm_raise :: "'e \<Rightarrow> ('s, 'e, 'a) sm" where
  "sm_raise e s = (Inl e, s)"

definition sm_bind :: "('s, 'e, 'a) sm \<Rightarrow> ('a \<Rightarrow> ('s, 'e, 'b) sm) \<Rightarrow> ('s, 'e, 'b) sm" where
  "sm_bind m f s = (case m s of (Inl e, s') \<Rightarrow> (Inl e, s') | (Inr x, s') \<Rightarrow> f x s')"

definition sm_guard :: "bool \<Rightarrow> 'e \<Rightarrow> ('s, 'e, unit) sm" where
  "sm_guard b e = (if b then sm_return () else sm_raise e)"

definition sm_lift :: "'e + 'a \<Rightarrow> ('s, 'e, 'a) sm" where
  "sm_lift r s = (r, s)"

lemma sm_return_apply [simp, sm_simps]: "sm_return x s = (Inr x, s)"
  and sm_raise_apply [simp, sm_simps]: "sm_raise e s = (Inl e, s)"
  and sm_lift_apply [simp, sm_simps]: "sm_lift r s = (r, s)"
  by (simp_all add: sm_return_def sm_raise_def sm_lift_def)

lemma sm_guard_apply [simp, sm_simps]: "sm_guard b e s = (if b then (Inr (), s) else (Inl e, s))"
  by (simp add: sm_guard_def)

lemma sm_bind_Inl [simp, sm_simps]: "m s = (Inl e, s') \<Longrightarrow> sm_bind m f s = (Inl e, s')"
  and sm_bind_Inr [simp, sm_simps]: "m s = (Inr x, s') \<Longrightarrow> sm_bind m f s = f x s'"
  by (simp_all add: sm_bind_def)

lemma sm_bind_Inr_iff:
  "sm_bind m f s = (Inr y, t) \<longleftrightarrow> (\<exists>x s'. m s = (Inr x, s') \<and> f x s' = (Inr y, t))"
  by (auto simp: sm_bind_def split: prod.splits sum.splits)

lemma sm_bind_cases:
  assumes "sm_bind m f s = (r, t)"
  obtains e where "m s = (Inl e, t)" "r = Inl e"
  | x s' where "m s = (Inr x, s')" "f x s' = (r, t)"
  using assms by (auto simp: sm_bind_def split: prod.splits sum.splits)

text \<open>A relation between the state before and after that every part of a computation respects.\<close>

definition sm_rel :: "('s \<Rightarrow> 's \<Rightarrow> bool) \<Rightarrow> ('s, 'e, 'a) sm \<Rightarrow> bool" where
  "sm_rel R m \<longleftrightarrow> (\<forall>s. R s (snd (m s)))"

lemma sm_relI: "(\<And>s. R s (snd (m s))) \<Longrightarrow> sm_rel R m"
  and sm_relD: "sm_rel R m \<Longrightarrow> m s = (r, t) \<Longrightarrow> R s t"
  by (auto simp: sm_rel_def) (metis snd_conv)

lemma sm_rel_return [simp, intro]: "reflp R \<Longrightarrow> sm_rel R (sm_return x)"
  and sm_rel_raise [simp, intro]: "reflp R \<Longrightarrow> sm_rel R (sm_raise e)"
  and sm_rel_lift [simp, intro]: "reflp R \<Longrightarrow> sm_rel R (sm_lift q)"
  and sm_rel_guard [simp, intro]: "reflp R \<Longrightarrow> sm_rel R (sm_guard b e)"
  by (auto simp: sm_rel_def reflp_def)

lemma sm_rel_bind [intro]:
  assumes "transp R" and "sm_rel R m" and "\<And>x. sm_rel R (f x)"
  shows "sm_rel R (sm_bind m f)"
proof (rule sm_relI)
  fix s
  obtain r t where rt: "sm_bind m f s = (r, t)" by force
  then show "R s (snd (sm_bind m f s))"
  proof (cases rule: sm_bind_cases)
    case (1 e)
    with assms(2) show ?thesis by (simp add: rt sm_relD)
  next
    case (2 x s')
    with assms(2,3) have "R s s'" "R s' t" by (auto dest: sm_relD)
    with assms(1) show ?thesis by (simp add: rt transpD [of R])
  qed
qed

lemma sm_rel_stops:
  assumes "sm_rel R m" and "\<And>s x t. m s \<noteq> (Inr x, t)"
  shows "sm_rel R (sm_bind m f)"
proof (rule sm_relI)
  fix s
  obtain e t where "m s = (Inl e, t)" using assms(2) by (metis old.sum.exhaust surj_pair)
  then show "R s (snd (sm_bind m f s))" using assms(1) by (simp add: sm_relD)
qed

section \<open>Runs of operations\<close>

primrec run_ops :: "('op \<Rightarrow> 's \<Rightarrow> 's) \<Rightarrow> 'op list \<Rightarrow> 's \<Rightarrow> 's" where
  "run_ops step [] s = s"
| "run_ops step (x # xs) s = run_ops step xs (step x s)"

lemma run_ops_append: "run_ops step (xs @ ys) s = run_ops step ys (run_ops step xs s)"
  by (induction xs arbitrary: s) simp_all

text \<open>A system whose every operation keeps an invariant.\<close>

locale invariant_system =
  fixes step :: "'op \<Rightarrow> 's \<Rightarrow> 's"
    and inv :: "'s \<Rightarrow> bool"
  assumes step_inv: "inv s \<Longrightarrow> inv (step x s)"
begin

lemma run_inv: "inv s \<Longrightarrow> inv (run_ops step xs s)"
  by (induction xs arbitrary: s) (auto intro: step_inv)

end

text \<open>A system whose states only move up a preorder.\<close>

locale growing_system =
  fixes step :: "'op \<Rightarrow> 's \<Rightarrow> 's"
    and le :: "'s \<Rightarrow> 's \<Rightarrow> bool"
  assumes le_refl: "le s s"
    and le_trans: "le s t \<Longrightarrow> le t u \<Longrightarrow> le s u"
    and step_le: "le s (step x s)"
begin

lemma run_le: "le s (run_ops step xs s)"
proof (induction xs arbitrary: s)
  case Nil
  show ?case by (simp add: le_refl)
next
  case (Cons x xs)
  show ?case using le_trans [OF step_le Cons.IH] by simp
qed

lemma run_between: "le (run_ops step xs s) (run_ops step (xs @ ys) s)"
  by (simp add: run_ops_append run_le)

end

text \<open>
  A store that refuses to bind a key twice: the contract of the registries of connectors, mappings,
  memory candidates and assertions. The client lemmas say that a binding, once made, survives every
  later attempt, and that every stored value stands under its own key.
\<close>

locale write_once =
  fixes key :: "'v \<Rightarrow> 'k"
    and lookup :: "'s \<Rightarrow> 'k \<Rightarrow> 'v option"
    and put :: "'v \<Rightarrow> 's \<Rightarrow> 'e + 's"
  assumes put_fresh: "put v s = Inr s' \<Longrightarrow> lookup s (key v) = None"
    and put_lookup: "put v s = Inr s' \<Longrightarrow> lookup s' = (lookup s)(key v \<mapsto> v)"
begin

lemma put_keeps: "lookup s k = Some w \<Longrightarrow> lookup (attempt (put v) s) k = Some w"
proof (cases rule: attempt_cases [of "put v" s])
  case (performed s')
  then show "lookup s k = Some w \<Longrightarrow> lookup s' k = Some w"
    using put_fresh put_lookup by (metis fun_upd_other option.distinct(1))
qed

lemma put_again: "lookup s (key v) = Some w \<Longrightarrow> \<exists>e. put v s = Inl e"
  by (metis old.sum.exhaust option.distinct(1) put_fresh)

lemma run_keeps:
  "lookup s k = Some w \<Longrightarrow> lookup (run_ops (\<lambda>v. attempt (put v)) vs s) k = Some w"
  by (induction vs arbitrary: s) (simp_all add: put_keeps)

definition keyed :: "'s \<Rightarrow> bool" where
  "keyed s \<longleftrightarrow> (\<forall>k v. lookup s k = Some v \<longrightarrow> key v = k)"

lemma put_keyed: "keyed s \<Longrightarrow> keyed (attempt (put v) s)"
proof (cases rule: attempt_cases [of "put v" s])
  case (performed s')
  then show "keyed s \<Longrightarrow> keyed s'" by (auto simp: keyed_def put_lookup)
qed

lemma run_keyed: "keyed s \<Longrightarrow> keyed (run_ops (\<lambda>v. attempt (put v)) vs s)"
  by (induction vs arbitrary: s) (simp_all add: put_keyed)

lemma first_binding_wins:
  assumes "put v s = Inr s'"
  shows "lookup (run_ops (\<lambda>v. attempt (put v)) vs s') (key v) = Some v"
  using assms by (intro run_keeps) (simp add: put_lookup)

end

end
