(* ===== verification/Canonical_Json.thy ===== *)
theory Canonical_Json
  imports Harness_Prelude
begin

text \<open>
  The dynamic values the sources exchange and the canonical bytes they hash:
  \<open>json.dumps(value, sort_keys=True, separators=(",", ":"))\<close> of actions.py, durability.py and
  protocol.py. The encoder is written out (escapes, decimal integers, sorted keys) and proved
  unambiguous, so equal digests mean equal values up to key order or a collision of the hash.
  A float is kept as the token \<open>json.dumps\<close> writes for it (its shortest round-tripping \<open>repr\<close>, or
  NaN and the infinities); strings range over code points below 256.
\<close>

section \<open>Values\<close>

datatype json =
    JNull
  | JBool bool
  | JInt int
  | JFloat string
  | JStr string
  | JArr "json list"
  | JObj "(string \<times> json) list"

section \<open>The encoder\<close>

definition digit_char :: "nat \<Rightarrow> char" where
  "digit_char n = ''0123456789'' ! n"

fun show_nat :: "nat \<Rightarrow> string" where
  "show_nat n = (if n < 10 then [digit_char n] else show_nat (n div 10) @ [digit_char (n mod 10)])"

declare show_nat.simps [simp del]

definition show_int :: "int \<Rightarrow> string" where
  "show_int i = (if i < 0 then CHR ''-'' # show_nat (nat (- i)) else show_nat (nat i))"

definition hex_char :: "nat \<Rightarrow> char" where
  "hex_char n = ''0123456789abcdef'' ! n"

definition short_escape :: "char \<Rightarrow> char option" where
  "short_escape = map_of
     [(CHR 0x22, CHR 0x22), (CHR 0x5C, CHR 0x5C), (CHR 0x0A, CHR ''n''), (CHR 0x0D, CHR ''r''),
      (CHR 0x09, CHR ''t''), (CHR 0x0C, CHR ''f''), (CHR 0x08, CHR ''b'')]"

definition esc_char :: "char \<Rightarrow> string" where
  \<comment> \<open>ensure_ascii is on: everything outside the printable ASCII range is escaped\<close>
  "esc_char c =
     (case short_escape c of
        Some e \<Rightarrow> [CHR 0x5C, e]
      | None \<Rightarrow>
          (if 32 \<le> (of_char c :: nat) \<and> (of_char c :: nat) \<le> 126 then [c]
           else [CHR 0x5C, CHR ''u'', CHR ''0'', CHR ''0'',
                 hex_char (of_char c div 16), hex_char (of_char c mod 16)]))"

definition quote :: "string \<Rightarrow> string" where
  "quote s = CHR 0x22 # concat (map esc_char s) @ [CHR 0x22]"

fun join_comma :: "string list \<Rightarrow> string" where
  "join_comma [] = []"
| "join_comma [x] = x"
| "join_comma (x # y # xs) = x @ CHR '','' # join_comma (y # xs)"

definition member_text :: "string \<times> string \<Rightarrow> string" where
  "member_text kv = quote (fst kv) @ CHR '':'' # snd kv"

primrec dumps :: "json \<Rightarrow> string" where
  "dumps JNull = ''null''"
| "dumps (JBool b) = (if b then ''true'' else ''false'')"
| "dumps (JInt i) = show_int i"
| "dumps (JFloat t) = t"
| "dumps (JStr s) = quote s"
| "dumps (JArr xs) = CHR ''['' # join_comma (map dumps xs) @ [CHR '']'']"
| "dumps (JObj kvs) = CHR ''{'' # join_comma (map member_text (map (map_prod id dumps) kvs)) @ [CHR ''}'']"

primrec sort_keys :: "json \<Rightarrow> json" where
  "sort_keys JNull = JNull"
| "sort_keys (JBool b) = JBool b"
| "sort_keys (JInt i) = JInt i"
| "sort_keys (JFloat t) = JFloat t"
| "sort_keys (JStr s) = JStr s"
| "sort_keys (JArr xs) = JArr (map sort_keys xs)"
| "sort_keys (JObj kvs) = JObj (sort_key fst (map (map_prod id sort_keys) kvs))"

definition canonical :: "json \<Rightarrow> string" where
  "canonical v = dumps (sort_keys v)"

text \<open>
  \<open>str(v)\<close>: the text of a string, an integer, a bool or None; \<open>rep\<close> stands for the \<open>repr\<close> of a float or a
  container.
\<close>

definition py_str :: "(json \<Rightarrow> string) \<Rightarrow> json \<Rightarrow> string" where
  "py_str rep v = (case v of JStr s \<Rightarrow> s | JInt i \<Rightarrow> show_int i
     | JBool b \<Rightarrow> (if b then ''True'' else ''False'') | JNull \<Rightarrow> ''None'' | _ \<Rightarrow> rep v)"

section \<open>What is unambiguous about it\<close>

definition delims :: "char set" where
  "delims = {CHR '','', CHR '']'', CHR ''}''}"

definition delimited :: "string \<Rightarrow> bool" where
  "delimited r \<longleftrightarrow> r = [] \<or> hd r \<in> delims"

definition float_token :: "string \<Rightarrow> bool" where
  "float_token t \<longleftrightarrow> t \<noteq> [] \<and> hd t \<in> set ''0123456789-NI'' \<and> set t \<inter> delims = {}
     \<and> (\<exists>c \<in> set t. c \<notin> set ''0123456789-'')"

primrec json_wf :: "json \<Rightarrow> bool" where
  "json_wf JNull = True"
| "json_wf (JBool b) = True"
| "json_wf (JInt i) = True"
| "json_wf (JFloat t) = float_token t"
| "json_wf (JStr s) = True"
| "json_wf (JArr xs) = list_all json_wf xs"
| "json_wf (JObj kvs) = (distinct (map fst kvs) \<and> list_all snd (map (map_prod id json_wf) kvs))"

lemma delims_simps [simp]:
  "CHR '','' \<in> delims" "CHR '']'' \<in> delims" "CHR ''}'' \<in> delims"
  by (simp_all add: delims_def)

lemma delimited_simps [simp]:
  "delimited []" "delimited (c # r) \<longleftrightarrow> c \<in> delims"
  by (simp_all add: delimited_def)

lemma token_append_eq:
  assumes "t @ r = u @ r'" and "set t \<inter> delims = {}" and "set u \<inter> delims = {}"
    and "delimited r" and "delimited r'"
  shows "t = u \<and> r = r'"
proof -
  have "takeWhile (\<lambda>c. c \<notin> delims) (x @ s) = x" if "set x \<inter> delims = {}" "delimited s" for x s
    using that by (cases s) (auto simp: takeWhile_append)
  with assms have "t = u" by metis
  with assms(1) show ?thesis by simp
qed

subsection \<open>Numbers\<close>

lemma digit_char_range: "n < 10 \<Longrightarrow> digit_char n \<in> set ''0123456789''"
  unfolding digit_char_def by (rule nth_mem) simp

lemma digit_char_inj: "m < 10 \<Longrightarrow> n < 10 \<Longrightarrow> digit_char m = digit_char n \<longleftrightarrow> m = n"
  unfolding digit_char_def by (rule nth_eq_iff_index_eq) simp_all

lemma hex_char_inj: "m < 16 \<Longrightarrow> n < 16 \<Longrightarrow> hex_char m = hex_char n \<longleftrightarrow> m = n"
  unfolding hex_char_def by (rule nth_eq_iff_index_eq) simp_all

lemma show_nat_chars: "set (show_nat n) \<subseteq> set ''0123456789''"
proof (induction n rule: show_nat.induct)
  case (1 n)
  then show ?case
    using digit_char_range [of n] digit_char_range [of "n mod 10"]
    by (subst show_nat.simps) (auto split: if_splits)
qed

lemma show_nat_nonempty [simp]: "show_nat n \<noteq> []"
  by (subst show_nat.simps) simp

lemma show_nat_inj: "show_nat m = show_nat n \<Longrightarrow> m = n"
proof (induction m arbitrary: n rule: show_nat.induct)
  case (1 m)
  have len: "length (show_nat k) = 1 \<longleftrightarrow> k < 10" for k
    by (subst show_nat.simps) simp
  show ?case
  proof (cases "m < 10")
    case True
    with "1.prems" have "n < 10" by (metis len)
    with True "1.prems" show ?thesis
      by (simp add: show_nat.simps [of m] show_nat.simps [of n] digit_char_inj)
  next
    case False
    with "1.prems" have n: "\<not> n < 10" by (metis len)
    with False "1.prems" have "show_nat (m div 10) = show_nat (n div 10)"
      and "digit_char (m mod 10) = digit_char (n mod 10)"
      by (simp_all add: show_nat.simps [of m] show_nat.simps [of n])
    with "1.IH" False have "m div 10 = n div 10" and "m mod 10 = n mod 10"
      by (simp_all add: digit_char_inj)
    then show ?thesis by (metis div_mult_mod_eq)
  qed
qed

lemma show_int_chars: "set (show_int i) \<subseteq> set ''0123456789-''"
proof -
  have "set ''0123456789'' \<subseteq> set ''0123456789-''" by simp
  then have "set (show_nat n) \<subseteq> set ''0123456789-''" for n
    using show_nat_chars [of n] by (rule subset_trans [rotated])
  then show ?thesis by (simp add: show_int_def)
qed

lemma show_int_nonempty [simp]: "show_int i \<noteq> []"
  by (simp add: show_int_def)

lemma show_int_inj: "show_int i = show_int j \<Longrightarrow> i = j"
proof -
  assume eq: "show_int i = show_int j"
  have minus: "CHR ''-'' \<notin> set (show_nat n)" for n using show_nat_chars [of n] by auto
  have neg: "i < 0 \<longleftrightarrow> j < 0"
    using eq minus by (metis list.set_intros(1) show_int_def)
  have "nat (- i) = nat (- j) \<or> \<not> i < 0" and "nat i = nat j \<or> i < 0"
    using eq neg by (auto simp: show_int_def dest: show_nat_inj)
  with neg show "i = j" by auto
qed

lemma show_int_no_delims: "set (show_int i) \<inter> delims = {}"
  using show_int_chars [of i] by (auto simp: delims_def)

subsection \<open>Strings\<close>

lemma short_escape_facts:
  "short_escape c = Some e \<Longrightarrow> short_escape d = Some e \<Longrightarrow> c = d"
  "short_escape c = Some e \<Longrightarrow> e \<noteq> CHR ''u''"
  "short_escape c = None \<Longrightarrow> c \<noteq> CHR 0x5C"
  "short_escape c = None \<Longrightarrow> c \<noteq> CHR 0x22"
  unfolding short_escape_def by (auto split: if_splits)

lemma esc_char_nonempty [simp]: "esc_char c \<noteq> []"
  by (simp add: esc_char_def split: option.split)

lemma esc_char_hd: "esc_char c @ x \<noteq> CHR 0x22 # y"
  by (auto simp: esc_char_def short_escape_facts split: option.split)

lemma esc_char_prefix_free:
  assumes "esc_char c @ x = esc_char d @ y"
  shows "c = d \<and> x = y"
proof -
  have code: "c = d" if "hex_char (of_char c div 16) = hex_char (of_char d div 16)"
    and "hex_char (of_char c mod 16) = hex_char (of_char d mod 16)"
  proof -
    have "(of_char e :: nat) div 16 < 16" for e :: char
      by (rule less_mult_imp_div_less) (use nat_of_char_less_256 [of e] in simp)
    with that have "(of_char c :: nat) div 16 = of_char d div 16"
      and "(of_char c :: nat) mod 16 = of_char d mod 16"
      by (simp_all add: hex_char_inj)
    then have "(of_char c :: nat) = of_char d" by (metis div_mult_mod_eq)
    then show ?thesis by simp
  qed
  show ?thesis
  proof (cases "short_escape c")
    case cN: None
    show ?thesis
    proof (cases "short_escape d")
      case None
      with cN assms show ?thesis
        using short_escape_facts(3) [OF cN] short_escape_facts(3) [OF None]
        by (simp add: esc_char_def split: if_splits) (blast intro: code)
    next
      case (Some e)
      with cN assms show ?thesis
        using short_escape_facts(3) [OF cN] short_escape_facts(2) [OF Some]
        by (simp add: esc_char_def split: if_splits)
    qed
  next
    case cS: (Some e)
    show ?thesis
    proof (cases "short_escape d")
      case None
      with cS assms show ?thesis
        using short_escape_facts(3) [OF None] short_escape_facts(2) [OF cS]
        by (simp add: esc_char_def split: if_splits)
    next
      case (Some e')
      with cS assms have "e = e'" and "x = y" by (simp_all add: esc_char_def)
      with cS Some show ?thesis using short_escape_facts(1) by blast
    qed
  qed
qed

lemma quote_prefix_free:
  assumes "quote s @ r = quote t @ r'"
  shows "s = t \<and> r = r'"
proof -
  have "s = t \<and> r = r'"
    if "concat (map esc_char s) @ CHR 0x22 # r = concat (map esc_char t) @ CHR 0x22 # r'" for s t
    using that
  proof (induction s arbitrary: t)
    case Nil
    then show ?case by (cases t) (simp_all add: esc_char_hd esc_char_hd [symmetric])
  next
    case (Cons c s)
    show ?case
    proof (cases t)
      case Nil
      with Cons.prems show ?thesis by (simp add: esc_char_hd)
    next
      case (Cons d t')
      from Cons.prems have "esc_char c @ (concat (map esc_char s) @ CHR 0x22 # r)
          = esc_char d @ (concat (map esc_char t') @ CHR 0x22 # r')"
        by (simp add: Cons)
      then have "c = d" and
        "concat (map esc_char s) @ CHR 0x22 # r = concat (map esc_char t') @ CHR 0x22 # r'"
        using esc_char_prefix_free by blast+
      with Cons Cons.IH show ?thesis by blast
    qed
  qed
  from this [of s t] assms show ?thesis by (simp add: quote_def)
qed

subsection \<open>Whole values\<close>

lemma join_comma_Cons: "join_comma (x # xs) = x @ (if xs = [] then [] else CHR '','' # join_comma xs)"
  by (cases xs) simp_all

text \<open>
  The members of an array or object: if each text is prefix-free before a delimiter, so is their
  comma-separated list, up to the closing bracket.
\<close>

lemma join_comma_prefix_free:
  assumes texts: "\<And>x y s t. x \<in> set xs \<Longrightarrow> P y \<Longrightarrow> delimited s \<Longrightarrow> delimited t
      \<Longrightarrow> f x @ s = f y @ t \<Longrightarrow> x = y \<and> s = t"
    and starts: "\<And>x t. P x \<Longrightarrow> f x @ t \<noteq> [] \<and> hd (f x @ t) \<notin> delims"
    and "\<forall>x \<in> set xs. P x" and "\<forall>y \<in> set ys. P y" and c: "c \<in> {CHR '']'', CHR ''}''}"
    and "join_comma (map f xs) @ c # r = join_comma (map f ys) @ c # r'"
  shows "xs = ys \<and> r = r'"
  using assms(1,3,4,6)
proof (induction xs arbitrary: ys)
  case Nil
  have "c \<in> delims" using c by (auto simp: delims_def)
  show ?case
  proof (cases ys)
    case Nil
    with Nil.prems(4) show ?thesis by simp
  next
    case (Cons y ys')
    let ?t = "(if ys' = [] then [] else CHR '','' # join_comma (map f ys')) @ c # r'"
    have "c # r = f y @ ?t" using Nil.prems(4) Cons by (simp add: join_comma_Cons)
    then have "hd (f y @ ?t) = c" by (metis list.sel(1))
    with starts [of y ?t] Nil.prems(3) Cons \<open>c \<in> delims\<close> show ?thesis by simp
  qed
next
  case (Cons x xs)
  have cd: "c \<in> delims" and cc: "c \<noteq> CHR '',''" using c by (auto simp: delims_def)
  let ?s = "(if xs = [] then [] else CHR '','' # join_comma (map f xs)) @ c # r"
  have "ys \<noteq> []"
  proof
    assume "ys = []"
    then have "f x @ ?s = c # r'" using Cons.prems(4) by (simp add: join_comma_Cons)
    then have "hd (f x @ ?s) = c" by (metis list.sel(1))
    with starts [of x ?s] Cons.prems(2) cd show False by simp
  qed
  then obtain y ys' where ys: "ys = y # ys'" by (cases ys) simp_all
  let ?t = "(if ys' = [] then [] else CHR '','' # join_comma (map f ys')) @ c # r'"
  have "f x @ ?s = f y @ ?t" using Cons.prems(4) ys by (simp add: join_comma_Cons)
  moreover have "delimited ?s" and "delimited ?t" using cd by simp_all
  ultimately have xy: "x = y" and st: "?s = ?t"
    using Cons.prems(1) [of x y ?s ?t] Cons.prems(3) ys by simp_all
  have "xs = ys' \<and> r = r'"
  proof (cases "xs = [] \<or> ys' = []")
    case True
    with st cc show ?thesis by (auto split: if_splits)
  next
    case False
    with st have eq: "join_comma (map f xs) @ c # r = join_comma (map f ys') @ c # r'" by simp
    show ?thesis
    proof (rule Cons.IH [OF _ _ _ eq])
      show "\<forall>x \<in> set xs. P x" using Cons.prems(2) by simp
      show "\<forall>y \<in> set ys'. P y" using Cons.prems(3) ys by simp
      show "x = y \<and> s = t" if "x \<in> set xs" "P y" "delimited s" "delimited t" "f x @ s = f y @ t"
        for x y s t
        using that by (intro Cons.prems(1)) simp_all
    qed
  qed
  with xy ys show ?case by simp
qed

text \<open>The first character of an encoding tells what kind of value follows.\<close>

datatype kind = KNull | KBool | KNumber | KString | KArray | KObject

primrec kind_of :: "json \<Rightarrow> kind" where
  "kind_of JNull = KNull"
| "kind_of (JBool b) = KBool"
| "kind_of (JInt i) = KNumber"
| "kind_of (JFloat t) = KNumber"
| "kind_of (JStr s) = KString"
| "kind_of (JArr xs) = KArray"
| "kind_of (JObj kvs) = KObject"

definition start_kind :: "char \<Rightarrow> kind" where
  "start_kind c =
     (if c = CHR ''n'' then KNull else if c \<in> {CHR ''t'', CHR ''f''} then KBool
      else if c = CHR 0x22 then KString else if c = CHR ''['' then KArray
      else if c = CHR ''{'' then KObject else KNumber)"

lemma start_kind_number: "c \<in> set ''0123456789-NI'' \<Longrightarrow> start_kind c = KNumber"
  by (auto simp: start_kind_def)

lemma dumps_start: "json_wf v \<Longrightarrow> dumps v \<noteq> [] \<and> start_kind (hd (dumps v)) = kind_of v"
proof (cases v)
  case (JInt i)
  have "hd (show_int i) \<in> set ''0123456789-NI''"
    using subsetD [OF show_int_chars hd_in_set [OF show_int_nonempty]] by auto
  with JInt show ?thesis by (simp add: start_kind_number del: list.set)
next
  case (JFloat t)
  moreover assume "json_wf v"
  ultimately show ?thesis by (simp add: float_token_def start_kind_number del: list.set)
qed (simp_all add: start_kind_def quote_def)

lemma dumps_not_delim: "json_wf v \<Longrightarrow> dumps v @ t \<noteq> [] \<and> hd (dumps v @ t) \<notin> delims"
proof
  assume wf: "json_wf v"
  from dumps_start [OF wf] show "dumps v @ t \<noteq> []" by simp
  show "hd (dumps v @ t) \<notin> delims"
  proof (cases "kind_of v = KNumber")
    case False
    have "start_kind c = KNumber" if "c \<in> delims" for c
      using that by (auto simp: start_kind_def delims_def)
    with False dumps_start [OF wf] show ?thesis by auto
  next
    case True
    then show ?thesis
    proof (cases v)
      case (JInt i)
      have "hd (show_int i) \<in> set (show_int i)" by simp
      with show_int_no_delims [of i] have "hd (show_int i) \<notin> delims" by blast
      with JInt show ?thesis by simp
    next
      case (JFloat u)
      with wf have u: "u \<noteq> []" "set u \<inter> delims = {}" by (simp_all add: float_token_def)
      then have "hd u \<notin> delims" using hd_in_set by blast
      with u(1) JFloat show ?thesis by simp
    qed simp_all
  qed
qed

lemma number_prefix_free:
  assumes "dumps v @ s = dumps w @ t" "delimited s" "delimited t" "json_wf v" "json_wf w"
    and k: "kind_of v = KNumber" "kind_of w = KNumber"
  shows "v = w \<and> s = t"
proof -
  have clean: "set (dumps u) \<inter> delims = {}" if "json_wf u" "kind_of u = KNumber" for u
    using that show_int_no_delims by (cases u) (auto simp: float_token_def)
  have eq: "dumps v = dumps w" and st: "s = t"
    using token_append_eq [OF assms(1) clean clean] assms by blast+
  have mixed: "dumps (JInt i) \<noteq> dumps (JFloat u)" if "json_wf (JFloat u)" for i u
    using that show_int_chars [of i] by (auto simp: float_token_def simp del: list.set)
  have "v = w"
  proof (cases v)
    case (JInt i)
    with k eq assms(5) mixed [of _ i] show ?thesis by (cases w) (auto dest: show_int_inj)
  next
    case (JFloat u)
    with k eq assms(4) mixed [of u] show ?thesis by (cases w) (simp_all, metis)
  qed (use k in simp_all)
  with st show ?thesis by simp
qed

lemma same_kind:
  assumes "json_wf v" "json_wf w" "dumps v @ s = dumps w @ t"
  shows "kind_of v = kind_of w"
  using dumps_start [OF assms(1)] dumps_start [OF assms(2)] assms(3) by (metis hd_append2)

theorem dumps_prefix_free:
  "json_wf v \<Longrightarrow> json_wf w \<Longrightarrow> delimited s \<Longrightarrow> delimited t \<Longrightarrow> dumps v @ s = dumps w @ t
    \<Longrightarrow> v = w \<and> s = t"
proof (induction v arbitrary: w s t)
  case JNull
  from same_kind [OF JNull(1,2,5)] JNull show ?case by (cases w) simp_all
next
  case (JBool b)
  from same_kind [OF JBool(1,2,5)] JBool show ?case by (cases w) (auto split: if_splits)
next
  case (JInt i)
  from same_kind [OF JInt(1,2,5)] have "kind_of w = KNumber" by simp
  with JInt show ?case by (intro number_prefix_free) simp_all
next
  case (JFloat u)
  from same_kind [OF JFloat(1,2,5)] have "kind_of w = KNumber" by simp
  with JFloat show ?case by (intro number_prefix_free) simp_all
next
  case (JStr u)
  from same_kind [OF JStr(1,2,5)] have "kind_of w = KString" by simp
  then obtain u' where "w = JStr u'" by (cases w) simp_all
  with JStr quote_prefix_free [of u s u' t] show ?case by simp
next
  case (JArr xs)
  from same_kind [OF JArr.prems(1,2,5)] have "kind_of w = KArray" by simp
  then obtain ys where w: "w = JArr ys" by (cases w) simp_all
  have "xs = ys \<and> s = t"
  proof (rule join_comma_prefix_free [where P = json_wf and f = dumps and c = "CHR '']''"])
    show "x = y \<and> p = q" if "x \<in> set xs" "json_wf y" "delimited p" "delimited q"
      "dumps x @ p = dumps y @ q" for x y p q
      using JArr.IH [OF that(1) _ that(2-5)] that(1) JArr.prems(1) by (simp add: list_all_iff)
  qed (use JArr.prems w dumps_not_delim in \<open>simp_all add: list_all_iff\<close>)
  with w show ?case by simp
next
  case (JObj kvs)
  from same_kind [OF JObj.prems(1,2,5)] have "kind_of w = KObject" by simp
  then obtain kvs' where w: "w = JObj kvs'" by (cases w) simp_all
  have "kvs = kvs' \<and> s = t"
  proof (rule join_comma_prefix_free [where P = "\<lambda>kv. json_wf (snd kv)"
        and f = "member_text \<circ> map_prod id dumps" and c = "CHR ''}''"])
    show "x = y \<and> p = q" if "x \<in> set kvs" "json_wf (snd y)" "delimited p" "delimited q"
      "(member_text \<circ> map_prod id dumps) x @ p = (member_text \<circ> map_prod id dumps) y @ q" for x y p q
    proof -
      have "quote (fst x) @ CHR '':'' # dumps (snd x) @ p = quote (fst y) @ CHR '':'' # dumps (snd y) @ q"
        using that(5) by (simp add: member_text_def)
      then have "fst x = fst y" and "dumps (snd x) @ p = dumps (snd y) @ q"
        using quote_prefix_free by blast+
      moreover have "json_wf (snd x)"
        using JObj.prems(1) that(1) by (auto simp: list_all_iff)
      ultimately show ?thesis
        using JObj.IH [OF that(1), of "snd x"] that(2-4) by (cases x; cases y) auto
    qed
    show "\<And>x t. json_wf (snd x) \<Longrightarrow> (member_text \<circ> map_prod id dumps) x @ t \<noteq> [] \<and>
        hd ((member_text \<circ> map_prod id dumps) x @ t) \<notin> delims"
      by (simp add: member_text_def quote_def delims_def)
  qed (use JObj.prems w in \<open>auto simp: list_all_iff\<close>)
  with w show ?case by simp
qed

section \<open>Canonical form\<close>

lemma json_wf_sort_keys [simp]: "json_wf v \<Longrightarrow> json_wf (sort_keys v)"
proof (induction v)
  case (JObj kvs)
  have keys: "map fst (map (map_prod id sort_keys) kvs) = map fst kvs" by simp
  have "dict_wf (sort_key fst (map (map_prod id sort_keys) kvs))"
    using JObj.prems unfolding dict_wf_sort_key keys by simp
  moreover have "json_wf v" if "(k, v) \<in> set kvs" for k v
    using JObj.prems that by (auto simp: list_all_iff)
  then have "\<forall>kv \<in> set (map (map_prod id sort_keys) kvs). json_wf (snd kv)"
    using JObj.IH by auto
  ultimately show ?case by (auto simp: list_all_iff)
qed (auto simp: list_all_iff)

lemma canonical_inj:
  assumes "json_wf v" "json_wf w" "canonical v = canonical w"
  shows "sort_keys v = sort_keys w"
  using dumps_prefix_free [of "sort_keys v" "sort_keys w" "[]" "[]"] assms
  by (simp add: canonical_def)

lemma sort_keys_lookup:
  assumes "sort_keys (JObj a) = sort_keys (JObj b)" "dict_wf a" "dict_wf b"
  shows "map_option sort_keys (dict_get a k) = map_option sort_keys (dict_get b k)"
proof -
  have get: "dict_get (sort_key fst (map (map_prod id sort_keys) d)) k
      = map_option sort_keys (dict_get d k)" if "dict_wf d" for d :: "(string \<times> json) list"
  proof -
    let ?d = "map (map_prod id sort_keys) d"
    have "dict_keys ?d = dict_keys d" by simp
    with that have "dict_get (sort_key fst ?d) k = dict_get ?d k"
      by (metis dict_get_sort_key)
    also have "\<dots> = map_option sort_keys (dict_get d k)"
      by (induction d) (auto simp: map_prod_def)
    finally show ?thesis .
  qed
  from assms get show ?thesis by (metis json.inject(6) sort_keys.simps(7))
qed

end
