(* ===== verification/Data_Models.thy ===== *)
theory Data_Models
  imports Canonical_Json
begin

text \<open>
  The canonical exchange objects of models.py: one record per dataclass, with the check its
  \<open>__post_init__\<close> makes as \<open>mk_<class>\<close>, which returns the object or the exception the constructor
  raises. Strings that may be None are options; \<open>not value\<close> on a string or tuple is emptiness.
\<close>

section \<open>Versions, lineage and assets\<close>

datatype batch_kind = BK_Arrow | BK_Document | BK_Graph | BK_Event | BK_Binary

primrec batch_kind_value :: "batch_kind \<Rightarrow> string" where
  "batch_kind_value BK_Arrow = ''arrow''"
| "batch_kind_value BK_Document = ''document''"
| "batch_kind_value BK_Graph = ''graph''"
| "batch_kind_value BK_Event = ''event''"
| "batch_kind_value BK_Binary = ''binary''"

record source_version =
  sv_source_id :: string
  sv_version :: string
  sv_observed_at :: datetime
  sv_effective_at :: "datetime option"

definition mk_source_version :: "source_version \<Rightarrow> source_version checked" where
  "mk_source_version v =
     (if sv_source_id v = [] \<or> sv_version v = []
      then Inl (ValueError ''source_id and version are required'')
      else if \<not> aware (sv_observed_at v)
      then Inl (ValueError ''observed_at must be timezone-aware'')
      else if (case sv_effective_at v of None \<Rightarrow> False | Some t \<Rightarrow> \<not> aware t)
      then Inl (ValueError ''effective_at must be timezone-aware'')
      else Inr v)"

record lineage_ref =
  lin_source_id :: string
  lin_asset_id :: string
  lin_record_id :: "string option"
  lin_field_path :: "string option"

definition mk_lineage_ref :: "lineage_ref \<Rightarrow> lineage_ref checked" where
  "mk_lineage_ref l =
     (if lin_source_id l = [] \<or> lin_asset_id l = []
      then Inl (ValueError ''lineage requires source_id and asset_id'') else Inr l)"

record asset_ref =
  aref_source_id :: string
  aref_asset_id :: string

definition mk_asset_ref :: "asset_ref \<Rightarrow> asset_ref checked" where
  "mk_asset_ref r =
     (if aref_source_id r = [] \<or> aref_asset_id r = []
      then Inl (ValueError ''asset reference requires source_id and asset_id'') else Inr r)"

record asset =
  asset_ref_of :: asset_ref
  asset_name :: string
  asset_kind :: string
  asset_description :: "string option"
  asset_metadata :: "(string, json) dict"

definition mk_asset :: "asset \<Rightarrow> asset checked" where
  "mk_asset a =
     (if asset_name a = [] \<or> asset_kind a = []
      then Inl (ValueError ''asset name and kind are required'') else Inr a)"

record field_schema =
  fs_name :: string
  fs_logical_type :: string
  fs_nullable :: bool
  fs_description :: "string option"
  fs_metadata :: "(string, json) dict"

definition mk_field_schema :: "field_schema \<Rightarrow> field_schema checked" where
  "mk_field_schema f =
     (if fs_name f = [] \<or> fs_logical_type f = []
      then Inl (ValueError ''field name and logical type are required'') else Inr f)"

record asset_schema =
  as_asset :: asset_ref
  as_fields :: "field_schema list"
  as_version :: source_version

section \<open>Documents and events\<close>

record document =
  doc_document_id :: string
  doc_source_id :: string
  doc_asset_id :: string
  doc_canonical_uri :: string
  doc_mime_type :: string
  doc_content :: string
  doc_acl_principals :: "string list"
  doc_source_version :: source_version
  doc_content_hash :: string
  doc_metadata :: "(string, json) dict"
  doc_lineage :: "lineage_ref list"

definition mk_document :: "document \<Rightarrow> document checked" where
  "mk_document d =
     (let required = [doc_document_id d, doc_source_id d, doc_asset_id d, doc_canonical_uri d,
                      doc_mime_type d, doc_content_hash d]
      in if list_ex (\<lambda>v. v = []) required
         then Inl (ValueError ''document identity, source, URI, MIME type and hash are required'')
         else if doc_acl_principals d = []
         then Inl (ValueError ''document ACLs must be captured with content'')
         else Inr d)"

record change_event =
  ce_event_id :: string
  ce_source_id :: string
  ce_asset_id :: string
  ce_operation :: string
  ce_observed_at :: datetime
  ce_payload :: "(string, json) dict"
  ce_checkpoint :: "string option"
  ce_tombstone :: bool

definition mk_change_event :: "change_event \<Rightarrow> change_event checked" where
  "mk_change_event e =
     (if list_ex (\<lambda>v. v = []) [ce_event_id e, ce_source_id e, ce_asset_id e, ce_operation e]
      then Inl (ValueError ''change event identity, source, asset and operation are required'')
      else if \<not> aware (ce_observed_at e)
      then Inl (ValueError ''change event observed_at must be timezone-aware'')
      else Inr e)"

section \<open>Batches and requests\<close>

text \<open>
  A payload is raw bytes, a value \<open>json.dumps\<close> can write (lists and tuples are both arrays), or an
  object it refuses.
\<close>

datatype payload = P_Bytes string | P_Json json | P_Opaque

record data_batch =
  db_kind :: batch_kind
  db_payload :: payload
  db_source_versions :: "source_version list"
  db_lineage :: "lineage_ref list"
  db_row_count :: "int option"
  db_byte_count :: "int option"

definition mk_data_batch :: "data_batch \<Rightarrow> data_batch checked" where
  "mk_data_batch b =
     (if db_source_versions b = [] \<or> db_lineage b = []
      then Inl (ValueError ''every batch requires source version and lineage'')
      else if (case db_row_count b of None \<Rightarrow> False | Some n \<Rightarrow> n < 0)
      then Inl (ValueError ''row_count cannot be negative'')
      else if (case db_byte_count b of None \<Rightarrow> False | Some n \<Rightarrow> n < 0)
      then Inl (ValueError ''byte_count cannot be negative'')
      else Inr b)"

record query_request =
  qr_source_id :: string
  qr_asset_ids :: "string list"
  qr_plan :: "(string, json) dict"
  qr_limit :: int
  qr_deadline_ms :: int
  qr_purpose :: string
  qr_policy_attributes :: "(string, json) dict"

definition mk_query_request :: "query_request \<Rightarrow> query_request checked" where
  "mk_query_request q =
     (if qr_source_id q = [] \<or> qr_asset_ids q = [] \<or> list_ex (\<lambda>i. i = []) (qr_asset_ids q)
      then Inl (ValueError ''query source and asset_ids are required'')
      else if qr_limit q \<le> 0 then Inl (ValueError ''query limit must be positive'')
      else if qr_deadline_ms q \<le> 0 then Inl (ValueError ''deadline_ms must be positive'')
      else if str_strip (qr_purpose q) = [] then Inl (ValueError ''purpose is required'')
      else Inr q)"

record search_request =
  sr_source_id :: string
  sr_query :: string
  sr_top_k :: int
  sr_filters :: "(string, json) dict"
  sr_purpose :: string
  sr_policy_attributes :: "(string, json) dict"
  sr_deadline_ms :: int

definition mk_search_request :: "search_request \<Rightarrow> search_request checked" where
  "mk_search_request q =
     (if sr_source_id q = [] \<or> str_strip (sr_query q) = [] \<or> sr_top_k q \<le> 0 \<or> sr_purpose q = []
         \<or> sr_deadline_ms q \<le> 0
      then Inl (ValueError
        ''search source, query, purpose, positive top_k and deadline are required'')
      else Inr q)"

text \<open>
  A score is a dynamic value; None passes, a number must be finite. A bool is an int in Python.
\<close>

definition nonfinite_token :: "string \<Rightarrow> bool" where
  "nonfinite_token t \<longleftrightarrow> t = ''NaN'' \<or> t = ''Infinity'' \<or> t = ''-Infinity''"

primrec json_finite :: "json \<Rightarrow> bool" where
  \<comment> \<open>what \<open>json.dumps(..., allow_nan=False)\<close> writes without a ValueError\<close>
  "json_finite JNull = True"
| "json_finite (JBool b) = True"
| "json_finite (JInt i) = True"
| "json_finite (JFloat t) = (\<not> nonfinite_token t)"
| "json_finite (JStr s) = True"
| "json_finite (JArr xs) = list_all json_finite xs"
| "json_finite (JObj kvs) = list_all snd (map (map_prod id json_finite) kvs)"

definition bad_score :: "json \<Rightarrow> bool" where
  "bad_score v = (case v of JNull \<Rightarrow> False | JInt _ \<Rightarrow> False | JBool _ \<Rightarrow> False
     | JFloat t \<Rightarrow> nonfinite_token t | _ \<Rightarrow> True)"

record search_hit =
  sh_source_id :: string
  sh_asset_id :: string
  sh_record_id :: string
  sh_fusion_score :: json
  sh_source_version :: source_version
  sh_lineage :: "lineage_ref list"
  sh_lexical_score :: json
  sh_dense_score :: json
  sh_sparse_score :: json
  sh_reranker_score :: json
  sh_acl_decision_id :: "string option"

definition mk_search_hit :: "search_hit \<Rightarrow> search_hit checked" where
  "mk_search_hit h =
     (if list_ex (\<lambda>v. v = []) [sh_source_id h, sh_asset_id h, sh_record_id h]
      then Inl (ValueError ''search hit source, asset and record identity are required'')
      else if sh_lineage h = [] then Inl (ValueError ''search hits require lineage'')
      else if list_ex bad_score [sh_fusion_score h, sh_lexical_score h, sh_dense_score h,
                                 sh_sparse_score h, sh_reranker_score h]
      then Inl (ValueError ''search hit scores must be finite numbers'')
      else Inr h)"

record checkpoint_token =
  ct_source_id :: string
  ct_stream_id :: string
  ct_position :: string
  ct_observed_at :: datetime
  ct_connector_version :: string

definition mk_checkpoint_token :: "checkpoint_token \<Rightarrow> checkpoint_token checked" where
  "mk_checkpoint_token t =
     (if list_ex (\<lambda>v. v = []) [ct_source_id t, ct_stream_id t, ct_position t, ct_connector_version t]
      then Inl (ValueError ''checkpoint identity, position and connector version are required'')
      else if \<not> aware (ct_observed_at t)
      then Inl (ValueError ''checkpoint observed_at must be timezone-aware'')
      else Inr t)"

section \<open>Exceptions of external code\<close>

text \<open>
  What a connector, a policy service, a telemetry sink or a verifier may raise: a \<open>TimeoutError\<close> (the
  source treats it apart), any other \<open>Exception\<close> (with the
  name of its type), or a cancellation, which \<open>except Exception\<close> does not
  catch.
\<close>

datatype ext_error = Ext_Timeout | Ext_Exception string | Ext_Cancelled

section \<open>What the constructors guarantee\<close>

lemma mk_source_version_Inr [checks]:
  "mk_source_version v = Inr w \<longleftrightarrow> w = v \<and> sv_source_id v \<noteq> [] \<and> sv_version v \<noteq> []
     \<and> aware (sv_observed_at v) \<and> (\<forall>t. sv_effective_at v = Some t \<longrightarrow> aware t)"
  by (auto simp: mk_source_version_def split: option.splits)

lemma mk_lineage_ref_Inr [checks]:
  "mk_lineage_ref l = Inr m \<longleftrightarrow> m = l \<and> lin_source_id l \<noteq> [] \<and> lin_asset_id l \<noteq> []"
  by (auto simp: mk_lineage_ref_def)

lemma mk_data_batch_Inr [checks]:
  "mk_data_batch b = Inr c \<longleftrightarrow> c = b \<and> db_source_versions b \<noteq> [] \<and> db_lineage b \<noteq> []
     \<and> (\<forall>n. db_row_count b = Some n \<longrightarrow> 0 \<le> n) \<and> (\<forall>n. db_byte_count b = Some n \<longrightarrow> 0 \<le> n)"
  by (auto simp: mk_data_batch_def split: option.splits)

lemma mk_query_request_Inr [checks]:
  "mk_query_request q = Inr r \<longleftrightarrow> r = q \<and> qr_source_id q \<noteq> [] \<and> qr_asset_ids q \<noteq> []
     \<and> [] \<notin> set (qr_asset_ids q) \<and> 0 < qr_limit q \<and> 0 < qr_deadline_ms q
     \<and> str_strip (qr_purpose q) \<noteq> []"
  by (auto simp: mk_query_request_def list_ex_iff)

lemma mk_checkpoint_token_Inr [checks]:
  "mk_checkpoint_token t = Inr u \<longleftrightarrow> u = t \<and> ct_source_id t \<noteq> [] \<and> ct_stream_id t \<noteq> []
     \<and> ct_position t \<noteq> [] \<and> ct_connector_version t \<noteq> [] \<and> aware (ct_observed_at t)"
  by (auto simp: mk_checkpoint_token_def)

end
