(* ===== verification/Freshness_Slo.thy ===== *)
theory Freshness_Slo
  imports Data_Models
begin

text \<open>
  freshness.py: freshness objectives, the registry of observations and the checkpoint ledger. Ages are
  exact in microseconds; the millisecond age goes through two float operations of the source, whose
  rounding is the parameter \<open>rnd\<close>. \<open>int(text)\<close> is written out (blanks, sign, single underscores
  between digits); Python's limit of 4300 digits is not modelled.
\<close>

datatype breach_action = Exclude | Degrade | Refuse

record freshness_slo =
  slo_max_age :: timedelta
  slo_on_breach :: breach_action

definition mk_freshness_slo :: "freshness_slo \<Rightarrow> freshness_slo checked" where
  "mk_freshness_slo s =
     (if slo_max_age s \<le> 0 then Inl (ValueError ''freshness max_age must be positive'') else Inr s)"

record freshness_observation =
  ob_source_id :: string
  ob_asset_id :: string
  ob_observed_at :: datetime
  ob_source_event_time :: datetime
  ob_watermark :: string

definition mk_freshness_observation :: "freshness_observation \<Rightarrow> freshness_observation checked" where
  "mk_freshness_observation p =
     (if ob_source_id p = [] \<or> ob_asset_id p = [] \<or> ob_watermark p = []
      then Inl (ValueError ''freshness observation requires source, asset and watermark'')
      else if \<not> aware (ob_observed_at p) \<or> \<not> aware (ob_source_event_time p)
      then Inl (ValueError ''freshness timestamps must be timezone-aware'')
      else if instant (ob_observed_at p) < instant (ob_source_event_time p)
      then Inl (ValueError ''source event time cannot be later than observation time'')
      else Inr p)"

definition age_at :: "freshness_observation \<Rightarrow> datetime \<Rightarrow> timedelta checked" where
  "age_at p now =
     (if \<not> aware now then Inl (ValueError ''evaluation time must be timezone-aware'')
      else Inr (instant now - instant (ob_source_event_time p)))"

definition trunc_zero :: "rat \<Rightarrow> int" where
  "trunc_zero q = (if q < 0 then - \<lfloor>- q\<rfloor> else \<lfloor>q\<rfloor>)"

definition age_ms :: "(rat \<Rightarrow> rat) \<Rightarrow> timedelta \<Rightarrow> int" where
  \<comment> \<open>\<open>int(age.total_seconds() * 1000)\<close>\<close>
  "age_ms rnd age = trunc_zero (rnd (rnd (of_int age / 1000000) * 1000))"

record freshness_assessment =
  fa_source_id :: string
  fa_asset_id :: string
  fa_fresh :: bool
  fa_age_ms :: int
  fa_watermark :: string
  fa_action :: "breach_action option"

type_synonym observations = "(string \<times> string, freshness_observation) dict"

definition observation_key :: "freshness_observation \<Rightarrow> string \<times> string" where
  "observation_key p = (ob_source_id p, ob_asset_id p)"

definition record_observation :: "freshness_observation \<Rightarrow> observations \<Rightarrow> observations checked" where
  "record_observation p obs =
     (case dict_get obs (observation_key p) of
        Some previous \<Rightarrow>
          (if instant (ob_observed_at p) < instant (ob_observed_at previous)
           then Inl (ValueError ''freshness observations must be recorded monotonically'')
           else Inr (dict_set (observation_key p) p obs))
      | None \<Rightarrow> Inr (dict_set (observation_key p) p obs))"

definition assess :: "(rat \<Rightarrow> rat) \<Rightarrow> observations \<Rightarrow> string \<Rightarrow> string \<Rightarrow> freshness_slo \<Rightarrow> datetime
    \<Rightarrow> freshness_assessment checked" where
  "assess rnd obs source_id asset_id slo now =
     (case dict_get obs (source_id, asset_id) of
        None \<Rightarrow> Inr \<lparr>fa_source_id = source_id, fa_asset_id = asset_id, fa_fresh = False,
                  fa_age_ms = -1, fa_watermark = ''missing'', fa_action = Some (slo_on_breach slo)\<rparr>
      | Some p \<Rightarrow>
          (case age_at p now of
             Inl e \<Rightarrow> Inl e
           | Inr age \<Rightarrow>
               (let is_fresh = (0 \<le> age \<and> age \<le> slo_max_age slo)
                in Inr \<lparr>fa_source_id = source_id, fa_asset_id = asset_id, fa_fresh = is_fresh,
                        fa_age_ms = age_ms rnd age, fa_watermark = ob_watermark p,
                        fa_action = (if is_fresh then None else Some (slo_on_breach slo))\<rparr>)))"

section \<open>Checkpoints\<close>

definition is_digit :: "char \<Rightarrow> bool" where
  "is_digit c \<longleftrightarrow> 48 \<le> (of_char c :: nat) \<and> (of_char c :: nat) \<le> 57"

fun int_digits :: "nat \<Rightarrow> bool \<Rightarrow> string \<Rightarrow> nat option" where
  "int_digits acc after_digit [] = (if after_digit then Some acc else None)"
| "int_digits acc after_digit (c # cs) =
     (if is_digit c then int_digits (10 * acc + (of_char c - 48)) True cs
      else if c = CHR ''_'' \<and> after_digit then int_digits acc False cs
      else None)"

definition py_int :: "string \<Rightarrow> int option" where
  "py_int s =
     (case str_strip s of
        [] \<Rightarrow> None
      | c # cs \<Rightarrow>
          (if c = CHR ''-'' then map_option (\<lambda>n. - int n) (int_digits 0 False cs)
           else if c = CHR ''+'' then map_option int (int_digits 0 False cs)
           else map_option int (int_digits 0 False (c # cs))))"

datatype checkpoint_error = Ck_Py py_error | Checkpoint_Regression string

type_synonym checkpoints = "(string \<times> string, checkpoint_token) dict"

definition checkpoint_key :: "checkpoint_token \<Rightarrow> string \<times> string" where
  "checkpoint_key t = (ct_source_id t, ct_stream_id t)"

definition integer_position :: "checkpoint_token \<Rightarrow> checkpoint_error + int" where
  "integer_position t =
     (case py_int (ct_position t) of
        None \<Rightarrow> Inl (Ck_Py (ValueError ''the v1 checkpoint ledger requires an integer position''))
      | Some n \<Rightarrow> Inr n)"

definition record_checkpoint :: "checkpoint_token \<Rightarrow> checkpoints \<Rightarrow> checkpoint_error + checkpoints" where
  "record_checkpoint t ledger =
     (case integer_position t of
        Inl e \<Rightarrow> Inl e
      | Inr pos \<Rightarrow>
          (case dict_get ledger (checkpoint_key t) of
             None \<Rightarrow> Inr (dict_set (checkpoint_key t) t ledger)
           | Some previous \<Rightarrow>
               (case integer_position previous of
                  Inl e \<Rightarrow> Inl e
                | Inr previous_pos \<Rightarrow>
                    (if ct_connector_version t \<noteq> ct_connector_version previous
                     then Inl (Checkpoint_Regression
                       ''connector version changed; explicit migration is required'')
                     else if pos < previous_pos
                     then Inl (Checkpoint_Regression ''checkpoint position regressed'')
                     else if instant (ct_observed_at t) < instant (ct_observed_at previous)
                     then Inl (Checkpoint_Regression ''checkpoint observation time regressed'')
                     else Inr (dict_set (checkpoint_key t) t ledger)))))"

definition resume :: "checkpoints \<Rightarrow> string \<Rightarrow> string \<Rightarrow> checkpoint_token option" where
  "resume ledger source_id stream_id = dict_get ledger (source_id, stream_id)"

section \<open>Observations keep the latest\<close>

lemma record_observation_Inr:
  "record_observation p obs = Inr obs' \<longleftrightarrow> obs' = dict_set (observation_key p) p obs
     \<and> (\<forall>q. dict_get obs (observation_key p) = Some q
          \<longrightarrow> instant (ob_observed_at q) \<le> instant (ob_observed_at p))"
  by (auto simp: record_observation_def split: option.splits)

lemma record_observation_attempt:
  "dict_get (attempt (record_observation p) obs) k =
     (if k = observation_key p then
        (case dict_get obs k of
           Some q \<Rightarrow> if instant (ob_observed_at p) < instant (ob_observed_at q) then Some q else Some p
         | None \<Rightarrow> Some p)
      else dict_get obs k)"
  by (auto simp: attempt_def record_observation_def split: option.splits)

definition latest_of :: "freshness_observation list \<Rightarrow> string \<times> string \<Rightarrow> freshness_observation \<Rightarrow> bool" where
  "latest_of ps k p \<longleftrightarrow> p \<in> set ps \<and> observation_key p = k
     \<and> (\<forall>q \<in> set ps. observation_key q = k \<longrightarrow> instant (ob_observed_at q) \<le> instant (ob_observed_at p))"

abbreviation record_all :: "freshness_observation list \<Rightarrow> observations \<Rightarrow> observations" where
  "record_all \<equiv> run_ops (\<lambda>p. attempt (record_observation p))"

lemma record_all_lookup:
  "(\<forall>q. dict_get (record_all ps []) k = Some q \<longrightarrow> latest_of ps k q)
   \<and> (dict_get (record_all ps []) k = None \<longrightarrow> (\<forall>q \<in> set ps. observation_key q \<noteq> k))"
proof (induction ps rule: rev_induct)
  case Nil
  show ?case by simp
next
  case (snoc p ps)
  have "dict_get (record_all (ps @ [p]) []) k =
      dict_get (attempt (record_observation p) (record_all ps [])) k"
    by (simp add: run_ops_append)
  with snoc show ?case
    by (auto simp: record_observation_attempt latest_of_def split: option.splits if_splits)
qed

text \<open>
  Whatever observations were submitted and in whatever order, an assessment reads the most recent
  one of the asset (the greatest observation time): it is fresh exactly when that observation's source
  event is not in the future and not older than the objective allows, a breach action is reported
  exactly when it is not fresh, and an asset nobody observed is never fresh.
\<close>

lemma assess_uses_latest_observation:
  assumes "assess rnd (record_all ps []) src a slo now = Inr f"
  shows "(fa_fresh f \<longleftrightarrow>
            (\<exists>p. latest_of ps (src, a) p \<and> dict_get (record_all ps []) (src, a) = Some p
               \<and> instant (ob_source_event_time p) \<le> instant now
               \<and> instant now - instant (ob_source_event_time p) \<le> slo_max_age slo))
       \<and> (fa_action f = None \<longleftrightarrow> fa_fresh f)
       \<and> (fa_action f = Some (slo_on_breach slo) \<longleftrightarrow> \<not> fa_fresh f)
       \<and> (fa_watermark f = ''missing'' \<or> (\<exists>p. latest_of ps (src, a) p \<and> fa_watermark f = ob_watermark p))"
proof (cases "dict_get (record_all ps []) (src, a)")
  case None
  with assms show ?thesis by (auto simp: assess_def)
next
  case (Some p)
  have "latest_of ps (src, a) p" using record_all_lookup Some by blast
  with Some assms show ?thesis
    by (auto simp: assess_def age_at_def Let_def split: if_splits)
qed

section \<open>Checkpoints never regress\<close>

text \<open>How a checkpoint may follow another one of the same stream.\<close>

definition token_le :: "checkpoint_token \<Rightarrow> checkpoint_token \<Rightarrow> bool" where
  "token_le t u \<longleftrightarrow> ct_connector_version t = ct_connector_version u
     \<and> (\<forall>m. py_int (ct_position t) = Some m \<longrightarrow> (\<exists>n. py_int (ct_position u) = Some n \<and> m \<le> n))
     \<and> instant (ct_observed_at t) \<le> instant (ct_observed_at u)"

definition ledger_le :: "checkpoints \<Rightarrow> checkpoints \<Rightarrow> bool" where
  "ledger_le l m \<longleftrightarrow> (\<forall>k t. dict_get l k = Some t \<longrightarrow> (\<exists>u. dict_get m k = Some u \<and> token_le t u))"

lemma token_le_refl [simp]: "token_le t t"
  by (simp add: token_le_def)

lemma token_le_trans: "token_le t u \<Longrightarrow> token_le u v \<Longrightarrow> token_le t v"
  by (auto simp: token_le_def)

lemma record_checkpoint_Inr:
  assumes "record_checkpoint t l = Inr m"
  shows "m = dict_set (checkpoint_key t) t l" and "py_int (ct_position t) \<noteq> None"
    and "dict_get l (checkpoint_key t) = Some p \<Longrightarrow> token_le p t"
  using assms
  by (auto simp: record_checkpoint_def integer_position_def token_le_def
      split: option.splits if_splits)

interpretation checkpoint_ledger: growing_system
    "\<lambda>t. attempt (record_checkpoint t)" ledger_le
proof unfold_locales
  show "ledger_le l l" for l by (auto simp: ledger_le_def)
  show "ledger_le l n" if "ledger_le l m" "ledger_le m n" for l m n
    using that unfolding ledger_le_def by (meson token_le_trans)
  show "ledger_le l (attempt (record_checkpoint t) l)" for l t
  proof (cases rule: attempt_cases [of "record_checkpoint t" l])
    case (refused e)
    show "ledger_le l l" by (auto simp: ledger_le_def)
  next
    case (performed m)
    from record_checkpoint_Inr [OF this] show "ledger_le l m" by (auto simp: ledger_le_def)
  qed
qed

definition integer_positions :: "checkpoints \<Rightarrow> bool" where
  "integer_positions l \<longleftrightarrow> (\<forall>k t. dict_get l k = Some t \<longrightarrow> py_int (ct_position t) \<noteq> None)"

interpretation integer_ledger: invariant_system
    "\<lambda>t. attempt (record_checkpoint t)" integer_positions
proof unfold_locales
  show "integer_positions (attempt (record_checkpoint t) l)" if "integer_positions l" for l t
  proof (cases "record_checkpoint t l")
    case (Inr m)
    from record_checkpoint_Inr(1,2) [OF Inr] that show ?thesis
      by (simp add: Inr integer_positions_def)
  qed (use that in simp)
qed

text \<open>
  After any further sequence of attempted checkpoints, a stream that had one still resumes, from a
  token of the same connector version whose integer position and whose observation time are no
  earlier; the position of every token a ledger resumes from is an integer.
\<close>

lemma checkpoints_never_regress:
  assumes "resume (run_ops (\<lambda>t. attempt (record_checkpoint t)) ts []) src stream = Some t"
  shows "\<exists>u m n. resume (run_ops (\<lambda>t. attempt (record_checkpoint t)) (ts @ us) []) src stream = Some u
    \<and> ct_connector_version u = ct_connector_version t
    \<and> py_int (ct_position t) = Some m \<and> py_int (ct_position u) = Some n \<and> m \<le> n
    \<and> instant (ct_observed_at t) \<le> instant (ct_observed_at u)"
proof -
  obtain u where u: "resume (run_ops (\<lambda>t. attempt (record_checkpoint t)) (ts @ us) []) src stream = Some u"
    and le: "token_le t u"
    using checkpoint_ledger.run_between [of ts "[]" us] assms
    unfolding ledger_le_def resume_def by blast
  have "integer_positions (run_ops (\<lambda>t. attempt (record_checkpoint t)) ts [])"
    by (rule integer_ledger.run_inv) (simp add: integer_positions_def)
  then obtain m where "py_int (ct_position t) = Some m"
    using assms unfolding integer_positions_def resume_def by blast
  with u le show ?thesis by (auto simp: token_le_def)
qed

definition sample_observation :: "int \<Rightarrow> freshness_observation" where
  "sample_observation t = \<lparr>ob_source_id = ''erp'', ob_asset_id = ''orders'', ob_observed_at = utc t,
     ob_source_event_time = utc t, ob_watermark = ''w''\<rparr>"

definition sample_token :: "string \<Rightarrow> checkpoint_token" where
  "sample_token pos = \<lparr>ct_source_id = ''erp'', ct_stream_id = ''cdc'', ct_position = pos,
     ct_observed_at = utc 0, ct_connector_version = ''1''\<rparr>"

lemma sample_assessment:
  "assess (\<lambda>q. q) (record_all [sample_observation 9000, sample_observation 4000] []) ''erp'' ''orders''
     \<lparr>slo_max_age = 5000, slo_on_breach = Degrade\<rparr> (utc 12000)
   = Inr \<lparr>fa_source_id = ''erp'', fa_asset_id = ''orders'', fa_fresh = True, fa_age_ms = 3,
       fa_watermark = ''w'', fa_action = None\<rparr>"
  by (simp add: attempt_def record_observation_def observation_key_def sample_observation_def
      assess_def age_at_def age_ms_def trunc_zero_def)

lemma assess_uses_latest_observation_example:
  "latest_of [sample_observation 9000, sample_observation 4000] (''erp'', ''orders'')
     (sample_observation 9000)
   \<and> (\<exists>p. latest_of [sample_observation 9000, sample_observation 4000] (''erp'', ''orders'') p
        \<and> 12000 - instant (ob_source_event_time p) \<le> 5000)"
  using assess_uses_latest_observation [OF sample_assessment]
  by (auto simp: latest_of_def sample_observation_def observation_key_def)

lemma sample_resume:
  "resume (run_ops (\<lambda>t. attempt (record_checkpoint t)) [sample_token ''7''] []) ''erp'' ''cdc''
     = Some (sample_token ''7'')"
  by code_simp

lemma checkpoints_never_regress_example:
  "\<exists>u n. resume (run_ops (\<lambda>t. attempt (record_checkpoint t))
        ([sample_token ''7''] @ [sample_token ''9'', sample_token ''8'']) []) ''erp'' ''cdc'' = Some u
     \<and> py_int (ct_position u) = Some n"
  using checkpoints_never_regress [OF sample_resume, of "[sample_token ''9'', sample_token ''8'']"]
  by blast

end
