(* ===== verification/Query_Planning.thy ===== *)
theory Query_Planning
  imports Data_Models
begin

text \<open>
  planning.py: the bounded query planner. The planner's loops over fields, filters and relationships
  raise at the first offender; they are the recursive checks below. A compiled plan turns into the
  \<open>QueryRequest\<close> whose plan the policy of policy.py reads.
\<close>

record relationship_ref =
  rl_left_asset :: string
  rl_left_field :: string
  rl_right_asset :: string
  rl_right_field :: string

definition relationship_id :: "relationship_ref \<Rightarrow> string" where
  "relationship_id r = rl_left_asset r @ ''.'' @ rl_left_field r @ ''->'' @ rl_right_asset r @ ''.''
     @ rl_right_field r"

record query_intent =
  qi_source_id :: string
  qi_asset_ids :: "string list"
  qi_fields :: "(string, string list) dict"
  qi_filters :: "(string, (string, json) dict) dict"
  qi_relationships :: "relationship_ref list"
  qi_limit :: int
  qi_deadline_ms :: int
  qi_purpose :: string

record planning_constraints =
  pc_allowed_fields :: "(string, string list) dict"
  pc_allowed_relationships :: "string list"
  pc_max_assets :: int
  pc_max_rows :: int
  pc_max_deadline_ms :: int

definition mk_planning_constraints :: "planning_constraints \<Rightarrow> planning_constraints checked" where
  "mk_planning_constraints c =
     (if min (pc_max_assets c) (min (pc_max_rows c) (pc_max_deadline_ms c)) \<le> 0
      then Inl (ValueError ''planning bounds must be positive'') else Inr c)"

record bounded_plan =
  bp_source_id :: string
  bp_asset_ids :: "string list"
  bp_fields :: "(string, string list) dict"
  bp_filters :: "(string, (string, json) dict) dict"
  bp_relationships :: "relationship_ref list"
  bp_limit :: int
  bp_deadline_ms :: int
  bp_purpose :: string
  bp_estimated_rows :: int

definition plan_json :: "bounded_plan \<Rightarrow> (string, json) dict" where
  "plan_json p =
     [(''select_by_asset'', JObj (map (\<lambda>(k, v). (k, JArr (map JStr v))) (bp_fields p))),
      (''where_by_asset'', JObj (map (\<lambda>(asset_id, values). (asset_id, JObj values)) (bp_filters p))),
      (''relationships'', JArr (map (\<lambda>r. JStr (relationship_id r)) (bp_relationships p))),
      (''estimated_rows'', JInt (bp_estimated_rows p))]"

definition to_query_request :: "bounded_plan \<Rightarrow> (string, json) dict \<Rightarrow> query_request checked" where
  "to_query_request p policy_attributes = mk_query_request
     \<lparr>qr_source_id = bp_source_id p, qr_asset_ids = bp_asset_ids p, qr_plan = plan_json p,
      qr_limit = bp_limit p, qr_deadline_ms = bp_deadline_ms p, qr_purpose = bp_purpose p,
      qr_policy_attributes = policy_attributes\<rparr>"

section \<open>The planner\<close>

datatype plan_error = Plan_Py py_error | Plan_Denied string

definition allowed_for :: "planning_constraints \<Rightarrow> string \<Rightarrow> string set" where
  "allowed_for c asset_id =
     (case dict_get (pc_allowed_fields c) asset_id of None \<Rightarrow> {} | Some fs \<Rightarrow> set fs)"

fun check_relationships ::
  "planning_constraints \<Rightarrow> string list \<Rightarrow> relationship_ref list \<Rightarrow> plan_error option" where
  "check_relationships c assets [] = None"
| "check_relationships c assets (r # rs) =
     (if relationship_id r \<notin> set (pc_allowed_relationships c)
      then Some (Plan_Denied ''relationship_not_authorized'')
      else if rl_left_asset r \<notin> set assets \<or> rl_right_asset r \<notin> set assets
      then Some (Plan_Denied ''relationship_outside_asset_scope'')
      else check_relationships c assets rs)"

definition plan_of :: "query_intent \<Rightarrow> bounded_plan" where
  "plan_of i = \<lparr>bp_source_id = qi_source_id i, bp_asset_ids = qi_asset_ids i, bp_fields = qi_fields i,
     bp_filters = qi_filters i, bp_relationships = qi_relationships i, bp_limit = qi_limit i,
     bp_deadline_ms = qi_deadline_ms i, bp_purpose = qi_purpose i, bp_estimated_rows = qi_limit i\<rparr>"

definition compile_intent :: "query_intent \<Rightarrow> planning_constraints \<Rightarrow> plan_error + bounded_plan" where
  "compile_intent i c =
     (if qi_source_id i = [] \<or> qi_asset_ids i = [] \<or> qi_purpose i = []
      then Inl (Plan_Py (ValueError ''query intent identity, assets and purpose are required''))
      else if int (length (qi_asset_ids i)) > pc_max_assets c
      then Inl (Plan_Denied ''asset_bound_exceeded'')
      else if qi_limit i \<le> 0 \<or> qi_limit i > pc_max_rows c
      then Inl (Plan_Denied ''row_bound_exceeded'')
      else if qi_deadline_ms i \<le> 0 \<or> qi_deadline_ms i > pc_max_deadline_ms c
      then Inl (Plan_Denied ''deadline_bound_exceeded'')
      else if set (dict_keys (qi_fields i)) \<noteq> set (qi_asset_ids i)
      then Inl (Plan_Denied ''field_scope_incomplete'')
      else if list_ex (\<lambda>(asset_id, fs). \<not> set fs \<subseteq> allowed_for c asset_id) (qi_fields i)
      then Inl (Plan_Denied ''field_not_authorized'')
      else if \<not> set (dict_keys (qi_filters i)) \<subseteq> set (qi_asset_ids i)
      then Inl (Plan_Denied ''filter_outside_asset_scope'')
      else if list_ex (\<lambda>(asset_id, fs). \<not> set (dict_keys fs) \<subseteq> allowed_for c asset_id) (qi_filters i)
      then Inl (Plan_Denied ''filter_field_not_authorized'')
      else (case check_relationships c (qi_asset_ids i) (qi_relationships i) of
              Some e \<Rightarrow> Inl e
            | None \<Rightarrow> Inr (plan_of i)))"

section \<open>What the planner accepts\<close>

definition within_constraints :: "planning_constraints \<Rightarrow> query_intent \<Rightarrow> bool" where
  "within_constraints c i \<longleftrightarrow>
     qi_source_id i \<noteq> [] \<and> qi_asset_ids i \<noteq> [] \<and> qi_purpose i \<noteq> []
   \<and> int (length (qi_asset_ids i)) \<le> pc_max_assets c
   \<and> 0 < qi_limit i \<and> qi_limit i \<le> pc_max_rows c
   \<and> 0 < qi_deadline_ms i \<and> qi_deadline_ms i \<le> pc_max_deadline_ms c
   \<and> set (dict_keys (qi_fields i)) = set (qi_asset_ids i)
   \<and> set (dict_keys (qi_filters i)) \<subseteq> set (qi_asset_ids i)
   \<and> (\<forall>(asset_id, fs) \<in> set (qi_fields i). set fs \<subseteq> allowed_for c asset_id)
   \<and> (\<forall>(asset_id, fs) \<in> set (qi_filters i). set (dict_keys fs) \<subseteq> allowed_for c asset_id)
   \<and> (\<forall>r \<in> set (qi_relationships i). relationship_id r \<in> set (pc_allowed_relationships c)
        \<and> rl_left_asset r \<in> set (qi_asset_ids i) \<and> rl_right_asset r \<in> set (qi_asset_ids i))"

lemma check_relationships_None:
  "check_relationships c assets rs = None \<longleftrightarrow>
     (\<forall>r \<in> set rs. relationship_id r \<in> set (pc_allowed_relationships c)
        \<and> rl_left_asset r \<in> set assets \<and> rl_right_asset r \<in> set assets)"
  by (induction rs) auto

text \<open>
  The planner compiles exactly the intents within its constraints: assets, rows and deadline in
  bounds, every selected and filtered field allowed for its asset, every relationship allowed and
  between selected assets. The plan is the intent itself, with its limit as the row estimate.
\<close>

lemma compile_intent_iff:
  "compile_intent i c = Inr p \<longleftrightarrow> within_constraints c i \<and> p = plan_of i"
proof -
  have "compile_intent i c = Inr p \<longleftrightarrow> p = plan_of i" if w: "within_constraints c i"
    using w check_relationships_None [of c "qi_asset_ids i" "qi_relationships i"]
    by (auto simp: compile_intent_def within_constraints_def list_ex_iff not_less simp del: set_map)
  moreover have "within_constraints c i" if "compile_intent i c = Inr p"
    using that check_relationships_None [of c "qi_asset_ids i" "qi_relationships i"]
    unfolding compile_intent_def within_constraints_def list_ex_iff
    by (simp del: set_map split: if_splits option.splits) (fastforce simp del: set_map)
  ultimately show ?thesis by blast
qed

text \<open>
  A compiled plan always yields a query request, but for one gap: the planner only asks that the
  purpose and the asset identities be there, the request that the purpose is not blank and no asset
  identity empty.
\<close>

lemma compiled_plan_requests:
  assumes "compile_intent i c = Inr p" and "str_strip (qi_purpose i) \<noteq> []" and "[] \<notin> set (qi_asset_ids i)"
  shows "\<exists>q. to_query_request p attrs = Inr q \<and> qr_plan q = plan_json p \<and> qr_limit q = qi_limit i
    \<and> qr_source_id q = qi_source_id i \<and> qr_asset_ids q = qi_asset_ids i"
  using assms by (auto simp: compile_intent_iff within_constraints_def to_query_request_def plan_of_def checks)

definition sample_constraints :: planning_constraints where
  "sample_constraints = \<lparr>pc_allowed_fields = [(''orders'', [''id'', ''status''])],
     pc_allowed_relationships = [], pc_max_assets = 2, pc_max_rows = 100, pc_max_deadline_ms = 5000\<rparr>"

definition sample_intent :: "string \<Rightarrow> query_intent" where
  "sample_intent purpose = \<lparr>qi_source_id = ''erp'', qi_asset_ids = [''orders''],
     qi_fields = [(''orders'', [''status''])], qi_filters = [(''orders'', [(''id'', JInt 7)])],
     qi_relationships = [], qi_limit = 10, qi_deadline_ms = 1000, qi_purpose = purpose\<rparr>"

lemma compile_intent_iff_example:
  "compile_intent (sample_intent ''audit'') sample_constraints = Inr (plan_of (sample_intent ''audit''))"
  unfolding compile_intent_iff
  by (simp add: within_constraints_def sample_intent_def sample_constraints_def allowed_for_def)

lemma blank_purpose_compiles_but_is_no_request:
  "compile_intent (sample_intent '' '') sample_constraints = Inr (plan_of (sample_intent '' ''))
   \<and> to_query_request (plan_of (sample_intent '' '')) [] = Inl (ValueError ''purpose is required'')"
  unfolding compile_intent_iff
  by (simp add: within_constraints_def sample_intent_def sample_constraints_def allowed_for_def
      to_query_request_def plan_of_def mk_query_request_def str_strip_def is_space_def)

end
