(* ===== verification/Connector_Registry.thy ===== *)
theory Connector_Registry
  imports Data_Models
begin

text \<open>
  connector.py: capabilities, the connector profile with the checks of its constructors, and the
  in-memory registry. A registered connector is represented by its profile, all the registry reads of
  it; what a connector answers is a parameter of the gateways.
\<close>

datatype capability =
    Discover | Describe | Query | Scan | Search | Subscribe | Mutate | Transaction | Cdc | Explain
  | Predicate_Pushdown | Projection_Pushdown

primrec capability_value :: "capability \<Rightarrow> string" where
  "capability_value Discover = ''discover''"
| "capability_value Describe = ''describe''"
| "capability_value Query = ''query''"
| "capability_value Scan = ''scan''"
| "capability_value Search = ''search''"
| "capability_value Subscribe = ''subscribe''"
| "capability_value Mutate = ''mutate''"
| "capability_value Transaction = ''transaction''"
| "capability_value Cdc = ''cdc''"
| "capability_value Explain = ''explain''"
| "capability_value Predicate_Pushdown = ''predicate_pushdown''"
| "capability_value Projection_Pushdown = ''projection_pushdown''"

datatype data_model = DM_Tabular | DM_Document | DM_Graph | DM_Event | DM_Binary | DM_Vector

datatype runtime_mode = RM_Process | RM_Container | RM_Wasm | RM_Remote

record consistency_profile =
  cp_read_isolation :: "string list"
  cp_change_delivery :: "string option"
  cp_supports_version_precondition :: bool
  cp_supports_idempotency_key :: bool
  cp_supports_transactions :: bool
  cp_supports_checkpoint :: bool
  cp_supports_cdc :: bool

definition default_consistency :: consistency_profile where
  "default_consistency = \<lparr>cp_read_isolation = [''eventual''], cp_change_delivery = None,
     cp_supports_version_precondition = False, cp_supports_idempotency_key = False,
     cp_supports_transactions = False, cp_supports_checkpoint = False, cp_supports_cdc = False\<rparr>"

record connector_limits =
  cl_max_parallelism :: int
  cl_max_result_bytes :: int
  cl_supports_cancellation :: bool

definition default_connector_limits :: connector_limits where
  "default_connector_limits = \<lparr>cl_max_parallelism = 1, cl_max_result_bytes = 10 * 1024 * 1024,
     cl_supports_cancellation = True\<rparr>"

definition mk_connector_limits :: "connector_limits \<Rightarrow> connector_limits checked" where
  "mk_connector_limits l =
     (if cl_max_parallelism l \<le> 0 \<or> cl_max_result_bytes l \<le> 0
      then Inl (ValueError ''connector limits must be positive'') else Inr l)"

record connector_profile =
  pf_connector_id :: string
  pf_version :: string
  pf_sdk_api :: string
  pf_runtime_mode :: runtime_mode
  pf_data_models :: "data_model list"
  pf_capabilities :: "capability list"
  pf_auth_methods :: "string list"
  pf_consistency :: consistency_profile
  pf_limits :: connector_limits
  pf_extension_namespace :: "string option"
  pf_metadata :: "(string, json) dict"

definition mk_connector_profile :: "connector_profile \<Rightarrow> connector_profile checked" where
  "mk_connector_profile p =
     (if pf_connector_id p = [] \<or> pf_version p = []
      then Inl (ValueError ''connector_id and version are required'')
      else if pf_sdk_api p \<noteq> ''harness.connector/v1''
      then Inl (ValueError ''unsupported connector sdk_api'')
      else if Discover \<notin> set (pf_capabilities p)
      then Inl (ValueError ''all connectors must support discovery'')
      else if Describe \<notin> set (pf_capabilities p)
      then Inl (ValueError ''all connectors must support schema description'')
      else if pf_data_models p = []
      then Inl (ValueError ''at least one data model is required'')
      else if pf_auth_methods p = []
      then Inl (ValueError ''at least one credential-reference authentication method is required'')
      else if Transaction \<in> set (pf_capabilities p) \<and> \<not> cp_supports_transactions (pf_consistency p)
      then Inl (ValueError ''transaction capability contradicts consistency profile'')
      else if Cdc \<in> set (pf_capabilities p) \<and> \<not> cp_supports_cdc (pf_consistency p)
      then Inl (ValueError ''CDC capability contradicts consistency profile'')
      else Inr p)"

section \<open>The registry\<close>

datatype registry_error = Reg_Py py_error | Unsupported_Capability string capability

type_synonym registry = "(string, connector_profile) dict"

definition empty_registry :: registry where
  "empty_registry = []"

definition register :: "connector_profile \<Rightarrow> registry \<Rightarrow> registry_error + registry" where
  "register p r =
     (if pf_connector_id p \<in> set (dict_keys r)
      then Inl (Reg_Py (ValueError ''connector already registered''))
      else Inr (dict_set (pf_connector_id p) p r))"

definition get_connector ::
  "registry \<Rightarrow> string \<Rightarrow> capability option \<Rightarrow> registry_error + connector_profile" where
  "get_connector r cid cap =
     (case dict_get r cid of
        None \<Rightarrow> Inl (Reg_Py (KeyError ''unknown connector''))
      | Some p \<Rightarrow>
          (case cap of
             None \<Rightarrow> Inr p
           | Some c \<Rightarrow> if c \<notin> set (pf_capabilities p) then Inl (Unsupported_Capability cid c) else Inr p))"

definition profiles :: "registry \<Rightarrow> connector_profile list" where
  "profiles r = map (\<lambda>cid. the (dict_get r cid)) (sort (dict_keys r))"

lemma register_Inr:
  "register p r = Inr r' \<longleftrightarrow> pf_connector_id p \<notin> set (dict_keys r) \<and> r' = dict_set (pf_connector_id p) p r"
  by (auto simp: register_def)

text \<open>The registry is a write-once store keyed by the connector's identity.\<close>

interpretation connector_store: write_once pf_connector_id dict_get register
  by unfold_locales (auto simp: register_Inr dict_get_None)

lemma get_connector_Inr:
  "get_connector r cid (Some c) = Inr p \<longleftrightarrow> dict_get r cid = Some p \<and> c \<in> set (pf_capabilities p)"
  by (auto simp: get_connector_def split: option.splits)

lemma get_connector_None_Inr [simp]:
  "get_connector r cid None = Inr p \<longleftrightarrow> dict_get r cid = Some p"
  by (auto simp: get_connector_def split: option.splits)

lemma get_connector_empty [simp]:
  "get_connector empty_registry cid cap = Inl (Reg_Py (KeyError ''unknown connector''))"
  by (simp add: empty_registry_def get_connector_def)

lemma register_dict_wf: "dict_wf r \<Longrightarrow> dict_wf (attempt (register p) r)"
  by (rule attempt_cases) (auto simp: register_Inr)

text \<open>
  A connector that was registered keeps being what \<open>get\<close> returns for its identity, whatever
  registrations are attempted afterwards: an identity is bound once per process, and every connector a
  lookup returns stands under its own identity.
\<close>

lemma registry_identity_immutable:
  assumes "register p empty_registry = Inr r" and "c \<in> set (pf_capabilities p)"
  shows "get_connector (run_ops (\<lambda>q. attempt (register q)) qs r) (pf_connector_id p) (Some c) = Inr p
    \<and> (\<forall>cid q. get_connector (run_ops (\<lambda>q. attempt (register q)) qs r) cid None = Inr q
         \<longrightarrow> pf_connector_id q = cid)"
proof -
  let ?r = "run_ops (\<lambda>q. attempt (register q)) qs r"
  have "dict_get ?r (pf_connector_id p) = Some p"
    by (rule connector_store.first_binding_wins [OF assms(1)])
  moreover have "connector_store.keyed r"
    using assms(1) by (simp add: register_Inr connector_store.keyed_def empty_registry_def)
  then have "connector_store.keyed ?r" by (rule connector_store.run_keyed)
  ultimately show ?thesis
    using assms(2) unfolding get_connector_Inr get_connector_None_Inr connector_store.keyed_def
    by blast
qed

definition sample_profile :: connector_profile where
  "sample_profile = \<lparr>pf_connector_id = ''lab.mutable'', pf_version = ''1.0.0'',
     pf_sdk_api = ''harness.connector/v1'', pf_runtime_mode = RM_Process,
     pf_data_models = [DM_Tabular], pf_capabilities = [Discover, Describe, Query, Search, Mutate],
     pf_auth_methods = [''credential-reference''],
     pf_consistency = default_consistency
       \<lparr>cp_supports_version_precondition := True, cp_supports_idempotency_key := True\<rparr>,
     pf_limits = default_connector_limits, pf_extension_namespace = None, pf_metadata = []\<rparr>"

definition sample_registry :: registry where
  "sample_registry = [(''lab.mutable'', sample_profile)]"

lemma sample_profile_ok: "mk_connector_profile sample_profile = Inr sample_profile"
  by (simp add: mk_connector_profile_def sample_profile_def)

lemma sample_registered: "register sample_profile empty_registry = Inr sample_registry"
  by (simp add: register_def empty_registry_def sample_registry_def sample_profile_def)

end
