(* ===== verification/Policy_Seam.thy ===== *)
theory Policy_Seam
  imports Connector_Registry
begin

text \<open>
  policy.py: request identities, the authorization request, and the three evaluators of the source
  (deny-all, static allow-list, field and relationship grants). The contract a gateway relies on is the
  locale \<open>sound_policy\<close>: what an evaluator allows is permitted by the scope it was built from.
\<close>

record request_identity =
  id_organization_id :: string
  id_solution_id :: string
  id_agent_id :: string
  id_request_id :: string
  id_trace_id :: string
  id_policy_digest :: string

definition mk_request_identity :: "request_identity \<Rightarrow> request_identity checked" where
  "mk_request_identity i =
     (if list_ex (\<lambda>v. v = []) [id_organization_id i, id_solution_id i, id_agent_id i,
                               id_request_id i, id_trace_id i, id_policy_digest i]
      then Inl (ValueError ''all request identity fields are required'') else Inr i)"

record authorization_request =
  ar_identity :: request_identity
  ar_source_id :: string
  ar_capability :: capability
  ar_asset_ids :: "string list"
  ar_purpose :: string
  ar_attributes :: "(string, json) dict"
  ar_parameters :: "(string, json) dict"

record policy_decision =
  pd_allowed :: bool
  pd_decision_id :: string
  pd_reason_code :: string

type_synonym policy = "authorization_request \<Rightarrow> policy_decision"

definition deny_all_policy :: policy where
  "deny_all_policy r = \<lparr>pd_allowed = False, pd_decision_id = ''deny:'' @ id_request_id (ar_identity r),
     pd_reason_code = ''default_deny''\<rparr>"

definition static_policy :: "(string \<times> capability) list \<Rightarrow> policy" where
  "static_policy allowed r =
     (let ok = (ar_source_id r, ar_capability r) \<in> set allowed;
          code = (if ok then ''allowlisted'' else ''not_allowlisted'')
      in \<lparr>pd_allowed = ok,
          pd_decision_id = ''static:'' @ id_request_id (ar_identity r) @ '':'' @ code,
          pd_reason_code = code\<rparr>)"

section \<open>Field and relationship grants\<close>

record query_access_grant =
  gr_organization_id :: string
  gr_solution_id :: string
  gr_agent_id :: string
  gr_source_id :: string
  gr_asset_fields :: "(string, string list) dict"
  gr_relationships :: "string list"

definition mk_query_access_grant :: "query_access_grant \<Rightarrow> query_access_grant checked" where
  "mk_query_access_grant g =
     (if list_ex (\<lambda>v. v = []) [gr_organization_id g, gr_solution_id g, gr_agent_id g, gr_source_id g]
         \<or> gr_asset_fields g = []
      then Inl (ValueError
        ''query grants require organization, solution, agent, source and asset scope'')
      else Inr g)"

type_synonym grant_key = "string \<times> string \<times> string \<times> string"

definition grant_key :: "query_access_grant \<Rightarrow> grant_key" where
  "grant_key g = (gr_organization_id g, gr_solution_id g, gr_agent_id g, gr_source_id g)"

definition request_key :: "authorization_request \<Rightarrow> grant_key" where
  "request_key r = (id_organization_id (ar_identity r), id_solution_id (ar_identity r),
     id_agent_id (ar_identity r), ar_source_id r)"

definition grant_table :: "query_access_grant list \<Rightarrow> (grant_key, query_access_grant) dict" where
  \<comment> \<open>a later grant for the same identity and source replaces an earlier one\<close>
  "grant_table gs = fold (\<lambda>g. dict_set (grant_key g) g) gs []"

definition asset_scope :: "query_access_grant \<Rightarrow> string \<Rightarrow> string set" where
  \<comment> \<open>only read for an asset the grant names\<close>
  "asset_scope g a = (case dict_get (gr_asset_fields g) a of None \<Rightarrow> {} | Some fs \<Rightarrow> set fs)"

definition field_deny :: "authorization_request \<Rightarrow> string \<Rightarrow> policy_decision" where
  "field_deny r reason = \<lparr>pd_allowed = False,
     pd_decision_id = ''field:'' @ id_request_id (ar_identity r) @ '':'' @ reason,
     pd_reason_code = reason\<rparr>"

definition param :: "authorization_request \<Rightarrow> string \<Rightarrow> json \<Rightarrow> json" where
  "param r k dflt = (case dict_get (ar_parameters r) k of None \<Rightarrow> dflt | Some v \<Rightarrow> v)"

fun fields_refused :: "(json \<Rightarrow> string) \<Rightarrow> query_access_grant \<Rightarrow> (string \<times> json) list \<Rightarrow> bool" where
  "fields_refused rep g [] = False"
| "fields_refused rep g ((a, sel) # rest) =
     (case sel of
        JArr xs \<Rightarrow>
          (if a \<notin> set (dict_keys (gr_asset_fields g)) then True
           else if \<not> py_str rep ` set xs \<subseteq> asset_scope g a then True
           else fields_refused rep g rest)
      | _ \<Rightarrow> True)"

fun filters_refused :: "query_access_grant \<Rightarrow> (string \<times> json) list \<Rightarrow> bool" where
  "filters_refused g [] = False"
| "filters_refused g ((a, filters) # rest) =
     (case filters of
        JObj kvs \<Rightarrow> (if \<not> set (dict_keys kvs) \<subseteq> asset_scope g a then True else filters_refused g rest)
      | _ \<Rightarrow> True)"

definition field_policy ::
  "(json \<Rightarrow> string) \<Rightarrow> policy \<Rightarrow> query_access_grant list \<Rightarrow> policy" where
  "field_policy rep base grants r =
     (let base_decision = base r
      in if \<not> pd_allowed base_decision \<or> ar_capability r \<noteq> Query then base_decision
      else (case dict_get (grant_table grants) (request_key r) of
        None \<Rightarrow> field_deny r ''query_grant_missing''
      | Some g \<Rightarrow>
          if \<not> set (ar_asset_ids r) \<subseteq> set (dict_keys (gr_asset_fields g))
          then field_deny r ''asset_not_authorized''
          else (case param r ''select_by_asset'' (JObj []) of
            JObj select \<Rightarrow>
              if set (dict_keys select) \<noteq> set (ar_asset_ids r)
              then field_deny r ''query_shape_invalid''
              else if fields_refused rep g select then field_deny r ''field_not_authorized''
              else (case param r ''relationships'' (JArr []) of
                JArr rels \<Rightarrow>
                  if \<not> py_str rep ` set rels \<subseteq> set (gr_relationships g)
                  then field_deny r ''relationship_not_authorized''
                  else (case param r ''where_by_asset'' (JObj []) of
                    JObj filters \<Rightarrow>
                      if \<not> set (dict_keys filters) \<subseteq> set (ar_asset_ids r)
                      then field_deny r ''query_shape_invalid''
                      else if filters_refused g filters
                      then field_deny r ''filter_field_not_authorized''
                      else base_decision
                  | _ \<Rightarrow> field_deny r ''query_shape_invalid'')
              | _ \<Rightarrow> field_deny r ''relationship_not_authorized'')
          | _ \<Rightarrow> field_deny r ''query_shape_invalid'')))"

section \<open>What a grant permits\<close>

text \<open>
  The scope of a grant, stated over the shape of the query: every asset is granted, the selection names
  exactly the requested assets, every selected and every filtered field and every relationship is in the
  grant.
\<close>

definition selection_ok :: "(json \<Rightarrow> string) \<Rightarrow> string set \<Rightarrow> json \<Rightarrow> bool" where
  "selection_ok rep scope v \<longleftrightarrow> (\<exists>xs. v = JArr xs \<and> py_str rep ` set xs \<subseteq> scope)"

definition filter_ok :: "string set \<Rightarrow> json \<Rightarrow> bool" where
  "filter_ok scope v \<longleftrightarrow> (\<exists>kvs. v = JObj kvs \<and> set (dict_keys kvs) \<subseteq> scope)"

definition query_in_scope ::
  "(json \<Rightarrow> string) \<Rightarrow> query_access_grant \<Rightarrow> authorization_request \<Rightarrow> bool" where
  "query_in_scope rep g r \<longleftrightarrow>
     set (ar_asset_ids r) \<subseteq> set (dict_keys (gr_asset_fields g))
   \<and> (\<exists>select. param r ''select_by_asset'' (JObj []) = JObj select
        \<and> set (dict_keys select) = set (ar_asset_ids r)
        \<and> (\<forall>kv \<in> set select. selection_ok rep (asset_scope g (fst kv)) (snd kv)))
   \<and> selection_ok rep (set (gr_relationships g)) (param r ''relationships'' (JArr []))
   \<and> (\<exists>filters. param r ''where_by_asset'' (JObj []) = JObj filters
        \<and> set (dict_keys filters) \<subseteq> set (ar_asset_ids r)
        \<and> (\<forall>kv \<in> set filters. filter_ok (asset_scope g (fst kv)) (snd kv)))"

lemma field_deny_denies [simp]: "\<not> pd_allowed (field_deny r reason)"
  by (simp add: field_deny_def)

lemma selection_ok_simps [simp]:
  "selection_ok rep scope (JArr xs) \<longleftrightarrow> py_str rep ` set xs \<subseteq> scope"
  "\<not> selection_ok rep scope JNull" "\<not> selection_ok rep scope (JBool b)"
  "\<not> selection_ok rep scope (JInt i)" "\<not> selection_ok rep scope (JFloat t)"
  "\<not> selection_ok rep scope (JStr u)" "\<not> selection_ok rep scope (JObj kvs)"
  by (simp_all add: selection_ok_def)

lemma filter_ok_simps [simp]:
  "filter_ok scope (JObj kvs) \<longleftrightarrow> set (dict_keys kvs) \<subseteq> scope"
  "\<not> filter_ok scope JNull" "\<not> filter_ok scope (JBool b)" "\<not> filter_ok scope (JInt i)"
  "\<not> filter_ok scope (JFloat t)" "\<not> filter_ok scope (JStr u)" "\<not> filter_ok scope (JArr xs)"
  by (simp_all add: filter_ok_def)

lemma fields_refused_eq:
  "fields_refused rep g kvs \<longleftrightarrow>
     \<not> (\<forall>kv \<in> set kvs. fst kv \<in> set (dict_keys (gr_asset_fields g))
          \<and> selection_ok rep (asset_scope g (fst kv)) (snd kv))"
proof (induction kvs)
  case (Cons kv kvs)
  obtain a v where kv: "kv = (a, v)" by (cases kv)
  show ?case unfolding kv by (cases v) (simp_all del: set_map add: Cons.IH)
qed simp

lemma filters_refused_eq:
  "filters_refused g kvs \<longleftrightarrow> \<not> (\<forall>kv \<in> set kvs. filter_ok (asset_scope g (fst kv)) (snd kv))"
proof (induction kvs)
  case (Cons kv kvs)
  obtain a v where kv: "kv = (a, v)" by (cases kv)
  show ?case unfolding kv by (cases v) (simp_all add: Cons.IH)
qed simp

lemma fields_refused_requested:
  assumes "set (dict_keys select) = set (ar_asset_ids r)"
    and "set (ar_asset_ids r) \<subseteq> set (dict_keys (gr_asset_fields g))"
  shows "fields_refused rep g select \<longleftrightarrow>
    \<not> (\<forall>kv \<in> set select. selection_ok rep (asset_scope g (fst kv)) (snd kv))"
proof -
  have "fst kv \<in> set (dict_keys (gr_asset_fields g))" if "kv \<in> set select" for kv
    using assms that by force
  then show ?thesis unfolding fields_refused_eq by blast
qed

text \<open>
  The field and relationship policy allows a request exactly when its base policy allows it and,
  for a query, the grant stored for this organization, solution, agent and source covers every asset,
  selected field, filter field and relationship of the query; every other query is denied.
\<close>

lemma field_policy_allows_iff:
  "pd_allowed (field_policy rep base grants r) \<longleftrightarrow>
     pd_allowed (base r)
   \<and> (ar_capability r = Query \<longrightarrow>
        (\<exists>g. dict_get (grant_table grants) (request_key r) = Some g \<and> query_in_scope rep g r))"
proof (cases "pd_allowed (base r) \<and> ar_capability r = Query")
  case False
  then show ?thesis by (auto simp: field_policy_def Let_def)
next
  case True
  show ?thesis
  proof (cases "dict_get (grant_table grants) (request_key r)")
    case None
    with True show ?thesis by (simp add: field_policy_def)
  next
    case (Some g)
    show ?thesis
    proof (cases "set (ar_asset_ids r) \<subseteq> set (dict_keys (gr_asset_fields g))")
      case False
      with True Some show ?thesis by (simp add: field_policy_def query_in_scope_def)
    next
      case assets: True
      show ?thesis
        using True Some assets
        by (simp add: field_policy_def query_in_scope_def filters_refused_eq
            fields_refused_requested split: json.split)
    qed
  qed
qed

definition sample_identity :: request_identity where
  "sample_identity = \<lparr>id_organization_id = ''org'', id_solution_id = ''solution'',
     id_agent_id = ''agent.allowed'', id_request_id = ''request-1'', id_trace_id = ''trace-1'',
     id_policy_digest = ''policy:v1''\<rparr>"

definition sample_grant :: query_access_grant where
  "sample_grant = \<lparr>gr_organization_id = ''org'', gr_solution_id = ''solution'',
     gr_agent_id = ''agent.allowed'', gr_source_id = ''erp'',
     gr_asset_fields = [(''orders'', [''id'', ''status''])], gr_relationships = []\<rparr>"

definition sample_query :: "string \<Rightarrow> authorization_request" where
  "sample_query column = \<lparr>ar_identity = sample_identity, ar_source_id = ''erp'', ar_capability = Query,
     ar_asset_ids = [''orders''], ar_purpose = ''audit'', ar_attributes = [],
     ar_parameters = [(''select_by_asset'', JObj [(''orders'', JArr [JStr column])])]\<rparr>"

lemma field_policy_allows_iff_example:
  "pd_allowed (field_policy (\<lambda>_. []) (static_policy [(''erp'', Query)]) [sample_grant] (sample_query ''status''))
   \<and> \<not> pd_allowed (field_policy (\<lambda>_. []) (static_policy [(''erp'', Query)]) [sample_grant] (sample_query ''price''))"
  unfolding field_policy_allows_iff
  by (simp add: query_in_scope_def sample_query_def sample_grant_def sample_identity_def
      static_policy_def Let_def grant_table_def grant_key_def request_key_def param_def asset_scope_def
      py_str_def)

section \<open>The contract of an evaluator\<close>

locale sound_policy =
  fixes evaluate :: policy
    and permitted :: "authorization_request \<Rightarrow> bool"
  assumes allowed_permitted: "pd_allowed (evaluate r) \<Longrightarrow> permitted r"

interpretation deny_all: sound_policy deny_all_policy "\<lambda>r. False"
  by unfold_locales (simp add: deny_all_policy_def)

interpretation static_allowlist: sound_policy "static_policy allowed"
    "\<lambda>r. (ar_source_id r, ar_capability r) \<in> set allowed" for allowed
  by unfold_locales (simp add: static_policy_def Let_def)

interpretation field_grants: sound_policy "field_policy rep (static_policy allowed) grants"
    "\<lambda>r. (ar_source_id r, ar_capability r) \<in> set allowed \<and> (ar_capability r = Query \<longrightarrow>
        (\<exists>g. dict_get (grant_table grants) (request_key r) = Some g \<and> query_in_scope rep g r))"
  for rep allowed grants
proof unfold_locales
  fix r
  assume "pd_allowed (field_policy rep (static_policy allowed) grants r)"
  then have "pd_allowed (static_policy allowed r)" and "ar_capability r = Query \<longrightarrow>
      (\<exists>g. dict_get (grant_table grants) (request_key r) = Some g \<and> query_in_scope rep g r)"
    unfolding field_policy_allows_iff by blast+
  then show "(ar_source_id r, ar_capability r) \<in> set allowed \<and> (ar_capability r = Query \<longrightarrow>
      (\<exists>g. dict_get (grant_table grants) (request_key r) = Some g \<and> query_in_scope rep g r))"
    using static_allowlist.allowed_permitted by blast
qed

end
