(* ===== verification/Telemetry_Events.thy ===== *)
theory Telemetry_Events
  imports Policy_Seam
begin

text \<open>
  telemetry.py: the event with the check of its constructor, and the in-memory sink. The gateways hand
  every event they build to a sink, which is a parameter of theirs.
\<close>

record telemetry_event =
  te_name :: string
  te_identity :: request_identity
  te_occurred_at :: datetime
  te_attributes :: "(string, json) dict"

definition forbidden_fragments :: "string list" where
  "forbidden_fragments = [''credential'', ''password'', ''secret'', ''token'']"

definition credential_like :: "string \<Rightarrow> bool" where
  "credential_like key \<longleftrightarrow> list_ex (\<lambda>fragment. str_contains (str_lower key) fragment) forbidden_fragments"

definition mk_telemetry_event :: "telemetry_event \<Rightarrow> telemetry_event checked" where
  "mk_telemetry_event e =
     (if \<not> str_startswith (te_name e) ''data.harness.''
      then Inl (ValueError ''telemetry names must use the data.harness namespace'')
      else if \<not> aware (te_occurred_at e)
      then Inl (ValueError ''occurred_at must be timezone-aware'')
      else if list_ex credential_like (dict_keys (te_attributes e))
      then Inl (ValueError ''telemetry cannot contain credential material'')
      else Inr e)"

type_synonym memory_sink = "telemetry_event list"

definition memory_emit :: "telemetry_event \<Rightarrow> memory_sink \<Rightarrow> memory_sink" where
  "memory_emit e events = events @ [e]"

lemma mk_telemetry_event_Inr [checks]:
  "mk_telemetry_event e = Inr f \<longleftrightarrow> f = e \<and> str_startswith (te_name e) ''data.harness.''
     \<and> aware (te_occurred_at e) \<and> (\<forall>k \<in> set (dict_keys (te_attributes e)). \<not> credential_like k)"
  by (auto simp: mk_telemetry_event_def list_ex_iff)

text \<open>The attribute names the gateways use are none of them credential-like.\<close>

lemma gateway_attribute_names:
  "\<not> list_ex credential_like
     [''source_id'', ''asset_count'', ''kind'', ''row_count'', ''byte_count'', ''candidate_count'',
      ''capability'', ''allowed'', ''decision_id'', ''reason_code'', ''action_id'', ''stage'',
      ''receipt_id'', ''source_version'']"
  by code_simp

end
