(* ===== verification/Harness_Gateway.thy ===== *)
theory Harness_Gateway
  imports Telemetry_Events
begin

text \<open>
  runtime.py: the gateway that runs connectors under policy, telemetry and limits. The connectors, the
  policy evaluator, the telemetry sink and the clock are the environment; \<open>gs_calls\<close> is the trace of
  calls made to connectors, kept to state what was asked of them. A connector's stream is the list of
  the batches it yields, with the exception it ends in if it raises; an \<open>Ext_Timeout\<close> in the stream is
  the request's deadline passing. \<open>execute\<close> returns the batches yielded to the caller, who may stop
  earlier, together with how the generator ended.
\<close>

datatype gateway_error =
    Gw_Registry registry_error
  | Gw_Denied policy_decision
  | Gw_Deadline string
  | Gw_Violation string
  | Gw_Py py_error
  | Gw_External ext_error

datatype connector_call =
    \<comment> \<open>what a connector was asked, and on whose behalf (a record of the model: the connector is not told)\<close>
    Call_Discover string request_identity | Call_Execute query_request request_identity | Call_Search search_request request_identity

record harness_env =
  he_registry :: registry
  he_policy :: "authorization_request \<Rightarrow> ext_error + policy_decision"
  he_sink :: "nat \<Rightarrow> telemetry_event \<Rightarrow> ext_error option"
  he_clock :: "nat \<Rightarrow> int"
  he_isoformat :: "datetime \<Rightarrow> string"
  he_discover :: "string \<Rightarrow> ext_error + asset list"
  he_stream :: "query_request \<Rightarrow> data_batch list \<times> ext_error option"
  he_search :: "search_request \<Rightarrow> ext_error + search_hit list"

record harness_state =
  gs_semaphores :: "(string, int) dict"
  gs_events :: "telemetry_event list"
  gs_calls :: "connector_call list"

type_synonym 'a gateway_op = "(harness_state, gateway_error, 'a) sm"

definition emit :: "harness_env \<Rightarrow> string \<Rightarrow> request_identity \<Rightarrow> (string, json) dict \<Rightarrow> unit gateway_op" where
  "emit env name identity attributes s =
     (let n = length (gs_events s)
      in case mk_telemetry_event \<lparr>te_name = name, te_identity = identity,
                te_occurred_at = utc (he_clock env n), te_attributes = attributes\<rparr> of
           Inl e \<Rightarrow> (Inl (Gw_Py e), s)
         | Inr ev \<Rightarrow> (case he_sink env n ev of
              Some x \<Rightarrow> (Inl (Gw_External x), s)
            | None \<Rightarrow> (Inr (), s\<lparr>gs_events := memory_emit ev (gs_events s)\<rparr>)))"

definition note_call :: "connector_call \<Rightarrow> unit gateway_op" where
  "note_call c s = (Inr (), s\<lparr>gs_calls := gs_calls s @ [c]\<rparr>)"

definition lookup_connector ::
  "harness_env \<Rightarrow> string \<Rightarrow> capability option \<Rightarrow> connector_profile gateway_op" where
  "lookup_connector env source_id cap s =
     (case get_connector (he_registry env) source_id cap of
        Inl e \<Rightarrow> (Inl (Gw_Registry e), s) | Inr p \<Rightarrow> (Inr p, s))"

definition authorize :: "harness_env \<Rightarrow> authorization_request \<Rightarrow> unit gateway_op" where
  "authorize env r s =
     (case he_policy env r of
        Inl x \<Rightarrow> (Inl (Gw_External x), s)
      | Inr decision \<Rightarrow>
          sm_bind (emit env ''data.harness.authorization.decided'' (ar_identity r)
              [(''source_id'', JStr (ar_source_id r)),
               (''capability'', JStr (capability_value (ar_capability r))),
               (''allowed'', JBool (pd_allowed decision)),
               (''decision_id'', JStr (pd_decision_id decision)),
               (''reason_code'', JStr (pd_reason_code decision))])
            (\<lambda>_. sm_guard (pd_allowed decision) (Gw_Denied decision)) s)"

definition semaphore :: "harness_env \<Rightarrow> string \<Rightarrow> int gateway_op" where
  "semaphore env source_id s =
     (case dict_get (gs_semaphores s) source_id of
        Some n \<Rightarrow> (Inr n, s)
      | None \<Rightarrow>
          sm_bind (lookup_connector env source_id None)
            (\<lambda>p s. let n = cl_max_parallelism (pf_limits p)
                   in (Inr n, s\<lparr>gs_semaphores := dict_set source_id n (gs_semaphores s)\<rparr>)) s)"

definition as_deadline :: "string \<Rightarrow> gateway_error \<Rightarrow> gateway_error" where
  \<comment> \<open>\<open>except TimeoutError\<close> around the connector's work\<close>
  "as_deadline source_id e = (if e = Gw_External Ext_Timeout then Gw_Deadline source_id else e)"

section \<open>Discovery\<close>

definition discovery_request :: "string \<Rightarrow> request_identity \<Rightarrow> authorization_request" where
  "discovery_request source_id identity = \<lparr>ar_identity = identity, ar_source_id = source_id,
     ar_capability = Discover, ar_asset_ids = [], ar_purpose = ''asset discovery'',
     ar_attributes = [], ar_parameters = []\<rparr>"

definition discover_assets :: "harness_env \<Rightarrow> string \<Rightarrow> request_identity \<Rightarrow> asset list gateway_op" where
  "discover_assets env source_id identity =
     sm_bind (lookup_connector env source_id (Some Discover)) (\<lambda>_.
     sm_bind (authorize env (discovery_request source_id identity)) (\<lambda>_.
     sm_bind (note_call (Call_Discover source_id identity)) (\<lambda>_.
     sm_bind (sm_lift (case he_discover env source_id of Inl x \<Rightarrow> Inl (Gw_External x) | Inr a \<Rightarrow> Inr a)) (\<lambda>assets.
     sm_bind (emit env ''data.harness.discovery.completed'' identity
        [(''source_id'', JStr source_id), (''asset_count'', JInt (int (length assets)))]) (\<lambda>_.
     sm_return assets)))))"

section \<open>Query execution\<close>

definition query_authorization :: "query_request \<Rightarrow> request_identity \<Rightarrow> authorization_request" where
  "query_authorization q identity = \<lparr>ar_identity = identity, ar_source_id = qr_source_id q,
     ar_capability = Query, ar_asset_ids = qr_asset_ids q, ar_purpose = qr_purpose q,
     ar_attributes = qr_policy_attributes q, ar_parameters = qr_plan q\<rparr>"

definition declared :: "int option \<Rightarrow> int" where
  "declared n = (case n of None \<Rightarrow> 0 | Some k \<Rightarrow> k)"

definition batch_bytes :: "data_batch \<Rightarrow> gateway_error + int" where
  "batch_bytes b =
     (case db_payload b of
        P_Bytes raw \<Rightarrow> Inr (max (int (length raw)) (declared (db_byte_count b)))
      | P_Json v \<Rightarrow>
          (if json_finite v
           then Inr (max (int (length (canonical v))) (declared (db_byte_count b)))
           else Inl (Gw_Violation ''connector payload is not finite JSON''))
      | P_Opaque \<Rightarrow> Inl (Gw_Violation ''connector payload is not finite JSON''))"

definition batch_rows :: "data_batch \<Rightarrow> gateway_error + int" where
  "batch_rows b =
     (case db_payload b of
        P_Json (JArr xs) \<Rightarrow>
          (if db_row_count b \<noteq> None \<and> db_row_count b \<noteq> Some (int (length xs))
           then Inl (Gw_Violation ''connector row count does not match its payload'')
           else Inr (int (length xs)))
      | _ \<Rightarrow> Inr (declared (db_row_count b)))"

definition check_batch :: "connector_profile \<Rightarrow> query_request \<Rightarrow> int \<Rightarrow> int \<Rightarrow> data_batch
    \<Rightarrow> gateway_error + int \<times> int \<times> int" where
  \<comment> \<open>the size of the batch and the new totals of bytes and rows\<close>
  "check_batch p q total_bytes total_rows b =
     (case batch_bytes b of
        Inl e \<Rightarrow> Inl e
      | Inr bytes \<Rightarrow>
          (case batch_rows b of
             Inl e \<Rightarrow> Inl e
           | Inr rows \<Rightarrow>
               if total_bytes + bytes > cl_max_result_bytes (pf_limits p)
               then Inl (Gw_Violation ''connector result exceeds its declared byte limit'')
               else if total_rows + rows > qr_limit q
               then Inl (Gw_Violation ''connector returned more rows than requested'')
               else if \<not> list_ex (\<lambda>v. sv_source_id v = qr_source_id q) (db_source_versions b)
               then Inl (Gw_Violation ''connector batch does not carry its source version'')
               else Inr (bytes, total_bytes + bytes, total_rows + rows)))"

fun stream_loop :: "harness_env \<Rightarrow> connector_profile \<Rightarrow> query_request \<Rightarrow> request_identity
    \<Rightarrow> data_batch list \<Rightarrow> ext_error option \<Rightarrow> int \<Rightarrow> int \<Rightarrow> data_batch list \<Rightarrow> harness_state
    \<Rightarrow> (data_batch list \<times> gateway_error option) \<times> harness_state" where
  "stream_loop env p q identity [] ending tb tr yielded s =
     ((yielded, map_option Gw_External ending), s)"
| "stream_loop env p q identity (b # bs) ending tb tr yielded s =
     (case check_batch p q tb tr b of
        Inl e \<Rightarrow> ((yielded, Some e), s)
      | Inr (bytes, tb', tr') \<Rightarrow>
          (case emit env ''data.harness.batch.emitted'' identity
                  [(''source_id'', JStr (qr_source_id q)),
                   (''kind'', JStr (batch_kind_value (db_kind b))),
                   (''row_count'', (case db_row_count b of None \<Rightarrow> JNull | Some n \<Rightarrow> JInt n)),
                   (''byte_count'', JInt bytes)] s of
             (Inl e, s') \<Rightarrow> ((yielded, Some e), s')
           | (Inr _, s') \<Rightarrow> stream_loop env p q identity bs ending tb' tr' (yielded @ [b]) s'))"

definition execute_query :: "harness_env \<Rightarrow> query_request \<Rightarrow> request_identity \<Rightarrow> harness_state
    \<Rightarrow> (data_batch list \<times> gateway_error option) \<times> harness_state" where
  "execute_query env q identity s =
     (case sm_bind (lookup_connector env (qr_source_id q) (Some Query)) (\<lambda>p.
           sm_bind (authorize env (query_authorization q identity)) (\<lambda>_.
           sm_return p)) s of
        (Inl e, s1) \<Rightarrow> (([], Some e), s1)
      | (Inr p, s1) \<Rightarrow>
          (case sm_bind (semaphore env (pf_connector_id p)) (\<lambda>_.
                note_call (Call_Execute q identity)) s1 of
             (Inl e, s2) \<Rightarrow> (([], Some (as_deadline (qr_source_id q) e)), s2)
           | (Inr _, s2) \<Rightarrow>
               (case he_stream env q of (batches, ending) \<Rightarrow>
                  (case stream_loop env p q identity batches ending 0 0 [] s2 of
                     ((yielded, outcome), s3) \<Rightarrow>
                       ((yielded, map_option (as_deadline (qr_source_id q)) outcome), s3)))))"

section \<open>Search\<close>

definition search_authorization :: "search_request \<Rightarrow> request_identity \<Rightarrow> authorization_request" where
  "search_authorization q identity = \<lparr>ar_identity = identity, ar_source_id = sr_source_id q,
     ar_capability = Search, ar_asset_ids = [], ar_purpose = sr_purpose q,
     ar_attributes = sr_policy_attributes q, ar_parameters = sr_filters q\<rparr>"

definition opt_str :: "string option \<Rightarrow> json" where
  "opt_str v = (case v of None \<Rightarrow> JNull | Some t \<Rightarrow> JStr t)"

definition hit_json :: "(datetime \<Rightarrow> string) \<Rightarrow> search_hit \<Rightarrow> json" where
  "hit_json isoformat h = JObj
     [(''sourceId'', JStr (sh_source_id h)), (''assetId'', JStr (sh_asset_id h)),
      (''recordId'', JStr (sh_record_id h)), (''fusionScore'', sh_fusion_score h),
      (''lexicalScore'', sh_lexical_score h), (''denseScore'', sh_dense_score h),
      (''sparseScore'', sh_sparse_score h), (''rerankerScore'', sh_reranker_score h),
      (''sourceVersion'', JObj
         [(''sourceId'', JStr (sv_source_id (sh_source_version h))),
          (''version'', JStr (sv_version (sh_source_version h))),
          (''observedAt'', JStr (isoformat (sv_observed_at (sh_source_version h)))),
          (''effectiveAt'', opt_str (map_option isoformat (sv_effective_at (sh_source_version h))))]),
      (''lineage'', JArr (map (\<lambda>l. JObj
         [(''sourceId'', JStr (lin_source_id l)), (''assetId'', JStr (lin_asset_id l)),
          (''recordId'', opt_str (lin_record_id l)), (''fieldPath'', opt_str (lin_field_path l))])
         (sh_lineage h))),
      (''aclDecisionId'', opt_str (sh_acl_decision_id h))]"

definition hit_trusted :: "search_request \<Rightarrow> search_hit \<Rightarrow> bool" where
  "hit_trusted q h \<longleftrightarrow> sh_source_id h = sr_source_id q \<and> sv_source_id (sh_source_version h) = sr_source_id q
     \<and> sh_acl_decision_id h \<noteq> None \<and> sh_acl_decision_id h \<noteq> Some []"

definition check_hits :: "harness_env \<Rightarrow> connector_profile \<Rightarrow> search_request \<Rightarrow> search_hit list
    \<Rightarrow> gateway_error + search_hit list" where
  "check_hits env p q hits =
     (if int (length hits) > sr_top_k q
      then Inl (Gw_Violation ''connector returned more search hits than requested'')
      else if list_ex (\<lambda>h. \<not> hit_trusted q h) hits
      then Inl (Gw_Violation
        ''search results require matching source/version identity and ACL evidence'')
      else (let value = JArr (map (hit_json (he_isoformat env)) hits)
            in if \<not> json_finite value
               then Inl (Gw_Violation ''search result is not finite JSON'')
               else if int (length (canonical value)) > cl_max_result_bytes (pf_limits p)
               then Inl (Gw_Violation ''search result exceeds connector byte limit'')
               else Inr hits))"

definition search_source :: "harness_env \<Rightarrow> search_request \<Rightarrow> request_identity \<Rightarrow> search_hit list gateway_op" where
  "search_source env q identity =
     sm_bind (lookup_connector env (sr_source_id q) (Some Search)) (\<lambda>p.
     sm_bind (authorize env (search_authorization q identity)) (\<lambda>_.
     sm_bind (semaphore env (pf_connector_id p)) (\<lambda>_.
     sm_bind (note_call (Call_Search q identity)) (\<lambda>_.
     sm_bind (sm_lift (case he_search env q of
        Inl x \<Rightarrow> Inl (as_deadline (sr_source_id q) (Gw_External x)) | Inr hits \<Rightarrow> Inr hits)) (\<lambda>found.
     sm_bind (sm_lift (check_hits env p q found)) (\<lambda>hits.
     sm_bind (emit env ''data.harness.search.completed'' identity
        [(''source_id'', JStr (sr_source_id q)), (''candidate_count'', JInt (int (length hits)))]) (\<lambda>_.
     sm_return hits)))))))"

section \<open>Requests and runs\<close>

datatype gateway_request =
    Do_Discover string request_identity
  | Do_Execute query_request request_identity
  | Do_Search search_request request_identity

primrec authorization_of :: "gateway_request \<Rightarrow> authorization_request" where
  "authorization_of (Do_Discover source_id identity) = discovery_request source_id identity"
| "authorization_of (Do_Execute q identity) = query_authorization q identity"
| "authorization_of (Do_Search q identity) = search_authorization q identity"

primrec call_of :: "gateway_request \<Rightarrow> connector_call" where
  "call_of (Do_Discover source_id identity) = Call_Discover source_id identity"
| "call_of (Do_Execute q identity) = Call_Execute q identity"
| "call_of (Do_Search q identity) = Call_Search q identity"

primrec gateway_step :: "harness_env \<Rightarrow> gateway_request \<Rightarrow> harness_state \<Rightarrow> harness_state" where
  "gateway_step env (Do_Discover source_id identity) s = snd (discover_assets env source_id identity s)"
| "gateway_step env (Do_Execute q identity) s = snd (execute_query env q identity s)"
| "gateway_step env (Do_Search q identity) s = snd (search_source env q identity s)"

definition gateway_start :: harness_state where
  "gateway_start = \<lparr>gs_semaphores = [], gs_events = [], gs_calls = []\<rparr>"

section \<open>Calls are authorized\<close>

lemma query_authorization_simps [simp]:
  "ar_source_id (query_authorization q identity) = qr_source_id q"
  "ar_capability (query_authorization q identity) = Query"
  "ar_asset_ids (query_authorization q identity) = qr_asset_ids q"
  "ar_parameters (query_authorization q identity) = qr_plan q"
  "ar_identity (query_authorization q identity) = identity"
  by (simp_all add: query_authorization_def)

lemma emit_calls [simp]: "gs_calls (snd (emit env name identity attrs s)) = gs_calls s"
  by (simp add: emit_def Let_def split: sum.split option.split)

lemma emit_calls': "emit env name identity attrs s = (r, t) \<Longrightarrow> gs_calls t = gs_calls s"
  by (metis emit_calls snd_conv)

lemma lookup_connector_state: "lookup_connector env source_id cap s = (r, t) \<Longrightarrow> t = s"
  by (auto simp: lookup_connector_def split: sum.splits)

lemma lookup_connector_Inr [simp]:
  "lookup_connector env source_id cap s = (Inr p, t) \<longleftrightarrow>
     t = s \<and> get_connector (he_registry env) source_id cap = Inr p"
  by (auto simp: lookup_connector_def split: sum.splits)

lemma semaphore_calls: "semaphore env source_id s = (r, t) \<Longrightarrow> gs_calls t = gs_calls s"
  by (auto simp: semaphore_def Let_def sm_bind_def lookup_connector_def
      split: option.splits sum.splits prod.splits)

definition grants :: "harness_env \<Rightarrow> authorization_request \<Rightarrow> bool" where
  "grants env r \<longleftrightarrow> (\<exists>d. he_policy env r = Inr d \<and> pd_allowed d)"

lemma authorize_cases:
  assumes "authorize env r s = (x, t)"
  shows "gs_calls t = gs_calls s \<and> (x = Inr () \<longrightarrow> grants env r)"
  using assms
  by (auto simp: authorize_def grants_def sm_bind_def dest: emit_calls'
      split: sum.splits prod.splits if_splits)

lemma stream_loop_calls:
  "stream_loop env p q identity bs ending tb tr ys s = (r, t) \<Longrightarrow> gs_calls t = gs_calls s"
proof (induction bs arbitrary: tb tr ys s)
  case (Cons b bs)
  then show ?case
    by (auto dest!: emit_calls' split: sum.splits prod.splits)
qed simp

definition one_authorized_call :: "harness_env \<Rightarrow> gateway_request \<Rightarrow> harness_state \<Rightarrow> harness_state \<Rightarrow> bool" where
  "one_authorized_call env x s t \<longleftrightarrow> gs_calls t = gs_calls s
     \<or> (gs_calls t = gs_calls s @ [call_of x] \<and> grants env (authorization_of x))"

lemma discover_assets_calls:
  "one_authorized_call env (Do_Discover source_id identity) s (snd (discover_assets env source_id identity s))"
  unfolding discover_assets_def one_authorized_call_def
  by (auto simp: sm_bind_def note_call_def dest!: authorize_cases lookup_connector_state emit_calls'
      split: sum.splits prod.splits)

lemma search_source_calls:
  "one_authorized_call env (Do_Search q identity) s (snd (search_source env q identity s))"
  unfolding search_source_def one_authorized_call_def
  by (auto simp: sm_bind_def note_call_def dest!: authorize_cases lookup_connector_state emit_calls'
      semaphore_calls split: sum.splits prod.splits)

lemma execute_query_calls:
  "one_authorized_call env (Do_Execute q identity) s (snd (execute_query env q identity s))"
  unfolding execute_query_def one_authorized_call_def
  by (auto simp: sm_bind_def note_call_def dest!: authorize_cases lookup_connector_state
      semaphore_calls stream_loop_calls split: sum.splits prod.splits)

lemma gateway_step_calls: "one_authorized_call env x s (gateway_step env x s)"
  by (cases x) (simp_all add: discover_assets_calls search_source_calls execute_query_calls)

text \<open>The client of a sound evaluator: what a connector was asked to do was permitted.\<close>

context sound_policy begin

lemma calls_permitted_step:
  assumes "he_policy env = (\<lambda>r. Inr (evaluate r))"
    and "\<forall>c \<in> set (gs_calls s). \<exists>x \<in> X. c = call_of x \<and> permitted (authorization_of x)" and "x \<in> X"
  shows "\<forall>c \<in> set (gs_calls (gateway_step env x s)). \<exists>x \<in> X. c = call_of x \<and> permitted (authorization_of x)"
proof -
  have "permitted (authorization_of x)" if "grants env (authorization_of x)"
    using that assms(1) allowed_permitted by (simp add: grants_def)
  then have new: "\<exists>y \<in> X. call_of x = call_of y \<and> permitted (authorization_of y)"
    if "grants env (authorization_of x)" using that assms(3) by blast
  show ?thesis
    using gateway_step_calls [of env x s] assms(2) new unfolding one_authorized_call_def
    by (elim disjE) simp_all
qed

lemma calls_permitted:
  assumes "he_policy env = (\<lambda>r. Inr (evaluate r))" and "set xs \<subseteq> X"
    and "\<forall>c \<in> set (gs_calls s). \<exists>x \<in> X. c = call_of x \<and> permitted (authorization_of x)"
  shows "\<forall>c \<in> set (gs_calls (run_ops (gateway_step env) xs s)).
      \<exists>x \<in> X. c = call_of x \<and> permitted (authorization_of x)"
  using assms(2,3)
proof (induction xs arbitrary: s)
  case (Cons x xs)
  from Cons.prems have "x \<in> X" "set xs \<subseteq> X" by auto
  with Cons.IH [OF \<open>set xs \<subseteq> X\<close> calls_permitted_step [OF assms(1) Cons.prems(2) \<open>x \<in> X\<close>]]
  show ?case by simp
qed simp

end

text \<open>
  C12. Under the field and relationship policy over a static allow-list, whatever sequence of requests
  the gateway serves and however its connectors, sink and deadlines behave, a connector only ever runs a
  query for a request whose source and QUERY capability are allow-listed and whose assets, selected
  fields, filters and relationships lie within the grant of the identity on whose behalf the call was made.
\<close>

theorem executed_queries_within_grant:
  assumes "he_policy env = (\<lambda>r. Inr (field_policy rep (static_policy allowed) grants_given r))"
    and "Call_Execute q identity \<in> set (gs_calls (run_ops (gateway_step env) xs gateway_start))"
  shows "\<exists>g. Do_Execute q identity \<in> set xs \<and> (qr_source_id q, Query) \<in> set allowed
    \<and> dict_get (grant_table grants_given) (request_key (query_authorization q identity)) = Some g
    \<and> query_in_scope rep g (query_authorization q identity)"
proof -
  obtain x where x: "x \<in> set xs" "Call_Execute q identity = call_of x"
    "(ar_source_id (authorization_of x), ar_capability (authorization_of x)) \<in> set allowed"
    "ar_capability (authorization_of x) = Query \<longrightarrow> (\<exists>g. dict_get (grant_table grants_given)
        (request_key (authorization_of x)) = Some g \<and> query_in_scope rep g (authorization_of x))"
    using field_grants.calls_permitted [OF assms(1) subset_refl, where xs = xs and s = gateway_start] assms(2)
    by (auto simp: gateway_start_def)
  show ?thesis
  proof (cases x)
    case (Do_Execute q' identity')
    with x show ?thesis by auto
  qed (use x in simp_all)
qed

section \<open>Limits of a result\<close>

definition batch_size :: "data_batch \<Rightarrow> int" where
  "batch_size b = (case batch_bytes b of Inl _ \<Rightarrow> 0 | Inr n \<Rightarrow> n)"

definition batch_length :: "data_batch \<Rightarrow> int" where
  "batch_length b = (case batch_rows b of Inl _ \<Rightarrow> 0 | Inr n \<Rightarrow> n)"

lemma check_batch_Inr:
  "check_batch p q tb tr b = Inr (n, tb', tr') \<Longrightarrow>
     batch_bytes b = Inr n \<and> tb' = tb + batch_size b \<and> tr' = tr + batch_length b
     \<and> tb' \<le> cl_max_result_bytes (pf_limits p) \<and> tr' \<le> qr_limit q
     \<and> (\<exists>v \<in> set (db_source_versions b). sv_source_id v = qr_source_id q)"
  by (auto simp: check_batch_def batch_size_def batch_length_def list_ex_iff split: sum.splits if_splits)

definition totals_ok :: "connector_profile \<Rightarrow> query_request \<Rightarrow> int \<Rightarrow> int \<Rightarrow> data_batch list \<Rightarrow> bool" where
  "totals_ok p q tb tr bs \<longleftrightarrow> bs = []
     \<or> (tb + sum_list (map batch_size bs) \<le> cl_max_result_bytes (pf_limits p)
        \<and> tr + sum_list (map batch_length bs) \<le> qr_limit q
        \<and> (\<forall>b \<in> set bs. \<exists>v \<in> set (db_source_versions b). sv_source_id v = qr_source_id q))"

lemma stream_loop_sound:
  "stream_loop env p q identity bs ending tb tr ys s = ((out, oc), t) \<Longrightarrow>
     \<exists>taken rest. out = ys @ taken \<and> bs = taken @ rest \<and> totals_ok p q tb tr taken
       \<and> (oc = None \<longrightarrow> rest = [] \<and> ending = None)"
proof (induction bs arbitrary: tb tr ys s)
  case Nil
  then show ?case by (auto simp: totals_ok_def)
next
  case (Cons b bs)
  show ?case
  proof (cases "check_batch p q tb tr b")
    case (Inl e)
    with Cons.prems show ?thesis by (auto simp: totals_ok_def)
  next
    case (Inr x)
    obtain n tb' tr' where x: "x = (n, tb', tr')" by (cases x)
    note c = check_batch_Inr [OF Inr [unfolded x]]
    show ?thesis
    proof (cases "out = ys \<and> oc \<noteq> None")
      case True
      then show ?thesis by (auto simp: totals_ok_def)
    next
      case False
      with Cons.prems Inr x obtain u where
          "stream_loop env p q identity bs ending tb' tr' (ys @ [b]) u = ((out, oc), t)"
        by (auto split: prod.splits sum.splits)
      from Cons.IH [OF this] obtain taken rest where *: "out = (ys @ [b]) @ taken" "bs = taken @ rest"
          "totals_ok p q tb' tr' taken" "oc = None \<longrightarrow> rest = [] \<and> ending = None" by blast
      with c have "totals_ok p q tb tr (b # taken)" by (auto simp: totals_ok_def)
      with * show ?thesis by (intro exI [of _ "b # taken"] exI [of _ rest]) auto
    qed
  qed
qed

lemma execute_query_stream:
  assumes "execute_query env q identity s = ((yielded, outcome), t)" and "b \<in> set yielded"
  shows "b \<in> set (fst (he_stream env q)) \<and> grants env (query_authorization q identity)"
proof -
  obtain batches ending where st: "he_stream env q = (batches, ending)" by (cases "he_stream env q")
  from assms st obtain p u oc where "grants env (query_authorization q identity)"
    and "stream_loop env p q identity batches ending 0 0 [] u = ((yielded, oc), t)"
    by (auto simp: execute_query_def sm_bind_Inr_iff dest!: authorize_cases split: sum.splits prod.splits)
  with stream_loop_sound [OF this(2)] st assms(2) show ?thesis by auto
qed

lemma search_source_found:
  assumes "search_source env q identity s = (Inr hits, t)"
  shows "he_search env q = Inr hits \<and> grants env (search_authorization q identity)"
  using assms
  by (auto simp: search_source_def check_hits_def Let_def sm_bind_Inr_iff dest!: authorize_cases
      split: sum.splits if_splits)

text \<open>
  C26. What \<open>execute\<close> yields is a prefix of what the connector streamed, and within the limits: the bytes
  of the yielded batches (declared or measured, whichever is larger) never exceed the connector's byte
  limit, the rows never exceed the requested limit, and every yielded batch carries a version of the
  requested source. If it ends without an exception, the whole stream was yielded.
\<close>

theorem executed_results_within_limits:
  assumes "execute_query env q identity s = ((yielded, outcome), t)"
  shows "(\<exists>rest. fst (he_stream env q) = yielded @ rest)
    \<and> (yielded \<noteq> [] \<longrightarrow> (\<exists>p. get_connector (he_registry env) (qr_source_id q) (Some Query) = Inr p
        \<and> sum_list (map batch_size yielded) \<le> cl_max_result_bytes (pf_limits p)
        \<and> sum_list (map batch_length yielded) \<le> qr_limit q
        \<and> (\<forall>b \<in> set yielded. \<exists>v \<in> set (db_source_versions b). sv_source_id v = qr_source_id q)))
    \<and> (outcome = None \<longrightarrow> he_stream env q = (yielded, None) \<and> grants env (query_authorization q identity))"
proof (cases "yielded = [] \<and> outcome \<noteq> None")
  case True
  then show ?thesis by auto
next
  case False
  obtain batches ending where st: "he_stream env q = (batches, ending)" by (cases "he_stream env q")
  from assms False st obtain p u oc where p: "get_connector (he_registry env) (qr_source_id q) (Some Query) = Inr p"
    and g: "grants env (query_authorization q identity)"
    and loop: "stream_loop env p q identity batches ending 0 0 [] u = ((yielded, oc), t)"
    and oc: "outcome = map_option (as_deadline (qr_source_id q)) oc"
    by (auto simp: execute_query_def sm_bind_Inr_iff dest!: authorize_cases split: sum.splits prod.splits)
  from stream_loop_sound [OF loop] oc st p g show ?thesis
    by (auto simp: totals_ok_def)
qed

definition sample_version :: source_version where
  "sample_version = \<lparr>sv_source_id = ''lab.mutable'', sv_version = ''v1'', sv_observed_at = utc 0,
     sv_effective_at = None\<rparr>"

definition sample_batch :: data_batch where
  "sample_batch = \<lparr>db_kind = BK_Arrow, db_payload = P_Json (JArr [JObj [(''id'', JInt 1)]]),
     db_source_versions = [sample_version], db_lineage = [], db_row_count = Some 1, db_byte_count = None\<rparr>"

definition sample_gateway_grant :: query_access_grant where
  "sample_gateway_grant = sample_grant\<lparr>gr_source_id := ''lab.mutable''\<rparr>"

definition sample_env :: harness_env where
  "sample_env = \<lparr>he_registry = sample_registry,
     he_policy = (\<lambda>r. Inr (field_policy (\<lambda>_. []) (static_policy [(''lab.mutable'', Query)]) [sample_gateway_grant] r)),
     he_sink = (\<lambda>_ _. None), he_clock = int, he_isoformat = (\<lambda>_. []), he_discover = (\<lambda>_. Inr []),
     he_stream = (\<lambda>_. ([sample_batch, sample_batch], None)), he_search = (\<lambda>_. Inr [])\<rparr>"

definition sample_request :: "int \<Rightarrow> query_request" where
  "sample_request n = \<lparr>qr_source_id = ''lab.mutable'', qr_asset_ids = [''orders''],
     qr_plan = [(''select_by_asset'', JObj [(''orders'', JArr [JStr ''id''])])], qr_limit = n,
     qr_deadline_ms = 100, qr_purpose = ''audit'', qr_policy_attributes = []\<rparr>"

lemma sample_execution:
  "fst (execute_query sample_env (sample_request 1) sample_identity gateway_start)
     = ([sample_batch], Some (Gw_Violation ''connector returned more rows than requested''))"
  "gs_calls (snd (execute_query sample_env (sample_request 1) sample_identity gateway_start))
     = [Call_Execute (sample_request 1) sample_identity]"
  by code_simp+

theorem executed_queries_within_grant_witness:
  "query_in_scope (\<lambda>_. []) sample_gateway_grant (query_authorization (sample_request 1) sample_identity)"
proof -
  have env: "he_policy sample_env = (\<lambda>r. Inr (field_policy (\<lambda>_. []) (static_policy [(''lab.mutable'', Query)])
      [sample_gateway_grant] r))" by (simp add: sample_env_def)
  have "Call_Execute (sample_request 1) sample_identity
      \<in> set (gs_calls (run_ops (gateway_step sample_env) [Do_Execute (sample_request 1) sample_identity] gateway_start))"
    by (simp add: sample_execution)
  from executed_queries_within_grant [OF env this] show ?thesis
    by (auto simp: grant_table_def split: if_splits)
qed

theorem executed_results_within_limits_witness:
  "\<exists>yielded outcome t. execute_query sample_env (sample_request 1) sample_identity gateway_start
      = ((yielded, outcome), t) \<and> yielded \<noteq> [] \<and> sum_list (map batch_length yielded) \<le> 1"
proof -
  obtain t where t: "execute_query sample_env (sample_request 1) sample_identity gateway_start
      = (([sample_batch], Some (Gw_Violation ''connector returned more rows than requested'')), t)"
    using sample_execution(1) by (metis prod.collapse)
  from executed_results_within_limits [OF this] have "sum_list (map batch_length [sample_batch]) \<le> 1"
    by (auto simp: sample_request_def)
  with t show ?thesis by blast
qed

end
