(* ===== verification/Mapping_Governance.thy ===== *)
theory Mapping_Governance
  imports Data_Models
begin

text \<open>
  governance.py: mapping candidates, steward reviews and schema drift. A confidence is the rational
  value of the source's float (a NaN is refused by the constructor). The registry is three dictionaries
  keyed by mapping id; \<open>governance_step\<close> is what a caller can do to it, constructor checks included.
\<close>

datatype mapping_status = MS_Proposed | MS_Approved | MS_Rejected | MS_Quarantined

record mapping_candidate =
  mc_mapping_id :: string
  mc_concept_id :: string
  mc_source_id :: string
  mc_asset_id :: string
  mc_field_path :: string
  mc_confidence :: rat
  mc_schema_digest :: string
  mc_proposed_at :: datetime
  mc_rationale :: string
  mc_lineage :: "lineage_ref list"

definition mk_mapping_candidate :: "mapping_candidate \<Rightarrow> mapping_candidate checked" where
  "mk_mapping_candidate c =
     (let required = [mc_mapping_id c, mc_concept_id c, mc_source_id c, mc_asset_id c,
                      mc_field_path c, mc_schema_digest c, mc_rationale c]
      in if list_ex (\<lambda>v. v = []) required
         then Inl (ValueError ''semantic mapping identity, target, schema and rationale are required'')
         else if \<not> (0 \<le> mc_confidence c \<and> mc_confidence c \<le> 1)
         then Inl (ValueError ''mapping confidence must be between zero and one'')
         else if \<not> aware (mc_proposed_at c) \<or> mc_lineage c = []
         then Inl (ValueError ''semantic mappings require time and lineage'')
         else Inr c)"

record mapping_review =
  mr_mapping_id :: string
  mr_status :: mapping_status
  mr_reviewed_by :: string
  mr_reviewed_at :: datetime
  mr_reason :: string

definition mk_mapping_review :: "mapping_review \<Rightarrow> mapping_review checked" where
  "mk_mapping_review r =
     (if mr_status r \<notin> {MS_Approved, MS_Rejected}
      then Inl (ValueError ''a review must approve or reject a mapping'')
      else if \<not> str_startswith (mr_reviewed_by r) ''human:''
      then Inl (ValueError ''mapping review requires an explicit human steward identity'')
      else if \<not> aware (mr_reviewed_at r) \<or> mr_reason r = []
      then Inl (ValueError ''mapping review requires time and reason'')
      else Inr r)"

record mapping_drift =
  md_mapping_id :: string
  md_source_id :: string
  md_asset_id :: string
  md_expected_schema_digest :: string
  md_observed_schema_digest :: string
  md_detected_at :: datetime

definition mk_mapping_drift :: "mapping_drift \<Rightarrow> mapping_drift checked" where
  "mk_mapping_drift d =
     (if md_expected_schema_digest d = md_observed_schema_digest d
      then Inl (ValueError ''drift requires different schema digests'')
      else if \<not> aware (md_detected_at d)
      then Inl (ValueError ''drift detection time must be timezone-aware'')
      else Inr d)"

section \<open>The registry\<close>

record mapping_registry =
  mg_candidates :: "(string, mapping_candidate) dict"
  mg_reviews :: "(string, mapping_review) dict"
  mg_drift :: "(string, mapping_drift) dict"

definition empty_mappings :: mapping_registry where
  "empty_mappings = \<lparr>mg_candidates = [], mg_reviews = [], mg_drift = []\<rparr>"

definition propose :: "mapping_candidate \<Rightarrow> mapping_registry \<Rightarrow> mapping_registry checked" where
  "propose c s =
     (if mc_mapping_id c \<in> set (dict_keys (mg_candidates s))
      then Inl (ValueError ''mapping already exists'')
      else Inr (s\<lparr>mg_candidates := dict_set (mc_mapping_id c) c (mg_candidates s)\<rparr>))"

definition review_mapping :: "mapping_review \<Rightarrow> mapping_registry \<Rightarrow> mapping_registry checked" where
  "review_mapping r s =
     (case dict_get (mg_candidates s) (mr_mapping_id r) of
        None \<Rightarrow> Inl (KeyError ''unknown mapping'')
      | Some c \<Rightarrow>
          if mr_mapping_id r \<in> set (dict_keys (mg_reviews s))
          then Inl (ValueError ''mapping already reviewed'')
          else if instant (mr_reviewed_at r) < instant (mc_proposed_at c)
          then Inl (ValueError ''mapping review cannot predate its proposal'')
          else Inr (s\<lparr>mg_reviews := dict_set (mr_mapping_id r) r (mg_reviews s)\<rparr>))"

definition approved :: "bool \<Rightarrow> mapping_registry \<Rightarrow> mapping_candidate list" where
  "approved include_quarantined s =
     sort_key mc_mapping_id (map snd (filter (\<lambda>(mapping_id, c).
       (case dict_get (mg_reviews s) mapping_id of None \<Rightarrow> False | Some r \<Rightarrow> mr_status r = MS_Approved)
       \<and> (include_quarantined \<or> mapping_id \<notin> set (dict_keys (mg_drift s)))) (mg_candidates s)))"

definition approved_for :: "string \<Rightarrow> mapping_registry \<Rightarrow> mapping_candidate list" where
  "approved_for concept_id s = filter (\<lambda>c. mc_concept_id c = concept_id) (approved False s)"

definition drifted :: "string \<Rightarrow> string \<Rightarrow> string \<Rightarrow> mapping_registry \<Rightarrow> mapping_candidate list" where
  "drifted source_id asset_id digest s =
     filter (\<lambda>c. mc_source_id c = source_id \<and> mc_asset_id c = asset_id \<and> mc_schema_digest c \<noteq> digest)
       (approved True s)"

definition drift_of :: "string \<Rightarrow> datetime \<Rightarrow> mapping_candidate \<Rightarrow> mapping_drift" where
  "drift_of digest detected_at c = \<lparr>md_mapping_id = mc_mapping_id c, md_source_id = mc_source_id c,
     md_asset_id = mc_asset_id c, md_expected_schema_digest = mc_schema_digest c,
     md_observed_schema_digest = digest, md_detected_at = detected_at\<rparr>"

fun detect_loop ::
  "string \<Rightarrow> datetime \<Rightarrow> mapping_candidate list \<Rightarrow> mapping_drift list \<Rightarrow> mapping_registry
    \<Rightarrow> (py_error + mapping_drift list) \<times> mapping_registry" where
  "detect_loop digest detected_at [] found s = (Inr found, s)"
| "detect_loop digest detected_at (c # cs) found s =
     (case mk_mapping_drift (drift_of digest detected_at c) of
        Inl e \<Rightarrow> (Inl e, s)
      | Inr d \<Rightarrow> detect_loop digest detected_at cs (found @ [d])
                 (s\<lparr>mg_drift := dict_set (mc_mapping_id c) d (mg_drift s)\<rparr>))"

definition detect_drift ::
  "string \<Rightarrow> string \<Rightarrow> string \<Rightarrow> datetime \<Rightarrow> (mapping_registry, py_error, mapping_drift list) sm" where
  "detect_drift source_id asset_id digest detected_at s =
     detect_loop digest detected_at (drifted source_id asset_id digest s) [] s"

definition mapping_status_of :: "mapping_registry \<Rightarrow> string \<Rightarrow> mapping_status checked" where
  "mapping_status_of s mapping_id =
     (if mapping_id \<notin> set (dict_keys (mg_candidates s)) then Inl (KeyError mapping_id)
      else if mapping_id \<in> set (dict_keys (mg_drift s)) then Inr MS_Quarantined
      else Inr (case dict_get (mg_reviews s) mapping_id of None \<Rightarrow> MS_Proposed | Some r \<Rightarrow> mr_status r))"

section \<open>What a caller can do\<close>

datatype governance_op =
    Propose_Mapping mapping_candidate
  | Review_Mapping mapping_review
  | Detect_Drift string string string datetime

primrec governance_step :: "governance_op \<Rightarrow> mapping_registry \<Rightarrow> mapping_registry" where
  "governance_step (Propose_Mapping c) s =
     (case mk_mapping_candidate c of Inl _ \<Rightarrow> s | Inr c' \<Rightarrow> attempt (propose c') s)"
| "governance_step (Review_Mapping r) s =
     (case mk_mapping_review r of Inl _ \<Rightarrow> s | Inr r' \<Rightarrow> attempt (review_mapping r') s)"
| "governance_step (Detect_Drift source_id asset_id digest tm) s = snd (detect_drift source_id asset_id digest tm s)"

lemma mk_mapping_candidate_Inr [checks]:
  "mk_mapping_candidate c = Inr d \<Longrightarrow> d = c \<and> mc_mapping_id c \<noteq> [] \<and> mc_lineage c \<noteq> []
     \<and> 0 \<le> mc_confidence c \<and> mc_confidence c \<le> 1"
  by (auto simp: mk_mapping_candidate_def Let_def list_ex_iff split: if_splits)

lemma mk_mapping_review_Inr [checks]:
  "mk_mapping_review r = Inr q \<longleftrightarrow> q = r \<and> (mr_status r = MS_Approved \<or> mr_status r = MS_Rejected)
     \<and> str_startswith (mr_reviewed_by r) ''human:'' \<and> aware (mr_reviewed_at r) \<and> mr_reason r \<noteq> []"
  by (auto simp: mk_mapping_review_def)

lemma propose_Inr:
  "propose c s = Inr t \<longleftrightarrow> dict_get (mg_candidates s) (mc_mapping_id c) = None
     \<and> t = s\<lparr>mg_candidates := dict_set (mc_mapping_id c) c (mg_candidates s)\<rparr>"
  by (auto simp: propose_def dict_get_None)

lemma review_mapping_Inr:
  "review_mapping r s = Inr t \<longleftrightarrow> (\<exists>c. dict_get (mg_candidates s) (mr_mapping_id r) = Some c
     \<and> dict_get (mg_reviews s) (mr_mapping_id r) = None
     \<and> instant (mc_proposed_at c) \<le> instant (mr_reviewed_at r)
     \<and> t = s\<lparr>mg_reviews := dict_set (mr_mapping_id r) r (mg_reviews s)\<rparr>)"
  by (auto simp: review_mapping_def in_keys simp del: set_map split: option.splits)

text \<open>Candidates and reviews are write-once stores.\<close>

interpretation candidate_store: write_once mc_mapping_id "\<lambda>s. dict_get (mg_candidates s)" propose
  by unfold_locales (auto simp: propose_Inr)

interpretation review_store: write_once mr_mapping_id "\<lambda>s. dict_get (mg_reviews s)" review_mapping
  by unfold_locales (auto simp: review_mapping_Inr)

lemma detect_loop_state:
  "mg_candidates (snd (detect_loop g tm cs found s)) = mg_candidates s
   \<and> mg_reviews (snd (detect_loop g tm cs found s)) = mg_reviews s
   \<and> set (dict_keys (mg_drift s)) \<subseteq> set (dict_keys (mg_drift (snd (detect_loop g tm cs found s))))
   \<and> set (dict_keys (mg_drift (snd (detect_loop g tm cs found s))))
       \<subseteq> set (dict_keys (mg_drift s)) \<union> mc_mapping_id ` set cs"
proof (induction cs arbitrary: found s)
  case (Cons c cs)
  show ?case
  proof (cases "mk_mapping_drift (drift_of g tm c)")
    case (Inr d)
    with Cons.IH [of "found @ [d]" "s\<lparr>mg_drift := dict_set (mc_mapping_id c) d (mg_drift s)\<rparr>"]
    show ?thesis by auto
  qed auto
qed simp

lemma detect_loop_all:
  "fst (detect_loop g tm cs found s) = Inr ds \<Longrightarrow>
     mc_mapping_id ` set cs \<subseteq> set (dict_keys (mg_drift (snd (detect_loop g tm cs found s))))"
proof (induction cs arbitrary: found s)
  case (Cons c cs)
  then show ?case
  proof (cases "mk_mapping_drift (drift_of g tm c)")
    case (Inr d)
    let ?s = "s\<lparr>mg_drift := dict_set (mc_mapping_id c) d (mg_drift s)\<rparr>"
    have "mc_mapping_id c \<in> set (dict_keys (mg_drift ?s))" by simp
    then have "mc_mapping_id c \<in> set (dict_keys (mg_drift (snd (detect_loop g tm cs (found @ [d]) ?s))))"
      using detect_loop_state by blast
    with Cons Inr show ?thesis by auto
  qed simp
qed simp

lemma detect_loop_returns:
  "\<forall>c \<in> set cs. mc_schema_digest c \<noteq> digest \<Longrightarrow> aware tm \<Longrightarrow>
     \<exists>ds. fst (detect_loop digest tm cs found s) = Inr ds"
  by (induction cs arbitrary: found s) (auto simp: mk_mapping_drift_def drift_of_def)

text \<open>A registry only grows.\<close>

definition mappings_le :: "mapping_registry \<Rightarrow> mapping_registry \<Rightarrow> bool" where
  "mappings_le s t \<longleftrightarrow>
     (\<forall>k c. dict_get (mg_candidates s) k = Some c \<longrightarrow> dict_get (mg_candidates t) k = Some c)
   \<and> (\<forall>k r. dict_get (mg_reviews s) k = Some r \<longrightarrow> dict_get (mg_reviews t) k = Some r)
   \<and> set (dict_keys (mg_drift s)) \<subseteq> set (dict_keys (mg_drift t))"

lemma mappings_le_refl [simp]: "mappings_le s s"
  by (simp add: mappings_le_def)

lemma propose_le: "mappings_le s (attempt (propose c) s)"
  using candidate_store.put_keeps [of s _ _ c]
  by (cases "propose c s") (auto simp: mappings_le_def propose_Inr)

lemma review_mapping_le: "mappings_le s (attempt (review_mapping r) s)"
  using review_store.put_keeps [of s _ _ r]
  by (cases "review_mapping r s") (auto simp: mappings_le_def review_mapping_Inr)

interpretation governance: growing_system governance_step mappings_le
proof unfold_locales
  show "mappings_le s s" for s by simp
  show "mappings_le s u" if "mappings_le s t" "mappings_le t u" for s t u
    using that unfolding mappings_le_def by blast
  show "mappings_le s (governance_step x s)" for s x
  proof (cases x)
    case (Propose_Mapping c)
    then show ?thesis by (simp add: propose_le split: sum.split)
  next
    case (Review_Mapping r)
    then show ?thesis by (simp add: review_mapping_le split: sum.split)
  next
    case (Detect_Drift a b c d)
    then show ?thesis using detect_loop_state by (simp add: mappings_le_def detect_drift_def)
  qed
qed

text \<open>Every entry comes from an operation of the run and passed its constructor.\<close>

definition mappings_ok :: "governance_op set \<Rightarrow> mapping_registry \<Rightarrow> bool" where
  "mappings_ok X s \<longleftrightarrow> dict_wf (mg_candidates s)
   \<and> (\<forall>k c. dict_get (mg_candidates s) k = Some c \<longrightarrow> mc_mapping_id c = k \<and> Propose_Mapping c \<in> X
        \<and> mk_mapping_candidate c = Inr c)
   \<and> (\<forall>k r. dict_get (mg_reviews s) k = Some r \<longrightarrow> mr_mapping_id r = k \<and> Review_Mapping r \<in> X
        \<and> mk_mapping_review r = Inr r
        \<and> (\<exists>c. dict_get (mg_candidates s) k = Some c \<and> instant (mc_proposed_at c) \<le> instant (mr_reviewed_at r)))"

lemma propose_ok:
  assumes "mappings_ok X s" and "Propose_Mapping c \<in> X" and "mk_mapping_candidate c = Inr c"
  shows "mappings_ok X (attempt (propose c) s)"
proof (cases "propose c s")
  case (Inr t)
  then have new: "dict_get (mg_candidates s) (mc_mapping_id c) = None"
    and t: "t = s\<lparr>mg_candidates := dict_set (mc_mapping_id c) c (mg_candidates s)\<rparr>"
    by (simp_all add: propose_Inr)
  have "\<exists>d. ((dict_get (mg_candidates s))(mc_mapping_id c \<mapsto> c)) k = Some d \<and> P d"
    if "\<exists>d. dict_get (mg_candidates s) k = Some d \<and> P d" for k P
    using that new by auto
  with assms show ?thesis unfolding attempt_Inr [of "propose c", OF Inr]
    by (simp add: t mappings_ok_def)
qed (use assms in simp)

lemma review_mapping_ok:
  assumes "mappings_ok X s" and "Review_Mapping r \<in> X" and "mk_mapping_review r = Inr r"
  shows "mappings_ok X (attempt (review_mapping r) s)"
proof (cases "review_mapping r s")
  case (Inr t)
  with assms show ?thesis by (auto simp: review_mapping_Inr mappings_ok_def split: if_splits)
qed (use assms in simp)

lemma governance_step_ok:
  assumes "mappings_ok X s" and "x \<in> X"
  shows "mappings_ok X (governance_step x s)"
proof (cases x)
  case (Propose_Mapping c)
  show ?thesis
  proof (cases "mk_mapping_candidate c")
    case (Inr c')
    with assms Propose_Mapping show ?thesis
      using mk_mapping_candidate_Inr [OF Inr] by (simp add: propose_ok)
  qed (use assms Propose_Mapping in simp)
next
  case (Review_Mapping r)
  with assms show ?thesis
    by (auto simp: review_mapping_ok mk_mapping_review_Inr split: sum.split)
next
  case (Detect_Drift a b c d)
  with assms detect_loop_state show ?thesis by (simp add: mappings_ok_def detect_drift_def)
qed

lemma governance_run_ok:
  "mappings_ok X s \<Longrightarrow> set xs \<subseteq> X \<Longrightarrow> mappings_ok X (run_ops governance_step xs s)"
  by (induction xs arbitrary: s) (simp_all add: governance_step_ok)

lemma governance_empty_ok: "mappings_ok X empty_mappings"
  by (simp add: mappings_ok_def empty_mappings_def)

lemma approved_iff:
  "dict_wf (mg_candidates s) \<Longrightarrow> c \<in> set (approved q s) \<longleftrightarrow>
     (\<exists>k r. dict_get (mg_candidates s) k = Some c \<and> dict_get (mg_reviews s) k = Some r
        \<and> mr_status r = MS_Approved \<and> (q \<or> k \<notin> set (dict_keys (mg_drift s))))"
  by (force simp: approved_def dict_get_Some_in split: option.splits)

text \<open>
  C25. A mapping is approved (and so usable for routing) only if it was proposed and a review that names
  an explicit human steward, and is not dated before the proposal, approved it; whatever else automation
  submitted, in any order, and no drift was detected for it.
\<close>

theorem approved_needs_human_review:
  assumes "c \<in> set (approved False (run_ops governance_step ops empty_mappings))"
  shows "\<exists>r. Propose_Mapping c \<in> set ops \<and> Review_Mapping r \<in> set ops
    \<and> mr_mapping_id r = mc_mapping_id c \<and> mr_status r = MS_Approved
    \<and> str_startswith (mr_reviewed_by r) ''human:''
    \<and> instant (mc_proposed_at c) \<le> instant (mr_reviewed_at r)
    \<and> 0 \<le> mc_confidence c \<and> mc_confidence c \<le> 1
    \<and> mapping_status_of (run_ops governance_step ops empty_mappings) (mc_mapping_id c) = Inr MS_Approved"
proof -
  let ?s = "run_ops governance_step ops empty_mappings"
  have ok: "mappings_ok (set ops) ?s"
    by (rule governance_run_ok) (simp_all add: governance_empty_ok)
  then obtain k r where *: "dict_get (mg_candidates ?s) k = Some c" "dict_get (mg_reviews ?s) k = Some r"
      "mr_status r = MS_Approved" "k \<notin> set (dict_keys (mg_drift ?s))"
    using assms by (auto simp: mappings_ok_def approved_iff simp del: set_map)
  with ok have k: "k = mc_mapping_id c" "mr_mapping_id r = k" "Propose_Mapping c \<in> set ops"
      "Review_Mapping r \<in> set ops" "mk_mapping_review r = Inr r" "mk_mapping_candidate c = Inr c"
      "instant (mc_proposed_at c) \<le> instant (mr_reviewed_at r)"
    by (force simp: mappings_ok_def)+
  moreover have "mapping_status_of ?s (mc_mapping_id c) = Inr MS_Approved"
    using * k(1) by (simp add: mapping_status_of_def in_keys del: set_map)
  ultimately show ?thesis
    using * mk_mapping_candidate_Inr [OF k(6)] by (auto simp: mk_mapping_review_Inr)
qed

text \<open>
  Quarantine is sticky: once a schema change of an approved mapping's asset has been detected, the
  mapping's status is quarantined and routing never sees it again, whatever is proposed, reviewed or
  detected later.
\<close>

lemma drift_quarantines_for_good:
  fixes ops ops' c observed tm
  defines "t \<equiv> run_ops governance_step
      (ops @ Detect_Drift (mc_source_id c) (mc_asset_id c) observed tm # ops') empty_mappings"
  assumes "c \<in> set (approved True (run_ops governance_step ops empty_mappings))"
    and "mc_schema_digest c \<noteq> observed" and "aware tm"
  shows "mapping_status_of t (mc_mapping_id c) = Inr MS_Quarantined
    \<and> (\<forall>c'. c' \<in> set (approved False t) \<longrightarrow> mc_mapping_id c' \<noteq> mc_mapping_id c)"
proof -
  let ?s = "run_ops governance_step ops empty_mappings"
  let ?d = "drifted (mc_source_id c) (mc_asset_id c) observed ?s"
  let ?u = "snd (detect_drift (mc_source_id c) (mc_asset_id c) observed tm ?s)"
  have t: "t = run_ops governance_step ops' ?u" by (simp add: t_def run_ops_append)
  obtain ds where "fst (detect_loop observed tm ?d [] ?s) = Inr ds"
    using detect_loop_returns [of ?d observed tm "[]" ?s] assms(4) by (auto simp: drifted_def)
  from detect_loop_all [OF this] assms(2,3)
  have "mc_mapping_id c \<in> set (dict_keys (mg_drift ?u))"
    by (auto simp: detect_drift_def drifted_def simp del: set_map)
  then have q: "mc_mapping_id c \<in> set (dict_keys (mg_drift t))"
    using governance.run_le [of ?u ops'] t by (auto simp: mappings_le_def)
  have ok_s: "mappings_ok (set ops) ?s"
    by (rule governance_run_ok) (simp_all add: governance_empty_ok)
  let ?X = "set (ops @ Detect_Drift (mc_source_id c) (mc_asset_id c) observed tm # ops')"
  have ok_t: "mappings_ok ?X t"
    unfolding t_def by (rule governance_run_ok) (simp_all add: governance_empty_ok)
  from ok_s assms(2) have "dict_get (mg_candidates ?s) (mc_mapping_id c) = Some c"
    by (force simp: mappings_ok_def approved_iff)
  then have "dict_get (mg_candidates t) (mc_mapping_id c) = Some c"
    using governance.run_between [of ops empty_mappings] unfolding t_def mappings_le_def by blast
  with q have "mapping_status_of t (mc_mapping_id c) = Inr MS_Quarantined"
    by (simp add: mapping_status_of_def in_keys del: set_map)
  moreover have "mc_mapping_id c' \<noteq> mc_mapping_id c" if "c' \<in> set (approved False t)" for c'
    using that q ok_t by (auto simp: mappings_ok_def approved_iff simp del: set_map)
  ultimately show ?thesis by blast
qed

definition sample_candidate :: mapping_candidate where
  "sample_candidate = \<lparr>mc_mapping_id = ''m1'', mc_concept_id = ''revenue'', mc_source_id = ''erp'',
     mc_asset_id = ''orders'', mc_field_path = ''total'', mc_confidence = 9 / 10,
     mc_schema_digest = ''d1'', mc_proposed_at = utc 0, mc_rationale = ''name'',
     mc_lineage = [\<lparr>lin_source_id = ''erp'', lin_asset_id = ''orders'', lin_record_id = None,
       lin_field_path = None\<rparr>]\<rparr>"

definition sample_review :: mapping_review where
  "sample_review = \<lparr>mr_mapping_id = ''m1'', mr_status = MS_Approved, mr_reviewed_by = ''human:ada'',
     mr_reviewed_at = utc 1, mr_reason = ''checked''\<rparr>"

definition sample_approval :: "governance_op list" where
  "sample_approval = [Propose_Mapping sample_candidate, Review_Mapping sample_review]"

lemma sample_mapping_approved:
  "approved q (run_ops governance_step sample_approval empty_mappings) = [sample_candidate]"
  by (simp add: sample_approval_def mk_mapping_candidate_def sample_candidate_def attempt_def
      propose_def empty_mappings_def mk_mapping_review_def sample_review_def aware_def utc_def
      str_startswith_def review_mapping_def approved_def)

theorem approved_needs_human_review_witness:
  "\<exists>r. Review_Mapping r \<in> set sample_approval \<and> str_startswith (mr_reviewed_by r) ''human:''"
proof -
  have "sample_candidate \<in> set (approved False (run_ops governance_step sample_approval empty_mappings))"
    by (simp add: sample_mapping_approved)
  from approved_needs_human_review [OF this] show ?thesis by blast
qed

lemma drift_quarantines_for_good_example:
  "mapping_status_of (run_ops governance_step
      (sample_approval @ Detect_Drift ''erp'' ''orders'' ''d2'' (utc 5) # sample_approval) empty_mappings)
      ''m1'' = Inr MS_Quarantined"
proof -
  have "sample_candidate \<in> set (approved True (run_ops governance_step sample_approval empty_mappings))"
    and "mc_schema_digest sample_candidate \<noteq> ''d2''"
    by (simp_all add: sample_mapping_approved sample_candidate_def)
  from drift_quarantines_for_good [OF this, of "utc 5" sample_approval] show ?thesis
    by (simp add: sample_candidate_def)
qed

end
