(* ===== verification/Source_Routing.thy ===== *)
theory Source_Routing
  imports Mapping_Governance Freshness_Slo
begin

text \<open>
  routing.py: the semantic source router. Confidences are rationals (the floats' values); the float
  subtraction and division the router makes are rounded by the parameter \<open>rnd\<close>, the sum of a
  group's confidences is rounded after each addition. \<open>selected\<close> is a dictionary in insertion order.
\<close>

datatype route_status = Selected | Refused | Escalation_Required

record route_request =
  rq_request_id :: string
  rq_concept_ids :: "string list"
  rq_max_sources :: int
  rq_minimum_confidence :: rat
  rq_ambiguity_delta :: rat
  rq_freshness_slo :: freshness_slo

definition mk_route_request :: "route_request \<Rightarrow> route_request checked" where
  "mk_route_request q =
     (if rq_request_id q = [] \<or> rq_concept_ids q = [] \<or> rq_max_sources q \<le> 0
      then Inl (ValueError ''route request requires identity, concepts and a source bound'')
      else if \<not> (0 \<le> rq_minimum_confidence q \<and> rq_minimum_confidence q \<le> 1)
            \<or> \<not> (0 \<le> rq_ambiguity_delta q \<and> rq_ambiguity_delta q \<le> 1)
      then Inl (ValueError ''routing confidence values must be between zero and one'')
      else Inr q)"

record selected_route =
  ro_source_id :: string
  ro_asset_id :: string
  ro_concept_ids :: "string list"
  ro_mapping_ids :: "string list"
  ro_score :: rat
  ro_watermark :: string
  ro_lineage :: "lineage_ref list"

record route_decision =
  rd_request_id :: string
  rd_status :: route_status
  rd_routes :: "selected_route list"
  rd_uncovered_concepts :: "string list"
  rd_reason_codes :: "string list"

definition route_complete :: "route_decision \<Rightarrow> bool" where
  "route_complete d \<longleftrightarrow> rd_status d = Selected \<and> rd_uncovered_concepts d = []"

section \<open>One concept\<close>

record routing_state =
  rs_selected :: "(string \<times> string, mapping_candidate list) dict"
  rs_uncovered :: "string list"
  rs_ambiguous :: "string list"
  rs_stale :: "string list"
  rs_freshness_refused :: "string list"
  rs_degraded :: "string list"
  rs_degraded_candidates :: "string list"

definition routing_start :: routing_state where
  "routing_start = \<lparr>rs_selected = [], rs_uncovered = [], rs_ambiguous = [], rs_stale = [],
     rs_freshness_refused = [], rs_degraded = [], rs_degraded_candidates = []\<rparr>"

type_synonym assessor = "string \<Rightarrow> string \<Rightarrow> freshness_assessment checked"

fun assess_candidates :: "assessor \<Rightarrow> string \<Rightarrow> mapping_candidate list
    \<Rightarrow> (mapping_candidate \<times> string) list \<Rightarrow> routing_state
    \<Rightarrow> ((mapping_candidate \<times> string) list \<times> routing_state) checked" where
  "assess_candidates fresh concept [] eligible st = Inr (eligible, st)"
| "assess_candidates fresh concept (c # cs) eligible st =
     (case fresh (mc_source_id c) (mc_asset_id c) of
        Inl e \<Rightarrow> Inl e
      | Inr f \<Rightarrow>
          if fa_fresh f then assess_candidates fresh concept cs (eligible @ [(c, fa_watermark f)]) st
          else if fa_action f = Some Degrade
          then assess_candidates fresh concept cs (eligible @ [(c, fa_watermark f)])
                 (st\<lparr>rs_degraded_candidates := mc_mapping_id c # rs_degraded_candidates st\<rparr>)
          else if fa_action f = Some Refuse
          then assess_candidates fresh concept cs eligible
                 (st\<lparr>rs_freshness_refused := rs_freshness_refused st @ [concept]\<rparr>)
          else assess_candidates fresh concept cs eligible (st\<lparr>rs_stale := rs_stale st @ [concept]\<rparr>))"

definition rank :: "mapping_candidate \<times> string \<Rightarrow> mapping_candidate \<times> string \<Rightarrow> bool" where
  "rank a b \<longleftrightarrow> mc_confidence (fst b) < mc_confidence (fst a)
     \<or> mc_confidence (fst a) = mc_confidence (fst b) \<and> mc_mapping_id (fst a) \<le> mc_mapping_id (fst b)"

definition ranked :: "(mapping_candidate \<times> string) list \<Rightarrow> (mapping_candidate \<times> string) list" where
  \<comment> \<open>the stable sort by (-confidence, mapping_id): by the second component, then by the first\<close>
  "ranked xs = sort_key (\<lambda>x. - mc_confidence (fst x)) (sort_key (\<lambda>x. mc_mapping_id (fst x)) xs)"

definition route_concept :: "(rat \<Rightarrow> rat) \<Rightarrow> assessor \<Rightarrow> mapping_registry \<Rightarrow> route_request \<Rightarrow> string
    \<Rightarrow> routing_state \<Rightarrow> routing_state checked" where
  "route_concept rnd fresh mappings q concept st =
     (let candidates = filter (\<lambda>c. rq_minimum_confidence q \<le> mc_confidence c)
                         (approved_for concept mappings)
      in case assess_candidates fresh concept candidates [] st of
        Inl e \<Rightarrow> Inl e
      | Inr (unsorted, st1) \<Rightarrow>
          (case ranked unsorted of
             [] \<Rightarrow> Inr (st1\<lparr>rs_uncovered := rs_uncovered st1 @ [concept]\<rparr>)
           | first # others \<Rightarrow>
               if (case others of [] \<Rightarrow> False
                   | second # _ \<Rightarrow> rnd (mc_confidence (fst first) - mc_confidence (fst second))
                                   \<le> rq_ambiguity_delta q)
               then Inr (st1\<lparr>rs_ambiguous := rs_ambiguous st1 @ [concept]\<rparr>)
               else (let winner = fst first;
                         st2 = (if mc_mapping_id winner \<in> set (rs_degraded_candidates st1)
                                then st1\<lparr>rs_degraded := rs_degraded st1 @ [concept]\<rparr> else st1)
                     in Inr (st2\<lparr>rs_selected := setdefault_append
                               (mc_source_id winner, mc_asset_id winner) winner (rs_selected st2)\<rparr>))))"

fun route_concepts :: "(rat \<Rightarrow> rat) \<Rightarrow> assessor \<Rightarrow> mapping_registry \<Rightarrow> route_request \<Rightarrow> string list
    \<Rightarrow> routing_state \<Rightarrow> routing_state checked" where
  "route_concepts rnd fresh mappings q [] st = Inr st"
| "route_concepts rnd fresh mappings q (concept # concepts) st =
     (case route_concept rnd fresh mappings q concept st of
        Inl e \<Rightarrow> Inl e
      | Inr st' \<Rightarrow> route_concepts rnd fresh mappings q concepts st')"

section \<open>The decision\<close>

definition mean_confidence :: "(rat \<Rightarrow> rat) \<Rightarrow> mapping_candidate list \<Rightarrow> rat" where
  \<comment> \<open>the sum of Python 3.11, rounded after each addition; from 3.12 on \<open>sum\<close> of floats is compensated\<close>
  "mean_confidence rnd cs =
     rnd (foldl (\<lambda>acc c. rnd (acc + mc_confidence c)) 0 cs / of_nat (length cs))"

definition build_route :: "(rat \<Rightarrow> rat) \<Rightarrow> assessor \<Rightarrow> (string \<times> string) \<times> mapping_candidate list
    \<Rightarrow> selected_route checked" where
  "build_route rnd fresh entry =
     (case entry of ((source_id, asset_id), cs) \<Rightarrow>
        (case fresh source_id asset_id of
           Inl e \<Rightarrow> Inl e
         | Inr f \<Rightarrow> Inr \<lparr>ro_source_id = source_id, ro_asset_id = asset_id,
             ro_concept_ids = sort (map mc_concept_id cs),
             ro_mapping_ids = sort (map mc_mapping_id cs),
             ro_score = mean_confidence rnd cs, ro_watermark = fa_watermark f,
             ro_lineage = concat (map mc_lineage cs)\<rparr>))"

definition sorted_entries ::
  "(string \<times> string, 'v) dict \<Rightarrow> ((string \<times> string) \<times> 'v) list" where
  \<comment> \<open>\<open>sorted(selected.items())\<close>: the keys are distinct, so the values are never compared\<close>
  "sorted_entries d = sort_key (\<lambda>e. fst (fst e)) (sort_key (\<lambda>e. snd (fst e)) d)"

definition refusal_reasons :: "route_request \<Rightarrow> routing_state \<Rightarrow> string list" where
  "refusal_reasons q st =
     map (\<lambda>c. ''uncovered:'' @ c) (sorted_set (rs_uncovered st))
     @ map (\<lambda>c. ''stale:'' @ c) (sorted_set (rs_stale st))
     @ map (\<lambda>c. ''freshness_refused:'' @ c) (sorted_set (rs_freshness_refused st))
     @ (if int (length (rs_selected st)) > rq_max_sources q then [''source_bound_exceeded''] else [])"

definition decide :: "(rat \<Rightarrow> rat) \<Rightarrow> assessor \<Rightarrow> route_request \<Rightarrow> routing_state \<Rightarrow> route_decision checked" where
  "decide rnd fresh q st =
     (if rs_ambiguous st \<noteq> []
      then Inr \<lparr>rd_request_id = rq_request_id q, rd_status = Escalation_Required, rd_routes = [],
                rd_uncovered_concepts = sorted_set (rs_uncovered st @ rs_ambiguous st),
                rd_reason_codes = map (\<lambda>c. ''ambiguous_mapping:'' @ c) (sorted_set (rs_ambiguous st))\<rparr>
      else if rs_uncovered st \<noteq> [] \<or> int (length (rs_selected st)) > rq_max_sources q
      then Inr \<lparr>rd_request_id = rq_request_id q, rd_status = Refused, rd_routes = [],
                rd_uncovered_concepts = sorted_set (rs_uncovered st),
                rd_reason_codes = refusal_reasons q st\<rparr>
      else (case check_all (build_route rnd fresh) (sorted_entries (rs_selected st)) of
              Inl e \<Rightarrow> Inl e
            | Inr routes \<Rightarrow>
                Inr \<lparr>rd_request_id = rq_request_id q, rd_status = Selected, rd_routes = routes,
                     rd_uncovered_concepts = [],
                     rd_reason_codes = map (\<lambda>c. ''freshness_degraded:'' @ c)
                       (sorted_set (rs_degraded st))\<rparr>))"

definition route :: "(rat \<Rightarrow> rat) \<Rightarrow> mapping_registry \<Rightarrow> observations \<Rightarrow> route_request \<Rightarrow> datetime
    \<Rightarrow> route_decision checked" where
  "route rnd mappings obs q now =
     (let fresh = (\<lambda>source_id asset_id. assess rnd obs source_id asset_id (rq_freshness_slo q) now)
      in case route_concepts rnd fresh mappings q (rq_concept_ids q) routing_start of
           Inl e \<Rightarrow> Inl e
         | Inr st \<Rightarrow> decide rnd fresh q st)"

section \<open>What a selected route promises\<close>

definition usable :: "assessor \<Rightarrow> mapping_candidate \<Rightarrow> bool" where
  "usable fresh c \<longleftrightarrow> (case fresh (mc_source_id c) (mc_asset_id c) of Inl _ \<Rightarrow> False
     | Inr f \<Rightarrow> fa_fresh f \<or> fa_action f = Some Degrade)"

definition eligible_for ::
  "assessor \<Rightarrow> mapping_registry \<Rightarrow> route_request \<Rightarrow> string \<Rightarrow> mapping_candidate \<Rightarrow> bool" where
  "eligible_for fresh mappings q concept c \<longleftrightarrow>
     c \<in> set (approved_for concept mappings) \<and> rq_minimum_confidence q \<le> mc_confidence c \<and> usable fresh c"

definition clear_winner :: "(rat \<Rightarrow> rat) \<Rightarrow> assessor \<Rightarrow> mapping_registry \<Rightarrow> route_request \<Rightarrow> string
    \<Rightarrow> mapping_candidate \<Rightarrow> bool" where
  "clear_winner rnd fresh mappings q concept w \<longleftrightarrow> eligible_for fresh mappings q concept w
     \<and> (\<forall>c. eligible_for fresh mappings q concept c \<and> c \<noteq> w
          \<longrightarrow> rq_ambiguity_delta q < rnd (mc_confidence w - mc_confidence c))"

lemma assess_candidates_Inr:
  "assess_candidates fresh concept cs el st = Inr (el', st') \<Longrightarrow>
     fst ` set el' = fst ` set el \<union> {c \<in> set cs. usable fresh c}
     \<and> rs_selected st' = rs_selected st \<and> rs_uncovered st' = rs_uncovered st
     \<and> rs_ambiguous st' = rs_ambiguous st"
proof (induction cs arbitrary: el st)
  case (Cons c cs)
  then obtain f where f: "fresh (mc_source_id c) (mc_asset_id c) = Inr f"
    by (auto split: sum.splits)
  have use: "usable fresh c \<longleftrightarrow> fa_fresh f \<or> fa_action f = Some Degrade"
    using f by (simp add: usable_def)
  have split: "{x \<in> set (c # cs). usable fresh x} =
      (if usable fresh c then {c} else {}) \<union> {x \<in> set cs. usable fresh x}" by auto
  show ?case
  proof (cases "usable fresh c")
    case True
    with Cons.prems f obtain st1 where
        "assess_candidates fresh concept cs (el @ [(c, fa_watermark f)]) st1 = Inr (el', st')"
      and "rs_selected st1 = rs_selected st \<and> rs_uncovered st1 = rs_uncovered st
        \<and> rs_ambiguous st1 = rs_ambiguous st"
      by (fastforce simp: use split: if_splits)
    from Cons.IH [OF this(1)] this(2) True show ?thesis unfolding split by simp
  next
    case False
    with Cons.prems f obtain st1 where "assess_candidates fresh concept cs el st1 = Inr (el', st')"
      and "rs_selected st1 = rs_selected st \<and> rs_uncovered st1 = rs_uncovered st
        \<and> rs_ambiguous st1 = rs_ambiguous st"
      by (fastforce simp: use split: if_splits)
    from Cons.IH [OF this(1)] this(2) False show ?thesis unfolding split by simp
  qed
qed simp

lemma set_ranked [simp]: "set (ranked xs) = set xs"
  by (simp add: ranked_def)

lemma ranked_ConsD:
  assumes "ranked xs = x # ys" and "y \<in> set ys"
  shows "\<exists>z zs. ys = z # zs \<and> mc_confidence (fst y) \<le> mc_confidence (fst z)"
proof -
  have "sorted (map (\<lambda>x. - mc_confidence (fst x)) (ranked xs))" by (simp add: ranked_def)
  with assms show ?thesis by (cases ys) auto
qed

lemma route_concept_cases:
  assumes "route_concept rnd fresh mappings q concept st = Inr st'" and "mono rnd"
  obtains (uncovered) "rs_uncovered st' = rs_uncovered st @ [concept]"
  | (ambiguous) "rs_ambiguous st' = rs_ambiguous st @ [concept]"
  | (winner) w where "clear_winner rnd fresh mappings q concept w"
      "rs_selected st' = setdefault_append (mc_source_id w, mc_asset_id w) w (rs_selected st)"
      "rs_uncovered st' = rs_uncovered st" "rs_ambiguous st' = rs_ambiguous st"
proof -
  let ?cs = "filter (\<lambda>c. rq_minimum_confidence q \<le> mc_confidence c) (approved_for concept mappings)"
  from assms(1) obtain el st1 where a: "assess_candidates fresh concept ?cs [] st = Inr (el, st1)"
    by (auto simp: route_concept_def Let_def split: sum.splits)
  note st1 = assess_candidates_Inr [OF a]
  show thesis
  proof (cases "ranked el")
    case Nil
    with assms(1) a st1 show thesis by (intro uncovered) (auto simp: route_concept_def)
  next
    case (Cons x ys)
    have el: "fst ` set (x # ys) = {c. eligible_for fresh mappings q concept c}"
      using st1 arg_cong [OF Cons, of set] by (auto simp: eligible_for_def)
    show thesis
    proof (cases ys)
      case Nil
      have "clear_winner rnd fresh mappings q concept (fst x)"
        using el Nil by (auto simp: clear_winner_def)
      with assms(1) a st1 Cons Nil show thesis
        by (intro winner [of "fst x"]) (auto simp: route_concept_def Let_def)
    next
      case second: (Cons z zs)
      show thesis
      proof (cases "rnd (mc_confidence (fst x) - mc_confidence (fst z)) \<le> rq_ambiguity_delta q")
        case True
        with assms(1) a st1 Cons second show thesis
          by (intro ambiguous) (auto simp: route_concept_def)
      next
        case False
        have "rq_ambiguity_delta q < rnd (mc_confidence (fst x) - mc_confidence c)"
          if "eligible_for fresh mappings q concept c" "c \<noteq> fst x" for c
        proof -
          from that el obtain y where "y \<in> set ys" "c = fst y" by auto
          with ranked_ConsD [OF Cons] second have "mc_confidence c \<le> mc_confidence (fst z)" by auto
          then have "rnd (mc_confidence (fst x) - mc_confidence (fst z))
              \<le> rnd (mc_confidence (fst x) - mc_confidence c)"
            by (intro monoD [OF assms(2)]) simp
          with False show ?thesis by simp
        qed
        with el have "clear_winner rnd fresh mappings q concept (fst x)"
          by (auto simp: clear_winner_def)
        with assms(1) a st1 Cons second False show thesis
          by (intro winner [of "fst x"]) (auto simp: route_concept_def Let_def)
      qed
    qed
  qed
qed

text \<open>What the groups of selected mappings satisfy while the concepts are processed.\<close>

definition groups_ok ::
  "(mapping_candidate \<Rightarrow> bool) \<Rightarrow> (string \<times> string, mapping_candidate list) dict \<Rightarrow> bool" where
  "groups_ok P d \<longleftrightarrow> dict_wf d
     \<and> (\<forall>k ws w. dict_get d k = Some ws \<and> w \<in> set ws \<longrightarrow> (mc_source_id w, mc_asset_id w) = k \<and> P w)"

definition grouped :: "(string \<times> string, mapping_candidate list) dict \<Rightarrow> mapping_candidate \<Rightarrow> bool" where
  "grouped d w \<longleftrightarrow> (\<exists>ws. dict_get d (mc_source_id w, mc_asset_id w) = Some ws \<and> w \<in> set ws)"

lemma groups_ok_append:
  assumes "groups_ok P d" and "P w"
  shows "groups_ok P (setdefault_append (mc_source_id w, mc_asset_id w) w d)"
proof -
  have "dict_wf (setdefault_append (mc_source_id w, mc_asset_id w) w d)"
    using assms(1) by (simp add: groups_ok_def)
  with assms show ?thesis
    by (auto simp: groups_ok_def dict_get_setdefault_append split: if_splits option.splits)
qed

lemma grouped_append:
  "grouped d v \<Longrightarrow> grouped (setdefault_append (mc_source_id w, mc_asset_id w) w d) v"
  "grouped (setdefault_append (mc_source_id w, mc_asset_id w) w d) w"
  by (auto simp: grouped_def dict_get_setdefault_append split: option.split)

lemma route_concepts_monotone:
  "route_concepts rnd fresh mappings q concepts st = Inr st' \<Longrightarrow> mono rnd \<Longrightarrow>
     rs_uncovered st' = [] \<and> rs_ambiguous st' = [] \<Longrightarrow>
     rs_uncovered st = [] \<and> rs_ambiguous st = [] \<and> (\<forall>w. grouped (rs_selected st) w \<longrightarrow> grouped (rs_selected st') w)"
proof (induction concepts arbitrary: st)
  case (Cons concept concepts)
  then obtain st1 where 1: "route_concept rnd fresh mappings q concept st = Inr st1"
    and 2: "route_concepts rnd fresh mappings q concepts st1 = Inr st'" by (auto split: sum.splits)
  note ih = Cons.IH [OF 2 Cons.prems(2,3)]
  from 1 Cons.prems(2) show ?case
  proof (cases rule: route_concept_cases)
    case (winner w)
    with ih grouped_append(1) show ?thesis by simp
  qed (use ih in simp_all)
qed simp

lemma route_concepts_selects:
  assumes "route_concepts rnd fresh mappings q concepts st = Inr st'" and "mono rnd"
    and "rs_uncovered st' = [] \<and> rs_ambiguous st' = []"
    and "groups_ok (\<lambda>w. \<exists>concept \<in> X. clear_winner rnd fresh mappings q concept w) (rs_selected st)"
    and "set concepts \<subseteq> X"
  shows "groups_ok (\<lambda>w. \<exists>concept \<in> X. clear_winner rnd fresh mappings q concept w) (rs_selected st')
    \<and> (\<forall>concept \<in> set concepts. \<exists>w. clear_winner rnd fresh mappings q concept w \<and> grouped (rs_selected st') w)"
  using assms
proof (induction concepts arbitrary: st)
  case (Cons concept concepts)
  then obtain st1 where 1: "route_concept rnd fresh mappings q concept st = Inr st1"
    and 2: "route_concepts rnd fresh mappings q concepts st1 = Inr st'" by (auto split: sum.splits)
  note keep = route_concepts_monotone [OF 2 Cons.prems(2,3)]
  from 1 Cons.prems(2) show ?case
  proof (cases rule: route_concept_cases)
    case (winner w)
    have "groups_ok (\<lambda>w. \<exists>concept \<in> X. clear_winner rnd fresh mappings q concept w) (rs_selected st1)"
      unfolding winner(2) using winner(1) Cons.prems(4,5) by (intro groups_ok_append) auto
    note ih = Cons.IH [OF 2 Cons.prems(2,3) this]
    moreover have "grouped (rs_selected st') w"
      using keep winner(2) grouped_append(2) by simp
    ultimately show ?thesis using winner(1) Cons.prems(5) by auto
  qed (use keep in simp_all)
qed simp

lemma set_sorted_entries [simp]: "set (sorted_entries d) = set d"
  and length_sorted_entries [simp]: "length (sorted_entries d) = length d"
  by (simp_all add: sorted_entries_def)

text \<open>A route carries a mapping: it names it and its concept, on its source and asset, with its lineage.\<close>

definition carries :: "selected_route \<Rightarrow> mapping_candidate \<Rightarrow> bool" where
  "carries r w \<longleftrightarrow> mc_concept_id w \<in> set (ro_concept_ids r) \<and> mc_mapping_id w \<in> set (ro_mapping_ids r)
     \<and> ro_source_id r = mc_source_id w \<and> ro_asset_id r = mc_asset_id w
     \<and> set (mc_lineage w) \<subseteq> set (ro_lineage r)"

lemma build_route_carries:
  assumes "build_route rnd fresh (k, ws) = Inr r" and "\<forall>w \<in> set ws. (mc_source_id w, mc_asset_id w) = k"
  shows "\<forall>w \<in> set ws. carries r w"
    and "\<forall>m \<in> set (ro_mapping_ids r). \<exists>w \<in> set ws. carries r w \<and> mc_mapping_id w = m"
  using assms by (cases k; auto simp: build_route_def carries_def split: sum.splits)+

lemma routes_carry:
  assumes "check_all (build_route rnd fresh) (sorted_entries d) = Inr rs" and "groups_ok P d"
  shows "length rs = length d" and "grouped d w \<Longrightarrow> \<exists>r \<in> set rs. carries r w"
    and "r \<in> set rs \<Longrightarrow> m \<in> set (ro_mapping_ids r) \<Longrightarrow> \<exists>w. P w \<and> carries r w \<and> mc_mapping_id w = m"
proof -
  from check_all_length [OF assms(1)] show "length rs = length d" by simp
  have wf: "dict_wf d" using assms(2) by (simp add: groups_ok_def)
  have grp: "\<forall>w \<in> set ws. (mc_source_id w, mc_asset_id w) = k \<and> P w" if "(k, ws) \<in> set d" for k ws
    using that assms(2) unfolding groups_ok_def by (metis dict_get_Some_in)
  show "\<exists>r \<in> set rs. carries r w" if "grouped d w"
  proof -
    from that wf obtain ws where ws: "((mc_source_id w, mc_asset_id w), ws) \<in> set d" "w \<in> set ws"
      by (auto simp: grouped_def dict_get_Some_in)
    with check_all_left [OF assms(1)] obtain r where "r \<in> set rs"
        "build_route rnd fresh ((mc_source_id w, mc_asset_id w), ws) = Inr r" by fastforce
    with build_route_carries(1) grp ws show ?thesis by blast
  qed
  show "\<exists>w. P w \<and> carries r w \<and> mc_mapping_id w = m" if "r \<in> set rs" "m \<in> set (ro_mapping_ids r)"
  proof -
    from check_all_right [OF assms(1) that(1)] obtain k ws where
        "(k, ws) \<in> set d" "build_route rnd fresh (k, ws) = Inr r" by auto
    with build_route_carries(2) grp that(2) show ?thesis by blast
  qed
qed

lemma approved_for_iff:
  "c \<in> set (approved_for concept m) \<longleftrightarrow> c \<in> set (approved False m) \<and> mc_concept_id c = concept"
  by (auto simp: approved_for_def)

lemma selected_winners:
  fixes rnd mappings obs q now
  defines "wins \<equiv> clear_winner rnd
      (\<lambda>s a. assess rnd obs s a (rq_freshness_slo q) now) mappings q"
  assumes "route rnd mappings obs q now = Inr d" and "rd_status d = Selected" and "mono rnd"
  shows "concept \<in> set (rq_concept_ids q) \<Longrightarrow> \<exists>w. wins concept w \<and> mc_concept_id w = concept
        \<and> (\<exists>r \<in> set (rd_routes d). carries r w)"
    and "int (length (rd_routes d)) \<le> rq_max_sources q"
    and "r \<in> set (rd_routes d) \<Longrightarrow> m \<in> set (ro_mapping_ids r) \<Longrightarrow> \<exists>concept \<in> set (rq_concept_ids q).
        \<exists>w. wins concept w \<and> carries r w \<and> mc_mapping_id w = m"
proof -
  define fresh where "fresh = (\<lambda>s a. assess rnd obs s a (rq_freshness_slo q) now)"
  from assms(2) obtain st where
      st: "route_concepts rnd fresh mappings q (rq_concept_ids q) routing_start = Inr st"
    and d: "decide rnd fresh q st = Inr d"
    by (auto simp: route_def Let_def fresh_def split: sum.splits)
  from d assms(3) have none: "rs_uncovered st = [] \<and> rs_ambiguous st = []"
    and bound: "int (length (rs_selected st)) \<le> rq_max_sources q"
    and routes: "check_all (build_route rnd fresh) (sorted_entries (rs_selected st)) = Inr (rd_routes d)"
    by (auto simp: decide_def split: if_splits sum.splits)
  have ok: "groups_ok (\<lambda>w. \<exists>concept \<in> set (rq_concept_ids q). wins concept w) (rs_selected st)"
    and won: "\<forall>concept \<in> set (rq_concept_ids q). \<exists>w. wins concept w \<and> grouped (rs_selected st) w"
    using route_concepts_selects [OF st assms(4) none, of "set (rq_concept_ids q)"]
    by (simp_all add: wins_def fresh_def routing_start_def groups_ok_def)
  have concept: "mc_concept_id w = concept" if "wins concept w" for concept w
    using that by (simp add: wins_def clear_winner_def eligible_for_def approved_for_iff)
  note carry = routes_carry [OF routes ok]
  show "int (length (rd_routes d)) \<le> rq_max_sources q" using carry(1) bound by simp
  show "\<exists>w. wins concept w \<and> mc_concept_id w = concept \<and> (\<exists>r \<in> set (rd_routes d). carries r w)"
    if "concept \<in> set (rq_concept_ids q)" using that won concept carry(2) by blast
  show "\<exists>concept \<in> set (rq_concept_ids q). \<exists>w. wins concept w \<and> carries r w \<and> mc_mapping_id w = m"
    if "r \<in> set (rd_routes d)" "m \<in> set (ro_mapping_ids r)" using carry(3) [OF that] by blast
qed

lemma route_request_id: "route rnd mappings obs q now = Inr d \<Longrightarrow> rd_request_id d = rq_request_id q"
  by (auto simp: route_def Let_def decide_def split: sum.splits if_splits)

text \<open>
  C23. A selected decision covers every requested concept with a mapping that is approved and not
  quarantined, meets the confidence bound, whose asset is fresh (or degraded by the objective's own
  choice), and that no other eligible mapping of the concept comes within the ambiguity bound of; the
  route that carries it is on the mapping's own source and asset; there are no more routes than the
  request's source bound, and every mapping a route names is such a winner of a requested concept.
\<close>

theorem selected_routes_sound:
  fixes rnd mappings obs q now
  defines "wins \<equiv> clear_winner rnd
      (\<lambda>s a. assess rnd obs s a (rq_freshness_slo q) now) mappings q"
  assumes "route rnd mappings obs q now = Inr d" and "rd_status d = Selected" and "mono rnd"
  shows "(\<forall>concept \<in> set (rq_concept_ids q). \<exists>w. wins concept w \<and> mc_concept_id w = concept
        \<and> (\<exists>r \<in> set (rd_routes d). carries r w))
    \<and> int (length (rd_routes d)) \<le> rq_max_sources q
    \<and> (\<forall>r \<in> set (rd_routes d). \<forall>m \<in> set (ro_mapping_ids r). \<exists>concept \<in> set (rq_concept_ids q).
        \<exists>w. wins concept w \<and> carries r w \<and> mc_mapping_id w = m)"
  using selected_winners [OF assms(2-)] unfolding wins_def by blast

definition sample_route_request :: route_request where
  "sample_route_request = \<lparr>rq_request_id = ''r1'', rq_concept_ids = [''revenue''], rq_max_sources = 2,
     rq_minimum_confidence = 1 / 2, rq_ambiguity_delta = 1 / 10,
     rq_freshness_slo = \<lparr>slo_max_age = 5000, slo_on_breach = Refuse\<rparr>\<rparr>"

lemma sample_route_selected:
  "\<exists>d. route (\<lambda>q. q) (run_ops governance_step sample_approval empty_mappings)
     (record_all [sample_observation 9000] []) sample_route_request (utc 12000) = Inr d
     \<and> rd_status d = Selected \<and> rd_uncovered_concepts d = []"
proof -
  have "approved_for ''revenue'' (run_ops governance_step sample_approval empty_mappings) = [sample_candidate]"
    by (simp add: approved_for_def sample_mapping_approved) (simp add: sample_candidate_def)
  then show ?thesis
    by (simp add: route_def Let_def sample_route_request_def route_concept_def sample_candidate_def
        assess_def attempt_def record_observation_def observation_key_def sample_observation_def
        age_at_def routing_start_def ranked_def setdefault_append_def decide_def sorted_entries_def
        build_route_def)
qed

theorem selected_routes_sound_witness:
  "\<exists>d w r. route (\<lambda>q. q) (run_ops governance_step sample_approval empty_mappings)
     (record_all [sample_observation 9000] []) sample_route_request (utc 12000) = Inr d
     \<and> r \<in> set (rd_routes d) \<and> carries r w \<and> mc_concept_id w = ''revenue''"
proof -
  from sample_route_selected obtain d where d: "route (\<lambda>q. q) (run_ops governance_step sample_approval empty_mappings)
     (record_all [sample_observation 9000] []) sample_route_request (utc 12000) = Inr d" "rd_status d = Selected"
    by blast
  have "mono (\<lambda>q :: rat. q)" by (simp add: mono_def)
  from selected_routes_sound [OF d this] d(1) show ?thesis
    by (auto simp: sample_route_request_def)
qed

end
