(* ===== verification/Coverage_Context.thy ===== *)
theory Coverage_Context
  imports Source_Routing
begin

text \<open>
  coverage.py and context.py: the coverage statement of a result, and the answer envelope that ties a
  content to its route, its coverage and its provenance. A frozenset of expected sources is a list read
  as a set.
\<close>

record coverage_exclusion =
  cx_source_id :: string
  cx_reason_code :: string
  cx_detail :: string

definition mk_coverage_exclusion :: "coverage_exclusion \<Rightarrow> coverage_exclusion checked" where
  "mk_coverage_exclusion x =
     (if cx_source_id x = [] \<or> cx_reason_code x = [] \<or> cx_detail x = []
      then Inl (ValueError ''coverage exclusions require source, reason and detail'') else Inr x)"

record source_coverage =
  sc_source_id :: string
  sc_asset_ids :: "string list"
  sc_complete :: bool
  sc_watermark :: "string option"

definition mk_source_coverage :: "source_coverage \<Rightarrow> source_coverage checked" where
  "mk_source_coverage c =
     (if sc_source_id c = [] \<or> sc_asset_ids c = []
      then Inl (ValueError ''source coverage requires a source and at least one asset'')
      else if length (remdups (sc_asset_ids c)) \<noteq> length (sc_asset_ids c)
      then Inl (ValueError ''covered asset_ids must be unique'')
      else Inr c)"

record coverage_statement =
  cov_request_id :: string
  cov_generated_at :: datetime
  cov_included :: "source_coverage list"
  cov_excluded :: "coverage_exclusion list"
  cov_expected_sources :: "string list"

abbreviation included_ids :: "coverage_statement \<Rightarrow> string list" where
  "included_ids c \<equiv> map sc_source_id (cov_included c)"

abbreviation excluded_ids :: "coverage_statement \<Rightarrow> string list" where
  "excluded_ids c \<equiv> map cx_source_id (cov_excluded c)"

definition mk_coverage_statement :: "coverage_statement \<Rightarrow> coverage_statement checked" where
  "mk_coverage_statement c =
     (if cov_request_id c = [] then Inl (ValueError ''request_id is required'')
      else if \<not> aware (cov_generated_at c)
      then Inl (ValueError ''generated_at must be timezone-aware'')
      else if cov_included c = [] \<and> cov_excluded c = []
      then Inl (ValueError ''coverage must explicitly include or exclude at least one source'')
      else if length (remdups (included_ids c)) \<noteq> length (cov_included c)
            \<or> length (remdups (excluded_ids c)) \<noteq> length (cov_excluded c)
      then Inl (ValueError ''coverage may mention each source only once'')
      else if set (included_ids c) \<inter> set (excluded_ids c) \<noteq> {}
      then Inl (ValueError ''a source cannot be both included and excluded'')
      else if [] \<in> set (cov_expected_sources c)
      then Inl (ValueError ''expected source identities must be non-empty'')
      else if cov_expected_sources c \<noteq> []
            \<and> \<not> set (included_ids c) \<union> set (excluded_ids c) \<subseteq> set (cov_expected_sources c)
      then Inl (ValueError ''coverage contains a source outside the expected universe'')
      else Inr c)"

definition coverage_complete :: "coverage_statement \<Rightarrow> bool" where
  "coverage_complete c \<longleftrightarrow>
     (cov_expected_sources c = [] \<or> set (included_ids c) = set (cov_expected_sources c))
   \<and> cov_excluded c = [] \<and> cov_included c \<noteq> [] \<and> list_all sc_complete (cov_included c)"

section \<open>The answer envelope\<close>

datatype context_outcome = Answer | Refusal | Escalation

record context_envelope =
  ctx_request_id :: string
  ctx_outcome :: context_outcome
  ctx_content :: "string option"
  ctx_route :: route_decision
  ctx_coverage :: coverage_statement
  ctx_lineage :: "lineage_ref list"
  ctx_reason_codes :: "string list"

definition mk_context_envelope :: "context_envelope \<Rightarrow> context_envelope checked" where
  "mk_context_envelope e =
     (if ctx_request_id e = [] \<or> ctx_request_id e \<noteq> rd_request_id (ctx_route e)
      then Inl (ValueError ''context and route request identities must match'')
      else if ctx_request_id e \<noteq> cov_request_id (ctx_coverage e)
      then Inl (ValueError ''context and coverage request identities must match'')
      else if ctx_outcome e = Answer
      then (if ctx_content e = None \<or> ctx_content e = Some [] \<or> \<not> route_complete (ctx_route e)
              \<or> \<not> coverage_complete (ctx_coverage e)
            then Inl (ValueError ''answers require content, a complete route and complete coverage'')
            else if ctx_lineage e = []
            then Inl (ValueError ''answers require exact provenance'')
            else Inr e)
      else (if ctx_content e \<noteq> None \<or> ctx_reason_codes e = []
            then Inl (ValueError ''refusal/escalation requires reasons and no answer content'')
            else (let expected = (if ctx_outcome e = Escalation then Escalation_Required else Refused)
                  in if rd_status (ctx_route e) \<noteq> expected
                     then Inl (ValueError ''context outcome must match route status'')
                     else Inr e)))"

lemma mk_coverage_statement_Inr [checks]:
  "mk_coverage_statement c = Inr d \<longleftrightarrow> d = c \<and> cov_request_id c \<noteq> [] \<and> aware (cov_generated_at c)
     \<and> (cov_included c \<noteq> [] \<or> cov_excluded c \<noteq> [])
     \<and> distinct (included_ids c) \<and> distinct (excluded_ids c)
     \<and> set (included_ids c) \<inter> set (excluded_ids c) = {} \<and> [] \<notin> set (cov_expected_sources c)
     \<and> (cov_expected_sources c = []
        \<or> set (included_ids c) \<union> set (excluded_ids c) \<subseteq> set (cov_expected_sources c))"
proof -
  have inc: "length (remdups (included_ids c)) = length (cov_included c) \<longleftrightarrow> distinct (included_ids c)"
    and exc: "length (remdups (excluded_ids c)) = length (cov_excluded c) \<longleftrightarrow> distinct (excluded_ids c)"
    using length_remdups_iff [of "included_ids c"] length_remdups_iff [of "excluded_ids c"] by simp_all
  show ?thesis unfolding mk_coverage_statement_def guard_Inr inc exc sum.inject by blast
qed

lemma mk_context_envelope_Answer [checks]:
  "mk_context_envelope e = Inr f \<Longrightarrow> ctx_outcome e = Answer \<Longrightarrow> f = e
     \<and> (\<exists>t. ctx_content e = Some t \<and> t \<noteq> []) \<and> route_complete (ctx_route e)
     \<and> coverage_complete (ctx_coverage e) \<and> ctx_lineage e \<noteq> []
     \<and> ctx_request_id e = rd_request_id (ctx_route e) \<and> ctx_request_id e = cov_request_id (ctx_coverage e)"
  by (auto simp: mk_context_envelope_def split: if_splits)

text \<open>
  An answer is grounded: if the envelope's constructor accepts an answer whose route came from the
  router, then the router selected sources for the same request with a clear, approved, non-stale
  winner for every requested concept, no source of the coverage statement is excluded or only partly
  covered, every expected source is included, and provenance is present.
\<close>

lemma answers_are_grounded:
  assumes "mk_context_envelope e = Inr f" and "ctx_outcome e = Answer"
    and "route rnd mappings obs q now = Inr (ctx_route e)" and "mono rnd"
  shows "ctx_request_id e = rq_request_id q \<and> ctx_lineage e \<noteq> [] \<and> cov_excluded (ctx_coverage e) = []
    \<and> (\<forall>s \<in> set (cov_included (ctx_coverage e)). sc_complete s)
    \<and> (\<forall>s \<in> set (cov_expected_sources (ctx_coverage e)). s \<in> sc_source_id ` set (cov_included (ctx_coverage e)))
    \<and> (\<forall>concept \<in> set (rq_concept_ids q). \<exists>w r.
        clear_winner rnd (\<lambda>s a. assess rnd obs s a (rq_freshness_slo q) now) mappings q concept w
        \<and> r \<in> set (rd_routes (ctx_route e)) \<and> carries r w)"
proof -
  note e = mk_context_envelope_Answer [OF assms(1,2)]
  then have sel: "rd_status (ctx_route e) = Selected" by (simp add: route_complete_def)
  have id: "rd_request_id (ctx_route e) = rq_request_id q" by (rule route_request_id [OF assms(3)])
  have "\<forall>concept \<in> set (rq_concept_ids q). \<exists>w r.
      clear_winner rnd (\<lambda>s a. assess rnd obs s a (rq_freshness_slo q) now) mappings q concept w
      \<and> r \<in> set (rd_routes (ctx_route e)) \<and> carries r w"
    using selected_winners [OF assms(3) sel assms(4)] by blast
  with e id show ?thesis by (auto simp: coverage_complete_def list_all_iff)
qed

definition sample_coverage :: coverage_statement where
  "sample_coverage = \<lparr>cov_request_id = ''r1'', cov_generated_at = utc 0,
     cov_included = [\<lparr>sc_source_id = ''erp'', sc_asset_ids = [''orders''], sc_complete = True, sc_watermark = None\<rparr>],
     cov_excluded = [], cov_expected_sources = [''erp'']\<rparr>"

definition sample_answer :: "route_decision \<Rightarrow> context_envelope" where
  "sample_answer d = \<lparr>ctx_request_id = ''r1'', ctx_outcome = Answer, ctx_content = Some ''42'',
     ctx_route = d, ctx_coverage = sample_coverage, ctx_lineage = mc_lineage sample_candidate,
     ctx_reason_codes = []\<rparr>"

lemma answers_are_grounded_example:
  "\<exists>d w r. rd_status d = Selected \<and> mk_context_envelope (sample_answer d) = Inr (sample_answer d)
     \<and> r \<in> set (rd_routes d) \<and> carries r w"
proof -
  obtain d where d: "route (\<lambda>q. q) (run_ops governance_step sample_approval empty_mappings)
      (record_all [sample_observation 9000] []) sample_route_request (utc 12000) = Inr d" "rd_status d = Selected"
      "rd_uncovered_concepts d = []"
    using sample_route_selected by blast
  have id: "rd_request_id d = ''r1''" using route_request_id [OF d(1)] by (simp add: sample_route_request_def)
  have e: "mk_context_envelope (sample_answer d) = Inr (sample_answer d)"
    using d(2,3) id by (simp add: mk_context_envelope_def sample_answer_def route_complete_def
        coverage_complete_def sample_coverage_def sample_candidate_def)
  have "ctx_outcome (sample_answer d) = Answer" "ctx_route (sample_answer d) = d" "mono (\<lambda>q :: rat. q)"
    by (simp_all add: sample_answer_def mono_def)
  with answers_are_grounded [OF e, of "\<lambda>q. q"] d(1)
  have "\<exists>w r. r \<in> set (rd_routes d) \<and> carries r w"
    by (fastforce simp: sample_route_request_def)
  with e d(2) show ?thesis by blast
qed

end
