(* ===== verification/Cross_Source.thy ===== *)
theory Cross_Source
  imports Harness_Gateway Coverage_Context "HOL-Library.Product_Lexorder"
begin

text \<open>
  coordination.py: execution of independent query and search steps over several sources, with a coverage
  statement that names every omission. \<open>asyncio.gather\<close> interleaves the steps but returns their outcomes
  in the order of the steps; \<open>assemble\<close> is what the coordinator does with them, for any outcomes, and
  \<open>execute_plan\<close> runs the steps one after the other, which is one of the interleavings.
\<close>

record query_step =
  qs_step_id :: string
  qs_request :: query_request

definition mk_query_step :: "query_step \<Rightarrow> query_step checked" where
  "mk_query_step x = (if qs_step_id x = [] then Inl (ValueError ''query step identity is required'') else Inr x)"

record search_step =
  ss_step_id :: string
  ss_request :: search_request
  ss_asset_ids :: "string list"

definition mk_search_step :: "search_step \<Rightarrow> search_step checked" where
  "mk_search_step x =
     (if ss_step_id x = [] \<or> ss_asset_ids x = [] \<or> list_ex (\<lambda>i. i = []) (ss_asset_ids x)
      then Inl (ValueError ''search step identity and expected assets are required'') else Inr x)"

record execution_plan =
  ep_request_id :: string
  ep_generated_at :: datetime
  ep_query_steps :: "query_step list"
  ep_search_steps :: "search_step list"

definition mk_execution_plan :: "execution_plan \<Rightarrow> execution_plan checked" where
  "mk_execution_plan p =
     (let identifiers = map qs_step_id (ep_query_steps p) @ map ss_step_id (ep_search_steps p)
      in if ep_request_id p = [] \<or> \<not> aware (ep_generated_at p) \<or> identifiers = []
         then Inl (ValueError ''execution plan requires identity, time and at least one step'')
         else if length identifiers \<noteq> length (remdups identifiers)
         then Inl (ValueError ''cross-source step identities must be unique'')
         else Inr p)"

definition step_sources :: "execution_plan \<Rightarrow> string list" where
  "step_sources p = map (\<lambda>x. qr_source_id (qs_request x)) (ep_query_steps p)
     @ map (\<lambda>x. sr_source_id (ss_request x)) (ep_search_steps p)"

abbreviation expected_sources :: "execution_plan \<Rightarrow> string list" where
  \<comment> \<open>the frozenset, read as a set\<close>
  "expected_sources \<equiv> step_sources"

definition step_assets :: "execution_plan \<Rightarrow> string list list" where
  "step_assets p = map (\<lambda>x. qr_asset_ids (qs_request x)) (ep_query_steps p)
     @ map ss_asset_ids (ep_search_steps p)"

record step_result =
  st_step_id :: string
  st_source_id :: string
  st_asset_ids :: "string list"
  st_batches :: "data_batch list"
  st_hits :: "search_hit list"

definition step_lineage :: "step_result \<Rightarrow> lineage_ref list" where
  "step_lineage r = concat (map db_lineage (st_batches r)) @ concat (map sh_lineage (st_hits r))"

record coordination_result =
  co_request_id :: string
  co_steps :: "step_result list"
  co_coverage :: coverage_statement
  co_lineage :: "lineage_ref list"

definition coordination_complete :: "coordination_result \<Rightarrow> bool" where
  "coordination_complete r \<longleftrightarrow> coverage_complete (co_coverage r)"

definition find_step :: "coordination_result \<Rightarrow> string \<Rightarrow> step_result checked" where
  "find_step r step_id =
     (case find (\<lambda>x. st_step_id x = step_id) (co_steps r) of
        None \<Rightarrow> Inl (KeyError ''unknown coordination step'') | Some x \<Rightarrow> Inr x)"

section \<open>Running the steps\<close>

datatype step_failure = Step_Cancelled | Step_Failed string

type_synonym step_outcome = "step_failure + step_result"

definition error_name :: "gateway_error \<Rightarrow> step_failure" where
  \<comment> \<open>\<open>type(outcome).__name__\<close>\<close>
  "error_name e =
     (case e of
        Gw_Registry (Unsupported_Capability _ _) \<Rightarrow> Step_Failed ''UnsupportedCapability''
      | Gw_Registry (Reg_Py (KeyError _)) \<Rightarrow> Step_Failed ''KeyError''
      | Gw_Registry (Reg_Py _) \<Rightarrow> Step_Failed ''ValueError''
      | Gw_Denied _ \<Rightarrow> Step_Failed ''PolicyDenied''
      | Gw_Deadline _ \<Rightarrow> Step_Failed ''ConnectorDeadlineExceeded''
      | Gw_Violation _ \<Rightarrow> Step_Failed ''ConnectorResultViolation''
      | Gw_Py _ \<Rightarrow> Step_Failed ''ValueError''
      | Gw_External Ext_Timeout \<Rightarrow> Step_Failed ''TimeoutError''
      | Gw_External (Ext_Exception name) \<Rightarrow> Step_Failed name
      | Gw_External Ext_Cancelled \<Rightarrow> Step_Cancelled)"

definition run_query_step ::
  "harness_env \<Rightarrow> request_identity \<Rightarrow> query_step \<Rightarrow> harness_state \<Rightarrow> step_outcome \<times> harness_state" where
  "run_query_step env identity x s =
     (case execute_query env (qs_request x) identity s of
        ((batches, None), t) \<Rightarrow>
          (Inr \<lparr>st_step_id = qs_step_id x, st_source_id = qr_source_id (qs_request x),
                st_asset_ids = qr_asset_ids (qs_request x), st_batches = batches, st_hits = []\<rparr>, t)
      | ((_, Some e), t) \<Rightarrow> (Inl (error_name e), t))"

definition run_search_step ::
  "harness_env \<Rightarrow> request_identity \<Rightarrow> search_step \<Rightarrow> harness_state \<Rightarrow> step_outcome \<times> harness_state" where
  "run_search_step env identity x s =
     (case search_source env (ss_request x) identity s of
        (Inr hits, t) \<Rightarrow>
          (Inr \<lparr>st_step_id = ss_step_id x, st_source_id = sr_source_id (ss_request x),
                st_asset_ids = ss_asset_ids x, st_batches = [], st_hits = hits\<rparr>, t)
      | (Inl e, t) \<Rightarrow> (Inl (error_name e), t))"

primrec run_in_order :: "('a \<Rightarrow> 's \<Rightarrow> 'b \<times> 's) \<Rightarrow> 'a list \<Rightarrow> 's \<Rightarrow> 'b list \<times> 's" where
  "run_in_order f [] s = ([], s)"
| "run_in_order f (x # xs) s =
     (case f x s of (y, s') \<Rightarrow> (case run_in_order f xs s' of (ys, t) \<Rightarrow> (y # ys, t)))"

section \<open>The result\<close>

datatype coordination_error = Co_Py py_error | Co_Cancelled

fun collect_outcomes :: "(string \<times> step_outcome) list \<Rightarrow> step_result list \<Rightarrow> (string, string list) dict
    \<Rightarrow> coordination_error + step_result list \<times> (string, string list) dict" where
  "collect_outcomes [] successful failures = Inr (successful, failures)"
| "collect_outcomes ((source_id, outcome) # rest) successful failures =
     (case outcome of
        Inl Step_Cancelled \<Rightarrow> Inl Co_Cancelled
      | Inl (Step_Failed name) \<Rightarrow>
          collect_outcomes rest successful (setdefault_append source_id name failures)
      | Inr r \<Rightarrow> collect_outcomes rest (successful @ [r]) failures)"

definition completed_by_source :: "step_result list \<Rightarrow> (string, string list list) dict" where
  \<comment> \<open>the asset sets merged per source, here the lists of assets still to be merged\<close>
  "completed_by_source rs = group_by st_source_id st_asset_ids rs []"

definition covered_source :: "string \<times> string list list \<Rightarrow> source_coverage checked" where
  "covered_source e = mk_source_coverage \<lparr>sc_source_id = fst e,
     sc_asset_ids = sorted_set (concat (snd e)), sc_complete = True, sc_watermark = None\<rparr>"

definition excluded_source :: "string \<times> string list \<Rightarrow> coverage_exclusion checked" where
  "excluded_source e = mk_coverage_exclusion \<lparr>cx_source_id = fst e,
     cx_reason_code = ''source_execution_failed'', cx_detail = join_comma (sorted_set (snd e))\<rparr>"

definition lineage_key :: "lineage_ref \<Rightarrow> string \<times> string \<times> string option \<times> string option" where
  "lineage_key l = (lin_source_id l, lin_asset_id l, lin_record_id l, lin_field_path l)"

definition or_empty :: "string option \<Rightarrow> string" where
  "or_empty v = (case v of None \<Rightarrow> [] | Some t \<Rightarrow> t)"

definition unique_lineage :: "lineage_ref list \<Rightarrow> lineage_ref list" where
  "unique_lineage values =
     (let found = fold (\<lambda>l. dict_set (lineage_key l) l) values []
      in map snd (sort_key (\<lambda>(k, l). (fst k, fst (snd k), or_empty (fst (snd (snd k))),
           or_empty (snd (snd (snd k))))) found))"

definition build_coverage :: "execution_plan \<Rightarrow> step_result list \<Rightarrow> (string, string list) dict
    \<Rightarrow> coverage_statement checked" where
  "build_coverage p successful failures =
     (case check_all covered_source (filter (\<lambda>e. fst e \<notin> set (dict_keys failures))
             (sort_key fst (completed_by_source successful))) of
        Inl e \<Rightarrow> Inl e
      | Inr included \<Rightarrow>
          (case check_all excluded_source (sort_key fst failures) of
             Inl e \<Rightarrow> Inl e
           | Inr excluded \<Rightarrow> mk_coverage_statement
               \<lparr>cov_request_id = ep_request_id p, cov_generated_at = ep_generated_at p,
                cov_included = included, cov_excluded = excluded,
                cov_expected_sources = expected_sources p\<rparr>))"

definition assemble :: "execution_plan \<Rightarrow> step_outcome list \<Rightarrow> coordination_error + coordination_result" where
  "assemble p outcomes =
     (case collect_outcomes (zip (step_sources p) outcomes) [] [] of
        Inl e \<Rightarrow> Inl e
      | Inr (successful, failures) \<Rightarrow>
          (case build_coverage p successful failures of
             Inl e \<Rightarrow> Inl (Co_Py e)
           | Inr coverage \<Rightarrow>
               Inr \<lparr>co_request_id = ep_request_id p, co_steps = successful, co_coverage = coverage,
                    co_lineage = unique_lineage (concat (map step_lineage successful))\<rparr>))"

definition execute_plan :: "harness_env \<Rightarrow> execution_plan \<Rightarrow> request_identity
    \<Rightarrow> (harness_state, coordination_error, coordination_result) sm" where
  "execute_plan env p identity s =
     (if ep_request_id p \<noteq> id_request_id identity
      then (Inl (Co_Py (ValueError ''execution plan and request identity must match'')), s)
      else (case run_in_order (run_query_step env identity) (ep_query_steps p) s of
              (queries, s1) \<Rightarrow>
                (case run_in_order (run_search_step env identity) (ep_search_steps p) s1 of
                   (searches, s2) \<Rightarrow> (assemble p (queries @ searches), s2))))"

section \<open>Every omission is reported\<close>

definition successes :: "(string \<times> step_outcome) list \<Rightarrow> step_result list" where
  "successes xs = concat (map (\<lambda>(s, x). case x of Inr r \<Rightarrow> [r] | Inl _ \<Rightarrow> []) xs)"

definition failed_steps :: "(string \<times> step_outcome) list \<Rightarrow> (string \<times> string) list" where
  "failed_steps xs = concat (map (\<lambda>(s, x). case x of Inl (Step_Failed n) \<Rightarrow> [(s, n)] | _ \<Rightarrow> []) xs)"

lemma collect_outcomes_eq:
  "\<forall>x \<in> set xs. snd x \<noteq> Inl Step_Cancelled \<Longrightarrow>
     collect_outcomes xs rs fs = Inr (rs @ successes xs, group_by fst snd (failed_steps xs) fs)"
  by (induction xs rs fs rule: collect_outcomes.induct)
    (auto simp: successes_def failed_steps_def split: sum.split step_failure.split)

text \<open>A plan whose steps passed their constructors, and outcomes that fit it (no cancellation).\<close>

definition plan_ok :: "execution_plan \<Rightarrow> bool" where
  "plan_ok p \<longleftrightarrow> mk_execution_plan p = Inr p
     \<and> (\<forall>x \<in> set (ep_query_steps p). mk_query_step x = Inr x \<and> mk_query_request (qs_request x) = Inr (qs_request x))
     \<and> (\<forall>x \<in> set (ep_search_steps p). mk_search_step x = Inr x \<and> mk_search_request (ss_request x) = Inr (ss_request x))"

definition outcome_fits :: "string \<times> string list \<Rightarrow> step_outcome \<Rightarrow> bool" where
  "outcome_fits step x = (case x of Inr r \<Rightarrow> st_source_id r = fst step \<and> st_asset_ids r = snd step
     | Inl Step_Cancelled \<Rightarrow> False | Inl (Step_Failed n) \<Rightarrow> n \<noteq> [])"

abbreviation plan_steps :: "execution_plan \<Rightarrow> (string \<times> string list) list" where
  "plan_steps p \<equiv> zip (step_sources p) (step_assets p)"

lemma plan_ok_steps: "plan_ok p \<Longrightarrow> x \<in> set (plan_steps p) \<Longrightarrow> fst x \<noteq> [] \<and> snd x \<noteq> []"
  by (auto simp: plan_ok_def step_sources_def step_assets_def zip_append zip_map_map set_zip
      mk_query_request_Inr mk_search_request_def mk_search_step_def split: if_splits) 

lemma in_successes: "r \<in> set (successes xs) \<longleftrightarrow> (\<exists>s. (s, Inr r) \<in> set xs)"
  by (force simp: successes_def split: sum.splits prod.splits)

lemma in_failed_steps: "(s, n) \<in> set (failed_steps xs) \<longleftrightarrow> (s, Inl (Step_Failed n)) \<in> set xs"
  by (force simp: failed_steps_def split: sum.splits prod.splits step_failure.splits)

lemma join_comma_nonempty: "xs \<noteq> [] \<Longrightarrow> [] \<notin> set xs \<Longrightarrow> join_comma xs \<noteq> []"
  by (cases xs) (auto simp: join_comma_Cons)

text \<open>The assets a source answered for, and the error names of its failed steps.\<close>

definition answered_assets :: "(string \<times> step_outcome) list \<Rightarrow> string \<Rightarrow> string set" where
  "answered_assets xs s = {asset. \<exists>r. (s, Inr r) \<in> set xs \<and> asset \<in> set (st_asset_ids r)}"

definition error_names :: "(string \<times> step_outcome) list \<Rightarrow> string \<Rightarrow> string set" where
  "error_names xs s = {n. (s, Inl (Step_Failed n)) \<in> set xs}"

text \<open>What the coordinator builds from outcomes that fit the steps \<open>xs\<close> of a well-formed plan.\<close>

definition fits :: "(string \<times> step_outcome) list \<Rightarrow> bool" where
  "fits xs \<longleftrightarrow> (\<forall>s x. (s, x) \<in> set xs \<longrightarrow>
     s \<noteq> [] \<and> (\<exists>assets. assets \<noteq> [] \<and> outcome_fits (s, assets) x))"

lemma fits_success:
  assumes "fits xs" and "(s, Inr r) \<in> set xs"
  shows "st_source_id r = s \<and> s \<noteq> [] \<and> st_asset_ids r \<noteq> []"
proof -
  from assms obtain assets where "s \<noteq> []" "assets \<noteq> []" "outcome_fits (s, assets) (Inr r)"
    unfolding fits_def by blast
  then show ?thesis by (simp add: outcome_fits_def)
qed

lemma fits_failure:
  assumes "fits xs" and "(s, Inl e) \<in> set xs"
  shows "s \<noteq> [] \<and> (\<exists>n. e = Step_Failed n \<and> n \<noteq> [])"
proof -
  from assms obtain assets where "s \<noteq> []" "outcome_fits (s, assets) (Inl e)"
    unfolding fits_def by blast
  then show ?thesis by (cases e) (simp_all add: outcome_fits_def)
qed

lemma success_sources:
  assumes "fits xs"
  shows "st_source_id ` set (successes xs) = {s. \<exists>r. (s, Inr r) \<in> set xs}"
proof -
  have "st_source_id r = s" if "(s, Inr r) \<in> set xs" for s r
    using fits_success [OF assms that] by simp
  note source = this
  show ?thesis
  proof (intro set_eqI iffI)
    fix s
    assume "s \<in> st_source_id ` set (successes xs)"
    then obtain r t where "s = st_source_id r" "(t, Inr r) \<in> set xs" by (auto simp only: in_successes)
    with source [of t r] show "s \<in> {s. \<exists>r. (s, Inr r) \<in> set xs}" by (intro CollectI exI [of _ r]) simp
  next
    fix s
    assume "s \<in> {s. \<exists>r. (s, Inr r) \<in> set xs}"
    then obtain r where r: "(s, Inr r) \<in> set xs" by (elim CollectE exE)
    then have "r \<in> set (successes xs)" unfolding in_successes by (rule exI)
    with source [OF r] show "s \<in> st_source_id ` set (successes xs)" by (intro image_eqI [of _ _ r]) simp_all
  qed
qed

lemma failure_sources:
  assumes "fits xs"
  shows "fst ` set (failed_steps xs) = {s. \<exists>e. (s, Inl e) \<in> set xs}"
proof -
  have "s \<in> fst ` set (failed_steps xs) \<longleftrightarrow> (\<exists>n. (s, n) \<in> set (failed_steps xs))" for s by force
  moreover have "\<exists>n. (s, n) \<in> set (failed_steps xs)" if "(s, Inl e) \<in> set xs" for s e
    using fits_failure [OF assms that] that in_failed_steps by metis
  ultimately show ?thesis by (auto simp: set_eq_iff in_failed_steps)
qed

lemma covered_sources_total:
  assumes "fits xs"
  shows "\<exists>ys. check_all covered_source (filter P (sort_key fst (completed_by_source (successes xs)))) = Inr ys"
proof (rule check_all_total)
  fix e
  assume "e \<in> set (filter P (sort_key fst (completed_by_source (successes xs))))"
  then have "dict_get (completed_by_source (successes xs)) (fst e) = Some (snd e)"
    by (simp add: completed_by_source_def dict_get_Some_in)
  then have k: "fst e \<in> st_source_id ` set (successes xs)"
    and v: "snd e = map st_asset_ids (filter (\<lambda>r. st_source_id r = fst e) (successes xs))"
    by (auto simp: completed_by_source_def dict_get_group_by_Nil split: if_splits)
  from k obtain r where r: "r \<in> set (successes xs)" "st_source_id r = fst e" by auto
  with fits_success [OF assms] have "fst e \<noteq> []" "st_asset_ids r \<noteq> []" by (auto simp: in_successes)
  with r v show "\<exists>y. covered_source e = Inr y"
    by (auto simp: covered_source_def mk_source_coverage_def length_remdups_iff)
qed

lemma excluded_sources_total:
  assumes "fits xs"
  shows "\<exists>ys. check_all excluded_source (sort_key fst (group_by fst snd (failed_steps xs) [])) = Inr ys"
proof (rule check_all_total)
  fix e
  assume "e \<in> set (sort_key fst (group_by fst snd (failed_steps xs) []))"
  then have "dict_get (group_by fst snd (failed_steps xs) []) (fst e) = Some (snd e)"
    by (simp add: dict_get_Some_in)
  then have k: "fst e \<in> fst ` set (failed_steps xs)"
    and v: "snd e = map snd (filter (\<lambda>x. fst x = fst e) (failed_steps xs))"
    by (auto simp: dict_get_group_by_Nil split: if_splits)
  have names: "[] \<notin> set (snd e)"
    unfolding v by (auto simp: in_failed_steps dest: fits_failure [OF assms])
  from k v have "snd e \<noteq> []" by (force simp: filter_empty_conv)
  moreover have "fst e \<noteq> []" using k failure_sources [OF assms] fits_failure [OF assms] by auto
  ultimately show "\<exists>y. excluded_source e = Inr y"
    using names join_comma_nonempty [of "sorted_set (snd e)"]
    by (auto simp: excluded_source_def mk_coverage_exclusion_def)
qed

lemma covered_entry:
  assumes "fits xs" and "e \<in> set (completed_by_source (successes xs))" and "covered_source e = Inr c"
  shows "sc_complete c \<and> set (sc_asset_ids c) = answered_assets xs (sc_source_id c)"
proof -
  have "dict_get (completed_by_source (successes xs)) (fst e) = Some (snd e)"
    using assms(2) by (simp add: completed_by_source_def dict_get_Some_in)
  then have v: "snd e = map st_asset_ids (filter (\<lambda>r. st_source_id r = fst e) (successes xs))"
    by (auto simp: completed_by_source_def dict_get_group_by_Nil split: if_splits)
  have c: "sc_source_id c = fst e" "sc_complete c" "set (sc_asset_ids c) = (\<Union>x \<in> set (snd e). set x)"
    using assms(3) by (auto simp: covered_source_def mk_source_coverage_def split: if_splits)
  have "(\<exists>s. (s, Inr r) \<in> set xs) \<and> st_source_id r = s \<longleftrightarrow> (s, Inr r) \<in> set xs" for r s
    using fits_success [OF assms(1)] by blast
  then have "(\<Union>x \<in> set (snd e). set x) = answered_assets xs (fst e)"
    unfolding v answered_assets_def by (auto simp: in_successes)
  with c show ?thesis by simp
qed

lemma excluded_entry:
  assumes "e \<in> set (group_by fst snd (failed_steps xs) [])" and "excluded_source e = Inr x"
  shows "cx_reason_code x = ''source_execution_failed''
    \<and> (\<exists>names. sorted names \<and> distinct names \<and> set names = error_names xs (cx_source_id x) \<and> cx_detail x = join_comma names)"
proof -
  have "dict_get (group_by fst snd (failed_steps xs) []) (fst e) = Some (snd e)"
    using assms(1) by (simp add: dict_get_Some_in)
  then have v: "snd e = map snd (filter (\<lambda>x. fst x = fst e) (failed_steps xs))"
    by (auto simp: dict_get_group_by_Nil split: if_splits)
  have x: "cx_source_id x = fst e" "cx_reason_code x = ''source_execution_failed''" "cx_detail x = join_comma (sorted_set (snd e))"
    using assms(2) by (auto simp: excluded_source_def mk_coverage_exclusion_def split: if_splits)
  have "set (snd e) = error_names xs (fst e)"
    unfolding v error_names_def using in_failed_steps by force
  with x show ?thesis by (intro conjI exI [of _ "sorted_set (snd e)"]) simp_all
qed

lemma build_coverage_total:
  assumes "fits xs" and "xs \<noteq> []" and "map fst xs = step_sources p"
    and "ep_request_id p \<noteq> []" and "aware (ep_generated_at p)"
  shows "\<exists>c. build_coverage p (successes xs) (group_by fst snd (failed_steps xs) []) = Inr c
    \<and> set (included_ids c) = {s. (\<exists>r. (s, Inr r) \<in> set xs) \<and> (\<forall>e. (s, Inl e) \<notin> set xs)}
    \<and> set (excluded_ids c) = {s. \<exists>e. (s, Inl e) \<in> set xs}
    \<and> distinct (included_ids c) \<and> distinct (excluded_ids c) \<and> cov_expected_sources c = step_sources p
    \<and> (\<forall>e \<in> set (cov_included c). sc_complete e \<and> set (sc_asset_ids e) = answered_assets xs (sc_source_id e))
    \<and> (\<forall>e \<in> set (cov_excluded c). cx_reason_code e = ''source_execution_failed''
        \<and> (\<exists>names. sorted names \<and> distinct names \<and> set names = error_names xs (cx_source_id e) \<and> cx_detail e = join_comma names))"
proof -
  let ?fs = "group_by fst snd (failed_steps xs) []"
  let ?D = "filter (\<lambda>e. fst e \<notin> set (dict_keys ?fs)) (sort_key fst (completed_by_source (successes xs)))"
  obtain inc where inc: "check_all covered_source ?D = Inr inc"
    using covered_sources_total [OF assms(1)] by blast
  obtain exc where exc: "check_all excluded_source (sort_key fst ?fs) = Inr exc"
    using excluded_sources_total [OF assms(1)] by blast
  have inc_ids: "map sc_source_id inc = map fst ?D"
    by (rule check_all_map [OF inc]) (auto simp: covered_source_def mk_source_coverage_def split: if_splits)
  have exc_ids: "map cx_source_id exc = map fst (sort_key fst ?fs)"
    by (rule check_all_map [OF exc]) (auto simp: excluded_source_def mk_coverage_exclusion_def split: if_splits)
  have inc_each: "sc_complete c \<and> set (sc_asset_ids c) = answered_assets xs (sc_source_id c)" if "c \<in> set inc" for c
    using check_all_right [OF inc that] covered_entry [OF assms(1)] by auto
  have exc_each: "cx_reason_code x = ''source_execution_failed''
      \<and> (\<exists>names. sorted names \<and> distinct names \<and> set names = error_names xs (cx_source_id x) \<and> cx_detail x = join_comma names)"
    if "x \<in> set exc" for x
    using check_all_right [OF exc that] excluded_entry by auto
  have exc_set: "set (map cx_source_id exc) = {s. \<exists>e. (s, Inl e) \<in> set xs}"
    unfolding exc_ids using keys_group_by_Nil [of fst snd "failed_steps xs"] failure_sources [OF assms(1)]
    by simp
  have inc_set: "set (map sc_source_id inc) = {s. (\<exists>r. (s, Inr r) \<in> set xs) \<and> (\<forall>e. (s, Inl e) \<notin> set xs)}"
  proof -
    have "set (map fst ?D) = fst ` set (completed_by_source (successes xs)) - set (dict_keys ?fs)" by auto
    then show ?thesis unfolding inc_ids completed_by_source_def
      using keys_group_by_Nil [of fst snd "failed_steps xs"] failure_sources [OF assms(1)]
        keys_group_by_Nil [of st_source_id st_asset_ids "successes xs"] success_sources [OF assms(1)]
      by auto
  qed
  have distinct: "distinct (map sc_source_id inc)" "distinct (map cx_source_id exc)"
    unfolding inc_ids exc_ids by (simp_all add: distinct_map_filter completed_by_source_def)
  have srcs: "set (step_sources p) = fst ` set xs" using assms(3) by (metis set_map)
  have some: "inc \<noteq> [] \<or> exc \<noteq> []"
  proof (rule ccontr)
    assume "\<not> ?thesis"
    with inc_set exc_set have "\<not> (\<exists>s x. (s, x) \<in> set xs)" by (auto simp: all_conj_distrib) (metis sum.exhaust)
    with assms(2) show False by (cases xs) auto
  qed
  let ?c = "\<lparr>cov_request_id = ep_request_id p, cov_generated_at = ep_generated_at p,
      cov_included = inc, cov_excluded = exc, cov_expected_sources = step_sources p\<rparr>"
  have "[] \<notin> set (step_sources p)" using assms(1) unfolding srcs fits_def by fastforce
  moreover have "set (map sc_source_id inc) \<union> set (map cx_source_id exc) \<subseteq> set (step_sources p)"
    unfolding inc_set exc_set srcs by force
  moreover have "set (map sc_source_id inc) \<inter> set (map cx_source_id exc) = {}"
    unfolding inc_set exc_set by blast
  ultimately have "mk_coverage_statement ?c = Inr ?c"
    unfolding mk_coverage_statement_Inr using assms(4,5) some distinct by (simp del: set_map)
  then have "build_coverage p (successes xs) ?fs = Inr ?c"
    unfolding build_coverage_def inc exc by simp
  with inc_set exc_set distinct inc_each exc_each show ?thesis by auto
qed

lemma fits_outcomes:
  assumes "plan_ok p" and "list_all2 outcome_fits (plan_steps p) outcomes"
  defines "xs \<equiv> zip (step_sources p) outcomes"
  shows "fits xs" and "map fst xs = step_sources p" and "xs \<noteq> []" and "map snd xs = outcomes"
    and "\<forall>x \<in> set xs. snd x \<noteq> Inl Step_Cancelled"
proof -
  have len: "length (step_assets p) = length (step_sources p)" by (simp add: step_sources_def step_assets_def)
  with list_all2_lengthD [OF assms(2)] have n: "length outcomes = length (step_sources p)" by simp
  then show fst: "map fst xs = step_sources p" and "map snd xs = outcomes" by (simp_all add: xs_def)
  have "step_sources p \<noteq> []"
    using assms(1) by (auto simp: plan_ok_def mk_execution_plan_def step_sources_def Let_def split: if_splits)
  with fst show "xs \<noteq> []" by auto
  have each: "\<exists>assets. (s, assets) \<in> set (plan_steps p) \<and> outcome_fits (s, assets) x"
    if "(s, x) \<in> set xs" for s x
  proof -
    from that obtain i where i: "i < length outcomes" "s = step_sources p ! i" "x = outcomes ! i"
      by (auto simp: xs_def set_zip n)
    with assms(2) n len have "outcome_fits (s, step_assets p ! i) x"
      by (auto simp: list_all2_conv_all_nth)
    moreover have "(s, step_assets p ! i) \<in> set (plan_steps p)" using i n len by (auto simp: set_zip)
    ultimately show ?thesis by blast
  qed
  have "s \<noteq> [] \<and> (\<exists>assets. assets \<noteq> [] \<and> outcome_fits (s, assets) x)" if "(s, x) \<in> set xs" for s x
    using each [OF that] plan_ok_steps [OF assms(1)] by fastforce
  then show "fits xs" unfolding fits_def by blast
  have "x \<noteq> Inl Step_Cancelled" if "(s, x) \<in> set xs" for s x
    using each [OF that] by (auto simp: outcome_fits_def)
  then show "\<forall>x \<in> set xs. snd x \<noteq> Inl Step_Cancelled" by auto
qed

lemma lineage_key_inj: "lineage_key l = lineage_key m \<longleftrightarrow> l = m"
  by (auto simp: lineage_key_def)

lemma set_dict_set_lineage:
  "\<forall>(k, m) \<in> set d. lineage_key m = k \<Longrightarrow>
     set (dict_set (lineage_key l) l d) = insert (lineage_key l, l) (set d)"
  by (induction d) (auto simp: lineage_key_inj)

lemma set_fold_lineage:
  "\<forall>(k, m) \<in> set d. lineage_key m = k \<Longrightarrow>
     snd ` set (fold (\<lambda>l. dict_set (lineage_key l) l) ls d) = snd ` set d \<union> set ls"
proof (induction ls arbitrary: d)
  case (Cons l ls)
  have "\<forall>(k, m) \<in> set (dict_set (lineage_key l) l d). lineage_key m = k"
    unfolding set_dict_set_lineage [OF Cons.prems] using Cons.prems by auto
  from Cons.IH [OF this] show ?case unfolding set_dict_set_lineage [OF Cons.prems] by simp
qed simp

lemma set_unique_lineage [simp]: "set (unique_lineage ls) = set ls"
  using set_fold_lineage [of "[]" ls] by (simp add: unique_lineage_def Let_def)

lemma outcome_split:
  "fst ` set xs = {s. \<exists>r. (s, Inr r) \<in> set xs} \<union> {s. \<exists>e. (s, Inl e) \<in> set xs}"
proof (intro set_eqI iffI)
  fix s
  assume "s \<in> fst ` set xs"
  then obtain x where "(s, x) \<in> set xs" by auto
  then show "s \<in> {s. \<exists>r. (s, Inr r) \<in> set xs} \<union> {s. \<exists>e. (s, Inl e) \<in> set xs}"
    by (cases x) auto
qed force

lemma all_succeeded: "(\<forall>x \<in> X. \<exists>y. x = Inr y) \<longleftrightarrow> (\<forall>e. Inl e \<notin> X)"
  by (metis sum.exhaust sum.distinct(1))

text \<open>
  C27. For a well-formed plan, whatever its steps return (none of them cancelled), the coordinator delivers the successful
  results in the order of the plan with a coverage statement that is exact: every planned source is mentioned once, as
  included exactly when all its steps succeeded, with the assets those steps answered for, and as excluded exactly when a
  step of it failed, with the names of the errors of its failed steps, sorted and joined; the result is complete exactly when
  every step succeeded; and its lineage is that of the successful steps.
\<close>

theorem coordination_reports_every_omission:
  fixes p :: execution_plan and outcomes :: "step_outcome list"
  defines "xs \<equiv> zip (step_sources p) outcomes"
  assumes "plan_ok p" and "list_all2 outcome_fits (plan_steps p) outcomes"
  shows "\<exists>r. assemble p outcomes = Inr r
    \<and> map Inr (co_steps r) = filter (\<lambda>x. \<not> isl x) outcomes
    \<and> (coordination_complete r \<longleftrightarrow> (\<forall>x \<in> set outcomes. \<exists>y. x = Inr y))
    \<and> distinct (included_ids (co_coverage r) @ excluded_ids (co_coverage r))
    \<and> set (included_ids (co_coverage r)) = {s \<in> set (step_sources p). \<forall>e. (s, Inl e) \<notin> set xs}
    \<and> set (excluded_ids (co_coverage r)) = {s. \<exists>e. (s, Inl e) \<in> set xs}
    \<and> (\<forall>c \<in> set (cov_included (co_coverage r)). sc_complete c
        \<and> set (sc_asset_ids c) = {asset. \<exists>y. (sc_source_id c, Inr y) \<in> set xs \<and> asset \<in> set (st_asset_ids y)})
    \<and> (\<forall>c \<in> set (cov_excluded (co_coverage r)). cx_reason_code c = ''source_execution_failed''
        \<and> (\<exists>names. sorted names \<and> distinct names \<and> cx_detail c = join_comma names
            \<and> set names = {n. (cx_source_id c, Inl (Step_Failed n)) \<in> set xs}))
    \<and> set (co_lineage r) = (\<Union>x \<in> {x. Inr x \<in> set outcomes}. set (step_lineage x))"
proof -
  note f = fits_outcomes [OF assms(2,3), folded xs_def]
  have p: "ep_request_id p \<noteq> []" "aware (ep_generated_at p)"
    using assms(2) by (auto simp: plan_ok_def mk_execution_plan_def Let_def split: if_splits)
  obtain c where c: "build_coverage p (successes xs) (group_by fst snd (failed_steps xs) []) = Inr c"
    and inc: "set (included_ids c) = {s. (\<exists>r. (s, Inr r) \<in> set xs) \<and> (\<forall>e. (s, Inl e) \<notin> set xs)}"
    and exc: "set (excluded_ids c) = {s. \<exists>e. (s, Inl e) \<in> set xs}"
    and once: "distinct (included_ids c)" "distinct (excluded_ids c)" and exp: "cov_expected_sources c = step_sources p"
    and each: "\<forall>e \<in> set (cov_included c). sc_complete e \<and> set (sc_asset_ids e) = answered_assets xs (sc_source_id e)"
      "\<forall>e \<in> set (cov_excluded c). cx_reason_code e = ''source_execution_failed''
        \<and> (\<exists>names. sorted names \<and> distinct names \<and> set names = error_names xs (cx_source_id e) \<and> cx_detail e = join_comma names)"
    using build_coverage_total [OF f(1,3,2) p] by blast
  have srcs: "set (step_sources p) = fst ` set xs" using f(2) by (metis set_map)
  have outs: "x \<in> set outcomes \<longleftrightarrow> (\<exists>s. (s, x) \<in> set xs)" for x
  proof -
    have "x \<in> set outcomes \<longleftrightarrow> x \<in> snd ` set xs" using f(4) by (metis set_map)
    then show ?thesis by force
  qed
  have included: "set (included_ids c) = {s \<in> set (step_sources p). \<forall>e. (s, Inl e) \<notin> set xs}"
    unfolding inc srcs outcome_split by blast
  have reported: "set (included_ids c) \<union> set (excluded_ids c) = set (step_sources p)"
    unfolding inc exc srcs outcome_split by blast
  have all: "list_all sc_complete (cov_included c)" using each(1) by (simp add: list_all_iff)
  have "cov_excluded c = [] \<longleftrightarrow> set (excluded_ids c) = {}" by simp
  then have "cov_excluded c = [] \<longleftrightarrow> (\<forall>x \<in> set outcomes. \<exists>y. x = Inr y)"
    unfolding exc all_succeeded outs by blast
  moreover have "coverage_complete c \<longleftrightarrow> cov_excluded c = []"
    using reported f(2,3) all exp by (auto simp: coverage_complete_def)
  moreover have "{x. Inr x \<in> set outcomes} = set (successes xs)"
    by (simp add: set_eq_iff in_successes outs)
  moreover have "map Inr (successes xs) = filter (\<lambda>x. \<not> isl x) outcomes"
    unfolding f(4) [symmetric] by (induction xs) (auto simp: successes_def split: sum.splits)
  moreover have "distinct (included_ids c @ excluded_ids c)" using once inc exc by auto
  moreover have "assemble p outcomes = Inr \<lparr>co_request_id = ep_request_id p, co_steps = successes xs, co_coverage = c,
      co_lineage = unique_lineage (concat (map step_lineage (successes xs)))\<rparr>" (is "_ = Inr ?r")
    by (simp add: assemble_def xs_def [symmetric] collect_outcomes_eq [OF f(5)] c)
  moreover have "co_steps ?r = successes xs" "co_coverage ?r = c" "coordination_complete ?r = coverage_complete c"
    "set (co_lineage ?r) = (\<Union>x \<in> set (successes xs). set (step_lineage x))"
    by (simp_all add: coordination_complete_def)
  ultimately show ?thesis
    using exc included each [unfolded answered_assets_def error_names_def] by (intro exI [of _ ?r]) auto
qed

definition sample_plan :: execution_plan where
  "sample_plan = \<lparr>ep_request_id = ''request-1'', ep_generated_at = utc 0,
     ep_query_steps = [\<lparr>qs_step_id = ''s1'', qs_request = sample_request 1\<rparr>,
       \<lparr>qs_step_id = ''s2'', qs_request = (sample_request 1)\<lparr>qr_source_id := ''erp''\<rparr>\<rparr>],
     ep_search_steps = []\<rparr>"

definition sample_outcomes :: "step_outcome list" where
  "sample_outcomes = [Inr \<lparr>st_step_id = ''s1'', st_source_id = ''lab.mutable'',
       st_asset_ids = [''orders''], st_batches = [sample_batch], st_hits = []\<rparr>,
     Inl (Step_Failed ''KeyError'')]"

theorem coordination_reports_every_omission_witness:
  "\<exists>r. assemble sample_plan sample_outcomes = Inr r \<and> \<not> coordination_complete r
     \<and> set (included_ids (co_coverage r)) = {''lab.mutable''} \<and> set (excluded_ids (co_coverage r)) = {''erp''}"
proof -
  have ok: "plan_ok sample_plan"
    by (simp add: plan_ok_def sample_plan_def mk_execution_plan_def mk_query_step_def checks
        sample_request_def str_strip_def is_space_def)
  have fit: "list_all2 outcome_fits (plan_steps sample_plan) sample_outcomes"
    by (simp add: sample_plan_def sample_outcomes_def step_sources_def step_assets_def outcome_fits_def
        sample_request_def)
  from coordination_reports_every_omission [OF ok fit] obtain r where "assemble sample_plan sample_outcomes = Inr r"
      "coordination_complete r \<longleftrightarrow> (\<forall>x \<in> set sample_outcomes. \<exists>y. x = Inr y)"
      "set (included_ids (co_coverage r))
        = {s \<in> set (step_sources sample_plan). \<forall>e. (s, Inl e) \<notin> set (zip (step_sources sample_plan) sample_outcomes)}"
      "set (excluded_ids (co_coverage r)) = {s. \<exists>e. (s, Inl e) \<in> set (zip (step_sources sample_plan) sample_outcomes)}"
    by (elim exE conjE) (rule that)
  moreover have "step_sources sample_plan = [''lab.mutable'', ''erp'']"
    by (simp add: step_sources_def sample_plan_def sample_request_def)
  ultimately show ?thesis
    by (intro exI [of _ r]) (auto simp: sample_outcomes_def)
qed

end
