(* ===== verification/Assertion_Graph.thy ===== *)
theory Assertion_Graph
  imports Data_Models
begin

text \<open>
  semantic.py: append-only assertions with bitemporal validity. The wall clock the source reads in
  \<open>active()\<close> is the argument \<open>now\<close> of the operations (one reading per operation). The fixpoint loop of
  \<open>equivalence_cluster\<close> is a recursion whose measure is the number of asserted entities the cluster
  still lacks; its result is proved to be the class of the entity in the equivalence closure of the
  active SAME_AS assertions.
\<close>

datatype assertion_predicate = Same_As | Not_Same_As | Mentions

record semantic_assertion =
  sa_assertion_id :: string
  sa_subject_id :: string
  sa_predicate :: assertion_predicate
  sa_object_id :: string
  sa_confidence :: rat
  sa_asserted_at :: datetime
  sa_valid_from :: datetime
  sa_valid_to :: "datetime option"
  sa_policy_digest :: string
  sa_lineage :: "lineage_ref list"

definition mk_semantic_assertion :: "semantic_assertion \<Rightarrow> semantic_assertion checked" where
  "mk_semantic_assertion a =
     (if list_ex (\<lambda>v. v = []) [sa_assertion_id a, sa_subject_id a, sa_object_id a, sa_policy_digest a]
      then Inl (ValueError ''assertion identity, entities and policy digest are required'')
      else if sa_subject_id a = sa_object_id a \<and> sa_predicate a = Not_Same_As
      then Inl (ValueError ''an entity cannot be declared different from itself'')
      else if \<not> (0 \<le> sa_confidence a \<and> sa_confidence a \<le> 1)
      then Inl (ValueError ''confidence must be between zero and one'')
      else if sa_lineage a = [] then Inl (ValueError ''semantic assertions require lineage'')
      else if \<not> aware (sa_asserted_at a) \<or> \<not> aware (sa_valid_from a)
            \<or> (case sa_valid_to a of None \<Rightarrow> False | Some t \<Rightarrow> \<not> aware t)
      then Inl (ValueError ''assertion timestamps must be timezone-aware'')
      else if (case sa_valid_to a of None \<Rightarrow> False | Some t \<Rightarrow> instant t \<le> instant (sa_valid_from a))
      then Inl (ValueError ''valid_to must be later than valid_from'')
      else Inr a)"

record assertion_retraction =
  rt_assertion_id :: string
  rt_retracted_at :: datetime
  rt_reason :: string

definition mk_assertion_retraction :: "assertion_retraction \<Rightarrow> assertion_retraction checked" where
  "mk_assertion_retraction r =
     (if \<not> aware (rt_retracted_at r) \<or> rt_reason r = []
      then Inl (ValueError ''retractions require a timezone-aware timestamp and reason'') else Inr r)"

record entity_redirect =
  er_redirect_id :: string
  er_from_entity_id :: string
  er_to_entity_id :: string
  er_reason :: string
  er_asserted_at :: datetime
  er_lineage :: "lineage_ref list"

definition mk_entity_redirect :: "entity_redirect \<Rightarrow> entity_redirect checked" where
  "mk_entity_redirect r =
     (if list_ex (\<lambda>v. v = []) [er_redirect_id r, er_from_entity_id r, er_to_entity_id r, er_reason r]
      then Inl (ValueError ''redirect identity, entities and reason are required'')
      else if er_from_entity_id r = er_to_entity_id r
      then Inl (ValueError ''entity redirect cannot target itself'')
      else if \<not> aware (er_asserted_at r) \<or> er_lineage r = []
      then Inl (ValueError ''entity redirect requires time and lineage'')
      else Inr r)"

section \<open>The graph\<close>

record assertion_graph =
  ag_assertions :: "(string, semantic_assertion) dict"
  ag_retractions :: "(string, assertion_retraction) dict"

definition empty_graph :: assertion_graph where
  "empty_graph = \<lparr>ag_assertions = [], ag_retractions = []\<rparr>"

definition is_active :: "assertion_graph \<Rightarrow> datetime \<Rightarrow> datetime \<Rightarrow> string \<times> semantic_assertion \<Rightarrow> bool" where
  "is_active g valid_at known_at e =
     (case e of (key, item) \<Rightarrow>
        instant (sa_asserted_at item) \<le> instant known_at
      \<and> (case dict_get (ag_retractions g) key of
           None \<Rightarrow> True | Some r \<Rightarrow> instant known_at < instant (rt_retracted_at r))
      \<and> instant (sa_valid_from item) \<le> instant valid_at
      \<and> (case sa_valid_to item of None \<Rightarrow> True | Some t \<Rightarrow> instant valid_at < instant t))"

definition active_at :: "assertion_graph \<Rightarrow> datetime \<Rightarrow> datetime \<Rightarrow> semantic_assertion list checked" where
  "active_at g valid_at known_at =
     (if \<not> aware valid_at \<or> \<not> aware known_at
      then Inl (ValueError ''query timestamps must be timezone-aware'')
      else Inr (map snd (filter (is_active g valid_at known_at) (ag_assertions g))))"

definition active_now :: "assertion_graph \<Rightarrow> int \<Rightarrow> semantic_assertion list" where
  \<comment> \<open>\<open>active()\<close>: both instants are the current time, which is aware\<close>
  "active_now g now = map snd (filter (is_active g (utc now) (utc now)) (ag_assertions g))"

lemma active_at_now: "active_at g (utc now) (utc now) = Inr (active_now g now)"
  by (simp add: active_at_def active_now_def)

section \<open>Clusters\<close>

fun cluster_pass :: "semantic_assertion list \<Rightarrow> string list \<Rightarrow> string list" where
  \<comment> \<open>one round of the loop; the cluster is a list without repetitions\<close>
  "cluster_pass [] cluster = cluster"
| "cluster_pass (a # as) cluster =
     (if sa_predicate a \<noteq> Same_As then cluster_pass as cluster
      else if sa_subject_id a \<in> set cluster \<or> sa_object_id a \<in> set cluster
      then cluster_pass as (List.insert (sa_subject_id a) (List.insert (sa_object_id a) cluster))
      else cluster_pass as cluster)"

definition entities :: "semantic_assertion list \<Rightarrow> string set" where
  "entities as = sa_subject_id ` set as \<union> sa_object_id ` set as"

lemma finite_entities [simp]: "finite (entities as)"
  by (simp add: entities_def)

lemma cluster_pass_extends: "set cluster \<subseteq> set (cluster_pass as cluster)"
  by (induction as cluster rule: cluster_pass.induct) auto

lemma cluster_pass_within: "set (cluster_pass as cluster) \<subseteq> set cluster \<union> entities as"
  by (induction as cluster rule: cluster_pass.induct) (auto simp: entities_def)

function cluster_loop :: "semantic_assertion list \<Rightarrow> string list \<Rightarrow> string list" where
  "cluster_loop as cluster =
     (let next_cluster = cluster_pass as cluster
      in if set next_cluster = set cluster then cluster else cluster_loop as next_cluster)"
  by auto

termination
proof (relation "measure (\<lambda>(as, cluster). card (entities as - set cluster))")
  fix as cluster next_cluster
  assume "next_cluster = cluster_pass as cluster" "set next_cluster \<noteq> set cluster"
  then have "entities as - set next_cluster \<subset> entities as - set cluster"
    using cluster_pass_extends [of cluster as] cluster_pass_within [of as cluster] by blast
  then show "((as, next_cluster), (as, cluster)) \<in> measure (\<lambda>(as, cluster). card (entities as - set cluster))"
    by (auto intro: psubset_card_mono)
qed simp

declare cluster_loop.simps [simp del]

definition equivalence_cluster :: "assertion_graph \<Rightarrow> int \<Rightarrow> string \<Rightarrow> string list" where
  "equivalence_cluster g now entity = cluster_loop (active_now g now) [entity]"

section \<open>Appending and retracting\<close>

datatype graph_error = Gr_Py py_error | Semantic_Contradiction string

definition bridges :: "string list \<Rightarrow> string list \<Rightarrow> semantic_assertion \<Rightarrow> bool" where
  "bridges left right item \<longleftrightarrow> sa_predicate item = Not_Same_As
     \<and> (sa_subject_id item \<in> set left \<and> sa_object_id item \<in> set right
        \<or> sa_subject_id item \<in> set right \<and> sa_object_id item \<in> set left)"

definition append_assertion ::
  "int \<Rightarrow> semantic_assertion \<Rightarrow> assertion_graph \<Rightarrow> graph_error + assertion_graph" where
  "append_assertion now a g =
     (if sa_assertion_id a \<in> set (dict_keys (ag_assertions g))
      then Inl (Gr_Py (ValueError ''assertion already exists''))
      else if sa_predicate a = Not_Same_As
            \<and> sa_object_id a \<in> set (equivalence_cluster g now (sa_subject_id a))
      then Inl (Semantic_Contradiction ''not_same_as contradicts an active identity cluster'')
      else if sa_predicate a = Same_As
            \<and> list_ex (bridges (equivalence_cluster g now (sa_subject_id a))
                               (equivalence_cluster g now (sa_object_id a))) (active_now g now)
      then Inl (Semantic_Contradiction ''same_as would merge explicitly distinct clusters'')
      else Inr (g\<lparr>ag_assertions := dict_set (sa_assertion_id a) a (ag_assertions g)\<rparr>))"

definition retract_assertion ::
  "assertion_retraction \<Rightarrow> assertion_graph \<Rightarrow> graph_error + assertion_graph" where
  "retract_assertion r g =
     (case dict_get (ag_assertions g) (rt_assertion_id r) of
        None \<Rightarrow> Inl (Gr_Py (KeyError ''unknown assertion''))
      | Some a \<Rightarrow>
          if rt_assertion_id r \<in> set (dict_keys (ag_retractions g))
          then Inl (Gr_Py (ValueError ''assertion already retracted''))
          else if instant (rt_retracted_at r) < instant (sa_asserted_at a)
          then Inl (Gr_Py (ValueError ''retraction cannot predate its assertion''))
          else Inr (g\<lparr>ag_retractions := dict_set (rt_assertion_id r) r (ag_retractions g)\<rparr>))"

section \<open>A cluster is an equivalence class\<close>

definition same_as :: "semantic_assertion list \<Rightarrow> (string \<times> string) set" where
  "same_as as = {(x, y). \<exists>a \<in> set as. sa_predicate a = Same_As
     \<and> (sa_subject_id a = x \<and> sa_object_id a = y \<or> sa_subject_id a = y \<and> sa_object_id a = x)}"

lemma sym_same_as: "sym (same_as as)"
  by (auto simp: same_as_def sym_def)

lemma same_as_Cons:
  "same_as (a # as) = same_as as \<union> (if sa_predicate a = Same_As
     then {(sa_subject_id a, sa_object_id a), (sa_object_id a, sa_subject_id a)} else {})"
  by (auto simp: same_as_def)

lemma cluster_pass_reachable:
  "set as \<subseteq> set bs \<Longrightarrow> set cluster \<subseteq> (same_as bs)\<^sup>* `` {x} \<Longrightarrow>
     set (cluster_pass as cluster) \<subseteq> (same_as bs)\<^sup>* `` {x}"
proof (induction as cluster rule: cluster_pass.induct)
  case (2 a as cluster)
  have edge: "(sa_subject_id a, sa_object_id a) \<in> same_as bs" "(sa_object_id a, sa_subject_id a) \<in> same_as bs"
    if "sa_predicate a = Same_As" using that 2(4) by (auto simp: same_as_def)
  show ?case
  proof (cases "sa_predicate a = Same_As \<and> (sa_subject_id a \<in> set cluster \<or> sa_object_id a \<in> set cluster)")
    case True
    have "{sa_subject_id a, sa_object_id a} \<subseteq> (same_as bs)\<^sup>* `` {x}"
      using True edge 2(5) by (auto intro: rtrancl_into_rtrancl)
    with True 2(2) 2(4,5) show ?thesis by auto
  next
    case False
    with 2(1,3) 2(4,5) show ?thesis by auto
  qed
qed simp

lemma cluster_pass_closed:
  "(x, y) \<in> same_as as \<Longrightarrow> x \<in> set cluster \<Longrightarrow> y \<in> set (cluster_pass as cluster)"
proof (induction as cluster rule: cluster_pass.induct)
  case (2 a as cluster)
  then show ?case
    using cluster_pass_extends [of "List.insert (sa_subject_id a) (List.insert (sa_object_id a) cluster)" as]
      cluster_pass_extends [of cluster as]
    by (auto simp: same_as_Cons split: if_splits)
qed (simp add: same_as_def)

lemma cluster_loop_reachable:
  "set cluster \<subseteq> (same_as as)\<^sup>* `` {x} \<Longrightarrow> set (cluster_loop as cluster) \<subseteq> (same_as as)\<^sup>* `` {x}"
proof (induction as cluster rule: cluster_loop.induct)
  case (1 as cluster)
  show ?case
    using 1(1) [OF refl] 1(2) cluster_pass_reachable [OF subset_refl 1(2)]
    by (subst cluster_loop.simps) (simp add: Let_def)
qed

lemma cluster_loop_closed:
  "set cluster \<subseteq> set (cluster_loop as cluster)
   \<and> (\<forall>(u, v) \<in> same_as as. u \<in> set (cluster_loop as cluster) \<longrightarrow> v \<in> set (cluster_loop as cluster))"
proof (induction as cluster rule: cluster_loop.induct)
  case (1 as cluster)
  show ?case
  proof (cases "set (cluster_pass as cluster) = set cluster")
    case True
    then have "cluster_loop as cluster = cluster" by (subst cluster_loop.simps) simp
    with True show ?thesis using cluster_pass_closed by fastforce
  next
    case False
    then have "cluster_loop as cluster = cluster_loop as (cluster_pass as cluster)"
      by (subst cluster_loop.simps) simp
    with 1 [OF refl False] cluster_pass_extends [of cluster as] show ?thesis by auto
  qed
qed

lemma cluster_loop_eq: "set (cluster_loop as [x]) = (same_as as)\<^sup>* `` {x}"
proof
  show "set (cluster_loop as [x]) \<subseteq> (same_as as)\<^sup>* `` {x}" by (rule cluster_loop_reachable) simp
  show "(same_as as)\<^sup>* `` {x} \<subseteq> set (cluster_loop as [x])"
  proof clarify
    fix y
    assume "(x, y) \<in> (same_as as)\<^sup>*"
    then show "y \<in> set (cluster_loop as [x])"
      by (induction rule: rtrancl_induct) (use cluster_loop_closed [of "[x]" as] in auto)
  qed
qed

text \<open>
  C29. The cluster of an entity, computed by the loop (which always terminates), is its class in the
  equivalence closure of the currently active SAME_AS assertions: it contains exactly the entities
  linked to it by a chain of them, in either direction.
\<close>

theorem equivalence_cluster_is_class:
  "set (equivalence_cluster g now x) = (same_as (active_now g now))\<^sup>* `` {x}
   \<and> equiv UNIV ((same_as (active_now g now))\<^sup>*)"
  using sym_same_as [of "active_now g now"]
  by (simp add: equivalence_cluster_def cluster_loop_eq equiv_def refl_rtrancl sym_rtrancl trans_rtrancl)

section \<open>No contradiction is admitted\<close>

definition consistent :: "semantic_assertion list \<Rightarrow> bool" where
  "consistent as \<longleftrightarrow> (\<forall>a \<in> set as. sa_predicate a = Not_Same_As
     \<longrightarrow> (sa_subject_id a, sa_object_id a) \<notin> (same_as as)\<^sup>*)"

lemma consistent_mono: "consistent bs \<Longrightarrow> set as \<subseteq> set bs \<Longrightarrow> consistent as"
proof -
  assume "consistent bs" and sub: "set as \<subseteq> set bs"
  have "same_as as \<subseteq> same_as bs" using sub by (auto simp: same_as_def)
  from rtrancl_mono [OF this] show ?thesis
    using \<open>consistent bs\<close> sub unfolding consistent_def by blast
qed

lemma rtrancl_add_edge:
  assumes "(x, y) \<in> (R \<union> {(s, t), (t, s)})\<^sup>*"
  shows "(x, y) \<in> R\<^sup>* \<or> (x, s) \<in> R\<^sup>* \<and> (t, y) \<in> R\<^sup>* \<or> (x, t) \<in> R\<^sup>* \<and> (s, y) \<in> R\<^sup>*"
  using assms by (induction rule: rtrancl_induct) (auto intro: rtrancl_into_rtrancl)

lemma sym_closure: "(x, y) \<in> (same_as as)\<^sup>* \<longleftrightarrow> (y, x) \<in> (same_as as)\<^sup>*"
  by (meson sym_rtrancl sym_same_as symD)

lemma same_as_append:
  "same_as (as @ [a]) = same_as as \<union> (if sa_predicate a = Same_As
     then {(sa_subject_id a, sa_object_id a), (sa_object_id a, sa_subject_id a)} else {})"
  by (auto simp: same_as_def)

text \<open>The check that \<open>append\<close> makes is what keeps the active assertions consistent.\<close>

lemma admitted_consistent:
  assumes "consistent as"
    and "sa_predicate a = Not_Same_As \<Longrightarrow> sa_object_id a \<notin> set (cluster_loop as [sa_subject_id a])"
    and "sa_predicate a = Same_As \<Longrightarrow>
      \<not> list_ex (bridges (cluster_loop as [sa_subject_id a]) (cluster_loop as [sa_object_id a])) as"
  shows "consistent (as @ [a])"
proof -
  have "(sa_subject_id b, sa_object_id b) \<notin> (same_as (as @ [a]))\<^sup>*"
    if b: "b \<in> set (as @ [a])" "sa_predicate b = Not_Same_As" for b
  proof (cases "sa_predicate a = Same_As")
    case True
    with b have "b \<in> set as" by auto
    with assms(1) b(2) have "(sa_subject_id b, sa_object_id b) \<notin> (same_as as)\<^sup>*"
      by (simp add: consistent_def)
    moreover have "\<not> bridges (cluster_loop as [sa_subject_id a]) (cluster_loop as [sa_object_id a]) b"
      using assms(3) [OF True] \<open>b \<in> set as\<close> by (simp add: list_ex_iff)
    ultimately show ?thesis
      using True b(2) rtrancl_add_edge [of "sa_subject_id b" "sa_object_id b" "same_as as"
          "sa_subject_id a" "sa_object_id a"] sym_closure [of _ _ as]
      by (auto simp: same_as_append bridges_def cluster_loop_eq)
  next
    case False
    with b assms(1,2) show ?thesis
      by (auto simp: same_as_append consistent_def cluster_loop_eq)
  qed
  then show ?thesis by (simp add: consistent_def)
qed

lemma active_now_snoc:
  "active_now (g\<lparr>ag_assertions := ag_assertions g @ [(k, a)]\<rparr>) now =
     active_now g now @ (if is_active g (utc now) (utc now) (k, a) then [a] else [])"
proof -
  have "is_active (g\<lparr>ag_assertions := x\<rparr>) = is_active g" for x by (simp add: fun_eq_iff is_active_def)
  then show ?thesis by (simp add: active_now_def)
qed

lemma append_assertion_consistent:
  assumes "append_assertion now a g = Inr g'" and "consistent (active_now g now)"
  shows "consistent (active_now g' now)"
proof -
  from assms(1) have new: "sa_assertion_id a \<notin> set (dict_keys (ag_assertions g))"
    and g': "g' = g\<lparr>ag_assertions := dict_set (sa_assertion_id a) a (ag_assertions g)\<rparr>"
    and n: "sa_predicate a = Not_Same_As \<Longrightarrow> sa_object_id a \<notin> set (equivalence_cluster g now (sa_subject_id a))"
    and s: "sa_predicate a = Same_As \<Longrightarrow> \<not> list_ex (bridges (equivalence_cluster g now (sa_subject_id a))
       (equivalence_cluster g now (sa_object_id a))) (active_now g now)"
    by (auto simp: append_assertion_def split: if_splits simp del: set_map)
  show ?thesis
    using admitted_consistent [OF assms(2), of a] n s assms(2)
    by (simp add: g' dict_set_new [OF new] active_now_snoc equivalence_cluster_def)
qed

datatype graph_op = Append_Op int semantic_assertion | Retract_Op int assertion_retraction

primrec op_time :: "graph_op \<Rightarrow> int" where
  "op_time (Append_Op t a) = t"
| "op_time (Retract_Op t r) = t"

primrec graph_step :: "graph_op \<Rightarrow> assertion_graph \<Rightarrow> assertion_graph" where
  "graph_step (Append_Op t a) g = attempt (append_assertion t a) g"
| "graph_step (Retract_Op t r) g = attempt (retract_assertion r) g"

text \<open>An assertion that is in force from now on, without an end.\<close>

definition in_force :: "int \<Rightarrow> semantic_assertion \<Rightarrow> bool" where
  "in_force t a \<longleftrightarrow> instant (sa_asserted_at a) \<le> t \<and> instant (sa_valid_from a) \<le> t \<and> sa_valid_to a = None"

definition graph_inv :: "int \<Rightarrow> assertion_graph \<Rightarrow> bool" where
  "graph_inv t g \<longleftrightarrow> (\<forall>e \<in> set (ag_assertions g). in_force t (snd e)) \<and> consistent (active_now g t)"

lemma active_now_subset:
  assumes "ag_assertions h = ag_assertions g"
    and "\<And>e. e \<in> set (ag_assertions g) \<Longrightarrow> is_active h (utc u) (utc u) e \<Longrightarrow> is_active g (utc t) (utc t) e"
  shows "set (active_now h u) \<subseteq> set (active_now g t)"
  using assms by (auto simp: active_now_def intro!: imageI)

lemma graph_inv_later: "graph_inv t g \<Longrightarrow> t \<le> u \<Longrightarrow> graph_inv u g"
proof -
  assume inv: "graph_inv t g" and "t \<le> u"
  have "is_active g (utc t) (utc t) e" if "e \<in> set (ag_assertions g)" "is_active g (utc u) (utc u) e" for e
  proof -
    have "in_force t (snd e)" using inv that(1) by (simp add: graph_inv_def)
    with that(2) \<open>t \<le> u\<close> show ?thesis
      by (auto simp: in_force_def is_active_def split: option.splits prod.splits)
  qed
  then have "set (active_now g u) \<subseteq> set (active_now g t)" by (intro active_now_subset) auto
  with inv have "consistent (active_now g u)" unfolding graph_inv_def by (blast intro: consistent_mono)
  with inv \<open>t \<le> u\<close> show ?thesis by (auto simp: graph_inv_def in_force_def)
qed

lemma retract_active_subset:
  assumes "retract_assertion r g = Inr g'"
  shows "set (active_now g' t) \<subseteq> set (active_now g t)" and "ag_assertions g' = ag_assertions g"
proof -
  from assms have new: "dict_get (ag_retractions g) (rt_assertion_id r) = None"
    and g': "g' = g\<lparr>ag_retractions := dict_set (rt_assertion_id r) r (ag_retractions g)\<rparr>"
    by (auto simp: retract_assertion_def in_keys simp del: set_map split: option.splits if_splits)
  then show "ag_assertions g' = ag_assertions g" by simp
  then show "set (active_now g' t) \<subseteq> set (active_now g t)"
    by (rule active_now_subset) (auto simp: g' is_active_def new split: if_splits prod.splits)
qed

lemma graph_step_inv:
  assumes "graph_inv (op_time x) g" and "\<And>t a. x = Append_Op t a \<Longrightarrow> in_force t a"
  shows "graph_inv (op_time x) (graph_step x g)"
proof (cases x)
  case (Append_Op t a)
  show ?thesis
  proof (cases "append_assertion t a g")
    case (Inr g')
    then have g': "g' = g\<lparr>ag_assertions := dict_set (sa_assertion_id a) a (ag_assertions g)\<rparr>"
      and new: "sa_assertion_id a \<notin> set (dict_keys (ag_assertions g))"
      by (auto simp: append_assertion_def split: if_splits simp del: set_map)
    from append_assertion_consistent [OF Inr] assms Append_Op Inr show ?thesis
      by (auto simp: graph_inv_def g' dict_set_new [OF new])
  qed (use assms Append_Op in simp)
next
  case (Retract_Op t r)
  show ?thesis
  proof (cases "retract_assertion r g")
    case (Inr g')
    from assms(1) Retract_Op have "consistent (active_now g t)" by (simp add: graph_inv_def)
    then have "consistent (active_now g' t)"
      using retract_active_subset(1) [OF Inr] by (rule consistent_mono)
    with assms(1) Retract_Op Inr show ?thesis
      by (simp add: graph_inv_def retract_active_subset(2) [OF Inr])
  qed (use assms Retract_Op in simp)
qed

lemma graph_run_inv:
  assumes "graph_inv t g" and "sorted (t # map op_time ops @ [now])"
    and "\<And>u a. Append_Op u a \<in> set ops \<Longrightarrow> in_force u a"
  shows "graph_inv now (run_ops graph_step ops g)"
  using assms
proof (induction ops arbitrary: t g)
  case Nil
  then show ?case by (auto intro: graph_inv_later)
next
  case (Cons x ops)
  have "graph_inv (op_time x) g" using Cons.prems(1,2) by (auto intro: graph_inv_later)
  then have "graph_inv (op_time x) (graph_step x g)" by (rule graph_step_inv) (use Cons.prems(3) in auto)
  from Cons.IH [OF this] Cons.prems(2,3) show ?case by simp
qed

text \<open>
  C28. As long as every appended assertion is in force from the moment it is appended and has no end, whatever is
  appended and retracted as the clock advances, the active assertions never contradict each other: no two entities
  declared different are linked by a chain of active SAME_AS assertions.
\<close>

theorem active_assertions_consistent:
  assumes "sorted (map op_time ops @ [now])" and "\<And>t a. Append_Op t a \<in> set ops \<Longrightarrow> in_force t a"
  shows "consistent (active_now (run_ops graph_step ops empty_graph) now)"
proof -
  let ?t = "hd (map op_time ops @ [now])"
  have "sorted (?t # map op_time ops @ [now])"
    using assms(1) by (cases ops) auto
  moreover have "graph_inv ?t empty_graph"
    by (simp add: graph_inv_def empty_graph_def active_now_def consistent_def)
  ultimately show ?thesis
    using graph_run_inv assms(2) unfolding graph_inv_def by blast
qed

definition sample_assertion :: "string \<Rightarrow> assertion_predicate \<Rightarrow> int \<Rightarrow> semantic_assertion" where
  "sample_assertion i pr from = \<lparr>sa_assertion_id = i, sa_subject_id = ''a'', sa_predicate = pr,
     sa_object_id = ''b'', sa_confidence = 1, sa_asserted_at = utc 0, sa_valid_from = utc from,
     sa_valid_to = None, sa_policy_digest = ''p'', sa_lineage = []\<rparr>"

theorem active_assertions_consistent_witness:
  "consistent (active_now (run_ops graph_step
      [Append_Op 1 (sample_assertion ''x'' Same_As 0), Append_Op 2 (sample_assertion ''y'' Not_Same_As 0)]
      empty_graph) 3)"
  by (rule active_assertions_consistent) (auto simp: in_force_def sample_assertion_def)

text \<open>
  The hypothesis is needed: an assertion whose validity starts later is not checked when it becomes
  active, so two assertions that contradict each other can end up active together.
\<close>

lemma future_validity_contradicts:
  "\<not> consistent (active_now (run_ops graph_step
      [Append_Op 1 (sample_assertion ''x'' Same_As 9), Append_Op 2 (sample_assertion ''y'' Not_Same_As 0)]
      empty_graph) 10)"
proof -
  have "cluster_loop [] [x] = [x]" for x by (subst cluster_loop.simps) simp
  then have "active_now (run_ops graph_step
      [Append_Op 1 (sample_assertion ''x'' Same_As 9), Append_Op 2 (sample_assertion ''y'' Not_Same_As 0)]
      empty_graph) 10 = [sample_assertion ''x'' Same_As 9, sample_assertion ''y'' Not_Same_As 0]"
    by (simp add: append_assertion_def empty_graph_def sample_assertion_def active_now_def
        is_active_def attempt_def equivalence_cluster_def)
  then show ?thesis
    by (auto simp: consistent_def same_as_def sample_assertion_def intro!: r_into_rtrancl)
qed

end
