(* ===== verification/Semantic_Memory.thy ===== *)
theory Semantic_Memory
  imports Assertion_Graph Policy_Seam
begin

text \<open>
  semantic_memory.py: promotion of semantic candidates into memory shared between agents. Candidates and
  promoted memories are dictionaries keyed by candidate id; a promotion appends the candidate's assertion
  to the assertion graph, whose refusal propagates.
\<close>

datatype candidate_status = MC_Proposed | MC_Approved | MC_Rejected | MC_Promoted

record memory_scope =
  msc_organization_id :: string
  msc_solution_id :: string
  msc_agent_ids :: "string list"

definition mk_memory_scope :: "memory_scope \<Rightarrow> memory_scope checked" where
  "mk_memory_scope s =
     (if msc_organization_id s = [] \<or> msc_solution_id s = [] \<or> msc_agent_ids s = []
      then Inl (ValueError ''memory scope requires organization, solution and agents'') else Inr s)"

definition scope_allows :: "memory_scope \<Rightarrow> request_identity \<Rightarrow> bool" where
  "scope_allows s identity \<longleftrightarrow> id_organization_id identity = msc_organization_id s
     \<and> id_solution_id identity = msc_solution_id s \<and> id_agent_id identity \<in> set (msc_agent_ids s)"

record memory_candidate =
  mem_candidate_id :: string
  mem_assertion :: semantic_assertion
  mem_proposed_by :: string
  mem_source_schema_digest :: string
  mem_scope :: memory_scope
  mem_status :: candidate_status
  mem_reviewed_by :: "string option"
  mem_reviewed_at :: "datetime option"

definition mk_memory_candidate :: "memory_candidate \<Rightarrow> memory_candidate checked" where
  "mk_memory_candidate c =
     (if mem_candidate_id c = [] \<or> mem_proposed_by c = [] \<or> mem_source_schema_digest c = []
      then Inl (ValueError ''memory candidates require identity, proposer and schema digest'') else Inr c)"

record promoted_memory =
  pm_candidate_id :: string
  pm_assertion :: semantic_assertion
  pm_scope :: memory_scope
  pm_promoted_by :: string
  pm_promoted_at :: datetime

record governed_memory =
  gm_graph :: assertion_graph
  gm_candidates :: "(string, memory_candidate) dict"
  gm_promoted :: "(string, promoted_memory) dict"

definition empty_memory :: governed_memory where
  "empty_memory = \<lparr>gm_graph = empty_graph, gm_candidates = [], gm_promoted = []\<rparr>"

definition propose_memory :: "memory_candidate \<Rightarrow> governed_memory \<Rightarrow> graph_error + governed_memory" where
  "propose_memory c s =
     (if mem_candidate_id c \<in> set (dict_keys (gm_candidates s))
      then Inl (Gr_Py (ValueError ''memory candidate already exists''))
      else Inr (s\<lparr>gm_candidates := dict_set (mem_candidate_id c) c (gm_candidates s)\<rparr>))"

definition review_memory ::
  "string \<Rightarrow> string \<Rightarrow> datetime \<Rightarrow> bool \<Rightarrow> governed_memory \<Rightarrow> graph_error + governed_memory" where
  "review_memory candidate_id reviewer_id reviewed_at approve s =
     (if \<not> str_startswith reviewer_id ''human:''
      then Inl (Gr_Py (PermissionError ''semantic memory review requires a human steward''))
      else if \<not> aware reviewed_at
      then Inl (Gr_Py (ValueError ''memory review time must be timezone-aware''))
      else (case dict_get (gm_candidates s) candidate_id of
              None \<Rightarrow> Inl (Gr_Py (KeyError candidate_id))
            | Some c \<Rightarrow>
                if mem_status c \<noteq> MC_Proposed
                then Inl (Gr_Py (ValueError ''memory candidate has already been reviewed''))
                else Inr (s\<lparr>gm_candidates := dict_set candidate_id
                       (c\<lparr>mem_status := (if approve then MC_Approved else MC_Rejected),
                          mem_reviewed_by := Some reviewer_id, mem_reviewed_at := Some reviewed_at\<rparr>)
                       (gm_candidates s)\<rparr>)))"

definition promote_memory :: "int \<Rightarrow> string \<Rightarrow> governed_memory \<Rightarrow> graph_error + governed_memory" where
  "promote_memory now candidate_id s =
     (case dict_get (gm_candidates s) candidate_id of
        None \<Rightarrow> Inl (Gr_Py (KeyError candidate_id))
      | Some c \<Rightarrow>
          if mem_status c \<noteq> MC_Approved
          then Inl (Gr_Py (PermissionError ''only an approved semantic memory candidate can be promoted''))
          else (case (mem_reviewed_by c, mem_reviewed_at c) of
                  (Some reviewer, Some time) \<Rightarrow>
                    (case append_assertion now (mem_assertion c) (gm_graph s) of
                       Inl e \<Rightarrow> Inl e
                     | Inr g \<Rightarrow> Inr \<lparr>gm_graph = g,
                         gm_candidates = dict_set candidate_id (c\<lparr>mem_status := MC_Promoted\<rparr>) (gm_candidates s),
                         gm_promoted = dict_set candidate_id \<lparr>pm_candidate_id = mem_candidate_id c,
                           pm_assertion = mem_assertion c, pm_scope = mem_scope c,
                           pm_promoted_by = reviewer, pm_promoted_at = time\<rparr> (gm_promoted s)\<rparr>)
                | _ \<Rightarrow> Inl (Gr_Py AssertionError)))"

definition memory_view :: "governed_memory \<Rightarrow> request_identity \<Rightarrow> promoted_memory list" where
  "memory_view s identity =
     filter (\<lambda>m. scope_allows (pm_scope m) identity)
       (map (\<lambda>k. the (dict_get (gm_promoted s) k)) (sort (dict_keys (gm_promoted s))))"

definition memory_candidate_of :: "governed_memory \<Rightarrow> string \<Rightarrow> graph_error + memory_candidate" where
  "memory_candidate_of s candidate_id =
     (case dict_get (gm_candidates s) candidate_id of
        None \<Rightarrow> Inl (Gr_Py (KeyError candidate_id)) | Some c \<Rightarrow> Inr c)"

section \<open>Runs\<close>

datatype memory_op =
    Mem_Propose memory_candidate
  | Mem_Review string string datetime bool
  | Mem_Promote int string

primrec memory_step :: "memory_op \<Rightarrow> governed_memory \<Rightarrow> governed_memory" where
  "memory_step (Mem_Propose c) s =
     (case mk_memory_candidate c of Inl _ \<Rightarrow> s | Inr c' \<Rightarrow> attempt (propose_memory c') s)"
| "memory_step (Mem_Review candidate_id reviewer_id time approve) s =
     attempt (review_memory candidate_id reviewer_id time approve) s"
| "memory_step (Mem_Promote now candidate_id) s = attempt (promote_memory now candidate_id) s"

lemma mk_memory_candidate_Inr [checks]: "mk_memory_candidate c = Inr d \<Longrightarrow> d = c"
  by (auto simp: mk_memory_candidate_def split: if_splits)

interpretation candidate_memory: write_once mem_candidate_id "\<lambda>s. dict_get (gm_candidates s)" propose_memory
  by unfold_locales (auto simp: propose_memory_def dict_get_None split: if_splits)

definition reviewed_in :: "memory_op set \<Rightarrow> string \<Rightarrow> memory_candidate \<Rightarrow> bool" where
  "reviewed_in X k c \<longleftrightarrow> (\<exists>reviewer time. mem_reviewed_by c = Some reviewer \<and> mem_reviewed_at c = Some time
     \<and> Mem_Review k reviewer time True \<in> X \<and> str_startswith reviewer ''human:'')"

definition proposed_in :: "memory_op set \<Rightarrow> string \<Rightarrow> memory_candidate \<Rightarrow> bool" where
  "proposed_in X k c \<longleftrightarrow> (\<exists>c0. Mem_Propose c0 \<in> X \<and> mem_candidate_id c0 = k
     \<and> mem_assertion c0 = mem_assertion c \<and> mem_scope c0 = mem_scope c)"

definition candidate_ok :: "memory_op set \<Rightarrow> string \<Rightarrow> memory_candidate \<Rightarrow> bool" where
  "candidate_ok X k c \<longleftrightarrow> mem_candidate_id c = k \<and> proposed_in X k c
     \<and> (mem_status c = MC_Approved \<longrightarrow> reviewed_in X k c)"

definition promoted_ok :: "memory_op set \<Rightarrow> assertion_graph \<Rightarrow> string \<Rightarrow> promoted_memory \<Rightarrow> bool" where
  "promoted_ok X g k m \<longleftrightarrow> (\<exists>c. proposed_in X k c \<and> reviewed_in X k c \<and> pm_assertion m = mem_assertion c
        \<and> pm_scope m = mem_scope c \<and> mem_reviewed_by c = Some (pm_promoted_by m))
     \<and> dict_get (ag_assertions g) (sa_assertion_id (pm_assertion m)) = Some (pm_assertion m)"

definition memory_ok :: "memory_op set \<Rightarrow> governed_memory \<Rightarrow> bool" where
  "memory_ok X s \<longleftrightarrow> dict_all (candidate_ok X) (gm_candidates s)
     \<and> dict_all (promoted_ok X (gm_graph s)) (gm_promoted s)"

lemma append_assertion_keeps:
  assumes "append_assertion now a g = Inr g'"
  shows "dict_get (ag_assertions g') (sa_assertion_id a) = Some a"
    and "dict_get (ag_assertions g) k = Some b \<Longrightarrow> dict_get (ag_assertions g') k = Some b"
  using assms by (auto simp: append_assertion_def in_keys simp del: set_map split: if_splits)

lemma propose_memory_ok:
  assumes "memory_ok X s" and "Mem_Propose c \<in> X" and "mem_status c = MC_Proposed"
    and "propose_memory c s = Inr t"
  shows "memory_ok X t"
proof -
  have "candidate_ok X (mem_candidate_id c) c"
    using assms(2,3) by (auto simp: candidate_ok_def proposed_in_def)
  with assms(1,4) show ?thesis by (auto simp: memory_ok_def propose_memory_def split: if_splits)
qed

lemma review_memory_ok:
  assumes "memory_ok X s" and "Mem_Review k reviewer time approve \<in> X"
    and "review_memory k reviewer time approve s = Inr t"
  shows "memory_ok X t"
proof -
  from assms(3) obtain c where c: "dict_get (gm_candidates s) k = Some c"
    and human: "str_startswith reviewer ''human:''"
    and t: "t = s\<lparr>gm_candidates := dict_set k (c\<lparr>mem_status := (if approve then MC_Approved else MC_Rejected),
       mem_reviewed_by := Some reviewer, mem_reviewed_at := Some time\<rparr>) (gm_candidates s)\<rparr>"
    by (auto simp: review_memory_def split: if_splits option.splits)
  from assms(1) c have "candidate_ok X k c" by (auto simp: memory_ok_def dest: dict_allD)
  with assms(2) human have "candidate_ok X k (c\<lparr>mem_status := (if approve then MC_Approved else MC_Rejected),
       mem_reviewed_by := Some reviewer, mem_reviewed_at := Some time\<rparr>)"
    by (cases approve) (simp_all add: candidate_ok_def reviewed_in_def proposed_in_def)
  with assms(1) show ?thesis unfolding t by (auto simp: memory_ok_def)
qed

lemma promote_memory_ok:
  assumes "memory_ok X s" and "promote_memory now k s = Inr t"
  shows "memory_ok X t"
proof -
  from assms(2) obtain c reviewer time g where c: "dict_get (gm_candidates s) k = Some c"
    and st: "mem_status c = MC_Approved" and r: "mem_reviewed_by c = Some reviewer"
    and g: "append_assertion now (mem_assertion c) (gm_graph s) = Inr g"
    and t: "t = \<lparr>gm_graph = g, gm_candidates = dict_set k (c\<lparr>mem_status := MC_Promoted\<rparr>) (gm_candidates s),
       gm_promoted = dict_set k \<lparr>pm_candidate_id = mem_candidate_id c, pm_assertion = mem_assertion c,
         pm_scope = mem_scope c, pm_promoted_by = reviewer, pm_promoted_at = time\<rparr> (gm_promoted s)\<rparr>"
    by (auto simp: promote_memory_def split: if_splits option.splits sum.splits)
  note keeps = append_assertion_keeps [OF g]
  from assms(1) c have ok: "candidate_ok X k c" by (auto simp: memory_ok_def dest: dict_allD)
  then have "candidate_ok X k (c\<lparr>mem_status := MC_Promoted\<rparr>)"
    by (simp add: candidate_ok_def proposed_in_def)
  moreover have "dict_all (promoted_ok X g) (gm_promoted s)"
    using assms(1) keeps(2) unfolding memory_ok_def
    by (auto simp: promoted_ok_def elim: dict_all_mono)
  moreover have "promoted_ok X g k \<lparr>pm_candidate_id = mem_candidate_id c, pm_assertion = mem_assertion c,
      pm_scope = mem_scope c, pm_promoted_by = reviewer, pm_promoted_at = time\<rparr>"
    using ok st r keeps(1) by (auto simp: candidate_ok_def promoted_ok_def)
  ultimately show ?thesis using assms(1) unfolding t by (auto simp: memory_ok_def)
qed

lemma memory_step_ok:
  assumes "memory_ok X s" and "x \<in> X" and "\<And>c. x = Mem_Propose c \<Longrightarrow> mem_status c = MC_Proposed"
  shows "memory_ok X (memory_step x s)"
proof (cases x)
  case (Mem_Propose c)
  show ?thesis
  proof (cases "mk_memory_candidate c")
    case (Inr c')
    then have "c' = c" by (rule mk_memory_candidate_Inr)
    with assms Mem_Propose Inr show ?thesis
      by (cases "propose_memory c s") (auto intro: propose_memory_ok)
  qed (use assms Mem_Propose in simp)
next
  case (Mem_Review k reviewer time approve)
  with assms(1,2) show ?thesis
    by (cases "review_memory k reviewer time approve s") (auto intro: review_memory_ok)
next
  case (Mem_Promote now k)
  with assms(1) show ?thesis
    by (cases "promote_memory now k s") (auto intro: promote_memory_ok)
qed

lemma memory_run_ok:
  assumes "memory_ok X s" and "set xs \<subseteq> X" and "\<And>c. Mem_Propose c \<in> set xs \<Longrightarrow> mem_status c = MC_Proposed"
  shows "memory_ok X (run_ops memory_step xs s)"
  using assms
proof (induction xs arbitrary: s)
  case (Cons x xs)
  have "memory_ok X (memory_step x s)" by (rule memory_step_ok) (use Cons.prems in auto)
  from Cons.IH [OF this] Cons.prems(2,3) show ?case by simp
qed simp

text \<open>
  If candidates are proposed as proposals, then whatever is proposed, reviewed and promoted, an agent
  only ever sees a memory whose scope names it, that was proposed with exactly this assertion and scope,
  that a human steward's review approved and who is named as its promoter, and whose assertion the
  graph accepted.
\<close>

lemma visible_memory_was_approved:
  assumes "m \<in> set (memory_view (run_ops memory_step ops empty_memory) identity)"
    and "\<And>c. Mem_Propose c \<in> set ops \<Longrightarrow> mem_status c = MC_Proposed"
  shows "scope_allows (pm_scope m) identity
    \<and> (\<exists>c time. Mem_Propose c \<in> set ops \<and> pm_assertion m = mem_assertion c \<and> pm_scope m = mem_scope c
        \<and> Mem_Review (mem_candidate_id c) (pm_promoted_by m) time True \<in> set ops)
    \<and> str_startswith (pm_promoted_by m) ''human:''
    \<and> dict_get (ag_assertions (gm_graph (run_ops memory_step ops empty_memory)))
        (sa_assertion_id (pm_assertion m)) = Some (pm_assertion m)"
proof -
  let ?s = "run_ops memory_step ops empty_memory"
  have "memory_ok (set ops) empty_memory" by (simp add: memory_ok_def empty_memory_def)
  then have ok: "memory_ok (set ops) ?s" using assms(2) by (intro memory_run_ok) auto
  from assms(1) obtain k where "k \<in> set (dict_keys (gm_promoted ?s))" "m = the (dict_get (gm_promoted ?s) k)"
    and allowed: "scope_allows (pm_scope m) identity" by (auto simp: memory_view_def)
  then have "dict_get (gm_promoted ?s) k = Some m" by (auto simp: in_keys simp del: set_map)
  with ok have "promoted_ok (set ops) (gm_graph ?s) k m" by (auto simp: memory_ok_def dest: dict_allD)
  with allowed show ?thesis
    unfolding promoted_ok_def proposed_in_def reviewed_in_def by fastforce
qed

text \<open>
  The hypothesis on proposals is needed: the status of a candidate is an ordinary field, and \<open>propose\<close>
  stores it as given, so a candidate proposed as approved is promoted without a human review.
\<close>

definition sample_memory :: "candidate_status \<Rightarrow> memory_candidate" where
  "sample_memory st = \<lparr>mem_candidate_id = ''c1'', mem_assertion = sample_assertion ''x'' Same_As 0,
     mem_proposed_by = ''agent:bot'', mem_source_schema_digest = ''d'',
     mem_scope = \<lparr>msc_organization_id = ''org'', msc_solution_id = ''solution'', msc_agent_ids = [''agent.allowed'']\<rparr>,
     mem_status = st, mem_reviewed_by = Some ''agent:bot'', mem_reviewed_at = Some (utc 0)\<rparr>"

lemma preapproved_candidate_is_promoted:
  "map pm_promoted_by (memory_view (run_ops memory_step
     [Mem_Propose (sample_memory MC_Approved), Mem_Promote 1 ''c1''] empty_memory) sample_identity)
   = [''agent:bot'']"
  by (simp add: sample_memory_def mk_memory_candidate_def attempt_def propose_memory_def
      empty_memory_def promote_memory_def append_assertion_def empty_graph_def sample_assertion_def
      active_now_def memory_view_def scope_allows_def sample_identity_def)

lemma visible_memory_was_approved_example:
  "str_startswith (pm_promoted_by (hd (memory_view (run_ops memory_step [Mem_Propose (sample_memory MC_Proposed),
     Mem_Review ''c1'' ''human:ada'' (utc 1) True, Mem_Promote 2 ''c1''] empty_memory) sample_identity))) ''human:''"
proof (rule visible_memory_was_approved [THEN conjunct2, THEN conjunct2, THEN conjunct1])
  let ?ops = "[Mem_Propose (sample_memory MC_Proposed), Mem_Review ''c1'' ''human:ada'' (utc 1) True, Mem_Promote 2 ''c1'']"
  have "memory_view (run_ops memory_step ?ops empty_memory) sample_identity \<noteq> []"
    by (simp add: sample_memory_def mk_memory_candidate_def attempt_def propose_memory_def
        empty_memory_def review_memory_def str_startswith_def promote_memory_def append_assertion_def
        empty_graph_def sample_assertion_def active_now_def memory_view_def scope_allows_def sample_identity_def)
  then show "hd (memory_view (run_ops memory_step ?ops empty_memory) sample_identity)
      \<in> set (memory_view (run_ops memory_step ?ops empty_memory) sample_identity)" by simp
  show "mem_status c = MC_Proposed" if "Mem_Propose c \<in> set ?ops" for c
    using that by (simp add: sample_memory_def)
qed

end
