(* ===== verification/Action_Plans.thy ===== *)
theory Action_Plans
  imports Policy_Seam
begin

text \<open>
  The data of actions.py: source action plans, previews, approvals with the offline HMAC authority, and
  mutation receipts. The hash functions, \<open>isoformat\<close> and \<open>str\<close> of floats and containers are fixed
  functions of the standard library, given by the record \<open>prims\<close>; nothing is assumed of them here,
  and the theorems that need more say so.
\<close>

record prims =
  pr_sha256 :: "string \<Rightarrow> string"
  pr_hmac_sha256 :: "string \<Rightarrow> string \<Rightarrow> string"
  pr_isoformat :: "datetime \<Rightarrow> string"
  pr_repr :: "json \<Rightarrow> string"

definition digest_of :: "prims \<Rightarrow> json \<Rightarrow> string" where
  "digest_of p v = ''sha256:'' @ pr_sha256 p (canonical v)"

datatype action_risk = Risk_Low | Risk_Medium | Risk_High

primrec risk_value :: "action_risk \<Rightarrow> string" where
  "risk_value Risk_Low = ''low''"
| "risk_value Risk_Medium = ''medium''"
| "risk_value Risk_High = ''high''"

datatype approval_mode = Approval_None | Approval_Human

primrec approval_value :: "approval_mode \<Rightarrow> string" where
  "approval_value Approval_None = ''none''"
| "approval_value Approval_Human = ''human''"

datatype action_state = AS_Executed | AS_Recovered | AS_Already_Executed | AS_Compensated | AS_Failed

primrec action_state_value :: "action_state \<Rightarrow> string" where
  "action_state_value AS_Executed = ''executed''"
| "action_state_value AS_Recovered = ''recovered''"
| "action_state_value AS_Already_Executed = ''already-executed''"
| "action_state_value AS_Compensated = ''compensated''"
| "action_state_value AS_Failed = ''failed''"

record compensation_spec =
  cs_operation :: string
  cs_parameters :: "(string, json) dict"
  cs_preconditions :: "(string, json) dict"

definition mk_compensation_spec :: "compensation_spec \<Rightarrow> compensation_spec checked" where
  "mk_compensation_spec c =
     (if cs_operation c = [] \<or> cs_parameters c = [] \<or> cs_preconditions c = []
      then Inl (ValueError ''compensation requires operation, parameters and preconditions'') else Inr c)"

record action_plan =
  ap_action_id :: string
  ap_source_id :: string
  ap_asset_id :: string
  ap_operation :: string
  ap_parameters :: "(string, json) dict"
  ap_preconditions :: "(string, json) dict"
  ap_idempotency_key :: string
  ap_risk :: action_risk
  ap_approval_mode :: approval_mode
  ap_purpose :: string
  ap_compensation :: "compensation_spec option"

definition mk_action_plan :: "action_plan \<Rightarrow> action_plan checked" where
  "mk_action_plan a =
     (if list_ex (\<lambda>v. v = []) [ap_action_id a, ap_source_id a, ap_asset_id a, ap_operation a,
                               ap_idempotency_key a, ap_purpose a]
         \<or> ap_parameters a = [] \<or> ap_preconditions a = []
      then Inl (ValueError ''source actions require identity, parameters and preconditions'')
      else if ap_risk a = Risk_High \<and> ap_approval_mode a \<noteq> Approval_Human
      then Inl (ValueError ''high-risk source actions require human approval'')
      else Inr a)"

definition compensation_json :: "compensation_spec option \<Rightarrow> json" where
  "compensation_json c =
     (case c of None \<Rightarrow> JNull
      | Some s \<Rightarrow> JObj [(''operation'', JStr (cs_operation s)), (''parameters'', JObj (cs_parameters s)),
                       (''preconditions'', JObj (cs_preconditions s))])"

definition plan_fields :: "action_plan \<Rightarrow> (string, json) dict" where
  "plan_fields a =
     [(''action_id'', JStr (ap_action_id a)), (''source_id'', JStr (ap_source_id a)),
      (''asset_id'', JStr (ap_asset_id a)), (''operation'', JStr (ap_operation a)),
      (''parameters'', JObj (ap_parameters a)), (''preconditions'', JObj (ap_preconditions a)),
      (''idempotency_key'', JStr (ap_idempotency_key a)), (''risk'', JStr (risk_value (ap_risk a))),
      (''approval_mode'', JStr (approval_value (ap_approval_mode a))),
      (''purpose'', JStr (ap_purpose a)), (''compensation'', compensation_json (ap_compensation a))]"

definition plan_digest :: "prims \<Rightarrow> action_plan \<Rightarrow> string" where
  "plan_digest p a = digest_of p (JObj (plan_fields a))"

definition sorted_names :: "(string, json) dict \<Rightarrow> json" where
  "sorted_names d = JArr (map JStr (sort (dict_keys d)))"

definition plan_contract :: "prims \<Rightarrow> action_plan \<Rightarrow> (string, json) dict" where
  "plan_contract p a =
     [(''schemaVersion'', JStr ''data.harness/v1''), (''actionId'', JStr (ap_action_id a)),
      (''sourceId'', JStr (ap_source_id a)), (''assetId'', JStr (ap_asset_id a)),
      (''operation'', JStr (ap_operation a)),
      (''parametersDigest'', JStr (digest_of p (JObj (ap_parameters a)))),
      (''preconditionsDigest'', JStr (digest_of p (JObj (ap_preconditions a)))),
      (''preconditionFields'', sorted_names (ap_preconditions a)),
      (''idempotencyKey'', JStr (ap_idempotency_key a)), (''risk'', JStr (risk_value (ap_risk a))),
      (''approvalMode'', JStr (approval_value (ap_approval_mode a))),
      (''purpose'', JStr (ap_purpose a)),
      (''compensation'', (case ap_compensation a of None \<Rightarrow> JNull
        | Some s \<Rightarrow> JObj
            [(''operation'', JStr (cs_operation s)),
             (''parametersDigest'', JStr (digest_of p (JObj (cs_parameters s)))),
             (''preconditionsDigest'', JStr (digest_of p (JObj (cs_preconditions s)))),
             (''preconditionFields'', sorted_names (cs_preconditions s))]))]"

section \<open>Previews and approvals\<close>

record action_preview =
  pv_preview_id :: string
  pv_action_id :: string
  pv_action_digest :: string
  pv_policy_digest :: string
  pv_policy_decision_id :: string
  pv_created_at :: datetime
  pv_expires_at :: datetime
  pv_allowed :: bool
  pv_approval_required :: bool
  pv_effects :: "string list"

definition mk_action_preview :: "action_preview \<Rightarrow> action_preview checked" where
  "mk_action_preview v =
     (if \<not> aware (pv_created_at v) \<or> \<not> aware (pv_expires_at v)
      then Inl (ValueError ''preview timestamps must be timezone-aware'')
      else if instant (pv_expires_at v) \<le> instant (pv_created_at v) \<or> pv_effects v = []
      then Inl (ValueError ''preview must be time-bounded and expose effects'')
      else Inr v)"

definition preview_contract :: "prims \<Rightarrow> action_preview \<Rightarrow> (string, json) dict" where
  "preview_contract p v =
     [(''schemaVersion'', JStr ''data.harness/v1''), (''previewId'', JStr (pv_preview_id v)),
      (''actionId'', JStr (pv_action_id v)), (''actionDigest'', JStr (pv_action_digest v)),
      (''policyDigest'', JStr (pv_policy_digest v)),
      (''policyDecisionId'', JStr (pv_policy_decision_id v)),
      (''createdAt'', JStr (pr_isoformat p (pv_created_at v))),
      (''expiresAt'', JStr (pr_isoformat p (pv_expires_at v))),
      (''allowed'', JBool (pv_allowed v)), (''approvalRequired'', JBool (pv_approval_required v)),
      (''effects'', JArr (map JStr (pv_effects v)))]"

record action_approval =
  al_approval_id :: string
  al_action_digest :: string
  al_approver_id :: string
  al_policy_digest :: string
  al_approved_at :: datetime
  al_expires_at :: datetime
  al_allow_compensation :: bool

definition mk_action_approval :: "action_approval \<Rightarrow> action_approval checked" where
  "mk_action_approval a =
     (if list_ex (\<lambda>v. v = []) [al_approval_id a, al_action_digest a, al_approver_id a, al_policy_digest a]
      then Inl (ValueError ''approval identity, action and policy binding are required'')
      else if \<not> str_startswith (al_approver_id a) ''human:''
      then Inl (ValueError ''source action approvals require a human approver'')
      else if \<not> aware (al_approved_at a) \<or> \<not> aware (al_expires_at a)
      then Inl (ValueError ''approval timestamps must be timezone-aware'')
      else if instant (al_expires_at a) \<le> instant (al_approved_at a)
      then Inl (ValueError ''approval must expire after it is granted'')
      else Inr a)"

record hmac_authority =
  ha_issuer :: string
  ha_audience :: string
  ha_secret :: string

definition mk_hmac_authority :: "hmac_authority \<Rightarrow> hmac_authority checked" where
  "mk_hmac_authority h =
     (if ha_issuer h = [] \<or> ha_audience h = [] \<or> length (ha_secret h) < 16
      then Inl (ValueError ''approval authority requires issuer, audience and 128-bit key'') else Inr h)"

definition signature_fields ::
  "prims \<Rightarrow> hmac_authority \<Rightarrow> action_approval \<Rightarrow> request_identity \<Rightarrow> string \<Rightarrow> (string, json) dict" where
  "signature_fields p h a i nonce =
     [(''issuer'', JStr (ha_issuer h)), (''audience'', JStr (ha_audience h)), (''nonce'', JStr nonce),
      (''action_digest'', JStr (al_action_digest a)), (''approver_id'', JStr (al_approver_id a)),
      (''policy_digest'', JStr (al_policy_digest a)),
      (''approved_at'', JStr (pr_isoformat p (al_approved_at a))),
      (''expires_at'', JStr (pr_isoformat p (al_expires_at a))),
      (''allow_compensation'', JBool (al_allow_compensation a)),
      (''organization_id'', JStr (id_organization_id i)), (''solution_id'', JStr (id_solution_id i)),
      (''agent_id'', JStr (id_agent_id i)), (''request_id'', JStr (id_request_id i))]"

definition signed_message ::
  "prims \<Rightarrow> hmac_authority \<Rightarrow> action_approval \<Rightarrow> request_identity \<Rightarrow> string \<Rightarrow> string" where
  "signed_message p h a i nonce = canonical (JObj (signature_fields p h a i nonce))"

definition signature ::
  "prims \<Rightarrow> hmac_authority \<Rightarrow> action_approval \<Rightarrow> request_identity \<Rightarrow> string \<Rightarrow> string" where
  "signature p h a i nonce = pr_hmac_sha256 p (ha_secret h) (signed_message p h a i nonce)"

definition issue :: "prims \<Rightarrow> hmac_authority \<Rightarrow> action_approval \<Rightarrow> request_identity \<Rightarrow> string
    \<Rightarrow> action_approval checked" where
  \<comment> \<open>the keyword arguments are the fields of the approval, whose identity is still pending\<close>
  "issue p h args i nonce =
     (if nonce = [] then Inl (ValueError ''approval nonce is required'')
      else (case mk_action_approval (args\<lparr>al_approval_id := ''pending''\<rparr>) of
              Inl e \<Rightarrow> Inl e
            | Inr unsigned \<Rightarrow> mk_action_approval (unsigned\<lparr>al_approval_id :=
                ha_issuer h @ '':'' @ nonce @ '':'' @ signature p h unsigned i nonce\<rparr>)))"

definition ascii_text :: "string \<Rightarrow> bool" where
  "ascii_text t \<longleftrightarrow> list_all (\<lambda>c. (of_char c :: nat) < 128) t"

definition same_digest :: "string \<Rightarrow> string \<Rightarrow> bool checked" where
  \<comment> \<open>\<open>hmac.compare_digest\<close> of two texts takes ASCII only\<close>
  "same_digest a b =
     (if ascii_text a \<and> ascii_text b then Inr (a = b)
      else Inl (TypeError ''comparing strings with non-ASCII characters is not supported''))"

definition verify_approval :: "prims \<Rightarrow> hmac_authority \<Rightarrow> action_approval \<Rightarrow> action_plan
    \<Rightarrow> request_identity \<Rightarrow> datetime \<Rightarrow> bool \<Rightarrow> bool checked" where
  "verify_approval p h a plan i now compensation =
     (let prefix = ha_issuer h @ '':''
      in if \<not> str_startswith (al_approval_id a) prefix then Inr False
         else (case str_rsplit1 CHR '':'' (str_removeprefix (al_approval_id a) prefix) of
                 None \<Rightarrow> Inr False
               | Some (nonce, sig) \<Rightarrow>
                   ck_bind (same_digest sig (signature p h (a\<lparr>al_approval_id := ''pending''\<rparr>) i nonce)) (\<lambda>same.
                   Inr (same
                     \<and> al_action_digest a = plan_digest p plan
                     \<and> al_policy_digest a = id_policy_digest i
                     \<and> instant (al_approved_at a) \<le> instant now \<and> instant now < instant (al_expires_at a)
                     \<and> (\<not> compensation \<or> al_allow_compensation a)))))"

record mutation_receipt =
  rc_receipt_id :: string
  rc_action_id :: string
  rc_action_digest :: string
  rc_idempotency_key :: string
  rc_state :: action_state
  rc_started_at :: datetime
  rc_completed_at :: datetime
  rc_source_version :: string
  rc_policy_decision_id :: string
  rc_audit_digest :: string
  rc_compensation_of :: "string option"

definition receipt_contract :: "prims \<Rightarrow> mutation_receipt \<Rightarrow> (string, json) dict" where
  "receipt_contract p r =
     [(''schemaVersion'', JStr ''data.harness/v1''), (''receiptId'', JStr (rc_receipt_id r)),
      (''actionId'', JStr (rc_action_id r)), (''actionDigest'', JStr (rc_action_digest r)),
      (''idempotencyKey'', JStr (rc_idempotency_key r)),
      (''state'', JStr (action_state_value (rc_state r))),
      (''startedAt'', JStr (pr_isoformat p (rc_started_at r))),
      (''completedAt'', JStr (pr_isoformat p (rc_completed_at r))),
      (''sourceVersion'', JStr (rc_source_version r)),
      (''policyDecisionId'', JStr (rc_policy_decision_id r)),
      (''auditDigest'', JStr (rc_audit_digest r)),
      (''compensationOf'', (case rc_compensation_of r of None \<Rightarrow> JNull | Some t \<Rightarrow> JStr t))]"

section \<open>What a digest and a signature bind\<close>

lemma canonical_lookup:
  assumes "canonical (JObj a) = canonical (JObj b)" and "json_wf (JObj a)" and "json_wf (JObj b)"
  shows "map_option sort_keys (dict_get a k) = map_option sort_keys (dict_get b k)"
  using sort_keys_lookup [OF canonical_inj [OF assms(2,3,1)]] assms(2,3) by simp

lemma mk_action_plan_Inr [checks]:
  "mk_action_plan a = Inr b \<Longrightarrow> b = a \<and> ap_action_id a \<noteq> [] \<and> ap_source_id a \<noteq> [] \<and> ap_parameters a \<noteq> []
     \<and> ap_preconditions a \<noteq> [] \<and> ap_idempotency_key a \<noteq> []
     \<and> (ap_risk a = Risk_High \<longrightarrow> ap_approval_mode a = Approval_Human)"
  by (auto simp: mk_action_plan_def list_ex_iff split: if_splits)

lemma mk_action_approval_Inr [checks]:
  "mk_action_approval a = Inr b \<longleftrightarrow> b = a \<and> al_approval_id a \<noteq> [] \<and> al_action_digest a \<noteq> []
     \<and> al_approver_id a \<noteq> [] \<and> al_policy_digest a \<noteq> [] \<and> str_startswith (al_approver_id a) ''human:''
     \<and> aware (al_approved_at a) \<and> aware (al_expires_at a)
     \<and> instant (al_approved_at a) < instant (al_expires_at a)"
  by (auto simp: mk_action_approval_def)

lemma signature_pending [simp]:
  "signature p h (a\<lparr>al_approval_id := x\<rparr>) i nonce = signature p h a i nonce"
  by (simp add: signature_def signed_message_def signature_fields_def)

lemma signature_fields_wf [simp]: "json_wf (JObj (signature_fields p h a i nonce))"
  by (simp add: signature_fields_def)

text \<open>What an approval binds: the action, the policy, the approver, the validity and the requester.\<close>

definition binding :: "prims \<Rightarrow> action_approval \<Rightarrow> request_identity \<Rightarrow> string
    \<Rightarrow> string list \<times> bool" where
  "binding p a i nonce = ([nonce, al_action_digest a, al_approver_id a, al_policy_digest a,
     pr_isoformat p (al_approved_at a), pr_isoformat p (al_expires_at a), id_organization_id i,
     id_solution_id i, id_agent_id i, id_request_id i], al_allow_compensation a)"

lemma signed_message_binds:
  assumes "signed_message p h a i nonce = signed_message p h b j nonce'"
  shows "binding p a i nonce = binding p b j nonce'"
proof -
  have "canonical (JObj (signature_fields p h a i nonce)) = canonical (JObj (signature_fields p h b j nonce'))"
    using assms unfolding signed_message_def .
  note same = canonical_lookup [OF this signature_fields_wf signature_fields_wf]
  show ?thesis
    using same [of "''nonce''"] same [of "''action_digest''"] same [of "''approver_id''"]
      same [of "''policy_digest''"] same [of "''approved_at''"] same [of "''expires_at''"]
      same [of "''allow_compensation''"] same [of "''organization_id''"] same [of "''solution_id''"]
      same [of "''agent_id''"] same [of "''request_id''"]
    by (simp add: signature_fields_def binding_def)
qed

lemma ck_bind_True [simp]: "ck_bind r (\<lambda>b. Inr (b \<and> P)) = Inr True \<longleftrightarrow> r = Inr True \<and> P"
  by (cases r) auto

lemma same_digest_True [simp]: "same_digest a b = Inr True \<longleftrightarrow> a = b \<and> ascii_text a"
  by (auto simp: same_digest_def)

text \<open>A hexadecimal digest, as HMAC-SHA-256 gives, is ASCII and holds no colon.\<close>

lemma hex_text:
  assumes "set t \<subseteq> set ''0123456789abcdef''"
  shows "ascii_text t" and "CHR '':'' \<notin> set t"
proof -
  have "\<forall>c \<in> set ''0123456789abcdef''. (of_char c :: nat) < 128 \<and> c \<noteq> CHR '':''" by simp
  with assms show "ascii_text t" "CHR '':'' \<notin> set t" unfolding ascii_text_def list_all_iff by blast+
qed

lemma verify_approval_iff:
  assumes "CHR '':'' \<notin> set sig"
    and "al_approval_id a = ha_issuer h @ '':'' @ nonce @ '':'' @ sig"
  shows "verify_approval p h a plan i now compensation = Inr True \<longleftrightarrow> ascii_text sig \<and> sig = signature p h a i nonce
     \<and> al_action_digest a = plan_digest p plan \<and> al_policy_digest a = id_policy_digest i
     \<and> instant (al_approved_at a) \<le> instant now \<and> instant now < instant (al_expires_at a)
     \<and> (\<not> compensation \<or> al_allow_compensation a)"
proof -
  have id: "al_approval_id a = (ha_issuer h @ '':'') @ (nonce @ '':'' @ sig)" using assms(2) by simp
  then have "str_startswith (al_approval_id a) (ha_issuer h @ '':'')"
    and "str_removeprefix (al_approval_id a) (ha_issuer h @ '':'') = nonce @ CHR '':'' # sig"
    by (simp_all only: str_startswith_append str_removeprefix_append append_Cons append_Nil)
  with str_rsplit1_last [OF assms(1), of nonce] show ?thesis
    by (auto simp: verify_approval_def Let_def)
qed

text \<open>
  A signature that is no ASCII text is not refused: the comparison raises, and so does the verification.
\<close>

lemma non_ascii_signature_escapes:
  assumes "CHR '':'' \<notin> set sig" and "al_approval_id a = ha_issuer h @ '':'' @ nonce @ '':'' @ sig" and "\<not> ascii_text sig"
  shows "verify_approval p h a plan i now compensation
    = Inl (TypeError ''comparing strings with non-ASCII characters is not supported'')"
proof -
  have id: "al_approval_id a = (ha_issuer h @ '':'') @ (nonce @ '':'' @ sig)" using assms(2) by simp
  then have "str_startswith (al_approval_id a) (ha_issuer h @ '':'')"
    and "str_removeprefix (al_approval_id a) (ha_issuer h @ '':'') = nonce @ CHR '':'' # sig"
    by (simp_all only: str_startswith_append str_removeprefix_append append_Cons append_Nil)
  with str_rsplit1_last [OF assms(1), of nonce] show ?thesis
    by (simp add: verify_approval_def Let_def same_digest_def assms(3))
qed

text \<open>
  What the authority issues, it verifies: an issued approval names a human approver and is accepted
  exactly for the action and policy digests it was issued for, within its validity, and for a
  compensation only if it allows one. (The signature is a hexadecimal digest.)
\<close>

lemma issued_approval_verifies:
  assumes "issue p h args i nonce = Inr a" and "\<And>k m. set (pr_hmac_sha256 p k m) \<subseteq> set ''0123456789abcdef''"
  shows "str_startswith (al_approver_id a) ''human:''
    \<and> (verify_approval p h a plan i now compensation = Inr True \<longleftrightarrow>
        al_action_digest args = plan_digest p plan \<and> al_policy_digest args = id_policy_digest i
      \<and> instant (al_approved_at args) \<le> instant now \<and> instant now < instant (al_expires_at args)
      \<and> (\<not> compensation \<or> al_allow_compensation args))"
proof -
  from assms(1) have a: "a = args\<lparr>al_approval_id := ha_issuer h @ '':'' @ nonce @ '':'' @ signature p h args i nonce\<rparr>"
    and human: "str_startswith (al_approver_id args) ''human:''"
    by (auto simp: issue_def checks split: if_splits sum.splits)
  have hex: "CHR '':'' \<notin> set (signature p h args i nonce)" "ascii_text (signature p h args i nonce)"
    unfolding signature_def using hex_text [OF assms(2)] by blast+
  from verify_approval_iff [OF hex(1), of a h nonce p plan i now compensation] show ?thesis
    using a human hex(2) by simp
qed

definition signed_nonce :: "hmac_authority \<Rightarrow> action_approval \<Rightarrow> string" where
  "signed_nonce h a =
     (case str_rsplit1 CHR '':'' (str_removeprefix (al_approval_id a) (ha_issuer h @ '':'')) of
        None \<Rightarrow> [] | Some (nonce, sig) \<Rightarrow> nonce)"

text \<open>
  C15. An approval cannot be altered: two approvals with the same approval identity that the authority
  accepts, possibly for different actions and requesters, bind the same action digest, approver, policy
  digest, validity, compensation flag and requester; or else the two messages that were signed differ
  and the keyed hash collides on exactly them.
\<close>

theorem accepted_approval_is_bound:
  fixes p h i j and a b :: action_approval
  defines "m \<equiv> signed_message p h a i (signed_nonce h a)"
    and "m' \<equiv> signed_message p h b j (signed_nonce h b)"
  assumes "verify_approval p h a plan i now for_comp = Inr True" and "verify_approval p h b plan' j now' for_comp' = Inr True"
    and "al_approval_id a = al_approval_id b"
  shows "(plan_digest p plan = plan_digest p plan' \<and> id_policy_digest i = id_policy_digest j
        \<and> binding p a i (signed_nonce h a) = binding p b j (signed_nonce h b))
    \<or> (m \<noteq> m' \<and> pr_hmac_sha256 p (ha_secret h) m = pr_hmac_sha256 p (ha_secret h) m')"
proof (cases "m = m'")
  case True
  then have same: "binding p a i (signed_nonce h a) = binding p b j (signed_nonce h b)"
    unfolding m_def m'_def by (rule signed_message_binds)
  then have "al_action_digest a = al_action_digest b" "al_policy_digest a = al_policy_digest b"
    by (simp_all add: binding_def)
  with same assms(3,4) show ?thesis
    by (auto simp: verify_approval_def Let_def split: if_splits option.splits prod.splits)
next
  case False
  from assms(3-5) have "pr_hmac_sha256 p (ha_secret h) m = pr_hmac_sha256 p (ha_secret h) m'"
    by (auto simp: verify_approval_def Let_def signed_nonce_def m_def m'_def signature_def
        simp flip: signature_def split: if_splits option.splits prod.splits)
  with False show ?thesis by simp
qed

definition sample_prims :: prims where
  "sample_prims = \<lparr>pr_sha256 = (\<lambda>m. ''d''), pr_hmac_sha256 = (\<lambda>k m. ''5f''), pr_isoformat = (\<lambda>t. ''t''),
     pr_repr = (\<lambda>v. ''r'')\<rparr>"

definition sample_authority :: hmac_authority where
  "sample_authority = \<lparr>ha_issuer = ''adlc'', ha_audience = ''harness'', ha_secret = ''0123456789abcdef''\<rparr>"

definition sample_action :: "string \<Rightarrow> action_plan" where
  "sample_action key = \<lparr>ap_action_id = ''a1'', ap_source_id = ''lab.mutable'', ap_asset_id = ''orders'',
     ap_operation = ''update'', ap_parameters = [(''status'', JStr ''paid'')],
     ap_preconditions = [(''version'', JInt 1)], ap_idempotency_key = key, ap_risk = Risk_High,
     ap_approval_mode = Approval_Human, ap_purpose = ''audit'',
     ap_compensation = Some \<lparr>cs_operation = ''restore'', cs_parameters = [(''status'', JStr ''open'')],
       cs_preconditions = [(''version'', JInt 2)]\<rparr>\<rparr>"

definition sample_approval_args :: action_approval where
  "sample_approval_args = \<lparr>al_approval_id = [], al_action_digest = plan_digest sample_prims (sample_action ''k1''),
     al_approver_id = ''human:ada'', al_policy_digest = ''policy:v1'', al_approved_at = utc 0,
     al_expires_at = utc 1000, al_allow_compensation = True\<rparr>"

definition sample_approval_of :: "prims \<Rightarrow> action_approval" where
  "sample_approval_of p = sample_approval_args\<lparr>al_approval_id :=
     ''adlc:n1:'' @ signature p sample_authority sample_approval_args sample_identity ''n1''\<rparr>"

lemma sample_issued:
  "issue sample_prims sample_authority sample_approval_args sample_identity ''n1'' = Inr (sample_approval_of sample_prims)"
  by (simp add: issue_def checks sample_approval_args_def sample_authority_def str_startswith_def
      plan_digest_def digest_of_def sample_approval_of_def mk_action_approval_def)
    (simp add: signature_def signed_message_def signature_fields_def)

lemma sample_verifies:
  "verify_approval sample_prims sample_authority (sample_approval_of sample_prims) (sample_action key)
     sample_identity (utc t) c = Inr True \<longleftrightarrow> 0 \<le> t \<and> t < 1000"
  using verify_approval_iff [of "''5f''" "sample_approval_of sample_prims" sample_authority "''n1''"]
  by (simp add: ascii_text_def sample_approval_of_def sample_prims_def sample_authority_def signature_def
      sample_approval_args_def sample_identity_def plan_digest_def digest_of_def)

lemma issued_approval_verifies_example:
  "verify_approval sample_prims sample_authority (sample_approval_of sample_prims) (sample_action ''k1'')
     sample_identity (utc 5) True = Inr True"
  using issued_approval_verifies [OF sample_issued, of "sample_action ''k1''" "utc 5" True]
  by (simp add: sample_prims_def sample_approval_args_def sample_identity_def)

theorem accepted_approval_is_bound_witness:
  "\<exists>b. verify_approval sample_prims sample_authority b (sample_action ''k1'') sample_identity (utc 5) True = Inr True
     \<and> signed_message sample_prims sample_authority (sample_approval_of sample_prims) sample_identity ''n1''
       \<noteq> signed_message sample_prims sample_authority b sample_identity ''n1''"
proof -
  let ?a = "sample_approval_of sample_prims" and ?b = "(sample_approval_of sample_prims)\<lparr>al_approver_id := ''human:eve''\<rparr>"
  have id: "al_approval_id ?a = ha_issuer sample_authority @ '':'' @ ''n1'' @ '':'' @ ''5f''"
    by (simp add: sample_approval_of_def sample_prims_def sample_authority_def signature_def)
  have v: "verify_approval sample_prims sample_authority x (sample_action ''k1'') sample_identity (utc 5) True = Inr True"
    if "x = ?a \<or> x = ?b" for x
    using verify_approval_iff [of "''5f''" x sample_authority "''n1''"] that id
    by (auto simp: ascii_text_def sample_approval_of_def sample_prims_def signature_def sample_approval_args_def sample_identity_def)
  have n: "signed_nonce sample_authority x = ''n1''" if "x = ?a \<or> x = ?b" for x
    using that id str_rsplit1_last [of "CHR '':''" "''5f''" "''n1''"]
    by (auto simp: signed_nonce_def sample_authority_def str_removeprefix_def str_startswith_def)
  have "binding sample_prims ?a sample_identity ''n1'' \<noteq> binding sample_prims ?b sample_identity ''n1''"
    by (simp add: binding_def sample_approval_of_def sample_approval_args_def)
  moreover have "al_approval_id ?a = al_approval_id ?b" by simp
  from accepted_approval_is_bound [OF v v this, OF disjI1 disjI2, OF refl refl]
  have "binding sample_prims ?a sample_identity (signed_nonce sample_authority ?a)
        = binding sample_prims ?b sample_identity (signed_nonce sample_authority ?b)
      \<or> signed_message sample_prims sample_authority ?a sample_identity (signed_nonce sample_authority ?a)
        \<noteq> signed_message sample_prims sample_authority ?b sample_identity (signed_nonce sample_authority ?b)"
    by blast
  ultimately have "signed_message sample_prims sample_authority ?a sample_identity ''n1''
      \<noteq> signed_message sample_prims sample_authority ?b sample_identity ''n1''"
    unfolding n [OF disjI1, OF refl] n [OF disjI2, OF refl] by blast
  with v [OF disjI2, OF refl] show ?thesis by blast
qed

end
