(* ===== verification/Audit_Ledger.thy ===== *)
theory Audit_Ledger
  imports Action_Plans
begin

text \<open>
  The hash chains of the repository. The locale \<open>hash_chain\<close> is the contract of an append-only log whose
  entries carry the digest of their own message and of their predecessor; it is discharged here by the
  audit ledger of actions.py and by the event table of durability.py in the theory of the journal.
\<close>

locale hash_chain =
  fixes prev :: "'e \<Rightarrow> string"
    and dig :: "'e \<Rightarrow> string"
    and message :: "string \<Rightarrow> 'e \<Rightarrow> string"
    and hash :: "string \<Rightarrow> string"
    and content :: "'e \<Rightarrow> 'c"
    and wf_entry :: "'e \<Rightarrow> bool"
  assumes message_inj: "wf_entry e \<Longrightarrow> wf_entry f \<Longrightarrow> message p e = message q f
    \<Longrightarrow> p = q \<and> content e = content f"
begin

primrec chain_ok :: "string \<Rightarrow> 'e list \<Rightarrow> bool" where
  "chain_ok p [] = True"
| "chain_ok p (e # es) = (prev e = p \<and> dig e = hash (message p e) \<and> chain_ok (dig e) es)"

definition chain_head :: "string \<Rightarrow> 'e list \<Rightarrow> string" where
  "chain_head p es = (if es = [] then p else dig (last es))"

definition collide :: "'e \<Rightarrow> 'e \<Rightarrow> bool" where
  "collide e f \<longleftrightarrow> message (prev e) e \<noteq> message (prev f) f
     \<and> hash (message (prev e) e) = hash (message (prev f) f)"

lemma chain_ok_append: "chain_ok p (es @ [e]) \<longleftrightarrow>
    chain_ok p es \<and> prev e = chain_head p es \<and> dig e = hash (message (chain_head p es) e)"
  by (induction es arbitrary: p) (auto simp: chain_head_def)

lemma chain_ok_digest: "chain_ok p es \<Longrightarrow> e \<in> set es \<Longrightarrow> dig e = hash (message (prev e) e)"
  by (induction es arbitrary: p) auto

lemma tamper_evident:
  assumes "chain_ok p es" and "chain_ok q fs" and "length es = length fs"
    and "chain_head p es = chain_head q fs" and "\<forall>e \<in> set (es @ fs). wf_entry e"
  shows "map content es = map content fs \<or> (\<exists>n < length es. collide (es ! n) (fs ! n))"
  using assms
proof (induction es arbitrary: fs rule: rev_induct)
  case (snoc e es)
  then obtain fs' f where fs: "fs = fs' @ [f]" by (cases fs rule: rev_cases) auto
  with snoc.prems have len: "length es = length fs'" by simp
  have e: "chain_ok p es" "prev e = chain_head p es" "dig e = hash (message (prev e) e)"
    and f: "chain_ok q fs'" "prev f = chain_head q fs'" "dig f = hash (message (prev f) f)"
    using snoc.prems(1,2) by (auto simp: fs chain_ok_append)
  have "dig e = dig f" using snoc.prems(4) by (simp add: fs chain_head_def)
  show ?case
  proof (cases "message (prev e) e = message (prev f) f")
    case True
    with message_inj [of e f] snoc.prems(5) fs have same: "prev e = prev f" "content e = content f" by auto
    with e(2) f(2) have "chain_head p es = chain_head q fs'" by simp
    from snoc.IH [OF e(1) f(1) len this] snoc.prems(5) fs
    have "map content es = map content fs' \<or> (\<exists>n < length es. collide (es ! n) (fs' ! n))" by auto
    then show ?thesis
    proof
      assume "map content es = map content fs'"
      with same(2) show ?thesis by (simp add: fs)
    next
      assume "\<exists>n < length es. collide (es ! n) (fs' ! n)"
      then obtain n where "n < length es" "collide (es ! n) (fs' ! n)" by blast
      with len have "collide ((es @ [e]) ! n) (fs ! n)" by (simp add: fs nth_append)
      with \<open>n < length es\<close> show ?thesis by (intro disjI2 exI [of _ n]) simp
    qed
  next
    case False
    with \<open>dig e = dig f\<close> e(3) f(3) have "collide e f" by (simp add: collide_def)
    with len have "collide ((es @ [e]) ! length es) (fs ! length es)" by (simp add: fs nth_append)
    then show ?thesis by (intro disjI2 exI [of _ "length es"]) simp
  qed
qed simp

end

section \<open>The audit ledger of actions.py\<close>

record audit_entry =
  ae_sequence :: int
  ae_event_type :: string
  ae_action_id :: string
  ae_occurred_at :: datetime
  ae_attributes :: "(string, json) dict"
  ae_previous_digest :: string
  ae_digest :: string

type_synonym audit_ledger = "audit_entry list"

definition zeros :: string where
  "zeros = replicate 64 CHR ''0''"

definition audit_genesis :: string where
  "audit_genesis = ''sha256:'' @ zeros"

definition audit_body :: "prims \<Rightarrow> int \<Rightarrow> string \<Rightarrow> string \<Rightarrow> datetime \<Rightarrow> (string, json) dict \<Rightarrow> string \<Rightarrow> json" where
  "audit_body p seq event_type action_id occurred_at attributes previous = JObj
     [(''sequence'', JInt seq), (''event_type'', JStr event_type), (''action_id'', JStr action_id),
      (''occurred_at'', JStr (pr_isoformat p occurred_at)), (''attributes'', JObj attributes),
      (''previous_digest'', JStr previous)]"

definition audit_append :: "prims \<Rightarrow> string \<Rightarrow> string \<Rightarrow> datetime \<Rightarrow> (string, json) dict \<Rightarrow> audit_ledger
    \<Rightarrow> py_error + audit_entry \<times> audit_ledger" where
  "audit_append p event_type action_id occurred_at attributes entries =
     (if \<not> aware occurred_at then Inl (ValueError ''audit timestamps must be timezone-aware'')
      else (let previous = (if entries = [] then audit_genesis else ae_digest (last entries));
                seq = int (length entries) + 1;
                entry = \<lparr>ae_sequence = seq, ae_event_type = event_type, ae_action_id = action_id,
                  ae_occurred_at = occurred_at, ae_attributes = attributes, ae_previous_digest = previous,
                  ae_digest = digest_of p (audit_body p seq event_type action_id occurred_at attributes previous)\<rparr>
            in Inr (entry, entries @ [entry])))"

definition entry_body :: "prims \<Rightarrow> string \<Rightarrow> audit_entry \<Rightarrow> json" where
  "entry_body p previous e = audit_body p (ae_sequence e) (ae_event_type e) (ae_action_id e)
     (ae_occurred_at e) (ae_attributes e) previous"

fun audit_verify_from :: "prims \<Rightarrow> string \<Rightarrow> audit_ledger \<Rightarrow> bool" where
  "audit_verify_from p previous [] = True"
| "audit_verify_from p previous (e # es) =
     (if ae_previous_digest e \<noteq> previous \<or> ae_digest e \<noteq> digest_of p (entry_body p previous e) then False
      else audit_verify_from p (ae_digest e) es)"

definition audit_verify :: "prims \<Rightarrow> audit_ledger \<Rightarrow> bool" where
  "audit_verify p entries = audit_verify_from p audit_genesis entries"

section \<open>The ledger is a hash chain\<close>

text \<open>What an entry records, with its attributes up to the order of their keys.\<close>

definition audit_content :: "prims \<Rightarrow> audit_entry \<Rightarrow> int \<times> string \<times> string \<times> string \<times> json" where
  "audit_content p e = (ae_sequence e, ae_event_type e, ae_action_id e, pr_isoformat p (ae_occurred_at e),
     sort_keys (JObj (ae_attributes e)))"

definition audit_message :: "prims \<Rightarrow> string \<Rightarrow> audit_entry \<Rightarrow> string" where
  "audit_message p previous e = canonical (entry_body p previous e)"

definition audit_hash :: "prims \<Rightarrow> string \<Rightarrow> string" where
  "audit_hash p m = ''sha256:'' @ pr_sha256 p m"

interpretation audit_chain: hash_chain ae_previous_digest ae_digest "audit_message p" "audit_hash p"
    "audit_content p" "\<lambda>e. json_wf (JObj (ae_attributes e))" for p
proof
  fix e f :: audit_entry and q r :: string
  assume wf: "json_wf (JObj (ae_attributes e))" "json_wf (JObj (ae_attributes f))"
    and eq: "audit_message p q e = audit_message p r f"
  define b where "b x d = [(''sequence'', JInt (ae_sequence x)), (''event_type'', JStr (ae_event_type x)),
      (''action_id'', JStr (ae_action_id x)), (''occurred_at'', JStr (pr_isoformat p (ae_occurred_at x))),
      (''attributes'', JObj (ae_attributes x)), (''previous_digest'', JStr d)]" for x :: audit_entry and d
  have "canonical (JObj (b e q)) = canonical (JObj (b f r))"
    using eq by (simp add: audit_message_def entry_body_def audit_body_def b_def)
  moreover have "json_wf (JObj (b e q))" "json_wf (JObj (b f r))" using wf by (simp_all add: b_def)
  ultimately have same: "map_option sort_keys (dict_get (b e q) k) = map_option sort_keys (dict_get (b f r) k)" for k
    by (rule canonical_lookup)
  show "q = r \<and> audit_content p e = audit_content p f"
    using same [of "''sequence''"] same [of "''event_type''"] same [of "''action_id''"]
      same [of "''occurred_at''"] same [of "''attributes''"] same [of "''previous_digest''"]
    by (simp add: b_def audit_content_def)
qed

lemma audit_verify_from_eq: "audit_verify_from p q es \<longleftrightarrow> audit_chain.chain_ok p q es"
  by (induction es arbitrary: q) (auto simp: digest_of_def audit_hash_def audit_message_def)

lemma audit_verify_eq: "audit_verify p es \<longleftrightarrow> audit_chain.chain_ok p audit_genesis es"
  by (simp add: audit_verify_def audit_verify_from_eq)

lemma audit_append_Inr:
  assumes "audit_append p t a d attrs es = Inr (e, es')"
  shows "es' = es @ [e] \<and> ae_sequence e = int (length es) + 1 \<and> ae_event_type e = t
    \<and> ae_action_id e = a \<and> ae_attributes e = attrs \<and> (audit_verify p es' \<longleftrightarrow> audit_verify p es)"
  using assms unfolding audit_verify_eq
  by (auto simp: audit_append_def Let_def audit_chain.chain_ok_append audit_chain.chain_head_def
      audit_hash_def audit_message_def entry_body_def digest_of_def split: if_splits)

lemma audit_append_aware:
  "aware d \<Longrightarrow> \<exists>e. audit_append p t a d attrs es = Inr (e, es @ [e])"
  by (simp add: audit_append_def Let_def)

text \<open>The states a ledger can reach by appending.\<close>

inductive audit_reachable :: "prims \<Rightarrow> audit_ledger \<Rightarrow> bool" for p where
  empty: "audit_reachable p []"
| append: "audit_reachable p es \<Longrightarrow> audit_append p t a d attrs es = Inr (e, es') \<Longrightarrow> audit_reachable p es'"

text \<open>
  Every ledger built by appending verifies, and its entries are numbered consecutively from one.
\<close>

lemma audit_ledger_verifies:
  assumes "audit_reachable p es"
  shows "audit_verify p es \<and> map ae_sequence es = map int [1..<Suc (length es)]"
  using assms
proof (induction rule: audit_reachable.induct)
  case empty
  show ?case by (simp add: audit_verify_def)
next
  case (append es t a d attrs e es')
  have seq: "map ae_sequence (es @ [e]) = map int [1..<Suc (length (es @ [e]))]"
    using audit_append_Inr [OF append.hyps(2)] append.IH by simp
  have es': "es' = es @ [e]" and "audit_verify p es'"
    using audit_append_Inr [OF append.hyps(2)] append.IH by blast+
  with seq show ?case by blast
qed

text \<open>
  C11. The ledger is tamper-evident: if two ledgers of the same length verify and end in the same digest,
  then entry by entry they record the same sequence number, event type, action, time and attributes; or
  there is a position at which the hash collides on the two distinct messages of the entries there.
\<close>

theorem audit_ledger_tamper_evident:
  assumes "audit_verify p es" and "audit_verify p fs" and "length es = length fs" and "es \<noteq> []"
    and "ae_digest (last es) = ae_digest (last fs)"
    and "\<forall>e \<in> set es \<union> set fs. json_wf (JObj (ae_attributes e))"
  shows "map (audit_content p) es = map (audit_content p) fs
    \<or> (\<exists>n < length es. audit_message p (ae_previous_digest (es ! n)) (es ! n)
            \<noteq> audit_message p (ae_previous_digest (fs ! n)) (fs ! n)
         \<and> audit_hash p (audit_message p (ae_previous_digest (es ! n)) (es ! n))
            = audit_hash p (audit_message p (ae_previous_digest (fs ! n)) (fs ! n)))"
proof -
  have "fs \<noteq> []" using assms(3,4) by auto
  then have "audit_chain.chain_head audit_genesis es = audit_chain.chain_head audit_genesis fs"
    using assms(4,5) by (simp add: audit_chain.chain_head_def)
  with audit_chain.tamper_evident [of p audit_genesis es audit_genesis fs] assms
  show ?thesis by (auto simp: audit_verify_eq audit_chain.collide_def)
qed

definition sample_entry :: "string \<Rightarrow> audit_entry" where
  "sample_entry t = \<lparr>ae_sequence = 1, ae_event_type = t, ae_action_id = ''a1'', ae_occurred_at = utc 0,
     ae_attributes = [], ae_previous_digest = audit_genesis, ae_digest = ''sha256:d''\<rparr>"

lemma sample_entry_appended:
  "audit_append sample_prims t ''a1'' (utc 0) [] [] = Inr (sample_entry t, [sample_entry t])"
  by (simp add: audit_append_def Let_def sample_entry_def digest_of_def sample_prims_def)

lemma audit_ledger_verifies_example: "audit_verify sample_prims [sample_entry ''executed'']"
  using audit_ledger_verifies [OF audit_reachable.append [OF audit_reachable.empty sample_entry_appended]]
  by blast

theorem audit_ledger_tamper_evident_witness:
  "map (audit_content sample_prims) [sample_entry ''executed''] \<noteq> map (audit_content sample_prims) [sample_entry ''failed'']
   \<and> audit_message sample_prims audit_genesis (sample_entry ''executed'')
      \<noteq> audit_message sample_prims audit_genesis (sample_entry ''failed'')"
proof -
  have v: "audit_verify sample_prims [sample_entry t]" for t
    by (simp add: audit_verify_def sample_entry_def digest_of_def sample_prims_def)
  have "map (audit_content sample_prims) [sample_entry ''executed''] \<noteq> map (audit_content sample_prims) [sample_entry ''failed'']"
    by (simp add: audit_content_def sample_entry_def)
  with audit_ledger_tamper_evident [OF v v, of "''executed''" "''failed''"] show ?thesis
    by (simp add: sample_entry_def)
qed

end
