(* ===== verification/Action_Gateway.thy ===== *)
theory Action_Gateway
  imports Audit_Ledger Telemetry_Events
begin

text \<open>
  ActionGateway of actions.py. The policy, the telemetry sink, the connectors' \<open>mutate\<close>, the clock and the
  approval verifier are the environment; every reading of the clock and every call of the policy, the
  sink or a connector consumes one tick, so that each may answer differently every time. The state is
  the audit ledger, the idempotency table and the trace of mutations sent to sources. A mutation result
  is a JSON value, a mapping exactly when it is an object. The operations the durable gateway inherits
  are polymorphic in the rest of the state.
\<close>

datatype action_error =
    Ax_Registry registry_error
  | Ax_Py py_error
  | Ax_Denied policy_decision
  | Ax_Preview_Mismatch
  | Ax_Approval_Required string
  | Ax_Idempotency_Conflict string
  | Ax_Execution_Failed mutation_receipt
  | Ax_Outcome_Unknown string
  | Ax_External ext_error

type_synonym mutation_request = "(string, json) dict"
type_synonym dispatch = "string \<times> mutation_request"

type_synonym approval_verifier =
  "action_approval \<Rightarrow> action_plan \<Rightarrow> request_identity \<Rightarrow> datetime \<Rightarrow> bool \<Rightarrow> bool checked"

record action_env =
  ax_prims :: prims
  ax_registry :: registry
  ax_policy :: "nat \<Rightarrow> authorization_request \<Rightarrow> ext_error + policy_decision"
  ax_sink :: "nat \<Rightarrow> telemetry_event \<Rightarrow> ext_error option"
  ax_clock :: "nat \<Rightarrow> int"
  ax_mutate :: "nat \<Rightarrow> string \<Rightarrow> mutation_request \<Rightarrow> ext_error + json"
  ax_verifier :: "approval_verifier option"

record gateway_state =
  gst_audit :: audit_ledger
  gst_tick :: nat
  gst_dispatches :: "dispatch list"

record action_gateway_state = gateway_state +
  gst_idempotency :: "(string \<times> string, string \<times> mutation_receipt) dict"

type_synonym ('m, 'a) gw_op = "('m gateway_state_scheme, action_error, 'a) sm"

section \<open>Time, audit and telemetry\<close>

definition next_tick :: "('m, nat) gw_op" where
  "next_tick s = (Inr (gst_tick s), s\<lparr>gst_tick := Suc (gst_tick s)\<rparr>)"

definition current_time :: "action_env \<Rightarrow> ('m, datetime) gw_op" where
  "current_time env = sm_bind next_tick (\<lambda>n. sm_return (utc (ax_clock env n)))"

definition audit_event :: "action_env \<Rightarrow> string \<Rightarrow> string \<Rightarrow> datetime \<Rightarrow> (string, json) dict
    \<Rightarrow> ('m, audit_entry) gw_op" where
  "audit_event env event_type action_id occurred_at attributes s =
     (case audit_append (ax_prims env) event_type action_id occurred_at attributes (gst_audit s) of
        Inl e \<Rightarrow> (Inl (Ax_Py e), s)
      | Inr (entry, ledger) \<Rightarrow> (Inr entry, s\<lparr>gst_audit := ledger\<rparr>))"

definition audit_size :: "('m, nat) gw_op" where
  "audit_size s = (Inr (length (gst_audit s)), s)"

definition emit_event :: "action_env \<Rightarrow> string \<Rightarrow> request_identity \<Rightarrow> (string, json) dict \<Rightarrow> string
    \<Rightarrow> ('m, unit) gw_op" where
  \<comment> \<open>a failing sink is audited and swallowed; a cancellation is not\<close>
  "emit_event env name identity attributes action_id =
     sm_bind (current_time env) (\<lambda>now.
     case mk_telemetry_event \<lparr>te_name = name, te_identity = identity, te_occurred_at = now,
            te_attributes = attributes\<rparr> of
       Inl e \<Rightarrow> sm_raise (Ax_Py e)
     | Inr event \<Rightarrow>
         sm_bind next_tick (\<lambda>n.
         case ax_sink env n event of
           None \<Rightarrow> sm_return ()
         | Some Ext_Cancelled \<Rightarrow> sm_raise (Ax_External Ext_Cancelled)
         | Some _ \<Rightarrow>
             sm_bind (current_time env) (\<lambda>failed_at.
             sm_bind (audit_event env ''telemetry-failed'' action_id failed_at
                        [(''event_name'', JStr name)]) (\<lambda>_. sm_return ()))))"

definition emit_stage :: "action_env \<Rightarrow> string \<Rightarrow> action_plan \<Rightarrow> request_identity \<Rightarrow> (string, json) dict
    \<Rightarrow> ('m, unit) gw_op" where
  "emit_stage env stage a identity attributes =
     emit_event env (''data.harness.action.'' @ stage) identity
       ([(''source_id'', JStr (ap_source_id a)), (''action_id'', JStr (ap_action_id a))] @ attributes)
       (ap_action_id a)"

section \<open>Policy, preview and approval checks\<close>

definition mutation_authorization ::
  "prims \<Rightarrow> action_plan \<Rightarrow> request_identity \<Rightarrow> string \<Rightarrow> authorization_request" where
  "mutation_authorization p a identity stage = \<lparr>ar_identity = identity, ar_source_id = ap_source_id a,
     ar_capability = Mutate, ar_asset_ids = [ap_asset_id a], ar_purpose = ap_purpose a,
     ar_attributes = [(''risk'', JStr (risk_value (ap_risk a))), (''stage'', JStr stage)],
     ar_parameters = [(''operation'', JStr (ap_operation a)),
       (''precondition_fields'', sorted_names (ap_preconditions a)),
       (''action_digest'', JStr (plan_digest p a))]\<rparr>"

definition authorize_action ::
  "action_env \<Rightarrow> action_plan \<Rightarrow> request_identity \<Rightarrow> string \<Rightarrow> ('m, policy_decision) gw_op" where
  "authorize_action env a identity stage =
     sm_bind next_tick (\<lambda>n.
     case ax_policy env n (mutation_authorization (ax_prims env) a identity stage) of
       Inl x \<Rightarrow> sm_raise (Ax_External x)
     | Inr decision \<Rightarrow>
         sm_bind (emit_event env ''data.harness.action.authorization'' identity
             [(''source_id'', JStr (ap_source_id a)), (''action_id'', JStr (ap_action_id a)),
              (''stage'', JStr stage), (''allowed'', JBool (pd_allowed decision)),
              (''decision_id'', JStr (pd_decision_id decision))] (ap_action_id a)) (\<lambda>_.
         sm_return decision))"

definition preview_valid :: "prims \<Rightarrow> action_plan \<Rightarrow> action_preview \<Rightarrow> request_identity \<Rightarrow> datetime \<Rightarrow> bool" where
  "preview_valid p a v identity now \<longleftrightarrow> pv_allowed v \<and> pv_action_id v = ap_action_id a
     \<and> pv_action_digest v = plan_digest p a \<and> pv_policy_digest v = id_policy_digest identity
     \<and> instant now < instant (pv_expires_at v)"

definition validate_preview ::
  "action_env \<Rightarrow> action_plan \<Rightarrow> action_preview \<Rightarrow> request_identity \<Rightarrow> datetime \<Rightarrow> ('m, unit) gw_op" where
  "validate_preview env a v identity now =
     sm_guard (preview_valid (ax_prims env) a v identity now) Ax_Preview_Mismatch"

definition validate_approval :: "action_env \<Rightarrow> action_plan \<Rightarrow> action_approval option \<Rightarrow> request_identity
    \<Rightarrow> datetime \<Rightarrow> bool \<Rightarrow> ('m, unit) gw_op" where
  "validate_approval env a approval identity now compensation =
     (if ap_approval_mode a = Approval_None then sm_return ()
      else (case approval of
              None \<Rightarrow> sm_raise (Ax_Approval_Required ''human approval is required'')
            | Some ap \<Rightarrow>
                (case (case ax_verifier env of None \<Rightarrow> Inr False
                       | Some verify \<Rightarrow> verify ap a identity now compensation) of
                   Inl e \<Rightarrow> sm_raise (Ax_Py e)
                 | Inr valid \<Rightarrow> sm_guard valid
                     (Ax_Approval_Required ''approval is untrusted, stale, mismatched or excludes compensation''))))"

definition registry_lookup :: "action_env \<Rightarrow> string \<Rightarrow> ('m, connector_profile) gw_op" where
  "registry_lookup env source_id =
     sm_lift (case get_connector (ax_registry env) source_id (Some Mutate) of
                Inl e \<Rightarrow> Inl (Ax_Registry e) | Inr profile \<Rightarrow> Inr profile)"

section \<open>Preview\<close>

definition preview_of :: "prims \<Rightarrow> action_plan \<Rightarrow> request_identity \<Rightarrow> policy_decision \<Rightarrow> datetime
    \<Rightarrow> timedelta \<Rightarrow> action_preview" where
  "preview_of p a identity decision created_at ttl =
     \<lparr>pv_preview_id = ''preview:'' @ ap_action_id a @ '':'' @ take 12 (str_removeprefix (plan_digest p a) ''sha256:''),
      pv_action_id = ap_action_id a, pv_action_digest = plan_digest p a,
      pv_policy_digest = id_policy_digest identity, pv_policy_decision_id = pd_decision_id decision,
      pv_created_at = created_at, pv_expires_at = dt_add created_at ttl,
      pv_allowed = pd_allowed decision, pv_approval_required = (ap_approval_mode a = Approval_Human),
      pv_effects = [ap_source_id a @ '':'' @ ap_asset_id a @ '':'' @ ap_operation a,
                    ''conditional:'' @ join_comma (sort (dict_keys (ap_preconditions a)))]\<rparr>"

definition preview_action ::
  "action_env \<Rightarrow> action_plan \<Rightarrow> request_identity \<Rightarrow> timedelta \<Rightarrow> ('m, action_preview) gw_op" where
  "preview_action env a identity ttl =
     sm_bind (registry_lookup env (ap_source_id a)) (\<lambda>profile.
     sm_bind (sm_guard (cp_supports_idempotency_key (pf_consistency profile))
       (Ax_Py (ValueError ''mutation connector must support source-level idempotency keys''))) (\<lambda>_.
     sm_bind (authorize_action env a identity ''preview'') (\<lambda>decision.
     sm_bind (current_time env) (\<lambda>created_at.
     case mk_action_preview (preview_of (ax_prims env) a identity decision created_at ttl) of
       Inl e \<Rightarrow> sm_raise (Ax_Py e)
     | Inr preview \<Rightarrow>
         sm_bind (audit_event env ''previewed'' (ap_action_id a) created_at
           [(''allowed'', JBool (pd_allowed decision)), (''decision_id'', JStr (pd_decision_id decision))]) (\<lambda>_.
         sm_bind (emit_stage env ''previewed'' a identity [(''allowed'', JBool (pd_allowed decision))]) (\<lambda>_.
         sm_return preview))))))"

definition five_minutes :: timedelta where
  "five_minutes = 5 * 60 * 1000000"

section \<open>Execution\<close>

definition mutation_request :: "action_plan \<Rightarrow> mutation_request" where
  "mutation_request a =
     [(''action_id'', JStr (ap_action_id a)), (''asset_id'', JStr (ap_asset_id a)),
      (''operation'', JStr (ap_operation a)), (''parameters'', JObj (ap_parameters a)),
      (''preconditions'', JObj (ap_preconditions a)),
      (''idempotency_key'', JStr (ap_idempotency_key a))]"

definition dispatch_key :: "dispatch \<Rightarrow> string \<times> string" where
  "dispatch_key d = (fst d, case dict_get (snd d) ''idempotency_key'' of Some (JStr k) \<Rightarrow> k | _ \<Rightarrow> [])"

definition action_key :: "action_plan \<Rightarrow> string \<times> string" where
  "action_key a = (ap_source_id a, ap_idempotency_key a)"

definition send_mutation :: "action_env \<Rightarrow> action_plan \<Rightarrow> ('m, ext_error + json) gw_op" where
  \<comment> \<open>the awaited call to the source; its exception is a value here, for the \<open>except\<close> that follows\<close>
  "send_mutation env a =
     sm_bind next_tick (\<lambda>n s.
       (Inr (ax_mutate env n (ap_source_id a) (mutation_request a)),
        s\<lparr>gst_dispatches := gst_dispatches s @ [(ap_source_id a, mutation_request a)]\<rparr>))"

definition result_get :: "(string, json) dict \<Rightarrow> string \<Rightarrow> json" where
  "result_get r k = (case dict_get r k of None \<Rightarrow> JNull | Some v \<Rightarrow> v)"

definition result_success :: "(string, json) dict \<Rightarrow> bool" where
  "result_success r \<longleftrightarrow> result_get r ''success'' = JBool True \<and> result_get r ''postconditions_met'' = JBool True"

definition result_version :: "prims \<Rightarrow> (string, json) dict \<Rightarrow> string" where
  "result_version p r = (case dict_get r ''source_version'' of None \<Rightarrow> ''unknown''
     | Some v \<Rightarrow> py_str (pr_repr p) v)"

definition receipt_of :: "prims \<Rightarrow> action_plan \<Rightarrow> nat \<Rightarrow> action_state \<Rightarrow> datetime \<Rightarrow> datetime \<Rightarrow> string
    \<Rightarrow> policy_decision \<Rightarrow> audit_entry \<Rightarrow> mutation_receipt" where
  "receipt_of p a entries state started completed version decision audit =
     \<lparr>rc_receipt_id = ''receipt:'' @ ap_action_id a @ '':'' @ show_nat entries,
      rc_action_id = ap_action_id a, rc_action_digest = plan_digest p a,
      rc_idempotency_key = ap_idempotency_key a, rc_state = state, rc_started_at = started,
      rc_completed_at = completed, rc_source_version = version,
      rc_policy_decision_id = pd_decision_id decision, rc_audit_digest = ae_digest audit,
      rc_compensation_of = None\<rparr>"

definition check_action :: "action_env \<Rightarrow> action_plan \<Rightarrow> action_preview \<Rightarrow> request_identity
    \<Rightarrow> action_approval option \<Rightarrow> ('m, datetime \<times> policy_decision) gw_op" where
  \<comment> \<open>the checks both gateways start \<open>execute\<close> with\<close>
  "check_action env a v identity approval =
     sm_bind (current_time env) (\<lambda>now.
     sm_bind (validate_preview env a v identity now) (\<lambda>_.
     sm_bind (validate_approval env a approval identity now False) (\<lambda>_.
     sm_bind (authorize_action env a identity ''execute'') (\<lambda>decision.
     sm_bind (sm_guard (pd_allowed decision) (Ax_Denied decision)) (\<lambda>_.
     sm_return (now, decision))))))"

definition replay_receipt :: "action_env \<Rightarrow> action_plan \<Rightarrow> request_identity \<Rightarrow> mutation_receipt \<Rightarrow> datetime
    \<Rightarrow> ('m, mutation_receipt) gw_op" where
  "replay_receipt env a identity receipt now =
     sm_bind (audit_event env ''replayed'' (ap_action_id a) now
                [(''receipt_id'', JStr (rc_receipt_id receipt))]) (\<lambda>audit.
     sm_bind (emit_stage env ''replayed'' a identity [(''receipt_id'', JStr (rc_receipt_id receipt))]) (\<lambda>_.
     sm_return (receipt\<lparr>rc_state := AS_Already_Executed, rc_completed_at := now,
                        rc_audit_digest := ae_digest audit\<rparr>)))"

definition connector_failed :: "action_env \<Rightarrow> action_plan \<Rightarrow> request_identity \<Rightarrow> policy_decision \<Rightarrow> datetime
    \<Rightarrow> ('m, mutation_receipt) gw_op" where
  "connector_failed env a identity decision started =
     sm_bind (current_time env) (\<lambda>completed.
     sm_bind (audit_event env (action_state_value AS_Failed) (ap_action_id a) completed
        [(''source_version'', JStr ''unknown''), (''reason'', JStr ''connector_error'')]) (\<lambda>audit.
     sm_bind audit_size (\<lambda>n.
     sm_bind (emit_stage env (action_state_value AS_Failed) a identity
        [(''source_version'', JStr ''unknown'')]) (\<lambda>_.
     sm_raise (Ax_Execution_Failed
       (receipt_of (ax_prims env) a n AS_Failed started completed ''unknown'' decision audit))))))"

definition settle :: "action_env \<Rightarrow> action_plan \<Rightarrow> policy_decision \<Rightarrow> datetime \<Rightarrow> (string, json) dict
    \<Rightarrow> ('m, mutation_receipt) gw_op" where
  \<comment> \<open>the receipt of a mutation the source answered\<close>
  "settle env a decision started result =
     sm_bind (current_time env) (\<lambda>completed.
     let state = (if result_success result then AS_Executed else AS_Failed);
         version = result_version (ax_prims env) result
     in sm_bind (audit_event env (action_state_value state) (ap_action_id a) completed
          [(''source_version'', JStr version)]) (\<lambda>audit.
        sm_bind audit_size (\<lambda>n.
        sm_return (receipt_of (ax_prims env) a n state started completed version decision audit))))"

definition remember_receipt ::
  "action_plan \<Rightarrow> string \<times> mutation_receipt \<Rightarrow> (action_gateway_state, action_error, unit) sm" where
  "remember_receipt a entry s =
     (Inr (), s\<lparr>gst_idempotency := dict_set (action_key a) entry (gst_idempotency s)\<rparr>)"

definition dispatch_action :: "action_env \<Rightarrow> action_plan \<Rightarrow> request_identity \<Rightarrow> policy_decision \<Rightarrow> datetime
    \<Rightarrow> (action_gateway_state, action_error, mutation_receipt) sm" where
  "dispatch_action env a identity decision now =
     sm_bind (registry_lookup env (ap_source_id a)) (\<lambda>_.
     sm_bind (send_mutation env a) (\<lambda>answer.
     case answer of
       Inl Ext_Cancelled \<Rightarrow> sm_raise (Ax_External Ext_Cancelled)
     | Inr (JObj result) \<Rightarrow>
         sm_bind (settle env a decision now result) (\<lambda>receipt.
         if \<not> result_success result
         then sm_bind (emit_stage env (action_state_value (rc_state receipt)) a identity
                [(''source_version'', JStr (rc_source_version receipt))]) (\<lambda>_.
              sm_raise (Ax_Execution_Failed receipt))
         else sm_bind (remember_receipt a (plan_digest (ax_prims env) a, receipt)) (\<lambda>_.
              sm_bind (emit_stage env (action_state_value (rc_state receipt)) a identity
                [(''source_version'', JStr (rc_source_version receipt))]) (\<lambda>_.
              sm_return receipt)))
     | _ \<Rightarrow> connector_failed env a identity decision now))"

definition lookup_receipt :: "action_plan
    \<Rightarrow> (action_gateway_state, action_error, (string \<times> mutation_receipt) option) sm" where
  "lookup_receipt a s = (Inr (dict_get (gst_idempotency s) (action_key a)), s)"

definition execute_action :: "action_env \<Rightarrow> action_plan \<Rightarrow> action_preview \<Rightarrow> request_identity
    \<Rightarrow> action_approval option \<Rightarrow> (action_gateway_state, action_error, mutation_receipt) sm" where
  "execute_action env a v identity approval =
     sm_bind (check_action env a v identity approval) (\<lambda>(now, decision).
     sm_bind (lookup_receipt a) (\<lambda>existing.
     case existing of
       Some (digest, receipt) \<Rightarrow>
         if digest \<noteq> plan_digest (ax_prims env) a
         then sm_raise (Ax_Idempotency_Conflict ''idempotency key was already bound to another action'')
         else replay_receipt env a identity receipt now
     | None \<Rightarrow> dispatch_action env a identity decision now))"

section \<open>Compensation\<close>

definition derived_plan :: "action_plan \<Rightarrow> compensation_spec \<Rightarrow> action_plan" where
  "derived_plan a c =
     \<lparr>ap_action_id = ap_action_id a @ '':compensate'', ap_source_id = ap_source_id a,
      ap_asset_id = ap_asset_id a, ap_operation = cs_operation c, ap_parameters = cs_parameters c,
      ap_preconditions = cs_preconditions c,
      ap_idempotency_key = ap_idempotency_key a @ '':compensate'', ap_risk = Risk_Medium,
      ap_approval_mode = Approval_None, ap_purpose = ''compensate '' @ ap_action_id a,
      ap_compensation = None\<rparr>"

definition compensate_with :: "(action_plan \<Rightarrow> action_preview \<Rightarrow> request_identity \<Rightarrow> action_approval option
      \<Rightarrow> ('m, mutation_receipt) gw_op) \<Rightarrow> action_env \<Rightarrow> action_plan \<Rightarrow> mutation_receipt \<Rightarrow> request_identity
    \<Rightarrow> action_approval option \<Rightarrow> ('m, mutation_receipt) gw_op" where
  \<comment> \<open>\<open>self.execute\<close> is an argument: the durable gateway overrides it\<close>
  "compensate_with execute env original receipt identity approval =
     (case ap_compensation original of
        None \<Rightarrow> sm_raise (Ax_Py (ValueError ''source action has no declared compensation''))
      | Some spec \<Rightarrow>
          if rc_action_digest receipt \<noteq> plan_digest (ax_prims env) original
          then sm_raise (Ax_Py (ValueError
            ''receipt is not bound to the source action being compensated''))
          else if rc_state receipt \<notin> {AS_Executed, AS_Recovered, AS_Already_Executed}
          then sm_raise (Ax_Py (ValueError ''only a successful source action can be compensated''))
          else sm_bind (current_time env) (\<lambda>now.
               sm_bind (validate_approval env original approval identity now True) (\<lambda>_.
               case mk_action_plan (derived_plan original spec) of
                 Inl e \<Rightarrow> sm_raise (Ax_Py e)
               | Inr derived \<Rightarrow>
                   sm_bind (preview_action env derived identity five_minutes) (\<lambda>preview.
                   sm_bind (execute derived preview identity None) (\<lambda>compensated.
                   sm_bind (current_time env) (\<lambda>at_time.
                   sm_bind (audit_event env ''compensated'' (ap_action_id original) at_time
                     [(''compensation_receipt_id'', JStr (rc_receipt_id compensated))]) (\<lambda>audit.
                   sm_return (compensated\<lparr>rc_state := AS_Compensated,
                     rc_audit_digest := ae_digest audit,
                     rc_compensation_of := Some (rc_receipt_id receipt)\<rparr>))))))))"

definition compensate_action :: "action_env \<Rightarrow> action_plan \<Rightarrow> mutation_receipt \<Rightarrow> request_identity
    \<Rightarrow> action_approval option \<Rightarrow> (action_gateway_state, action_error, mutation_receipt) sm" where
  "compensate_action env = compensate_with (execute_action env) env"

lemmas compensate_unfold = compensate_action_def compensate_with_def

section \<open>What leaves sources and receipts alone\<close>

definition keeps :: "'m gateway_state_scheme \<Rightarrow> 'm gateway_state_scheme \<Rightarrow> bool" where
  "keeps s t \<longleftrightarrow> gst_dispatches t = gst_dispatches s \<and> gateway_state.more t = gateway_state.more s"

abbreviation quiet :: "('m, 'a) gw_op \<Rightarrow> bool" where
  "quiet m \<equiv> sm_rel keeps m"

lemma reflp_keeps [simp, intro]: "reflp keeps" and transp_keeps [simp, intro]: "transp keeps"
  by (auto simp: reflp_def transp_def keeps_def)

lemma keeps_refl [simp]: "keeps s s"
  by (simp add: keeps_def)

lemma quiet_bind [intro]: "quiet m \<Longrightarrow> (\<And>x. quiet (f x)) \<Longrightarrow> quiet (sm_bind m f)"
  by (rule sm_rel_bind [OF transp_keeps])

lemma quiet_simple [intro]:
  "quiet (sm_return x)" "quiet (sm_raise e)" "quiet (sm_lift r)" "quiet (sm_guard b e)"
  by simp_all

lemma quiet_next_tick [intro]: "quiet next_tick"
  by (rule sm_relI) (simp add: next_tick_def keeps_def)

lemma quiet_current_time [intro]: "quiet (current_time env)"
  unfolding current_time_def by blast

lemma quiet_audit_event [intro]: "quiet (audit_event env t a d attrs)"
  by (rule sm_relI) (simp add: audit_event_def keeps_def split: sum.split)

lemma quiet_audit_size [intro]: "quiet audit_size"
  by (rule sm_relI) (simp add: audit_size_def keeps_def)

lemma quiet_emit_event [intro]: "quiet (emit_event env name i attrs action_id)"
  unfolding emit_event_def
  by (intro quiet_bind quiet_current_time)
    (auto split: sum.split option.split ext_error.split
      intro!: quiet_bind quiet_next_tick quiet_current_time quiet_audit_event)

lemma quiet_emit_stage [intro]: "quiet (emit_stage env stage a i attrs)"
  unfolding emit_stage_def by blast

lemma quiet_authorize_action [intro]: "quiet (authorize_action env a i stage)"
  unfolding authorize_action_def by (intro quiet_bind quiet_next_tick) (auto split: sum.split)

lemma quiet_validate_preview [intro]: "quiet (validate_preview env a v i now)"
  unfolding validate_preview_def by blast

lemma quiet_validate_approval [intro]: "quiet (validate_approval env a ap i now c)"
  unfolding validate_approval_def by (auto split: option.split sum.split)

lemma quiet_registry_lookup [intro]: "quiet (registry_lookup env source_id)"
  unfolding registry_lookup_def by blast

lemma quiet_preview_action [intro]: "quiet (preview_action env a i ttl)"
  unfolding preview_action_def
  by (intro quiet_bind quiet_registry_lookup quiet_authorize_action quiet_current_time)
    (auto split: sum.split)

lemma quiet_check_action [intro]: "quiet (check_action env a v i ap)"
  unfolding check_action_def by blast

lemma quiet_replay_receipt [intro]: "quiet (replay_receipt env a i r now)"
  unfolding replay_receipt_def by blast

lemma quiet_connector_failed [intro]: "quiet (connector_failed env a i d now)"
  unfolding connector_failed_def by blast

lemma quiet_settle [intro]: "quiet (settle env a d now result)"
  unfolding settle_def Let_def by blast

lemma quietD: "quiet m \<Longrightarrow> m s = (r, t) \<Longrightarrow> keeps s t"
  by (rule sm_relD)

lemma keeps_idempotency: "keeps s t \<Longrightarrow> gst_idempotency t = gst_idempotency (s :: action_gateway_state)"
  by (cases s; cases t) (simp add: keeps_def)

section \<open>What the checks establish\<close>

definition approval_ok ::
  "action_env \<Rightarrow> action_plan \<Rightarrow> action_approval option \<Rightarrow> request_identity \<Rightarrow> datetime \<Rightarrow> bool \<Rightarrow> bool" where
  "approval_ok env a approval i now compensation \<longleftrightarrow> ap_approval_mode a = Approval_None
     \<or> (\<exists>ap verify. approval = Some ap \<and> ax_verifier env = Some verify \<and> verify ap a i now compensation = Inr True)"

definition policy_allows :: "action_env \<Rightarrow> action_plan \<Rightarrow> request_identity \<Rightarrow> string \<Rightarrow> bool" where
  "policy_allows env a i stage \<longleftrightarrow> (\<exists>n d. ax_policy env n (mutation_authorization (ax_prims env) a i stage) = Inr d
     \<and> pd_allowed d)"

lemma validate_approval_Inr:
  "validate_approval env a ap i now c s = (Inr x, t) \<longleftrightarrow> t = s \<and> approval_ok env a ap i now c"
  by (cases "ap_approval_mode a") (auto simp: validate_approval_def approval_ok_def split: option.splits sum.splits)

lemma authorize_action_Inr:
  "authorize_action env a i stage s = (Inr d, t) \<Longrightarrow>
     \<exists>n. ax_policy env n (mutation_authorization (ax_prims env) a i stage) = Inr d"
proof -
  assume "authorize_action env a i stage s = (Inr d, t)"
  then obtain n s' where "(case ax_policy env n (mutation_authorization (ax_prims env) a i stage) of
       Inl x \<Rightarrow> sm_raise (Ax_External x)
     | Inr decision \<Rightarrow>
         sm_bind (emit_event env ''data.harness.action.authorization'' i
             [(''source_id'', JStr (ap_source_id a)), (''action_id'', JStr (ap_action_id a)),
              (''stage'', JStr stage), (''allowed'', JBool (pd_allowed decision)),
              (''decision_id'', JStr (pd_decision_id decision))] (ap_action_id a)) (\<lambda>_.
         sm_return decision)) s' = (Inr d, t)"
    by (auto simp only: authorize_action_def sm_bind_Inr_iff)
  then show ?thesis
    by (cases "ax_policy env n (mutation_authorization (ax_prims env) a i stage)")
      (auto simp: sm_bind_Inr_iff)
qed

lemma current_time_bind: "sm_bind (current_time env) f = sm_bind next_tick (\<lambda>n. f (utc (ax_clock env n)))"
  by (simp add: fun_eq_iff current_time_def next_tick_def sm_bind_def)

lemma check_action_Inr:
  assumes "check_action env a v i ap s = (Inr (now, d), t)"
  shows "now = utc (ax_clock env (gst_tick s)) \<and> preview_valid (ax_prims env) a v i now \<and> approval_ok env a ap i now False
    \<and> policy_allows env a i ''execute'' \<and> pd_allowed d"
  using assms
  by (auto simp: check_action_def current_time_bind next_tick_def validate_preview_def sm_bind_Inr_iff validate_approval_Inr
      policy_allows_def dest!: authorize_action_Inr split: if_splits)

section \<open>What one execution does\<close>

lemma settle_receipt:
  "settle env a d now result s = (Inr r, t) \<Longrightarrow> rc_action_digest r = plan_digest (ax_prims env) a
     \<and> rc_state r = (if result_success result then AS_Executed else AS_Failed)"
  by (auto simp: settle_def sm_bind_Inr_iff receipt_of_def Let_def)

lemma send_mutation_eq:
  "send_mutation env a s = (Inr (ax_mutate env (gst_tick s) (ap_source_id a) (mutation_request a)),
     s\<lparr>gst_tick := Suc (gst_tick s),
       gst_dispatches := gst_dispatches s @ [(ap_source_id a, mutation_request a)]\<rparr>)"
  by (simp add: send_mutation_def next_tick_def sm_bind_def)

text \<open>What follows an answer that is a mapping: the receipt, and on success its binding to the key.\<close>

definition after_answer :: "action_env \<Rightarrow> action_plan \<Rightarrow> request_identity \<Rightarrow> (string, json) dict
    \<Rightarrow> mutation_receipt \<Rightarrow> (action_gateway_state, action_error, mutation_receipt) sm" where
  "after_answer env a identity result receipt =
     (if \<not> result_success result
      then sm_bind (emit_stage env (action_state_value (rc_state receipt)) a identity
             [(''source_version'', JStr (rc_source_version receipt))]) (\<lambda>_.
           sm_raise (Ax_Execution_Failed receipt))
      else sm_bind (remember_receipt a (plan_digest (ax_prims env) a, receipt)) (\<lambda>_.
           sm_bind (emit_stage env (action_state_value (rc_state receipt)) a identity
             [(''source_version'', JStr (rc_source_version receipt))]) (\<lambda>_.
           sm_return receipt)))"

lemma dispatch_action_eq:
  "dispatch_action env a identity decision now =
     sm_bind (registry_lookup env (ap_source_id a)) (\<lambda>_.
     sm_bind (send_mutation env a) (\<lambda>answer.
     case answer of
       Inl Ext_Cancelled \<Rightarrow> sm_raise (Ax_External Ext_Cancelled)
     | Inr (JObj result) \<Rightarrow>
         sm_bind (settle env a decision now result) (after_answer env a identity result)
     | _ \<Rightarrow> connector_failed env a identity decision now))"
  unfolding dispatch_action_def after_answer_def ..

lemma after_answer_effect:
  assumes "after_answer env a i result receipt s = (x, t)"
  shows "gst_dispatches t = gst_dispatches s"
    and "(if result_success result then gst_idempotency t =
        dict_set (action_key a) (plan_digest (ax_prims env) a, receipt) (gst_idempotency s)
      else gst_idempotency t = gst_idempotency s)"
    and "x = Inr r \<Longrightarrow> result_success result \<and> r = receipt"
proof -
  let ?emit = "emit_stage env (action_state_value (rc_state receipt)) a i
      [(''source_version'', JStr (rc_source_version receipt))]"
  let ?s = "if result_success result then s\<lparr>gst_idempotency :=
      dict_set (action_key a) (plan_digest (ax_prims env) a, receipt) (gst_idempotency s)\<rparr> else s"
  have eq: "sm_bind ?emit (\<lambda>_. if result_success result then sm_return receipt
      else sm_raise (Ax_Execution_Failed receipt)) ?s = (x, t)"
    using assms by (simp add: after_answer_def remember_receipt_def sm_bind_def split: if_splits)
  have "quiet (sm_bind ?emit (\<lambda>_. if result_success result then sm_return receipt
      else sm_raise (Ax_Execution_Failed receipt)))"
    by (intro quiet_bind quiet_emit_stage) (auto split: if_split)
  from quietD [OF this eq] have k: "keeps ?s t" .
  then show "gst_dispatches t = gst_dispatches s" by (simp add: keeps_def split: if_splits)
  from keeps_idempotency [OF k] show "(if result_success result then gst_idempotency t =
        dict_set (action_key a) (plan_digest (ax_prims env) a, receipt) (gst_idempotency s)
      else gst_idempotency t = gst_idempotency s)" by simp
  show "result_success result \<and> r = receipt" if "x = Inr r"
    using eq that by (auto simp: sm_bind_Inr_iff split: if_splits)
qed

text \<open>The effect of a dispatch on the sources and on the table of receipts.\<close>

definition binds_receipt ::
  "prims \<Rightarrow> action_plan \<Rightarrow> mutation_receipt \<Rightarrow> action_gateway_state \<Rightarrow> action_gateway_state \<Rightarrow> bool" where
  "binds_receipt p a r s t \<longleftrightarrow>
     gst_idempotency t = dict_set (action_key a) (plan_digest p a, r) (gst_idempotency s)
   \<and> rc_state r = AS_Executed \<and> rc_action_digest r = plan_digest p a"

definition sent_once :: "prims \<Rightarrow> action_plan \<Rightarrow> action_gateway_state \<Rightarrow> action_gateway_state \<Rightarrow> bool" where
  "sent_once p a s t \<longleftrightarrow> gst_dispatches t = gst_dispatches s @ [(ap_source_id a, mutation_request a)]
     \<and> (gst_idempotency t = gst_idempotency s \<or> (\<exists>r. binds_receipt p a r s t))"

lemma dispatch_answered:
  assumes "sm_bind (settle env a d now result) (after_answer env a i result) s = (x, t)"
  shows "gst_dispatches t = gst_dispatches s
    \<and> (gst_idempotency t = gst_idempotency s \<or> (\<exists>r. binds_receipt (ax_prims env) a r s t))
    \<and> (x = Inr r \<longrightarrow> binds_receipt (ax_prims env) a r s t)"
  using assms
proof (cases rule: sm_bind_cases)
  case (1 e)
  then show ?thesis
    using quietD [OF quiet_settle 1(1)] keeps_idempotency [of s t] by (simp add: keeps_def)
next
  case (2 receipt u)
  have k: "gst_dispatches u = gst_dispatches s" "gst_idempotency u = gst_idempotency s"
    using quietD [OF quiet_settle 2(1)] keeps_idempotency [of s u] by (simp_all add: keeps_def)
  show ?thesis
    using after_answer_effect [OF 2(2)] settle_receipt [OF 2(1)] k
    by (auto simp: binds_receipt_def split: if_splits)
qed

lemma connector_failed_raises: "connector_failed env a i d now s \<noteq> (Inr r, t)"
  by (auto simp: connector_failed_def sm_bind_Inr_iff)

lemma dispatch_action_effect:
  fixes s :: action_gateway_state
  assumes "dispatch_action env a i d now s = (x, t)"
  shows "(keeps s t \<and> (\<forall>r. x \<noteq> Inr r)) \<or> (sent_once (ax_prims env) a s t
    \<and> (\<forall>r. x = Inr r \<longrightarrow> binds_receipt (ax_prims env) a r s t))"
  using assms unfolding dispatch_action_eq
proof (cases rule: sm_bind_cases)
  case (1 e)
  then show ?thesis using quietD [OF quiet_registry_lookup 1(1)] by blast
next
  case (2 profile s1)
  from quietD [OF quiet_registry_lookup 2(1)] have s1: "keeps s s1" .
  let ?answer = "ax_mutate env (gst_tick s1) (ap_source_id a) (mutation_request a)"
  define s2 where "s2 = s1\<lparr>gst_tick := Suc (gst_tick s1),
       gst_dispatches := gst_dispatches s1 @ [(ap_source_id a, mutation_request a)]\<rparr>"
  have s2: "gst_dispatches s2 = gst_dispatches s @ [(ap_source_id a, mutation_request a)]"
      "gst_idempotency s2 = gst_idempotency s"
    using s1 keeps_idempotency [OF s1] by (simp_all add: s2_def keeps_def)
  have sent: "sent_once (ax_prims env) a s t" if "keeps s2 t"
    using that s2 keeps_idempotency [OF that] by (simp add: keeps_def sent_once_def)
  have rest: "(case ?answer of Inl Ext_Cancelled \<Rightarrow> sm_raise (Ax_External Ext_Cancelled)
     | Inr (JObj result) \<Rightarrow> sm_bind (settle env a d now result) (after_answer env a i result)
     | _ \<Rightarrow> connector_failed env a i d now) s2 = (x, t)"
    using 2(2) by (simp add: send_mutation_eq s2_def)
  show ?thesis
  proof (cases "\<exists>result. ?answer = Inr (JObj result)")
    case True
    then obtain result where "?answer = Inr (JObj result)" by blast
    with rest have "sm_bind (settle env a d now result) (after_answer env a i result) s2 = (x, t)" by simp
    from dispatch_answered [OF this] s2 show ?thesis by (auto simp: sent_once_def binds_receipt_def)
  next
    case False
    with rest have "sm_raise (Ax_External Ext_Cancelled) s2 = (x, t) \<or> connector_failed env a i d now s2 = (x, t)"
      by (auto split: sum.splits ext_error.splits json.splits)
    then have "keeps s2 t \<and> (\<forall>r. x \<noteq> Inr r)"
      using connector_failed_raises quietD [OF quiet_connector_failed] quietD [OF quiet_simple(2)] by fastforce
    with sent show ?thesis by blast
  qed
qed

lemma lookup_receipt_bind [simp]:
  "sm_bind (lookup_receipt a) f s = f (dict_get (gst_idempotency s) (action_key a)) s"
  by (simp add: sm_bind_def lookup_receipt_def)

lemma replay_receipt_Inr:
  "replay_receipt env a i r now s = (Inr q, t) \<Longrightarrow> rc_receipt_id q = rc_receipt_id r
     \<and> rc_state q = AS_Already_Executed \<and> rc_action_digest q = rc_action_digest r
     \<and> rc_source_version q = rc_source_version r"
  by (auto simp: replay_receipt_def sm_bind_Inr_iff)

text \<open>
  An execution sends nothing and binds nothing, or all checks passed, the key was unbound and the action's
  request was sent exactly once.
\<close>

definition checked_for :: "action_env \<Rightarrow> action_plan \<Rightarrow> action_preview \<Rightarrow> request_identity
    \<Rightarrow> action_approval option \<Rightarrow> bool" where
  \<comment> \<open>the preview and the approval are valid at one reading of the clock\<close>
  "checked_for env a v i ap \<longleftrightarrow> policy_allows env a i ''execute''
     \<and> (\<exists>n. preview_valid (ax_prims env) a v i (utc (ax_clock env n)) \<and> approval_ok env a ap i (utc (ax_clock env n)) False)"

lemma execute_action_cases:
  assumes "execute_action env a v i ap s = (x, t)"
  obtains (quiet) "keeps s t" "\<And>r. x = Inr r \<Longrightarrow> \<exists>q. dict_get (gst_idempotency s) (action_key a)
      = Some (plan_digest (ax_prims env) a, q) \<and> rc_receipt_id r = rc_receipt_id q \<and> rc_state r = AS_Already_Executed"
  | (sent) "checked_for env a v i ap" "dict_get (gst_idempotency s) (action_key a) = None"
      "sent_once (ax_prims env) a s t" "\<And>r. x = Inr r \<Longrightarrow> binds_receipt (ax_prims env) a r s t"
  using assms unfolding execute_action_def
proof (cases rule: sm_bind_cases)
  case (1 e)
  with quiet quietD [OF quiet_check_action 1(1)] show ?thesis by simp
next
  case (2 p u)
  obtain now d where p: "p = (now, d)" by (cases p)
  have c: "checked_for env a v i ap"
    using check_action_Inr [OF 2(1) [unfolded p]] by (auto simp: checked_for_def)
  have k: "keeps s u" by (rule quietD [OF quiet_check_action 2(1)])
  note idem = keeps_idempotency [OF k]
  show ?thesis
  proof (cases "dict_get (gst_idempotency s) (action_key a)")
    case None
    with 2(2) idem have "dispatch_action env a i d now u = (x, t)" by (simp add: p)
    from dispatch_action_effect [OF this] show ?thesis
    proof
      assume "keeps u t \<and> (\<forall>r. x \<noteq> Inr r)"
      with k quiet show ?thesis using transpD [OF transp_keeps] by blast
    next
      assume "sent_once (ax_prims env) a u t \<and> (\<forall>r. x = Inr r \<longrightarrow> binds_receipt (ax_prims env) a r u t)"
      with k idem c None sent show ?thesis by (simp add: sent_once_def binds_receipt_def keeps_def)
    qed
  next
    case (Some e)
    obtain digest q where e: "e = (digest, q)" by (cases e)
    have "keeps u t"
      using 2(2) idem Some by (auto simp: p e dest: quietD [OF quiet_replay_receipt] split: if_splits)
    moreover have "digest = plan_digest (ax_prims env) a \<and> rc_receipt_id r = rc_receipt_id q
        \<and> rc_state r = AS_Already_Executed" if "x = Inr r" for r
      using 2(2) idem Some that by (auto simp: p e dest: replay_receipt_Inr split: if_splits)
    ultimately show ?thesis
      using quiet [OF transpD [OF transp_keeps k]] Some e by blast
  qed
qed

section \<open>Runs of the gateway\<close>

datatype action_op =
    Do_Preview action_plan request_identity timedelta
  | Do_Execute_Action action_plan action_preview request_identity "action_approval option"
  | Do_Compensate action_plan mutation_receipt request_identity "action_approval option"

primrec action_step :: "action_env \<Rightarrow> action_op \<Rightarrow> action_gateway_state \<Rightarrow> action_gateway_state" where
  "action_step env (Do_Preview a i ttl) s = snd (preview_action env a i ttl s)"
| "action_step env (Do_Execute_Action a v i ap) s = snd (execute_action env a v i ap s)"
| "action_step env (Do_Compensate a r i ap) s = snd (compensate_action env a r i ap s)"

definition action_start :: action_gateway_state where
  "action_start = \<lparr>gst_audit = [], gst_tick = 0, gst_dispatches = [], gst_idempotency = []\<rparr>"

lemma dispatch_key_request [simp]: "dispatch_key (ap_source_id a, mutation_request a) = action_key a"
  by (simp add: dispatch_key_def mutation_request_def action_key_def)

text \<open>
  What every operation respects: receipts once bound stay bound, the trace only grows, and nothing is
  sent under a key that already has its receipt.
\<close>

definition sends_to :: "'m gateway_state_scheme \<Rightarrow> string \<times> string \<Rightarrow> dispatch list" where
  "sends_to s k = filter (\<lambda>d. dispatch_key d = k) (gst_dispatches s)"

definition gateway_le :: "action_gateway_state \<Rightarrow> action_gateway_state \<Rightarrow> bool" where
  "gateway_le s t \<longleftrightarrow> (\<exists>ds. gst_dispatches t = gst_dispatches s @ ds)
     \<and> (\<forall>k e. dict_get (gst_idempotency s) k = Some e \<longrightarrow>
          dict_get (gst_idempotency t) k = Some e \<and> sends_to t k = sends_to s k)"

lemma gateway_le_refl [simp]: "gateway_le s s"
  by (simp add: gateway_le_def)

lemma gateway_le_trans: "gateway_le s t \<Longrightarrow> gateway_le t u \<Longrightarrow> gateway_le s u"
  by (fastforce simp: gateway_le_def)

lemma gateway_leD:
  "gateway_le s t \<Longrightarrow> dict_get (gst_idempotency s) k \<noteq> None \<Longrightarrow>
     dict_get (gst_idempotency t) k \<noteq> None \<and> sends_to t k = sends_to s k"
  unfolding gateway_le_def by (metis not_None_eq)

lemma gateway_le_keeps: "keeps s t \<Longrightarrow> gateway_le s t"
  using keeps_idempotency [of s t] by (simp add: gateway_le_def keeps_def sends_to_def)

lemma execute_action_le: "execute_action env a v i ap s = (x, t) \<Longrightarrow> gateway_le s t"
proof (erule execute_action_cases)
  assume "dict_get (gst_idempotency s) (action_key a) = None" "sent_once (ax_prims env) a s t"
  then show "gateway_le s t"
    by (auto simp: gateway_le_def sent_once_def binds_receipt_def sends_to_def)
qed (rule gateway_le_keeps)

lemma sm_rel_gateway_le [simp]: "reflp gateway_le" "transp gateway_le"
  by (auto simp: reflp_def transp_def intro: gateway_le_trans)

lemma quiet_le [intro]: "quiet m \<Longrightarrow> sm_rel gateway_le m"
  by (auto simp: sm_rel_def intro: gateway_le_keeps)

lemmas le_parts =
  quiet_le [OF quiet_simple(1)] quiet_le [OF quiet_simple(2)] quiet_le [OF quiet_current_time]
  quiet_le [OF quiet_validate_approval] quiet_le [OF quiet_preview_action] quiet_le [OF quiet_audit_event]

lemma compensate_action_le: "sm_rel gateway_le (compensate_action env a r i ap)"
proof -
  have ex: "sm_rel gateway_le (execute_action env a' v i' ap')" for a' v i' ap'
    by (rule sm_relI) (metis execute_action_le prod.collapse)
  show ?thesis
    unfolding compensate_unfold
    by (auto split: option.split sum.split intro!: sm_rel_bind le_parts ex)
qed

interpretation action_gateway: growing_system "action_step env" gateway_le for env
proof unfold_locales
  show "gateway_le s s" for s by simp
  show "gateway_le s u" if "gateway_le s t" "gateway_le t u" for s t u
    using that by (rule gateway_le_trans)
  show "gateway_le s (action_step env x s)" for x s
  proof (cases x)
    case (Do_Preview a i ttl)
    then show ?thesis using quiet_le [OF quiet_preview_action] by (simp add: sm_rel_def)
  next
    case (Do_Execute_Action a v i ap)
    then show ?thesis using execute_action_le by (metis action_step.simps(2) prod.collapse)
  next
    case (Do_Compensate a r i ap)
    then show ?thesis using compensate_action_le by (simp add: sm_rel_def)
  qed
qed

lemma executed_key_bound:
  assumes "execute_action env a v i ap s = (Inr r, t)"
  shows "\<exists>q. dict_get (gst_idempotency t) (action_key a) = Some (plan_digest (ax_prims env) a, q)
    \<and> rc_receipt_id q = rc_receipt_id r"
  using assms
proof (cases rule: execute_action_cases)
  case quiet
  from quiet(2) [OF refl] keeps_idempotency [OF quiet(1)] show ?thesis by auto
next
  case sent
  from sent(4) [OF refl] show ?thesis by (simp add: binds_receipt_def)
qed

text \<open>
  C2. A successful execution is final for its idempotency key: after it, whatever previews, executions
  and compensations follow, nothing is ever sent to that source under that key again, and its receipt
  stays bound to the digest of the action.
\<close>

theorem executed_action_never_resent:
  assumes "execute_action env a v i ap s = (Inr r, t)"
  shows "sends_to (run_ops (action_step env) ops t) (action_key a) = sends_to t (action_key a)
    \<and> (\<exists>q. dict_get (gst_idempotency (run_ops (action_step env) ops t)) (action_key a)
          = Some (plan_digest (ax_prims env) a, q) \<and> rc_receipt_id q = rc_receipt_id r)"
proof -
  have "gateway_le t (run_ops (action_step env) ops t)" by (rule action_gateway.run_le)
  with executed_key_bound [OF assms] show ?thesis unfolding gateway_le_def by blast
qed

text \<open>
  Replays are idempotent and conflicts refused: executing an action whose key is bound sends nothing;
  it succeeds only if the binding is to the same action digest, and then returns the original receipt's
  identity marked as already executed.
\<close>

lemma bound_key_is_replayed:
  assumes "execute_action env a v i ap s = (x, t)"
    and "dict_get (gst_idempotency s) (action_key a) = Some (digest, q)"
  shows "gst_dispatches t = gst_dispatches s \<and> gst_idempotency t = gst_idempotency s
    \<and> (\<forall>r. x = Inr r \<longrightarrow> digest = plan_digest (ax_prims env) a
         \<and> rc_receipt_id r = rc_receipt_id q \<and> rc_state r = AS_Already_Executed)"
  using assms
proof (cases rule: execute_action_cases)
  case quiet
  from keeps_idempotency [OF quiet(1)] quiet assms(2) show ?thesis by (fastforce simp: keeps_def)
next
  case sent
  with assms(2) show ?thesis by simp
qed

section \<open>Nothing is sent unchecked\<close>

text \<open>
  Why a dispatch was made: an execution whose preview, approval and policy checks passed, or a
  compensation whose original action was approved for compensation and whose derived action the policy
  allowed.
\<close>

definition executed_under :: "action_env \<Rightarrow> action_op set \<Rightarrow> dispatch \<Rightarrow> bool" where
  "executed_under env X d \<longleftrightarrow> (\<exists>a v i ap. Do_Execute_Action a v i ap \<in> X
     \<and> d = (ap_source_id a, mutation_request a) \<and> checked_for env a v i ap)"

definition compensated_under :: "action_env \<Rightarrow> action_op set \<Rightarrow> dispatch \<Rightarrow> bool" where
  "compensated_under env X d \<longleftrightarrow> (\<exists>a r i ap spec n. Do_Compensate a r i ap \<in> X
     \<and> ap_compensation a = Some spec
     \<and> d = (ap_source_id a, mutation_request (derived_plan a spec))
     \<and> rc_action_digest r = plan_digest (ax_prims env) a
     \<and> rc_state r \<in> {AS_Executed, AS_Recovered, AS_Already_Executed}
     \<and> approval_ok env a ap i (utc (ax_clock env n)) True \<and> policy_allows env (derived_plan a spec) i ''execute'')"

definition adds_only :: "(dispatch \<Rightarrow> bool) \<Rightarrow> action_gateway_state \<Rightarrow> action_gateway_state \<Rightarrow> bool" where
  "adds_only P s t \<longleftrightarrow> (\<exists>ds. gst_dispatches t = gst_dispatches s @ ds \<and> (\<forall>d \<in> set ds. P d))"

lemma adds_only_rel [simp]: "reflp (adds_only P)" "transp (adds_only P)"
proof -
  show "reflp (adds_only P)" by (auto simp: reflp_def adds_only_def)
  show "transp (adds_only P)"
  proof (rule transpI)
    fix s t u
    assume "adds_only P s t" "adds_only P t u"
    then obtain ds es where "gst_dispatches t = gst_dispatches s @ ds" "\<forall>d \<in> set ds. P d"
        "gst_dispatches u = gst_dispatches t @ es" "\<forall>d \<in> set es. P d" unfolding adds_only_def by blast
    then show "adds_only P s u" unfolding adds_only_def by (intro exI [of _ "ds @ es"]) auto
  qed
qed

lemma quiet_adds: "quiet m \<Longrightarrow> sm_rel (adds_only P) m"
  by (auto simp: sm_rel_def adds_only_def keeps_def)

lemmas adds_parts =
  quiet_adds [OF quiet_simple(1)] quiet_adds [OF quiet_simple(2)] quiet_adds [OF quiet_current_time]
  quiet_adds [OF quiet_validate_approval] quiet_adds [OF quiet_preview_action] quiet_adds [OF quiet_audit_event]

lemma execute_action_adds:
  assumes "checked_for env a v i ap \<Longrightarrow> P (ap_source_id a, mutation_request a)"
  shows "sm_rel (adds_only P) (execute_action env a v i ap)"
proof (rule sm_relI)
  fix s
  obtain x t where eq: "execute_action env a v i ap s = (x, t)" by force
  then have "adds_only P s t"
    using assms by (cases rule: execute_action_cases) (auto simp: adds_only_def keeps_def sent_once_def)
  then show "adds_only P s (snd (execute_action env a v i ap s))" by (simp add: eq)
qed

lemma mk_derived_plan: "mk_action_plan (derived_plan a spec) = Inr d \<Longrightarrow> d = derived_plan a spec"
  using mk_action_plan_Inr by blast

lemma compensate_action_adds:
  "sm_rel (adds_only (compensated_under env {Do_Compensate a r i ap})) (compensate_action env a r i ap)"
proof (cases "\<exists>n. approval_ok env a ap i (utc (ax_clock env n)) True")
  case True
  then obtain n where now: "approval_ok env a ap i (utc (ax_clock env n)) True" by blast
  have ex: "sm_rel (adds_only (compensated_under env {Do_Compensate a r i ap})) (execute_action env d v i None)"
    if "ap_compensation a = Some spec" "mk_action_plan (derived_plan a spec) = Inr d"
      "rc_action_digest r = plan_digest (ax_prims env) a"
      "rc_state r \<in> {AS_Executed, AS_Recovered, AS_Already_Executed}" for spec d v
  proof (rule execute_action_adds)
    assume c: "checked_for env d v i None"
    from mk_derived_plan [OF that(2)] have d: "d = derived_plan a spec" .
    show "compensated_under env {Do_Compensate a r i ap} (ap_source_id d, mutation_request d)"
      using c now that unfolding d compensated_under_def checked_for_def
      by (auto simp: derived_plan_def)
  qed
  show ?thesis
    unfolding compensate_unfold
    by (auto split: option.split sum.split intro!: sm_rel_bind adds_parts ex)
next
  case False
  have stop: "validate_approval env a ap i (utc (ax_clock env n)) True s \<noteq> (Inr x, t)" for n s x t
    using False by (simp add: validate_approval_Inr)
  note stops = sm_rel_stops [OF quiet_adds [OF quiet_validate_approval] stop]
  show ?thesis
    unfolding compensate_unfold current_time_bind
    by (auto split: option.split intro!: adds_parts
        sm_rel_bind [OF adds_only_rel(2) quiet_adds [OF quiet_next_tick] stops])
qed

lemma executed_under_mono: "executed_under env X d \<Longrightarrow> X \<subseteq> Y \<Longrightarrow> executed_under env Y d"
  unfolding executed_under_def by blast

lemma compensated_under_mono: "compensated_under env X d \<Longrightarrow> X \<subseteq> Y \<Longrightarrow> compensated_under env Y d"
  unfolding compensated_under_def by blast

lemma action_step_adds:
  "adds_only (\<lambda>d. executed_under env {x} d \<or> compensated_under env {x} d) s (action_step env x s)"
proof (cases x)
  case (Do_Preview a i ttl)
  then show ?thesis using quiet_adds [OF quiet_preview_action] by (simp add: sm_rel_def)
next
  case (Do_Execute_Action a v i ap)
  have "sm_rel (adds_only (\<lambda>d. executed_under env {x} d \<or> compensated_under env {x} d))
      (execute_action env a v i ap)"
    by (rule execute_action_adds) (auto simp: executed_under_def Do_Execute_Action)
  then show ?thesis by (simp add: sm_rel_def Do_Execute_Action)
next
  case (Do_Compensate a r i ap)
  then show ?thesis using compensate_action_adds [of env a r i ap]
    by (fastforce simp: sm_rel_def adds_only_def)
qed

text \<open>
  C3. Nothing reaches a source unchecked: every mutation ever sent, in any run, comes from an execution
  whose preview, not expired at a reading of the gateway's clock, was bound to this action and policy digest, which the policy allowed and, where
  the plan asks for it, the verifier approved; or from a compensation of a successful action that the
  verifier approved for compensation and the policy allowed.
\<close>

theorem every_dispatch_was_checked:
  assumes "d \<in> set (gst_dispatches (run_ops (action_step env) ops action_start))"
  shows "executed_under env (set ops) d \<or> compensated_under env (set ops) d"
proof -
  have "\<forall>d \<in> set (gst_dispatches (run_ops (action_step env) ops s)). d \<in> set (gst_dispatches s)
      \<or> executed_under env (set ops) d \<or> compensated_under env (set ops) d" for s
  proof (induction ops arbitrary: s)
    case (Cons x ops)
    have "{x} \<subseteq> set (x # ops)" "set ops \<subseteq> set (x # ops)" by auto
    then show ?case
      using Cons.IH [of "action_step env x s"] action_step_adds [of env x s]
        executed_under_mono compensated_under_mono unfolding adds_only_def run_ops.simps
      by (metis (no_types, lifting) Un_iff set_append)
  qed simp
  with assms show ?thesis by (fastforce simp: action_start_def)
qed

text \<open>
  A high-risk action reaches its source only with an approval the verifier accepted for this action,
  requester and time.
\<close>

lemma high_risk_needs_approval:
  assumes "mk_action_plan a = Inr a" and "ap_risk a = Risk_High"
    and "execute_action env a v i ap s = (x, t)" and "gst_dispatches t \<noteq> gst_dispatches s"
  shows "\<exists>approval verify n. ap = Some approval \<and> ax_verifier env = Some verify
    \<and> verify approval a i (utc (ax_clock env n)) False = Inr True \<and> preview_valid (ax_prims env) a v i (utc (ax_clock env n))"
  using assms(3)
proof (cases rule: execute_action_cases)
  case quiet
  with assms(4) show ?thesis by (simp add: keeps_def)
next
  case sent
  have "ap_approval_mode a = Approval_Human" using mk_action_plan_Inr [OF assms(1)] assms(2) by simp
  with sent(1) show ?thesis by (auto simp: checked_for_def approval_ok_def)
qed

section \<open>A run\<close>

definition allow_decision :: policy_decision where
  "allow_decision = \<lparr>pd_allowed = True, pd_decision_id = ''d1'', pd_reason_code = ''ok''\<rparr>"

definition sample_answer_json :: json where
  "sample_answer_json = JObj [(''success'', JBool True), (''postconditions_met'', JBool True),
     (''source_version'', JStr ''v2'')]"

definition sample_action_env :: action_env where
  "sample_action_env = \<lparr>ax_prims = sample_prims, ax_registry = sample_registry,
     ax_policy = (\<lambda>n r. Inr allow_decision), ax_sink = (\<lambda>n e. None), ax_clock = int,
     ax_mutate = (\<lambda>n src req. Inr sample_answer_json),
     ax_verifier = Some (verify_approval sample_prims sample_authority)\<rparr>"

definition sample_preview :: "string \<Rightarrow> action_preview" where
  "sample_preview key = preview_of sample_prims (sample_action key) sample_identity allow_decision (utc 0) five_minutes"

abbreviation sample_execution_of :: "string \<Rightarrow> action_gateway_state \<Rightarrow>
    (action_error + mutation_receipt) \<times> action_gateway_state" where
  "sample_execution_of key \<equiv> execute_action sample_action_env (sample_action key) (sample_preview key)
     sample_identity (Some (sample_approval_of sample_prims))"

lemma sample_digests [simp]:
  "digest_of sample_prims v = ''sha256:d''" "plan_digest sample_prims a = ''sha256:d''"
  by (simp_all add: plan_digest_def digest_of_def sample_prims_def)

lemma action_attribute_names:
  "\<not> list_ex credential_like [''source_id'', ''action_id'', ''stage'', ''allowed'', ''decision_id'', ''source_version'']"
  by code_simp

lemma emit_event_succeeds:
  assumes "str_startswith name ''data.harness.''"
    and "set (dict_keys attrs) \<subseteq> {''source_id'', ''action_id'', ''stage'', ''allowed'', ''decision_id'', ''source_version''}"
    and "ax_sink env = (\<lambda>n e. None)"
  shows "emit_event env name i attrs action_id s = (Inr (), s\<lparr>gst_tick := Suc (Suc (gst_tick s))\<rparr>)"
proof -
  have "mk_telemetry_event \<lparr>te_name = name, te_identity = i, te_occurred_at = utc t, te_attributes = attrs\<rparr>
      = Inr \<lparr>te_name = name, te_identity = i, te_occurred_at = utc t, te_attributes = attrs\<rparr>" for t
    using assms(1,2) action_attribute_names unfolding mk_telemetry_event_Inr by auto
  with assms(3) show ?thesis
    by (simp add: emit_event_def current_time_def next_tick_def sm_bind_def)
qed

lemma sample_env [simp]:
  "ax_prims sample_action_env = sample_prims" "ax_registry sample_action_env = sample_registry"
  "ax_policy sample_action_env = (\<lambda>n r. Inr allow_decision)" "ax_sink sample_action_env = (\<lambda>n e. None)"
  "ax_clock sample_action_env = int" "ax_mutate sample_action_env = (\<lambda>n src req. Inr sample_answer_json)"
  "ax_verifier sample_action_env = Some (verify_approval sample_prims sample_authority)"
  by (simp_all add: sample_action_env_def)

lemma sample_emits:
  assumes "str_startswith name ''data.harness.''"
    and "set (dict_keys attrs) \<subseteq> {''source_id'', ''action_id'', ''stage'', ''allowed'', ''decision_id'', ''source_version''}"
  shows "emit_event sample_action_env name i attrs action_id s = (Inr (), s\<lparr>gst_tick := Suc (Suc (gst_tick s))\<rparr>)"
  using assms by (rule emit_event_succeeds) simp

lemma sample_emits_authorization:
  "emit_event sample_action_env ''data.harness.action.authorization'' i
      [(''source_id'', x1), (''action_id'', x2), (''stage'', x3), (''allowed'', x4), (''decision_id'', x5)] a s
      = (Inr (), s\<lparr>gst_tick := Suc (Suc (gst_tick s))\<rparr>)"
  by (rule sample_emits) (simp_all add: str_startswith_def)

lemma sample_emits_stage:
  "k \<in> {''allowed'', ''source_version''} \<Longrightarrow> emit_stage sample_action_env stage a i [(k, x)] s
     = (Inr (), s\<lparr>gst_tick := Suc (Suc (gst_tick s))\<rparr>)"
  unfolding emit_stage_def by (rule sample_emits) (auto simp: str_startswith_def)

lemma allow_decision_allows [simp]: "pd_allowed allow_decision"
  by (simp add: allow_decision_def)

lemma sample_checks:
  fixes s :: "'m gateway_state_scheme"
  assumes "preview_valid sample_prims a v sample_identity (utc (int (gst_tick s)))"
    and "approval_ok sample_action_env a ap sample_identity (utc (int (gst_tick s))) False"
  shows "check_action sample_action_env a v sample_identity ap s
    = (Inr (utc (int (gst_tick s)), allow_decision), s\<lparr>gst_tick := gst_tick s + 4\<rparr>)"
proof -
  have "validate_approval sample_action_env a ap sample_identity (utc (int (gst_tick s))) False t = (Inr (), t)"
    for t :: "'m gateway_state_scheme"
    using assms(2) validate_approval_Inr [of sample_action_env a ap _ _ _ t "()" t] by simp
  then show ?thesis
    by (simp add: check_action_def current_time_def next_tick_def validate_preview_def authorize_action_def
        sample_emits_authorization assms(1) sm_bind_def)
qed

lemma sample_lookup:
  "registry_lookup sample_action_env ''lab.mutable'' s = (Inr sample_profile, s)"
  by (simp add: registry_lookup_def get_connector_def sample_registry_def sample_profile_def)

text \<open>A preview in the sample environment: five minutes from the reading of the clock.\<close>

lemma sample_previews:
  fixes s :: "'m gateway_state_scheme"
  assumes "ap_source_id a = ''lab.mutable''"
  shows "\<exists>audit. preview_action sample_action_env a i five_minutes s =
    (Inr (preview_of sample_prims a i allow_decision (utc (int (gst_tick s) + 3)) five_minutes),
     s\<lparr>gst_tick := gst_tick s + 6, gst_audit := audit\<rparr>)"
proof -
  have ok: "cp_supports_idempotency_key (pf_consistency sample_profile)"
    by (simp add: sample_profile_def default_consistency_def)
  have mk: "mk_action_preview (preview_of sample_prims a i allow_decision (utc t) five_minutes)
      = Inr (preview_of sample_prims a i allow_decision (utc t) five_minutes)" for t
    by (simp add: mk_action_preview_def preview_of_def five_minutes_def)
  obtain e audit where audit: "audit_append sample_prims ''previewed'' (ap_action_id a) (utc (int (gst_tick s) + 3))
      [(''allowed'', JBool True), (''decision_id'', JStr (pd_decision_id allow_decision))] (gst_audit s) = Inr (e, audit)"
    using audit_append_aware [OF aware_utc] by blast
  show ?thesis
    using audit
    by (intro exI [of _ audit])
      (simp add: preview_action_def assms sample_lookup ok authorize_action_def sample_emits_authorization
        current_time_def next_tick_def mk audit_event_def sample_emits_stage sm_bind_def add.commute)
qed

lemma sample_preview_valid:
  "now < t + five_minutes \<Longrightarrow> preview_valid sample_prims a (preview_of sample_prims a i allow_decision (utc t) five_minutes) i (utc now)"
  by (simp add: preview_valid_def preview_of_def)

lemma sample_result:
  "sample_answer_json = JObj [(''success'', JBool True), (''postconditions_met'', JBool True), (''source_version'', JStr ''v2'')]"
  "result_success [(''success'', JBool True), (''postconditions_met'', JBool True), (''source_version'', JStr ''v2'')]"
  by (simp_all add: sample_answer_json_def result_success_def result_get_def)

lemma sample_settles:
  "\<exists>r t. settle sample_action_env a d now
      [(''success'', JBool True), (''postconditions_met'', JBool True), (''source_version'', JStr ''v2'')] s = (Inr r, t)
     \<and> gst_tick t = Suc (gst_tick s)"
  by (simp add: settle_def current_time_def next_tick_def sm_bind_def Let_def audit_size_def audit_event_def
      audit_append_def split: sum.splits)

lemma sample_dispatches:
  assumes src: "ap_source_id a = ''lab.mutable''"
  shows "\<exists>r t. dispatch_action sample_action_env a i allow_decision now s = (Inr r, t) \<and> gst_tick t = gst_tick s + 4
     \<and> gst_dispatches t = gst_dispatches s @ [(''lab.mutable'', mutation_request a)]
     \<and> gst_idempotency t = dict_set (action_key a) (''sha256:d'', r) (gst_idempotency s)
     \<and> rc_state r = AS_Executed \<and> rc_action_digest r = ''sha256:d''"
proof -
  let ?s = "s\<lparr>gst_tick := Suc (gst_tick s), gst_dispatches := gst_dispatches s @ [(''lab.mutable'', mutation_request a)]\<rparr>"
  obtain receipt u where u: "settle sample_action_env a allow_decision now
      [(''success'', JBool True), (''postconditions_met'', JBool True), (''source_version'', JStr ''v2'')] ?s
      = (Inr receipt, u)" and tick: "gst_tick u = Suc (Suc (gst_tick s))"
    using sample_settles [of a allow_decision now ?s] by auto
  have k: "gst_dispatches u = gst_dispatches s @ [(''lab.mutable'', mutation_request a)]"
    "gst_idempotency u = gst_idempotency s"
    using quietD [OF quiet_settle u] keeps_idempotency [of ?s u] by (simp_all add: keeps_def)
  show ?thesis
    using settle_receipt [OF u] sample_result(2)
    by (simp add: dispatch_action_eq src sample_lookup sm_bind_def send_mutation_eq sample_result(1) u after_answer_def
        remember_receipt_def sample_emits_stage k tick)
qed

text \<open>An execution in the sample environment whose checks pass and whose key is unbound.\<close>

lemma sample_runs:
  assumes "ap_source_id a = ''lab.mutable''" and "dict_get (gst_idempotency s) (action_key a) = None"
    and "preview_valid sample_prims a v sample_identity (utc (int (gst_tick s)))"
    and "approval_ok sample_action_env a ap sample_identity (utc (int (gst_tick s))) False"
  shows "\<exists>r t. execute_action sample_action_env a v sample_identity ap s = (Inr r, t) \<and> gst_tick t = gst_tick s + 8
     \<and> gst_dispatches t = gst_dispatches s @ [(''lab.mutable'', mutation_request a)]
     \<and> gst_idempotency t = dict_set (action_key a) (''sha256:d'', r) (gst_idempotency s)
     \<and> rc_state r = AS_Executed \<and> rc_action_digest r = ''sha256:d''"
  using sample_dispatches [OF assms(1), of sample_identity "utc (int (gst_tick s))" "s\<lparr>gst_tick := gst_tick s + 4\<rparr>"] assms(2)
  by (simp add: execute_action_def sm_bind_def sample_checks [OF assms(3,4)] lookup_receipt_def add.commute)

lemma sample_approved:
  "0 \<le> t \<Longrightarrow> t < 1000 \<Longrightarrow> approval_ok sample_action_env (sample_action key) (Some (sample_approval_of sample_prims))
     sample_identity (utc t) c"
  by (simp add: approval_ok_def sample_verifies)

lemma sample_executes:
  "case sample_execution_of ''k1'' action_start of
     (Inr r, t) \<Rightarrow> gst_dispatches t = [(''lab.mutable'', mutation_request (sample_action ''k1''))]
   | _ \<Rightarrow> False"
proof -
  have "preview_valid sample_prims (sample_action ''k1'') (sample_preview ''k1'') sample_identity (utc (int (gst_tick action_start)))"
    unfolding sample_preview_def by (rule sample_preview_valid) (simp add: five_minutes_def action_start_def)
  from sample_runs [OF _ _ this sample_approved] show ?thesis
    by (auto simp: action_start_def sample_action_def)
qed

lemma sample_executed:
  obtains r t where "sample_execution_of ''k1'' action_start = (Inr r, t)"
    "gst_dispatches t = [(''lab.mutable'', mutation_request (sample_action ''k1''))]"
  using sample_executes by (auto split: prod.splits sum.splits)

theorem executed_action_never_resent_witness:
  "length (sends_to (run_ops (action_step sample_action_env)
      [Do_Execute_Action (sample_action ''k1'') (sample_preview ''k1'') sample_identity (Some (sample_approval_of sample_prims))]
      (snd (sample_execution_of ''k1'' action_start))) (''lab.mutable'', ''k1'')) = 1"
proof -
  obtain r t where rt: "sample_execution_of ''k1'' action_start = (Inr r, t)"
    "gst_dispatches t = [(''lab.mutable'', mutation_request (sample_action ''k1''))]"
    by (rule sample_executed)
  have key: "action_key (sample_action ''k1'') = (''lab.mutable'', ''k1'')" "ap_source_id (sample_action ''k1'') = ''lab.mutable''"
    by (simp_all add: action_key_def sample_action_def)
  then have "length (sends_to t (''lab.mutable'', ''k1'')) = 1"
    using dispatch_key_request [of "sample_action ''k1''"] by (simp add: sends_to_def rt(2))
  with executed_action_never_resent [OF rt(1), where ops = "[Do_Execute_Action (sample_action ''k1'')
      (sample_preview ''k1'') sample_identity (Some (sample_approval_of sample_prims))]"]
  show ?thesis unfolding rt(1) snd_conv key(1) by simp
qed

lemma bound_key_is_replayed_example:
  "\<exists>t x u. sample_execution_of ''k1'' t = (x, u) \<and> gst_dispatches t \<noteq> [] \<and> gst_dispatches u = gst_dispatches t"
proof -
  obtain r t where rt: "sample_execution_of ''k1'' action_start = (Inr r, t)"
    "gst_dispatches t = [(''lab.mutable'', mutation_request (sample_action ''k1''))]"
    by (rule sample_executed)
  obtain x u where u: "sample_execution_of ''k1'' t = (x, u)" by force
  have "\<exists>e. dict_get (gst_idempotency t) (action_key (sample_action ''k1'')) = Some e"
    using rt(1) by (cases rule: execute_action_cases) (auto simp: keeps_idempotency action_start_def binds_receipt_def)
  then obtain digest q where "dict_get (gst_idempotency t) (action_key (sample_action ''k1'')) = Some (digest, q)" by force
  from bound_key_is_replayed [OF u this] have "gst_dispatches u = gst_dispatches t" by blast
  with u rt(2) show ?thesis by (intro exI [of _ t] exI [of _ x] exI [of _ u]) simp
qed

theorem every_dispatch_was_checked_witness:
  "\<exists>d. executed_under sample_action_env
     {Do_Execute_Action (sample_action ''k1'') (sample_preview ''k1'') sample_identity (Some (sample_approval_of sample_prims))} d"
proof -
  obtain r t where rt: "sample_execution_of ''k1'' action_start = (Inr r, t)"
    "gst_dispatches t = [(''lab.mutable'', mutation_request (sample_action ''k1''))]"
    by (rule sample_executed)
  let ?ops = "[Do_Execute_Action (sample_action ''k1'') (sample_preview ''k1'') sample_identity (Some (sample_approval_of sample_prims))]"
  have "(''lab.mutable'', mutation_request (sample_action ''k1''))
      \<in> set (gst_dispatches (run_ops (action_step sample_action_env) ?ops action_start))"
    by (simp add: rt)
  from every_dispatch_was_checked [OF this] show ?thesis
    by (auto simp: compensated_under_def)
qed

end
