(* ===== verification/Action_Saga.thy ===== *)
theory Action_Saga
  imports Action_Gateway
begin

text \<open>
  ActionSagaCoordinator of actions.py. The coordinator is handed a gateway and uses three of its
  operations, so the saga is a function of a record of those operations and works for the in-memory and
  for the durable gateway alike. Which exceptions of foreign code (a policy evaluator) are instances of a
  controlled class is a parameter, a predicate on the name of the exception's class.
\<close>

record action_saga_step =
  ss_action :: action_plan
  ss_approval :: "action_approval option"

datatype saga_state = Saga_Completed | Saga_Compensated | Saga_Compensation_Failed | Saga_Failed

record saga_outcome =
  so_state :: saga_state
  so_receipts :: "mutation_receipt list"
  so_compensations :: "mutation_receipt list"
  so_failed_action_id :: "string option"

record 's saga_gateway =
  sg_preview :: "action_plan \<Rightarrow> request_identity \<Rightarrow> ('s, action_error, action_preview) sm"
  sg_execute :: "action_plan \<Rightarrow> action_preview \<Rightarrow> request_identity \<Rightarrow> action_approval option
    \<Rightarrow> ('s, action_error, mutation_receipt) sm"
  sg_compensate :: "action_plan \<Rightarrow> mutation_receipt \<Rightarrow> request_identity \<Rightarrow> action_approval option
    \<Rightarrow> ('s, action_error, mutation_receipt) sm"

primrec controlled_py :: "py_error \<Rightarrow> bool" where
  "controlled_py (ValueError m) = True"
| "controlled_py (KeyError m) = False"
| "controlled_py (TypeError m) = False"
| "controlled_py (PermissionError m) = False"
| "controlled_py AssertionError = False"

fun controlled_failure :: "(string \<Rightarrow> bool) \<Rightarrow> action_error \<Rightarrow> bool" where
  \<comment> \<open>\<open>except self._controlled_failures\<close>\<close>
  "controlled_failure foreign (Ax_Execution_Failed r) = True"
| "controlled_failure foreign (Ax_Approval_Required m) = True"
| "controlled_failure foreign (Ax_Idempotency_Conflict m) = True"
| "controlled_failure foreign (Ax_Denied d) = True"
| "controlled_failure foreign Ax_Preview_Mismatch = True"
| "controlled_failure foreign (Ax_Py e) = controlled_py e"
| "controlled_failure foreign (Ax_Registry (Reg_Py e)) = controlled_py e"
| "controlled_failure foreign (Ax_Registry (Unsupported_Capability s c)) = False"
| "controlled_failure foreign (Ax_Outcome_Unknown m) = False"
| "controlled_failure foreign (Ax_External (Ext_Exception n)) = foreign n"
| "controlled_failure foreign (Ax_External Ext_Timeout) = False"
| "controlled_failure foreign (Ax_External Ext_Cancelled) = False"

definition saga_forward :: "'s saga_gateway \<Rightarrow> request_identity \<Rightarrow> action_saga_step
    \<Rightarrow> ('s, action_error, mutation_receipt) sm" where
  "saga_forward g i st =
     sm_bind (sg_preview g (ss_action st) i) (\<lambda>v. sg_execute g (ss_action st) v i (ss_approval st))"

definition saga_backward :: "'s saga_gateway \<Rightarrow> request_identity
    \<Rightarrow> action_saga_step \<times> mutation_receipt \<Rightarrow> ('s, action_error, mutation_receipt) sm" where
  "saga_backward g i sr = sg_compensate g (ss_action (fst sr)) (snd sr) i (ss_approval (fst sr))"

primrec saga_compensate :: "(string \<Rightarrow> bool) \<Rightarrow> 's saga_gateway \<Rightarrow> request_identity
    \<Rightarrow> (action_saga_step \<times> mutation_receipt) list \<Rightarrow> mutation_receipt list
    \<Rightarrow> ('s, action_error, bool \<times> mutation_receipt list) sm" where
  \<comment> \<open>the inner loop, over the completed steps in reverse: whether it ran to its end, and the receipts\<close>
  "saga_compensate foreign g i [] acc s = (Inr (True, acc), s)"
| "saga_compensate foreign g i (sr # srs) acc s =
     (case saga_backward g i sr s of
        (Inr r, s') \<Rightarrow> saga_compensate foreign g i srs (acc @ [r]) s'
      | (Inl e, s') \<Rightarrow> if controlled_failure foreign e then (Inr (False, acc), s') else (Inl e, s'))"

primrec saga_loop :: "(string \<Rightarrow> bool) \<Rightarrow> 's saga_gateway \<Rightarrow> request_identity
    \<Rightarrow> action_saga_step list \<Rightarrow> (action_saga_step \<times> mutation_receipt) list
    \<Rightarrow> ('s, action_error, saga_outcome) sm" where
  "saga_loop foreign g i [] completed s =
     (Inr \<lparr>so_state = Saga_Completed, so_receipts = map snd completed, so_compensations = [],
           so_failed_action_id = None\<rparr>, s)"
| "saga_loop foreign g i (st # sts) completed s =
     (case saga_forward g i st s of
        (Inr r, s') \<Rightarrow> saga_loop foreign g i sts (completed @ [(st, r)]) s'
      | (Inl e, s') \<Rightarrow>
          if \<not> controlled_failure foreign e then (Inl e, s')
          else (case saga_compensate foreign g i (rev completed) [] s' of
                  (Inl e', t) \<Rightarrow> (Inl e', t)
                | (Inr (finished, compensations), t) \<Rightarrow>
                    (Inr \<lparr>so_state = (if \<not> finished then Saga_Compensation_Failed
                                     else if completed \<noteq> [] then Saga_Compensated else Saga_Failed),
                          so_receipts = map snd completed, so_compensations = compensations,
                          so_failed_action_id = Some (ap_action_id (ss_action st))\<rparr>, t)))"

definition run_saga :: "(string \<Rightarrow> bool) \<Rightarrow> 's saga_gateway \<Rightarrow> action_saga_step list \<Rightarrow> request_identity
    \<Rightarrow> ('s, action_error, saga_outcome) sm" where
  "run_saga foreign g steps i =
     (if steps = [] then sm_raise (Ax_Py (ValueError ''an action saga requires at least one step''))
      else saga_loop foreign g i steps [])"

section \<open>The saga's contract\<close>

text \<open>
  A sequence of operations that all succeed, with their results, from one state to another; and what a
  saga promises in terms of it: the steps run forward in order up to the first that fails, then exactly
  the completed ones are compensated, last first, up to the first compensation that fails.
\<close>

inductive all_succeed :: "('a \<Rightarrow> ('s, 'e, 'b) sm) \<Rightarrow> 'a list \<Rightarrow> 'b list \<Rightarrow> 's \<Rightarrow> 's \<Rightarrow> bool" for f where
  Nil: "all_succeed f [] [] s s"
| Cons: "f x s = (Inr y, t) \<Longrightarrow> all_succeed f xs ys t u \<Longrightarrow> all_succeed f (x # xs) (y # ys) s u"

inductive_simps all_succeed_simps [simp]: "all_succeed f [] ys s t" "all_succeed f (x # xs) ys s t"

lemma all_succeed_length: "all_succeed f xs ys s t \<Longrightarrow> length ys = length xs"
  by (induction rule: all_succeed.induct) simp_all

inductive stops_at :: "('e \<Rightarrow> bool) \<Rightarrow> ('a \<Rightarrow> ('s, 'e, 'b) sm) \<Rightarrow> 'a list \<Rightarrow> 'b list \<Rightarrow> 's \<Rightarrow> 's \<Rightarrow> bool" for P f where
  Here: "f x s = (Inl e, t) \<Longrightarrow> P e \<Longrightarrow> stops_at P f (x # xs) [] s t"
| Later: "f x s = (Inr y, t) \<Longrightarrow> stops_at P f xs ys t u \<Longrightarrow> stops_at P f (x # xs) (y # ys) s u"

inductive_simps stops_at_simps [simp]: "stops_at P f [] ys s t" "stops_at P f (x # xs) ys s t"

lemma stops_at_iff:
  "stops_at P f xs ys s t \<longleftrightarrow> length ys < length xs
     \<and> (\<exists>u e. all_succeed f (take (length ys) xs) ys s u \<and> f (xs ! length ys) u = (Inl e, t) \<and> P e)"
proof (induction xs arbitrary: ys s)
  case (Cons x xs)
  show ?case by (cases ys) (auto simp: Cons.IH)
qed simp

definition compensates :: "(string \<Rightarrow> bool) \<Rightarrow> 's saga_gateway \<Rightarrow> request_identity
    \<Rightarrow> (action_saga_step \<times> mutation_receipt) list \<Rightarrow> bool \<Rightarrow> mutation_receipt list \<Rightarrow> 's \<Rightarrow> 's \<Rightarrow> bool" where
  "compensates foreign g i srs finished receipts s t \<longleftrightarrow>
     (if finished then all_succeed (saga_backward g i) srs receipts s t
      else stops_at (controlled_failure foreign) (saga_backward g i) srs receipts s t)"

definition saga_contract :: "(string \<Rightarrow> bool) \<Rightarrow> 's saga_gateway \<Rightarrow> request_identity
    \<Rightarrow> action_saga_step list \<Rightarrow> saga_outcome \<Rightarrow> 's \<Rightarrow> 's \<Rightarrow> bool" where
  "saga_contract foreign g i steps out s t \<longleftrightarrow>
     (so_state out = Saga_Completed \<and> so_compensations out = [] \<and> so_failed_action_id out = None
        \<and> all_succeed (saga_forward g i) steps (so_receipts out) s t)
   \<or> (\<exists>w finished.
        stops_at (controlled_failure foreign) (saga_forward g i) steps (so_receipts out) s w
        \<and> compensates foreign g i (rev (zip steps (so_receipts out))) finished (so_compensations out) w t
        \<and> so_failed_action_id out = Some (ap_action_id (ss_action (steps ! length (so_receipts out))))
        \<and> so_state out = (if \<not> finished then Saga_Compensation_Failed
                          else if so_receipts out \<noteq> [] then Saga_Compensated else Saga_Failed))"

lemma saga_compensate_Inr:
  "saga_compensate foreign g i srs acc s = (Inr (finished, rs), t) \<longleftrightarrow>
     (\<exists>new. rs = acc @ new \<and> compensates foreign g i srs finished new s t)"
proof (induction srs arbitrary: acc s)
  case Nil
  show ?case by (cases finished) (auto simp: compensates_def)
next
  case (Cons sr srs)
  show ?case
  proof (cases "saga_backward g i sr s")
    case (Pair x s')
    show ?thesis
    proof (cases x)
      case (Inr r)
      with Cons.IH [of "acc @ [r]" s'] Pair show ?thesis by (cases finished) (auto simp: compensates_def)
    next
      case (Inl e)
      with Pair show ?thesis by (cases finished) (auto simp: compensates_def)
    qed
  qed
qed

text \<open>The loop after some steps have completed.\<close>

definition loop_contract :: "(string \<Rightarrow> bool) \<Rightarrow> 's saga_gateway \<Rightarrow> request_identity
    \<Rightarrow> (action_saga_step \<times> mutation_receipt) list \<Rightarrow> action_saga_step list \<Rightarrow> saga_outcome \<Rightarrow> 's \<Rightarrow> 's \<Rightarrow> bool" where
  "loop_contract foreign g i srs steps out s t \<longleftrightarrow> (\<exists>rs. so_receipts out = map snd srs @ rs \<and>
     ((so_state out = Saga_Completed \<and> so_compensations out = [] \<and> so_failed_action_id out = None
        \<and> all_succeed (saga_forward g i) steps rs s t)
    \<or> (\<exists>w finished. stops_at (controlled_failure foreign) (saga_forward g i) steps rs s w
        \<and> compensates foreign g i (rev (srs @ zip steps rs)) finished (so_compensations out) w t
        \<and> so_failed_action_id out = Some (ap_action_id (ss_action (steps ! length rs)))
        \<and> so_state out = (if \<not> finished then Saga_Compensation_Failed
                          else if srs @ zip steps rs \<noteq> [] then Saga_Compensated else Saga_Failed))))"

lemma loop_contract_Inr:
  assumes "saga_forward g i st s = (Inr r, s')"
  shows "loop_contract foreign g i srs (st # steps) out s t
    \<longleftrightarrow> loop_contract foreign g i (srs @ [(st, r)]) steps out s' t"
  using assms unfolding loop_contract_def by (auto 4 4)

lemma saga_loop_iff:
  "saga_loop foreign g i steps srs s = (Inr out, t) \<longleftrightarrow> loop_contract foreign g i srs steps out s t"
proof (induction steps arbitrary: srs s)
  case Nil
  show ?case by (cases out) (auto simp: loop_contract_def)
next
  case (Cons st steps)
  obtain x s' where fw: "saga_forward g i st s = (x, s')" by force
  show ?case
  proof (cases x)
    case (Inr r)
    with fw Cons.IH [of "srs @ [(st, r)]" s'] loop_contract_Inr [of g i st s r s'] show ?thesis by simp
  next
    case (Inl e)
    have "loop_contract foreign g i srs (st # steps) out s t \<longleftrightarrow> controlled_failure foreign e
        \<and> (\<exists>finished. compensates foreign g i (rev srs) finished (so_compensations out) s' t
        \<and> so_receipts out = map snd srs
        \<and> so_failed_action_id out = Some (ap_action_id (ss_action st))
        \<and> so_state out = (if \<not> finished then Saga_Compensation_Failed
                          else if srs \<noteq> [] then Saga_Compensated else Saga_Failed))"
      using fw Inl unfolding loop_contract_def by auto
    moreover have "saga_loop foreign g i (st # steps) srs s = (Inr out, t) \<longleftrightarrow> controlled_failure foreign e
        \<and> (\<exists>finished comps. saga_compensate foreign g i (rev srs) [] s' = (Inr (finished, comps), t)
        \<and> out = \<lparr>so_state = (if \<not> finished then Saga_Compensation_Failed
                          else if srs \<noteq> [] then Saga_Compensated else Saga_Failed),
                so_receipts = map snd srs, so_compensations = comps,
                so_failed_action_id = Some (ap_action_id (ss_action st))\<rparr>)"
      using fw Inl by (auto split: prod.splits sum.splits)
    moreover have "so_compensations out = comps \<Longrightarrow> out = \<lparr>so_state = x, so_receipts = y, so_compensations = comps,
        so_failed_action_id = z\<rparr> \<longleftrightarrow> so_receipts out = y \<and> so_failed_action_id out = z \<and> so_state out = x"
      for comps x y z by (cases out) auto
    ultimately show ?thesis
      by (fastforce simp: saga_compensate_Inr)
  qed
qed

lemma run_saga_contract:
  "run_saga foreign g steps i s = (Inr out, t) \<longleftrightarrow> steps \<noteq> [] \<and> saga_contract foreign g i steps out s t"
  by (auto simp: run_saga_def saga_loop_iff loop_contract_def saga_contract_def)

text \<open>
  C5. The coordinator implements the saga contract, exactly: a run returns an outcome and leaves a state
  if and only if the contract relates them, for any gateway.
\<close>

theorem run_saga_implements_contract:
  "run_saga foreign g steps i s = (Inr out, t) \<longleftrightarrow> steps \<noteq> [] \<and> saga_contract foreign g i steps out s t"
  by (rule run_saga_contract)

section \<open>What a saga sends\<close>

text \<open>
  What the receipt of an execution says was sent: the request of the action, or nothing if the key had been
  executed before. A compensation sends at most the request of the derived action.
\<close>

definition action_dispatch :: "action_plan \<Rightarrow> dispatch" where
  "action_dispatch a = (ap_source_id a, mutation_request a)"

definition step_sends :: "action_saga_step \<Rightarrow> mutation_receipt \<Rightarrow> dispatch list" where
  "step_sends st r = (if rc_state r = AS_Already_Executed then [] else [action_dispatch (ss_action st)])"

definition undo_sends :: "action_saga_step \<Rightarrow> dispatch list" where
  "undo_sends st = (case ap_compensation (ss_action st) of None \<Rightarrow> []
     | Some spec \<Rightarrow> [action_dispatch (derived_plan (ss_action st) spec)])"

definition sends_among :: "dispatch list \<Rightarrow> 'm gateway_state_scheme \<Rightarrow> 'm gateway_state_scheme \<Rightarrow> bool" where
  \<comment> \<open>some of these were sent, in this order, and nothing else\<close>
  "sends_among ds s t \<longleftrightarrow> (\<exists>sent. gst_dispatches t = gst_dispatches s @ sent \<and> sent \<in> set (subseqs ds))"

lemma subseqs_Nil [simp]: "[] \<in> set (subseqs xs)"
  by (induction xs) (simp_all add: Let_def)

lemma zip_take_all: "zip (take (length ys) xs) ys = zip xs ys"
proof (induction xs arbitrary: ys)
  case (Cons x xs)
  then show ?case by (cases ys) simp_all
qed simp

lemma subseqs_append: "us \<in> set (subseqs xs) \<Longrightarrow> vs \<in> set (subseqs ys) \<Longrightarrow> us @ vs \<in> set (subseqs (xs @ ys))"
  by (induction xs arbitrary: us) (auto simp: Let_def)

lemma sends_among_keeps: "keeps s t \<Longrightarrow> sends_among ds s t"
  by (auto simp: sends_among_def keeps_def)

lemma sends_among_append: "sends_among xs s t \<Longrightarrow> sends_among ys t u \<Longrightarrow> sends_among (xs @ ys) s u"
  by (auto simp: sends_among_def intro: subseqs_append)

lemma sends_among_trans: "keeps s t \<Longrightarrow> sends_among ds t u \<Longrightarrow> sends_among ds s u"
    "sends_among ds s t \<Longrightarrow> keeps t u \<Longrightarrow> sends_among ds s u"
  by (auto simp: sends_among_def keeps_def)

lemma sends_bind_quiet:
  assumes "quiet m" and "\<And>x. sm_rel (sends_among ds) (f x)"
  shows "sm_rel (sends_among ds) (sm_bind m f)"
proof (rule sm_relI)
  fix s
  obtain r t where rt: "sm_bind m f s = (r, t)" by force
  then have "sends_among ds s t"
    by (cases rule: sm_bind_cases)
      (auto intro: sends_among_trans(1) sends_among_keeps sm_relD [OF assms(1)] sm_relD [OF assms(2)])
  with rt show "sends_among ds s (snd (sm_bind m f s))" by simp
qed

lemma sends_quiet_after:
  assumes "sm_rel (sends_among ds) m" and "\<And>x. quiet (f x)"
  shows "sm_rel (sends_among ds) (sm_bind m f)"
proof (rule sm_relI)
  fix s
  obtain r t where rt: "sm_bind m f s = (r, t)" by force
  then have "sends_among ds s t"
    by (cases rule: sm_bind_cases) (auto intro: sends_among_trans(2) sm_relD [OF assms(1)] sm_relD [OF assms(2)])
  with rt show "sends_among ds s (snd (sm_bind m f s))" by simp
qed

lemma sends_quiet: "quiet m \<Longrightarrow> sm_rel (sends_among ds) m"
  by (auto simp: sm_rel_def intro: sends_among_keeps)

text \<open>
  What a saga relies on at a gateway: an execution that raises has sent its action's request at most once, one
  that returns has sent what its receipt says. \<open>gateway_operations\<close> are the operations both gateways
  offer a saga, \<open>preview\<close> and \<open>compensate\<close> being the inherited ones.
\<close>

definition gateway_operations :: "action_env \<Rightarrow> (action_plan \<Rightarrow> action_preview \<Rightarrow> request_identity
    \<Rightarrow> action_approval option \<Rightarrow> ('m, mutation_receipt) gw_op) \<Rightarrow> 'm gateway_state_scheme saga_gateway" where
  "gateway_operations env execute = \<lparr>sg_preview = (\<lambda>a i. preview_action env a i five_minutes),
     sg_execute = execute, sg_compensate = compensate_with execute env\<rparr>"

lemma compensate_with_receipt:
  "compensate_with execute env a r i ap s = (Inr q, t) \<Longrightarrow> rc_compensation_of q = Some (rc_receipt_id r)"
  by (auto simp: compensate_with_def sm_bind_Inr_iff split: option.splits sum.splits if_splits)

locale sending_gateway =
  fixes env :: action_env
    and execute :: "action_plan \<Rightarrow> action_preview \<Rightarrow> request_identity \<Rightarrow> action_approval option \<Rightarrow> ('m, mutation_receipt) gw_op"
  assumes raises: "execute a v i ap s = (Inl e, t) \<Longrightarrow> sends_among [action_dispatch a] s t"
    and returns: "execute a v i ap s = (Inr r, t) \<Longrightarrow> gst_dispatches t = gst_dispatches s
      @ (if rc_state r = AS_Already_Executed then [] else [action_dispatch a])"
begin

lemma execute_sends: "sm_rel (sends_among [action_dispatch a]) (execute a v i ap)"
proof (rule sm_relI)
  fix s
  obtain x t where xt: "execute a v i ap s = (x, t)" by force
  then show "sends_among [action_dispatch a] s (snd (execute a v i ap s))"
  proof (cases x)
    case (Inl e)
    with xt raises show ?thesis by simp
  next
    case (Inr r)
    with xt returns [of a v i ap s r t] show ?thesis by (auto simp: sends_among_def)
  qed
qed

lemma forward_sends:
  assumes "saga_forward (gateway_operations env execute) i st s = (x, t)"
  shows "x = Inr r \<Longrightarrow> gst_dispatches t = gst_dispatches s @ step_sends st r"
    and "sends_among [action_dispatch (ss_action st)] s t"
proof -
  have eq: "saga_forward (gateway_operations env execute) i st = sm_bind (preview_action env (ss_action st) i five_minutes)
      (\<lambda>v. execute (ss_action st) v i (ss_approval st))"
    by (simp add: saga_forward_def gateway_operations_def)
  show "sends_among [action_dispatch (ss_action st)] s t"
    using assms unfolding eq by (rule sm_relD [OF sends_bind_quiet [OF quiet_preview_action execute_sends]])
  assume "x = Inr r"
  with assms obtain v u where "preview_action env (ss_action st) i five_minutes s = (Inr v, u)"
    "execute (ss_action st) v i (ss_approval st) u = (Inr r, t)" by (auto simp: eq sm_bind_Inr_iff)
  with quietD [OF quiet_preview_action] returns show "gst_dispatches t = gst_dispatches s @ step_sends st r"
    unfolding step_sends_def keeps_def by fastforce
qed

lemma backward_sends:
  assumes "saga_backward (gateway_operations env execute) i sr s = (x, t)"
  shows "sends_among (undo_sends (fst sr)) s t"
    and "x = Inr q \<Longrightarrow> rc_compensation_of q = Some (rc_receipt_id (snd sr))"
proof -
  have eq: "saga_backward (gateway_operations env execute) i sr
      = compensate_with execute env (ss_action (fst sr)) (snd sr) i (ss_approval (fst sr))"
    by (simp add: saga_backward_def gateway_operations_def)
  have "sm_rel (sends_among (undo_sends (fst sr))) (compensate_with execute env (ss_action (fst sr)) (snd sr) i (ss_approval (fst sr)))"
  proof (cases "ap_compensation (ss_action (fst sr))")
    case None
    then show ?thesis by (simp add: compensate_with_def sends_quiet quiet_simple)
  next
    case (Some spec)
    then have undo: "undo_sends (fst sr) = [action_dispatch (derived_plan (ss_action (fst sr)) spec)]"
      by (simp add: undo_sends_def)
    have run: "sm_rel (sends_among (undo_sends (fst sr))) (execute d v i None)"
      if "mk_action_plan (derived_plan (ss_action (fst sr)) spec) = Inr d" for d v
      using execute_sends [of d] mk_derived_plan [OF that] by (simp add: undo)
    show ?thesis
      unfolding compensate_with_def Some option.case
      by (auto split: sum.split intro: sends_quiet quiet_bind intro!: sends_bind_quiet [OF quiet_current_time]
          sends_bind_quiet [OF quiet_validate_approval] sends_bind_quiet [OF quiet_preview_action] sends_quiet_after [OF run])
  qed
  then show "sends_among (undo_sends (fst sr)) s t" using assms unfolding eq by (rule sm_relD)
  show "rc_compensation_of q = Some (rc_receipt_id (snd sr))" if "x = Inr q"
    using assms that unfolding eq by (simp add: compensate_with_receipt)
qed

lemma all_forward_sends:
  "all_succeed (saga_forward (gateway_operations env execute) i) steps rs s t
    \<Longrightarrow> gst_dispatches t = gst_dispatches s @ concat (map2 step_sends steps rs)"
  by (induction rule: all_succeed.induct) (auto dest: forward_sends(1) [OF _ refl])

lemma all_backward_sends:
  "all_succeed (saga_backward (gateway_operations env execute) i) srs qs s t
    \<Longrightarrow> sends_among (concat (map (\<lambda>sr. undo_sends (fst sr)) srs)) s t
      \<and> map rc_compensation_of qs = map (\<lambda>sr. Some (rc_receipt_id (snd sr))) srs"
proof (induction rule: all_succeed.induct)
  case (Nil s)
  show ?case by (simp add: sends_among_keeps)
next
  case (Cons sr s q t srs qs u)
  with backward_sends [OF Cons.hyps(1)] show ?case by (auto intro: sends_among_append)
qed

lemma compensation_sends:
  assumes "compensates foreign (gateway_operations env execute) i srs finished qs s t"
  shows "sends_among (concat (map (\<lambda>sr. undo_sends (fst sr)) (take (Suc (length qs)) srs))) s t"
    and "map rc_compensation_of qs = map (\<lambda>sr. Some (rc_receipt_id (snd sr))) (take (length qs) srs)"
    and "finished \<Longrightarrow> length qs = length srs"
proof -
  let ?g = "gateway_operations env execute" and ?undo = "\<lambda>sr. undo_sends (fst sr)"
  have "sends_among (concat (map ?undo (take (Suc (length qs)) srs))) s t
      \<and> map rc_compensation_of qs = map (\<lambda>sr. Some (rc_receipt_id (snd sr))) (take (length qs) srs)
      \<and> (finished \<longrightarrow> length qs = length srs)"
  proof (cases finished)
    case True
    with assms have all: "all_succeed (saga_backward ?g i) srs qs s t" by (simp add: compensates_def)
    from all_backward_sends [OF all] all_succeed_length [OF all] show ?thesis by simp
  next
    case False
    with assms obtain u e where len: "length qs < length srs"
      and all: "all_succeed (saga_backward ?g i) (take (length qs) srs) qs s u"
      and last: "saga_backward ?g i (srs ! length qs) u = (Inl e, t)"
      by (auto simp: compensates_def stops_at_iff)
    from all_backward_sends [OF all] backward_sends(1) [OF last] False show ?thesis
      using sends_among_append [of "concat (map ?undo (take (length qs) srs))" s u] by (simp add: take_Suc_conv_app_nth len)
  qed
  then show "sends_among (concat (map ?undo (take (Suc (length qs)) srs))) s t"
    and "map rc_compensation_of qs = map (\<lambda>sr. Some (rc_receipt_id (snd sr))) (take (length qs) srs)"
    and "finished \<Longrightarrow> length qs = length srs" by simp_all
qed

lemma saga_sends:
  assumes "run_saga foreign (gateway_operations env execute) steps i s = (Inr out, t)"
  shows "\<exists>failing undone. gst_dispatches t
      = gst_dispatches s @ concat (map2 step_sends steps (so_receipts out)) @ failing @ undone
    \<and> (if so_state out = Saga_Completed
       then length (so_receipts out) = length steps \<and> so_compensations out = [] \<and> failing = [] \<and> undone = []
       else length (so_receipts out) < length steps
         \<and> failing \<in> set (subseqs [action_dispatch (ss_action (steps ! length (so_receipts out)))])
         \<and> undone \<in> set (subseqs (concat (map undo_sends
             (take (Suc (length (so_compensations out))) (rev (take (length (so_receipts out)) steps))))))
         \<and> map rc_compensation_of (so_compensations out)
             = map (\<lambda>r. Some (rc_receipt_id r)) (take (length (so_compensations out)) (rev (so_receipts out)))
         \<and> (so_state out \<noteq> Saga_Compensation_Failed \<longrightarrow> length (so_compensations out) = length (so_receipts out)))"
proof -
  let ?g = "gateway_operations env execute" and ?rs = "so_receipts out" and ?qs = "so_compensations out"
  from assms have "saga_contract foreign ?g i steps out s t" by (simp add: run_saga_contract)
  then show ?thesis unfolding saga_contract_def
  proof (elim disjE conjE exE)
    assume all: "all_succeed (saga_forward ?g i) steps ?rs s t" and completed: "so_state out = Saga_Completed" "?qs = []"
    from all_forward_sends [OF all] all_succeed_length [OF all] completed show ?thesis by simp
  next
    fix w finished
    assume stop: "stops_at (controlled_failure foreign) (saga_forward ?g i) steps ?rs s w"
      and comp: "compensates foreign ?g i (rev (zip steps ?rs)) finished ?qs w t"
      and st: "so_state out = (if \<not> finished then Saga_Compensation_Failed
                          else if ?rs \<noteq> [] then Saga_Compensated else Saga_Failed)"
    from stop obtain u e where len: "length ?rs < length steps"
      and all: "all_succeed (saga_forward ?g i) (take (length ?rs) steps) ?rs s u"
      and last: "saga_forward ?g i (steps ! length ?rs) u = (Inl e, w)" by (auto simp: stops_at_iff)
    have zip: "zip (take (length ?rs) steps) ?rs = zip steps ?rs" by (rule zip_take_all)
    have steps: "map fst (take n (rev (zip steps ?rs))) = take n (rev (take (length ?rs) steps))"
      and receipts: "map snd (take n (rev (zip steps ?rs))) = take n (rev ?rs)" for n
      using len by (simp_all add: map_fst_zip_take map_snd_zip_take flip: take_map rev_map)
    from forward_sends(2) [OF last] obtain failing where failing: "gst_dispatches w = gst_dispatches u @ failing"
      "failing \<in> set (subseqs [action_dispatch (ss_action (steps ! length ?rs))])" by (auto simp: sends_among_def)
    from compensation_sends(1) [OF comp] obtain undone where undone: "gst_dispatches t = gst_dispatches w @ undone"
      "undone \<in> set (subseqs (concat (map undo_sends (map fst (take (Suc (length ?qs)) (rev (zip steps ?rs)))))))"
      by (auto simp: sends_among_def comp_def)
    have "map rc_compensation_of ?qs = map (\<lambda>r. Some (rc_receipt_id r)) (map snd (take (length ?qs) (rev (zip steps ?rs))))"
      using compensation_sends(2) [OF comp] by simp
    then have refers: "map rc_compensation_of ?qs = map (\<lambda>r. Some (rc_receipt_id r)) (take (length ?qs) (rev ?rs))"
      by (simp only: receipts)
    have "so_state out \<noteq> Saga_Completed" "so_state out \<noteq> Saga_Compensation_Failed \<longrightarrow> length ?qs = length ?rs"
      using compensation_sends(3) [OF comp] st len by auto
    moreover have "gst_dispatches t = gst_dispatches s @ concat (map2 step_sends steps ?rs) @ failing @ undone"
      using all_forward_sends [OF all] failing(1) undone(1) by (simp add: zip)
    ultimately show ?thesis using len failing(2) undone(2) refers unfolding steps by auto
  qed
qed

end

section \<open>Sagas over the in-memory gateway\<close>

definition memory_saga_gateway :: "action_env \<Rightarrow> action_gateway_state saga_gateway" where
  "memory_saga_gateway env = \<lparr>sg_preview = (\<lambda>a i. preview_action env a i five_minutes),
     sg_execute = execute_action env, sg_compensate = compensate_action env\<rparr>"

lemma memory_saga_gateway_simps [simp]:
  "sg_preview (memory_saga_gateway env) a i = preview_action env a i five_minutes"
  "sg_execute (memory_saga_gateway env) = execute_action env"
  "sg_compensate (memory_saga_gateway env) = compensate_action env"
  by (simp_all add: memory_saga_gateway_def)

lemma memory_gateway_operations: "memory_saga_gateway env = gateway_operations env (execute_action env)"
  by (simp add: memory_saga_gateway_def gateway_operations_def compensate_action_def)

interpretation memory_saga: sending_gateway env "execute_action env" for env
proof (unfold_locales)
  fix a v i ap s e t
  assume "execute_action env a v i ap s = (Inl e, t)"
  then show "sends_among [action_dispatch a] s t"
    by (cases rule: execute_action_cases) (auto simp: sent_once_def sends_among_def action_dispatch_def keeps_def)
next
  fix a v i ap s r t
  assume run: "execute_action env a v i ap s = (Inr r, t)"
  then show "gst_dispatches t = gst_dispatches s @ (if rc_state r = AS_Already_Executed then [] else [action_dispatch a])"
  proof (cases rule: execute_action_cases)
    case quiet
    with quiet(2) [of r] run show ?thesis by (auto simp: keeps_def)
  next
    case sent
    with sent(4) [of r] run show ?thesis by (auto simp: sent_once_def binds_receipt_def action_dispatch_def)
  qed
qed

lemma compensate_action_receipt:
  "compensate_action env a r i ap s = (Inr q, t) \<Longrightarrow> rc_state q = AS_Compensated
     \<and> rc_compensation_of q = Some (rc_receipt_id r)"
  by (auto simp: compensate_unfold sm_bind_Inr_iff split: option.splits sum.splits if_splits)

lemma forward_binds_key:
  assumes "saga_forward (memory_saga_gateway env) i st s = (Inr r, t)"
  shows "dict_get (gst_idempotency t) (action_key (ss_action st)) \<noteq> None"
  using assms executed_key_bound by (fastforce simp: saga_forward_def sm_bind_Inr_iff)

lemma forward_le: "saga_forward (memory_saga_gateway env) i st s = (x, t) \<Longrightarrow> gateway_le s t"
proof -
  have "sm_rel gateway_le (execute_action env a v i ap)" for a v ap
    by (rule sm_relI) (metis execute_action_le prod.collapse)
  then have "sm_rel gateway_le (saga_forward (memory_saga_gateway env) i st)"
    unfolding saga_forward_def memory_saga_gateway_simps
    by (intro sm_rel_bind quiet_le [OF quiet_preview_action] sm_rel_gateway_le)
  then show "saga_forward (memory_saga_gateway env) i st s = (x, t) \<Longrightarrow> gateway_le s t"
    by (rule sm_relD)
qed

lemma all_succeed_binds_keys:
  "all_succeed (saga_forward (memory_saga_gateway env) i) steps rs s t \<Longrightarrow>
     gateway_le s t \<and> (\<forall>st \<in> set steps. dict_get (gst_idempotency t) (action_key (ss_action st)) \<noteq> None)"
proof (induction rule: all_succeed.induct)
  case (Cons st s r t steps rs u)
  from gateway_leD [of t u, OF _ forward_binds_key [OF Cons.hyps(1)]] Cons.IH
  have "dict_get (gst_idempotency u) (action_key (ss_action st)) \<noteq> None" by blast
  moreover have "gateway_le s u" using forward_le [OF Cons.hyps(1)] Cons.IH gateway_le_trans by blast
  ultimately show ?case using Cons.IH by simp
qed simp

text \<open>
  A completed saga is final: whatever the gateway is asked afterwards, nothing is sent again under
  the idempotency key of any of its steps.
\<close>

lemma completed_saga_never_resent:
  assumes "run_saga foreign (memory_saga_gateway env) steps i s = (Inr out, t)"
    and "so_state out = Saga_Completed" and "st \<in> set steps"
  shows "sends_to (run_ops (action_step env) ops t) (action_key (ss_action st))
    = sends_to t (action_key (ss_action st))"
proof -
  from assms(1,2) have "all_succeed (saga_forward (memory_saga_gateway env) i) steps (so_receipts out) s t"
    unfolding run_saga_contract by (auto simp: saga_contract_def split: if_splits)
  from all_succeed_binds_keys [OF this] assms(3)
  have "dict_get (gst_idempotency t) (action_key (ss_action st)) \<noteq> None" by blast
  from gateway_leD [OF action_gateway.run_le this] show ?thesis by blast
qed

lemma all_succeed_compensations:
  "all_succeed (saga_backward (memory_saga_gateway env) i) srs rs s t \<Longrightarrow>
     map rc_compensation_of rs = map (\<lambda>sr. Some (rc_receipt_id (snd sr))) srs \<and> list_all (\<lambda>r. rc_state r = AS_Compensated) rs"
  by (induction rule: all_succeed.induct) (auto simp: saga_backward_def dest: compensate_action_receipt)

lemma stops_at_compensations:
  "stops_at P (saga_backward (memory_saga_gateway env) i) srs rs s t \<Longrightarrow>
     map rc_compensation_of rs = map (\<lambda>sr. Some (rc_receipt_id (snd sr))) (take (length rs) srs)
     \<and> list_all (\<lambda>r. rc_state r = AS_Compensated) rs"
  by (auto simp: stops_at_iff dest: all_succeed_compensations)

text \<open>
  Compensation is in reverse order of execution and complete unless the outcome says otherwise: the
  compensations of a failed saga are receipts in state compensated for a prefix of its receipts taken
  last first; if the outcome is compensated or failed, for all of them.
\<close>

lemma saga_compensates_in_reverse:
  assumes "run_saga foreign (memory_saga_gateway env) steps i s = (Inr out, t)"
    and "so_state out \<noteq> Saga_Completed"
  shows "map rc_compensation_of (so_compensations out)
      = map (\<lambda>r. Some (rc_receipt_id r)) (take (length (so_compensations out)) (rev (so_receipts out)))
    \<and> list_all (\<lambda>r. rc_state r = AS_Compensated) (so_compensations out)
    \<and> (so_state out \<noteq> Saga_Compensation_Failed \<longrightarrow> length (so_compensations out) = length (so_receipts out))"
proof -
  let ?g = "memory_saga_gateway env"
  let ?srs = "rev (zip steps (so_receipts out))"
  from assms obtain w finished where
      stop: "stops_at (controlled_failure foreign) (saga_forward ?g i) steps (so_receipts out) s w"
    and comp: "compensates foreign ?g i ?srs finished (so_compensations out) w t"
    and st: "so_state out = (if \<not> finished then Saga_Compensation_Failed
                          else if so_receipts out \<noteq> [] then Saga_Compensated else Saga_Failed)"
    unfolding run_saga_contract saga_contract_def by blast
  from stop have len: "length (so_receipts out) < length steps" by (simp add: stops_at_iff)
  then have "map snd (take n ?srs) = take n (rev (so_receipts out))" for n
    by (simp add: map_snd_zip_take flip: take_map rev_map)
  then have snds: "map (\<lambda>sr. Some (rc_receipt_id (snd sr))) (take n ?srs)
      = map (\<lambda>r. Some (rc_receipt_id r)) (take n (rev (so_receipts out)))" for n
    by (metis (no_types, lifting) list.map_comp map_eq_conv comp_apply)
  show ?thesis
  proof (cases finished)
    case True
    with comp have all: "all_succeed (saga_backward ?g i) ?srs (so_compensations out) w t" by (simp add: compensates_def)
    from all_succeed_length [OF all] len have "length (so_compensations out) = length (so_receipts out)" by simp
    with all_succeed_compensations [OF all] snds [of "length ?srs"] len show ?thesis by (simp add: min_def)
  next
    case False
    with comp have "stops_at (controlled_failure foreign) (saga_backward ?g i) ?srs (so_compensations out) w t"
      by (simp add: compensates_def)
    from stops_at_compensations [OF this] snds False st show ?thesis by simp
  qed
qed

text \<open>
  An exception outside the controlled failures escapes between two steps: the steps already executed
  stay executed and nothing is compensated.
\<close>

lemma uncontrolled_failure_skips_compensation:
  assumes "saga_forward g i st1 s = (Inr r, s')" and "saga_forward g i st2 s' = (Inl e, t)"
    and "\<not> controlled_failure foreign e"
  shows "run_saga foreign g (st1 # st2 # steps) i s = (Inl e, t)"
  using assms by (simp add: run_saga_def)

section \<open>A run\<close>

abbreviation sample_saga :: "action_gateway_state saga_gateway" where
  "sample_saga \<equiv> memory_saga_gateway sample_action_env"

definition sample_step :: "string \<Rightarrow> bool \<Rightarrow> action_saga_step" where
  "sample_step key with_approval = \<lparr>ss_action = sample_action key,
     ss_approval = (if with_approval then Some (sample_approval_of sample_prims) else None)\<rparr>"

lemma sample_sources [simp]:
  "ap_source_id (sample_action key) = ''lab.mutable''"
  "action_key (sample_action key) = (''lab.mutable'', key)"
  by (simp_all add: action_key_def sample_action_def)

lemma sample_forward:
  assumes "gst_tick s < 900" and "dict_get (gst_idempotency s) (''lab.mutable'', key) = None"
  shows "\<exists>r t. saga_forward sample_saga sample_identity (sample_step key True) s = (Inr r, t)
    \<and> gst_tick t = gst_tick s + 14
    \<and> gst_idempotency t = dict_set (''lab.mutable'', key) (''sha256:d'', r) (gst_idempotency s)
    \<and> rc_state r = AS_Executed \<and> rc_action_digest r = ''sha256:d''"
proof -
  let ?a = "sample_action key" and ?t = "int (gst_tick s) + 3"
  let ?v = "preview_of sample_prims ?a sample_identity allow_decision (utc ?t) five_minutes"
  obtain audit where pv: "preview_action sample_action_env ?a sample_identity five_minutes s
      = (Inr ?v, s\<lparr>gst_tick := gst_tick s + 6, gst_audit := audit\<rparr>)" (is "_ = (_, ?s)")
    using sample_previews [of ?a] by auto
  have "preview_valid sample_prims ?a ?v sample_identity (utc (int (gst_tick ?s)))"
    by (rule sample_preview_valid) (simp add: five_minutes_def)
  moreover have "approval_ok sample_action_env ?a (Some (sample_approval_of sample_prims)) sample_identity
      (utc (int (gst_tick ?s))) False"
    using assms(1) by (intro sample_approved) simp_all
  moreover have "dict_get (gst_idempotency ?s) (action_key ?a) = None" using assms(2) by simp
  ultimately obtain r t where rt: "execute_action sample_action_env ?a ?v sample_identity
        (Some (sample_approval_of sample_prims)) ?s = (Inr r, t)"
      "gst_tick t = gst_tick ?s + 8" "gst_idempotency t = dict_set (action_key ?a) (''sha256:d'', r) (gst_idempotency ?s)"
      "rc_state r = AS_Executed" "rc_action_digest r = ''sha256:d''"
    using sample_runs [of ?a ?s ?v "Some (sample_approval_of sample_prims)"] by auto
  then show ?thesis
    by (intro exI [of _ r] exI [of _ t]) (simp add: saga_forward_def sample_step_def sm_bind_def pv)
qed

lemma sample_refused:
  "\<exists>t. saga_forward sample_saga sample_identity (sample_step key False) s
      = (Inl (Ax_Approval_Required ''human approval is required''), t)
    \<and> gst_tick t = gst_tick s + 7 \<and> gst_idempotency t = gst_idempotency s"
proof -
  let ?a = "sample_action key" and ?t = "int (gst_tick s) + 3"
  let ?v = "preview_of sample_prims ?a sample_identity allow_decision (utc ?t) five_minutes"
  obtain audit where pv: "preview_action sample_action_env ?a sample_identity five_minutes s
      = (Inr ?v, s\<lparr>gst_tick := gst_tick s + 6, gst_audit := audit\<rparr>)"
    using sample_previews [of ?a] by auto
  have "preview_valid sample_prims ?a ?v sample_identity (utc (int (gst_tick s) + 6))"
    by (rule sample_preview_valid) (simp add: five_minutes_def)
  moreover have "ap_approval_mode ?a = Approval_Human" by (simp add: sample_action_def)
  ultimately show ?thesis
    by (simp add: saga_forward_def sample_step_def sm_bind_def pv execute_action_def check_action_def
        current_time_def next_tick_def validate_preview_def validate_approval_def add.commute)
qed

lemma sample_backward:
  assumes "gst_tick s < 900" and "dict_get (gst_idempotency s) (''lab.mutable'', key @ '':compensate'') = None"
    and "rc_state r = AS_Executed" and "rc_action_digest r = ''sha256:d''"
  shows "\<exists>q t. saga_backward sample_saga sample_identity (sample_step key True, r) s = (Inr q, t)"
proof -
  define spec where "spec = \<lparr>cs_operation = ''restore'', cs_parameters = [(''status'', JStr ''open'')],
       cs_preconditions = [(''version'', JInt 2)]\<rparr>"
  let ?a = "sample_action key"
  let ?d = "derived_plan ?a spec"
  have spec: "ap_compensation ?a = Some spec" by (simp add: sample_action_def spec_def)
  have d: "ap_source_id ?d = ''lab.mutable''" "ap_approval_mode ?d = Approval_None"
      "action_key ?d = (''lab.mutable'', key @ '':compensate'')"
    by (simp_all add: derived_plan_def action_key_def sample_action_def)
  have mk: "mk_action_plan ?d = Inr ?d"
    by (simp add: mk_action_plan_def derived_plan_def spec_def sample_action_def)
  let ?s1 = "s\<lparr>gst_tick := Suc (gst_tick s)\<rparr>"
  let ?v = "preview_of sample_prims ?d sample_identity allow_decision (utc (int (gst_tick ?s1) + 3)) five_minutes"
  obtain audit where pv: "preview_action sample_action_env ?d sample_identity five_minutes ?s1
      = (Inr ?v, ?s1\<lparr>gst_tick := gst_tick ?s1 + 6, gst_audit := audit\<rparr>)" (is "_ = (_, ?s2)")
    using sample_previews [OF d(1), of sample_identity ?s1] by blast
  have "preview_valid sample_prims ?d ?v sample_identity (utc (int (gst_tick ?s2)))"
    by (rule sample_preview_valid) (simp add: five_minutes_def)
  moreover have "approval_ok sample_action_env ?d None sample_identity (utc (int (gst_tick ?s2))) False"
    by (simp add: approval_ok_def d(2))
  moreover have "dict_get (gst_idempotency ?s2) (action_key ?d) = None" using assms(2) d(3) by simp
  ultimately obtain q t where ex: "execute_action sample_action_env ?d ?v sample_identity None ?s2 = (Inr q, t)"
    using sample_runs [OF d(1)] by blast
  have ok: "validate_approval sample_action_env ?a (Some (sample_approval_of sample_prims)) sample_identity
      (utc (int (gst_tick s))) True u = (Inr (), u)" for u :: action_gateway_state
    using assms(1) by (simp add: validate_approval_Inr sample_approved)
  obtain e es where "audit_append sample_prims ''compensated'' (ap_action_id ?a) (utc (int (gst_tick t)))
      [(''compensation_receipt_id'', JStr (rc_receipt_id q))] (gst_audit t) = Inr (e, es)"
    using audit_append_aware [OF aware_utc] by blast
  with ok ex pv show ?thesis
    by (simp add: saga_backward_def sample_step_def compensate_unfold spec assms(3,4) sm_bind_def
        current_time_def next_tick_def mk audit_event_def)
qed

lemma completed_saga_never_resent_example:
  "\<exists>out t. run_saga (\<lambda>n. False) sample_saga [sample_step ''k1'' True] sample_identity action_start = (Inr out, t)
     \<and> sends_to (run_ops (action_step sample_action_env) [Do_Execute_Action (sample_action ''k1'')
         (sample_preview ''k1'') sample_identity (Some (sample_approval_of sample_prims))] t) (''lab.mutable'', ''k1'')
       = sends_to t (''lab.mutable'', ''k1'')"
proof -
  obtain r t where "saga_forward sample_saga sample_identity (sample_step ''k1'' True) action_start = (Inr r, t)"
    using sample_forward [of action_start "''k1''"] by (auto simp: action_start_def)
  then have run: "run_saga (\<lambda>n. False) sample_saga [sample_step ''k1'' True] sample_identity action_start
      = (Inr \<lparr>so_state = Saga_Completed, so_receipts = [r], so_compensations = [], so_failed_action_id = None\<rparr>, t)"
    by (simp add: run_saga_def)
  have "sends_to (run_ops (action_step sample_action_env) [Do_Execute_Action (sample_action ''k1'')
         (sample_preview ''k1'') sample_identity (Some (sample_approval_of sample_prims))] t) (action_key (ss_action (sample_step ''k1'' True)))
       = sends_to t (action_key (ss_action (sample_step ''k1'' True)))"
    by (rule completed_saga_never_resent [OF run]) simp_all
  with run show ?thesis by (simp add: sample_step_def)
qed

lemma saga_compensates_in_reverse_example:
  "\<exists>out t. run_saga (\<lambda>n. False) sample_saga [sample_step ''k1'' True, sample_step ''k2'' False] sample_identity action_start
     = (Inr out, t) \<and> length (so_compensations out) = 1
     \<and> map rc_compensation_of (so_compensations out) = map (\<lambda>r. Some (rc_receipt_id r)) (so_receipts out)"
proof -
  obtain r t where 1: "saga_forward sample_saga sample_identity (sample_step ''k1'' True) action_start = (Inr r, t)"
      "gst_tick t = 14" "gst_idempotency t = [((''lab.mutable'', ''k1''), (''sha256:d'', r))]"
      "rc_state r = AS_Executed" "rc_action_digest r = ''sha256:d''"
    using sample_forward [of action_start "''k1''"] by (auto simp: action_start_def)
  obtain u where 2: "saga_forward sample_saga sample_identity (sample_step ''k2'' False) t
      = (Inl (Ax_Approval_Required ''human approval is required''), u)"
      "gst_tick u = 21" "gst_idempotency u = gst_idempotency t"
    using sample_refused [of "''k2''" t] 1(2) by auto
  obtain q w where 3: "saga_backward sample_saga sample_identity (sample_step ''k1'' True, r) u = (Inr q, w)"
    using sample_backward [OF _ _ 1(4,5), of u "''k1''"] 2 1(3) by auto
  let ?out = "\<lparr>so_state = Saga_Compensated, so_receipts = [r], so_compensations = [q],
      so_failed_action_id = Some ''a1''\<rparr>"
  have "ap_action_id (ss_action (sample_step ''k2'' False)) = ''a1''" by (simp add: sample_step_def sample_action_def)
  with 1(1) 2(1) 3 have run: "run_saga (\<lambda>n. False) sample_saga [sample_step ''k1'' True, sample_step ''k2'' False]
      sample_identity action_start = (Inr ?out, w)"
    by (simp add: run_saga_def)
  from saga_compensates_in_reverse [OF this] have "map rc_compensation_of [q] = map (\<lambda>r. Some (rc_receipt_id r)) [r]"
    by simp
  with run show ?thesis by (intro exI [of _ ?out] exI [of _ w]) simp
qed

end
