(* ===== verification/Json_Access.thy ===== *)
theory Json_Access
  imports Canonical_Json
begin

text \<open>
  How the sources read dynamic JSON values: indexing, iteration, truth and scalars, with the exceptions
  Python raises. A value read into an annotated text, bool or list of texts is refused when it is another.
\<close>

definition json_truthy :: "json \<Rightarrow> bool" where
  "json_truthy v = (case v of JNull \<Rightarrow> False | JBool b \<Rightarrow> b | JInt i \<Rightarrow> i \<noteq> 0 | JStr s \<Rightarrow> s \<noteq> []
     | JArr xs \<Rightarrow> xs \<noteq> [] | JObj kvs \<Rightarrow> kvs \<noteq> [] | JFloat t \<Rightarrow> t \<notin> {''0.0'', ''-0.0''})"

definition json_scalar :: "json \<Rightarrow> bool" where
  "json_scalar v = (case v of JArr xs \<Rightarrow> False | JObj kvs \<Rightarrow> False | _ \<Rightarrow> True)"

definition member :: "(string, json) dict \<Rightarrow> string \<Rightarrow> json" where
  \<comment> \<open>\<open>d[k]\<close> where the keys have been checked, \<open>d.get(k)\<close> otherwise\<close>
  "member d k = (case dict_get d k of None \<Rightarrow> JNull | Some v \<Rightarrow> v)"

definition json_index :: "json \<Rightarrow> string \<Rightarrow> json checked" where
  \<comment> \<open>\<open>v[k]\<close> for a string \<open>k\<close>\<close>
  "json_index v k =
     (case v of JObj d \<Rightarrow> (case dict_get d k of None \<Rightarrow> Inl (KeyError k) | Some x \<Rightarrow> Inr x)
      | _ \<Rightarrow> Inl (TypeError ''indices must be integers''))"

definition json_elements :: "json \<Rightarrow> json list checked" where
  \<comment> \<open>what iterating over \<open>v\<close> yields\<close>
  "json_elements v =
     (case v of JArr xs \<Rightarrow> Inr xs | JObj d \<Rightarrow> Inr (map (\<lambda>kv. JStr (fst kv)) d)
      | JStr t \<Rightarrow> Inr (map (\<lambda>c. JStr [c]) t) | _ \<Rightarrow> Inl (TypeError ''object is not iterable''))"

definition as_text :: "json \<Rightarrow> string checked" where
  "as_text v = (case v of JStr t \<Rightarrow> Inr t | _ \<Rightarrow> Inl (TypeError ''text expected''))"

definition as_bool :: "json \<Rightarrow> bool checked" where
  "as_bool v = (case v of JBool b \<Rightarrow> Inr b | _ \<Rightarrow> Inl (TypeError ''bool expected''))"

definition as_opt_text :: "json \<Rightarrow> string option checked" where
  "as_opt_text v = (case v of JNull \<Rightarrow> Inr None | JStr t \<Rightarrow> Inr (Some t) | _ \<Rightarrow> Inl (TypeError ''text or null expected''))"

definition as_texts :: "json \<Rightarrow> string list checked" where
  "as_texts v = ck_bind (json_elements v) (check_all as_text)"

lemma json_index_simps [simp]:
  "json_index (JObj ((k, x) # d)) k = Inr x"
  "k \<noteq> k' \<Longrightarrow> json_index (JObj ((k', x) # d)) k = json_index (JObj d) k"
  by (simp_all add: json_index_def)

text \<open>
  \<open>a == b\<close>: numbers (and bools) compare by value, \<open>fl\<close> the value of a float's token; arrays element by element,
  dictionaries whatever the order of their keys.
\<close>

definition num_value :: "(string \<Rightarrow> rat option) \<Rightarrow> json \<Rightarrow> rat option" where
  "num_value fl v = (case v of JBool b \<Rightarrow> Some (if b then 1 else 0) | JInt i \<Rightarrow> Some (of_int i) | JFloat t \<Rightarrow> fl t | _ \<Rightarrow> None)"

definition same_number :: "(string \<Rightarrow> rat option) \<Rightarrow> json \<Rightarrow> json \<Rightarrow> bool" where
  "same_number fl a b \<longleftrightarrow> num_value fl a \<noteq> None \<and> num_value fl a = num_value fl b"

primrec py_eq :: "(string \<Rightarrow> rat option) \<Rightarrow> json \<Rightarrow> json \<Rightarrow> bool" where
  "py_eq fl JNull b = (b = JNull)"
| "py_eq fl (JBool x) b = same_number fl (JBool x) b"
| "py_eq fl (JInt i) b = same_number fl (JInt i) b"
| "py_eq fl (JFloat t) b = (same_number fl (JFloat t) b \<or> fl t = None \<and> t \<noteq> ''NaN'' \<and> b = JFloat t)"
| "py_eq fl (JStr s) b = (b = JStr s)"
| "py_eq fl (JArr xs) b = (case b of JArr ys \<Rightarrow> list_all2 (\<lambda>f y. f y) (map (py_eq fl) xs) ys | _ \<Rightarrow> False)"
| "py_eq fl (JObj d) b = (case b of JObj e \<Rightarrow> length d = length e
     \<and> list_all (\<lambda>(k, f). case dict_get e k of None \<Rightarrow> False | Some w \<Rightarrow> f w) (map (map_prod id (py_eq fl)) d)
     | _ \<Rightarrow> False)"

lemma same_number_None [simp]: "num_value fl b = None \<Longrightarrow> \<not> same_number fl a b"
  by (auto simp: same_number_def)

lemma num_value_None [simp]: "num_value fl (JStr s) = None" "num_value fl JNull = None"
  by (simp_all add: num_value_def)

lemma py_eq_text [simp]: "py_eq fl v (JStr s) \<longleftrightarrow> v = JStr s"
  by (cases v) auto

lemma py_eq_null [simp]: "py_eq fl v JNull \<longleftrightarrow> v = JNull"
  by (cases v) simp_all

end
