(* ===== verification/Action_Journal.thy ===== *)
theory Action_Journal
  imports Action_Gateway Json_Access
begin

text \<open>
  SQLiteActionJournal of durability.py. The two tables are a dictionary of rows under their primary key
  and the list of events by ascending sequence; text columns are strings, and a JSON column is the value
  its text denotes. Each method is one transaction: it commits when it returns, or rolls back when it
  raises, except for the read that follows the commit. \<open>datetime.fromisoformat\<close> is a parameter.
\<close>

section \<open>Records\<close>

datatype durable_state_value =
    DS_Prepared | DS_Executing | DS_Executed | DS_Failed | DS_Reconciliation_Required

primrec durable_value :: "durable_state_value \<Rightarrow> string" where
  "durable_value DS_Prepared = ''prepared''"
| "durable_value DS_Executing = ''executing''"
| "durable_value DS_Executed = ''executed''"
| "durable_value DS_Failed = ''failed''"
| "durable_value DS_Reconciliation_Required = ''reconciliation-required''"

definition durable_of_value :: "string \<Rightarrow> durable_state_value checked" where
  \<comment> \<open>\<open>DurableActionState(text)\<close>\<close>
  "durable_of_value s =
     (case find (\<lambda>d. durable_value d = s)
        [DS_Prepared, DS_Executing, DS_Executed, DS_Failed, DS_Reconciliation_Required] of
        None \<Rightarrow> Inl (ValueError ''is not a valid DurableActionState'') | Some d \<Rightarrow> Inr d)"

definition action_state_of_value :: "string \<Rightarrow> action_state checked" where
  "action_state_of_value s =
     (case find (\<lambda>d. action_state_value d = s)
        [AS_Executed, AS_Recovered, AS_Already_Executed, AS_Compensated, AS_Failed] of
        None \<Rightarrow> Inl (ValueError ''is not a valid ActionState'') | Some d \<Rightarrow> Inr d)"

record durable_record =
  dr_source_id :: string
  dr_idempotency_key :: string
  dr_action_id :: string
  dr_action_digest :: string
  dr_state :: durable_state_value
  dr_policy_decision_id :: string
  dr_started_at :: datetime
  dr_updated_at :: datetime
  dr_attempts :: int
  dr_source_version :: "string option"
  dr_receipt :: "mutation_receipt option"
  dr_journal_digest :: string

definition opt_text :: "string option \<Rightarrow> json" where
  "opt_text v = (case v of None \<Rightarrow> JNull | Some t \<Rightarrow> JStr t)"

definition durable_contract :: "prims \<Rightarrow> durable_record \<Rightarrow> (string, json) dict" where
  "durable_contract p r =
     [(''schemaVersion'', JStr ''data.harness/v1''), (''sourceId'', JStr (dr_source_id r)),
      (''idempotencyKey'', JStr (dr_idempotency_key r)), (''actionId'', JStr (dr_action_id r)),
      (''actionDigest'', JStr (dr_action_digest r)), (''state'', JStr (durable_value (dr_state r))),
      (''policyDecisionId'', JStr (dr_policy_decision_id r)),
      (''startedAt'', JStr (pr_isoformat p (dr_started_at r))),
      (''updatedAt'', JStr (pr_isoformat p (dr_updated_at r))),
      (''attempts'', JInt (dr_attempts r)), (''sourceVersion'', opt_text (dr_source_version r)),
      (''receiptId'', opt_text (map_option rc_receipt_id (dr_receipt r))),
      (''journalDigest'', JStr (dr_journal_digest r))]"

section \<open>The database\<close>

record journal_row =
  jr_source_id :: string
  jr_idempotency_key :: string
  jr_action_id :: string
  jr_action_digest :: string
  jr_state :: string
  jr_policy_decision_id :: string
  jr_started_at :: string
  jr_updated_at :: string
  jr_attempts :: int
  jr_source_version :: "string option"
  jr_receipt_json :: "json option"
  jr_journal_digest :: string

record journal_event =
  je_sequence :: int
  je_event_type :: string
  je_action_id :: string
  je_occurred_at :: string
  je_attributes :: "(string, json) dict"
  je_previous_digest :: string
  je_digest :: string

record journal =
  jn_records :: "(string \<times> string, journal_row) dict"
  jn_events :: "journal_event list"

record journal_env =
  jv_prims :: prims
  jv_fromisoformat :: "string \<Rightarrow> datetime option"
  jv_integrity_key :: string

definition open_journal :: "string \<Rightarrow> journal checked" where
  \<comment> \<open>on a fresh database\<close>
  "open_journal key =
     (if length key < 16
      then Inl (ValueError ''journal integrity requires at least 128 bits of key material'')
      else Inr \<lparr>jn_records = [], jn_events = []\<rparr>)"

definition journal_hash :: "journal_env \<Rightarrow> string \<Rightarrow> string" where
  "journal_hash jv m = ''hmac-sha256:'' @ pr_hmac_sha256 (jv_prims jv) (jv_integrity_key jv) m"

definition journal_digest :: "journal_env \<Rightarrow> json \<Rightarrow> string" where
  "journal_digest jv v = journal_hash jv (canonical v)"

definition journal_genesis :: string where
  "journal_genesis = ''hmac-sha256:'' @ zeros"

definition event_body :: "int \<Rightarrow> string \<Rightarrow> string \<Rightarrow> string \<Rightarrow> (string, json) dict \<Rightarrow> string \<Rightarrow> json" where
  "event_body seq event_type action_id occurred_at attributes previous = JObj
     [(''sequence'', JInt seq), (''event_type'', JStr event_type), (''action_id'', JStr action_id),
      (''occurred_at'', JStr occurred_at), (''attributes'', JObj attributes),
      (''previous_digest'', JStr previous)]"

definition next_event :: "journal_env \<Rightarrow> string \<Rightarrow> string \<Rightarrow> datetime \<Rightarrow> (string, json) dict
    \<Rightarrow> journal_event list \<Rightarrow> journal_event" where
  "next_event jv event_type action_id occurred_at attributes events =
     (let seq = (if events = [] then 1 else je_sequence (last events) + 1);
          previous = (if events = [] then journal_genesis else je_digest (last events));
          text_time = pr_isoformat (jv_prims jv) occurred_at
      in \<lparr>je_sequence = seq, je_event_type = event_type, je_action_id = action_id,
          je_occurred_at = text_time, je_attributes = attributes, je_previous_digest = previous,
          je_digest = journal_digest jv (event_body seq event_type action_id text_time attributes previous)\<rparr>)"

section \<open>Reading a row\<close>

definition field_text :: "(string, json) dict \<Rightarrow> string \<Rightarrow> string checked" where
  \<comment> \<open>\<open>receipt_data[k]\<close>; the journal writes strings there, any other value is refused\<close>
  "field_text d k = (case dict_get d k of None \<Rightarrow> Inl (KeyError k) | Some (JStr t) \<Rightarrow> Inr t
     | Some _ \<Rightarrow> Inl (TypeError ''text expected''))"

definition field_opt_text :: "(string, json) dict \<Rightarrow> string \<Rightarrow> string option checked" where
  "field_opt_text d k = (case dict_get d k of None \<Rightarrow> Inl (KeyError k) | Some JNull \<Rightarrow> Inr None
     | Some (JStr t) \<Rightarrow> Inr (Some t) | Some _ \<Rightarrow> Inl (TypeError ''text expected''))"

definition parse_time :: "journal_env \<Rightarrow> string \<Rightarrow> datetime checked" where
  "parse_time jv t = (case jv_fromisoformat jv t of
     None \<Rightarrow> Inl (ValueError ''Invalid isoformat string'') | Some d \<Rightarrow> Inr d)"

definition parse_receipt :: "journal_env \<Rightarrow> (string, json) dict \<Rightarrow> mutation_receipt checked" where
  "parse_receipt jv d =
     ck_bind (field_text d ''receiptId'') (\<lambda>receipt_id.
     ck_bind (field_text d ''actionId'') (\<lambda>action_id.
     ck_bind (field_text d ''actionDigest'') (\<lambda>action_digest.
     ck_bind (field_text d ''idempotencyKey'') (\<lambda>idempotency_key.
     ck_bind (ck_bind (field_text d ''state'') action_state_of_value) (\<lambda>state.
     ck_bind (ck_bind (field_text d ''startedAt'') (parse_time jv)) (\<lambda>started_at.
     ck_bind (ck_bind (field_text d ''completedAt'') (parse_time jv)) (\<lambda>completed_at.
     ck_bind (field_text d ''sourceVersion'') (\<lambda>source_version.
     ck_bind (field_text d ''policyDecisionId'') (\<lambda>decision_id.
     ck_bind (field_text d ''auditDigest'') (\<lambda>audit_digest.
     ck_bind (field_opt_text d ''compensationOf'') (\<lambda>compensation_of.
     Inr \<lparr>rc_receipt_id = receipt_id, rc_action_id = action_id, rc_action_digest = action_digest,
          rc_idempotency_key = idempotency_key, rc_state = state, rc_started_at = started_at,
          rc_completed_at = completed_at, rc_source_version = source_version,
          rc_policy_decision_id = decision_id, rc_audit_digest = audit_digest,
          rc_compensation_of = compensation_of\<rparr>)))))))))))"

definition stored_receipt :: "journal_env \<Rightarrow> json option \<Rightarrow> mutation_receipt option checked" where
  "stored_receipt jv stored =
     (case stored of
        None \<Rightarrow> Inr None
      | Some v \<Rightarrow>
          if \<not> json_truthy v then Inr None
          else (case v of JObj d \<Rightarrow> ck_bind (parse_receipt jv d) (\<lambda>r. Inr (Some r))
                | _ \<Rightarrow> Inl (TypeError ''indices must be integers or slices'')))"

definition record_of_row :: "journal_env \<Rightarrow> journal_row \<Rightarrow> durable_record checked" where
  "record_of_row jv row =
     ck_bind (stored_receipt jv (jr_receipt_json row)) (\<lambda>receipt.
     ck_bind (durable_of_value (jr_state row)) (\<lambda>state.
     ck_bind (parse_time jv (jr_started_at row)) (\<lambda>started_at.
     ck_bind (parse_time jv (jr_updated_at row)) (\<lambda>updated_at.
     Inr \<lparr>dr_source_id = jr_source_id row, dr_idempotency_key = jr_idempotency_key row,
          dr_action_id = jr_action_id row, dr_action_digest = jr_action_digest row, dr_state = state,
          dr_policy_decision_id = jr_policy_decision_id row, dr_started_at = started_at,
          dr_updated_at = updated_at, dr_attempts = jr_attempts row,
          dr_source_version = jr_source_version row, dr_receipt = receipt,
          dr_journal_digest = jr_journal_digest row\<rparr>))))"

section \<open>The operations\<close>

type_synonym 'a journal_op = "(journal, action_error, 'a) sm"

definition py_result :: "'a checked \<Rightarrow> action_error + 'a" where
  "py_result r = (case r of Inl e \<Rightarrow> Inl (Ax_Py e) | Inr x \<Rightarrow> Inr x)"

definition journal_get :: "journal_env \<Rightarrow> string \<Rightarrow> string \<Rightarrow> durable_record option journal_op" where
  "journal_get jv source_id key j =
     (case dict_get (jn_records j) (source_id, key) of
        None \<Rightarrow> (Inr None, j)
      | Some row \<Rightarrow> (ck_bind (py_result (record_of_row jv row)) (\<lambda>r. Inr (Some r)), j))"

definition reread :: "journal_env \<Rightarrow> action_plan \<Rightarrow> durable_record journal_op" where
  \<comment> \<open>\<open>self.get\<close> and the assertion that close every write\<close>
  "reread jv a =
     sm_bind (journal_get jv (ap_source_id a) (ap_idempotency_key a)) (\<lambda>r.
     case r of None \<Rightarrow> sm_raise (Ax_Py AssertionError) | Some record \<Rightarrow> sm_return record)"

definition prepared_attributes :: "prims \<Rightarrow> action_plan \<Rightarrow> string \<Rightarrow> (string, json) dict" where
  "prepared_attributes p a policy_decision_id =
     [(''source_id'', JStr (ap_source_id a)), (''idempotency_key'', JStr (ap_idempotency_key a)),
      (''action_digest'', JStr (plan_digest p a)), (''policy_decision_id'', JStr policy_decision_id)]"

definition prepared_row :: "journal_env \<Rightarrow> action_plan \<Rightarrow> string \<Rightarrow> datetime \<Rightarrow> string \<Rightarrow> journal_row" where
  "prepared_row jv a policy_decision_id now digest =
     \<lparr>jr_source_id = ap_source_id a, jr_idempotency_key = ap_idempotency_key a,
      jr_action_id = ap_action_id a, jr_action_digest = plan_digest (jv_prims jv) a,
      jr_state = durable_value DS_Prepared, jr_policy_decision_id = policy_decision_id,
      jr_started_at = pr_isoformat (jv_prims jv) now, jr_updated_at = pr_isoformat (jv_prims jv) now,
      jr_attempts = 0, jr_source_version = None, jr_receipt_json = None, jr_journal_digest = digest\<rparr>"

definition journal_prepare :: "journal_env \<Rightarrow> action_plan \<Rightarrow> string \<Rightarrow> datetime \<Rightarrow> durable_record journal_op" where
  "journal_prepare jv a policy_decision_id now j =
     (case dict_get (jn_records j) (action_key a) of
        Some row \<Rightarrow>
          (case py_result (record_of_row jv row) of
             Inl e \<Rightarrow> (Inl e, j)
           | Inr r \<Rightarrow>
               if dr_action_digest r \<noteq> plan_digest (jv_prims jv) a
               then (Inl (Ax_Idempotency_Conflict ''idempotency key was already bound to another action''), j)
               else (Inr r, j))
      | None \<Rightarrow>
          (let e = next_event jv (durable_value DS_Prepared) (ap_action_id a) now
                     (prepared_attributes (jv_prims jv) a policy_decision_id) (jn_events j)
           in reread jv a (j\<lparr>jn_records := dict_set (action_key a)
                                (prepared_row jv a policy_decision_id now (je_digest e)) (jn_records j),
                             jn_events := jn_events j @ [e]\<rparr>)))"

definition journal_begin :: "journal_env \<Rightarrow> action_plan \<Rightarrow> datetime \<Rightarrow> durable_record journal_op" where
  "journal_begin jv a now j =
     (case dict_get (jn_records j) (action_key a) of
        None \<Rightarrow> (Inl (Ax_Py (KeyError ''action must be prepared before execution'')), j)
      | Some row \<Rightarrow>
          (case py_result (record_of_row jv row) of
             Inl e \<Rightarrow> (Inl e, j)
           | Inr r \<Rightarrow>
               if dr_action_digest r \<noteq> plan_digest (jv_prims jv) a
               then (Inl (Ax_Idempotency_Conflict ''idempotency key was already bound to another action''), j)
               else if dr_state r = DS_Executed then (Inr r, j)
               else if dr_state r \<noteq> DS_Prepared
               then (Inl (Ax_Outcome_Unknown ''action state forbids automatic replay''), j)
               else (let e = next_event jv (durable_value DS_Executing) (ap_action_id a) now
                           [(''source_id'', JStr (ap_source_id a)), (''attempt'', JInt (dr_attempts r + 1))]
                           (jn_events j)
                     in reread jv a (j\<lparr>jn_records := dict_set (action_key a)
                            (row\<lparr>jr_state := durable_value DS_Executing,
                                 jr_updated_at := pr_isoformat (jv_prims jv) now,
                                 jr_attempts := dr_attempts r + 1, jr_journal_digest := je_digest e\<rparr>)
                            (jn_records j),
                          jn_events := jn_events j @ [e]\<rparr>))))"

definition finish_attributes :: "action_plan \<Rightarrow> string option \<Rightarrow> string option \<Rightarrow> (string, json) dict" where
  "finish_attributes a source_version reason =
     [(''source_id'', JStr (ap_source_id a))]
     @ (case source_version of None \<Rightarrow> [] | Some v \<Rightarrow> [(''source_version'', JStr v)])
     @ (case reason of None \<Rightarrow> [] | Some t \<Rightarrow> [(''reason'', JStr t)])"

definition journal_finish :: "journal_env \<Rightarrow> action_plan \<Rightarrow> durable_state_value \<Rightarrow> mutation_receipt option
    \<Rightarrow> string option \<Rightarrow> datetime \<Rightarrow> string option \<Rightarrow> durable_record journal_op" where
  "journal_finish jv a state receipt source_version now reason j =
     (case dict_get (jn_records j) (action_key a) of
        None \<Rightarrow> (Inl (Ax_Idempotency_Conflict ''durable action binding is missing or mismatched''), j)
      | Some row \<Rightarrow>
          if jr_action_digest row \<noteq> plan_digest (jv_prims jv) a
          then (Inl (Ax_Idempotency_Conflict ''durable action binding is missing or mismatched''), j)
          else (let e = next_event jv (durable_value state) (ap_action_id a) now
                      (finish_attributes a source_version reason) (jn_events j)
                in reread jv a (j\<lparr>jn_records := dict_set (action_key a)
                       (row\<lparr>jr_state := durable_value state, jr_updated_at := pr_isoformat (jv_prims jv) now,
                            jr_source_version := source_version,
                            jr_receipt_json := map_option (\<lambda>r. JObj (receipt_contract (jv_prims jv) r)) receipt,
                            jr_journal_digest := je_digest e\<rparr>)
                       (jn_records j),
                     jn_events := jn_events j @ [e]\<rparr>)))"

definition journal_complete ::
  "journal_env \<Rightarrow> action_plan \<Rightarrow> mutation_receipt \<Rightarrow> datetime \<Rightarrow> durable_record journal_op" where
  "journal_complete jv a receipt now =
     journal_finish jv a DS_Executed (Some receipt) (Some (rc_source_version receipt)) now None"

definition journal_fail ::
  "journal_env \<Rightarrow> action_plan \<Rightarrow> mutation_receipt \<Rightarrow> datetime \<Rightarrow> durable_record journal_op" where
  "journal_fail jv a receipt now =
     journal_finish jv a DS_Failed (Some receipt) (Some (rc_source_version receipt)) now None"

definition journal_require_reconciliation ::
  "journal_env \<Rightarrow> action_plan \<Rightarrow> datetime \<Rightarrow> string \<Rightarrow> durable_record journal_op" where
  "journal_require_reconciliation jv a now reason =
     journal_finish jv a DS_Reconciliation_Required None None now (Some reason)"

definition journal_pending :: "journal_env \<Rightarrow> durable_record list journal_op" where
  "journal_pending jv j =
     (py_result (check_all (record_of_row jv)
        (map snd (sort_key (\<lambda>e. fst (fst e)) (sort_key (\<lambda>e. snd (fst e))
          (filter (\<lambda>e. jr_state (snd e) \<in> {durable_value DS_Executing, durable_value DS_Reconciliation_Required})
             (jn_records j)))))), j)"

section \<open>Verification of the database\<close>

fun scan_events :: "journal_env \<Rightarrow> string \<Rightarrow> (string, journal_event) dict \<Rightarrow> (string, (string, json) dict) dict
    \<Rightarrow> journal_event list \<Rightarrow> ((string, journal_event) dict \<times> (string, (string, json) dict) dict) option" where
  "scan_events jv previous by_digest prepared [] = Some (by_digest, prepared)"
| "scan_events jv previous by_digest prepared (e # es) =
     (if je_previous_digest e \<noteq> previous
        \<or> je_digest e \<noteq> journal_digest jv (event_body (je_sequence e) (je_event_type e) (je_action_id e)
            (je_occurred_at e) (je_attributes e) previous)
      then None
      else scan_events jv (je_digest e) (dict_set (je_digest e) e by_digest)
             (if je_event_type e = durable_value DS_Prepared
              then dict_set (je_action_id e) (je_attributes e) prepared else prepared) es)"

definition row_prepared :: "(string, json) dict \<Rightarrow> journal_row \<Rightarrow> bool" where
  "row_prepared attributes row \<longleftrightarrow>
     dict_get attributes ''source_id'' = Some (JStr (jr_source_id row))
   \<and> dict_get attributes ''idempotency_key'' = Some (JStr (jr_idempotency_key row))
   \<and> dict_get attributes ''action_digest'' = Some (JStr (jr_action_digest row))
   \<and> dict_get attributes ''policy_decision_id'' = Some (JStr (jr_policy_decision_id row))"

definition verify_row :: "journal_env \<Rightarrow> (string, journal_event) dict \<Rightarrow> (string, (string, json) dict) dict
    \<Rightarrow> journal_row \<Rightarrow> bool" where
  "verify_row jv by_digest prepared row =
     (case dict_get by_digest (jr_journal_digest row) of
        None \<Rightarrow> False
      | Some e \<Rightarrow>
          if je_action_id e \<noteq> jr_action_id row then False
          else if je_event_type e \<noteq> jr_state row then False
          else (case dict_get prepared (jr_action_id row) of
                  None \<Rightarrow> False
                | Some attributes \<Rightarrow>
                    if \<not> row_prepared attributes row then False
                    else (case record_of_row jv row of
                            Inl _ \<Rightarrow> False
                          | Inr r \<Rightarrow>
                              (case dr_receipt r of
                                 Some receipt \<Rightarrow> dr_state r = DS_Executed
                                   \<and> rc_action_id receipt = dr_action_id r
                                   \<and> rc_action_digest receipt = dr_action_digest r
                                   \<and> rc_idempotency_key receipt = dr_idempotency_key r
                               | None \<Rightarrow> dr_state r \<noteq> DS_Executed))))"

definition journal_verify :: "journal_env \<Rightarrow> journal \<Rightarrow> bool" where
  "journal_verify jv j =
     (case scan_events jv journal_genesis [] [] (jn_events j) of
        None \<Rightarrow> False
      | Some (by_digest, prepared) \<Rightarrow> list_all (verify_row jv by_digest prepared) (map snd (jn_records j)))"

section \<open>What is stored reads back\<close>

lemma durable_of_value_value [simp]: "durable_of_value (durable_value d) = Inr d"
  by (cases d) (simp_all add: durable_of_value_def)

lemma durable_value_inj [simp]: "durable_value d = durable_value e \<longleftrightarrow> d = e"
  by (metis durable_of_value_value sum.inject(2))

lemma durable_of_value_Inr: "durable_of_value s = Inr d \<longleftrightarrow> s = durable_value d"
proof
  show "s = durable_value d" if "durable_of_value s = Inr d"
    using that unfolding durable_of_value_def by (auto split: if_splits)
qed simp

declare durable_value.simps [simp del]

lemma action_state_of_value_value [simp]: "action_state_of_value (action_state_value d) = Inr d"
  by (cases d) (simp_all add: action_state_of_value_def)

text \<open>A time survives the journal when \<open>fromisoformat\<close> inverts \<open>isoformat\<close> on it.\<close>

definition time_ok :: "journal_env \<Rightarrow> datetime \<Rightarrow> bool" where
  "time_ok jv t \<longleftrightarrow> jv_fromisoformat jv (pr_isoformat (jv_prims jv) t) = Some t"

definition receipt_times_ok :: "journal_env \<Rightarrow> mutation_receipt \<Rightarrow> bool" where
  "receipt_times_ok jv r \<longleftrightarrow> time_ok jv (rc_started_at r) \<and> time_ok jv (rc_completed_at r)"

lemma parse_time_ok: "time_ok jv t \<Longrightarrow> parse_time jv (pr_isoformat (jv_prims jv) t) = Inr t"
  by (simp add: parse_time_def time_ok_def)

lemma parse_receipt_contract:
  "receipt_times_ok jv r \<Longrightarrow> parse_receipt jv (receipt_contract (jv_prims jv) r) = Inr r"
  by (cases r) (simp add: receipt_contract_def parse_receipt_def field_text_def field_opt_text_def
      receipt_times_ok_def parse_time_ok split: option.split)

lemma stored_receipt_None [simp]: "stored_receipt jv None = Inr None"
  by (simp add: stored_receipt_def)

lemma stored_receipt_contract [simp]:
  "receipt_times_ok jv r \<Longrightarrow> stored_receipt jv (Some (JObj (receipt_contract (jv_prims jv) r))) = Inr (Some r)"
  by (simp add: stored_receipt_def parse_receipt_contract json_truthy_def) (simp add: receipt_contract_def)

lemma record_of_row_Inr:
  "record_of_row jv row = Inr r \<Longrightarrow> jr_state row = durable_value (dr_state r)
     \<and> dr_action_digest r = jr_action_digest row \<and> dr_attempts r = jr_attempts row
     \<and> dr_action_id r = jr_action_id row \<and> dr_idempotency_key r = jr_idempotency_key row
     \<and> stored_receipt jv (jr_receipt_json row) = Inr (dr_receipt r)"
  by (auto simp: record_of_row_def ck_bind_Inr durable_of_value_Inr)

lemma py_result_Inr [simp]: "py_result r = Inr x \<longleftrightarrow> r = Inr x"
  by (cases r) (simp_all add: py_result_def)

lemma journal_get_state [simp]: "snd (journal_get jv s k j) = j"
  by (simp add: journal_get_def split: option.split)

lemma reread_Inr:
  "reread jv a j = (Inr r, t) \<longleftrightarrow> t = j \<and> (\<exists>row. dict_get (jn_records j) (action_key a) = Some row
     \<and> record_of_row jv row = Inr r)"
  by (auto simp: reread_def sm_bind_Inr_iff journal_get_def action_key_def ck_bind_Inr split: option.splits)

lemma reread_state [simp]: "snd (reread jv a j) = j"
proof -
  obtain x t where g: "journal_get jv (ap_source_id a) (ap_idempotency_key a) j = (x, t)" by force
  with journal_get_state [of jv _ _ j] have "t = j" by (metis snd_conv)
  with g show ?thesis by (cases x) (auto simp: reread_def sm_bind_def split: option.split)
qed

text \<open>
  What the journal records of a finished action reads back: after \<open>complete\<close> returns, \<open>get\<close> yields
  the same record, executed, with exactly the receipt that was stored, and its source version.
\<close>

lemma completed_action_reads_back:
  assumes "journal_complete jv a receipt now j = (Inr r, t)" and "receipt_times_ok jv receipt"
  shows "journal_get jv (ap_source_id a) (ap_idempotency_key a) t = (Inr (Some r), t)
    \<and> dr_state r = DS_Executed \<and> dr_receipt r = Some receipt
    \<and> dr_source_version r = Some (rc_source_version receipt)"
proof -
  from assms(1) obtain row where row: "dict_get (jn_records t) (action_key a) = Some row"
      "record_of_row jv row = Inr r" "jr_state row = durable_value DS_Executed"
      "jr_receipt_json row = Some (JObj (receipt_contract (jv_prims jv) receipt))"
      "jr_source_version row = Some (rc_source_version receipt)"
    by (auto simp: journal_complete_def journal_finish_def Let_def reread_Inr split: option.splits if_splits)
  from record_of_row_Inr [OF row(2)] row(3-5) assms(2) have "dr_state r = DS_Executed" "dr_receipt r = Some receipt"
    by auto
  moreover have "dr_source_version r = Some (rc_source_version receipt)"
    using row(2,5) by (auto simp: record_of_row_def ck_bind_Inr)
  ultimately show ?thesis
    using row(1,2) by (simp add: journal_get_def action_key_def py_result_def)
qed

section \<open>The event table is a hash chain\<close>

definition event_content :: "journal_event \<Rightarrow> int \<times> string \<times> string \<times> string \<times> json" where
  "event_content e = (je_sequence e, je_event_type e, je_action_id e, je_occurred_at e,
     sort_keys (JObj (je_attributes e)))"

definition event_message :: "string \<Rightarrow> journal_event \<Rightarrow> string" where
  "event_message previous e = canonical (event_body (je_sequence e) (je_event_type e) (je_action_id e)
     (je_occurred_at e) (je_attributes e) previous)"

interpretation journal_chain: hash_chain je_previous_digest je_digest event_message "journal_hash jv"
    event_content "\<lambda>e. json_wf (JObj (je_attributes e))" for jv
proof
  fix e f :: journal_event and q r :: string
  assume wf: "json_wf (JObj (je_attributes e))" "json_wf (JObj (je_attributes f))"
    and eq: "event_message q e = event_message r f"
  define b where "b x d = [(''sequence'', JInt (je_sequence x)), (''event_type'', JStr (je_event_type x)),
      (''action_id'', JStr (je_action_id x)), (''occurred_at'', JStr (je_occurred_at x)),
      (''attributes'', JObj (je_attributes x)), (''previous_digest'', JStr d)]" for x :: journal_event and d
  have "canonical (JObj (b e q)) = canonical (JObj (b f r))"
    using eq by (simp add: event_message_def event_body_def b_def)
  moreover have "json_wf (JObj (b e q))" "json_wf (JObj (b f r))" using wf by (simp_all add: b_def)
  ultimately have same: "map_option sort_keys (dict_get (b e q) k) = map_option sort_keys (dict_get (b f r) k)" for k
    by (rule canonical_lookup)
  show "q = r \<and> event_content e = event_content f"
    using same [of "''sequence''"] same [of "''event_type''"] same [of "''action_id''"]
      same [of "''occurred_at''"] same [of "''attributes''"] same [of "''previous_digest''"]
    by (simp add: b_def event_content_def)
qed

lemma event_digest: "journal_digest jv (event_body (je_sequence e) (je_event_type e) (je_action_id e)
    (je_occurred_at e) (je_attributes e) q) = journal_hash jv (event_message q e)"
  by (simp add: journal_digest_def event_message_def)

lemma next_event_simps [simp]:
  "je_event_type (next_event jv t a d attrs es) = t" "je_action_id (next_event jv t a d attrs es) = a"
  "je_attributes (next_event jv t a d attrs es) = attrs"
  by (simp_all add: next_event_def Let_def)

lemma next_event_chain:
  "journal_chain.chain_ok jv journal_genesis es \<Longrightarrow>
     journal_chain.chain_ok jv journal_genesis (es @ [next_event jv t a d attrs es])"
  by (simp add: journal_chain.chain_ok_append journal_chain.chain_head_def next_event_def Let_def
      journal_digest_def event_message_def)

text \<open>What the scan of the events computes.\<close>

definition digest_index :: "journal_event list \<Rightarrow> (string, journal_event) dict \<Rightarrow> (string, journal_event) dict" where
  "digest_index es d = fold (\<lambda>e. dict_set (je_digest e) e) es d"

definition prepared_index :: "journal_event list \<Rightarrow> (string, (string, json) dict) dict
    \<Rightarrow> (string, (string, json) dict) dict" where
  "prepared_index es d = fold (\<lambda>e. if je_event_type e = durable_value DS_Prepared
     then dict_set (je_action_id e) (je_attributes e) else id) es d"

lemma scan_events_eq:
  "scan_events jv q d p es = (if journal_chain.chain_ok jv q es
     then Some (digest_index es d, prepared_index es p) else None)"
  by (induction es arbitrary: q d p) (auto simp: event_digest digest_index_def prepared_index_def)

lemma digest_index_lookup:
  "distinct (map je_digest es) \<Longrightarrow> e \<in> set es \<Longrightarrow> dict_get (digest_index es d) (je_digest e) = Some e"
proof (induction es arbitrary: d rule: rev_induct)
  case (snoc x es)
  then have "e \<in> set es \<Longrightarrow> je_digest x \<noteq> je_digest e" by (simp add: image_iff)
  with snoc.IH snoc.prems show ?case by (auto simp: digest_index_def)
qed simp

lemma digest_index_in:
  "dict_get (digest_index es []) k = Some e \<Longrightarrow> e \<in> set es \<and> je_digest e = k"
  by (induction es rule: rev_induct) (auto simp: digest_index_def split: if_splits)

lemma prepared_index_in:
  "dict_get (prepared_index es []) k = Some attrs \<Longrightarrow>
     \<exists>e \<in> set es. je_event_type e = durable_value DS_Prepared \<and> je_action_id e = k \<and> je_attributes e = attrs"
  by (induction es rule: rev_induct) (auto simp: prepared_index_def split: if_splits)

lemma prepared_index_lookup:
  "e \<in> set es \<Longrightarrow> je_event_type e = durable_value DS_Prepared \<Longrightarrow> dict_get (prepared_index es []) (je_action_id e) \<noteq> None"
  by (induction es rule: rev_induct) (auto simp: prepared_index_def)

section \<open>Runs of the journal\<close>

datatype journal_call =
    J_Prepare action_plan string datetime
  | J_Begin action_plan datetime
  | J_Complete action_plan mutation_receipt datetime
  | J_Fail action_plan mutation_receipt datetime
  | J_Require action_plan datetime string

primrec call_plan :: "journal_call \<Rightarrow> action_plan" where
  "call_plan (J_Prepare a d t) = a"
| "call_plan (J_Begin a t) = a"
| "call_plan (J_Complete a r t) = a"
| "call_plan (J_Fail a r t) = a"
| "call_plan (J_Require a t m) = a"

primrec call_time :: "journal_call \<Rightarrow> datetime" where
  "call_time (J_Prepare a d t) = t"
| "call_time (J_Begin a t) = t"
| "call_time (J_Complete a r t) = t"
| "call_time (J_Fail a r t) = t"
| "call_time (J_Require a t m) = t"

primrec call_receipt :: "journal_call \<Rightarrow> mutation_receipt option" where
  "call_receipt (J_Prepare a d t) = None"
| "call_receipt (J_Begin a t) = None"
| "call_receipt (J_Complete a r t) = Some r"
| "call_receipt (J_Fail a r t) = Some r"
| "call_receipt (J_Require a t m) = None"

primrec journal_step :: "journal_env \<Rightarrow> journal_call \<Rightarrow> journal \<Rightarrow> journal" where
  "journal_step jv (J_Prepare a d t) j = snd (journal_prepare jv a d t j)"
| "journal_step jv (J_Begin a t) j = snd (journal_begin jv a t j)"
| "journal_step jv (J_Complete a r t) j = snd (journal_complete jv a r t j)"
| "journal_step jv (J_Fail a r t) j = snd (journal_fail jv a r t j)"
| "journal_step jv (J_Require a t m) j = snd (journal_require_reconciliation jv a t m j)"

definition empty_journal :: journal where
  "empty_journal = \<lparr>jn_records = [], jn_events = []\<rparr>"

text \<open>
  A call of the gateway: its receipt, if any, is about its own action, and its times survive the journal.
\<close>

definition call_ok :: "journal_env \<Rightarrow> journal_call \<Rightarrow> bool" where
  "call_ok jv c \<longleftrightarrow> time_ok jv (call_time c)
     \<and> (\<forall>r. call_receipt c = Some r \<longrightarrow> receipt_times_ok jv r \<and> rc_action_id r = ap_action_id (call_plan c)
          \<and> rc_action_digest r = plan_digest (jv_prims jv) (call_plan c)
          \<and> rc_idempotency_key r = ap_idempotency_key (call_plan c))"

definition row_stored :: "journal_env \<Rightarrow> journal_row \<Rightarrow> bool" where
  \<comment> \<open>a row reads back; a receipt is there exactly in the states executed and failed, and is the row's own\<close>
  "row_stored jv row \<longleftrightarrow> (\<exists>r. record_of_row jv row = Inr r
     \<and> (dr_receipt r \<noteq> None \<longleftrightarrow> dr_state r \<in> {DS_Executed, DS_Failed})
     \<and> (\<forall>q. dr_receipt r = Some q \<longrightarrow> rc_action_id q = jr_action_id row
          \<and> rc_action_digest q = jr_action_digest row \<and> rc_idempotency_key q = jr_idempotency_key row))"

definition event_for :: "journal_event list \<Rightarrow> journal_row \<Rightarrow> bool" where
  "event_for es row \<longleftrightarrow> (\<exists>e \<in> set es. je_digest e = jr_journal_digest row \<and> je_event_type e = jr_state row
     \<and> je_action_id e = jr_action_id row)"

definition prepares :: "journal_row \<Rightarrow> journal_event \<Rightarrow> bool" where
  "prepares row e \<longleftrightarrow> je_event_type e = durable_value DS_Prepared \<and> je_action_id e = jr_action_id row
     \<and> row_prepared (je_attributes e) row"

definition row_planned :: "prims \<Rightarrow> journal_call set \<Rightarrow> journal_row \<Rightarrow> bool" where
  "row_planned p C row \<longleftrightarrow> (\<exists>c \<in> C. jr_action_digest row = plan_digest p (call_plan c)
     \<and> jr_action_id row = ap_action_id (call_plan c))"

definition row_ok :: "journal_env \<Rightarrow> journal_call set \<Rightarrow> journal_event list \<Rightarrow> string \<times> string \<Rightarrow> journal_row \<Rightarrow> bool" where
  "row_ok jv C es k row \<longleftrightarrow> k = (jr_source_id row, jr_idempotency_key row) \<and> row_stored jv row
     \<and> event_for es row \<and> (\<exists>e \<in> set es. prepares row e) \<and> row_planned (jv_prims jv) C row"

definition journal_ok :: "journal_env \<Rightarrow> journal_call set \<Rightarrow> journal \<Rightarrow> bool" where
  "journal_ok jv C j \<longleftrightarrow> dict_wf (jn_records j)
     \<and> journal_chain.chain_ok jv journal_genesis (jn_events j)
     \<and> dict_all (row_ok jv C (jn_events j)) (jn_records j)
     \<and> (\<forall>e \<in> set (jn_events j). je_event_type e = durable_value DS_Prepared \<longrightarrow>
          (\<exists>k row. dict_get (jn_records j) k = Some row \<and> prepares row e))"

lemma row_ok_more: "row_ok jv C es k row \<Longrightarrow> set es \<subseteq> set es' \<Longrightarrow> row_ok jv C es' k row"
  unfolding row_ok_def event_for_def by blast

lemma dict_all_more:
  assumes "dict_all (row_ok jv C es) d" and "row_ok jv C (es @ [e]) k row"
  shows "dict_all (row_ok jv C (es @ [e])) (dict_set k row d)"
proof -
  have "set es \<subseteq> set (es @ [e])" by auto
  with assms(1) have "dict_all (row_ok jv C (es @ [e])) d" using dict_all_mono row_ok_more by blast
  then show ?thesis using assms(2) by (rule dict_all_set)
qed

lemma journal_ok_empty: "journal_ok jv C empty_journal"
  by (simp add: journal_ok_def empty_journal_def)

text \<open>A row is replaced by one with the same identity, whose state is that of the event logged with it.\<close>

definition same_binding :: "journal_row \<Rightarrow> journal_row \<Rightarrow> bool" where
  "same_binding row row' \<longleftrightarrow> jr_source_id row' = jr_source_id row
     \<and> jr_idempotency_key row' = jr_idempotency_key row \<and> jr_action_id row' = jr_action_id row
     \<and> jr_action_digest row' = jr_action_digest row \<and> jr_policy_decision_id row' = jr_policy_decision_id row"

lemma prepares_same: "same_binding row row' \<Longrightarrow> prepares row' e \<longleftrightarrow> prepares row e"
  by (simp add: prepares_def row_prepared_def same_binding_def)

lemma journal_ok_update:
  assumes ok: "journal_ok jv C j" and row: "dict_get (jn_records j) k = Some row"
    and same: "same_binding row row'" and stored: "row_stored jv row'"
    and e: "e = next_event jv (durable_value d) (jr_action_id row) t attrs (jn_events j)" "d \<noteq> DS_Prepared"
    and st: "jr_state row' = durable_value d" "jr_journal_digest row' = je_digest e"
  shows "journal_ok jv C (j\<lparr>jn_records := dict_set k row' (jn_records j), jn_events := jn_events j @ [e]\<rparr>)"
proof -
  have all: "dict_all (row_ok jv C (jn_events j)) (jn_records j)" using ok by (simp add: journal_ok_def)
  have rk: "row_ok jv C (jn_events j) k row" using dict_allD [OF all row] .
  have "event_for (jn_events j @ [e]) row'"
    using st e same by (simp add: event_for_def same_binding_def)
  moreover have "\<exists>x \<in> set (jn_events j @ [e]). prepares row' x"
    using rk prepares_same [OF same] by (auto simp: row_ok_def)
  ultimately have "row_ok jv C (jn_events j @ [e]) k row'"
    using rk same stored by (simp add: row_ok_def same_binding_def row_planned_def)
  from dict_all_more [OF all this] have "dict_all (row_ok jv C (jn_events j @ [e])) (dict_set k row' (jn_records j))" .
  moreover have "\<exists>k' r. dict_get (dict_set k row' (jn_records j)) k' = Some r \<and> prepares r x"
    if "x \<in> set (jn_events j @ [e])" "je_event_type x = durable_value DS_Prepared" for x
  proof -
    from that e have "x \<in> set (jn_events j)" by auto
    with ok that(2) obtain k' r where r: "dict_get (jn_records j) k' = Some r" "prepares r x"
      by (auto simp: journal_ok_def)
    show ?thesis
    proof (cases "k' = k")
      case True
      with r row prepares_same [OF same] show ?thesis by (intro exI [of _ k] exI [of _ row']) simp
    next
      case False
      with r show ?thesis by (intro exI [of _ k'] exI [of _ r]) simp
    qed
  qed
  ultimately show ?thesis
    using ok next_event_chain e(1) by (simp add: journal_ok_def)
qed

text \<open>Equal digests name equal actions, as far as the calls of a run go.\<close>

definition digests_identify :: "prims \<Rightarrow> journal_call set \<Rightarrow> bool" where
  "digests_identify p C \<longleftrightarrow> (\<forall>c \<in> C. \<forall>c' \<in> C. plan_digest p (call_plan c) = plan_digest p (call_plan c')
     \<longrightarrow> ap_action_id (call_plan c) = ap_action_id (call_plan c'))"

lemma row_action_id:
  "digests_identify p C \<Longrightarrow> row_planned p C row \<Longrightarrow> c \<in> C \<Longrightarrow> jr_action_digest row = plan_digest p (call_plan c)
     \<Longrightarrow> jr_action_id row = ap_action_id (call_plan c)"
  unfolding digests_identify_def row_planned_def by metis

lemma row_parses:
  assumes "stored_receipt jv (jr_receipt_json row) = Inr q" and "jr_state row = durable_value d"
    and "parse_time jv (jr_started_at row) = Inr s" and "parse_time jv (jr_updated_at row) = Inr u"
  obtains r where "record_of_row jv row = Inr r" "dr_receipt r = q" "dr_state r = d"
  using assms by (simp add: record_of_row_def)

lemma row_parsed:
  assumes "record_of_row jv row = Inr r"
  shows "stored_receipt jv (jr_receipt_json row) = Inr (dr_receipt r)" "jr_state row = durable_value (dr_state r)"
    "parse_time jv (jr_started_at row) = Inr (dr_started_at r)" "parse_time jv (jr_updated_at row) = Inr (dr_updated_at r)"
  using assms by (auto simp: record_of_row_def ck_bind_Inr durable_of_value_Inr)

lemma row_stored_executing:
  assumes "row_stored jv row" and "jr_state row = durable_value DS_Prepared" and "time_ok jv t"
  shows "row_stored jv (row\<lparr>jr_state := durable_value DS_Executing, jr_updated_at := pr_isoformat (jv_prims jv) t,
    jr_attempts := n, jr_journal_digest := x\<rparr>)" (is "row_stored jv ?row")
proof -
  from assms(1) obtain r where r: "record_of_row jv row = Inr r"
      "dr_receipt r \<noteq> None \<longleftrightarrow> dr_state r \<in> {DS_Executed, DS_Failed}" by (auto simp: row_stored_def)
  with row_parsed(2) [OF r(1)] assms(2) have "dr_receipt r = None" by simp
  with row_parsed(1,3) [OF r(1)] parse_time_ok [OF assms(3)]
  have "stored_receipt jv (jr_receipt_json ?row) = Inr None" "jr_state ?row = durable_value DS_Executing"
    "parse_time jv (jr_started_at ?row) = Inr (dr_started_at r)" "parse_time jv (jr_updated_at ?row) = Inr t"
    by simp_all
  then show ?thesis by (rule row_parses) (simp add: row_stored_def)
qed

lemma row_stored_finished:
  assumes "row_stored jv row" and "time_ok jv t" and "receipt \<noteq> None \<longleftrightarrow> d \<in> {DS_Executed, DS_Failed}"
    and "\<And>q. receipt = Some q \<Longrightarrow> receipt_times_ok jv q \<and> rc_action_id q = jr_action_id row
      \<and> rc_action_digest q = jr_action_digest row \<and> rc_idempotency_key q = jr_idempotency_key row"
  shows "row_stored jv (row\<lparr>jr_state := durable_value d, jr_updated_at := pr_isoformat (jv_prims jv) t,
    jr_source_version := v, jr_receipt_json := map_option (\<lambda>r. JObj (receipt_contract (jv_prims jv) r)) receipt,
    jr_journal_digest := x\<rparr>)" (is "row_stored jv ?row")
proof -
  from assms(1) obtain r where r: "record_of_row jv row = Inr r" by (auto simp: row_stored_def)
  have "stored_receipt jv (jr_receipt_json ?row) = Inr receipt"
    using assms(4) by (cases receipt) simp_all
  moreover have "jr_state ?row = durable_value d" "parse_time jv (jr_started_at ?row) = Inr (dr_started_at r)"
      "parse_time jv (jr_updated_at ?row) = Inr t"
    using row_parsed(3) [OF r] parse_time_ok [OF assms(2)] by simp_all
  ultimately show ?thesis
    by (rule row_parses) (use assms(3,4) in \<open>simp add: row_stored_def\<close>)
qed

lemma journal_begin_ok:
  assumes ok: "journal_ok jv C j" and "digests_identify (jv_prims jv) C" "c \<in> C" "call_plan c = a" "time_ok jv t"
  shows "journal_ok jv C (snd (journal_begin jv a t j))"
proof (cases "dict_get (jn_records j) (action_key a)")
  case (Some row)
  have rk: "row_ok jv C (jn_events j) (action_key a) row"
    using ok Some by (auto simp: journal_ok_def dest: dict_allD)
  then have planned: "row_planned (jv_prims jv) C row" and stored: "row_stored jv row" by (simp_all add: row_ok_def)
  show ?thesis
  proof (cases "\<exists>r. record_of_row jv row = Inr r \<and> dr_action_digest r = plan_digest (jv_prims jv) a \<and> dr_state r = DS_Prepared")
    case True
    then obtain r where r: "record_of_row jv row = Inr r" "dr_action_digest r = plan_digest (jv_prims jv) a"
      "dr_state r = DS_Prepared" by blast
    then have id: "jr_action_id row = ap_action_id a"
      using row_action_id [OF assms(2) planned assms(3)] record_of_row_Inr [OF r(1)] assms(4) by simp
    let ?e = "next_event jv (durable_value DS_Executing) (jr_action_id row) t
        [(''source_id'', JStr (ap_source_id a)), (''attempt'', JInt (dr_attempts r + 1))] (jn_events j)"
    let ?row = "row\<lparr>jr_state := durable_value DS_Executing, jr_updated_at := pr_isoformat (jv_prims jv) t,
        jr_attempts := dr_attempts r + 1, jr_journal_digest := je_digest ?e\<rparr>"
    have "journal_ok jv C (j\<lparr>jn_records := dict_set (action_key a) ?row (jn_records j),
        jn_events := jn_events j @ [?e]\<rparr>)"
      using r row_parsed(2) [OF r(1)]
      by (intro journal_ok_update [OF ok Some] row_stored_executing [OF stored] assms(5))
        (simp_all add: same_binding_def)
    with Some r id show ?thesis by (simp add: journal_begin_def py_result_def Let_def)
  next
    case False
    then have "snd (journal_begin jv a t j) = j"
      using Some by (auto simp: journal_begin_def py_result_def split: sum.splits)
    with ok show ?thesis by simp
  qed
qed (use ok in \<open>simp add: journal_begin_def\<close>)

lemma journal_finish_ok:
  assumes ok: "journal_ok jv C j" and "digests_identify (jv_prims jv) C" "c \<in> C" "call_plan c = a" "time_ok jv t"
    and "d \<noteq> DS_Prepared" and "receipt \<noteq> None \<longleftrightarrow> d \<in> {DS_Executed, DS_Failed}"
    and "\<And>q. receipt = Some q \<Longrightarrow> receipt_times_ok jv q \<and> rc_action_id q = ap_action_id a
      \<and> rc_action_digest q = plan_digest (jv_prims jv) a \<and> rc_idempotency_key q = ap_idempotency_key a"
  shows "journal_ok jv C (snd (journal_finish jv a d receipt v t m j))"
proof (cases "dict_get (jn_records j) (action_key a)")
  case (Some row)
  have rk: "row_ok jv C (jn_events j) (action_key a) row"
    using ok Some by (auto simp: journal_ok_def dest: dict_allD)
  then have planned: "row_planned (jv_prims jv) C row" and stored: "row_stored jv row"
      and key: "jr_idempotency_key row = ap_idempotency_key a" by (simp_all add: row_ok_def action_key_def)
  show ?thesis
  proof (cases "jr_action_digest row = plan_digest (jv_prims jv) a")
    case True
    then have id: "jr_action_id row = ap_action_id a"
      using row_action_id [OF assms(2) planned assms(3)] assms(4) by simp
    let ?e = "next_event jv (durable_value d) (jr_action_id row) t (finish_attributes a v m) (jn_events j)"
    let ?row = "row\<lparr>jr_state := durable_value d, jr_updated_at := pr_isoformat (jv_prims jv) t,
        jr_source_version := v, jr_receipt_json := map_option (\<lambda>r. JObj (receipt_contract (jv_prims jv) r)) receipt,
        jr_journal_digest := je_digest ?e\<rparr>"
    have "journal_ok jv C (j\<lparr>jn_records := dict_set (action_key a) ?row (jn_records j),
        jn_events := jn_events j @ [?e]\<rparr>)"
      by (intro journal_ok_update [OF ok Some] row_stored_finished [OF stored] assms(5,6,7))
        (use assms(8) True id key in \<open>simp_all add: same_binding_def assms(6)\<close>)
    with Some True id show ?thesis by (simp add: journal_finish_def Let_def)
  qed (use ok Some in \<open>simp add: journal_finish_def\<close>)
qed (use ok in \<open>simp add: journal_finish_def\<close>)

lemma journal_prepare_ok:
  assumes ok: "journal_ok jv C j" and "c \<in> C" "call_plan c = a" "time_ok jv t"
  shows "journal_ok jv C (snd (journal_prepare jv a pid t j))"
proof (cases "dict_get (jn_records j) (action_key a)")
  case None
  let ?attrs = "prepared_attributes (jv_prims jv) a pid"
  let ?e = "next_event jv (durable_value DS_Prepared) (ap_action_id a) t ?attrs (jn_events j)"
  let ?row = "prepared_row jv a pid t (je_digest ?e)"
  have pe: "prepares ?row ?e"
    by (simp add: prepares_def row_prepared_def prepared_row_def prepared_attributes_def)
  have "stored_receipt jv (jr_receipt_json ?row) = Inr None" "jr_state ?row = durable_value DS_Prepared"
      "parse_time jv (jr_started_at ?row) = Inr t" "parse_time jv (jr_updated_at ?row) = Inr t"
    using parse_time_ok [OF assms(4)] by (simp_all add: prepared_row_def)
  then have "row_stored jv ?row" by (rule row_parses) (simp add: row_stored_def)
  with pe assms(2,3) have "row_ok jv C (jn_events j @ [?e]) (action_key a) ?row"
    by (auto simp: row_ok_def event_for_def row_planned_def prepared_row_def action_key_def)
  with ok dict_all_more have all: "dict_all (row_ok jv C (jn_events j @ [?e])) (dict_set (action_key a) ?row (jn_records j))"
    by (simp add: journal_ok_def)
  have "\<exists>k r. dict_get (dict_set (action_key a) ?row (jn_records j)) k = Some r \<and> prepares r x"
    if "x \<in> set (jn_events j @ [?e])" "je_event_type x = durable_value DS_Prepared" for x
  proof (cases "x = ?e")
    case True
    with pe show ?thesis by (intro exI [of _ "action_key a"] exI [of _ ?row]) simp
  next
    case False
    with that ok obtain k r where "dict_get (jn_records j) k = Some r" "prepares r x" by (auto simp: journal_ok_def)
    with None show ?thesis by (intro exI [of _ k] exI [of _ r]) auto
  qed
  with ok all next_event_chain show ?thesis
    by (simp add: None journal_prepare_def Let_def journal_ok_def)
next
  case (Some row)
  have "snd (journal_prepare jv a pid t j) = j"
    using Some by (auto simp: journal_prepare_def split: sum.split)
  with ok show ?thesis by simp
qed

lemma journal_step_ok:
  assumes "journal_ok jv C j" and "digests_identify (jv_prims jv) C" and "c \<in> C" and "call_ok jv c"
  shows "journal_ok jv C (journal_step jv c j)"
  using assms
  by (cases c)
    (auto simp: call_ok_def journal_complete_def journal_fail_def journal_require_reconciliation_def
      intro!: journal_prepare_ok [where c = c] journal_begin_ok [where c = c] journal_finish_ok [where c = c])

interpretation journal_runs: invariant_system "\<lambda>c j. if c \<in> C \<and> call_ok jv c then journal_step jv c j else j"
    "\<lambda>j. journal_ok jv C j \<and> digests_identify (jv_prims jv) C" for jv C
  by unfold_locales (simp add: journal_step_ok)

lemma run_journal_ok:
  assumes "digests_identify (jv_prims jv) (set cs)" and "\<forall>c \<in> set cs. call_ok jv c"
  shows "journal_ok jv (set cs) (run_ops (journal_step jv) cs empty_journal)"
proof -
  have "run_ops (\<lambda>c j. if c \<in> C \<and> call_ok jv c then journal_step jv c j else j) xs j = run_ops (journal_step jv) xs j"
    if "set xs \<subseteq> C" "\<forall>c \<in> set xs. call_ok jv c" for C xs j
    using that by (induction xs arbitrary: j) auto
  from this [OF order_refl assms(2), of empty_journal] show ?thesis
    using journal_runs.run_inv [of jv "set cs" empty_journal cs] journal_ok_empty assms(1) by simp
qed

section \<open>When a journal verifies\<close>

lemma verify_row_iff:
  assumes ok: "row_ok jv C es k row" and "distinct (map je_digest es)"
  shows "verify_row jv (digest_index es []) (prepared_index es []) row \<longleftrightarrow>
    (\<exists>attrs. dict_get (prepared_index es []) (jr_action_id row) = Some attrs \<and> row_prepared attrs row)
    \<and> jr_state row \<noteq> durable_value DS_Failed"
proof -
  obtain e where e: "e \<in> set es" "je_digest e = jr_journal_digest row" "je_event_type e = jr_state row"
      "je_action_id e = jr_action_id row"
    using ok by (auto simp: row_ok_def event_for_def)
  have "dict_get (digest_index es []) (jr_journal_digest row) = Some e"
    using digest_index_lookup [OF assms(2) e(1)] e(2) by simp
  moreover obtain r where r: "record_of_row jv row = Inr r"
      "dr_receipt r \<noteq> None \<longleftrightarrow> dr_state r \<in> {DS_Executed, DS_Failed}"
      "\<And>q. dr_receipt r = Some q \<Longrightarrow> rc_action_id q = jr_action_id row
          \<and> rc_action_digest q = jr_action_digest row \<and> rc_idempotency_key q = jr_idempotency_key row"
    using ok by (auto simp: row_ok_def row_stored_def)
  ultimately show ?thesis
    using e record_of_row_Inr [OF r(1)] by (auto simp: verify_row_def split: option.split)
qed

text \<open>The rows of a table, under their primary keys.\<close>

abbreviation rows :: "journal \<Rightarrow> journal_row list" where
  "rows j \<equiv> map snd (jn_records j)"

definition row_key :: "journal_row \<Rightarrow> string \<times> string" where
  "row_key row = (jr_source_id row, jr_idempotency_key row)"

lemma journal_row_ok:
  assumes "journal_ok jv C j" and "row \<in> set (rows j)"
  shows "row_ok jv C (jn_events j) (row_key row) row \<and> dict_get (jn_records j) (row_key row) = Some row"
proof -
  from assms(2) obtain k where "(k, row) \<in> set (jn_records j)" by auto
  with assms(1) have k: "dict_get (jn_records j) k = Some row" by (simp add: journal_ok_def dict_get_Some_in)
  with assms(1) have "row_ok jv C (jn_events j) k row" by (auto simp: journal_ok_def dest: dict_allD)
  with k show ?thesis by (auto simp: row_ok_def row_key_def)
qed

lemma lookup_row: "dict_get (jn_records j) k = Some row \<Longrightarrow> row \<in> set (rows j)"
  by (force dest: map_of_SomeD)

lemma rows_distinct:
  assumes "journal_ok jv C j"
  shows "distinct (map row_key (rows j))"
proof -
  have "row_key row = k" if "(k, row) \<in> set (jn_records j)" for k row
  proof -
    from that assms have "dict_get (jn_records j) k = Some row" by (simp add: journal_ok_def dict_get_Some_in)
    with assms have "row_ok jv C (jn_events j) k row" by (auto simp: journal_ok_def dest: dict_allD)
    then show ?thesis by (simp add: row_ok_def row_key_def)
  qed
  then have keys: "map row_key (rows j) = dict_keys (jn_records j)" by auto
  show ?thesis unfolding keys using assms unfolding journal_ok_def by blast
qed

definition prepared_in :: "journal \<Rightarrow> journal_row \<Rightarrow> bool" where
  "prepared_in j row \<longleftrightarrow> (\<exists>attrs. dict_get (prepared_index (jn_events j) []) (jr_action_id row) = Some attrs
     \<and> row_prepared attrs row)"

lemma unique_ids_prepared:
  assumes ok: "journal_ok jv C j" and unique: "distinct (map jr_action_id (rows j))" and row: "row \<in> set (rows j)"
  shows "prepared_in j row"
proof -
  from journal_row_ok [OF ok row] obtain e where "e \<in> set (jn_events j)" "prepares row e" by (auto simp: row_ok_def)
  then obtain attrs where attrs: "dict_get (prepared_index (jn_events j) []) (jr_action_id row) = Some attrs"
    using prepared_index_lookup by (fastforce simp: prepares_def)
  from prepared_index_in [OF this] obtain e' where e': "e' \<in> set (jn_events j)" "je_attributes e' = attrs"
      "je_event_type e' = durable_value DS_Prepared" "je_action_id e' = jr_action_id row" by blast
  with ok obtain k' row' where row': "dict_get (jn_records j) k' = Some row'" "prepares row' e'"
    unfolding journal_ok_def by blast
  have "jr_action_id row' = jr_action_id row" using row'(2) e'(4) by (simp add: prepares_def)
  with unique row lookup_row [OF row'(1)] have "row' = row" by (meson distinct_map inj_onD)
  with row'(2) e'(2) attrs show ?thesis by (auto simp: prepares_def prepared_in_def)
qed

lemma prepared_unique_ids:
  assumes ok: "journal_ok jv C j" and all: "\<forall>row \<in> set (rows j). prepared_in j row"
  shows "distinct (map jr_action_id (rows j))"
proof -
  have "row_key row = row_key row'" if "row \<in> set (rows j)" "row' \<in> set (rows j)" "jr_action_id row = jr_action_id row'"
    for row row'
  proof -
    from all that(1,2) have "prepared_in j row" "prepared_in j row'" by blast+
    with that(3) show ?thesis by (auto simp: prepared_in_def row_prepared_def row_key_def)
  qed
  with rows_distinct [OF ok] show ?thesis unfolding distinct_map inj_on_def by blast
qed

text \<open>
  C19. When \<open>verify\<close> accepts: after any sequence of journal calls whose receipts are about their own
  actions, whose times survive the journal, whose plan digests identify actions and whose event digests
  are distinct, the journal verifies if and only if no action id is used by two records and no record is
  in state failed.
\<close>

theorem journal_verifies_iff:
  fixes jv and cs :: "journal_call list"
  defines "j \<equiv> run_ops (journal_step jv) cs empty_journal"
  assumes "digests_identify (jv_prims jv) (set cs)" and "\<forall>c \<in> set cs. call_ok jv c"
    and "distinct (map je_digest (jn_events j))"
  shows "journal_verify jv j \<longleftrightarrow> distinct (map jr_action_id (rows j))
    \<and> list_all (\<lambda>row. jr_state row \<noteq> durable_value DS_Failed) (rows j)"
proof -
  have ok: "journal_ok jv (set cs) j" unfolding j_def using run_journal_ok assms(2,3) .
  have "verify_row jv (digest_index (jn_events j) []) (prepared_index (jn_events j) []) row
      \<longleftrightarrow> prepared_in j row \<and> jr_state row \<noteq> durable_value DS_Failed" if "row \<in> set (rows j)" for row
    using verify_row_iff [OF conjunct1 [OF journal_row_ok [OF ok that]] assms(4)] by (simp add: prepared_in_def)
  then have "journal_verify jv j \<longleftrightarrow>
      (\<forall>row \<in> set (rows j). prepared_in j row \<and> jr_state row \<noteq> durable_value DS_Failed)"
    using ok by (simp add: journal_verify_def scan_events_eq journal_ok_def list_all_iff)
  with unique_ids_prepared [OF ok] prepared_unique_ids [OF ok] show ?thesis by (auto simp: list_all_iff)
qed

text \<open>
  Where distinct digests come from: the events of a run are numbered consecutively, so their messages
  differ, and a hash that does not collide on them gives distinct digests.
\<close>

definition logs_one :: "journal_env \<Rightarrow> journal \<Rightarrow> journal \<Rightarrow> bool" where
  "logs_one jv j t \<longleftrightarrow> jn_events t = jn_events j
     \<or> (\<exists>ty a d attrs. jn_events t = jn_events j @ [next_event jv ty a d attrs (jn_events j)] \<and> json_wf (JObj attrs))"

lemma logs_oneI:
  "jn_events t = jn_events j @ [next_event jv ty a d attrs (jn_events j)] \<Longrightarrow> json_wf (JObj attrs) \<Longrightarrow> logs_one jv j t"
  "jn_events t = jn_events j \<Longrightarrow> logs_one jv j t"
  unfolding logs_one_def by blast+

lemma journal_step_logs: "logs_one jv j (journal_step jv c j)"
proof -
  have "logs_one jv j (snd (journal_prepare jv a d t j))" for a d t
  proof (cases "dict_get (jn_records j) (action_key a)")
    case None
    then show ?thesis
      by (intro logs_oneI(1) [where attrs = "prepared_attributes (jv_prims jv) a d"])
        (simp_all add: journal_prepare_def Let_def, simp add: prepared_attributes_def)
  next
    case (Some row)
    then show ?thesis by (intro logs_oneI(2)) (simp add: journal_prepare_def split: sum.split)
  qed
  moreover have "logs_one jv j (snd (journal_begin jv a t j))" for a t
  proof (cases "\<exists>row r. dict_get (jn_records j) (action_key a) = Some row \<and> record_of_row jv row = Inr r
      \<and> dr_action_digest r = plan_digest (jv_prims jv) a \<and> dr_state r = DS_Prepared")
    case True
    then obtain row r where "dict_get (jn_records j) (action_key a) = Some row" "record_of_row jv row = Inr r"
      "dr_action_digest r = plan_digest (jv_prims jv) a" "dr_state r = DS_Prepared" by blast
    then show ?thesis
      by (intro logs_oneI(1) [where attrs = "[(''source_id'', JStr (ap_source_id a)), (''attempt'', JInt (dr_attempts r + 1))]"])
        (simp_all add: journal_begin_def py_result_def Let_def)
  next
    case False
    then show ?thesis
      by (intro logs_oneI(2)) (auto simp: journal_begin_def py_result_def split: option.split sum.split)
  qed
  moreover have "logs_one jv j (snd (journal_finish jv a d r v t m j))" for a d r v t m
  proof (cases "\<exists>row. dict_get (jn_records j) (action_key a) = Some row \<and> jr_action_digest row = plan_digest (jv_prims jv) a")
    case True
    then show ?thesis
      by (intro logs_oneI(1) [where attrs = "finish_attributes a v m"])
        (auto simp: journal_finish_def Let_def finish_attributes_def split: option.split)
  next
    case False
    then show ?thesis by (intro logs_oneI(2)) (auto simp: journal_finish_def split: option.split)
  qed
  ultimately show ?thesis
    by (cases c) (simp_all add: journal_complete_def journal_fail_def journal_require_reconciliation_def)
qed

definition events_ok :: "journal_env \<Rightarrow> journal_event list \<Rightarrow> bool" where
  "events_ok jv es \<longleftrightarrow> journal_chain.chain_ok jv journal_genesis es
     \<and> (\<forall>n < length es. je_sequence (es ! n) = int (Suc n)) \<and> (\<forall>e \<in> set es. json_wf (JObj (je_attributes e)))"

lemma events_ok_next:
  assumes "events_ok jv es" and "json_wf (JObj attrs)"
  shows "events_ok jv (es @ [next_event jv ty a d attrs es])"
proof -
  have "je_sequence (last es) = int (length es)" if "es \<noteq> []"
    using assms(1) that by (simp add: events_ok_def last_conv_nth of_nat_diff Suc_leI)
  then have "je_sequence (next_event jv ty a d attrs es) = int (Suc (length es))"
    by (simp add: next_event_def Let_def)
  with assms next_event_chain show ?thesis by (auto simp: events_ok_def nth_append less_Suc_eq)
qed

lemma run_events_ok: "events_ok jv (jn_events (run_ops (journal_step jv) cs empty_journal))"
proof -
  have run: "events_ok jv (jn_events j) \<Longrightarrow> events_ok jv (jn_events (run_ops (journal_step jv) cs j))" for j
  proof (induction cs arbitrary: j)
    case (Cons c cs)
    have "events_ok jv (jn_events (journal_step jv c j))"
      using journal_step_logs [of jv j c] Cons.prems events_ok_next by (auto simp: logs_one_def)
    with Cons.IH show ?case by simp
  qed simp
  show ?thesis by (rule run) (simp add: events_ok_def empty_journal_def)
qed

lemma distinct_digests:
  assumes "events_ok jv es" and "\<And>m m'. journal_hash jv m = journal_hash jv m' \<Longrightarrow> m = m'"
  shows "distinct (map je_digest es)"
proof -
  have message: "je_digest e = journal_hash jv (event_message (je_previous_digest e) e)" if "e \<in> set es" for e
    using assms(1) that unfolding events_ok_def by (metis journal_chain.chain_ok_digest)
  have "je_sequence e = je_sequence f" if "e \<in> set es" "f \<in> set es" "je_digest e = je_digest f" for e f
  proof -
    from that message assms(2) have "event_message (je_previous_digest e) e = event_message (je_previous_digest f) f"
      by metis
    with assms(1) that journal_chain.message_inj show ?thesis by (fastforce simp: events_ok_def event_content_def)
  qed
  moreover have "distinct (map je_sequence es)" using assms(1) by (auto simp: events_ok_def distinct_conv_nth)
  ultimately show ?thesis unfolding distinct_map inj_on_def by blast
qed

section \<open>A journal run\<close>

definition sample_journal_env :: journal_env where
  "sample_journal_env = \<lparr>jv_prims = sample_prims\<lparr>pr_hmac_sha256 := (\<lambda>k m. m)\<rparr>, jv_fromisoformat = (\<lambda>s. Some (utc 0)),
     jv_integrity_key = ''0123456789abcdef''\<rparr>"

definition sample_receipt :: "string \<Rightarrow> action_state \<Rightarrow> mutation_receipt" where
  "sample_receipt key st = \<lparr>rc_receipt_id = ''r1'', rc_action_id = ''a1'', rc_action_digest = ''sha256:d'',
     rc_idempotency_key = key, rc_state = st, rc_started_at = utc 0, rc_completed_at = utc 0,
     rc_source_version = ''v2'', rc_policy_decision_id = ''d1'', rc_audit_digest = ''sha256:d'',
     rc_compensation_of = None\<rparr>"

lemma sample_journal_env_simps [simp]:
  "jv_prims sample_journal_env = sample_prims\<lparr>pr_hmac_sha256 := (\<lambda>k m. m)\<rparr>"
  "plan_digest (sample_prims\<lparr>pr_hmac_sha256 := h\<rparr>) a = ''sha256:d''"
  by (simp_all add: sample_journal_env_def plan_digest_def digest_of_def sample_prims_def)

lemma sample_times [simp]: "time_ok sample_journal_env (utc 0)"
    "receipt_times_ok sample_journal_env (sample_receipt key st)"
  by (simp_all add: time_ok_def receipt_times_ok_def sample_receipt_def sample_journal_env_def)

lemma sample_parse_time [simp]: "parse_time sample_journal_env t = Inr (utc 0)"
  by (simp add: parse_time_def sample_journal_env_def)

definition sample_calls :: "bool \<Rightarrow> journal_call list" where
  "sample_calls ok = [J_Prepare (sample_action ''k1'') ''d1'' (utc 0), J_Begin (sample_action ''k1'') (utc 0),
     if ok then J_Complete (sample_action ''k1'') (sample_receipt ''k1'' AS_Executed) (utc 0)
     else J_Fail (sample_action ''k1'') (sample_receipt ''k1'' AS_Failed) (utc 0)]"

lemma sample_journal_rows:
  "map (\<lambda>row. (jr_action_id row, jr_state row)) (rows (run_ops (journal_step sample_journal_env) (sample_calls ok) empty_journal))
     = [(''a1'', durable_value (if ok then DS_Executed else DS_Failed))]"
  by (simp add: sample_calls_def empty_journal_def journal_prepare_def journal_begin_def journal_complete_def
      journal_fail_def journal_finish_def Let_def prepared_row_def record_of_row_def py_result_def)
    (simp add: sample_action_def)

theorem journal_verifies_iff_witness:
  "journal_verify sample_journal_env (run_ops (journal_step sample_journal_env) (sample_calls True) empty_journal)
   \<and> \<not> journal_verify sample_journal_env (run_ops (journal_step sample_journal_env) (sample_calls False) empty_journal)"
proof -
  have "journal_verify sample_journal_env (run_ops (journal_step sample_journal_env) (sample_calls ok) empty_journal) \<longleftrightarrow> ok"
    (is "journal_verify _ ?j \<longleftrightarrow> ok") for ok
  proof -
    have "digests_identify (jv_prims sample_journal_env) (set (sample_calls ok))"
      by (simp add: digests_identify_def sample_calls_def)
    moreover have "\<forall>c \<in> set (sample_calls ok). call_ok sample_journal_env c"
      by (simp add: sample_calls_def call_ok_def) (simp add: sample_receipt_def sample_action_def)
    moreover have "distinct (map je_digest (jn_events ?j))"
      by (rule distinct_digests [OF run_events_ok]) (simp add: journal_hash_def sample_journal_env_def)
    ultimately have "journal_verify sample_journal_env ?j \<longleftrightarrow> distinct (map jr_action_id (rows ?j))
        \<and> list_all (\<lambda>row. jr_state row \<noteq> durable_value DS_Failed) (rows ?j)"
      by (rule journal_verifies_iff)
    with sample_journal_rows [of ok] show ?thesis by (cases "rows ?j") (auto split: if_splits)
  qed
  from this [of True] this [of False] show ?thesis by simp
qed

lemma completed_action_reads_back_example:
  "\<exists>r t. journal_get sample_journal_env ''lab.mutable'' ''k1'' t = (Inr (Some r), t)
     \<and> dr_receipt r = Some (sample_receipt ''k1'' AS_Executed)"
proof -
  let ?j = "run_ops (journal_step sample_journal_env) (take 2 (sample_calls True)) empty_journal"
  obtain x t where xt: "journal_complete sample_journal_env (sample_action ''k1'') (sample_receipt ''k1'' AS_Executed) (utc 0) ?j
      = (x, t)" by force
  then have "\<exists>r. x = Inr r"
    by (auto simp: sample_calls_def empty_journal_def journal_prepare_def journal_begin_def journal_complete_def
      journal_finish_def Let_def prepared_row_def record_of_row_def py_result_def reread_def sm_bind_def journal_get_def
      action_key_def stored_receipt_contract [of sample_journal_env, simplified])
  then obtain r where "x = Inr r" ..
  with completed_action_reads_back [OF xt [unfolded this]] show ?thesis
    by (intro exI [of _ r] exI [of _ t]) (simp add: sample_action_def)
qed

end
