(* ===== verification/Durable_Gateway.thy ===== *)
theory Durable_Gateway
  imports Action_Journal
begin

text \<open>
  DurableActionGateway of durability.py: the gateway of actions.py with \<open>execute\<close> overridden to write the
  journal ahead of the dispatch, and \<open>reconcile\<close>, which asks the source. The environment adds the hook
  run after a mutation, the connectors' optional \<open>reconcile\<close> and the key of the journal.
\<close>

record durable_env =
  dx_action :: action_env
  dx_fromisoformat :: "string \<Rightarrow> datetime option"
  dx_integrity_key :: string
  dx_after_mutation :: "(nat \<Rightarrow> action_plan \<Rightarrow> (string, json) dict \<Rightarrow> ext_error option) option"
  dx_reconcile :: "string \<Rightarrow> (nat \<Rightarrow> mutation_request \<Rightarrow> ext_error + json) option"

definition dx_journal :: "durable_env \<Rightarrow> journal_env" where
  "dx_journal env = \<lparr>jv_prims = ax_prims (dx_action env), jv_fromisoformat = dx_fromisoformat env,
     jv_integrity_key = dx_integrity_key env\<rparr>"

record durable_gateway_state = gateway_state +
  dst_journal :: journal

type_synonym 'a durable_op_of = "(durable_gateway_state, action_error, 'a) sm"

definition in_journal :: "'a journal_op \<Rightarrow> 'a durable_op_of" where
  "in_journal m s = (case m (dst_journal s) of (r, j) \<Rightarrow> (r, s\<lparr>dst_journal := j\<rparr>))"

section \<open>Execution\<close>

definition run_hook :: "durable_env \<Rightarrow> action_plan \<Rightarrow> (string, json) dict \<Rightarrow> ext_error option durable_op_of" where
  "run_hook env a result =
     (case dx_after_mutation env of
        None \<Rightarrow> sm_return None
      | Some hook \<Rightarrow> sm_bind next_tick (\<lambda>n. sm_return (hook n a result)))"

definition outcome_unknown ::
  "durable_env \<Rightarrow> action_plan \<Rightarrow> request_identity \<Rightarrow> mutation_receipt durable_op_of" where
  "outcome_unknown env a identity =
     sm_bind (current_time (dx_action env)) (\<lambda>now.
     sm_bind (in_journal (journal_require_reconciliation (dx_journal env) a now
       ''outcome-unknown-after-dispatch'')) (\<lambda>_.
     sm_bind (emit_stage (dx_action env) ''reconciliation-required'' a identity []) (\<lambda>_.
     sm_raise (Ax_Outcome_Unknown ''source outcome is unknown for action; reconcile before retry''))))"

definition durable_settled :: "durable_env \<Rightarrow> action_plan \<Rightarrow> request_identity \<Rightarrow> (string, json) dict
    \<Rightarrow> mutation_receipt \<Rightarrow> mutation_receipt durable_op_of" where
  "durable_settled env a identity result receipt =
     (if \<not> result_success result
      then sm_bind (in_journal (journal_fail (dx_journal env) a receipt (rc_completed_at receipt))) (\<lambda>_.
           sm_bind (emit_stage (dx_action env) (action_state_value (rc_state receipt)) a identity
             [(''source_version'', JStr (rc_source_version receipt))]) (\<lambda>_.
           sm_raise (Ax_Execution_Failed receipt)))
      else sm_bind (in_journal (journal_complete (dx_journal env) a receipt (rc_completed_at receipt))) (\<lambda>_.
           sm_bind (emit_stage (dx_action env) (action_state_value (rc_state receipt)) a identity
             [(''source_version'', JStr (rc_source_version receipt))]) (\<lambda>_.
           sm_return receipt)))"

definition durable_answered :: "durable_env \<Rightarrow> action_plan \<Rightarrow> request_identity \<Rightarrow> policy_decision \<Rightarrow> datetime
    \<Rightarrow> ext_error + json \<Rightarrow> mutation_receipt durable_op_of" where
  \<comment> \<open>everything after the awaited \<open>connector.mutate\<close>\<close>
  "durable_answered env a identity decision now answer =
     (case answer of
        Inl Ext_Cancelled \<Rightarrow> sm_raise (Ax_External Ext_Cancelled)
      | Inr (JObj result) \<Rightarrow>
          sm_bind (run_hook env a result) (\<lambda>failed.
          case failed of
            Some Ext_Cancelled \<Rightarrow> sm_raise (Ax_External Ext_Cancelled)
          | Some _ \<Rightarrow> outcome_unknown env a identity
          | None \<Rightarrow> sm_bind (settle (dx_action env) a decision now result) (durable_settled env a identity result))
      | _ \<Rightarrow> outcome_unknown env a identity)"

definition durable_dispatch :: "durable_env \<Rightarrow> action_plan \<Rightarrow> request_identity \<Rightarrow> policy_decision \<Rightarrow> datetime
    \<Rightarrow> mutation_receipt durable_op_of" where
  "durable_dispatch env a identity decision now =
     sm_bind (in_journal (journal_begin (dx_journal env) a now)) (\<lambda>_.
     sm_bind (registry_lookup (dx_action env) (ap_source_id a)) (\<lambda>_.
     sm_bind (send_mutation (dx_action env) a) (durable_answered env a identity decision now)))"

definition stored_result :: "durable_record \<Rightarrow> mutation_receipt option" where
  \<comment> \<open>\<open>record.state is EXECUTED and record.receipt is not None\<close>\<close>
  "stored_result r = (if dr_state r = DS_Executed then dr_receipt r else None)"

definition durable_execute :: "durable_env \<Rightarrow> action_plan \<Rightarrow> action_preview \<Rightarrow> request_identity
    \<Rightarrow> action_approval option \<Rightarrow> mutation_receipt durable_op_of" where
  "durable_execute env a v identity approval =
     sm_bind (check_action (dx_action env) a v identity approval) (\<lambda>(now, decision).
     sm_bind (in_journal (journal_prepare (dx_journal env) a (pd_decision_id decision) now)) (\<lambda>record.
     case stored_result record of
       Some receipt \<Rightarrow> replay_receipt (dx_action env) a identity receipt now
     | None \<Rightarrow> durable_dispatch env a identity decision now))"

definition durable_compensate :: "durable_env \<Rightarrow> action_plan \<Rightarrow> mutation_receipt \<Rightarrow> request_identity
    \<Rightarrow> action_approval option \<Rightarrow> mutation_receipt durable_op_of" where
  "durable_compensate env = compensate_with (durable_execute env) (dx_action env)"

section \<open>Reconciliation\<close>

definition source_proves :: "ext_error + json \<Rightarrow> bool" where
  "source_proves answer = (case answer of
     Inr (JObj result) \<Rightarrow> result_get result ''applied'' = JBool True \<and> result_get result ''postconditions_met'' = JBool True
   | _ \<Rightarrow> False)"

definition ask_source :: "durable_env \<Rightarrow> action_plan \<Rightarrow> (ext_error + json) durable_op_of" where
  "ask_source env a =
     (case dx_reconcile env (ap_source_id a) of
        None \<Rightarrow> sm_raise (Ax_Outcome_Unknown ''connector does not expose source idempotency reconciliation'')
      | Some ask \<Rightarrow> sm_bind next_tick (\<lambda>n. sm_return (ask n
          [(''action_id'', JStr (ap_action_id a)), (''idempotency_key'', JStr (ap_idempotency_key a)),
           (''action_digest'', JStr (plan_digest (ax_prims (dx_action env)) a))])))"

definition recovered_receipt :: "prims \<Rightarrow> action_plan \<Rightarrow> datetime \<Rightarrow> datetime \<Rightarrow> string \<Rightarrow> policy_decision
    \<Rightarrow> audit_entry \<Rightarrow> mutation_receipt" where
  "recovered_receipt p a started completed version decision audit =
     \<lparr>rc_receipt_id = ''receipt:'' @ ap_action_id a @ '':recovered'', rc_action_id = ap_action_id a,
      rc_action_digest = plan_digest p a, rc_idempotency_key = ap_idempotency_key a,
      rc_state = AS_Recovered, rc_started_at = started, rc_completed_at = completed,
      rc_source_version = version, rc_policy_decision_id = pd_decision_id decision,
      rc_audit_digest = ae_digest audit, rc_compensation_of = None\<rparr>"

definition recover :: "durable_env \<Rightarrow> action_plan \<Rightarrow> request_identity \<Rightarrow> policy_decision \<Rightarrow> durable_record
    \<Rightarrow> (string, json) dict \<Rightarrow> mutation_receipt durable_op_of" where
  "recover env a identity decision record result =
     sm_bind (current_time (dx_action env)) (\<lambda>completed.
     let version = result_version (ax_prims (dx_action env)) result
     in sm_bind (audit_event (dx_action env) (action_state_value AS_Recovered) (ap_action_id a) completed
          [(''source_version'', JStr version)]) (\<lambda>audit.
        let receipt = recovered_receipt (ax_prims (dx_action env)) a (dr_started_at record) completed version decision audit
        in sm_bind (in_journal (journal_complete (dx_journal env) a receipt completed)) (\<lambda>_.
           sm_bind (emit_stage (dx_action env) ''recovered'' a identity [(''source_version'', JStr version)]) (\<lambda>_.
           sm_return receipt))))"

definition reconcile_pending :: "durable_env \<Rightarrow> action_plan \<Rightarrow> request_identity \<Rightarrow> policy_decision
    \<Rightarrow> durable_record \<Rightarrow> mutation_receipt durable_op_of" where
  "reconcile_pending env a identity decision record =
     sm_bind (registry_lookup (dx_action env) (ap_source_id a)) (\<lambda>_.
     sm_bind (ask_source env a) (\<lambda>answer.
     case answer of
       Inl x \<Rightarrow> sm_raise (Ax_External x)
     | Inr value \<Rightarrow>
         if \<not> source_proves answer
         then sm_bind (current_time (dx_action env)) (\<lambda>now.
              sm_bind (in_journal (journal_require_reconciliation (dx_journal env) a now
                ''source-outcome-unresolved'')) (\<lambda>_.
              sm_raise (Ax_Outcome_Unknown ''source could not prove whether the action was applied'')))
         else recover env a identity decision record (case value of JObj result \<Rightarrow> result | _ \<Rightarrow> [])))"

definition durable_reconcile ::
  "durable_env \<Rightarrow> action_plan \<Rightarrow> request_identity \<Rightarrow> mutation_receipt durable_op_of" where
  "durable_reconcile env a identity =
     sm_bind (authorize_action (dx_action env) a identity ''reconcile'') (\<lambda>decision.
     sm_bind (sm_guard (pd_allowed decision) (Ax_Denied decision)) (\<lambda>_.
     sm_bind (in_journal (journal_get (dx_journal env) (ap_source_id a) (ap_idempotency_key a))) (\<lambda>found.
     case found of
       None \<Rightarrow> sm_raise (Ax_Idempotency_Conflict ''durable action binding is missing or mismatched'')
     | Some record \<Rightarrow>
         if dr_action_digest record \<noteq> plan_digest (ax_prims (dx_action env)) a
         then sm_raise (Ax_Idempotency_Conflict ''durable action binding is missing or mismatched'')
         else (case stored_result record of
                 Some receipt \<Rightarrow> sm_return receipt
               | None \<Rightarrow>
                   if dr_state record \<notin> {DS_Executing, DS_Reconciliation_Required}
                   then sm_raise (Ax_Outcome_Unknown ''action state cannot be reconciled as successful'')
                   else reconcile_pending env a identity decision record))))"

section \<open>Runs, with restarts of the process\<close>

datatype durable_op =
    Du_Preview action_plan request_identity timedelta
  | Du_Execute action_plan action_preview request_identity "action_approval option"
  | Du_Compensate action_plan mutation_receipt request_identity "action_approval option"
  | Du_Reconcile action_plan request_identity
  | Du_Restart

primrec durable_step :: "durable_env \<Rightarrow> durable_op \<Rightarrow> durable_gateway_state \<Rightarrow> durable_gateway_state" where
  "durable_step env (Du_Preview a i ttl) s = snd (preview_action (dx_action env) a i ttl s)"
| "durable_step env (Du_Execute a v i ap) s = snd (durable_execute env a v i ap s)"
| "durable_step env (Du_Compensate a r i ap) s = snd (durable_compensate env a r i ap s)"
| "durable_step env (Du_Reconcile a i) s = snd (durable_reconcile env a i s)"
| "durable_step env Du_Restart s = s\<lparr>gst_audit := []\<rparr>"

definition durable_start :: durable_gateway_state where
  "durable_start = \<lparr>gst_audit = [], gst_tick = 0, gst_dispatches = [], dst_journal = empty_journal\<rparr>"

section \<open>How the journal tracks the sources\<close>

abbreviation journal_row_of :: "durable_gateway_state \<Rightarrow> string \<times> string \<Rightarrow> journal_row option" where
  "journal_row_of s \<equiv> dict_get (jn_records (dst_journal s))"

text \<open>
  A key without a record, or whose record is only prepared, has never been sent; any other has been sent
  at most once; an executed record holds a receipt.
\<close>

definition key_tracked :: "journal_row option \<Rightarrow> dispatch list \<Rightarrow> bool" where
  "key_tracked row sent \<longleftrightarrow> length sent \<le> 1
     \<and> (case row of None \<Rightarrow> sent = []
        | Some r \<Rightarrow> (jr_state r = durable_value DS_Prepared \<longrightarrow> sent = [])
            \<and> (jr_state r = durable_value DS_Executed \<longrightarrow> (\<exists>v. jr_receipt_json r = Some v \<and> json_truthy v)))"

definition tracked :: "durable_gateway_state \<Rightarrow> bool" where
  "tracked s \<longleftrightarrow> (\<forall>k. key_tracked (journal_row_of s k) (sends_to s k))"

definition row_started :: "journal_row option \<Rightarrow> bool" where
  "row_started row \<longleftrightarrow> (case row of None \<Rightarrow> False | Some r \<Rightarrow> jr_state r \<noteq> durable_value DS_Prepared)"

definition row_executed :: "journal_row option \<Rightarrow> bool" where
  "row_executed row \<longleftrightarrow> (case row of None \<Rightarrow> False | Some r \<Rightarrow> jr_state r = durable_value DS_Executed)"

lemma row_simps [simp]:
  "\<not> row_started None" "row_started (Some r) \<longleftrightarrow> jr_state r \<noteq> durable_value DS_Prepared"
  "\<not> row_executed None" "row_executed (Some r) \<longleftrightarrow> jr_state r = durable_value DS_Executed"
  by (simp_all add: row_started_def row_executed_def)

lemma executed_started: "row_executed row \<Longrightarrow> row_started row"
  by (cases row) simp_all

text \<open>
  What every operation respects: a key that was sent is not sent again, and an executed record stays as it
  is; and what the writes after the decision respect, which touch one record and send nothing.
\<close>

definition durable_le :: "durable_gateway_state \<Rightarrow> durable_gateway_state \<Rightarrow> bool" where
  "durable_le s t \<longleftrightarrow> (tracked s \<longrightarrow> tracked t \<and> (\<forall>k. row_started (journal_row_of s k) \<longrightarrow>
     row_started (journal_row_of t k) \<and> sends_to t k = sends_to s k
     \<and> (row_executed (journal_row_of s k) \<longrightarrow> journal_row_of t k = journal_row_of s k)))"

definition settles :: "string \<times> string \<Rightarrow> durable_gateway_state \<Rightarrow> durable_gateway_state \<Rightarrow> bool" where
  "settles k s t \<longleftrightarrow> (tracked s \<longrightarrow> tracked t) \<and> gst_dispatches t = gst_dispatches s
     \<and> (\<forall>k'. k' \<noteq> k \<longrightarrow> journal_row_of t k' = journal_row_of s k')
     \<and> (row_started (journal_row_of s k) \<longrightarrow> row_started (journal_row_of t k))"

lemma durable_le_refl [simp]: "durable_le s s"
  by (simp add: durable_le_def)

lemma durable_le_trans: "durable_le s t \<Longrightarrow> durable_le t u \<Longrightarrow> durable_le s u"
  unfolding durable_le_def by (metis executed_started)

lemma durable_leD:
  assumes "durable_le s t" and "tracked s" and "row_started (journal_row_of s k)"
  shows "row_started (journal_row_of t k)" and "sends_to t k = sends_to s k"
    and "row_executed (journal_row_of s k) \<Longrightarrow> journal_row_of t k = journal_row_of s k"
  using assms unfolding durable_le_def by blast+

lemma durable_orders [simp, intro]:
  "reflp durable_le" "transp durable_le" "reflp (settles k)" "transp (settles k)"
proof -
  show "reflp durable_le" "reflp (settles k)" by (simp_all add: reflp_def settles_def)
  show "transp durable_le" by (rule transpI) (rule durable_le_trans)
  show "transp (settles k)" by (rule transpI) (auto simp: settles_def)
qed

lemma keeps_journal: "keeps s t \<Longrightarrow> dst_journal t = dst_journal (s :: durable_gateway_state)"
  by (cases s; cases t) (simp add: keeps_def)

lemma keeps_sends: "keeps s t \<Longrightarrow> sends_to t k = sends_to s k"
  by (simp add: keeps_def sends_to_def)

lemma keeps_is_tracked: "keeps s t \<Longrightarrow> tracked s \<longleftrightarrow> tracked t"
  using keeps_journal [of s t] keeps_sends [of s t] by (simp add: tracked_def)

lemma keeps_settles: "keeps s t \<Longrightarrow> settles k s t"
  using keeps_is_tracked [of s t] keeps_journal [of s t] by (simp add: settles_def keeps_def)

lemma keeps_le: "keeps s t \<Longrightarrow> durable_le s t"
  using keeps_is_tracked [of s t] keeps_journal [of s t] keeps_sends [of s t] by (simp add: durable_le_def)

lemma quiet_settles [intro]: "quiet m \<Longrightarrow> sm_rel (settles k) m"
  by (auto simp: sm_rel_def intro: keeps_settles)

lemma quiet_durable_le [intro]: "quiet m \<Longrightarrow> sm_rel durable_le m"
  by (auto simp: sm_rel_def intro: keeps_le)

lemma settles_sends: "settles k s t \<Longrightarrow> sends_to t k' = sends_to s k'"
  by (simp add: settles_def sends_to_def)

lemma settles_le:
  assumes "settles k s t" and "\<not> row_executed (journal_row_of s k)"
  shows "durable_le s t"
  using assms settles_sends [OF assms(1)] unfolding durable_le_def settles_def by metis

lemma trackedD: "tracked s \<Longrightarrow> key_tracked (journal_row_of s k) (sends_to s k)"
  unfolding tracked_def by blast

text \<open>Writing one record of the journal and sending nothing.\<close>

lemma in_journal_eq:
  "in_journal m s = (r, t) \<longleftrightarrow> (\<exists>j. m (dst_journal s) = (r, j) \<and> t = s\<lparr>dst_journal := j\<rparr>)"
  by (auto simp: in_journal_def split: prod.splits)

lemma sends_to_journal [simp]: "sends_to (s\<lparr>dst_journal := j\<rparr>) k = sends_to s k"
  by (simp add: sends_to_def)

lemma tracked_write:
  assumes "tracked s" and "jn_records j = dict_set k row (jn_records (dst_journal s))"
    and "key_tracked (Some row) (sends_to s k)"
  shows "tracked (s\<lparr>dst_journal := j\<rparr>)"
  using assms by (simp add: tracked_def)

lemma tracked_same:
  "tracked s \<Longrightarrow> jn_records j = jn_records (dst_journal s) \<Longrightarrow> tracked (s\<lparr>dst_journal := j\<rparr>)"
  by (simp add: tracked_def)

text \<open>What each write does to the records.\<close>

lemma reread_journal: "reread jv a j = (r, t) \<Longrightarrow> t = j"
  using reread_state [of jv a j] by simp

lemma prepare_records:
  assumes "journal_prepare jv a d now j = (r, t)"
  shows "jn_records t = jn_records j \<or> (dict_get (jn_records j) (action_key a) = None
    \<and> (\<exists>row. jn_records t = dict_set (action_key a) row (jn_records j) \<and> jr_state row = durable_value DS_Prepared))"
proof (cases "dict_get (jn_records j) (action_key a)")
  case None
  let ?row = "prepared_row jv a d now (je_digest (next_event jv (durable_value DS_Prepared) (ap_action_id a) now
                     (prepared_attributes (jv_prims jv) a d) (jn_events j)))"
  have "jn_records t = dict_set (action_key a) ?row (jn_records j)"
    using assms None by (auto simp: journal_prepare_def Let_def dest!: reread_journal)
  moreover have "jr_state ?row = durable_value DS_Prepared" by (simp add: prepared_row_def)
  ultimately show ?thesis using None by blast
next
  case (Some row)
  with assms show ?thesis by (auto simp: journal_prepare_def split: sum.splits if_splits)
qed

lemma prepare_returns:
  assumes "journal_prepare jv a d now j = (Inr r, t)"
  shows "\<exists>row. dict_get (jn_records t) (action_key a) = Some row \<and> record_of_row jv row = Inr r"
proof (cases "dict_get (jn_records j) (action_key a)")
  case None
  with assms show ?thesis by (auto simp: journal_prepare_def Let_def reread_Inr)
next
  case (Some row)
  with assms show ?thesis
    by (cases "record_of_row jv row") (auto simp: journal_prepare_def py_result_def split: if_splits)
qed

lemma begin_cases:
  assumes "journal_begin jv a now j = (x, t)"
  obtains (refused) e where "x = Inl e" "t = j"
  | (kept) row r where "dict_get (jn_records j) (action_key a) = Some row" "record_of_row jv row = Inr r"
      "dr_state r = DS_Executed" "x = Inr r" "t = j"
  | (begun) row row' where "dict_get (jn_records j) (action_key a) = Some row"
      "jr_state row = durable_value DS_Prepared" "jn_records t = dict_set (action_key a) row' (jn_records j)"
      "jr_state row' = durable_value DS_Executing"
proof (cases "dict_get (jn_records j) (action_key a)")
  case None
  with assms refused show ?thesis by (auto simp: journal_begin_def)
next
  case (Some row)
  note Row = this
  show ?thesis
  proof (cases "record_of_row jv row")
    case (Inl e)
    with assms Row refused show ?thesis by (auto simp: journal_begin_def py_result_def)
  next
    case (Inr r)
    from record_of_row_Inr [OF Inr] have st: "jr_state row = durable_value (dr_state r)" by blast
    let ?e = "next_event jv (durable_value DS_Executing) (ap_action_id a) now
                           [(''source_id'', JStr (ap_source_id a)), (''attempt'', JInt (dr_attempts r + 1))]
                           (jn_events j)"
    let ?row' = "row\<lparr>jr_state := durable_value DS_Executing, jr_updated_at := pr_isoformat (jv_prims jv) now,
                    jr_attempts := dr_attempts r + 1, jr_journal_digest := je_digest ?e\<rparr>"
    consider "dr_action_digest r \<noteq> plan_digest (jv_prims jv) a"
      | "dr_action_digest r = plan_digest (jv_prims jv) a" "dr_state r = DS_Executed"
      | "dr_action_digest r = plan_digest (jv_prims jv) a" "dr_state r = DS_Prepared"
      | "dr_action_digest r = plan_digest (jv_prims jv) a" "dr_state r \<notin> {DS_Executed, DS_Prepared}"
      by blast
    then show ?thesis
    proof cases
      case 3
      have "jn_records t = dict_set (action_key a) ?row' (jn_records j)"
        using assms Row Inr 3 by (auto simp: journal_begin_def py_result_def Let_def dest!: reread_journal)
      then show ?thesis using begun [OF Row] st 3 by simp
    next
      case 2
      then have "x = Inr r" "t = j" using assms Row Inr by (simp_all add: journal_begin_def py_result_def)
      with kept [OF Row Inr] 2 show ?thesis by blast
    next
      case 1
      then have "x = Inl (Ax_Idempotency_Conflict ''idempotency key was already bound to another action'')" "t = j"
        using assms Row Inr by (simp_all add: journal_begin_def py_result_def)
      then show ?thesis by (rule refused)
    next
      case 4
      then have "x = Inl (Ax_Outcome_Unknown ''action state forbids automatic replay'')" "t = j"
        using assms Row Inr by (simp_all add: journal_begin_def py_result_def)
      then show ?thesis by (rule refused)
    qed
  qed
qed

lemma finish_records:
  assumes "journal_finish jv a d receipt v now m j = (r, t)"
  shows "jn_records t = jn_records j
    \<or> (\<exists>row. jn_records t = dict_set (action_key a) row (jn_records j) \<and> jr_state row = durable_value d
        \<and> jr_receipt_json row = map_option (\<lambda>r. JObj (receipt_contract (jv_prims jv) r)) receipt)"
proof (cases "\<exists>row. dict_get (jn_records j) (action_key a) = Some row \<and> jr_action_digest row = plan_digest (jv_prims jv) a")
  case True
  then obtain row where row: "dict_get (jn_records j) (action_key a) = Some row"
      "jr_action_digest row = plan_digest (jv_prims jv) a" by blast
  let ?e = "next_event jv (durable_value d) (ap_action_id a) now (finish_attributes a v m) (jn_events j)"
  let ?row' = "row\<lparr>jr_state := durable_value d, jr_updated_at := pr_isoformat (jv_prims jv) now,
      jr_source_version := v, jr_receipt_json := map_option (\<lambda>r. JObj (receipt_contract (jv_prims jv) r)) receipt,
      jr_journal_digest := je_digest ?e\<rparr>"
  have "jn_records t = dict_set (action_key a) ?row' (jn_records j)"
    using assms row by (auto simp: journal_finish_def Let_def dest!: reread_journal)
  then show ?thesis by (intro disjI2 exI [of _ ?row']) simp
next
  case False
  with assms show ?thesis by (auto simp: journal_finish_def split: option.splits if_splits)
qed

text \<open>The writes that end an action touch one record, which they leave started.\<close>

lemma receipt_contract_truthy [simp]: "json_truthy (JObj (receipt_contract p r))"
  by (simp add: json_truthy_def receipt_contract_def)

lemma finish_settles:
  assumes "d \<noteq> DS_Prepared" and "d = DS_Executed \<Longrightarrow> receipt \<noteq> None"
  shows "sm_rel (settles (action_key a)) (in_journal (journal_finish jv a d receipt v now m))"
proof (rule sm_relI)
  fix s :: durable_gateway_state
  obtain r j where j: "journal_finish jv a d receipt v now m (dst_journal s) = (r, j)" by force
  from finish_records [OF j] have "settles (action_key a) s (s\<lparr>dst_journal := j\<rparr>)"
  proof (elim disjE conjE exE)
    assume "jn_records j = jn_records (dst_journal s)"
    then show ?thesis by (simp add: settles_def tracked_same)
  next
    fix row assume row: "jn_records j = dict_set (action_key a) row (jn_records (dst_journal s))"
      "jr_state row = durable_value d" "jr_receipt_json row = map_option (\<lambda>r. JObj (receipt_contract (jv_prims jv) r)) receipt"
    have "tracked (s\<lparr>dst_journal := j\<rparr>)" if s: "tracked s"
    proof (rule tracked_write [OF s row(1)])
      from trackedD [OF s, of "action_key a"] have "length (sends_to s (action_key a)) \<le> 1" by (simp add: key_tracked_def)
      with row assms show "key_tracked (Some row) (sends_to s (action_key a))" by (auto simp: key_tracked_def)
    qed
    with row assms(1) show ?thesis by (simp add: settles_def)
  qed
  then show "settles (action_key a) s (snd (in_journal (journal_finish jv a d receipt v now m) s))"
    by (simp add: in_journal_def j)
qed

lemma complete_settles [intro]: "sm_rel (settles (action_key a)) (in_journal (journal_complete jv a r now))"
  and fail_settles [intro]: "sm_rel (settles (action_key a)) (in_journal (journal_fail jv a r now))"
  and require_settles [intro]: "sm_rel (settles (action_key a)) (in_journal (journal_require_reconciliation jv a now m))"
  unfolding journal_complete_def journal_fail_def journal_require_reconciliation_def
  by (rule finish_settles; simp)+

lemmas settles_parts =
  complete_settles fail_settles require_settles
  quiet_settles [OF quiet_simple(1)] quiet_settles [OF quiet_simple(2)] quiet_settles [OF quiet_current_time]
  quiet_settles [OF quiet_next_tick] quiet_settles [OF quiet_settle] quiet_settles [OF quiet_emit_stage]
  quiet_settles [OF quiet_audit_event] quiet_settles [OF quiet_registry_lookup]

lemma outcome_unknown_settles: "sm_rel (settles (action_key a)) (outcome_unknown env a i)"
  unfolding outcome_unknown_def by (intro sm_rel_bind settles_parts) simp_all

lemma durable_settled_settles: "sm_rel (settles (action_key a)) (durable_settled env a i result receipt)"
  unfolding durable_settled_def by (auto intro!: sm_rel_bind settles_parts)

lemma durable_answered_settles: "sm_rel (settles (action_key a)) (durable_answered env a i d now answer)"
  unfolding durable_answered_def run_hook_def
  by (auto split: sum.split ext_error.split json.split option.split
      intro!: sm_rel_bind settles_parts outcome_unknown_settles durable_settled_settles)

lemma get_keeps: "quiet (in_journal (journal_get jv x k))"
proof (rule sm_relI)
  fix s :: durable_gateway_state
  obtain r j where "journal_get jv x k (dst_journal s) = (r, j)" by force
  with journal_get_state [of jv x k "dst_journal s"] show "keeps s (snd (in_journal (journal_get jv x k) s))"
    by (simp add: in_journal_def)
qed

lemma prepare_le: "sm_rel durable_le (in_journal (journal_prepare jv a d now))"
proof (rule sm_relI)
  fix s :: durable_gateway_state
  obtain r j where j: "journal_prepare jv a d now (dst_journal s) = (r, j)" by force
  from prepare_records [OF j] have "durable_le s (s\<lparr>dst_journal := j\<rparr>)"
  proof (elim disjE conjE exE)
    assume "jn_records j = jn_records (dst_journal s)"
    then show ?thesis by (simp add: durable_le_def tracked_same)
  next
    fix row assume new: "journal_row_of s (action_key a) = None"
      and row: "jn_records j = dict_set (action_key a) row (jn_records (dst_journal s))" "jr_state row = durable_value DS_Prepared"
    have "tracked (s\<lparr>dst_journal := j\<rparr>)" if s: "tracked s"
    proof (rule tracked_write [OF s row(1)])
      from trackedD [OF s, of "action_key a"] new have "sends_to s (action_key a) = []" by (simp add: key_tracked_def)
      with row show "key_tracked (Some row) (sends_to s (action_key a))" by (simp add: key_tracked_def)
    qed
    with row new show ?thesis by (auto simp: durable_le_def)
  qed
  then show "durable_le s (snd (in_journal (journal_prepare jv a d now) s))" by (simp add: in_journal_def j)
qed

text \<open>A send under a key whose record has just started, and everything after it.\<close>

lemma send_tracked:
  assumes s: "tracked s" and "sends_to s (action_key a) = []" and row: "row_started (journal_row_of s (action_key a))"
  shows "tracked (snd (send_mutation env a s))"
  unfolding tracked_def
proof
  fix k
  let ?t = "snd (send_mutation env a s)"
  have rows: "journal_row_of ?t k = journal_row_of s k" by (simp add: send_mutation_eq)
  have sends: "sends_to ?t k = sends_to s k @ (if k = action_key a then [(ap_source_id a, mutation_request a)] else [])"
    by (simp add: send_mutation_eq sends_to_def)
  from trackedD [OF s, of k] rows sends assms(2) row
  show "key_tracked (journal_row_of ?t k) (sends_to ?t k)"
    by (auto simp: key_tracked_def split: option.splits)
qed

lemma send_and_settle:
  assumes s: "tracked s" "sends_to s (action_key a) = []" "row_started (journal_row_of s (action_key a))"
    and run: "sm_bind (registry_lookup (dx_action env) (ap_source_id a)) (\<lambda>_.
      sm_bind (send_mutation (dx_action env) a) (durable_answered env a i d now)) s = (x, t)"
  shows "tracked t \<and> (\<forall>k. k \<noteq> action_key a \<longrightarrow> journal_row_of t k = journal_row_of s k \<and> sends_to t k = sends_to s k)"
  using run
proof (cases rule: sm_bind_cases)
  case (1 e)
  then have k: "keeps s t" by (blast intro: quietD quiet_registry_lookup)
  show ?thesis using s(1) keeps_is_tracked [OF k] keeps_journal [OF k] keeps_sends [OF k] by simp
next
  case (2 profile u)
  have k: "keeps s u" using 2(1) by (blast intro: quietD quiet_registry_lookup)
  note u = keeps_journal [OF k] keeps_sends [OF k]
  define w where "w = snd (send_mutation (dx_action env) a u)"
  have "tracked w" unfolding w_def
    using s u keeps_is_tracked [OF k] by (intro send_tracked) simp_all
  moreover have "journal_row_of w k' = journal_row_of s k' \<and> sends_to w k' = sends_to s k'"
    if "k' \<noteq> action_key a" for k'
    using that u(1) u(2) [of k'] by (simp add: w_def send_mutation_eq) (simp add: sends_to_def)
  moreover obtain answer where "send_mutation (dx_action env) a u = (Inr answer, w)"
    by (simp add: w_def send_mutation_eq)
  with 2(2) have w: "settles (action_key a) w t" by (auto intro: sm_relD [OF durable_answered_settles])
  ultimately show ?thesis using settles_sends [OF w] w unfolding settles_def by metis
qed

lemma begin_starts:
  assumes "journal_begin jv a now (dst_journal s) = (x, j)" and "\<not> row_executed (journal_row_of s (action_key a))"
    and "t = s\<lparr>dst_journal := j\<rparr>"
  obtains (refused) "t = s" "\<And>r. x \<noteq> Inr r"
  | (begun) "\<not> row_started (journal_row_of s (action_key a))" "row_started (journal_row_of t (action_key a))"
      "\<And>k. k \<noteq> action_key a \<Longrightarrow> journal_row_of t k = journal_row_of s k" "\<And>k. sends_to t k = sends_to s k"
      "tracked s \<Longrightarrow> tracked t \<and> sends_to t (action_key a) = []"
  using assms(1)
proof (cases rule: begin_cases)
  case (refused e)
  with assms(3) that(1) show ?thesis by simp
next
  case (kept row r)
  with record_of_row_Inr [OF kept(2)] assms(2) show ?thesis by simp
next
  case (begun row row')
  have "tracked t \<and> sends_to t (action_key a) = []" if s: "tracked s"
  proof
    show none: "sends_to t (action_key a) = []"
      using trackedD [OF s, of "action_key a"] begun by (simp add: key_tracked_def assms(3))
    then show "tracked t" unfolding assms(3)
      using begun by (intro tracked_write [OF s begun(3)]) (simp add: key_tracked_def)
  qed
  with begun that(2) show ?thesis by (simp add: assms(3))
qed

lemma le_elsewhere:
  assumes "\<not> row_started (journal_row_of s k0)" and "tracked s \<Longrightarrow> tracked t
      \<and> (\<forall>k. k \<noteq> k0 \<longrightarrow> journal_row_of t k = journal_row_of s k \<and> sends_to t k = sends_to s k)"
  shows "durable_le s t"
  using assms unfolding durable_le_def by metis

lemma durable_dispatch_le:
  assumes fresh: "\<not> row_executed (journal_row_of s (action_key a))"
    and run: "durable_dispatch env a i d now s = (x, t)"
  shows "durable_le s t"
  using run unfolding durable_dispatch_def
proof (cases rule: sm_bind_cases)
  case (1 e)
  then obtain j where j: "journal_begin (dx_journal env) a now (dst_journal s) = (Inl e, j)" "t = s\<lparr>dst_journal := j\<rparr>"
    by (auto simp: in_journal_eq)
  from j(1) fresh j(2) show ?thesis
  proof (cases rule: begin_starts)
    case begun
    show ?thesis by (rule le_elsewhere [OF begun(1)]) (use begun(3-5) in simp)
  qed simp
next
  case (2 r s1)
  then obtain j where j: "journal_begin (dx_journal env) a now (dst_journal s) = (Inr r, j)" "s1 = s\<lparr>dst_journal := j\<rparr>"
    by (auto simp: in_journal_eq)
  from j(1) fresh j(2) show ?thesis
  proof (cases rule: begin_starts)
    case begun
    have "tracked t \<and> (\<forall>k. k \<noteq> action_key a \<longrightarrow> journal_row_of t k = journal_row_of s k \<and> sends_to t k = sends_to s k)"
      if "tracked s"
      using send_and_settle [OF _ _ begun(2) 2(2)] begun(3-5) that by simp
    then show ?thesis by (rule le_elsewhere [OF begun(1)])
  qed blast
qed

text \<open>An executed record holds its receipt, so that the execution that finds it replays.\<close>

lemma tracked_stored:
  assumes "tracked s" and "journal_row_of s k = Some row" and "record_of_row jv row = Inr r"
  shows "row_executed (Some row) \<longleftrightarrow> stored_result r \<noteq> None"
proof -
  note r = record_of_row_Inr [OF assms(3)]
  have "dr_receipt r \<noteq> None" if "dr_state r = DS_Executed"
  proof -
    from trackedD [OF assms(1), of k] assms(2) r that
    obtain v where "jr_receipt_json row = Some v" "json_truthy v" by (auto simp: key_tracked_def)
    with r have "\<exists>q. Some q = dr_receipt r" by (auto simp: stored_receipt_def ck_bind_Inr split: json.splits)
    then show ?thesis by (cases "dr_receipt r") simp_all
  qed
  with r show ?thesis by (auto simp: stored_result_def)
qed

lemma durable_execute_le: "sm_rel durable_le (durable_execute env a v i ap)"
proof (rule sm_relI)
  fix s
  obtain x t where eq: "durable_execute env a v i ap s = (x, t)" by force
  then have "durable_le s t" unfolding durable_execute_def
  proof (cases rule: sm_bind_cases)
    case (1 e)
    then show ?thesis using keeps_le quietD [OF quiet_check_action] by blast
  next
    case (2 p s1)
    obtain now d where p: "p = (now, d)" by (cases p)
    have le1: "durable_le s s1" using 2(1) keeps_le quietD [OF quiet_check_action] by blast
    from 2(2) [unfolded p prod.case] show ?thesis
    proof (cases rule: sm_bind_cases)
      case (1 e)
      then have "durable_le s1 t" by (blast intro: sm_relD [OF prepare_le])
      with le1 show ?thesis by (rule durable_le_trans)
    next
      case (2 r s2)
      have le2: "durable_le s1 s2" using 2(1) by (rule sm_relD [OF prepare_le])
      have "durable_le s2 t"
      proof (cases "stored_result r")
        case (Some q)
        with 2(2) have "keeps s2 t" by (auto intro: quietD [OF quiet_replay_receipt])
        then show ?thesis by (rule keeps_le)
      next
        case None
        from 2(1) obtain j where "journal_prepare (dx_journal env) a (pd_decision_id d) now (dst_journal s1) = (Inr r, j)"
          "s2 = s1\<lparr>dst_journal := j\<rparr>" by (auto simp: in_journal_eq)
        then obtain row where row: "journal_row_of s2 (action_key a) = Some row" "record_of_row (dx_journal env) row = Inr r"
          using prepare_returns by fastforce
        show ?thesis
        proof (cases "tracked s2")
          case True
          with None row tracked_stored [OF True row] have "\<not> row_executed (journal_row_of s2 (action_key a))" by simp
          moreover have "durable_dispatch env a i d now s2 = (x, t)" using 2(2) None by simp
          ultimately show ?thesis by (rule durable_dispatch_le)
        qed (simp add: durable_le_def)
      qed
      with le1 le2 show ?thesis by (blast intro: durable_le_trans)
    qed
  qed
  then show "durable_le s (snd (durable_execute env a v i ap s))" by (simp add: eq)
qed

lemmas durable_le_parts =
  quiet_durable_le [OF quiet_simple(1)] quiet_durable_le [OF quiet_simple(2)] quiet_durable_le [OF quiet_current_time]
  quiet_durable_le [OF quiet_validate_approval] quiet_durable_le [OF quiet_preview_action]
  quiet_durable_le [OF quiet_audit_event] quiet_durable_le [OF quiet_authorize_action]

lemma durable_compensate_le: "sm_rel durable_le (durable_compensate env a r i ap)"
  unfolding durable_compensate_def compensate_with_def
  by (auto split: option.split sum.split intro!: sm_rel_bind durable_le_parts durable_execute_le)

section \<open>What reconciliation establishes\<close>

lemma journal_get_Inr:
  "journal_get jv x k j = (Inr (Some r), t) \<longleftrightarrow> t = j \<and> (\<exists>row. dict_get (jn_records j) (x, k) = Some row
     \<and> record_of_row jv row = Inr r)"
  by (auto simp: journal_get_def ck_bind_Inr split: option.splits)

lemma ask_source_keeps: "quiet (ask_source env a)"
  unfolding ask_source_def by (auto split: option.split)

lemma recover_settles: "sm_rel (settles (action_key a)) (recover env a i d r result)"
  unfolding recover_def Let_def by (intro sm_rel_bind settles_parts) simp_all

lemma reconcile_pending_settles: "sm_rel (settles (action_key a)) (reconcile_pending env a i d r)"
  unfolding reconcile_pending_def
  by (auto split: sum.split json.split
      intro!: sm_rel_bind settles_parts recover_settles quiet_settles [OF ask_source_keeps])

text \<open>The record a reconciliation works on, once its checks have passed.\<close>

lemma durable_reconcile_cases:
  assumes "durable_reconcile env a i s = (x, t)"
  obtains (stopped) e where "x = Inl e" "keeps s t"
  | (found) u d row r where "keeps s u" "pd_allowed d" "journal_row_of u (action_key a) = Some row"
      "record_of_row (dx_journal env) row = Inr r" "dr_action_digest r = plan_digest (ax_prims (dx_action env)) a"
      "stored_result r \<noteq> None \<and> x = Inr (the (stored_result r)) \<and> t = u
       \<or> stored_result r = None \<and> dr_state r \<in> {DS_Executing, DS_Reconciliation_Required}
         \<and> reconcile_pending env a i d r u = (x, t)"
proof -
  have quiet: "quiet (sm_bind (authorize_action (dx_action env) a i ''reconcile'') (\<lambda>d.
      sm_bind (sm_guard (pd_allowed d) (Ax_Denied d)) (\<lambda>_.
      sm_bind (in_journal (journal_get (dx_journal env) (ap_source_id a) (ap_idempotency_key a))) (\<lambda>found.
      sm_return (d, found)))))" (is "quiet ?m")
    by (intro quiet_bind quiet_authorize_action get_keeps) simp_all
  have eq: "durable_reconcile env a i = sm_bind ?m (\<lambda>(d, found). case found of
       None \<Rightarrow> sm_raise (Ax_Idempotency_Conflict ''durable action binding is missing or mismatched'')
     | Some record \<Rightarrow>
         if dr_action_digest record \<noteq> plan_digest (ax_prims (dx_action env)) a
         then sm_raise (Ax_Idempotency_Conflict ''durable action binding is missing or mismatched'')
         else (case stored_result record of
                 Some receipt \<Rightarrow> sm_return receipt
               | None \<Rightarrow>
                   if dr_state record \<notin> {DS_Executing, DS_Reconciliation_Required}
                   then sm_raise (Ax_Outcome_Unknown ''action state cannot be reconciled as successful'')
                   else reconcile_pending env a i d record))"
    by (rule ext) (auto simp: durable_reconcile_def sm_bind_def split: prod.splits sum.splits)
  from assms show thesis unfolding eq
  proof (cases rule: sm_bind_cases)
    case (1 e)
    with stopped quietD [OF quiet 1(1)] show ?thesis by simp
  next
    case (2 p u)
    obtain d f where p: "p = (d, f)" by (cases p)
    have k: "keeps s u" by (rule quietD [OF quiet 2(1)])
    from 2(1) have d: "pd_allowed d" by (auto simp: p sm_bind_Inr_iff split: if_splits)
    show ?thesis
    proof (cases f)
      case None
      with 2(2) have "x = Inl (Ax_Idempotency_Conflict ''durable action binding is missing or mismatched'')" "t = u"
        by (auto simp: p)
      with stopped k show ?thesis by blast
    next
      case (Some r)
      then obtain row where row: "journal_row_of u (action_key a) = Some row" "record_of_row (dx_journal env) row = Inr r"
        using 2(1) by (auto simp: p sm_bind_Inr_iff in_journal_eq journal_get_Inr action_key_def)
      show ?thesis
        using 2(2) stopped k found [OF k d row]
        by (cases "stored_result r") (auto simp: p Some split: if_splits)
    qed
  qed
qed

lemma durable_reconcile_le: "sm_rel durable_le (durable_reconcile env a i)"
proof (rule sm_relI)
  fix s
  obtain x t where eq: "durable_reconcile env a i s = (x, t)" by force
  then have "durable_le s t"
  proof (cases rule: durable_reconcile_cases)
    case (stopped e)
    then show ?thesis by (intro keeps_le)
  next
    case (found u d row r)
    have "durable_le u t"
      using found(6)
    proof (elim disjE conjE)
      assume "stored_result r = None" "dr_state r \<in> {DS_Executing, DS_Reconciliation_Required}"
        and run: "reconcile_pending env a i d r u = (x, t)"
      then have "\<not> row_executed (journal_row_of u (action_key a))"
        using found(3) record_of_row_Inr [OF found(4)] by auto
      with sm_relD [OF reconcile_pending_settles run] show ?thesis by (rule settles_le)
    qed simp
    with keeps_le [OF found(1)] show ?thesis by (rule durable_le_trans)
  qed
  then show "durable_le s (snd (durable_reconcile env a i s))" by (simp add: eq)
qed

interpretation durable_gateway: growing_system "durable_step env" durable_le for env
proof unfold_locales
  show "durable_le s s" for s by simp
  show "durable_le s u" if "durable_le s t" "durable_le t u" for s t u
    using that by (rule durable_le_trans)
  show "durable_le s (durable_step env x s)" for x s
  proof (cases x)
    case (Du_Preview a i ttl)
    then show ?thesis using quiet_durable_le [OF quiet_preview_action] by (simp add: sm_rel_def)
  next
    case (Du_Execute a v i ap)
    then show ?thesis using durable_execute_le by (simp add: sm_rel_def)
  next
    case (Du_Compensate a r i ap)
    then show ?thesis using durable_compensate_le by (simp add: sm_rel_def)
  next
    case (Du_Reconcile a i)
    then show ?thesis using durable_reconcile_le by (simp add: sm_rel_def)
  next
    case Du_Restart
    then show ?thesis by (simp add: durable_le_def tracked_def sends_to_def)
  qed
qed

lemma tracked_start: "tracked durable_start"
  by (simp add: tracked_def durable_start_def empty_journal_def key_tracked_def sends_to_def)

lemma tracked_run: "tracked (run_ops (durable_step env) ops durable_start)"
  using durable_gateway.run_le [of durable_start env ops] tracked_start by (simp add: durable_le_def)

text \<open>
  C1. At most once, across failures and restarts: whatever sequence of previews, executions, compensations,
  reconciliations and restarts of the process is run, with any answers, failures or timeouts of sources,
  policy and sink, no source is ever sent two mutations under one idempotency key.
\<close>

theorem durable_at_most_once:
  "length (sends_to (run_ops (durable_step env) ops durable_start) k) \<le> 1"
  using trackedD [OF tracked_run] by (simp add: key_tracked_def)

text \<open>
  A key whose execution has begun is settled by reconciliation only: from then on nothing is sent under
  it again by any operation or after any restart, whatever the state of its record (executing, failed,
  waiting for reconciliation), and once executed its record never changes.
\<close>

lemma begun_key_is_final:
  assumes "journal_row_of (run_ops (durable_step env) ops durable_start) k = Some row"
    and "jr_state row \<noteq> durable_value DS_Prepared"
  shows "sends_to (run_ops (durable_step env) (ops @ later) durable_start) k
       = sends_to (run_ops (durable_step env) ops durable_start) k
    \<and> (jr_state row = durable_value DS_Executed \<longrightarrow>
       journal_row_of (run_ops (durable_step env) (ops @ later) durable_start) k = Some row)"
  using durable_leD(2,3) [OF durable_gateway.run_between tracked_run, of env ops k later] assms by simp

definition source_confirms :: "durable_env \<Rightarrow> action_plan \<Rightarrow> bool" where
  "source_confirms env a \<longleftrightarrow> (\<exists>ask n. dx_reconcile env (ap_source_id a) = Some ask \<and> source_proves (ask n
     [(''action_id'', JStr (ap_action_id a)), (''idempotency_key'', JStr (ap_idempotency_key a)),
      (''action_digest'', JStr (plan_digest (ax_prims (dx_action env)) a))]))"

lemma ask_source_Inr:
  "ask_source env a s = (Inr answer, t) \<Longrightarrow> source_proves answer \<Longrightarrow> source_confirms env a"
  by (auto simp: ask_source_def source_confirms_def sm_bind_Inr_iff split: option.splits)

lemma complete_stores:
  assumes "journal_complete jv a receipt now j = (Inr r, t)"
  shows "\<exists>row. dict_get (jn_records t) (action_key a) = Some row \<and> jr_state row = durable_value DS_Executed
    \<and> jr_receipt_json row = Some (JObj (receipt_contract (jv_prims jv) receipt))"
  using assms
  by (auto simp: journal_complete_def journal_finish_def Let_def reread_Inr split: option.splits if_splits)

lemma recover_Inr:
  assumes "recover env a i d r result s = (Inr q, t)"
  shows "rc_state q = AS_Recovered \<and> (\<exists>row. journal_row_of t (action_key a) = Some row
    \<and> jr_state row = durable_value DS_Executed
    \<and> jr_receipt_json row = Some (JObj (receipt_contract (ax_prims (dx_action env)) q)))"
  using assms
  by (auto simp: recover_def Let_def sm_bind_Inr_iff in_journal_eq recovered_receipt_def dx_journal_def
      dest!: complete_stores quietD [OF quiet_emit_stage] keeps_journal)

lemma reconcile_pending_Inr:
  assumes "reconcile_pending env a i d r s = (Inr q, t)"
  shows "source_confirms env a \<and> rc_state q = AS_Recovered \<and> (\<exists>row. journal_row_of t (action_key a) = Some row
    \<and> jr_state row = durable_value DS_Executed
    \<and> jr_receipt_json row = Some (JObj (receipt_contract (ax_prims (dx_action env)) q)))"
proof -
  from assms obtain answer u v where ask: "ask_source env a u = (Inr answer, v)"
    and rest: "(case answer of Inl x \<Rightarrow> sm_raise (Ax_External x) | Inr value \<Rightarrow>
         if \<not> source_proves answer
         then sm_bind (current_time (dx_action env)) (\<lambda>now.
              sm_bind (in_journal (journal_require_reconciliation (dx_journal env) a now
                ''source-outcome-unresolved'')) (\<lambda>_.
              sm_raise (Ax_Outcome_Unknown ''source could not prove whether the action was applied'')))
         else recover env a i d r (case value of JObj result \<Rightarrow> result | _ \<Rightarrow> [])) v = (Inr q, t)"
    unfolding reconcile_pending_def sm_bind_Inr_iff by blast
  then have "source_proves answer \<and> (\<exists>result. recover env a i d r result v = (Inr q, t))"
    by (cases answer) (auto simp: sm_bind_Inr_iff split: if_splits)
  with recover_Inr ask_source_Inr [OF ask] show ?thesis by blast
qed

text \<open>
  C6. Reconciliation never acts on a source and never guesses: it sends nothing, and it succeeds only with
  the receipt already stored for the very action, or when the source itself answered that the action was
  applied and its postconditions hold; the recovered receipt is then what the journal stores as executed.
\<close>

theorem reconcile_needs_proof:
  assumes "durable_reconcile env a i s = (Inr q, t)"
  shows "gst_dispatches t = gst_dispatches s
    \<and> ((\<exists>row r. journal_row_of s (action_key a) = Some row \<and> record_of_row (dx_journal env) row = Inr r
          \<and> dr_action_digest r = plan_digest (ax_prims (dx_action env)) a \<and> dr_state r = DS_Executed
          \<and> dr_receipt r = Some q)
       \<or> (source_confirms env a \<and> rc_state q = AS_Recovered \<and> (\<exists>row. journal_row_of t (action_key a) = Some row
          \<and> jr_state row = durable_value DS_Executed
          \<and> jr_receipt_json row = Some (JObj (receipt_contract (ax_prims (dx_action env)) q)))))"
  using assms
proof (cases rule: durable_reconcile_cases)
  case (found u d row r)
  have s: "journal_row_of s (action_key a) = Some row" "gst_dispatches u = gst_dispatches s"
    using found(1,3) keeps_journal [OF found(1)] by (simp_all add: keeps_def)
  from found(6) show ?thesis
  proof (elim disjE conjE)
    assume "stored_result r \<noteq> None" "Inr q = Inr (the (stored_result r))" "t = u"
    with s found(4,5) show ?thesis by (auto simp: stored_result_def split: if_splits)
  next
    assume run: "reconcile_pending env a i d r u = (Inr q, t)"
    from sm_relD [OF reconcile_pending_settles run] s reconcile_pending_Inr [OF run]
    show ?thesis by (simp add: settles_def)
  qed
qed simp

text \<open>
  The limit of the protocol: the prepare and the begin of one execution are two transactions, and what
  \<open>begin\<close> returns is not looked at. If another process executes the action between them, \<open>begin\<close> returns
  the executed record and the mutation is sent a second time.
\<close>

lemma begun_elsewhere_is_resent:
  assumes "journal_row_of s (action_key a) = Some row" and "record_of_row (dx_journal env) row = Inr r"
    and "dr_action_digest r = plan_digest (ax_prims (dx_action env)) a" and "dr_state r = DS_Executed"
    and "registry_lookup (dx_action env) (ap_source_id a) s = (Inr profile, s)"
  shows "gst_dispatches (snd (durable_dispatch env a i d now s))
    = gst_dispatches s @ [(ap_source_id a, mutation_request a)]"
proof -
  have "in_journal (journal_begin (dx_journal env) a now) s = (Inr r, s)"
    using assms(1-4) by (simp add: in_journal_def journal_begin_def py_result_def dx_journal_def)
  then have "durable_dispatch env a i d now s = sm_bind (send_mutation (dx_action env) a) (durable_answered env a i d now) s"
    using assms(5) by (simp add: durable_dispatch_def)
  also have "\<dots> = durable_answered env a i d now (ax_mutate (dx_action env) (gst_tick s) (ap_source_id a) (mutation_request a))
      (s\<lparr>gst_tick := Suc (gst_tick s), gst_dispatches := gst_dispatches s @ [(ap_source_id a, mutation_request a)]\<rparr>)"
    by (simp add: send_mutation_eq)
  finally show ?thesis
    using durable_answered_settles [of a env i d now "ax_mutate (dx_action env) (gst_tick s) (ap_source_id a) (mutation_request a)"]
    by (simp add: sm_rel_def settles_def)
qed

section \<open>A crash, its reconciliation and a replay\<close>

text \<open>
  The source applies the mutation, the hook fails, so the outcome is unknown; asked, the source confirms.
\<close>

definition sample_durable_env :: durable_env where
  "sample_durable_env = \<lparr>dx_action = sample_action_env, dx_fromisoformat = (\<lambda>t. Some (utc 0)),
     dx_integrity_key = ''0123456789abcdef'',
     dx_after_mutation = Some (\<lambda>n a r. Some (Ext_Exception ''RuntimeError'')),
     dx_reconcile = (\<lambda>src. Some (\<lambda>n req. Inr (JObj [(''applied'', JBool True), (''postconditions_met'', JBool True)])))\<rparr>"

definition sample_durable_ops :: "durable_op list" where
  "sample_durable_ops = [Du_Execute (sample_action ''k1'') (sample_preview ''k1'') sample_identity
      (Some (sample_approval_of sample_prims))]"

lemma sample_durable_simps [simp]:
  "dx_action sample_durable_env = sample_action_env"
  "dx_after_mutation sample_durable_env = Some (\<lambda>n a r. Some (Ext_Exception ''RuntimeError''))"
  "jv_prims (dx_journal sample_durable_env) = sample_prims"
  "parse_time (dx_journal sample_durable_env) t = Inr (utc 0)"
  by (simp_all add: sample_durable_env_def dx_journal_def parse_time_def)

lemma sample_key: "action_key (sample_action ''k1'') = (''lab.mutable'', ''k1'')"
    "ap_source_id (sample_action ''k1'') = ''lab.mutable''" "ap_idempotency_key (sample_action ''k1'') = ''k1''"
  by (simp_all add: action_key_def sample_action_def)

lemma sample_unreceipted_row:
  assumes "jr_receipt_json row = None" and "jr_state row = durable_value st"
  obtains r where "record_of_row (dx_journal sample_durable_env) row = Inr r" "dr_state r = st"
    "dr_action_digest r = jr_action_digest row" "dr_receipt r = None"
  using assms by (simp add: record_of_row_def)

lemma sample_unknown:
  assumes "journal_row_of s (''lab.mutable'', ''k1'') = Some row" and "jr_action_digest row = ''sha256:d''"
  shows "\<exists>e t row'. outcome_unknown sample_durable_env (sample_action ''k1'') i s = (Inl e, t)
     \<and> journal_row_of t (''lab.mutable'', ''k1'') = Some row' \<and> jr_state row' = durable_value DS_Reconciliation_Required
     \<and> jr_action_digest row' = ''sha256:d'' \<and> jr_receipt_json row' = None \<and> gst_dispatches t = gst_dispatches s"
proof -
  have emits: "emit_stage sample_action_env stage a i [] u = (Inr (), u\<lparr>gst_tick := Suc (Suc (gst_tick u))\<rparr>)"
    for stage a and u :: durable_gateway_state
    unfolding emit_stage_def by (rule sample_emits) (simp_all add: str_startswith_def)
  show ?thesis
    using assms
    by (simp add: outcome_unknown_def current_time_def next_tick_def in_journal_def sm_bind_def
      journal_require_reconciliation_def journal_finish_def Let_def reread_def journal_get_def sample_key
      record_of_row_def py_result_def emits)
qed

lemma sample_durable_run:
  "\<exists>row t. run_ops (durable_step sample_durable_env) sample_durable_ops durable_start = t
     \<and> journal_row_of t (''lab.mutable'', ''k1'') = Some row \<and> jr_state row = durable_value DS_Reconciliation_Required
     \<and> jr_action_digest row = ''sha256:d'' \<and> jr_receipt_json row = None
     \<and> length (sends_to t (''lab.mutable'', ''k1'')) = 1"
proof -
  let ?a = "sample_action ''k1''"
  let ?s = "durable_start\<lparr>gst_tick := 4\<rparr>"
  have v: "preview_valid sample_prims ?a (sample_preview ''k1'') sample_identity (utc (int (gst_tick durable_start)))"
    unfolding sample_preview_def by (rule sample_preview_valid) (simp add: five_minutes_def durable_start_def)
  have checks: "check_action sample_action_env ?a (sample_preview ''k1'') sample_identity (Some (sample_approval_of sample_prims)) durable_start
     = (Inr (utc 0, allow_decision), ?s)"
    using sample_checks [OF v sample_approved] by (simp add: durable_start_def)
  obtain r j1 where prepared: "in_journal (journal_prepare (dx_journal sample_durable_env) ?a (pd_decision_id allow_decision) (utc 0)) ?s
       = (Inr r, ?s\<lparr>dst_journal := j1\<rparr>)" "stored_result r = None"
    and row1: "\<exists>row. dict_get (jn_records j1) (''lab.mutable'', ''k1'') = Some row \<and> jr_action_digest row = ''sha256:d''
      \<and> jr_state row = durable_value DS_Prepared \<and> jr_receipt_json row = None"
    by (simp add: in_journal_def journal_prepare_def durable_start_def empty_journal_def Let_def prepared_row_def
        reread_def journal_get_def sample_key record_of_row_def py_result_def sm_bind_def stored_result_def)
  from row1 obtain r2 j2 where begun: "in_journal (journal_begin (dx_journal sample_durable_env) ?a (utc 0)) (?s\<lparr>dst_journal := j1\<rparr>)
       = (Inr r2, ?s\<lparr>dst_journal := j2\<rparr>)"
    and row2: "\<exists>row. dict_get (jn_records j2) (''lab.mutable'', ''k1'') = Some row \<and> jr_action_digest row = ''sha256:d''"
    by (auto simp: in_journal_def journal_begin_def Let_def reread_def journal_get_def sample_key record_of_row_def
        py_result_def sm_bind_def)
  obtain u where u: "send_mutation sample_action_env ?a (?s\<lparr>dst_journal := j2\<rparr>) = (Inr (Inr sample_answer_json), u)"
    and u': "dst_journal u = j2" "gst_dispatches u = [(''lab.mutable'', mutation_request ?a)]"
    by (simp add: send_mutation_eq durable_start_def sample_key)
  define w where "w = u\<lparr>gst_tick := Suc (gst_tick u)\<rparr>"
  have "durable_execute sample_durable_env ?a (sample_preview ''k1'') sample_identity (Some (sample_approval_of sample_prims)) durable_start
      = durable_answered sample_durable_env ?a sample_identity allow_decision (utc 0) (Inr sample_answer_json) u"
    using checks prepared begun u
    by (simp add: durable_execute_def durable_dispatch_def sample_key sm_bind_def sample_lookup)
  also have "\<dots> = outcome_unknown sample_durable_env ?a sample_identity w"
    by (simp add: durable_answered_def sample_result(1) run_hook_def next_tick_def sm_bind_def w_def)
  finally have "run_ops (durable_step sample_durable_env) sample_durable_ops durable_start
      = snd (outcome_unknown sample_durable_env ?a sample_identity w)"
    by (simp add: sample_durable_ops_def)
  moreover from row2 obtain row where "journal_row_of w (''lab.mutable'', ''k1'') = Some row" "jr_action_digest row = ''sha256:d''"
    by (auto simp: w_def u')
  moreover have "gst_dispatches w = [(''lab.mutable'', mutation_request ?a)]"
    by (simp add: w_def u')
  ultimately show ?thesis
    using sample_unknown [of w row sample_identity] dispatch_key_request [of ?a] by (auto simp: sends_to_def sample_key)
qed

lemma begun_key_is_final_example:
  "length (sends_to (run_ops (durable_step sample_durable_env) (sample_durable_ops @ Du_Restart # sample_durable_ops) durable_start)
     (''lab.mutable'', ''k1'')) = 1"
proof -
  obtain row t where run: "run_ops (durable_step sample_durable_env) sample_durable_ops durable_start = t"
    "journal_row_of t (''lab.mutable'', ''k1'') = Some row" "jr_state row = durable_value DS_Reconciliation_Required"
    "length (sends_to t (''lab.mutable'', ''k1'')) = 1"
    using sample_durable_run by blast
  from begun_key_is_final [OF run(2) [folded run(1)], of "Du_Restart # sample_durable_ops"] run(3,4)
  show ?thesis unfolding run(1) by simp
qed

lemma sample_asks:
  fixes s :: durable_gateway_state
  shows "ask_source sample_durable_env a s
      = (Inr (Inr (JObj [(''applied'', JBool True), (''postconditions_met'', JBool True)])), s\<lparr>gst_tick := Suc (gst_tick s)\<rparr>)"
    "source_proves (Inr (JObj [(''applied'', JBool True), (''postconditions_met'', JBool True)]))"
  by (simp_all add: ask_source_def sample_durable_env_def next_tick_def sm_bind_def source_proves_def result_get_def)

lemma sample_recovers:
  assumes "journal_row_of s (''lab.mutable'', ''k1'') = Some row" and "jr_action_digest row = ''sha256:d''"
  shows "\<exists>q t. recover sample_durable_env (sample_action ''k1'') i d r result s = (Inr q, t)"
proof -
  have emits: "emit_stage sample_action_env ''recovered'' a i [(''source_version'', x)] u
      = (Inr (), u\<lparr>gst_tick := Suc (Suc (gst_tick u))\<rparr>)" for a x and u :: durable_gateway_state
    by (rule sample_emits_stage) simp
  obtain e l where audit: "audit_append sample_prims (action_state_value AS_Recovered) (ap_action_id (sample_action ''k1''))
     (utc (int (gst_tick s))) [(''source_version'', JStr (result_version sample_prims result))] (gst_audit s) = Inr (e, l)"
    using audit_append_aware [OF aware_utc] by blast
  have stored: "\<exists>q'. stored_receipt (dx_journal sample_durable_env) (Some (JObj (receipt_contract sample_prims q))) = Inr (Some q')"
    for q by (simp add: stored_receipt_def) (simp add: receipt_contract_def parse_receipt_def field_text_def
        field_opt_text_def split: option.split)
  have "\<exists>r t. journal_complete (dx_journal sample_durable_env) (sample_action ''k1'') q now (dst_journal s) = (Inr r, t)" for q now
    using assms stored [of q]
    by (auto simp: journal_complete_def journal_finish_def Let_def reread_def journal_get_def sample_key sm_bind_def
      record_of_row_def py_result_def)
  then obtain x j where "journal_complete (dx_journal sample_durable_env) (sample_action ''k1'')
     (recovered_receipt sample_prims (sample_action ''k1'') (dr_started_at r)
       (utc (int (gst_tick s))) (result_version sample_prims result) d e) (utc (int (gst_tick s))) (dst_journal s) = (Inr x, j)"
    by blast
  with audit show ?thesis
    by (simp add: recover_def current_time_def next_tick_def in_journal_def sm_bind_def Let_def audit_event_def emits)
qed

theorem reconcile_needs_proof_witness:
  "\<exists>s q t. durable_reconcile sample_durable_env (sample_action ''k1'') sample_identity s = (Inr q, t)
     \<and> rc_state q = AS_Recovered \<and> length (sends_to s (''lab.mutable'', ''k1'')) = 1
     \<and> gst_dispatches t = gst_dispatches s"
proof -
  obtain row s where s: "journal_row_of s (''lab.mutable'', ''k1'') = Some row" "jr_state row = durable_value DS_Reconciliation_Required"
    "jr_action_digest row = ''sha256:d''" "jr_receipt_json row = None" "length (sends_to s (''lab.mutable'', ''k1'')) = 1"
    using sample_durable_run by blast
  obtain r where r: "record_of_row (dx_journal sample_durable_env) row = Inr r" "dr_state r = DS_Reconciliation_Required"
    "dr_action_digest r = ''sha256:d''" "dr_receipt r = None"
    using sample_unreceipted_row [OF s(4,2)] s(3) by auto
  let ?s = "s\<lparr>gst_tick := gst_tick s + 3\<rparr>"
  let ?w = "s\<lparr>gst_tick := gst_tick s + 4\<rparr>"
  have authorized: "authorize_action sample_action_env (sample_action ''k1'') sample_identity ''reconcile'' s = (Inr allow_decision, ?s)"
    by (simp add: authorize_action_def next_tick_def sm_bind_def sample_emits_authorization)
  have got: "in_journal (journal_get (dx_journal sample_durable_env) ''lab.mutable'' ''k1'') ?s = (Inr (Some r), ?s)"
    using s(1) r(1) by (simp add: in_journal_def journal_get_def py_result_def)
  obtain q t where qt: "recover sample_durable_env (sample_action ''k1'') sample_identity allow_decision r
      [(''applied'', JBool True), (''postconditions_met'', JBool True)] ?w = (Inr q, t)"
    using sample_recovers [of ?w row] s(1,3) by fastforce
  have run: "durable_reconcile sample_durable_env (sample_action ''k1'') sample_identity s = (Inr q, t)"
    using authorized got r qt
    by (simp add: durable_reconcile_def sm_bind_def sample_key stored_result_def reconcile_pending_def sample_lookup
        sample_asks add.commute)
  from reconcile_needs_proof [OF run] s(1) r run show ?thesis
    by (intro exI [of _ s] exI [of _ q] exI [of _ t]) (auto simp: sample_key s(5))
qed

end
