(* ===== verification/Durable_Saga.thy ===== *)
theory Durable_Saga
  imports Action_Saga Durable_Gateway
begin

text \<open>
  ActionSagaCoordinator of actions.py over the DurableActionGateway of durability.py. The durable gateway
  discharges the interface \<open>sending_gateway\<close>, so that the receipts of a saga account for what it sent.
\<close>

definition durable_saga_gateway :: "durable_env \<Rightarrow> durable_gateway_state saga_gateway" where
  "durable_saga_gateway env = \<lparr>sg_preview = (\<lambda>a i. preview_action (dx_action env) a i five_minutes),
     sg_execute = durable_execute env, sg_compensate = durable_compensate env\<rparr>"

lemma durable_gateway_operations:
  "durable_saga_gateway env = gateway_operations (dx_action env) (durable_execute env)"
  by (simp add: durable_saga_gateway_def gateway_operations_def durable_compensate_def)

section \<open>What one durable execution sends\<close>

lemma in_journal_sends: "in_journal m s = (x, t) \<Longrightarrow> gst_dispatches t = gst_dispatches s"
  by (auto simp: in_journal_eq)

lemma unknown_raises: "outcome_unknown env a i s \<noteq> (Inr r, t)"
  by (auto simp: outcome_unknown_def sm_bind_Inr_iff)

lemma durable_settled_Inr: "durable_settled env a i result q s = (Inr r, t) \<Longrightarrow> result_success result \<and> r = q"
  by (auto simp: durable_settled_def sm_bind_Inr_iff split: if_splits)

lemma hooked_Inr:
  assumes "(case failed of Some Ext_Cancelled \<Rightarrow> sm_raise (Ax_External Ext_Cancelled)
      | Some _ \<Rightarrow> outcome_unknown env a i | None \<Rightarrow> m) s = (Inr r, t)"
  shows "m s = (Inr r, t)"
  using assms unknown_raises [of env a i s r t] by (auto split: option.splits ext_error.splits)

lemma durable_answered_Inr:
  assumes "durable_answered env a i d now answer s = (Inr r, t)"
  shows "rc_state r = AS_Executed"
proof -
  from assms unknown_raises [of env a i s r t] obtain result where "answer = Inr (JObj result)"
    by (auto simp: durable_answered_def split: sum.splits ext_error.splits json.splits)
  with assms obtain q u w where settled: "settle (dx_action env) a d now result u = (Inr q, w)"
    and r: "durable_settled env a i result q w = (Inr r, t)"
    by (auto simp: durable_answered_def sm_bind_Inr_iff dest!: hooked_Inr)
  from settle_receipt [OF settled] durable_settled_Inr [OF r] show ?thesis by simp
qed

lemma durable_dispatch_sends:
  assumes "durable_dispatch env a i d now s = (x, t)"
  shows "sends_among [action_dispatch a] s t"
    and "x = Inr r \<Longrightarrow> rc_state r = AS_Executed \<and> gst_dispatches t = gst_dispatches s @ [action_dispatch a]"
proof -
  have "sends_among [action_dispatch a] s t
      \<and> (x = Inr r \<longrightarrow> rc_state r = AS_Executed \<and> gst_dispatches t = gst_dispatches s @ [action_dispatch a])" for r
    using assms unfolding durable_dispatch_def
  proof (cases rule: sm_bind_cases)
    case (1 e)
    with in_journal_sends [OF 1(1)] show ?thesis by (simp add: sends_among_def)
  next
    case (2 begun u)
    note u = in_journal_sends [OF 2(1)]
    from 2(2) show ?thesis
    proof (cases rule: sm_bind_cases)
      case (1 e)
      with u quietD [OF quiet_registry_lookup 1(1)] show ?thesis by (simp add: sends_among_def keeps_def)
    next
      case (2 profile w)
      define sent where "sent = snd (send_mutation (dx_action env) a w)"
      have w: "gst_dispatches sent = gst_dispatches s @ [action_dispatch a]"
        using u quietD [OF quiet_registry_lookup 2(1)] by (simp add: sent_def send_mutation_eq action_dispatch_def keeps_def)
      obtain answer where "send_mutation (dx_action env) a w = (Inr answer, sent)" by (simp add: sent_def send_mutation_eq)
      with 2(2) have answered: "durable_answered env a i d now answer sent = (x, t)" by simp
      have "gst_dispatches t = gst_dispatches sent"
        using sm_relD [OF durable_answered_settles answered] by (simp add: settles_def)
      with w answered durable_answered_Inr [of env a i d now answer sent r t] show ?thesis by (simp add: sends_among_def)
    qed
  qed
  then show "sends_among [action_dispatch a] s t"
    and "x = Inr r \<Longrightarrow> rc_state r = AS_Executed \<and> gst_dispatches t = gst_dispatches s @ [action_dispatch a]" by blast+
qed

lemma durable_execute_sends:
  assumes "durable_execute env a v i ap s = (x, t)"
  shows "sends_among [action_dispatch a] s t \<and> (\<forall>r. x = Inr r \<longrightarrow> gst_dispatches t = gst_dispatches s
      @ (if rc_state r = AS_Already_Executed then [] else [action_dispatch a]))"
  using assms unfolding durable_execute_def
proof (cases rule: sm_bind_cases)
  case (1 e)
  with quietD [OF quiet_check_action 1(1)] show ?thesis by (simp add: sends_among_keeps)
next
  case (2 p u)
  obtain now d where p: "p = (now, d)" by (cases p)
  note u = quietD [OF quiet_check_action 2(1)]
  from 2(2) [unfolded p prod.case] show ?thesis
  proof (cases rule: sm_bind_cases)
    case (1 e)
    with u in_journal_sends [OF 1(1)] show ?thesis by (simp add: sends_among_def keeps_def)
  next
    case (2 rec w)
    have w: "gst_dispatches w = gst_dispatches s" using u in_journal_sends [OF 2(1)] by (simp add: keeps_def)
    show ?thesis
    proof (cases "stored_result rec")
      case (Some stored)
      with 2(2) have replay: "replay_receipt (dx_action env) a i stored now w = (x, t)" by simp
      with quietD [OF quiet_replay_receipt replay] w show ?thesis
        by (auto simp: sends_among_def keeps_def dest: replay_receipt_Inr)
    next
      case None
      with 2(2) have "durable_dispatch env a i d now w = (x, t)" by simp
      from durable_dispatch_sends [OF this] w show ?thesis by (auto simp: sends_among_def)
    qed
  qed
qed

interpretation durable_saga: sending_gateway "dx_action env" "durable_execute env" for env
  by unfold_locales (auto dest: durable_execute_sends)

section \<open>What a durable saga sends\<close>

text \<open>
  C8. The receipts of a saga over the durable gateway account for everything it sent: the requests of the
  completed steps in order (a step that was found executed before sends nothing), then at most the request of
  the step that failed, then requests that compensate completed steps, the last step first, and nothing else.
  A completed saga has a receipt for every step and sends nothing beyond; in any other the compensation
  receipts refer to the receipts, the last first, at most one compensation beyond them was attempted, and unless
  the outcome says that compensation failed every completed step is compensated.
\<close>

theorem durable_saga_accounts_for_sends:
  assumes "run_saga foreign (durable_saga_gateway env) steps i s = (Inr out, t)"
  shows "\<exists>failing undone. gst_dispatches t
      = gst_dispatches s @ concat (map2 step_sends steps (so_receipts out)) @ failing @ undone
    \<and> (if so_state out = Saga_Completed
       then length (so_receipts out) = length steps \<and> so_compensations out = [] \<and> failing = [] \<and> undone = []
       else length (so_receipts out) < length steps
         \<and> failing \<in> set (subseqs [action_dispatch (ss_action (steps ! length (so_receipts out)))])
         \<and> undone \<in> set (subseqs (concat (map undo_sends
             (take (Suc (length (so_compensations out))) (rev (take (length (so_receipts out)) steps))))))
         \<and> map rc_compensation_of (so_compensations out)
             = map (\<lambda>r. Some (rc_receipt_id r)) (take (length (so_compensations out)) (rev (so_receipts out)))
         \<and> (so_state out \<noteq> Saga_Compensation_Failed \<longrightarrow> length (so_compensations out) = length (so_receipts out)))"
  using assms unfolding durable_gateway_operations by (rule durable_saga.saga_sends)

section \<open>A saga that is undone\<close>

definition sample_saga_env :: durable_env where
  "sample_saga_env = sample_durable_env\<lparr>dx_after_mutation := None\<rparr>"

lemma sample_saga_env_simps [simp]:
  "dx_action sample_saga_env = sample_action_env" "dx_after_mutation sample_saga_env = None"
  "jv_prims (dx_journal sample_saga_env) = sample_prims" "parse_time (dx_journal sample_saga_env) t = Inr (utc 0)"
  by (simp_all add: sample_saga_env_def sample_durable_env_def dx_journal_def parse_time_def)

text \<open>A transaction on the journal that writes one record; and the three of an execution that succeeds.\<close>

definition writes_record :: "string \<times> string \<Rightarrow> (journal_row \<Rightarrow> bool) \<Rightarrow> durable_gateway_state \<Rightarrow> durable_gateway_state \<Rightarrow> bool" where
  "writes_record k P s t \<longleftrightarrow> gst_tick t = gst_tick s \<and> gst_dispatches t = gst_dispatches s
     \<and> (\<exists>row. journal_row_of t k = Some row \<and> P row) \<and> (\<forall>k'. k' \<noteq> k \<longrightarrow> journal_row_of t k' = journal_row_of s k')"

lemma writes_record_frame:
  assumes "writes_record k P s t"
  shows "gst_tick t = gst_tick s" and "k' \<noteq> k \<Longrightarrow> journal_row_of t k' = journal_row_of s k'"
  using assms unfolding writes_record_def by blast+

lemma sample_prepares:
  assumes "journal_row_of s (action_key a) = None"
  shows "\<exists>r t. in_journal (journal_prepare (dx_journal sample_saga_env) a d now) s = (Inr r, t) \<and> stored_result r = None
    \<and> writes_record (action_key a) (\<lambda>row. jr_action_digest row = ''sha256:d'' \<and> jr_state row = durable_value DS_Prepared
        \<and> jr_receipt_json row = None) s t"
  using assms
  by (simp add: in_journal_def journal_prepare_def Let_def prepared_row_def action_key_def writes_record_def
      reread_def journal_get_def record_of_row_def py_result_def sm_bind_def stored_result_def)

lemma sample_begins:
  assumes "journal_row_of s (action_key a) = Some row" and "jr_action_digest row = ''sha256:d''"
    and "jr_state row = durable_value DS_Prepared" and "jr_receipt_json row = None"
  shows "\<exists>r t. in_journal (journal_begin (dx_journal sample_saga_env) a now) s = (Inr r, t)
    \<and> writes_record (action_key a) (\<lambda>row. jr_action_digest row = ''sha256:d'') s t"
  using assms
  by (simp add: in_journal_def journal_begin_def Let_def reread_def journal_get_def action_key_def
      record_of_row_def py_result_def sm_bind_def writes_record_def)

lemma sample_completes:
  assumes "journal_row_of s (action_key a) = Some row" and "jr_action_digest row = ''sha256:d''"
  shows "\<exists>r t. in_journal (journal_complete (dx_journal sample_saga_env) a q now) s = (Inr r, t)
    \<and> writes_record (action_key a) (\<lambda>row. True) s t"
proof -
  have "\<exists>q'. stored_receipt (dx_journal sample_saga_env) (Some (JObj (receipt_contract sample_prims q))) = Inr (Some q')"
    by (simp add: stored_receipt_def) (simp add: receipt_contract_def parse_receipt_def field_text_def
        field_opt_text_def split: option.split)
  with assms show ?thesis
    by (auto simp: in_journal_def journal_complete_def journal_finish_def Let_def reread_def journal_get_def
      action_key_def sm_bind_def record_of_row_def py_result_def writes_record_def)
qed

lemma sample_durable_executes:
  fixes s :: durable_gateway_state
  assumes src: "ap_source_id a = ''lab.mutable''" and new: "journal_row_of s (action_key a) = None"
    and "preview_valid sample_prims a v sample_identity (utc (int (gst_tick s)))"
    and "approval_ok sample_action_env a ap sample_identity (utc (int (gst_tick s))) False"
  shows "\<exists>r t. durable_execute sample_saga_env a v sample_identity ap s = (Inr r, t) \<and> gst_tick t = gst_tick s + 8
     \<and> (\<forall>k. k \<noteq> action_key a \<longrightarrow> journal_row_of t k = journal_row_of s k)
     \<and> rc_state r = AS_Executed \<and> rc_action_digest r = ''sha256:d''"
proof -
  let ?k = "action_key a" and ?now = "utc (int (gst_tick s))"
  let ?result = "[(''success'', JBool True), (''postconditions_met'', JBool True), (''source_version'', JStr ''v2'')]"
  define s1 where "s1 = s\<lparr>gst_tick := gst_tick s + 4\<rparr>"
  have "journal_row_of s1 ?k = None" using new by (simp add: s1_def)
  from sample_prepares [OF this, of "pd_decision_id allow_decision" ?now]
  obtain r1 s2 where prepared: "in_journal (journal_prepare (dx_journal sample_saga_env) a (pd_decision_id allow_decision) ?now) s1 = (Inr r1, s2)"
    "stored_result r1 = None" and w1: "writes_record ?k (\<lambda>row. jr_action_digest row = ''sha256:d''
      \<and> jr_state row = durable_value DS_Prepared \<and> jr_receipt_json row = None) s1 s2"
    by (elim exE conjE) (rule that)
  from w1 obtain row where row: "journal_row_of s2 ?k = Some row" "jr_action_digest row = ''sha256:d''"
      "jr_state row = durable_value DS_Prepared" "jr_receipt_json row = None"
    by (auto simp: writes_record_def)
  from sample_begins [OF row, of ?now]
  obtain r2 s3 where begun: "in_journal (journal_begin (dx_journal sample_saga_env) a ?now) s2 = (Inr r2, s3)"
    and w2: "writes_record ?k (\<lambda>row. jr_action_digest row = ''sha256:d'') s2 s3"
    by (elim exE conjE) (rule that)
  define s4 where "s4 = s3\<lparr>gst_tick := Suc (gst_tick s3), gst_dispatches := gst_dispatches s3 @ [(''lab.mutable'', mutation_request a)]\<rparr>"
  obtain r s5 where settled: "settle sample_action_env a allow_decision ?now ?result s4 = (Inr r, s5)" "gst_tick s5 = Suc (gst_tick s4)"
    using sample_settles [of a allow_decision ?now s4] by auto
  have r: "rc_state r = AS_Executed" "rc_action_digest r = ''sha256:d''"
    using settle_receipt [OF settled(1)] sample_result(2) by simp_all
  have s5: "dst_journal s5 = dst_journal s3"
    using keeps_journal [OF quietD [OF quiet_settle settled(1)]] by (simp add: s4_def)
  from w2 s5 obtain row' where row': "journal_row_of s5 ?k = Some row'" "jr_action_digest row' = ''sha256:d''"
    by (auto simp: writes_record_def)
  from sample_completes [OF row', of r "rc_completed_at r"]
  obtain r6 s6 where completed: "in_journal (journal_complete (dx_journal sample_saga_env) a r (rc_completed_at r)) s5 = (Inr r6, s6)"
    and w6: "writes_record ?k (\<lambda>row. True) s5 s6"
    by (elim exE conjE) (rule that)
  have "durable_execute sample_saga_env a v sample_identity ap s = (Inr r, s6\<lparr>gst_tick := Suc (Suc (gst_tick s6))\<rparr>)"
    using sample_checks [OF assms(3,4)] prepared begun settled completed
    by (simp add: durable_execute_def durable_dispatch_def durable_answered_def durable_settled_def run_hook_def src sample_lookup
        send_mutation_eq sample_result sm_bind_def sample_emits_stage flip: s1_def s4_def)
  moreover have "gst_tick s6 = gst_tick s + 6"
    by (simp add: writes_record_frame [OF w1] writes_record_frame [OF w2] writes_record_frame [OF w6] settled(2) s4_def s1_def)
  moreover have "journal_row_of s6 k = journal_row_of s k" if "k \<noteq> ?k" for k
    using writes_record_frame(2) [OF w1 that] writes_record_frame(2) [OF w2 that] writes_record_frame(2) [OF w6 that]
    by (simp add: s5 s1_def)
  ultimately show ?thesis using r
    by (intro exI [of _ r] exI [of _ "s6\<lparr>gst_tick := Suc (Suc (gst_tick s6))\<rparr>"] conjI allI impI) simp_all
qed

abbreviation durable_sample_saga :: "durable_gateway_state saga_gateway" where
  "durable_sample_saga \<equiv> durable_saga_gateway sample_saga_env"

lemma durable_saga_gateway_simps [simp]:
  "sg_preview (durable_saga_gateway env) a i = preview_action (dx_action env) a i five_minutes"
  "sg_execute (durable_saga_gateway env) = durable_execute env"
  "sg_compensate (durable_saga_gateway env) = durable_compensate env"
  by (simp_all add: durable_saga_gateway_def)

lemma durable_sample_forward:
  assumes "gst_tick s < 900" and "journal_row_of s (''lab.mutable'', key) = None"
  shows "\<exists>r t. saga_forward durable_sample_saga sample_identity (sample_step key True) s = (Inr r, t)
    \<and> gst_tick t = gst_tick s + 14 \<and> (\<forall>k. k \<noteq> (''lab.mutable'', key) \<longrightarrow> journal_row_of t k = journal_row_of s k)
    \<and> rc_state r = AS_Executed \<and> rc_action_digest r = ''sha256:d''"
proof -
  let ?a = "sample_action key"
  let ?v = "preview_of sample_prims ?a sample_identity allow_decision (utc (int (gst_tick s) + 3)) five_minutes"
  obtain audit where pv: "preview_action sample_action_env ?a sample_identity five_minutes s
      = (Inr ?v, s\<lparr>gst_tick := gst_tick s + 6, gst_audit := audit\<rparr>)" (is "_ = (_, ?s)")
    using sample_previews [of ?a] by auto
  have "preview_valid sample_prims ?a ?v sample_identity (utc (int (gst_tick ?s)))"
    by (rule sample_preview_valid) (simp add: five_minutes_def)
  moreover have "approval_ok sample_action_env ?a (Some (sample_approval_of sample_prims)) sample_identity
      (utc (int (gst_tick ?s))) False"
    using assms(1) by (intro sample_approved) simp_all
  ultimately obtain r t where ran: "durable_execute sample_saga_env ?a ?v sample_identity (Some (sample_approval_of sample_prims)) ?s = (Inr r, t)"
      "gst_tick t = gst_tick ?s + 8" "\<forall>k. k \<noteq> action_key ?a \<longrightarrow> journal_row_of t k = journal_row_of ?s k"
      "rc_state r = AS_Executed" "rc_action_digest r = ''sha256:d''"
    using assms(2) sample_durable_executes [of ?a ?s ?v "Some (sample_approval_of sample_prims)"] by auto
  have "saga_forward durable_sample_saga sample_identity (sample_step key True) s = (Inr r, t)"
    using ran(1) by (simp add: saga_forward_def sample_step_def sm_bind_def pv)
  with ran(2-5) show ?thesis by (intro exI [of _ r] exI [of _ t]) simp
qed

lemma durable_sample_refused:
  "\<exists>t. saga_forward durable_sample_saga sample_identity (sample_step key False) s
      = (Inl (Ax_Approval_Required ''human approval is required''), t)
    \<and> gst_tick t = gst_tick s + 7 \<and> dst_journal t = dst_journal s"
proof -
  let ?a = "sample_action key"
  let ?v = "preview_of sample_prims ?a sample_identity allow_decision (utc (int (gst_tick s) + 3)) five_minutes"
  obtain audit where pv: "preview_action sample_action_env ?a sample_identity five_minutes s
      = (Inr ?v, s\<lparr>gst_tick := gst_tick s + 6, gst_audit := audit\<rparr>)"
    using sample_previews [of ?a] by auto
  have "preview_valid sample_prims ?a ?v sample_identity (utc (int (gst_tick s) + 6))"
    by (rule sample_preview_valid) (simp add: five_minutes_def)
  moreover have "ap_approval_mode ?a = Approval_Human" by (simp add: sample_action_def)
  ultimately show ?thesis
    by (simp add: saga_forward_def sample_step_def sm_bind_def pv durable_execute_def check_action_def
        current_time_def next_tick_def validate_preview_def validate_approval_def add.commute)
qed

lemma durable_sample_backward:
  assumes "gst_tick s < 900" and "journal_row_of s (''lab.mutable'', key @ '':compensate'') = None"
    and "rc_state r = AS_Executed" and "rc_action_digest r = ''sha256:d''"
  shows "\<exists>q t. saga_backward durable_sample_saga sample_identity (sample_step key True, r) s = (Inr q, t)"
proof -
  define spec where "spec = \<lparr>cs_operation = ''restore'', cs_parameters = [(''status'', JStr ''open'')],
       cs_preconditions = [(''version'', JInt 2)]\<rparr>"
  let ?a = "sample_action key"
  let ?d = "derived_plan ?a spec"
  have spec: "ap_compensation ?a = Some spec" by (simp add: sample_action_def spec_def)
  have d: "ap_source_id ?d = ''lab.mutable''" "ap_approval_mode ?d = Approval_None"
      "action_key ?d = (''lab.mutable'', key @ '':compensate'')"
    by (simp_all add: derived_plan_def action_key_def sample_action_def)
  have mk: "mk_action_plan ?d = Inr ?d"
    by (simp add: mk_action_plan_def derived_plan_def spec_def sample_action_def)
  let ?s1 = "s\<lparr>gst_tick := Suc (gst_tick s)\<rparr>"
  let ?v = "preview_of sample_prims ?d sample_identity allow_decision (utc (int (gst_tick ?s1) + 3)) five_minutes"
  obtain audit where pv: "preview_action sample_action_env ?d sample_identity five_minutes ?s1
      = (Inr ?v, ?s1\<lparr>gst_tick := gst_tick ?s1 + 6, gst_audit := audit\<rparr>)" (is "_ = (_, ?s2)")
    using sample_previews [OF d(1), of sample_identity ?s1] by blast
  have "preview_valid sample_prims ?d ?v sample_identity (utc (int (gst_tick ?s2)))"
    by (rule sample_preview_valid) (simp add: five_minutes_def)
  moreover have "approval_ok sample_action_env ?d None sample_identity (utc (int (gst_tick ?s2))) False"
    by (simp add: approval_ok_def d(2))
  moreover have "journal_row_of ?s2 (action_key ?d) = None" using assms(2) d(3) by simp
  ultimately obtain q t where ex: "durable_execute sample_saga_env ?d ?v sample_identity None ?s2 = (Inr q, t)"
    using sample_durable_executes [OF d(1)] by blast
  have ok: "validate_approval sample_action_env ?a (Some (sample_approval_of sample_prims)) sample_identity
      (utc (int (gst_tick s))) True u = (Inr (), u)" for u :: durable_gateway_state
    using assms(1) by (simp add: validate_approval_Inr sample_approved)
  obtain e es where "audit_append sample_prims ''compensated'' (ap_action_id ?a) (utc (int (gst_tick t)))
      [(''compensation_receipt_id'', JStr (rc_receipt_id q))] (gst_audit t) = Inr (e, es)"
    using audit_append_aware [OF aware_utc] by blast
  with ok ex pv show ?thesis
    by (simp add: saga_backward_def sample_step_def durable_compensate_def compensate_with_def spec assms(3,4) sm_bind_def
        current_time_def next_tick_def mk audit_event_def)
qed

theorem durable_saga_accounts_for_sends_witness:
  "\<exists>out t undone. run_saga (\<lambda>n. False) durable_sample_saga [sample_step ''k1'' True, sample_step ''k2'' False]
     sample_identity durable_start = (Inr out, t) \<and> so_state out = Saga_Compensated
   \<and> map rc_compensation_of (so_compensations out) = map (\<lambda>r. Some (rc_receipt_id r)) (so_receipts out)
   \<and> undone \<in> set (subseqs (undo_sends (sample_step ''k1'' True)))
   \<and> (gst_dispatches t = action_dispatch (sample_action ''k1'') # undone
      \<or> gst_dispatches t = action_dispatch (sample_action ''k1'') # action_dispatch (sample_action ''k2'') # undone)"
proof -
  let ?steps = "[sample_step ''k1'' True, sample_step ''k2'' False]"
  have start: "journal_row_of durable_start k = None" for k by (simp add: durable_start_def empty_journal_def)
  obtain r t where 1: "saga_forward durable_sample_saga sample_identity (sample_step ''k1'' True) durable_start = (Inr r, t)"
      "gst_tick t = 14" "journal_row_of t (''lab.mutable'', ''k1:compensate'') = None"
      "rc_state r = AS_Executed" "rc_action_digest r = ''sha256:d''"
    using durable_sample_forward [of durable_start "''k1''"] start by (auto simp: durable_start_def)
  obtain u where 2: "saga_forward durable_sample_saga sample_identity (sample_step ''k2'' False) t
      = (Inl (Ax_Approval_Required ''human approval is required''), u)" "gst_tick u = 21" "dst_journal u = dst_journal t"
    using durable_sample_refused [of "''k2''" t] 1(2) by auto
  obtain q w where 3: "saga_backward durable_sample_saga sample_identity (sample_step ''k1'' True, r) u = (Inr q, w)"
    using durable_sample_backward [OF _ _ 1(4,5), of u "''k1''"] 2 1(3) by auto
  let ?out = "\<lparr>so_state = Saga_Compensated, so_receipts = [r], so_compensations = [q],
      so_failed_action_id = Some ''a1''\<rparr>"
  have id: "ap_action_id (ss_action (sample_step ''k2'' False)) = ''a1''" by (simp add: sample_step_def sample_action_def)
  have run: "run_saga (\<lambda>n. False) durable_sample_saga ?steps sample_identity durable_start = (Inr ?out, w)"
    by (simp add: run_saga_def 1(1) 2(1) 3 id)
  from durable_saga_accounts_for_sends [OF run] obtain failing undone where
      "gst_dispatches w = action_dispatch (sample_action ''k1'') # failing @ undone"
      "failing \<in> set (subseqs [action_dispatch (sample_action ''k2'')])"
      "undone \<in> set (subseqs (undo_sends (sample_step ''k1'' True)))"
      "rc_compensation_of q = Some (rc_receipt_id r)"
    by (auto simp: durable_start_def step_sends_def 1(4) sample_step_def Let_def)
  with run show ?thesis by (intro exI [of _ ?out] exI [of _ w] exI [of _ undone]) (auto simp: Let_def)
qed

end
