(* ===== verification/Evidence_Sets.thy ===== *)
theory Evidence_Sets
  imports Action_Plans
begin

text \<open>
  evidence.py and promotion.py: claims of evidence per plane, the cross-plane evidence set with its combined
  acceptance, and the promotion readiness of a release set.
\<close>

section \<open>Claims\<close>

datatype evidence_status = Ev_Missing | Ev_Passed | Ev_Failed | Ev_Not_Applicable

primrec evidence_status_value :: "evidence_status \<Rightarrow> string" where
  "evidence_status_value Ev_Missing = ''missing''"
| "evidence_status_value Ev_Passed = ''passed''"
| "evidence_status_value Ev_Failed = ''failed''"
| "evidence_status_value Ev_Not_Applicable = ''not-applicable''"

record evidence_claim =
  ec_status :: evidence_status
  ec_observed_at :: "datetime option"
  ec_references :: "string list"

definition mk_evidence_claim :: "evidence_claim \<Rightarrow> evidence_claim checked" where
  "mk_evidence_claim c =
     (if ec_observed_at c \<noteq> None \<and> \<not> aware (the (ec_observed_at c))
      then Inl (ValueError ''evidence observation time must be timezone-aware'')
      else if ec_status c \<in> {Ev_Passed, Ev_Failed} \<and> (ec_observed_at c = None \<or> ec_references c = [])
      then Inl (ValueError ''observed evidence requires time and references'')
      else if ec_status c \<notin> {Ev_Passed, Ev_Failed} \<and> (ec_observed_at c \<noteq> None \<or> ec_references c \<noteq> [])
      then Inl (ValueError ''missing/not-applicable evidence cannot carry observations'')
      else if \<not> distinct (ec_references c) \<or> [] \<in> set (ec_references c)
      then Inl (ValueError ''evidence references must be non-empty and unique'')
      else Inr c)"

definition claim_contract :: "prims \<Rightarrow> evidence_claim \<Rightarrow> json" where
  "claim_contract p c = JObj
     [(''status'', JStr (evidence_status_value (ec_status c))),
      (''observedAt'', (case ec_observed_at c of None \<Rightarrow> JNull | Some t \<Rightarrow> JStr (pr_isoformat p t))),
      (''references'', JArr (map JStr (ec_references c)))]"

section \<open>Planes\<close>

definition hex_text :: "nat \<Rightarrow> string \<Rightarrow> bool" where
  \<comment> \<open>\<open>re.fullmatch\<close> of n lower-case hexadecimal digits\<close>
  "hex_text n s \<longleftrightarrow> length s = n \<and> list_all (\<lambda>c. c \<in> set ''0123456789abcdef'') s"

abbreviation git_sha :: "string \<Rightarrow> bool" where
  "git_sha \<equiv> hex_text 40"

record plane_evidence =
  pl_component :: string
  pl_repository :: string
  pl_revision :: string
  pl_contract :: evidence_claim
  pl_ci :: evidence_claim
  pl_published :: evidence_claim
  pl_deployed :: evidence_claim
  pl_runtime_verified :: evidence_claim
  pl_fault_verified :: evidence_claim
  pl_stakeholder_accepted :: evidence_claim

definition mk_plane_evidence :: "plane_evidence \<Rightarrow> plane_evidence checked" where
  "mk_plane_evidence e =
     (if pl_component e = [] \<or> pl_repository e = []
      then Inl (ValueError ''plane identity and repository are required'')
      else if \<not> git_sha (pl_revision e)
      then Inl (ValueError ''plane revision must be an exact Git SHA'')
      else Inr e)"

definition plane_contract :: "prims \<Rightarrow> plane_evidence \<Rightarrow> json" where
  "plane_contract p e = JObj
     [(''component'', JStr (pl_component e)), (''repository'', JStr (pl_repository e)),
      (''revision'', JStr (pl_revision e)),
      (''evidence'', JObj
        [(''contract'', claim_contract p (pl_contract e)), (''ci'', claim_contract p (pl_ci e)),
         (''published'', claim_contract p (pl_published e)), (''deployed'', claim_contract p (pl_deployed e)),
         (''runtimeVerified'', claim_contract p (pl_runtime_verified e)),
         (''faultVerified'', claim_contract p (pl_fault_verified e)),
         (''stakeholderAccepted'', claim_contract p (pl_stakeholder_accepted e))])]"

definition required_planes :: "string list" where
  "required_planes = [''ADLC'', ''Python-SDK'', ''OCP-reference-lab'', ''model-plane'']"

record cross_plane_set =
  xp_release_set :: string
  xp_generated_at :: datetime
  xp_components :: "plane_evidence list"

definition mk_cross_plane_set :: "cross_plane_set \<Rightarrow> cross_plane_set checked" where
  "mk_cross_plane_set x =
     (if xp_release_set x = [] \<or> \<not> aware (xp_generated_at x) \<or> xp_components x = []
      then Inl (ValueError ''release-set identity, time and components are required'')
      else if \<not> distinct (map pl_component (xp_components x))
      then Inl (ValueError ''cross-plane component names must be unique'')
      else if set (map pl_component (xp_components x)) \<noteq> set required_planes
      then Inl (ValueError ''cross-plane evidence must contain exactly ADLC, Python-SDK, OCP-reference-lab and model-plane'')
      else Inr x)"

definition plane_claims :: "plane_evidence \<Rightarrow> evidence_claim list" where
  "plane_claims e = [pl_contract e, pl_ci e, pl_published e, pl_deployed e, pl_runtime_verified e,
     pl_fault_verified e, pl_stakeholder_accepted e]"

definition combined_runtime_accepted :: "cross_plane_set \<Rightarrow> bool" where
  "combined_runtime_accepted x \<longleftrightarrow>
     list_all (\<lambda>c. ec_status c = Ev_Passed) (concat (map plane_claims (xp_components x)))"

definition cross_plane_contract :: "prims \<Rightarrow> cross_plane_set \<Rightarrow> json" where
  "cross_plane_contract p x = JObj
     [(''schemaVersion'', JStr ''data.harness/v1''), (''releaseSet'', JStr (xp_release_set x)),
      (''generatedAt'', JStr (pr_isoformat p (xp_generated_at x))),
      (''combinedRuntimeAccepted'', JBool (combined_runtime_accepted x)),
      (''components'', JArr (map (plane_contract p) (xp_components x)))]"

text \<open>Every part of an evidence set passed its constructor.\<close>

definition evidence_built :: "cross_plane_set \<Rightarrow> bool" where
  "evidence_built x \<longleftrightarrow> mk_cross_plane_set x = Inr x
     \<and> list_all (\<lambda>e. mk_plane_evidence e = Inr e \<and> list_all (\<lambda>c. mk_evidence_claim c = Inr c) (plane_claims e))
         (xp_components x)"

definition claim_observed :: "evidence_claim \<Rightarrow> bool" where
  "claim_observed c \<longleftrightarrow> ec_status c = Ev_Passed \<and> ec_references c \<noteq> []
     \<and> (\<exists>t. ec_observed_at c = Some t \<and> aware t)"

lemma mk_evidence_claim_passed:
  "mk_evidence_claim c = Inr d \<Longrightarrow> claim_observed c \<longleftrightarrow> ec_status c = Ev_Passed"
  by (auto simp: mk_evidence_claim_def claim_observed_def split: if_splits)

lemma mk_cross_plane_set_Inr:
  "mk_cross_plane_set x = Inr y \<Longrightarrow> distinct (map pl_component (xp_components x))
     \<and> pl_component ` set (xp_components x) = set required_planes"
  by (auto simp: mk_cross_plane_set_def split: if_splits)

text \<open>A property of all entries of a table with distinct keys, key by key.\<close>

lemma all_by_key:
  assumes "distinct (map f xs)"
  shows "(\<forall>x \<in> set xs. P x) \<longleftrightarrow> (\<forall>k \<in> f ` set xs. \<exists>!x. x \<in> set xs \<and> f x = k \<and> P x)"
proof -
  have "x = y" if "x \<in> set xs" "y \<in> set xs" "f x = f y" for x y
    using assms that by (simp add: distinct_map inj_on_def)
  then show ?thesis by blast
qed

text \<open>
  CI alone is never runtime acceptance: a cross-plane evidence set whose parts passed their checks is
  accepted exactly when each of the four planes has exactly one entry, at an exact revision, and all seven
  of its claims, runtime, fault and stakeholder ones included, are passes with a time and references.
\<close>

lemma combined_acceptance_iff:
  assumes "evidence_built x"
  shows "combined_runtime_accepted x \<longleftrightarrow>
    (\<forall>plane \<in> set required_planes. \<exists>!e. e \<in> set (xp_components x) \<and> pl_component e = plane
       \<and> git_sha (pl_revision e) \<and> list_all claim_observed (plane_claims e))"
proof -
  have names: "distinct (map pl_component (xp_components x))" "pl_component ` set (xp_components x) = set required_planes"
    using assms mk_cross_plane_set_Inr by (auto simp: evidence_built_def)
  have sha: "git_sha (pl_revision e)" if "e \<in> set (xp_components x)" for e
    using assms that by (auto simp: evidence_built_def list_all_iff mk_plane_evidence_def split: if_splits)
  have obs: "claim_observed c \<longleftrightarrow> ec_status c = Ev_Passed" if "e \<in> set (xp_components x)" "c \<in> set (plane_claims e)" for e c
    using assms that mk_evidence_claim_passed by (fastforce simp: evidence_built_def list_all_iff)
  have "combined_runtime_accepted x \<longleftrightarrow>
      (\<forall>e \<in> set (xp_components x). git_sha (pl_revision e) \<and> list_all claim_observed (plane_claims e))"
    using obs sha by (auto simp: combined_runtime_accepted_def list_all_iff)
  also have "\<dots> \<longleftrightarrow> (\<forall>plane \<in> pl_component ` set (xp_components x). \<exists>!e. e \<in> set (xp_components x)
      \<and> pl_component e = plane \<and> git_sha (pl_revision e) \<and> list_all claim_observed (plane_claims e))"
    using names(1) by (rule all_by_key)
  finally show ?thesis by (simp only: names(2))
qed

definition sample_claim :: evidence_claim where
  "sample_claim = \<lparr>ec_status = Ev_Passed, ec_observed_at = Some (utc 0), ec_references = [''run/1'']\<rparr>"

definition sample_planes :: cross_plane_set where
  "sample_planes = \<lparr>xp_release_set = ''r1'', xp_generated_at = utc 0,
     xp_components = map (\<lambda>name. \<lparr>pl_component = name, pl_repository = ''https://example.org/r'', pl_revision = replicate 40 CHR ''a'',
       pl_contract = sample_claim, pl_ci = sample_claim, pl_published = sample_claim, pl_deployed = sample_claim,
       pl_runtime_verified = sample_claim, pl_fault_verified = sample_claim, pl_stakeholder_accepted = sample_claim\<rparr>)
       required_planes\<rparr>"

lemma combined_acceptance_iff_example:
  "(\<exists>!e. e \<in> set (xp_components sample_planes) \<and> pl_component e = ''ADLC'' \<and> git_sha (pl_revision e)
      \<and> list_all claim_observed (plane_claims e))
   \<and> \<not> combined_runtime_accepted (sample_planes\<lparr>xp_components := map (pl_runtime_verified_update
     (\<lambda>c. \<lparr>ec_status = Ev_Missing, ec_observed_at = None, ec_references = []\<rparr>)) (xp_components sample_planes)\<rparr>)"
proof
  have sha: "git_sha (replicate 40 CHR ''a'')" by code_simp
  have built: "evidence_built sample_planes"
    using sha by (simp add: evidence_built_def sample_planes_def mk_cross_plane_set_def required_planes_def
        mk_plane_evidence_def mk_evidence_claim_def plane_claims_def sample_claim_def aware_def utc_def)
  have "combined_runtime_accepted sample_planes"
    by (simp add: combined_runtime_accepted_def sample_planes_def required_planes_def plane_claims_def sample_claim_def)
  with combined_acceptance_iff [OF built] have all: "\<forall>plane \<in> set required_planes. \<exists>!e. e \<in> set (xp_components sample_planes)
     \<and> pl_component e = plane \<and> git_sha (pl_revision e) \<and> list_all claim_observed (plane_claims e)" by (rule iffD1)
  have "''ADLC'' \<in> set required_planes" by (simp add: required_planes_def)
  with all show "\<exists>!e. e \<in> set (xp_components sample_planes) \<and> pl_component e = ''ADLC'' \<and> git_sha (pl_revision e)
      \<and> list_all claim_observed (plane_claims e)" by (rule bspec)
  show "\<not> combined_runtime_accepted (sample_planes\<lparr>xp_components := map (pl_runtime_verified_update
     (\<lambda>c. \<lparr>ec_status = Ev_Missing, ec_observed_at = None, ec_references = []\<rparr>)) (xp_components sample_planes)\<rparr>)"
    by (simp add: combined_runtime_accepted_def sample_planes_def required_planes_def plane_claims_def)
qed

end
