(* ===== verification/Promotion_Readiness.thy ===== *)
theory Promotion_Readiness
  imports Evidence_Sets
begin

text \<open>
  promotion.py: the readiness of a reference-lab release set for the promotion decision, from the evidence
  of each kind and a compatibility matrix. The kinds are a StrEnum, so they sort by their values.
\<close>

datatype evidence_kind = Kind_Source | Kind_Ci | Kind_Runtime | Kind_Stakeholder

primrec evidence_kind_value :: "evidence_kind \<Rightarrow> string" where
  "evidence_kind_value Kind_Source = ''source''"
| "evidence_kind_value Kind_Ci = ''ci''"
| "evidence_kind_value Kind_Runtime = ''runtime''"
| "evidence_kind_value Kind_Stakeholder = ''stakeholder''"

lemma evidence_kind_value_inj: "evidence_kind_value k = evidence_kind_value l \<Longrightarrow> k = l"
  by (cases k; cases l) simp_all

instantiation evidence_kind :: linorder
begin

definition less_eq_evidence_kind :: "evidence_kind \<Rightarrow> evidence_kind \<Rightarrow> bool" where
  "less_eq_evidence_kind k l \<longleftrightarrow> evidence_kind_value k \<le> evidence_kind_value l"

definition less_evidence_kind :: "evidence_kind \<Rightarrow> evidence_kind \<Rightarrow> bool" where
  "less_evidence_kind k l \<longleftrightarrow> evidence_kind_value k < evidence_kind_value l"

instance
  by intro_classes (auto simp: less_eq_evidence_kind_def less_evidence_kind_def dest: evidence_kind_value_inj)

end

datatype promotion_status = Pr_Passed | Pr_Failed | Pr_Missing

record promotion_evidence =
  pe_evidence_id :: string
  pe_kind :: evidence_kind
  pe_status :: promotion_status
  pe_revision :: string
  pe_digest :: string

definition mk_promotion_evidence :: "promotion_evidence \<Rightarrow> promotion_evidence checked" where
  "mk_promotion_evidence e =
     (if pe_evidence_id e = [] \<or> pe_digest e = [] \<or> \<not> git_sha (pe_revision e)
      then Inl (ValueError ''promotion evidence requires identity, digest and exact revision'')
      else Inr e)"

record compatibility_entry =
  ce_component :: string
  ce_revision :: string
  ce_compatible :: bool
  ce_evidence_id :: string

definition mk_compatibility_entry :: "compatibility_entry \<Rightarrow> compatibility_entry checked" where
  "mk_compatibility_entry e =
     (if ce_component e = [] \<or> ce_evidence_id e = [] \<or> \<not> git_sha (ce_revision e)
      then Inl (ValueError ''compatibility entries require component, exact revision and evidence'')
      else Inr e)"

record compatibility_matrix =
  cm_release_set :: string
  cm_entries :: "compatibility_entry list"

definition matrix_compatible :: "compatibility_matrix \<Rightarrow> bool" where
  "matrix_compatible m \<longleftrightarrow> cm_entries m \<noteq> [] \<and> distinct (map ce_component (cm_entries m))
     \<and> list_all ce_compatible (cm_entries m)"

record promotion_readiness =
  rd_ready :: bool
  rd_failed_kinds :: "evidence_kind list"
  rd_missing_kinds :: "evidence_kind list"
  rd_compatibility_ready :: bool

definition all_kinds :: "evidence_kind list" where
  "all_kinds = [Kind_Source, Kind_Ci, Kind_Runtime, Kind_Stakeholder]"

definition by_kind :: "promotion_evidence list \<Rightarrow> (evidence_kind, promotion_evidence) dict" where
  "by_kind evidence = fold (\<lambda>e. dict_set (pe_kind e) e) evidence []"

definition evaluate_promotion :: "promotion_evidence list \<Rightarrow> compatibility_matrix \<Rightarrow> promotion_readiness" where
  "evaluate_promotion evidence matrix =
     (let d = by_kind evidence;
          missing = sorted_set (filter (\<lambda>k. k \<notin> set (dict_keys d)) all_kinds
            @ map fst (filter (\<lambda>(k, e). pe_status e = Pr_Missing) d));
          failed = sort (map fst (filter (\<lambda>(k, e). pe_status e = Pr_Failed) d));
          nonpassing = list_ex (\<lambda>(k, e). pe_status e \<noteq> Pr_Passed) d
      in \<lparr>rd_ready = (missing = [] \<and> failed = [] \<and> \<not> nonpassing \<and> matrix_compatible matrix),
          rd_failed_kinds = failed, rd_missing_kinds = missing,
          rd_compatibility_ready = matrix_compatible matrix\<rparr>)"

text \<open>The dictionary keeps the last evidence given of each kind.\<close>

definition latest_evidence :: "promotion_evidence list \<Rightarrow> evidence_kind \<Rightarrow> promotion_evidence option" where
  "latest_evidence evidence k = find (\<lambda>e. pe_kind e = k) (rev evidence)"

lemma by_kind_snoc: "by_kind (es @ [e]) = dict_set (pe_kind e) e (by_kind es)"
  by (simp add: by_kind_def)

lemma by_kind_wf [simp]: "dict_wf (by_kind es)"
  by (induction es rule: rev_induct) (simp_all add: by_kind_snoc, simp add: by_kind_def)

lemma by_kind_get [simp]: "dict_get (by_kind es) k = latest_evidence es k"
  by (induction es rule: rev_induct) (auto simp: by_kind_snoc latest_evidence_def, simp add: by_kind_def)

lemma by_kind_in: "(k, e) \<in> set (by_kind es) \<longleftrightarrow> latest_evidence es k = Some e"
  using dict_get_Some_in [OF by_kind_wf] by simp

lemma all_kinds_all [simp]: "set all_kinds = UNIV"
  using evidence_kind.exhaust by (auto simp: all_kinds_def)

lemma missing_kinds_set:
  "k \<in> set (rd_missing_kinds (evaluate_promotion es m)) \<longleftrightarrow>
     (case latest_evidence es k of None \<Rightarrow> True | Some e \<Rightarrow> pe_status e = Pr_Missing)"
  using in_keys [of k "by_kind es"]
  by (auto simp: evaluate_promotion_def Let_def by_kind_in image_iff split: option.split)

lemma failed_kinds_set:
  "k \<in> set (rd_failed_kinds (evaluate_promotion es m)) \<longleftrightarrow>
     (\<exists>e. latest_evidence es k = Some e \<and> pe_status e = Pr_Failed)"
  by (auto simp: evaluate_promotion_def Let_def by_kind_in image_iff)

lemma nonpassing_iff:
  "list_ex (\<lambda>(k, e). pe_status e \<noteq> Pr_Passed) (by_kind es) \<longleftrightarrow>
     (\<exists>k e. latest_evidence es k = Some e \<and> pe_status e \<noteq> Pr_Passed)"
  by (auto simp: list_ex_iff by_kind_in) (metis by_kind_in case_prodI)

text \<open>
  A release set is ready for the promotion decision exactly when the latest evidence of every kind,
  source, CI, runtime and stakeholder, is a pass and the compatibility matrix is complete and clean; the
  kinds that stand in the way are reported, missing and failed apart, each sorted and once.
\<close>

lemma promotion_ready_iff:
  "(rd_ready (evaluate_promotion es m) \<longleftrightarrow> matrix_compatible m
      \<and> (\<forall>k. \<exists>e. latest_evidence es k = Some e \<and> pe_status e = Pr_Passed))
   \<and> rd_missing_kinds (evaluate_promotion es m) = sorted_list_of_set
      {k. case latest_evidence es k of None \<Rightarrow> True | Some e \<Rightarrow> pe_status e = Pr_Missing}
   \<and> rd_failed_kinds (evaluate_promotion es m) = sorted_list_of_set
      {k. \<exists>e. latest_evidence es k = Some e \<and> pe_status e = Pr_Failed}"
proof (intro conjI)
  let ?r = "evaluate_promotion es m"
  have missing: "set (rd_missing_kinds ?r) = {k. case latest_evidence es k of None \<Rightarrow> True | Some e \<Rightarrow> pe_status e = Pr_Missing}"
    using missing_kinds_set by blast
  have failed: "set (rd_failed_kinds ?r) = {k. \<exists>e. latest_evidence es k = Some e \<and> pe_status e = Pr_Failed}"
    using failed_kinds_set by blast
  have "sorted (rd_missing_kinds ?r)" "distinct (rd_missing_kinds ?r)"
    by (simp_all add: evaluate_promotion_def Let_def)
  then show "rd_missing_kinds ?r = sorted_list_of_set
      {k. case latest_evidence es k of None \<Rightarrow> True | Some e \<Rightarrow> pe_status e = Pr_Missing}"
    using sorted_distinct_set_unique missing by (metis List.finite_set distinct_sorted_list_of_set set_sorted_list_of_set sorted_sorted_list_of_set)
  have "sorted (rd_failed_kinds ?r)" "distinct (rd_failed_kinds ?r)"
    using by_kind_wf [of es] by (simp_all add: evaluate_promotion_def Let_def distinct_map_filter)
  then show "rd_failed_kinds ?r = sorted_list_of_set
      {k. \<exists>e. latest_evidence es k = Some e \<and> pe_status e = Pr_Failed}"
    using sorted_distinct_set_unique failed by (metis List.finite_set distinct_sorted_list_of_set set_sorted_list_of_set sorted_sorted_list_of_set)
  have ready: "rd_ready ?r \<longleftrightarrow> rd_missing_kinds ?r = [] \<and> rd_failed_kinds ?r = []
      \<and> \<not> (\<exists>k e. latest_evidence es k = Some e \<and> pe_status e \<noteq> Pr_Passed) \<and> matrix_compatible m"
    unfolding nonpassing_iff [symmetric] by (simp add: evaluate_promotion_def Let_def)
  have empty: "rd_missing_kinds ?r = [] \<longleftrightarrow> (\<forall>k. \<exists>e. latest_evidence es k = Some e \<and> pe_status e \<noteq> Pr_Missing)"
    unfolding set_empty [symmetric] missing by (auto split: option.splits) (metis option.inject)
  have none: "rd_failed_kinds ?r = [] \<longleftrightarrow> \<not> (\<exists>k e. latest_evidence es k = Some e \<and> pe_status e = Pr_Failed)"
    unfolding set_empty [symmetric] failed by blast
  show "rd_ready ?r \<longleftrightarrow> matrix_compatible m \<and> (\<forall>k. \<exists>e. latest_evidence es k = Some e \<and> pe_status e = Pr_Passed)"
    unfolding ready empty none by (metis option.inject promotion_status.distinct(1,3))
qed

end
