(* ===== verification/Url_Parsing.thy ===== *)
theory Url_Parsing
  imports Harness_Prelude
begin

text \<open>
  What the sources use of urllib: \<open>urlparse\<close> with its scheme, network location and fragment, and the user,
  password and host name it reads from the location. The validity of a bracketed IP literal
  (the ipaddress module) is a parameter.
\<close>

definition str_partition :: "char \<Rightarrow> string \<Rightarrow> string \<times> bool \<times> string" where
  \<comment> \<open>\<open>s.partition(c)\<close>: the text before the first \<open>c\<close>, whether there is one, and the text after it\<close>
  "str_partition c s = (takeWhile (\<lambda>d. d \<noteq> c) s, c \<in> set s, tl (dropWhile (\<lambda>d. d \<noteq> c) s))"

definition ascii_letter :: "char \<Rightarrow> bool" where
  "ascii_letter c \<longleftrightarrow> c \<in> set ''abcdefghijklmnopqrstuvwxyzABCDEFGHIJKLMNOPQRSTUVWXYZ''"

definition scheme_char :: "char \<Rightarrow> bool" where
  "scheme_char c \<longleftrightarrow> ascii_letter c \<or> c \<in> set ''0123456789+-.''"

definition clean_url :: "string \<Rightarrow> string" where
  "clean_url s = filter (\<lambda>c. c \<notin> {CHR 0x09, CHR 0x0D, CHR 0x0A}) (dropWhile (\<lambda>c. (of_char c :: nat) \<le> 32) s)"

definition split_scheme :: "string \<Rightarrow> string \<times> string" where
  "split_scheme s =
     (case str_partition (CHR '':'') s of (before, found, rest) \<Rightarrow>
        if found \<and> before \<noteq> [] \<and> ascii_letter (hd before) \<and> list_all scheme_char before
        then (str_lower before, rest) else ([], s))"

definition split_netloc :: "string \<Rightarrow> string \<times> string" where
  "split_netloc s =
     (if str_startswith s ''//''
      then (takeWhile (\<lambda>c. c \<notin> set ''/?#'') (drop 2 s), dropWhile (\<lambda>c. c \<notin> set ''/?#'') (drop 2 s))
      else ([], s))"

record parsed_url =
  url_scheme :: string
  url_netloc :: string
  url_fragment :: string

definition urlparse :: "(string \<Rightarrow> bool) \<Rightarrow> string \<Rightarrow> parsed_url checked" where
  "urlparse bracketed_ok text =
     (let (scheme, rest) = split_scheme (clean_url text);
          (netloc, rest') = split_netloc rest
      in if CHR ''['' \<in> set netloc \<longleftrightarrow> CHR '']'' \<notin> set netloc
         then Inl (ValueError ''Invalid IPv6 URL'')
         else if CHR ''['' \<in> set netloc \<and> \<not> bracketed_ok netloc
         then Inl (ValueError ''Invalid IPv6 URL'')
         else Inr \<lparr>url_scheme = scheme, url_netloc = netloc,
                   url_fragment = snd (snd (str_partition (CHR ''#'') rest'))\<rparr>)"

lemma urlparse_scheme_netloc:
  "urlparse ok s = Inr u \<Longrightarrow> url_scheme u = fst (split_scheme (clean_url s))
     \<and> url_netloc u = fst (split_netloc (snd (split_scheme (clean_url s))))"
  by (auto simp: urlparse_def split: prod.splits if_splits)

text \<open>\<open>netloc.rpartition(c)\<close>: what stands before the last \<open>c\<close>, if there is one, and what stands after it.\<close>

definition str_rpartition :: "char \<Rightarrow> string \<Rightarrow> string option \<times> string" where
  "str_rpartition c s = (case str_rsplit1 c s of None \<Rightarrow> (None, s) | Some (a, b) \<Rightarrow> (Some a, b))"

definition url_username :: "parsed_url \<Rightarrow> string option" where
  "url_username u = (case fst (str_rpartition (CHR ''@'') (url_netloc u)) of
     None \<Rightarrow> None | Some info \<Rightarrow> Some (fst (str_partition (CHR '':'') info)))"

definition url_password :: "parsed_url \<Rightarrow> string option" where
  "url_password u = (case fst (str_rpartition (CHR ''@'') (url_netloc u)) of
     None \<Rightarrow> None
   | Some info \<Rightarrow> (case str_partition (CHR '':'') info of (_, found, rest) \<Rightarrow> if found then Some rest else None))"

definition host_text :: "parsed_url \<Rightarrow> string" where
  "host_text u =
     (let hostinfo = snd (str_rpartition (CHR ''@'') (url_netloc u)) in
      case str_partition (CHR ''['') hostinfo of (_, bracketed, rest) \<Rightarrow>
        if bracketed then fst (str_partition (CHR '']'') rest) else fst (str_partition (CHR '':'') hostinfo))"

definition url_hostname :: "parsed_url \<Rightarrow> string option" where
  \<comment> \<open>lower case up to the zone of an IPv6 address\<close>
  "url_hostname u =
     (if host_text u = [] then None
      else case str_partition (CHR ''%'') (host_text u) of (name, zoned, zone) \<Rightarrow>
        Some (str_lower name @ (if zoned then CHR ''%'' # zone else [])))"

end
