(* ===== verification/Acceptance_Campaign.thy ===== *)
theory Acceptance_Campaign
  imports Evidence_Sets Url_Parsing Json_Access
begin

text \<open>
  acceptance.py: the evidence ledger of a laptop-local acceptance campaign, the blockers it derives from
  what was observed, its contract, and the parser that rejects a contract whose derived fields are forged.
  JSON values are the ones of Canonical_Json; the parser refuses a value whose type is not the one the
  class annotates.
\<close>

section \<open>Stages and shapes\<close>

datatype acceptance_stage =
    Stage_Source | Stage_Pr_Ci | Stage_Exact_Main_Ci | Stage_Publication | Stage_Local_Image_Load
  | Stage_Local_Startup | Stage_Runtime | Stage_Fault | Stage_Soak | Stage_Protocol_Conformance
  | Stage_Stakeholder

primrec stage_value :: "acceptance_stage \<Rightarrow> string" where
  "stage_value Stage_Source = ''source''"
| "stage_value Stage_Pr_Ci = ''pr-ci''"
| "stage_value Stage_Exact_Main_Ci = ''exact-main-ci''"
| "stage_value Stage_Publication = ''publication''"
| "stage_value Stage_Local_Image_Load = ''local-image-load''"
| "stage_value Stage_Local_Startup = ''local-startup''"
| "stage_value Stage_Runtime = ''runtime''"
| "stage_value Stage_Fault = ''fault''"
| "stage_value Stage_Soak = ''soak''"
| "stage_value Stage_Protocol_Conformance = ''protocol-conformance''"
| "stage_value Stage_Stakeholder = ''stakeholder''"

definition all_stages :: "acceptance_stage list" where
  \<comment> \<open>the order of the enumeration\<close>
  "all_stages = [Stage_Source, Stage_Pr_Ci, Stage_Exact_Main_Ci, Stage_Publication, Stage_Local_Image_Load,
     Stage_Local_Startup, Stage_Runtime, Stage_Fault, Stage_Soak, Stage_Protocol_Conformance, Stage_Stakeholder]"

definition artifact_required :: "acceptance_stage \<Rightarrow> bool" where
  "artifact_required s \<longleftrightarrow> s \<in> {Stage_Publication, Stage_Local_Image_Load, Stage_Local_Startup, Stage_Runtime,
     Stage_Fault, Stage_Soak, Stage_Protocol_Conformance, Stage_Stakeholder}"

datatype source_shape = Shape_Postgresql | Shape_S3 | Shape_Kafka | Shape_Rest

primrec shape_value :: "source_shape \<Rightarrow> string" where
  "shape_value Shape_Postgresql = ''postgresql''"
| "shape_value Shape_S3 = ''s3-compatible''"
| "shape_value Shape_Kafka = ''kafka-compatible''"
| "shape_value Shape_Rest = ''rest''"

definition all_shapes :: "source_shape list" where
  "all_shapes = [Shape_Postgresql, Shape_S3, Shape_Kafka, Shape_Rest]"

definition required_components :: "string list" where
  "required_components = [''data-source-harness'', ''ADLC'', ''Python-SDK'', ''model-plane'']"

section \<open>The parts of a campaign\<close>

definition require_sha :: "string \<Rightarrow> string \<Rightarrow> unit checked" where
  "require_sha value label = (if git_sha value then Inr () else Inl (ValueError (label @ '' must be an exact Git SHA'')))"

definition sha256_text :: "string \<Rightarrow> bool" where
  "sha256_text s \<longleftrightarrow> str_startswith s ''sha256:'' \<and> hex_text 64 (str_removeprefix s ''sha256:'')"

definition require_digest :: "string option \<Rightarrow> string \<Rightarrow> unit checked" where
  "require_digest value label =
     (case value of None \<Rightarrow> Inr ()
      | Some v \<Rightarrow> if sha256_text v then Inr () else Inl (ValueError (label @ '' must be a sha256 digest'')))"

definition require_references :: "string list \<Rightarrow> unit checked" where
  "require_references references =
     (if references = [] \<or> \<not> distinct references \<or> [] \<in> set references
      then Inl (ValueError ''observed evidence references must be non-empty and unique'') else Inr ())"

record acceptance_env =
  av_prims :: prims
  av_fromisoformat :: "string \<Rightarrow> datetime option"
  av_bracketed_ok :: "string \<Rightarrow> bool"

record release_artifact =
  ra_component :: string
  ra_repository :: string
  ra_revision :: string
  ra_artifact_digest :: "string option"

definition mk_release_artifact :: "acceptance_env \<Rightarrow> release_artifact \<Rightarrow> release_artifact checked" where
  "mk_release_artifact av a =
     (if ra_component a = [] then Inl (ValueError ''release component is required'')
      else ck_bind (urlparse (av_bracketed_ok av) (ra_repository a)) (\<lambda>parsed.
           if url_scheme parsed \<noteq> ''https'' \<or> url_netloc parsed = []
           then Inl (ValueError ''release repository must be an HTTPS URL'')
           else ck_bind (require_sha (ra_revision a) ''release revision'') (\<lambda>_.
                ck_bind (require_digest (ra_artifact_digest a) ''release artifact'') (\<lambda>_. Inr a))))"

definition opt_json :: "string option \<Rightarrow> json" where
  "opt_json v = (case v of None \<Rightarrow> JNull | Some t \<Rightarrow> JStr t)"

definition artifact_contract :: "release_artifact \<Rightarrow> json" where
  "artifact_contract a = JObj
     [(''component'', JStr (ra_component a)), (''repository'', JStr (ra_repository a)),
      (''revision'', JStr (ra_revision a)), (''artifactDigest'', opt_json (ra_artifact_digest a))]"

record live_source =
  ls_source_id :: string
  ls_shape :: source_shape
  ls_connector_id :: string
  ls_endpoint_reference :: string
  ls_image_digest :: "string option"
  ls_live_verified :: bool
  ls_observed_at :: "datetime option"
  ls_references :: "string list"

definition credential_reference :: "string \<Rightarrow> bool" where
  "credential_reference e \<longleftrightarrow> str_startswith e ''credential-ref://''
     \<and> str_removeprefix e ''credential-ref://'' \<noteq> []
     \<and> \<not> str_startswith (str_removeprefix e ''credential-ref://'') ''/''"

definition mk_live_source :: "live_source \<Rightarrow> live_source checked" where
  "mk_live_source s =
     (if ls_source_id s = [] \<or> ls_connector_id s = []
      then Inl (ValueError ''live source and connector identities are required'')
      else if \<not> credential_reference (ls_endpoint_reference s)
      then Inl (ValueError ''live endpoints must use credential references'')
      else ck_bind (require_digest (ls_image_digest s) ''source image'') (\<lambda>_.
        if ls_live_verified s
        then (if ls_image_digest s = None \<or> ls_observed_at s = None
              then Inl (ValueError ''verified live sources require image digest and observation time'')
              else if \<not> aware (the (ls_observed_at s))
              then Inl (ValueError ''live source observation time must be timezone-aware'')
              else ck_bind (require_references (ls_references s)) (\<lambda>_. Inr s))
        else if ls_observed_at s \<noteq> None \<or> ls_references s \<noteq> []
        then Inl (ValueError ''unverified live sources cannot carry observations'')
        else Inr s))"

definition opt_time :: "prims \<Rightarrow> datetime option \<Rightarrow> json" where
  "opt_time p v = (case v of None \<Rightarrow> JNull | Some t \<Rightarrow> JStr (pr_isoformat p t))"

definition source_contract :: "prims \<Rightarrow> live_source \<Rightarrow> json" where
  "source_contract p s = JObj
     [(''sourceId'', JStr (ls_source_id s)), (''shape'', JStr (shape_value (ls_shape s))),
      (''connectorId'', JStr (ls_connector_id s)), (''endpointReference'', JStr (ls_endpoint_reference s)),
      (''imageDigest'', opt_json (ls_image_digest s)), (''liveVerified'', JBool (ls_live_verified s)),
      (''observedAt'', opt_time p (ls_observed_at s)), (''references'', JArr (map JStr (ls_references s)))]"

record stage_evidence =
  se_component :: string
  se_stage :: acceptance_stage
  se_status :: evidence_status
  se_revision :: string
  se_artifact_digest :: "string option"
  se_observed_at :: datetime
  se_references :: "string list"

definition mk_stage_evidence :: "stage_evidence \<Rightarrow> stage_evidence checked" where
  "mk_stage_evidence e =
     (if se_status e \<notin> {Ev_Passed, Ev_Failed}
      then Inl (ValueError ''stage evidence must be an observed pass or failure'')
      else ck_bind (require_sha (se_revision e) ''evidence revision'') (\<lambda>_.
           ck_bind (require_digest (se_artifact_digest e) ''evidence artifact'') (\<lambda>_.
           if \<not> aware (se_observed_at e)
           then Inl (ValueError ''stage evidence time must be timezone-aware'')
           else ck_bind (require_references (se_references e)) (\<lambda>_.
                if artifact_required (se_stage e) \<and> se_artifact_digest e = None
                then Inl (ValueError '' evidence must bind an artifact digest'')
                else Inr e))))"

definition evidence_contract :: "prims \<Rightarrow> stage_evidence \<Rightarrow> json" where
  "evidence_contract p e = JObj
     [(''component'', JStr (se_component e)), (''stage'', JStr (stage_value (se_stage e))),
      (''status'', JStr (evidence_status_value (se_status e))), (''revision'', JStr (se_revision e)),
      (''artifactDigest'', opt_json (se_artifact_digest e)),
      (''observedAt'', JStr (pr_isoformat p (se_observed_at e))),
      (''references'', JArr (map JStr (se_references e)))]"

record cost_boundary =
  cb_provisioning_authorized :: bool
  cb_resources_created :: "string list"
  cb_external_mutations :: "string list"

definition mk_cost_boundary :: "cost_boundary \<Rightarrow> cost_boundary checked" where
  "mk_cost_boundary b =
     (if cb_provisioning_authorized b
      then Inl (ValueError ''cloud or cluster provisioning is prohibited for local-only campaigns'')
      else if cb_resources_created b \<noteq> [] \<or> cb_external_mutations b \<noteq> []
      then Inl (ValueError ''local-only campaign cannot record external resource mutations'')
      else if list_ex (\<lambda>values. \<not> distinct values \<or> [] \<in> set values) [cb_resources_created b, cb_external_mutations b]
      then Inl (ValueError ''cost-boundary entries must be non-empty and unique'')
      else Inr b)"

definition boundary_contract :: "cost_boundary \<Rightarrow> json" where
  "boundary_contract b = JObj
     [(''provisioningAuthorized'', JBool (cb_provisioning_authorized b)),
      (''resourcesCreated'', JArr (map JStr (cb_resources_created b))),
      (''externalMutations'', JArr (map JStr (cb_external_mutations b)))]"

section \<open>The campaign\<close>

record campaign =
  ca_campaign_id :: string
  ca_release_set :: string
  ca_generated_at :: datetime
  ca_artifacts :: "release_artifact list"
  ca_sources :: "live_source list"
  ca_evidence :: "stage_evidence list"
  ca_cost_boundary :: cost_boundary

abbreviation evidence_key :: "stage_evidence \<Rightarrow> string \<times> acceptance_stage" where
  "evidence_key e \<equiv> (se_component e, se_stage e)"

definition bind_evidence :: "release_artifact list \<Rightarrow> stage_evidence \<Rightarrow> unit checked" where
  \<comment> \<open>one round of the loop over the evidence\<close>
  "bind_evidence artifacts e =
     (case dict_get (rev (map (\<lambda>a. (ra_component a, a)) artifacts)) (se_component e) of
        None \<Rightarrow> Inl (ValueError ''evidence component is outside the release set'')
      | Some a \<Rightarrow>
          if se_revision e \<noteq> ra_revision a
          then Inl (ValueError ''evidence revision does not match the release set'')
          else if se_artifact_digest e \<noteq> ra_artifact_digest a
          then Inl (ValueError ''evidence artifact digest does not match the release set'')
          else Inr ())"

definition mk_campaign :: "campaign \<Rightarrow> campaign checked" where
  "mk_campaign c =
     (if ca_campaign_id c = [] \<or> ca_release_set c = []
      then Inl (ValueError ''campaign and release-set identities are required'')
      else if \<not> aware (ca_generated_at c)
      then Inl (ValueError ''campaign generation time must be timezone-aware'')
      else if \<not> distinct (map ra_component (ca_artifacts c))
        \<or> set (map ra_component (ca_artifacts c)) \<noteq> set required_components
      then Inl (ValueError ''campaign must contain exactly the four laptop-local components'')
      else if \<not> distinct (map ls_shape (ca_sources c))
        \<or> set (map ls_shape (ca_sources c)) \<noteq> set all_shapes
        \<or> \<not> distinct (map ls_source_id (ca_sources c)) \<or> \<not> distinct (map ls_connector_id (ca_sources c))
      then Inl (ValueError ''campaign requires four unique representative live source shapes'')
      else if \<not> distinct (map evidence_key (ca_evidence c))
      then Inl (ValueError ''component/stage evidence must be unique'')
      else ck_bind (check_all (bind_evidence (ca_artifacts c)) (ca_evidence c)) (\<lambda>_. Inr c))"

definition release_set_digest :: "prims \<Rightarrow> campaign \<Rightarrow> string" where
  "release_set_digest p c =
     digest_of p (JArr (map artifact_contract (sort_key ra_component (ca_artifacts c))))"

definition artifact_blockers :: "release_artifact \<Rightarrow> string list" where
  "artifact_blockers a = (if ra_artifact_digest a = None then [ra_component a @ '':artifact-digest-missing''] else [])"

definition source_blockers :: "live_source \<Rightarrow> string list" where
  "source_blockers s =
     (if ls_image_digest s = None then [ls_source_id s @ '':image-digest-missing''] else [])
     @ (if \<not> ls_live_verified s then [ls_source_id s @ '':live-verification-missing''] else [])"

definition stage_blockers :: "stage_evidence list \<Rightarrow> string \<Rightarrow> acceptance_stage \<Rightarrow> string list" where
  "stage_blockers evidence component stage =
     (case dict_get (rev (map (\<lambda>e. (evidence_key e, e)) evidence)) (component, stage) of
        None \<Rightarrow> [component @ '':'' @ stage_value stage @ '':missing'']
      | Some e \<Rightarrow> if se_status e = Ev_Failed then [component @ '':'' @ stage_value stage @ '':failed''] else [])"

definition blockers :: "campaign \<Rightarrow> string list" where
  "blockers c =
     concat (map artifact_blockers (sort_key ra_component (ca_artifacts c)))
     @ concat (map source_blockers (sort_key (\<lambda>s. shape_value (ls_shape s)) (ca_sources c)))
     @ concat (map (\<lambda>component. concat (map (stage_blockers (ca_evidence c) component) all_stages))
         (sort required_components))"

definition accepted :: "campaign \<Rightarrow> bool" where
  "accepted c \<longleftrightarrow> blockers c = []"

definition campaign_contract :: "prims \<Rightarrow> campaign \<Rightarrow> (string, json) dict" where
  "campaign_contract p c =
     [(''schemaVersion'', JStr ''data.harness/v1''), (''campaignId'', JStr (ca_campaign_id c)),
      (''releaseSet'', JStr (ca_release_set c)), (''releaseSetDigest'', JStr (release_set_digest p c)),
      (''generatedAt'', JStr (pr_isoformat p (ca_generated_at c))),
      (''artifacts'', JArr (map artifact_contract (ca_artifacts c))),
      (''sources'', JArr (map (source_contract p) (ca_sources c))),
      (''evidence'', JArr (map (evidence_contract p) (ca_evidence c))),
      (''costBoundary'', boundary_contract (ca_cost_boundary c)),
      (''accepted'', JBool (accepted c)), (''blockers'', JArr (map JStr (blockers c)))]"

section \<open>Parsing a contract\<close>

definition as_time :: "acceptance_env \<Rightarrow> json \<Rightarrow> datetime checked" where
  "as_time av v = ck_bind (as_text v) (\<lambda>t. case av_fromisoformat av t of
     None \<Rightarrow> Inl (ValueError ''Invalid isoformat string'') | Some d \<Rightarrow> Inr d)"

definition as_opt_time :: "acceptance_env \<Rightarrow> json \<Rightarrow> datetime option checked" where
  "as_opt_time av v = (if v = JNull then Inr None else ck_bind (as_time av v) (\<lambda>t. Inr (Some t)))"

definition as_member :: "('a \<Rightarrow> string) \<Rightarrow> 'a list \<Rightarrow> json \<Rightarrow> 'a checked" where
  \<comment> \<open>a member of an enumeration from its value\<close>
  "as_member value members v =
     (case find (\<lambda>m. v = JStr (value m)) members of None \<Rightarrow> Inl (ValueError ''is not a valid member'') | Some m \<Rightarrow> Inr m)"

definition index_as :: "json \<Rightarrow> string \<Rightarrow> (json \<Rightarrow> 'a checked) \<Rightarrow> 'a checked" where
  "index_as v k f = ck_bind (json_index v k) f"

definition all_statuses :: "evidence_status list" where
  "all_statuses = [Ev_Missing, Ev_Passed, Ev_Failed, Ev_Not_Applicable]"

definition parse_artifact :: "acceptance_env \<Rightarrow> json \<Rightarrow> release_artifact checked" where
  "parse_artifact av v =
     ck_bind (index_as v ''component'' as_text) (\<lambda>component.
     ck_bind (index_as v ''repository'' as_text) (\<lambda>repository.
     ck_bind (index_as v ''revision'' as_text) (\<lambda>revision.
     ck_bind (index_as v ''artifactDigest'' as_opt_text) (\<lambda>digest.
     mk_release_artifact av \<lparr>ra_component = component, ra_repository = repository, ra_revision = revision,
       ra_artifact_digest = digest\<rparr>))))"

definition parse_source :: "acceptance_env \<Rightarrow> json \<Rightarrow> live_source checked" where
  "parse_source av v =
     ck_bind (index_as v ''sourceId'' as_text) (\<lambda>source_id.
     ck_bind (index_as v ''shape'' (as_member shape_value all_shapes)) (\<lambda>shape.
     ck_bind (index_as v ''connectorId'' as_text) (\<lambda>connector_id.
     ck_bind (index_as v ''endpointReference'' as_text) (\<lambda>endpoint.
     ck_bind (index_as v ''imageDigest'' as_opt_text) (\<lambda>image.
     ck_bind (index_as v ''liveVerified'' as_bool) (\<lambda>verified.
     ck_bind (index_as v ''observedAt'' (as_opt_time av)) (\<lambda>observed.
     ck_bind (index_as v ''references'' as_texts) (\<lambda>references.
     mk_live_source \<lparr>ls_source_id = source_id, ls_shape = shape, ls_connector_id = connector_id,
       ls_endpoint_reference = endpoint, ls_image_digest = image, ls_live_verified = verified,
       ls_observed_at = observed, ls_references = references\<rparr>))))))))"

definition parse_evidence :: "acceptance_env \<Rightarrow> json \<Rightarrow> stage_evidence checked" where
  "parse_evidence av v =
     ck_bind (index_as v ''component'' as_text) (\<lambda>component.
     ck_bind (index_as v ''stage'' (as_member stage_value all_stages)) (\<lambda>stage.
     ck_bind (index_as v ''status'' (as_member evidence_status_value all_statuses)) (\<lambda>status.
     ck_bind (index_as v ''revision'' as_text) (\<lambda>revision.
     ck_bind (index_as v ''artifactDigest'' as_opt_text) (\<lambda>digest.
     ck_bind (index_as v ''observedAt'' (as_time av)) (\<lambda>observed.
     ck_bind (index_as v ''references'' as_texts) (\<lambda>references.
     mk_stage_evidence \<lparr>se_component = component, se_stage = stage, se_status = status, se_revision = revision,
       se_artifact_digest = digest, se_observed_at = observed, se_references = references\<rparr>)))))))"

definition parse_boundary :: "json \<Rightarrow> cost_boundary checked" where
  "parse_boundary v =
     ck_bind (index_as v ''provisioningAuthorized'' as_bool) (\<lambda>authorized.
     ck_bind (index_as v ''resourcesCreated'' as_texts) (\<lambda>resources.
     ck_bind (index_as v ''externalMutations'' as_texts) (\<lambda>mutations.
     mk_cost_boundary \<lparr>cb_provisioning_authorized = authorized, cb_resources_created = resources,
       cb_external_mutations = mutations\<rparr>)))"

definition parse_items :: "(json \<Rightarrow> 'a checked) \<Rightarrow> json \<Rightarrow> 'a list checked" where
  "parse_items f v = ck_bind (json_elements v) (check_all f)"

definition derived_fields_match :: "prims \<Rightarrow> (string, json) dict \<Rightarrow> campaign \<Rightarrow> campaign checked" where
  "derived_fields_match p d c =
     (if dict_get d ''schemaVersion'' \<noteq> Some (JStr ''data.harness/v1'')
      then Inl (ValueError ''unsupported live acceptance schema version'')
      else if dict_get d ''releaseSetDigest'' \<noteq> Some (JStr (release_set_digest p c))
      then Inl (ValueError ''declared release-set digest does not match campaign artifacts'')
      else if dict_get d ''accepted'' \<noteq> Some (JBool (accepted c))
      then Inl (ValueError ''declared acceptance does not match observed evidence'')
      else if dict_get d ''blockers'' \<noteq> Some (JArr (map JStr (blockers c)))
      then Inl (ValueError ''declared blockers do not match observed evidence'')
      else Inr c)"

definition parse_campaign :: "acceptance_env \<Rightarrow> (string, json) dict \<Rightarrow> campaign checked" where
  "parse_campaign av d =
     ck_bind (index_as (JObj d) ''artifacts'' (parse_items (parse_artifact av))) (\<lambda>artifacts.
     ck_bind (index_as (JObj d) ''sources'' (parse_items (parse_source av))) (\<lambda>sources.
     ck_bind (index_as (JObj d) ''evidence'' (parse_items (parse_evidence av))) (\<lambda>evidence.
     ck_bind (json_index (JObj d) ''costBoundary'') (\<lambda>boundary_value.
     ck_bind (index_as (JObj d) ''campaignId'' as_text) (\<lambda>campaign_id.
     ck_bind (index_as (JObj d) ''releaseSet'' as_text) (\<lambda>release_set.
     ck_bind (index_as (JObj d) ''generatedAt'' (as_time av)) (\<lambda>generated_at.
     ck_bind (parse_boundary boundary_value) (\<lambda>boundary.
     ck_bind (mk_campaign \<lparr>ca_campaign_id = campaign_id, ca_release_set = release_set,
       ca_generated_at = generated_at, ca_artifacts = artifacts, ca_sources = sources,
       ca_evidence = evidence, ca_cost_boundary = boundary\<rparr>) (\<lambda>c.
     derived_fields_match (av_prims av) d c)))))))))"

section \<open>What the constructors establish\<close>

text \<open>Every part of a campaign passed its constructor.\<close>

definition campaign_built :: "acceptance_env \<Rightarrow> campaign \<Rightarrow> bool" where
  "campaign_built av c \<longleftrightarrow> mk_campaign c = Inr c
     \<and> list_all (\<lambda>a. mk_release_artifact av a = Inr a) (ca_artifacts c)
     \<and> list_all (\<lambda>s. mk_live_source s = Inr s) (ca_sources c)
     \<and> list_all (\<lambda>e. mk_stage_evidence e = Inr e) (ca_evidence c)
     \<and> mk_cost_boundary (ca_cost_boundary c) = Inr (ca_cost_boundary c)"

lemma mk_release_artifact_same: "mk_release_artifact av a = Inr b \<Longrightarrow> b = a \<and> mk_release_artifact av a = Inr a"
  by (auto simp: mk_release_artifact_def ck_bind_Inr split: if_splits)

lemma mk_live_source_same: "mk_live_source a = Inr b \<Longrightarrow> b = a \<and> mk_live_source a = Inr a"
  by (auto simp: mk_live_source_def ck_bind_Inr split: if_splits)

lemma mk_stage_evidence_same: "mk_stage_evidence a = Inr b \<Longrightarrow> b = a \<and> mk_stage_evidence a = Inr a"
  by (auto simp: mk_stage_evidence_def ck_bind_Inr split: if_splits)

lemma mk_cost_boundary_same: "mk_cost_boundary a = Inr b \<Longrightarrow> b = a \<and> mk_cost_boundary a = Inr a"
  by (auto simp: mk_cost_boundary_def split: if_splits)

lemma mk_campaign_same: "mk_campaign a = Inr b \<Longrightarrow> b = a \<and> mk_campaign a = Inr a"
  by (auto simp: mk_campaign_def ck_bind_Inr split: if_splits)

lemma mk_campaign_Inr:
  assumes "mk_campaign c = Inr c"
  shows "distinct (map ra_component (ca_artifacts c))" "ra_component ` set (ca_artifacts c) = set required_components"
    "ls_shape ` set (ca_sources c) = UNIV" "distinct (map evidence_key (ca_evidence c))"
    "\<And>e. e \<in> set (ca_evidence c) \<Longrightarrow> \<exists>a \<in> set (ca_artifacts c). ra_component a = se_component e
       \<and> ra_revision a = se_revision e \<and> ra_artifact_digest a = se_artifact_digest e"
proof -
  have shapes: "set all_shapes = UNIV" using source_shape.exhaust by (auto simp: all_shapes_def)
  show "distinct (map ra_component (ca_artifacts c))" "ra_component ` set (ca_artifacts c) = set required_components"
    "ls_shape ` set (ca_sources c) = UNIV" "distinct (map evidence_key (ca_evidence c))"
    using assms shapes by (auto simp: mk_campaign_def split: if_splits)
  fix e assume e: "e \<in> set (ca_evidence c)"
  from assms obtain us where "check_all (bind_evidence (ca_artifacts c)) (ca_evidence c) = Inr us"
    by (auto simp: mk_campaign_def ck_bind_Inr split: if_splits)
  from check_all_left [OF this e] obtain u where "bind_evidence (ca_artifacts c) e = Inr u" by blast
  then show "\<exists>a \<in> set (ca_artifacts c). ra_component a = se_component e
       \<and> ra_revision a = se_revision e \<and> ra_artifact_digest a = se_artifact_digest e"
    by (auto simp: bind_evidence_def split: option.splits if_splits dest!: map_of_SomeD) force
qed

lemma parsed_items_all:
  assumes "index_as v k (parse_items f) = Inr xs" and "\<And>v x. f v = Inr x \<Longrightarrow> P x"
  shows "list_all P xs"
proof -
  from assms(1) obtain vs where "check_all f vs = Inr xs" by (auto simp: index_as_def parse_items_def ck_bind_Inr)
  with assms(2) show ?thesis by (auto simp: list_all_iff dest!: check_all_right)
qed

lemma parse_parts:
  "parse_artifact av v = Inr a \<Longrightarrow> mk_release_artifact av a = Inr a"
  "parse_source av v = Inr s \<Longrightarrow> mk_live_source s = Inr s"
  "parse_evidence av v = Inr e \<Longrightarrow> mk_stage_evidence e = Inr e"
  "parse_boundary v = Inr b \<Longrightarrow> mk_cost_boundary b = Inr b"
  unfolding parse_artifact_def parse_source_def parse_evidence_def parse_boundary_def ck_bind_Inr
  by (elim exE conjE, drule mk_release_artifact_same mk_live_source_same mk_stage_evidence_same
      mk_cost_boundary_same, blast)+

lemma derived_fields_match_Inr:
  "derived_fields_match p d c = Inr x \<longleftrightarrow> x = c \<and> dict_get d ''schemaVersion'' = Some (JStr ''data.harness/v1'')
     \<and> dict_get d ''releaseSetDigest'' = Some (JStr (release_set_digest p c))
     \<and> dict_get d ''accepted'' = Some (JBool (accepted c))
     \<and> dict_get d ''blockers'' = Some (JArr (map JStr (blockers c)))"
  by (auto simp: derived_fields_match_def)

lemma parsed_campaign_built:
  assumes "parse_campaign av d = Inr c"
  shows "campaign_built av c \<and> derived_fields_match (av_prims av) d c = Inr c"
proof -
  from assms obtain as ss es bv b i r t c' where
      "index_as (JObj d) ''artifacts'' (parse_items (parse_artifact av)) = Inr as"
      "index_as (JObj d) ''sources'' (parse_items (parse_source av)) = Inr ss"
      "index_as (JObj d) ''evidence'' (parse_items (parse_evidence av)) = Inr es"
      "parse_boundary bv = Inr b" and mk: "mk_campaign \<lparr>ca_campaign_id = i, ca_release_set = r, ca_generated_at = t,
       ca_artifacts = as, ca_sources = ss, ca_evidence = es, ca_cost_boundary = b\<rparr> = Inr c'"
      and derived: "derived_fields_match (av_prims av) d c' = Inr c"
    unfolding parse_campaign_def ck_bind_Inr by blast
  then have "list_all (\<lambda>a. mk_release_artifact av a = Inr a) as" "list_all (\<lambda>s. mk_live_source s = Inr s) ss"
      "list_all (\<lambda>e. mk_stage_evidence e = Inr e) es" "mk_cost_boundary b = Inr b"
    using parse_parts by (blast intro: parsed_items_all)+
  with mk_campaign_same [OF mk] have "campaign_built av c'" by (auto simp: campaign_built_def)
  with derived show ?thesis by (simp add: derived_fields_match_Inr)
qed

section \<open>Acceptance\<close>

lemma concat_map_Nil: "concat (map f xs) = [] \<longleftrightarrow> (\<forall>x \<in> set xs. f x = [])"
  by auto

lemma all_stages_all [simp]: "set all_stages = UNIV"
  using acceptance_stage.exhaust by (auto simp: all_stages_def)

lemma stage_blockers_Nil:
  assumes "distinct (map evidence_key es)"
  shows "stage_blockers es component stage = [] \<longleftrightarrow>
    (\<exists>e \<in> set es. se_component e = component \<and> se_stage e = stage \<and> se_status e \<noteq> Ev_Failed)"
proof -
  let ?d = "map (\<lambda>e. (evidence_key e, e)) es"
  have wf: "dict_wf ?d" using assms by (simp add: comp_def)
  then have "dict_wf (rev ?d)" by (simp only: rev_map [symmetric] distinct_rev)
  with wf have get: "dict_get (rev ?d) = dict_get ?d" by (simp only: map_of_inject_set set_rev)
  have lookup: "dict_get ?d k = Some e \<longleftrightarrow> e \<in> set es \<and> evidence_key e = k" for k e
    using dict_get_Some_in [OF wf] by auto
  have "stage_blockers es component stage = [] \<longleftrightarrow> (\<exists>e. dict_get ?d (component, stage) = Some e \<and> se_status e \<noteq> Ev_Failed)"
    unfolding stage_blockers_def get by (simp split: option.split)
  then show ?thesis unfolding lookup by auto
qed

lemma part_blockers_Nil:
  "artifact_blockers a = [] \<longleftrightarrow> ra_artifact_digest a \<noteq> None"
  "source_blockers s = [] \<longleftrightarrow> ls_image_digest s \<noteq> None \<and> ls_live_verified s"
  by (simp_all add: artifact_blockers_def source_blockers_def)

text \<open>
  C20. Acceptance is complete observation: a campaign whose parts passed their checks is accepted exactly
  when every artifact has a digest, every source has an image digest and was verified live, and for each
  of the four components every one of the eleven stages has evidence of a pass, at the very revision and
  artifact of the release set.
\<close>

theorem accepted_iff:
  assumes "campaign_built av c"
  shows "accepted c \<longleftrightarrow>
    (\<forall>a \<in> set (ca_artifacts c). ra_artifact_digest a \<noteq> None)
  \<and> (\<forall>s \<in> set (ca_sources c). ls_image_digest s \<noteq> None \<and> ls_live_verified s)
  \<and> (\<forall>a \<in> set (ca_artifacts c). \<forall>stage. \<exists>e \<in> set (ca_evidence c). se_component e = ra_component a \<and> se_stage e = stage
      \<and> se_status e = Ev_Passed \<and> se_revision e = ra_revision a \<and> se_artifact_digest e = ra_artifact_digest a)"
proof -
  have built: "mk_campaign c = Inr c" using assms by (simp add: campaign_built_def)
  note parts = mk_campaign_Inr [OF built]
  have status: "se_status e \<noteq> Ev_Failed \<longleftrightarrow> se_status e = Ev_Passed" if "e \<in> set (ca_evidence c)" for e
    using assms that by (cases "se_status e") (auto simp: campaign_built_def list_all_iff mk_stage_evidence_def)
  have bound: "se_revision e = ra_revision a \<and> se_artifact_digest e = ra_artifact_digest a"
    if "e \<in> set (ca_evidence c)" "a \<in> set (ca_artifacts c)" "se_component e = ra_component a" for e a
    using parts(1) parts(5) [OF that(1)] that(2,3) by (metis distinct_map inj_onD)
  have "(\<forall>component \<in> set required_components. \<forall>stage. stage_blockers (ca_evidence c) component stage = [])
    \<longleftrightarrow> (\<forall>a \<in> set (ca_artifacts c). \<forall>stage. \<exists>e \<in> set (ca_evidence c). se_component e = ra_component a
      \<and> se_stage e = stage \<and> se_status e \<noteq> Ev_Failed)"
    unfolding stage_blockers_Nil [OF parts(4)] parts(2) [symmetric] by blast
  also have "\<dots> \<longleftrightarrow> (\<forall>a \<in> set (ca_artifacts c). \<forall>stage. \<exists>e \<in> set (ca_evidence c). se_component e = ra_component a \<and> se_stage e = stage
      \<and> se_status e = Ev_Passed \<and> se_revision e = ra_revision a \<and> se_artifact_digest e = ra_artifact_digest a)"
    using status bound by (metis (no_types, lifting))
  finally have stages: "(\<forall>component \<in> set required_components. \<forall>stage. stage_blockers (ca_evidence c) component stage = []) \<longleftrightarrow> \<dots>" .
  have "accepted c \<longleftrightarrow> (\<forall>a \<in> set (ca_artifacts c). artifact_blockers a = []) \<and> (\<forall>s \<in> set (ca_sources c). source_blockers s = [])
      \<and> (\<forall>component \<in> set required_components. \<forall>stage. stage_blockers (ca_evidence c) component stage = [])"
    by (simp add: accepted_def blockers_def concat_map_Nil)
  with stages show ?thesis unfolding part_blockers_Nil by blast
qed

text \<open>
  A forged contract is rejected: a contract that parses is a campaign whose every part passed its
  checks, and its declared digest, acceptance and blockers are the ones the campaign itself derives.
\<close>

lemma parsed_contract_is_honest:
  assumes "parse_campaign av d = Inr c"
  shows "campaign_built av c
    \<and> dict_get d ''releaseSetDigest'' = Some (JStr (release_set_digest (av_prims av) c))
    \<and> dict_get d ''accepted'' = Some (JBool (blockers c = []))
    \<and> dict_get d ''blockers'' = Some (JArr (map JStr (blockers c)))"
  using parsed_campaign_built [OF assms] by (simp add: derived_fields_match_Inr accepted_def)

section \<open>The contract reads back\<close>

definition stamp_ok :: "acceptance_env \<Rightarrow> datetime \<Rightarrow> bool" where
  "stamp_ok av t \<longleftrightarrow> av_fromisoformat av (pr_isoformat (av_prims av) t) = Some t"

definition campaign_stamps_ok :: "acceptance_env \<Rightarrow> campaign \<Rightarrow> bool" where
  \<comment> \<open>\<open>fromisoformat\<close> inverts \<open>isoformat\<close> on the times of the campaign\<close>
  "campaign_stamps_ok av c \<longleftrightarrow> stamp_ok av (ca_generated_at c)
     \<and> list_all (\<lambda>s. \<forall>t \<in> set_option (ls_observed_at s). stamp_ok av t) (ca_sources c)
     \<and> list_all (\<lambda>e. stamp_ok av (se_observed_at e)) (ca_evidence c)"

lemma as_simps [simp]:
  "as_text (JStr t) = Inr t" "as_bool (JBool b) = Inr b" "as_opt_text (opt_json v) = Inr v"
  by (auto simp: as_text_def as_bool_def as_opt_text_def opt_json_def split: option.split)

lemma check_all_inverse: "(\<And>x. x \<in> set xs \<Longrightarrow> f (g x) = Inr x) \<Longrightarrow> check_all f (map g xs) = Inr xs"
  by (induction xs) simp_all

lemma as_texts_map [simp]: "as_texts (JArr (map JStr ts)) = Inr ts"
  by (simp add: as_texts_def json_elements_def check_all_inverse)

lemma as_time_ok [simp]: "stamp_ok av t \<Longrightarrow> as_time av (JStr (pr_isoformat (av_prims av) t)) = Inr t"
  by (simp add: as_time_def stamp_ok_def)

lemma as_opt_time_ok [simp]:
  "(\<And>t. v = Some t \<Longrightarrow> stamp_ok av t) \<Longrightarrow> as_opt_time av (opt_time (av_prims av) v) = Inr v"
  by (cases v) (simp_all add: as_opt_time_def opt_time_def)

lemma as_member_value:
  assumes "m \<in> set members" and "inj value"
  shows "as_member value members (JStr (value m)) = Inr m"
proof -
  have "find (\<lambda>n. value m = value n) members = Some m"
    using assms(1) injD [OF assms(2)] by (induction members) auto
  then show ?thesis by (simp add: as_member_def)
qed

lemma enum_values_inj: "inj shape_value" "inj stage_value" "inj evidence_status_value"
proof -
  show "inj shape_value"
  proof (rule injI)
    fix x y show "shape_value x = shape_value y \<Longrightarrow> x = y" by (cases x; cases y) simp_all
  qed
  show "inj stage_value"
  proof (rule injI)
    fix x y show "stage_value x = stage_value y \<Longrightarrow> x = y" by (cases x; cases y) simp_all
  qed
  show "inj evidence_status_value"
  proof (rule injI)
    fix x y show "evidence_status_value x = evidence_status_value y \<Longrightarrow> x = y" by (cases x; cases y) simp_all
  qed
qed

lemma as_enum_members [simp]:
  "as_member shape_value all_shapes (JStr (shape_value m)) = Inr m"
  "as_member stage_value all_stages (JStr (stage_value st)) = Inr st"
  "as_member evidence_status_value all_statuses (JStr (evidence_status_value ev)) = Inr ev"
proof -
  show "as_member shape_value all_shapes (JStr (shape_value m)) = Inr m"
    by (rule as_member_value) (cases m; simp add: all_shapes_def enum_values_inj)+
  show "as_member stage_value all_stages (JStr (stage_value st)) = Inr st"
    by (rule as_member_value) (simp_all add: enum_values_inj)
  show "as_member evidence_status_value all_statuses (JStr (evidence_status_value ev)) = Inr ev"
    by (rule as_member_value) (cases ev; simp add: all_statuses_def enum_values_inj)+
qed

lemma parse_artifact_contract:
  "mk_release_artifact av a = Inr a \<Longrightarrow> parse_artifact av (artifact_contract a) = Inr a"
  by (cases a) (simp add: parse_artifact_def artifact_contract_def index_as_def)

lemma parse_source_contract:
  assumes "mk_live_source s = Inr s" and "\<forall>t \<in> set_option (ls_observed_at s). stamp_ok av t"
  shows "parse_source av (source_contract (av_prims av) s) = Inr s"
  using assms by (cases s) (simp add: parse_source_def source_contract_def index_as_def)

lemma parse_evidence_contract:
  "mk_stage_evidence e = Inr e \<Longrightarrow> stamp_ok av (se_observed_at e) \<Longrightarrow>
     parse_evidence av (evidence_contract (av_prims av) e) = Inr e"
  by (cases e) (simp add: parse_evidence_def evidence_contract_def index_as_def)

lemma parse_boundary_contract: "mk_cost_boundary b = Inr b \<Longrightarrow> parse_boundary (boundary_contract b) = Inr b"
  by (cases b) (simp add: parse_boundary_def boundary_contract_def index_as_def)

lemma parse_items_map:
  "list_all (\<lambda>x. f (g x) = Inr x) xs \<Longrightarrow> parse_items f (JArr (map g xs)) = Inr xs"
  by (simp add: parse_items_def json_elements_def check_all_inverse list_all_iff)

lemma campaign_reads_back:
  assumes "campaign_built av c" and "campaign_stamps_ok av c"
  shows "parse_campaign av (campaign_contract (av_prims av) c) = Inr c"
proof -
  have "parse_items (parse_artifact av) (JArr (map artifact_contract (ca_artifacts c))) = Inr (ca_artifacts c)"
    using assms parse_artifact_contract by (intro parse_items_map) (simp add: campaign_built_def list_all_iff)
  moreover have "parse_items (parse_source av) (JArr (map (source_contract (av_prims av)) (ca_sources c))) = Inr (ca_sources c)"
    using assms parse_source_contract
    by (intro parse_items_map) (simp add: campaign_built_def campaign_stamps_ok_def list_all_iff)
  moreover have "parse_items (parse_evidence av) (JArr (map (evidence_contract (av_prims av)) (ca_evidence c))) = Inr (ca_evidence c)"
    using assms parse_evidence_contract
    by (intro parse_items_map) (simp add: campaign_built_def campaign_stamps_ok_def list_all_iff)
  moreover have "parse_boundary (boundary_contract (ca_cost_boundary c)) = Inr (ca_cost_boundary c)"
    using assms parse_boundary_contract by (simp add: campaign_built_def)
  moreover have "stamp_ok av (ca_generated_at c)" "mk_campaign c = Inr c"
    using assms by (simp_all add: campaign_built_def campaign_stamps_ok_def)
  ultimately show ?thesis
    by (cases c) (simp add: parse_campaign_def campaign_contract_def index_as_def derived_fields_match_def)
qed

text \<open>
  C40. Contracts round-trip: a campaign whose parts passed their checks is exactly what parsing its own
  contract yields, if \<open>fromisoformat\<close> inverts \<open>isoformat\<close> on its times.
\<close>

theorem campaign_contract_roundtrip:
  assumes "campaign_built av c" and "campaign_stamps_ok av c"
  shows "parse_campaign av (campaign_contract (av_prims av) c) = Inr c"
  using assms by (rule campaign_reads_back)

section \<open>A complete campaign\<close>

definition sample_acceptance_env :: acceptance_env where
  "sample_acceptance_env = \<lparr>av_prims = sample_prims, av_fromisoformat = (\<lambda>t. Some (utc 0)), av_bracketed_ok = (\<lambda>n. False)\<rparr>"

definition sample_sha :: string where
  "sample_sha = replicate 40 CHR ''a''"

definition sample_image :: string where
  "sample_image = ''sha256:'' @ replicate 64 CHR ''b''"

definition sample_stage_evidence :: "string \<times> acceptance_stage \<Rightarrow> stage_evidence" where
  "sample_stage_evidence k = \<lparr>se_component = fst k, se_stage = snd k, se_status = Ev_Passed, se_revision = sample_sha,
     se_artifact_digest = Some sample_image, se_observed_at = utc 0, se_references = [''run/1'']\<rparr>"

definition sample_campaign :: campaign where
  "sample_campaign = \<lparr>ca_campaign_id = ''c1'', ca_release_set = ''r1'', ca_generated_at = utc 0,
     ca_artifacts = map (\<lambda>name. \<lparr>ra_component = name, ra_repository = ''https://example.org/r'',
       ra_revision = sample_sha, ra_artifact_digest = Some sample_image\<rparr>) required_components,
     ca_sources = map (\<lambda>sh. \<lparr>ls_source_id = shape_value sh, ls_shape = sh, ls_connector_id = shape_value sh,
       ls_endpoint_reference = ''credential-ref://lab'', ls_image_digest = Some sample_image, ls_live_verified = True,
       ls_observed_at = Some (utc 0), ls_references = [''run/1'']\<rparr>) all_shapes,
     ca_evidence = map sample_stage_evidence (List.product required_components all_stages),
     ca_cost_boundary = \<lparr>cb_provisioning_authorized = False, cb_resources_created = [], cb_external_mutations = []\<rparr>\<rparr>"

lemma sample_texts: "git_sha sample_sha" "sha256_text sample_image" "credential_reference ''credential-ref://lab''"
  by code_simp+

lemma sample_url: "urlparse ok ''https://example.org/r'' = Inr \<lparr>url_scheme = ''https'', url_netloc = ''example.org'', url_fragment = []\<rparr>"
  by code_simp

lemma sample_evidence: "ca_evidence sample_campaign = map sample_stage_evidence (List.product required_components all_stages)"
  by (simp add: sample_campaign_def)

lemma sample_campaign_built: "campaign_built sample_acceptance_env sample_campaign"
proof -
  have "bind_evidence (ca_artifacts sample_campaign) (sample_stage_evidence (n, st)) = Inr ()"
    if "n \<in> set required_components" for n st
    using that by (auto simp: bind_evidence_def sample_campaign_def required_components_def sample_stage_evidence_def)
  then have "\<exists>us. check_all (bind_evidence (ca_artifacts sample_campaign)) (ca_evidence sample_campaign) = Inr us"
    by (intro check_all_total) (auto simp: sample_evidence)
  then obtain us where us: "check_all (bind_evidence (ca_artifacts sample_campaign)) (ca_evidence sample_campaign) = Inr us" ..
  have "map evidence_key (ca_evidence sample_campaign) = List.product required_components all_stages"
    by (simp add: sample_campaign_def sample_stage_evidence_def comp_def)
  moreover have "distinct (List.product required_components all_stages)"
    by (rule distinct_product) (simp_all add: required_components_def all_stages_def)
  ultimately have keys: "distinct (map evidence_key (ca_evidence sample_campaign))" by simp
  have names: "map ra_component (ca_artifacts sample_campaign) = required_components" "distinct required_components"
    by (simp_all add: sample_campaign_def required_components_def)
  have sources: "map ls_shape (ca_sources sample_campaign) = all_shapes" "distinct all_shapes"
      "distinct (map ls_source_id (ca_sources sample_campaign))" "distinct (map ls_connector_id (ca_sources sample_campaign))"
    by (simp_all add: sample_campaign_def all_shapes_def)
  have "ca_campaign_id sample_campaign \<noteq> []" "ca_release_set sample_campaign \<noteq> []" "aware (ca_generated_at sample_campaign)"
    by (simp_all add: sample_campaign_def aware_def utc_def)
  with us keys names sources have "mk_campaign sample_campaign = Inr sample_campaign"
    by (simp add: mk_campaign_def)
  moreover have "list_all (\<lambda>a. mk_release_artifact sample_acceptance_env a = Inr a) (ca_artifacts sample_campaign)"
    by (simp add: sample_campaign_def list_all_iff mk_release_artifact_def sample_url require_sha_def require_digest_def
        sample_texts required_components_def)
  moreover have "list_all (\<lambda>s. mk_live_source s = Inr s) (ca_sources sample_campaign)"
    by (simp add: sample_campaign_def list_all_iff mk_live_source_def require_digest_def require_references_def
        sample_texts all_shapes_def aware_def utc_def)
  moreover have "list_all (\<lambda>e. mk_stage_evidence e = Inr e) (ca_evidence sample_campaign)"
    by (simp add: sample_campaign_def list_all_iff mk_stage_evidence_def require_sha_def require_digest_def
        require_references_def sample_texts sample_stage_evidence_def aware_def utc_def)
  ultimately show ?thesis
    by (simp add: campaign_built_def) (simp add: sample_campaign_def mk_cost_boundary_def)
qed

lemma sample_campaign_stamps: "campaign_stamps_ok sample_acceptance_env sample_campaign"
  by (simp add: campaign_stamps_ok_def stamp_ok_def sample_acceptance_env_def sample_campaign_def list_all_iff
      sample_stage_evidence_def)

theorem accepted_iff_witness: "accepted sample_campaign"
proof -
  have art: "ra_artifact_digest a = Some sample_image \<and> ra_revision a = sample_sha \<and> ra_component a \<in> set required_components"
    if "a \<in> set (ca_artifacts sample_campaign)" for a
    using that by (auto simp: sample_campaign_def)
  have src: "ls_image_digest s \<noteq> None \<and> ls_live_verified s" if "s \<in> set (ca_sources sample_campaign)" for s
    using that by (auto simp: sample_campaign_def)
  have ev: "sample_stage_evidence (n, st) \<in> set (ca_evidence sample_campaign)" if "n \<in> set required_components" for n st
    using that by (simp add: sample_evidence)
  have "\<exists>e \<in> set (ca_evidence sample_campaign). se_component e = ra_component a \<and> se_stage e = st
      \<and> se_status e = Ev_Passed \<and> se_revision e = ra_revision a \<and> se_artifact_digest e = ra_artifact_digest a"
    if "a \<in> set (ca_artifacts sample_campaign)" for a st
    using art [OF that] by (intro bexI [OF _ ev [of "ra_component a" st]]) (simp_all add: sample_stage_evidence_def)
  with art src show ?thesis unfolding accepted_iff [OF sample_campaign_built] by simp
qed

theorem campaign_contract_roundtrip_witness:
  "parse_campaign sample_acceptance_env (campaign_contract (av_prims sample_acceptance_env) sample_campaign) = Inr sample_campaign"
  by (rule campaign_contract_roundtrip [OF sample_campaign_built sample_campaign_stamps])

lemma parsed_contract_is_honest_example:
  "dict_get (campaign_contract (av_prims sample_acceptance_env) sample_campaign) ''accepted'' = Some (JBool (blockers sample_campaign = []))"
  using parsed_contract_is_honest [OF campaign_reads_back [OF sample_campaign_built sample_campaign_stamps]] by blast

end
