(* ===== verification/Northbound_Protocol.thy ===== *)
theory Northbound_Protocol
  imports Action_Plans Json_Access
begin

text \<open>
  protocol.py: the stateless JSON-RPC boundary that maps a catalog of tools to bounded action plans. A
  request is a JSON object. A rejection is answered as a JSON-RPC error; any other exception escapes.
  The sets of agents of a tool are lists of which only membership and the sorted set are used.
\<close>

section \<open>Tools\<close>

definition protocol_version :: string where
  "protocol_version = ''data.harness.northbound/v1''"

datatype protocol_error = Protocol_Rejected int string | Protocol_Py py_error

record northbound_tool =
  nt_name :: string
  nt_description :: string
  nt_source_id :: string
  nt_asset_id :: string
  nt_operation :: string
  nt_risk :: action_risk
  nt_approval_mode :: approval_mode
  nt_purpose :: string
  nt_allowed_agents :: "string list"

definition mk_northbound_tool :: "northbound_tool \<Rightarrow> northbound_tool checked" where
  "mk_northbound_tool t =
     (if list_ex (\<lambda>v. v = []) [nt_name t, nt_description t, nt_source_id t, nt_asset_id t, nt_operation t, nt_purpose t]
        \<or> nt_allowed_agents t = []
      then Inl (ValueError ''northbound tools require metadata and at least one allowed agent'') else Inr t)"

definition tool_fields :: "northbound_tool \<Rightarrow> (string, json) dict" where
  "tool_fields t =
     [(''name'', JStr (nt_name t)), (''description'', JStr (nt_description t)),
      (''sourceId'', JStr (nt_source_id t)), (''assetId'', JStr (nt_asset_id t)),
      (''operation'', JStr (nt_operation t)), (''risk'', JStr (risk_value (nt_risk t))),
      (''approvalMode'', JStr (approval_value (nt_approval_mode t))), (''purpose'', JStr (nt_purpose t))]"

definition tool_contract :: "northbound_tool \<Rightarrow> json" where
  "tool_contract t = JObj (tool_fields t @ [(''allowedAgents'', JArr (map JStr (sorted_set (nt_allowed_agents t))))])"

definition json_type :: "string \<Rightarrow> json" where
  "json_type t = JObj [(''type'', JStr t)]"

definition input_schema :: json where
  "input_schema = JObj
     [(''type'', JStr ''object''), (''additionalProperties'', JBool False),
      (''required'', JArr (map JStr [''actionId'', ''parameters'', ''preconditions'', ''idempotencyKey''])),
      (''properties'', JObj
        [(''actionId'', json_type ''string''), (''parameters'', json_type ''object''),
         (''preconditions'', json_type ''object''), (''idempotencyKey'', json_type ''string''),
         (''compensation'', JObj [(''type'', JArr [JStr ''object'', JStr ''null''])])])]"

definition exposed_contract :: "northbound_tool \<Rightarrow> json" where
  "exposed_contract t = JObj (tool_fields t @ [(''inputSchema'', input_schema)])"

type_synonym tool_catalog = "northbound_tool list"

definition mk_tool_catalog :: "tool_catalog \<Rightarrow> tool_catalog checked" where
  "mk_tool_catalog tools =
     (if tools = [] \<or> \<not> distinct (map nt_name tools)
      then Inl (ValueError ''tool catalog requires at least one uniquely named tool'') else Inr tools)"

definition sorted_tools :: "tool_catalog \<Rightarrow> northbound_tool list" where
  "sorted_tools tools = sort_key nt_name tools"

definition catalog_digest :: "prims \<Rightarrow> tool_catalog \<Rightarrow> string" where
  "catalog_digest p tools = digest_of p (JArr (map tool_contract (sorted_tools tools)))"

definition catalog_contract :: "prims \<Rightarrow> tool_catalog \<Rightarrow> json" where
  "catalog_contract p tools = JObj
     [(''schemaVersion'', JStr ''data.harness/v1''), (''protocolVersion'', JStr protocol_version),
      (''catalogDigest'', JStr (catalog_digest p tools)),
      (''tools'', JArr (map tool_contract (sorted_tools tools)))]"

section \<open>Requests\<close>

definition reject :: "int \<Rightarrow> string \<Rightarrow> protocol_error + 'a" where
  "reject code message = Inl (Protocol_Rejected code message)"

definition check_that :: "bool \<Rightarrow> int \<Rightarrow> string \<Rightarrow> protocol_error + unit" where
  "check_that b code message = (if b then Inr () else reject code message)"

definition validate_envelope :: "(string, json) dict \<Rightarrow> protocol_error + unit" where
  "validate_envelope request =
     (if \<not> set (dict_keys request) \<subseteq> {''jsonrpc'', ''id'', ''method'', ''protocolVersion'', ''catalogDigest'', ''params''}
      then reject (- 32600) ''request envelope is over-broad''
      else if dict_get request ''jsonrpc'' \<noteq> Some (JStr ''2.0'')
        \<or> dict_get request ''protocolVersion'' \<noteq> Some (JStr protocol_version)
      then reject (- 32600) ''protocol version is unsupported''
      else (case dict_get request ''id'' of
              Some (JStr s) \<Rightarrow> Inr () | Some (JInt i) \<Rightarrow> Inr () | Some (JBool b) \<Rightarrow> Inr ()
            | _ \<Rightarrow> reject (- 32600) ''request id is required''))"

definition request_method :: "(string, json) dict \<Rightarrow> protocol_error + json" where
  "request_method request = (case dict_get request ''method'' of
     None \<Rightarrow> Inl (Protocol_Py (KeyError ''method'')) | Some m \<Rightarrow> Inr m)"

definition scalar_mapping :: "json \<Rightarrow> string \<Rightarrow> protocol_error + (string, json) dict" where
  "scalar_mapping v name =
     (case v of
        JObj d \<Rightarrow>
          if d = [] then reject (- 32602) (name @ '' must be a non-empty object'')
          else if \<not> list_all (\<lambda>kv. json_scalar (snd kv)) d then reject (- 32602) (name @ '' values must be scalar'')
          else Inr d
      | _ \<Rightarrow> reject (- 32602) (name @ '' must be a non-empty object''))"

definition py_raise :: "'a checked \<Rightarrow> protocol_error + 'a" where
  "py_raise r = (case r of Inl e \<Rightarrow> Inl (Protocol_Py e) | Inr x \<Rightarrow> Inr x)"

definition request_compensation :: "prims \<Rightarrow> json \<Rightarrow> protocol_error + compensation_spec option" where
  "request_compensation p v =
     (case v of
        JNull \<Rightarrow> Inr None
      | JObj d \<Rightarrow>
          if set (dict_keys d) \<noteq> {''operation'', ''parameters'', ''preconditions''}
          then reject (- 32602) ''compensation is not exact''
          else ck_bind (scalar_mapping (member d ''parameters'') ''compensation parameters'') (\<lambda>parameters.
               ck_bind (scalar_mapping (member d ''preconditions'') ''compensation preconditions'') (\<lambda>preconditions.
               ck_bind (py_raise (mk_compensation_spec
                 \<lparr>cs_operation = py_str (pr_repr p) (member d ''operation''), cs_parameters = parameters,
                  cs_preconditions = preconditions\<rparr>)) (\<lambda>c. Inr (Some c))))
      | _ \<Rightarrow> reject (- 32602) ''compensation is not exact'')"

definition find_tool :: "tool_catalog \<Rightarrow> json \<Rightarrow> northbound_tool option" where
  \<comment> \<open>the adapter's table by name\<close>
  "find_tool tools v = (case v of JStr name \<Rightarrow> dict_get (rev (map (\<lambda>t. (nt_name t, t)) tools)) name | _ \<Rightarrow> None)"

definition plan_for_tool :: "prims \<Rightarrow> northbound_tool \<Rightarrow> (string, json) dict \<Rightarrow> (string, json) dict
    \<Rightarrow> (string, json) dict \<Rightarrow> compensation_spec option \<Rightarrow> action_plan" where
  "plan_for_tool p tool arguments parameters preconditions compensation =
     \<lparr>ap_action_id = py_str (pr_repr p) (member arguments ''actionId''), ap_source_id = nt_source_id tool,
      ap_asset_id = nt_asset_id tool, ap_operation = nt_operation tool, ap_parameters = parameters,
      ap_preconditions = preconditions,
      ap_idempotency_key = py_str (pr_repr p) (member arguments ''idempotencyKey''),
      ap_risk = nt_risk tool, ap_approval_mode = nt_approval_mode tool, ap_purpose = nt_purpose tool,
      ap_compensation = compensation\<rparr>"

definition exact_arguments :: "(string, json) dict \<Rightarrow> bool" where
  "exact_arguments arguments \<longleftrightarrow>
     set (dict_keys arguments) \<subseteq> {''actionId'', ''parameters'', ''preconditions'', ''idempotencyKey'', ''compensation''}
   \<and> {''actionId'', ''parameters'', ''preconditions'', ''idempotencyKey''} \<subseteq> set (dict_keys arguments)"

definition plan_or_reject :: "action_plan \<Rightarrow> protocol_error + action_plan" where
  "plan_or_reject a = (case mk_action_plan a of
     Inl _ \<Rightarrow> reject (- 32602) ''tool arguments violate action contract'' | Inr b \<Rightarrow> Inr b)"

definition plan_from_arguments :: "prims \<Rightarrow> northbound_tool \<Rightarrow> (string, json) dict \<Rightarrow> protocol_error + action_plan" where
  "plan_from_arguments p tool arguments =
     (if \<not> exact_arguments arguments then reject (- 32602) ''tool arguments are over-broad or incomplete''
      else ck_bind (scalar_mapping (member arguments ''parameters'') ''parameters'') (\<lambda>parameters.
           ck_bind (scalar_mapping (member arguments ''preconditions'') ''preconditions'') (\<lambda>preconditions.
           ck_bind (request_compensation p (member arguments ''compensation'')) (\<lambda>compensation.
           plan_or_reject (plan_for_tool p tool arguments parameters preconditions compensation)))))"

definition request_plan :: "prims \<Rightarrow> tool_catalog \<Rightarrow> (string, json) dict \<Rightarrow> request_identity
    \<Rightarrow> protocol_error + action_plan" where
  \<comment> \<open>\<open>to_action_plan\<close>\<close>
  "request_plan p tools request identity =
     ck_bind (validate_envelope request) (\<lambda>_.
     ck_bind (request_method request) (\<lambda>method.
     ck_bind (check_that (method = JStr ''tools/call'') (- 32601) ''request is not a tool call'') (\<lambda>_.
     ck_bind (check_that (dict_get request ''catalogDigest'' = Some (JStr (catalog_digest p tools)))
       (- 32010) ''tool catalog digest is stale or mismatched'') (\<lambda>_.
     case member request ''params'' of
       JObj params \<Rightarrow>
         ck_bind (check_that (set (dict_keys params) = {''name'', ''arguments''})
           (- 32602) ''tool call params are not exact'') (\<lambda>_.
         case find_tool tools (member params ''name'') of
           None \<Rightarrow> reject (- 32602) ''tool is unknown''
         | Some tool \<Rightarrow>
             ck_bind (check_that (id_agent_id identity \<in> set (nt_allowed_agents tool))
               (- 32003) ''tool is outside agent scope'') (\<lambda>_.
             case member params ''arguments'' of
               JObj arguments \<Rightarrow> plan_from_arguments p tool arguments
             | _ \<Rightarrow> reject (- 32602) ''tool arguments must be an object''))
     | _ \<Rightarrow> reject (- 32602) ''tool call params are not exact''))))"

definition listed_tools :: "tool_catalog \<Rightarrow> request_identity \<Rightarrow> northbound_tool list" where
  "listed_tools tools identity =
     filter (\<lambda>t. id_agent_id identity \<in> set (nt_allowed_agents t)) (sorted_tools tools)"

definition request_result :: "prims \<Rightarrow> tool_catalog \<Rightarrow> (string, json) dict \<Rightarrow> request_identity
    \<Rightarrow> protocol_error + json" where
  "request_result p tools request identity =
     ck_bind (validate_envelope request) (\<lambda>_.
     ck_bind (request_method request) (\<lambda>method.
     if method = JStr ''tools/list''
     then Inr (JObj [(''protocolVersion'', JStr protocol_version), (''catalogDigest'', JStr (catalog_digest p tools)),
            (''tools'', JArr (map exposed_contract (listed_tools tools identity)))])
     else if method = JStr ''tools/call''
     then ck_bind (request_plan p tools request identity) (\<lambda>a.
            Inr (JObj [(''actionDigest'', JStr (plan_digest p a)), (''sourceAction'', JObj (plan_contract p a)),
              (''executionRequired'', JBool True)]))
     else reject (- 32601) ''method is not exposed''))"

definition handle :: "prims \<Rightarrow> tool_catalog \<Rightarrow> (string, json) dict \<Rightarrow> request_identity \<Rightarrow> (string, json) dict checked" where
  "handle p tools request identity =
     (case request_result p tools request identity of
        Inl (Protocol_Rejected code message) \<Rightarrow>
          Inr [(''jsonrpc'', JStr ''2.0''), (''id'', member request ''id''),
               (''error'', JObj [(''code'', JInt code), (''message'', JStr message)])]
      | Inl (Protocol_Py e) \<Rightarrow> Inl e
      | Inr result \<Rightarrow> Inr [(''jsonrpc'', JStr ''2.0''), (''id'', member request ''id''), (''result'', result)])"

section \<open>What a plan from a request is bound to\<close>

lemma reject_simps [simp]: "reject code m \<noteq> Inr x" "reject code m = Inl e \<longleftrightarrow> e = Protocol_Rejected code m"
  by (auto simp: reject_def)

lemma check_that_Inr [simp]: "check_that b code m = Inr u \<longleftrightarrow> b"
  by (simp add: check_that_def)

lemma check_that_Inl [simp]: "check_that b code m = Inl e \<longleftrightarrow> \<not> b \<and> e = Protocol_Rejected code m"
  by (auto simp: check_that_def)

lemma ck_bind_Inl: "ck_bind r f = Inl e \<longleftrightarrow> r = Inl e \<or> (\<exists>x. r = Inr x \<and> f x = Inl e)"
  by (cases r) simp_all

lemma scalar_mapping_Inr:
  "scalar_mapping v name = Inr d \<longleftrightarrow> v = JObj d \<and> d \<noteq> [] \<and> list_all (\<lambda>kv. json_scalar (snd kv)) d"
  by (auto simp: scalar_mapping_def split: json.split)

lemma find_tool_in: "find_tool tools v = Some t \<Longrightarrow> t \<in> set tools \<and> v = JStr (nt_name t)"
  by (auto simp: find_tool_def split: json.splits dest!: map_of_SomeD)

lemma plan_or_reject_iff:
  "plan_or_reject a = Inr b \<longleftrightarrow> mk_action_plan a = Inr a \<and> b = a" "plan_or_reject a \<noteq> Inl (Protocol_Py e)"
  using mk_action_plan_Inr [of a] by (auto simp: plan_or_reject_def split: sum.split)

lemma plan_from_arguments_Inr:
  assumes "plan_from_arguments p tool arguments = Inr a"
  shows "mk_action_plan a = Inr a \<and> ap_source_id a = nt_source_id tool \<and> ap_asset_id a = nt_asset_id tool
    \<and> ap_operation a = nt_operation tool \<and> ap_risk a = nt_risk tool \<and> ap_approval_mode a = nt_approval_mode tool
    \<and> ap_purpose a = nt_purpose tool"
  using assms unfolding plan_from_arguments_def ck_bind_Inr guard_Inr plan_or_reject_iff if_not_P
  by (auto simp: ck_bind_Inr plan_or_reject_iff plan_for_tool_def split: if_splits)

lemma request_plan_Inr:
  assumes "request_plan p tools request identity = Inr a"
  shows "dict_get request ''catalogDigest'' = Some (JStr (catalog_digest p tools))
    \<and> (\<exists>tool arguments. tool \<in> set (listed_tools tools identity) \<and> plan_from_arguments p tool arguments = Inr a)"
  using assms find_tool_in
  by (auto simp: request_plan_def ck_bind_Inr listed_tools_def sorted_tools_def split: json.splits option.splits)

text \<open>
  A caller cannot widen a tool: a request becomes an action plan only if it quotes the current digest
  of the catalog and names a tool that \<open>tools/list\<close> shows its agent; source, asset, operation, risk,
  approval mode and purpose of the plan are then the tool's, and the plan passed its own checks.
\<close>

lemma requested_plan_is_bounded:
  assumes "request_plan p tools request identity = Inr a"
  shows "dict_get request ''catalogDigest'' = Some (JStr (catalog_digest p tools)) \<and> mk_action_plan a = Inr a
    \<and> (\<exists>tool \<in> set (listed_tools tools identity).
         ap_source_id a = nt_source_id tool \<and> ap_asset_id a = nt_asset_id tool \<and> ap_operation a = nt_operation tool
       \<and> ap_risk a = nt_risk tool \<and> ap_approval_mode a = nt_approval_mode tool \<and> ap_purpose a = nt_purpose tool)"
  using request_plan_Inr [OF assms] plan_from_arguments_Inr by blast

section \<open>What escapes\<close>

lemma request_compensation_escapes:
  "request_compensation p v = Inl (Protocol_Py e) \<Longrightarrow>
     e = ValueError ''compensation requires operation, parameters and preconditions''
     \<and> (\<exists>d. v = JObj d \<and> py_str (pr_repr p) (member d ''operation'') = [])"
  by (auto simp: request_compensation_def ck_bind_Inl scalar_mapping_def py_raise_def mk_compensation_spec_def
      split: json.splits if_splits)

lemma plan_from_arguments_escapes:
  "plan_from_arguments p tool arguments = Inl (Protocol_Py e) \<Longrightarrow>
     request_compensation p (member arguments ''compensation'') = Inl (Protocol_Py e)"
  by (auto simp: plan_from_arguments_def ck_bind_Inl scalar_mapping_def plan_or_reject_iff split: json.splits if_splits)

text \<open>The compensation a tool call carries.\<close>

definition carried_compensation :: "(string, json) dict \<Rightarrow> json" where
  "carried_compensation request = (case member request ''params'' of
     JObj params \<Rightarrow> (case member params ''arguments'' of JObj arguments \<Rightarrow> member arguments ''compensation'' | _ \<Rightarrow> JNull)
   | _ \<Rightarrow> JNull)"

lemma validate_envelope_rejects: "validate_envelope request \<noteq> Inl (Protocol_Py e)"
  by (auto simp: validate_envelope_def split: option.splits json.splits)

lemma request_plan_escapes:
  assumes "request_plan p tools request identity = Inl (Protocol_Py e)"
  shows "(dict_get request ''method'' = None \<and> e = KeyError ''method'')
    \<or> request_compensation p (carried_compensation request) = Inl (Protocol_Py e)"
  using assms validate_envelope_rejects plan_from_arguments_escapes
  by (auto simp: request_plan_def ck_bind_Inl request_method_def carried_compensation_def
      split: json.splits option.splits)

text \<open>
  Every request is answered, as a result or a rejection under its own id, unless it names no method
  or carries a compensation whose operation is the empty text: those two let an exception escape.
\<close>

lemma request_is_answered:
  assumes "dict_get request ''method'' \<noteq> None"
    and "\<And>d. carried_compensation request = JObj d \<Longrightarrow> py_str (pr_repr p) (member d ''operation'') \<noteq> []"
  shows "\<exists>answer. handle p tools request identity = Inr answer \<and> member answer ''id'' = member request ''id''
    \<and> (case request_result p tools request identity of
         Inr result \<Rightarrow> dict_get answer ''result'' = Some result \<and> dict_get answer ''error'' = None
       | Inl (Protocol_Rejected code message) \<Rightarrow> dict_get answer ''result'' = None
           \<and> dict_get answer ''error'' = Some (JObj [(''code'', JInt code), (''message'', JStr message)])
       | Inl (Protocol_Py e) \<Rightarrow> False)"
proof -
  have "request_plan p tools request identity \<noteq> Inl (Protocol_Py e)" for e
    using request_plan_escapes [of p tools request identity e] request_compensation_escapes [of p _ e] assms by blast
  then have "request_result p tools request identity \<noteq> Inl (Protocol_Py e)" for e
    using assms(1) validate_envelope_rejects
    by (auto simp: request_result_def ck_bind_Inl request_method_def split: option.splits if_splits)
  then show ?thesis
    by (auto simp: handle_def member_def split: sum.split protocol_error.split)
qed

section \<open>What the digest of a catalog pins\<close>

definition tool_core :: "northbound_tool \<Rightarrow> northbound_tool" where
  "tool_core t = t\<lparr>nt_allowed_agents := sorted_set (nt_allowed_agents t)\<rparr>"

lemma enum_texts_inj [simp]:
  "risk_value r = risk_value r' \<longleftrightarrow> r = r'" "approval_value m = approval_value m' \<longleftrightarrow> m = m'"
  by (cases r; cases r'; simp) (cases m; cases m'; simp)

lemma map_JStr_inj [simp]: "map JStr xs = map JStr ys \<longleftrightarrow> xs = ys"
  by (rule inj_map_eq_map) (simp add: inj_def)

lemma sort_keys_texts [simp]: "map (sort_keys \<circ> JStr) xs = map JStr xs"
  by simp

lemma tool_contract_wf: "json_wf (tool_contract t)"
  by (simp add: tool_contract_def tool_fields_def list_all_iff)

lemma tool_contract_inj:
  assumes "sort_keys (tool_contract t) = sort_keys (tool_contract u)"
  shows "tool_core t = tool_core u"
proof -
  define fields_of where "fields_of x = tool_fields x @ [(''allowedAgents'', JArr (map JStr (sorted_set (nt_allowed_agents x))))]" for x
  have "sort_keys (JObj (fields_of t)) = sort_keys (JObj (fields_of u))"
    using assms by (simp add: tool_contract_def fields_of_def)
  moreover have "dict_wf (fields_of t)" "dict_wf (fields_of u)" by (simp_all add: fields_of_def tool_fields_def)
  ultimately have same: "map_option sort_keys (dict_get (fields_of t) k) = map_option sort_keys (dict_get (fields_of u) k)" for k
    by (rule sort_keys_lookup)
  show ?thesis
    using same [of "''name''"] same [of "''description''"] same [of "''sourceId''"] same [of "''assetId''"]
      same [of "''operation''"] same [of "''risk''"] same [of "''approvalMode''"] same [of "''purpose''"]
      same [of "''allowedAgents''"]
    by (cases t; cases u) (simp add: fields_of_def tool_fields_def tool_core_def)
qed

text \<open>
  The digest pins the tool metadata: two catalogs with one digest have, in the order of their names,
  the same tools with the same agents, or two different texts collide under the hash.
\<close>

lemma catalog_digest_pins_tools:
  assumes "catalog_digest p tools = catalog_digest p others"
  shows "map tool_core (sorted_tools tools) = map tool_core (sorted_tools others)
    \<or> (\<exists>m m'. m \<noteq> m' \<and> pr_sha256 p m = pr_sha256 p m')"
proof (cases "canonical (JArr (map tool_contract (sorted_tools tools))) = canonical (JArr (map tool_contract (sorted_tools others)))")
  case True
  have wf: "json_wf (JArr (map tool_contract ts))" for ts by (simp add: list_all_iff tool_contract_wf)
  from canonical_inj [OF wf wf True]
  have "map (\<lambda>t. sort_keys (tool_contract t)) (sorted_tools tools) = map (\<lambda>t. sort_keys (tool_contract t)) (sorted_tools others)"
    by (simp add: comp_def)
  then have "list_all2 (\<lambda>t u. sort_keys (tool_contract t) = sort_keys (tool_contract u)) (sorted_tools tools) (sorted_tools others)"
    by (simp add: list_all2_map1 list_all2_map2 flip: list.rel_eq)
  then have "list_all2 (\<lambda>t u. tool_core t = tool_core u) (sorted_tools tools) (sorted_tools others)"
    by (rule list_all2_mono) (rule tool_contract_inj)
  then show ?thesis by (simp add: list_all2_map1 list_all2_map2 flip: list.rel_eq)
next
  case False
  with assms show ?thesis by (auto simp: catalog_digest_def digest_of_def)
qed

section \<open>A request\<close>

definition sample_tool :: northbound_tool where
  "sample_tool = \<lparr>nt_name = ''orders.update'', nt_description = ''update an order'', nt_source_id = ''lab.mutable'',
     nt_asset_id = ''orders'', nt_operation = ''update'', nt_risk = Risk_High, nt_approval_mode = Approval_Human,
     nt_purpose = ''audit'', nt_allowed_agents = [''agent.allowed'']\<rparr>"

definition sample_call :: "json \<Rightarrow> (string, json) dict" where
  "sample_call compensation = [(''jsonrpc'', JStr ''2.0''), (''id'', JInt 1), (''method'', JStr ''tools/call''),
     (''protocolVersion'', JStr protocol_version), (''catalogDigest'', JStr ''sha256:d''),
     (''params'', JObj [(''name'', JStr ''orders.update''), (''arguments'', JObj
       [(''actionId'', JStr ''a1''), (''parameters'', JObj [(''status'', JStr ''paid'')]),
        (''preconditions'', JObj [(''version'', JInt 1)]), (''idempotencyKey'', JStr ''k1''),
        (''compensation'', compensation)])])]"

lemma sample_catalog_digest [simp]: "catalog_digest sample_prims tools = ''sha256:d''"
  by (simp add: catalog_digest_def digest_of_def sample_prims_def)

lemma sample_call_plan:
  "request_plan sample_prims [sample_tool] (sample_call JNull) sample_identity = Inr
     \<lparr>ap_action_id = ''a1'', ap_source_id = ''lab.mutable'', ap_asset_id = ''orders'', ap_operation = ''update'',
      ap_parameters = [(''status'', JStr ''paid'')], ap_preconditions = [(''version'', JInt 1)],
      ap_idempotency_key = ''k1'', ap_risk = Risk_High, ap_approval_mode = Approval_Human, ap_purpose = ''audit'',
      ap_compensation = None\<rparr>"
  by code_simp

lemma requested_plan_is_bounded_example:
  "\<exists>a. request_plan sample_prims [sample_tool] (sample_call JNull) sample_identity = Inr a
     \<and> ap_risk a = nt_risk sample_tool \<and> ap_approval_mode a = Approval_Human"
  using requested_plan_is_bounded [OF sample_call_plan] sample_call_plan
  by (auto simp: listed_tools_def sorted_tools_def sample_tool_def)

lemma sample_carried: "carried_compensation (sample_call c) = c" "dict_get (sample_call c) ''method'' \<noteq> None"
  by (simp_all add: carried_compensation_def sample_call_def member_def)

lemma request_is_answered_example:
  "\<exists>answer. handle sample_prims [sample_tool] (sample_call JNull) sample_identity = Inr answer
     \<and> member answer ''id'' = JInt 1"
proof -
  have "member (sample_call JNull) ''id'' = JInt 1" by (simp add: sample_call_def member_def)
  with request_is_answered [of "sample_call JNull" sample_prims "[sample_tool]" sample_identity] sample_carried [of JNull]
  show ?thesis by auto
qed

text \<open>The two escapes.\<close>

lemma nameless_requests_escape:
  "handle sample_prims [sample_tool] (sample_call (JObj [(''operation'', JStr []), (''parameters'', JObj [(''x'', JInt 1)]),
      (''preconditions'', JObj [(''x'', JInt 1)])])) sample_identity
     = Inl (ValueError ''compensation requires operation, parameters and preconditions'')"
  "handle sample_prims [sample_tool] (filter (\<lambda>kv. fst kv \<noteq> ''method'') (sample_call JNull)) sample_identity = Inl (KeyError ''method'')"
  by code_simp+

lemma catalog_digest_pins_tools_example:
  "catalog_digest (sample_prims\<lparr>pr_sha256 := \<lambda>m. m\<rparr>) [sample_tool\<lparr>nt_name := ''b''\<rparr>, sample_tool]
      = catalog_digest (sample_prims\<lparr>pr_sha256 := \<lambda>m. m\<rparr>) [sample_tool, sample_tool\<lparr>nt_name := ''b''\<rparr>]
   \<and> map tool_core (sorted_tools [sample_tool\<lparr>nt_name := ''b''\<rparr>, sample_tool])
      = map tool_core (sorted_tools [sample_tool, sample_tool\<lparr>nt_name := ''b''\<rparr>])"
proof
  let ?p = "sample_prims\<lparr>pr_sha256 := \<lambda>m. m\<rparr>"
  show eq: "catalog_digest ?p [sample_tool\<lparr>nt_name := ''b''\<rparr>, sample_tool]
      = catalog_digest ?p [sample_tool, sample_tool\<lparr>nt_name := ''b''\<rparr>]"
    by (simp add: catalog_digest_def sorted_tools_def sample_tool_def)
  from catalog_digest_pins_tools [OF eq] show "map tool_core (sorted_tools [sample_tool\<lparr>nt_name := ''b''\<rparr>, sample_tool])
      = map tool_core (sorted_tools [sample_tool, sample_tool\<lparr>nt_name := ''b''\<rparr>])" by simp
qed

end
