(* ===== verification/Action_Delegation.thy ===== *)
theory Action_Delegation
  imports Northbound_Protocol
begin

text \<open>
  delegation.py: the adapter that maps an A2A envelope to a bounded action plan. A rejection is a
  \<open>DelegationRejected\<close>; any other exception escapes. The adapter is its set of allowed operations.
\<close>

datatype delegation_error = Delegation_Rejected string | Delegation_Py py_error

definition delegate_when :: "bool \<Rightarrow> string \<Rightarrow> delegation_error + unit" where
  "delegate_when b message = (if b then Inr () else Inl (Delegation_Rejected message))"

definition finite_scalar :: "json \<Rightarrow> delegation_error + unit" where
  \<comment> \<open>one value of a delegated object\<close>
  "finite_scalar v =
     (if \<not> json_scalar v then Inl (Delegation_Rejected ''delegated values must be scalar'')
      else if v \<in> {JFloat ''NaN'', JFloat ''Infinity'', JFloat ''-Infinity''}
      then Inl (Delegation_Rejected ''delegated numeric values must be finite'')
      else Inr ())"

definition delegated_scalars :: "json \<Rightarrow> delegation_error + (string, json) dict" where
  "delegated_scalars v =
     (case v of
        JObj d \<Rightarrow> ck_bind (check_all (\<lambda>kv. finite_scalar (snd kv)) d) (\<lambda>_. Inr d)
      | _ \<Rightarrow> Inl (Delegation_Rejected ''action parameters and preconditions must be objects''))"

definition action_fields :: "string list" where
  "action_fields = [''actionId'', ''sourceId'', ''assetId'', ''operation'', ''parameters'', ''preconditions'',
     ''idempotencyKey'', ''risk'', ''approvalMode'', ''purpose'', ''compensation'']"

definition build_compensation :: "compensation_spec \<Rightarrow> delegation_error + compensation_spec option" where
  "build_compensation c = (case mk_compensation_spec c of Inl e \<Rightarrow> Inl (Delegation_Py e) | Inr d \<Rightarrow> Inr (Some d))"

definition exact_compensation :: "(string, json) dict \<Rightarrow> bool" where
  "exact_compensation d \<longleftrightarrow> set (dict_keys d) = {''operation'', ''parameters'', ''preconditions''}"

definition delegated_compensation :: "prims \<Rightarrow> json \<Rightarrow> delegation_error + compensation_spec option" where
  "delegated_compensation p v =
     (case v of
        JNull \<Rightarrow> Inr None
      | JObj d \<Rightarrow>
          ck_bind (delegate_when (exact_compensation d) ''compensation shape is not exact'') (\<lambda>_.
          ck_bind (delegated_scalars (member d ''parameters'')) (\<lambda>parameters.
          ck_bind (delegated_scalars (member d ''preconditions'')) (\<lambda>preconditions.
          build_compensation \<lparr>cs_operation = py_str (pr_repr p) (member d ''operation''),
                 cs_parameters = parameters, cs_preconditions = preconditions\<rparr>)))
      | _ \<Rightarrow> Inl (Delegation_Rejected ''compensation must be structured or null''))"

definition risk_of_text :: "string \<Rightarrow> action_risk option" where
  "risk_of_text s = find (\<lambda>r. risk_value r = s) [Risk_Low, Risk_Medium, Risk_High]"

definition approval_of_text :: "string \<Rightarrow> approval_mode option" where
  "approval_of_text s = find (\<lambda>m. approval_value m = s) [Approval_None, Approval_Human]"

definition values_invalid :: "delegation_error + 'a" where
  "values_invalid = Inl (Delegation_Rejected ''delegated source action values are invalid'')"

definition valid_or_reject :: "'a option \<Rightarrow> delegation_error + 'a" where
  "valid_or_reject v = (case v of None \<Rightarrow> values_invalid | Some x \<Rightarrow> Inr x)"

definition build_plan :: "action_plan \<Rightarrow> delegation_error + action_plan" where
  "build_plan a = (case mk_action_plan a of Inl _ \<Rightarrow> values_invalid | Inr b \<Rightarrow> Inr b)"

definition delegated_plan :: "prims \<Rightarrow> (string, json) dict \<Rightarrow> compensation_spec option \<Rightarrow> delegation_error + action_plan" where
  \<comment> \<open>the guarded construction of the plan\<close>
  "delegated_plan p action compensation =
     (let text = (\<lambda>k. py_str (pr_repr p) (member action k))
      in ck_bind (delegated_scalars (member action ''parameters'')) (\<lambda>parameters.
         ck_bind (delegated_scalars (member action ''preconditions'')) (\<lambda>preconditions.
         ck_bind (valid_or_reject (risk_of_text (text ''risk''))) (\<lambda>risk.
         ck_bind (valid_or_reject (approval_of_text (text ''approvalMode''))) (\<lambda>mode.
         build_plan \<lparr>ap_action_id = text ''actionId'', ap_source_id = text ''sourceId'',
           ap_asset_id = text ''assetId'', ap_operation = text ''operation'', ap_parameters = parameters,
           ap_preconditions = preconditions, ap_idempotency_key = text ''idempotencyKey'', ap_risk = risk,
           ap_approval_mode = mode, ap_purpose = text ''purpose'', ap_compensation = compensation\<rparr>)))))"

definition delegated_action :: "prims \<Rightarrow> (string \<times> string) list \<Rightarrow> (string, json) dict \<Rightarrow> request_identity
    \<Rightarrow> delegation_error + action_plan" where
  \<comment> \<open>\<open>to_action_plan\<close>\<close>
  "delegated_action p allowed_operations envelope identity =
     ck_bind (delegate_when (set (dict_keys envelope) = {''protocol'', ''taskId'', ''requestingAgent'', ''sourceAction''}
       \<and> member envelope ''protocol'' = JStr ''a2a/1.0'') ''unsupported or over-broad delegation envelope'') (\<lambda>_.
     ck_bind (delegate_when (case member envelope ''taskId'' of JStr t \<Rightarrow> t \<noteq> [] | _ \<Rightarrow> False)
       ''delegation task identity is required'') (\<lambda>_.
     ck_bind (delegate_when (member envelope ''requestingAgent'' = JStr (id_agent_id identity))
       ''delegating agent does not match execution identity'') (\<lambda>_.
     case member envelope ''sourceAction'' of
       JObj action \<Rightarrow>
         ck_bind (delegate_when (set (dict_keys action) = set action_fields)
           ''delegated source action shape is not exact'') (\<lambda>_.
         ck_bind (delegate_when ((py_str (pr_repr p) (member action ''sourceId''), py_str (pr_repr p) (member action ''operation''))
             \<in> set allowed_operations) ''delegated operation is not exposed by this adapter'') (\<lambda>_.
         ck_bind (delegated_compensation p (member action ''compensation'')) (\<lambda>compensation.
         delegated_plan p action compensation)))
     | _ \<Rightarrow> Inl (Delegation_Rejected ''delegation must contain a structured source action''))))"

section \<open>What a delegated plan is bound to\<close>

definition finite_value :: "json \<Rightarrow> bool" where
  "finite_value v \<longleftrightarrow> json_scalar v \<and> v \<notin> {JFloat ''NaN'', JFloat ''Infinity'', JFloat ''-Infinity''}"

lemma delegate_when_iff [simp]: "delegate_when b m = Inr u \<longleftrightarrow> b" "delegate_when b m = Inl e \<longleftrightarrow> \<not> b \<and> e = Delegation_Rejected m"
  by (auto simp: delegate_when_def)

lemma finite_scalar_iff: "finite_scalar v = Inr u \<longleftrightarrow> finite_value v"
  by (simp add: finite_scalar_def finite_value_def)

lemma delegated_scalars_Inr:
  assumes "delegated_scalars v = Inr d"
  shows "v = JObj d \<and> list_all (\<lambda>kv. finite_value (snd kv)) d"
proof -
  have "list_all2 (\<lambda>kv u. finite_value (snd kv)) xs us \<Longrightarrow> list_all (\<lambda>kv. finite_value (snd kv)) xs" for xs :: "(string, json) dict" and us :: "unit list"
    by (induction rule: list_all2_induct) simp_all
  with assms show ?thesis
    by (auto simp: delegated_scalars_def ck_bind_Inr check_all_Inr finite_scalar_iff split: json.splits)
qed

lemma values_invalid_simps [simp]: "values_invalid \<noteq> Inr a" "values_invalid = Inl e \<longleftrightarrow> e = Delegation_Rejected ''delegated source action values are invalid''"
  by (auto simp: values_invalid_def)

definition plan_finite :: "action_plan \<Rightarrow> bool" where
  "plan_finite a \<longleftrightarrow> list_all (\<lambda>kv. finite_value (snd kv)) (ap_parameters a @ ap_preconditions a)"

lemma build_plan_Inr: "build_plan b = Inr a \<longleftrightarrow> a = b \<and> mk_action_plan b = Inr b"
  using mk_action_plan_Inr [of b] by (auto simp: build_plan_def split: sum.split)

lemma build_compensation_Inr: "build_compensation c = Inr d \<longleftrightarrow> d = Some c \<and> mk_compensation_spec c = Inr c"
  by (auto simp: build_compensation_def mk_compensation_spec_def)

lemma delegated_plan_Inr:
  assumes "delegated_plan p action compensation = Inr a"
  shows "mk_action_plan a = Inr a \<and> plan_finite a \<and> ap_compensation a = compensation
    \<and> ap_source_id a = py_str (pr_repr p) (member action ''sourceId'')
    \<and> ap_operation a = py_str (pr_repr p) (member action ''operation'')"
  using assms unfolding delegated_plan_def Let_def ck_bind_Inr build_plan_Inr plan_finite_def
  by (auto dest!: delegated_scalars_Inr)

lemma delegated_compensation_Inr:
  "delegated_compensation p v = Inr (Some c) \<Longrightarrow> mk_compensation_spec c = Inr c
     \<and> list_all (\<lambda>kv. finite_value (snd kv)) (cs_parameters c @ cs_preconditions c)"
  unfolding delegated_compensation_def
  by (auto simp: ck_bind_Inr build_compensation_Inr dest!: delegated_scalars_Inr split: json.splits)

lemma delegated_action_facts:
  assumes "delegated_action p allowed_operations envelope identity = Inr a"
  shows "member envelope ''requestingAgent'' = JStr (id_agent_id identity)
    \<and> (ap_source_id a, ap_operation a) \<in> set allowed_operations \<and> mk_action_plan a = Inr a \<and> plan_finite a
    \<and> (\<forall>c. ap_compensation a = Some c \<longrightarrow> mk_compensation_spec c = Inr c
         \<and> list_all (\<lambda>kv. finite_value (snd kv)) (cs_parameters c @ cs_preconditions c))"
proof -
  from assms obtain action compensation where
      agent: "member envelope ''requestingAgent'' = JStr (id_agent_id identity)"
    and allowed: "(py_str (pr_repr p) (member action ''sourceId''), py_str (pr_repr p) (member action ''operation''))
        \<in> set allowed_operations"
    and comp: "delegated_compensation p (member action ''compensation'') = Inr compensation"
    and plan: "delegated_plan p action compensation = Inr a"
    unfolding delegated_action_def ck_bind_Inr delegate_when_iff
    by (auto simp: ck_bind_Inr split: json.splits)
  from agent allowed delegated_plan_Inr [OF plan] delegated_compensation_Inr comp show ?thesis by auto
qed

text \<open>
  Delegation is bounded: an envelope becomes an action plan only for the agent it names, for an
  operation of a source the adapter exposes, with finite scalar values throughout, and the plan and its
  compensation passed their own checks.
\<close>

lemma delegated_action_is_bounded:
  assumes "delegated_action p allowed_operations envelope identity = Inr a"
  shows "member envelope ''requestingAgent'' = JStr (id_agent_id identity)
    \<and> (ap_source_id a, ap_operation a) \<in> set allowed_operations \<and> mk_action_plan a = Inr a \<and> plan_finite a
    \<and> (\<forall>c. ap_compensation a = Some c \<longrightarrow> mk_compensation_spec c = Inr c
         \<and> list_all (\<lambda>kv. finite_value (snd kv)) (cs_parameters c @ cs_preconditions c))"
  using assms by (rule delegated_action_facts)

section \<open>An envelope\<close>

definition sample_envelope :: "json \<Rightarrow> (string, json) dict" where
  "sample_envelope compensation = [(''protocol'', JStr ''a2a/1.0''), (''taskId'', JStr ''t1''),
     (''requestingAgent'', JStr ''agent.allowed''), (''sourceAction'', JObj
       [(''actionId'', JStr ''a1''), (''sourceId'', JStr ''lab.mutable''), (''assetId'', JStr ''orders''),
        (''operation'', JStr ''update''), (''parameters'', JObj [(''status'', JStr ''paid'')]),
        (''preconditions'', JObj [(''version'', JInt 1)]), (''idempotencyKey'', JStr ''k1''), (''risk'', JStr ''low''),
        (''approvalMode'', JStr ''none''), (''purpose'', JStr ''audit''), (''compensation'', compensation)])]"

definition sample_compensation_json :: "string \<Rightarrow> json" where
  "sample_compensation_json operation = JObj [(''operation'', JStr operation),
     (''parameters'', JObj [(''status'', JStr ''open'')]), (''preconditions'', JObj [(''version'', JInt 2)])]"

lemma sample_delegated:
  "delegated_action sample_prims [(''lab.mutable'', ''update'')] (sample_envelope (sample_compensation_json ''restore'')) sample_identity
     = Inr \<lparr>ap_action_id = ''a1'', ap_source_id = ''lab.mutable'', ap_asset_id = ''orders'', ap_operation = ''update'',
      ap_parameters = [(''status'', JStr ''paid'')], ap_preconditions = [(''version'', JInt 1)],
      ap_idempotency_key = ''k1'', ap_risk = Risk_Low, ap_approval_mode = Approval_None, ap_purpose = ''audit'',
      ap_compensation = Some \<lparr>cs_operation = ''restore'', cs_parameters = [(''status'', JStr ''open'')],
        cs_preconditions = [(''version'', JInt 2)]\<rparr>\<rparr>"
  by code_simp

lemma delegated_action_is_bounded_example:
  "\<exists>a. delegated_action sample_prims [(''lab.mutable'', ''update'')] (sample_envelope (sample_compensation_json ''restore''))
     sample_identity = Inr a \<and> plan_finite a \<and> ap_compensation a \<noteq> None"
  using delegated_action_is_bounded [OF sample_delegated] sample_delegated by auto

text \<open>A compensation without an operation escapes as a plain \<open>ValueError\<close>.\<close>

lemma nameless_compensation_escapes:
  "delegated_action sample_prims [(''lab.mutable'', ''update'')] (sample_envelope (sample_compensation_json [])) sample_identity
     = Inl (Delegation_Py (ValueError ''compensation requires operation, parameters and preconditions''))"
  by code_simp

end
