(* ===== verification/Protocol_Profiles.thy ===== *)
theory Protocol_Profiles
  imports Action_Delegation
begin

text \<open>
  protocol_profiles.py: the MCP tools server with its HTTP dispatch, and the A2A message server, over the
  northbound adapter and the delegation adapter. A header map and a request are dictionaries; a header that is
  absent compares like a missing member. A rejection is answered; any other exception escapes.
\<close>

section \<open>Versions and rejections\<close>

definition mcp_protocol_version :: string where "mcp_protocol_version = ''2026-07-28''"
definition a2a_protocol_version :: string where "a2a_protocol_version = ''1.0''"
definition mcp_meta_version :: string where "mcp_meta_version = ''io.modelcontextprotocol/protocolVersion''"
definition mcp_meta_client_info :: string where "mcp_meta_client_info = ''io.modelcontextprotocol/clientInfo''"
definition mcp_meta_capabilities :: string where "mcp_meta_capabilities = ''io.modelcontextprotocol/clientCapabilities''"
definition harness_catalog_digest :: string where "harness_catalog_digest = ''data.harness/catalogDigest''"

datatype profile_error = Profile_Rejected int string | Profile_Py py_error

definition profile_check :: "bool \<Rightarrow> int \<Rightarrow> string \<Rightarrow> profile_error + unit" where
  "profile_check b code message = (if b then Inr () else Inl (Profile_Rejected code message))"

definition profile_py :: "'a checked \<Rightarrow> profile_error + 'a" where
  "profile_py r = (case r of Inl e \<Rightarrow> Inl (Profile_Py e) | Inr x \<Rightarrow> Inr x)"

definition from_protocol :: "protocol_error + 'a \<Rightarrow> profile_error + 'a" where
  \<comment> \<open>both rejections carry a code and are caught together\<close>
  "from_protocol r = (case r of Inl (Protocol_Rejected code m) \<Rightarrow> Inl (Profile_Rejected code m)
     | Inl (Protocol_Py e) \<Rightarrow> Inl (Profile_Py e) | Inr x \<Rightarrow> Inr x)"

definition from_delegation :: "delegation_error + 'a \<Rightarrow> profile_error + 'a" where
  "from_delegation r = (case r of Inl (Delegation_Rejected m) \<Rightarrow> Inl (Profile_Rejected (- 32602) m)
     | Inl (Delegation_Py e) \<Rightarrow> Inl (Profile_Py e) | Inr x \<Rightarrow> Inr x)"

definition is_mapping :: "json option \<Rightarrow> bool" where
  "is_mapping v \<longleftrightarrow> (case v of Some (JObj d) \<Rightarrow> True | _ \<Rightarrow> False)"

definition mapping_of :: "json option \<Rightarrow> (string, json) dict" where
  "mapping_of v = (case v of Some (JObj d) \<Rightarrow> d | _ \<Rightarrow> [])"

definition is_text :: "json option \<Rightarrow> bool" where
  "is_text v \<longleftrightarrow> (case v of Some (JStr s) \<Rightarrow> True | _ \<Rightarrow> False)"

definition plain_id :: "json option \<Rightarrow> bool" where
  \<comment> \<open>\<open>type(v) in {str, int}\<close>\<close>
  "plain_id v \<longleftrightarrow> (case v of Some (JStr s) \<Rightarrow> True | Some (JInt i) \<Rightarrow> True | _ \<Rightarrow> False)"

definition error_answer :: "json \<Rightarrow> int \<Rightarrow> string \<Rightarrow> (string, json) dict" where
  "error_answer request_id code message = [(''jsonrpc'', JStr ''2.0''), (''id'', request_id),
     (''error'', JObj [(''code'', JInt code), (''message'', JStr message)])]"

definition result_answer :: "json \<Rightarrow> json \<Rightarrow> (string, json) dict" where
  "result_answer request_id result = [(''jsonrpc'', JStr ''2.0''), (''id'', request_id), (''result'', result)]"

definition answer_or_raise :: "json \<Rightarrow> profile_error + json \<Rightarrow> (string, json) dict checked" where
  "answer_or_raise request_id r = (case r of
     Inl (Profile_Rejected code message) \<Rightarrow> Inr (error_answer request_id code message)
   | Inl (Profile_Py e) \<Rightarrow> Inl e
   | Inr result \<Rightarrow> Inr (result_answer request_id result))"

section \<open>The MCP server\<close>

definition mk_mcp_server :: "int \<Rightarrow> int checked" where
  \<comment> \<open>the check of the time to live\<close>
  "mk_mcp_server ttl_ms = (if ttl_ms \<le> 0 then Inl (ValueError ''MCP list TTL must be positive'') else Inr ttl_ms)"

definition validate_mcp :: "(string, json) dict \<Rightarrow> profile_error + unit" where
  "validate_mcp request =
     (let meta = mapping_of (dict_get request ''_meta'') in
      ck_bind (profile_check (set (dict_keys request) \<subseteq> {''jsonrpc'', ''id'', ''method'', ''params'', ''_meta''}
        \<and> dict_get request ''jsonrpc'' = Some (JStr ''2.0'')) (- 32600) ''MCP request envelope is invalid'') (\<lambda>_.
      ck_bind (profile_check (plain_id (dict_get request ''id'')) (- 32600) ''MCP request id is required'') (\<lambda>_.
      ck_bind (profile_check (is_mapping (dict_get request ''_meta'')) (- 32600) ''MCP per-request metadata is required'') (\<lambda>_.
      ck_bind (profile_check ({mcp_meta_version, mcp_meta_client_info, mcp_meta_capabilities} \<subseteq> set (dict_keys meta)
        \<and> dict_get meta mcp_meta_version = Some (JStr mcp_protocol_version)) (- 32009) ''MCP protocol version is unsupported'') (\<lambda>_.
      profile_check (is_mapping (dict_get meta mcp_meta_client_info) \<and> is_mapping (dict_get meta mcp_meta_capabilities))
        (- 32600) ''MCP client metadata is invalid'')))))"

definition mcp_tool :: "json \<Rightarrow> json checked" where
  \<comment> \<open>the MCP form of a tool the northbound adapter lists\<close>
  "mcp_tool item =
     ck_bind (json_index item ''risk'') (\<lambda>risk.
     ck_bind (json_index item ''name'') (\<lambda>name.
     ck_bind (json_index item ''operation'') (\<lambda>operation.
     ck_bind (json_index item ''description'') (\<lambda>description.
     ck_bind (json_index item ''inputSchema'') (\<lambda>schema.
     Inr (JObj [(''name'', name), (''title'', operation), (''description'', description), (''inputSchema'', schema),
       (''annotations'', JObj [(''readOnlyHint'', JBool False),
          (''destructiveHint'', JBool (risk \<in> {JStr ''medium'', JStr ''high''})),
          (''idempotentHint'', JBool True), (''openWorldHint'', JBool False)])]))))))"

definition mcp_list_result :: "prims \<Rightarrow> tool_catalog \<Rightarrow> int \<Rightarrow> json list \<Rightarrow> json" where
  "mcp_list_result p tools ttl_ms shown = JObj
     [(''resultType'', JStr ''complete''), (''tools'', JArr shown), (''ttlMs'', JInt ttl_ms),
      (''cacheScope'', JStr ''private''),
      (''_meta'', JObj [(harness_catalog_digest, JStr (catalog_digest p tools))])]"

definition internal_list :: "json \<Rightarrow> (string, json) dict" where
  "internal_list request_id = [(''jsonrpc'', JStr ''2.0''), (''id'', request_id), (''method'', JStr ''tools/list''),
     (''protocolVersion'', JStr protocol_version)]"

definition list_tools :: "prims \<Rightarrow> tool_catalog \<Rightarrow> int \<Rightarrow> json \<Rightarrow> request_identity \<Rightarrow> json checked" where
  "list_tools p tools ttl_ms request_id identity =
     ck_bind (handle p tools (internal_list request_id) identity) (\<lambda>internal.
     ck_bind (json_index (JObj internal) ''result'') (\<lambda>result.
     ck_bind (json_index result ''tools'') (\<lambda>listed.
     ck_bind (json_elements listed) (\<lambda>items.
     ck_bind (check_all mcp_tool items) (\<lambda>shown.
     Inr (mcp_list_result p tools ttl_ms shown))))))"

definition call_result :: "prims \<Rightarrow> action_plan \<Rightarrow> json" where
  "call_result p a = JObj
     [(''resultType'', JStr ''complete''),
      (''content'', JArr [JObj [(''type'', JStr ''text''),
         (''text'', JStr ''Governed action plan created; preview and approval remain required.'')]]),
      (''structuredContent'', JObj [(''actionDigest'', JStr (plan_digest p a)),
         (''sourceAction'', JObj (plan_contract p a)), (''executionRequired'', JBool True)]),
      (''isError'', JBool False)]"

definition internal_call :: "(string, json) dict \<Rightarrow> (string, json) dict" where
  "internal_call request = [(''jsonrpc'', JStr ''2.0''), (''id'', member request ''id''), (''method'', JStr ''tools/call''),
     (''protocolVersion'', JStr protocol_version),
     (''catalogDigest'', member (mapping_of (dict_get request ''_meta'')) harness_catalog_digest),
     (''params'', JObj (mapping_of (dict_get request ''params'')))]"

definition call_tool :: "prims \<Rightarrow> tool_catalog \<Rightarrow> (string, json) dict \<Rightarrow> request_identity \<Rightarrow> profile_error + json" where
  "call_tool p tools request identity =
     ck_bind (profile_check (is_mapping (dict_get request ''params'')
       \<and> set (dict_keys (mapping_of (dict_get request ''params''))) = {''name'', ''arguments''})
       (- 32602) ''MCP tool call parameters are invalid'') (\<lambda>_.
     ck_bind (from_protocol (request_plan p tools (internal_call request) identity)) (\<lambda>a.
     Inr (call_result p a)))"

definition mcp_result :: "prims \<Rightarrow> tool_catalog \<Rightarrow> int \<Rightarrow> (string, json) dict \<Rightarrow> request_identity \<Rightarrow> profile_error + json" where
  "mcp_result p tools ttl_ms request identity =
     ck_bind (validate_mcp request) (\<lambda>_.
     case dict_get request ''method'' of
       None \<Rightarrow> Inl (Profile_Py (KeyError ''method''))
     | Some method \<Rightarrow>
         if method = JStr ''tools/list''
         then profile_py (list_tools p tools ttl_ms (member request ''id'') identity)
         else if method = JStr ''tools/call'' then call_tool p tools request identity
         else Inl (Profile_Rejected (- 32601) ''MCP method is not exposed''))"

definition mcp_handle :: "prims \<Rightarrow> tool_catalog \<Rightarrow> int \<Rightarrow> (string, json) dict \<Rightarrow> request_identity
    \<Rightarrow> (string, json) dict checked" where
  "mcp_handle p tools ttl_ms request identity =
     answer_or_raise (member request ''id'') (mcp_result p tools ttl_ms request identity)"

section \<open>HTTP dispatch\<close>

record http_result =
  hr_status :: int
  hr_headers :: "(string, string) dict"
  hr_body :: "(string, json) dict"

definition normalized_headers :: "(string, string) dict \<Rightarrow> (string, string) dict" where
  "normalized_headers headers = fold (\<lambda>(name, v). dict_set (str_lower name) v) headers []"

definition header :: "(string, string) dict \<Rightarrow> string \<Rightarrow> json" where
  "header headers name = (case dict_get (normalized_headers headers) name of None \<Rightarrow> JNull | Some v \<Rightarrow> JStr v)"

definition media_type :: "(string, string) dict \<Rightarrow> string" where
  "media_type headers = (case dict_get (normalized_headers headers) ''content-type'' of
     None \<Rightarrow> [] | Some v \<Rightarrow> takeWhile (\<lambda>c. c \<noteq> CHR '';'') v)"

definition called_name :: "(string, json) dict \<Rightarrow> json" where
  "called_name request = member (mapping_of (dict_get request ''params'')) ''name''"

definition check_headers :: "(string, string) dict \<Rightarrow> (string, json) dict \<Rightarrow> profile_error + unit" where
  "check_headers headers request =
     ck_bind (profile_check (media_type headers = ''application/json'') (- 32600) ''MCP content type is invalid'') (\<lambda>_.
     ck_bind (profile_check (header headers ''mcp-method'' = member request ''method'') (- 32600)
       ''MCP method header mismatches body'') (\<lambda>_.
     profile_check (member request ''method'' = JStr ''tools/call'' \<longrightarrow> header headers ''mcp-name'' = called_name request)
       (- 32600) ''MCP name header mismatches body''))"

definition http_answer :: "int \<Rightarrow> (string, json) dict \<Rightarrow> http_result" where
  "http_answer status body = \<lparr>hr_status = status,
     hr_headers = [(''content-type'', ''application/json''), (''cache-control'', ''no-store'')], hr_body = body\<rparr>"

definition dispatch_http :: "prims \<Rightarrow> tool_catalog \<Rightarrow> int \<Rightarrow> (string, string) dict \<Rightarrow> (string, json) dict
    \<Rightarrow> request_identity \<Rightarrow> http_result checked" where
  "dispatch_http p tools ttl_ms headers request identity =
     (case check_headers headers request of
        Inl (Profile_Rejected code message) \<Rightarrow> Inr (http_answer 400 (error_answer (member request ''id'') code message))
      | Inl (Profile_Py e) \<Rightarrow> Inl e
      | Inr u \<Rightarrow> ck_bind (mcp_handle p tools ttl_ms request identity) (\<lambda>body. Inr (http_answer 200 body)))"

section \<open>The A2A server\<close>

record a2a_agent_skill =
  as_skill_id :: string
  as_name :: string
  as_description :: string
  as_tags :: "string list"

definition skill_contract :: "a2a_agent_skill \<Rightarrow> json" where
  "skill_contract s = JObj
     [(''id'', JStr (as_skill_id s)), (''name'', JStr (as_name s)), (''description'', JStr (as_description s)),
      (''tags'', JArr (map JStr (as_tags s))), (''inputModes'', JArr [JStr ''application/json'']),
      (''outputModes'', JArr [JStr ''application/json''])]"

record a2a_agent_card =
  ac_name :: string
  ac_description :: string
  ac_url :: string
  ac_version :: string
  ac_skills :: "a2a_agent_skill list"

definition mk_a2a_agent_card :: "a2a_agent_card \<Rightarrow> a2a_agent_card checked" where
  "mk_a2a_agent_card c =
     (if ac_name c = [] \<or> ac_description c = [] \<or> ac_url c = [] \<or> ac_version c = [] \<or> ac_skills c = []
      then Inl (ValueError ''A2A Agent Card identity and skills are required'') else Inr c)"

definition card_contract :: "a2a_agent_card \<Rightarrow> json" where
  "card_contract c = JObj
     [(''name'', JStr (ac_name c)), (''description'', JStr (ac_description c)),
      (''supportedInterfaces'', JArr [JObj [(''url'', JStr (ac_url c)), (''protocolBinding'', JStr ''JSONRPC''),
         (''protocolVersion'', JStr a2a_protocol_version)]]),
      (''version'', JStr (ac_version c)),
      (''capabilities'', JObj [(''streaming'', JBool False), (''pushNotifications'', JBool False)]),
      (''defaultInputModes'', JArr [JStr ''application/json'']), (''defaultOutputModes'', JArr [JStr ''application/json'']),
      (''skills'', JArr (map skill_contract (ac_skills c)))]"

definition a2a_message :: "(string, json) dict \<Rightarrow> profile_error + (string, json) dict" where
  \<comment> \<open>the message of a request whose envelope is exact\<close>
  "a2a_message request =
     (let params = mapping_of (dict_get request ''params''); message = mapping_of (dict_get params ''message'') in
      ck_bind (profile_check (set (dict_keys request) = {''jsonrpc'', ''id'', ''method'', ''params''}
        \<and> dict_get request ''jsonrpc'' = Some (JStr ''2.0'') \<and> dict_get request ''method'' = Some (JStr ''SendMessage'')
        \<and> plain_id (dict_get request ''id'')) (- 32600) ''A2A request envelope is invalid'') (\<lambda>_.
      ck_bind (profile_check (is_mapping (dict_get request ''params'') \<and> set (dict_keys params) = {''message''})
        (- 32602) ''A2A SendMessage params are invalid'') (\<lambda>_.
      ck_bind (profile_check (is_mapping (dict_get params ''message'')
        \<and> set (dict_keys message) = {''messageId'', ''role'', ''parts''}
        \<and> dict_get message ''role'' = Some (JStr ''ROLE_USER'')
        \<and> is_text (dict_get message ''messageId'')) (- 32602) ''A2A message is invalid'') (\<lambda>_.
      Inr message))))"

definition a2a_data :: "(string, json) dict \<Rightarrow> profile_error + (string, json) dict" where
  \<comment> \<open>the data of the one part of a message\<close>
  "a2a_data message =
     (case member message ''parts'' of
        JArr [part] \<Rightarrow>
          (let d = mapping_of (Some part) in
           ck_bind (profile_check (is_mapping (Some part) \<and> set (dict_keys d) = {''data'', ''mediaType''}
             \<and> dict_get d ''mediaType'' = Some (JStr ''application/json'') \<and> is_mapping (dict_get d ''data''))
             (- 32602) ''A2A data part is invalid'') (\<lambda>_. Inr (mapping_of (dict_get d ''data''))))
      | _ \<Rightarrow> Inl (Profile_Rejected (- 32602) ''A2A action requires one data part''))"

definition a2a_reply :: "prims \<Rightarrow> (string, json) dict \<Rightarrow> action_plan \<Rightarrow> json" where
  "a2a_reply p message a = JObj [(''message'', JObj
     [(''messageId'', JStr (''response:'' @ py_str (pr_repr p) (member message ''messageId''))),
      (''role'', JStr ''ROLE_AGENT''),
      (''parts'', JArr [JObj [(''data'', JObj [(''actionDigest'', JStr (plan_digest p a)),
         (''sourceAction'', JObj (plan_contract p a)), (''executionRequired'', JBool True)]),
         (''mediaType'', JStr ''application/json'')]])])]"

definition a2a_result :: "prims \<Rightarrow> (string \<times> string) list \<Rightarrow> (string, string) dict \<Rightarrow> (string, json) dict
    \<Rightarrow> request_identity \<Rightarrow> profile_error + json" where
  "a2a_result p allowed_operations headers request identity =
     ck_bind (profile_check (header headers ''a2a-version'' = JStr a2a_protocol_version)
       (- 32009) ''A2A protocol version is unsupported'') (\<lambda>_.
     ck_bind (a2a_message request) (\<lambda>message.
     ck_bind (a2a_data message) (\<lambda>d.
     ck_bind (from_delegation (delegated_action p allowed_operations d identity)) (\<lambda>a.
     Inr (a2a_reply p message a)))))"

definition a2a_handle :: "prims \<Rightarrow> (string \<times> string) list \<Rightarrow> (string, string) dict \<Rightarrow> (string, json) dict
    \<Rightarrow> request_identity \<Rightarrow> (string, json) dict checked" where
  "a2a_handle p allowed_operations headers request identity =
     answer_or_raise (member request ''id'') (a2a_result p allowed_operations headers request identity)"

section \<open>What a server answers\<close>

lemma profile_check_Inr [simp]: "profile_check b code m = Inr u \<longleftrightarrow> b"
  and profile_check_Inl [simp]: "profile_check b code m = Inl e \<longleftrightarrow> \<not> b \<and> e = Profile_Rejected code m"
  by (auto simp: profile_check_def)

lemma profile_py_Inr [simp]: "profile_py r = Inr x \<longleftrightarrow> r = Inr x" "profile_py (Inr x) = Inr x"
  by (cases r) (simp_all add: profile_py_def)

lemma from_protocol_Inr [simp]: "from_protocol r = Inr x \<longleftrightarrow> r = Inr x"
  and from_protocol_py: "from_protocol r = Inl (Profile_Py e) \<longleftrightarrow> r = Inl (Protocol_Py e)"
  by (auto simp: from_protocol_def split: sum.splits protocol_error.splits)

lemma from_delegation_Inr [simp]: "from_delegation r = Inr x \<longleftrightarrow> r = Inr x"
  by (auto simp: from_delegation_def split: sum.splits delegation_error.splits)

lemma answer_result:
  "answer_or_raise i r = Inr answer \<Longrightarrow> dict_get answer ''result'' = Some x \<longleftrightarrow> r = Inr x"
  by (auto simp: answer_or_raise_def error_answer_def result_answer_def split: sum.splits profile_error.splits)

lemma answer_id: "answer_or_raise i r = Inr answer \<Longrightarrow> member answer ''id'' = i"
  by (auto simp: answer_or_raise_def error_answer_def result_answer_def member_def split: sum.splits profile_error.splits)

lemma answered_iff: "(\<exists>answer. answer_or_raise i r = Inr answer) \<longleftrightarrow> (\<forall>e. r \<noteq> Inl (Profile_Py e))"
  by (auto simp: answer_or_raise_def split: sum.splits profile_error.splits)

lemma is_mapping_Some: "is_mapping v \<longleftrightarrow> (\<exists>d. v = Some (JObj d))"
  by (auto simp: is_mapping_def split: option.splits json.splits)

lemma mapping_of_simps [simp]: "mapping_of (Some (JObj d)) = d" "mapping_of None = []"
  by (simp_all add: mapping_of_def)

text \<open>
  C16. A call over MCP creates nothing beyond a bounded plan: the result of a tool call carries a plan that
  passed its own checks and is bound to a tool its agent is listed for, and the caller's metadata quoted the
  current digest of the catalog.
\<close>

theorem mcp_call_is_bounded:
  assumes "mcp_handle p tools ttl_ms request identity = Inr answer" and "dict_get answer ''result'' = Some r"
    and "dict_get request ''method'' = Some (JStr ''tools/call'')"
  shows "member (mapping_of (dict_get request ''_meta'')) harness_catalog_digest = JStr (catalog_digest p tools)
    \<and> (\<exists>a. r = call_result p a \<and> mk_action_plan a = Inr a \<and> (\<exists>tool \<in> set (listed_tools tools identity).
         ap_source_id a = nt_source_id tool \<and> ap_asset_id a = nt_asset_id tool \<and> ap_operation a = nt_operation tool
       \<and> ap_risk a = nt_risk tool \<and> ap_approval_mode a = nt_approval_mode tool \<and> ap_purpose a = nt_purpose tool))"
proof -
  from answer_result [OF assms(1) [unfolded mcp_handle_def], of r] assms(2,3)
  have "call_tool p tools request identity = Inr r" by (auto simp: mcp_result_def ck_bind_Inr)
  then obtain a where plan: "request_plan p tools (internal_call request) identity = Inr a" and r: "r = call_result p a"
    by (auto simp: call_tool_def ck_bind_Inr)
  from request_plan_Inr [OF plan] obtain tool arguments where
      digest: "member (mapping_of (dict_get request ''_meta'')) harness_catalog_digest = JStr (catalog_digest p tools)"
    and tool: "tool \<in> set (listed_tools tools identity)" and args: "plan_from_arguments p tool arguments = Inr a"
    by (auto simp: internal_call_def)
  with r plan_from_arguments_Inr [OF args] show ?thesis by blast
qed

definition shown_tool :: "northbound_tool \<Rightarrow> json" where
  \<comment> \<open>what an MCP client sees of a tool\<close>
  "shown_tool t = JObj [(''name'', JStr (nt_name t)), (''title'', JStr (nt_operation t)),
     (''description'', JStr (nt_description t)), (''inputSchema'', input_schema),
     (''annotations'', JObj [(''readOnlyHint'', JBool False), (''destructiveHint'', JBool (nt_risk t \<noteq> Risk_Low)),
        (''idempotentHint'', JBool True), (''openWorldHint'', JBool False)])]"

lemma mcp_tool_exposed: "mcp_tool (exposed_contract t) = Inr (shown_tool t)"
proof -
  have "JStr (risk_value (nt_risk t)) \<in> {JStr ''medium'', JStr ''high''} \<longleftrightarrow> nt_risk t \<noteq> Risk_Low"
    by (cases "nt_risk t") simp_all
  then show ?thesis
    by (simp add: mcp_tool_def exposed_contract_def tool_fields_def json_index_def shown_tool_def)
qed

lemma list_tools_listed:
  assumes "plain_id (Some request_id)"
  shows "list_tools p tools ttl_ms request_id identity
    = Inr (mcp_list_result p tools ttl_ms (map shown_tool (listed_tools tools identity)))"
proof -
  have "validate_envelope (internal_list request_id) = Inr ()"
    using assms by (auto simp: validate_envelope_def internal_list_def plain_id_def split: json.splits)
  then have "handle p tools (internal_list request_id) identity = Inr
      [(''jsonrpc'', JStr ''2.0''), (''id'', request_id), (''result'',
        JObj [(''protocolVersion'', JStr protocol_version), (''catalogDigest'', JStr (catalog_digest p tools)),
            (''tools'', JArr (map exposed_contract (listed_tools tools identity)))])]"
    by (simp add: handle_def request_result_def request_method_def internal_list_def member_def)
  moreover have "check_all mcp_tool (map exposed_contract ts) = Inr (map shown_tool ts)" for ts
    by (induction ts) (simp_all add: mcp_tool_exposed)
  ultimately show ?thesis by (simp add: list_tools_def json_index_def json_elements_def)
qed

text \<open>
  A list over MCP shows an agent exactly the tools it is allowed, in the order of their names, each marked
  destructive unless its risk is low, under the digest of the catalog.
\<close>

lemma mcp_lists_scope:
  assumes "validate_mcp request = Inr ()" and "dict_get request ''method'' = Some (JStr ''tools/list'')"
  shows "mcp_handle p tools ttl_ms request identity = Inr (result_answer (member request ''id'')
    (mcp_list_result p tools ttl_ms (map shown_tool
      (filter (\<lambda>t. id_agent_id identity \<in> set (nt_allowed_agents t)) (sort_key nt_name tools)))))"
proof -
  from assms(1) have "plain_id (dict_get request ''id'')" by (auto simp: validate_mcp_def Let_def ck_bind_Inr)
  then have "plain_id (Some (member request ''id''))" by (auto simp: plain_id_def member_def split: option.splits)
  from list_tools_listed [OF this] assms show ?thesis
    by (simp add: mcp_handle_def mcp_result_def answer_or_raise_def listed_tools_def sorted_tools_def)
qed

section \<open>What escapes and what is refused\<close>

lemma validate_mcp_rejects: "validate_mcp request \<noteq> Inl (Profile_Py e)"
  by (auto simp: validate_mcp_def Let_def ck_bind_Inl)

lemma carried_internal: "carried_compensation (internal_call request) = carried_compensation request"
  by (auto simp: carried_compensation_def internal_call_def member_def mapping_of_def split: option.splits json.splits)

lemma call_tool_escapes:
  assumes "call_tool p tools request identity = Inl (Profile_Py e)"
  shows "request_compensation p (carried_compensation request) = Inl (Protocol_Py e)"
proof -
  from assms have "request_plan p tools (internal_call request) identity = Inl (Protocol_Py e)"
    by (auto simp: call_tool_def ck_bind_Inl from_protocol_py)
  moreover have "dict_get (internal_call request) ''method'' \<noteq> None" by (simp add: internal_call_def)
  ultimately show ?thesis
    using request_plan_escapes [of p tools "internal_call request" identity e] by (auto simp: carried_internal)
qed

lemma check_headers_rejects: "check_headers headers request \<noteq> Inl (Profile_Py e)"
  by (auto simp: check_headers_def ck_bind_Inl)

text \<open>
  C31. Every HTTP request that names a method and carries no nameless compensation is answered under its own id:
  with status 200 exactly if its headers repeat the media type, method and tool name of its body, and then with
  the answer of the server, with status 400 otherwise.
\<close>

theorem http_request_is_answered:
  assumes "dict_get request ''method'' \<noteq> None"
    and "\<And>d. carried_compensation request = JObj d \<Longrightarrow> py_str (pr_repr p) (member d ''operation'') \<noteq> []"
  shows "\<exists>r. dispatch_http p tools ttl_ms headers request identity = Inr r \<and> member (hr_body r) ''id'' = member request ''id''
    \<and> (if media_type headers = ''application/json'' \<and> header headers ''mcp-method'' = member request ''method''
          \<and> (member request ''method'' = JStr ''tools/call'' \<longrightarrow> header headers ''mcp-name'' = called_name request)
       then hr_status r = 200 \<and> mcp_handle p tools ttl_ms request identity = Inr (hr_body r)
       else hr_status r = 400 \<and> dict_get (hr_body r) ''result'' = None)"
proof -
  have "call_tool p tools request identity \<noteq> Inl (Profile_Py e)" for e
    using call_tool_escapes [of p tools request identity e] request_compensation_escapes [of p _ e] assms(2) by blast
  moreover have "\<exists>x. list_tools p tools ttl_ms (member request ''id'') identity = Inr x" if "validate_mcp request = Inr ()"
  proof -
    from that have "plain_id (dict_get request ''id'')" by (auto simp: validate_mcp_def Let_def ck_bind_Inr)
    then have "plain_id (Some (member request ''id''))" by (auto simp: plain_id_def member_def split: option.splits)
    from list_tools_listed [OF this] show ?thesis by blast
  qed
  ultimately have "mcp_result p tools ttl_ms request identity \<noteq> Inl (Profile_Py e)" for e
    using assms(1) validate_mcp_rejects by (fastforce simp: mcp_result_def ck_bind_Inl split: option.splits if_splits)
  then obtain body where body: "mcp_handle p tools ttl_ms request identity = Inr body"
    using answered_iff unfolding mcp_handle_def by blast
  with answer_id have "member body ''id'' = member request ''id''" unfolding mcp_handle_def by blast
  with body check_headers_rejects [of headers request] show ?thesis
    by (auto simp: dispatch_http_def check_headers_def profile_check_def http_answer_def error_answer_def member_def)
qed

text \<open>
  A message over A2A delegates within bounds: a result answers only a message in the supported version
  whose data the delegation adapter turned into a plan for this agent, of an exposed operation, with finite
  values, checked with its compensation.
\<close>

lemma a2a_message_is_bounded:
  assumes "a2a_handle p allowed_operations headers request identity = Inr answer" and "dict_get answer ''result'' = Some r"
  shows "\<exists>message d a. a2a_message request = Inr message \<and> a2a_data message = Inr d \<and> r = a2a_reply p message a
    \<and> header headers ''a2a-version'' = JStr ''1.0'' \<and> member d ''requestingAgent'' = JStr (id_agent_id identity)
    \<and> (ap_source_id a, ap_operation a) \<in> set allowed_operations \<and> mk_action_plan a = Inr a \<and> plan_finite a"
proof -
  from answer_result [OF assms(1) [unfolded a2a_handle_def], of r] assms(2) obtain message d a where
      "header headers ''a2a-version'' = JStr ''1.0''" "a2a_message request = Inr message" "a2a_data message = Inr d"
    and plan: "delegated_action p allowed_operations d identity = Inr a" and "r = a2a_reply p message a"
    by (auto simp: a2a_result_def ck_bind_Inr a2a_protocol_version_def)
  with delegated_action_facts [OF plan] show ?thesis by blast
qed

section \<open>Requests\<close>

definition sample_meta :: "(string, json) dict" where
  "sample_meta = [(mcp_meta_version, JStr mcp_protocol_version), (mcp_meta_client_info, JObj []),
     (mcp_meta_capabilities, JObj []), (harness_catalog_digest, JStr ''sha256:d'')]"

definition sample_mcp :: "string \<Rightarrow> (string, json) dict" where
  "sample_mcp method = [(''jsonrpc'', JStr ''2.0''), (''id'', JInt 7), (''method'', JStr method),
     (''params'', member (sample_call JNull) ''params''), (''_meta'', JObj sample_meta)]"

definition sample_headers :: "(string, string) dict" where
  "sample_headers = [(''Content-Type'', ''application/json; charset=utf-8''), (''MCP-Method'', ''tools/call''),
     (''Mcp-Name'', ''orders.update''), (''A2A-Version'', ''1.0'')]"

definition sample_message :: "(string, json) dict" where
  "sample_message = [(''jsonrpc'', JStr ''2.0''), (''id'', JStr ''m''), (''method'', JStr ''SendMessage''),
     (''params'', JObj [(''message'', JObj [(''messageId'', JStr ''m1''), (''role'', JStr ''ROLE_USER''),
        (''parts'', JArr [JObj [(''data'', JObj (sample_envelope JNull)), (''mediaType'', JStr ''application/json'')]])])])]"

definition answered_result :: "(string, json) dict checked \<Rightarrow> json option" where
  "answered_result r = (case r of Inr answer \<Rightarrow> dict_get answer ''result'' | Inl e \<Rightarrow> None)"

lemma answered_resultD: "answered_result r \<noteq> None \<Longrightarrow> \<exists>answer x. r = Inr answer \<and> dict_get answer ''result'' = Some x"
  by (cases r) (auto simp: answered_result_def)

lemma sample_answers:
  "answered_result (mcp_handle sample_prims [sample_tool] 1000 (sample_mcp ''tools/call'') sample_identity) \<noteq> None"
  "answered_result (a2a_handle sample_prims [(''lab.mutable'', ''update'')] sample_headers sample_message sample_identity) \<noteq> None"
  by code_simp+

theorem mcp_call_is_bounded_witness:
  "\<exists>a. answered_result (mcp_handle sample_prims [sample_tool] 1000 (sample_mcp ''tools/call'') sample_identity)
      = Some (call_result sample_prims a) \<and> ap_approval_mode a = Approval_Human"
proof -
  from answered_resultD [OF sample_answers(1)] obtain answer r where
      "mcp_handle sample_prims [sample_tool] 1000 (sample_mcp ''tools/call'') sample_identity = Inr answer"
      "dict_get answer ''result'' = Some r" by blast
  moreover have "dict_get (sample_mcp ''tools/call'') ''method'' = Some (JStr ''tools/call'')" by (simp add: sample_mcp_def)
  ultimately show ?thesis
    using mcp_call_is_bounded [of sample_prims "[sample_tool]" 1000 "sample_mcp ''tools/call''" sample_identity answer r]
    by (auto simp: answered_result_def listed_tools_def sorted_tools_def sample_tool_def split: if_splits)
qed

lemma sample_mcp_valid: "validate_mcp (sample_mcp ''tools/list'') = Inr ()"
  by code_simp

lemma mcp_lists_scope_example:
  "mcp_handle sample_prims [sample_tool, sample_tool\<lparr>nt_name := ''a'', nt_allowed_agents := [''other'']\<rparr>] 1000
     (sample_mcp ''tools/list'') sample_identity
   = Inr (result_answer (JInt 7) (mcp_list_result sample_prims [sample_tool,
        sample_tool\<lparr>nt_name := ''a'', nt_allowed_agents := [''other'']\<rparr>] 1000 [shown_tool sample_tool]))"
proof -
  have "dict_get (sample_mcp ''tools/list'') ''method'' = Some (JStr ''tools/list'')" "member (sample_mcp ''tools/list'') ''id'' = JInt 7"
    by (simp_all add: sample_mcp_def member_def)
  moreover have "filter (\<lambda>t. id_agent_id sample_identity \<in> set (nt_allowed_agents t))
      (sort_key nt_name [sample_tool, sample_tool\<lparr>nt_name := ''a'', nt_allowed_agents := [''other'']\<rparr>]) = [sample_tool]"
    by (simp add: sample_tool_def sample_identity_def)
  ultimately show ?thesis
    using mcp_lists_scope [OF sample_mcp_valid, of sample_prims
        "[sample_tool, sample_tool\<lparr>nt_name := ''a'', nt_allowed_agents := [''other'']\<rparr>]" 1000 sample_identity] by simp
qed

theorem http_request_is_answered_witness:
  "\<exists>r. dispatch_http sample_prims [sample_tool] 1000 sample_headers (sample_mcp ''tools/call'') sample_identity = Inr r
     \<and> hr_status r = 200"
proof -
  have "dict_get (sample_mcp ''tools/call'') ''method'' \<noteq> None" by (simp add: sample_mcp_def)
  moreover have "carried_compensation (sample_mcp ''tools/call'') = JNull" by code_simp
  moreover have "media_type sample_headers = ''application/json''
      \<and> header sample_headers ''mcp-method'' = member (sample_mcp ''tools/call'') ''method''
      \<and> header sample_headers ''mcp-name'' = called_name (sample_mcp ''tools/call'')"
    by code_simp
  ultimately show ?thesis
    using http_request_is_answered [of "sample_mcp ''tools/call''" sample_prims "[sample_tool]" 1000 sample_headers sample_identity]
    by auto
qed

lemma a2a_message_is_bounded_example:
  "\<exists>message a. answered_result (a2a_handle sample_prims [(''lab.mutable'', ''update'')] sample_headers sample_message sample_identity)
     = Some (a2a_reply sample_prims message a) \<and> ap_source_id a = ''lab.mutable''"
proof -
  from answered_resultD [OF sample_answers(2)] obtain answer r where h:
      "a2a_handle sample_prims [(''lab.mutable'', ''update'')] sample_headers sample_message sample_identity = Inr answer"
      "dict_get answer ''result'' = Some r" by blast
  from a2a_message_is_bounded [OF h] h show ?thesis by (auto simp: answered_result_def)
qed

text \<open>A request without a method escapes from the HTTP dispatch too, when its headers name none either.\<close>

lemma methodless_http_escapes:
  "dispatch_http sample_prims [sample_tool] 1000 [(''content-type'', ''application/json'')]
     [(''jsonrpc'', JStr ''2.0''), (''id'', JInt 7), (''_meta'', JObj sample_meta)] sample_identity = Inl (KeyError ''method'')"
  by code_simp

end
