(* ===== verification/Json_Parser.thy ===== *)
theory Json_Parser
  imports Json_Access "HOL-Library.Monad_Syntax"
begin

text \<open>
  \<open>json.loads\<close> and \<open>json.dumps(value, indent=2)\<close> as packaging.py uses them. The reader is a recursive
  descent over the text whose fuel is twice the length of the text, proved enough; \<open>None\<close> is a
  \<open>JSONDecodeError\<close>. The parameter \<open>fl\<close> gives the token \<open>json.dumps\<close> writes for the float a literal
  denotes. An escape of a code point above 255 is outside of the model's strings and is refused.
\<close>

section \<open>White space and single characters\<close>

definition json_space :: "char \<Rightarrow> bool" where
  "json_space c \<longleftrightarrow> c \<in> {CHR 0x20, CHR 0x09, CHR 0x0A, CHR 0x0D}"

definition skip_ws :: "string \<Rightarrow> string" where
  "skip_ws s = dropWhile json_space s"

definition expect :: "char \<Rightarrow> string \<Rightarrow> string option" where
  "expect c s = (case s of [] \<Rightarrow> None | x # r \<Rightarrow> if x = c then Some r else None)"

definition starts_with :: "char \<Rightarrow> string \<Rightarrow> bool" where
  "starts_with c s \<longleftrightarrow> expect c s \<noteq> None"

section \<open>String literals\<close>

definition hex_value :: "char \<Rightarrow> nat option" where
  "hex_value = map_of (zip ''0123456789abcdefABCDEF'' ([0..<16] @ [10..<16]))"

definition code_unit :: "char \<Rightarrow> char \<Rightarrow> char \<Rightarrow> char \<Rightarrow> char option" where
  "code_unit a b c d = do {
     w \<leftarrow> hex_value a; x \<leftarrow> hex_value b; y \<leftarrow> hex_value c; z \<leftarrow> hex_value d;
     let n = ((w * 16 + x) * 16 + y) * 16 + z;
     if n < 256 then Some (char_of n) else None }"

definition unescape :: "char \<Rightarrow> char option" where
  "unescape = map_of
     [(CHR 0x22, CHR 0x22), (CHR 0x5C, CHR 0x5C), (CHR ''/'', CHR ''/''), (CHR ''b'', CHR 0x08),
      (CHR ''f'', CHR 0x0C), (CHR ''n'', CHR 0x0A), (CHR ''r'', CHR 0x0D), (CHR ''t'', CHR 0x09)]"

definition scan_escape :: "string \<Rightarrow> (char \<times> string) option" where
  \<comment> \<open>what follows a backslash\<close>
  "scan_escape s =
     (case s of
        [] \<Rightarrow> None
      | e # r \<Rightarrow>
          if e = CHR ''u''
          then (case r of a # b # c # d # t \<Rightarrow> map_option (\<lambda>x. (x, t)) (code_unit a b c d) | _ \<Rightarrow> None)
          else map_option (\<lambda>x. (x, r)) (unescape e))"

definition scan_char :: "char \<Rightarrow> string \<Rightarrow> (char \<times> string) option" where
  "scan_char c s =
     (if c = CHR 0x5C then scan_escape s else if (of_char c :: nat) < 32 then None else Some (c, s))"

lemma scan_char_length: "scan_char c s = Some (x, r) \<Longrightarrow> length r \<le> length s"
  by (auto simp: scan_char_def scan_escape_def split: if_splits list.splits)

function scan_string :: "string \<Rightarrow> (string \<times> string) option" where
  \<comment> \<open>the literal whose opening quote has been read\<close>
  "scan_string [] = None"
| "scan_string (c # s) =
     (if c = CHR 0x22 then Some ([], s)
      else do { (x, r) \<leftarrow> scan_char c s; (y, t) \<leftarrow> scan_string r; Some (x # y, t) })"
  by pat_completeness auto

termination
  by (relation "measure length") (auto dest: scan_char_length)

section \<open>Numbers and keywords\<close>

definition is_digit :: "char \<Rightarrow> bool" where
  "is_digit c \<longleftrightarrow> c \<in> set ''0123456789''"

definition digit_value :: "char \<Rightarrow> nat" where
  "digit_value c = of_char c - 48"

definition read_nat :: "string \<Rightarrow> nat" where
  "read_nat s = foldl (\<lambda>n c. 10 * n + digit_value c) 0 s"

definition read_int :: "string \<Rightarrow> int" where
  "read_int s = (if starts_with (CHR ''-'') s then - int (read_nat (tl s)) else int (read_nat s))"

definition scan_nat :: "string \<Rightarrow> (string \<times> string) option" where
  "scan_nat s =
     (case s of
        [] \<Rightarrow> None
      | c # r \<Rightarrow>
          if c = CHR ''0'' then Some ([c], r)
          else if is_digit c then Some (c # takeWhile is_digit r, dropWhile is_digit r) else None)"

definition scan_int :: "string \<Rightarrow> (string \<times> string) option" where
  "scan_int s =
     (if starts_with (CHR ''-'') s then map_option (\<lambda>(t, r). (CHR ''-'' # t, r)) (scan_nat (tl s)) else scan_nat s)"

definition digits_follow :: "string \<Rightarrow> bool" where
  "digits_follow s \<longleftrightarrow> s \<noteq> [] \<and> is_digit (hd s)"

definition scan_frac :: "string \<Rightarrow> string \<times> string" where
  "scan_frac s =
     (if starts_with (CHR ''.'') s \<and> digits_follow (tl s)
      then (CHR ''.'' # takeWhile is_digit (tl s), dropWhile is_digit (tl s)) else ([], s))"

definition scan_sign :: "string \<Rightarrow> string \<times> string" where
  "scan_sign s = (if s \<noteq> [] \<and> hd s \<in> {CHR ''+'', CHR ''-''} then ([hd s], tl s) else ([], s))"

definition scan_exp :: "string \<Rightarrow> string \<times> string" where
  "scan_exp s =
     (if s \<noteq> [] \<and> hd s \<in> {CHR ''e'', CHR ''E''} \<and> digits_follow (snd (scan_sign (tl s)))
      then (hd s # fst (scan_sign (tl s)) @ takeWhile is_digit (snd (scan_sign (tl s))),
            dropWhile is_digit (snd (scan_sign (tl s))))
      else ([], s))"

definition max_int_digits :: nat where
  \<comment> \<open>the interpreter's limit on the digits of an integer literal\<close>
  "max_int_digits = 4300"

definition number_value :: "(string \<Rightarrow> string) \<Rightarrow> string \<Rightarrow> string \<Rightarrow> string \<Rightarrow> json option" where
  "number_value fl i f e =
     (if f \<noteq> [] \<or> e \<noteq> [] then Some (JFloat (fl (i @ f @ e)))
      else if length (filter is_digit i) \<le> max_int_digits then Some (JInt (read_int i)) else None)"

definition scan_number :: "(string \<Rightarrow> string) \<Rightarrow> string \<Rightarrow> (json \<times> string) option" where
  "scan_number fl s = do {
     (i, r) \<leftarrow> scan_int s;
     v \<leftarrow> number_value fl i (fst (scan_frac r)) (fst (scan_exp (snd (scan_frac r))));
     Some (v, snd (scan_exp (snd (scan_frac r)))) }"

definition json_keywords :: "(string \<times> json) list" where
  "json_keywords = [(''null'', JNull), (''true'', JBool True), (''false'', JBool False), (''NaN'', JFloat ''NaN''),
     (''Infinity'', JFloat ''Infinity''), (''-Infinity'', JFloat ''-Infinity'')]"

definition scan_keyword :: "string \<Rightarrow> (json \<times> string) option" where
  "scan_keyword s = map_option (\<lambda>(w, v). (v, drop (length w) s)) (find (\<lambda>(w, v). str_startswith s w) json_keywords)"

definition scan_scalar :: "(string \<Rightarrow> string) \<Rightarrow> string \<Rightarrow> (json \<times> string) option" where
  "scan_scalar fl s = (case scan_keyword s of Some x \<Rightarrow> Some x | None \<Rightarrow> scan_number fl s)"

section \<open>Values\<close>

fun parse_value :: "(string \<Rightarrow> string) \<Rightarrow> nat \<Rightarrow> string \<Rightarrow> (json \<times> string) option"
  and parse_elements :: "(string \<Rightarrow> string) \<Rightarrow> nat \<Rightarrow> json list \<Rightarrow> string \<Rightarrow> (json \<times> string) option"
  and parse_members :: "(string \<Rightarrow> string) \<Rightarrow> nat \<Rightarrow> (string, json) dict \<Rightarrow> string \<Rightarrow> (json \<times> string) option" where
  "parse_value fl 0 s = None"
| "parse_value fl (Suc n) s =
     (case s of
        [] \<Rightarrow> None
      | c # r \<Rightarrow>
          if c = CHR 0x22 then map_option (\<lambda>(t, u). (JStr t, u)) (scan_string r)
          else if c = CHR ''['' then
            (if starts_with (CHR '']'') (skip_ws r) then Some (JArr [], tl (skip_ws r))
             else parse_elements fl n [] (skip_ws r))
          else if c = CHR ''{'' then
            (if starts_with (CHR ''}'') (skip_ws r) then Some (JObj [], tl (skip_ws r))
             else parse_members fl n [] (skip_ws r))
          else scan_scalar fl s)"
| "parse_elements fl 0 acc s = None"
| "parse_elements fl (Suc n) acc s = do {
     (v, r) \<leftarrow> parse_value fl n s;
     if starts_with (CHR '']'') (skip_ws r) then Some (JArr (acc @ [v]), tl (skip_ws r))
     else do { t \<leftarrow> expect (CHR '','') (skip_ws r); parse_elements fl n (acc @ [v]) (skip_ws t) } }"
| "parse_members fl 0 d s = None"
| "parse_members fl (Suc n) d s = do {
     q \<leftarrow> expect (CHR 0x22) s;
     (k, r) \<leftarrow> scan_string q;
     t \<leftarrow> expect (CHR '':'') (skip_ws r);
     (v, u) \<leftarrow> parse_value fl n (skip_ws t);
     if starts_with (CHR ''}'') (skip_ws u) then Some (JObj (dict_set k v d), tl (skip_ws u))
     else do { w \<leftarrow> expect (CHR '','') (skip_ws u); parse_members fl n (dict_set k v d) (skip_ws w) } }"

definition json_loads :: "(string \<Rightarrow> string) \<Rightarrow> string \<Rightarrow> json checked" where
  "json_loads fl s =
     (case parse_value fl (2 * length s) (skip_ws s) of
        Some (v, r) \<Rightarrow> if skip_ws r = [] then Inr v else Inl (ValueError ''Extra data'')
      | None \<Rightarrow> Inl (ValueError ''Expecting value''))"

definition plain_ascii :: "string \<Rightarrow> bool" where
  "plain_ascii b \<longleftrightarrow> list_all (\<lambda>c. 0 < (of_char c :: nat) \<and> (of_char c :: nat) < 128) b"

definition json_loads_bytes :: "(string \<Rightarrow> string checked) \<Rightarrow> (string \<Rightarrow> string) \<Rightarrow> string \<Rightarrow> json checked" where
  \<comment> \<open>\<open>decode\<close> stands for the decoding of bytes that are not plain ASCII\<close>
  "json_loads_bytes decode fl b = ck_bind (if plain_ascii b then Inr b else decode b) (json_loads fl)"

section \<open>The printer\<close>

fun join_with :: "string \<Rightarrow> string list \<Rightarrow> string" where
  "join_with sep [] = []"
| "join_with sep [x] = x"
| "join_with sep (x # y # xs) = x @ sep @ join_with sep (y # xs)"

primrec render :: "(nat \<Rightarrow> string) \<Rightarrow> string \<Rightarrow> json \<Rightarrow> nat \<Rightarrow> string" where
  \<comment> \<open>\<open>nl\<close> is written before the parts at a level, \<open>sp\<close> after a colon\<close>
  "render nl sp JNull l = ''null''"
| "render nl sp (JBool b) l = (if b then ''true'' else ''false'')"
| "render nl sp (JInt i) l = show_int i"
| "render nl sp (JFloat t) l = t"
| "render nl sp (JStr s) l = quote s"
| "render nl sp (JArr xs) l =
     (if xs = [] then ''[]''
      else CHR ''['' # nl (Suc l) @ join_with (CHR '','' # nl (Suc l)) (map (\<lambda>f. f (Suc l)) (map (render nl sp) xs))
        @ nl l @ [CHR '']''])"
| "render nl sp (JObj kvs) l =
     (if kvs = [] then ''{}''
      else CHR ''{'' # nl (Suc l)
        @ join_with (CHR '','' # nl (Suc l))
            (map (\<lambda>kf. quote (fst kf) @ CHR '':'' # sp @ snd kf (Suc l)) (map (map_prod id (render nl sp)) kvs))
        @ nl l @ [CHR ''}''])"

definition indent2 :: "nat \<Rightarrow> string" where
  "indent2 l = CHR 0x0A # replicate (2 * l) (CHR 0x20)"

definition dumps_indent :: "json \<Rightarrow> string" where
  \<comment> \<open>\<open>json.dumps(v, indent=2, sort_keys=True)\<close>\<close>
  "dumps_indent v = render indent2 '' '' (sort_keys v) 0"

section \<open>The fuel is enough\<close>

lemma expect_Some: "expect c s = Some r \<longleftrightarrow> s = c # r"
  by (cases s) (auto simp: expect_def)

lemma starts_with_iff: "starts_with c s \<longleftrightarrow> (\<exists>r. s = c # r)"
  by (cases s) (auto simp: starts_with_def expect_def)

lemma skip_ws_length: "length (skip_ws s) \<le> length s"
  unfolding skip_ws_def by (rule length_dropWhile_le)

lemma scan_string_length: "scan_string s = Some (x, r) \<Longrightarrow> length r < length s"
proof (induction s arbitrary: x r rule: scan_string.induct)
  case (2 c s)
  then show ?case
    by (fastforce simp: bind_eq_Some_conv split: if_splits dest: scan_char_length)
qed simp

lemma scan_nat_length: "scan_nat s = Some (x, r) \<Longrightarrow> length r < length s"
  using length_dropWhile_le [of is_digit "tl s"]
  by (auto simp: scan_nat_def le_imp_less_Suc split: list.splits if_splits)

lemma scan_int_length: "scan_int s = Some (x, r) \<Longrightarrow> length r < length s"
  by (auto simp: scan_int_def starts_with_iff split: if_splits dest: scan_nat_length)

lemma scan_frac_length: "length (snd (scan_frac s)) \<le> length s"
  by (auto simp: scan_frac_def intro: le_trans [OF length_dropWhile_le])

lemma scan_exp_length: "length (snd (scan_exp s)) \<le> length s"
  by (auto simp: scan_exp_def scan_sign_def intro: le_trans [OF length_dropWhile_le])

lemma scan_number_length:
  assumes "scan_number fl s = Some (v, r)"
  shows "length r < length s"
proof -
  from assms obtain i q where i: "scan_int s = Some (i, q)" and r: "r = snd (scan_exp (snd (scan_frac q)))"
    by (auto simp: scan_number_def bind_eq_Some_conv)
  have "length r \<le> length q"
    unfolding r by (rule le_trans [OF scan_exp_length scan_frac_length])
  with scan_int_length [OF i] show ?thesis by simp
qed

lemma scan_keyword_length: "scan_keyword s = Some (v, r) \<Longrightarrow> length r < length s"
  by (auto simp: scan_keyword_def json_keywords_def str_startswith_iff split: if_splits)

lemma scan_scalar_length: "scan_scalar fl s = Some (v, r) \<Longrightarrow> length r < length s"
  by (auto simp: scan_scalar_def split: option.splits dest: scan_number_length scan_keyword_length)

lemma parse_value_Nil [simp]: "parse_value fl n [] = None"
  by (cases n) simp_all

lemma skip_ws_Cons: "skip_ws s = c # r \<Longrightarrow> length r < length s"
  using skip_ws_length [of s] by simp

lemma parse_value_cases:
  assumes "parse_value fl (Suc n) s = Some (v, r)"
  obtains c t where "s = c # t" "length r \<le> length t"
  | c t where "s = c # t" "parse_elements fl n [] (skip_ws t) = Some (v, r)"
  | c t where "s = c # t" "parse_members fl n [] (skip_ws t) = Some (v, r)"
proof (cases s)
  case (Cons c t)
  have "length r \<le> length t \<or> parse_elements fl n [] (skip_ws t) = Some (v, r)
      \<or> parse_members fl n [] (skip_ws t) = Some (v, r)"
    using assms Cons
    by (auto simp: starts_with_iff split: if_splits dest!: scan_string_length scan_scalar_length skip_ws_Cons)
  with Cons that show ?thesis by blast
qed (use assms in simp)

lemma parse_elements_cases:
  assumes "parse_elements fl (Suc n) acc s = Some (v, r)"
  obtains x q where "parse_value fl n s = Some (x, q)" "length r < length q"
  | x q t where "parse_value fl n s = Some (x, q)" "length t < length q"
      "parse_elements fl n (acc @ [x]) (skip_ws t) = Some (v, r)"
proof -
  from assms obtain x q where xq: "parse_value fl n s = Some (x, q)"
    and "(if starts_with (CHR '']'') (skip_ws q) then Some (JArr (acc @ [x]), tl (skip_ws q))
      else do { t \<leftarrow> expect (CHR '','') (skip_ws q); parse_elements fl n (acc @ [x]) (skip_ws t) }) = Some (v, r)"
    by (auto simp: bind_eq_Some_conv)
  with that show ?thesis
    by (auto simp: starts_with_iff bind_eq_Some_conv expect_Some split: if_splits dest: skip_ws_Cons)
qed

lemma parse_members_cases:
  assumes "parse_members fl (Suc n) d s = Some (v, r)"
  obtains u x q where "length u < length s" "parse_value fl n u = Some (x, q)" "length r < length q"
  | u x q k t where "length u < length s" "parse_value fl n u = Some (x, q)" "length t < length q"
      "parse_members fl n (dict_set k x d) (skip_ws t) = Some (v, r)"
proof -
  from assms obtain k t0 t1 w x q where s: "s = CHR 0x22 # t0" "scan_string t0 = Some (k, t1)"
    "skip_ws t1 = CHR '':'' # w" and xq: "parse_value fl n (skip_ws w) = Some (x, q)"
    and rest: "(if starts_with (CHR ''}'') (skip_ws q) then Some (JObj (dict_set k x d), tl (skip_ws q))
      else do { t \<leftarrow> expect (CHR '','') (skip_ws q); parse_members fl n (dict_set k x d) (skip_ws t) }) = Some (v, r)"
    unfolding parse_members.simps Option.bind_eq_Some_conv expect_Some case_prod_unfold by (metis prod.collapse)
  from s have "length (skip_ws w) < length s"
    using skip_ws_length [of w] by (auto dest!: scan_string_length skip_ws_Cons)
  with that xq rest show ?thesis
    by (auto simp: starts_with_iff bind_eq_Some_conv expect_Some split: if_splits dest: skip_ws_Cons)
qed

lemma parse_length:
  shows parse_value_length: "parse_value fl n s = Some (v, r) \<Longrightarrow> length r < length s"
    and "parse_elements fl n acc s = Some (v, r) \<Longrightarrow> length r < length s"
    and "parse_members fl n d s = Some (v, r) \<Longrightarrow> length r < length s"
proof (induction n arbitrary: s v r acc d)
  case (Suc n)
  {
    case 1
    then show ?case
    proof (cases rule: parse_value_cases)
      case (2 c t)
      with Suc.IH(2) [OF 2(2)] skip_ws_length [of t] show ?thesis by simp
    next
      case (3 c t)
      with Suc.IH(3) [OF 3(2)] skip_ws_length [of t] show ?thesis by simp
    qed simp
  next
    case 2
    then show ?case
    proof (cases rule: parse_elements_cases)
      case (1 x q)
      with Suc.IH(1) [OF 1(1)] show ?thesis by simp
    next
      case (2 x q t)
      with Suc.IH(1) [OF 2(1)] Suc.IH(2) [OF 2(3)] skip_ws_length [of t] show ?thesis by simp
    qed
  next
    case 3
    then show ?case
    proof (cases rule: parse_members_cases)
      case (1 u x q)
      with Suc.IH(1) [OF 1(2)] show ?thesis by simp
    next
      case (2 u x q k t)
      with Suc.IH(1) [OF 2(2)] Suc.IH(3) [OF 2(4)] skip_ws_length [of t] show ?thesis by simp
    qed
  }
qed simp_all

text \<open>Twice the length of the text is enough: more fuel gives the same result.\<close>

lemma fuel_split: "Suc k \<le> m \<Longrightarrow> \<exists>m'. m = Suc m' \<and> k \<le> m'"
  by (cases m) simp_all

lemma parse_fuel:
  shows parse_value_fuel: "2 * length s \<le> n \<Longrightarrow> 2 * length s \<le> m \<Longrightarrow> parse_value fl n s = parse_value fl m s"
    and "2 * length s < n \<Longrightarrow> 2 * length s < m \<Longrightarrow> parse_elements fl n acc s = parse_elements fl m acc s"
    and "2 * length s < n \<Longrightarrow> 2 * length s < m \<Longrightarrow> parse_members fl n d s = parse_members fl m d s"
proof (induction n arbitrary: s m acc d)
  case (Suc n)
  {
    case 1
    show ?case
    proof (cases s)
      case (Cons c t)
      with 1 obtain m' where m: "m = Suc m'" by (cases m) simp_all
      have "2 * length (skip_ws t) < n" "2 * length (skip_ws t) < m'"
        using 1 Cons m skip_ws_length [of t] by simp_all
      from Suc.IH(2) [OF this] Suc.IH(3) [OF this] show ?thesis by (simp add: Cons m)
    qed simp
  next
    case 2
    then obtain m' where m: "m = Suc m'" by (cases m) simp_all
    have val: "parse_value fl n s = parse_value fl m' s" using 2 m by (intro Suc.IH(1)) simp_all
    show ?case
    proof (cases "parse_value fl m' s")
      case (Some xq)
      obtain x q where xq: "xq = (x, q)" by force
      have "parse_elements fl n (acc @ [x]) (skip_ws t) = parse_elements fl m' (acc @ [x]) (skip_ws t)"
        if "expect (CHR '','') (skip_ws q) = Some t" for t
      proof (rule Suc.IH(2))
        have "length (skip_ws t) < length s"
          using that Some xq skip_ws_length [of t] by (auto simp: expect_Some dest!: parse_value_length skip_ws_Cons)
        with 2 m show "2 * length (skip_ws t) < n" "2 * length (skip_ws t) < m'" by simp_all
      qed
      then show ?thesis by (simp add: m val Some xq cong: Option.bind_cong)
    qed (simp add: m val)
  next
    case 3
    then obtain m' where m: "m = Suc m'" by (cases m) simp_all
    show ?case unfolding m parse_members.simps
    proof (rule Option.bind_cong [OF refl], clarsimp simp: expect_Some, rule Option.bind_cong [OF refl], clarsimp, rule Option.bind_cong [OF refl])
      fix q k r t
      assume s: "s = CHR 0x22 # q" "scan_string q = Some (k, r)" "expect (CHR '':'') (skip_ws r) = Some t"
      then have len: "length (skip_ws t) < length s"
        using skip_ws_length [of t] by (auto simp: expect_Some dest!: scan_string_length skip_ws_Cons)
      with 3 m have val: "parse_value fl n (skip_ws t) = parse_value fl m' (skip_ws t)"
        by (intro Suc.IH(1)) simp_all
      have "parse_members fl n e (skip_ws w) = parse_members fl m' e (skip_ws w)"
        if "parse_value fl m' (skip_ws t) = Some (v, u)" "expect (CHR '','') (skip_ws u) = Some w" for v u w e
      proof (rule Suc.IH(3))
        have "length (skip_ws w) < length s"
          using that len skip_ws_length [of w] by (auto simp: expect_Some dest!: parse_value_length skip_ws_Cons)
        with 3 m show "2 * length (skip_ws w) < n" "2 * length (skip_ws w) < m'" by simp_all
      qed
      then show "parse_value fl n (skip_ws t) \<bind> (\<lambda>(v, u). if starts_with (CHR ''}'') (skip_ws u)
          then Some (JObj (dict_set k v d), tl (skip_ws u))
          else do { w \<leftarrow> expect (CHR '','') (skip_ws u); parse_members fl n (dict_set k v d) (skip_ws w) })
        = parse_value fl m' (skip_ws t) \<bind> (\<lambda>(v, u). if starts_with (CHR ''}'') (skip_ws u)
          then Some (JObj (dict_set k v d), tl (skip_ws u))
          else do { w \<leftarrow> expect (CHR '','') (skip_ws u); parse_members fl m' (dict_set k v d) (skip_ws w) })"
        unfolding val by (auto intro!: Option.bind_cong)
    qed
  }
qed simp_all

section \<open>Reading back what was printed\<close>

definition follows :: "string \<Rightarrow> bool" where
  \<comment> \<open>what may follow a value in a text\<close>
  "follows r \<longleftrightarrow> r = [] \<or> hd r \<in> delims \<or> json_space (hd r)"

primrec plain :: "json \<Rightarrow> bool" where
  \<comment> \<open>values without floats and without repeated keys\<close>
  "plain JNull = True"
| "plain (JBool b) = True"
| "plain (JInt i) = (length (show_int i) \<le> max_int_digits)"
| "plain (JFloat t) = False"
| "plain (JStr s) = True"
| "plain (JArr xs) = list_all plain xs"
| "plain (JObj kvs) = (distinct (map fst kvs) \<and> list_all snd (map (map_prod id plain) kvs))"

lemma skip_ws_append: "list_all json_space w \<Longrightarrow> skip_ws (w @ s) = skip_ws s"
  unfolding skip_ws_def list_all_iff by (rule dropWhile_append2) blast

lemma skip_ws_id: "s \<noteq> [] \<Longrightarrow> \<not> json_space (hd s) \<Longrightarrow> skip_ws s = s"
  by (cases s) (simp_all add: skip_ws_def)

lemma skip_ws_stop [simp]: "\<not> json_space c \<Longrightarrow> skip_ws (c # s) = c # s"
  by (simp add: skip_ws_def)

lemma not_space [simp]:
  "\<not> json_space (CHR '','')" "\<not> json_space (CHR '':'')" "\<not> json_space (CHR '']'')" "\<not> json_space (CHR ''}'')"
  "\<not> json_space (CHR 0x22)"
  by (simp_all add: json_space_def)

lemma starts_with_Cons [simp]: "starts_with c (x # s) \<longleftrightarrow> x = c"
  by (auto simp: starts_with_iff)

lemma expect_Cons [simp]: "expect c (c # s) = Some s"
  by (simp add: expect_def)

subsection \<open>Strings\<close>

lemma hex_value_char: "n < 16 \<Longrightarrow> hex_value (hex_char n) = Some n"
proof -
  have "\<forall>n \<in> set [0..<16]. hex_value (hex_char n) = Some n" by code_simp
  then show "n < 16 \<Longrightarrow> hex_value (hex_char n) = Some n" by simp
qed

lemma hex_value_zero: "hex_value (CHR ''0'') = Some 0"
  by code_simp

lemma code_unit_char: "code_unit (CHR ''0'') (CHR ''0'') (hex_char (of_char c div 16)) (hex_char (of_char c mod 16)) = Some c"
proof -
  have "(of_char c :: nat) div 16 < 16"
    by (rule less_mult_imp_div_less) (use nat_of_char_less_256 [of c] in simp)
  then show ?thesis
    using nat_of_char_less_256 [of c] by (simp add: code_unit_def hex_value_zero hex_value_char)
qed

lemma unescape_short: "short_escape c = Some e \<Longrightarrow> unescape e = Some c \<and> e \<noteq> CHR ''u''"
  by (auto simp: short_escape_def unescape_def split: if_splits)

lemma scan_esc_char:
  obtains e t where "esc_char c = e # t" "e \<noteq> CHR 0x22" "scan_char e (t @ r) = Some (c, r)"
proof (cases "short_escape c")
  case (Some e)
  with unescape_short [OF Some] that [of "CHR 0x5C" "[e]"] show ?thesis
    by (simp add: esc_char_def scan_char_def scan_escape_def)
next
  case None
  note plain = short_escape_facts(3,4) [OF None]
  show ?thesis
  proof (cases "32 \<le> (of_char c :: nat) \<and> (of_char c :: nat) \<le> 126")
    case True
    with None plain that [of c "[]"] show ?thesis by (simp add: esc_char_def scan_char_def)
  next
    case False
    with None plain that [of "CHR 0x5C"] show ?thesis
      by (simp add: esc_char_def scan_char_def scan_escape_def code_unit_char)
  qed
qed

lemma scan_quote: "scan_string (concat (map esc_char s) @ CHR 0x22 # r) = Some (s, r)"
proof (induction s)
  case (Cons c s)
  let ?r = "concat (map esc_char s) @ CHR 0x22 # r"
  obtain e t where "esc_char c = e # t" "e \<noteq> CHR 0x22" "scan_char e (t @ ?r) = Some (c, ?r)"
    by (rule scan_esc_char)
  with Cons.IH show ?case by simp
qed simp

subsection \<open>Numbers and keywords\<close>

lemma digit_char_facts: "n < 10 \<Longrightarrow> is_digit (digit_char n) \<and> digit_value (digit_char n) = n \<and> (digit_char n = CHR ''0'' \<longleftrightarrow> n = 0)"
proof -
  have "\<forall>n \<in> set [0..<10]. is_digit (digit_char n) \<and> digit_value (digit_char n) = n \<and> (digit_char n = CHR ''0'' \<longleftrightarrow> n = 0)"
    by code_simp
  then show "n < 10 \<Longrightarrow> is_digit (digit_char n) \<and> digit_value (digit_char n) = n \<and> (digit_char n = CHR ''0'' \<longleftrightarrow> n = 0)"
    by simp
qed

lemma show_nat_digits: "list_all is_digit (show_nat n)"
  unfolding list_all_iff is_digit_def using show_nat_chars [of n] by blast

lemma read_show_nat: "read_nat (show_nat n) = n"
proof (induction n rule: show_nat.induct)
  case (1 n)
  then show ?case
    by (subst show_nat.simps) (auto simp: read_nat_def digit_char_facts)
qed

lemma show_nat_hd: "hd (show_nat n) = CHR ''0'' \<longleftrightarrow> n = 0"
proof (induction n rule: show_nat.induct)
  case (1 n)
  then show ?case by (subst show_nat.simps) (auto simp: digit_char_facts)
qed

lemma follows_simps:
  assumes "follows r"
  shows "\<not> digits_follow r" "takeWhile is_digit r = []" "dropWhile is_digit r = r" "scan_frac r = ([], r)" "scan_exp r = ([], r)"
  using assms
  by (cases r; auto simp: follows_def digits_follow_def scan_frac_def scan_exp_def delims_def json_space_def is_digit_def)+

lemma scan_show_nat:
  assumes "follows r"
  shows "scan_nat (show_nat n @ r) = Some (show_nat n, r)"
proof (cases "n = 0")
  case True
  then show ?thesis by (simp add: show_nat.simps scan_nat_def digit_char_def)
next
  case False
  obtain c t where ct: "show_nat n = c # t" by (cases "show_nat n") simp_all
  with show_nat_digits [of n] False show_nat_hd [of n] have "is_digit c" "\<forall>d \<in> set t. is_digit d" "c \<noteq> CHR ''0''"
    by (simp_all add: list_all_iff)
  with follows_simps(2,3) [OF assms] show ?thesis
    by (simp add: scan_nat_def ct takeWhile_append2 dropWhile_append2 del: takeWhile_append dropWhile_append)
qed

lemma show_nat_not_minus: "\<not> starts_with (CHR ''-'') (show_nat n @ r)"
  using show_nat_digits [of n] by (cases "show_nat n") (auto simp: is_digit_def [of "CHR ''-''"])

lemma scan_show_int:
  assumes "follows r"
  shows "scan_int (show_int i @ r) = Some (show_int i, r)"
  using scan_show_nat [OF assms, of "nat i"] scan_show_nat [OF assms, of "nat (- i)"] show_nat_not_minus [of "nat i" r]
  by (simp add: scan_int_def show_int_def)

lemma read_show_int: "read_int (show_int i) = i"
  using show_nat_not_minus [of "nat i" "[]"] by (simp add: read_int_def show_int_def read_show_nat)

lemma scan_number_int:
  assumes "follows r" "length (show_int i) \<le> max_int_digits"
  shows "scan_number fl (show_int i @ r) = Some (JInt i, r)"
proof -
  have "length (filter is_digit (show_int i)) \<le> max_int_digits" using assms(2) le_trans length_filter_le by blast
  with assms(1) show ?thesis
    by (simp add: scan_number_def scan_show_int follows_simps number_value_def read_show_int)
qed

lemma no_keyword_digit:
  assumes "is_digit c"
  shows "scan_keyword (c # s) = None" "scan_keyword (CHR ''-'' # c # s) = None"
proof -
  have c: "c \<notin> {CHR ''n'', CHR ''t'', CHR ''f'', CHR ''N'', CHR ''I'', CHR ''-''}"
    using assms by (auto simp: is_digit_def)
  then show "scan_keyword (c # s) = None" "scan_keyword (CHR ''-'' # c # s) = None"
    by (auto simp: scan_keyword_def json_keywords_def str_startswith_def)
qed

lemma no_keyword_int: "scan_keyword (show_int i @ r) = None"
proof -
  have "scan_keyword (show_nat n @ r) = None \<and> scan_keyword (CHR ''-'' # show_nat n @ r) = None" for n
    using show_nat_digits [of n] no_keyword_digit by (cases "show_nat n") simp_all
  then show ?thesis by (simp add: show_int_def)
qed

lemma int_is_scalar:
  "parse_value fl (Suc n) (show_int i @ r) = scan_scalar fl (show_int i @ r)"
proof -
  obtain c t where ct: "show_int i = c # t" by (cases "show_int i") simp_all
  then have "c \<in> set (show_int i)" by simp
  then have "c \<in> set ''0123456789-''" using show_int_chars [of i] by (rule rev_subsetD)
  then have "c \<notin> {CHR 0x22, CHR ''['', CHR ''{''}" by auto
  with ct show ?thesis by simp
qed

text \<open>A text is read as a value, with enough fuel.\<close>

definition reads :: "(string \<Rightarrow> string) \<Rightarrow> string \<Rightarrow> json \<Rightarrow> string \<Rightarrow> bool" where
  "reads fl s v r \<longleftrightarrow> (\<exists>k. \<forall>n\<ge>k. parse_value fl n s = Some (v, r))"

lemma readsI: "(\<And>n. parse_value fl (Suc n) s = Some (v, r)) \<Longrightarrow> reads fl s v r"
  unfolding reads_def by (rule exI [of _ 1]) (metis Suc_le_D One_nat_def)

lemma reads_loads:
  assumes "reads fl s v r"
  shows "2 * length s \<le> n \<Longrightarrow> parse_value fl n s = Some (v, r)"
proof -
  from assms obtain k where k: "\<forall>n\<ge>k. parse_value fl n s = Some (v, r)" by (auto simp: reads_def)
  assume "2 * length s \<le> n"
  then have "parse_value fl n s = parse_value fl (max n k) s" by (intro parse_value_fuel) simp_all
  with k show ?thesis by simp
qed

lemma scalar_reads:
  assumes "follows r"
  shows "reads fl (''null'' @ r) JNull r" "reads fl (''true'' @ r) (JBool True) r" "reads fl (''false'' @ r) (JBool False) r"
    "length (show_int i) \<le> max_int_digits \<Longrightarrow> reads fl (show_int i @ r) (JInt i) r"
    "reads fl (quote t @ r) (JStr t) r"
proof -
  show "length (show_int i) \<le> max_int_digits \<Longrightarrow> reads fl (show_int i @ r) (JInt i) r"
    by (rule readsI) (simp add: int_is_scalar scan_scalar_def no_keyword_int scan_number_int assms del: parse_value.simps)
qed (rule readsI; simp add: scan_scalar_def scan_keyword_def json_keywords_def str_startswith_def quote_def scan_quote)+

subsection \<open>Arrays and objects\<close>

definition solid :: "string \<Rightarrow> bool" where
  "solid s \<longleftrightarrow> s \<noteq> [] \<and> \<not> json_space (hd s)"

lemma skip_ws_solid: "list_all json_space w \<Longrightarrow> solid s \<Longrightarrow> skip_ws (w @ s) = s"
  by (simp add: skip_ws_append skip_ws_id solid_def)

lemma solid_append [simp]: "solid s \<Longrightarrow> solid (s @ r)"
  by (simp add: solid_def)

lemma follows_close: "list_all json_space w \<Longrightarrow> c \<in> delims \<Longrightarrow> follows (w @ c # r)"
  by (cases w) (simp_all add: follows_def)

lemma follows_comma [simp]: "follows (CHR '','' # r)"
  by (simp add: follows_def)

lemma join_with_Cons: "xs \<noteq> [] \<Longrightarrow> join_with sep (x # xs) = x @ sep @ join_with sep xs"
  by (cases xs) simp_all

lemma solid_join: "xs \<noteq> [] \<Longrightarrow> \<forall>x \<in> set xs. solid x \<Longrightarrow> solid (join_with sep xs)"
  by (cases "(sep, xs)" rule: join_with.cases) simp_all

lemma elements_read:
  assumes "xs \<noteq> []" and w: "list_all json_space w" "list_all json_space w'"
    and "\<forall>x \<in> set xs. solid (f x) \<and> (\<forall>r. follows r \<longrightarrow> reads fl (f x @ r) x r)"
  shows "\<exists>k. \<forall>n\<ge>k. parse_elements fl n acc (join_with (CHR '','' # w) (map f xs) @ w' @ CHR '']'' # r)
    = Some (JArr (acc @ xs), r)"
  using assms(1,4)
proof (induction xs arbitrary: acc rule: list_nonempty_induct)
  case (single x)
  then obtain k where k: "\<forall>n\<ge>k. parse_value fl n (f x @ w' @ CHR '']'' # r) = Some (x, w' @ CHR '']'' # r)"
    using follows_close [OF w(2), of "CHR '']''" r] by (auto simp: reads_def)
  show ?case
  proof (rule exI [of _ "Suc k"], intro allI impI)
    fix n assume "Suc k \<le> n"
    then obtain m where "n = Suc m" "k \<le> m" using fuel_split by blast
    with k show "parse_elements fl n acc (join_with (CHR '','' # w) (map f [x]) @ w' @ CHR '']'' # r) = Some (JArr (acc @ [x]), r)"
      by (simp add: skip_ws_append [OF w(2)])
  qed
next
  case (cons x xs)
  let ?t = "join_with (CHR '','' # w) (map f xs) @ w' @ CHR '']'' # r"
  have "reads fl (f x @ CHR '','' # w @ ?t) x (CHR '','' # w @ ?t)" using cons.prems by simp
  then obtain k where k: "\<forall>n\<ge>k. parse_value fl n (f x @ CHR '','' # w @ ?t) = Some (x, CHR '','' # w @ ?t)"
    unfolding reads_def ..
  from cons.IH [of "acc @ [x]"] cons.prems
  obtain k' where k': "\<forall>n\<ge>k'. parse_elements fl n (acc @ [x]) ?t = Some (JArr ((acc @ [x]) @ xs), r)"
    by auto
  have t: "skip_ws (w @ ?t) = ?t"
    using cons by (intro skip_ws_solid w(1) solid_append solid_join) auto
  show ?case
  proof (rule exI [of _ "Suc (max k k')"], intro allI impI)
    fix n assume "Suc (max k k') \<le> n"
    then obtain m where "n = Suc m" "max k k' \<le> m" using fuel_split by blast
    with k k' t cons.hyps show "parse_elements fl n acc (join_with (CHR '','' # w) (map f (x # xs)) @ w' @ CHR '']'' # r)
        = Some (JArr (acc @ x # xs), r)"
      by (simp add: join_with_Cons)
  qed
qed

lemma members_read:
  assumes "kvs \<noteq> []" and w: "list_all json_space w" "list_all json_space w'" "list_all json_space sp"
    and "\<forall>kv \<in> set kvs. solid (f (snd kv)) \<and> (\<forall>r. follows r \<longrightarrow> reads fl (f (snd kv) @ r) (snd kv) r)"
    and "distinct (map fst (d @ kvs))"
  defines "g \<equiv> \<lambda>kv. quote (fst kv) @ CHR '':'' # sp @ f (snd kv)"
  shows "\<exists>k. \<forall>n\<ge>k. parse_members fl n d (join_with (CHR '','' # w) (map g kvs) @ w' @ CHR ''}'' # r)
    = Some (JObj (d @ kvs), r)"
  using assms(1,5,6)
proof (induction kvs arbitrary: d rule: list_nonempty_induct)
  case (single kv)
  then obtain k where k: "\<forall>n\<ge>k. parse_value fl n (f (snd kv) @ w' @ CHR ''}'' # r) = Some (snd kv, w' @ CHR ''}'' # r)"
    using follows_close [OF w(2), of "CHR ''}''" r] by (auto simp: reads_def)
  have sp: "skip_ws (sp @ f (snd kv) @ q) = f (snd kv) @ q" for q
    using single by (intro skip_ws_solid w(3) solid_append) simp
  show ?case
  proof (rule exI [of _ "Suc k"], intro allI impI)
    fix n assume "Suc k \<le> n"
    then obtain m where "n = Suc m" "k \<le> m" using fuel_split by blast
    with k sp single.prems(2) show "parse_members fl n d (join_with (CHR '','' # w) (map g [kv]) @ w' @ CHR ''}'' # r) = Some (JObj (d @ [kv]), r)"
      by (simp add: g_def quote_def scan_quote skip_ws_append [OF w(2)] dict_set_new)
  qed
next
  case (cons kv kvs)
  let ?t = "join_with (CHR '','' # w) (map g kvs) @ w' @ CHR ''}'' # r"
  have "reads fl (f (snd kv) @ CHR '','' # w @ ?t) (snd kv) (CHR '','' # w @ ?t)" using cons.prems by simp
  then obtain k where k: "\<forall>n\<ge>k. parse_value fl n (f (snd kv) @ CHR '','' # w @ ?t) = Some (snd kv, CHR '','' # w @ ?t)"
    unfolding reads_def ..
  have "distinct (map fst ((d @ [kv]) @ kvs))" using cons.prems(2) by simp
  with cons.IH [of "d @ [kv]"] cons.prems(1)
  obtain k' where k': "\<forall>n\<ge>k'. parse_members fl n (d @ [kv]) ?t = Some (JObj ((d @ [kv]) @ kvs), r)"
    by auto
  have t: "skip_ws (w @ ?t) = ?t"
    using cons.hyps by (intro skip_ws_solid w(1) solid_append solid_join) (auto simp: g_def solid_def quote_def)
  have sp: "skip_ws (sp @ f (snd kv) @ q) = f (snd kv) @ q" for q
    using cons.prems by (intro skip_ws_solid w(3) solid_append) simp
  have new: "dict_set (fst kv) (snd kv) d = d @ [kv]" using cons.prems(2) by (simp add: dict_set_new)
  show ?case
  proof (rule exI [of _ "Suc (max k k')"], intro allI impI)
    fix n assume "Suc (max k k') \<le> n"
    then obtain m where "n = Suc m" "max k k' \<le> m" using fuel_split by blast
    with k k' t sp new cons.hyps show "parse_members fl n d (join_with (CHR '','' # w) (map g (kv # kvs)) @ w' @ CHR ''}'' # r)
        = Some (JObj (d @ kv # kvs), r)"
      by (simp add: join_with_Cons g_def quote_def scan_quote)
  qed
qed

lemma reads_array:
  assumes "\<exists>k. \<forall>n\<ge>k. parse_elements fl n [] s = Some (v, r)" and "solid s" and "\<not> starts_with (CHR '']'') s"
    and "list_all json_space w"
  shows "reads fl (CHR ''['' # w @ s) v r"
proof -
  from assms(1) obtain k where k: "\<forall>n\<ge>k. parse_elements fl n [] s = Some (v, r)" ..
  have "parse_value fl n (CHR ''['' # w @ s) = Some (v, r)" if "Suc k \<le> n" for n
  proof -
    from that obtain m where "n = Suc m" "k \<le> m" using fuel_split by blast
    with k assms(2-4) show ?thesis by (simp add: skip_ws_solid)
  qed
  then show ?thesis unfolding reads_def by (intro exI [of _ "Suc k"]) simp
qed

lemma reads_object:
  assumes "\<exists>k. \<forall>n\<ge>k. parse_members fl n [] s = Some (v, r)" and "solid s" and "\<not> starts_with (CHR ''}'') s"
    and "list_all json_space w"
  shows "reads fl (CHR ''{'' # w @ s) v r"
proof -
  from assms(1) obtain k where k: "\<forall>n\<ge>k. parse_members fl n [] s = Some (v, r)" ..
  have "parse_value fl n (CHR ''{'' # w @ s) = Some (v, r)" if "Suc k \<le> n" for n
  proof -
    from that obtain m where "n = Suc m" "k \<le> m" using fuel_split by blast
    with k assms(2-4) show ?thesis by (simp add: skip_ws_solid)
  qed
  then show ?thesis unfolding reads_def by (intro exI [of _ "Suc k"]) simp
qed

definition firm :: "string \<Rightarrow> bool" where
  \<comment> \<open>a text that starts like a value\<close>
  "firm s \<longleftrightarrow> s \<noteq> [] \<and> \<not> json_space (hd s) \<and> hd s \<notin> delims"

lemma firm_solid: "firm s \<Longrightarrow> solid s"
  by (simp add: firm_def solid_def)

lemma firm_append [simp]: "firm s \<Longrightarrow> firm (s @ r)"
  by (simp add: firm_def)

lemma firm_join: "xs \<noteq> [] \<Longrightarrow> \<forall>x \<in> set xs. firm x \<Longrightarrow> firm (join_with sep xs)"
  by (cases "(sep, xs)" rule: join_with.cases) simp_all

lemma firm_not_close: "firm s \<Longrightarrow> \<not> starts_with (CHR '']'') s \<and> \<not> starts_with (CHR ''}'') s"
  by (auto simp: firm_def starts_with_iff)

lemma firm_Cons [simp]: "firm (c # s) \<longleftrightarrow> \<not> json_space c \<and> c \<notin> delims"
  by (simp add: firm_def)

lemma firm_int: "firm (show_int i)"
proof -
  have "hd (show_int i) \<in> set (show_int i)" by simp
  then have "hd (show_int i) \<in> set ''0123456789-''" using show_int_chars [of i] by (rule rev_subsetD)
  moreover have "hd (show_int i) \<notin> delims" using show_int_no_delims [of i] by (simp add: disjoint_iff)
  ultimately show ?thesis by (auto simp: firm_def json_space_def)
qed

lemma firm_quote [simp]: "firm (quote s)"
  by (simp add: quote_def delims_def)

lemma render_firm: "plain v \<Longrightarrow> firm (render nl sp v l)"
  by (cases v) (auto simp: firm_int json_space_def delims_def)

lemma render_reads:
  assumes w: "\<And>l. list_all json_space (nl l)" "list_all json_space sp"
  shows "plain v \<Longrightarrow> follows r \<Longrightarrow> reads fl (render nl sp v l @ r) v r"
proof (induction v arbitrary: l r)
  case (JBool b)
  with scalar_reads(2,3) show ?case by simp
next
  case (JArr xs)
  show ?case
  proof (cases "xs = []")
    case True
    show ?thesis by (rule readsI) (simp add: True)
  next
    case False
    let ?f = "\<lambda>x. render nl sp x (Suc l)" and ?w = "nl (Suc l)"
    let ?s = "join_with (CHR '','' # ?w) (map ?f xs) @ nl l @ CHR '']'' # r"
    have plain: "\<forall>x \<in> set xs. plain x" using JArr.prems(1) by (simp add: list_all_iff)
    then have "firm ?s" using False by (intro firm_append firm_join) (auto simp: render_firm)
    then have s: "solid ?s" "\<not> starts_with (CHR '']'') ?s" using firm_solid firm_not_close by blast+
    have "\<exists>k. \<forall>n\<ge>k. parse_elements fl n [] ?s = Some (JArr ([] @ xs), r)"
      using False plain JArr.IH by (intro elements_read w) (auto simp: render_firm firm_solid)
    then have "reads fl (CHR ''['' # ?w @ ?s) (JArr xs) r" using s w(1) by (intro reads_array) simp_all
    with False show ?thesis by (simp add: comp_def)
  qed
next
  case (JObj kvs)
  show ?case
  proof (cases "kvs = []")
    case True
    show ?thesis by (rule readsI) (simp add: True)
  next
    case False
    let ?f = "\<lambda>x. render nl sp x (Suc l)" and ?w = "nl (Suc l)"
    let ?g = "\<lambda>kv. quote (fst kv) @ CHR '':'' # sp @ ?f (snd kv)"
    let ?s = "join_with (CHR '','' # ?w) (map ?g kvs) @ nl l @ CHR ''}'' # r"
    have plain: "\<forall>kv \<in> set kvs. plain (snd kv)" using JObj.prems(1) by (auto simp: list_all_iff)
    have "firm ?s" using False by (intro firm_append firm_join) auto
    then have s: "solid ?s" "\<not> starts_with (CHR ''}'') ?s" using firm_solid firm_not_close by blast+
    have "\<exists>k. \<forall>n\<ge>k. parse_members fl n [] ?s = Some (JObj ([] @ kvs), r)"
      using False plain JObj by (intro members_read w) (auto simp: render_firm firm_solid)
    then have "reads fl (CHR ''{'' # ?w @ ?s) (JObj kvs) r" using s w(1) by (intro reads_object) simp_all
    with False show ?thesis by (simp add: comp_def)
  qed
qed (use scalar_reads in simp_all)

lemma loads_render:
  assumes "\<And>l. list_all json_space (nl l)" "list_all json_space sp" "plain v" "list_all json_space w"
  shows "json_loads fl (render nl sp v l @ w) = Inr v"
proof -
  have "follows w" using assms(4) by (cases w) (simp_all add: follows_def)
  then have "reads fl (render nl sp v l @ w) v w" by (rule render_reads [OF assms(1-3)])
  moreover have "skip_ws (render nl sp v l @ w) = render nl sp v l @ w"
    using firm_solid [OF render_firm [OF assms(3)]] by (intro skip_ws_id) (simp_all add: solid_def)
  moreover have "skip_ws w = []" using skip_ws_append [OF assms(4), of "[]"] by (simp add: skip_ws_def)
  ultimately show ?thesis using reads_loads by (simp add: json_loads_def)
qed

lemma plain_sort_keys: "plain v \<Longrightarrow> plain (sort_keys v)"
proof (induction v)
  case (JObj kvs)
  have keys: "map fst (map (map_prod id sort_keys) kvs) = map fst kvs" by simp
  have "dict_wf (sort_key fst (map (map_prod id sort_keys) kvs))"
    using JObj.prems unfolding dict_wf_sort_key keys by simp
  moreover have "\<forall>kv \<in> set (map (map_prod id sort_keys) kvs). plain (snd kv)"
    using JObj by (fastforce simp: list_all_iff)
  ultimately show ?case by (auto simp: list_all_iff)
qed (auto simp: list_all_iff)

lemma indent_space: "list_all json_space (indent2 l)" "list_all json_space [CHR 0x20]"
  by (auto simp: indent2_def json_space_def list_all_iff)

text \<open>Printing with indentation and reading back yields the value with its keys sorted.\<close>

lemma loads_dumps_indent:
  "plain v \<Longrightarrow> list_all json_space w \<Longrightarrow> json_loads fl (dumps_indent v @ w) = Inr (sort_keys v)"
  unfolding dumps_indent_def by (rule loads_render) (simp_all add: indent_space plain_sort_keys json_space_def)

lemma dumps_render: "dumps v = render (\<lambda>_. []) [] v l"
proof -
  have join: "join_with [CHR '',''] xs = join_comma xs" for xs
    by (induction xs rule: join_comma.induct) simp_all
  show ?thesis
  proof (induction v arbitrary: l)
    case (JArr xs)
    then show ?case by (simp add: join comp_def cong: map_cong)
  next
    case (JObj kvs)
    have "dumps (snd kv) = render (\<lambda>_. []) [] (snd kv) (Suc l)" if "kv \<in> set kvs" for kv
      using JObj [OF that, of "snd kv"] by (cases kv) simp
    then show ?case by (simp add: join comp_def member_text_def cong: map_cong)
  qed simp_all
qed

lemma loads_dumps: "plain v \<Longrightarrow> json_loads fl (dumps v) = Inr v"
  unfolding dumps_render [of v 0] using loads_render [of "\<lambda>_. []" "[]" v "[]"] by simp

section \<open>What the reader yields\<close>

definition line_token :: "string \<Rightarrow> bool" where
  "line_token t \<longleftrightarrow> float_token t \<and> CHR 0x0A \<notin> set t"

primrec sound_json :: "json \<Rightarrow> bool" where
  \<comment> \<open>well-formed, and no token breaks the line\<close>
  "sound_json JNull = True"
| "sound_json (JBool b) = True"
| "sound_json (JInt i) = True"
| "sound_json (JFloat t) = line_token t"
| "sound_json (JStr s) = True"
| "sound_json (JArr xs) = list_all sound_json xs"
| "sound_json (JObj kvs) = (distinct (map fst kvs) \<and> list_all snd (map (map_prod id sound_json) kvs))"

lemma sound_obj: "sound_json (JObj d) \<longleftrightarrow> dict_wf d \<and> (\<forall>kv \<in> set d. sound_json (snd kv))"
  by (auto simp: list_all_iff)

lemma sound_dict_set: "sound_json (JObj d) \<Longrightarrow> sound_json v \<Longrightarrow> sound_json (JObj (dict_set k v d))"
proof -
  have "set (dict_set k v d) \<subseteq> insert (k, v) (set d)" by (induction d) auto
  then show "sound_json (JObj d) \<Longrightarrow> sound_json v \<Longrightarrow> ?thesis" unfolding sound_obj by auto
qed

lemma scan_scalar_sound:
  assumes "\<And>t. line_token (fl t)" and "scan_scalar fl s = Some (v, r)"
  shows "sound_json v"
proof -
  have words: "line_token ''NaN''" "line_token ''Infinity''" "line_token ''-Infinity''" by code_simp+
  have "sound_json v" if "scan_number fl s = Some (v, r)"
    using that assms(1) by (auto simp: scan_number_def number_value_def bind_eq_Some_conv split: if_splits)
  moreover have "sound_json v" if "scan_keyword s = Some (v, r)"
    using that words by (auto simp: scan_keyword_def json_keywords_def split: if_splits)
  ultimately show ?thesis using assms(2) by (auto simp: scan_scalar_def split: option.splits)
qed

lemma parse_sound:
  assumes "\<And>t. line_token (fl t)"
  shows parse_value_sound: "parse_value fl n s = Some (v, r) \<Longrightarrow> sound_json v"
    and "parse_elements fl n acc s = Some (v, r) \<Longrightarrow> list_all sound_json acc \<Longrightarrow> sound_json v"
    and "parse_members fl n d s = Some (v, r) \<Longrightarrow> sound_json (JObj d) \<Longrightarrow> sound_json v"
proof (induction n arbitrary: s v r acc d)
  case (Suc n)
  {
    case 1
    then obtain c t where "s = c # t" by (cases s) simp_all
    with 1 Suc.IH(2,3) [of "[]" "skip_ws t" v r] scan_scalar_sound [OF assms] show ?case
      by (auto split: if_splits)
  next
    case 2
    then obtain x q where x: "parse_value fl n s = Some (x, q)"
      and "v = JArr (acc @ [x]) \<or> (\<exists>t. parse_elements fl n (acc @ [x]) (skip_ws t) = Some (v, r))"
      by (auto simp: bind_eq_Some_conv split: if_splits)
    moreover have "list_all sound_json (acc @ [x])" using Suc.IH(1) [OF x] 2 by simp
    ultimately show ?case using Suc.IH(2) by auto
  next
    case 3
    then obtain k u x q where x: "parse_value fl n u = Some (x, q)"
      and "v = JObj (dict_set k x d) \<or> (\<exists>t. parse_members fl n (dict_set k x d) (skip_ws t) = Some (v, r))"
      by (auto simp: bind_eq_Some_conv split: if_splits) blast+
    moreover have "sound_json (JObj (dict_set k x d))" using sound_dict_set Suc.IH(1) [OF x] 3 by simp
    ultimately show ?case using Suc.IH(3) by blast
  }
qed simp_all

lemma loads_sound: "(\<And>t. line_token (fl t)) \<Longrightarrow> json_loads fl s = Inr v \<Longrightarrow> sound_json v"
  using parse_value_sound [of fl] by (auto simp: json_loads_def split: option.splits if_splits)

lemma sound_wf: "sound_json v \<Longrightarrow> json_wf v"
  by (induction v) (auto simp: list_all_iff line_token_def)

lemma sound_sort_keys: "sound_json v \<Longrightarrow> sound_json (sort_keys v)"
proof (induction v)
  case (JObj kvs)
  have keys: "map fst (map (map_prod id sort_keys) kvs) = map fst kvs" by simp
  have "dict_wf (sort_key fst (map (map_prod id sort_keys) kvs))"
    using JObj.prems unfolding dict_wf_sort_key keys by simp
  moreover have "sound_json (sort_keys (snd kv))" if "kv \<in> set kvs" for kv
    using JObj.IH [OF that, of "snd kv"] JObj.prems that by (cases kv) (auto simp: list_all_iff)
  ultimately show ?case unfolding sort_keys.simps sound_obj by auto
qed (auto simp: list_all_iff)

lemma esc_char_line: "CHR 0x0A \<notin> set (esc_char c)"
proof -
  have hex: "\<forall>n \<in> set [0..<16]. hex_char n \<noteq> CHR 0x0A" by code_simp
  have "(of_char c :: nat) div 16 < 16"
    by (rule less_mult_imp_div_less) (use nat_of_char_less_256 [of c] in simp)
  with hex show ?thesis by (auto simp: esc_char_def short_escape_def split: option.split if_splits)
qed

lemma join_comma_chars: "set (join_comma xs) \<subseteq> insert (CHR '','') (\<Union> (set ` set xs))"
  by (induction xs rule: join_comma.induct) auto

lemma dumps_line: "sound_json v \<Longrightarrow> CHR 0x0A \<notin> set (dumps v)"
proof (induction v)
  case (JInt i)
  then show ?case using show_int_chars [of i] by auto
next
  case (JStr s)
  then show ?case using esc_char_line by (simp add: quote_def)
next
  case (JArr xs)
  then show ?case using join_comma_chars [of "map dumps xs"] by (auto simp: list_all_iff)
next
  case (JObj kvs)
  have "CHR 0x0A \<notin> set (member_text (fst kv, dumps (snd kv)))" if "kv \<in> set kvs" for kv
    using JObj.IH [OF that, of "snd kv"] JObj.prems that esc_char_line
    by (cases kv) (auto simp: list_all_iff member_text_def quote_def)
  moreover have "map member_text (map (map_prod id dumps) kvs) = map (\<lambda>kv. member_text (fst kv, dumps (snd kv))) kvs"
    by (simp add: map_prod_def case_prod_unfold)
  ultimately show ?case
    using join_comma_chars [of "map (\<lambda>kv. member_text (fst kv, dumps (snd kv))) kvs"]
    by (auto simp del: map_map)
qed (auto simp: line_token_def)

text \<open>Two documents on a line each: what is on the lines tells both.\<close>

lemma two_lines_inj:
  assumes sound: "sound_json v" "sound_json v'" "sound_json w" "sound_json w'"
    and eq: "canonical v @ CHR 0x0A # canonical w = canonical v' @ CHR 0x0A # canonical w'"
  shows "sort_keys v = sort_keys v' \<and> sort_keys w = sort_keys w'"
proof -
  have line: "takeWhile (\<lambda>c. c \<noteq> CHR 0x0A) (canonical u @ CHR 0x0A # t) = canonical u" if "sound_json u" for u t
  proof -
    have "CHR 0x0A \<notin> set (canonical u)" using that by (simp add: canonical_def dumps_line sound_sort_keys)
    then show ?thesis by (subst takeWhile_append2) auto
  qed
  from line [OF sound(1)] line [OF sound(2)] eq have "canonical v = canonical v'" by metis
  with eq have "canonical w = canonical w'" by simp
  with \<open>canonical v = canonical v'\<close> canonical_inj sound sound_wf show ?thesis by blast
qed

text \<open>A canonical text on a line of its own reads back.\<close>

lemma plain_sound: "plain v \<Longrightarrow> sound_json v"
  by (induction v) (auto simp: list_all_iff)

lemma loads_canonical_line: "plain v \<Longrightarrow> json_loads fl (canonical v @ [CHR 0x0A]) = Inr (sort_keys v)"
  unfolding canonical_def dumps_render [of _ 0]
  using loads_render [of "\<lambda>_. []" "[]" "sort_keys v" "[CHR 0x0A]"] by (simp add: plain_sort_keys json_space_def)

end
