(* ===== verification/Signed_Packages.thy ===== *)
theory Signed_Packages
  imports Json_Parser Action_Plans
begin

text \<open>
  packaging.py: connector packages as archives with a manifest of checksums, a software bill of materials
  and a signature over both. An archive is the list of its entries, as zipfile reports them, with what
  reading each yields, and the bytes of its file. The compressor, the archive's bytes, the decoding of bytes
  that are not ASCII, float tokens and the rounding of float division are parameters.
\<close>

section \<open>Limits, signers and archives\<close>

datatype package_error = Package_Py py_error | Attribute_Error string | Stop_Iteration | Bad_Archive string

definition pack_py :: "'a checked \<Rightarrow> package_error + 'a" where
  "pack_py r = (case r of Inl e \<Rightarrow> Inl (Package_Py e) | Inr x \<Rightarrow> Inr x)"

definition require :: "bool \<Rightarrow> string \<Rightarrow> package_error + unit" where
  "require b message = (if b then Inr () else Inl (Package_Py (ValueError message)))"

record archive_limits =
  al_max_entries :: int
  al_max_entry_bytes :: int
  al_max_total_bytes :: int
  al_max_compression_ratio :: rat

definition default_limits :: archive_limits where
  "default_limits = \<lparr>al_max_entries = 10000, al_max_entry_bytes = 256 * 1024 * 1024,
     al_max_total_bytes = 1024 * 1024 * 1024, al_max_compression_ratio = 1000\<rparr>"

definition mk_archive_limits :: "archive_limits \<Rightarrow> archive_limits checked" where
  "mk_archive_limits l =
     (if al_max_entries l \<le> 0 \<or> al_max_entry_bytes l \<le> 0 \<or> al_max_total_bytes l \<le> 0 \<or> al_max_compression_ratio l \<le> 0
      then Inl (ValueError ''archive verification limits must be positive'') else Inr l)"

record artifact_signer =
  sg_key_id :: string
  sg_algorithm :: string
  sg_sign :: "string \<Rightarrow> string"
  sg_verify :: "string \<Rightarrow> json \<Rightarrow> bool checked"

definition compare_digest :: "string \<Rightarrow> json \<Rightarrow> bool checked" where
  \<comment> \<open>\<open>hmac.compare_digest\<close> takes ASCII strings only\<close>
  "compare_digest a v =
     (case v of
        JStr b \<Rightarrow> if list_all (\<lambda>c. (of_char c :: nat) < 128) (a @ b) then Inr (a = b)
                  else Inl (TypeError ''comparing strings with non-ASCII characters is not supported'')
      | _ \<Rightarrow> Inl (TypeError ''unsupported operand types''))"

definition hmac_signer :: "prims \<Rightarrow> string \<Rightarrow> string \<Rightarrow> artifact_signer" where
  "hmac_signer p key_id secret = \<lparr>sg_key_id = key_id, sg_algorithm = ''HMAC-SHA256'', sg_sign = pr_hmac_sha256 p secret,
     sg_verify = (\<lambda>payload. compare_digest (pr_hmac_sha256 p secret payload))\<rparr>"

definition mk_hmac_signer :: "prims \<Rightarrow> string \<Rightarrow> string \<Rightarrow> artifact_signer checked" where
  "mk_hmac_signer p key_id secret =
     (if key_id = [] \<or> length secret < 16
      then Inl (ValueError ''key id and at least 128 bits of lab key material are required'')
      else Inr (hmac_signer p key_id secret))"

record zip_entry =
  ze_filename :: string
  ze_file_size :: nat
  ze_compress_size :: nat
  ze_data :: "package_error + string"

record zip_archive =
  za_entries :: "zip_entry list"
  za_bytes :: string

record package_env =
  pe_prims :: prims
  pe_compressed :: "string \<Rightarrow> nat"
  pe_archive_bytes :: "(string \<times> string) list \<Rightarrow> string"
  pe_decode :: "string \<Rightarrow> string checked"
  pe_float :: "string \<Rightarrow> string"
  pe_round :: "rat \<Rightarrow> rat"

definition archive_names :: "zip_archive \<Rightarrow> string list" where
  "archive_names a = map ze_filename (za_entries a)"

definition archive_read :: "zip_archive \<Rightarrow> string \<Rightarrow> package_error + string" where
  "archive_read a name =
     (case dict_get (rev (map (\<lambda>e. (ze_filename e, ze_data e)) (za_entries a))) name of
        None \<Rightarrow> Inl (Package_Py (KeyError name)) | Some r \<Rightarrow> r)"

section \<open>Building a package\<close>

definition manifest_path :: string where "manifest_path = ''META-INF/manifest.json''"
definition sbom_path :: string where "sbom_path = ''META-INF/sbom.cdx.json''"
definition signature_path :: string where "signature_path = ''META-INF/signature.json''"

definition safe_path :: "string \<Rightarrow> bool" where
  "safe_path path \<longleftrightarrow> \<not> str_startswith path ''/'' \<and> ''..'' \<notin> set (split_on (CHR ''/'') path)"

definition file_digests :: "prims \<Rightarrow> (string, string) dict \<Rightarrow> (string, json) dict" where
  "file_digests p files = map (\<lambda>(path, payload). (path, JStr (pr_sha256 p payload))) (sort_key fst files)"

definition package_manifest :: "prims \<Rightarrow> string \<Rightarrow> string \<Rightarrow> (string, string) dict \<Rightarrow> json" where
  "package_manifest p name version files = JObj
     [(''schemaVersion'', JStr ''data.harness.package/v1''),
      (''component'', JObj [(''name'', JStr name), (''version'', JStr version)]),
      (''files'', JObj (file_digests p files))]"

definition purl :: "string \<Rightarrow> string \<Rightarrow> string \<Rightarrow> string" where
  "purl kind name version = ''pkg:'' @ kind @ ''/'' @ name @ ''@'' @ version"

definition dependency_component :: "string \<times> string \<Rightarrow> (string, json) dict" where
  "dependency_component d = (case d of (name, version) \<Rightarrow>
     [(''type'', JStr ''library''), (''name'', JStr name), (''version'', JStr version),
      (''bom-ref'', JStr (purl ''pypi'' name version)), (''purl'', JStr (purl ''pypi'' name version))])"

definition file_component :: "string \<times> json \<Rightarrow> (string, json) dict" where
  "file_component f = (case f of (path, digest) \<Rightarrow>
     [(''type'', JStr ''file''), (''name'', JStr path), (''bom-ref'', JStr (''file:'' @ path)),
      (''hashes'', JArr [JObj [(''alg'', JStr ''SHA-256''), (''content'', digest)]])])"

definition package_components :: "prims \<Rightarrow> (string, string) dict \<Rightarrow> (string, string) dict \<Rightarrow> (string, json) dict list" where
  "package_components p files dependencies =
     map file_component (file_digests p files) @ map dependency_component (sort_key fst dependencies)"

definition package_sbom :: "prims \<Rightarrow> string \<Rightarrow> string \<Rightarrow> (string, string) dict \<Rightarrow> (string, string) dict \<Rightarrow> json" where
  "package_sbom p name version files dependencies =
     (let application = JStr (purl ''generic'' name version);
          components = package_components p files dependencies;
          refs = map (\<lambda>c. member c ''bom-ref'') components
      in JObj
        [(''bomFormat'', JStr ''CycloneDX''), (''specVersion'', JStr ''1.6''), (''version'', JInt 1),
         (''metadata'', JObj [(''component'', JObj
           [(''type'', JStr ''application''), (''name'', JStr name), (''version'', JStr version),
            (''bom-ref'', application)])]),
         (''components'', JArr (map JObj components)),
         (''dependencies'', JArr (JObj [(''ref'', application), (''dependsOn'', JArr refs)]
            # map (\<lambda>ref. JObj [(''ref'', ref), (''dependsOn'', JArr [])]) refs))])"

definition signed_payload :: "json \<Rightarrow> json \<Rightarrow> string" where
  "signed_payload manifest sbom = canonical manifest @ CHR 0x0A # canonical sbom"

definition package_signature :: "artifact_signer \<Rightarrow> json \<Rightarrow> json \<Rightarrow> json" where
  "package_signature signer manifest sbom = JObj
     [(''schemaVersion'', JStr ''data.harness.signature/v1''), (''algorithm'', JStr (sg_algorithm signer)),
      (''keyId'', JStr (sg_key_id signer)), (''value'', JStr (sg_sign signer (signed_payload manifest sbom)))]"

definition document_text :: "json \<Rightarrow> string" where
  "document_text v = dumps_indent v @ [CHR 0x0A]"

definition package_entries :: "(string, string) dict \<Rightarrow> json \<Rightarrow> json \<Rightarrow> json \<Rightarrow> (string, string) dict" where
  "package_entries files manifest sbom seal =
     dict_set signature_path (document_text seal)
       (dict_set sbom_path (document_text sbom) (dict_set manifest_path (document_text manifest) files))"

definition zip_name :: "string \<Rightarrow> string" where
  \<comment> \<open>\<open>ZipInfo\<close> cuts a name at a null character\<close>
  "zip_name path = takeWhile (\<lambda>c. c \<noteq> CHR 0x00) path"

definition write_archive :: "package_env \<Rightarrow> (string, string) dict \<Rightarrow> zip_archive" where
  "write_archive env entries =
     \<lparr>za_entries = map (\<lambda>(path, payload). \<lparr>ze_filename = zip_name path, ze_file_size = length payload,
        ze_compress_size = pe_compressed env payload, ze_data = Inr payload\<rparr>) entries,
      za_bytes = pe_archive_bytes env entries\<rparr>"

definition build_signed_package :: "package_env \<Rightarrow> (string, string) dict \<Rightarrow> artifact_signer \<Rightarrow> string \<Rightarrow> string
    \<Rightarrow> (string, string) dict \<Rightarrow> package_error + zip_archive \<times> string" where
  "build_signed_package env files signer name version dependencies =
     (if files = [] \<or> \<not> list_all (\<lambda>f. safe_path (fst f)) files
      then Inl (Package_Py (ValueError ''package paths must be non-empty and relative''))
      else
        let manifest = package_manifest (pe_prims env) name version files;
            sbom = package_sbom (pe_prims env) name version files dependencies;
            archive = write_archive env (sort_key fst
              (package_entries files manifest sbom (package_signature signer manifest sbom)))
        in Inr (archive, pr_sha256 (pe_prims env) (za_bytes archive)))"

section \<open>Verifying a package\<close>

primrec check_sizes :: "(rat \<Rightarrow> rat) \<Rightarrow> archive_limits \<Rightarrow> zip_entry list \<Rightarrow> int \<Rightarrow> package_error + unit" where
  "check_sizes rnd limits [] so_far = Inr ()"
| "check_sizes rnd limits (e # es) so_far =
     (let size = int (ze_file_size e); grown = so_far + size in
      if size > al_max_entry_bytes limits \<or> grown > al_max_total_bytes limits
      then Inl (Package_Py (ValueError ''package exceeds uncompressed size limits''))
      else if ze_file_size e \<noteq> 0 \<and> ze_compress_size e = 0
      then Inl (Package_Py (ValueError ''package entry has an invalid compression size''))
      else if ze_compress_size e \<noteq> 0
        \<and> rnd (of_nat (ze_file_size e) / of_nat (ze_compress_size e)) > al_max_compression_ratio limits
      then Inl (Package_Py (ValueError ''package entry exceeds compression ratio limit''))
      else check_sizes rnd limits es grown)"

definition check_archive :: "(rat \<Rightarrow> rat) \<Rightarrow> archive_limits \<Rightarrow> zip_archive \<Rightarrow> package_error + unit" where
  "check_archive rnd limits a =
     ck_bind (require (distinct (archive_names a)) ''package contains duplicate paths'') (\<lambda>_.
     ck_bind (require (int (length (za_entries a)) \<le> al_max_entries limits) ''package contains too many entries'') (\<lambda>_.
     check_sizes rnd limits (za_entries a) 0))"

definition read_document :: "package_env \<Rightarrow> zip_archive \<Rightarrow> string \<Rightarrow> package_error + json" where
  "read_document env a path =
     ck_bind (archive_read a path) (\<lambda>b. pack_py (json_loads_bytes (pe_decode env) (pe_float env) b))"

definition hashable :: "json \<Rightarrow> bool" where
  "hashable v \<longleftrightarrow> json_scalar v"

definition check_names :: "zip_archive \<Rightarrow> json \<Rightarrow> package_error + unit" where
  \<comment> \<open>\<open>set(manifest["files"]) | {...}\<close> against the names of the archive\<close>
  "check_names a files =
     ck_bind (pack_py (json_elements files)) (\<lambda>paths.
     if \<not> list_all hashable paths then Inl (Package_Py (TypeError ''unhashable type''))
     else require (set (map JStr (archive_names a))
         = set paths \<union> {JStr manifest_path, JStr sbom_path, JStr signature_path})
       ''package contains unsigned or missing paths'')"

definition check_signer :: "artifact_signer \<Rightarrow> json \<Rightarrow> package_error + unit" where
  "check_signer signer seal =
     ck_bind (pack_py (json_index seal ''algorithm'')) (\<lambda>algorithm.
     ck_bind (require (algorithm = JStr (sg_algorithm signer)) ''package signer identity does not match'') (\<lambda>_.
     ck_bind (pack_py (json_index seal ''keyId'')) (\<lambda>key_id.
     require (key_id = JStr (sg_key_id signer)) ''package signer identity does not match'')))"

primrec check_checksums :: "prims \<Rightarrow> zip_archive \<Rightarrow> (string, json) dict \<Rightarrow> package_error + unit" where
  "check_checksums p a [] = Inr ()"
| "check_checksums p a (f # fs) =
     ck_bind (archive_read a (fst f)) (\<lambda>payload.
     ck_bind (require (JStr (pr_sha256 p payload) = snd f) ''package checksum mismatch'') (\<lambda>_.
     check_checksums p a fs))"

definition json_items :: "json \<Rightarrow> package_error + (string, json) dict" where
  \<comment> \<open>\<open>v.items()\<close>\<close>
  "json_items v = (case v of JObj d \<Rightarrow> Inr d | _ \<Rightarrow> Inl (Attribute_Error ''items''))"

definition json_get :: "json \<Rightarrow> string \<Rightarrow> package_error + json" where
  \<comment> \<open>\<open>v.get(k)\<close>\<close>
  "json_get v k = (case v of JObj d \<Rightarrow> Inr (member d k) | _ \<Rightarrow> Inl (Attribute_Error ''get''))"

primrec first_sha256 :: "json list \<Rightarrow> package_error + json" where
  "first_sha256 [] = Inl Stop_Iteration"
| "first_sha256 (item # items) =
     ck_bind (pack_py (json_index item ''alg'')) (\<lambda>alg.
     if alg = JStr ''SHA-256'' then pack_py (json_index item ''content'') else first_sha256 items)"

definition component_digest :: "json \<Rightarrow> package_error + json \<times> json" where
  "component_digest c =
     ck_bind (pack_py (json_index c ''name'')) (\<lambda>name.
     ck_bind (pack_py (json_index c ''hashes'')) (\<lambda>hashes.
     ck_bind (pack_py (json_elements hashes)) (\<lambda>items.
     ck_bind (first_sha256 items) (\<lambda>content.
     if hashable name then Inr (name, content) else Inl (Package_Py (TypeError ''unhashable type''))))))"

primrec sbom_files :: "json list \<Rightarrow> (json, json) dict \<Rightarrow> package_error + (json, json) dict" where
  "sbom_files [] acc = Inr acc"
| "sbom_files (c # cs) acc =
     ck_bind (json_get c ''type'') (\<lambda>t.
     if t = JStr ''file''
     then ck_bind (component_digest c) (\<lambda>d. sbom_files cs (dict_set (fst d) (snd d) acc))
     else sbom_files cs acc)"

definition same_dict :: "('k, 'v) dict \<Rightarrow> ('k, 'v) dict \<Rightarrow> bool" where
  "same_dict d e \<longleftrightarrow> list_all (\<lambda>k. dict_get d k = dict_get e k) (dict_keys d @ dict_keys e)"

primrec all_refs :: "json list \<Rightarrow> package_error + bool" where
  "all_refs [] = Inr True"
| "all_refs (c # cs) = ck_bind (json_get c ''bom-ref'') (\<lambda>r. if json_truthy r then all_refs cs else Inr False)"

definition graph_complete :: "json \<Rightarrow> json list \<Rightarrow> package_error + bool" where
  "graph_complete sbom components =
     ck_bind (json_get sbom ''bomFormat'') (\<lambda>format.
     ck_bind (json_get sbom ''dependencies'') (\<lambda>dependencies.
     if format \<noteq> JStr ''CycloneDX'' \<or> \<not> json_truthy dependencies then Inr False else all_refs components))"

definition check_sbom :: "(string, json) dict \<Rightarrow> json \<Rightarrow> package_error + unit" where
  "check_sbom files sbom =
     ck_bind (pack_py (json_index sbom ''components'')) (\<lambda>v.
     ck_bind (pack_py (json_elements v)) (\<lambda>components.
     ck_bind (sbom_files components []) (\<lambda>covered.
     ck_bind (require (same_dict covered (map (\<lambda>f. (JStr (fst f), snd f)) files))
       ''SBOM does not cover every payload file'') (\<lambda>_.
     ck_bind (graph_complete sbom components) (\<lambda>complete.
     require complete ''SBOM component/dependency graph is incomplete'')))))"

definition check_signature :: "artifact_signer \<Rightarrow> json \<Rightarrow> json \<Rightarrow> json \<Rightarrow> package_error + unit" where
  "check_signature signer manifest sbom seal =
     ck_bind (pack_py (json_index seal ''value'')) (\<lambda>value.
     ck_bind (pack_py (sg_verify signer (signed_payload manifest sbom) value)) (\<lambda>ok.
     require ok ''package signature verification failed''))"

definition verify_documents :: "package_env \<Rightarrow> zip_archive \<Rightarrow> artifact_signer \<Rightarrow> json \<Rightarrow> json \<Rightarrow> json \<Rightarrow> package_error + unit" where
  "verify_documents env a signer manifest sbom seal =
     ck_bind (pack_py (json_index manifest ''files'')) (\<lambda>files.
     ck_bind (check_names a files) (\<lambda>_.
     ck_bind (check_signer signer seal) (\<lambda>_.
     ck_bind (json_items files) (\<lambda>digests.
     ck_bind (check_checksums (pe_prims env) a digests) (\<lambda>_.
     ck_bind (check_sbom digests sbom) (\<lambda>_.
     check_signature signer manifest sbom seal))))))"

definition verify_signed_package :: "package_env \<Rightarrow> zip_archive \<Rightarrow> artifact_signer \<Rightarrow> archive_limits option \<Rightarrow> package_error + string" where
  "verify_signed_package env a signer limits =
     ck_bind (check_archive (pe_round env) (case limits of None \<Rightarrow> default_limits | Some l \<Rightarrow> l) a) (\<lambda>_.
     ck_bind (read_document env a manifest_path) (\<lambda>manifest.
     ck_bind (read_document env a sbom_path) (\<lambda>sbom.
     ck_bind (read_document env a signature_path) (\<lambda>seal.
     ck_bind (verify_documents env a signer manifest sbom seal) (\<lambda>_.
     Inr (pr_sha256 (pe_prims env) (za_bytes a)))))))"

section \<open>What a verified package is\<close>

lemma require_Inr [simp]: "require b m = Inr u \<longleftrightarrow> b"
  by (simp add: require_def)

lemma pack_py_Inr [simp]: "pack_py r = Inr x \<longleftrightarrow> r = Inr x" "pack_py (Inr x) = Inr x"
  by (cases r) (simp_all add: pack_py_def)

lemma check_sizes_Inr:
  "check_sizes rnd l es t = Inr u \<Longrightarrow>
     (\<forall>e \<in> set es. int (ze_file_size e) \<le> al_max_entry_bytes l
       \<and> (ze_file_size e \<noteq> 0 \<longrightarrow> ze_compress_size e \<noteq> 0
         \<and> rnd (of_nat (ze_file_size e) / of_nat (ze_compress_size e)) \<le> al_max_compression_ratio l))
     \<and> (es = [] \<or> t + (\<Sum>e\<leftarrow>es. int (ze_file_size e)) \<le> al_max_total_bytes l)"
proof (induction es arbitrary: t)
  case (Cons e es)
  then have "check_sizes rnd l es (t + int (ze_file_size e)) = Inr u"
    by (simp add: Let_def split: if_splits)
  from Cons.IH [OF this] Cons.prems show ?case by (auto simp: Let_def not_less split: if_splits)
qed simp

lemma check_checksums_Inr:
  "check_checksums p a fs = Inr u \<Longrightarrow>
     \<forall>f \<in> set fs. \<exists>payload. archive_read a (fst f) = Inr payload \<and> snd f = JStr (pr_sha256 p payload)"
  by (induction fs) (auto simp: ck_bind_Inr)

lemma check_names_Inr:
  "check_names a (JObj d) = Inr u \<longleftrightarrow> set (archive_names a) = set (dict_keys d) \<union> {manifest_path, sbom_path, signature_path}"
proof -
  have "inj JStr" by (simp add: inj_def)
  from inj_image_eq_iff [OF this] have "JStr ` A = JStr ` B \<longleftrightarrow> A = B" for A B .
  from this [of "set (archive_names a)" "set (dict_keys d) \<union> {manifest_path, sbom_path, signature_path}"]
  show ?thesis
    by (simp add: check_names_def json_elements_def list_all_iff hashable_def json_scalar_def image_Un image_image comp_def)
qed

lemma json_items_Inr: "json_items v = Inr d \<longleftrightarrow> v = JObj d"
  by (cases v) (simp_all add: json_items_def)

lemma verified_documents:
  assumes "verify_signed_package env a signer limits = Inr d"
  obtains manifest sbom seal digests v where
    "read_document env a manifest_path = Inr manifest" "read_document env a sbom_path = Inr sbom"
    "read_document env a signature_path = Inr seal"
    "json_index manifest ''files'' = Inr (JObj digests)" "json_index seal ''value'' = Inr v"
    "sg_verify signer (signed_payload manifest sbom) v = Inr True"
    "distinct (archive_names a)"
    "set (archive_names a) = set (dict_keys digests) \<union> {manifest_path, sbom_path, signature_path}"
    "\<forall>f \<in> set digests. \<exists>payload. archive_read a (fst f) = Inr payload \<and> snd f = JStr (pr_sha256 (pe_prims env) payload)"
    "d = pr_sha256 (pe_prims env) (za_bytes a)"
proof -
  from assms obtain manifest sbom seal where docs:
      "read_document env a manifest_path = Inr manifest" "read_document env a sbom_path = Inr sbom"
      "read_document env a signature_path = Inr seal"
    and check: "verify_documents env a signer manifest sbom seal = Inr ()"
    and names: "distinct (archive_names a)" and d: "d = pr_sha256 (pe_prims env) (za_bytes a)"
    by (auto simp: verify_signed_package_def check_archive_def ck_bind_Inr)
  from check obtain digests where files: "json_index manifest ''files'' = Inr (JObj digests)"
    and all: "check_names a (JObj digests) = Inr ()" "check_checksums (pe_prims env) a digests = Inr ()"
      "check_signature signer manifest sbom seal = Inr ()"
    by (auto simp: verify_documents_def ck_bind_Inr json_items_Inr)
  from all(3) obtain v where "json_index seal ''value'' = Inr v" "sg_verify signer (signed_payload manifest sbom) v = Inr True"
    by (auto simp: check_signature_def ck_bind_Inr)
  with that docs files names d all(1) check_checksums_Inr [OF all(2)] show ?thesis
    unfolding check_names_Inr by blast
qed

text \<open>
  C17. A package that verifies is what its signer signed: no name occurs twice, every entry besides the three
  documents stands in the manifest with the checksum of the bytes it reads as, and the signer accepts the
  signature for the manifest and the bill of materials.
\<close>

theorem verified_package_is_signed:
  assumes "verify_signed_package env a signer limits = Inr d"
  shows "\<exists>manifest sbom seal digests v.
      read_document env a manifest_path = Inr manifest \<and> read_document env a sbom_path = Inr sbom
    \<and> read_document env a signature_path = Inr seal \<and> json_index manifest ''files'' = Inr (JObj digests)
    \<and> json_index seal ''value'' = Inr v \<and> sg_verify signer (signed_payload manifest sbom) v = Inr True
    \<and> distinct (archive_names a)
    \<and> set (archive_names a) = set (dict_keys digests) \<union> {manifest_path, sbom_path, signature_path}
    \<and> (\<forall>f \<in> set digests. \<exists>payload. archive_read a (fst f) = Inr payload
         \<and> snd f = JStr (pr_sha256 (pe_prims env) payload))"
  using assms by (rule verified_documents) blast

text \<open>
  A package that verifies lies within the limits it was verified with: the number of entries, the size of
  each and of all together, and how far each expands.
\<close>

lemma verified_package_within_limits:
  assumes "verify_signed_package env a signer (Some l) = Inr d"
  shows "int (length (za_entries a)) \<le> al_max_entries l
    \<and> (\<Sum>e\<leftarrow>za_entries a. int (ze_file_size e)) \<le> al_max_total_bytes l
    \<and> (\<forall>e \<in> set (za_entries a). int (ze_file_size e) \<le> al_max_entry_bytes l
        \<and> (ze_file_size e \<noteq> 0 \<longrightarrow> ze_compress_size e \<noteq> 0
          \<and> pe_round env (of_nat (ze_file_size e) / of_nat (ze_compress_size e)) \<le> al_max_compression_ratio l))"
proof -
  from assms have count: "int (length (za_entries a)) \<le> al_max_entries l"
    and sizes: "check_sizes (pe_round env) l (za_entries a) 0 = Inr ()"
    by (auto simp: verify_signed_package_def check_archive_def ck_bind_Inr)
  have "za_entries a \<noteq> []"
    using assms by (rule verified_documents) (auto simp: archive_names_def)
  with check_sizes_Inr [OF sizes] count show ?thesis by simp
qed

section \<open>A signature binds what it signs\<close>

lemma read_document_sound:
  assumes "\<And>t. line_token (pe_float env t)" and "read_document env a path = Inr v"
  shows "sound_json v"
  using assms loads_sound [of "pe_float env"]
  by (auto simp: read_document_def json_loads_bytes_def ck_bind_Inr split: if_splits)

lemma hmac_verify: "sg_verify (hmac_signer p k s) m v = Inr True \<longleftrightarrow>
    v = JStr (pr_hmac_sha256 p s m) \<and> list_all (\<lambda>c. (of_char c :: nat) < 128) (pr_hmac_sha256 p s m)"
  by (auto simp: hmac_signer_def compare_digest_def split: json.splits)

lemma sound_member: "sound_json (JObj f) \<Longrightarrow> dict_get f k = Some v \<Longrightarrow> sound_json v"
  unfolding sound_obj by (auto dest: map_of_SomeD)

lemma same_files:
  assumes "sound_json m" "sound_json m'" "sort_keys m = sort_keys m'"
    and "json_index m ''files'' = Inr (JObj d)" "json_index m' ''files'' = Inr (JObj d')"
    and "\<forall>f \<in> set d. \<exists>t. snd f = JStr t" "\<forall>f \<in> set d'. \<exists>t. snd f = JStr t"
  shows "dict_get d k = dict_get d' k"
proof -
  from assms(4,5) obtain f f' where m: "m = JObj f" "m' = JObj f'"
    and get: "dict_get f ''files'' = Some (JObj d)" "dict_get f' ''files'' = Some (JObj d')"
    by (auto simp: json_index_def split: json.splits option.splits)
  have wf: "dict_wf f" "dict_wf f'" using assms(1,2) unfolding m sound_obj by blast+
  have "sound_json (JObj d)" "sound_json (JObj d')"
    using sound_member assms(1,2) get unfolding m by blast+
  then have wf': "dict_wf d" "dict_wf d'" unfolding sound_obj by blast+
  from sort_keys_lookup [OF assms(3) [unfolded m] wf, of "''files''"] get
  have sorted: "sort_keys (JObj d) = sort_keys (JObj d')" by simp
  from sort_keys_lookup [OF sorted wf', of k]
  have eq: "map_option sort_keys (dict_get d k) = map_option sort_keys (dict_get d' k)" .
  have plain: "x = sort_keys x" if "dict_get e k = Some x" "\<forall>f \<in> set e. \<exists>t. snd f = JStr t" for x and e :: "(string, json) dict"
    using that map_of_SomeD [OF that(1)] by auto
  show ?thesis
    using eq plain [of d] plain [of d'] assms(6,7) by (cases "dict_get d k"; cases "dict_get d' k") auto
qed

lemma archive_read_None: "path \<notin> set (archive_names a) \<Longrightarrow> archive_read a path = Inl (Package_Py (KeyError path))"
proof -
  assume "path \<notin> set (archive_names a)"
  then have "dict_get (rev (map (\<lambda>e. (ze_filename e, ze_data e)) (za_entries a))) path = None"
    by (auto simp: map_of_eq_None_iff archive_names_def)
  then show ?thesis by (simp add: archive_read_def)
qed

definition collides :: "('a \<Rightarrow> 'b) \<Rightarrow> bool" where
  "collides h \<longleftrightarrow> (\<exists>m m'. m \<noteq> m' \<and> h m = h m')"

lemma same_contents:
  assumes "set (archive_names a) = set (dict_keys d) \<union> R" "set (archive_names b) = set (dict_keys d') \<union> R"
    and checked: "\<forall>f \<in> set d. \<exists>payload. archive_read a (fst f) = Inr payload \<and> snd f = JStr (h payload)"
      "\<forall>f \<in> set d'. \<exists>payload. archive_read b (fst f) = Inr payload \<and> snd f = JStr (h payload)"
    and same: "\<And>k. dict_get d k = dict_get d' k" and "\<not> collides h"
  shows "set (archive_names a) = set (archive_names b) \<and> (\<forall>path. path \<notin> R \<longrightarrow> archive_read a path = archive_read b path)"
proof
  have keys: "set (dict_keys d) = set (dict_keys d')" using same in_keys by (metis subsetI subset_antisym)
  with assms(1,2) show names: "set (archive_names a) = set (archive_names b)" by simp
  show "\<forall>path. path \<notin> R \<longrightarrow> archive_read a path = archive_read b path"
  proof (intro allI impI)
    fix path assume "path \<notin> R"
    show "archive_read a path = archive_read b path"
    proof (cases "dict_get d path")
      case None
      then have "path \<notin> set (dict_keys d)" by (simp only: dict_get_None not_False_eq_True)
      with \<open>path \<notin> R\<close> assms(1) names have "path \<notin> set (archive_names a)" "path \<notin> set (archive_names b)" by auto
      then show ?thesis by (simp add: archive_read_None)
    next
      case (Some v)
      from map_of_SomeD [OF Some] checked(1) obtain x where x: "archive_read a path = Inr x" "v = JStr (h x)" by fastforce
      from Some same [of path] have "dict_get d' path = Some v" by simp
      from map_of_SomeD [OF this] checked(2) obtain y where y: "archive_read b path = Inr y" "v = JStr (h y)" by fastforce
      from x y assms(6) have "x = y" unfolding collides_def by (metis json.inject(4))
      with x y show ?thesis by simp
    qed
  qed
qed

text \<open>
  A signature binds what it signs: two packages that verify with keyed hashes of one secret and carry one
  signature have the same names and read the same under each, or the hash or the keyed hash collides.
\<close>

lemma signature_binds_contents:
  assumes "verify_signed_package env a (hmac_signer (pe_prims env) k s) l = Inr d"
    and "verify_signed_package env b (hmac_signer (pe_prims env) k' s) l' = Inr d'"
    and "ck_bind (read_document env a signature_path) (\<lambda>v. pack_py (json_index v ''value''))
       = ck_bind (read_document env b signature_path) (\<lambda>v. pack_py (json_index v ''value''))"
    and "\<And>t. line_token (pe_float env t)"
  shows "(set (archive_names a) = set (archive_names b)
      \<and> (\<forall>path. path \<notin> {manifest_path, sbom_path, signature_path} \<longrightarrow> archive_read a path = archive_read b path))
    \<or> collides (pr_sha256 (pe_prims env)) \<or> collides (pr_hmac_sha256 (pe_prims env) s)"
proof -
  let ?h = "pr_hmac_sha256 (pe_prims env) s"
  from assms(1) obtain m w z f v where a: "read_document env a manifest_path = Inr m" "read_document env a sbom_path = Inr w"
      "read_document env a signature_path = Inr z" "json_index m ''files'' = Inr (JObj f)" "json_index z ''value'' = Inr v"
      "v = JStr (?h (signed_payload m w))"
      "set (archive_names a) = set (dict_keys f) \<union> {manifest_path, sbom_path, signature_path}"
      "\<forall>f \<in> set f. \<exists>payload. archive_read a (fst f) = Inr payload \<and> snd f = JStr (pr_sha256 (pe_prims env) payload)"
    by (rule verified_documents) (simp add: hmac_verify)
  from assms(2) obtain m' w' z' f' v' where b: "read_document env b manifest_path = Inr m'" "read_document env b sbom_path = Inr w'"
      "read_document env b signature_path = Inr z'" "json_index m' ''files'' = Inr (JObj f')" "json_index z' ''value'' = Inr v'"
      "v' = JStr (?h (signed_payload m' w'))"
      "set (archive_names b) = set (dict_keys f') \<union> {manifest_path, sbom_path, signature_path}"
      "\<forall>f \<in> set f'. \<exists>payload. archive_read b (fst f) = Inr payload \<and> snd f = JStr (pr_sha256 (pe_prims env) payload)"
    by (rule verified_documents) (simp add: hmac_verify)
  have same: "?h (signed_payload m w) = ?h (signed_payload m' w')" using assms(3) a(3,5,6) b(3,5,6) by simp
  show ?thesis
  proof (cases "collides ?h \<or> collides (pr_sha256 (pe_prims env))")
    case False
    with same have "signed_payload m w = signed_payload m' w'" by (auto simp: collides_def)
    moreover have sound: "sound_json m" "sound_json m'" "sound_json w" "sound_json w'"
      by (rule read_document_sound [OF assms(4)]; fact)+
    ultimately have "sort_keys m = sort_keys m'" using two_lines_inj [OF sound] by (simp add: signed_payload_def)
    moreover have "\<forall>x \<in> set f. \<exists>t. snd x = JStr t" "\<forall>x \<in> set f'. \<exists>t. snd x = JStr t"
      using a(8) b(8) by blast+
    ultimately have "dict_get f k = dict_get f' k" for k
      using a(4) b(4) by (intro same_files [OF sound(1,2)])
    from same_contents [OF a(7) b(7) a(8) b(8) this] False show ?thesis by blast
  qed blast
qed

section \<open>What was built verifies\<close>

subsection \<open>Sorted documents\<close>

lemma sort_key_map_keep:
  assumes "\<And>x. fst (g x) = fst x"
  shows "sort_key fst (map g xs) = map g (sort_key fst xs)"
proof -
  have "insort_key fst (g x) (map g ys) = map g (insort_key fst x ys)" for x ys
    by (induction ys) (simp_all add: assms)
  then show ?thesis by (induction xs) simp_all
qed

lemma sort_key_twice [simp]: "sort_key f (sort_key f xs) = sort_key f xs"
  by (rule sort_key_id_if_sorted) simp

lemma sort_keys_idem [simp]: "sort_keys (sort_keys v) = sort_keys v"
proof (induction v)
  case (JObj kvs)
  let ?g = "map_prod id sort_keys"
  have "sort_keys (sort_keys (snd kv)) = sort_keys (snd kv)" if "kv \<in> set kvs" for kv
    using JObj [OF that, of "snd kv"] by (cases kv) simp
  then have "map ?g (map ?g kvs) = map ?g kvs" by auto
  then show ?case
    unfolding sort_keys.simps sort_key_map_keep [of ?g, simplified] sort_key_twice by simp
qed simp_all

lemma sort_keys_get:
  "dict_wf d \<Longrightarrow> dict_get (sort_key fst (map (map_prod id sort_keys) d)) k = map_option sort_keys (dict_get d k)"
proof -
  assume "dict_wf d"
  then have "dict_wf (map (map_prod id sort_keys) d)" by (simp add: comp_def)
  then have "dict_get (sort_key fst (map (map_prod id sort_keys) d)) k = dict_get (map (map_prod id sort_keys) d) k"
    by (metis dict_get_sort_key)
  also have "\<dots> = map_option sort_keys (dict_get d k)" by (induction d) auto
  finally show ?thesis .
qed

lemma json_index_sorted:
  "dict_wf d \<Longrightarrow> map_option sort_keys (dict_get d k) = Some w \<Longrightarrow> json_index (sort_keys (JObj d)) k = Inr w"
  using sort_keys_get [of d k] by (auto simp: json_index_def)

lemma json_get_sorted:
  "dict_wf d \<Longrightarrow> map_option sort_keys (dict_get d k) = Some w \<Longrightarrow> json_get (sort_keys (JObj d)) k = Inr w"
  using sort_keys_get [of d k] by (auto simp: json_get_def member_def)

lemma file_digests_sorted: "sort_keys (JObj (file_digests p files)) = JObj (file_digests p files)"
proof -
  have "map (map_prod id sort_keys) (file_digests p files) = file_digests p files"
    by (auto simp: file_digests_def)
  moreover have "sort_key fst (file_digests p files) = file_digests p files"
    by (rule sort_key_id_if_sorted) (simp add: file_digests_def comp_def case_prod_unfold)
  ultimately show ?thesis by simp
qed

lemma file_digests_wf: "dict_wf files \<Longrightarrow> dict_wf (file_digests p files)"
proof -
  assume "dict_wf files"
  then have "dict_wf (sort_key fst files)" by simp
  then show ?thesis by (simp add: file_digests_def comp_def case_prod_unfold)
qed

lemma file_digests_mem: "f \<in> set (file_digests p files) \<longleftrightarrow> (\<exists>payload. (fst f, payload) \<in> set files \<and> snd f = JStr (pr_sha256 p payload))"
  by (cases f) (force simp: file_digests_def)

subsection \<open>Plain ASCII text\<close>

definition ascii_text :: "string \<Rightarrow> bool" where
  "ascii_text s \<longleftrightarrow> list_all (\<lambda>c. 0 < (of_char c :: nat) \<and> (of_char c :: nat) < 128) s"

lemma ascii_simps [simp]:
  "ascii_text []" "ascii_text (c # s) \<longleftrightarrow> 0 < (of_char c :: nat) \<and> (of_char c :: nat) < 128 \<and> ascii_text s"
  "ascii_text (s @ t) \<longleftrightarrow> ascii_text s \<and> ascii_text t" "ascii_text (concat ss) \<longleftrightarrow> list_all ascii_text ss"
  by (auto simp: ascii_text_def list_all_iff)

lemma ascii_subset: "set s \<subseteq> set t \<Longrightarrow> ascii_text t \<Longrightarrow> ascii_text s"
  by (auto simp: ascii_text_def list_all_iff)

lemma esc_char_ascii: "ascii_text (esc_char c)"
proof -
  have hex: "\<forall>n \<in> set [0..<16]. ascii_text [hex_char n]" by code_simp
  have "(of_char c :: nat) div 16 < 16"
    by (rule less_mult_imp_div_less) (use nat_of_char_less_256 [of c] in simp)
  with hex have "ascii_text [hex_char (of_char c div 16)]" "ascii_text [hex_char (of_char c mod 16)]" by simp_all
  then show ?thesis by (auto simp: esc_char_def short_escape_def split: option.split if_splits)
qed

lemma quote_ascii: "ascii_text (quote s)"
  by (simp add: quote_def list_all_iff esc_char_ascii)

lemma join_with_ascii: "ascii_text sep \<Longrightarrow> list_all ascii_text xs \<Longrightarrow> ascii_text (join_with sep xs)"
  by (induction sep xs rule: join_with.induct) simp_all

lemma render_ascii:
  assumes "\<And>l. ascii_text (nl l)" "ascii_text sp"
  shows "plain v \<Longrightarrow> ascii_text (render nl sp v l)"
proof (induction v arbitrary: l)
  case (JInt i)
  have "ascii_text ''0123456789-''" by simp
  from ascii_subset [OF show_int_chars this] show ?case by simp
next
  case (JArr xs)
  then have "list_all ascii_text (map (\<lambda>x. render nl sp x (Suc l)) xs)" by (simp add: list_all_iff)
  then show ?case by (simp add: assms join_with_ascii comp_def)
next
  case (JObj kvs)
  then have "list_all ascii_text (map (\<lambda>kv. quote (fst kv) @ CHR '':'' # sp @ render nl sp (snd kv) (Suc l)) kvs)"
    by (auto simp: list_all_iff assms quote_ascii)
  then show ?case by (simp add: assms join_with_ascii comp_def)
qed (simp_all add: quote_ascii)

lemma document_reads:
  assumes "plain v"
  shows "json_loads_bytes decode fl (document_text v) = Inr (sort_keys v)"
proof -
  have "ascii_text (indent2 l)" for l by (induction l) (simp_all add: indent2_def)
  then have "ascii_text (dumps_indent v)"
    unfolding dumps_indent_def by (intro render_ascii) (simp_all add: assms plain_sort_keys)
  then have "plain_ascii (document_text v)" by (simp add: document_text_def plain_ascii_def ascii_text_def)
  then show ?thesis
    using loads_dumps_indent [OF assms, of "[CHR 0x0A]"] by (simp add: json_loads_bytes_def document_text_def json_space_def)
qed

subsection \<open>The archive that was written\<close>

definition null_free :: "string \<Rightarrow> bool" where
  "null_free path \<longleftrightarrow> CHR 0x00 \<notin> set path"

lemma zip_name_id: "null_free path \<Longrightarrow> zip_name path = path"
  unfolding zip_name_def null_free_def by (rule takeWhile_eq_all_conv [THEN iffD2]) auto

lemma written_names:
  assumes "\<forall>e \<in> set entries. null_free (fst e)"
  shows "archive_names (write_archive env entries) = dict_keys entries"
  using assms by (auto simp: archive_names_def write_archive_def zip_name_id)

lemma written_read:
  assumes "\<forall>e \<in> set entries. null_free (fst e)" "dict_wf entries"
  shows "archive_read (write_archive env entries) path
    = (case dict_get entries path of None \<Rightarrow> Inl (Package_Py (KeyError path)) | Some payload \<Rightarrow> Inr payload)"
proof -
  let ?m = "map (\<lambda>(path, payload). (path, Inr payload :: package_error + string)) entries"
  have "map (\<lambda>e. (ze_filename e, ze_data e)) (za_entries (write_archive env entries)) = ?m"
    using assms(1) by (auto simp: write_archive_def zip_name_id)
  moreover have "dict_wf ?m" using assms(2) by (simp add: comp_def case_prod_unfold)
  then have "dict_get (rev ?m) = dict_get ?m"
    by (subst map_of_inject_set) (simp_all only: rev_map [symmetric] distinct_rev set_rev)
  moreover have "dict_get ?m path = map_option Inr (dict_get entries path)" by (induction entries) auto
  ultimately show ?thesis by (simp add: archive_read_def split: option.split)
qed

definition built_entries :: "package_env \<Rightarrow> (string, string) dict \<Rightarrow> artifact_signer \<Rightarrow> string \<Rightarrow> string
    \<Rightarrow> (string, string) dict \<Rightarrow> (string, string) dict" where
  "built_entries env files signer name version dependencies =
     (let manifest = package_manifest (pe_prims env) name version files;
          sbom = package_sbom (pe_prims env) name version files dependencies
      in package_entries files manifest sbom (package_signature signer manifest sbom))"

lemma built_archive:
  assumes "build_signed_package env files signer name version dependencies = Inr (a, d)"
  shows "a = write_archive env (sort_key fst (built_entries env files signer name version dependencies))
    \<and> d = pr_sha256 (pe_prims env) (za_bytes a)"
  using assms by (auto simp: build_signed_package_def built_entries_def Let_def split: if_splits)

lemma paths_differ [simp]:
  "manifest_path \<noteq> sbom_path" "sbom_path \<noteq> manifest_path" "manifest_path \<noteq> signature_path"
  "signature_path \<noteq> manifest_path" "sbom_path \<noteq> signature_path" "signature_path \<noteq> sbom_path"
  by (simp_all add: manifest_path_def sbom_path_def signature_path_def)

lemma paths_null_free [simp]: "null_free manifest_path" "null_free sbom_path" "null_free signature_path"
  by (simp_all add: manifest_path_def sbom_path_def signature_path_def null_free_def)

lemma built_entries_facts:
  fixes env signer name version dependencies
  assumes "dict_wf files" "\<forall>f \<in> set files. null_free (fst f)"
  defines "e \<equiv> built_entries env files signer name version dependencies"
    and "m \<equiv> package_manifest (pe_prims env) name version files"
    and "b \<equiv> package_sbom (pe_prims env) name version files dependencies"
  shows "dict_wf e" "\<forall>f \<in> set e. null_free (fst f)"
    "dict_get e manifest_path = Some (document_text m)" "dict_get e sbom_path = Some (document_text b)"
    "dict_get e signature_path = Some (document_text (package_signature signer m b))"
    "path \<notin> {manifest_path, sbom_path, signature_path} \<Longrightarrow> dict_get e path = dict_get files path"
proof -
  have keys: "set (dict_keys e) = set (dict_keys files) \<union> {manifest_path, sbom_path, signature_path}"
    by (auto simp: e_def built_entries_def package_entries_def Let_def)
  have "null_free k" if "k \<in> set (dict_keys e)" for k
    using that assms(2) unfolding keys by auto
  then show "\<forall>f \<in> set e. null_free (fst f)" by simp
qed (use assms(1) in \<open>simp_all add: e_def m_def b_def built_entries_def package_entries_def Let_def\<close>)

lemma plain_manifest: "dict_wf files \<Longrightarrow> plain (package_manifest p name version files)"
  using file_digests_wf [of files p] by (auto simp: package_manifest_def list_all_iff file_digests_def)

lemma plain_sbom: "plain (package_sbom p name version files dependencies)"
proof -
  have "plain (JObj c) \<and> plain (member c ''bom-ref'')" if "c \<in> set (package_components p files dependencies)" for c
    using that by (auto simp: package_components_def file_component_def dependency_component_def file_digests_def member_def)
  then show ?thesis
    by (simp add: package_sbom_def Let_def list_all_iff show_int_def show_nat.simps max_int_digits_def)
qed

lemma plain_signature: "plain (package_signature signer m b)"
  by (simp add: package_signature_def)

lemma built_documents:
  assumes "build_signed_package env files signer name version dependencies = Inr (a, d)"
    and "dict_wf files" "\<forall>f \<in> set files. null_free (fst f)"
  defines "m \<equiv> package_manifest (pe_prims env) name version files"
    and "b \<equiv> package_sbom (pe_prims env) name version files dependencies"
  shows "read_document env a manifest_path = Inr (sort_keys m)" "read_document env a sbom_path = Inr (sort_keys b)"
    "read_document env a signature_path = Inr (sort_keys (package_signature signer m b))"
    "archive_read a manifest_path = Inr (document_text m)"
    "path \<notin> {manifest_path, sbom_path, signature_path} \<Longrightarrow> archive_read a path
      = (case dict_get files path of None \<Rightarrow> Inl (Package_Py (KeyError path)) | Some payload \<Rightarrow> Inr payload)"
    "set (archive_names a) = set (dict_keys files) \<union> {manifest_path, sbom_path, signature_path}"
    "distinct (archive_names a)"
    "archive_read a sbom_path = Inr (document_text b)" "archive_read a signature_path = Inr (document_text (package_signature signer m b))"
proof -
  let ?e = "built_entries env files signer name version dependencies"
  note e = built_entries_facts [where env = env and signer = signer and name = name and version = version
      and dependencies = dependencies, OF assms(2,3)]
  have a: "a = write_archive env (sort_key fst ?e)" using built_archive [OF assms(1)] by simp
  have free: "\<forall>f \<in> set (sort_key fst ?e). null_free (fst f)" using e(2) by simp
  have wf: "dict_wf (sort_key fst ?e)" using e(1) by simp
  have read: "archive_read a path = (case dict_get ?e path of None \<Rightarrow> Inl (Package_Py (KeyError path)) | Some payload \<Rightarrow> Inr payload)" for path
    unfolding a written_read [OF free wf] dict_get_sort_key [OF e(1)] ..
  show "archive_read a manifest_path = Inr (document_text m)" "archive_read a sbom_path = Inr (document_text b)"
    "archive_read a signature_path = Inr (document_text (package_signature signer m b))"
    by (simp_all add: read e m_def b_def)
  show "read_document env a manifest_path = Inr (sort_keys m)" "read_document env a sbom_path = Inr (sort_keys b)"
    "read_document env a signature_path = Inr (sort_keys (package_signature signer m b))"
    unfolding read_document_def read e(3-5)
    by (simp_all add: document_reads plain_manifest plain_sbom plain_signature assms(2) m_def b_def)
  show "path \<notin> {manifest_path, sbom_path, signature_path} \<Longrightarrow> archive_read a path
      = (case dict_get files path of None \<Rightarrow> Inl (Package_Py (KeyError path)) | Some payload \<Rightarrow> Inr payload)"
    by (simp add: read e(6))
  have "archive_names a = dict_keys (sort_key fst ?e)" unfolding a by (rule written_names [OF free])
  moreover have "set (dict_keys ?e) = set (dict_keys files) \<union> {manifest_path, sbom_path, signature_path}"
    by (auto simp: built_entries_def package_entries_def Let_def)
  ultimately show "set (archive_names a) = set (dict_keys files) \<union> {manifest_path, sbom_path, signature_path}"
    "distinct (archive_names a)" using wf by simp_all
qed

lemma require_True: "b \<Longrightarrow> require b m = Inr ()"
  by simp

lemma manifest_files: "json_index (sort_keys (package_manifest p name version files)) ''files'' = Inr (JObj (file_digests p files))"
  unfolding package_manifest_def by (rule json_index_sorted) (simp_all add: file_digests_sorted del: sort_keys.simps)

lemma check_checksums_ok:
  "\<forall>f \<in> set fs. \<exists>payload. archive_read a (fst f) = Inr payload \<and> snd f = JStr (pr_sha256 p payload)
    \<Longrightarrow> check_checksums p a fs = Inr ()"
  by (induction fs) (auto simp: require_True)

lemma check_signer_ok: "check_signer signer (sort_keys (package_signature signer m b)) = Inr ()"
proof -
  let ?z = "sort_keys (package_signature signer m b)"
  have "json_index ?z ''algorithm'' = Inr (JStr (sg_algorithm signer))" "json_index ?z ''keyId'' = Inr (JStr (sg_key_id signer))"
    unfolding package_signature_def by (rule json_index_sorted; simp)+
  then show ?thesis by (simp add: check_signer_def require_True)
qed

lemma check_signature_ok:
  assumes "\<And>t. sg_verify signer t (JStr (sg_sign signer t)) = Inr True"
  shows "check_signature signer (sort_keys m) (sort_keys b) (sort_keys (package_signature signer m b)) = Inr ()"
proof -
  have "json_index (sort_keys (package_signature signer m b)) ''value'' = Inr (JStr (sg_sign signer (signed_payload m b)))"
    unfolding package_signature_def by (rule json_index_sorted) simp_all
  moreover have "signed_payload (sort_keys m) (sort_keys b) = signed_payload m b" by (simp add: signed_payload_def canonical_def)
  ultimately show ?thesis by (simp add: check_signature_def assms require_True)
qed

lemma file_component_facts:
  fixes path h
  defines "c \<equiv> sort_keys (JObj (file_component (path, JStr h)))"
  shows "json_get c ''type'' = Inr (JStr ''file'')" "json_get c ''bom-ref'' = Inr (JStr (''file:'' @ path))"
    "component_digest c = Inr (JStr path, JStr h)"
proof -
  have wf: "dict_wf (file_component (path, JStr h))" by (simp add: file_component_def)
  note get = json_get_sorted [OF wf] json_index_sorted [OF wf]
  show "json_get c ''type'' = Inr (JStr ''file'')" "json_get c ''bom-ref'' = Inr (JStr (''file:'' @ path))"
    unfolding c_def by (rule get(1); simp add: file_component_def)+
  have "json_index c ''name'' = Inr (JStr path)"
    "json_index c ''hashes'' = Inr (sort_keys (JArr [JObj [(''alg'', JStr ''SHA-256''), (''content'', JStr h)]]))"
    unfolding c_def by (rule get(2); simp add: file_component_def)+
  moreover have "json_index (sort_keys (JObj [(''alg'', JStr ''SHA-256''), (''content'', JStr h)])) ''alg'' = Inr (JStr ''SHA-256'')"
    "json_index (sort_keys (JObj [(''alg'', JStr ''SHA-256''), (''content'', JStr h)])) ''content'' = Inr (JStr h)"
    by (rule json_index_sorted; simp)+
  ultimately show "component_digest c = Inr (JStr path, JStr h)"
    by (simp add: component_digest_def json_elements_def hashable_def json_scalar_def del: sort_keys.simps(7))
qed

lemma dependency_component_facts:
  fixes name version
  defines "c \<equiv> sort_keys (JObj (dependency_component (name, version)))"
  shows "json_get c ''type'' = Inr (JStr ''library'')" "json_get c ''bom-ref'' = Inr (JStr (purl ''pypi'' name version))"
proof -
  have wf: "dict_wf (dependency_component (name, version))" by (simp add: dependency_component_def)
  show "json_get c ''type'' = Inr (JStr ''library'')" "json_get c ''bom-ref'' = Inr (JStr (purl ''pypi'' name version))"
    unfolding c_def by (rule json_get_sorted [OF wf]; simp add: dependency_component_def)+
qed

lemma sbom_files_dependencies:
  "sbom_files (map (\<lambda>c. sort_keys (JObj (dependency_component c))) ds) acc = Inr acc"
  by (induction ds) (auto simp: dependency_component_facts simp del: sort_keys.simps)

lemma sbom_files_digests:
  assumes "distinct (dict_keys acc @ map (\<lambda>f. JStr (fst f)) fs)" and "\<forall>f \<in> set fs. \<exists>h. snd f = JStr h"
  shows "sbom_files (map (\<lambda>f. sort_keys (JObj (file_component f))) fs @ cs) acc
    = sbom_files cs (acc @ map (\<lambda>f. (JStr (fst f), snd f)) fs)"
  using assms
proof (induction fs arbitrary: acc)
  case (Cons f fs)
  then obtain path h where f: "f = (path, JStr h)" by (cases f) auto
  have new: "dict_set (JStr path) (JStr h) acc = acc @ [(JStr path, JStr h)]" using Cons.prems f by (simp add: dict_set_new)
  have "sbom_files (map (\<lambda>f. sort_keys (JObj (file_component f))) fs @ cs) (acc @ [(JStr path, JStr h)])
      = sbom_files cs ((acc @ [(JStr path, JStr h)]) @ map (\<lambda>f. (JStr (fst f), snd f)) fs)"
    using Cons.prems f by (intro Cons.IH) auto
  then show ?case by (simp add: f new file_component_facts del: sort_keys.simps)
qed simp

lemma all_refs_ok: "\<forall>c \<in> set cs. \<exists>r. json_get c ''bom-ref'' = Inr r \<and> json_truthy r \<Longrightarrow> all_refs cs = Inr True"
  by (induction cs) auto

lemma check_sbom_ok:
  assumes "dict_wf files"
  shows "check_sbom (file_digests p files) (sort_keys (package_sbom p name version files dependencies)) = Inr ()"
proof -
  let ?fs = "file_digests p files" and ?b = "sort_keys (package_sbom p name version files dependencies)"
  let ?cs = "map (\<lambda>f. sort_keys (JObj (file_component f))) ?fs
    @ map (\<lambda>c. sort_keys (JObj (dependency_component c))) (sort_key fst dependencies)"
  have comps: "json_index ?b ''components'' = Inr (JArr ?cs)"
    unfolding package_sbom_def Let_def
    by (rule json_index_sorted) (simp_all add: package_components_def comp_def del: sort_keys.simps(7))
  have format: "json_get ?b ''bomFormat'' = Inr (JStr ''CycloneDX'')"
    unfolding package_sbom_def Let_def by (rule json_get_sorted) simp_all
  have deps: "\<exists>x xs. json_get ?b ''dependencies'' = Inr (JArr (x # xs))"
    unfolding package_sbom_def Let_def by (intro exI, rule json_get_sorted) (simp, simp)
  then obtain x xs where deps: "json_get ?b ''dependencies'' = Inr (JArr (x # xs))" by blast
  have texts: "\<forall>f \<in> set ?fs. \<exists>h. snd f = JStr h" using file_digests_mem by blast
  have "distinct (map (\<lambda>f. JStr (fst f)) ?fs)"
    using file_digests_wf [OF assms, of p] by (simp add: distinct_map inj_on_def)
  with texts have covered: "sbom_files ?cs [] = Inr (map (\<lambda>f. (JStr (fst f), snd f)) ?fs)"
    by (subst sbom_files_digests) (simp_all add: sbom_files_dependencies del: sort_keys.simps)
  have "all_refs ?cs = Inr True"
  proof (rule all_refs_ok, rule ballI)
    fix c assume "c \<in> set ?cs"
    then consider path h where "c = sort_keys (JObj (file_component (path, JStr h)))"
      | n v where "c = sort_keys (JObj (dependency_component (n, v)))"
      using texts by (auto simp del: sort_keys.simps)
    then show "\<exists>r. json_get c ''bom-ref'' = Inr r \<and> json_truthy r"
      by cases (simp_all add: file_component_facts dependency_component_facts json_truthy_def purl_def del: sort_keys.simps)
  qed
  then have "graph_complete ?b ?cs = Inr True" by (simp add: graph_complete_def format deps json_truthy_def)
  with covered comps show ?thesis
    by (simp add: check_sbom_def json_elements_def require_True same_dict_def list_all_iff)
qed

lemma built_checksums:
  assumes "build_signed_package env files signer name version dependencies = Inr (a, d)"
    and "dict_wf files" and "\<forall>f \<in> set files. null_free (fst f)"
  defines "m \<equiv> package_manifest (pe_prims env) name version files"
    and "b \<equiv> package_sbom (pe_prims env) name version files dependencies"
  shows "check_checksums (pe_prims env) a (file_digests (pe_prims env) files) = Inr () \<longleftrightarrow>
    (\<forall>(path, document) \<in> {(manifest_path, m), (sbom_path, b), (signature_path, package_signature signer m b)}.
      \<forall>payload. dict_get files path = Some payload
        \<longrightarrow> pr_sha256 (pe_prims env) payload = pr_sha256 (pe_prims env) (document_text document))" (is "?sums \<longleftrightarrow> ?kept")
proof -
  note docs = built_documents [OF assms(1-3), folded m_def b_def]
  have "?sums \<longleftrightarrow> (\<forall>f \<in> set (file_digests (pe_prims env) files).
      \<exists>payload. archive_read a (fst f) = Inr payload \<and> snd f = JStr (pr_sha256 (pe_prims env) payload))"
    using check_checksums_Inr check_checksums_ok by blast
  also have "\<dots> \<longleftrightarrow> (\<forall>path payload. dict_get files path = Some payload
      \<longrightarrow> (\<exists>written. archive_read a path = Inr written \<and> pr_sha256 (pe_prims env) payload = pr_sha256 (pe_prims env) written))"
  proof -
    have mem: "set (file_digests (pe_prims env) files)
        = {(path, JStr (pr_sha256 (pe_prims env) payload)) | path payload. dict_get files path = Some payload}"
      by (auto simp: file_digests_mem dict_get_Some_in [OF assms(2)])
    have "(\<forall>f \<in> set (file_digests (pe_prims env) files). P f) \<longleftrightarrow> (\<forall>path payload. dict_get files path = Some payload
        \<longrightarrow> P (path, JStr (pr_sha256 (pe_prims env) payload)))" for P
      unfolding mem by blast
    then show ?thesis by simp
  qed
  also have "\<dots> \<longleftrightarrow> ?kept"
  proof -
    have other: "\<exists>written. archive_read a path = Inr written \<and> pr_sha256 (pe_prims env) payload = pr_sha256 (pe_prims env) written"
      if "dict_get files path = Some payload" "path \<notin> {manifest_path, sbom_path, signature_path}" for path payload
      using docs(5) [OF that(2)] that(1) by simp
    show ?thesis using other docs(4,8,9) by fastforce
  qed
  finally show ?thesis .
qed

lemma built_verify_iff:
  assumes "build_signed_package env files signer name version dependencies = Inr (a, d)"
    and "dict_wf files" and "\<forall>f \<in> set files. null_free (fst f)"
    and "\<And>t. sg_verify signer t (JStr (sg_sign signer t)) = Inr True"
  shows "verify_signed_package env a signer (Some l) = Inr x \<longleftrightarrow> x = d
    \<and> int (length (za_entries a)) \<le> al_max_entries l \<and> check_sizes (pe_round env) l (za_entries a) 0 = Inr ()
    \<and> check_checksums (pe_prims env) a (file_digests (pe_prims env) files) = Inr ()"
proof -
  note docs = built_documents [OF assms(1-3)]
  let ?fs = "file_digests (pe_prims env) files"
  have keys: "set (dict_keys ?fs) = set (dict_keys files)" by (force simp: file_digests_def)
  have names: "check_names a (JObj ?fs) = Inr ()" unfolding check_names_Inr keys by (rule docs(6))
  have "check_archive (pe_round env) l a = Inr () \<longleftrightarrow>
      int (length (za_entries a)) \<le> al_max_entries l \<and> check_sizes (pe_round env) l (za_entries a) 0 = Inr ()"
    using docs(7) by (simp add: check_archive_def ck_bind_Inr)
  with docs(1-3) names check_sbom_ok [OF assms(2)] check_signature_ok [OF assms(4)] built_archive [OF assms(1)]
  show ?thesis
    by (auto simp: verify_signed_package_def verify_documents_def manifest_files check_signer_ok json_items_def ck_bind_Inr)
qed

lemma built_verifies:
  assumes "build_signed_package env files signer name version dependencies = Inr (a, d)"
    and "dict_wf files" and "\<forall>f \<in> set files. null_free (fst f)"
    and "set (dict_keys files) \<inter> {manifest_path, sbom_path, signature_path} = {}"
    and "\<And>t. sg_verify signer t (JStr (sg_sign signer t)) = Inr True"
    and "int (length (za_entries a)) \<le> al_max_entries l" and "check_sizes (pe_round env) l (za_entries a) 0 = Inr ()"
  shows "verify_signed_package env a signer (Some l) = Inr d"
proof -
  have "dict_get files path = None" if "path \<in> {manifest_path, sbom_path, signature_path}" for path
    using assms(4) that by (metis disjoint_iff in_keys)
  then have "check_checksums (pe_prims env) a (file_digests (pe_prims env) files) = Inr ()"
    unfolding built_checksums [OF assms(1-3)] by auto
  with built_verify_iff [OF assms(1-3,5)] assms(6,7) show ?thesis by simp
qed

text \<open>
  C18. When a package that was built verifies: for files under distinct paths without null characters and a signer that accepts
  its own signatures, verification succeeds exactly if the archive is within the limits on entries and sizes and no payload file
  was lost under one of the three document paths, that is, a file given under such a path has the digest of the
  document written over it; and then it gives the digest that building gave, and nothing else.
\<close>

theorem built_package_verifies_iff:
  assumes "build_signed_package env files signer name version dependencies = Inr (a, d)"
    and "dict_wf files" and "\<forall>f \<in> set files. null_free (fst f)"
    and "\<And>t. sg_verify signer t (JStr (sg_sign signer t)) = Inr True"
  defines "m \<equiv> package_manifest (pe_prims env) name version files"
    and "b \<equiv> package_sbom (pe_prims env) name version files dependencies"
  shows "verify_signed_package env a signer (Some l) = Inr x \<longleftrightarrow> x = d
    \<and> int (length (za_entries a)) \<le> al_max_entries l \<and> check_sizes (pe_round env) l (za_entries a) 0 = Inr ()
    \<and> (\<forall>(path, document) \<in> {(manifest_path, m), (sbom_path, b), (signature_path, package_signature signer m b)}.
        \<forall>payload. dict_get files path = Some payload
          \<longrightarrow> pr_sha256 (pe_prims env) payload = pr_sha256 (pe_prims env) (document_text document))"
  unfolding built_verify_iff [OF assms(1-4)] built_checksums [OF assms(1-3)] m_def b_def by (rule refl)

text \<open>A payload file under the path of the manifest is overwritten by it, and the package built never verifies.\<close>

lemma reserved_path_never_verifies:
  assumes "build_signed_package env files signer name version dependencies = Inr (a, d)"
    and "dict_wf files" and "\<forall>f \<in> set files. null_free (fst f)"
    and "dict_get files manifest_path = Some payload"
    and "pr_sha256 (pe_prims env) payload
      \<noteq> pr_sha256 (pe_prims env) (document_text (package_manifest (pe_prims env) name version files))"
  shows "verify_signed_package env a other limits \<noteq> Inr x"
proof
  note docs = built_documents [OF assms(1-3)]
  let ?fs = "file_digests (pe_prims env) files"
  assume "verify_signed_package env a other limits = Inr x"
  then have "\<forall>f \<in> set ?fs. \<exists>payload. archive_read a (fst f) = Inr payload \<and> snd f = JStr (pr_sha256 (pe_prims env) payload)"
    by (rule verified_documents) (use docs(1) manifest_files [of "pe_prims env" name version files] in auto)
  moreover have "(manifest_path, JStr (pr_sha256 (pe_prims env) payload)) \<in> set ?fs"
    using map_of_SomeD [OF assms(4)] file_digests_mem by fastforce
  ultimately show False using docs(4) assms(5) by fastforce
qed

section \<open>A package\<close>

definition sample_package_env :: package_env where
  "sample_package_env = \<lparr>pe_prims = sample_prims\<lparr>pr_sha256 := \<lambda>m. m, pr_hmac_sha256 := \<lambda>k m. show_nat (length m)\<rparr>,
     pe_compressed = length, pe_archive_bytes = (\<lambda>es. concat (map snd es)), pe_decode = (\<lambda>b. Inl (ValueError b)),
     pe_float = (\<lambda>t. ''1.5''), pe_round = (\<lambda>q. q)\<rparr>"

definition sample_package_signer :: artifact_signer where
  "sample_package_signer = hmac_signer (pe_prims sample_package_env) ''lab'' ''0123456789abcdef''"

definition sample_package :: "package_error + zip_archive \<times> string" where
  "sample_package = build_signed_package sample_package_env [(''pack/b.py'', ''pass''), (''a.txt'', ''hello'')]
     sample_package_signer ''demo'' ''1.0'' [(''httpx'', ''0.27'')]"

lemma show_nat_compares: "compare_digest (show_nat n) (JStr (show_nat n)) = Inr True"
proof -
  have "list_all (\<lambda>c. (of_char c :: nat) < 128) (show_nat n)"
  proof -
    have "\<forall>c \<in> set ''0123456789''. (of_char c :: nat) < 128" by simp
    then show ?thesis using show_nat_chars [of n] unfolding list_all_iff by blast
  qed
  then show ?thesis by (simp add: compare_digest_def)
qed

lemma sample_signer_accepts: "sg_verify sample_package_signer t (JStr (sg_sign sample_package_signer t)) = Inr True"
  by (simp add: sample_package_signer_def hmac_signer_def sample_package_env_def show_nat_compares)

definition sample_archive :: zip_archive where
  "sample_archive = (case sample_package of Inr (a, d) \<Rightarrow> a | Inl e \<Rightarrow> \<lparr>za_entries = [], za_bytes = []\<rparr>)"

lemma sample_package_built:
  "sample_package = Inr (sample_archive, pr_sha256 (pe_prims sample_package_env) (za_bytes sample_archive))"
proof -
  have "list_all (\<lambda>f. safe_path (fst f)) [(''pack/b.py'', ''pass''), (''a.txt'', ''hello'')]" by code_simp
  then show ?thesis by (simp add: sample_archive_def sample_package_def build_signed_package_def Let_def)
qed

text \<open>Limits an archive just meets.\<close>

definition exact_limits :: "zip_archive \<Rightarrow> archive_limits" where
  "exact_limits a = \<lparr>al_max_entries = int (length (za_entries a)),
     al_max_entry_bytes = (\<Sum>e\<leftarrow>za_entries a. int (ze_file_size e)),
     al_max_total_bytes = (\<Sum>e\<leftarrow>za_entries a. int (ze_file_size e)), al_max_compression_ratio = 1\<rparr>"

lemma check_sizes_stored:
  assumes "\<forall>e \<in> set es. ze_compress_size e = ze_file_size e" and "al_max_compression_ratio l = 1"
    and "0 \<le> t" "t + (\<Sum>e\<leftarrow>es. int (ze_file_size e)) \<le> al_max_total_bytes l" "al_max_entry_bytes l = al_max_total_bytes l"
  shows "check_sizes (\<lambda>q. q) l es t = Inr ()"
  using assms
proof (induction es arbitrary: t)
  case (Cons e es)
  have "0 \<le> (\<Sum>e\<leftarrow>es. int (ze_file_size e))" by (rule sum_list_nonneg) auto
  with Cons show ?case by (auto simp: Let_def)
qed simp

lemma stored_archive:
  "pe_compressed env = length \<Longrightarrow> \<forall>e \<in> set (za_entries (write_archive env es)). ze_compress_size e = ze_file_size e"
  by (auto simp: write_archive_def)

lemma sample_package_sizes:
  "check_sizes (pe_round sample_package_env) (exact_limits sample_archive) (za_entries sample_archive) 0 = Inr ()"
proof -
  have "pe_compressed sample_package_env = length" by (simp add: sample_package_env_def)
  from stored_archive [OF this] have "\<forall>e \<in> set (za_entries sample_archive). ze_compress_size e = ze_file_size e"
    using built_archive [OF sample_package_built [unfolded sample_package_def]] by metis
  then have "check_sizes (\<lambda>q. q) (exact_limits sample_archive) (za_entries sample_archive) 0 = Inr ()"
    by (intro check_sizes_stored) (simp_all add: exact_limits_def)
  then show ?thesis by (simp add: sample_package_env_def)
qed

lemma sample_paths:
  "dict_wf [(''pack/b.py'', ''pass''), (''a.txt'', ''hello'')]"
  "\<forall>f \<in> set [(''pack/b.py'', ''pass''), (''a.txt'', ''hello'')]. null_free (fst f)"
  "set (dict_keys [(''pack/b.py'', ''pass''), (''a.txt'', ''hello'')]) \<inter> {manifest_path, sbom_path, signature_path} = {}"
  by (simp_all add: null_free_def manifest_path_def sbom_path_def signature_path_def)

lemma sample_package_verifies:
  "verify_signed_package sample_package_env sample_archive sample_package_signer (Some (exact_limits sample_archive))
     = Inr (pr_sha256 (pe_prims sample_package_env) (za_bytes sample_archive))"
  using sample_package_sizes
  by (intro built_verifies [OF sample_package_built [unfolded sample_package_def] sample_paths] sample_signer_accepts)
    (simp_all add: exact_limits_def)

theorem built_package_verifies_iff_witness:
  "verify_signed_package sample_package_env sample_archive sample_package_signer (Some (exact_limits sample_archive))
     = Inr (pr_sha256 (pe_prims sample_package_env) (za_bytes sample_archive))
   \<and> verify_signed_package sample_package_env sample_archive sample_package_signer
       (Some ((exact_limits sample_archive)\<lparr>al_max_entries := 4\<rparr>)) \<noteq> Inr (pr_sha256 (pe_prims sample_package_env) (za_bytes sample_archive))"
proof -
  note iff = built_package_verifies_iff [OF sample_package_built [unfolded sample_package_def] sample_paths(1,2) sample_signer_accepts]
  have "dict_get [(''pack/b.py'', ''pass''), (''a.txt'', ''hello'')] path = None"
    if "path \<in> {manifest_path, sbom_path, signature_path}" for path
    using that by (auto simp: manifest_path_def sbom_path_def signature_path_def)
  moreover have "length (za_entries sample_archive) = 5" by code_simp
  ultimately show ?thesis unfolding iff using sample_package_sizes by (auto simp: exact_limits_def)
qed

theorem verified_package_is_signed_witness:
  "\<exists>manifest digests. read_document sample_package_env sample_archive manifest_path = Inr manifest
     \<and> json_index manifest ''files'' = Inr (JObj digests)
     \<and> set (archive_names sample_archive) = set (dict_keys digests) \<union> {manifest_path, sbom_path, signature_path}"
  using verified_package_is_signed [OF sample_package_verifies] by blast

lemma verified_package_within_limits_example:
  "(\<Sum>e\<leftarrow>za_entries sample_archive. int (ze_file_size e)) \<le> al_max_total_bytes (exact_limits sample_archive)"
  using verified_package_within_limits [OF sample_package_verifies] by blast

lemma signature_binds_contents_example:
  "(set (archive_names sample_archive) = set (archive_names sample_archive)
      \<and> (\<forall>path. path \<notin> {manifest_path, sbom_path, signature_path}
          \<longrightarrow> archive_read sample_archive path = archive_read sample_archive path))
    \<or> collides (pr_sha256 (pe_prims sample_package_env)) \<or> collides (pr_hmac_sha256 (pe_prims sample_package_env) ''0123456789abcdef'')"
proof (rule signature_binds_contents [OF sample_package_verifies [unfolded sample_package_signer_def]
      sample_package_verifies [unfolded sample_package_signer_def] refl])
  have "line_token ''1.5''" by code_simp
  then show "line_token (pe_float sample_package_env t)" for t by (simp add: sample_package_env_def)
qed

end
