(* ===== verification/Cross_Plane_Bridge.thy ===== *)
theory Cross_Plane_Bridge
  imports Cross_Source Action_Plans "HOL-Library.Product_Lexorder" "HOL-Library.Multiset"
begin

text \<open>
  cross_plane.py: the bridge that publishes one redacted claim of an execution to two evidence owners, and the
  reranking of candidates by a model plane. The sinks and the model plane are parameters; what was sent to the
  sinks is kept as a trace. A score is the JSON value the client returned, with the value of a float token as a
  parameter.
\<close>

section \<open>Publishing evidence\<close>

datatype evidence_owner = Sdk_Owner | Adlc_Owner

type_synonym publication = "evidence_owner \<times> (string, json) dict"

record bridge_env =
  be_prims :: prims
  be_answer :: "nat \<Rightarrow> evidence_owner \<Rightarrow> (string, json) dict \<Rightarrow> string checked"

record cross_plane_receipt =
  cp_request_id :: string
  cp_evidence_digest :: string
  cp_sdk_receipt_id :: string
  cp_adlc_evidence_id :: string

definition text_or_null :: "string option \<Rightarrow> json" where
  "text_or_null v = (case v of None \<Rightarrow> JNull | Some t \<Rightarrow> JStr t)"

definition locator :: "lineage_ref \<Rightarrow> json" where
  "locator l = JObj [(''sourceId'', JStr (lin_source_id l)), (''assetId'', JStr (lin_asset_id l)),
     (''recordId'', text_or_null (lin_record_id l)), (''fieldPath'', text_or_null (lin_field_path l))]"

definition execution_evidence :: "prims \<Rightarrow> coordination_result \<Rightarrow> request_identity \<Rightarrow> (string, json) dict" where
  "execution_evidence p result i =
     [(''schemaVersion'', JStr ''data.harness.cross-plane-execution/v1''),
      (''organizationId'', JStr (id_organization_id i)), (''solutionId'', JStr (id_solution_id i)),
      (''agentId'', JStr (id_agent_id i)), (''requestId'', JStr (id_request_id i)),
      (''traceId'', JStr (id_trace_id i)), (''policyDigest'', JStr (id_policy_digest i)),
      (''complete'', JBool (coordination_complete result)),
      (''includedSources'', JArr (map JStr (sort (included_ids (co_coverage result))))),
      (''excludedSources'', JArr (map JStr (sort (excluded_ids (co_coverage result))))),
      (''lineageDigest'', JStr (digest_of p (JArr (map locator (co_lineage result)))))]"

definition send_evidence :: "bridge_env \<Rightarrow> evidence_owner \<Rightarrow> (string, json) dict \<Rightarrow> (publication list, py_error, string) sm" where
  "send_evidence env plane_of evidence trace = (be_answer env (length trace) plane_of evidence, trace @ [(plane_of, evidence)])"

definition publish_evidence :: "bridge_env \<Rightarrow> coordination_result \<Rightarrow> request_identity
    \<Rightarrow> (publication list, py_error, cross_plane_receipt) sm" where
  "publish_evidence env result i =
     sm_bind (sm_guard (co_request_id result = id_request_id i)
       (ValueError ''coordination result and tenant request identity must match'')) (\<lambda>_.
     let evidence = execution_evidence (be_prims env) result i; digest = digest_of (be_prims env) (JObj evidence);
         sealed = dict_set ''evidenceDigest'' (JStr digest) evidence
     in sm_bind (send_evidence env Sdk_Owner sealed) (\<lambda>sdk.
        sm_bind (sm_guard (sdk \<noteq> []) (ValueError ''Python-SDK evidence sink returned no receipt identity'')) (\<lambda>_.
        sm_bind (send_evidence env Adlc_Owner (dict_set ''sdkReceiptId'' (JStr sdk) sealed)) (\<lambda>adlc.
        sm_bind (sm_guard (adlc \<noteq> []) (ValueError ''ADLC evidence sink returned no evidence identity'')) (\<lambda>_.
        sm_return \<lparr>cp_request_id = co_request_id result, cp_evidence_digest = digest, cp_sdk_receipt_id = sdk,
          cp_adlc_evidence_id = adlc\<rparr>)))))"

section \<open>Reranking\<close>

datatype rerank_error = Rerank_Py py_error | Overflow_Error

record model_plane =
  mp_max_candidates :: int
  mp_rerank :: "string \<Rightarrow> string \<Rightarrow> string list \<Rightarrow> (string, json) dict \<Rightarrow> json list checked"
  mp_float :: "string \<Rightarrow> rat"

definition mk_model_plane :: "model_plane \<Rightarrow> model_plane checked" where
  "mk_model_plane m = (if mp_max_candidates m \<le> 0 then Inl (ValueError ''model-plane candidate bound must be positive'') else Inr m)"

definition float_limit :: int where
  \<comment> \<open>the least integer whose conversion to a float overflows\<close>
  "float_limit = 2 ^ 1024 - 2 ^ 970"

definition finite_score :: "json \<Rightarrow> rerank_error + bool" where
  \<comment> \<open>\<open>isinstance(score, (int, float)) and math.isfinite(score)\<close>\<close>
  "finite_score v =
     (case v of
        JInt i \<Rightarrow> if \<bar>i\<bar> < float_limit then Inr True else Inl Overflow_Error
      | JBool b \<Rightarrow> Inr True
      | JFloat t \<Rightarrow> Inr (t \<notin> {''NaN'', ''Infinity'', ''-Infinity''})
      | _ \<Rightarrow> Inr False)"

primrec all_finite :: "json list \<Rightarrow> rerank_error + bool" where
  "all_finite [] = Inr True"
| "all_finite (v # vs) = ck_bind (finite_score v) (\<lambda>ok. if ok then all_finite vs else Inr False)"

definition score_value :: "model_plane \<Rightarrow> json \<Rightarrow> rat" where
  "score_value m v = (case v of JInt i \<Rightarrow> of_int i | JBool b \<Rightarrow> (if b then 1 else 0) | JFloat t \<Rightarrow> mp_float m t | _ \<Rightarrow> 0)"

definition ranking :: "rat list \<Rightarrow> nat list" where
  "ranking scores = sort_key (\<lambda>index. (- (scores ! index), index)) [0..<length scores]"

definition tenant_of :: "request_identity \<Rightarrow> (string, json) dict" where
  "tenant_of i = [(''organizationId'', JStr (id_organization_id i)), (''solutionId'', JStr (id_solution_id i)),
     (''agentId'', JStr (id_agent_id i))]"

definition rerank :: "model_plane \<Rightarrow> string \<Rightarrow> string list \<Rightarrow> request_identity \<Rightarrow> rerank_error + nat list" where
  "rerank m query candidates i =
     (if str_strip query = [] \<or> candidates = [] \<or> int (length candidates) > mp_max_candidates m
      then Inl (Rerank_Py (ValueError ''rerank requires a query and bounded candidates''))
      else case mp_rerank m (id_request_id i) query candidates (tenant_of i) of
        Inl e \<Rightarrow> Inl (Rerank_Py e)
      | Inr scores \<Rightarrow>
          if length scores \<noteq> length candidates
          then Inl (Rerank_Py (ValueError ''model-plane returned invalid rerank scores''))
          else ck_bind (all_finite scores) (\<lambda>ok.
            if ok then Inr (ranking (map (score_value m) scores))
            else Inl (Rerank_Py (ValueError ''model-plane returned invalid rerank scores''))))"

section \<open>What is published\<close>

lemma sealed_evidence: "dict_set ''evidenceDigest'' d (execution_evidence p r i) = execution_evidence p r i @ [(''evidenceDigest'', d)]"
  by (simp add: execution_evidence_def)

lemma doubly_sealed: "dict_set ''sdkReceiptId'' s (execution_evidence p r i @ [(''evidenceDigest'', d)])
    = execution_evidence p r i @ [(''evidenceDigest'', d), (''sdkReceiptId'', s)]"
  by (simp add: execution_evidence_def)

lemma publish_success:
  assumes "publish_evidence env r i s = (Inr receipt, t)"
  defines "e \<equiv> execution_evidence (be_prims env) r i"
  shows "co_request_id r = id_request_id i" "cp_evidence_digest receipt = digest_of (be_prims env) (JObj e)"
    "be_answer env (length s) Sdk_Owner (e @ [(''evidenceDigest'', JStr (cp_evidence_digest receipt))]) = Inr (cp_sdk_receipt_id receipt)"
    "cp_sdk_receipt_id receipt \<noteq> []" "cp_adlc_evidence_id receipt \<noteq> []"
    "t = s @ [(Sdk_Owner, e @ [(''evidenceDigest'', JStr (cp_evidence_digest receipt))]),
      (Adlc_Owner, e @ [(''evidenceDigest'', JStr (cp_evidence_digest receipt)), (''sdkReceiptId'', JStr (cp_sdk_receipt_id receipt))])]"
  using assms(1)
  by (auto simp: publish_evidence_def Let_def sm_bind_Inr_iff send_evidence_def sealed_evidence doubly_sealed e_def split: if_splits)

text \<open>
  A receipt means that both owners hold the same claim: the evidence went to each exactly once, in order,
  under the digest the receipt carries, the second time with the first owner's receipt.
\<close>

lemma evidence_reaches_both_owners:
  assumes "publish_evidence env r i s = (Inr receipt, t)"
  shows "\<exists>e. e = execution_evidence (be_prims env) r i \<and> cp_evidence_digest receipt = digest_of (be_prims env) (JObj e)
    \<and> cp_request_id receipt = id_request_id i
    \<and> t = s @ [(Sdk_Owner, e @ [(''evidenceDigest'', JStr (cp_evidence_digest receipt))]),
        (Adlc_Owner, e @ [(''evidenceDigest'', JStr (cp_evidence_digest receipt)), (''sdkReceiptId'', JStr (cp_sdk_receipt_id receipt))])]
    \<and> cp_sdk_receipt_id receipt \<noteq> [] \<and> cp_adlc_evidence_id receipt \<noteq> []"
proof -
  have "cp_request_id receipt = co_request_id r"
    using assms by (auto simp: publish_evidence_def Let_def sm_bind_Inr_iff split: if_splits)
  with publish_success [OF assms] show ?thesis by simp
qed

text \<open>
  C32. The evidence is redacted: two results for one request that agree on their completeness, on the sources
  included and excluded and on the locators of their lineage publish the same, whatever rows, documents, hits,
  watermarks and error details they hold.
\<close>

theorem evidence_is_redacted:
  assumes "co_request_id r = co_request_id q" and "coordination_complete r = coordination_complete q"
    and "mset (included_ids (co_coverage r)) = mset (included_ids (co_coverage q))"
    and "mset (excluded_ids (co_coverage r)) = mset (excluded_ids (co_coverage q))"
    and "map locator (co_lineage r) = map locator (co_lineage q)"
  shows "publish_evidence env r i = publish_evidence env q i"
proof -
  have "sort (included_ids (co_coverage r)) = sort (included_ids (co_coverage q))"
    "sort (excluded_ids (co_coverage r)) = sort (excluded_ids (co_coverage q))"
    by (rule properties_for_sort; use assms(3,4) in simp)+
  then have "execution_evidence p r i = execution_evidence p q i" for p
    by (simp add: execution_evidence_def assms(2,5))
  then show ?thesis by (simp add: publish_evidence_def assms(1))
qed

section \<open>What a ranking is\<close>

lemma all_finite_iff: "all_finite vs = Inr True \<longleftrightarrow> (\<forall>v \<in> set vs. finite_score v = Inr True)"
  by (induction vs) (auto simp: ck_bind_Inr)

lemma rerank_Inr:
  assumes "rerank m query candidates i = Inr order"
  obtains scores where "mp_rerank m (id_request_id i) query candidates (tenant_of i) = Inr scores"
    "length scores = length candidates" "\<forall>v \<in> set scores. finite_score v = Inr True"
    "order = ranking (map (score_value m) scores)" "int (length candidates) \<le> mp_max_candidates m"
  using assms by (auto simp: rerank_def ck_bind_Inr all_finite_iff split: if_splits sum.splits)

lemma ranking_perm: "mset (ranking scores) = mset [0..<length scores]"
  by (simp add: ranking_def)

lemma sorted_wrt_distinct:
  assumes "\<And>a b. R a b \<Longrightarrow> a \<noteq> b \<Longrightarrow> Q a b"
  shows "sorted_wrt R xs \<Longrightarrow> distinct xs \<Longrightarrow> sorted_wrt Q xs"
  by (induction xs) (auto intro: assms)

lemma ranking_sorted: "sorted_wrt (\<lambda>a b. scores ! a > scores ! b \<or> scores ! a = scores ! b \<and> a < b) (ranking scores)"
proof -
  have "sorted (map (\<lambda>index. (- (scores ! index), index)) (ranking scores))" by (simp add: ranking_def)
  then have "sorted_wrt (\<lambda>a b. (- (scores ! a), a) \<le> (- (scores ! b), b)) (ranking scores)" by (simp add: sorted_map)
  moreover have "distinct (ranking scores)" by (simp add: ranking_def)
  ultimately show ?thesis
    by (rule sorted_wrt_distinct [rotated]) (auto simp: less_eq_prod_def)
qed

text \<open>
  A ranking is a permutation of the candidates' positions in descending order of the scores the model plane
  returned, equal scores in the order of the candidates; every score was a finite number.
\<close>

lemma rerank_orders_candidates:
  assumes "rerank m query candidates i = Inr order"
  shows "\<exists>scores. mp_rerank m (id_request_id i) query candidates (tenant_of i) = Inr scores
    \<and> length scores = length candidates \<and> (\<forall>v \<in> set scores. finite_score v = Inr True)
    \<and> mset order = mset [0..<length candidates]
    \<and> sorted_wrt (\<lambda>a b. score_value m (scores ! a) > score_value m (scores ! b)
        \<or> score_value m (scores ! a) = score_value m (scores ! b) \<and> a < b) order"
proof -
  from assms obtain scores where s: "mp_rerank m (id_request_id i) query candidates (tenant_of i) = Inr scores"
      "length scores = length candidates" "\<forall>v \<in> set scores. finite_score v = Inr True"
      "order = ranking (map (score_value m) scores)" by (rule rerank_Inr)
  let ?w = "map (score_value m) scores"
  have perm: "mset order = mset [0..<length candidates]" using ranking_perm [of ?w] s(2,4) by simp
  then have "set order = {0..<length scores}" using s(2) mset_eq_setD by fastforce
  then have here: "?w ! a = score_value m (scores ! a)" if "a \<in> set order" for a using that by simp
  have "sorted_wrt (\<lambda>a b. score_value m (scores ! a) > score_value m (scores ! b)
        \<or> score_value m (scores ! a) = score_value m (scores ! b) \<and> a < b) order"
    by (rule sorted_wrt_mono_rel [OF _ ranking_sorted [of ?w, folded s(4)]]) (simp add: here)
  with s perm show ?thesis by blast
qed

section \<open>A publication and a ranking\<close>

definition sample_bridge :: bridge_env where
  "sample_bridge = \<lparr>be_prims = sample_prims, be_answer = (\<lambda>n owner e. case owner of Sdk_Owner \<Rightarrow> Inr ''sdk-1'' | Adlc_Owner \<Rightarrow> Inr ''adlc-1'')\<rparr>"

definition sample_result :: "step_result list \<Rightarrow> coordination_result" where
  "sample_result steps = \<lparr>co_request_id = ''request-1'', co_steps = steps, co_coverage =
     \<lparr>cov_request_id = ''request-1'', cov_generated_at = utc 0, cov_included = [\<lparr>sc_source_id = ''erp'',
        sc_asset_ids = [''orders''], sc_complete = True, sc_watermark = None\<rparr>], cov_excluded = [],
      cov_expected_sources = [''erp'']\<rparr>,
     co_lineage = [\<lparr>lin_source_id = ''erp'', lin_asset_id = ''orders'', lin_record_id = Some ''42'', lin_field_path = None\<rparr>]\<rparr>"

lemma sample_published:
  "publish_evidence sample_bridge (sample_result []) (sample_identity\<lparr>id_request_id := ''request-1''\<rparr>) []
    = (Inr \<lparr>cp_request_id = ''request-1'', cp_evidence_digest = ''sha256:d'', cp_sdk_receipt_id = ''sdk-1'', cp_adlc_evidence_id = ''adlc-1''\<rparr>,
       snd (publish_evidence sample_bridge (sample_result []) (sample_identity\<lparr>id_request_id := ''request-1''\<rparr>) []))"
  by (simp add: publish_evidence_def Let_def sm_bind_def send_evidence_def sample_bridge_def sample_result_def
      digest_of_def sample_prims_def)

lemma evidence_reaches_both_owners_example:
  "map fst (snd (publish_evidence sample_bridge (sample_result []) (sample_identity\<lparr>id_request_id := ''request-1''\<rparr>) []))
    = [Sdk_Owner, Adlc_Owner]"
  using evidence_reaches_both_owners [OF sample_published] by auto

theorem evidence_is_redacted_witness:
  "publish_evidence sample_bridge (sample_result []) sample_identity
    = publish_evidence sample_bridge (sample_result [\<lparr>st_step_id = ''s'', st_source_id = ''erp'', st_asset_ids = [''orders''],
        st_batches = [], st_hits = []\<rparr>]) sample_identity"
  by (rule evidence_is_redacted) (simp_all add: sample_result_def coordination_complete_def)

definition sample_plane :: model_plane where
  "sample_plane = \<lparr>mp_max_candidates = 100, mp_rerank = (\<lambda>r q cs t. Inr [JFloat ''0.5'', JInt 2, JFloat ''0.5'']),
     mp_float = (\<lambda>t. 1 / 2)\<rparr>"

lemma sample_reranked: "rerank sample_plane ''total'' [''a'', ''b'', ''c''] sample_identity = Inr [1, 0, 2]"
  by code_simp

lemma rerank_orders_candidates_example: "mset [1, 0, 2] = mset [0..<length [''a'', ''b'', ''c'']]"
  using rerank_orders_candidates [OF sample_reranked] by blast

end
