(* ===== verification/Csv_Codec.thy ===== *)
theory Csv_Codec
  imports Harness_Prelude "HOL-Library.Monad_Syntax"
begin

text \<open>
  The \<open>csv\<close> module in its default dialect, as pack_factory.py writes with it and decoder.py reads with it: the
  quoting of a field, a written row, the character machine of \<open>csv.reader\<close> over the lines of a text, and the
  round trip between the two.
\<close>

section \<open>Writing\<close>

definition csv_special :: "char \<Rightarrow> bool" where
  "csv_special c \<longleftrightarrow> c \<in> {CHR '','', CHR 0x22, CHR 0x0D, CHR 0x0A}"

definition csv_dbl :: "char \<Rightarrow> string" where
  "csv_dbl c = (if c = CHR 0x22 then [c, c] else [c])"

definition csv_quoted :: "string \<Rightarrow> string" where
  "csv_quoted t = CHR 0x22 # concat (map csv_dbl t) @ [CHR 0x22]"

definition csv_field :: "string \<Rightarrow> string" where
  "csv_field t = (if list_ex csv_special t then csv_quoted t else t)"

fun csv_join :: "string list \<Rightarrow> string" where
  "csv_join [] = []"
| "csv_join [t] = csv_field t"
| "csv_join (t # u # ts) = csv_field t @ CHR '','' # csv_join (u # ts)"

definition csv_row :: "string list \<Rightarrow> string" where
  \<comment> \<open>a row of one empty field is written quoted\<close>
  "csv_row ts = (if ts = [[]] then csv_quoted [] else csv_join ts) @ [CHR 0x0D, CHR 0x0A]"

definition csv_text :: "string list list \<Rightarrow> string" where
  "csv_text rs = concat (map csv_row rs)"

section \<open>Reading\<close>

datatype csv_state = Start_Record | Start_Field | In_Field | In_Quoted | Quote_In_Quoted | Eat_Newline

record csv_reader =
  cr_state :: csv_state
  cr_field :: string
  cr_fields :: "string list"

definition csv_fresh :: csv_reader where
  "csv_fresh = \<lparr>cr_state = Start_Record, cr_field = [], cr_fields = []\<rparr>"

definition csv_field_limit :: int where
  "csv_field_limit = 131072"

definition csv_add :: "char \<Rightarrow> csv_state \<Rightarrow> csv_reader \<Rightarrow> csv_reader option" where
  "csv_add c st r =
     (if csv_field_limit \<le> int (length (cr_field r)) then None
      else Some (r\<lparr>cr_state := st, cr_field := cr_field r @ [c]\<rparr>))"

definition csv_save :: "csv_state \<Rightarrow> csv_reader \<Rightarrow> csv_reader option" where
  "csv_save st r = Some (r\<lparr>cr_state := st, cr_field := [], cr_fields := cr_fields r @ [cr_field r]\<rparr>)"

definition csv_newline :: "char \<Rightarrow> bool" where
  "csv_newline c \<longleftrightarrow> c = CHR 0x0D \<or> c = CHR 0x0A"

definition csv_in_field :: "char \<Rightarrow> csv_reader \<Rightarrow> csv_reader option" where
  "csv_in_field c r =
     (if csv_newline c then csv_save Eat_Newline r
      else if c = CHR '','' then csv_save Start_Field r
      else csv_add c In_Field r)"

definition csv_start_field :: "char \<Rightarrow> csv_reader \<Rightarrow> csv_reader option" where
  "csv_start_field c r = (if c = CHR 0x22 then Some (r\<lparr>cr_state := In_Quoted\<rparr>) else csv_in_field c r)"

definition csv_char :: "char \<Rightarrow> csv_reader \<Rightarrow> csv_reader option" where
  \<comment> \<open>\<open>None\<close> is a \<open>csv.Error\<close>\<close>
  "csv_char c r =
     (case cr_state r of
        Start_Record \<Rightarrow> if csv_newline c then Some (r\<lparr>cr_state := Eat_Newline\<rparr>) else csv_start_field c r
      | Start_Field \<Rightarrow> csv_start_field c r
      | In_Field \<Rightarrow> csv_in_field c r
      | In_Quoted \<Rightarrow> if c = CHR 0x22 then Some (r\<lparr>cr_state := Quote_In_Quoted\<rparr>) else csv_add c In_Quoted r
      | Quote_In_Quoted \<Rightarrow> if c = CHR 0x22 then csv_add c In_Quoted r else csv_in_field c r
      | Eat_Newline \<Rightarrow> if csv_newline c then Some r else None)"

definition csv_line_end :: "csv_reader \<Rightarrow> csv_reader option" where
  "csv_line_end r =
     (case cr_state r of
        Start_Record \<Rightarrow> Some r
      | In_Quoted \<Rightarrow> Some r
      | Eat_Newline \<Rightarrow> Some (r\<lparr>cr_state := Start_Record\<rparr>)
      | _ \<Rightarrow> csv_save Start_Record r)"

primrec csv_line :: "string \<Rightarrow> csv_reader \<Rightarrow> csv_reader option" where
  "csv_line [] r = csv_line_end r"
| "csv_line (c # s) r = csv_char c r \<bind> csv_line s"

primrec csv_records :: "csv_reader \<Rightarrow> string list \<Rightarrow> string list list option" where
  "csv_records r [] =
     Some (if cr_field r \<noteq> [] \<or> cr_state r = In_Quoted then [cr_fields r @ [cr_field r]] else [])"
| "csv_records r (l # ls) = csv_line l r \<bind> (\<lambda>r'.
     if cr_state r' = Start_Record then map_option (Cons (cr_fields r')) (csv_records csv_fresh ls)
     else csv_records r' ls)"

fun text_lines :: "string \<Rightarrow> string list" where
  \<comment> \<open>iterating over \<open>io.StringIO(text)\<close>\<close>
  "text_lines [] = []"
| "text_lines (c # s) =
     (if c = CHR 0x0A then [c] # text_lines s
      else case text_lines s of [] \<Rightarrow> [[c]] | l # ls \<Rightarrow> (c # l) # ls)"

definition csv_read :: "string \<Rightarrow> string list list option" where
  "csv_read s = csv_records csv_fresh (text_lines s)"

section \<open>What is written is read\<close>

lemma text_lines_Nil [simp]: "text_lines s = [] \<longleftrightarrow> s = []"
  by (induction s) (auto split: list.splits)

lemma read_char:
  assumes "s \<noteq> []" and "c \<noteq> CHR 0x0A" and "csv_char c r = Some r'"
  shows "csv_records r (text_lines (c # s)) = csv_records r' (text_lines s)"
proof -
  obtain l ls where "text_lines s = l # ls" using assms(1) by (cases "text_lines s") auto
  then show ?thesis using assms(2,3) by simp
qed

lemma read_row_end:
  assumes "cr_state r = Eat_Newline"
  shows "csv_records r (text_lines (CHR 0x0A # s)) = map_option (Cons (cr_fields r)) (csv_records csv_fresh (text_lines s))"
  using assms by (simp add: csv_char_def csv_newline_def csv_line_end_def)

definition reading :: "csv_state \<Rightarrow> string \<Rightarrow> string list \<Rightarrow> csv_reader" where
  "reading st f fs = \<lparr>cr_state = st, cr_field = f, cr_fields = fs\<rparr>"

lemma reading_simps [simp]:
  "cr_state (reading st f fs) = st" "cr_field (reading st f fs) = f" "cr_fields (reading st f fs) = fs"
  "(reading st f fs)\<lparr>cr_state := st'\<rparr> = reading st' f fs" "(reading st f fs)\<lparr>cr_field := f'\<rparr> = reading st f' fs"
  "(reading st f fs)\<lparr>cr_fields := fs'\<rparr> = reading st f fs'"
  by (simp_all add: reading_def)

lemma read_newline_quoted:
  assumes "int (length f) < csv_field_limit"
  shows "csv_records (reading In_Quoted f fs) (text_lines (CHR 0x0A # s))
    = csv_records (reading In_Quoted (f @ [CHR 0x0A]) fs) (text_lines s)"
  using assms by (simp add: csv_char_def csv_add_def csv_line_end_def)

lemma csv_fresh_reading: "csv_fresh = reading Start_Record [] []"
  by (simp add: csv_fresh_def reading_def)

lemma read_quoted_body:
  assumes "int (length f + length t) \<le> csv_field_limit" and "s \<noteq> []"
  shows "csv_records (reading In_Quoted f fs) (text_lines (concat (map csv_dbl t) @ CHR 0x22 # s))
    = csv_records (reading Quote_In_Quoted (f @ t) fs) (text_lines s)"
  using assms(1)
proof (induction t arbitrary: f)
  case Nil
  show ?case using assms(2) by (simp add: read_char csv_char_def del: text_lines.simps)
next
  case (Cons c t)
  let ?rest = "concat (map csv_dbl t) @ CHR 0x22 # s"
  have room: "int (length f) < csv_field_limit" using Cons.prems by simp
  have step: "csv_records (reading In_Quoted f fs) (text_lines (csv_dbl c @ ?rest))
      = csv_records (reading In_Quoted (f @ [c]) fs) (text_lines ?rest)"
  proof (cases "c = CHR 0x22")
    case True
    then show ?thesis using room
      by (simp add: csv_dbl_def read_char csv_char_def csv_add_def del: text_lines.simps)
  next
    case False
    then show ?thesis using room
      by (cases "c = CHR 0x0A")
        (simp_all add: csv_dbl_def read_char read_newline_quoted csv_char_def csv_add_def del: text_lines.simps)
  qed
  show ?case using Cons.IH [of "f @ [c]"] Cons.prems step by simp
qed

lemma read_plain:
  assumes "int (length f + length t) \<le> csv_field_limit" and "s \<noteq> []" and "\<not> list_ex csv_special t"
  shows "csv_records (reading In_Field f fs) (text_lines (t @ s)) = csv_records (reading In_Field (f @ t) fs) (text_lines s)"
  using assms(1,3)
proof (induction t arbitrary: f)
  case (Cons c t)
  then have "csv_char c (reading In_Field f fs) = Some (reading In_Field (f @ [c]) fs)" "c \<noteq> CHR 0x0A"
    by (simp_all add: csv_char_def csv_in_field_def csv_add_def csv_special_def csv_newline_def)
  then show ?case using Cons assms(2) by (simp add: read_char del: text_lines.simps)
qed simp

text \<open>Where a field begins, its text leads to a state in which it has been read up to its end.\<close>

definition field_read :: "csv_state \<Rightarrow> string \<Rightarrow> csv_state" where
  "field_read st t = (if list_ex csv_special t then Quote_In_Quoted else if t = [] then st else In_Field)"

lemma read_field:
  assumes "st = Start_Record \<or> st = Start_Field" and "int (length t) \<le> csv_field_limit" and "s \<noteq> []"
  shows "csv_records (reading st [] fs) (text_lines (csv_field t @ s))
    = csv_records (reading (field_read st t) t fs) (text_lines s)"
proof (cases "list_ex csv_special t")
  case True
  have "csv_char (CHR 0x22) (reading st [] fs) = Some (reading In_Quoted [] fs)"
    using assms(1) by (auto simp: csv_char_def csv_start_field_def csv_newline_def)
  then show ?thesis using True assms(2,3) read_quoted_body [of "[]" t s fs]
    by (simp add: csv_field_def csv_quoted_def field_read_def read_char del: text_lines.simps)
next
  case False
  show ?thesis
  proof (cases t)
    case Nil
    then show ?thesis by (simp add: csv_field_def field_read_def)
  next
    case (Cons c u)
    then have "csv_char c (reading st [] fs) = Some (reading In_Field [c] fs)" "c \<noteq> CHR 0x0A"
      using False assms(1)
      by (auto simp: csv_char_def csv_start_field_def csv_in_field_def csv_add_def csv_special_def csv_newline_def csv_field_limit_def)
    then show ?thesis using Cons False assms(2,3) read_plain [of "[c]" u s fs]
      by (simp add: csv_field_def field_read_def read_char del: text_lines.simps)
  qed
qed

lemma read_comma:
  assumes "st = Start_Record \<or> st = Start_Field" and "s \<noteq> []"
  shows "csv_records (reading (field_read st t) t fs) (text_lines (CHR '','' # s))
    = csv_records (reading Start_Field [] (fs @ [t])) (text_lines s)"
  using assms by (auto simp: field_read_def read_char csv_char_def csv_start_field_def csv_in_field_def csv_save_def
      csv_newline_def simp del: text_lines.simps)

lemma read_end:
  assumes "st = Start_Field \<or> t \<noteq> []" and "st = Start_Record \<or> st = Start_Field"
  shows "csv_records (reading (field_read st t) t fs) (text_lines (CHR 0x0D # CHR 0x0A # s))
    = map_option (Cons (fs @ [t])) (csv_records csv_fresh (text_lines s))"
proof -
  have "csv_char (CHR 0x0D) (reading (field_read st t) t fs) = Some (reading Eat_Newline [] (fs @ [t]))"
    using assms by (auto simp: field_read_def csv_char_def csv_start_field_def csv_in_field_def csv_save_def csv_newline_def)
  then show ?thesis by (simp add: read_char read_row_end del: text_lines.simps)
qed

lemma read_join:
  assumes "ts \<noteq> []" and "\<forall>t \<in> set ts. int (length t) \<le> csv_field_limit" and "st = Start_Record \<or> st = Start_Field"
    and "ts = [[]] \<longrightarrow> st = Start_Field"
  shows "csv_records (reading st [] fs) (text_lines (csv_join ts @ CHR 0x0D # CHR 0x0A # s))
    = map_option (Cons (fs @ ts)) (csv_records csv_fresh (text_lines s))"
  using assms
proof (induction ts arbitrary: st fs rule: csv_join.induct)
  case (2 t)
  then have "st = Start_Field \<or> t \<noteq> []" by auto
  with 2 show ?case by (simp add: read_field read_end [of st t] del: text_lines.simps)
next
  case (3 t u ts)
  then show ?case using 3 (1) [of Start_Field "fs @ [t]"]
    by (simp add: read_field read_comma del: text_lines.simps)
qed simp

lemma read_row:
  assumes "ts \<noteq> []" and "\<forall>t \<in> set ts. int (length t) \<le> csv_field_limit"
  shows "csv_records csv_fresh (text_lines (csv_row ts @ s)) = map_option (Cons ts) (csv_records csv_fresh (text_lines s))"
proof (cases "ts = [[]]")
  case True
  have "csv_char (CHR 0x22) (reading Start_Record [] []) = Some (reading In_Quoted [] [])"
    and "csv_char (CHR 0x22) (reading In_Quoted [] []) = Some (reading Quote_In_Quoted [] [])"
    and "csv_char (CHR 0x0D) (reading Quote_In_Quoted [] []) = Some (reading Eat_Newline [] [[]])"
    by (simp_all add: csv_char_def csv_start_field_def csv_in_field_def csv_save_def csv_newline_def)
  then show ?thesis using True
    by (simp add: csv_row_def csv_quoted_def csv_fresh_reading read_char read_row_end del: text_lines.simps)
next
  case False
  then show ?thesis using read_join [OF assms, of Start_Record "[]"]
    by (simp add: csv_row_def csv_fresh_reading del: text_lines.simps)
qed

lemma csv_read_text:
  assumes "\<forall>ts \<in> set rs. ts \<noteq> [] \<and> (\<forall>t \<in> set ts. int (length t) \<le> csv_field_limit)"
  shows "csv_read (csv_text rs) = Some rs"
  unfolding csv_read_def using assms
  by (induction rs) (simp_all add: csv_text_def read_row del: text_lines.simps, simp add: csv_fresh_def)

lemma csv_read_examples:
  "csv_read (csv_text [[''a'', ''b,c''], [[], [CHR 0x22, CHR 0x0A, CHR ''x'']], [[]]])
     = Some [[''a'', ''b,c''], [[], [CHR 0x22, CHR 0x0A, CHR ''x'']], [[]]]"
  "csv_read ''a,b'' = Some [[''a'', ''b'']]"
  "csv_read (''a'' @ [CHR 0x0D] @ ''b'') = None"
  by code_simp+

end
