(* ===== verification/Pack_Factory.thy ===== *)
theory Pack_Factory
  imports Csv_Codec Json_Parser Action_Plans "HOL-Library.Multiset"
begin

text \<open>
  pack_factory.py: blueprints of synthetic datasets, their generation in an order that resolves references, and
  the rendering of the records as JSON lines and CSV. The pseudo-random generator of the standard library is the
  record \<open>rng\<close>; what the documentation promises of it is \<open>rng_lawful\<close>. A float is a rational, \<open>None\<close> when it is
  not finite. The files of \<open>write_jsonl\<close> are the list of what is written, in order.
\<close>

declare map_of_eq_Some_iff [simp del] Some_eq_map_of_iff [simp del]

section \<open>Blueprints\<close>

datatype field_kind = FK_Sequence | FK_Choice | FK_Integer | FK_Timestamp | FK_Reference

record field_blueprint =
  fb_name :: string
  fb_kind :: field_kind
  fb_values :: "string list"
  fb_minimum :: int
  fb_maximum :: int
  fb_prefix :: string
  fb_reference_dataset :: "string option"
  fb_reference_field :: "string option"
  fb_weights :: "rat option list"
  fb_null_rate :: "rat option"

definition blank_text :: "string option \<Rightarrow> bool" where
  "blank_text v \<longleftrightarrow> (case v of None \<Rightarrow> True | Some t \<Rightarrow> t = [])"

definition bad_weight :: "rat option \<Rightarrow> bool" where
  "bad_weight w \<longleftrightarrow> (case w of None \<Rightarrow> True | Some x \<Rightarrow> x \<le> 0)"

definition mk_field_blueprint :: "field_blueprint \<Rightarrow> field_blueprint checked" where
  "mk_field_blueprint f =
     (if fb_name f = [] then Inl (ValueError ''field name is required'')
      else if fb_kind f = FK_Choice \<and> fb_values f = [] then Inl (ValueError ''choice field requires values'')
      else if fb_weights f \<noteq> [] \<and> (fb_kind f \<noteq> FK_Choice \<or> length (fb_weights f) \<noteq> length (fb_values f)
                                  \<or> list_ex bad_weight (fb_weights f))
      then Inl (ValueError ''weights must match choices and be positive'')
      else if (case fb_null_rate f of None \<Rightarrow> True | Some x \<Rightarrow> \<not> (0 \<le> x \<and> x < 1))
      then Inl (ValueError ''null rate must be in [0, 1)'')
      else if fb_kind f = FK_Sequence \<and> fb_null_rate f \<noteq> Some 0
      then Inl (ValueError ''sequence field cannot be nullable'')
      else if fb_kind f = FK_Integer \<and> fb_maximum f < fb_minimum f
      then Inl (ValueError ''invalid integer range'')
      else if fb_kind f = FK_Reference \<and> (blank_text (fb_reference_dataset f) \<or> blank_text (fb_reference_field f))
      then Inl (ValueError ''reference field requires a dataset and field'')
      else Inr f)"

record dataset_blueprint =
  ds_dataset_id :: string
  ds_row_count :: int
  ds_fields :: "field_blueprint list"

definition mk_dataset_blueprint :: "dataset_blueprint \<Rightarrow> dataset_blueprint checked" where
  "mk_dataset_blueprint d =
     (if ds_dataset_id d = [] \<or> ds_row_count d \<le> 0 \<or> ds_fields d = []
      then Inl (ValueError ''dataset id, positive row count and fields are required'')
      else if \<not> distinct (map fb_name (ds_fields d))
      then Inl (ValueError ''duplicate fields in dataset'')
      else Inr d)"

record pack_definition =
  pk_pack_id :: string
  pk_version :: string
  pk_seed :: int
  pk_datasets :: "dataset_blueprint list"

definition mk_pack_definition :: "pack_definition \<Rightarrow> pack_definition checked" where
  "mk_pack_definition p =
     (if pk_pack_id p = [] \<or> pk_version p = [] \<or> pk_datasets p = []
      then Inl (ValueError ''pack id, version and datasets are required'')
      else if \<not> distinct (map ds_dataset_id (pk_datasets p))
      then Inl (ValueError ''dataset ids must be unique'')
      else Inr p)"

section \<open>The generator of random numbers\<close>

record 'g rng =
  rng_seeded :: "nat \<Rightarrow> 'g"
  rng_random :: "'g \<Rightarrow> rat \<times> 'g"
  rng_choices :: "rat option list \<Rightarrow> 'g \<Rightarrow> nat \<times> 'g" \<comment> \<open>the index of the chosen element\<close>
  rng_randrange :: "nat \<Rightarrow> 'g \<Rightarrow> nat \<times> 'g"
  rng_randint :: "int \<Rightarrow> int \<Rightarrow> 'g \<Rightarrow> int \<times> 'g"

definition rng_lawful :: "'g rng \<Rightarrow> bool" where
  "rng_lawful r \<longleftrightarrow> (\<forall>g ws. ws \<noteq> [] \<longrightarrow> fst (rng_choices r ws g) < length ws)
     \<and> (\<forall>g n. 0 < n \<longrightarrow> fst (rng_randrange r n g) < n)
     \<and> (\<forall>g a b. a \<le> b \<longrightarrow> a \<le> fst (rng_randint r a b g) \<and> fst (rng_randint r a b g) \<le> b)"

definition draw :: "('g \<Rightarrow> 'a \<times> 'g) \<Rightarrow> ('g, 'e, 'a) sm" where
  "draw f g = (Inr (fst (f g)), snd (f g))"

section \<open>Values\<close>

definition pad4 :: "nat \<Rightarrow> string" where
  "pad4 n = replicate (4 - length (show_nat n)) (CHR ''0'') @ show_nat n"

definition pad2 :: "nat \<Rightarrow> string" where
  "pad2 n = replicate (2 - length (show_nat n)) (CHR ''0'') @ show_nat n"

fun month_day :: "nat \<Rightarrow> nat list \<Rightarrow> nat \<Rightarrow> nat \<times> nat" where
  "month_day m [] d = (m, Suc d)"
| "month_day m (n # ns) d = (if d < n then (m, Suc d) else month_day (Suc m) ns (d - n))"

definition timestamp_text :: "int \<Rightarrow> string" where
  \<comment> \<open>\<open>(epoch + timedelta(minutes=k)).isoformat()\<close> for the 365 days from the start of 2026 and the instant after\<close>
  "timestamp_text k =
     (let d = k div 1440; year = (if d < 365 then 2026 else 2027);
          (month, day) = month_day 1 [31, 28, 31, 30, 31, 30, 31, 31, 30, 31, 30, 31] (nat (d mod 365))
      in show_int year @ ''-'' @ pad2 month @ ''-'' @ pad2 day @ ''T'' @ pad2 (nat (k mod 1440 div 60)) @ '':''
         @ pad2 (nat (k mod 60)) @ '':00+00:00'')"

type_synonym pack_record = "(string, json) dict"
type_synonym pack_data = "(string, pack_record list) dict"

definition draw_null :: "'g rng \<Rightarrow> field_blueprint \<Rightarrow> ('g, py_error, bool) sm" where
  "draw_null r f =
     (case fb_null_rate f of
        None \<Rightarrow> sm_return False
      | Some rate \<Rightarrow> if rate = 0 then sm_return False else sm_bind (draw (rng_random r)) (\<lambda>u. sm_return (u < rate)))"

definition draw_choice :: "'g rng \<Rightarrow> field_blueprint \<Rightarrow> ('g, py_error, json) sm" where
  "draw_choice r f =
     (if fb_weights f \<noteq> [] then sm_bind (draw (rng_choices r (fb_weights f))) (\<lambda>i. sm_return (JStr (fb_values f ! i)))
      else if fb_values f = [] then sm_raise (ValueError ''empty range for randrange()'')
      else sm_bind (draw (rng_randrange r (length (fb_values f)))) (\<lambda>i. sm_return (JStr (fb_values f ! i))))"

definition draw_integer :: "'g rng \<Rightarrow> field_blueprint \<Rightarrow> ('g, py_error, json) sm" where
  "draw_integer r f =
     (if fb_maximum f < fb_minimum f then sm_raise (ValueError ''empty range for randrange()'')
      else sm_bind (draw (rng_randint r (fb_minimum f) (fb_maximum f))) (\<lambda>i. sm_return (JInt i)))"

definition text_of :: "string option \<Rightarrow> string" where
  "text_of v = (case v of None \<Rightarrow> [] | Some t \<Rightarrow> t)"

definition referenced_value :: "pack_data \<Rightarrow> nat \<Rightarrow> field_blueprint \<Rightarrow> json checked" where
  "referenced_value gen index f =
     (case dict_get gen (text_of (fb_reference_dataset f)) of
        None \<Rightarrow> Inl (KeyError (text_of (fb_reference_dataset f)))
      | Some records \<Rightarrow>
          if records = [] then Inl (ValueError ''integer modulo by zero'')
          else case dict_get (records ! (index mod length records)) (text_of (fb_reference_field f)) of
                 None \<Rightarrow> Inl (KeyError (text_of (fb_reference_field f)))
               | Some v \<Rightarrow> Inr v)"

definition field_value :: "'g rng \<Rightarrow> pack_data \<Rightarrow> nat \<Rightarrow> field_blueprint \<Rightarrow> ('g, py_error, json) sm" where
  "field_value r gen index f =
     (if fb_kind f = FK_Sequence then sm_return (JStr (fb_prefix f @ ''-'' @ pad4 (index + 1)))
      else sm_bind (draw_null r f) (\<lambda>null.
        if null then sm_return JNull
        else case fb_kind f of
            FK_Choice \<Rightarrow> draw_choice r f
          | FK_Integer \<Rightarrow> draw_integer r f
          | FK_Timestamp \<Rightarrow> sm_bind (draw (rng_randint r 0 525600)) (\<lambda>k. sm_return (JStr (timestamp_text k)))
          | _ \<Rightarrow> sm_lift (referenced_value gen index f)))"

fun record_values :: "'g rng \<Rightarrow> pack_data \<Rightarrow> nat \<Rightarrow> field_blueprint list \<Rightarrow> pack_record
    \<Rightarrow> ('g, py_error, pack_record) sm" where
  "record_values r gen index [] rec = sm_return rec"
| "record_values r gen index (f # fs) rec =
     sm_bind (field_value r gen index f) (\<lambda>v. record_values r gen index fs (dict_set (fb_name f) v rec))"

fun dataset_records :: "'g rng \<Rightarrow> pack_data \<Rightarrow> field_blueprint list \<Rightarrow> nat list \<Rightarrow> ('g, py_error, pack_record list) sm" where
  "dataset_records r gen fs [] = sm_return []"
| "dataset_records r gen fs (index # is) =
     sm_bind (record_values r gen index fs []) (\<lambda>rec.
     sm_bind (dataset_records r gen fs is) (\<lambda>recs. sm_return (rec # recs)))"

definition hex_number :: "string \<Rightarrow> nat" where
  "hex_number s = foldl (\<lambda>n c. 16 * n + (case hex_value c of None \<Rightarrow> 0 | Some d \<Rightarrow> d)) 0 s"

definition dataset_seed :: "prims \<Rightarrow> pack_definition \<Rightarrow> dataset_blueprint \<Rightarrow> nat" where
  \<comment> \<open>the first eight bytes of the digest are the first sixteen digits of its hexadecimal form\<close>
  "dataset_seed p pk d =
     hex_number (take 16 (pr_sha256 p
       (pk_pack_id pk @ '':'' @ pk_version pk @ '':'' @ show_int (pk_seed pk) @ '':'' @ ds_dataset_id d)))"

definition generate_dataset :: "prims \<Rightarrow> 'g rng \<Rightarrow> pack_definition \<Rightarrow> dataset_blueprint \<Rightarrow> pack_data
    \<Rightarrow> pack_record list checked" where
  "generate_dataset p r pk d gen =
     fst (dataset_records r gen (ds_fields d) [0..<nat (ds_row_count d)] (rng_seeded r (dataset_seed p pk d)))"

section \<open>The worklist\<close>

definition dataset_references :: "dataset_blueprint \<Rightarrow> string list" where
  "dataset_references d = map (\<lambda>f. text_of (fb_reference_dataset f)) (filter (\<lambda>f. fb_kind f = FK_Reference) (ds_fields d))"

definition ready :: "pack_data \<Rightarrow> dataset_blueprint \<Rightarrow> bool" where
  "ready gen d \<longleftrightarrow> set (dataset_references d) \<subseteq> set (dict_keys gen)"

fun generation_pass :: "prims \<Rightarrow> 'g rng \<Rightarrow> pack_definition \<Rightarrow> dataset_blueprint list
    \<Rightarrow> pack_data \<times> dataset_blueprint list \<times> bool \<Rightarrow> (pack_data \<times> dataset_blueprint list \<times> bool) checked" where
  \<comment> \<open>one round over the datasets that were pending at its start: what is generated, what is pending, and \<open>progressed\<close>\<close>
  "generation_pass p r pk [] st = Inr st"
| "generation_pass p r pk (d # ds) (gen, pending, progressed) =
     (if \<not> ready gen d then generation_pass p r pk ds (gen, pending, progressed)
      else ck_bind (generate_dataset p r pk d gen) (\<lambda>records.
             generation_pass p r pk ds (dict_set (ds_dataset_id d) records gen, remove1 d pending, True)))"

lemma pass_shrinks:
  assumes "generation_pass p r pk ds (gen, pending, progressed) = Inr (gen', pending', progressed')"
    and "mset ds \<subseteq># mset pending"
  shows "length pending' \<le> length pending \<and> (progressed' \<and> \<not> progressed \<longrightarrow> length pending' < length pending)"
  using assms
proof (induction ds arbitrary: gen pending progressed)
  case (Cons d ds)
  show ?case
  proof (cases "ready gen d")
    case True
    then obtain records where
      "generation_pass p r pk ds (dict_set (ds_dataset_id d) records gen, remove1 d pending, True) = Inr (gen', pending', progressed')"
      using Cons.prems by (auto simp: ck_bind_Inr)
    moreover have "mset ds \<subseteq># mset (remove1 d pending)" and "d \<in> set pending"
      using Cons.prems(2) by (simp_all add: insert_subset_eq_iff)
    ultimately have "length pending' \<le> length (remove1 d pending)" by (auto dest: Cons.IH)
    moreover have "length (remove1 d pending) < length pending"
      using \<open>d \<in> set pending\<close> using length_pos_if_in_set by (fastforce simp: length_remove1)
    ultimately show ?thesis by simp
  qed (use Cons in \<open>auto dest: mset_subset_eq_insertD\<close>)
qed simp

function generation_loop :: "prims \<Rightarrow> 'g rng \<Rightarrow> pack_definition \<Rightarrow> pack_data \<Rightarrow> dataset_blueprint list \<Rightarrow> pack_data checked" where
  "generation_loop p r pk gen pending =
     (if pending = [] then Inr gen
      else case generation_pass p r pk pending (gen, pending, False) of
          Inl e \<Rightarrow> Inl e
        | Inr (gen', pending', progressed) \<Rightarrow>
            if progressed then generation_loop p r pk gen' pending'
            else Inl (ValueError ''cyclic or unknown dataset references: ''))"
  by pat_completeness auto

termination
  by (relation "measure (\<lambda>(p, r, pk, gen, pending). length pending)") (auto dest: pass_shrinks)

declare generation_loop.simps [simp del]

definition generate :: "prims \<Rightarrow> 'g rng \<Rightarrow> pack_definition \<Rightarrow> pack_data checked" where
  "generate p r pk = generation_loop p r pk [] (pk_datasets pk)"

section \<open>Rendering\<close>

definition render_jsonl :: "pack_record list \<Rightarrow> string" where
  "render_jsonl records = concat (map (\<lambda>rec. canonical (JObj rec) @ [CHR 0x0A]) records)"

definition csv_cell :: "(json \<Rightarrow> string) \<Rightarrow> json \<Rightarrow> string" where
  \<comment> \<open>None is written as the empty string, any other value as its \<open>str\<close>\<close>
  "csv_cell rep v = (case v of JNull \<Rightarrow> [] | _ \<Rightarrow> py_str rep v)"

definition csv_cells :: "(json \<Rightarrow> string) \<Rightarrow> string list \<Rightarrow> pack_record \<Rightarrow> string list checked" where
  \<comment> \<open>\<open>DictWriter\<close>: a key that is no field name is refused, a missing one is written empty\<close>
  "csv_cells rep names rec =
     (if set (dict_keys rec) \<subseteq> set names
      then Inr (map (\<lambda>n. case dict_get rec n of None \<Rightarrow> [] | Some v \<Rightarrow> csv_cell rep v) names)
      else Inl (ValueError ''dict contains fields not in fieldnames''))"

definition render_csv :: "(json \<Rightarrow> string) \<Rightarrow> pack_record list \<Rightarrow> string checked" where
  "render_csv rep records =
     (if records = [] then Inl (ValueError ''cannot render an empty dataset'')
      else ck_bind (check_all (csv_cells rep (dict_keys (hd records))) records) (\<lambda>rs.
             Inr (csv_text (dict_keys (hd records) # rs))))"

definition file_name :: "string \<Rightarrow> string" where
  \<comment> \<open>\<open>Path.name\<close>: what follows the last slash\<close>
  "file_name t = (case str_rsplit1 (CHR ''/'') t of None \<Rightarrow> t | Some (_, n) \<Rightarrow> n)"

definition jsonl_files :: "pack_data \<Rightarrow> (string \<times> string) list" where
  \<comment> \<open>the paths below the output directory with what is written to them, in order\<close>
  "jsonl_files gen = map (\<lambda>(dataset_id, records). (dataset_id @ ''.jsonl'', render_jsonl records)) (sort_key fst gen)"

definition jsonl_digests :: "prims \<Rightarrow> (string \<times> string) list \<Rightarrow> (string, string) dict" where
  "jsonl_digests p files = fold (\<lambda>(path, content). dict_set (file_name path) (pr_sha256 p content)) files []"

definition write_jsonl :: "prims \<Rightarrow> 'g rng \<Rightarrow> pack_definition \<Rightarrow> ((string \<times> string) list \<times> (string, string) dict) checked" where
  "write_jsonl p r pk = ck_bind (generate p r pk) (\<lambda>gen.
     Inr (jsonl_files gen, jsonl_digests p (jsonl_files gen)))"

section \<open>What the constructors guarantee\<close>

lemma mk_field_blueprint_Inr [checks]:
  "mk_field_blueprint f = Inr g \<longleftrightarrow> g = f \<and> fb_name f \<noteq> [] \<and> (fb_kind f = FK_Choice \<longrightarrow> fb_values f \<noteq> [])
    \<and> (fb_weights f \<noteq> [] \<longrightarrow> fb_kind f = FK_Choice \<and> length (fb_weights f) = length (fb_values f)
        \<and> \<not> list_ex bad_weight (fb_weights f))
    \<and> (\<exists>x. fb_null_rate f = Some x \<and> 0 \<le> x \<and> x < 1)
    \<and> (fb_kind f = FK_Sequence \<longrightarrow> fb_null_rate f = Some 0)
    \<and> (fb_kind f = FK_Integer \<longrightarrow> fb_minimum f \<le> fb_maximum f)
    \<and> (fb_kind f = FK_Reference \<longrightarrow> \<not> blank_text (fb_reference_dataset f) \<and> \<not> blank_text (fb_reference_field f))"
  unfolding mk_field_blueprint_def guard_Inr by (auto split: option.splits)

lemma mk_dataset_blueprint_Inr [checks]:
  "mk_dataset_blueprint d = Inr e \<longleftrightarrow> e = d \<and> ds_dataset_id d \<noteq> [] \<and> 0 < ds_row_count d \<and> ds_fields d \<noteq> []
    \<and> distinct (map fb_name (ds_fields d))"
  by (auto simp: mk_dataset_blueprint_def)

lemma mk_pack_definition_Inr [checks]:
  "mk_pack_definition p = Inr q \<longleftrightarrow> q = p \<and> pk_pack_id p \<noteq> [] \<and> pk_version p \<noteq> [] \<and> pk_datasets p \<noteq> []
    \<and> distinct (map ds_dataset_id (pk_datasets p))"
  by (auto simp: mk_pack_definition_def)

section \<open>Values conform to their blueprint\<close>

definition field_conforms :: "pack_data \<Rightarrow> nat \<Rightarrow> field_blueprint \<Rightarrow> json \<Rightarrow> bool" where
  "field_conforms gen index f v \<longleftrightarrow>
     v = JNull \<and> fb_kind f \<noteq> FK_Sequence \<and> fb_null_rate f \<noteq> Some 0
     \<or> (case fb_kind f of
          FK_Sequence \<Rightarrow> v = JStr (fb_prefix f @ ''-'' @ pad4 (index + 1))
        | FK_Choice \<Rightarrow> (\<exists>s \<in> set (fb_values f). v = JStr s)
        | FK_Integer \<Rightarrow> (\<exists>i. v = JInt i \<and> fb_minimum f \<le> i \<and> i \<le> fb_maximum f)
        | FK_Timestamp \<Rightarrow> (\<exists>k. v = JStr (timestamp_text k) \<and> 0 \<le> k \<and> k \<le> 525600)
        | FK_Reference \<Rightarrow> (\<exists>records rec. dict_get gen (text_of (fb_reference_dataset f)) = Some records
            \<and> rec \<in> set records \<and> dict_get rec (text_of (fb_reference_field f)) = Some v))"

lemma draw_null_True: "draw_null r f g = (Inr True, h) \<Longrightarrow> fb_null_rate f \<noteq> Some 0"
  by (auto simp: draw_null_def split: option.splits if_splits)

lemma rng_laws:
  assumes "rng_lawful r"
  shows "ws \<noteq> [] \<Longrightarrow> fst (rng_choices r ws g) < length ws"
    and "0 < n \<Longrightarrow> fst (rng_randrange r n g) < n"
    and "a \<le> b \<Longrightarrow> a \<le> fst (rng_randint r a b g)"
    and "a \<le> b \<Longrightarrow> fst (rng_randint r a b g) \<le> b"
  using assms by (simp_all add: rng_lawful_def)

lemma draw_choice_in:
  assumes "rng_lawful r" and "mk_field_blueprint f = Inr f" and "fb_kind f = FK_Choice" and "draw_choice r f g = (Inr v, h)"
  shows "\<exists>s \<in> set (fb_values f). v = JStr s"
proof -
  have "fst (rng_choices r (fb_weights f) g) < length (fb_values f)" if "fb_weights f \<noteq> []"
    using rng_laws(1) [OF assms(1) that] assms(2) that by (simp add: mk_field_blueprint_Inr)
  moreover have "fst (rng_randrange r (length (fb_values f)) g) < length (fb_values f)"
    using rng_laws(2) [OF assms(1)] assms(2,3) by (simp add: mk_field_blueprint_Inr)
  ultimately show ?thesis
    using assms(4) by (auto simp: draw_choice_def draw_def sm_bind_Inr_iff split: if_splits)
qed

lemma draw_integer_in:
  assumes "rng_lawful r" and "draw_integer r f g = (Inr v, h)"
  shows "\<exists>i. v = JInt i \<and> fb_minimum f \<le> i \<and> i \<le> fb_maximum f"
  using assms by (auto simp: draw_integer_def draw_def rng_lawful_def sm_bind_Inr_iff not_less split: if_splits)

lemma referenced_value_in:
  assumes "referenced_value gen index f = Inr v"
  shows "\<exists>records rec. dict_get gen (text_of (fb_reference_dataset f)) = Some records
    \<and> rec \<in> set records \<and> dict_get rec (text_of (fb_reference_field f)) = Some v"
  using assms unfolding referenced_value_def
  by (auto split: option.splits if_splits) (metis length_greater_0_conv mod_less_divisor nth_mem)

lemma field_value_conforms:
  assumes "rng_lawful r" and "mk_field_blueprint f = Inr f" and "field_value r gen index f g = (Inr v, h)"
  shows "field_conforms gen index f v"
proof (cases "fb_kind f = FK_Sequence")
  case True
  then show ?thesis using assms(3) by (simp add: field_value_def field_conforms_def)
next
  case False
  then obtain b g' where null: "draw_null r f g = (Inr b, g')"
    and rest: "(if b then sm_return JNull
        else case fb_kind f of
            FK_Choice \<Rightarrow> draw_choice r f
          | FK_Integer \<Rightarrow> draw_integer r f
          | FK_Timestamp \<Rightarrow> sm_bind (draw (rng_randint r 0 525600)) (\<lambda>k. sm_return (JStr (timestamp_text k)))
          | _ \<Rightarrow> sm_lift (referenced_value gen index f)) g' = (Inr v, h)"
    using assms(3) by (auto simp: field_value_def sm_bind_Inr_iff)
  show ?thesis
  proof (cases b)
    case True
    then show ?thesis using null rest False draw_null_True [of r f g g'] by (simp add: field_conforms_def)
  next
    case b: False
    show ?thesis
    proof (cases "fb_kind f")
      case FK_Choice
      then show ?thesis using b rest draw_choice_in [OF assms(1,2)] by (auto simp: field_conforms_def)
    next
      case FK_Integer
      then show ?thesis using b rest draw_integer_in [OF assms(1)] by (auto simp: field_conforms_def)
    next
      case FK_Timestamp
      then show ?thesis using b rest assms(1)
        by (auto simp: field_conforms_def draw_def sm_bind_Inr_iff rng_lawful_def)
    next
      case FK_Reference
      then show ?thesis using b rest referenced_value_in [of gen index f v] by (auto simp: field_conforms_def)
    qed (use False in simp)
  qed
qed

definition record_conforms :: "pack_data \<Rightarrow> field_blueprint list \<Rightarrow> nat \<Rightarrow> pack_record \<Rightarrow> bool" where
  "record_conforms gen fs index rec \<longleftrightarrow> dict_keys rec = map fb_name fs
     \<and> (\<forall>f \<in> set fs. \<exists>v. dict_get rec (fb_name f) = Some v \<and> field_conforms gen index f v)"

lemma record_values_conform:
  assumes "rng_lawful r" and "\<forall>f \<in> set fs. mk_field_blueprint f = Inr f" and "distinct (map fb_name (fs0 @ fs))"
    and "record_conforms gen fs0 index rec" and "record_values r gen index fs rec g = (Inr rec', h)"
  shows "record_conforms gen (fs0 @ fs) index rec'"
  using assms(2-5)
proof (induction fs arbitrary: fs0 rec g)
  case (Cons f fs)
  then obtain v g' where v: "field_value r gen index f g = (Inr v, g')"
    and rest: "record_values r gen index fs (dict_set (fb_name f) v rec) g' = (Inr rec', h)"
    by (auto simp: sm_bind_Inr_iff)
  have conf: "field_conforms gen index f v" using field_value_conforms [OF assms(1) _ v] Cons.prems(1) by simp
  have new: "fb_name f \<notin> set (dict_keys rec)"
    using Cons.prems(2,3) by (auto simp: record_conforms_def)
  have "record_conforms gen (fs0 @ [f]) index (dict_set (fb_name f) v rec)"
    unfolding record_conforms_def
  proof (intro conjI ballI)
    show "dict_keys (dict_set (fb_name f) v rec) = map fb_name (fs0 @ [f])"
      using Cons.prems(3) new by (simp add: dict_set_new record_conforms_def)
  next
    fix e assume "e \<in> set (fs0 @ [f])"
    moreover have "set (dict_keys rec) = fb_name ` set fs0"
      using Cons.prems(3) by (simp add: record_conforms_def)
    with new have "fb_name e \<noteq> fb_name f" if "e \<in> set fs0" using that by (metis imageI)
    ultimately consider "e = f" | "e \<in> set fs0" "fb_name e \<noteq> fb_name f" by auto
    then show "\<exists>w. dict_get (dict_set (fb_name f) v rec) (fb_name e) = Some w \<and> field_conforms gen index e w"
      using conf Cons.prems(3) by cases (auto simp: record_conforms_def)
  qed
  with Cons.IH [OF _ _ _ rest, of "fs0 @ [f]"] Cons.prems show ?case by simp
qed simp

lemma dataset_records_conform:
  assumes "rng_lawful r" and "\<forall>f \<in> set fs. mk_field_blueprint f = Inr f" and "distinct (map fb_name fs)"
    and "dataset_records r gen fs is g = (Inr records, h)"
  shows "list_all2 (record_conforms gen fs) is records"
  using assms(4)
proof (induction "is" arbitrary: g records)
  case (Cons i "is")
  then obtain rec recs g' where rec: "record_values r gen i fs [] g = (Inr rec, g')"
    and recs: "dataset_records r gen fs is g' = (Inr recs, h)" "records = rec # recs"
    by (auto simp: sm_bind_Inr_iff)
  have "record_conforms gen [] i []" by (simp add: record_conforms_def)
  with record_values_conform [OF assms(1,2), of "[]"] assms(3) rec have "record_conforms gen fs i rec" by simp
  with Cons.IH [OF recs(1)] recs(2) show ?case by simp
qed simp

definition dataset_conforms :: "pack_data \<Rightarrow> dataset_blueprint \<Rightarrow> pack_record list \<Rightarrow> bool" where
  "dataset_conforms gen d records \<longleftrightarrow> length records = nat (ds_row_count d)
     \<and> (\<forall>i < length records. record_conforms gen (ds_fields d) i (records ! i))"

definition checked_dataset :: "dataset_blueprint \<Rightarrow> bool" where
  "checked_dataset d \<longleftrightarrow> mk_dataset_blueprint d = Inr d \<and> (\<forall>f \<in> set (ds_fields d). mk_field_blueprint f = Inr f)"

lemma generate_dataset_conforms:
  assumes "rng_lawful r" and "checked_dataset d" and "generate_dataset p r pk d gen = Inr records"
  shows "dataset_conforms gen d records"
proof -
  obtain h where "dataset_records r gen (ds_fields d) [0..<nat (ds_row_count d)] (rng_seeded r (dataset_seed p pk d)) = (Inr records, h)"
    using assms(3) unfolding generate_dataset_def by (metis prod.collapse)
  from dataset_records_conform [OF assms(1) _ _ this] assms(2)
  have "list_all2 (record_conforms gen (ds_fields d)) [0..<nat (ds_row_count d)] records"
    by (simp add: checked_dataset_def mk_dataset_blueprint_Inr)
  then show ?thesis by (auto simp: dataset_conforms_def list_all2_conv_all_nth)
qed

lemma field_conforms_mono:
  assumes "dict_get gen \<subseteq>\<^sub>m dict_get gen'" and "field_conforms gen index f v"
  shows "field_conforms gen' index f v"
proof -
  have "dict_get gen' k = Some x" if "dict_get gen k = Some x" for k x
    using assms(1) that by (metis domI map_le_def)
  then show ?thesis using assms(2) unfolding field_conforms_def by (cases "fb_kind f") (simp, simp, simp, simp, fastforce)
qed

lemma dataset_conforms_mono:
  "dict_get gen \<subseteq>\<^sub>m dict_get gen' \<Longrightarrow> dataset_conforms gen d records \<Longrightarrow> dataset_conforms gen' d records"
  unfolding dataset_conforms_def record_conforms_def by (meson field_conforms_mono)

section \<open>The invariant of the worklist\<close>

definition in_order :: "dataset_blueprint list \<Rightarrow> pack_data \<Rightarrow> bool" where
  \<comment> \<open>what a dataset refers to was generated before it\<close>
  "in_order datasets gen \<longleftrightarrow> (\<forall>i < length gen. \<forall>d \<in> set datasets. fst (gen ! i) = ds_dataset_id d \<longrightarrow>
     set (dataset_references d) \<subseteq> set (dict_keys (take i gen)))"

definition generating :: "dataset_blueprint list \<Rightarrow> pack_data \<Rightarrow> dataset_blueprint list \<Rightarrow> bool" where
  "generating datasets gen pending \<longleftrightarrow> dict_wf gen \<and> distinct pending \<and> set pending \<subseteq> set datasets
     \<and> set (dict_keys gen) = ds_dataset_id ` (set datasets - set pending)
     \<and> (\<forall>d \<in> set datasets - set pending. \<exists>records. dict_get gen (ds_dataset_id d) = Some records \<and> dataset_conforms gen d records)
     \<and> in_order datasets gen"

definition checked_pack :: "pack_definition \<Rightarrow> bool" where
  "checked_pack pk \<longleftrightarrow> mk_pack_definition pk = Inr pk \<and> (\<forall>d \<in> set (pk_datasets pk). checked_dataset d)"

lemma checked_pack_ids: "checked_pack pk \<Longrightarrow> inj_on ds_dataset_id (set (pk_datasets pk)) \<and> distinct (pk_datasets pk)"
  by (simp add: checked_pack_def mk_pack_definition_Inr distinct_map)

lemma in_order_append:
  assumes "in_order datasets gen" and "ready gen d" and "inj_on ds_dataset_id (set datasets)" and "d \<in> set datasets"
  shows "in_order datasets (gen @ [(ds_dataset_id d, records)])"
  unfolding in_order_def
proof (intro allI impI ballI)
  fix i e
  assume i: "i < length (gen @ [(ds_dataset_id d, records)])" and e: "e \<in> set datasets"
    and eq: "fst ((gen @ [(ds_dataset_id d, records)]) ! i) = ds_dataset_id e"
  show "set (dataset_references e) \<subseteq> set (dict_keys (take i (gen @ [(ds_dataset_id d, records)])))"
  proof (cases "i < length gen")
    case True
    then show ?thesis using assms(1) e eq by (simp add: in_order_def nth_append)
  next
    case False
    with i have "i = length gen" by simp
    with eq assms(3,4) e have "e = d" by (simp add: inj_on_def)
    then show ?thesis using assms(2) \<open>i = length gen\<close> by (simp add: ready_def)
  qed
qed

lemma generating_step:
  assumes pk: "checked_pack pk" and r: "rng_lawful r" and inv: "generating (pk_datasets pk) gen pending"
    and d: "d \<in> set pending" and ready: "ready gen d" and records: "generate_dataset p r pk d gen = Inr records"
  shows "generating (pk_datasets pk) (dict_set (ds_dataset_id d) records gen) (remove1 d pending)"
proof -
  let ?gen = "dict_set (ds_dataset_id d) records gen" and ?all = "set (pk_datasets pk)"
  have in_all: "d \<in> ?all" and dist: "distinct pending" using inv d by (auto simp: generating_def)
  then have checked: "checked_dataset d" using pk by (simp add: checked_pack_def)
  have left: "?all - set (remove1 d pending) = insert d (?all - set pending)"
    using in_all d dist by auto
  have fresh: "ds_dataset_id d \<notin> set (dict_keys gen)"
    using inv d in_all checked_pack_ids [OF pk] by (auto simp: generating_def inj_on_def)
  then have grows: "dict_get gen \<subseteq>\<^sub>m dict_get ?gen"
    by (simp add: map_le_def) (metis dict_get_None domIff list.set_map)
  have conform: "\<exists>rs. dict_get ?gen (ds_dataset_id e) = Some rs \<and> dataset_conforms ?gen e rs" if "e \<in> insert d (?all - set pending)" for e
  proof (cases "e = d")
    case True
    then show ?thesis
      using dataset_conforms_mono [OF grows generate_dataset_conforms [OF r checked records]] by simp
  next
    case False
    with that have "e \<in> ?all - set pending" by blast
    then obtain rs where "dict_get gen (ds_dataset_id e) = Some rs" "dataset_conforms gen e rs"
      using inv unfolding generating_def by blast
    then show ?thesis using grows dataset_conforms_mono [OF grows] by (metis domI map_le_def)
  qed
  have keys: "set (dict_keys ?gen) = ds_dataset_id ` insert d (?all - set pending)"
    using inv by (simp add: generating_def)
  have "dict_wf ?gen \<and> distinct (remove1 d pending) \<and> set (remove1 d pending) \<subseteq> ?all"
    using inv set_remove1_subset [of d pending] by (auto simp: generating_def)
  moreover have "in_order (pk_datasets pk) ?gen"
    using in_order_append [OF _ ready _ in_all] inv checked_pack_ids [OF pk] dict_set_new [OF fresh]
    by (simp add: generating_def)
  ultimately show ?thesis using keys conform unfolding generating_def left by blast
qed

lemma generating_pass:
  assumes "checked_pack pk" and "rng_lawful r"
    and "generating (pk_datasets pk) gen pending" and "distinct ds" and "set ds \<subseteq> set pending"
    and "generation_pass p r pk ds (gen, pending, b) = Inr (gen', pending', b')"
  shows "generating (pk_datasets pk) gen' pending'"
  using assms(3-)
proof (induction ds arbitrary: gen pending b)
  case (Cons d ds)
  show ?case
  proof (cases "ready gen d")
    case True
    then obtain records where records: "generate_dataset p r pk d gen = Inr records"
      and rest: "generation_pass p r pk ds (dict_set (ds_dataset_id d) records gen, remove1 d pending, True) = Inr (gen', pending', b')"
      using Cons.prems(4) by (auto simp: ck_bind_Inr)
    have "set ds \<subseteq> set (remove1 d pending)"
      using Cons.prems(1-3) by (auto simp: generating_def)
    with generating_step [OF assms(1,2) Cons.prems(1) _ True records] Cons.prems(2,3) show ?thesis
      by (intro Cons.IH [OF _ _ _ rest]) auto
  next
    case False
    with Cons show ?thesis by auto
  qed
qed simp

lemma generating_loop:
  assumes "checked_pack pk" and "rng_lawful r" and "generating (pk_datasets pk) gen pending"
    and "generation_loop p r pk gen pending = Inr final"
  shows "generating (pk_datasets pk) final []"
  using assms
proof (induction p r pk gen pending rule: generation_loop.induct)
  case (1 p r pk gen pending)
  show ?case
  proof (cases "pending = []")
    case True
    with 1 show ?thesis by (simp add: generation_loop.simps)
  next
    case False
    then obtain gen' pending' where pass: "generation_pass p r pk pending (gen, pending, False) = Inr (gen', pending', True)"
      and rest: "generation_loop p r pk gen' pending' = Inr final"
      using "1.prems"(4) by (subst (asm) generation_loop.simps) (auto split: sum.splits if_splits)
    have "generating (pk_datasets pk) gen' pending'"
      using generating_pass [OF "1.prems"(1-3) _ _ pass] "1.prems"(3) by (simp add: generating_def)
    then show ?thesis by (rule "1.IH" [OF False pass refl refl TrueI "1.prems"(1,2) _ rest])
  qed
qed

lemma generating_start: "checked_pack pk \<Longrightarrow> generating (pk_datasets pk) [] (pk_datasets pk)"
  using checked_pack_ids by (simp add: generating_def in_order_def)

lemma generate_generates:
  "checked_pack pk \<Longrightarrow> rng_lawful r \<Longrightarrow> generate p r pk = Inr gen \<Longrightarrow> generating (pk_datasets pk) gen []"
  unfolding generate_def by (rule generating_loop [OF _ _ generating_start])

section \<open>References that can be ordered are resolved\<close>

definition ranked :: "(string \<Rightarrow> nat) \<Rightarrow> pack_definition \<Rightarrow> bool" where
  \<comment> \<open>every reference goes to a dataset of the pack, of smaller rank\<close>
  "ranked rank pk \<longleftrightarrow> (\<forall>d \<in> set (pk_datasets pk). \<forall>x \<in> set (dataset_references d).
     x \<in> ds_dataset_id ` set (pk_datasets pk) \<and> rank x < rank (ds_dataset_id d))"

definition names_fields :: "pack_definition \<Rightarrow> bool" where
  \<comment> \<open>a reference names a field of the dataset it goes to\<close>
  "names_fields pk \<longleftrightarrow> (\<forall>d \<in> set (pk_datasets pk). \<forall>f \<in> set (ds_fields d). fb_kind f = FK_Reference \<longrightarrow>
     (\<forall>e \<in> set (pk_datasets pk). text_of (fb_reference_dataset f) = ds_dataset_id e \<longrightarrow>
        text_of (fb_reference_field f) \<in> fb_name ` set (ds_fields e)))"

lemma field_value_total:
  assumes "mk_field_blueprint f = Inr f" and "fb_kind f = FK_Reference \<Longrightarrow> \<exists>v. referenced_value gen index f = Inr v"
  shows "\<exists>v h. field_value r gen index f g = (Inr v, h)"
proof -
  have "\<exists>b g'. draw_null r f g = (Inr b, g')"
    by (auto simp: draw_null_def draw_def sm_bind_def split: option.split)
  then obtain b g' where "draw_null r f g = (Inr b, g')" by blast
  then show ?thesis using assms
    by (cases "fb_kind f")
      (auto simp: field_value_def draw_choice_def draw_integer_def draw_def sm_bind_def mk_field_blueprint_Inr)
qed

lemma record_values_total:
  assumes "\<forall>f \<in> set fs. mk_field_blueprint f = Inr f"
    and "\<forall>f \<in> set fs. fb_kind f = FK_Reference \<longrightarrow> (\<exists>v. referenced_value gen index f = Inr v)"
  shows "\<exists>rec h. record_values r gen index fs rec0 g = (Inr rec, h)"
  using assms
proof (induction fs arbitrary: rec0 g)
  case (Cons f fs)
  obtain v h where "field_value r gen index f g = (Inr v, h)"
    using field_value_total [of f gen index r g] Cons.prems by auto
  with Cons.IH [of "dict_set (fb_name f) v rec0" h] Cons.prems show ?case by simp
qed simp

lemma dataset_records_total:
  assumes "\<forall>f \<in> set fs. mk_field_blueprint f = Inr f"
    and "\<forall>f \<in> set fs. \<forall>index. fb_kind f = FK_Reference \<longrightarrow> (\<exists>v. referenced_value gen index f = Inr v)"
  shows "\<exists>records h. dataset_records r gen fs is g = (Inr records, h)"
proof (induction "is" arbitrary: g)
  case (Cons i "is")
  obtain rec h where rec: "record_values r gen i fs [] g = (Inr rec, h)"
    using record_values_total [OF assms(1), of gen i r "[]" g] assms(2) by auto
  obtain recs h' where "dataset_records r gen fs is h = (Inr recs, h')" using Cons.IH by blast
  with rec show ?case by simp
qed simp

lemma referenced_value_total:
  assumes "dict_get gen (text_of (fb_reference_dataset f)) = Some records" and "dataset_conforms gen' e records"
    and "checked_dataset e" and "text_of (fb_reference_field f) \<in> fb_name ` set (ds_fields e)"
  shows "\<exists>v. referenced_value gen index f = Inr v"
proof -
  have pos: "0 < length records" using assms(2,3) by (simp add: dataset_conforms_def checked_dataset_def mk_dataset_blueprint_Inr)
  then have "index mod length records < length records" by simp
  with assms(2) have "record_conforms gen' (ds_fields e) (index mod length records) (records ! (index mod length records))"
    unfolding dataset_conforms_def by blast
  then obtain v where "dict_get (records ! (index mod length records)) (text_of (fb_reference_field f)) = Some v"
    using assms(4) by (auto simp: record_conforms_def)
  then show ?thesis using assms(1) pos by (simp add: referenced_value_def)
qed

lemma generate_dataset_total:
  assumes pk: "checked_pack pk" and names: "names_fields pk" and inv: "generating (pk_datasets pk) gen pending"
    and d: "d \<in> set (pk_datasets pk)" and "ready gen d"
  shows "\<exists>records. generate_dataset p r pk d gen = Inr records"
proof -
  have checked: "checked_dataset e" if "e \<in> set (pk_datasets pk)" for e using pk that by (simp add: checked_pack_def)
  have "\<exists>v. referenced_value gen index f = Inr v" if f: "f \<in> set (ds_fields d)" "fb_kind f = FK_Reference" for f index
  proof -
    have "text_of (fb_reference_dataset f) \<in> set (dict_keys gen)"
      using assms(5) f by (force simp: ready_def dataset_references_def)
    then obtain e where e: "e \<in> set (pk_datasets pk) - set pending" "text_of (fb_reference_dataset f) = ds_dataset_id e"
      using inv by (auto simp: generating_def)
    moreover have "text_of (fb_reference_field f) \<in> fb_name ` set (ds_fields e)"
      using names d f e unfolding names_fields_def by blast
    moreover obtain records where "dict_get gen (ds_dataset_id e) = Some records" "dataset_conforms gen e records"
      using inv e(1) unfolding generating_def by blast
    ultimately show ?thesis using referenced_value_total [of gen f records gen e] checked by simp
  qed
  then have "\<exists>records h. dataset_records r gen (ds_fields d) is g = (Inr records, h)" for "is" g
    using checked [OF d] by (intro dataset_records_total) (auto simp: checked_dataset_def)
  then show ?thesis unfolding generate_dataset_def by (metis fst_conv)
qed

lemma ready_grows: "ready gen d \<Longrightarrow> ready (dict_set k v gen) d"
  by (auto simp: ready_def)

lemma pass_total:
  assumes "checked_pack pk" and "rng_lawful r" and "names_fields pk"
    and "generating (pk_datasets pk) gen pending" and "distinct ds" and "set ds \<subseteq> set pending"
  shows "\<exists>gen' pending' b'. generation_pass p r pk ds (gen, pending, b) = Inr (gen', pending', b')
    \<and> (b \<or> list_ex (ready gen) ds \<longrightarrow> b')"
  using assms(4-)
proof (induction ds arbitrary: gen pending b)
  case (Cons d ds)
  show ?case
  proof (cases "ready gen d")
    case True
    have d: "d \<in> set pending" "d \<in> set (pk_datasets pk)" using Cons.prems by (auto simp: generating_def)
    then obtain records where records: "generate_dataset p r pk d gen = Inr records"
      using generate_dataset_total [OF assms(1,3) Cons.prems(1) _ True] by blast
    have "set ds \<subseteq> set (remove1 d pending)" using Cons.prems by (auto simp: generating_def)
    with generating_step [OF assms(1,2) Cons.prems(1) d(1) True records] Cons.prems(2)
      Cons.IH [of "dict_set (ds_dataset_id d) records gen" "remove1 d pending" True]
    show ?thesis using True records by auto
  next
    case False
    with Cons show ?thesis by simp
  qed
qed simp

lemma some_ready:
  assumes "checked_pack pk" and "ranked rank pk" and inv: "generating (pk_datasets pk) gen pending" and "pending \<noteq> []"
  shows "list_ex (ready gen) pending"
proof -
  obtain d where d: "d \<in> set pending" "\<And>e. e \<in> set pending \<Longrightarrow> rank (ds_dataset_id d) \<le> rank (ds_dataset_id e)"
    using assms(4) arg_min_if_finite [of "set pending" "\<lambda>d. rank (ds_dataset_id d)"]
    by (metis List.finite_set not_le set_empty)
  have "x \<in> set (dict_keys gen)" if x: "x \<in> set (dataset_references d)" for x
  proof -
    have "d \<in> set (pk_datasets pk)" using d(1) inv by (auto simp: generating_def)
    then obtain e where e: "e \<in> set (pk_datasets pk)" "x = ds_dataset_id e" "rank x < rank (ds_dataset_id d)"
      using assms(2) x unfolding ranked_def by blast
    then have "e \<notin> set pending" using d(2) by force
    then show ?thesis using e(1,2) inv by (auto simp: generating_def)
  qed
  then have "ready gen d" by (auto simp: ready_def)
  then show ?thesis using d(1) by (auto simp: list_ex_iff)
qed

lemma loop_total:
  assumes "checked_pack pk" and "rng_lawful r" and "names_fields pk" and "ranked rank pk"
    and "generating (pk_datasets pk) gen pending"
  shows "\<exists>final. generation_loop p r pk gen pending = Inr final"
  using assms
proof (induction p r pk gen pending rule: generation_loop.induct)
  case (1 p r pk gen pending)
  show ?case
  proof (cases "pending = []")
    case False
    have "distinct pending" using "1.prems"(5) by (simp add: generating_def)
    then obtain gen' pending' where pass: "generation_pass p r pk pending (gen, pending, False) = Inr (gen', pending', True)"
      using pass_total [OF "1.prems"(1-3,5) _ subset_refl, of p False] some_ready [OF "1.prems"(1,4,5) False] by auto
    have "generating (pk_datasets pk) gen' pending'"
      using generating_pass [OF "1.prems"(1,2,5) _ _ pass] \<open>distinct pending\<close> by simp
    then obtain final where "generation_loop p r pk gen' pending' = Inr final"
      using "1.IH" [OF False pass refl refl TrueI "1.prems"(1-4)] by blast
    then show ?thesis using False pass by (subst generation_loop.simps) simp
  qed (simp add: generation_loop.simps)
qed

lemma generated_order_ranks:
  assumes "checked_pack pk" and inv: "generating (pk_datasets pk) gen []"
  shows "\<exists>rank. ranked rank pk"
proof -
  define rank where "rank x = (LEAST i. i < length gen \<and> fst (gen ! i) = x)" for x
  have rank: "rank x < length gen \<and> fst (gen ! rank x) = x \<and> (\<forall>i < length gen. fst (gen ! i) = x \<longrightarrow> rank x \<le> i)"
    if x: "x \<in> set (dict_keys gen)" for x
  proof -
    obtain i where "i < length gen \<and> fst (gen ! i) = x" using x unfolding in_set_conv_nth by auto
    then show ?thesis unfolding rank_def by (metis (mono_tags, lifting) LeastI Least_le)
  qed
  have ids: "set (dict_keys gen) = ds_dataset_id ` set (pk_datasets pk)" using inv by (simp add: generating_def)
  have "x \<in> set (dict_keys gen) \<and> rank x < rank (ds_dataset_id d)"
    if d: "d \<in> set (pk_datasets pk)" and x: "x \<in> set (dataset_references d)" for d x
  proof -
    have at_d: "rank (ds_dataset_id d) < length gen" "fst (gen ! rank (ds_dataset_id d)) = ds_dataset_id d"
      using rank ids d by blast+
    then have "x \<in> set (dict_keys (take (rank (ds_dataset_id d)) gen))"
      using inv d x unfolding generating_def in_order_def by blast
    then obtain i where i: "i < rank (ds_dataset_id d)" "i < length gen" "fst (gen ! i) = x"
      by (auto simp: in_set_conv_nth)
    then have "x \<in> set (dict_keys gen)" by auto
    with rank i show ?thesis by fastforce
  qed
  then show ?thesis unfolding ranked_def ids by blast
qed

text \<open>
  C34. The worklist ends with every dataset generated exactly if the references can be ordered. For a checked
  definition whose references name existing fields, generation returns a pack if and only if there is a ranking
  under which every reference goes to a dataset of the pack of smaller rank; else it raises.
\<close>

theorem generation_resolves_iff:
  assumes "checked_pack pk" and "rng_lawful r" and "names_fields pk"
  shows "(\<exists>gen. generate p r pk = Inr gen) \<longleftrightarrow> (\<exists>rank. ranked rank pk)"
proof
  assume "\<exists>gen. generate p r pk = Inr gen"
  then show "\<exists>rank. ranked rank pk" using generate_generates [OF assms(1,2)] generated_order_ranks [OF assms(1)] by blast
next
  assume "\<exists>rank. ranked rank pk"
  then show "\<exists>gen. generate p r pk = Inr gen"
    unfolding generate_def using loop_total [OF assms _ generating_start] assms(1) by blast
qed

text \<open>
  C35. Every generated record has the type of its blueprint: the pack holds each dataset under its id with the
  rows asked for, each record has exactly the fields of the blueprint in their order, and each value is null
  where the field is nullable, or of the kind of its field and within its bounds; a reference is a value of the
  referenced field of the referenced dataset.
\<close>

theorem generated_records_conform:
  assumes "checked_pack pk" and "rng_lawful r" and "generate p r pk = Inr gen" and "d \<in> set (pk_datasets pk)"
  shows "\<exists>records. dict_get gen (ds_dataset_id d) = Some records \<and> length records = nat (ds_row_count d)
    \<and> (\<forall>i < length records. dict_keys (records ! i) = map fb_name (ds_fields d)
        \<and> (\<forall>f \<in> set (ds_fields d). \<exists>v. dict_get (records ! i) (fb_name f) = Some v \<and> field_conforms gen i f v))"
proof -
  have "generating (pk_datasets pk) gen []" by (rule generate_generates [OF assms(1-3)])
  then obtain records where "dict_get gen (ds_dataset_id d) = Some records" "dataset_conforms gen d records"
    using assms(4) by (auto simp: generating_def)
  then show ?thesis unfolding dataset_conforms_def record_conforms_def by blast
qed

section \<open>Keys\<close>

lemma read_nat_pad: "read_nat (replicate k (CHR ''0'') @ s) = read_nat s"
  by (induction k) (simp_all add: read_nat_def digit_value_def)

lemma pad4_inj: "pad4 m = pad4 n \<Longrightarrow> m = n"
  by (metis pad4_def read_nat_pad read_show_nat)

lemma sequence_values_distinct:
  assumes "field_conforms gen i f v" and "field_conforms gen j f v" and "fb_kind f = FK_Sequence"
  shows "i = j"
  using assms pad4_inj by (fastforce simp: field_conforms_def)

section \<open>The rendered lines read back\<close>

lemma render_jsonl_Cons: "render_jsonl (rec # records) = canonical (JObj rec) @ CHR 0x0A # render_jsonl records"
  by (simp add: render_jsonl_def)

lemma text_lines_append: "CHR 0x0A \<notin> set l \<Longrightarrow> text_lines (l @ CHR 0x0A # s) = (l @ [CHR 0x0A]) # text_lines s"
  by (induction l) (auto split: list.split)

lemma jsonl_line: "sound_json (JObj rec) \<Longrightarrow> CHR 0x0A \<notin> set (canonical (JObj rec))"
  by (simp add: canonical_def dumps_line sound_sort_keys del: sort_keys.simps)

lemma jsonl_lines:
  "\<forall>rec \<in> set records. sound_json (JObj rec) \<Longrightarrow>
    text_lines (render_jsonl records) = map (\<lambda>rec. canonical (JObj rec) @ [CHR 0x0A]) records"
proof (induction records)
  case (Cons rec records)
  then have "CHR 0x0A \<notin> set (canonical (JObj rec))" by (intro jsonl_line) simp
  with Cons show ?case by (simp add: render_jsonl_Cons text_lines_append del: text_lines.simps)
qed (simp add: render_jsonl_def)

lemma jsonl_reads_back:
  assumes "\<forall>rec \<in> set records. plain (JObj rec)"
  shows "check_all (json_loads fl) (text_lines (render_jsonl records)) = Inr (map (\<lambda>rec. sort_keys (JObj rec)) records)"
proof -
  have "check_all (json_loads fl) (map (\<lambda>rec. canonical (JObj rec) @ [CHR 0x0A]) rs) = Inr (map (\<lambda>rec. sort_keys (JObj rec)) rs)"
    if "\<forall>rec \<in> set rs. plain (JObj rec)" for rs
    using that by (induction rs) (simp_all add: loads_canonical_line del: sort_keys.simps plain.simps)
  with assms show ?thesis by (simp add: jsonl_lines plain_sound del: plain.simps sound_json.simps sort_keys.simps)
qed

section \<open>A pack\<close>

definition sample_field :: "string \<Rightarrow> field_kind \<Rightarrow> field_blueprint" where
  "sample_field name kind = \<lparr>fb_name = name, fb_kind = kind, fb_values = [''red'', ''blue''], fb_minimum = 3, fb_maximum = 9,
     fb_prefix = name, fb_reference_dataset = None, fb_reference_field = None, fb_weights = [], fb_null_rate = Some 0\<rparr>"

definition sample_orders :: dataset_blueprint where
  "sample_orders = \<lparr>ds_dataset_id = ''orders'', ds_row_count = 3, ds_fields =
     [sample_field ''order'' FK_Sequence,
      (sample_field ''item'' FK_Reference)\<lparr>fb_reference_dataset := Some ''items'', fb_reference_field := Some ''item''\<rparr>,
      sample_field ''quantity'' FK_Integer, sample_field ''placed'' FK_Timestamp]\<rparr>"

definition sample_items :: dataset_blueprint where
  "sample_items = \<lparr>ds_dataset_id = ''items'', ds_row_count = 2,
     ds_fields = [sample_field ''item'' FK_Sequence, (sample_field ''colour'' FK_Choice)\<lparr>fb_null_rate := Some (1 / 2)\<rparr>]\<rparr>"

definition sample_pack :: pack_definition where
  "sample_pack = \<lparr>pk_pack_id = ''shop'', pk_version = ''1'', pk_seed = 7, pk_datasets = [sample_orders, sample_items]\<rparr>"

definition counting_rng :: "nat rng" where
  \<comment> \<open>a generator that counts its draws\<close>
  "counting_rng = \<lparr>rng_seeded = (\<lambda>n. 0), rng_random = (\<lambda>g. (if even g then 0 else 3 / 4, Suc g)),
     rng_choices = (\<lambda>ws g. (g mod length ws, Suc g)), rng_randrange = (\<lambda>n g. (g mod n, Suc g)),
     rng_randint = (\<lambda>a b g. (a + int g mod (b - a + 1), Suc g))\<rparr>"

lemma counting_rng_lawful: "rng_lawful counting_rng"
proof -
  have "int g mod (b - a + 1) < b - a + 1" if "a \<le> b" for g and a b :: int
    by (rule pos_mod_bound) (use that in simp)
  then have "a + int g mod (b - a + 1) \<le> b" if "a \<le> b" for g and a b :: int
    using that by (metis add.commute less_add_one le_diff_eq zle_diff1_eq add_diff_cancel_right')
  then show ?thesis by (auto simp: rng_lawful_def counting_rng_def)
qed

lemma sample_pack_checked: "checked_pack sample_pack" "names_fields sample_pack"
  by code_simp+

lemma sample_pack_generated:
  "generate sample_prims counting_rng sample_pack = Inr
     [(''items'', [[(''item'', JStr ''item-0001''), (''colour'', JNull)], [(''item'', JStr ''item-0002''), (''colour'', JStr ''red'')]]),
      (''orders'', [[(''order'', JStr ''order-0001''), (''item'', JStr ''item-0001''), (''quantity'', JInt 3), (''placed'', JStr ''2026-01-01T00:01:00+00:00'')],
        [(''order'', JStr ''order-0002''), (''item'', JStr ''item-0002''), (''quantity'', JInt 5), (''placed'', JStr ''2026-01-01T00:03:00+00:00'')],
        [(''order'', JStr ''order-0003''), (''item'', JStr ''item-0001''), (''quantity'', JInt 7), (''placed'', JStr ''2026-01-01T00:05:00+00:00'')]])]"
  by code_simp

lemma timestamp_examples:
  "timestamp_text 0 = ''2026-01-01T00:00:00+00:00''" "timestamp_text 84960 = ''2026-03-01T00:00:00+00:00''"
  "timestamp_text 525599 = ''2026-12-31T23:59:00+00:00''" "timestamp_text 525600 = ''2027-01-01T00:00:00+00:00''"
  by code_simp+

theorem generation_resolves_iff_witness:
  "\<exists>rank. ranked rank sample_pack"
  using generation_resolves_iff [OF sample_pack_checked(1) counting_rng_lawful sample_pack_checked(2), of sample_prims]
    sample_pack_generated by simp

theorem generated_records_conform_witness:
  "\<exists>records :: pack_record list. length records = 3 \<and> (\<forall>i < 3. dict_keys (records ! i) = [''order'', ''item'', ''quantity'', ''placed''])"
proof -
  have "sample_orders \<in> set (pk_datasets sample_pack)" by (simp add: sample_pack_def)
  from generated_records_conform [OF sample_pack_checked(1) counting_rng_lawful sample_pack_generated this]
  show ?thesis by (rule ex_forward) (simp add: sample_orders_def sample_field_def)
qed

text \<open>A dataset id with slashes: its file leaves the output directory, and another dataset takes its digest.\<close>

lemma slashes_escape:
  "map fst (jsonl_files [(''../a/x'', []), (''b/x'', [])]) = [''../a/x.jsonl'', ''b/x.jsonl'']"
  "dict_keys (jsonl_digests sample_prims (jsonl_files [(''../a/x'', []), (''b/x'', [])])) = [''x.jsonl'']"
  by code_simp+

end
