(* ===== verification/Decoder.thy ===== *)
theory Decoder
  imports Data_Models Pack_Factory
begin

text \<open>
  decoder.py: the boundary where untrusted bytes become batches, and the registry of decoders by format. The
  decoding of UTF-8, the events of \<open>HTMLParser\<close> and the float a literal denotes are parameters; CSV and JSON are
  read by the models of \<open>csv\<close> and \<open>json\<close>. Two refusals are coarser than in the code: the limit on the digits of
  an integer, whose ValueError the code lets escape, is a rejection here, and the limit on the nesting of a JSON
  text is not modelled.
\<close>

declare map_of_eq_Some_iff [simp del] Some_eq_map_of_iff [simp del]

section \<open>Requests and results\<close>

datatype payload_format = PF_Csv | PF_Json | PF_Html | PF_Pdf | PF_Text | PF_Arrow

datatype content_trust = Untrusted_Source

record decoder_limits =
  dl_max_payload_bytes :: int
  dl_max_records :: int
  dl_max_text_characters :: int

definition mk_decoder_limits :: "decoder_limits \<Rightarrow> decoder_limits checked" where
  "mk_decoder_limits l =
     (if Min {dl_max_payload_bytes l, dl_max_records l, dl_max_text_characters l} \<le> 0
      then Inl (ValueError ''decoder limits must be positive'') else Inr l)"

record decode_request =
  dq_payload :: string
  dq_format :: payload_format
  dq_source_version :: source_version
  dq_lineage :: "lineage_ref list"
  dq_media_type :: string

definition mk_decode_request :: "decode_request \<Rightarrow> decode_request checked" where
  "mk_decode_request q =
     (if dq_payload q = [] \<or> dq_lineage q = [] \<or> dq_media_type q = []
      then Inl (ValueError ''decode requests require payload, media type and lineage'') else Inr q)"

record decode_result =
  dr_batches :: "data_batch list"
  dr_trust :: content_trust
  dr_warnings :: "string list"

definition mk_decode_result :: "decode_result \<Rightarrow> decode_result checked" where
  "mk_decode_result d =
     (if dr_batches d = [] then Inl (ValueError ''decoder must produce at least one lineage-bearing batch'') else Inr d)"

datatype decode_error = Decode_Rejected string | Decode_Raised py_error

section \<open>The registry\<close>

record decoder =
  dec_decoder_id :: string
  dec_supported_formats :: "payload_format list"

type_synonym decoders = "(payload_format, decoder) dict"

definition register_decoder :: "decoder \<Rightarrow> decoders \<Rightarrow> decoders checked" where
  "register_decoder d reg =
     (if dec_supported_formats d = [] then Inl (ValueError ''decoder must advertise at least one format'')
      else if set (dec_supported_formats d) \<inter> set (dict_keys reg) \<noteq> {}
      then Inl (ValueError ''decoder format already registered: '')
      else Inr (fold (\<lambda>f. dict_set f d) (dec_supported_formats d) reg))"

definition get_decoder :: "decoders \<Rightarrow> payload_format \<Rightarrow> decoder checked" where
  "get_decoder reg f = (case dict_get reg f of None \<Rightarrow> Inl (KeyError ''no decoder for format: '') | Some d \<Rightarrow> Inr d)"

definition standard_decoder :: decoder where
  "standard_decoder = \<lparr>dec_decoder_id = ''data.harness.standard/v1'', dec_supported_formats = [PF_Csv, PF_Json, PF_Html, PF_Text]\<rparr>"

definition with_standard_decoders :: "decoders checked" where
  "with_standard_decoders = register_decoder standard_decoder []"

section \<open>Text of an HTML page\<close>

datatype html_event = Start_Tag string | End_Tag string | Html_Data string

record html_text =
  ht_fragments :: "string list"
  ht_ignored_depth :: nat
  ht_active_content_removed :: bool

definition html_start :: html_text where
  "html_start = \<lparr>ht_fragments = [], ht_ignored_depth = 0, ht_active_content_removed = False\<rparr>"

definition active_tag :: "string \<Rightarrow> bool" where
  "active_tag tag \<longleftrightarrow> str_lower tag \<in> {''script'', ''style'', ''template'', ''noscript''}"

fun html_step :: "html_event \<Rightarrow> html_text \<Rightarrow> html_text" where
  "html_step (Start_Tag tag) h =
     (if active_tag tag then h\<lparr>ht_ignored_depth := Suc (ht_ignored_depth h), ht_active_content_removed := True\<rparr> else h)"
| "html_step (End_Tag tag) h =
     (if active_tag tag \<and> ht_ignored_depth h \<noteq> 0 then h\<lparr>ht_ignored_depth := ht_ignored_depth h - 1\<rparr> else h)"
| "html_step (Html_Data d) h =
     (if ht_ignored_depth h = 0 \<and> str_strip d \<noteq> [] then h\<lparr>ht_fragments := ht_fragments h @ [str_strip d]\<rparr> else h)"

section \<open>JSON and CSV\<close>

definition line_break :: "char \<Rightarrow> bool" where
  "line_break c \<longleftrightarrow> c \<in> {CHR 0x0A, CHR 0x0D, CHR 0x0B, CHR 0x0C, CHR 0x1C, CHR 0x1D, CHR 0x1E, CHR 0x85}"

fun str_splitlines :: "string \<Rightarrow> string list" where
  "str_splitlines [] = []"
| "str_splitlines [c] = (if line_break c then [[]] else [[c]])"
| "str_splitlines (c # d # s) =
     (if c = CHR 0x0D \<and> d = CHR 0x0A then [] # str_splitlines s
      else if line_break c then [] # str_splitlines (d # s)
      else (c # hd (str_splitlines (d # s))) # tl (str_splitlines (d # s)))"

fun json_constant_in :: "string \<Rightarrow> bool" and json_constant_after_quote :: "string \<Rightarrow> bool" where
  \<comment> \<open>whether a JSON text has one of the constants \<open>parse_constant\<close> is called for: the letters N and I occur in no
    other token outside of its strings\<close>
  "json_constant_in [] = False"
| "json_constant_in (c # s) =
     (if c = CHR 0x22 then json_constant_after_quote s else c = CHR ''N'' \<or> c = CHR ''I'' \<or> json_constant_in s)"
| "json_constant_after_quote [] = False"
| "json_constant_after_quote [c] = False"
| "json_constant_after_quote (c # d # s) =
     (if c = CHR 0x22 then json_constant_in (d # s)
      else if c = CHR 0x5C then json_constant_after_quote s else json_constant_after_quote (d # s))"

record decode_env =
  dv_utf8 :: "string \<Rightarrow> string option"
  dv_float :: "string \<Rightarrow> string"
  dv_html :: "string \<Rightarrow> html_event list"

definition strict_loads :: "decode_env \<Rightarrow> string \<Rightarrow> (decode_error + json)" where
  "strict_loads env s =
     (if json_constant_in s then Inl (Decode_Rejected ''non-finite JSON constant rejected: '')
      else case json_loads (dv_float env) s of
             Inl e \<Rightarrow> Inl (Decode_Rejected ''payload is not valid bounded JSON'')
           | Inr v \<Rightarrow> Inr v)"

definition decode_json :: "decode_env \<Rightarrow> string \<Rightarrow> string \<Rightarrow> (decode_error + json \<times> int)" where
  "decode_json env s media_type =
     (if media_type \<in> {''application/jsonl'', ''application/x-ndjson''}
      then ck_bind (check_all (strict_loads env) (filter (\<lambda>line. str_strip line \<noteq> []) (str_splitlines s)))
             (\<lambda>vs. Inr (JArr vs, int (length vs)))
      else ck_bind (strict_loads env s) (\<lambda>v. Inr (v, case v of JArr vs \<Rightarrow> int (length vs) | _ \<Rightarrow> 1)))"

definition dict_reader_row :: "string list \<Rightarrow> string list \<Rightarrow> (string, json) dict" where
  \<comment> \<open>the named cells of a row; the missing ones are None\<close>
  "dict_reader_row names cells =
     fold (\<lambda>n. dict_set n JNull) (drop (length cells) names)
       (fold (\<lambda>(n, t). dict_set n (JStr t)) (zip names cells) [])"

definition dict_reader :: "string list list \<Rightarrow> (string list \<times> string list list)" where
  "dict_reader rows = (case rows of [] \<Rightarrow> ([], []) | names # rest \<Rightarrow> (names, filter (\<lambda>cells. cells \<noteq> []) rest))"

definition csv_payload :: "string list \<Rightarrow> string list list \<Rightarrow> payload" where
  \<comment> \<open>a row of more cells than names has None as a key, which no JSON value has\<close>
  "csv_payload names rows =
     (if list_ex (\<lambda>cells. length names < length cells) rows then P_Opaque
      else P_Json (JArr (map (\<lambda>cells. JObj (dict_reader_row names cells)) rows)))"

section \<open>Decoding\<close>

definition media_types :: "payload_format \<Rightarrow> string set option" where
  "media_types f =
     (case f of
        PF_Csv \<Rightarrow> Some {''text/csv'', ''application/csv''}
      | PF_Json \<Rightarrow> Some {''application/json'', ''application/jsonl'', ''application/x-ndjson''}
      | PF_Html \<Rightarrow> Some {''text/html'', ''application/xhtml+xml''}
      | PF_Text \<Rightarrow> Some {''text/plain'', ''text/markdown''}
      | _ \<Rightarrow> None)"

definition injection_markers :: "string list" where
  "injection_markers = [''ignore previous instructions'', ''ignore all previous'', ''system prompt'', ''developer message'']"

definition text_warnings :: "string \<Rightarrow> string list" where
  "text_warnings s =
     (if list_ex (str_contains (str_lower s)) injection_markers then [''potential-prompt-injection''] else [])"

definition content_payload :: "string \<Rightarrow> string \<Rightarrow> payload" where
  "content_payload content media_type = P_Json (JObj [(''content'', JStr content), (''media_type'', JStr media_type)])"

definition json_kind :: "json \<Rightarrow> batch_kind" where
  "json_kind v = (case v of JArr _ \<Rightarrow> BK_Arrow | _ \<Rightarrow> BK_Document)"

definition read_payload :: "decode_env \<Rightarrow> decode_request \<Rightarrow> string
    \<Rightarrow> (decode_error + (batch_kind \<times> payload \<times> int \<times> string list))" where
  "read_payload env q s =
     (case dq_format q of
        PF_Json \<Rightarrow> ck_bind (decode_json env s (str_lower (dq_media_type q))) (\<lambda>(v, rows).
          Inr (json_kind v, P_Json v, rows, text_warnings s))
      | PF_Csv \<Rightarrow> (case csv_read s of
            None \<Rightarrow> Inl (Decode_Rejected ''payload is not valid bounded CSV'')
          | Some table \<Rightarrow> (case dict_reader table of (names, rows) \<Rightarrow>
              Inr (BK_Arrow, csv_payload names rows, int (length rows), text_warnings s)))
      | PF_Html \<Rightarrow> (let h = fold html_step (dv_html env s) html_start in
          Inr (BK_Document, content_payload (join_with [CHR 0x0A] (ht_fragments h)) (dq_media_type q), 1,
               text_warnings s @ (if ht_active_content_removed h then [''active-html-content-removed''] else [])))
      | _ \<Rightarrow> Inr (BK_Document, content_payload s (dq_media_type q), 1, text_warnings s))"

definition decoded_result :: "decode_request \<Rightarrow> batch_kind \<times> payload \<times> int \<times> string list \<Rightarrow> decode_result checked" where
  "decoded_result q r = (case r of (kind, payload, rows, warnings) \<Rightarrow>
     ck_bind (mk_data_batch \<lparr>db_kind = kind, db_payload = payload, db_source_versions = [dq_source_version q],
         db_lineage = dq_lineage q, db_row_count = Some rows, db_byte_count = Some (int (length (dq_payload q)))\<rparr>)
       (\<lambda>b. mk_decode_result \<lparr>dr_batches = [b], dr_trust = Untrusted_Source, dr_warnings = warnings\<rparr>))"

definition raised :: "'a checked \<Rightarrow> (decode_error + 'a)" where
  "raised r = (case r of Inl e \<Rightarrow> Inl (Decode_Raised e) | Inr x \<Rightarrow> Inr x)"

definition decode :: "decoder_limits \<Rightarrow> decode_env \<Rightarrow> decode_request \<Rightarrow> (decode_error + decode_result)" where
  "decode limits env q =
     (if dl_max_payload_bytes limits < int (length (dq_payload q))
      then Inl (Decode_Rejected ''payload exceeds decoder byte limit'')
      else case media_types (dq_format q) of
        None \<Rightarrow> Inl (Decode_Raised (KeyError ''payload_format''))
      | Some types \<Rightarrow>
        if str_lower (dq_media_type q) \<notin> types
        then Inl (Decode_Rejected ''media type does not match the declared payload format'')
        else case dv_utf8 env (dq_payload q) of
          None \<Rightarrow> Inl (Decode_Rejected ''payload is not valid UTF-8'')
        | Some s \<Rightarrow>
          if dl_max_text_characters limits < int (length s)
          then Inl (Decode_Rejected ''decoded text exceeds character limit'')
          else ck_bind (read_payload env q s) (\<lambda>(kind, payload, rows, warnings).
            if dl_max_records limits < rows then Inl (Decode_Rejected ''decoded record count exceeds limit'')
            else raised (decoded_result q (kind, payload, rows, warnings))))"

section \<open>The registry only grows\<close>

lemma fold_dict_set_get: "dict_get (fold (\<lambda>f. dict_set f d) fs reg) f = (if f \<in> set fs then Some d else dict_get reg f)"
  by (induction fs arbitrary: reg) auto

lemma register_decoder_Inr:
  "register_decoder d reg = Inr reg' \<longleftrightarrow> dec_supported_formats d \<noteq> [] \<and> set (dec_supported_formats d) \<inter> set (dict_keys reg) = {}
    \<and> reg' = fold (\<lambda>f. dict_set f d) (dec_supported_formats d) reg"
  unfolding register_decoder_def guard_Inr by auto

lemma register_keeps:
  assumes "register_decoder d reg = Inr reg'" and "dict_get reg f = Some e"
  shows "dict_get reg' f = Some e"
proof -
  have "f \<in> set (dict_keys reg)" using assms(2) in_keys [of f reg] by simp
  then have "f \<notin> set (dec_supported_formats d)" using assms(1) unfolding register_decoder_Inr by blast
  then show ?thesis using assms by (simp add: register_decoder_Inr fold_dict_set_get)
qed

interpretation decoders: growing_system "\<lambda>d. attempt (register_decoder d)" "\<lambda>r s. dict_get r \<subseteq>\<^sub>m dict_get s"
proof
  fix r and d
  show "dict_get r \<subseteq>\<^sub>m dict_get (attempt (register_decoder d) r)"
    by (cases rule: attempt_cases [of "register_decoder d" r]) (auto simp: map_le_def dest: register_keeps)
qed (auto intro: map_le_trans)

lemma registered_decoder_stays:
  assumes "dict_get reg f = Some d"
  shows "get_decoder (run_ops (\<lambda>e. attempt (register_decoder e)) ds reg) f = Inr d"
  using decoders.run_le [of reg ds] assms by (auto simp: map_le_def get_decoder_def dom_def)

section \<open>What decoding yields\<close>

lemma decode_Inr:
  assumes "decode limits env q = Inr res"
  obtains s kind payload rows warnings where "dv_utf8 env (dq_payload q) = Some s"
    and "int (length (dq_payload q)) \<le> dl_max_payload_bytes limits" and "int (length s) \<le> dl_max_text_characters limits"
    and "read_payload env q s = Inr (kind, payload, rows, warnings)" and "rows \<le> dl_max_records limits"
    and "decoded_result q (kind, payload, rows, warnings) = Inr res"
  using assms unfolding decode_def
  by (auto simp: ck_bind_Inr raised_def split: if_splits option.splits sum.splits)

definition payload_rows :: "payload \<Rightarrow> int" where
  "payload_rows p = (case p of P_Json (JArr vs) \<Rightarrow> int (length vs) | _ \<Rightarrow> 1)"

lemma decode_json_rows: "decode_json env s m = Inr (v, rows) \<Longrightarrow> payload_rows (P_Json v) = rows"
  by (cases v) (auto simp: decode_json_def ck_bind_Inr payload_rows_def split: if_splits)

lemma read_payload_rows:
  assumes "read_payload env q s = Inr (kind, payload, rows, warnings)" and "payload \<noteq> P_Opaque"
  shows "payload_rows payload = rows"
proof (cases "dq_format q = PF_Json")
  case True
  then have "decode_json env s (str_lower (dq_media_type q)) = Inr (v, rows) \<and> payload = P_Json v" if "payload = P_Json v" for v
    using assms(1) that by (auto simp: read_payload_def ck_bind_Inr)
  moreover obtain v where "payload = P_Json v" using True assms(1) by (auto simp: read_payload_def ck_bind_Inr)
  ultimately show ?thesis using decode_json_rows by blast
next
  case False
  then show ?thesis using assms
    by (cases "dq_format q")
      (auto simp: read_payload_def payload_rows_def csv_payload_def content_payload_def Let_def
        split: if_splits option.splits prod.splits)
qed

lemma decoded_result_Inr:
  assumes "decoded_result q (kind, payload, rows, warnings) = Inr res"
  shows "res = \<lparr>dr_batches = [\<lparr>db_kind = kind, db_payload = payload, db_source_versions = [dq_source_version q],
     db_lineage = dq_lineage q, db_row_count = Some rows, db_byte_count = Some (int (length (dq_payload q)))\<rparr>],
     dr_trust = Untrusted_Source, dr_warnings = warnings\<rparr>"
  using assms by (auto simp: decoded_result_def ck_bind_Inr mk_data_batch_Inr mk_decode_result_def split: if_splits)

text \<open>
  What was decoded is bounded and traceable: it is one batch that carries the version and the lineage of the
  request, from a payload, a text and a number of records within the limits, and the row and byte counts
  it declares are those of its payload.
\<close>

lemma decoded_batch_is_bounded:
  assumes "decode limits env q = Inr res"
  shows "\<exists>b n. dr_batches res = [b] \<and> db_source_versions b = [dq_source_version q] \<and> db_lineage b = dq_lineage q
    \<and> db_byte_count b = Some (int (length (dq_payload q))) \<and> int (length (dq_payload q)) \<le> dl_max_payload_bytes limits
    \<and> db_row_count b = Some n \<and> n \<le> dl_max_records limits
    \<and> (db_payload b \<noteq> P_Opaque \<longrightarrow> payload_rows (db_payload b) = n)"
  using assms
proof (rule decode_Inr)
  fix s kind payload rows warnings
  assume "int (length (dq_payload q)) \<le> dl_max_payload_bytes limits" "rows \<le> dl_max_records limits"
    and "read_payload env q s = Inr (kind, payload, rows, warnings)"
    and "decoded_result q (kind, payload, rows, warnings) = Inr res"
  then show ?thesis using read_payload_rows decoded_result_Inr by fastforce
qed

section \<open>Active content\<close>

lemma html_depth: "ht_ignored_depth (html_step e h) =
    (case e of Start_Tag t \<Rightarrow> if active_tag t then Suc (ht_ignored_depth h) else ht_ignored_depth h
     | End_Tag t \<Rightarrow> if active_tag t then ht_ignored_depth h - 1 else ht_ignored_depth h | Html_Data d \<Rightarrow> ht_ignored_depth h)"
  by (cases e) auto

primrec depths :: "html_event list \<Rightarrow> nat \<Rightarrow> nat list" where
  \<comment> \<open>the nesting of ignored elements after each event\<close>
  "depths [] n = []"
| "depths (e # es) n =
     (let m = (case e of Start_Tag t \<Rightarrow> if active_tag t then Suc n else n | End_Tag t \<Rightarrow> if active_tag t then n - 1 else n
               | Html_Data d \<Rightarrow> n)
      in m # depths es m)"

lemma ignored_stretch:
  assumes "list_all (\<lambda>m. m \<noteq> 0) (butlast (depths es (ht_ignored_depth h)))" and "ht_ignored_depth h \<noteq> 0" and "es \<noteq> []"
  shows "ht_fragments (fold html_step es h) = ht_fragments h \<and> ht_ignored_depth (fold html_step es h) = last (depths es (ht_ignored_depth h))"
  using assms
proof (induction es arbitrary: h)
  case (Cons e es)
  have frag: "ht_fragments (html_step e h) = ht_fragments h" using Cons.prems(2) by (cases e) auto
  have dep: "depths (e # es) (ht_ignored_depth h) = ht_ignored_depth (html_step e h) # depths es (ht_ignored_depth (html_step e h))"
    by (simp add: html_depth Let_def)
  show ?case
  proof (cases "es = []")
    case True
    then show ?thesis using frag dep by simp
  next
    case False
    then have "depths es (ht_ignored_depth (html_step e h)) \<noteq> []" by (cases es) (simp_all add: Let_def)
    with Cons.prems(1) dep have "ht_ignored_depth (html_step e h) \<noteq> 0"
      and "list_all (\<lambda>m. m \<noteq> 0) (butlast (depths es (ht_ignored_depth (html_step e h))))" by simp_all
    with Cons.IH [of "html_step e h"] False frag dep \<open>depths es _ \<noteq> []\<close> show ?thesis by simp
  qed
qed simp

text \<open>From the start tag of an ignored element to the end tag that closes it nothing is kept.\<close>

lemma active_element_dropped:
  assumes "active_tag tag" and "list_all (\<lambda>m. m \<noteq> 0) (butlast (depths es 1))" and "last (depths es 1) = 0" and "es \<noteq> []"
    and "ht_ignored_depth h = 0"
  shows "fold html_step (Start_Tag tag # es) h = h\<lparr>ht_active_content_removed := True\<rparr>"
proof -
  have "ht_active_content_removed (fold html_step es g) = True" if "ht_active_content_removed g" for g
    using that
  proof (induction es arbitrary: g)
    case (Cons e es)
    have "ht_active_content_removed (html_step e g)" using Cons.prems by (cases e) auto
    then show ?case using Cons.IH by simp
  qed simp
  moreover have "ht_fragments (fold html_step es (html_step (Start_Tag tag) h)) = ht_fragments h
      \<and> ht_ignored_depth (fold html_step es (html_step (Start_Tag tag) h)) = 0"
    using ignored_stretch [of es "html_step (Start_Tag tag) h"] assms by simp
  ultimately show ?thesis using assms(1,5) by (intro html_text.equality) simp_all
qed

section \<open>Rendered tables decode\<close>

lemma fold_dict_set_new:
  "distinct (map fst kvs) \<Longrightarrow> set (map fst kvs) \<inter> set (dict_keys d) = {} \<Longrightarrow>
    fold (\<lambda>(n, t). dict_set n (JStr t)) kvs d = d @ map (\<lambda>(n, t). (n, JStr t)) kvs"
proof (induction kvs arbitrary: d)
  case (Cons kv kvs)
  then show ?case by (cases kv) (auto simp: dict_set_new)
qed simp

lemma dict_reader_row_full:
  assumes "distinct names" and "length cells = length names"
  shows "dict_reader_row names cells = map (\<lambda>(n, t). (n, JStr t)) (zip names cells)"
  using assms fold_dict_set_new [of "zip names cells" "[]"] by (simp add: dict_reader_row_def)

definition as_cells :: "(json \<Rightarrow> string) \<Rightarrow> pack_record \<Rightarrow> (string, json) dict" where
  "as_cells rep rec = map (\<lambda>(n, v). (n, JStr (csv_cell rep v))) rec"

definition tabular :: "(json \<Rightarrow> string) \<Rightarrow> string list \<Rightarrow> pack_record list \<Rightarrow> bool" where
  \<comment> \<open>records of one shape whose cells \<open>csv.reader\<close> takes\<close>
  "tabular rep names records \<longleftrightarrow> records \<noteq> [] \<and> names \<noteq> [] \<and> distinct names
     \<and> (\<forall>n \<in> set names. int (length n) \<le> csv_field_limit)
     \<and> (\<forall>rec \<in> set records. dict_keys rec = names \<and> (\<forall>nv \<in> set rec. int (length (csv_cell rep (snd nv))) \<le> csv_field_limit))"

definition cell_texts :: "(json \<Rightarrow> string) \<Rightarrow> pack_record \<Rightarrow> string list" where
  "cell_texts rep rec = map (\<lambda>nv. csv_cell rep (snd nv)) rec"

lemma tabular_rec:
  assumes "tabular rep names records" and "rec \<in> set records"
  shows "dict_keys rec = names" and "length (cell_texts rep rec) = length names" and "cell_texts rep rec \<noteq> []"
    and "csv_cells rep names rec = Inr (cell_texts rep rec)"
    and "dict_reader_row names (cell_texts rep rec) = as_cells rep rec"
    and "\<forall>t \<in> set (cell_texts rep rec). int (length t) \<le> csv_field_limit"
proof -
  show keys: "dict_keys rec = names" using assms by (simp add: tabular_def)
  have dist: "distinct names" and "names \<noteq> []" using assms(1) by (simp_all add: tabular_def)
  show len: "length (cell_texts rep rec) = length names" unfolding cell_texts_def keys [symmetric] by simp
  with \<open>names \<noteq> []\<close> show "cell_texts rep rec \<noteq> []" by (metis length_0_conv)
  have "(case dict_get rec (fst nv) of None \<Rightarrow> [] | Some v \<Rightarrow> csv_cell rep v) = csv_cell rep (snd nv)" if "nv \<in> set rec" for nv
  proof -
    have "dict_get rec (fst nv) = Some (snd nv)"
      using dict_get_Some_in [of rec "fst nv" "snd nv"] that dist keys by simp
    then show ?thesis by simp
  qed
  then show "csv_cells rep names rec = Inr (cell_texts rep rec)"
    unfolding csv_cells_def cell_texts_def keys [symmetric] by simp
  have "zip (map fst rs) (map (\<lambda>nv. csv_cell rep (snd nv)) rs) = map (\<lambda>(n, v). (n, csv_cell rep v)) rs" for rs :: pack_record
    by (induction rs) auto
  then show "dict_reader_row names (cell_texts rep rec) = as_cells rep rec"
    unfolding dict_reader_row_full [OF dist len] by (simp add: keys [symmetric] cell_texts_def as_cells_def case_prod_unfold)
  show "\<forall>t \<in> set (cell_texts rep rec). int (length t) \<le> csv_field_limit"
    using assms by (auto simp: tabular_def cell_texts_def)
qed

lemma rendered_csv:
  assumes "tabular rep names records"
  shows "render_csv rep records = Inr (csv_text (names # map (cell_texts rep) records))"
proof -
  have "check_all (csv_cells rep names) rs = Inr (map (cell_texts rep) rs)" if "set rs \<subseteq> set records" for rs
    using that
  proof (induction rs)
    case (Cons rec rs)
    with tabular_rec(4) [OF assms, of rec] show ?case by simp
  qed simp
  moreover have "records \<noteq> []" using assms by (simp add: tabular_def)
  moreover from this have "dict_keys (hd records) = names" using tabular_rec(1) [OF assms] by simp
  ultimately show ?thesis by (simp add: render_csv_def)
qed

lemma read_rendered_csv:
  assumes "tabular rep names records"
  shows "csv_read (csv_text (names # map (cell_texts rep) records)) = Some (names # map (cell_texts rep) records)"
proof (rule csv_read_text)
  have "cell_texts rep rec \<noteq> [] \<and> (\<forall>t \<in> set (cell_texts rep rec). int (length t) \<le> csv_field_limit)" if "rec \<in> set records" for rec
    using tabular_rec(3,6) [OF assms that] by blast
  moreover have "names \<noteq> [] \<and> (\<forall>t \<in> set names. int (length t) \<le> csv_field_limit)" using assms by (simp add: tabular_def)
  ultimately show "\<forall>ts \<in> set (names # map (cell_texts rep) records). ts \<noteq> [] \<and> (\<forall>t \<in> set ts. int (length t) \<le> csv_field_limit)"
    by simp
qed

text \<open>
  C36. What the pack factory renders as CSV the decoder reads back: a table of records of one shape, rendered and
  handed to the decoder within its limits, decodes to one batch with the same records in the same order, every
  value as the text of its cell.
\<close>

theorem rendered_csv_decodes:
  assumes "tabular rep names records" and "render_csv rep records = Inr t"
    and "dq_payload q = t" and "dq_format q = PF_Csv" and "str_lower (dq_media_type q) = ''text/csv''" and "dq_lineage q \<noteq> []"
    and "dv_utf8 env t = Some t" and "int (length t) \<le> dl_max_payload_bytes limits"
    and "int (length t) \<le> dl_max_text_characters limits" and "int (length records) \<le> dl_max_records limits"
  shows "\<exists>res b. decode limits env q = Inr res \<and> dr_batches res = [b] \<and> db_kind b = BK_Arrow
    \<and> db_payload b = P_Json (JArr (map (\<lambda>rec. JObj (as_cells rep rec)) records)) \<and> db_row_count b = Some (int (length records))"
proof -
  let ?table = "map (cell_texts rep) records"
  have read: "csv_read t = Some (names # ?table)"
    using read_rendered_csv [OF assms(1)] rendered_csv [OF assms(1)] assms(2) by simp
  have all: "filter (\<lambda>cells. cells \<noteq> []) ?table = ?table" using tabular_rec(3) [OF assms(1)] by (simp add: filter_id_conv)
  have full: "\<not> list_ex (\<lambda>cells. length names < length cells) ?table"
    using tabular_rec(2) [OF assms(1)] by (simp add: list_ex_iff)
  have decoded: "map (\<lambda>cells. JObj (dict_reader_row names cells)) ?table = map (\<lambda>rec. JObj (as_cells rep rec)) records"
    using tabular_rec(5) [OF assms(1)] by simp
  have "csv_payload names ?table = P_Json (JArr (map (\<lambda>rec. JObj (as_cells rep rec)) records))"
    unfolding csv_payload_def decoded using full by (simp only: if_False)
  moreover have "dict_reader (names # ?table) = (names, ?table)" by (simp only: dict_reader_def list.case all)
  ultimately have "read_payload env q t
      = Inr (BK_Arrow, P_Json (JArr (map (\<lambda>rec. JObj (as_cells rep rec)) records)), int (length records), text_warnings t)"
    using read assms(4) by (simp add: read_payload_def)
  then show ?thesis using assms(3-)
    by (simp add: decode_def media_types_def raised_def decoded_result_def mk_data_batch_def mk_decode_result_def)
qed

section \<open>A request\<close>

definition sample_decode_env :: decode_env where
  "sample_decode_env = \<lparr>dv_utf8 = Some, dv_float = (\<lambda>t. t), dv_html = (\<lambda>t. [Html_Data '' a '', Start_Tag ''SCRIPT'', Html_Data ''x'', End_Tag ''script'', Html_Data ''b''])\<rparr>"

definition sample_limits :: decoder_limits where
  "sample_limits = \<lparr>dl_max_payload_bytes = 100, dl_max_records = 3, dl_max_text_characters = 90\<rparr>"

definition sample_request :: "payload_format \<Rightarrow> string \<Rightarrow> string \<Rightarrow> decode_request" where
  "sample_request f m b = \<lparr>dq_payload = b, dq_format = f,
     dq_source_version = \<lparr>sv_source_id = ''s'', sv_version = ''1'', sv_observed_at = utc 0, sv_effective_at = None\<rparr>,
     dq_lineage = [\<lparr>lin_source_id = ''s'', lin_asset_id = ''a'', lin_record_id = None, lin_field_path = None\<rparr>], dq_media_type = m\<rparr>"

definition payloads :: "decode_error + decode_result \<Rightarrow> payload list" where
  "payloads r = (case r of Inl e \<Rightarrow> [] | Inr d \<Rightarrow> map db_payload (dr_batches d))"

lemma decode_examples:
  "payloads (decode sample_limits sample_decode_env (sample_request PF_Html ''text/html'' ''<p>''))
     = [content_payload (''a'' @ [CHR 0x0A] @ ''b'') ''text/html'']"
  "payloads (decode sample_limits sample_decode_env (sample_request PF_Json ''application/jsonl'' (''[1]'' @ [CHR 0x0A] @ ''{}'')))
     = [P_Json (JArr [JArr [JInt 1], JObj []])]"
  "decode sample_limits sample_decode_env (sample_request PF_Json ''application/json'' ''[NaN]'')
     = Inl (Decode_Rejected ''non-finite JSON constant rejected: '')"
  "decode sample_limits sample_decode_env (sample_request PF_Pdf ''application/pdf'' ''x'') = Inl (Decode_Raised (KeyError ''payload_format''))"
  by code_simp+

text \<open>A line separator inside of a string splits a JSON line: the document is refused, and read when it stands alone.\<close>

lemma split_inside_string:
  "payloads (decode sample_limits sample_decode_env (sample_request PF_Json ''application/jsonl'' ([CHR 0x22] @ ''a'' @ [CHR 0x85] @ ''b'' @ [CHR 0x22]))) = []"
  "payloads (decode sample_limits sample_decode_env (sample_request PF_Json ''application/json'' ([CHR 0x22] @ ''a'' @ [CHR 0x85] @ ''b'' @ [CHR 0x22])))
     = [P_Json (JStr (''a'' @ [CHR 0x85] @ ''b''))]"
  by code_simp+

definition sample_table :: "pack_record list" where
  "sample_table = [[(''id'', JStr ''a,b''), (''n'', JInt 7)], [(''id'', JStr ''c''), (''n'', JNull)]]"

definition sample_csv :: string where
  "sample_csv = ''id,n'' @ [CHR 0x0D, CHR 0x0A, CHR 0x22] @ ''a,b'' @ [CHR 0x22] @ '',7'' @ [CHR 0x0D, CHR 0x0A] @ ''c,'' @ [CHR 0x0D, CHR 0x0A]"

lemma sample_table_facts:
  "tabular (\<lambda>v. ''r'') [''id'', ''n''] sample_table" "render_csv (\<lambda>v. ''r'') sample_table = Inr sample_csv"
  by code_simp+

lemma decoded_batch_is_bounded_example:
  "\<exists>b. dr_batches (case decode sample_limits sample_decode_env (sample_request PF_Text ''text/plain'' ''hi'') of Inr d \<Rightarrow> d) = [b]
    \<and> db_byte_count b = Some 2"
proof -
  obtain d where d: "decode sample_limits sample_decode_env (sample_request PF_Text ''text/plain'' ''hi'') = Inr d"
    by (simp add: decode_def sample_limits_def sample_decode_env_def sample_request_def media_types_def str_lower_def lower_char_def
        read_payload_def raised_def decoded_result_def mk_data_batch_def mk_decode_result_def)
  from decoded_batch_is_bounded [OF this] show ?thesis unfolding d by (auto simp: sample_request_def)
qed

theorem rendered_csv_decodes_witness:
  "\<exists>res b. decode sample_limits sample_decode_env (sample_request PF_Csv ''text/csv'' sample_csv) = Inr res \<and> dr_batches res = [b]
    \<and> db_payload b = P_Json (JArr [JObj [(''id'', JStr ''a,b''), (''n'', JStr ''7'')], JObj [(''id'', JStr ''c''), (''n'', JStr [])]])"
proof -
  have "\<exists>res b. decode sample_limits sample_decode_env (sample_request PF_Csv ''text/csv'' sample_csv) = Inr res \<and> dr_batches res = [b]
    \<and> db_kind b = BK_Arrow \<and> db_payload b = P_Json (JArr (map (\<lambda>rec. JObj (as_cells (\<lambda>v. ''r'') rec)) sample_table))
    \<and> db_row_count b = Some (int (length sample_table))"
    by (rule rendered_csv_decodes [OF sample_table_facts])
      (simp_all add: sample_request_def sample_decode_env_def sample_limits_def sample_table_def sample_csv_def str_lower_def lower_char_def)
  moreover have "map (\<lambda>rec. JObj (as_cells (\<lambda>v. ''r'') rec)) sample_table
      = [JObj [(''id'', JStr ''a,b''), (''n'', JStr ''7'')], JObj [(''id'', JStr ''c''), (''n'', JStr [])]]"
    by code_simp
  ultimately show ?thesis by metis
qed

end
