(* ===== verification/Worker_Protocol.thy ===== *)
theory Worker_Protocol
  imports Data_Models Json_Parser Action_Plans
begin

text \<open>
  worker.py: the specification of a connector worker, one JSON-line call to a worker process, and the slots that
  bound how many calls run at once. What the operating system and the worker do during a call is the record
  \<open>process_run\<close>: the bytes of both pipes and the sizes in which they arrive, the exit code, and whether the wait
  ends by itself. The file system, \<open>str\<close>, the decoding of non-ASCII bytes and float literals are parameters.
\<close>

declare map_of_eq_Some_iff [simp del] Some_eq_map_of_iff [simp del]

section \<open>Limits and specification\<close>

record worker_limits =
  wl_operation_timeout_seconds :: rat
  wl_max_request_bytes :: int
  wl_max_response_bytes :: int
  wl_max_parallelism :: int

definition default_worker_limits :: worker_limits where
  "default_worker_limits = \<lparr>wl_operation_timeout_seconds = 5, wl_max_request_bytes = 256 * 1024,
     wl_max_response_bytes = 1024 * 1024, wl_max_parallelism = 2\<rparr>"

definition mk_worker_limits :: "worker_limits \<Rightarrow> worker_limits checked" where
  "mk_worker_limits l =
     (if wl_operation_timeout_seconds l \<le> 0 \<or> wl_max_request_bytes l \<le> 0 \<or> wl_max_response_bytes l \<le> 0
         \<or> wl_max_parallelism l \<le> 0
      then Inl (ValueError ''worker limits must be positive'') else Inr l)"

record worker_spec =
  ws_worker_id :: string
  ws_connector_id :: string
  ws_command :: "string list"
  ws_working_directory :: string
  ws_credential_references :: "string list"
  ws_environment :: "(string, string) dict"
  ws_limits :: worker_limits
  ws_image_digest :: "string option"

record file_system =
  fs_is_dir :: "string \<Rightarrow> bool"
  fs_is_file :: "string \<Rightarrow> bool"
  fs_read_bytes :: "string \<Rightarrow> string"

definition absolute_path :: "string \<Rightarrow> bool" where
  "absolute_path p \<longleftrightarrow> str_startswith p ''/''"

definition safe_environment :: "string list" where
  "safe_environment = [''LANG'', ''LC_ALL'']"

definition contains_gap :: "string \<Rightarrow> string \<Rightarrow> string \<Rightarrow> bool" where
  \<comment> \<open>the pattern \<open>a.?b\<close>\<close>
  "contains_gap a b s \<longleftrightarrow> (\<exists>n \<in> set [0..<Suc (length s)]. str_startswith (drop n s) a \<and>
     (let rest = drop (n + length a) s in
      str_startswith rest b \<or> (rest \<noteq> [] \<and> hd rest \<noteq> CHR 0x0A \<and> str_startswith (tl rest) b)))"

definition sensitive_name :: "string \<Rightarrow> bool" where
  "sensitive_name s \<longleftrightarrow> (let l = str_lower s in
     list_ex (str_contains l) [''credential'', ''password'', ''secret'', ''token''] \<or> contains_gap ''api'' ''key'' l
     \<or> contains_gap ''private'' ''key'' l)"

definition hex_lower :: "char \<Rightarrow> bool" where
  "hex_lower c \<longleftrightarrow> c \<in> set ''0123456789abcdef''"

definition sha256_pin :: "string \<Rightarrow> bool" where
  "sha256_pin s \<longleftrightarrow> str_startswith s ''sha256:'' \<and> length s = 71 \<and> list_all hex_lower (drop 7 s)"

definition mk_worker_spec :: "file_system \<Rightarrow> worker_spec \<Rightarrow> worker_spec checked" where
  "mk_worker_spec fs w =
     (if ws_worker_id w = [] \<or> ws_connector_id w = [] \<or> ws_command w = []
      then Inl (ValueError ''worker identity, connector identity and command are required'')
      else if \<not> absolute_path (ws_working_directory w) \<or> \<not> fs_is_dir fs (ws_working_directory w)
      then Inl (ValueError ''worker directory must be an existing absolute directory'')
      else if \<not> absolute_path (hd (ws_command w)) \<or> \<not> fs_is_file fs (hd (ws_command w))
      then Inl (ValueError ''worker executable must be an existing absolute file'')
      else if \<not> set (dict_keys (ws_environment w)) \<subseteq> set safe_environment \<or> list_ex sensitive_name (dict_keys (ws_environment w))
      then Inl (ValueError ''worker environment is limited to non-sensitive process settings'')
      else if list_ex (\<lambda>(name, value). name = [] \<or> value = []) (ws_environment w)
      then Inl (ValueError ''worker environment names and values must be non-empty'')
      else if \<not> distinct (ws_credential_references w)
      then Inl (ValueError ''credential references must be unique'')
      else case ws_image_digest w of
             None \<Rightarrow> Inr w
           | Some d \<Rightarrow> if \<not> sha256_pin d then Inl (ValueError ''worker image must be pinned by SHA-256 digest'')
               else Inl (ValueError ''process worker specs cannot claim a container image; use a verified container runner''))"

definition entrypoint_digest :: "prims \<Rightarrow> file_system \<Rightarrow> worker_spec \<Rightarrow> string" where
  "entrypoint_digest p fs w =
     (let material = (\<lambda>t. if absolute_path t \<and> fs_is_file fs t
            then JObj [(''path'', JStr t), (''sha256'', JStr (pr_sha256 p (fs_read_bytes fs t)))]
            else JObj [(''argument'', JStr t)])
      in ''sha256:'' @ pr_sha256 p (canonical (JArr (map material (ws_command w)))))"

definition spec_contract :: "prims \<Rightarrow> (rat \<Rightarrow> int) \<Rightarrow> file_system \<Rightarrow> worker_spec \<Rightarrow> json" where
  \<comment> \<open>\<open>ms\<close> is \<open>int(seconds * 1000)\<close> in floating point\<close>
  "spec_contract p ms fs w = JObj
     [(''schemaVersion'', JStr ''data.harness/v1''), (''workerId'', JStr (ws_worker_id w)),
      (''connectorId'', JStr (ws_connector_id w)), (''runtimeMode'', JStr ''process''), (''imageDigest'', JNull),
      (''entrypointDigest'', JStr (entrypoint_digest p fs w)),
      (''credentialReferences'', JArr (map JStr (ws_credential_references w))),
      (''limits'', JObj
        [(''operationTimeoutMs'', JInt (ms (wl_operation_timeout_seconds (ws_limits w)))),
         (''maxRequestBytes'', JInt (wl_max_request_bytes (ws_limits w))),
         (''maxResponseBytes'', JInt (wl_max_response_bytes (ws_limits w))),
         (''maxParallelism'', JInt (wl_max_parallelism (ws_limits w)))]),
      (''networkMode'', JStr ''host''), (''certificationStatus'', JStr ''process-isolation-only'')]"

section \<open>The request\<close>

datatype worker_error =
    Worker_Timeout string
  | Worker_Crashed int
  | Worker_Violation string
  | Worker_Remote string
  | Worker_Raised py_error
  | Worker_Broken_Pipe
  | Worker_Cancelled

definition lower_letter :: "char \<Rightarrow> bool" where
  "lower_letter c \<longleftrightarrow> 97 \<le> (of_char c :: nat) \<and> (of_char c :: nat) \<le> 122"

definition operation_name :: "string \<Rightarrow> bool" where
  \<comment> \<open>the pattern \<open>[a-z][a-z0-9_.-]{0,127}\<close>\<close>
  "operation_name s \<longleftrightarrow> s \<noteq> [] \<and> lower_letter (hd s) \<and> length s \<le> 128
     \<and> list_all (\<lambda>c. lower_letter c \<or> is_digit c \<or> c \<in> {CHR ''_'', CHR ''.'', CHR ''-''}) (tl s)"

definition worker_request :: "worker_spec \<Rightarrow> string \<Rightarrow> string \<Rightarrow> (string, json) dict \<Rightarrow> json" where
  "worker_request w request_id operation payload = JObj
     [(''protocol'', JStr ''harness.worker/v1''), (''requestId'', JStr request_id), (''operation'', JStr operation),
      (''payload'', JObj payload), (''credentialReferences'', JArr (map JStr (ws_credential_references w)))]"

definition encode_request :: "worker_spec \<Rightarrow> string \<Rightarrow> string \<Rightarrow> (string, json) dict \<Rightarrow> (worker_error + string)" where
  "encode_request w request_id operation payload =
     (if \<not> operation_name operation then Inl (Worker_Raised (ValueError ''worker operation name is invalid''))
      else let request = worker_request w request_id operation payload in
        if \<not> json_finite request then Inl (Worker_Raised (ValueError ''worker payload must be finite JSON''))
        else if wl_max_request_bytes (ws_limits w) < int (length (canonical request))
        then Inl (Worker_Violation ''worker request exceeds configured byte limit'')
        else Inr (canonical request))"

section \<open>The pipes\<close>

definition stream_read :: "nat \<Rightarrow> nat list \<Rightarrow> string \<Rightarrow> string" where
  \<comment> \<open>\<open>stream.read(n)\<close>: at most \<open>n\<close> bytes, and at least one unless the stream is at its end\<close>
  "stream_read n grants data = take (min n (case grants of [] \<Rightarrow> n | g # _ \<Rightarrow> max 1 g)) data"

function read_bounded :: "int \<Rightarrow> nat list \<Rightarrow> int \<Rightarrow> string \<Rightarrow> string \<Rightarrow> string option" where
  \<comment> \<open>\<open>seen\<close> and \<open>chunks\<close> are what was read before; \<open>None\<close> is the violation of the limit\<close>
  "read_bounded limit grants seen chunks data =
     (let chunk = stream_read (nat (min (64 * 1024) (limit - seen + 1))) grants data in
      if chunk = [] then Some chunks
      else if limit < seen + int (length chunk) then None
      else read_bounded limit (tl grants) (seen + int (length chunk)) (chunks @ chunk) (drop (length chunk) data))"
  by pat_completeness auto

termination
proof (relation "measure (\<lambda>(limit, grants, seen, chunks, data). length data)", goal_cases)
  case (2 limit grants seen chunks data chunk)
  then show ?case by (cases data) (auto simp: stream_read_def)
qed simp

declare read_bounded.simps [simp del]

section \<open>One call\<close>

datatype wait_end = Ends | Times_Out | Is_Cancelled | Pipe_Breaks

record process_run =
  run_pipes_open :: bool
  run_stdout :: string
  run_stdout_sizes :: "nat list"
  run_stderr :: string
  run_stderr_sizes :: "nat list"
  run_stderr_first :: bool \<comment> \<open>the limit of stderr is the first to be exceeded, if both are\<close>
  run_exit_code :: int
  run_wait :: wait_end

datatype process_fate = Not_Started | Exited | Killed | Left_Behind

record worker_env =
  we_os_environ :: "(string, string) dict"
  we_decode :: "string \<Rightarrow> string checked"
  we_float :: "string \<Rightarrow> string"
  we_str :: "json \<Rightarrow> string"

definition worker_environment :: "worker_env \<Rightarrow> worker_spec \<Rightarrow> (string, string) dict" where
  "worker_environment env w =
     fold (\<lambda>(name, value). dict_set name value) (ws_environment w)
       (filter (\<lambda>(name, value). name \<in> set safe_environment \<and> \<not> sensitive_name name) (we_os_environ env))"

definition exchange :: "worker_limits \<Rightarrow> process_run \<Rightarrow> (string + string)" where
  \<comment> \<open>both pipes are read together; the first violation is the one raised\<close>
  "exchange l r =
     (if \<not> run_pipes_open r then Inl ''worker pipes are unavailable''
      else case (read_bounded (wl_max_response_bytes l) (run_stdout_sizes r) 0 [] (run_stdout r),
                 read_bounded (min (wl_max_response_bytes l) (64 * 1024)) (run_stderr_sizes r) 0 [] (run_stderr r)) of
          (None, None) \<Rightarrow> Inl (if run_stderr_first r then ''worker stderr exceeds configured byte limit''
                               else ''worker response exceeds configured byte limit'')
        | (None, Some _) \<Rightarrow> Inl ''worker response exceeds configured byte limit''
        | (Some _, None) \<Rightarrow> Inl ''worker stderr exceeds configured byte limit''
        | (Some out, Some _) \<Rightarrow> Inr out)"

definition parse_response :: "worker_env \<Rightarrow> string \<Rightarrow> (worker_error + json)" where
  \<comment> \<open>bytes that do not decode raise a UnicodeDecodeError, which is not caught\<close>
  "parse_response env out =
     (if count_list out (CHR 0x0A) \<noteq> 1 \<or> out = [] \<or> last out \<noteq> CHR 0x0A
      then Inl (Worker_Violation ''worker must emit exactly one JSON line'')
      else case (if plain_ascii out then Inr out else we_decode env out) of
          Inl e \<Rightarrow> Inl (Worker_Raised e)
        | Inr s \<Rightarrow> (case json_loads (we_float env) s of
              Inl _ \<Rightarrow> Inl (Worker_Violation ''worker response is not JSON'')
            | Inr v \<Rightarrow> Inr v))"

definition envelope_ok :: "string \<Rightarrow> (string, json) dict \<Rightarrow> bool" where
  "envelope_ok request_id d \<longleftrightarrow> dict_get d ''protocol'' = Some (JStr ''harness.worker/v1'')
     \<and> dict_get d ''requestId'' = Some (JStr request_id)
     \<and> set (dict_keys d) = {''protocol'', ''requestId'', ''result'', ''error''}"

definition error_code :: "json \<Rightarrow> json" where
  "error_code e = (case e of JObj d \<Rightarrow> member d ''code'' | _ \<Rightarrow> JStr ''worker_error'')"

definition check_response :: "worker_env \<Rightarrow> string \<Rightarrow> json \<Rightarrow> (worker_error + (string, json) dict)" where
  "check_response env request_id response =
     (case response of
        JObj d \<Rightarrow>
          if \<not> envelope_ok request_id d then Inl (Worker_Violation ''worker response envelope is invalid'')
          else if member d ''error'' \<noteq> JNull then Inl (Worker_Remote (py_str (we_str env) (error_code (member d ''error''))))
          else (case member d ''result'' of JObj result \<Rightarrow> Inr result
                | _ \<Rightarrow> Inl (Worker_Violation ''worker result must be an object''))
      | _ \<Rightarrow> Inl (Worker_Violation ''worker response envelope is invalid''))"

definition after_exchange :: "worker_env \<Rightarrow> string \<Rightarrow> process_run \<Rightarrow> string \<Rightarrow> (worker_error + (string, json) dict)" where
  "after_exchange env request_id r out =
     (if run_exit_code r \<noteq> 0 then Inl (Worker_Crashed (run_exit_code r))
      else ck_bind (parse_response env out) (check_response env request_id))"

definition call_process :: "worker_env \<Rightarrow> worker_spec \<Rightarrow> string \<Rightarrow> rat option \<Rightarrow> process_run
    \<Rightarrow> (worker_error + (string, json) dict) \<times> process_fate" where
  "call_process env w request_id timeout r =
     (if (case timeout of None \<Rightarrow> False | Some t \<Rightarrow> t \<le> 0)
      then (Inl (Worker_Timeout ''connector worker deadline is already exhausted''), Killed)
      else case run_wait r of
          Times_Out \<Rightarrow> (Inl (Worker_Timeout ''connector worker exceeded its operation deadline''), Killed)
        | Is_Cancelled \<Rightarrow> (Inl Worker_Cancelled, Killed)
        | Pipe_Breaks \<Rightarrow> (Inl Worker_Broken_Pipe, Left_Behind)
        | Ends \<Rightarrow> (case exchange (ws_limits w) r of
              Inl m \<Rightarrow> (Inl (Worker_Violation m), Killed)
            | Inr out \<Rightarrow> (after_exchange env request_id r out, Exited)))"

definition call_timeout :: "worker_spec \<Rightarrow> rat option \<Rightarrow> rat" where
  \<comment> \<open>the seconds the exchange is given\<close>
  "call_timeout w timeout =
     (case timeout of None \<Rightarrow> wl_operation_timeout_seconds (ws_limits w)
      | Some t \<Rightarrow> min (wl_operation_timeout_seconds (ws_limits w)) t)"

definition chosen_request_id :: "string option \<Rightarrow> string \<Rightarrow> string" where
  "chosen_request_id request_id fresh = (case request_id of None \<Rightarrow> fresh | Some i \<Rightarrow> if i = [] then fresh else i)"

definition invoke :: "worker_env \<Rightarrow> (string \<Rightarrow> (string, string) dict \<Rightarrow> rat \<Rightarrow> process_run) \<Rightarrow> worker_spec \<Rightarrow> string \<Rightarrow> string option
    \<Rightarrow> rat option \<Rightarrow> string \<Rightarrow> (string, json) dict \<Rightarrow> (worker_error + (string, json) dict) \<times> process_fate" where
  \<comment> \<open>\<open>runs\<close> is what happens when the worker is started with these bytes, this environment and this many seconds\<close>
  "invoke env runs w fresh request_id timeout operation payload =
     (let rid = chosen_request_id request_id fresh in
      case encode_request w rid operation payload of
        Inl e \<Rightarrow> (Inl e, Not_Started)
      | Inr encoded \<Rightarrow> call_process env w rid timeout
          (runs (encoded @ [CHR 0x0A]) (worker_environment env w) (call_timeout w timeout)))"

section \<open>What a call returns\<close>

lemma stream_read_prefix: "stream_read n grants data @ drop (length (stream_read n grants data)) data = data"
  unfolding stream_read_def by (metis append_take_drop_id length_take min.cobounded1 take_all_iff take_take min_def nat_le_linear)

lemma stream_read_Nil: "0 < n \<Longrightarrow> stream_read n grants data = [] \<longleftrightarrow> data = []"
  by (auto simp: stream_read_def split: list.splits)

lemma stream_read_length: "length (stream_read n grants data) \<le> n"
  by (simp add: stream_read_def)

lemma read_bounded_chunk:
  assumes "chunk = stream_read (nat (min (64 * 1024) (limit - seen + 1))) grants data"
  shows "read_bounded limit grants seen chunks data =
    (if chunk = [] then Some chunks
     else if limit < seen + int (length chunk) then None
     else read_bounded limit (tl grants) (seen + int (length chunk)) (chunks @ chunk) (drop (length chunk) data))"
  unfolding assms by (subst read_bounded.simps) (simp only: Let_def)

lemma read_bounded_eq:
  assumes "seen \<le> limit"
  shows "read_bounded limit grants seen chunks data = (if seen + int (length data) \<le> limit then Some (chunks @ data) else None)"
  using assms
proof (induction limit grants seen chunks data rule: read_bounded.induct)
  case (1 limit grants seen chunks data)
  define chunk where "chunk = stream_read (nat (min (64 * 1024) (limit - seen + 1))) grants data"
  have pos: "0 < nat (min (64 * 1024) (limit - seen + 1))" using "1.prems" by simp
  have split: "chunk @ drop (length chunk) data = data" unfolding chunk_def by (rule stream_read_prefix)
  then have len: "int (length data) = int (length chunk) + int (length (drop (length chunk) data))"
    by (metis length_append of_nat_add)
  show ?case
  proof (cases "data = []")
    case True
    then have "chunk = []" unfolding chunk_def using stream_read_Nil [OF pos] by simp
    then have "read_bounded limit grants seen chunks data = Some chunks" by (simp add: read_bounded_chunk [OF chunk_def])
    then show ?thesis using True "1.prems" by simp
  next
    case False
    then have ne: "chunk \<noteq> []" unfolding chunk_def using stream_read_Nil [OF pos] by simp
    show ?thesis
    proof (cases "limit < seen + int (length chunk)")
      case True
      then have "read_bounded limit grants seen chunks data = None"
        using ne by (simp add: read_bounded_chunk [OF chunk_def])
      moreover have "limit < seen + int (length data)" using True len by linarith
      ultimately show ?thesis by simp
    next
      case fits: False
      have "read_bounded limit grants seen chunks data
          = read_bounded limit (tl grants) (seen + int (length chunk)) (chunks @ chunk) (drop (length chunk) data)"
        using ne fits by (simp add: read_bounded_chunk [OF chunk_def])
      also have "\<dots> = (if seen + int (length chunk) + int (length (drop (length chunk) data)) \<le> limit
          then Some ((chunks @ chunk) @ drop (length chunk) data) else None)"
        using fits by (intro "1.IH" [OF chunk_def ne]) simp_all
      also have "seen + int (length chunk) + int (length (drop (length chunk) data)) = seen + int (length data)"
        using len by linarith
      finally show ?thesis using split by (metis append_assoc)
    qed
  qed
qed

text \<open>
  C37. Reading within a bound does not depend on how the bytes arrive: whatever the sizes of the chunks, the
  reader returns the whole output exactly if it lies within the limit, and refuses it otherwise.
\<close>

theorem bounded_read_is_exact:
  assumes "0 \<le> limit"
  shows "read_bounded limit grants 0 [] data = (if int (length data) \<le> limit then Some data else None)"
  using read_bounded_eq [of 0 limit grants "[]" data] assms by simp

theorem bounded_read_is_exact_witness:
  "read_bounded 5 [1, 3, 1] 0 [] ''hello'' = Some ''hello'' \<and> read_bounded 4 [2, 2] 0 [] ''hello'' = None"
  by (simp add: bounded_read_is_exact)

lemma exchange_Inr:
  assumes "exchange l r = Inr out"
  shows "run_pipes_open r \<and> read_bounded (wl_max_response_bytes l) (run_stdout_sizes r) 0 [] (run_stdout r) = Some out"
  using assms by (auto simp: exchange_def split: if_splits option.splits)

lemma check_response_Inr:
  assumes "check_response env request_id v = Inr result"
  shows "\<exists>d. v = JObj d \<and> envelope_ok request_id d \<and> member d ''error'' = JNull \<and> member d ''result'' = JObj result"
  using assms by (auto simp: check_response_def split: json.splits if_splits)

lemma call_process_Inr:
  assumes "call_process env w request_id timeout r = (Inr result, fate)"
  shows "fate = Exited \<and> run_wait r = Ends \<and> run_exit_code r = 0
    \<and> (\<exists>out v. exchange (ws_limits w) r = Inr out \<and> parse_response env out = Inr v \<and> check_response env request_id v = Inr result)"
  using assms
  by (auto simp: call_process_def after_exchange_def ck_bind_Inr split: if_splits wait_end.splits sum.splits)

lemma encode_request_Inr:
  assumes "encode_request w rid operation payload = Inr encoded"
  shows "operation_name operation \<and> encoded = canonical (worker_request w rid operation payload)
    \<and> int (length encoded) \<le> wl_max_request_bytes (ws_limits w)"
  using assms by (auto simp: encode_request_def Let_def split: if_splits)

lemma parse_response_Inr:
  assumes "parse_response env out = Inr v"
  shows "\<exists>line. out = line @ [CHR 0x0A] \<and> CHR 0x0A \<notin> set line"
    and "\<exists>t. (if plain_ascii out then t = out else we_decode env out = Inr t) \<and> json_loads (we_float env) t = Inr v"
proof -
  from assms have out: "count_list out (CHR 0x0A) = 1" "out \<noteq> []" "last out = CHR 0x0A"
    by (auto simp: parse_response_def split: if_splits)
  then have "out = butlast out @ [CHR 0x0A]" by (metis append_butlast_last_id)
  moreover from out(1) this have "count_list (butlast out) (CHR 0x0A) = 0"
    by (metis add_cancel_left_left count_list.simps count_list_append One_nat_def)
  ultimately show "\<exists>line. out = line @ [CHR 0x0A] \<and> CHR 0x0A \<notin> set line" by (metis count_list_0_iff)
  show "\<exists>t. (if plain_ascii out then t = out else we_decode env out = Inr t) \<and> json_loads (we_float env) t = Inr v"
    using assms out by (auto simp: parse_response_def split: if_splits sum.splits)
qed

lemma envelope_members:
  assumes "envelope_ok request_id d" and "k \<in> {''result'', ''error''}"
  shows "dict_get d k = Some (member d k)"
proof -
  have "k \<in> set (dict_keys d)" using assms by (auto simp: envelope_ok_def)
  then obtain v where "dict_get d k = Some v" unfolding in_keys by blast
  then show ?thesis by (simp add: member_def)
qed

text \<open>
  C38. A result is the worker's answer to this request: when a call returns one, the request was well named and
  within the limit and is what the worker was started with, the worker exited with code 0 after at most the permitted bytes
  on its output, and these bytes are one line, the only one, of JSON: an object with exactly the four members of the protocol,
  the protocol's name, the id of this request, a null error, and the result.
\<close>

theorem worker_result_answers_request:
  assumes "invoke env runs w fresh request_id timeout operation payload = (Inr result, fate)"
    and "mk_worker_limits (ws_limits w) = Inr (ws_limits w)"
  defines "rid \<equiv> chosen_request_id request_id fresh"
  shows "\<exists>r d. r = runs (canonical (worker_request w rid operation payload) @ [CHR 0x0A])
        (worker_environment env w) (call_timeout w timeout)
    \<and> fate = Exited \<and> operation_name operation
    \<and> int (length (canonical (worker_request w rid operation payload))) \<le> wl_max_request_bytes (ws_limits w)
    \<and> run_exit_code r = 0 \<and> int (length (run_stdout r)) \<le> wl_max_response_bytes (ws_limits w)
    \<and> (\<exists>line. run_stdout r = line @ [CHR 0x0A] \<and> CHR 0x0A \<notin> set line)
    \<and> (\<exists>t. (if plain_ascii (run_stdout r) then t = run_stdout r else we_decode env (run_stdout r) = Inr t)
        \<and> json_loads (we_float env) t = Inr (JObj d))
    \<and> set (dict_keys d) = {''protocol'', ''requestId'', ''result'', ''error''}
    \<and> dict_get d ''protocol'' = Some (JStr ''harness.worker/v1'') \<and> dict_get d ''requestId'' = Some (JStr rid)
    \<and> dict_get d ''error'' = Some JNull \<and> dict_get d ''result'' = Some (JObj result)"
proof -
  obtain encoded where enc: "encode_request w rid operation payload = Inr encoded"
    and call: "call_process env w rid timeout (runs (encoded @ [CHR 0x0A]) (worker_environment env w) (call_timeout w timeout)) = (Inr result, fate)"
    using assms(1) by (auto simp: invoke_def rid_def [symmetric] Let_def split: sum.splits)
  define r where "r = runs (encoded @ [CHR 0x0A]) (worker_environment env w) (call_timeout w timeout)"
  obtain out v where out: "exchange (ws_limits w) r = Inr out" "parse_response env out = Inr v"
    "check_response env rid v = Inr result" and facts: "fate = Exited" "run_exit_code r = 0"
    using call_process_Inr [OF call] r_def by blast
  have "0 \<le> wl_max_response_bytes (ws_limits w)" using assms(2) by (auto simp: mk_worker_limits_def split: if_splits)
  then have o: "out = run_stdout r" "int (length (run_stdout r)) \<le> wl_max_response_bytes (ws_limits w)"
    using exchange_Inr [OF out(1)] by (simp_all add: read_bounded_eq split: if_splits)
  obtain d where d: "v = JObj d" "envelope_ok rid d" "member d ''error'' = JNull" "member d ''result'' = JObj result"
    using check_response_Inr [OF out(3)] by blast
  from d(2) have "set (dict_keys d) = {''protocol'', ''requestId'', ''result'', ''error''}"
    "dict_get d ''protocol'' = Some (JStr ''harness.worker/v1'')" "dict_get d ''requestId'' = Some (JStr rid)"
    by (simp_all add: envelope_ok_def)
  moreover have "dict_get d ''error'' = Some JNull" "dict_get d ''result'' = Some (JObj result)"
    using envelope_members [OF d(2)] d(3,4) by simp_all
  moreover have "r = runs (canonical (worker_request w rid operation payload) @ [CHR 0x0A]) (worker_environment env w) (call_timeout w timeout)"
    and "operation_name operation" and "int (length (canonical (worker_request w rid operation payload))) \<le> wl_max_request_bytes (ws_limits w)"
    using encode_request_Inr [OF enc] by (auto simp: r_def)
  moreover note parse_response_Inr [OF out(2) [unfolded o(1) d(1)]] o(2) facts
  ultimately show ?thesis by blast
qed

text \<open>A call leaves no process behind, except where a pipe breaks: that error is not caught and the process stays.\<close>

lemma no_process_left:
  assumes "snd (invoke env runs w fresh request_id timeout operation payload) = Left_Behind"
  shows "fst (invoke env runs w fresh request_id timeout operation payload) = Inl Worker_Broken_Pipe"
  using assms by (auto simp: invoke_def call_process_def Let_def split: if_splits wait_end.splits sum.splits)

section \<open>Slots\<close>

text \<open>
  The state of a client while calls are in flight: the permits its semaphore has left, the calls that wait in
  \<open>acquire\<close>, those given a permit that have not resumed, those inside \<open>_invoke\<close>, and the two counters of the client.
  The semaphore of the library gives a free permit to some waiting call; which one is left open. Between two steps the
  event loop may run any other call.
\<close>

record call_slots =
  sl_permits :: nat
  sl_waiting :: "nat list"
  sl_granted :: "nat list"
  sl_running :: "nat list"
  sl_active :: int
  sl_max_observed :: int

type_synonym call_result = "(worker_error + (string, json) dict) \<times> process_fate"

datatype slot_event = Arrive nat | Grant nat | Resume nat | Leave nat call_result | Give_Up nat

definition slots_start :: "worker_spec \<Rightarrow> call_slots" where
  "slots_start w = \<lparr>sl_permits = nat (wl_max_parallelism (ws_limits w)), sl_waiting = [], sl_granted = [], sl_running = [],
     sl_active = 0, sl_max_observed = 0\<rparr>"

definition enter_call :: "nat \<Rightarrow> call_slots \<Rightarrow> call_slots" where
  \<comment> \<open>the first two statements under the semaphore\<close>
  "enter_call c s =
     (let active = sl_active s + 1
      in s\<lparr>sl_active := active, sl_max_observed := max (sl_max_observed s) active, sl_running := sl_running s @ [c]\<rparr>)"

definition leave_call :: "nat \<Rightarrow> call_result \<Rightarrow> call_slots \<Rightarrow> call_result \<times> call_slots" where
  \<comment> \<open>\<open>finally\<close>: the counter goes down however \<open>_invoke\<close> ended, and its result or exception goes on\<close>
  "leave_call c result s = (result, s\<lparr>sl_active := sl_active s - 1, sl_running := remove1 c (sl_running s)\<rparr>)"

fun slot_step :: "slot_event \<Rightarrow> call_slots \<Rightarrow> call_slots option" where
  \<comment> \<open>one step of the event loop, where it is possible\<close>
  "slot_step (Arrive c) s =
     (if c \<in> set (sl_waiting s @ sl_granted s @ sl_running s) then None else Some (s\<lparr>sl_waiting := sl_waiting s @ [c]\<rparr>))"
| "slot_step (Grant c) s =
     (if c \<notin> set (sl_waiting s) \<or> sl_permits s = 0 then None
      else Some (s\<lparr>sl_permits := sl_permits s - 1, sl_waiting := remove1 c (sl_waiting s), sl_granted := sl_granted s @ [c]\<rparr>))"
| "slot_step (Resume c) s =
     (if c \<notin> set (sl_granted s) then None else Some (enter_call c (s\<lparr>sl_granted := remove1 c (sl_granted s)\<rparr>)))"
| "slot_step (Leave c result) s =
     (if c \<notin> set (sl_running s) then None else Some (let t = snd (leave_call c result s) in t\<lparr>sl_permits := Suc (sl_permits t)\<rparr>))"
| "slot_step (Give_Up c) s =
     (if c \<in> set (sl_waiting s) then Some (s\<lparr>sl_waiting := remove1 c (sl_waiting s)\<rparr>)
      else if c \<in> set (sl_granted s) then Some (s\<lparr>sl_granted := remove1 c (sl_granted s), sl_permits := Suc (sl_permits s)\<rparr>)
      else None)"

primrec slot_trace :: "slot_event list \<Rightarrow> call_slots \<Rightarrow> call_slots list option" where
  \<comment> \<open>the states a run goes through, first and last included\<close>
  "slot_trace [] s = Some [s]"
| "slot_trace (e # es) s = (case slot_step e s of None \<Rightarrow> None | Some t \<Rightarrow> map_option ((#) s) (slot_trace es t))"

abbreviation parallel_calls :: "call_slots \<Rightarrow> int" where
  "parallel_calls s \<equiv> int (length (sl_running s))"

definition slots_ok :: "nat \<Rightarrow> call_slots \<Rightarrow> bool" where
  "slots_ok m s \<longleftrightarrow> sl_active s = parallel_calls s \<and> parallel_calls s \<le> sl_max_observed s
     \<and> sl_permits s + length (sl_granted s) + length (sl_running s) = m"

lemma slots_ok_bound: "slots_ok m s \<Longrightarrow> parallel_calls s \<le> int m"
  by (simp add: slots_ok_def)

lemma slot_step_ok:
  assumes "slot_step e s = Some t" and ok: "slots_ok m s"
  shows "slots_ok m t \<and> sl_max_observed t = max (sl_max_observed s) (parallel_calls t)"
proof (cases e)
  case (Arrive c)
  then show ?thesis using assms by (auto simp: slots_ok_def split: if_splits)
next
  case (Grant c)
  then show ?thesis using assms by (auto simp: slots_ok_def split: if_splits)
next
  case (Resume c)
  then have c: "c \<in> set (sl_granted s)" "t = enter_call c (s\<lparr>sl_granted := remove1 c (sl_granted s)\<rparr>)"
    using assms(1) by (auto split: if_splits)
  from c(1) obtain k where "length (sl_granted s) = Suc k" by (cases "sl_granted s") auto
  with ok c show ?thesis by (simp add: slots_ok_def enter_call_def Let_def length_remove1 max_def)
next
  case (Leave c result)
  then have c: "c \<in> set (sl_running s)" "t = (snd (leave_call c result s))\<lparr>sl_permits := Suc (sl_permits s)\<rparr>"
    using assms(1) by (auto simp: leave_call_def Let_def split: if_splits)
  from c(1) obtain k where "length (sl_running s) = Suc k" by (cases "sl_running s") auto
  with ok c show ?thesis by (simp add: slots_ok_def leave_call_def length_remove1 of_nat_diff max_def)
next
  case (Give_Up c)
  have "0 < length (sl_granted s)" if "c \<in> set (sl_granted s)" using that by (rule length_pos_if_in_set)
  with Give_Up assms show ?thesis by (auto simp: slots_ok_def length_remove1 split: if_splits)
qed

lemma slot_trace_ok:
  assumes "slot_trace es s = Some ss" and "slots_ok m s"
  shows "(\<forall>t \<in> set ss. slots_ok m t) \<and> ss \<noteq> []
    \<and> sl_max_observed (last ss) = Max (insert (sl_max_observed s) (parallel_calls ` set ss))"
  using assms
proof (induction es arbitrary: s ss)
  case Nil
  then show ?case by (auto simp: slots_ok_def)
next
  case (Cons e es)
  then obtain t ts where t: "slot_step e s = Some t" "slot_trace es t = Some ts" "ss = s # ts"
    by (auto split: option.splits)
  from slot_step_ok [OF t(1) Cons.prems(2)] have ok: "slots_ok m t" "sl_max_observed t = max (sl_max_observed s) (parallel_calls t)" by auto
  note ih = Cons.IH [OF t(2) ok(1)]
  have first: "parallel_calls t \<in> parallel_calls ` set ts" using t(2) by (cases es) (auto split: option.splits)
  then have "Max (insert (max (sl_max_observed s) (parallel_calls t)) (parallel_calls ` set ts))
      = Max (insert (sl_max_observed s) (parallel_calls ` set ts))"
    by (auto simp: max_def intro!: Max_eqI order.antisym Max.boundedI) (auto intro: Max_ge_iff [THEN iffD2])
  moreover have "parallel_calls s \<le> sl_max_observed s" using Cons.prems(2) by (simp add: slots_ok_def)
  ultimately show ?case using ih Cons.prems(2) t(3) ok(2) by (auto simp: Max_insert2 max_def)
qed

text \<open>
  C39. The parallelism a client reports is the true peak, and bounded: whatever calls arrive, wait, give up and leave, with a
  result or with any exception, in every state the counter of active calls is the number of calls inside \<open>_invoke\<close>
  (so it is back at zero when none is), that number is within the configured limit, and the figure reported is
  the largest it has been.
\<close>

theorem reported_parallelism_is_peak:
  assumes "mk_worker_limits (ws_limits w) = Inr (ws_limits w)" and "slot_trace es (slots_start w) = Some ss"
  shows "(\<forall>s \<in> set ss. sl_active s = parallel_calls s \<and> parallel_calls s \<le> wl_max_parallelism (ws_limits w))
    \<and> sl_max_observed (last ss) = Max (parallel_calls ` set ss)"
proof -
  let ?m = "nat (wl_max_parallelism (ws_limits w))"
  have m: "int ?m = wl_max_parallelism (ws_limits w)" using assms(1) by (auto simp: mk_worker_limits_def split: if_splits)
  have "slots_ok ?m (slots_start w)" by (simp add: slots_ok_def slots_start_def)
  note trace = slot_trace_ok [OF assms(2) this]
  have "slots_start w \<in> set ss" using assms(2) by (cases es) (auto split: option.splits)
  then have "sl_max_observed (slots_start w) \<in> parallel_calls ` set ss" by (force simp: slots_start_def)
  then have "sl_max_observed (last ss) = Max (parallel_calls ` set ss)" using trace by (simp add: insert_absorb)
  moreover have "sl_active s = parallel_calls s \<and> parallel_calls s \<le> wl_max_parallelism (ws_limits w)" if "s \<in> set ss" for s
    using trace that slots_ok_bound [of ?m s] m by (simp add: slots_ok_def)
  ultimately show ?thesis by blast
qed

section \<open>A call\<close>

definition sample_worker_env :: worker_env where
  "sample_worker_env = \<lparr>we_os_environ = [(''LANG'', ''C''), (''HOME'', ''/root'')],
     we_decode = (\<lambda>b. Inl (ValueError ''invalid start byte'')), we_float = (\<lambda>t. t), we_str = (\<lambda>v. ''r'')\<rparr>"

definition sample_worker :: worker_spec where
  "sample_worker = \<lparr>ws_worker_id = ''w'', ws_connector_id = ''c'', ws_command = [''/bin/worker''],
     ws_working_directory = ''/srv'', ws_credential_references = [''vault:c''], ws_environment = [(''LC_ALL'', ''C'')],
     ws_limits = default_worker_limits, ws_image_digest = None\<rparr>"

definition answer_text :: "string \<Rightarrow> string" where
  "answer_text rid = canonical (JObj [(''protocol'', JStr ''harness.worker/v1''), (''requestId'', JStr rid),
     (''result'', JObj [(''ok'', JInt 1)]), (''error'', JNull)]) @ [CHR 0x0A]"

definition sample_runs :: "string \<Rightarrow> (string, string) dict \<Rightarrow> rat \<Rightarrow> process_run" where
  "sample_runs b e t = \<lparr>run_pipes_open = True, run_stdout = answer_text ''r1'', run_stdout_sizes = [3, 50], run_stderr = [],
     run_stderr_sizes = [], run_stderr_first = False, run_exit_code = 0, run_wait = Ends\<rparr>"

lemma sample_spec:
  "mk_worker_spec \<lparr>fs_is_dir = (\<lambda>p. p = ''/srv''), fs_is_file = (\<lambda>p. p = ''/bin/worker''), fs_read_bytes = (\<lambda>p. [])\<rparr> sample_worker
     = Inr sample_worker"
  "worker_environment sample_worker_env sample_worker = [(''LANG'', ''C''), (''LC_ALL'', ''C'')]"
  by code_simp+

lemma sensitive_examples:
  "sensitive_name ''DB_PassWord''" "sensitive_name ''API-KEY''" "sensitive_name ''myPrivateKey''" "\<not> sensitive_name ''LANG''"
  by code_simp+

definition sample_result :: "string option \<Rightarrow> (worker_error + (string, json) dict) \<times> process_fate" where
  "sample_result rid = invoke sample_worker_env sample_runs sample_worker ''fresh'' rid None ''connector.health'' []"

definition sample_answer :: json where
  "sample_answer = JObj [(''error'', JNull), (''protocol'', JStr ''harness.worker/v1''), (''requestId'', JStr ''r1''),
     (''result'', JObj [(''ok'', JInt 1)])]"

lemma sample_answer_text:
  "int (length (answer_text ''r1'')) \<le> 1024 * 1024" "count_list (answer_text ''r1'') (CHR 0x0A) = 1"
  "last (answer_text ''r1'') = CHR 0x0A" "answer_text ''r1'' \<noteq> []" "plain_ascii (answer_text ''r1'')"
  by code_simp+

lemma sample_answer_parsed: "parse_response sample_worker_env (answer_text ''r1'') = Inr sample_answer"
proof -
  have "plain (JObj [(''protocol'', JStr ''harness.worker/v1''), (''requestId'', JStr ''r1''),
      (''result'', JObj [(''ok'', JInt 1)]), (''error'', JNull)])" by code_simp
  from loads_canonical_line [OF this]
  have "json_loads (we_float sample_worker_env) (answer_text ''r1'') = Inr sample_answer"
    by (simp add: answer_text_def sample_answer_def)
  then show ?thesis by (simp add: parse_response_def sample_answer_text)
qed

lemma sample_encoded: "encode_request sample_worker rid ''connector.health'' []
    = Inr (canonical (worker_request sample_worker rid ''connector.health'' []))" if "rid \<in> {''r1'', ''r2''}" for rid
proof -
  have "isl (encode_request sample_worker ''r1'' ''connector.health'' []) = False"
    "isl (encode_request sample_worker ''r2'' ''connector.health'' []) = False" by code_simp+
  then have "\<not> isl (encode_request sample_worker rid ''connector.health'' [])" using that by auto
  then show ?thesis by (auto simp: encode_request_def Let_def split: if_splits)
qed

lemma sample_exchange: "exchange default_worker_limits (sample_runs b e t) = Inr (answer_text ''r1'')"
  using sample_answer_text(1) by (simp add: exchange_def sample_runs_def default_worker_limits_def read_bounded_eq)

lemma sample_calls:
  "sample_result (Some ''r1'') = (Inr [(''ok'', JInt 1)], Exited)"
  "sample_result (Some ''r2'') = (Inl (Worker_Violation ''worker response envelope is invalid''), Exited)"
proof -
  have limits: "ws_limits sample_worker = default_worker_limits" by (simp add: sample_worker_def)
  have runs: "run_wait (sample_runs b e t) = Ends" "run_exit_code (sample_runs b e t) = 0" for b e t
    by (simp_all add: sample_runs_def)
  have check: "check_response sample_worker_env ''r1'' sample_answer = Inr [(''ok'', JInt 1)]"
    "check_response sample_worker_env ''r2'' sample_answer = Inl (Worker_Violation ''worker response envelope is invalid'')" by code_simp+
  show "sample_result (Some ''r1'') = (Inr [(''ok'', JInt 1)], Exited)"
    by (simp add: sample_result_def invoke_def chosen_request_id_def sample_encoded call_process_def limits runs sample_exchange
        after_exchange_def sample_answer_parsed check)
  show "sample_result (Some ''r2'') = (Inl (Worker_Violation ''worker response envelope is invalid''), Exited)"
    by (simp add: sample_result_def invoke_def chosen_request_id_def sample_encoded call_process_def limits runs sample_exchange
        after_exchange_def sample_answer_parsed check)
qed

theorem worker_result_answers_request_witness:
  "\<exists>d. dict_get d ''requestId'' = Some (JStr ''r1'') \<and> dict_get d ''result'' = Some (JObj [(''ok'', JInt 1)])
    \<and> (\<exists>line. answer_text ''r1'' = line @ [CHR 0x0A]) \<and> int (length (answer_text ''r1'')) \<le> wl_max_response_bytes (ws_limits sample_worker)"
proof -
  have limits: "mk_worker_limits (ws_limits sample_worker) = Inr (ws_limits sample_worker)"
    by (simp add: mk_worker_limits_def sample_worker_def default_worker_limits_def)
  have rid: "chosen_request_id (Some ''r1'') ''fresh'' = ''r1''" by (simp add: chosen_request_id_def)
  have stdout: "run_stdout (sample_runs b e t) = answer_text ''r1''" for b e t by (simp add: sample_runs_def)
  from worker_result_answers_request [OF sample_calls(1) [unfolded sample_result_def] limits, unfolded rid] show ?thesis
    by (elim exE conjE) (intro exI conjI, assumption, assumption, simp only: stdout, simp only: stdout)
qed

text \<open>Three calls over one permit fewer than they need: the third resumes after one of the others has failed.\<close>

definition two_slots :: worker_spec where
  "two_slots = sample_worker\<lparr>ws_limits := default_worker_limits\<lparr>wl_max_parallelism := 2\<rparr>\<rparr>"

definition sample_traffic :: "slot_event list" where
  "sample_traffic = [Arrive 1, Arrive 2, Arrive 3, Grant 1, Grant 2, Resume 1, Resume 2, Leave 1 (Inl (Worker_Timeout []), Killed), Grant 3, Resume 3,
     Leave 2 (Inr [], Exited), Leave 3 (Inl Worker_Cancelled, Killed)]"

theorem reported_parallelism_is_peak_witness:
  "map_option (\<lambda>ss. (map sl_active ss, sl_max_observed (last ss))) (slot_trace sample_traffic (slots_start two_slots))
     = Some ([0, 0, 0, 0, 0, 0, 1, 2, 1, 1, 2, 1, 0], 2)"
proof -
  have limits: "mk_worker_limits (ws_limits two_slots) = Inr (ws_limits two_slots)" by code_simp
  have "map_option (map (\<lambda>s. length (sl_running s))) (slot_trace sample_traffic (slots_start two_slots))
      = Some [0, 0, 0, 0, 0, 0, 1, 2, 1, 1, 2, 1, 0]" by code_simp
  then obtain ss where ss: "slot_trace sample_traffic (slots_start two_slots) = Some ss"
      "map (\<lambda>s. length (sl_running s)) ss = [0, 0, 0, 0, 0, 0, 1, 2, 1, 1, 2, 1, 0]" by auto
  note peak = reported_parallelism_is_peak [OF limits ss(1)]
  have "map sl_active ss = map int (map (\<lambda>s. length (sl_running s)) ss)" using peak by simp
  moreover have "parallel_calls ` set ss = set (map int (map (\<lambda>s. length (sl_running s)) ss))" by auto
  ultimately show ?thesis using peak ss by (simp del: map_map)
qed

text \<open>A worker that closes its input early: the error of the pipe escapes, and the process is not terminated.\<close>

lemma broken_pipe_leaves_process:
  "call_process env w rid None (r\<lparr>run_wait := Pipe_Breaks\<rparr>) = (Inl Worker_Broken_Pipe, Left_Behind)"
  by (simp add: call_process_def)

text \<open>An answer that is no UTF-8 is not a protocol violation: the decoding error escapes.\<close>

lemma undecodable_answer_escapes:
  "parse_response sample_worker_env [CHR 0xFF, CHR 0x0A] = Inl (Worker_Raised (ValueError ''invalid start byte''))"
  by code_simp

end
