(* ===== verification/Deployment_Egress.thy ===== *)
theory Deployment_Egress
  imports Url_Parsing
begin

text \<open>
  deployment.py: deployment profiles and the egress guard. The reading of IPv4 addresses by \<open>ip_address\<close> is
  written out; the reading of IPv6 addresses, whether a text is one and whether it is the loopback address, is
  a parameter, as is the validity of a bracketed literal in a URL.
\<close>

section \<open>Addresses\<close>

fun split_dots :: "string \<Rightarrow> string list" where
  "split_dots [] = [[]]"
| "split_dots (x # s) =
     (if x = CHR ''.'' then [] # split_dots s else (x # hd (split_dots s)) # tl (split_dots s))"

definition ascii_digit :: "char \<Rightarrow> bool" where
  "ascii_digit c \<longleftrightarrow> c \<in> set ''0123456789''"

definition decimal :: "string \<Rightarrow> nat" where
  "decimal s = foldl (\<lambda>n c. 10 * n + (of_char c - 48)) 0 s"

definition ipv4_octet :: "string \<Rightarrow> bool" where
  "ipv4_octet s \<longleftrightarrow> s \<noteq> [] \<and> list_all ascii_digit s \<and> length s \<le> 3 \<and> (s = ''0'' \<or> hd s \<noteq> CHR ''0'') \<and> decimal s \<le> 255"

definition ipv4_address :: "string \<Rightarrow> bool" where
  "ipv4_address s \<longleftrightarrow> CHR ''/'' \<notin> set s \<and> length (split_dots s) = 4 \<and> list_all ipv4_octet (split_dots s)"

type_synonym ipv6_reading = "string \<Rightarrow> bool option"

definition ip_loopback :: "ipv6_reading \<Rightarrow> string \<Rightarrow> bool option" where
  \<comment> \<open>\<open>ip_address(host).is_loopback\<close>, \<open>None\<close> for its ValueError\<close>
  "ip_loopback v6 s = (if ipv4_address s then Some (hd (split_dots s) = ''127'') else v6 s)"

section \<open>Profiles\<close>

datatype deployment_mode = Connected | Self_Hosted | Air_Gapped | Local_Laptop

primrec deployment_mode_value :: "deployment_mode \<Rightarrow> string" where
  "deployment_mode_value Connected = ''connected''"
| "deployment_mode_value Self_Hosted = ''self-hosted''"
| "deployment_mode_value Air_Gapped = ''air-gapped''"
| "deployment_mode_value Local_Laptop = ''local-laptop''"

record deployment_profile =
  dp_profile_id :: string
  dp_mode :: deployment_mode
  dp_allowed_hosts :: "string list"
  dp_dns_enabled :: bool
  dp_external_telemetry :: bool
  dp_artifact_mirror_required :: bool

definition alnum_char :: "char \<Rightarrow> bool" where
  \<comment> \<open>\<open>str.isalnum\<close> on the code points below 256\<close>
  "alnum_char c \<longleftrightarrow> (let n = (of_char c :: nat) in
     48 \<le> n \<and> n \<le> 57 \<or> 65 \<le> n \<and> n \<le> 90 \<or> 97 \<le> n \<and> n \<le> 122 \<or> n \<in> {170, 178, 179, 181, 185, 186, 188, 189, 190}
     \<or> 192 \<le> n \<and> n \<le> 255 \<and> n \<noteq> 215 \<and> n \<noteq> 247)"

definition is_local :: "ipv6_reading \<Rightarrow> string \<Rightarrow> bool" where
  "is_local v6 host =
     (let lowered = str_lower host in
      lowered = ''localhost'' \<or>
      (case ip_loopback v6 lowered of
         Some loopback \<Rightarrow> loopback
       | None \<Rightarrow> lowered \<noteq> [] \<and> CHR ''.'' \<notin> set lowered \<and> list_all (\<lambda>c. alnum_char c \<or> c = CHR ''-'') lowered))"

definition mk_deployment_profile :: "ipv6_reading \<Rightarrow> deployment_profile \<Rightarrow> deployment_profile checked" where
  "mk_deployment_profile v6 d =
     (if dp_profile_id d = [] then Inl (ValueError ''profile_id is required'')
      else if dp_mode d = Air_Gapped \<and> (dp_dns_enabled d \<or> dp_external_telemetry d)
      then Inl (ValueError ''air-gapped profiles cannot enable DNS or external telemetry'')
      else if dp_mode d = Air_Gapped \<and> \<not> dp_artifact_mirror_required d
      then Inl (ValueError ''air-gapped profiles require an internal artifact mirror'')
      else if dp_mode d = Local_Laptop \<and> dp_external_telemetry d
      then Inl (ValueError ''local-laptop profiles cannot enable external telemetry'')
      else if dp_mode d = Local_Laptop \<and> dp_artifact_mirror_required d
      then Inl (ValueError ''local-laptop profiles use preloaded images, not a registry mirror'')
      else if dp_mode d = Local_Laptop \<and> \<not> list_all (is_local v6) (dp_allowed_hosts d)
      then Inl (ValueError ''local-laptop profiles allow only loopback or single-label service hosts: '')
      else Inr d)"

section \<open>The egress guard\<close>

definition egress_denied :: "string \<Rightarrow> 'a checked" where
  "egress_denied message = Inl (PermissionError message)"

definition host_loopback :: "ipv6_reading \<Rightarrow> string \<Rightarrow> bool" where
  "host_loopback v6 host = (case ip_loopback v6 host of None \<Rightarrow> False | Some b \<Rightarrow> b)"

definition some_text :: "string option \<Rightarrow> bool" where
  "some_text v \<longleftrightarrow> (case v of None \<Rightarrow> False | Some t \<Rightarrow> t \<noteq> [])"

definition authorize_parsed :: "ipv6_reading \<Rightarrow> deployment_profile \<Rightarrow> parsed_url \<Rightarrow> unit checked" where
  "authorize_parsed v6 d parsed =
     (if url_scheme parsed \<notin> {''http'', ''https''} \<or> \<not> some_text (url_hostname parsed)
      then egress_denied ''endpoint must be an absolute HTTP(S) URL''
      else if some_text (url_username parsed) \<or> some_text (url_password parsed) \<or> url_fragment parsed \<noteq> []
      then egress_denied ''endpoint must not contain credentials or fragments''
      else
        let host = str_lower (the (url_hostname parsed)) in
        if host \<in> set (map str_lower (dp_allowed_hosts d)) then Inr ()
        else if dp_mode d = Connected then Inr ()
        else if host = ''localhost'' \<or> host_loopback v6 host then Inr ()
        else egress_denied ''host is not permitted by deployment profile: '')"

definition authorize_endpoint :: "(string \<Rightarrow> bool) \<Rightarrow> ipv6_reading \<Rightarrow> deployment_profile \<Rightarrow> string \<Rightarrow> unit checked" where
  "authorize_endpoint bracketed_ok v6 d endpoint = ck_bind (urlparse bracketed_ok endpoint) (authorize_parsed v6 d)"

section \<open>What leaves a deployment\<close>

lemma lower_char_idem [simp]: "lower_char (lower_char c) = lower_char c"
proof -
  define n where "n = (of_char c :: nat)"
  have "(of_char (char_of (n + 32) :: char) :: nat) = n + 32" if "n \<le> 222" using that by simp
  then show ?thesis unfolding lower_char_def n_def [symmetric] by (auto simp: n_def [symmetric])
qed

lemma str_lower_idem [simp]: "str_lower (str_lower s) = str_lower s"
  by (simp add: str_lower_def)

lemma is_local_lower: "is_local v6 (str_lower s) = is_local v6 s"
  by (simp add: is_local_def)

lemma loopback_is_local: "str_lower h = ''localhost'' \<or> host_loopback v6 (str_lower h) \<Longrightarrow> is_local v6 h"
  by (auto simp: is_local_def host_loopback_def Let_def split: option.splits)

lemma mk_deployment_profile_Inr [checks]:
  "mk_deployment_profile v6 d = Inr e \<longleftrightarrow> e = d \<and> dp_profile_id d \<noteq> []
    \<and> (dp_mode d = Air_Gapped \<longrightarrow> \<not> dp_dns_enabled d \<and> \<not> dp_external_telemetry d \<and> dp_artifact_mirror_required d)
    \<and> (dp_mode d = Local_Laptop \<longrightarrow> \<not> dp_external_telemetry d \<and> \<not> dp_artifact_mirror_required d
        \<and> list_all (is_local v6) (dp_allowed_hosts d))"
  by (auto simp: mk_deployment_profile_def)

lemma authorize_parsed_Inr:
  "authorize_parsed v6 d u = Inr x \<longleftrightarrow> url_scheme u \<in> {''http'', ''https''}
    \<and> \<not> some_text (url_username u) \<and> \<not> some_text (url_password u) \<and> url_fragment u = []
    \<and> (\<exists>h. url_hostname u = Some h \<and> h \<noteq> []
        \<and> (str_lower h \<in> set (map str_lower (dp_allowed_hosts d)) \<or> dp_mode d = Connected
           \<or> str_lower h = ''localhost'' \<or> host_loopback v6 (str_lower h)))"
  by (auto simp: authorize_parsed_def egress_denied_def some_text_def Let_def split: option.splits)


text \<open>
  A laptop stays local: under a checked local-laptop profile every endpoint the guard authorizes has a host
  that is the local host, a loopback address or a single label.
\<close>

lemma laptop_egress_is_local:
  assumes "mk_deployment_profile v6 d = Inr d" and "dp_mode d = Local_Laptop"
    and "authorize_endpoint bracketed_ok v6 d endpoint = Inr ()"
  shows "\<exists>u h. urlparse bracketed_ok endpoint = Inr u \<and> url_hostname u = Some h \<and> is_local v6 h"
proof -
  from assms(3) obtain u h where u: "urlparse bracketed_ok endpoint = Inr u" "url_hostname u = Some h"
    and host: "str_lower h \<in> set (map str_lower (dp_allowed_hosts d)) \<or> str_lower h = ''localhost'' \<or> host_loopback v6 (str_lower h)"
    using assms(2) by (auto simp: authorize_endpoint_def ck_bind_Inr authorize_parsed_Inr)
  have "list_all (is_local v6) (dp_allowed_hosts d)" using assms(1,2) by (simp add: mk_deployment_profile_Inr)
  with host have "is_local v6 h"
    using loopback_is_local is_local_lower by (auto simp: list_all_iff) (metis is_local_lower)+
  with u show ?thesis by blast
qed

section \<open>A profile\<close>

definition sample_laptop :: deployment_profile where
  "sample_laptop = \<lparr>dp_profile_id = ''laptop'', dp_mode = Local_Laptop, dp_allowed_hosts = [''postgres'', ''127.0.0.1''],
     dp_dns_enabled = False, dp_external_telemetry = False, dp_artifact_mirror_required = False\<rparr>"

definition no_ipv6 :: ipv6_reading where
  "no_ipv6 s = (if s = ''::1'' then Some True else None)"

lemma sample_egress:
  "mk_deployment_profile no_ipv6 sample_laptop = Inr sample_laptop"
  "authorize_endpoint (\<lambda>n. True) no_ipv6 sample_laptop ''http://Postgres:5432/db'' = Inr ()"
  "authorize_endpoint (\<lambda>n. True) no_ipv6 sample_laptop ''http://[::1]:80/'' = Inr ()"
  "authorize_endpoint (\<lambda>n. True) no_ipv6 sample_laptop ''https://user@localhost/'' = Inl (PermissionError ''endpoint must not contain credentials or fragments'')"
  "authorize_endpoint (\<lambda>n. True) no_ipv6 sample_laptop ''https://api.example.org/'' = Inl (PermissionError ''host is not permitted by deployment profile: '')"
  by code_simp+

lemma laptop_egress_is_local_example:
  "\<exists>u h. urlparse (\<lambda>n. True) ''http://Postgres:5432/db'' = Inr u \<and> url_hostname u = Some h \<and> is_local no_ipv6 h"
  by (rule laptop_egress_is_local [OF sample_egress(1) _ sample_egress(2)]) (simp add: sample_laptop_def)

end
