(* ===== verification/Worker_Connector.thy ===== *)
theory Worker_Connector
  imports Connector_Registry Worker_Protocol Deployment_Egress
begin

text \<open>
  worker_connector.py: the connector that translates canonical calls to messages of a worker and reads its
  answers. The state is the list of the messages sent, with the deadline each was given. \<open>int\<close>, \<open>float\<close> and
  \<open>str\<close> of a dynamic value and \<open>datetime.fromisoformat\<close> are parameters; a dictionary read from pairs has texts as keys.
\<close>

declare map_of_eq_Some_iff [simp del] Some_eq_map_of_iff [simp del]

section \<open>The connector and its messages\<close>

record worker_connector =
  wc_profile :: connector_profile
  wc_client_connector_id :: string
  wc_endpoint :: "string option"
  wc_egress_guard :: "deployment_profile option"

definition mk_worker_connector :: "worker_connector \<Rightarrow> worker_connector checked" where
  "mk_worker_connector c =
     (if pf_connector_id (wc_profile c) \<noteq> wc_client_connector_id c
      then Inl (ValueError ''connector profile and worker connector identities must match'')
      else if (wc_endpoint c = None) \<noteq> (wc_egress_guard c = None)
      then Inl (ValueError ''remote worker connectors require both endpoint and egress guard'')
      else Inr c)"

type_synonym worker_message = "string \<times> (string, json) dict \<times> rat option"

record connector_env =
  ce_bracketed_ok :: "string \<Rightarrow> bool"
  ce_ipv6 :: ipv6_reading
  ce_invoke :: "string \<Rightarrow> (string, json) dict \<Rightarrow> rat option \<Rightarrow> (worker_error + (string, json) dict)"
  ce_str :: "json \<Rightarrow> string"
  ce_int :: "json \<Rightarrow> int checked"
  ce_float :: "json \<Rightarrow> json checked"
  ce_fromisoformat :: "string \<Rightarrow> datetime checked"

type_synonym 'a connector_op = "(worker_message list, worker_error, 'a) sm"

definition py :: "'a checked \<Rightarrow> (worker_error + 'a)" where
  "py r = (case r of Inl e \<Rightarrow> Inl (Worker_Raised e) | Inr x \<Rightarrow> Inr x)"

definition client_invoke :: "connector_env \<Rightarrow> string \<Rightarrow> (string, json) dict \<Rightarrow> rat option \<Rightarrow> (string, json) dict connector_op" where
  "client_invoke env operation payload timeout sent =
     (ce_invoke env operation payload timeout, sent @ [(operation, payload, timeout)])"

definition endpoint_authorized :: "connector_env \<Rightarrow> worker_connector \<Rightarrow> unit checked" where
  "endpoint_authorized env c =
     (case (wc_endpoint c, wc_egress_guard c) of
        (Some endpoint, Some guard) \<Rightarrow> authorize_endpoint (ce_bracketed_ok env) (ce_ipv6 env) guard endpoint
      | _ \<Rightarrow> Inr ())"

definition authorized_invoke :: "connector_env \<Rightarrow> worker_connector \<Rightarrow> unit checked \<Rightarrow> string \<Rightarrow> (string, json) dict \<Rightarrow> rat option
    \<Rightarrow> ((string, json) dict \<Rightarrow> 'a checked) \<Rightarrow> 'a connector_op" where
  \<comment> \<open>every operation: the endpoint, a check of its own, the message, and the reading of the answer\<close>
  "authorized_invoke env c precheck operation payload timeout read =
     sm_bind (sm_lift (py (endpoint_authorized env c))) (\<lambda>_.
     sm_bind (sm_lift (py precheck)) (\<lambda>_.
     sm_bind (client_invoke env operation payload timeout) (\<lambda>result. sm_lift (py (read result)))))"

section \<open>Reading answers\<close>

definition dyn_text :: "connector_env \<Rightarrow> json \<Rightarrow> string" where
  "dyn_text env v = py_str (ce_str env) v"

definition required_text :: "connector_env \<Rightarrow> (string, json) dict \<Rightarrow> string \<Rightarrow> string checked" where
  \<comment> \<open>\<open>str(value[key])\<close>\<close>
  "required_text env d k = (case dict_get d k of None \<Rightarrow> Inl (KeyError k) | Some v \<Rightarrow> Inr (dyn_text env v))"

definition optional_text :: "connector_env \<Rightarrow> (string, json) dict \<Rightarrow> string \<Rightarrow> string option" where
  "optional_text env d k = (if member d k = JNull then None else Some (dyn_text env (member d k)))"

definition or_default :: "(string, json) dict \<Rightarrow> string \<Rightarrow> json \<Rightarrow> json" where
  "or_default d k v = (case dict_get d k of None \<Rightarrow> v | Some x \<Rightarrow> x)"

definition pair_of :: "json \<Rightarrow> (string \<times> json) checked" where
  "pair_of v = (case v of JArr [JStr k, x] \<Rightarrow> Inr (k, x) | JStr [k, x] \<Rightarrow> Inr ([k], JStr [x])
     | _ \<Rightarrow> Inl (TypeError ''cannot convert dictionary update sequence element''))"

definition as_dict :: "json \<Rightarrow> (string, json) dict checked" where
  \<comment> \<open>\<open>dict(v)\<close>\<close>
  "as_dict v =
     (case v of JObj d \<Rightarrow> Inr d
      | _ \<Rightarrow> ck_bind (json_elements v) (\<lambda>xs. ck_bind (check_all pair_of xs) (\<lambda>ps.
          Inr (fold (\<lambda>(k, x). dict_set k x) ps []))))"

definition structured :: "string \<Rightarrow> json \<Rightarrow> (string, json) dict checked" where
  "structured message v = (case v of JObj d \<Rightarrow> Inr d | _ \<Rightarrow> Inl (ValueError message))"

definition listed :: "string \<Rightarrow> (string, json) dict \<Rightarrow> string \<Rightarrow> json list checked" where
  "listed message d k = (case member d k of JArr xs \<Rightarrow> Inr xs | _ \<Rightarrow> Inl (ValueError message))"

definition replace_z :: "string \<Rightarrow> string" where
  "replace_z s = concat (map (\<lambda>c. if c = CHR ''Z'' then ''+00:00'' else [c]) s)"

definition read_version :: "connector_env \<Rightarrow> json \<Rightarrow> source_version checked" where
  "read_version env v =
     ck_bind (structured ''source version must be structured'' v) (\<lambda>d.
     ck_bind (required_text env d ''sourceId'') (\<lambda>source_id.
     ck_bind (required_text env d ''version'') (\<lambda>version.
     ck_bind (required_text env d ''observedAt'') (\<lambda>observed.
     ck_bind (ce_fromisoformat env (replace_z observed)) (\<lambda>observed_at.
     ck_bind (if json_truthy (member d ''effectiveAt'')
              then ck_bind (ce_fromisoformat env (replace_z (dyn_text env (member d ''effectiveAt'')))) (\<lambda>t. Inr (Some t))
              else Inr None) (\<lambda>effective_at.
     mk_source_version \<lparr>sv_source_id = source_id, sv_version = version, sv_observed_at = observed_at, sv_effective_at = effective_at\<rparr>))))))"

definition read_lineage :: "connector_env \<Rightarrow> json \<Rightarrow> lineage_ref checked" where
  "read_lineage env v =
     ck_bind (structured ''lineage must be structured'' v) (\<lambda>d.
     ck_bind (required_text env d ''sourceId'') (\<lambda>source_id.
     ck_bind (required_text env d ''assetId'') (\<lambda>asset_id.
     mk_lineage_ref \<lparr>lin_source_id = source_id, lin_asset_id = asset_id, lin_record_id = optional_text env d ''recordId'',
       lin_field_path = optional_text env d ''fieldPath''\<rparr>)))"

definition read_asset :: "connector_env \<Rightarrow> worker_connector \<Rightarrow> (string, json) dict \<Rightarrow> asset checked" where
  "read_asset env c d =
     ck_bind (required_text env d ''assetId'') (\<lambda>asset_id.
     ck_bind (mk_asset_ref \<lparr>aref_source_id = pf_connector_id (wc_profile c), aref_asset_id = asset_id\<rparr>) (\<lambda>ref.
     ck_bind (required_text env d ''name'') (\<lambda>name.
     ck_bind (required_text env d ''kind'') (\<lambda>kind.
     ck_bind (as_dict (or_default d ''metadata'' (JObj []))) (\<lambda>metadata.
     mk_asset \<lparr>asset_ref_of = ref, asset_name = name, asset_kind = kind, asset_description = optional_text env d ''description'',
       asset_metadata = metadata\<rparr>)))))"

definition read_field :: "connector_env \<Rightarrow> (string, json) dict \<Rightarrow> field_schema checked" where
  "read_field env d =
     ck_bind (required_text env d ''name'') (\<lambda>name.
     ck_bind (required_text env d ''logicalType'') (\<lambda>logical_type.
     ck_bind (as_dict (or_default d ''metadata'' (JObj []))) (\<lambda>metadata.
     mk_field_schema \<lparr>fs_name = name, fs_logical_type = logical_type, fs_nullable = json_truthy (or_default d ''nullable'' (JBool True)),
       fs_description = optional_text env d ''description'', fs_metadata = metadata\<rparr>)))"

definition batch_kind_of :: "string \<Rightarrow> batch_kind checked" where
  "batch_kind_of t =
     (case find (\<lambda>k. batch_kind_value k = t) [BK_Arrow, BK_Document, BK_Graph, BK_Event, BK_Binary] of
        None \<Rightarrow> Inl (ValueError ''is not a valid BatchKind'') | Some k \<Rightarrow> Inr k)"

definition optional_int :: "connector_env \<Rightarrow> json \<Rightarrow> int option checked" where
  "optional_int env v = (if v = JNull then Inr None else ck_bind (ce_int env v) (\<lambda>n. Inr (Some n)))"

definition read_batch :: "connector_env \<Rightarrow> json \<Rightarrow> data_batch checked" where
  "read_batch env v =
     ck_bind (structured ''worker batch must be structured'' v) (\<lambda>d.
     ck_bind (required_text env d ''kind'') (\<lambda>kind_text.
     ck_bind (batch_kind_of kind_text) (\<lambda>kind.
     ck_bind (ck_bind (json_elements (or_default d ''sourceVersions'' (JArr []))) (check_all (read_version env))) (\<lambda>versions.
     ck_bind (ck_bind (json_elements (or_default d ''lineage'' (JArr []))) (check_all (read_lineage env))) (\<lambda>lineage.
     ck_bind (optional_int env (member d ''rowCount'')) (\<lambda>row_count.
     ck_bind (optional_int env (member d ''byteCount'')) (\<lambda>byte_count.
     mk_data_batch \<lparr>db_kind = kind, db_payload = P_Json (member d ''payload''), db_source_versions = versions, db_lineage = lineage,
       db_row_count = row_count, db_byte_count = byte_count\<rparr>)))))))"

definition optional_float :: "connector_env \<Rightarrow> json \<Rightarrow> json checked" where
  "optional_float env v = (if v = JNull then Inr JNull else ce_float env v)"

definition read_hit :: "connector_env \<Rightarrow> (string, json) dict \<Rightarrow> search_hit checked" where
  "read_hit env d =
     ck_bind (required_text env d ''sourceId'') (\<lambda>source_id.
     ck_bind (required_text env d ''assetId'') (\<lambda>asset_id.
     ck_bind (required_text env d ''recordId'') (\<lambda>record_id.
     ck_bind (ck_bind (json_index (JObj d) ''fusionScore'') (ce_float env)) (\<lambda>fusion.
     ck_bind (ck_bind (json_index (JObj d) ''sourceVersion'') (read_version env)) (\<lambda>version.
     ck_bind (ck_bind (json_elements (or_default d ''lineage'' (JArr []))) (check_all (read_lineage env))) (\<lambda>lineage.
     ck_bind (optional_float env (member d ''lexicalScore'')) (\<lambda>lexical.
     ck_bind (optional_float env (member d ''denseScore'')) (\<lambda>dense.
     ck_bind (optional_float env (member d ''sparseScore'')) (\<lambda>sparse.
     ck_bind (optional_float env (member d ''rerankerScore'')) (\<lambda>reranker.
     mk_search_hit \<lparr>sh_source_id = source_id, sh_asset_id = asset_id, sh_record_id = record_id, sh_fusion_score = fusion,
       sh_source_version = version, sh_lineage = lineage, sh_lexical_score = lexical, sh_dense_score = dense,
       sh_sparse_score = sparse, sh_reranker_score = reranker, sh_acl_decision_id = optional_text env d ''aclDecisionId''\<rparr>))))))))))"

section \<open>Operations\<close>

record health_status =
  hs_healthy :: bool
  hs_observed_version :: string
  hs_limitations :: "string list"

definition read_health :: "connector_env \<Rightarrow> (string, json) dict \<Rightarrow> health_status checked" where
  "read_health env d =
     ck_bind (json_elements (or_default d ''limitations'' (JArr []))) (\<lambda>items.
       Inr \<lparr>hs_healthy = json_truthy (member d ''healthy''), hs_observed_version = dyn_text env (or_default d ''observedVersion'' (JStr [])),
            hs_limitations = map (dyn_text env) items\<rparr>)"

definition worker_health :: "connector_env \<Rightarrow> worker_connector \<Rightarrow> health_status connector_op" where
  "worker_health env c = authorized_invoke env c (Inr ()) ''connector.health'' [] None (read_health env)"

definition opt_json :: "string option \<Rightarrow> json" where
  "opt_json v = (case v of None \<Rightarrow> JNull | Some t \<Rightarrow> JStr t)"

definition read_assets :: "connector_env \<Rightarrow> worker_connector \<Rightarrow> (string, json) dict \<Rightarrow> asset list checked" where
  "read_assets env c d =
     ck_bind (listed ''worker discovery result must contain assets'' d ''assets'') (\<lambda>items.
     ck_bind (check_all (structured ''worker discovery assets must be structured'') items) (check_all (read_asset env c)))"

definition worker_discover :: "connector_env \<Rightarrow> worker_connector \<Rightarrow> string option \<Rightarrow> asset list connector_op" where
  "worker_discover env c cursor =
     authorized_invoke env c (Inr ()) ''connector.discover'' [(''cursor'', opt_json cursor)] None (read_assets env c)"

definition check_source :: "worker_connector \<Rightarrow> string \<Rightarrow> string \<Rightarrow> unit checked" where
  "check_source c source_id message = (if source_id \<noteq> pf_connector_id (wc_profile c) then Inl (ValueError message) else Inr ())"

definition read_schema :: "connector_env \<Rightarrow> asset_ref \<Rightarrow> (string, json) dict \<Rightarrow> asset_schema checked" where
  "read_schema env ref d =
     ck_bind (listed ''worker description must contain fields'' d ''fields'') (\<lambda>items.
     ck_bind (check_all (structured ''worker description fields must be structured'') items) (\<lambda>ds.
     ck_bind (check_all (read_field env) ds) (\<lambda>schemas.
     ck_bind (ck_bind (json_index (JObj d) ''version'') (read_version env)) (\<lambda>version.
     Inr \<lparr>as_asset = ref, as_fields = schemas, as_version = version\<rparr>))))"

definition worker_describe :: "connector_env \<Rightarrow> worker_connector \<Rightarrow> asset_ref \<Rightarrow> asset_schema connector_op" where
  "worker_describe env c ref =
     authorized_invoke env c (check_source c (aref_source_id ref) ''asset source does not match worker connector'')
       ''connector.describe'' [(''assetId'', JStr (aref_asset_id ref))] None (read_schema env ref)"

definition query_message :: "query_request \<Rightarrow> (string, json) dict" where
  "query_message q =
     [(''sourceId'', JStr (qr_source_id q)), (''assetIds'', JArr (map JStr (qr_asset_ids q))), (''plan'', JObj (qr_plan q)),
      (''limit'', JInt (qr_limit q)), (''purpose'', JStr (qr_purpose q)), (''policyAttributes'', JObj (qr_policy_attributes q))]"

primrec yield_batches :: "connector_env \<Rightarrow> json list \<Rightarrow> data_batch list \<times> py_error option" where
  \<comment> \<open>what the generator yields before it ends or raises\<close>
  "yield_batches env [] = ([], None)"
| "yield_batches env (v # vs) =
     (case read_batch env v of Inl e \<Rightarrow> ([], Some e) | Inr b \<Rightarrow> apfst (Cons b) (yield_batches env vs))"

definition worker_execute :: "connector_env \<Rightarrow> worker_connector \<Rightarrow> query_request \<Rightarrow> (data_batch list \<times> py_error option) connector_op" where
  "worker_execute env c q =
     authorized_invoke env c (check_source c (qr_source_id q) ''query source does not match worker connector'')
       ''connector.query'' (query_message q) (Some (of_int (qr_deadline_ms q) / 1000))
       (\<lambda>d. ck_bind (listed ''worker query result must contain batches'' d ''batches'') (\<lambda>items. Inr (yield_batches env items)))"

definition search_message :: "search_request \<Rightarrow> (string, json) dict" where
  "search_message q =
     [(''sourceId'', JStr (sr_source_id q)), (''query'', JStr (sr_query q)), (''topK'', JInt (sr_top_k q)),
      (''filters'', JObj (sr_filters q)), (''purpose'', JStr (sr_purpose q)), (''policyAttributes'', JObj (sr_policy_attributes q))]"

definition read_hits :: "connector_env \<Rightarrow> (string, json) dict \<Rightarrow> search_hit list checked" where
  "read_hits env d =
     ck_bind (listed ''worker search result must contain hits'' d ''hits'') (\<lambda>items.
     ck_bind (check_all (structured ''worker search hits must be structured'') items) (check_all (read_hit env)))"

definition worker_search :: "connector_env \<Rightarrow> worker_connector \<Rightarrow> search_request \<Rightarrow> search_hit list connector_op" where
  "worker_search env c q =
     authorized_invoke env c (check_source c (sr_source_id q) ''search source does not match worker connector'')
       ''connector.search'' (search_message q) None (read_hits env)"

definition worker_subscribe :: "worker_connector \<Rightarrow> string option \<Rightarrow> registry_error" where
  \<comment> \<open>what iterating over the subscription raises\<close>
  "worker_subscribe c checkpoint = Unsupported_Capability (pf_connector_id (wc_profile c)) Subscribe"

definition worker_mutate :: "connector_env \<Rightarrow> worker_connector \<Rightarrow> (string, json) dict \<Rightarrow> (string, json) dict connector_op" where
  "worker_mutate env c request = authorized_invoke env c (Inr ()) ''connector.mutate'' request None Inr"

definition worker_checkpoint :: "connector_env \<Rightarrow> worker_connector \<Rightarrow> string \<Rightarrow> string connector_op" where
  "worker_checkpoint env c stream_id =
     authorized_invoke env c (Inr ()) ''connector.checkpoint'' [(''streamId'', JStr stream_id)] None
       (\<lambda>d. required_text env d ''checkpoint'')"

definition worker_explain :: "connector_env \<Rightarrow> worker_connector \<Rightarrow> query_request \<Rightarrow> (string, json) dict connector_op" where
  "worker_explain env c q =
     authorized_invoke env c (Inr ()) ''connector.explain''
       [(''assetIds'', JArr (map JStr (qr_asset_ids q))), (''plan'', JObj (qr_plan q))] None Inr"

section \<open>Nothing is sent unasked\<close>

lemma py_Inr [simp]: "py r = Inr x \<longleftrightarrow> r = Inr x"
  by (simp add: py_def split: sum.splits)

lemma authorized_invoke_eq:
  "authorized_invoke env c precheck operation payload timeout read sent =
    (case endpoint_authorized env c of
       Inl e \<Rightarrow> (Inl (Worker_Raised e), sent)
     | Inr _ \<Rightarrow> (case precheck of
         Inl e \<Rightarrow> (Inl (Worker_Raised e), sent)
       | Inr _ \<Rightarrow> (ck_bind (ce_invoke env operation payload timeout) (\<lambda>d. py (read d)), sent @ [(operation, payload, timeout)])))"
  by (cases "endpoint_authorized env c"; cases precheck; cases "ce_invoke env operation payload timeout")
    (simp_all add: authorized_invoke_def client_invoke_def sm_bind_def py_def)

lemma authorized_invoke_Inr:
  assumes "authorized_invoke env c precheck operation payload timeout read sent = (Inr x, sent')"
  shows "endpoint_authorized env c = Inr ()" and "precheck = Inr ()" and "sent' = sent @ [(operation, payload, timeout)]"
    and "\<exists>d. ce_invoke env operation payload timeout = Inr d \<and> read d = Inr x"
  using assms by (auto simp: authorized_invoke_eq ck_bind_Inr split: sum.splits)

lemma authorized_invoke_sent:
  "snd (authorized_invoke env c precheck operation payload timeout read sent) = sent
    \<or> endpoint_authorized env c = Inr ()
      \<and> snd (authorized_invoke env c precheck operation payload timeout read sent) = sent @ [(operation, payload, timeout)]"
  by (auto simp: authorized_invoke_eq split: sum.split)

datatype worker_op =
    Op_Health | Op_Discover "string option" | Op_Describe asset_ref | Op_Execute query_request | Op_Search search_request
  | Op_Mutate "(string, json) dict" | Op_Checkpoint string | Op_Explain query_request

fun perform :: "connector_env \<Rightarrow> worker_connector \<Rightarrow> worker_op \<Rightarrow> worker_message list \<Rightarrow> worker_message list" where
  "perform env c Op_Health sent = snd (worker_health env c sent)"
| "perform env c (Op_Discover cursor) sent = snd (worker_discover env c cursor sent)"
| "perform env c (Op_Describe ref) sent = snd (worker_describe env c ref sent)"
| "perform env c (Op_Execute q) sent = snd (worker_execute env c q sent)"
| "perform env c (Op_Search q) sent = snd (worker_search env c q sent)"
| "perform env c (Op_Mutate r) sent = snd (worker_mutate env c r sent)"
| "perform env c (Op_Checkpoint i) sent = snd (worker_checkpoint env c i sent)"
| "perform env c (Op_Explain q) sent = snd (worker_explain env c q sent)"

lemmas worker_op_defs = worker_health_def worker_discover_def worker_describe_def worker_execute_def worker_search_def
  worker_mutate_def worker_checkpoint_def worker_explain_def

lemma perform_cases:
  "perform env c x sent = sent \<or> endpoint_authorized env c = Inr () \<and> (\<exists>m. perform env c x sent = sent @ [m])"
proof (cases x)
qed (simp_all add: worker_op_defs, (metis authorized_invoke_sent)+)

interpretation worker_ops: invariant_system "perform env c" "\<lambda>sent. sent = [] \<or> endpoint_authorized env c = Inr ()" for env c
proof
  fix sent x
  show "sent = [] \<or> endpoint_authorized env c = Inr () \<Longrightarrow> perform env c x sent = [] \<or> endpoint_authorized env c = Inr ()"
    using perform_cases [of env c x sent] by auto
qed

text \<open>
  No message leaves for an endpoint the guard refuses: whatever operations are called on a checked remote
  connector, if the worker was ever sent a message then the egress guard authorizes its endpoint.
\<close>

lemma worker_messages_authorized:
  assumes "mk_worker_connector c = Inr c" and "wc_endpoint c = Some endpoint" and "run_ops (perform env c) ops [] \<noteq> []"
  shows "\<exists>guard. wc_egress_guard c = Some guard \<and> authorize_endpoint (ce_bracketed_ok env) (ce_ipv6 env) guard endpoint = Inr ()"
proof -
  have "endpoint_authorized env c = Inr ()" using worker_ops.run_inv [of "[]" env c ops] assms(3) by simp
  moreover obtain guard where "wc_egress_guard c = Some guard"
    using assms(1,2) by (cases "wc_egress_guard c") (auto simp: mk_worker_connector_def split: if_splits)
  ultimately show ?thesis using assms(2) by (simp add: endpoint_authorized_def)
qed

section \<open>What a worker's answer becomes\<close>

lemma read_version_Inr: "read_version env v = Inr x \<Longrightarrow> mk_source_version x = Inr x"
  by (auto simp: read_version_def ck_bind_Inr mk_source_version_Inr)

lemma read_lineage_Inr: "read_lineage env v = Inr x \<Longrightarrow> mk_lineage_ref x = Inr x"
  by (auto simp: read_lineage_def ck_bind_Inr mk_lineage_ref_Inr)

lemma read_batch_Inr:
  assumes "read_batch env v = Inr b"
  shows "mk_data_batch b = Inr b \<and> (\<forall>x \<in> set (db_source_versions b). mk_source_version x = Inr x)
    \<and> (\<forall>x \<in> set (db_lineage b). mk_lineage_ref x = Inr x)"
proof -
  obtain vs ls xs ys where "check_all (read_version env) xs = Inr vs" "check_all (read_lineage env) ys = Inr ls"
    and "mk_data_batch b = Inr b" "db_source_versions b = vs" "db_lineage b = ls"
    using assms unfolding read_batch_def ck_bind_Inr by (auto simp: mk_data_batch_Inr)
  then show ?thesis using check_all_right [of "read_version env" xs vs] check_all_right [of "read_lineage env" ys ls]
    by (auto dest: read_version_Inr read_lineage_Inr)
qed

lemma yield_batches_checked: "b \<in> set (fst (yield_batches env vs)) \<Longrightarrow> \<exists>v \<in> set vs. read_batch env v = Inr b"
  by (induction vs) (auto split: sum.splits)

text \<open>
  A query through a worker is the query asked, and its batches carry provenance: the worker is sent at most
  one message, for a request of its own source, with the content and the deadline of the request, and every
  batch yielded passed the checks of batches, versions and lineage.
\<close>

lemma worker_query_is_faithful:
  assumes "worker_execute env c q sent = (Inr (batches, ending), sent')"
  shows "qr_source_id q = pf_connector_id (wc_profile c) \<and> endpoint_authorized env c = Inr ()
    \<and> sent' = sent @ [(''connector.query'', query_message q, Some (of_int (qr_deadline_ms q) / 1000))]
    \<and> (\<forall>b \<in> set batches. mk_data_batch b = Inr b \<and> (\<forall>x \<in> set (db_source_versions b). mk_source_version x = Inr x)
        \<and> (\<forall>x \<in> set (db_lineage b). mk_lineage_ref x = Inr x))"
proof -
  note run = authorized_invoke_Inr [OF assms [unfolded worker_execute_def]]
  from run(4) obtain items where "yield_batches env items = (batches, ending)" by (auto simp: ck_bind_Inr)
  then have "\<exists>v. read_batch env v = Inr b" if "b \<in> set batches" for b using that yield_batches_checked [of b env items] by auto
  then have "\<forall>b \<in> set batches. mk_data_batch b = Inr b \<and> (\<forall>x \<in> set (db_source_versions b). mk_source_version x = Inr x)
      \<and> (\<forall>x \<in> set (db_lineage b). mk_lineage_ref x = Inr x)"
    using read_batch_Inr by blast
  then show ?thesis using run(1-3) by (simp add: check_source_def split: if_splits)
qed

section \<open>A connector\<close>

definition sample_connector_env :: connector_env where
  "sample_connector_env = \<lparr>ce_bracketed_ok = (\<lambda>n. False), ce_ipv6 = no_ipv6,
     ce_invoke = (\<lambda>operation payload timeout. Inr [(''batches'', JArr [JObj [(''kind'', JStr ''arrow''), (''payload'', JArr []),
        (''sourceVersions'', JArr [JObj [(''sourceId'', JStr ''c''), (''version'', JStr ''1''), (''observedAt'', JStr ''2026Z'')]]),
        (''lineage'', JArr [JObj [(''sourceId'', JStr ''c''), (''assetId'', JStr ''a'')]])]])]),
     ce_str = (\<lambda>v. ''r''), ce_int = (\<lambda>v. Inl (TypeError ''int'')), ce_float = Inr, ce_fromisoformat = (\<lambda>t. Inr (utc 0))\<rparr>"

definition sample_worker_connector :: worker_connector where
  "sample_worker_connector = \<lparr>wc_profile = \<lparr>pf_connector_id = ''c'', pf_version = ''1'', pf_sdk_api = ''harness.connector/v1'',
       pf_runtime_mode = RM_Process, pf_data_models = [DM_Tabular], pf_capabilities = [Discover, Describe, Query],
       pf_auth_methods = [''ref''], pf_consistency = default_consistency, pf_limits = default_connector_limits,
       pf_extension_namespace = None, pf_metadata = []\<rparr>,
     wc_client_connector_id = ''c'', wc_endpoint = Some ''http://postgres:5432/'', wc_egress_guard = Some sample_laptop\<rparr>"

definition sample_worker_query :: query_request where
  "sample_worker_query = \<lparr>qr_source_id = ''c'', qr_asset_ids = [''a''], qr_plan = [], qr_limit = 5, qr_deadline_ms = 1500,
     qr_purpose = ''p'', qr_policy_attributes = []\<rparr>"

lemma sample_worker_runs:
  "mk_worker_connector sample_worker_connector = Inr sample_worker_connector"
  "run_ops (perform sample_connector_env sample_worker_connector) [Op_Execute sample_worker_query] []
     = [(''connector.query'', query_message sample_worker_query, Some (3 / 2))]"
  by code_simp+

lemma sample_worker_executes:
  "worker_execute sample_connector_env sample_worker_connector sample_worker_query [] =
    (Inr ([\<lparr>db_kind = BK_Arrow, db_payload = P_Json (JArr []),
       db_source_versions = [\<lparr>sv_source_id = ''c'', sv_version = ''1'', sv_observed_at = utc 0, sv_effective_at = None\<rparr>],
       db_lineage = [\<lparr>lin_source_id = ''c'', lin_asset_id = ''a'', lin_record_id = None, lin_field_path = None\<rparr>],
       db_row_count = None, db_byte_count = None\<rparr>], None),
     [(''connector.query'', query_message sample_worker_query, Some (3 / 2))])"
  by code_simp

lemma worker_messages_authorized_example:
  "\<exists>guard. wc_egress_guard sample_worker_connector = Some guard
    \<and> authorize_endpoint (\<lambda>n. False) no_ipv6 guard ''http://postgres:5432/'' = Inr ()"
  using worker_messages_authorized [OF sample_worker_runs(1), of "''http://postgres:5432/''" sample_connector_env
      "[Op_Execute sample_worker_query]"] sample_worker_runs(2)
  by (simp add: sample_worker_connector_def sample_connector_env_def)

lemma worker_query_is_faithful_example:
  "qr_source_id sample_worker_query = pf_connector_id (wc_profile sample_worker_connector)"
  using worker_query_is_faithful [OF sample_worker_executes] by simp

end
