(* ===== verification/Conformance.thy ===== *)
theory Conformance
  imports Worker_Connector
begin

text \<open>
  conformance.py: the checks that promote a connector, over the answers it gives. A connector is its profile and
  the answers to its calls, the two discoveries in their order; the worker-backed connector is one such.
\<close>

record conformance_check =
  cc_check_id :: string
  cc_passed :: bool
  cc_detail :: string

record conformance_report =
  cr_connector_id :: string
  cr_checks :: "conformance_check list"

definition report_passed :: "conformance_report \<Rightarrow> bool" where
  "report_passed r \<longleftrightarrow> cr_checks r \<noteq> [] \<and> list_all cc_passed (cr_checks r)"

record 'e connector_answers =
  cn_profile :: connector_profile
  cn_health :: "'e + health_status"
  cn_first :: "'e + asset list"
  cn_second :: "'e + asset list"
  cn_describe :: "asset_ref \<Rightarrow> 'e + asset_schema"

definition check_of :: "string \<Rightarrow> bool \<Rightarrow> string \<Rightarrow> conformance_check" where
  "check_of i b d = \<lparr>cc_check_id = i, cc_passed = b, cc_detail = d\<rparr>"

definition descriptions_match :: "asset_schema list \<Rightarrow> asset list \<Rightarrow> bool" where
  "descriptions_match schemas assets \<longleftrightarrow> list_all (\<lambda>(s, a). as_asset s = asset_ref_of a) (zip schemas assets)"

definition describe_check :: "asset list \<Rightarrow> asset_schema list \<Rightarrow> conformance_check" where
  "describe_check assets schemas =
     check_of ''describe.matches_asset'' (descriptions_match schemas assets)
       (if assets = [] then ''no assets'' else ''schemas='' @ show_nat (length schemas))"

definition conformance_checks :: "connector_profile \<Rightarrow> health_status \<Rightarrow> asset list \<Rightarrow> asset list \<Rightarrow> asset_schema list
    \<Rightarrow> conformance_check list" where
  "conformance_checks profile health first second schemas =
     [check_of ''profile.valid'' True (pf_sdk_api profile),
      check_of ''health.healthy'' (hs_healthy health) (hs_observed_version health),
      check_of ''discovery.deterministic'' (first = second)
        (''first='' @ show_nat (length first) @ '', second='' @ show_nat (length second)),
      check_of ''discovery.unique_identity'' (distinct (map asset_ref_of first)) (''assets='' @ show_nat (length first)),
      describe_check first schemas]"

definition run_connector_conformance :: "'e connector_answers \<Rightarrow> 'e + conformance_report" where
  "run_connector_conformance c =
     ck_bind (cn_health c) (\<lambda>health.
     ck_bind (cn_first c) (\<lambda>first.
     ck_bind (cn_second c) (\<lambda>second.
     ck_bind (check_all (\<lambda>a. cn_describe c (asset_ref_of a)) first) (\<lambda>schemas.
     Inr \<lparr>cr_connector_id = pf_connector_id (cn_profile c),
          cr_checks = conformance_checks (cn_profile c) health first second schemas\<rparr>))))"

lemma descriptions_match_iff:
  "length schemas = length assets \<Longrightarrow> descriptions_match schemas assets \<longleftrightarrow> map as_asset schemas = map asset_ref_of assets"
  unfolding descriptions_match_def by (induction schemas assets rule: list_induct2) auto

text \<open>
  A connector conforms exactly if it is healthy, discovers the same assets twice, each under its own identity,
  and describes every asset as that asset.
\<close>

lemma checks_passed:
  "report_passed \<lparr>cr_connector_id = i, cr_checks = conformance_checks profile health first second schemas\<rparr>
    \<longleftrightarrow> hs_healthy health \<and> first = second \<and> distinct (map asset_ref_of first) \<and> descriptions_match schemas first"
  by (simp add: report_passed_def conformance_checks_def check_of_def describe_check_def)

lemma described_match:
  assumes "check_all (\<lambda>a. cn_describe c (asset_ref_of a)) assets = Inr schemas"
  shows "descriptions_match schemas assets \<longleftrightarrow> map as_asset schemas = map asset_ref_of assets"
  using check_all_length [OF assms] by (rule descriptions_match_iff)

lemma conformance_iff:
  "(\<exists>r. run_connector_conformance c = Inr r \<and> report_passed r) \<longleftrightarrow>
    (\<exists>health assets schemas. cn_health c = Inr health \<and> hs_healthy health \<and> cn_first c = Inr assets \<and> cn_second c = Inr assets
      \<and> distinct (map asset_ref_of assets) \<and> check_all (\<lambda>a. cn_describe c (asset_ref_of a)) assets = Inr schemas
      \<and> map as_asset schemas = map asset_ref_of assets)"
  (is "?left \<longleftrightarrow> ?right")
proof
  assume ?left
  then obtain health first second schemas where "cn_health c = Inr health" "cn_first c = Inr first" "cn_second c = Inr second"
    and schemas: "check_all (\<lambda>a. cn_describe c (asset_ref_of a)) first = Inr schemas"
    and "report_passed \<lparr>cr_connector_id = pf_connector_id (cn_profile c),
       cr_checks = conformance_checks (cn_profile c) health first second schemas\<rparr>"
    by (auto simp: run_connector_conformance_def ck_bind_Inr)
  then show ?right unfolding checks_passed described_match [OF schemas] by blast
next
  assume ?right
  then obtain health assets schemas where answers: "cn_health c = Inr health" "cn_first c = Inr assets" "cn_second c = Inr assets"
    and schemas: "check_all (\<lambda>a. cn_describe c (asset_ref_of a)) assets = Inr schemas"
    and passed: "hs_healthy health" "distinct (map asset_ref_of assets)" "map as_asset schemas = map asset_ref_of assets"
    by blast
  then show ?left
    using checks_passed [of "pf_connector_id (cn_profile c)" "cn_profile c" health assets assets schemas] described_match [OF schemas]
    by (simp add: run_connector_conformance_def)
qed

section \<open>A worker that conforms\<close>

definition worker_answers :: "connector_env \<Rightarrow> worker_connector \<Rightarrow> worker_error connector_answers" where
  \<comment> \<open>a worker-backed connector, each of whose calls is a message of its own\<close>
  "worker_answers env c = \<lparr>cn_profile = wc_profile c, cn_health = fst (worker_health env c []), cn_first = fst (worker_discover env c None []),
     cn_second = fst (worker_discover env c None []), cn_describe = (\<lambda>r. fst (worker_describe env c r []))\<rparr>"

lemma worker_schema_is_of_asset: "worker_describe env c ref sent = (Inr s, sent') \<Longrightarrow> as_asset s = ref"
  unfolding worker_describe_def by (drule authorized_invoke_Inr(4)) (auto simp: read_schema_def ck_bind_Inr)

text \<open>
  Over a deterministic worker two of the checks cannot fail: the discoveries agree and every description is of its
  asset, so that conformance comes down to health and unique identities.
\<close>

lemma worker_conformance:
  assumes "run_connector_conformance (worker_answers env c) = Inr r"
  shows "report_passed r \<longleftrightarrow> (\<exists>health assets. fst (worker_health env c []) = Inr health \<and> hs_healthy health
    \<and> fst (worker_discover env c None []) = Inr assets \<and> distinct (map asset_ref_of assets))"
proof -
  obtain health assets schemas where h: "fst (worker_health env c []) = Inr health"
    and a: "fst (worker_discover env c None []) = Inr assets"
    and s: "check_all (\<lambda>a. fst (worker_describe env c (asset_ref_of a) [])) assets = Inr schemas"
    and r: "r = \<lparr>cr_connector_id = pf_connector_id (wc_profile c), cr_checks = conformance_checks (wc_profile c) health assets assets schemas\<rparr>"
    using assms by (auto simp: run_connector_conformance_def worker_answers_def ck_bind_Inr)
  have "map as_asset schemas = map asset_ref_of assets"
    by (rule check_all_map [OF s]) (metis prod.collapse worker_schema_is_of_asset)
  then have "descriptions_match schemas assets" using descriptions_match_iff check_all_length [OF s] by blast
  then show ?thesis unfolding r checks_passed using h a by auto
qed

end
