(* ===== verification/Scaffolding.thy ===== *)
theory Scaffolding
  imports Connector_Registry Json_Parser
begin

text \<open>
  scaffolding.py: starter files for a connector from an OpenAPI document. The regular expressions are written out;
  the document is a JSON object, whose keys are texts.
\<close>

declare map_of_eq_Some_iff [simp del] Some_eq_map_of_iff [simp del]

section \<open>Identifiers\<close>

definition lower_alnum :: "char \<Rightarrow> bool" where
  "lower_alnum c \<longleftrightarrow> c \<in> set ''abcdefghijklmnopqrstuvwxyz0123456789''"

definition ascii_alpha :: "char \<Rightarrow> bool" where
  "ascii_alpha c \<longleftrightarrow> c \<in> set ''abcdefghijklmnopqrstuvwxyzABCDEFGHIJKLMNOPQRSTUVWXYZ''"

definition ascii_alnum :: "char \<Rightarrow> bool" where
  "ascii_alnum c \<longleftrightarrow> ascii_alpha c \<or> is_digit c"

definition scaffold_connector_id :: "string \<Rightarrow> bool" where
  \<comment> \<open>the pattern \<open>[a-z0-9][a-z0-9.-]+\<close>\<close>
  "scaffold_connector_id s \<longleftrightarrow> 2 \<le> length s \<and> lower_alnum (hd s)
     \<and> list_all (\<lambda>c. lower_alnum c \<or> c = CHR ''.'' \<or> c = CHR ''-'') (tl s)"

definition openapi_version_ok :: "string \<Rightarrow> bool" where
  \<comment> \<open>the pattern \<open>3\.(?:0|1)\.\d+\<close>\<close>
  "openapi_version_ok s \<longleftrightarrow> (str_startswith s ''3.0.'' \<or> str_startswith s ''3.1.'') \<and> 4 < length s \<and> list_all is_digit (drop 4 s)"

definition operation_id_ok :: "string \<Rightarrow> bool" where
  \<comment> \<open>the pattern \<open>[A-Za-z][A-Za-z0-9_.-]{0,127}\<close>\<close>
  "operation_id_ok s \<longleftrightarrow> s \<noteq> [] \<and> length s \<le> 128 \<and> ascii_alpha (hd s)
     \<and> list_all (\<lambda>c. ascii_alnum c \<or> c \<in> {CHR ''_'', CHR ''.'', CHR ''-''}) (tl s)"

fun squeeze :: "bool \<Rightarrow> string \<Rightarrow> string" where
  \<comment> \<open>every run of other characters becomes one underscore; the flag says that a run has begun\<close>
  "squeeze run [] = []"
| "squeeze run (c # s) =
     (if ascii_alnum c then c # squeeze False s
      else if run then squeeze True s else CHR ''_'' # squeeze True s)"

definition strip_underscores :: "string \<Rightarrow> string" where
  "strip_underscores s = rev (dropWhile (\<lambda>c. c = CHR ''_'') (rev (dropWhile (\<lambda>c. c = CHR ''_'') s)))"

definition str_upper :: "string \<Rightarrow> string" where
  \<comment> \<open>on ASCII letters, as the verbs are\<close>
  "str_upper s = map (\<lambda>c. let n = (of_char c :: nat) in if 97 \<le> n \<and> n \<le> 122 then char_of (n - 32) else c) s"

section \<open>The catalog of operations\<close>

definition verbs :: "string list" where
  "verbs = [''get'', ''post'', ''put'', ''patch'', ''delete'', ''head'', ''options'']"

definition read_verbs :: "string list" where
  "read_verbs = [''get'', ''head'', ''options'']"

record catalog_entry =
  oc_operation_id :: string
  oc_method :: string
  oc_path :: string
  oc_capability :: string

definition default_operation_id :: "string \<Rightarrow> string \<Rightarrow> string" where
  "default_operation_id http_method path =
     (let s = strip_underscores (squeeze False (http_method @ ''_'' @ path)) in if s = [] then str_lower http_method else s)"

definition catalog_of :: "string \<Rightarrow> string \<times> json \<Rightarrow> catalog_entry list checked" where
  \<comment> \<open>one member of a path object: nothing for what is no operation\<close>
  "catalog_of path m =
     (case m of (http_method, operation) \<Rightarrow>
       if str_lower http_method \<notin> set verbs then Inr []
       else case operation of
          JObj d \<Rightarrow>
            (let given = member d ''operationId'';
                 chosen = (if given = JNull then JStr (default_operation_id http_method path) else given);
                 verb = str_lower http_method in
             case chosen of
               JStr i \<Rightarrow> if operation_id_ok i
                 then Inr [\<lparr>oc_operation_id = i, oc_method = str_upper verb, oc_path = path,
                     oc_capability = (if verb \<in> set read_verbs then ''query'' else ''mutate'')\<rparr>]
                 else Inl (ValueError ''OpenAPI operationId values must be bounded identifiers'')
             | _ \<Rightarrow> Inl (ValueError ''OpenAPI operationId values must be bounded identifiers''))
        | _ \<Rightarrow> Inr [])"

definition path_catalog :: "string \<times> json \<Rightarrow> catalog_entry list checked" where
  "path_catalog p =
     (case p of (path, item) \<Rightarrow>
       if \<not> str_startswith path ''/'' then Inl (ValueError ''OpenAPI paths must be absolute strings with path objects'')
       else case item of
          JObj d \<Rightarrow> ck_bind (check_all (catalog_of path) (sort_key fst d)) (\<lambda>css. Inr (concat css))
        | _ \<Rightarrow> Inl (ValueError ''OpenAPI paths must be absolute strings with path objects''))"

section \<open>The files\<close>

record connector_scaffold =
  sc_connector_id :: string
  sc_operations :: "string list"
  sc_files :: "(string, string) dict"

definition advertised_capabilities :: "catalog_entry list \<Rightarrow> string list" where
  "advertised_capabilities catalog = sorted_set ([''discover'', ''describe''] @ map oc_capability catalog)"

definition scaffold_profile :: "string \<Rightarrow> string \<Rightarrow> catalog_entry list \<Rightarrow> json" where
  "scaffold_profile connector_id version catalog = JObj
     [(''schemaVersion'', JStr ''data.harness/v1''), (''kind'', JStr ''DataSourceConnectorProfile''), (''connectorId'', JStr connector_id),
      (''version'', JStr version), (''sdkApi'', JStr ''harness.connector/v1''), (''runtimeMode'', JStr ''process''),
      (''dataModels'', JArr [JStr ''tabular'']), (''capabilities'', JArr (map JStr (advertised_capabilities catalog))),
      (''authMethods'', JArr [JStr ''credential-reference'']),
      (''limits'', JObj [(''maxParallelism'', JInt 4), (''maxResultBytes'', JInt 10485760), (''supportsCancellation'', JBool True)]),
      (''consistency'', JObj [(''readIsolation'', JArr [JStr ''remote-api-snapshot'']), (''supportsTransactions'', JBool False),
         (''supportsCheckpoint'', JBool False), (''supportsCdc'', JBool False)])]"

definition catalog_json :: "catalog_entry list \<Rightarrow> json" where
  "catalog_json catalog = JObj [(''operations'', JArr (map (\<lambda>e. JObj
     [(''operationId'', JStr (oc_operation_id e)), (''method'', JStr (oc_method e)), (''path'', JStr (oc_path e)),
      (''capability'', JStr (oc_capability e))]) catalog))]"

definition triple_quotes :: string where
  "triple_quotes = [CHR 0x22, CHR 0x22, CHR 0x22]"

definition quoted_name :: "string \<Rightarrow> string" where
  \<comment> \<open>\<open>repr\<close> of a text without quotes, backslashes and control characters\<close>
  "quoted_name s = CHR 0x27 # s @ [CHR 0x27]"

definition scaffold_source :: "string \<Rightarrow> string \<Rightarrow> string list \<Rightarrow> string" where
  "scaffold_source connector_id openapi_version operations =
     triple_quotes @ ''Generated adapter; transport and credentials are deployment supplied.'' @ triple_quotes @ [CHR 0x0A, CHR 0x0A]
     @ ''CONNECTOR_ID = '' @ quoted_name connector_id @ [CHR 0x0A]
     @ ''OPENAPI_VERSION = '' @ quoted_name openapi_version @ [CHR 0x0A]
     @ ''OPERATIONS = tuple('' @ dumps (JArr (map JStr (sort operations))) @ '')'' @ [CHR 0x0A, CHR 0x0A]
     @ ''def supports(operation_id: str) -> bool:'' @ [CHR 0x0A] @ ''    return operation_id in OPERATIONS'' @ [CHR 0x0A]"

definition scaffold_readme :: "string \<Rightarrow> string" where
  "scaffold_readme connector_id = ''# '' @ connector_id @ [CHR 0x0A, CHR 0x0A]
     @ ''Generated from OpenAPI metadata. The scaffold deliberately contains no endpoint ''
     @ ''URL or secret; bind both through the deployment credential-reference mechanism.'' @ [CHR 0x0A, CHR 0x0A]
     @ ''Mutation operations are inventory only until an explicit action profile, policy, ''
     @ ''preview, idempotency, precondition and compensation design is supplied.'' @ [CHR 0x0A]"

definition scaffold_files :: "string \<Rightarrow> string \<Rightarrow> string \<Rightarrow> catalog_entry list \<Rightarrow> (string, string) dict" where
  "scaffold_files connector_id version openapi_version catalog =
     [(''connector-profile.json'', dumps_indent (scaffold_profile connector_id version catalog) @ [CHR 0x0A]),
      (''connector.py'', scaffold_source connector_id openapi_version (map oc_operation_id catalog)),
      (''operation-catalog.json'', dumps_indent (catalog_json catalog) @ [CHR 0x0A]),
      (''README.md'', scaffold_readme connector_id)]"

definition openapi_catalog :: "(string, json) dict \<Rightarrow> (string \<times> catalog_entry list) checked" where
  \<comment> \<open>the version and the operations of a document\<close>
  "openapi_catalog document =
     (case (member document ''openapi'', member document ''paths'') of
        (JStr openapi_version, JObj paths) \<Rightarrow>
          if \<not> openapi_version_ok openapi_version
          then Inl (ValueError ''an OpenAPI 3.0/3.1 version and paths mapping are required'')
          else ck_bind (check_all path_catalog (sort_key fst paths)) (\<lambda>css.
            let catalog = concat css in
            if catalog = [] then Inl (ValueError ''OpenAPI document exposes no operations'')
            else if \<not> distinct (map oc_operation_id catalog) then Inl (ValueError ''OpenAPI operationId values must be unique'')
            else Inr (openapi_version, catalog))
      | _ \<Rightarrow> Inl (ValueError ''an OpenAPI 3.0/3.1 version and paths mapping are required''))"

definition from_openapi :: "(string, json) dict \<Rightarrow> string \<Rightarrow> string \<Rightarrow> connector_scaffold checked" where
  "from_openapi document connector_id version =
     (if \<not> scaffold_connector_id connector_id
      then Inl (ValueError ''connector_id must satisfy the public connector profile contract'')
      else ck_bind (openapi_catalog document) (\<lambda>(openapi_version, catalog).
        Inr \<lparr>sc_connector_id = connector_id, sc_operations = sort (map oc_operation_id catalog),
             sc_files = scaffold_files connector_id version openapi_version catalog\<rparr>))"

section \<open>What a scaffold contains\<close>

lemma catalog_of_entry:
  assumes "catalog_of path m = Inr es" and "e \<in> set es"
  shows "operation_id_ok (oc_operation_id e) \<and> oc_path e = path \<and> str_lower (fst m) \<in> set verbs
    \<and> (oc_capability e = ''query'' \<longleftrightarrow> str_lower (fst m) \<in> set read_verbs)"
  using assms
  by (auto simp: catalog_of_def Let_def split: prod.splits if_splits json.splits)

lemma path_catalog_entry:
  assumes "path_catalog p = Inr es" and "e \<in> set es"
  shows "operation_id_ok (oc_operation_id e) \<and> oc_path e = fst p"
proof -
  obtain d css where "check_all (catalog_of (fst p)) (sort_key fst d) = Inr css" "es = concat css"
    using assms(1) by (auto simp: path_catalog_def ck_bind_Inr split: prod.splits if_splits json.splits)
  with assms(2) obtain cs m where "cs \<in> set css" "e \<in> set cs" "catalog_of (fst p) m = Inr cs"
    using check_all_right by (metis UN_E set_concat)
  then show ?thesis using catalog_of_entry by blast
qed

lemma openapi_catalog_Inr:
  assumes "openapi_catalog document = Inr (openapi_version, catalog)"
  shows "openapi_version_ok openapi_version \<and> catalog \<noteq> [] \<and> distinct (map oc_operation_id catalog)
    \<and> (\<forall>e \<in> set catalog. operation_id_ok (oc_operation_id e))"
proof -
  obtain paths css where css: "check_all path_catalog (sort_key fst paths) = Inr css" "catalog = concat css"
    and rest: "openapi_version_ok openapi_version" "catalog \<noteq> []" "distinct (map oc_operation_id catalog)"
    using assms by (auto simp: openapi_catalog_def ck_bind_Inr Let_def split: json.splits if_splits)
  have "operation_id_ok (oc_operation_id e)" if e: "e \<in> set catalog" for e
  proof -
    from e css obtain cs p where "cs \<in> set css" "e \<in> set cs" "path_catalog p = Inr cs"
      using check_all_right by (metis UN_E set_concat)
    then show ?thesis using path_catalog_entry by blast
  qed
  with rest show ?thesis by blast
qed

text \<open>
  The scaffold lists the operations sorted, without repetition and as bounded identifiers; the constant in the
  generated source denotes exactly that list, and the catalog file reads back to the catalog.
\<close>

lemma scaffold_operations:
  assumes "from_openapi document connector_id version = Inr sc"
  shows "sorted (sc_operations sc) \<and> distinct (sc_operations sc) \<and> (\<forall>i \<in> set (sc_operations sc). operation_id_ok i)
    \<and> json_loads fl (dumps (JArr (map JStr (sc_operations sc)))) = Inr (JArr (map JStr (sc_operations sc)))"
proof -
  obtain v catalog where "openapi_catalog document = Inr (v, catalog)" and ops: "sc_operations sc = sort (map oc_operation_id catalog)"
    using assms by (auto simp: from_openapi_def ck_bind_Inr split: if_splits)
  from openapi_catalog_Inr [OF this(1)] have "distinct (sc_operations sc)" "\<forall>i \<in> set (sc_operations sc). operation_id_ok i"
    unfolding ops by auto
  moreover have "plain (JArr (map JStr (sc_operations sc)))" by (simp add: list_all_iff)
  ultimately show ?thesis using loads_dumps ops by (metis sorted_sort)
qed

lemma scaffold_catalog_reads_back:
  "json_loads fl (dumps_indent (catalog_json catalog) @ [CHR 0x0A]) = Inr (sort_keys (catalog_json catalog))"
  by (rule loads_dumps_indent) (auto simp: catalog_json_def list_all_iff json_space_def)

lemma scaffold_capabilities:
  "''discover'' \<in> set (advertised_capabilities catalog)" "''describe'' \<in> set (advertised_capabilities catalog)"
  "''mutate'' \<in> set (advertised_capabilities catalog) \<longleftrightarrow> (\<exists>e \<in> set catalog. oc_capability e = ''mutate'')"
  by (simp_all add: advertised_capabilities_def image_iff eq_commute)

definition sample_openapi :: "(string, json) dict" where
  "sample_openapi = [(''openapi'', JStr ''3.1.0''), (''paths'', JObj [(''/orders/{id}'', JObj
     [(''get'', JObj []), (''DELETE'', JObj [(''operationId'', JStr ''dropOrder'')]), (''summary'', JStr ''x'')])])]"

lemma sample_scaffold:
  "openapi_catalog sample_openapi = Inr (''3.1.0'',
     [\<lparr>oc_operation_id = ''dropOrder'', oc_method = ''DELETE'', oc_path = ''/orders/{id}'', oc_capability = ''mutate''\<rparr>,
      \<lparr>oc_operation_id = ''get_orders_id'', oc_method = ''GET'', oc_path = ''/orders/{id}'', oc_capability = ''query''\<rparr>])"
  by code_simp

end
