(* ===== verification/Contract_Gates.thy ===== *)
theory Contract_Gates
  imports Acceptance_Campaign Json_Parser
begin

text \<open>
  contracts.py and cli.py: the gates over schemas, fixtures and repository artifacts, and the command that verifies
  an acceptance campaign. The files, what the jsonschema package reports for a document and the resolution of paths
  are the environment.
\<close>

declare map_of_eq_Some_iff [simp del] Some_eq_map_of_iff [simp del]

section \<open>Gate reports\<close>

record gate_check =
  gk_check_id :: string
  gk_passed :: bool
  gk_detail :: string

record gate_report =
  gr_phase :: string
  gr_passed :: bool
  gr_checks :: "gate_check list"

definition gate_check_of :: "string \<Rightarrow> bool \<Rightarrow> string \<Rightarrow> gate_check" where
  "gate_check_of i b d = \<lparr>gk_check_id = i, gk_passed = b, gk_detail = d\<rparr>"

definition check_json :: "gate_check \<Rightarrow> json" where
  "check_json c = JObj [(''check_id'', JStr (gk_check_id c)), (''passed'', JBool (gk_passed c)), (''detail'', JStr (gk_detail c))]"

definition report_json :: "gate_report \<Rightarrow> json" where
  "report_json r = JObj [(''phase'', JStr (gr_phase r)), (''passed'', JBool (gr_passed r)), (''checks'', JArr (map check_json (gr_checks r)))]"

record contract_env =
  cf_schemas :: "(string \<times> json checked) list" \<comment> \<open>the files of the schema directory by name\<close>
  cf_positive :: "(string \<times> json checked) list"
  cf_negative :: "(string \<times> json checked) list"
  cf_check_schema :: "json \<Rightarrow> unit checked"
  cf_iter_errors :: "json \<Rightarrow> json \<Rightarrow> string list" \<comment> \<open>the messages for a document under a schema\<close>
  cf_sorted_errors :: "json \<Rightarrow> json \<Rightarrow> string list" \<comment> \<open>the same in the order of their paths\<close>
  cf_load :: "string \<Rightarrow> json checked" \<comment> \<open>a file below the root\<close>
  cf_is_file :: "string \<Rightarrow> bool"
  cf_resolve :: "string \<Rightarrow> string"
  cf_str :: "json \<Rightarrow> string"

definition str_endswith :: "string \<Rightarrow> string \<Rightarrow> bool" where
  "str_endswith s t \<longleftrightarrow> str_startswith (rev s) (rev t)"

definition schema_suffix :: string where
  "schema_suffix = ''.schema.json''"

definition schema_name :: "string \<Rightarrow> string" where
  "schema_name n = take (length n - length schema_suffix) n"

section \<open>Fixtures\<close>

definition fixtures_of :: "string \<Rightarrow> (string \<times> json checked) list \<Rightarrow> (string \<times> json checked) list" where
  "fixtures_of name fs =
     sort_key fst (filter (\<lambda>(n, _). str_startswith n (name @ ''.'') \<and> str_endswith n ''.json'') fs)"

definition fixture_errors :: "contract_env \<Rightarrow> json \<Rightarrow> string \<times> json checked \<Rightarrow> string list checked" where
  "fixture_errors env schema f = ck_bind (snd f) (\<lambda>v. Inr (map (\<lambda>m. fst f @ '': '' @ m) (cf_iter_errors env schema v)))"

definition accepted_invalid :: "contract_env \<Rightarrow> json \<Rightarrow> string \<times> json checked \<Rightarrow> string list checked" where
  "accepted_invalid env schema f =
     ck_bind (snd f) (\<lambda>v. Inr (if cf_iter_errors env schema v = [] then [''accepted invalid: '' @ fst f] else []))"

definition schema_check :: "contract_env \<Rightarrow> string \<times> json checked \<Rightarrow> gate_check checked" where
  "schema_check env f =
     (let name = schema_name (fst f); check_id = ''schema.'' @ name @ ''.fixtures'';
          positives = fixtures_of name (cf_positive env); negatives = fixtures_of name (cf_negative env) in
      ck_bind (snd f) (\<lambda>schema.
      ck_bind (cf_check_schema env schema) (\<lambda>_.
      if positives = [] \<or> negatives = [] then Inr (gate_check_of check_id False ''positive/negative fixture missing'')
      else ck_bind (check_all (fixture_errors env schema) positives) (\<lambda>errors.
           ck_bind (check_all (accepted_invalid env schema) negatives) (\<lambda>invalid.
           let details = concat errors @ concat invalid in
           Inr (gate_check_of check_id (details = [])
             (if details \<noteq> [] then join_with ''; '' details
              else show_nat (length positives) @ '' valid, '' @ show_nat (length negatives) @ '' rejected'')))))))"

definition validate_contract_fixtures :: "contract_env \<Rightarrow> gate_check list checked" where
  "validate_contract_fixtures env =
     ck_bind (check_all (schema_check env) (sort_key fst (filter (\<lambda>(n, _). str_endswith n schema_suffix) (cf_schemas env)))) (\<lambda>checks.
       Inr (if checks = [] then [gate_check_of ''schema.present'' False ''no schemas found''] else checks))"

section \<open>Repository artifacts\<close>

definition artifact_targets :: "(string \<times> string \<times> string) list" where
  "artifact_targets =
     [(''deployment.air-gapped'', ''deployment-profile.schema.json'', ''deployment/profiles/air-gapped.json''),
      (''deployment.self-hosted'', ''deployment-profile.schema.json'', ''deployment/profiles/self-hosted.json''),
      (''deployment.local-laptop'', ''deployment-profile.schema.json'', ''deployment/profiles/local-laptop.json''),
      (''reference-lab.example'', ''reference-lab-manifest.schema.json'', ''reference-labs/reference-lab-manifest.example.json'')]"

definition load_schema :: "contract_env \<Rightarrow> string \<Rightarrow> json checked" where
  "load_schema env n = (case dict_get (cf_schemas env) n of None \<Rightarrow> Inl (ValueError ''No such file or directory'') | Some r \<Rightarrow> r)"

definition target_check :: "contract_env \<Rightarrow> string \<times> string \<times> string \<Rightarrow> gate_check checked" where
  "target_check env t =
     (case t of (check_id, schema_file, path) \<Rightarrow>
        ck_bind (load_schema env schema_file) (\<lambda>schema.
        ck_bind (cf_load env path) (\<lambda>document.
        let errors = cf_sorted_errors env schema document in
        Inr (gate_check_of check_id (errors = []) (if errors \<noteq> [] then join_with ''; '' errors else cf_resolve env path)))))"

definition object_of :: "json \<Rightarrow> (string, json) dict checked" where
  \<comment> \<open>what \<open>.get\<close> needs\<close>
  "object_of v = (case v of JObj d \<Rightarrow> Inr d | _ \<Rightarrow> Inl (TypeError ''object has no attribute get''))"

definition items_of :: "json \<Rightarrow> string \<Rightarrow> (string, json) dict list checked" where
  "items_of v k = ck_bind (object_of v) (\<lambda>d. case dict_get d k of None \<Rightarrow> Inr []
     | Some xs \<Rightarrow> ck_bind (json_elements xs) (check_all object_of))"

definition hashable_distinct :: "json list \<Rightarrow> bool checked" where
  "hashable_distinct vs = (if list_all json_scalar vs then Inr (distinct vs) else Inl (TypeError ''unhashable type''))"

definition path_text :: "(string, json) dict \<Rightarrow> string checked" where
  "path_text item = (case dict_get item ''schema'' of None \<Rightarrow> Inr [] | Some v \<Rightarrow> as_text v)"

definition catalog_checks :: "contract_env \<Rightarrow> json \<Rightarrow> gate_check list checked" where
  "catalog_checks env catalog =
     ck_bind (items_of catalog ''ownedContracts'') (\<lambda>owned.
     ck_bind (check_all path_text owned) (\<lambda>paths.
     ck_bind (hashable_distinct (map (\<lambda>item. member item ''name'') owned)) (\<lambda>unique.
     let missing = filter (\<lambda>p. \<not> cf_is_file env p) paths;
         catalogued = remdups (map (cf_resolve env) paths);
         available = remdups (map (\<lambda>f. cf_resolve env (''schemas/v1/'' @ fst f))
           (filter (\<lambda>(n, _). str_endswith n schema_suffix) (cf_schemas env)))
     in Inr [gate_check_of ''catalog.unique-owned-contracts'' unique (''owned='' @ show_nat (length owned)),
             gate_check_of ''catalog.schemas-resolve'' (missing = [])
               (if missing \<noteq> [] then join_with ''; '' (map (cf_resolve env) missing) else ''schemas='' @ show_nat (length paths)),
             gate_check_of ''catalog.covers-all-schemas'' (set catalogued = set available)
               (''catalogued='' @ show_nat (length catalogued) @ '', available='' @ show_nat (length available))])))"

definition exact_revision :: "contract_env \<Rightarrow> (string, json) dict \<Rightarrow> bool" where
  "exact_revision env item =
     git_sha (py_str (cf_str env) (case dict_get item ''revision'' of None \<Rightarrow> JStr [] | Some v \<Rightarrow> v))"

definition release_check :: "contract_env \<Rightarrow> json \<Rightarrow> gate_check checked" where
  "release_check env release_set =
     ck_bind (items_of release_set ''components'') (\<lambda>components.
     let valid = list_all (exact_revision env) components in
     ck_bind (if length components = 4 then hashable_distinct (map (\<lambda>item. member item ''name'') components) else Inr False) (\<lambda>unique.
     Inr (gate_check_of ''compatibility.exact-revisions'' (length components = 4 \<and> unique \<and> valid)
       (''components='' @ show_nat (length components)))))"

definition validate_repository_artifacts :: "contract_env \<Rightarrow> gate_check list checked" where
  "validate_repository_artifacts env =
     ck_bind (check_all (target_check env) artifact_targets) (\<lambda>targets.
     ck_bind (cf_load env ''contracts/catalog.v1.json'') (\<lambda>catalog.
     ck_bind (catalog_checks env catalog) (\<lambda>cs.
     ck_bind (cf_load env ''compatibility/cross-plane-release-set.lock.json'') (\<lambda>release_set.
     ck_bind (release_check env release_set) (\<lambda>r.
     Inr (targets @ cs @ [r]))))))"

section \<open>The gate\<close>

definition required_artifacts :: "string list" where
  "required_artifacts =
     [''contracts/catalog.v1.json'', ''compatibility/cross-plane-release-set.lock.json'', ''deployment/profiles/air-gapped.json'',
      ''deployment/profiles/local-laptop.json'', ''docs/architecture/phase-0.md'', ''docs/development-roadmap.md'',
      ''docs/security/threat-model.md'', ''docs/testing/phase-0-gates.md'']"

definition run_phase0_gate :: "contract_env \<Rightarrow> gate_report checked" where
  "run_phase0_gate env =
     ck_bind (validate_contract_fixtures env) (\<lambda>schema_checks.
     let artifact_checks = map (\<lambda>p. gate_check_of (''artifact.'' @ p) (cf_is_file env p) p) (sort required_artifacts) in
     ck_bind (validate_repository_artifacts env) (\<lambda>repository_checks.
     let checks = schema_checks @ artifact_checks @ repository_checks in
     Inr \<lparr>gr_phase = ''phase-0'', gr_passed = list_all gk_passed checks, gr_checks = checks\<rparr>))"

section \<open>The command line\<close>

definition error_text :: "py_error \<Rightarrow> string" where
  "error_text e = (case e of ValueError m \<Rightarrow> m | KeyError m \<Rightarrow> m | TypeError m \<Rightarrow> m | PermissionError m \<Rightarrow> m | AssertionError \<Rightarrow> [])"

definition caught_by_cli :: "py_error \<Rightarrow> bool" where
  "caught_by_cli e \<longleftrightarrow> (case e of ValueError _ \<Rightarrow> True | KeyError _ \<Rightarrow> True | TypeError _ \<Rightarrow> True | _ \<Rightarrow> False)"

definition acceptance_payload :: "acceptance_env \<Rightarrow> bool \<Rightarrow> string list \<Rightarrow> campaign option \<Rightarrow> string \<Rightarrow> json" where
  "acceptance_payload av require errors campaign parse_error =
     (let valid = (errors = [] \<and> campaign \<noteq> None);
          accepted_now = (case campaign of None \<Rightarrow> False | Some c \<Rightarrow> accepted c)
      in JObj [(''passed'', JBool (valid \<and> (accepted_now \<or> \<not> require))), (''structurallyValid'', JBool valid),
         (''accepted'', JBool accepted_now),
         (''releaseSetDigest'', case campaign of None \<Rightarrow> JNull | Some c \<Rightarrow> JStr (release_set_digest (av_prims av) c)),
         (''blockers'', JArr (case campaign of None \<Rightarrow> [] | Some c \<Rightarrow> map JStr (blockers c))),
         (''errors'', JArr (map JStr (errors @ (if parse_error \<noteq> [] then [parse_error] else []))))])"

definition verify_acceptance :: "acceptance_env \<Rightarrow> contract_env \<Rightarrow> bool \<Rightarrow> json \<Rightarrow> json checked" where
  "verify_acceptance av env require document =
     ck_bind (load_schema env ''live-acceptance-campaign.schema.json'') (\<lambda>schema.
     let errors = cf_iter_errors env schema document in
     if errors \<noteq> [] then Inr (acceptance_payload av require errors None [])
     else case ck_bind (object_of document) (parse_campaign av) of
         Inr c \<Rightarrow> Inr (acceptance_payload av require errors (Some c) [])
       | Inl e \<Rightarrow> if caught_by_cli e then Inr (acceptance_payload av require errors None (error_text e)) else Inl e)"

datatype cli_command = Cli_Validate | Cli_Phase0_Gate | Cli_Verify_Acceptance json bool

definition validate_payload :: "gate_check list \<Rightarrow> json" where
  "validate_payload checks = JObj [(''passed'', JBool (list_all gk_passed checks)), (''checks'', JArr (map check_json checks))]"

definition cli_payload :: "acceptance_env \<Rightarrow> contract_env \<Rightarrow> cli_command \<Rightarrow> json checked" where
  "cli_payload av env c =
     (case c of
        Cli_Validate \<Rightarrow> ck_bind (validate_contract_fixtures env) (\<lambda>checks. Inr (validate_payload checks))
      | Cli_Phase0_Gate \<Rightarrow> ck_bind (run_phase0_gate env) (\<lambda>r. Inr (report_json r))
      | Cli_Verify_Acceptance document require \<Rightarrow> verify_acceptance av env require document)"

definition cli_main :: "acceptance_env \<Rightarrow> contract_env \<Rightarrow> cli_command \<Rightarrow> (string \<times> int) checked" where
  \<comment> \<open>what is printed, and the exit code\<close>
  "cli_main av env c =
     ck_bind (cli_payload av env c) (\<lambda>payload.
     ck_bind (json_index payload ''passed'') (\<lambda>passed.
       Inr (dumps_indent payload, if json_truthy passed then 0 else 1)))"

section \<open>What the gates decide\<close>

lemma check_all_concat_Nil:
  "check_all f xs = Inr ys \<Longrightarrow> concat ys = [] \<longleftrightarrow> (\<forall>x \<in> set xs. f x = Inr [])"
  by (induction xs arbitrary: ys) (auto split: sum.splits)

lemma fixture_errors_Nil: "fixture_errors env schema f = Inr [] \<longleftrightarrow> (\<exists>v. snd f = Inr v \<and> cf_iter_errors env schema v = [])"
  by (auto simp: fixture_errors_def ck_bind_Inr)

lemma accepted_invalid_Nil: "accepted_invalid env schema f = Inr [] \<longleftrightarrow> (\<exists>v. snd f = Inr v \<and> cf_iter_errors env schema v \<noteq> [])"
  by (auto simp: accepted_invalid_def ck_bind_Inr)

text \<open>
  A schema passes the fixture gate exactly if it has fixtures of both kinds, every positive one is valid under it
  and every negative one is not.
\<close>

lemma schema_check_passed:
  assumes "schema_check env (n, Inr schema) = Inr c"
  shows "gk_passed c \<longleftrightarrow> fixtures_of (schema_name n) (cf_positive env) \<noteq> [] \<and> fixtures_of (schema_name n) (cf_negative env) \<noteq> []
    \<and> (\<forall>f \<in> set (fixtures_of (schema_name n) (cf_positive env)). \<exists>v. snd f = Inr v \<and> cf_iter_errors env schema v = [])
    \<and> (\<forall>f \<in> set (fixtures_of (schema_name n) (cf_negative env)). \<exists>v. snd f = Inr v \<and> cf_iter_errors env schema v \<noteq> [])"
proof (cases "fixtures_of (schema_name n) (cf_positive env) = [] \<or> fixtures_of (schema_name n) (cf_negative env) = []")
  case True
  then show ?thesis using assms by (auto simp: schema_check_def gate_check_of_def ck_bind_Inr)
next
  case False
  then obtain errors invalid where
      e: "check_all (fixture_errors env schema) (fixtures_of (schema_name n) (cf_positive env)) = Inr errors"
    and i: "check_all (accepted_invalid env schema) (fixtures_of (schema_name n) (cf_negative env)) = Inr invalid"
    and c: "gk_passed c \<longleftrightarrow> concat errors = [] \<and> concat invalid = []"
    using assms unfolding schema_check_def Let_def snd_conv fst_conv ck_bind_simps ck_bind_Inr if_not_P [OF False]
    by (auto simp: gate_check_of_def)
  show ?thesis
    unfolding c check_all_concat_Nil [OF e] check_all_concat_Nil [OF i] fixture_errors_Nil accepted_invalid_Nil
    using False by blast
qed

lemma phase0_gate_passed:
  assumes "run_phase0_gate env = Inr r"
  shows "gr_passed r \<longleftrightarrow> (\<exists>schemas repository. validate_contract_fixtures env = Inr schemas \<and> list_all gk_passed schemas
    \<and> validate_repository_artifacts env = Inr repository \<and> list_all gk_passed repository
    \<and> (\<forall>p \<in> set required_artifacts. cf_is_file env p))"
proof -
  have "list_all gk_passed (map (\<lambda>p. gate_check_of (''artifact.'' @ p) (cf_is_file env p) p) (sort required_artifacts))
      \<longleftrightarrow> (\<forall>p \<in> set required_artifacts. cf_is_file env p)"
    by (simp add: list_all_iff gate_check_of_def)
  then show ?thesis using assms unfolding run_phase0_gate_def ck_bind_Inr Let_def
    by (elim exE conjE) (auto simp: list_all_append)
qed

lemma payload_passed:
  "json_index (acceptance_payload av require errors campaign parse_error) ''passed''
    = Inr (JBool (errors = [] \<and> campaign \<noteq> None \<and> ((\<exists>c. campaign = Some c \<and> accepted c) \<or> \<not> require)))"
  by (cases campaign) (simp_all add: acceptance_payload_def Let_def json_index_def)

text \<open>
  The command accepts a campaign document exactly if it validates under the schema, parses, and was accepted where
  acceptance is required: the exit code 0 is no weaker than the campaign.
\<close>

lemma verify_acceptance_exit:
  assumes "cli_main av env (Cli_Verify_Acceptance document require) = Inr (out, code)"
    and "load_schema env ''live-acceptance-campaign.schema.json'' = Inr schema"
  shows "code = 0 \<longleftrightarrow> cf_iter_errors env schema document = []
    \<and> (\<exists>d c. document = JObj d \<and> parse_campaign av d = Inr c \<and> (accepted c \<or> \<not> require))"
proof -
  obtain payload where p: "verify_acceptance av env require document = Inr payload"
    and code: "\<exists>b. json_index payload ''passed'' = Inr b \<and> code = (if json_truthy b then 0 else 1)"
    using assms(1) by (auto simp: cli_main_def cli_payload_def ck_bind_Inr)
  show ?thesis
  proof (cases "cf_iter_errors env schema document = []")
    case False
    then have "payload = acceptance_payload av require (cf_iter_errors env schema document) None []"
      using p assms(2) by (simp add: verify_acceptance_def)
    then show ?thesis using code False by (simp add: payload_passed json_truthy_def)
  next
    case True
    show ?thesis
    proof (cases "ck_bind (object_of document) (parse_campaign av)")
      case (Inl e)
      then have "payload = acceptance_payload av require [] None (error_text e)"
        using p assms(2) True by (simp add: verify_acceptance_def split: if_splits)
      moreover have "\<nexists>d c. document = JObj d \<and> parse_campaign av d = Inr c" using Inl by (auto simp: object_of_def)
      ultimately show ?thesis using code by (simp add: payload_passed json_truthy_def)
    next
      case (Inr c)
      then have "payload = acceptance_payload av require [] (Some c) []"
        using p assms(2) True by (simp add: verify_acceptance_def)
      moreover obtain d where "document = JObj d" "parse_campaign av d = Inr c"
        using Inr by (auto simp: ck_bind_Inr object_of_def split: json.splits)
      ultimately show ?thesis using code True by (auto simp: payload_passed json_truthy_def)
    qed
  qed
qed

end
