(* ===== verification/White_Goods_Sources.thy ===== *)
theory White_Goods_Sources
  imports Decoder Worker_Connector Freshness_Slo
begin

text \<open>
  The connectors of the white-goods reference lab (reference_labs/white_goods/lab.py): tables read from CSV files,
  documents with access lists, their search index, an event log and a paged service API. What the files hold is an
  argument; \<open>str\<close>, \<open>int\<close> and \<open>repr\<close> of dynamic values, float rounding, SHA-256 and \<open>fromisoformat\<close> are parameters. A
  generator is the list of what it yields with the exception it ends in.
\<close>

declare map_of_eq_Some_iff [simp del] Some_eq_map_of_iff [simp del]

section \<open>What the connectors share\<close>

datatype lab_error =
    Lab_Unavailable string
  | Lab_Unsupported string capability
  | Lab_Csv_Error
  | Lab_Raised py_error

record lab_env =
  le_repr :: "json \<Rightarrow> string"
  le_int :: "json \<Rightarrow> int checked"
  le_round :: "rat \<Rightarrow> rat"
  le_float_repr :: "rat \<Rightarrow> string"
  le_fromisoformat :: "string \<Rightarrow> datetime checked"
  le_sha256 :: "string \<Rightarrow> string"

record lab_connector =
  lc_profile :: connector_profile
  lc_schemas :: "(string, field_schema list) dict"
  lc_available :: bool
  lc_version :: source_version

definition fixed_time :: datetime where
  \<comment> \<open>2026-08-27T00:00:00Z\<close>
  "fixed_time = utc 1787788800000000"

definition lab_raised :: "'a checked \<Rightarrow> (lab_error + 'a)" where
  "lab_raised r = (case r of Inl e \<Rightarrow> Inl (Lab_Raised e) | Inr x \<Rightarrow> Inr x)"

lemma lab_raised_Inr [simp]: "lab_raised r = Inr x \<longleftrightarrow> r = Inr x"
  by (simp add: lab_raised_def split: sum.splits)

definition dataset_digest :: "(string \<Rightarrow> string) \<Rightarrow> (string \<times> string) list \<Rightarrow> string" where
  \<comment> \<open>the files by their path relative to the lab; paths compare part by part\<close>
  "dataset_digest sha256 files = sha256 (concat (map (\<lambda>(path, content). path @ content) (sort_key (\<lambda>f. split_on (CHR ''/'') (fst f)) files)))"

definition lab_version :: "string \<Rightarrow> string \<Rightarrow> source_version checked" where
  "lab_version digest connector_id =
     mk_source_version \<lparr>sv_source_id = connector_id, sv_version = ''sha256:'' @ digest, sv_observed_at = fixed_time, sv_effective_at = None\<rparr>"

definition connector_id :: "'a lab_connector_scheme \<Rightarrow> string" where
  "connector_id c = pf_connector_id (lc_profile c)"

definition lab_health :: "'a lab_connector_scheme \<Rightarrow> health_status" where
  "lab_health c = \<lparr>hs_healthy = lc_available c, hs_observed_version = pf_version (lc_profile c),
     hs_limitations = (if lc_available c then [] else [''injected_source_outage''])\<rparr>"

definition require_available :: "'a lab_connector_scheme \<Rightarrow> (lab_error + unit)" where
  "require_available c = (if lc_available c then Inr () else Inl (Lab_Unavailable (''injected outage: '' @ connector_id c)))"

definition lab_asset :: "'a lab_connector_scheme \<Rightarrow> string \<Rightarrow> asset checked" where
  "lab_asset c asset_id =
     ck_bind (mk_asset_ref \<lparr>aref_source_id = connector_id c, aref_asset_id = asset_id\<rparr>) (\<lambda>ref.
     mk_asset \<lparr>asset_ref_of = ref, asset_name = asset_id, asset_kind = ''mock-asset'', asset_description = None,
       asset_metadata = [(''dataset_version'', JStr (sv_version (lc_version c)))]\<rparr>)"

definition lab_discover :: "'a lab_connector_scheme \<Rightarrow> (lab_error + asset list)" where
  "lab_discover c = ck_bind (require_available c) (\<lambda>_. lab_raised (check_all (lab_asset c) (sort (dict_keys (lc_schemas c)))))"

definition lab_describe :: "'a lab_connector_scheme \<Rightarrow> asset_ref \<Rightarrow> (lab_error + asset_schema)" where
  "lab_describe c ref = ck_bind (require_available c) (\<lambda>_.
     if aref_source_id ref \<noteq> connector_id c then Inl (Lab_Raised (KeyError ''unknown asset: ''))
     else case dict_get (lc_schemas c) (aref_asset_id ref) of
       None \<Rightarrow> Inl (Lab_Raised (KeyError ''unknown asset: ''))
     | Some schema \<Rightarrow> Inr \<lparr>as_asset = ref, as_fields = schema, as_version = lc_version c\<rparr>)"

definition lab_unsupported :: "'a lab_connector_scheme \<Rightarrow> capability \<Rightarrow> (lab_error + 'b)" where
  \<comment> \<open>search, subscribe, mutate and checkpoint of the base connector, and \<open>execute\<close> of the search connector\<close>
  "lab_unsupported c cap = Inl (Lab_Unsupported (connector_id c) cap)"

definition lab_explain :: "'a lab_connector_scheme \<Rightarrow> query_request \<Rightarrow> (string, json) dict" where
  "lab_explain c q = [(''source'', JStr (connector_id c)), (''bounded'', JBool True), (''plan'', JObj (qr_plan q))]"

primrec run_generator :: "('a \<Rightarrow> ('e + 'b)) \<Rightarrow> 'a list \<Rightarrow> 'b list \<times> 'e option" where
  \<comment> \<open>a loop that yields one value per element, until one raises\<close>
  "run_generator f [] = ([], None)"
| "run_generator f (x # xs) = (case f x of Inl e \<Rightarrow> ([], Some e) | Inr y \<Rightarrow> apfst (Cons y) (run_generator f xs))"

lemma run_generator_yields: "y \<in> set (fst (run_generator f xs)) \<Longrightarrow> \<exists>x \<in> set xs. f x = Inr y"
  by (induction xs) (auto split: sum.splits)

lemma run_generator_check_all: "check_all f xs = Inr ys \<Longrightarrow> run_generator f xs = (ys, None)"
  by (induction xs arbitrary: ys) (auto split: sum.splits)

lemma run_generator_complete: "run_generator f xs = (ys, None) \<Longrightarrow> check_all f xs = Inr ys"
  by (induction xs arbitrary: ys) (auto split: sum.splits prod.splits simp: apfst_def map_prod_def)

definition generator :: "'a lab_connector_scheme \<Rightarrow> (lab_error + 'b list \<times> lab_error option) \<Rightarrow> 'b list \<times> lab_error option" where
  \<comment> \<open>the body of a generator, entered after \<open>_require_available\<close>\<close>
  "generator c body = (case ck_bind (require_available c) (\<lambda>_. body) of Inl e \<Rightarrow> ([], Some e) | Inr ys \<Rightarrow> ys)"

lemma generator_yields: "y \<in> set (fst (generator c body)) \<Longrightarrow> lc_available c \<and> (\<exists>ys e. body = Inr (ys, e) \<and> y \<in> set ys)"
  by (cases body) (auto simp: generator_def require_available_def split: if_splits)

definition row_lineage :: "'a lab_connector_scheme \<Rightarrow> string \<Rightarrow> string option \<Rightarrow> lineage_ref checked" where
  "row_lineage c asset_id record_id =
     mk_lineage_ref \<lparr>lin_source_id = connector_id c, lin_asset_id = asset_id, lin_record_id = record_id, lin_field_path = None\<rparr>"

definition lineage_or_empty :: "'a lab_connector_scheme \<Rightarrow> string \<Rightarrow> string option list \<Rightarrow> lineage_ref list checked" where
  \<comment> \<open>a result without rows is traced to the record \<open>empty-result\<close>\<close>
  "lineage_or_empty c asset_id records = check_all (row_lineage c asset_id) (if records = [] then [Some ''empty-result''] else records)"

definition rows_batch :: "'a lab_connector_scheme \<Rightarrow> batch_kind \<Rightarrow> json list \<Rightarrow> lineage_ref list \<Rightarrow> data_batch checked" where
  "rows_batch c kind rows lineage =
     mk_data_batch \<lparr>db_kind = kind, db_payload = P_Json (JArr rows), db_source_versions = [lc_version c], db_lineage = lineage,
       db_row_count = Some (int (length rows)), db_byte_count = None\<rparr>"

lemma rows_batch_payload: "rows_batch c kind rows lineage = Inr b \<Longrightarrow> db_payload b = P_Json (JArr rows)"
  by (auto simp: rows_batch_def checks)

definition lab_profile :: "string \<Rightarrow> data_model list \<Rightarrow> capability list \<Rightarrow> string \<Rightarrow> connector_profile" where
  "lab_profile cid models caps auth = \<lparr>pf_connector_id = cid, pf_version = ''1.0.0'', pf_sdk_api = ''harness.connector/v1'',
     pf_runtime_mode = RM_Process, pf_data_models = models, pf_capabilities = caps, pf_auth_methods = [auth],
     pf_consistency = default_consistency, pf_limits = default_connector_limits, pf_extension_namespace = None, pf_metadata = []\<rparr>"

definition lab_field :: "string \<Rightarrow> string \<Rightarrow> bool \<Rightarrow> field_schema" where
  "lab_field name type nullable = \<lparr>fs_name = name, fs_logical_type = type, fs_nullable = nullable, fs_description = None, fs_metadata = []\<rparr>"

definition new_connector :: "string \<Rightarrow> connector_profile \<Rightarrow> (string, field_schema list) dict \<Rightarrow> lab_connector checked" where
  "new_connector digest p schemas =
     ck_bind (mk_connector_profile p) (\<lambda>p.
     ck_bind (check_all (\<lambda>(a, fs). check_all mk_field_schema fs) schemas) (\<lambda>_.
     ck_bind (lab_version digest (pf_connector_id p)) (\<lambda>v.
     Inr \<lparr>lc_profile = p, lc_schemas = schemas, lc_available = True, lc_version = v\<rparr>)))"

section \<open>Tables\<close>

type_synonym row = "(string, json) dict"

record table_connector = lab_connector +
  tc_rows :: "(string, row list) dict"

definition table_files :: "(string \<times> string) list" where
  "table_files =
     [(''products'', ''master/products.csv''), (''customers'', ''master/customers.csv''),
      (''installed_products'', ''master/installed_products.csv''), (''service_orders'', ''service/service_orders.csv''),
      (''quality_inspections'', ''quality/quality_inspections.csv'')]"

definition primary_keys :: "(string, string) dict" where
  "primary_keys =
     [(''products'', ''product_id''), (''customers'', ''customer_id''), (''installed_products'', ''serial_number''),
      (''service_orders'', ''service_order_id''), (''quality_inspections'', ''inspection_id'')]"

definition read_table :: "string \<Rightarrow> (lab_error + string list \<times> row list)" where
  \<comment> \<open>a row with more cells than names, which no file has, is refused here: its None key is no JSON key\<close>
  "read_table t =
     (case csv_read t of
        None \<Rightarrow> Inl Lab_Csv_Error
      | Some table \<Rightarrow> (case dict_reader table of (names, rows) \<Rightarrow>
          if list_ex (\<lambda>cells. length names < length cells) rows then Inl Lab_Csv_Error
          else Inr (names, map (dict_reader_row names) rows)))"

definition load_tables :: "(string \<Rightarrow> string) \<Rightarrow> (lab_error + (string \<times> string list \<times> row list) list)" where
  \<comment> \<open>\<open>read\<close> gives the text of a file\<close>
  "load_tables read = check_all (\<lambda>(asset, path). ck_bind (read_table (read path)) (\<lambda>t. Inr (asset, t))) table_files"

definition table_schemas :: "(string \<times> string list \<times> row list) list \<Rightarrow> (string, field_schema list) dict" where
  "table_schemas ts = map (\<lambda>(asset, names, rows). (asset, map (\<lambda>n. lab_field n ''string'' True) names)) ts"

definition table_rows :: "(string \<times> string list \<times> row list) list \<Rightarrow> (string, row list) dict" where
  "table_rows ts = map (\<lambda>(asset, names, rows). (asset, rows)) ts"

definition table_profile :: connector_profile where
  "table_profile = (lab_profile ''whitegoods.erp'' [DM_Tabular]
       [Discover, Describe, Query, Predicate_Pushdown, Projection_Pushdown] ''credential_reference'')
     \<lparr>pf_limits := default_connector_limits\<lparr>cl_max_parallelism := 4, cl_max_result_bytes := 5000000\<rparr>\<rparr>"

definition new_table_connector :: "string \<Rightarrow> (string \<Rightarrow> string) \<Rightarrow> (lab_error + table_connector)" where
  "new_table_connector digest read =
     ck_bind (load_tables read) (\<lambda>ts.
     ck_bind (lab_raised (new_connector digest table_profile (table_schemas ts))) (\<lambda>c.
     Inr \<lparr>lc_profile = lc_profile c, lc_schemas = lc_schemas c, lc_available = True, lc_version = lc_version c,
          tc_rows = table_rows ts\<rparr>))"

definition reset_tables :: "(string \<Rightarrow> string) \<Rightarrow> table_connector \<Rightarrow> (lab_error + table_connector)" where
  "reset_tables read c = ck_bind (load_tables read) (\<lambda>ts. Inr (c\<lparr>tc_rows := table_rows ts, lc_available := True\<rparr>))"

definition snapshot_digest :: "(string \<Rightarrow> string) \<Rightarrow> table_connector \<Rightarrow> string" where
  "snapshot_digest sha256 c = sha256 (canonical (JObj (map (\<lambda>(a, rows). (a, JArr (map JObj rows))) (tc_rows c))))"

definition canonical_plan :: "query_request \<Rightarrow> bool" where
  "canonical_plan q \<longleftrightarrow> member (qr_plan q) ''select_by_asset'' \<noteq> JNull \<or> member (qr_plan q) ''where_by_asset'' \<noteq> JNull"

definition is_object :: "json \<Rightarrow> bool" where
  "is_object v = (case v of JObj d \<Rightarrow> True | _ \<Rightarrow> False)"

definition object_of :: "json \<Rightarrow> (string, json) dict" where
  \<comment> \<open>only read where \<open>is_object\<close> holds\<close>
  "object_of v = (case v of JObj d \<Rightarrow> d | _ \<Rightarrow> [])"

definition asset_where :: "query_request \<Rightarrow> string \<Rightarrow> json" where
  "asset_where q a =
     (if canonical_plan q then or_default (object_of (member (qr_plan q) ''where_by_asset'')) a (JObj [])
      else or_default (qr_plan q) ''where'' (JObj []))"

definition asset_select :: "query_request \<Rightarrow> string \<Rightarrow> json list checked" where
  "asset_select q a = json_elements
     (if canonical_plan q then or_default (object_of (member (qr_plan q) ''select_by_asset'')) a (JArr [])
      else or_default (qr_plan q) ''select'' (JArr []))"

definition known_fields :: "string list \<Rightarrow> (string, json) dict \<Rightarrow> json list \<Rightarrow> unit checked" where
  "known_fields allowed wh select =
     (if list_ex (\<lambda>k. k \<notin> set allowed) (dict_keys wh) then Inl (ValueError ''query references an unknown field'')
      else if list_ex (\<lambda>v. \<not> json_scalar v) select then Inl (TypeError ''unhashable type'')
      else if list_ex (\<lambda>v. v \<notin> JStr ` set allowed) select then Inl (ValueError ''query references an unknown field'')
      else Inr ())"

definition row_matches :: "lab_env \<Rightarrow> (string, json) dict \<Rightarrow> row \<Rightarrow> bool" where
  "row_matches env wh row =
     list_all (\<lambda>(k, v). py_str (le_repr env) (member row k) = py_str (le_repr env) v) wh"

definition row_get :: "row \<Rightarrow> string \<Rightarrow> json checked" where
  "row_get row k = (case dict_get row k of None \<Rightarrow> Inl (KeyError k) | Some v \<Rightarrow> Inr v)"

definition select_name :: "json \<Rightarrow> string" where
  \<comment> \<open>the names of a selection that passed \<open>known_fields\<close>\<close>
  "select_name v = (case v of JStr t \<Rightarrow> t | _ \<Rightarrow> [])"

definition project :: "json list \<Rightarrow> row \<Rightarrow> row checked" where
  "project select row =
     (if select = [] then Inr row
      else ck_bind (check_all (\<lambda>k. ck_bind (row_get row k) (\<lambda>v. Inr (k, v))) (map select_name select))
        (\<lambda>kvs. Inr (fold (\<lambda>(k, v). dict_set k v) kvs [])))"

definition text_or_none :: "json \<Rightarrow> string option" where
  \<comment> \<open>a cell of a CSV row is a text or None\<close>
  "text_or_none v = (case v of JStr t \<Rightarrow> Some t | _ \<Rightarrow> None)"

definition table_batch :: "lab_env \<Rightarrow> table_connector \<Rightarrow> query_request \<Rightarrow> string \<Rightarrow> data_batch checked" where
  "table_batch env c q asset =
     (case (dict_get (tc_rows c) asset, dict_get (lc_schemas c) asset, dict_get primary_keys asset) of
        (Some rows, Some schema, Some key) \<Rightarrow>
          ck_bind (asset_select q asset) (\<lambda>select.
          if \<not> is_object (asset_where q asset) then Inl (ValueError ''where must be a mapping'')
          else ck_bind (known_fields (map fs_name schema) (object_of (asset_where q asset)) select) (\<lambda>_.
            let matched = py_slice (filter (row_matches env (object_of (asset_where q asset))) rows) 0 (qr_limit q)
            in ck_bind (check_all (project select) matched) (\<lambda>payload.
               ck_bind (check_all (\<lambda>row. ck_bind (row_get row key) (\<lambda>v. Inr (text_or_none v))) matched) (\<lambda>keys.
               ck_bind (lineage_or_empty c asset keys) (\<lambda>lineage.
               rows_batch c BK_Arrow (map JObj payload) lineage)))))
      | _ \<Rightarrow> Inl (KeyError ''unknown structured asset: ''))"

definition table_execute :: "lab_env \<Rightarrow> table_connector \<Rightarrow> query_request \<Rightarrow> data_batch list \<times> lab_error option" where
  "table_execute env c q = generator c
     (if canonical_plan q \<and> (\<not> is_object (member (qr_plan q) ''select_by_asset'') \<or> \<not> is_object (member (qr_plan q) ''where_by_asset''))
      then Inl (Lab_Raised (ValueError ''canonical select and filter scopes must be mappings''))
      else Inr (run_generator (\<lambda>a. lab_raised (table_batch env c q a)) (qr_asset_ids q)))"

section \<open>Documents\<close>

record lab_document =
  ld_document_id :: string
  ld_product :: string
  ld_acl_roles :: "string list"
  ld_title :: string
  ld_content :: string
  ld_content_hash :: string
  ld_trust :: string

record document_connector = lab_connector +
  dc_documents :: "lab_document list"

fun split_at :: "string \<Rightarrow> string \<Rightarrow> (string \<times> string) option" where
  \<comment> \<open>the text before and after the first \<open>sep\<close>\<close>
  "split_at sep [] = None"
| "split_at sep (c # s) =
     (if str_startswith (c # s) sep then Some ([], drop (length sep) (c # s)) else map_option (apfst (Cons c)) (split_at sep s))"

definition split_document :: "string \<Rightarrow> (string \<times> string) checked" where
  \<comment> \<open>\<open>_, frontmatter, content = text.split("---", 2)\<close>\<close>
  "split_document t =
     (case split_at ''---'' t of
        None \<Rightarrow> Inl (ValueError ''not enough values to unpack'')
      | Some (_, rest) \<Rightarrow> (case split_at ''---'' rest of None \<Rightarrow> Inl (ValueError ''not enough values to unpack'') | Some p \<Rightarrow> Inr p))"

definition front_entry :: "string \<Rightarrow> (string \<times> string) checked" where
  "front_entry line =
     (case split_at '':'' line of
        None \<Rightarrow> Inl (ValueError ''not enough values to unpack'')
      | Some (k, v) \<Rightarrow> Inr (str_strip k, str_strip v))"

definition front_matter :: "string \<Rightarrow> (string, string) dict checked" where
  "front_matter t = ck_bind (check_all front_entry (str_splitlines (str_strip t))) (\<lambda>kvs. Inr (fold (\<lambda>(k, v). dict_set k v) kvs []))"

definition document_title :: "string \<Rightarrow> string \<Rightarrow> string" where
  "document_title stem content =
     (case find (\<lambda>line. str_startswith line ''# '') (str_splitlines content) of
        None \<Rightarrow> stem | Some line \<Rightarrow> str_strip (str_removeprefix line ''# ''))"

definition path_stem :: "string \<Rightarrow> string" where
  \<comment> \<open>of a file name that ends in \<open>.md\<close>\<close>
  "path_stem name = (if name = ''.md'' then name else take (length name - 3) name)"

definition front_get :: "(string, string) dict \<Rightarrow> string \<Rightarrow> string checked" where
  "front_get d k = (case dict_get d k of None \<Rightarrow> Inl (KeyError k) | Some v \<Rightarrow> Inr v)"

definition parse_document :: "lab_env \<Rightarrow> string \<times> string \<Rightarrow> lab_document checked" where
  "parse_document env file = (case file of (name, t) \<Rightarrow>
     ck_bind (split_document t) (\<lambda>(front, content).
     ck_bind (front_matter front) (\<lambda>metadata.
     ck_bind (front_get metadata ''document_id'') (\<lambda>document_id.
     ck_bind (front_get metadata ''product'') (\<lambda>product.
     ck_bind (front_get metadata ''acl'') (\<lambda>acl.
     Inr \<lparr>ld_document_id = document_id, ld_product = product, ld_acl_roles = map str_strip (split_on (CHR '','') acl),
          ld_title = document_title (path_stem name) content, ld_content = str_strip content, ld_content_hash = le_sha256 env t,
          ld_trust = ''untrusted-source''\<rparr>))))))"

definition parse_documents :: "lab_env \<Rightarrow> (string \<times> string) list \<Rightarrow> lab_document list checked" where
  \<comment> \<open>the names and texts of the Markdown files of the documents' directory\<close>
  "parse_documents env files = check_all (parse_document env) (sort_key fst files)"

definition new_document_connector :: "lab_env \<Rightarrow> string \<Rightarrow> (string \<times> string) list \<Rightarrow> document_connector checked" where
  "new_document_connector env digest files =
     ck_bind (new_connector digest (lab_profile ''whitegoods.documents'' [DM_Document] [Discover, Describe, Query] ''credential_reference'')
       [(''technical_documents'', [lab_field ''document_id'' ''string'' False, lab_field ''product'' ''string'' False,
          lab_field ''content'' ''string'' False, lab_field ''acl_roles'' ''array'' False, lab_field ''trust'' ''string'' False])]) (\<lambda>c.
     ck_bind (parse_documents env files) (\<lambda>documents.
     Inr \<lparr>lc_profile = lc_profile c, lc_schemas = lc_schemas c, lc_available = True, lc_version = lc_version c,
          dc_documents = documents\<rparr>))"

definition readable :: "string \<Rightarrow> json \<Rightarrow> lab_document \<Rightarrow> bool" where
  \<comment> \<open>what a role may see, of one product if the request names one\<close>
  "readable role product d \<longleftrightarrow> role \<in> set (ld_acl_roles d) \<and> (product = JNull \<or> product = JStr (ld_product d))"

definition requested_role :: "lab_env \<Rightarrow> (string, json) dict \<Rightarrow> string" where
  "requested_role env d = py_str (le_repr env) (or_default d ''role'' (JStr []))"

definition document_row :: "lab_document \<Rightarrow> json" where
  "document_row d = JObj
     [(''document_id'', JStr (ld_document_id d)), (''product'', JStr (ld_product d)), (''title'', JStr (ld_title d)),
      (''content'', JStr (ld_content d)), (''acl_roles'', JArr (map JStr (sorted_set (ld_acl_roles d)))),
      (''content_hash'', JStr (ld_content_hash d)), (''trust'', JStr (ld_trust d))]"

definition document_batch :: "lab_env \<Rightarrow> document_connector \<Rightarrow> query_request \<Rightarrow> data_batch checked" where
  "document_batch env c q =
     (let visible = py_slice (filter (readable (requested_role env (qr_plan q)) (member (qr_plan q) ''product'')) (dc_documents c)) 0 (qr_limit q)
      in ck_bind (lineage_or_empty c ''technical_documents'' (map (\<lambda>d. Some (ld_document_id d)) visible)) (\<lambda>lineage.
         rows_batch c BK_Document (map document_row visible) lineage))"

definition document_execute :: "lab_env \<Rightarrow> document_connector \<Rightarrow> query_request \<Rightarrow> data_batch list \<times> lab_error option" where
  "document_execute env c q = generator c (Inr (run_generator (\<lambda>_. lab_raised (document_batch env c q)) [()]))"

section \<open>Search\<close>

definition token_char :: "char \<Rightarrow> bool" where
  "token_char c \<longleftrightarrow> 97 \<le> (of_char c :: nat) \<and> (of_char c :: nat) \<le> 122 \<or> 48 \<le> (of_char c :: nat) \<and> (of_char c :: nat) \<le> 57"

fun find_tokens :: "string \<Rightarrow> string \<Rightarrow> string list" where
  \<comment> \<open>the runs of token characters; the first argument is the run read so far\<close>
  "find_tokens run [] = (if run = [] then [] else [run])"
| "find_tokens run (c # s) =
     (if token_char c then find_tokens (run @ [c]) s
      else (if run = [] then [] else [run]) @ find_tokens [] s)"

definition tokens :: "string \<Rightarrow> string list" where
  \<comment> \<open>a set, as a list without repetitions\<close>
  "tokens s = remdups (find_tokens [] (str_lower s))"

definition synonyms :: "(string, string list) dict" where
  "synonyms =
     [(''drainage'', [''drain'', ''pump'']), (''motor'', [''pump'']), (''e21'', [''drain'', ''pump'', ''filter'', ''hose'']),
      (''e05'', [''temperature'', ''sensor'', ''airflow'']), (''repeat'', [''revision'', ''lot'', ''visits''])]"

definition expand :: "string list \<Rightarrow> string list" where
  "expand ts = remdups (ts @ concat (map (\<lambda>t. case dict_get synonyms t of None \<Rightarrow> [] | Some us \<Rightarrow> us) ts))"

definition overlap :: "lab_env \<Rightarrow> string list \<Rightarrow> string list \<Rightarrow> rat" where
  \<comment> \<open>\<open>len(a & b) / max(1, len(a))\<close>\<close>
  "overlap env a b = le_round env (of_nat (length (filter (\<lambda>t. t \<in> set b) a)) / of_nat (max 1 (length a)))"

definition document_score :: "lab_env \<Rightarrow> string \<Rightarrow> lab_document \<Rightarrow> rat" where
  "document_score env query d =
     (let q = tokens query; words = tokens (ld_title d @ '' '' @ ld_content d)
      in le_round env (le_round env (le_round env (6 / 10) * overlap env q words)
          + le_round env (le_round env (4 / 10) * overlap env (expand q) words)))"

record search_connector = lab_connector +
  xc_documents :: "lab_document list"

definition new_search_connector :: "string \<Rightarrow> lab_document list \<Rightarrow> search_connector checked" where
  "new_search_connector digest documents =
     ck_bind (new_connector digest (lab_profile ''whitegoods.search'' [DM_Vector, DM_Document] [Discover, Describe, Search] ''credential_reference'')
       [(''technical_document_index'', [lab_field ''document_id'' ''string'' False, lab_field ''content'' ''text'' False,
          lab_field ''acl_roles'' ''array'' False])]) (\<lambda>c.
     Inr \<lparr>lc_profile = lc_profile c, lc_schemas = lc_schemas c, lc_available = True, lc_version = lc_version c,
          xc_documents = documents\<rparr>)"

definition ranked_documents :: "lab_env \<Rightarrow> search_connector \<Rightarrow> search_request \<Rightarrow> (rat \<times> lab_document) list" where
  \<comment> \<open>sorted by falling score, then by document: a stable sort by the document first\<close>
  "ranked_documents env c q =
     (let candidates = filter (readable (requested_role env (sr_filters q)) (member (sr_filters q) ''product'')) (xc_documents c);
          scored = filter (\<lambda>(score, d). 0 < score) (map (\<lambda>d. (document_score env (sr_query q) d, d)) candidates)
      in sort_key (\<lambda>(score, d). - score) (sort_key (\<lambda>(score, d). ld_document_id d) scored))"

definition lab_hit :: "lab_env \<Rightarrow> search_connector \<Rightarrow> string \<Rightarrow> rat \<times> lab_document \<Rightarrow> search_hit checked" where
  "lab_hit env c role r = (case r of (score, d) \<Rightarrow>
     ck_bind (mk_lineage_ref \<lparr>lin_source_id = ''whitegoods.documents'', lin_asset_id = ''technical_documents'',
         lin_record_id = Some (ld_document_id d), lin_field_path = None\<rparr>) (\<lambda>l.
     mk_search_hit \<lparr>sh_source_id = connector_id c, sh_asset_id = ''technical_document_index'', sh_record_id = ld_document_id d,
       sh_fusion_score = JFloat (le_float_repr env score), sh_source_version = lc_version c, sh_lineage = [l],
       sh_lexical_score = JFloat (le_float_repr env score), sh_dense_score = JFloat (le_float_repr env score),
       sh_sparse_score = JNull, sh_reranker_score = JNull, sh_acl_decision_id = Some (''lab-role:'' @ role)\<rparr>))"

definition lab_search :: "lab_env \<Rightarrow> search_connector \<Rightarrow> search_request \<Rightarrow> (lab_error + search_hit list)" where
  "lab_search env c q = ck_bind (require_available c) (\<lambda>_.
     lab_raised (check_all (lab_hit env c (requested_role env (sr_filters q)))
       (py_slice (ranked_documents env c q) 0 (sr_top_k q))))"

section \<open>Events\<close>

text \<open>
  An event is the JSON object of a line of the log with the members the connector reads: an integer sequence, the text of
  its identity and of the time it was observed, and whether it names a serial number. A line without them is refused
  when the log is read here, and by the first operation that meets it in the code.
\<close>

record lab_event =
  ev_sequence :: int
  ev_event_id :: string
  ev_observed_at :: string
  ev_has_serial :: bool
  ev_document :: "(string, json) dict"

record event_connector = lab_connector +
  vc_raw_events :: "lab_event list"

definition read_event :: "(string \<Rightarrow> string) \<Rightarrow> string \<Rightarrow> lab_event checked" where
  "read_event fl line =
     (case json_loads fl line of
        Inr (JObj d) \<Rightarrow> (case (member d ''sequence'', member d ''event_id'', member d ''observed_at'') of
            (JInt n, JStr i, JStr t) \<Rightarrow> Inr \<lparr>ev_sequence = n, ev_event_id = i, ev_observed_at = t,
               ev_has_serial = json_truthy (member d ''serial_number''), ev_document = d\<rparr>
          | _ \<Rightarrow> Inl (KeyError ''event''))
      | _ \<Rightarrow> Inl (ValueError ''event''))"

definition read_events :: "(string \<Rightarrow> string) \<Rightarrow> string \<Rightarrow> lab_event list checked" where
  "read_events fl log_text = check_all (read_event fl) (filter (\<lambda>line. str_strip line \<noteq> []) (str_splitlines log_text))"

definition event_profile :: connector_profile where
  "event_profile = (lab_profile ''whitegoods.telemetry'' [DM_Event] [Discover, Describe, Query, Subscribe, Cdc] ''credential_reference'')
     \<lparr>pf_consistency := default_consistency\<lparr>cp_change_delivery := Some ''at-least-once-with-deduplication-key'',
        cp_supports_checkpoint := True, cp_supports_cdc := True\<rparr>\<rparr>"

definition new_event_connector :: "(string \<Rightarrow> string) \<Rightarrow> string \<Rightarrow> string \<Rightarrow> event_connector checked" where
  "new_event_connector fl digest log_text =
     ck_bind (new_connector digest event_profile
       [(''telemetry_events'', [lab_field ''sequence'' ''integer'' False, lab_field ''event_id'' ''string'' False,
          lab_field ''event_time'' ''timestamp'' False, lab_field ''observed_at'' ''timestamp'' False,
          lab_field ''serial_number'' ''string'' True, lab_field ''event_type'' ''string'' False])]) (\<lambda>c.
     ck_bind (read_events fl log_text) (\<lambda>events.
     Inr \<lparr>lc_profile = lc_profile c, lc_schemas = lc_schemas c, lc_available = True, lc_version = lc_version c,
          vc_raw_events = events\<rparr>))"

fun first_events :: "string list \<Rightarrow> lab_event list \<Rightarrow> lab_event list" where
  \<comment> \<open>the first argument holds the identities seen\<close>
  "first_events seen [] = []"
| "first_events seen (e # es) =
     (if ev_event_id e \<in> set seen \<or> \<not> ev_has_serial e then first_events seen es
      else e # first_events (ev_event_id e # seen) es)"

definition logical_events :: "event_connector \<Rightarrow> lab_event list" where
  "logical_events c = first_events [] (sort_key ev_sequence (vc_raw_events c))"

definition event_batch :: "event_connector \<Rightarrow> query_request \<Rightarrow> data_batch checked" where
  "event_batch c q =
     (let events = py_slice (logical_events c) 0 (qr_limit q)
      in ck_bind (check_all (\<lambda>e. row_lineage c ''telemetry_events'' (Some (ev_event_id e))) events) (\<lambda>lineage.
         rows_batch c BK_Event (map (\<lambda>e. JObj (ev_document e)) events) lineage))"

definition event_execute :: "event_connector \<Rightarrow> query_request \<Rightarrow> data_batch list \<times> lab_error option" where
  "event_execute c q = generator c (Inr (run_generator (\<lambda>_. lab_raised (event_batch c q)) [()]))"

definition checkpoint_position :: "string option \<Rightarrow> int checked" where
  \<comment> \<open>\<open>int(checkpoint or 0)\<close>\<close>
  "checkpoint_position checkpoint =
     (case checkpoint of
        None \<Rightarrow> Inr 0
      | Some t \<Rightarrow> if t = [] then Inr 0
          else (case py_int t of None \<Rightarrow> Inl (ValueError ''invalid literal for int() with base 10'') | Some n \<Rightarrow> Inr n))"

definition change_of :: "lab_env \<Rightarrow> event_connector \<Rightarrow> lab_event \<Rightarrow> change_event checked" where
  "change_of env c e = ck_bind (le_fromisoformat env (replace_z (ev_observed_at e))) (\<lambda>t.
     mk_change_event \<lparr>ce_event_id = ev_event_id e, ce_source_id = connector_id c, ce_asset_id = ''telemetry_events'',
       ce_operation = ''upsert'', ce_observed_at = t, ce_payload = ev_document e, ce_checkpoint = Some (show_int (ev_sequence e)),
       ce_tombstone = False\<rparr>)"

definition subscribe :: "lab_env \<Rightarrow> event_connector \<Rightarrow> string option \<Rightarrow> change_event list \<times> lab_error option" where
  "subscribe env c checkpoint = generator c
     (ck_bind (lab_raised (checkpoint_position checkpoint)) (\<lambda>position.
      Inr (run_generator (\<lambda>e. lab_raised (change_of env c e)) (filter (\<lambda>e. position < ev_sequence e) (logical_events c)))))"

definition event_checkpoint :: "event_connector \<Rightarrow> string \<Rightarrow> (lab_error + string)" where
  "event_checkpoint c stream_id =
     (if stream_id \<noteq> ''telemetry_events'' then Inl (Lab_Raised (KeyError stream_id))
      else if vc_raw_events c = [] then Inl (Lab_Raised (ValueError ''max() arg is an empty sequence''))
      else Inr (show_int (Max (set (map ev_sequence (vc_raw_events c))))))"

section \<open>The service API\<close>

text \<open>An appointment is its JSON object with the two identities the connector reads.\<close>

record appointment =
  ap_appointment_id :: string
  ap_service_order_id :: string
  ap_document :: "(string, json) dict"

record api_connector = lab_connector +
  ac_appointments :: "appointment list"

definition new_api_connector :: "string \<Rightarrow> appointment list \<Rightarrow> api_connector checked" where
  "new_api_connector digest appointments =
     ck_bind (new_connector digest (lab_profile ''whitegoods.service-api'' [DM_Tabular] [Discover, Describe, Query] ''oauth2_credential_reference'')
       [(''appointments'', [lab_field ''appointment_id'' ''string'' False, lab_field ''service_order_id'' ''string'' False,
          lab_field ''technician_id'' ''string'' False, lab_field ''scheduled_at'' ''timestamp'' False,
          lab_field ''status'' ''string'' False])]) (\<lambda>c.
     Inr \<lparr>lc_profile = lc_profile c, lc_schemas = lc_schemas c, lc_available = True, lc_version = lc_version c,
          ac_appointments = appointments\<rparr>)"

definition appointment_rows :: "api_connector \<Rightarrow> query_request \<Rightarrow> appointment list" where
  "appointment_rows c q =
     (let wanted = member (qr_plan q) ''service_order_id''
      in py_slice (filter (\<lambda>a. wanted = JNull \<or> wanted = JStr (ap_service_order_id a)) (ac_appointments c)) 0 (qr_limit q))"

definition page_starts :: "int \<Rightarrow> int \<Rightarrow> int \<Rightarrow> int list" where
  \<comment> \<open>\<open>range(start, stop, step)\<close> for a positive step\<close>
  "page_starts start stop step = map (\<lambda>i. start + step * int i) [0..<nat ((stop - start + step - 1) div step)]"

definition appointment_batch :: "api_connector \<Rightarrow> appointment list \<Rightarrow> data_batch checked" where
  "appointment_batch c page =
     ck_bind (check_all (\<lambda>a. row_lineage c ''appointments'' (Some (ap_appointment_id a))) page) (\<lambda>lineage.
     rows_batch c BK_Arrow (map (\<lambda>a. JObj (ap_document a)) page) lineage)"

definition empty_page :: "api_connector \<Rightarrow> data_batch checked" where
  "empty_page c = ck_bind (row_lineage c ''appointments'' (Some ''empty-result'')) (\<lambda>l. rows_batch c BK_Arrow [] [l])"

definition api_execute :: "lab_env \<Rightarrow> api_connector \<Rightarrow> query_request \<Rightarrow> data_batch list \<times> lab_error option" where
  "api_execute env c q = generator c (lab_raised
     (let rows = appointment_rows c q
      in ck_bind (le_int env (or_default (qr_plan q) ''page_size'' (JInt 2))) (\<lambda>wanted.
         let page_size = min wanted (qr_limit q)
         in if page_size \<le> 0 then Inl (ValueError ''page_size must be positive'')
         else ck_bind (le_int env (or_default (qr_plan q) ''cursor'' (JInt 0))) (\<lambda>cursor.
           Inr (case run_generator (\<lambda>i. lab_raised (appointment_batch c (py_slice rows i (i + page_size))))
                       (page_starts cursor (int (length rows)) page_size) of
                  (bs, Some e) \<Rightarrow> (bs, Some e)
                | (bs, None) \<Rightarrow> if rows = [] then apfst (append bs) (run_generator (\<lambda>_. lab_raised (empty_page c)) [()]) else (bs, None))))))"

section \<open>What a query of the tables yields\<close>

definition projection_of :: "json list \<Rightarrow> row \<Rightarrow> row \<Rightarrow> bool" where
  "projection_of select row out \<longleftrightarrow>
     (if select = [] then out = row
      else \<forall>k. dict_get out k = (if JStr k \<in> set select then dict_get row k else None))"

lemma project_keys:
  "check_all (\<lambda>k. ck_bind (row_get row k) (\<lambda>v. Inr (k, v))) ks = Inr kvs \<Longrightarrow>
     dict_get (fold (\<lambda>(k, v). dict_set k v) kvs d) k = (if k \<in> set ks then dict_get row k else dict_get d k)"
proof (induction ks arbitrary: kvs d)
  case (Cons j ks)
  then obtain v rest where v: "dict_get row j = Some v" and rest: "kvs = (j, v) # rest"
    and ih: "check_all (\<lambda>k. ck_bind (row_get row k) (\<lambda>v. Inr (k, v))) ks = Inr rest"
    by (auto simp: row_get_def split: sum.splits option.splits)
  show ?case using Cons.IH [OF ih, of "dict_set j v d"] v rest by auto
qed simp

lemma project_projection:
  assumes "project select row = Inr out" and "set select \<subseteq> range JStr"
  shows "projection_of select row out"
proof (cases "select = []")
  case False
  with assms(1) obtain kvs where kvs: "check_all (\<lambda>k. ck_bind (row_get row k) (\<lambda>v. Inr (k, v))) (map select_name select) = Inr kvs"
    and out: "out = fold (\<lambda>(k, v). dict_set k v) kvs []"
    by (auto simp: project_def ck_bind_Inr)
  have "k \<in> set (map select_name select) \<longleftrightarrow> JStr k \<in> set select" for k
    using assms(2) by (force simp: select_name_def image_iff subset_iff)
  with project_keys [OF kvs, of "[]"] False out show ?thesis by (simp add: projection_of_def)
qed (use assms in \<open>simp add: project_def projection_of_def\<close>)

lemma known_fields_Inr: "known_fields allowed wh select = Inr u \<Longrightarrow> set select \<subseteq> JStr ` set allowed \<and> set (dict_keys wh) \<subseteq> set allowed"
  by (auto simp: known_fields_def list_ex_iff split: if_splits)

definition answers_query :: "lab_env \<Rightarrow> table_connector \<Rightarrow> query_request \<Rightarrow> string \<Rightarrow> row list \<Rightarrow> row list \<Rightarrow> bool" where
  \<comment> \<open>rows of the table that satisfy the filter, no more than the limit, restricted to the selected names\<close>
  "answers_query env c q a matched payload \<longleftrightarrow>
     (\<exists>rows select. dict_get (tc_rows c) a = Some rows \<and> asset_select q a = Inr select \<and> is_object (asset_where q a)
        \<and> matched = py_slice (filter (row_matches env (object_of (asset_where q a))) rows) 0 (qr_limit q)
        \<and> list_all2 (projection_of select) matched payload)"

lemma table_batch_Inr:
  assumes "table_batch env c q a = Inr b"
  obtains matched payload where "answers_query env c q a matched payload" "db_payload b = P_Json (JArr (map JObj payload))"
proof -
  from assms obtain rows schema key where found: "dict_get (tc_rows c) a = Some rows" "dict_get (lc_schemas c) a = Some schema"
      "dict_get primary_keys a = Some key"
    by (auto simp: table_batch_def split: option.splits)
  define matched where "matched = py_slice (filter (row_matches env (object_of (asset_where q a))) rows) 0 (qr_limit q)"
  from assms found obtain select payload lineage where *: "asset_select q a = Inr select" "is_object (asset_where q a)"
      "known_fields (map fs_name schema) (object_of (asset_where q a)) select = Inr ()"
    and all: "check_all (project select) matched = Inr payload" and b: "rows_batch c BK_Arrow (map JObj payload) lineage = Inr b"
    unfolding table_batch_def by (auto simp: Let_def ck_bind_Inr matched_def [symmetric] guard_Inr)
  have "set select \<subseteq> range JStr" using known_fields_Inr [OF *(3)] by auto
  with all have "list_all2 (projection_of select) matched payload"
    by (auto simp: check_all_Inr intro: project_projection elim!: list_all2_mono)
  with * found rows_batch_payload [OF b] that show thesis by (auto simp: answers_query_def matched_def)
qed

lemma table_execute_answers:
  assumes "b \<in> set (fst (table_execute env c q))"
  shows "\<exists>a \<in> set (qr_asset_ids q). \<exists>matched payload. answers_query env c q a matched payload
    \<and> db_payload b = P_Json (JArr (map JObj payload))"
proof -
  have "b \<in> set (fst (run_generator (\<lambda>a. lab_raised (table_batch env c q a)) (qr_asset_ids q)))"
    using generator_yields [OF assms [unfolded table_execute_def]] by (auto split: if_splits)
  from run_generator_yields [OF this] obtain a where "a \<in> set (qr_asset_ids q)" "table_batch env c q a = Inr b" by auto
  then show ?thesis by (metis table_batch_Inr)
qed

lemma answers_query_rows:
  assumes "answers_query env c q a matched payload"
  shows "\<exists>rows. dict_get (tc_rows c) a = Some rows \<and> set matched \<subseteq> set rows"
    and "row \<in> set matched \<Longrightarrow> row_matches env (object_of (asset_where q a)) row"
    and "0 < qr_limit q \<Longrightarrow> int (length matched) \<le> qr_limit q"
proof -
  obtain rows where m: "matched = py_slice (filter (row_matches env (object_of (asset_where q a))) rows) 0 (qr_limit q)"
    and "dict_get (tc_rows c) a = Some rows" using assms by (auto simp: answers_query_def)
  note sub = set_py_slice [of "filter (row_matches env (object_of (asset_where q a))) rows" 0 "qr_limit q", folded m]
  then show "\<exists>rows. dict_get (tc_rows c) a = Some rows \<and> set matched \<subseteq> set rows"
    using \<open>dict_get (tc_rows c) a = Some rows\<close> by auto
  show "row \<in> set matched \<Longrightarrow> row_matches env (object_of (asset_where q a)) row" using sub by auto
  show "0 < qr_limit q \<Longrightarrow> int (length matched) \<le> qr_limit q" by (simp add: m py_slice_prefix)
qed

section \<open>Who reads a document\<close>

lemma document_execute_rows:
  assumes "b \<in> set (fst (document_execute env c q))"
  shows "\<exists>visible. db_payload b = P_Json (JArr (map document_row visible)) \<and> set visible \<subseteq> set (dc_documents c)
    \<and> (\<forall>d \<in> set visible. readable (requested_role env (qr_plan q)) (member (qr_plan q) ''product'') d)"
proof -
  have "document_batch env c q = Inr b"
    using generator_yields [OF assms [unfolded document_execute_def]]
    by (auto split: sum.splits)
  then obtain visible where v: "visible = py_slice (filter (readable (requested_role env (qr_plan q)) (member (qr_plan q) ''product'')) (dc_documents c)) 0 (qr_limit q)"
    and "db_payload b = P_Json (JArr (map document_row visible))"
    by (auto simp: document_batch_def Let_def ck_bind_Inr dest!: rows_batch_payload)
  with set_py_slice [of "filter (readable (requested_role env (qr_plan q)) (member (qr_plan q) ''product'')) (dc_documents c)" 0 "qr_limit q"]
  show ?thesis by auto
qed

section \<open>A search returns the best readable documents\<close>

definition better :: "rat \<times> lab_document \<Rightarrow> rat \<times> lab_document \<Rightarrow> bool" where
  "better r r' \<longleftrightarrow> fst r' < fst r \<or> fst r = fst r' \<and> ld_document_id (snd r) \<le> ld_document_id (snd r')"

definition candidate :: "lab_env \<Rightarrow> search_connector \<Rightarrow> search_request \<Rightarrow> rat \<times> lab_document \<Rightarrow> bool" where
  "candidate env c q r \<longleftrightarrow> snd r \<in> set (xc_documents c) \<and> fst r = document_score env (sr_query q) (snd r) \<and> 0 < fst r
     \<and> readable (requested_role env (sr_filters q)) (member (sr_filters q) ''product'') (snd r)"

lemma ranked_documents_set: "r \<in> set (ranked_documents env c q) \<longleftrightarrow> candidate env c q r"
  by (cases r) (auto simp: ranked_documents_def candidate_def Let_def)

lemma ranked_documents_sorted: "sorted_wrt better (ranked_documents env c q)"
  unfolding ranked_documents_def Let_def
  by (rule sorted_wrt_mono_rel [OF _ sorted_by_two_keys]) (auto simp: better_def)

lemma lab_search_Inr:
  assumes "lab_search env c q = Inr hits" and "0 < sr_top_k q"
  shows "\<exists>found. found = take (nat (sr_top_k q)) (ranked_documents env c q)
    \<and> list_all2 (\<lambda>r h. lab_hit env c (requested_role env (sr_filters q)) r = Inr h) found hits"
  using assms by (auto simp: lab_search_def ck_bind_Inr check_all_Inr py_slice_prefix)

lemma take_best:
  assumes "sorted_wrt R xs" and "y \<in> set xs" and "y \<notin> set (take n xs)"
  shows "length (take n xs) = n" and "x \<in> set (take n xs) \<Longrightarrow> R x y"
proof -
  have "n < length xs" using assms(2,3) by (metis not_le take_all)
  then show "length (take n xs) = n" by simp
  have "y \<in> set (drop n xs)" using assms(2,3) by (metis Un_iff append_take_drop_id set_append)
  then show "x \<in> set (take n xs) \<Longrightarrow> R x y"
    using assms(1) sorted_wrt_append [of R "take n xs" "drop n xs"] by simp
qed

lemma lab_hit_of:
  "lab_hit env c role (score, d) = Inr h \<Longrightarrow> sh_source_id h = connector_id c \<and> sh_record_id h = ld_document_id d
     \<and> sh_acl_decision_id h = Some (''lab-role:'' @ role) \<and> sh_fusion_score h = JFloat (le_float_repr env score)"
  by (auto simp: lab_hit_def ck_bind_Inr mk_search_hit_def split: if_splits)

section \<open>The event log\<close>

lemma first_events_subset: "e \<in> set (first_events seen es) \<Longrightarrow> e \<in> set es \<and> ev_has_serial e \<and> ev_event_id e \<notin> set seen"
  by (induction seen es rule: first_events.induct) (auto split: if_splits)

lemma first_events_distinct: "distinct (map ev_event_id (first_events seen es))"
  by (induction es arbitrary: seen) (auto dest: first_events_subset)

lemma first_events_sorted: "sorted_wrt R es \<Longrightarrow> sorted_wrt R (first_events seen es)"
  by (induction es arbitrary: seen) (auto dest: first_events_subset)

lemma first_events_first:
  "sorted (map ev_sequence es) \<Longrightarrow> e \<in> set es \<Longrightarrow> ev_has_serial e \<Longrightarrow> ev_event_id e \<notin> set seen \<Longrightarrow>
     \<exists>f \<in> set (first_events seen es). ev_event_id f = ev_event_id e \<and> ev_sequence f \<le> ev_sequence e"
proof (induction es arbitrary: seen)
  case (Cons x es)
  show ?case
  proof (cases "ev_event_id x \<in> set seen \<or> \<not> ev_has_serial x")
    case True
    with Cons show ?thesis by auto
  next
    case new: False
    show ?thesis
    proof (cases "ev_event_id e = ev_event_id x")
      case True
      with new Cons.prems(1,2) show ?thesis by auto
    next
      case False
      with new Cons.prems Cons.IH [of "ev_event_id x # seen"] show ?thesis by auto
    qed
  qed
qed simp

lemma logical_events_sorted: "sorted_wrt (\<lambda>e f. ev_sequence e \<le> ev_sequence f) (logical_events c)"
  unfolding logical_events_def by (rule first_events_sorted) (metis sorted_map sorted_sort_key)

lemma subscribe_complete:
  assumes "subscribe env c checkpoint = (changes, None)"
  obtains position where "lc_available c" "checkpoint_position checkpoint = Inr position"
    "check_all (change_of env c) (filter (\<lambda>e. position < ev_sequence e) (logical_events c)) = Inr changes"
proof -
  from assms obtain position where "lc_available c" "checkpoint_position checkpoint = Inr position"
    and "run_generator (\<lambda>e. lab_raised (change_of env c e)) (filter (\<lambda>e. position < ev_sequence e) (logical_events c)) = (changes, None)"
    by (auto simp: subscribe_def generator_def require_available_def ck_bind_Inr split: sum.splits if_splits)
  with run_generator_complete [OF this(3)] that show thesis
    by (simp add: check_all_Inr)
qed

lemma subscribe_Inr:
  assumes "lc_available c" and "checkpoint_position checkpoint = Inr position"
    and "check_all (change_of env c) (filter (\<lambda>e. position < ev_sequence e) (logical_events c)) = Inr changes"
  shows "subscribe env c checkpoint = (changes, None)"
proof -
  have "check_all (\<lambda>e. lab_raised (change_of env c e)) (filter (\<lambda>e. position < ev_sequence e) (logical_events c)) = Inr changes"
    using assms(3) by (simp add: check_all_Inr)
  from run_generator_check_all [OF this] assms(1,2) show ?thesis
    by (simp add: subscribe_def generator_def require_available_def lab_raised_def)
qed

section \<open>Pages\<close>

lemma pages_prefix:
  assumes "0 \<le> start" and "0 < step"
  shows "concat (map (\<lambda>i. py_slice xs (start + step * int i) (start + step * int i + step)) [0..<n])
    = take (n * nat step) (drop (nat start) xs)"
proof (induction n)
  case (Suc n)
  have "nat (start + step * int n) = nat start + n * nat step"
    using assms by (simp add: nat_add_distrib nat_mult_distrib algebra_simps)
  then have "py_slice xs (start + step * int n) (start + step * int n + step) = take (nat step) (drop (n * nat step) (drop (nat start) xs))"
    using assms by (subst py_slice_nonneg) (simp_all add: add.commute)
  with Suc take_add [of "n * nat step" "nat step" "drop (nat start) xs"] show ?case by (simp add: add.commute)
qed simp

lemma pages_cover:
  assumes "0 \<le> start" and "0 < step"
  shows "concat (map (\<lambda>i. py_slice xs i (i + step)) (page_starts start (int (length xs)) step)) = drop (nat start) xs"
proof -
  define n where "n = nat ((int (length xs) - start + step - 1) div step)"
  have "int (length xs) - start \<le> int n * step"
  proof -
    have "int (length xs) - start \<le> ((int (length xs) - start + step - 1) div step) * step"
      using assms(2) by (smt (verit) minus_div_mult_eq_mod pos_mod_bound)
    also have "\<dots> \<le> int n * step" unfolding n_def using assms(2) by (intro mult_right_mono) auto
    finally show ?thesis .
  qed
  moreover have "int (n * nat step) = int n * step" using assms(2) by simp
  ultimately have "length (drop (nat start) xs) \<le> n * nat step"
    using assms(1) by (cases "nat start \<le> length xs") (simp_all add: of_nat_diff zle_int [symmetric] del: of_nat_mult)
  with pages_prefix [OF assms, of xs n] show ?thesis
    by (simp add: page_starts_def n_def comp_def)
qed

lemma appointment_batch_payload:
  "appointment_batch c page = Inr b \<Longrightarrow> db_payload b = P_Json (JArr (map (\<lambda>a. JObj (ap_document a)) page))"
  by (auto simp: appointment_batch_def ck_bind_Inr dest!: rows_batch_payload)

text \<open>
  A paged read of the appointments that ends without an exception covers, page by page, the appointments of the order
  from the cursor on, within the limit: nothing is skipped and nothing is read twice.
\<close>

lemma appointment_pages_cover:
  assumes run: "api_execute env c q = (bs, None)" and rows: "appointment_rows c q \<noteq> []"
    and cursor: "le_int env (or_default (qr_plan q) ''cursor'' (JInt 0)) = Inr cursor" "0 \<le> cursor"
  shows "\<exists>pages. list_all2 (\<lambda>page b. db_payload b = P_Json (JArr (map (\<lambda>a. JObj (ap_document a)) page))) pages bs
    \<and> concat pages = drop (nat cursor) (appointment_rows c q)"
proof -
  let ?rows = "appointment_rows c q"
  from run rows cursor obtain wanted where size: "0 < min wanted (qr_limit q)"
    and gen: "run_generator (\<lambda>i. lab_raised (appointment_batch c (py_slice ?rows i (i + min wanted (qr_limit q)))))
        (page_starts cursor (int (length ?rows)) (min wanted (qr_limit q))) = (bs, None)"
    by (auto simp: api_execute_def generator_def require_available_def Let_def ck_bind_Inr not_le
        split: sum.splits if_splits prod.splits option.splits)
  from run_generator_complete [OF gen]
  have "list_all2 (\<lambda>i b. appointment_batch c (py_slice ?rows i (i + min wanted (qr_limit q))) = Inr b)
      (page_starts cursor (int (length ?rows)) (min wanted (qr_limit q))) bs" by (simp add: check_all_Inr)
  then have "list_all2 (\<lambda>page b. db_payload b = P_Json (JArr (map (\<lambda>a. JObj (ap_document a)) page)))
      (map (\<lambda>i. py_slice ?rows i (i + min wanted (qr_limit q))) (page_starts cursor (int (length ?rows)) (min wanted (qr_limit q)))) bs"
    by (auto simp: list_all2_map1 dest!: appointment_batch_payload elim!: list_all2_mono)
  with pages_cover [OF cursor(2) size, of ?rows] show ?thesis by blast
qed

section \<open>Resuming a subscription\<close>

lemma int_digits_read:
  "list_all Freshness_Slo.is_digit xs \<Longrightarrow> xs \<noteq> [] \<or> seen \<Longrightarrow>
     int_digits acc seen xs = Some (foldl (\<lambda>n c. 10 * n + digit_value c) acc xs)"
  by (induction xs arbitrary: acc seen) (simp_all add: digit_value_def)

lemma digit_not_space: "Freshness_Slo.is_digit c \<Longrightarrow> \<not> is_space c \<and> c \<noteq> CHR ''-'' \<and> c \<noteq> CHR ''+''"
  by (auto simp: is_space_def Freshness_Slo.is_digit_def)

lemma strip_unspaced: "list_all (\<lambda>c. \<not> is_space c) s \<Longrightarrow> str_strip s = s"
proof -
  have id: "dropWhile is_space s = s" if "list_all (\<lambda>c. \<not> is_space c) s" for s using that by (cases s) simp_all
  assume "list_all (\<lambda>c. \<not> is_space c) s"
  then show ?thesis using id [of s] id [of "rev s"] by (simp add: str_strip_def)
qed

lemma show_nat_is_digits: "list_all Freshness_Slo.is_digit (show_nat n)"
proof -
  have "Freshness_Slo.is_digit c" if "c \<in> set ''0123456789''" for c
    using that by (auto simp: Freshness_Slo.is_digit_def)
  with show_nat_chars [of n] show ?thesis by (auto simp: list_all_iff simp del: set_simps)
qed

lemma py_int_show: "0 \<le> i \<Longrightarrow> py_int (show_int i) = Some i"
proof -
  assume "0 \<le> i"
  define t where "t = show_nat (nat i)"
  have digits: "list_all Freshness_Slo.is_digit t" by (simp add: t_def show_nat_is_digits)
  then have "str_strip t = t" by (auto intro!: strip_unspaced simp: list_all_iff digit_not_space)
  moreover obtain c cs where "t = c # cs" using show_nat_nonempty t_def by (metis list.exhaust)
  moreover have "int_digits 0 False t = Some (nat i)"
    using int_digits_read [OF digits] read_show_nat [of "nat i"] by (simp add: t_def read_nat_def)
  ultimately show ?thesis
    using \<open>0 \<le> i\<close> digits digit_not_space [of c] by (auto simp: py_int_def show_int_def t_def [symmetric])
qed

text \<open>
  A consumer that stops after any change of a complete subscription and subscribes again with that change's checkpoint
  gets exactly the changes it had not seen, in the same order, if no two logical events share a sequence number.
\<close>

lemma subscription_resumes:
  assumes run: "subscribe env c None = (earlier @ e # later, None)" and token: "ce_checkpoint e = Some t"
    and distinct: "distinct (map ev_sequence (logical_events c))"
  shows "subscribe env c (Some t) = (later, None)"
proof -
  let ?after = "\<lambda>p. filter (\<lambda>x. p < ev_sequence x) (logical_events c)"
  from subscribe_complete [OF run] have avail: "lc_available c" and all: "check_all (change_of env c) (?after 0) = Inr (earlier @ e # later)"
    by (auto simp: checkpoint_position_def)
  from all obtain xs x ys where split: "?after 0 = xs @ x # ys" and x: "change_of env c x = Inr e"
    and ys: "check_all (change_of env c) ys = Inr later"
    by (auto simp: check_all_Inr list_all2_append2 list_all2_Cons2)
  have t: "t = show_int (ev_sequence x)"
    using x token by (auto simp: change_of_def mk_change_event_def ck_bind_Inr split: if_splits)
  have "x \<in> set (?after 0)" by (simp add: split)
  then have pos: "0 < ev_sequence x" by simp
  have "sorted_wrt (\<lambda>a b. ev_sequence a < ev_sequence b) (logical_events c)"
    using logical_events_sorted [of c] distinct strict_sorted_iff [of "map ev_sequence (logical_events c)"]
    by (simp add: sorted_wrt_map)
  then have "sorted_wrt (\<lambda>a b. ev_sequence a < ev_sequence b) (xs @ x # ys)" unfolding split [symmetric] by (rule sorted_wrt_filter)
  then have "filter (\<lambda>y. ev_sequence x < ev_sequence y) (xs @ x # ys) = ys"
    by (force simp: sorted_wrt_append filter_empty_conv filter_id_conv)
  moreover have "?after (ev_sequence x) = filter (\<lambda>y. ev_sequence x < ev_sequence y) (?after 0)"
    using pos by (auto intro!: filter_cong)
  ultimately have "?after (ev_sequence x) = ys" unfolding split by simp
  with ys avail pos show ?thesis
    by (intro subscribe_Inr [where position = "ev_sequence x"]) (auto simp: checkpoint_position_def t py_int_show)
qed

end
