(* ===== verification/White_Goods_Lab.thy ===== *)
theory White_Goods_Lab
  imports White_Goods_Sources Cross_Source Assertion_Graph
begin

text \<open>
  The white-goods reference lab put together (reference_labs/white_goods/lab.py): its policy, the five connectors behind
  one gateway, the semantic graph, and the two analyses that run through the gateway. The theorems are about the
  composition: what an agent can read through the gateway, given the policy and what the connectors do with a plan.
\<close>

declare map_of_eq_Some_iff [simp del] Some_eq_map_of_iff [simp del]

section \<open>The policy\<close>

record lab_grant =
  lg_role :: string
  lg_customers :: "string list"

definition lab_roles :: "(string, lab_grant) dict" where
  "lab_roles =
     [(''agent-service-c001'', \<lparr>lg_role = ''service'', lg_customers = [''C001'']\<rparr>),
      (''agent-service-c002'', \<lparr>lg_role = ''service'', lg_customers = [''C002'']\<rparr>),
      (''agent-quality'', \<lparr>lg_role = ''quality'', lg_customers = []\<rparr>)]"

definition planned_customer :: "authorization_request \<Rightarrow> json" where
  "planned_customer r = (case param r ''where'' (JObj []) of JObj d \<Rightarrow> member d ''customer_id'' | _ \<Rightarrow> JNull)"

definition scope_differs :: "(string \<Rightarrow> rat option) \<Rightarrow> json \<Rightarrow> json \<Rightarrow> bool" where
  "scope_differs fl a b \<longleftrightarrow> \<not> py_eq fl a b \<and> (a \<noteq> JNull \<or> b \<noteq> JNull)"

definition refuse_if :: "bool \<Rightarrow> string \<Rightarrow> bool \<times> string \<Rightarrow> bool \<times> string" where
  \<comment> \<open>\<open>if allowed and test: allowed, reason = False, code\<close>\<close>
  "refuse_if test code verdict = (if fst verdict \<and> test then (False, code) else verdict)"

definition lab_decision :: "authorization_request \<Rightarrow> bool \<times> string \<Rightarrow> policy_decision" where
  "lab_decision r verdict =
     (let reason = (if \<not> fst verdict \<and> snd verdict = ''allowlisted'' then ''unknown_agent'' else snd verdict)
      in \<lparr>pd_allowed = fst verdict, pd_decision_id = ''whitegoods:'' @ id_request_id (ar_identity r) @ '':'' @ reason,
          pd_reason_code = reason\<rparr>)"

definition white_goods_policy :: "(string \<Rightarrow> rat option) \<Rightarrow> authorization_request \<Rightarrow> policy_decision checked" where
  "white_goods_policy fl r =
     (let found = dict_get lab_roles (id_agent_id (ar_identity r));
          role = member (ar_attributes r) ''role'';
          customer = member (ar_attributes r) ''customer_id'';
          v1 = refuse_if (ar_capability r \<notin> {Discover, Query, Search}) ''capability_not_allowed'' (found \<noteq> None, ''allowlisted'');
          v2 = refuse_if (scope_differs fl role (member (ar_parameters r) ''role'')) ''scope_attribute_mismatch'' v1;
          v3 = refuse_if (role \<noteq> JNull \<and> (case found of None \<Rightarrow> False | Some g \<Rightarrow> role \<noteq> JStr (lg_role g))) ''role_mismatch'' v2;
          v4 = refuse_if (scope_differs fl customer (planned_customer r)) ''scope_attribute_mismatch'' v3
      in if fst v4 \<and> customer \<noteq> JNull \<and> \<not> json_scalar customer then Inl (TypeError ''unhashable type'')
         else Inr (lab_decision r (refuse_if (customer \<noteq> JNull \<and> (case found of None \<Rightarrow> False
             | Some g \<Rightarrow> customer \<notin> JStr ` set (lg_customers g))) ''customer_scope_denied'' v4)))"

lemma scope_agrees [simp]:
  "scope_differs fl JNull b \<longleftrightarrow> b \<noteq> JNull" "scope_differs fl (JStr s) b \<longleftrightarrow> b \<noteq> JStr s"
  by (auto simp: scope_differs_def)

text \<open>
  The policy allows a request exactly when the agent is listed, the capability is one of the three, the role it declares is
  the one it plans with and its own, or neither is given, and the customer it declares is the one it filters by and one of
  its own, or neither is given.
\<close>

lemma lab_policy_allows_iff:
  "(\<exists>d. white_goods_policy fl r = Inr d \<and> pd_allowed d) \<longleftrightarrow>
     (\<exists>g. dict_get lab_roles (id_agent_id (ar_identity r)) = Some g
        \<and> ar_capability r \<in> {Discover, Query, Search}
        \<and> member (ar_attributes r) ''role'' = member (ar_parameters r) ''role''
        \<and> member (ar_attributes r) ''role'' \<in> {JNull, JStr (lg_role g)}
        \<and> member (ar_attributes r) ''customer_id'' = planned_customer r
        \<and> planned_customer r \<in> insert JNull (JStr ` set (lg_customers g)))"
proof (cases "dict_get lab_roles (id_agent_id (ar_identity r))")
  case None
  then show ?thesis by (simp add: white_goods_policy_def refuse_if_def lab_decision_def Let_def)
next
  case (Some g)
  define role customer where "role = member (ar_attributes r) ''role''" and "customer = member (ar_attributes r) ''customer_id''"
  have "(\<exists>d. white_goods_policy fl r = Inr d \<and> pd_allowed d) \<longleftrightarrow>
      ar_capability r \<in> {Discover, Query, Search} \<and> \<not> scope_differs fl role (member (ar_parameters r) ''role'')
      \<and> role \<in> {JNull, JStr (lg_role g)} \<and> \<not> scope_differs fl customer (planned_customer r)
      \<and> customer \<in> insert JNull (JStr ` set (lg_customers g))"
    unfolding white_goods_policy_def role_def [symmetric] customer_def [symmetric]
    by (auto simp: refuse_if_def lab_decision_def Let_def Some json_scalar_def)
  also have "\<dots> \<longleftrightarrow> ar_capability r \<in> {Discover, Query, Search} \<and> role = member (ar_parameters r) ''role''
      \<and> role \<in> {JNull, JStr (lg_role g)} \<and> customer = planned_customer r
      \<and> planned_customer r \<in> insert JNull (JStr ` set (lg_customers g))"
    by auto
  finally show ?thesis using Some by (auto simp: role_def customer_def)
qed

section \<open>The lab\<close>

record white_goods_lab =
  wl_erp :: table_connector
  wl_documents :: document_connector
  wl_events :: event_connector
  wl_service_api :: api_connector
  wl_search :: search_connector
  wl_registry :: registry
  wl_telemetry :: "telemetry_event list"
  wl_decoders :: decoders

record lab_files =
  lf_digest :: string
  lf_read :: "string \<Rightarrow> string"
  lf_documents :: "(string \<times> string) list"
  lf_events :: string
  lf_appointments :: "appointment list"
  lf_float :: "string \<Rightarrow> string"

definition markdown_decoder :: decoder where
  "markdown_decoder = \<lparr>dec_decoder_id = ''whitegoods.markdown/v1'', dec_supported_formats = [PF_Text]\<rparr>"

definition markdown_decode :: "(string \<Rightarrow> string option) \<Rightarrow> decode_request \<Rightarrow> decode_result checked" where
  "markdown_decode utf8 q =
     (if dq_media_type q \<notin> {''text/markdown'', ''text/plain''} then Inl (ValueError ''unsupported media type: '')
      else case utf8 (dq_payload q) of
        None \<Rightarrow> Inl (ValueError ''invalid UTF-8'')
      | Some content \<Rightarrow>
          ck_bind (mk_data_batch \<lparr>db_kind = BK_Document, db_payload = content_payload content (dq_media_type q),
             db_source_versions = [dq_source_version q], db_lineage = dq_lineage q, db_row_count = Some 1,
             db_byte_count = Some (int (length (dq_payload q)))\<rparr>)
          (\<lambda>b. mk_decode_result \<lparr>dr_batches = [b], dr_trust = Untrusted_Source, dr_warnings = []\<rparr>))"

definition lab_register :: "connector_profile \<Rightarrow> registry \<Rightarrow> (lab_error + registry)" where
  "lab_register p r = (case register p r of
     Inl (Reg_Py e) \<Rightarrow> Inl (Lab_Raised e) | Inl (Unsupported_Capability i cap) \<Rightarrow> Inl (Lab_Unsupported i cap) | Inr r' \<Rightarrow> Inr r')"

definition new_lab :: "lab_env \<Rightarrow> lab_files \<Rightarrow> (lab_error + white_goods_lab)" where
  "new_lab env files =
     ck_bind (new_table_connector (lf_digest files) (lf_read files)) (\<lambda>erp.
     ck_bind (lab_raised (new_document_connector env (lf_digest files) (lf_documents files))) (\<lambda>documents.
     ck_bind (lab_raised (new_search_connector (lf_digest files) (dc_documents documents))) (\<lambda>search.
     ck_bind (lab_raised (new_event_connector (lf_float files) (lf_digest files) (lf_events files))) (\<lambda>events.
     ck_bind (lab_raised (new_api_connector (lf_digest files) (lf_appointments files))) (\<lambda>api.
     ck_bind (lab_register (lc_profile erp) empty_registry) (\<lambda>r1.
     ck_bind (lab_register (lc_profile documents) r1) (\<lambda>r2.
     ck_bind (lab_register (lc_profile events) r2) (\<lambda>r3.
     ck_bind (lab_register (lc_profile api) r3) (\<lambda>r4.
     ck_bind (lab_register (lc_profile search) r4) (\<lambda>r5.
     ck_bind (lab_raised (register_decoder markdown_decoder [])) (\<lambda>ds.
     Inr \<lparr>wl_erp = erp, wl_documents = documents, wl_events = events, wl_service_api = api, wl_search = search,
          wl_registry = r5, wl_telemetry = [], wl_decoders = ds\<rparr>)))))))))))"

definition reset_lab :: "lab_files \<Rightarrow> white_goods_lab \<Rightarrow> (lab_error + white_goods_lab)" where
  "reset_lab files l = ck_bind (reset_tables (lf_read files) (wl_erp l)) (\<lambda>erp.
     Inr (l\<lparr>wl_erp := erp\<lparr>lc_available := True\<rparr>, wl_documents := wl_documents l\<lparr>lc_available := True\<rparr>,
            wl_events := wl_events l\<lparr>lc_available := True\<rparr>, wl_service_api := wl_service_api l\<lparr>lc_available := True\<rparr>,
            wl_search := wl_search l\<lparr>lc_available := True\<rparr>, wl_telemetry := []\<rparr>))"

definition lab_identity :: "string \<Rightarrow> string \<Rightarrow> request_identity" where
  "lab_identity agent request = \<lparr>id_organization_id = ''whitegoods-lab'', id_solution_id = ''service-quality'', id_agent_id = agent,
     id_request_id = request, id_trace_id = ''trace:'' @ request, id_policy_digest = ''sha256:whitegoods-policy-v1''\<rparr>"

section \<open>The lab behind the gateway\<close>

definition lab_exception :: "lab_error \<Rightarrow> ext_error" where
  "lab_exception e =
     (case e of Lab_Unavailable _ \<Rightarrow> Ext_Exception ''LabSourceUnavailable''
      | Lab_Unsupported _ _ \<Rightarrow> Ext_Exception ''UnsupportedCapability''
      | Lab_Csv_Error \<Rightarrow> Ext_Exception ''Error''
      | Lab_Raised (ValueError _) \<Rightarrow> Ext_Exception ''ValueError''
      | Lab_Raised (KeyError _) \<Rightarrow> Ext_Exception ''KeyError''
      | Lab_Raised (TypeError _) \<Rightarrow> Ext_Exception ''TypeError''
      | Lab_Raised (PermissionError _) \<Rightarrow> Ext_Exception ''PermissionError''
      | Lab_Raised AssertionError \<Rightarrow> Ext_Exception ''AssertionError'')"

definition lab_outcome :: "(lab_error + 'a) \<Rightarrow> (ext_error + 'a)" where
  "lab_outcome r = (case r of Inl e \<Rightarrow> Inl (lab_exception e) | Inr x \<Rightarrow> Inr x)"

definition lab_stream :: "lab_env \<Rightarrow> white_goods_lab \<Rightarrow> query_request \<Rightarrow> data_batch list \<times> ext_error option" where
  \<comment> \<open>the connector registered under the source; the search connector does not run queries\<close>
  "lab_stream env l q = apsnd (map_option lab_exception)
     (if qr_source_id q = ''whitegoods.erp'' then table_execute env (wl_erp l) q
      else if qr_source_id q = ''whitegoods.documents'' then document_execute env (wl_documents l) q
      else if qr_source_id q = ''whitegoods.telemetry'' then event_execute (wl_events l) q
      else if qr_source_id q = ''whitegoods.service-api'' then api_execute env (wl_service_api l) q
      else ([], Some (Lab_Unsupported (qr_source_id q) Query)))"

definition lab_hits :: "lab_env \<Rightarrow> white_goods_lab \<Rightarrow> search_request \<Rightarrow> (ext_error + search_hit list)" where
  "lab_hits env l q = lab_outcome
     (if sr_source_id q = ''whitegoods.search'' then lab_search env (wl_search l) q
      else Inl (Lab_Unsupported (sr_source_id q) Search))"

definition lab_assets :: "white_goods_lab \<Rightarrow> string \<Rightarrow> (ext_error + asset list)" where
  "lab_assets l source_id = lab_outcome
     (if source_id = ''whitegoods.erp'' then lab_discover (wl_erp l)
      else if source_id = ''whitegoods.documents'' then lab_discover (wl_documents l)
      else if source_id = ''whitegoods.telemetry'' then lab_discover (wl_events l)
      else if source_id = ''whitegoods.service-api'' then lab_discover (wl_service_api l)
      else if source_id = ''whitegoods.search'' then lab_discover (wl_search l)
      else Inl (Lab_Raised (KeyError source_id)))"

definition lab_gateway :: "lab_env \<Rightarrow> (string \<Rightarrow> rat option) \<Rightarrow> (nat \<Rightarrow> int) \<Rightarrow> (datetime \<Rightarrow> string) \<Rightarrow> white_goods_lab \<Rightarrow> harness_env" where
  \<comment> \<open>\<open>HarnessGateway(self.registry, WhiteGoodsPolicy(), self.telemetry)\<close>: the in-memory sink never fails\<close>
  "lab_gateway env fl clock isoformat l = \<lparr>he_registry = wl_registry l,
     he_policy = (\<lambda>r. lab_outcome (lab_raised (white_goods_policy fl r))), he_sink = (\<lambda>n e. None), he_clock = clock,
     he_isoformat = isoformat, he_discover = lab_assets l, he_stream = lab_stream env l, he_search = lab_hits env l\<rparr>"

lemma lab_outcome_Inr [simp]: "lab_outcome r = Inr x \<longleftrightarrow> r = Inr x"
  by (simp add: lab_outcome_def split: sum.splits)

lemma lab_grants:
  "grants (lab_gateway env fl clock isoformat l) r \<longleftrightarrow> (\<exists>d. white_goods_policy fl r = Inr d \<and> pd_allowed d)"
  by (simp add: grants_def lab_gateway_def)

lemma row_matches_member:
  assumes "row_matches env wh row" and "member wh k = JStr t"
  shows "py_str (le_repr env) (member row k) = t"
proof -
  have "(k, JStr t) \<in> set wh" using assms(2) by (auto simp: member_def dest: map_of_SomeD split: option.splits)
  with assms(1) have "py_str (le_repr env) (member row k) = py_str (le_repr env) (JStr t)"
    by (auto simp: row_matches_def list_all_iff)
  then show ?thesis by (simp add: py_str_def)
qed

section \<open>What an agent can read\<close>


definition granted_role :: "request_identity \<Rightarrow> lab_document \<Rightarrow> bool" where
  "granted_role identity d \<longleftrightarrow> (\<exists>g. dict_get lab_roles (id_agent_id identity) = Some g \<and> lg_role g \<in> set (ld_acl_roles d))"

definition roles_named :: "lab_document list \<Rightarrow> bool" where
  \<comment> \<open>no access list names the texts that stand for a missing role\<close>
  "roles_named ds \<longleftrightarrow> (\<forall>d \<in> set ds. [] \<notin> set (ld_acl_roles d) \<and> ''None'' \<notin> set (ld_acl_roles d))"

lemma readable_granted:
  assumes allowed: "\<exists>d. white_goods_policy fl r = Inr d \<and> pd_allowed d" and d: "readable (requested_role env (ar_parameters r)) product d"
    and named: "[] \<notin> set (ld_acl_roles d)" "''None'' \<notin> set (ld_acl_roles d)"
  shows "granted_role (ar_identity r) d"
proof -
  from allowed obtain g where g: "dict_get lab_roles (id_agent_id (ar_identity r)) = Some g"
    and role: "member (ar_parameters r) ''role'' \<in> {JNull, JStr (lg_role g)}"
    unfolding lab_policy_allows_iff by auto
  have "requested_role env (ar_parameters r) \<in> {[], ''None'', lg_role g}"
    using role by (auto simp: requested_role_def or_default_def member_def py_str_def split: option.splits)
  with d named g show ?thesis by (auto simp: readable_def granted_role_def)
qed

text \<open>
  Documents reach an agent through the gateway, by a query or by a search, only if their access list names the role the
  agent is granted: every row a query of the documents yields is such a document of the lab.
\<close>

lemma document_rows_need_role:
  assumes run: "execute_query (lab_gateway env fl clock isoformat l) q identity s = ((yielded, outcome), t)" and b: "b \<in> set yielded"
    and source: "qr_source_id q = ''whitegoods.documents''" and named: "roles_named (dc_documents (wl_documents l))"
  shows "\<exists>visible. db_payload b = P_Json (JArr (map document_row visible)) \<and> set visible \<subseteq> set (dc_documents (wl_documents l))
    \<and> (\<forall>d \<in> set visible. granted_role identity d)"
proof -
  from execute_query_stream [OF run b] have allowed: "\<exists>d. white_goods_policy fl (query_authorization q identity) = Inr d \<and> pd_allowed d"
    and "b \<in> set (fst (document_execute env (wl_documents l) q))"
    by (simp_all add: lab_grants) (simp add: lab_gateway_def lab_stream_def source)
  from document_execute_rows [OF this(2)] obtain visible where v: "db_payload b = P_Json (JArr (map document_row visible))"
      "set visible \<subseteq> set (dc_documents (wl_documents l))"
      "\<forall>d \<in> set visible. readable (requested_role env (qr_plan q)) (member (qr_plan q) ''product'') d" by blast
  have "granted_role identity d" if "d \<in> set visible" for d
    using readable_granted [OF allowed, of env "member (qr_plan q) ''product''" d] v(2,3) named that by (auto simp: roles_named_def)
  with v show ?thesis by blast
qed

text \<open>
  C24. A search for at least one hit, over an index whose access lists name roles, returns through the gateway the best
  documents the agent's role may read: each hit is a document of the index
  whose access list names that role, hits come in falling order of their score (ties by document), and a readable document
  with a positive score that is left out is beaten by every hit of a full result.
\<close>

theorem search_returns_best_readable:
  assumes run: "search_source (lab_gateway env fl clock isoformat l) q identity s = (Inr hits, t)" and top: "0 < sr_top_k q"
    and source: "sr_source_id q = ''whitegoods.search''" and named: "roles_named (xc_documents (wl_search l))"
  shows "\<exists>found. list_all2 (\<lambda>r h. sh_record_id h = ld_document_id (snd r)) found hits
    \<and> sorted_wrt better found \<and> int (length found) \<le> sr_top_k q
    \<and> (\<forall>r \<in> set found. candidate env (wl_search l) q r \<and> granted_role identity (snd r))
    \<and> (\<forall>r. candidate env (wl_search l) q r \<and> r \<notin> set found \<longrightarrow>
          int (length found) = sr_top_k q \<and> (\<forall>f \<in> set found. better f r))"
proof -
  let ?ranked = "ranked_documents env (wl_search l) q"
  let ?found = "take (nat (sr_top_k q)) ?ranked"
  from search_source_found [OF run] have allowed: "\<exists>d. white_goods_policy fl (search_authorization q identity) = Inr d \<and> pd_allowed d"
    and found: "lab_search env (wl_search l) q = Inr hits"
    by (simp_all add: lab_grants) (simp add: lab_gateway_def lab_hits_def source)
  from lab_search_Inr [OF found top] have "list_all2 (\<lambda>r h. sh_record_id h = ld_document_id (snd r)) ?found hits"
    by (auto elim!: list_all2_mono dest: lab_hit_of)
  moreover have "sorted_wrt better ?found" using ranked_documents_sorted by (rule sorted_wrt_take)
  moreover have "\<forall>r \<in> set ?found. candidate env (wl_search l) q r \<and> granted_role identity (snd r)"
  proof
    fix r assume "r \<in> set ?found"
    then have c: "candidate env (wl_search l) q r" by (meson in_set_takeD ranked_documents_set)
    with readable_granted [OF allowed, of env "member (sr_filters q) ''product''" "snd r"] named
    show "candidate env (wl_search l) q r \<and> granted_role identity (snd r)"
      by (auto simp: candidate_def roles_named_def search_authorization_def)
  qed
  moreover have "\<forall>r. candidate env (wl_search l) q r \<and> r \<notin> set ?found \<longrightarrow>
      int (length ?found) = sr_top_k q \<and> (\<forall>f \<in> set ?found. better f r)"
    using take_best [OF ranked_documents_sorted] top by (auto simp: ranked_documents_set)
  ultimately show ?thesis using top by (intro exI [of _ ?found]) auto
qed

section \<open>The semantic graph of the lab\<close>

definition lab_assertion :: "string \<Rightarrow> string \<Rightarrow> assertion_predicate \<Rightarrow> rat \<Rightarrow> semantic_assertion" where
  "lab_assertion assertion_id subject predicate confidence = \<lparr>sa_assertion_id = assertion_id, sa_subject_id = subject,
     sa_predicate = predicate, sa_object_id = ''part:drain-pump'', sa_confidence = confidence, sa_asserted_at = fixed_time,
     sa_valid_from = fixed_time, sa_valid_to = None, sa_policy_digest = ''sha256:whitegoods-policy-v1'',
     sa_lineage = [\<lparr>lin_source_id = ''whitegoods.documents'', lin_asset_id = ''technical_documents'',
       lin_record_id = Some ''DOC-WM-E21'', lin_field_path = None\<rparr>]\<rparr>"

definition append_checked :: "int \<Rightarrow> semantic_assertion \<Rightarrow> assertion_graph \<Rightarrow> (graph_error + assertion_graph)" where
  "append_checked now a g = (case mk_semantic_assertion a of Inl e \<Rightarrow> Inl (Gr_Py e) | Inr a \<Rightarrow> append_assertion now a g)"

definition semantic_graph :: "int \<Rightarrow> (graph_error + assertion_graph)" where
  \<comment> \<open>\<open>now\<close> is the wall clock the graph reads; the confidence 0.95 is the rational it is closest to\<close>
  "semantic_graph now =
     ck_bind (append_checked now (lab_assertion ''wg-a1'' ''term:drainage-motor'' Same_As 1) empty_graph)
       (append_checked now (lab_assertion ''wg-a2'' ''error:E21'' Mentions (95 / 100)))"

section \<open>The model with the most repeat visits\<close>

definition py_gateway :: "'a checked \<Rightarrow> (gateway_error + 'a)" where
  "py_gateway r = (case r of Inl e \<Rightarrow> Inl (Gw_Py e) | Inr x \<Rightarrow> Inr x)"

definition batch_rows_of :: "data_batch \<Rightarrow> json list checked" where
  \<comment> \<open>iterating over \<open>batch.payload\<close>\<close>
  "batch_rows_of b = (case db_payload b of P_Json v \<Rightarrow> json_elements v | _ \<Rightarrow> Inl (TypeError ''payload''))"

definition first_rows :: "data_batch list \<Rightarrow> json list checked" where
  \<comment> \<open>\<open>batches[0].payload\<close>; one asset gives one batch\<close>
  "first_rows bs = (case bs of [] \<Rightarrow> Inl (KeyError ''list index out of range'') | b # _ \<Rightarrow> batch_rows_of b)"

definition visit_of :: "lab_env \<Rightarrow> json \<Rightarrow> (json \<times> int) checked" where
  "visit_of env row =
     ck_bind (json_index row ''serial_number'') (\<lambda>serial.
     ck_bind (json_index row ''visit_number'') (\<lambda>v.
     ck_bind (le_int env v) (\<lambda>n. Inr (serial, n))))"

definition or_zero :: "int option \<Rightarrow> int" where
  "or_zero v = (case v of None \<Rightarrow> 0 | Some n \<Rightarrow> n)"

definition latest_visits :: "(json \<times> int) list \<Rightarrow> (json, int) dict" where
  "latest_visits vs = fold (\<lambda>(serial, n) d. dict_set serial (max (or_zero (dict_get d serial)) n) d) vs []"

definition index_rows :: "string \<Rightarrow> string \<Rightarrow> row list \<Rightarrow> (json, json) dict checked" where
  \<comment> \<open>\<open>{row[k]: row[v] for row in rows}\<close>\<close>
  "index_rows k v rows = ck_bind (check_all (\<lambda>row. ck_bind (row_get row k) (\<lambda>x. ck_bind (row_get row v) (\<lambda>y. Inr (x, y)))) rows)
     (\<lambda>kvs. Inr (fold (\<lambda>(x, y). dict_set x y) kvs []))"

definition json_get :: "(json, json) dict \<Rightarrow> json \<Rightarrow> json checked" where
  "json_get d k = (case dict_get d k of None \<Rightarrow> Inl (KeyError ''key'') | Some v \<Rightarrow> Inr v)"

definition count_models :: "json list \<Rightarrow> (json, int) dict" where
  "count_models models = fold (\<lambda>m d. dict_set m (or_zero (dict_get d m) + 1) d) models []"

definition first_max :: "(json, int) dict \<Rightarrow> json checked" where
  \<comment> \<open>\<open>max(counts, key=counts.get)\<close>: the first key of the largest value\<close>
  "first_max d =
     (case filter (\<lambda>e. snd e = Max (snd ` set d)) d of
        [] \<Rightarrow> Inl (ValueError ''max() arg is an empty sequence'') | e # _ \<Rightarrow> Inr (fst e))"

definition most_repeats :: "(json \<Rightarrow> json checked) \<Rightarrow> json list \<Rightarrow> json checked" where
  \<comment> \<open>the serials in the order the set \<open>repeat_serials\<close> is iterated in\<close>
  "most_repeats model serials = ck_bind (check_all model serials) (\<lambda>models. first_max (count_models models))"

definition repeat_model :: "lab_env \<Rightarrow> (json list \<Rightarrow> json list) \<Rightarrow> white_goods_lab \<Rightarrow> data_batch list \<Rightarrow> json checked" where
  \<comment> \<open>\<open>order\<close>: how a set of these serials is iterated\<close>
  "repeat_model env order l batches =
     ck_bind (first_rows batches) (\<lambda>rows.
     ck_bind (check_all (visit_of env) rows) (\<lambda>visits.
     ck_bind (index_rows ''serial_number'' ''product_id'' (concat (map snd (filter (\<lambda>e. fst e = ''installed_products'') (tc_rows (wl_erp l)))))) (\<lambda>installed.
     ck_bind (index_rows ''product_id'' ''model_code'' (concat (map snd (filter (\<lambda>e. fst e = ''products'') (tc_rows (wl_erp l)))))) (\<lambda>products.
     most_repeats (\<lambda>serial. ck_bind (json_get installed serial) (json_get products))
       (order (map fst (filter (\<lambda>e. 1 < snd e) (latest_visits visits))))))))"

definition repeat_request :: query_request where
  "repeat_request = \<lparr>qr_source_id = ''whitegoods.erp'', qr_asset_ids = [''service_orders''], qr_plan = [], qr_limit = 100,
     qr_deadline_ms = 1000, qr_purpose = ''aggregate repeat service analysis'', qr_policy_attributes = []\<rparr>"

definition repeat_visit_model :: "lab_env \<Rightarrow> (json list \<Rightarrow> json list) \<Rightarrow> harness_env \<Rightarrow> white_goods_lab \<Rightarrow> harness_state
    \<Rightarrow> (gateway_error + json) \<times> harness_state" where
  "repeat_visit_model env order h l s =
     (case execute_query h repeat_request (lab_identity ''agent-quality'' ''repeat-visits'') s of
        ((_, Some e), t) \<Rightarrow> (Inl e, t)
      | ((batches, None), t) \<Rightarrow> (py_gateway (repeat_model env order l batches), t))"

lemma count_models_get: "dict_get (count_models models) m = (if m \<in> set models then Some (int (count_list models m)) else None)"
proof -
  have "dict_get (fold (\<lambda>m d. dict_set m (or_zero (dict_get d m) + 1) d) models d) m
      = (if m \<in> set models then Some (or_zero (dict_get d m) + int (count_list models m)) else dict_get d m)" for d
    by (induction models arbitrary: d) (auto simp: or_zero_def count_notin)
  then show ?thesis by (simp add: count_models_def or_zero_def)
qed

lemma count_models_wf: "dict_wf (count_models models)"
proof -
  have "dict_wf d \<Longrightarrow> dict_wf (fold (\<lambda>m d. dict_set m (or_zero (dict_get d m) + 1) d) models d)" for d
    by (induction models arbitrary: d) simp_all
  then show ?thesis by (simp add: count_models_def)
qed

lemma first_max_Inr:
  assumes "first_max d = Inr k" and "dict_wf d"
  shows "\<exists>n. dict_get d k = Some n \<and> (\<forall>j m. dict_get d j = Some m \<longrightarrow> m \<le> n)"
proof -
  obtain e es where f: "filter (\<lambda>e. snd e = Max (snd ` set d)) d = e # es" and k: "k = fst e"
    using assms(1) by (auto simp: first_max_def split: list.splits)
  then have "e \<in> set d \<and> snd e = Max (snd ` set d)" by (metis (mono_tags) filter_eq_Cons_iff in_set_conv_decomp)
  then have "(k, Max (snd ` set d)) \<in> set d" using k by (metis prod.collapse)
  then have "dict_get d k = Some (Max (snd ` set d))" using assms(2) by (simp add: dict_get_Some_in)
  moreover have "m \<le> Max (snd ` set d)" if "dict_get d j = Some m" for j m
    using that by (intro Max_ge) (auto dest!: map_of_SomeD intro: rev_image_eqI)
  ultimately show ?thesis by blast
qed

lemma first_max_total: "d \<noteq> [] \<Longrightarrow> \<exists>k. first_max d = Inr k"
proof -
  assume "d \<noteq> []"
  then have "Max (snd ` set d) \<in> snd ` set d" by (intro Max_in) simp_all
  then obtain e where "e \<in> set d" and "snd e = Max (snd ` set d)" by (metis imageE)
  then have "e \<in> set (filter (\<lambda>e. snd e = Max (snd ` set d)) d)" by simp
  then have "filter (\<lambda>e. snd e = Max (snd ` set d)) d \<noteq> []" by (metis empty_iff list.set(1))
  then show ?thesis by (auto simp: first_max_def split: list.split)
qed

text \<open>
  The model with the most repeat visits does not depend on the order a set of serials is iterated in, as long as no other
  model has as many.
\<close>

lemma most_repeats_order_free:
  assumes run: "most_repeats model xs = Inr k" and perm: "mset xs = mset ys"
    and models: "check_all model xs = Inr ms"
    and unique: "\<And>j. j \<noteq> k \<Longrightarrow> count_list ms j < count_list ms k"
  shows "most_repeats model ys = Inr k"
proof -
  define mo where "mo = (\<lambda>x. case model x of Inl _ \<Rightarrow> JNull | Inr m \<Rightarrow> m)"
  have ms: "ms = map mo xs" using models by (auto simp: check_all_Inr mo_def list_all2_conv_all_nth intro!: nth_equalityI)
  have "check_all model ys = Inr (map mo ys)"
  proof -
    have "model x = Inr (mo x)" if "x \<in> set ys" for x
      using that perm mset_eq_setD [OF perm] check_all_left [OF models, of x] by (auto simp: mo_def)
    then show ?thesis by (auto simp: check_all_Inr list_all2_conv_all_nth)
  qed
  moreover have same: "count_list (map mo ys) j = count_list ms j" for j
    using perm by (metis ms mset_map count_mset)
  moreover have "map mo ys \<noteq> []"
    using run models perm ms by (auto simp: most_repeats_def first_max_def count_models_def)
  then have "count_models (map mo ys) \<noteq> []"
    using count_models_get [of "map mo ys" "mo (hd ys)"] by (cases ys) auto
  then obtain j where j: "first_max (count_models (map mo ys)) = Inr j" using first_max_total by blast
  from first_max_Inr [OF j count_models_wf] obtain n where n: "dict_get (count_models (map mo ys)) j = Some n"
    and best: "dict_get (count_models (map mo ys)) i = Some m \<Longrightarrow> m \<le> n" for i m by blast
  have "j = k"
  proof (rule ccontr)
    assume "j \<noteq> k"
    then have less: "count_list ms j < count_list ms k" by (rule unique)
    then have "count_list (map mo ys) k \<noteq> 0" by (simp only: same)
    then have "dict_get (count_models (map mo ys)) k = Some (int (count_list ms k))"
      by (metis count_models_get count_notin same)
    with best [of k] n less show False by (auto simp: count_models_get same split: if_splits)
  qed
  ultimately show ?thesis using j by (simp add: most_repeats_def)
qed

section \<open>The cross-source brief\<close>

definition e21_service_request :: query_request where
  "e21_service_request = \<lparr>qr_source_id = ''whitegoods.erp'', qr_asset_ids = [''service_orders''],
     qr_plan = [(''where'', JObj [(''error_code'', JStr ''E21'')])], qr_limit = 20, qr_deadline_ms = 1000,
     qr_purpose = ''E21 quality and service analysis'', qr_policy_attributes = []\<rparr>"

definition e21_event_request :: query_request where
  "e21_event_request = \<lparr>qr_source_id = ''whitegoods.telemetry'', qr_asset_ids = [''telemetry_events''], qr_plan = [],
     qr_limit = 100, qr_deadline_ms = 1000, qr_purpose = ''E21 telemetry correlation'', qr_policy_attributes = []\<rparr>"

definition e21_search_request :: "int \<Rightarrow> search_request" where
  \<comment> \<open>the deadline is the default of \<open>SearchRequest\<close>\<close>
  "e21_search_request deadline = \<lparr>sr_source_id = ''whitegoods.search'', sr_query = ''repeat E21 drain pump filter hose quality lot'',
     sr_top_k = 3, sr_filters = [(''role'', JStr ''quality'')], sr_purpose = ''E21 guided diagnosis'',
     sr_policy_attributes = [(''role'', JStr ''quality'')], sr_deadline_ms = deadline\<rparr>"

definition e21_appointment_request :: query_request where
  "e21_appointment_request = \<lparr>qr_source_id = ''whitegoods.service-api'', qr_asset_ids = [''appointments''],
     qr_plan = [(''service_order_id'', JStr ''SO1002''), (''page_size'', JInt 2)], qr_limit = 10, qr_deadline_ms = 1000,
     qr_purpose = ''E21 appointment evidence'', qr_policy_attributes = []\<rparr>"

definition e21_plan :: "int \<Rightarrow> execution_plan" where
  "e21_plan deadline = \<lparr>ep_request_id = ''e21-cross-source'', ep_generated_at = fixed_time,
     ep_query_steps = [\<lparr>qs_step_id = ''service'', qs_request = e21_service_request\<rparr>,
       \<lparr>qs_step_id = ''telemetry'', qs_request = e21_event_request\<rparr>,
       \<lparr>qs_step_id = ''appointments'', qs_request = e21_appointment_request\<rparr>],
     ep_search_steps = [\<lparr>ss_step_id = ''guidance'', ss_request = e21_search_request deadline,
       ss_asset_ids = [''technical_document_index'']\<rparr>]\<rparr>"

record e21_brief =
  eb_service_order_ids :: "json list"
  eb_telemetry_event_ids :: "json list"
  eb_document_ids :: "string list"
  eb_appointment_ids :: "json list"
  eb_lineage_count :: nat

definition is_e21 :: "json \<Rightarrow> bool" where
  \<comment> \<open>\<open>event.get("error_code") == "E21"\<close> for an event, which is an object\<close>
  "is_e21 v = (case v of JObj d \<Rightarrow> member d ''error_code'' = JStr ''E21'' | _ \<Rightarrow> False)"

definition column :: "string \<Rightarrow> json list \<Rightarrow> json list checked" where
  "column k rows = check_all (\<lambda>row. json_index row k) rows"

definition all_rows :: "data_batch list \<Rightarrow> json list checked" where
  "all_rows bs = ck_bind (check_all batch_rows_of bs) (\<lambda>rss. Inr (concat rss))"

definition assemble_brief :: "coordination_result \<Rightarrow> e21_brief checked" where
  "assemble_brief r =
     ck_bind (find_step r ''service'') (\<lambda>service.
     ck_bind (find_step r ''telemetry'') (\<lambda>telemetry.
     ck_bind (find_step r ''guidance'') (\<lambda>guidance.
     ck_bind (find_step r ''appointments'') (\<lambda>booked.
     ck_bind (first_rows (st_batches service)) (\<lambda>service_rows.
     ck_bind (first_rows (st_batches telemetry)) (\<lambda>events.
     ck_bind (all_rows (st_batches booked)) (\<lambda>appointments.
     ck_bind (column ''service_order_id'' service_rows) (\<lambda>orders.
     ck_bind (column ''event_id'' (filter is_e21 events)) (\<lambda>event_ids.
     ck_bind (column ''appointment_id'' appointments) (\<lambda>appointment_ids.
     Inr \<lparr>eb_service_order_ids = orders, eb_telemetry_event_ids = event_ids, eb_document_ids = map sh_record_id (st_hits guidance),
          eb_appointment_ids = appointment_ids,
          eb_lineage_count = sum_list (map (\<lambda>b. length (db_lineage b)) (st_batches service @ st_batches telemetry @ st_batches booked))
            + sum_list (map (\<lambda>h. length (sh_lineage h)) (st_hits guidance))\<rparr>))))))))))"

definition e21_cross_source_brief :: "harness_env \<Rightarrow> int \<Rightarrow> harness_state
    \<Rightarrow> (coordination_error + e21_brief \<times> coverage_statement) \<times> harness_state" where
  "e21_cross_source_brief h deadline s =
     (case execute_plan h (e21_plan deadline) (lab_identity ''agent-quality'' ''e21-cross-source'') s of
        (Inl e, t) \<Rightarrow> (Inl e, t)
      | (Inr r, t) \<Rightarrow> (case assemble_brief r of Inl e \<Rightarrow> (Inl (Co_Py e), t) | Inr b \<Rightarrow> (Inr (b, co_coverage r), t)))"

section \<open>A lab of two customers\<close>

definition sample_lab_env :: lab_env where
  "sample_lab_env = \<lparr>le_repr = (\<lambda>v. []), le_int = (\<lambda>v. case v of JInt n \<Rightarrow> Inr n | _ \<Rightarrow> Inl (ValueError ''int'')), le_round = id,
     le_float_repr = (\<lambda>r. if r = 1 then ''1.0'' else ''0.5''), le_fromisoformat = (\<lambda>t. Inr (utc 0)), le_sha256 = (\<lambda>t. ''d'')\<rparr>"

definition sample_lab_version :: "string \<Rightarrow> source_version" where
  "sample_lab_version i = \<lparr>sv_source_id = i, sv_version = ''sha256:d'', sv_observed_at = fixed_time, sv_effective_at = None\<rparr>"

definition sample_order :: "string \<Rightarrow> string \<Rightarrow> row" where
  "sample_order order customer = [(''service_order_id'', JStr order), (''customer_id'', JStr customer)]"

definition sample_erp :: table_connector where
  "sample_erp = \<lparr>lc_profile = table_profile,
     lc_schemas = [(''service_orders'', [lab_field ''service_order_id'' ''string'' True, lab_field ''customer_id'' ''string'' True])],
     lc_available = True, lc_version = sample_lab_version ''whitegoods.erp'',
     tc_rows = [(''service_orders'', [sample_order ''SO1'' ''C001'', sample_order ''SO2'' ''C002''])]\<rparr>"

definition sample_document :: "string \<Rightarrow> string list \<Rightarrow> string \<Rightarrow> lab_document" where
  "sample_document i roles content = \<lparr>ld_document_id = i, ld_product = ''p'', ld_acl_roles = roles, ld_title = ''t'',
     ld_content = content, ld_content_hash = ''h'', ld_trust = ''untrusted-source''\<rparr>"

definition sample_index :: search_connector where
  "sample_index = \<lparr>lc_profile = lab_profile ''whitegoods.search'' [DM_Vector] [Discover, Describe, Search] ''credential_reference'',
     lc_schemas = [], lc_available = True, lc_version = sample_lab_version ''whitegoods.search'',
     xc_documents = [sample_document ''D1'' [''service''] ''pump'', sample_document ''D2'' [''quality''] ''pump'']\<rparr>"

definition sample_lab :: white_goods_lab where
  "sample_lab = \<lparr>wl_erp = sample_erp,
     wl_documents = \<lparr>lc_profile = lab_profile ''whitegoods.documents'' [DM_Document] [Discover, Describe, Query] ''credential_reference'',
       lc_schemas = [], lc_available = True, lc_version = sample_lab_version ''whitegoods.documents'', dc_documents = []\<rparr>,
     wl_events = \<lparr>lc_profile = event_profile, lc_schemas = [], lc_available = True,
       lc_version = sample_lab_version ''whitegoods.telemetry'', vc_raw_events = []\<rparr>,
     wl_service_api = \<lparr>lc_profile = lab_profile ''whitegoods.service-api'' [DM_Tabular] [Discover, Describe, Query] ''oauth2'',
       lc_schemas = [], lc_available = True, lc_version = sample_lab_version ''whitegoods.service-api'', ac_appointments = []\<rparr>,
     wl_search = sample_index,
     wl_registry = [(''whitegoods.erp'', table_profile), (''whitegoods.search'', lc_profile sample_index)], wl_telemetry = [], wl_decoders = []\<rparr>"

abbreviation sample_gateway :: harness_env where
  "sample_gateway \<equiv> lab_gateway sample_lab_env (\<lambda>t. None) (\<lambda>n. 0) (\<lambda>d. ''t'') sample_lab"

definition order_request :: "(string, json) dict \<Rightarrow> query_request" where
  "order_request extra = \<lparr>qr_source_id = ''whitegoods.erp'', qr_asset_ids = [''service_orders''],
     qr_plan = (''where'', JObj [(''customer_id'', JStr ''C001'')]) # extra, qr_limit = 10, qr_deadline_ms = 1000, qr_purpose = ''service'',
     qr_policy_attributes = [(''customer_id'', JStr ''C001'')]\<rparr>"

definition order_batch :: "row list \<Rightarrow> data_batch" where
  "order_batch rows = \<lparr>db_kind = BK_Arrow, db_payload = P_Json (JArr (map JObj rows)),
     db_source_versions = [sample_lab_version ''whitegoods.erp''],
     db_lineage = map (\<lambda>row. \<lparr>lin_source_id = ''whitegoods.erp'', lin_asset_id = ''service_orders'',
        lin_record_id = text_or_none (member row ''service_order_id''), lin_field_path = None\<rparr>) rows,
     db_row_count = Some (int (length rows)), db_byte_count = None\<rparr>"

lemma sample_order_stream:
  "fst (lab_stream sample_lab_env sample_lab (order_request [])) = [order_batch [sample_order ''SO1'' ''C001'']]"
  by code_simp

lemma sample_order_rows:
  "fst (fst (execute_query sample_gateway (order_request []) (lab_identity ''agent-service-c001'' ''r'') gateway_start))
    = [order_batch [sample_order ''SO1'' ''C001'']]"
  by code_simp


text \<open>
  The policy and the connector read different members of a plan: with the canonical scopes of a plan present, the ERP
  connector ignores the \<open>where\<close> the policy has checked, and the agent of the first customer reads the second one's order. An
  agent that declares no customer at all reads every order too.
\<close>

lemma canonical_plan_escapes_customer_scope:
  "fst (fst (execute_query sample_gateway (order_request [(''select_by_asset'', JObj []), (''where_by_asset'', JObj [])])
      (lab_identity ''agent-service-c001'' ''r'') gateway_start))
    = [order_batch [sample_order ''SO1'' ''C001'', sample_order ''SO2'' ''C002'']]"
  by code_simp

lemma undeclared_customer_is_unscoped:
  "fst (fst (execute_query sample_gateway ((order_request [])\<lparr>qr_plan := [], qr_policy_attributes := []\<rparr>)
      (lab_identity ''agent-service-c001'' ''r'') gateway_start))
    = [order_batch [sample_order ''SO1'' ''C001'', sample_order ''SO2'' ''C002'']]"
  by code_simp

definition pump_request :: search_request where
  "pump_request = \<lparr>sr_source_id = ''whitegoods.search'', sr_query = ''Pump?'', sr_top_k = 3, sr_filters = [(''role'', JStr ''service'')],
     sr_purpose = ''diagnosis'', sr_policy_attributes = [(''role'', JStr ''service'')], sr_deadline_ms = 1000\<rparr>"

lemma sample_pump_hits:
  "(case fst (search_source sample_gateway pump_request (lab_identity ''agent-service-c001'' ''r'') gateway_start) of
      Inl e \<Rightarrow> [] | Inr hits \<Rightarrow> map sh_record_id hits) = [''D1'']"
  by code_simp

theorem search_returns_best_readable_witness:
  "\<exists>found. map (\<lambda>r. ld_document_id (snd r)) found = [''D1''] \<and> sorted_wrt better found
    \<and> (\<forall>r \<in> set found. granted_role (lab_identity ''agent-service-c001'' ''r'') (snd r))"
proof -
  obtain r t where run: "search_source sample_gateway pump_request (lab_identity ''agent-service-c001'' ''r'') gateway_start = (r, t)"
    by (metis prod.exhaust)
  with sample_pump_hits obtain hits where r: "r = Inr hits" and hits: "map sh_record_id hits = [''D1'']"
    by (cases r) simp_all
  have named: "roles_named (xc_documents (wl_search sample_lab))"
    by (simp add: roles_named_def sample_lab_def sample_index_def sample_document_def)
  have top: "0 < sr_top_k pump_request" and source: "sr_source_id pump_request = ''whitegoods.search''"
    by (simp_all add: pump_request_def)
  from search_returns_best_readable [OF run [unfolded r] top source named] obtain found where
    f: "list_all2 (\<lambda>r h. sh_record_id h = ld_document_id (snd r)) found hits" "sorted_wrt better found"
      "\<forall>r \<in> set found. granted_role (lab_identity ''agent-service-c001'' ''r'') (snd r)" by blast
  from f(1) have "map (\<lambda>r. ld_document_id (snd r)) found = map sh_record_id hits"
    by (auto simp: list_all2_conv_all_nth intro: nth_equalityI)
  with hits f show ?thesis by (intro exI [of _ found]) simp
qed

definition two_models :: "json \<Rightarrow> json checked" where
  "two_models serial = Inr serial"

lemma repeat_model_tie_follows_the_set:
  "most_repeats two_models [JStr ''A'', JStr ''B''] = Inr (JStr ''A'')
   \<and> most_repeats two_models [JStr ''B'', JStr ''A''] = Inr (JStr ''B'')"
  by code_simp

end
