(* ===== verification/Idempotent_Sources.thy ===== *)
theory Idempotent_Sources
  imports Json_Access Policy_Seam Action_Plans Action_Gateway
begin

text \<open>
  Sources that accept governed mutations: what an action gateway may rely on when it sends the same action again, as the
  locale \<open>idempotent_source\<close>, and the in-memory source of the industry labs with its policy
  (reference_labs/phase4_support.py), which keeps that contract. The requests are those the gateway builds from an action
  plan.
\<close>

declare map_of_eq_Some_iff [simp del] Some_eq_map_of_iff [simp del]

section \<open>The contract\<close>

text \<open>
  \<open>bound s\<close> are the idempotency keys a source has accepted, \<open>effects s\<close> counts the writes it has performed: a mutation
  performs one write exactly when it binds its key, and a success leaves its key bound.
\<close>

locale idempotent_source =
  fixes mutate :: "'req \<Rightarrow> 's \<Rightarrow> ('e + 'res) \<times> 's"
    and key :: "'req \<Rightarrow> 'k"
    and bound :: "'s \<Rightarrow> 'k set"
    and effects :: "'s \<Rightarrow> int"
    and succeeded :: "'res \<Rightarrow> bool"
  assumes finite_bound: "finite (bound s)"
    and bound_mono: "bound s \<subseteq> bound (snd (mutate r s))"
    and one_key: "bound (snd (mutate r s)) - bound s \<subseteq> {key r}"
    and one_effect: "effects (snd (mutate r s)) = effects s + int (card (bound (snd (mutate r s)) - bound s))"
    and success_bound: "fst (mutate r s) = Inr x \<Longrightarrow> succeeded x \<Longrightarrow> key r \<in> bound (snd (mutate r s))"
begin

definition perform_all :: "'req list \<Rightarrow> 's \<Rightarrow> 's" where
  "perform_all rs s = run_ops (\<lambda>r s. snd (mutate r s)) rs s"

lemma perform_all_simps [simp]:
  "perform_all [] s = s" "perform_all (r # rs) s = perform_all rs (snd (mutate r s))"
  by (simp_all add: perform_all_def)

lemma perform_all_mono: "bound s \<subseteq> bound (perform_all rs s)"
proof (induction rs arbitrary: s)
  case (Cons r rs)
  show ?case using bound_mono [of s r] Cons [of "snd (mutate r s)"] by auto
qed simp

lemma perform_all_keys: "bound (perform_all rs s) - bound s \<subseteq> key ` set rs"
proof (induction rs arbitrary: s)
  case (Cons r rs)
  show ?case using one_key [of r s] Cons [of "snd (mutate r s)"] by auto
qed simp

lemma perform_all_effects: "effects (perform_all rs s) = effects s + int (card (bound (perform_all rs s) - bound s))"
proof (induction rs arbitrary: s)
  case (Cons r rs)
  let ?t = "snd (mutate r s)" and ?u = "perform_all rs (snd (mutate r s))"
  have "card (bound ?u - bound s) = card (bound ?u - bound ?t) + card (bound ?t - bound s)"
  proof -
    have "bound ?u - bound s = (bound ?u - bound ?t) \<union> (bound ?t - bound s)"
      using bound_mono [of s r] perform_all_mono [of ?t rs] by auto
    then show ?thesis by (simp add: card_Un_disjoint finite_bound Diff_disjoint Int_commute inf_commute disjoint_iff)
  qed
  with Cons [of ?t] one_effect [of r s] show ?case by simp
qed simp

lemma effects_bounded: "effects (perform_all rs s) \<le> effects s + int (card (key ` set rs))"
  using perform_all_effects [of rs s] card_mono [OF _ perform_all_keys [of rs s]] by simp

lemma retries_have_no_effect:
  assumes "fst (mutate r s) = Inr x" and "succeeded x" and "key ` set rs \<subseteq> {key r}"
  shows "effects (perform_all rs (snd (mutate r s))) = effects (snd (mutate r s))"
proof -
  let ?t = "snd (mutate r s)"
  have "bound (perform_all rs ?t) - bound ?t \<subseteq> {key r}" using perform_all_keys assms(3) by (rule subset_trans)
  moreover have "key r \<in> bound ?t" using assms(1,2) by (rule success_bound)
  ultimately have "bound (perform_all rs ?t) - bound ?t = {}" by auto
  then have "card (bound (perform_all rs ?t) - bound ?t) = 0" by (simp only: card.empty)
  then show ?thesis by (simp add: perform_all_effects [of rs ?t])
qed

end

section \<open>The in-memory source of the labs\<close>

record mutation_source =
  ms_source_id :: string
  ms_asset_id :: string
  ms_value :: string
  ms_version :: int
  ms_mutation_count :: int
  ms_idempotency :: "(string, string \<times> (string, json) dict) dict"

record source_env =
  se_repr :: "json \<Rightarrow> string"
  se_int :: "json \<Rightarrow> int checked"

definition new_mutation_source :: "string \<Rightarrow> string \<Rightarrow> string \<Rightarrow> int \<Rightarrow> mutation_source" where
  "new_mutation_source source_id asset_id initial version = \<lparr>ms_source_id = source_id, ms_asset_id = asset_id,
     ms_value = initial, ms_version = version, ms_mutation_count = 0, ms_idempotency = []\<rparr>"

definition source_profile :: "string \<Rightarrow> connector_profile" where
  "source_profile source_id = \<lparr>pf_connector_id = source_id, pf_version = ''1.0.0'', pf_sdk_api = ''harness.connector/v1'',
     pf_runtime_mode = RM_Process, pf_data_models = [DM_Tabular], pf_capabilities = [Discover, Describe, Mutate],
     pf_auth_methods = [''credential-reference''],
     pf_consistency = default_consistency\<lparr>cp_supports_version_precondition := True, cp_supports_idempotency_key := True\<rparr>,
     pf_limits = default_connector_limits, pf_extension_namespace = None, pf_metadata = []\<rparr>"

definition mutation_answer :: "bool \<Rightarrow> bool \<Rightarrow> int \<Rightarrow> (string, json) dict" where
  "mutation_answer success met version =
     [(''success'', JBool success), (''postconditions_met'', JBool met), (''source_version'', JStr (show_int version))]"

definition req_index :: "(string, json) dict \<Rightarrow> string \<Rightarrow> json checked" where
  "req_index request k = json_index (JObj request) k"

definition precondition_holds :: "source_env \<Rightarrow> mutation_source \<Rightarrow> (string, json) dict \<Rightarrow> bool checked" where
  \<comment> \<open>the asset, then the version, then the value, each only if the one before agrees\<close>
  "precondition_holds env m request =
     ck_bind (req_index request ''preconditions'') (\<lambda>pre.
     ck_bind (req_index request ''asset_id'') (\<lambda>asset.
     if asset \<noteq> JStr (ms_asset_id m) then Inr False
     else ck_bind (json_index pre ''expectedVersion'') (\<lambda>v. ck_bind (se_int env v) (\<lambda>n.
       if n \<noteq> ms_version m then Inr False
       else ck_bind (json_index pre ''expectedValue'') (\<lambda>x. Inr (py_str (se_repr env) x = ms_value m))))))"

definition lab_mutate :: "source_env \<Rightarrow> (string, json) dict \<Rightarrow> mutation_source
    \<Rightarrow> (py_error + (string, json) dict) \<times> mutation_source" where
  \<comment> \<open>a request without an action identity fails after the value is written\<close>
  "lab_mutate env request m =
     (case req_index request ''idempotency_key'' of
        Inl e \<Rightarrow> (Inl e, m)
      | Inr k \<Rightarrow> (case dict_get (ms_idempotency m) (py_str (se_repr env) k) of
          Some (action_id, result) \<Rightarrow>
            (case req_index request ''action_id'' of
               Inl e \<Rightarrow> (Inl e, m)
             | Inr a \<Rightarrow> if a \<noteq> JStr action_id then (Inr (mutation_answer False False (ms_version m)), m)
                 else (Inr (dict_set ''already_applied'' (JBool True) result), m))
        | None \<Rightarrow>
            (case precondition_holds env m request of
               Inl e \<Rightarrow> (Inl e, m)
             | Inr False \<Rightarrow> (Inr (mutation_answer False False (ms_version m)), m)
             | Inr True \<Rightarrow>
                 (case ck_bind (req_index request ''parameters'') (\<lambda>p. json_index p ''newValue'') of
                    Inl e \<Rightarrow> (Inl e, m)
                  | Inr v \<Rightarrow>
                      (let written = m\<lparr>ms_value := py_str (se_repr env) v, ms_version := ms_version m + 1,
                             ms_mutation_count := ms_mutation_count m + 1\<rparr>;
                           result = mutation_answer True (v = JStr (ms_value written)) (ms_version written)
                       in case req_index request ''action_id'' of
                            Inl e \<Rightarrow> (Inl e, written)
                          | Inr a \<Rightarrow> (Inr result, written\<lparr>ms_idempotency :=
                              dict_set (py_str (se_repr env) k) (py_str (se_repr env) a, result) (ms_idempotency m)\<rparr>))))))"

definition lab_reconcile :: "source_env \<Rightarrow> (string, json) dict \<Rightarrow> mutation_source \<Rightarrow> (string, json) dict checked" where
  "lab_reconcile env request m =
     (let missing = [(''applied'', JBool False), (''postconditions_met'', JBool False), (''source_version'', JStr (show_int (ms_version m)))]
      in ck_bind (req_index request ''idempotency_key'') (\<lambda>k.
         case dict_get (ms_idempotency m) (py_str (se_repr env) k) of
           None \<Rightarrow> Inr missing
         | Some (action_id, result) \<Rightarrow> ck_bind (req_index request ''action_id'') (\<lambda>a.
             if a \<noteq> JStr action_id then Inr missing
             else Inr [(''applied'', member result ''success''), (''postconditions_met'', member result ''postconditions_met''),
                       (''source_version'', member result ''source_version'')])))"

definition answer_success :: "(string, json) dict \<Rightarrow> bool" where
  "answer_success d \<longleftrightarrow> member d ''success'' = JBool True"

lemma mutation_request_index [simp]:
  "req_index (mutation_request a) ''action_id'' = Inr (JStr (ap_action_id a))"
  "req_index (mutation_request a) ''asset_id'' = Inr (JStr (ap_asset_id a))"
  "req_index (mutation_request a) ''idempotency_key'' = Inr (JStr (ap_idempotency_key a))"
  "req_index (mutation_request a) ''parameters'' = Inr (JObj (ap_parameters a))"
  "req_index (mutation_request a) ''preconditions'' = Inr (JObj (ap_preconditions a))"
  by (simp_all add: req_index_def mutation_request_def json_index_def)

lemma py_str_text [simp]: "py_str rep (JStr t) = t"
  by (simp add: py_str_def)

lemma answer_success_simps [simp]: "answer_success (mutation_answer b met v) = b"
  by (simp add: answer_success_def mutation_answer_def member_def)

text \<open>What a request built from an action plan does: refused or replayed with nothing changed, or written and bound.\<close>

lemma lab_mutate_cases:
  obtains (kept) x where "lab_mutate env (mutation_request a) m = (x, m)"
      "\<And>d. x = Inr d \<Longrightarrow> answer_success d \<Longrightarrow> ap_idempotency_key a \<in> fst ` set (ms_idempotency m)"
  | (written) v result where "ap_idempotency_key a \<notin> fst ` set (ms_idempotency m)"
      "lab_mutate env (mutation_request a) m = (Inr result, m\<lparr>ms_value := v, ms_version := ms_version m + 1,
         ms_mutation_count := ms_mutation_count m + 1,
         ms_idempotency := dict_set (ap_idempotency_key a) (ap_action_id a, result) (ms_idempotency m)\<rparr>)"
      "answer_success result"
proof (cases "dict_get (ms_idempotency m) (ap_idempotency_key a)")
  case None
  then have fresh: "ap_idempotency_key a \<notin> fst ` set (ms_idempotency m)" by (simp add: dict_get_None)
  show thesis
  proof (cases "precondition_holds env m (mutation_request a)")
    case (Inl e)
    with None show thesis by (intro kept [of "Inl e"]) (simp_all add: lab_mutate_def)
  next
    case (Inr ok)
    show thesis
    proof (cases ok)
      case False
      with None Inr show thesis by (intro kept [of "Inr (mutation_answer False False (ms_version m))"]) (auto simp: lab_mutate_def)
    next
      case True
      show thesis
      proof (cases "json_index (JObj (ap_parameters a)) ''newValue''")
        case (Inl e)
        with None True show thesis by (intro kept [of "Inl e"]) (simp_all add: lab_mutate_def \<open>precondition_holds env m (mutation_request a) = Inr ok\<close>)
      next
        case (Inr v)
        with None True fresh \<open>precondition_holds env m (mutation_request a) = Inr ok\<close> show thesis
          by (intro written [of "mutation_answer True (v = JStr (py_str (se_repr env) v)) (ms_version m + 1)" "py_str (se_repr env) v"]) (simp_all add: lab_mutate_def Let_def)
      qed
    qed
  qed
next
  case (Some bound_to)
  then have "ap_idempotency_key a \<in> fst ` set (ms_idempotency m)" using in_keys [of "ap_idempotency_key a" "ms_idempotency m"] by simp
  with Some show thesis
    by (intro kept [of "fst (lab_mutate env (mutation_request a) m)"]) (auto simp: lab_mutate_def split: prod.splits)
qed

interpretation lab_source: idempotent_source "\<lambda>a. lab_mutate env (mutation_request a)" ap_idempotency_key
    "\<lambda>m :: mutation_source. fst ` set (ms_idempotency m)" ms_mutation_count answer_success for env
proof
  fix a and m :: mutation_source
  show "finite (fst ` set (ms_idempotency m))" by simp
  show "fst ` set (ms_idempotency m) \<subseteq> fst ` set (ms_idempotency (snd (lab_mutate env (mutation_request a) m)))"
    by (cases rule: lab_mutate_cases [of env a m]) auto
  show "fst ` set (ms_idempotency (snd (lab_mutate env (mutation_request a) m))) - fst ` set (ms_idempotency m) \<subseteq> {ap_idempotency_key a}"
    by (cases rule: lab_mutate_cases [of env a m]) auto
  show "ms_mutation_count (snd (lab_mutate env (mutation_request a) m)) = ms_mutation_count m
      + int (card (fst ` set (ms_idempotency (snd (lab_mutate env (mutation_request a) m))) - fst ` set (ms_idempotency m)))"
    by (cases rule: lab_mutate_cases [of env a m]) (auto simp: insert_Diff_if)
  show "ap_idempotency_key a \<in> fst ` set (ms_idempotency (snd (lab_mutate env (mutation_request a) m)))"
    if "fst (lab_mutate env (mutation_request a) m) = Inr x" "answer_success x" for x
    using that by (cases rule: lab_mutate_cases [of env a m]) auto
qed

lemma lab_perform_all:
  "idempotent_source.perform_all (\<lambda>a. lab_mutate env (mutation_request a)) plans m
     = run_ops (\<lambda>a m. snd (lab_mutate env (mutation_request a) m)) plans m"
  by (simp add: lab_source.perform_all_def)

text \<open>
  However often and in whatever order a gateway sends actions to the labs' source, the source writes at most once for each
  idempotency key among them.
\<close>

lemma lab_source_writes_once_per_key:
  "ms_mutation_count (run_ops (\<lambda>a m. snd (lab_mutate env (mutation_request a) m)) plans m)
     \<le> ms_mutation_count m + int (card (ap_idempotency_key ` set plans))"
  using lab_source.effects_bounded [of env plans m] unfolding lab_perform_all .

lemma lab_bound_kept:
  "dict_get (ms_idempotency m) k = Some v \<Longrightarrow>
     dict_get (ms_idempotency (run_ops (\<lambda>a m. snd (lab_mutate env (mutation_request a) m)) plans m)) k = Some v"
proof (induction plans arbitrary: m)
  case (Cons a plans)
  have "dict_get (ms_idempotency (snd (lab_mutate env (mutation_request a) m))) k = Some v"
  proof (cases rule: lab_mutate_cases [of env a m])
    case (written w result)
    then have "dict_get (ms_idempotency m) (ap_idempotency_key a) = None" by (simp add: dict_get_None)
    with Cons.prems have "k \<noteq> ap_idempotency_key a" by auto
    with written Cons.prems show ?thesis by simp
  qed (use Cons.prems in simp)
  with Cons.IH show ?case by simp
qed simp

text \<open>
  After an action succeeded, whatever the source does in between, sending it again succeeds with the version the first
  dispatch produced and writes nothing, and reconciliation says that it was applied.
\<close>

lemma lab_success_bound:
  assumes "lab_mutate env (mutation_request a) m = (Inr result, m')" and "answer_success result" and "dict_get (ms_idempotency m) (ap_idempotency_key a) = None"
  shows "dict_get (ms_idempotency m') (ap_idempotency_key a) = Some (ap_action_id a, result)"
  using assms(3) assms(1,2)
proof (cases rule: lab_mutate_cases [of env a m])
  case (kept x)
  with assms show ?thesis by (auto simp: dict_get_None)
qed auto

lemma lab_success_replays:
  assumes "lab_mutate env (mutation_request a) m = (Inr result, m')" and "answer_success result"
    and "dict_get (ms_idempotency m) (ap_idempotency_key a) = None"
    and "later = run_ops (\<lambda>a m. snd (lab_mutate env (mutation_request a) m)) plans m'"
  shows "lab_mutate env (mutation_request a) later = (Inr (dict_set ''already_applied'' (JBool True) result), later)
    \<and> lab_reconcile env (mutation_request a) later = Inr [(''applied'', JBool True),
        (''postconditions_met'', member result ''postconditions_met''), (''source_version'', member result ''source_version'')]"
proof -
  have "dict_get (ms_idempotency later) (ap_idempotency_key a) = Some (ap_action_id a, result)"
    unfolding assms(4) using lab_success_bound [OF assms(1,2,3)] by (rule lab_bound_kept)
  with assms(2) show ?thesis by (simp add: lab_mutate_def lab_reconcile_def answer_success_def Let_def)
qed

section \<open>The policy of the labs\<close>

record action_scope =
  sc_source :: string
  sc_asset :: string
  sc_agent :: string
  sc_operations :: "string list"

definition bounded_action_allowed :: "action_scope \<Rightarrow> authorization_request \<Rightarrow> bool checked" where
  \<comment> \<open>looking an unhashable operation up in the set raises\<close>
  "bounded_action_allowed p r =
     (if id_agent_id (ar_identity r) = sc_agent p \<and> ar_source_id r = sc_source p \<and> ar_capability r = Mutate
         \<and> ar_asset_ids r = [sc_asset p] \<and> json_truthy (member (ar_parameters r) ''precondition_fields'')
      then (let operation = member (ar_parameters r) ''operation''
            in if json_scalar operation then Inr (operation \<in> JStr ` set (sc_operations p)) else Inl (TypeError ''unhashable type''))
      else Inr False)"

definition bounded_action_policy :: "(json \<Rightarrow> string) \<Rightarrow> action_scope \<Rightarrow> authorization_request \<Rightarrow> policy_decision checked" where
  "bounded_action_policy rep p r =
     ck_bind (bounded_action_allowed p r) (\<lambda>allowed.
     Inr \<lparr>pd_allowed = allowed,
          pd_decision_id = ''lab-action:'' @ id_request_id (ar_identity r) @ '':''
            @ py_str rep (case dict_get (ar_attributes r) ''stage'' of None \<Rightarrow> JStr ''unknown'' | Some v \<Rightarrow> v),
          pd_reason_code = (if allowed then ''bounded_action'' else ''action_scope_denied'')\<rparr>)"

lemma sort_eq_Nil [simp]: "sort xs = [] \<longleftrightarrow> xs = []"
  by (metis length_0_conv length_sort)

text \<open>The policy allows an action of a plan exactly within its scope, and only with a precondition.\<close>

lemma bounded_policy_allows_iff:
  "(\<exists>d. bounded_action_policy rep p (mutation_authorization prims a identity stage) = Inr d \<and> pd_allowed d) \<longleftrightarrow>
     id_agent_id identity = sc_agent p \<and> ap_source_id a = sc_source p \<and> ap_asset_id a = sc_asset p
     \<and> ap_preconditions a \<noteq> [] \<and> ap_operation a \<in> set (sc_operations p)"
  by (auto simp: bounded_action_policy_def bounded_action_allowed_def mutation_authorization_def member_def json_truthy_def
      json_scalar_def sorted_names_def ck_bind_Inr Let_def)

end
