(* ===== verification/Live_Sources.thy ===== *)
theory Live_Sources
  imports White_Goods_Sources Idempotent_Sources
begin

text \<open>
  The connectors of the laptop-local lab (reference_labs/white_goods/live/connectors.py) over PostgreSQL, an object store,
  an event stream and a paged HTTP service, and that service itself (live/service_api.py). What the servers answer is a
  parameter; the statements the PostgreSQL connector writes itself, its conditional update and its table of idempotency keys,
  are the state of the model and one transaction. The \<open>AttributeError\<close> of a plan member that is no mapping is a \<open>TypeError\<close>.
\<close>

declare map_of_eq_Some_iff [simp del] Some_eq_map_of_iff [simp del]

section \<open>What the connectors share\<close>

datatype live_error = Live_Raised py_error | Live_External ext_error

record live_env =
  lv_repr :: "json \<Rightarrow> string"
  lv_int :: "json \<Rightarrow> int checked"
  lv_sha256 :: "string \<Rightarrow> string"
  lv_isoformat :: "datetime \<Rightarrow> string"
  lv_now :: int

datatype db_value = V_Json json | V_Time datetime | V_Other string

definition live_secret :: "string \<Rightarrow> string checked" where
  \<comment> \<open>the text of a mounted secret file\<close>
  "live_secret content = (if str_strip content = [] then Inl (ValueError ''credential reference is empty: '') else Inr (str_strip content))"

definition json_value :: "live_env \<Rightarrow> db_value \<Rightarrow> json" where
  \<comment> \<open>\<open>V_Json\<close> is None, a text, a number or a bool\<close>
  "json_value env v = (case v of V_Json j \<Rightarrow> j | V_Time t \<Rightarrow> JStr (lv_isoformat env t) | V_Other s \<Rightarrow> JStr s)"

definition live_version :: "live_env \<Rightarrow> string \<Rightarrow> json \<Rightarrow> source_version checked" where
  "live_version env source_id payload = mk_source_version \<lparr>sv_source_id = source_id,
     sv_version = ''sha256:'' @ lv_sha256 env (canonical payload), sv_observed_at = utc (lv_now env), sv_effective_at = None\<rparr>"

definition live_profile :: "string \<Rightarrow> data_model \<Rightarrow> bool \<Rightarrow> connector_profile" where
  "live_profile cid model mutable = \<lparr>pf_connector_id = cid, pf_version = ''1.0.0'', pf_sdk_api = ''harness.connector/v1'',
     pf_runtime_mode = RM_Container, pf_data_models = [model],
     pf_capabilities = [Discover, Describe, Query] @ (if mutable then [Mutate] else []), pf_auth_methods = [''credential-reference''],
     pf_consistency = default_consistency\<lparr>cp_read_isolation := [''read-committed''], cp_supports_version_precondition := mutable,
       cp_supports_idempotency_key := mutable, cp_supports_transactions := mutable\<rparr>,
     pf_limits = default_connector_limits\<lparr>cl_max_parallelism := 1, cl_max_result_bytes := 2 * 1024 * 1024\<rparr>,
     pf_extension_namespace = None,
     pf_metadata = [(''networkBoundary'', JStr ''compose-internal''),
       (''mutationMode'', JStr (if mutable then ''preview-approval-compensation'' else ''disabled''))]\<rparr>"

definition raise_py :: "'a checked \<Rightarrow> (live_error + 'a)" where
  "raise_py r = (case r of Inl e \<Rightarrow> Inl (Live_Raised e) | Inr x \<Rightarrow> Inr x)"

definition ask :: "(ext_error + 'a) \<Rightarrow> (live_error + 'a)" where
  "ask r = (case r of Inl e \<Rightarrow> Inl (Live_External e) | Inr x \<Rightarrow> Inr x)"

lemma raise_py_Inr [simp]: "raise_py r = Inr x \<longleftrightarrow> r = Inr x" and ask_Inr [simp]: "ask q = Inr y \<longleftrightarrow> q = Inr y"
  by (simp_all add: raise_py_def ask_def split: sum.splits)

definition live_assets :: "string \<Rightarrow> string \<Rightarrow> string list \<Rightarrow> asset list checked" where
  "live_assets source_id kind names = check_all (\<lambda>n.
     ck_bind (mk_asset_ref \<lparr>aref_source_id = source_id, aref_asset_id = n\<rparr>) (\<lambda>ref.
     mk_asset \<lparr>asset_ref_of = ref, asset_name = n, asset_kind = kind, asset_description = None, asset_metadata = []\<rparr>)) names"

definition live_schema :: "live_env \<Rightarrow> asset_ref \<Rightarrow> field_schema list \<Rightarrow> asset_schema checked" where
  "live_schema env ref fs =
     ck_bind (check_all mk_field_schema fs) (\<lambda>fs.
     ck_bind (live_version env (aref_source_id ref) (JArr (map (\<lambda>f. JStr (fs_name f)) fs))) (\<lambda>v.
     Inr \<lparr>as_asset = ref, as_fields = fs, as_version = v\<rparr>))"

definition live_batch :: "live_env \<Rightarrow> string \<Rightarrow> string \<Rightarrow> batch_kind \<Rightarrow> json \<Rightarrow> json list \<Rightarrow> string list \<Rightarrow> data_batch checked" where
  \<comment> \<open>rows, the value their version digests, and the record each row is traced to\<close>
  "live_batch env source_id asset_id kind versioned rows records =
     ck_bind (live_version env source_id versioned) (\<lambda>v.
     ck_bind (check_all (\<lambda>r. mk_lineage_ref \<lparr>lin_source_id = source_id, lin_asset_id = asset_id, lin_record_id = Some r,
       lin_field_path = None\<rparr>) records) (\<lambda>lineage.
     mk_data_batch \<lparr>db_kind = kind, db_payload = P_Json (JArr rows), db_source_versions = [v], db_lineage = lineage,
       db_row_count = Some (int (length rows)), db_byte_count = None\<rparr>))"

lemma live_batch_empty: "live_batch env source_id asset_id kind versioned rows [] \<noteq> Inr b"
  by (auto simp: live_batch_def checks ck_bind_Inr)

lemma live_batch_payload: "live_batch env source_id asset_id kind versioned rows records = Inr b \<Longrightarrow> db_payload b = P_Json (JArr rows)"
  by (auto simp: live_batch_def checks ck_bind_Inr)

section \<open>PostgreSQL reads\<close>

definition pg_source :: string where "pg_source = ''whitegoods.erp''"

record pg_statement =
  ps_columns :: "string list"
  ps_table :: string
  ps_predicates :: "string list"
  ps_order :: string
  ps_parameters :: "json list"

record pg_server =
  pg_server_version :: "ext_error + string"
  pg_tables :: "ext_error + string list"
  pg_columns :: "string \<Rightarrow> ext_error + (string \<times> string \<times> string) list"
  pg_select :: "pg_statement \<Rightarrow> ext_error + db_value list list"

definition pg_health :: "pg_server \<Rightarrow> (live_error + health_status)" where
  "pg_health server = ck_bind (ask (pg_server_version server)) (\<lambda>v.
     Inr \<lparr>hs_healthy = True, hs_observed_version = v, hs_limitations = [''read-only'']\<rparr>)"

definition pg_discover :: "pg_server \<Rightarrow> string option \<Rightarrow> (live_error + asset list)" where
  "pg_discover server cursor =
     (if cursor \<noteq> None then Inl (Live_Raised (ValueError ''PostgreSQL discovery does not accept a cursor''))
      else ck_bind (ask (pg_tables server)) (\<lambda>names. raise_py (live_assets pg_source ''table'' names)))"

definition pg_describe :: "live_env \<Rightarrow> pg_server \<Rightarrow> asset_ref \<Rightarrow> (live_error + asset_schema)" where
  "pg_describe env server ref =
     (if aref_source_id ref \<noteq> pg_source then Inl (Live_Raised (ValueError ''asset does not belong to PostgreSQL connector''))
      else ck_bind (ask (pg_columns server (aref_asset_id ref))) (\<lambda>columns.
        if columns = [] then Inl (Live_Raised (KeyError ''unknown PostgreSQL asset: ''))
        else raise_py (live_schema env ref (map (\<lambda>(n, t, nullable). lab_field n t (nullable = ''YES'')) columns))))"

definition plan_scope :: "query_request \<Rightarrow> string \<Rightarrow> json checked" where
  \<comment> \<open>\<open>request.plan.get(k, {})\<close>, which must have a \<open>get\<close>\<close>
  "plan_scope q k = (case or_default (qr_plan q) k (JObj []) of JObj d \<Rightarrow> Inr (JObj d) | _ \<Rightarrow> Inl (TypeError ''get''))"

definition check_projection :: "string list \<Rightarrow> json list \<Rightarrow> (string, json) dict \<Rightarrow> unit checked" where
  "check_projection allowed selected filters =
     (if selected = [] then Inl (PermissionError ''PostgreSQL plan contains an unapproved projection or filter'')
      else if list_ex (\<lambda>v. \<not> json_scalar v) selected then Inl (TypeError ''unhashable type'')
      else if list_ex (\<lambda>v. v \<notin> JStr ` set allowed) selected \<or> list_ex (\<lambda>k. k \<notin> set allowed) (dict_keys filters)
      then Inl (PermissionError ''PostgreSQL plan contains an unapproved projection or filter'')
      else Inr ())"

definition pg_statement_of :: "query_request \<Rightarrow> string \<Rightarrow> json list \<Rightarrow> (string, json) dict \<Rightarrow> pg_statement" where
  \<comment> \<open>the identifiers are quoted, the filter values and the limit are parameters\<close>
  "pg_statement_of q asset_id selected filters = \<lparr>ps_columns = map select_name selected, ps_table = asset_id,
     ps_predicates = dict_keys filters, ps_order = select_name (hd selected), ps_parameters = map snd filters @ [JInt (qr_limit q)]\<rparr>"

definition pg_plan :: "live_env \<Rightarrow> pg_server \<Rightarrow> query_request \<Rightarrow> (live_error + pg_statement)" where
  "pg_plan env server q =
     (if qr_source_id q \<noteq> pg_source \<or> length (qr_asset_ids q) \<noteq> 1
      then Inl (Live_Raised (ValueError ''PostgreSQL execution requires exactly one local asset''))
      else (let asset_id = hd (qr_asset_ids q) in
        ck_bind (raise_py (mk_asset_ref \<lparr>aref_source_id = pg_source, aref_asset_id = asset_id\<rparr>)) (\<lambda>ref.
        ck_bind (pg_describe env server ref) (\<lambda>schema.
        ck_bind (raise_py (plan_scope q ''select_by_asset'')) (\<lambda>sel.
        ck_bind (raise_py (json_elements (or_default (object_of sel) asset_id (JArr [])))) (\<lambda>selected.
        ck_bind (raise_py (plan_scope q ''where_by_asset'')) (\<lambda>wh.
        ck_bind (raise_py (as_dict (or_default (object_of wh) asset_id (JObj [])))) (\<lambda>filters.
        ck_bind (raise_py (check_projection (map fs_name (as_fields schema)) selected filters)) (\<lambda>_.
        Inr (pg_statement_of q asset_id selected filters))))))))))"

definition pg_row :: "live_env \<Rightarrow> string list \<Rightarrow> db_value list \<Rightarrow> row checked" where
  \<comment> \<open>\<open>zip(selected, row, strict=True)\<close>\<close>
  "pg_row env names vs =
     (if length names \<noteq> length vs then Inl (ValueError ''zip() argument 2 is shorter or longer than argument 1'')
      else Inr (fold (\<lambda>(n, v). dict_set n (json_value env v)) (zip names vs) []))"

definition pg_execute :: "live_env \<Rightarrow> pg_server \<Rightarrow> query_request \<Rightarrow> (live_error + data_batch)" where
  "pg_execute env server q =
     ck_bind (pg_plan env server q) (\<lambda>st.
     ck_bind (ask (pg_select server st)) (\<lambda>answer.
     ck_bind (raise_py (check_all (pg_row env (ps_columns st)) answer)) (\<lambda>rows.
     raise_py (live_batch env pg_source (ps_table st) BK_Arrow (JArr (map JObj rows)) (map JObj rows)
       (map (\<lambda>row. py_str (lv_repr env) (member row (ps_order st))) rows)))))"

text \<open>
  Every statement the PostgreSQL connector sends names only columns of the described table, in its projection, its filters
  and its order, and takes the filter values and the limit as parameters.
\<close>

lemma pg_statements_allowlisted:
  assumes "pg_plan env server q = Inr st"
  shows "\<exists>schema. pg_describe env server \<lparr>aref_source_id = pg_source, aref_asset_id = ps_table st\<rparr> = Inr schema
    \<and> qr_asset_ids q = [ps_table st] \<and> ps_columns st \<noteq> [] \<and> ps_order st = hd (ps_columns st)
    \<and> set (ps_columns st) \<union> set (ps_predicates st) \<subseteq> fs_name ` set (as_fields schema)
    \<and> length (ps_parameters st) = length (ps_predicates st) + 1 \<and> last (ps_parameters st) = JInt (qr_limit q)"
proof -
  from assms obtain schema sel selected wh filters asset_id where asset: "qr_asset_ids q = [asset_id]"
    and schema: "pg_describe env server \<lparr>aref_source_id = pg_source, aref_asset_id = asset_id\<rparr> = Inr schema"
    and proj: "check_projection (map fs_name (as_fields schema)) selected filters = Inr ()"
    and st: "st = pg_statement_of q asset_id selected filters"
    by (auto simp: pg_plan_def Let_def ck_bind_Inr mk_asset_ref_def length_Suc_conv split: if_splits)
  from proj have "selected \<noteq> []" and "set selected \<subseteq> JStr ` fs_name ` set (as_fields schema)"
    and "set (dict_keys filters) \<subseteq> fs_name ` set (as_fields schema)"
    by (auto simp: check_projection_def list_ex_iff split: if_splits)
  moreover from this(2) have "select_name ` set selected \<subseteq> fs_name ` set (as_fields schema)" by (auto simp: select_name_def)
  ultimately show ?thesis using asset schema by (auto simp: st pg_statement_of_def hd_map)
qed

section \<open>PostgreSQL mutations\<close>

text \<open>
  The rows of \<open>service_orders\<close> by their primary key, each a resolution (a text or NULL) and a record version, and the table
  \<open>harness_action_idempotency\<close> by its primary key. The transaction of \<open>mutate\<close> commits when it returns and rolls back when it
  raises; transactions run one after the other.
\<close>

record source_db =
  sd_orders :: "(string, json \<times> int) dict"
  sd_bindings :: "(string, string \<times> string \<times> int) dict"

definition db_text :: "json \<Rightarrow> bool" where
  \<comment> \<open>what a TEXT column is compared with or set to; other parameters are a type error of the server\<close>
  "db_text v = (case v of JNull \<Rightarrow> True | JStr _ \<Rightarrow> True | _ \<Rightarrow> False)"

definition pg_answer :: "bool \<Rightarrow> bool \<Rightarrow> string \<Rightarrow> bool \<Rightarrow> (string, json) dict" where
  "pg_answer success met version replayed = [(''success'', JBool success), (''postconditions_met'', JBool met),
     (''source_version'', JStr version), (''replayed'', JBool replayed)]"

record pg_mutation =
  pm_order_id :: string
  pm_resolution :: json
  pm_expected_resolution :: json
  pm_expected_version :: int
  pm_action_id :: string
  pm_key :: string
  pm_digest :: string

definition exact_mapping :: "string list \<Rightarrow> json \<Rightarrow> bool" where
  \<comment> \<open>a mapping with exactly these keys\<close>
  "exact_mapping ks v = (case v of JObj d \<Rightarrow> set (dict_keys d) = set ks | _ \<Rightarrow> False)"

definition request_text :: "live_env \<Rightarrow> (string, json) dict \<Rightarrow> string \<Rightarrow> string" where
  "request_text env d k = py_str (lv_repr env) (or_default d k (JStr []))"

definition pg_read_request :: "live_env \<Rightarrow> (string, json) dict \<Rightarrow> pg_mutation checked" where
  "pg_read_request env request =
     (let operation = member request ''operation''; parameters = member request ''parameters''; preconditions = member request ''preconditions'';
          action_id = request_text env request ''action_id''; key = request_text env request ''idempotency_key''
      in if member request ''asset_id'' \<noteq> JStr ''service_orders''
         then Inl (PermissionError ''PostgreSQL mutation is restricted to service_orders'')
         else if \<not> json_scalar operation then Inl (TypeError ''unhashable type'')
         else if operation \<notin> {JStr ''resolve-service-order'', JStr ''restore-service-order''}
         then Inl (PermissionError ''PostgreSQL mutation operation is not allowlisted'')
         else if \<not> exact_mapping [''serviceOrderId'', ''resolution''] parameters
         then Inl (ValueError ''mutation parameters must identify one order and resolution'')
         else if \<not> exact_mapping [''recordVersion'', ''expectedResolution''] preconditions
         then Inl (ValueError ''mutation requires exact version and value preconditions'')
         else if action_id = [] \<or> key = []
         then Inl (ValueError ''mutation action and idempotency identities are required'')
         else ck_bind (lv_int env (member (object_of preconditions) ''recordVersion'')) (\<lambda>version.
           Inr \<lparr>pm_order_id = py_str (lv_repr env) (member (object_of parameters) ''serviceOrderId''),
             pm_resolution = member (object_of parameters) ''resolution'',
             pm_expected_resolution = member (object_of preconditions) ''expectedResolution'', pm_expected_version = version,
             pm_action_id = action_id, pm_key = key, pm_digest = ''sha256:'' @ lv_sha256 env (canonical (JObj request))\<rparr>))"

definition pg_update :: "pg_mutation \<Rightarrow> source_db \<Rightarrow> (ext_error + (int \<times> json) option) \<times> source_db" where
  \<comment> \<open>UPDATE service_orders SET resolution, record_version + 1 WHERE id, version and resolution agree RETURNING both\<close>
  "pg_update m db =
     (if \<not> db_text (pm_resolution m) \<or> \<not> db_text (pm_expected_resolution m) then (Inl (Ext_Exception ''DatatypeMismatch''), db)
      else case dict_get (sd_orders db) (pm_order_id m) of
        None \<Rightarrow> (Inr None, db)
      | Some (resolution, version) \<Rightarrow>
          if version = pm_expected_version m \<and> resolution = pm_expected_resolution m
          then (Inr (Some (version + 1, pm_resolution m)),
                db\<lparr>sd_orders := dict_set (pm_order_id m) (pm_resolution m, version + 1) (sd_orders db)\<rparr>)
          else (Inr None, db))"

definition pg_transaction :: "pg_mutation \<Rightarrow> source_db \<Rightarrow> (live_error + (string, json) dict) \<times> source_db" where
  "pg_transaction m db =
     (case dict_get (sd_bindings db) (pm_key m) of
        Some (_, digest, version) \<Rightarrow>
          if digest \<noteq> pm_digest m then (Inl (Live_Raised (ValueError ''source idempotency key is bound to another request'')), db)
          else (Inr (pg_answer True True (show_int version) True), db)
      | None \<Rightarrow>
          (case pg_update m db of
             (Inl e, _) \<Rightarrow> (Inl (Live_External e), db)
           | (Inr None, _) \<Rightarrow>
               (Inr (pg_answer False False (case dict_get (sd_orders db) (pm_order_id m) of
                    None \<Rightarrow> ''missing'' | Some (_, version) \<Rightarrow> show_int version) False), db)
           | (Inr (Some (version, observed)), updated) \<Rightarrow>
               (Inr (pg_answer True (observed = pm_resolution m) (show_int version) False),
                updated\<lparr>sd_bindings := dict_set (pm_key m) (pm_action_id m, pm_digest m, version) (sd_bindings db)\<rparr>)))"

definition pg_mutate :: "live_env \<Rightarrow> ext_error option \<Rightarrow> (string, json) dict \<Rightarrow> source_db
    \<Rightarrow> (live_error + (string, json) dict) \<times> source_db" where
  \<comment> \<open>the second argument is what opening the connection raises, if it does\<close>
  "pg_mutate env refused request db =
     (case pg_read_request env request of
        Inl e \<Rightarrow> (Inl (Live_Raised e), db)
      | Inr m \<Rightarrow> (case refused of Some e \<Rightarrow> (Inl (Live_External e), db) | None \<Rightarrow> pg_transaction m db))"

definition read_mutation_state :: "source_db \<Rightarrow> string \<Rightarrow> (string, json) dict checked" where
  "read_mutation_state db order_id =
     (case dict_get (sd_orders db) order_id of
        None \<Rightarrow> Inl (KeyError ''unknown service order: '')
      | Some (resolution, version) \<Rightarrow> Inr [(''resolution'', resolution), (''recordVersion'', JInt version),
          (''idempotencyRecords'', JInt (int (length (sd_bindings db))))])"

section \<open>The database keeps the contract of an idempotent source\<close>

definition total_versions :: "source_db \<Rightarrow> int" where
  \<comment> \<open>every write raises one version by one\<close>
  "total_versions db = sum_list (map (\<lambda>e. snd (snd e)) (sd_orders db))"

lemma sum_versions_set:
  "dict_get d k = Some (r, v) \<Longrightarrow>
     sum_list (map (\<lambda>e. snd (snd e)) (dict_set k (r', v + 1) d)) = sum_list (map (\<lambda>e. snd (snd e)) d) + 1"
  for d :: "(string, json \<times> int) dict"
  by (induction d) (auto split: if_splits)

lemma pg_read_request_action:
  assumes "pg_read_request env (mutation_request a) = Inr m"
  shows "pm_key m = ap_idempotency_key a" and "pm_action_id m = ap_action_id a"
    and "pm_digest m = ''sha256:'' @ lv_sha256 env (canonical (JObj (mutation_request a)))"
proof -
  have "request_text env (mutation_request a) ''idempotency_key'' = ap_idempotency_key a"
    and "request_text env (mutation_request a) ''action_id'' = ap_action_id a"
    by (simp_all add: request_text_def or_default_def mutation_request_def)
  with assms show "pm_key m = ap_idempotency_key a" and "pm_action_id m = ap_action_id a"
    and "pm_digest m = ''sha256:'' @ lv_sha256 env (canonical (JObj (mutation_request a)))"
    by (auto simp: pg_read_request_def Let_def ck_bind_Inr split: if_splits)
qed

lemma pg_transaction_cases:
  obtains (kept) x where "pg_transaction m db = (x, db)"
      "\<And>d. x = Inr d \<Longrightarrow> answer_success d \<Longrightarrow> pm_key m \<in> fst ` set (sd_bindings db)"
  | (written) resolution version where "pm_key m \<notin> fst ` set (sd_bindings db)"
      "dict_get (sd_orders db) (pm_order_id m) = Some (resolution, version)"
      "pm_expected_version m = version" "pm_expected_resolution m = resolution"
      "pg_transaction m db = (Inr (pg_answer True True (show_int (version + 1)) False),
        db\<lparr>sd_orders := dict_set (pm_order_id m) (pm_resolution m, version + 1) (sd_orders db),
           sd_bindings := dict_set (pm_key m) (pm_action_id m, pm_digest m, version + 1) (sd_bindings db)\<rparr>)"
proof (cases "dict_get (sd_bindings db) (pm_key m)")
  case (Some b)
  then have "pm_key m \<in> fst ` set (sd_bindings db)" using in_keys [of "pm_key m" "sd_bindings db"] by simp
  with Some show thesis
    by (intro kept [of "fst (pg_transaction m db)"]) (auto simp: pg_transaction_def split: prod.splits)
next
  case None
  then have fresh: "pm_key m \<notin> fst ` set (sd_bindings db)" by (simp add: dict_get_None)
  show thesis
  proof (cases "\<exists>version. db_text (pm_resolution m) \<and> db_text (pm_expected_resolution m)
      \<and> dict_get (sd_orders db) (pm_order_id m) = Some (pm_expected_resolution m, version) \<and> version = pm_expected_version m")
    case True
    with None fresh show thesis by (intro written) (auto simp: pg_transaction_def pg_update_def)
  next
    case False
    have "\<not> answer_success (pg_answer False met v w)" for met v w by (simp add: answer_success_def pg_answer_def member_def)
    with None False show thesis
      by (intro kept [of "fst (pg_transaction m db)"])
        (auto simp: pg_transaction_def pg_update_def split: option.splits prod.splits if_splits)
  qed
qed

lemma pg_mutate_cases:
  obtains (kept) x where "pg_mutate env refused (mutation_request a) db = (x, db)"
      "\<And>d. x = Inr d \<Longrightarrow> answer_success d \<Longrightarrow> ap_idempotency_key a \<in> fst ` set (sd_bindings db)"
  | (written) order resolution version new where "ap_idempotency_key a \<notin> fst ` set (sd_bindings db)"
      "dict_get (sd_orders db) order = Some (resolution, version)"
      "pg_mutate env refused (mutation_request a) db = (Inr (pg_answer True True (show_int (version + 1)) False),
        db\<lparr>sd_orders := dict_set order (new, version + 1) (sd_orders db),
           sd_bindings := dict_set (ap_idempotency_key a) (ap_action_id a,
             ''sha256:'' @ lv_sha256 env (canonical (JObj (mutation_request a))), version + 1) (sd_bindings db)\<rparr>)"
proof (cases "pg_read_request env (mutation_request a)")
  case (Inl e)
  then show thesis by (intro kept [of "Inl (Live_Raised e)"]) (simp_all add: pg_mutate_def)
next
  case (Inr m)
  note m = pg_read_request_action [OF Inr]
  show thesis
  proof (cases refused)
    case (Some e)
    with Inr show thesis by (intro kept [of "Inl (Live_External e)"]) (simp_all add: pg_mutate_def)
  next
    case None
    with Inr have eq: "pg_mutate env refused (mutation_request a) db = pg_transaction m db" by (simp add: pg_mutate_def)
    show thesis
    proof (cases rule: pg_transaction_cases [of m db])
      case k: (kept x)
      with eq m(1) show thesis by (intro kept) simp_all
    next
      case w: (written resolution version)
      with eq m show thesis by (intro written) simp_all
    qed
  qed
qed

text \<open>An attempt: what opening its connection raises, if it does, and the action sent.\<close>

type_synonym attempt = "ext_error option \<times> action_plan"

definition pg_attempt :: "live_env \<Rightarrow> attempt \<Rightarrow> source_db \<Rightarrow> (live_error + (string, json) dict) \<times> source_db" where
  "pg_attempt env r db = pg_mutate env (fst r) (mutation_request (snd r)) db"

definition attempt_key :: "attempt \<Rightarrow> string" where
  "attempt_key r = ap_idempotency_key (snd r)"

interpretation pg: idempotent_source "pg_attempt env" attempt_key
    "\<lambda>db :: source_db. fst ` set (sd_bindings db)" total_versions answer_success for env
proof
  fix r :: attempt and db :: source_db
  obtain refused a where r: "r = (refused, a)" by (cases r)
  show "finite (fst ` set (sd_bindings db))" by simp
  show "fst ` set (sd_bindings db) \<subseteq> fst ` set (sd_bindings (snd (pg_attempt env r db)))"
    unfolding r pg_attempt_def by (cases rule: pg_mutate_cases [of env refused a db]) auto
  show "fst ` set (sd_bindings (snd (pg_attempt env r db))) - fst ` set (sd_bindings db) \<subseteq> {attempt_key r}"
    unfolding r pg_attempt_def attempt_key_def by (cases rule: pg_mutate_cases [of env refused a db]) auto
  show "total_versions (snd (pg_attempt env r db)) = total_versions db
      + int (card (fst ` set (sd_bindings (snd (pg_attempt env r db))) - fst ` set (sd_bindings db)))"
  proof (cases rule: pg_mutate_cases [of env refused a db])
    case (written order resolution version new)
    with sum_versions_set [OF written(2), of new] show ?thesis
      by (simp add: r pg_attempt_def total_versions_def insert_Diff_if)
  qed (simp add: r pg_attempt_def)
  show "attempt_key r \<in> fst ` set (sd_bindings (snd (pg_attempt env r db)))"
    if "fst (pg_attempt env r db) = Inr x" "answer_success x" for x
    using that unfolding r pg_attempt_def attempt_key_def by (cases rule: pg_mutate_cases [of env refused a db]) auto
qed

definition run_attempts :: "live_env \<Rightarrow> attempt list \<Rightarrow> source_db \<Rightarrow> source_db" where
  "run_attempts env rs db = run_ops (\<lambda>r db. snd (pg_attempt env r db)) rs db"

lemma run_attempts_perform: "idempotent_source.perform_all (pg_attempt env) rs db = run_attempts env rs db"
  by (simp add: pg.perform_all_def run_attempts_def)

text \<open>
  C10. Whatever actions a gateway sends, in whatever order, however often and whichever connections fail, the versions of the
  orders rise in total by exactly the number of idempotency keys the database has newly bound, so a key never causes a second
  write.
\<close>

theorem database_writes_once_per_key:
  "total_versions (run_attempts env rs db) = total_versions db
      + int (card (fst ` set (sd_bindings (run_attempts env rs db)) - fst ` set (sd_bindings db)))
   \<and> fst ` set (sd_bindings (run_attempts env rs db)) - fst ` set (sd_bindings db) \<subseteq> attempt_key ` set rs
   \<and> total_versions (run_attempts env rs db) \<le> total_versions db + int (card (attempt_key ` set rs))"
  using pg.perform_all_effects [of env rs db] pg.perform_all_keys [of env rs db] pg.effects_bounded [of env rs db]
  unfolding run_attempts_perform by blast

lemma binding_kept:
  "dict_get (sd_bindings db) k = Some b \<Longrightarrow> dict_get (sd_bindings (run_attempts env rs db)) k = Some b"
proof (induction rs arbitrary: db)
  case (Cons r rs)
  obtain refused a where r: "r = (refused, a)" by (cases r)
  have "dict_get (sd_bindings (snd (pg_attempt env r db))) k = Some b"
  proof (cases rule: pg_mutate_cases [of env refused a db])
    case (written order resolution version new)
    then have "dict_get (sd_bindings db) (ap_idempotency_key a) = None" by (simp add: dict_get_None)
    with Cons.prems have "k \<noteq> ap_idempotency_key a" by auto
    with written Cons.prems show ?thesis by (simp add: r pg_attempt_def)
  qed (use Cons.prems in \<open>simp add: r pg_attempt_def\<close>)
  with Cons.IH show ?case by (simp add: run_attempts_def)
qed (simp add: run_attempts_def)

text \<open>
  Once an action has been written, sending it again later, whatever was attempted in between, reports success with the
  version of that first write, marked as a replay, and changes nothing.
\<close>

lemma written_action_replays:
  assumes first: "pg_attempt env (None, a) db = (Inr answer, db')" and written: "answer_success answer"
    and fresh: "dict_get (sd_bindings db) (ap_idempotency_key a) = None"
  shows "pg_attempt env (None, a) (run_attempts env rs db')
      = (Inr (pg_answer True True (case member answer ''source_version'' of JStr v \<Rightarrow> v | _ \<Rightarrow> []) True), run_attempts env rs db')"
proof (cases rule: pg_mutate_cases [of env None a db])
  case (kept x)
  with first written fresh show ?thesis by (auto simp: pg_attempt_def dict_get_None)
next
  case (written order resolution version new)
  with first have answer: "answer = pg_answer True True (show_int (version + 1)) False"
    and "dict_get (sd_bindings db') (ap_idempotency_key a) = Some (ap_action_id a,
             ''sha256:'' @ lv_sha256 env (canonical (JObj (mutation_request a))), version + 1)"
    by (auto simp: pg_attempt_def)
  from binding_kept [OF this(2), of env rs] obtain m where m: "pg_read_request env (mutation_request a) = Inr m"
    and "dict_get (sd_bindings (run_attempts env rs db')) (ap_idempotency_key a) = Some (ap_action_id a,
             ''sha256:'' @ lv_sha256 env (canonical (JObj (mutation_request a))), version + 1)"
    using first by (auto simp: pg_attempt_def pg_mutate_def split: sum.splits)
  with pg_read_request_action [OF m] answer show ?thesis
    by (simp add: pg_attempt_def pg_mutate_def pg_transaction_def pg_answer_def member_def)
qed

section \<open>The object store\<close>

definition s3_source :: string where "s3_source = ''whitegoods.documents''"
definition s3_bucket :: string where "s3_bucket = ''technical-documents''"

record s3_object =
  so_key :: string
  so_etag :: string
  so_size :: int
  so_last_modified :: datetime

record s3_server =
  s3_status :: "ext_error + string"
  s3_buckets :: "ext_error + string list"
  s3_objects :: "int \<Rightarrow> ext_error + s3_object list"
  s3_content :: "string \<Rightarrow> ext_error + string"

definition s3_health :: "s3_server \<Rightarrow> (live_error + health_status)" where
  "s3_health server = ck_bind (ask (s3_status server)) (\<lambda>v.
     Inr \<lparr>hs_healthy = True, hs_observed_version = v, hs_limitations = [''read-only'']\<rparr>)"

definition s3_discover :: "s3_server \<Rightarrow> string option \<Rightarrow> (live_error + asset list)" where
  "s3_discover server cursor =
     (if cursor \<noteq> None then Inl (Live_Raised (ValueError ''S3 discovery does not accept a cursor''))
      else ck_bind (ask (s3_buckets server)) (\<lambda>names. raise_py (live_assets s3_source ''bucket'' (sort names))))"

definition s3_describe :: "live_env \<Rightarrow> asset_ref \<Rightarrow> asset_schema checked" where
  "s3_describe env ref =
     (if ref \<noteq> \<lparr>aref_source_id = s3_source, aref_asset_id = s3_bucket\<rparr> then Inl (KeyError ''unknown S3 asset: '')
      else live_schema env ref [lab_field ''key'' ''string'' False, lab_field ''etag'' ''string'' False,
        lab_field ''size'' ''integer'' False, lab_field ''last_modified'' ''datetime'' False])"

definition strip_quotes :: "string \<Rightarrow> string" where
  "strip_quotes s = rev (dropWhile (\<lambda>c. c = CHR 0x22) (rev (dropWhile (\<lambda>c. c = CHR 0x22) s)))"

definition s3_row :: "live_env \<Rightarrow> s3_object \<Rightarrow> json" where
  "s3_row env x = JObj [(''key'', JStr (so_key x)), (''etag'', JStr (strip_quotes (so_etag x))), (''size'', JInt (so_size x)),
     (''last_modified'', JStr (lv_isoformat env (so_last_modified x)))]"

definition s3_execute :: "live_env \<Rightarrow> s3_server \<Rightarrow> query_request \<Rightarrow> (live_error + data_batch)" where
  "s3_execute env server q =
     (if qr_source_id q \<noteq> s3_source \<or> qr_asset_ids q \<noteq> [s3_bucket]
      then Inl (Live_Raised (ValueError ''S3 execution is restricted to the technical-documents bucket''))
      else ck_bind (ask (s3_objects server (qr_limit q))) (\<lambda>objects.
        raise_py (live_batch env s3_source s3_bucket BK_Document (JArr (map (s3_row env) objects)) (map (s3_row env) objects)
          (map so_key objects))))"

definition read_object :: "s3_server \<Rightarrow> string \<Rightarrow> (live_error + string)" where
  "read_object server key =
     (if str_startswith key ''/'' \<or> ''..'' \<in> set (split_on (CHR ''/'') key)
      then Inl (Live_Raised (PermissionError ''unsafe object key'')) else ask (s3_content server key))"

section \<open>The event stream\<close>

definition kafka_source :: string where "kafka_source = ''whitegoods.telemetry''"
definition kafka_topic :: string where "kafka_topic = ''telemetry''"

record kafka_message =
  km_value :: "(string, json) dict"
  km_partition :: int
  km_offset :: int

definition kafka_health :: "string list \<Rightarrow> health_status" where
  "kafka_health topics = \<lparr>hs_healthy = (kafka_topic \<in> set topics), hs_observed_version = ''kafka-api'', hs_limitations = [''non-committing'']\<rparr>"

definition kafka_discover :: "string list \<Rightarrow> string option \<Rightarrow> asset list checked" where
  "kafka_discover topics cursor =
     (if cursor \<noteq> None then Inl (ValueError ''Kafka discovery does not accept a cursor'')
      else live_assets kafka_source ''topic'' (sort (filter (\<lambda>n. \<not> str_startswith n ''_'') topics)))"

definition kafka_describe :: "live_env \<Rightarrow> asset_ref \<Rightarrow> asset_schema checked" where
  "kafka_describe env ref =
     (if ref \<noteq> \<lparr>aref_source_id = kafka_source, aref_asset_id = kafka_topic\<rparr> then Inl (KeyError ''unknown Kafka asset: '')
      else live_schema env ref [lab_field ''event_id'' ''string'' False, lab_field ''event_time'' ''datetime'' False,
        lab_field ''serial_number'' ''string'' True, lab_field ''event_type'' ''string'' False, lab_field ''value'' ''number'' False])"

fun consume :: "int \<Rightarrow> int \<Rightarrow> kafka_message list \<Rightarrow> kafka_message list" where
  \<comment> \<open>the messages read before the consumer's time is up; the second argument counts the rows read\<close>
  "consume limit n [] = []"
| "consume limit n (m # ms) = m # (if limit \<le> n + 1 then [] else consume limit (n + 1) ms)"

definition event_record :: "live_env \<Rightarrow> nat \<Rightarrow> (string, json) dict \<Rightarrow> string" where
  \<comment> \<open>\<open>str(row.get("event_id") or index)\<close>\<close>
  "event_record env index row =
     (if json_truthy (member row ''event_id'') then py_str (lv_repr env) (member row ''event_id'') else show_nat index)"

definition kafka_execute :: "live_env \<Rightarrow> (live_error + kafka_message list) \<Rightarrow> query_request \<Rightarrow> (live_error + data_batch)" where
  "kafka_execute env stream q =
     (if qr_source_id q \<noteq> kafka_source \<or> qr_asset_ids q \<noteq> [kafka_topic]
      then Inl (Live_Raised (ValueError ''Kafka execution is restricted to the telemetry topic''))
      else ck_bind stream (\<lambda>ms.
        let found = consume (qr_limit q) 0 ms; rows = map km_value found
        in raise_py (live_batch env kafka_source kafka_topic BK_Event
             (JArr (map (\<lambda>m. JStr (show_int (km_partition m) @ '':'' @ show_int (km_offset m))) found)) (map JObj rows)
             (map (\<lambda>(i, row). event_record env i row) (List.enumerate 0 rows)))))"

lemma consume_take: "n < limit \<Longrightarrow> consume limit n ms = take (nat (limit - n)) ms"
proof (induction limit n ms rule: consume.induct)
  case (2 limit n m ms)
  then have "nat (limit - n) = Suc (nat (limit - (n + 1)))" by simp
  with 2 show ?case by auto
qed simp

lemma kafka_snapshot_bounded:
  assumes "kafka_execute env (Inr ms) q = Inr b" and "0 < qr_limit q"
  shows "db_payload b = P_Json (JArr (map (\<lambda>m. JObj (km_value m)) (take (nat (qr_limit q)) ms)))"
  using assms consume_take [of 0 "qr_limit q" ms]
  by (auto simp: kafka_execute_def Let_def comp_def dest!: live_batch_payload split: if_splits)

section \<open>The service API and its client\<close>

definition appointment_page :: "appointment list \<Rightarrow> string option \<Rightarrow> string option \<Rightarrow> int
    \<Rightarrow> (appointment list \<times> string option) checked" where
  "appointment_page appointments service_order_id cursor page_size =
     (let filtered = (case service_order_id of None \<Rightarrow> appointments
            | Some i \<Rightarrow> filter (\<lambda>a. ap_service_order_id a = i) appointments);
          text = (case cursor of None \<Rightarrow> ''0'' | Some t \<Rightarrow> if t = [] then ''0'' else t)
      in case py_int text of
           None \<Rightarrow> Inl (ValueError ''cursor must be a non-negative integer'')
         | Some offset \<Rightarrow>
             if offset < 0 then Inl (ValueError ''cursor must be a non-negative integer'')
             else (let items = py_slice filtered offset (offset + page_size); next_offset = offset + int (length items)
                   in Inr (items, if next_offset < int (length filtered) then Some (show_int next_offset) else None)))"

record service_api =
  sa_appointments :: "appointment list"
  sa_page_size :: int
  sa_credential :: string

record http_request =
  \<comment> \<open>the path, the parsed query string and the Authorization header\<close>
  hr_path :: string
  hr_query :: "(string, string list) dict"
  hr_authorization :: "string option"

definition first_value :: "(string, string list) dict \<Rightarrow> string \<Rightarrow> string option" where
  "first_value query k = (case dict_get query k of Some (v # _) \<Rightarrow> Some v | _ \<Rightarrow> None)"

definition page_json :: "appointment list \<times> string option \<Rightarrow> json" where
  "page_json page = JObj [(''items'', JArr (map (\<lambda>a. JObj (ap_document a)) (fst page))), (''nextCursor'', opt_json (snd page))]"

definition do_get :: "service_api \<Rightarrow> http_request \<Rightarrow> int \<times> json" where
  "do_get api r =
     (if hr_path r = ''/health'' then (200, JObj [(''status'', JStr ''ok'')])
      else if hr_path r \<noteq> ''/v1/appointments'' then (404, JObj [(''error'', JStr ''not-found'')])
      else if hr_authorization r \<noteq> Some (''Bearer '' @ sa_credential api) then (401, JObj [(''error'', JStr ''unauthorized'')])
      else case appointment_page (sa_appointments api) (first_value (hr_query r) ''serviceOrderId'')
             (first_value (hr_query r) ''cursor'') (sa_page_size api) of
        Inl (ValueError message) \<Rightarrow> (400, JObj [(''error'', JStr message)])
      | Inl e \<Rightarrow> (500, JNull)
      | Inr page \<Rightarrow> (200, page_json page))"

definition rest_source :: string where "rest_source = ''whitegoods.service-api''"
definition rest_asset :: string where "rest_asset = ''appointments''"

type_synonym rest_page = "json list \<times> string option"

definition read_page :: "json \<Rightarrow> rest_page checked" where
  "read_page v =
     ck_bind (json_index v ''items'') (\<lambda>items.
     ck_bind (json_elements items) (\<lambda>rows.
     ck_bind (json_index v ''nextCursor'') (\<lambda>c.
     ck_bind (as_opt_text c) (\<lambda>cursor. Inr (rows, cursor)))))"

definition rest_get :: "(http_request \<Rightarrow> ext_error + int \<times> json) \<Rightarrow> string \<Rightarrow> string \<Rightarrow> string option \<Rightarrow> (live_error + rest_page)" where
  \<comment> \<open>\<open>urlopen\<close> raises for a status that is an error; the base URL ends in /v1\<close>
  "rest_get serve credential_file path cursor =
     ck_bind (raise_py (live_secret credential_file)) (\<lambda>token.
     ck_bind (ask (serve \<lparr>hr_path = ''/v1'' @ path, hr_query = (case cursor of None \<Rightarrow> [] | Some c \<Rightarrow> if c = [] then [] else [(''cursor'', [c])]),
         hr_authorization = Some (''Bearer '' @ token)\<rparr>)) (\<lambda>(status, body).
     if 400 \<le> status then Inl (Live_External (Ext_Exception ''HTTPError'')) else raise_py (read_page body)))"

partial_function (option) collect_pages ::
  "(string option \<Rightarrow> (live_error + rest_page)) \<Rightarrow> int \<Rightarrow> json list \<Rightarrow> string option \<Rightarrow> (live_error + json list) option" where
  \<comment> \<open>None is a loop that does not end\<close>
  "collect_pages get limit rows cursor =
     (if int (length rows) < limit
      then case get cursor of
          Inl e \<Rightarrow> Some (Inl e)
        | Inr (items, next_cursor) \<Rightarrow>
            (case next_cursor of
               None \<Rightarrow> Some (Inr (rows @ py_slice items 0 (limit - int (length rows))))
             | Some c \<Rightarrow> collect_pages get limit (rows @ py_slice items 0 (limit - int (length rows))) (Some c))
      else Some (Inr rows))"

definition rest_discover :: "(string option \<Rightarrow> (live_error + rest_page)) \<Rightarrow> string option \<Rightarrow> (live_error + asset list)" where
  "rest_discover get cursor =
     (if cursor \<noteq> None then Inl (Live_Raised (ValueError ''REST discovery does not accept a cursor''))
      else ck_bind (get None) (\<lambda>_. raise_py (live_assets rest_source ''collection'' [rest_asset])))"

definition rest_describe :: "live_env \<Rightarrow> asset_ref \<Rightarrow> asset_schema checked" where
  "rest_describe env ref =
     (if ref \<noteq> \<lparr>aref_source_id = rest_source, aref_asset_id = rest_asset\<rparr> then Inl (KeyError ''unknown REST asset: '')
      else live_schema env ref [lab_field ''appointment_id'' ''string'' False, lab_field ''service_order_id'' ''string'' False,
        lab_field ''technician_id'' ''string'' False, lab_field ''scheduled_at'' ''datetime'' False, lab_field ''status'' ''string'' False])"

definition rest_batch :: "live_env \<Rightarrow> json list \<Rightarrow> data_batch checked" where
  "rest_batch env rows =
     ck_bind (check_all (\<lambda>row. ck_bind (json_index row ''appointment_id'') as_text) rows) (\<lambda>ids.
     live_batch env rest_source rest_asset BK_Arrow (JArr rows) rows ids)"

definition rest_execute :: "live_env \<Rightarrow> (string option \<Rightarrow> (live_error + rest_page)) \<Rightarrow> query_request \<Rightarrow> (live_error + data_batch) option" where
  "rest_execute env get q =
     (if qr_source_id q \<noteq> rest_source \<or> qr_asset_ids q \<noteq> [rest_asset]
      then Some (Inl (Live_Raised (ValueError ''REST execution is restricted to appointments'')))
      else map_option (\<lambda>r. ck_bind r (\<lambda>rows. raise_py (rest_batch env rows))) (collect_pages get (qr_limit q) [] None))"

section \<open>The client reads the whole collection\<close>

definition appointment_json :: "appointment \<Rightarrow> json" where
  "appointment_json a = JObj (ap_document a)"

definition cursor_of :: "nat \<Rightarrow> string option" where
  "cursor_of k = (if k = 0 then None else Some (show_int (int k)))"

definition service_get :: "service_api \<Rightarrow> string \<Rightarrow> string option \<Rightarrow> (live_error + rest_page)" where
  \<comment> \<open>the client's \<open>_get\<close> answered by the service\<close>
  "service_get api credential_file = rest_get (\<lambda>r. Inr (do_get api r)) credential_file ''/appointments''"

definition credential_matches :: "service_api \<Rightarrow> string \<Rightarrow> bool" where
  "credential_matches api credential_file \<longleftrightarrow> str_strip credential_file \<noteq> [] \<and> sa_credential api = str_strip credential_file"

lemma py_int_zero: "py_int ''0'' = Some 0"
  using py_int_show [of 0] by (simp add: show_int_def show_nat.simps digit_char_def)

lemma appointment_page_at:
  assumes "k \<le> length appointments" and "0 < page_size"
  shows "appointment_page appointments None (cursor_of k) page_size =
    (let items = take (nat page_size) (drop k appointments); n = k + length items
     in Inr (items, if n < length appointments then cursor_of n else None))"
proof -
  define items where "items = take (nat page_size) (drop k appointments)"
  have pos: "py_int (case cursor_of k of None \<Rightarrow> ''0'' | Some t \<Rightarrow> if t = [] then ''0'' else t) = Some (int k)"
    by (simp add: cursor_of_def py_int_zero py_int_show)
  have slice: "py_slice appointments (int k) (int k + page_size) = items"
    using assms unfolding items_def by (subst py_slice_nonneg) simp_all
  have cursor: "cursor_of (k + length items) = Some (show_int (int k + int (length items)))" if "k + length items < length appointments"
    using that assms by (auto simp: cursor_of_def items_def)
  show ?thesis
    unfolding appointment_page_def Let_def option.case pos items_def [symmetric] by (simp add: slice cursor)
qed

lemma read_page_json [simp]: "read_page (page_json (items, c)) = Inr (map appointment_json items, c)"
proof -
  have "check_all as_text [] = Inr []" by simp
  then show ?thesis
    by (cases c) (simp_all add: read_page_def page_json_def json_elements_def as_opt_text_def opt_json_def appointment_json_def)
qed

lemma service_get_page:
  assumes "credential_matches api credential_file" and "k \<le> length (sa_appointments api)" and "0 < sa_page_size api"
  shows "service_get api credential_file (cursor_of k) =
    (let items = take (nat (sa_page_size api)) (drop k (sa_appointments api)); n = k + length items
     in Inr (map appointment_json items, if n < length (sa_appointments api) then cursor_of n else None))"
proof -
  have "first_value (case cursor_of k of None \<Rightarrow> [] | Some c \<Rightarrow> if c = [] then [] else [(''cursor'', [c])]) ''cursor'' = cursor_of k"
    by (simp add: cursor_of_def first_value_def)
  moreover have "first_value (case cursor_of k of None \<Rightarrow> [] | Some c \<Rightarrow> if c = [] then [] else [(''cursor'', [c])]) ''serviceOrderId'' = None"
    by (simp add: cursor_of_def first_value_def)
  ultimately show ?thesis using assms appointment_page_at [OF assms(2,3)]
    by (simp add: service_get_def rest_get_def do_get_def live_secret_def raise_py_def ask_def credential_matches_def Let_def)
qed

lemma collect_pages_from:
  assumes "credential_matches api credential_file" and "0 < sa_page_size api" and "k \<le> length (sa_appointments api)"
    and "k = 0 \<or> k < length (sa_appointments api)"
    and "int k \<le> limit" and "rows = map appointment_json (take k (sa_appointments api))"
  shows "collect_pages (service_get api credential_file) limit rows (cursor_of k)
    = Some (Inr (map appointment_json (take (nat limit) (sa_appointments api))))"
  using assms(3-6)
proof (induction "length (sa_appointments api) - k" arbitrary: k rows rule: less_induct)
  case less
  let ?all = "sa_appointments api" and ?size = "nat (sa_page_size api)"
  have len: "length rows = k" using less.prems(1,4) by simp
  show ?case
  proof (cases "int k < limit")
    case False
    then have "nat limit = k" using less.prems(3) by simp
    with False less.prems len show ?thesis by (simp add: collect_pages.simps)
  next
    case True
    define items where "items = take ?size (drop k ?all)"
    have slice: "py_slice (map appointment_json items) 0 (limit - int k) = map appointment_json (take (nat (limit - int k)) items)"
      using True by (simp add: py_slice_prefix take_map)
    have rows: "rows @ map appointment_json (take n items) = map appointment_json (take (k + min n ?size) ?all)" for n
      using less.prems(4) by (simp add: items_def take_add min.commute)
    have page: "service_get api credential_file (cursor_of k)
        = Inr (map appointment_json items, if k + length items < length ?all then cursor_of (k + length items) else None)"
      using service_get_page [OF assms(1) less.prems(1)] assms(2) by (simp add: items_def Let_def)
    show ?thesis
    proof (cases "k + length items < length ?all")
      case last: False
      then have "length ?all \<le> k + ?size" by (simp add: items_def)
      moreover have "k + nat (limit - int k) = nat limit" using True by simp
      ultimately have "take (k + min (nat (limit - int k)) ?size) ?all = take (nat limit) ?all"
        by (cases "nat (limit - int k) \<le> ?size") (simp_all add: min_def)
      with last page len True show ?thesis
        by (simp add: collect_pages.simps [of _ limit rows] slice rows)
    next
      case more: True
      then have size: "length items = ?size" and "0 < ?size" using assms(2) by (auto simp: items_def)
      have step: "collect_pages (service_get api credential_file) limit rows (cursor_of k)
          = collect_pages (service_get api credential_file) limit
              (map appointment_json (take (k + min (nat (limit - int k)) ?size) ?all)) (cursor_of (k + ?size))"
        using more page len True \<open>0 < ?size\<close>
        by (simp add: collect_pages.simps [of _ limit rows] slice rows size cursor_of_def)
      show ?thesis
      proof (cases "int k + int ?size \<le> limit")
        case True
        then have "min (nat (limit - int k)) ?size = ?size" by linarith
        moreover have "collect_pages (service_get api credential_file) limit
            (map appointment_json (take (k + ?size) ?all)) (cursor_of (k + ?size))
            = Some (Inr (map appointment_json (take (nat limit) ?all)))"
          by (rule less.hyps) (use more size \<open>0 < ?size\<close> True in simp_all)
        ultimately show ?thesis using step by simp
      next
        case False
        then have eq: "k + min (nat (limit - int k)) ?size = nat limit" using True by linarith
        have "length (take (nat limit) ?all) = nat limit" using more size False by (simp only: length_take)
        then have "collect_pages (service_get api credential_file) limit (map appointment_json (take (nat limit) ?all)) (cursor_of (k + ?size))
            = Some (Inr (map appointment_json (take (nat limit) ?all)))"
          using True by (subst collect_pages.simps) simp
        with step eq show ?thesis by (simp only:)
      qed
    qed
  qed
qed

text \<open>
  C30. The paging client ends, and what it collects from the service is the collection itself up to the limit, whatever the
  (positive) page size: page boundaries lose nothing and repeat nothing.
\<close>

theorem rest_client_collects_all:
  assumes "credential_matches api credential_file" and "0 < sa_page_size api" and "0 < limit"
  shows "collect_pages (service_get api credential_file) limit [] None
    = Some (Inr (map appointment_json (take (nat limit) (sa_appointments api))))"
  using collect_pages_from [OF assms(1,2), of 0 limit "[]"] assms(3) by (simp add: cursor_of_def)

text \<open>
  Against a service whose page size is zero the client never ends: each answer is an empty page with the cursor it was asked for.
\<close>

lemma empty_pages_never_end:
  assumes "credential_matches api credential_file" and "sa_page_size api = 0" and "sa_appointments api \<noteq> []" and "0 < limit"
  shows "collect_pages (service_get api credential_file) limit [] None = None"
proof -
  have zero: "show_int 0 = ''0''" by (simp add: show_int_def show_nat.simps digit_char_def)
  have page: "service_get api credential_file c = Inr ([], Some ''0'')" if "c \<in> {None, Some ''0''}" for c
  proof -
    have "py_slice (sa_appointments api) 0 0 = []" by (simp add: py_slice_prefix)
    with that assms(1-3) show ?thesis
      by (auto simp: service_get_def rest_get_def do_get_def live_secret_def raise_py_def ask_def credential_matches_def
          first_value_def appointment_page_def py_int_zero zero Let_def)
  qed
  have "\<not> (get = service_get api credential_file \<and> 0 < lim' \<and> rows = [] \<and> c \<in> {None, Some ''0''})"
    if "collect_pages get lim' rows c = Some r" for get lim' rows c r
  proof (rule collect_pages.raw_induct [where P = "\<lambda>get lim' rows c r.
      \<not> (get = service_get api credential_file \<and> 0 < lim' \<and> rows = [] \<and> c \<in> {None, Some ''0''})", OF _ that])
    fix f get lim' rows c y
    assume IH: "\<And>get lim' rows c y. f get lim' rows c = Some y \<Longrightarrow>
        \<not> (get = service_get api credential_file \<and> 0 < lim' \<and> rows = [] \<and> c \<in> {None, Some ''0''})"
      and eq: "(if int (length rows) < lim'
        then case get c of
            Inl e \<Rightarrow> Some (Inl e)
          | Inr (items, next_cursor) \<Rightarrow>
              (case next_cursor of
                 None \<Rightarrow> Some (Inr (rows @ py_slice items 0 (lim' - int (length rows))))
               | Some c \<Rightarrow> f get lim' (rows @ py_slice items 0 (lim' - int (length rows))) (Some c))
        else Some (Inr rows)) = Some y"
    show "\<not> (get = service_get api credential_file \<and> 0 < lim' \<and> rows = [] \<and> c \<in> {None, Some ''0''})"
    proof
      assume here: "get = service_get api credential_file \<and> 0 < lim' \<and> rows = [] \<and> c \<in> {None, Some ''0''}"
      then have "get c = Inr ([], Some ''0'')" using page by blast
      with here eq have "f get lim' [] (Some ''0'') = Some y" by (simp add: py_slice_prefix)
      from IH [OF this] here show False by simp
    qed
  qed
  then show ?thesis using assms(4) by (metis insertI1 not_None_eq)
qed

section \<open>A service of three appointments\<close>

definition sample_appointment :: "string \<Rightarrow> appointment" where
  "sample_appointment i = \<lparr>ap_appointment_id = i, ap_service_order_id = ''SO1'', ap_document = [(''appointment_id'', JStr i)]\<rparr>"

definition sample_api :: service_api where
  "sample_api = \<lparr>sa_appointments = [sample_appointment ''A1'', sample_appointment ''A2'', sample_appointment ''A3''], sa_page_size = 2,
     sa_credential = ''token''\<rparr>"

lemma sample_credential: "credential_matches sample_api ''token''"
  by (simp add: credential_matches_def sample_api_def str_strip_def is_space_def)

theorem rest_client_collects_all_witness:
  "collect_pages (service_get sample_api ''token'') 10 [] None
    = Some (Inr [JObj [(''appointment_id'', JStr ''A1'')], JObj [(''appointment_id'', JStr ''A2'')], JObj [(''appointment_id'', JStr ''A3'')]])"
  using rest_client_collects_all [OF sample_credential, of 10]
  by (simp add: sample_api_def sample_appointment_def appointment_json_def)

definition sample_live_env :: live_env where
  "sample_live_env = \<lparr>lv_repr = (\<lambda>v. []), lv_int = (\<lambda>v. case v of JInt n \<Rightarrow> Inr n | _ \<Rightarrow> Inl (ValueError ''int'')),
     lv_sha256 = (\<lambda>t. ''d''), lv_isoformat = (\<lambda>t. ''t''), lv_now = 0\<rparr>"

definition sample_db :: source_db where
  "sample_db = \<lparr>sd_orders = [(''SO1'', (JNull, 1)), (''SO2'', (JNull, 1))], sd_bindings = []\<rparr>"

definition resolve_action :: "string \<Rightarrow> string \<Rightarrow> action_plan" where
  "resolve_action order key = (sample_action key)\<lparr>ap_asset_id := ''service_orders'', ap_operation := ''resolve-service-order'',
     ap_parameters := [(''serviceOrderId'', JStr order), (''resolution'', JStr ''fixed'')],
     ap_preconditions := [(''recordVersion'', JInt 1), (''expectedResolution'', JNull)]\<rparr>"

lemma sample_resolution:
  "pg_attempt sample_live_env (None, resolve_action ''SO1'' ''k1'') sample_db
    = (Inr (pg_answer True True ''2'' False), \<lparr>sd_orders = [(''SO1'', (JStr ''fixed'', 2)), (''SO2'', (JNull, 1))],
        sd_bindings = [(''k1'', (''a1'', ''sha256:d'', 2))]\<rparr>)"
  by code_simp

lemma written_action_replays_example:
  "pg_attempt sample_live_env (None, resolve_action ''SO1'' ''k1'')
      (run_attempts sample_live_env [(None, resolve_action ''SO2'' ''k2'')] (snd (pg_attempt sample_live_env (None, resolve_action ''SO1'' ''k1'') sample_db)))
    = (Inr (pg_answer True True ''2'' True),
       run_attempts sample_live_env [(None, resolve_action ''SO2'' ''k2'')] (snd (pg_attempt sample_live_env (None, resolve_action ''SO1'' ''k1'') sample_db)))"
proof -
  have fresh: "dict_get (sd_bindings sample_db) (ap_idempotency_key (resolve_action ''SO1'' ''k1'')) = None"
    by (simp add: sample_db_def)
  have ok: "answer_success (pg_answer True True ''2'' False)" by (simp add: answer_success_def pg_answer_def member_def)
  show ?thesis
    using written_action_replays [OF sample_resolution ok fresh] sample_resolution by (simp add: pg_answer_def member_def)
qed

text \<open>A query that matches nothing raises: a batch needs lineage, and the lineage of no rows is empty.\<close>

lemma empty_result_is_an_error:
  assumes "pg_plan env server q = Inr st" and "pg_select server st = Inr []"
  shows "\<exists>e. pg_execute env server q = Inl (Live_Raised e)"
  using assms live_batch_empty [of env pg_source "ps_table st" BK_Arrow "JArr []" "[]"]
  by (cases "live_batch env pg_source (ps_table st) BK_Arrow (JArr []) [] []") (auto simp: pg_execute_def raise_py_def ask_def)

end
