(* ===== verification/Lab_Recovery.thy ===== *)
theory Lab_Recovery
  imports Durable_Gateway Idempotent_Sources
begin

text \<open>
  The recovery exercise of the industry labs (reference_labs/phase5_support.py) and the two labs that run it
  (white_goods/phase4.py, white_goods/phase5.py, cold_chain/phase4.py, cold_chain/phase5.py): a durable gateway executes an
  action on the labs' source, crashes after the source has applied it, and a second gateway on the same journal recovers.
  The gateway is the one of Durable_Gateway, connected to the source of Idempotent_Sources; what is proved is that the
  exercise succeeds for every action the source accepts.
\<close>

declare map_of_eq_Some_iff [simp del] Some_eq_map_of_iff [simp del]

section \<open>A gateway connected to the source\<close>

text \<open>
  What the exercise is run with: the policy, the verifier of approvals and the constant clock are its arguments; the bytes
  of the journal's file and \<open>str.encode\<close> are parameters.
\<close>

record recovery_lab =
  rl_prims :: prims
  rl_fromisoformat :: "string \<Rightarrow> datetime option"
  rl_source :: source_env
  rl_policy :: "authorization_request \<Rightarrow> ext_error + policy_decision"
  rl_verifier :: approval_verifier
  rl_now :: int
  rl_database :: "journal \<Rightarrow> string"
  rl_encode :: "string \<Rightarrow> string"

record durable_recovery_result =
  rr_outcome_unknown :: bool
  rr_blind_replay_blocked :: bool
  rr_recovered :: bool
  rr_restart_persisted :: bool
  rr_one_source_effect :: bool
  rr_journal_valid :: bool
  rr_payload_free_journal :: bool

definition recovery_key :: string where
  "recovery_key = ''phase5-lab-journal-integrity-key''"

definition source_answer :: "(py_error + (string, json) dict) \<Rightarrow> ext_error + json" where
  "source_answer r = (case r of
     Inr d \<Rightarrow> Inr (JObj d)
   | Inl e \<Rightarrow> Inl (Ext_Exception (case e of ValueError _ \<Rightarrow> ''ValueError'' | KeyError _ \<Rightarrow> ''KeyError'' | TypeError _ \<Rightarrow> ''TypeError''
       | PermissionError _ \<Rightarrow> ''PermissionError'' | AssertionError \<Rightarrow> ''AssertionError'')))"

definition recovery_journal :: "recovery_lab \<Rightarrow> journal_env" where
  "recovery_journal l = \<lparr>jv_prims = rl_prims l, jv_fromisoformat = rl_fromisoformat l, jv_integrity_key = recovery_key\<rparr>"

definition crash_hook :: "nat \<Rightarrow> action_plan \<Rightarrow> (string, json) dict \<Rightarrow> ext_error option" where
  "crash_hook n a result = Some (Ext_Exception ''RuntimeError'')"

type_synonym hook = "nat \<Rightarrow> action_plan \<Rightarrow> (string, json) dict \<Rightarrow> ext_error option"

definition recovery_env :: "recovery_lab \<Rightarrow> registry \<Rightarrow> hook option \<Rightarrow> mutation_source \<Rightarrow> durable_env" where
  \<comment> \<open>the gateway as long as the source is in the given state; the in-memory telemetry sink never fails\<close>
  "recovery_env l r hook m = \<lparr>
     dx_action = \<lparr>ax_prims = rl_prims l, ax_registry = r, ax_policy = (\<lambda>n. rl_policy l), ax_sink = (\<lambda>n e. None),
       ax_clock = (\<lambda>n. rl_now l), ax_mutate = (\<lambda>n i q. source_answer (fst (lab_mutate (rl_source l) q m))),
       ax_verifier = Some (rl_verifier l)\<rparr>,
     dx_fromisoformat = rl_fromisoformat l, dx_integrity_key = recovery_key, dx_after_mutation = hook,
     dx_reconcile = (\<lambda>i. Some (\<lambda>n q. source_answer (lab_reconcile (rl_source l) q m)))\<rparr>"

type_synonym recovery_state = "durable_gateway_state \<times> mutation_source"

definition serve :: "source_env \<Rightarrow> dispatch list \<Rightarrow> mutation_source \<Rightarrow> mutation_source" where
  "serve env sent m = fold (\<lambda>d m. snd (lab_mutate env (snd d) m)) sent m"

type_synonym ('m, 'a) lab_op = "('m gateway_state_scheme \<times> mutation_source, action_error, 'a) sm"

definition at_source :: "recovery_lab \<Rightarrow> (mutation_source \<Rightarrow> ('m, 'a) gw_op) \<Rightarrow> ('m, 'a) lab_op" where
  \<comment> \<open>one call of a gateway, which mutates the source at most once: it meets the source as it is and leaves it as the mutations sent\<close>
  "at_source l op st = (case st of (s, m) \<Rightarrow> case op m s of (r, t) \<Rightarrow>
     (r, t, serve (rl_source l) (drop (length (gst_dispatches s)) (gst_dispatches t)) m))"

definition caught :: "(action_error \<Rightarrow> bool) \<Rightarrow> ('m, 'a) lab_op \<Rightarrow> ('m, bool) lab_op" where
  \<comment> \<open>\<open>try: ... except ...: flag = True\<close> with the flag False before; another exception passes\<close>
  "caught P op st = (case op st of
     (Inl e, t) \<Rightarrow> (if P e then Inr True else Inl e, t) | (Inr _, t) \<Rightarrow> (Inr False, t))"

definition outcome_is_unknown :: "action_error \<Rightarrow> bool" where
  "outcome_is_unknown e = (case e of Ax_Outcome_Unknown _ \<Rightarrow> True | _ \<Rightarrow> False)"

definition new_process :: "(recovery_state, action_error, unit) sm" where
  \<comment> \<open>a second journal on the same file and a second gateway: the audit ledger of the first one is gone\<close>
  "new_process st = (case st of (s, m) \<Rightarrow> (Inr (), s\<lparr>gst_audit := []\<rparr>, m))"

definition persisted :: "durable_record list \<Rightarrow> bool" where
  "persisted pending = (case pending of [r] \<Rightarrow> dr_state r = DS_Reconciliation_Required \<and> dr_attempts r = 1 | _ \<Rightarrow> False)"

definition sensitive_values :: "recovery_lab \<Rightarrow> action_plan \<Rightarrow> string list" where
  "sensitive_values l a =
     (let values = filter (\<lambda>v. v \<noteq> JNull) (map snd (ap_parameters a) @ map snd (ap_preconditions a))
      in filter (\<lambda>t. 4 \<le> length t) (map (py_str (pr_repr (rl_prims l))) values))"

definition payload_free :: "recovery_lab \<Rightarrow> action_plan \<Rightarrow> journal \<Rightarrow> bool" where
  "payload_free l a j = (\<not> list_ex (\<lambda>t. str_contains (rl_database l j) (rl_encode l t)) (sensitive_values l a))"

definition recovery_steps :: "recovery_lab \<Rightarrow> registry \<Rightarrow> action_plan \<Rightarrow> action_approval \<Rightarrow> request_identity
    \<Rightarrow> (recovery_state, action_error, durable_recovery_result) sm" where
  "recovery_steps l r a approval i =
     (let first = recovery_env l r (Some crash_hook); second = recovery_env l r None; jv = recovery_journal l
      in sm_bind (at_source l (\<lambda>m. preview_action (dx_action (first m)) a i five_minutes)) (\<lambda>preview.
         sm_bind (caught outcome_is_unknown (at_source l (\<lambda>m. durable_execute (first m) a preview i (Some approval)))) (\<lambda>outcome_unknown.
         sm_bind new_process (\<lambda>_.
         sm_bind (at_source l (\<lambda>m. in_journal (journal_pending jv))) (\<lambda>pending.
         sm_bind (caught outcome_is_unknown (at_source l (\<lambda>m. durable_execute (second m) a preview i (Some approval)))) (\<lambda>blocked.
         sm_bind (at_source l (\<lambda>m. durable_reconcile (second m) a i)) (\<lambda>receipt.
         sm_bind (at_source l (\<lambda>m. durable_execute (second m) a preview i (Some approval))) (\<lambda>replay.
         sm_bind (at_source l (\<lambda>m. in_journal (journal_get jv (ap_source_id a) (ap_idempotency_key a)))) (\<lambda>stored st.
           (Inr \<lparr>rr_outcome_unknown = outcome_unknown, rr_blind_replay_blocked = blocked,
              rr_recovered = (rc_state receipt = AS_Recovered \<and> rc_state replay = AS_Already_Executed),
              rr_restart_persisted = (persisted pending
                \<and> (case stored of None \<Rightarrow> False | Some q \<Rightarrow> dr_state q = DS_Executed)),
              rr_one_source_effect = (ms_mutation_count (snd st) = 1),
              rr_journal_valid = journal_verify jv (dst_journal (fst st)),
              rr_payload_free_journal = payload_free l a (dst_journal (fst st))\<rparr>, st))))))))))"

definition run_durable_recovery :: "recovery_lab \<Rightarrow> action_plan \<Rightarrow> action_approval \<Rightarrow> request_identity \<Rightarrow> mutation_source
    \<Rightarrow> (action_error + durable_recovery_result) \<times> recovery_state" where
  "run_durable_recovery l a approval i m =
     (case register (source_profile (ms_source_id m)) empty_registry of
        Inl e \<Rightarrow> (Inl (Ax_Registry e), durable_start, m)
      | Inr r \<Rightarrow> recovery_steps l r a approval i (durable_start, m))"

section \<open>The calls of the exercise\<close>

lemma recovery_env_simps [simp]:
  "ax_prims (dx_action (recovery_env l r h m)) = rl_prims l" "ax_registry (dx_action (recovery_env l r h m)) = r"
  "ax_policy (dx_action (recovery_env l r h m)) = (\<lambda>n. rl_policy l)" "ax_sink (dx_action (recovery_env l r h m)) = (\<lambda>n e. None)"
  "ax_clock (dx_action (recovery_env l r h m)) = (\<lambda>n. rl_now l)" "ax_verifier (dx_action (recovery_env l r h m)) = Some (rl_verifier l)"
  "ax_mutate (dx_action (recovery_env l r h m)) = (\<lambda>n i q. source_answer (fst (lab_mutate (rl_source l) q m)))"
  "dx_journal (recovery_env l r h m) = recovery_journal l" "dx_after_mutation (recovery_env l r h m) = h"
  "dx_reconcile (recovery_env l r h m) = (\<lambda>i. Some (\<lambda>n q. source_answer (lab_reconcile (rl_source l) q m)))"
  by (simp_all add: recovery_env_def dx_journal_def recovery_journal_def)

lemma recovery_journal_simps [simp]:
  "jv_prims (recovery_journal l) = rl_prims l"
  by (simp add: recovery_journal_def)

text \<open>A telemetry event of a gateway whose sink never fails costs two ticks and nothing else.\<close>

lemma calm_emit:
  assumes "str_startswith name ''data.harness.''"
    and "set (dict_keys attrs) \<subseteq> {''source_id'', ''action_id'', ''stage'', ''allowed'', ''decision_id'', ''source_version'', ''receipt_id''}"
    and "ax_sink env = (\<lambda>n e. None)"
  shows "emit_event env name i attrs action_id s = (Inr (), s\<lparr>gst_tick := Suc (Suc (gst_tick s))\<rparr>)"
proof -
  have "mk_telemetry_event \<lparr>te_name = name, te_identity = i, te_occurred_at = utc t, te_attributes = attrs\<rparr>
      = Inr \<lparr>te_name = name, te_identity = i, te_occurred_at = utc t, te_attributes = attrs\<rparr>" for t
    using assms(1,2) gateway_attribute_names unfolding mk_telemetry_event_Inr by auto
  with assms(3) show ?thesis
    by (simp add: emit_event_def current_time_def next_tick_def sm_bind_def)
qed

lemma calm_stage:
  assumes "set (dict_keys attrs) \<subseteq> {''source_id'', ''action_id'', ''stage'', ''allowed'', ''decision_id'', ''source_version'', ''receipt_id''}"
    and "ax_sink env = (\<lambda>n e. None)"
  shows "emit_stage env stage a i attrs s = (Inr (), s\<lparr>gst_tick := Suc (Suc (gst_tick s))\<rparr>)"
  using assms unfolding emit_stage_def by (intro calm_emit) (auto simp: str_startswith_def)

text \<open>What the exercise assumes of its policy, its approval and its journal; \<open>d\<close> are the decisions by stage.\<close>

definition governed :: "recovery_lab \<Rightarrow> action_plan \<Rightarrow> action_approval \<Rightarrow> request_identity \<Rightarrow> (string \<Rightarrow> policy_decision) \<Rightarrow> bool" where
  "governed l a approval i d \<longleftrightarrow>
     (\<forall>stage \<in> {''preview'', ''execute'', ''reconcile''}.
        rl_policy l (mutation_authorization (rl_prims l) a i stage) = Inr (d stage) \<and> pd_allowed (d stage))
     \<and> (ap_approval_mode a = Approval_None \<or> rl_verifier l approval a i (utc (rl_now l)) False = Inr True)
     \<and> time_ok (recovery_journal l) (utc (rl_now l))"

lemma authorized:
  assumes "governed l a approval i d" and "stage \<in> {''preview'', ''execute'', ''reconcile''}"
  shows "authorize_action (dx_action (recovery_env l r h m)) a i stage s = (Inr (d stage), s\<lparr>gst_tick := gst_tick s + 3\<rparr>)"
proof -
  have "rl_policy l (mutation_authorization (rl_prims l) a i stage) = Inr (d stage)"
    using assms unfolding governed_def by blast
  then show ?thesis
    by (simp add: authorize_action_def next_tick_def sm_bind_def calm_emit str_startswith_def)
qed

lemma checked:
  fixes s :: "'m gateway_state_scheme"
  assumes g: "governed l a approval i d"
    and v: "preview_valid (rl_prims l) a v i (utc (rl_now l))"
  shows "check_action (dx_action (recovery_env l r h m)) a v i (Some approval) s
    = (Inr (utc (rl_now l), d ''execute''), s\<lparr>gst_tick := gst_tick s + 4\<rparr>)"
proof -
  have "approval_ok (dx_action (recovery_env l r h m)) a (Some approval) i (utc (rl_now l)) False"
    using g by (simp add: approval_ok_def governed_def)
  then have "validate_approval (dx_action (recovery_env l r h m)) a (Some approval) i (utc (rl_now l)) False t = (Inr (), t)"
    for t :: "'m gateway_state_scheme"
    using validate_approval_Inr [of "dx_action (recovery_env l r h m)" a "Some approval" i _ False t "()" t] by simp
  moreover have "pd_allowed (d ''execute'')" using g unfolding governed_def by blast
  ultimately show ?thesis
    by (simp add: check_action_def current_time_def next_tick_def validate_preview_def v sm_bind_def authorized [OF g])
qed

lemma looked_up:
  "registry_lookup (dx_action (recovery_env l [(i, source_profile i)] h m)) i s = (Inr (source_profile i), s)"
  by (simp add: registry_lookup_def get_connector_def source_profile_def)

lemma previewed:
  assumes g: "governed l a approval i d" and r: "r = [(ap_source_id a, source_profile (ap_source_id a))]"
  shows "\<exists>t. preview_action (dx_action (recovery_env l r h m)) a i five_minutes s =
      (Inr (preview_of (rl_prims l) a i (d ''preview'') (utc (rl_now l)) five_minutes), t) \<and> keeps s t"
proof -
  let ?E = "dx_action (recovery_env l r h m)"
  let ?v = "preview_of (rl_prims l) a i (d ''preview'') (utc (rl_now l)) five_minutes"
  let ?s = "s\<lparr>gst_tick := Suc (gst_tick s + 3)\<rparr>"
  have ok: "cp_supports_idempotency_key (pf_consistency (source_profile (ap_source_id a)))"
    by (simp add: source_profile_def)
  have mk: "mk_action_preview ?v = Inr ?v"
    by (simp add: mk_action_preview_def preview_of_def five_minutes_def)
  obtain e audit where audit: "audit_append (rl_prims l) ''previewed'' (ap_action_id a) (utc (rl_now l))
      [(''allowed'', JBool (pd_allowed (d ''preview''))), (''decision_id'', JStr (pd_decision_id (d ''preview'')))] (gst_audit s) = Inr (e, audit)"
    using audit_append_aware [OF aware_utc] by blast
  have "\<exists>t. preview_action ?E a i five_minutes s = (Inr ?v, t)"
    using audit by (simp add: preview_action_def r looked_up ok authorized [OF g] current_time_def next_tick_def mk audit_event_def
        calm_stage sm_bind_def)
  then show ?thesis using quietD [OF quiet_preview_action] by blast
qed

section \<open>The journal of one action\<close>

text \<open>A journal that holds one action: its row in a state, and the events so far.\<close>

definition action_row :: "recovery_lab \<Rightarrow> action_plan \<Rightarrow> string \<Rightarrow> durable_state_value \<Rightarrow> int \<Rightarrow> mutation_receipt option
    \<Rightarrow> string \<Rightarrow> journal_row" where
  "action_row l a decision st attempts receipt digest = \<lparr>jr_source_id = ap_source_id a, jr_idempotency_key = ap_idempotency_key a,
     jr_action_id = ap_action_id a, jr_action_digest = plan_digest (rl_prims l) a, jr_state = durable_value st,
     jr_policy_decision_id = decision, jr_started_at = pr_isoformat (rl_prims l) (utc (rl_now l)),
     jr_updated_at = pr_isoformat (rl_prims l) (utc (rl_now l)), jr_attempts = attempts,
     jr_source_version = map_option rc_source_version receipt,
     jr_receipt_json = map_option (\<lambda>r. JObj (receipt_contract (rl_prims l) r)) receipt, jr_journal_digest = digest\<rparr>"

definition action_record :: "recovery_lab \<Rightarrow> action_plan \<Rightarrow> string \<Rightarrow> durable_state_value \<Rightarrow> int \<Rightarrow> mutation_receipt option
    \<Rightarrow> string \<Rightarrow> durable_record" where
  "action_record l a decision st attempts receipt digest = \<lparr>dr_source_id = ap_source_id a, dr_idempotency_key = ap_idempotency_key a,
     dr_action_id = ap_action_id a, dr_action_digest = plan_digest (rl_prims l) a, dr_state = st,
     dr_policy_decision_id = decision, dr_started_at = utc (rl_now l), dr_updated_at = utc (rl_now l), dr_attempts = attempts,
     dr_source_version = map_option rc_source_version receipt, dr_receipt = receipt, dr_journal_digest = digest\<rparr>"

definition action_journal :: "recovery_lab \<Rightarrow> action_plan \<Rightarrow> string \<Rightarrow> durable_state_value \<Rightarrow> int \<Rightarrow> mutation_receipt option
    \<Rightarrow> journal_event list \<Rightarrow> journal" where
  "action_journal l a decision st attempts receipt es =
     \<lparr>jn_records = [(action_key a, action_row l a decision st attempts receipt (je_digest (last es)))], jn_events = es\<rparr>"

lemma action_record_simps [simp]:
  "dr_action_digest (action_record l a d st n rc dg) = plan_digest (rl_prims l) a" "dr_state (action_record l a d st n rc dg) = st"
  "dr_attempts (action_record l a d st n rc dg) = n" "dr_receipt (action_record l a d st n rc dg) = rc"
  "dr_started_at (action_record l a d st n rc dg) = utc (rl_now l)"
  by (simp_all add: action_record_def)

lemma record_of_action_row:
  assumes "time_ok (recovery_journal l) (utc (rl_now l))"
    and "\<forall>r \<in> set_option receipt. rc_started_at r = utc (rl_now l) \<and> rc_completed_at r = utc (rl_now l)"
  shows "record_of_row (recovery_journal l) (action_row l a d st n receipt dg) = Inr (action_record l a d st n receipt dg)"
proof -
  have "stored_receipt (recovery_journal l) (jr_receipt_json (action_row l a d st n receipt dg)) = Inr receipt"
    using assms stored_receipt_contract [of "recovery_journal l"]
    by (cases receipt) (simp_all add: action_row_def receipt_times_ok_def)
  moreover have "parse_time (recovery_journal l) (pr_isoformat (rl_prims l) (utc (rl_now l))) = Inr (utc (rl_now l))"
    using parse_time_ok [OF assms(1)] by simp
  ultimately show ?thesis by (simp add: record_of_row_def action_row_def action_record_def)
qed

lemma reread_action:
  assumes "time_ok (recovery_journal l) (utc (rl_now l))"
    and "\<forall>r \<in> set_option receipt. rc_started_at r = utc (rl_now l) \<and> rc_completed_at r = utc (rl_now l)"
  shows "reread (recovery_journal l) a (action_journal l a d st n receipt es)
    = (Inr (action_record l a d st n receipt (je_digest (last es))), action_journal l a d st n receipt es)"
  by (simp add: reread_Inr action_journal_def record_of_action_row [OF assms])

lemma prepared_journal:
  assumes "time_ok (recovery_journal l) (utc (rl_now l))"
  shows "\<exists>e. journal_prepare (recovery_journal l) a d (utc (rl_now l)) empty_journal
      = (Inr (action_record l a d DS_Prepared 0 None (je_digest e)), action_journal l a d DS_Prepared 0 None [e])
    \<and> je_event_type e = durable_value DS_Prepared \<and> je_action_id e = ap_action_id a
    \<and> je_attributes e = prepared_attributes (rl_prims l) a d \<and> journal_chain.chain_ok (recovery_journal l) journal_genesis [e]"
proof -
  let ?e = "next_event (recovery_journal l) (durable_value DS_Prepared) (ap_action_id a) (utc (rl_now l)) (prepared_attributes (rl_prims l) a d) []"
  have "journal_prepare (recovery_journal l) a d (utc (rl_now l)) empty_journal
      = reread (recovery_journal l) a (action_journal l a d DS_Prepared 0 None [?e])"
    by (simp add: journal_prepare_def empty_journal_def Let_def action_journal_def prepared_row_def action_row_def)
  with reread_action [OF assms, of None a d DS_Prepared 0 "[?e]"] next_event_chain [of "recovery_journal l" "[]"]
  show ?thesis by (intro exI [of _ ?e]) simp
qed

lemma prepared_again:
  assumes "time_ok (recovery_journal l) (utc (rl_now l))"
    and "\<forall>r \<in> set_option receipt. rc_started_at r = utc (rl_now l) \<and> rc_completed_at r = utc (rl_now l)"
  shows "journal_prepare (recovery_journal l) a d' now (action_journal l a d st n receipt es)
    = (Inr (action_record l a d st n receipt (je_digest (last es))), action_journal l a d st n receipt es)"
  using assms by (simp add: journal_prepare_def action_journal_def record_of_action_row py_result_def)

lemma begun_journal:
  assumes "time_ok (recovery_journal l) (utc (rl_now l))"
  shows "\<exists>x e. journal_begin (recovery_journal l) a (utc (rl_now l)) (action_journal l a d DS_Prepared n None es)
      = (Inr x, action_journal l a d DS_Executing (n + 1) None (es @ [e]))
    \<and> je_event_type e = durable_value DS_Executing
    \<and> (journal_chain.chain_ok (recovery_journal l) journal_genesis es \<longrightarrow> journal_chain.chain_ok (recovery_journal l) journal_genesis (es @ [e]))"
proof -
  let ?e = "next_event (recovery_journal l) (durable_value DS_Executing) (ap_action_id a) (utc (rl_now l))
    [(''source_id'', JStr (ap_source_id a)), (''attempt'', JInt (n + 1))] es"
  have "journal_begin (recovery_journal l) a (utc (rl_now l)) (action_journal l a d DS_Prepared n None es)
      = reread (recovery_journal l) a (action_journal l a d DS_Executing (n + 1) None (es @ [?e]))"
    by (simp add: journal_begin_def action_journal_def record_of_action_row [OF assms] py_result_def Let_def)
      (simp add: action_row_def)
  with reread_action [OF assms, of None a d DS_Executing "n + 1" "es @ [?e]"] next_event_chain [of "recovery_journal l" es]
  show ?thesis by (intro exI [of _ "action_record l a d DS_Executing (n + 1) None (je_digest ?e)"] exI [of _ ?e]) simp
qed

lemma begun_again:
  assumes "time_ok (recovery_journal l) (utc (rl_now l))"
  shows "\<exists>msg. journal_begin (recovery_journal l) a now (action_journal l a d DS_Reconciliation_Required n None es)
    = (Inl (Ax_Outcome_Unknown msg), action_journal l a d DS_Reconciliation_Required n None es)"
  by (simp add: journal_begin_def action_journal_def record_of_action_row [OF assms] py_result_def)

lemma finished_journal:
  assumes "time_ok (recovery_journal l) (utc (rl_now l))"
    and "\<forall>r \<in> set_option receipt. rc_started_at r = utc (rl_now l) \<and> rc_completed_at r = utc (rl_now l)"
  shows "\<exists>x e. journal_finish (recovery_journal l) a st receipt (map_option rc_source_version receipt) (utc (rl_now l)) reason
        (action_journal l a d st' n receipt' es)
      = (Inr x, action_journal l a d st n receipt (es @ [e]))
    \<and> je_event_type e = durable_value st \<and> je_action_id e = ap_action_id a
    \<and> (journal_chain.chain_ok (recovery_journal l) journal_genesis es \<longrightarrow> journal_chain.chain_ok (recovery_journal l) journal_genesis (es @ [e]))"
proof -
  let ?e = "next_event (recovery_journal l) (durable_value st) (ap_action_id a) (utc (rl_now l))
    (finish_attributes a (map_option rc_source_version receipt) reason) es"
  have "journal_finish (recovery_journal l) a st receipt (map_option rc_source_version receipt) (utc (rl_now l)) reason
        (action_journal l a d st' n receipt' es)
      = reread (recovery_journal l) a (action_journal l a d st n receipt (es @ [?e]))"
    by (simp add: journal_finish_def action_journal_def Let_def) (simp add: action_row_def)
  with reread_action [OF assms, of a d st n "es @ [?e]"] next_event_chain [of "recovery_journal l" es]
  show ?thesis by (intro exI [of _ "action_record l a d st n receipt (je_digest ?e)"] exI [of _ ?e]) simp
qed

text \<open>A journal of one action verifies if its events are a chain that starts with the preparation and prepares nothing else.\<close>

lemma action_journal_verifies:
  assumes "time_ok (recovery_journal l) (utc (rl_now l))"
    and "rc_started_at r = utc (rl_now l)" "rc_completed_at r = utc (rl_now l)"
    and "rc_action_id r = ap_action_id a" "rc_action_digest r = plan_digest (rl_prims l) a" "rc_idempotency_key r = ap_idempotency_key a"
    and chain: "journal_chain.chain_ok (recovery_journal l) journal_genesis (e1 # es @ [e])"
    and e1: "je_event_type e1 = durable_value DS_Prepared" "je_action_id e1 = ap_action_id a"
      "je_attributes e1 = prepared_attributes (rl_prims l) a d"
    and es: "\<forall>x \<in> set es. je_event_type x \<noteq> durable_value DS_Prepared"
    and e: "je_event_type e = durable_value DS_Executed" "je_action_id e = ap_action_id a"
  shows "journal_verify (recovery_journal l) (action_journal l a d DS_Executed n (Some r) (e1 # es @ [e]))"
proof -
  have last_wins: "dict_get (digest_index (e1 # es @ [e]) []) (je_digest e) = Some e"
    by (simp add: digest_index_def)
  have others: "fold (\<lambda>x. if je_event_type x = durable_value DS_Prepared then dict_set (je_action_id x) (je_attributes x) else id) es p = p" for p
    using es by (induction es arbitrary: p) simp_all
  have prepared: "dict_get (prepared_index (e1 # es @ [e]) []) (ap_action_id a) = Some (prepared_attributes (rl_prims l) a d)"
    using e1 e others by (simp add: prepared_index_def)
  let ?row = "action_row l a d DS_Executed n (Some r) (je_digest e)"
  have "record_of_row (recovery_journal l) ?row = Inr (action_record l a d DS_Executed n (Some r) (je_digest e))"
    using assms(1-3) by (intro record_of_action_row) auto
  moreover have "row_prepared (prepared_attributes (rl_prims l) a d) ?row"
    by (simp add: row_prepared_def prepared_attributes_def action_row_def)
  moreover have "jr_journal_digest ?row = je_digest e" "jr_action_id ?row = ap_action_id a" "jr_state ?row = durable_value DS_Executed"
    by (simp_all add: action_row_def)
  ultimately have "verify_row (recovery_journal l) (digest_index (e1 # es @ [e]) []) (prepared_index (e1 # es @ [e]) []) ?row"
    using last_wins prepared e assms(4-6) by (simp add: verify_row_def action_record_def)
  then show ?thesis using chain by (simp add: journal_verify_def scan_events_eq action_journal_def del: journal_chain.chain_ok.simps)
qed

section \<open>The source and the gateway together\<close>

text \<open>The source accepts an action: it is for its asset, its preconditions hold, its new value is a text and its key is new.\<close>

definition accepts :: "source_env \<Rightarrow> mutation_source \<Rightarrow> action_plan \<Rightarrow> string \<Rightarrow> bool" where
  "accepts env m a new \<longleftrightarrow> ap_source_id a = ms_source_id m \<and> ap_asset_id a = ms_asset_id m
     \<and> (\<exists>v. dict_get (ap_preconditions a) ''expectedVersion'' = Some v \<and> se_int env v = Inr (ms_version m))
     \<and> (\<exists>x. dict_get (ap_preconditions a) ''expectedValue'' = Some x \<and> py_str (se_repr env) x = ms_value m)
     \<and> dict_get (ap_parameters a) ''newValue'' = Some (JStr new)
     \<and> dict_get (ms_idempotency m) (ap_idempotency_key a) = None"

definition written :: "action_plan \<Rightarrow> string \<Rightarrow> mutation_source \<Rightarrow> mutation_source" where
  "written a new m = m\<lparr>ms_value := new, ms_version := ms_version m + 1, ms_mutation_count := ms_mutation_count m + 1,
     ms_idempotency := dict_set (ap_idempotency_key a) (ap_action_id a, mutation_answer True True (ms_version m + 1)) (ms_idempotency m)\<rparr>"

lemma accepted_mutation:
  assumes "accepts env m a new"
  shows "lab_mutate env (mutation_request a) m = (Inr (mutation_answer True True (ms_version m + 1)), written a new m)"
proof -
  from assms obtain v x where pre: "dict_get (ap_preconditions a) ''expectedVersion'' = Some v" "se_int env v = Inr (ms_version m)"
      "dict_get (ap_preconditions a) ''expectedValue'' = Some x" "py_str (se_repr env) x = ms_value m"
    and rest: "ap_asset_id a = ms_asset_id m" "dict_get (ap_parameters a) ''newValue'' = Some (JStr new)"
      "dict_get (ms_idempotency m) (ap_idempotency_key a) = None"
    by (auto simp: accepts_def)
  have "precondition_holds env m (mutation_request a) = Inr True"
    by (simp add: precondition_holds_def json_index_def pre rest)
  with rest show ?thesis by (simp add: lab_mutate_def json_index_def written_def Let_def)
qed

lemma written_reconciles:
  "lab_reconcile env [(''action_id'', JStr (ap_action_id a)), (''idempotency_key'', JStr (ap_idempotency_key a)), (''action_digest'', x)]
      (written a new m)
    = Inr [(''applied'', JBool True), (''postconditions_met'', JBool True), (''source_version'', JStr (show_int (ms_version m + 1)))]"
  by (simp add: lab_reconcile_def req_index_def json_index_def written_def mutation_answer_def member_def Let_def)

text \<open>The first execution: the source is written and the hook crashes, so the journal demands a reconciliation.\<close>

lemma crashed_execution:
  fixes s :: durable_gateway_state
  assumes g: "governed l a approval i d" and r: "r = [(ap_source_id a, source_profile (ap_source_id a))]"
    and v: "preview_valid (rl_prims l) a v i (utc (rl_now l))" and j: "dst_journal s = empty_journal"
    and m: "accepts (rl_source l) m a new"
  shows "\<exists>msg t e1 e2 e3. durable_execute (recovery_env l r (Some crash_hook) m) a v i (Some approval) s = (Inl (Ax_Outcome_Unknown msg), t)
    \<and> dst_journal t = action_journal l a (pd_decision_id (d ''execute'')) DS_Reconciliation_Required 1 None [e1, e2, e3]
    \<and> gst_dispatches t = gst_dispatches s @ [(ap_source_id a, mutation_request a)]
    \<and> je_event_type e1 = durable_value DS_Prepared \<and> je_action_id e1 = ap_action_id a
    \<and> je_attributes e1 = prepared_attributes (rl_prims l) a (pd_decision_id (d ''execute''))
    \<and> je_event_type e2 \<noteq> durable_value DS_Prepared \<and> je_event_type e3 \<noteq> durable_value DS_Prepared
    \<and> journal_chain.chain_ok (recovery_journal l) journal_genesis [e1, e2, e3]"
proof -
  let ?E = "recovery_env l r (Some crash_hook) m" and ?jv = "recovery_journal l" and ?now = "utc (rl_now l)"
  let ?dec = "pd_decision_id (d ''execute'')" and ?answer = "mutation_answer True True (ms_version m + 1)"
  from g have time: "time_ok ?jv ?now" by (simp add: governed_def)
  obtain e1 where e1: "journal_prepare ?jv a ?dec ?now empty_journal
        = (Inr (action_record l a ?dec DS_Prepared 0 None (je_digest e1)), action_journal l a ?dec DS_Prepared 0 None [e1])"
      "je_event_type e1 = durable_value DS_Prepared" "je_action_id e1 = ap_action_id a"
      "je_attributes e1 = prepared_attributes (rl_prims l) a ?dec" "journal_chain.chain_ok ?jv journal_genesis [e1]"
    using prepared_journal [OF time] by blast
  obtain x e2 where e2: "journal_begin ?jv a ?now (action_journal l a ?dec DS_Prepared 0 None [e1])
        = (Inr x, action_journal l a ?dec DS_Executing 1 None [e1, e2])"
      "je_event_type e2 = durable_value DS_Executing" "journal_chain.chain_ok ?jv journal_genesis [e1, e2]"
    using begun_journal [OF time, of a ?dec 0 "[e1]"] e1(5) by auto
  obtain y e3 where e3: "journal_require_reconciliation ?jv a ?now ''outcome-unknown-after-dispatch'' (action_journal l a ?dec DS_Executing 1 None [e1, e2])
        = (Inr y, action_journal l a ?dec DS_Reconciliation_Required 1 None [e1, e2, e3])"
      "je_event_type e3 = durable_value DS_Reconciliation_Required" "journal_chain.chain_ok ?jv journal_genesis [e1, e2, e3]"
    using finished_journal [OF time, of None a DS_Reconciliation_Required "Some ''outcome-unknown-after-dispatch''" ?dec DS_Executing 1 None "[e1, e2]"]
      e2(3) by (auto simp: journal_require_reconciliation_def)
  let ?s = "s\<lparr>gst_tick := gst_tick s + 4, dst_journal := action_journal l a ?dec DS_Executing 1 None [e1, e2]\<rparr>"
  let ?u = "?s\<lparr>gst_tick := Suc (gst_tick s + 4), gst_dispatches := gst_dispatches s @ [(ap_source_id a, mutation_request a)]\<rparr>"
  let ?w = "?u\<lparr>gst_tick := Suc (gst_tick ?u)\<rparr>"
  have "durable_execute ?E a v i (Some approval) s = durable_answered ?E a i (d ''execute'') ?now (Inr (JObj ?answer)) ?u"
    by (simp add: durable_execute_def durable_dispatch_def sm_bind_def checked [OF g v] in_journal_def j e1(1) e2(1) stored_result_def
        r looked_up send_mutation_eq accepted_mutation [OF m] source_answer_def)
  also have "\<dots> = outcome_unknown ?E a i ?w"
    by (simp add: durable_answered_def run_hook_def crash_hook_def next_tick_def sm_bind_def)
  finally have run: "durable_execute ?E a v i (Some approval) s = outcome_unknown ?E a i ?w" .
  have "\<exists>msg t. outcome_unknown ?E a i ?w = (Inl (Ax_Outcome_Unknown msg), t)
      \<and> dst_journal t = action_journal l a ?dec DS_Reconciliation_Required 1 None [e1, e2, e3]
      \<and> gst_dispatches t = gst_dispatches s @ [(ap_source_id a, mutation_request a)]"
    by (simp add: outcome_unknown_def current_time_def next_tick_def sm_bind_def in_journal_def e3(1) calm_stage)
  with run e1 e2 e3 show ?thesis by fastforce
qed

text \<open>Against a journal that demands reconciliation an execution is refused and nothing is sent.\<close>

lemma blocked_execution:
  fixes s :: durable_gateway_state
  assumes g: "governed l a approval i d" and v: "preview_valid (rl_prims l) a v i (utc (rl_now l))"
    and j: "dst_journal s = action_journal l a dec DS_Reconciliation_Required n None es"
  shows "\<exists>msg t. durable_execute (recovery_env l r h m) a v i (Some approval) s = (Inl (Ax_Outcome_Unknown msg), t)
    \<and> dst_journal t = dst_journal s \<and> gst_dispatches t = gst_dispatches s"
proof -
  let ?jv = "recovery_journal l"
  from g have time: "time_ok ?jv (utc (rl_now l))" by (simp add: governed_def)
  obtain msg where "journal_begin ?jv a (utc (rl_now l)) (dst_journal s) = (Inl (Ax_Outcome_Unknown msg), dst_journal s)"
    unfolding j using begun_again [OF time] by blast
  then show ?thesis
    by (simp add: durable_execute_def durable_dispatch_def sm_bind_def checked [OF g v] in_journal_def j prepared_again [OF time]
        stored_result_def)
qed

text \<open>Reconciliation asks the source, which proves that it applied the action.\<close>

lemma reconciled:
  fixes s :: durable_gateway_state
  assumes g: "governed l a approval i d" and r: "r = [(ap_source_id a, source_profile (ap_source_id a))]"
    and j: "dst_journal s = action_journal l a dec DS_Reconciliation_Required n None es"
  shows "\<exists>receipt t e. durable_reconcile (recovery_env l r h (written a new m)) a i s = (Inr receipt, t)
    \<and> rc_state receipt = AS_Recovered \<and> rc_started_at receipt = utc (rl_now l) \<and> rc_completed_at receipt = utc (rl_now l)
    \<and> rc_action_id receipt = ap_action_id a \<and> rc_action_digest receipt = plan_digest (rl_prims l) a
    \<and> rc_idempotency_key receipt = ap_idempotency_key a
    \<and> dst_journal t = action_journal l a dec DS_Executed n (Some receipt) (es @ [e]) \<and> gst_dispatches t = gst_dispatches s
    \<and> je_event_type e = durable_value DS_Executed \<and> je_action_id e = ap_action_id a
    \<and> (journal_chain.chain_ok (recovery_journal l) journal_genesis es \<longrightarrow> journal_chain.chain_ok (recovery_journal l) journal_genesis (es @ [e]))"
proof -
  let ?E = "recovery_env l r h (written a new m)" and ?jv = "recovery_journal l" and ?now = "utc (rl_now l)"
  let ?result = "[(''applied'', JBool True), (''postconditions_met'', JBool True), (''source_version'', JStr (show_int (ms_version m + 1)))]"
  let ?stored = "action_record l a dec DS_Reconciliation_Required n None (je_digest (last es))"
  let ?w = "s\<lparr>gst_tick := Suc (gst_tick s + 3)\<rparr>"
  from g have time: "time_ok ?jv ?now" and allowed: "pd_allowed (d ''reconcile'')" by (auto simp: governed_def)
  have got: "journal_get ?jv (ap_source_id a) (ap_idempotency_key a) (dst_journal s) = (Inr (Some ?stored), dst_journal s)"
    by (simp add: journal_get_def j action_journal_def action_key_def record_of_action_row [OF time] py_result_def)
  have asked: "ask_source ?E a u = (Inr (Inr (JObj ?result)), u\<lparr>gst_tick := Suc (gst_tick u)\<rparr>)" for u :: durable_gateway_state
    by (simp add: ask_source_def next_tick_def sm_bind_def written_reconciles source_answer_def)
  have proves: "source_proves (Inr (JObj ?result))" by (simp add: source_proves_def result_get_def)
  have run: "durable_reconcile ?E a i s = recover ?E a i (d ''reconcile'') ?stored ?result ?w"
    by (simp add: durable_reconcile_def sm_bind_def authorized [OF g] allowed in_journal_def got stored_result_def
        reconcile_pending_def r looked_up asked [unfolded r] proves)
  obtain x audit where audit: "audit_append (rl_prims l) (action_state_value AS_Recovered) (ap_action_id a) ?now
      [(''source_version'', JStr (result_version (rl_prims l) ?result))] (gst_audit s) = Inr (x, audit)"
    using audit_append_aware [OF aware_utc] by blast
  let ?receipt = "recovered_receipt (rl_prims l) a ?now ?now (result_version (rl_prims l) ?result) (d ''reconcile'') x"
  have "\<forall>q \<in> set_option (Some ?receipt). rc_started_at q = ?now \<and> rc_completed_at q = ?now"
    by (simp add: recovered_receipt_def)
  from finished_journal [OF time this, of a DS_Executed None dec DS_Reconciliation_Required n None es] obtain y e where
    complete: "journal_complete ?jv a ?receipt ?now (dst_journal s) = (Inr y, action_journal l a dec DS_Executed n (Some ?receipt) (es @ [e]))"
    and e: "je_event_type e = durable_value DS_Executed" "je_action_id e = ap_action_id a"
      "journal_chain.chain_ok ?jv journal_genesis es \<longrightarrow> journal_chain.chain_ok ?jv journal_genesis (es @ [e])"
    by (auto simp: journal_complete_def j)
  have "\<exists>t. recover ?E a i (d ''reconcile'') ?stored ?result ?w = (Inr ?receipt, t)
      \<and> dst_journal t = action_journal l a dec DS_Executed n (Some ?receipt) (es @ [e]) \<and> gst_dispatches t = gst_dispatches s"
    using audit complete
    by (simp add: recover_def current_time_def next_tick_def in_journal_def sm_bind_def Let_def audit_event_def calm_stage)
  moreover have "rc_state ?receipt = AS_Recovered" "rc_started_at ?receipt = ?now" "rc_completed_at ?receipt = ?now"
    "rc_action_id ?receipt = ap_action_id a" "rc_action_digest ?receipt = plan_digest (rl_prims l) a"
    "rc_idempotency_key ?receipt = ap_idempotency_key a"
    by (simp_all add: recovered_receipt_def)
  ultimately show ?thesis using run e by metis
qed

text \<open>With the receipt stored, an execution replays it.\<close>

lemma replayed_execution:
  fixes s :: durable_gateway_state
  assumes g: "governed l a approval i d" and v: "preview_valid (rl_prims l) a v i (utc (rl_now l))"
    and j: "dst_journal s = action_journal l a dec DS_Executed n (Some receipt) es"
    and times: "rc_started_at receipt = utc (rl_now l)" "rc_completed_at receipt = utc (rl_now l)"
  shows "\<exists>q t. durable_execute (recovery_env l r h m) a v i (Some approval) s = (Inr q, t) \<and> rc_state q = AS_Already_Executed
    \<and> dst_journal t = dst_journal s \<and> gst_dispatches t = gst_dispatches s"
proof -
  from g have time: "time_ok (recovery_journal l) (utc (rl_now l))" by (simp add: governed_def)
  obtain x audit where audit: "audit_append (rl_prims l) ''replayed'' (ap_action_id a) (utc (rl_now l))
      [(''receipt_id'', JStr (rc_receipt_id receipt))] (gst_audit s) = Inr (x, audit)"
    using audit_append_aware [OF aware_utc] by blast
  then show ?thesis
    by (simp add: durable_execute_def sm_bind_def checked [OF g v] in_journal_def j prepared_again [OF time] times
        stored_result_def replay_receipt_def audit_event_def calm_stage)
qed

lemma pending_record:
  assumes "time_ok (recovery_journal l) (utc (rl_now l))"
  shows "journal_pending (recovery_journal l) (action_journal l a dec DS_Reconciliation_Required n None es)
    = (Inr [action_record l a dec DS_Reconciliation_Required n None (je_digest (last es))],
       action_journal l a dec DS_Reconciliation_Required n None es)"
proof -
  have "jr_state (action_row l a dec DS_Reconciliation_Required n None dg) = durable_value DS_Reconciliation_Required" for dg
    by (simp add: action_row_def)
  then show ?thesis
    by (simp add: journal_pending_def action_journal_def record_of_action_row [OF assms] py_result_def)
qed

section \<open>The exercise succeeds\<close>

lemma at_source_call:
  "op m s = (x, t) \<Longrightarrow> gst_dispatches t = gst_dispatches s @ sent \<Longrightarrow> at_source l op (s, m) = (x, t, serve (rl_source l) sent m)"
  by (simp add: at_source_def)

lemmas at_source_quiet = at_source_call [where sent = "[]", simplified]

lemma serve_simps [simp]: "serve env [] m = m" "serve env [x] m = snd (lab_mutate env (snd x) m)"
  by (simp_all add: serve_def)

lemma at_source_unknown:
  "op m s = (Inl (Ax_Outcome_Unknown msg), t) \<Longrightarrow> gst_dispatches t = gst_dispatches s @ sent \<Longrightarrow>
     caught outcome_is_unknown (at_source l op) (s, m) = (Inr True, t, serve (rl_source l) sent m)"
  by (simp add: at_source_def caught_def outcome_is_unknown_def)

lemmas at_source_refused = at_source_unknown [where sent = "[]", simplified]

lemma fresh_preview_valid:
  assumes "governed l a approval i d"
  shows "preview_valid (rl_prims l) a (preview_of (rl_prims l) a i (d ''preview'') (utc (rl_now l)) five_minutes) i (utc (rl_now l))"
  using assms by (simp add: preview_valid_def preview_of_def five_minutes_def governed_def)

text \<open>
  C9. The durable gateway recovers from a crash after the source has applied an action: for every action that the policy, its
  approval and the labs' source accept, the crashed execution reports an unknown outcome, the journal has it pending after
  the restart, a blind retry is blocked, reconciliation recovers a receipt that a retry then replays, the journal verifies,
  and all along exactly one mutation is sent and the source has applied it once.
\<close>

theorem crash_after_effect_is_recovered:
  assumes "governed l a approval i d" and "accepts (rl_source l) m a new" and "ms_mutation_count m = 0"
  shows "\<exists>result t. run_durable_recovery l a approval i m = (Inr result, t, written a new m)
    \<and> rr_outcome_unknown result \<and> rr_restart_persisted result \<and> rr_blind_replay_blocked result \<and> rr_recovered result
    \<and> rr_journal_valid result \<and> rr_one_source_effect result
    \<and> gst_dispatches t = [(ap_source_id a, mutation_request a)]"
proof -
  note g = assms(1) and m = assms(2)
  let ?r = "[(ap_source_id a, source_profile (ap_source_id a))]" and ?dec = "pd_decision_id (d ''execute'')"
  let ?first = "\<lambda>m. recovery_env l ?r (Some crash_hook) m" and ?second = "\<lambda>m. recovery_env l ?r None m"
  let ?v = "preview_of (rl_prims l) a i (d ''preview'') (utc (rl_now l)) five_minutes" and ?m = "written a new m"
  let ?sent = "[(ap_source_id a, mutation_request a)]"
  note v = fresh_preview_valid [OF g]
  from g have time: "time_ok (recovery_journal l) (utc (rl_now l))" by (simp add: governed_def)
  have source: "ap_source_id a = ms_source_id m" using m by (simp add: accepts_def)
  have registered: "register (source_profile (ms_source_id m)) empty_registry = Inr ?r"
    by (simp add: register_def empty_registry_def source source_profile_def)
  obtain t0 where t0: "preview_action (dx_action (?first m)) a i five_minutes durable_start = (Inr ?v, t0)" "keeps durable_start t0"
    using previewed [OF g refl] by blast
  then have start: "dst_journal t0 = empty_journal" "gst_dispatches t0 = []"
    using keeps_journal [OF t0(2)] by (simp_all add: keeps_def durable_start_def)
  obtain msg t1 e1 e2 e3 where t1: "durable_execute (?first m) a ?v i (Some approval) t0 = (Inl (Ax_Outcome_Unknown msg), t1)"
      "dst_journal t1 = action_journal l a ?dec DS_Reconciliation_Required 1 None [e1, e2, e3]" "gst_dispatches t1 = ?sent"
      "je_event_type e1 = durable_value DS_Prepared" "je_action_id e1 = ap_action_id a"
      "je_attributes e1 = prepared_attributes (rl_prims l) a ?dec"
      "je_event_type e2 \<noteq> durable_value DS_Prepared" "je_event_type e3 \<noteq> durable_value DS_Prepared"
      "journal_chain.chain_ok (recovery_journal l) journal_genesis [e1, e2, e3]"
    using crashed_execution [OF g refl v start(1) m] start(2) by auto
  let ?t1 = "t1\<lparr>gst_audit := []\<rparr>"
  obtain msg' t2 where t2: "durable_execute (?second ?m) a ?v i (Some approval) ?t1 = (Inl (Ax_Outcome_Unknown msg'), t2)"
      "dst_journal t2 = dst_journal t1" "gst_dispatches t2 = ?sent"
    using blocked_execution [OF g v, of ?t1 ?dec 1 "[e1, e2, e3]" ?r None ?m] t1(2,3) by auto
  obtain receipt t3 e4 where t3: "durable_reconcile (?second ?m) a i t2 = (Inr receipt, t3)" "rc_state receipt = AS_Recovered"
      "rc_started_at receipt = utc (rl_now l)" "rc_completed_at receipt = utc (rl_now l)" "rc_action_id receipt = ap_action_id a"
      "rc_action_digest receipt = plan_digest (rl_prims l) a" "rc_idempotency_key receipt = ap_idempotency_key a"
      "dst_journal t3 = action_journal l a ?dec DS_Executed 1 (Some receipt) [e1, e2, e3, e4]" "gst_dispatches t3 = ?sent"
      "je_event_type e4 = durable_value DS_Executed" "je_action_id e4 = ap_action_id a"
      "journal_chain.chain_ok (recovery_journal l) journal_genesis [e1, e2, e3, e4]"
    using reconciled [OF g refl t2(2) [unfolded t1(2)]] t1(9) unfolding t2(3) append_Cons append_Nil by blast
  obtain q t4 where t4: "durable_execute (?second ?m) a ?v i (Some approval) t3 = (Inr q, t4)" "rc_state q = AS_Already_Executed"
      "dst_journal t4 = dst_journal t3" "gst_dispatches t4 = ?sent"
    using replayed_execution [OF g v t3(8,3,4)] t3(9) by metis
  have valid: "journal_verify (recovery_journal l) (dst_journal t4)"
    using action_journal_verifies [OF time t3(3-7), of e1 "[e2, e3]" e4] t1(4-8) t3(10-12) by (simp add: t4(3) t3(8))
  have looked_up: "journal_get (recovery_journal l) (ap_source_id a) (ap_idempotency_key a) (dst_journal t4)
      = (Inr (Some (action_record l a ?dec DS_Executed 1 (Some receipt) (je_digest e4))), dst_journal t4)"
    by (simp add: journal_get_def t4(3) t3(8) action_journal_def action_key_def record_of_action_row [OF time] t3(3,4) py_result_def)
  have sent: "serve (rl_source l) ?sent m = ?m" by (simp add: accepted_mutation [OF m])
  note steps =
    at_source_quiet [where op = "\<lambda>m. preview_action (dx_action (?first m)) a i five_minutes" and m = m, OF t0(1)]
    at_source_unknown [where op = "\<lambda>m. durable_execute (?first m) a ?v i (Some approval)" and m = m and sent = ?sent, OF t1(1)]
    at_source_refused [where op = "\<lambda>m. durable_execute (?second m) a ?v i (Some approval)" and m = ?m, OF t2(1)]
    at_source_quiet [where op = "\<lambda>m. durable_reconcile (?second m) a i" and m = ?m, OF t3(1)]
    at_source_quiet [where op = "\<lambda>m. durable_execute (?second m) a ?v i (Some approval)" and m = ?m, OF t4(1)]
  have pending: "at_source l (\<lambda>m. in_journal (journal_pending (recovery_journal l))) (?t1, ?m)
      = (Inr [action_record l a ?dec DS_Reconciliation_Required 1 None (je_digest e3)], ?t1, ?m)"
    using pending_record [OF time, of a ?dec 1 "[e1, e2, e3]", folded t1(2)] by (simp add: at_source_def in_journal_def)
  have got: "at_source l (\<lambda>m. in_journal (journal_get (recovery_journal l) (ap_source_id a) (ap_idempotency_key a))) (t4, ?m)
      = (Inr (Some (action_record l a ?dec DS_Executed 1 (Some receipt) (je_digest e4))), t4, ?m)"
    using looked_up by (simp add: at_source_def in_journal_def)
  have "ms_mutation_count ?m = 1" using assms(3) by (simp add: written_def)
  moreover have "gst_dispatches durable_start = []" by (simp add: durable_start_def)
  ultimately show ?thesis
    using steps start t1(3) t2(3) t3(2,9) t4(2,4) sent valid
    by (simp add: run_durable_recovery_def registered recovery_steps_def Let_def sm_bind_def new_process_def pending got persisted_def)
qed

end
