(* ===== verification/Lab_Gateway.thy ===== *)
theory Lab_Gateway
  imports Lab_Recovery
begin

text \<open>
  The action gateway connected to the source of the labs: what a preview, an execution, a repeated execution, a refused
  execution and a compensation do to the gateway, to what was sent and to the source. The exercises of Lab_Scenarios are
  runs of these steps.
\<close>

declare map_of_eq_Some_iff [simp del] Some_eq_map_of_iff [simp del]

section \<open>The audit ledger stays verifiable\<close>

definition audit_kept :: "prims \<Rightarrow> 'm gateway_state_scheme \<Rightarrow> 'm gateway_state_scheme \<Rightarrow> bool" where
  "audit_kept p s t \<longleftrightarrow> (audit_verify p (gst_audit s) \<longrightarrow> audit_verify p (gst_audit t))"

lemma audit_kept_rel [simp, intro]: "reflp (audit_kept p)" "transp (audit_kept p)"
  by (auto simp: reflp_def transp_def audit_kept_def)

lemma audit_kept_bind [intro]:
  "sm_rel (audit_kept p) m \<Longrightarrow> (\<And>x. sm_rel (audit_kept p) (f x)) \<Longrightarrow> sm_rel (audit_kept p) (sm_bind m f)"
  by (rule sm_rel_bind) simp_all

lemma audit_kept_simple [intro]:
  "sm_rel (audit_kept p) (sm_return x)" "sm_rel (audit_kept p) (sm_raise e)" "sm_rel (audit_kept p) (sm_lift r)"
  "sm_rel (audit_kept p) (sm_guard b e)"
  by simp_all

lemma audit_kept_ticks [intro]:
  "sm_rel (audit_kept p) next_tick" "sm_rel (audit_kept p) (current_time env)" "sm_rel (audit_kept p) audit_size"
  unfolding current_time_def
  by (auto intro!: sm_relI simp: next_tick_def audit_size_def audit_kept_def sm_bind_def)

lemma audit_kept_audit_event [intro]:
  "ax_prims env = p \<Longrightarrow> sm_rel (audit_kept p) (audit_event env t a d attrs)"
  by (rule sm_relI) (auto simp: audit_event_def audit_kept_def dest: audit_append_Inr split: sum.split)

lemma audit_kept_emit_event [intro]:
  "ax_prims env = p \<Longrightarrow> sm_rel (audit_kept p) (emit_event env name i attrs action_id)"
  unfolding emit_event_def
  by (intro audit_kept_bind audit_kept_ticks)
    (auto split: sum.split option.split ext_error.split intro!: audit_kept_bind audit_kept_ticks audit_kept_audit_event)

lemma audit_kept_emit_stage [intro]: "ax_prims env = p \<Longrightarrow> sm_rel (audit_kept p) (emit_stage env stage a i attrs)"
  unfolding emit_stage_def by blast

lemma audit_kept_checks [intro]:
  "ax_prims env = p \<Longrightarrow> sm_rel (audit_kept p) (authorize_action env a i stage)"
  "sm_rel (audit_kept p) (validate_preview env a v i now)"
  "sm_rel (audit_kept p) (validate_approval env a ap i now c)"
  "sm_rel (audit_kept p) (registry_lookup env source_id)"
  unfolding authorize_action_def validate_preview_def validate_approval_def registry_lookup_def
  by (auto intro!: audit_kept_bind audit_kept_ticks audit_kept_simple audit_kept_emit_event split: sum.split option.split)

lemma audit_kept_preview [intro]: "ax_prims env = p \<Longrightarrow> sm_rel (audit_kept p) (preview_action env a i ttl)"
  unfolding preview_action_def
  by (intro audit_kept_bind audit_kept_ticks audit_kept_simple audit_kept_checks) (auto split: sum.split)

lemma audit_kept_check_action [intro]: "ax_prims env = p \<Longrightarrow> sm_rel (audit_kept p) (check_action env a v i ap)"
  unfolding check_action_def by (intro audit_kept_bind audit_kept_ticks audit_kept_simple audit_kept_checks) auto

lemma audit_kept_send [intro]: "sm_rel (audit_kept p) (send_mutation env a)"
  by (rule sm_relI) (simp add: send_mutation_eq audit_kept_def)

lemma audit_kept_memory [intro]:
  "sm_rel (audit_kept p) (remember_receipt a entry)" "sm_rel (audit_kept p) (lookup_receipt a)"
  by (auto intro!: sm_relI simp: remember_receipt_def lookup_receipt_def audit_kept_def)

lemma audit_kept_receipts [intro]:
  "ax_prims env = p \<Longrightarrow> sm_rel (audit_kept p) (replay_receipt env a i r now)"
  "ax_prims env = p \<Longrightarrow> sm_rel (audit_kept p) (connector_failed env a i d now)"
  "ax_prims env = p \<Longrightarrow> sm_rel (audit_kept p) (settle env a d now result)"
  unfolding replay_receipt_def connector_failed_def settle_def Let_def by blast+

lemma audit_kept_dispatch [intro]: "ax_prims env = p \<Longrightarrow> sm_rel (audit_kept p) (dispatch_action env a i d now)"
  unfolding dispatch_action_def
  by (intro audit_kept_bind audit_kept_checks audit_kept_send)
    (auto split: sum.split ext_error.split json.split intro!: audit_kept_bind audit_kept_receipts audit_kept_memory audit_kept_emit_stage)

lemma audit_kept_execute: "ax_prims env = p \<Longrightarrow> sm_rel (audit_kept p) (execute_action env a v i ap)"
  unfolding execute_action_def
  by (intro audit_kept_bind audit_kept_check_action)
    (auto intro!: audit_kept_bind audit_kept_memory audit_kept_receipts audit_kept_dispatch split: option.split prod.split)

lemma audit_kept_compensate:
  assumes "ax_prims env = p"
  shows "sm_rel (audit_kept p) (compensate_action env a r i ap)"
  using assms unfolding compensate_unfold
  by (auto split: option.split sum.split
      intro!: audit_kept_bind audit_kept_ticks audit_kept_simple audit_kept_checks audit_kept_preview audit_kept_execute audit_kept_audit_event)

section \<open>The steps\<close>

text \<open>The gateway in front of the source, without the durable journal.\<close>

abbreviation plain_env :: "recovery_lab \<Rightarrow> registry \<Rightarrow> mutation_source \<Rightarrow> action_env" where
  "plain_env l r m \<equiv> dx_action (recovery_env l r None m)"

abbreviation only_source :: "action_plan \<Rightarrow> registry" where
  "only_source a \<equiv> [(ap_source_id a, source_profile (ap_source_id a))]"

text \<open>The policy decides on a plan at a stage, and clears it at both.\<close>

definition decides :: "recovery_lab \<Rightarrow> action_plan \<Rightarrow> request_identity \<Rightarrow> string \<Rightarrow> policy_decision \<Rightarrow> bool" where
  "decides l a i stage d \<longleftrightarrow> rl_policy l (mutation_authorization (rl_prims l) a i stage) = Inr d"

definition approves :: "recovery_lab \<Rightarrow> action_plan \<Rightarrow> action_approval option \<Rightarrow> request_identity \<Rightarrow> bool \<Rightarrow> bool" where
  "approves l a approval i c \<longleftrightarrow> ap_approval_mode a = Approval_None
     \<or> (\<exists>ap. approval = Some ap \<and> rl_verifier l ap a i (utc (rl_now l)) c = Inr True)"

abbreviation lab_preview_of :: "recovery_lab \<Rightarrow> action_plan \<Rightarrow> request_identity \<Rightarrow> policy_decision \<Rightarrow> action_preview" where
  "lab_preview_of l a i d \<equiv> preview_of (rl_prims l) a i d (utc (rl_now l)) five_minutes"

lemma decided:
  "decides l a i stage d \<Longrightarrow> authorize_action (plain_env l r m) a i stage s = (Inr d, s\<lparr>gst_tick := gst_tick s + 3\<rparr>)"
  by (simp add: decides_def authorize_action_def next_tick_def sm_bind_def calm_emit str_startswith_def)

lemma approved:
  "approves l a approval i c \<Longrightarrow> validate_approval (plain_env l r m) a approval i (utc (rl_now l)) c s = (Inr (), s)"
  using validate_approval_Inr [of "plain_env l r m" a approval i "utc (rl_now l)" c s "()" s]
  by (auto simp: approves_def approval_ok_def)

lemma lab_preview_valid [simp]:
  "preview_valid (rl_prims l) a (lab_preview_of l a i d) i (utc (rl_now l)) \<longleftrightarrow> pd_allowed d"
  by (auto simp: preview_valid_def preview_of_def five_minutes_def)

lemma lab_previews:
  assumes d: "decides l a i ''preview'' d" and r: "r = only_source a"
  shows "\<exists>t. preview_action (plain_env l r m) a i five_minutes s = (Inr (lab_preview_of l a i d), t) \<and> keeps s t"
proof -
  let ?s = "s\<lparr>gst_tick := Suc (gst_tick s + 3)\<rparr>"
  have ok: "cp_supports_idempotency_key (pf_consistency (source_profile (ap_source_id a)))"
    by (simp add: source_profile_def)
  have mk: "mk_action_preview (lab_preview_of l a i d) = Inr (lab_preview_of l a i d)"
    by (simp add: mk_action_preview_def preview_of_def five_minutes_def)
  obtain e audit where audit: "audit_append (rl_prims l) ''previewed'' (ap_action_id a) (utc (rl_now l))
      [(''allowed'', JBool (pd_allowed d)), (''decision_id'', JStr (pd_decision_id d))] (gst_audit s) = Inr (e, audit)"
    using audit_append_aware [OF aware_utc] by blast
  have "\<exists>t. preview_action (plain_env l r m) a i five_minutes s = (Inr (lab_preview_of l a i d), t)"
    using audit by (simp add: preview_action_def r looked_up ok decided [OF d] current_time_def next_tick_def mk audit_event_def
        calm_stage sm_bind_def)
  then show ?thesis using quietD [OF quiet_preview_action] by blast
qed

lemma lab_checks:
  assumes "decides l a i ''execute'' d" and "pd_allowed d" and "approves l a approval i False"
    and "preview_valid (rl_prims l) a v i (utc (rl_now l))"
  shows "check_action (plain_env l r m) a v i approval s = (Inr (utc (rl_now l), d), s\<lparr>gst_tick := gst_tick s + 4\<rparr>)"
  using assms by (simp add: check_action_def current_time_def next_tick_def validate_preview_def approved sm_bind_def decided)

text \<open>A preview the policy denied is refused, and so is an action that lacks its approval.\<close>

lemma lab_refuses_denied:
  assumes "\<not> preview_valid (rl_prims l) a v i (utc (rl_now l))"
  shows "\<exists>t. execute_action (plain_env l r m) a v i approval s = (Inl Ax_Preview_Mismatch, t) \<and> keeps s t"
  using assms by (simp add: execute_action_def check_action_def current_time_def next_tick_def validate_preview_def sm_bind_def keeps_def)

lemma lab_refuses_unapproved:
  assumes "preview_valid (rl_prims l) a v i (utc (rl_now l))" and "ap_approval_mode a = Approval_Human"
  shows "\<exists>msg t. execute_action (plain_env l r m) a v i None s = (Inl (Ax_Approval_Required msg), t) \<and> keeps s t"
  using assms
  by (simp add: execute_action_def check_action_def current_time_def next_tick_def validate_preview_def validate_approval_def sm_bind_def keeps_def)

text \<open>An accepted action is executed: its request is sent once and its receipt bound to its key.\<close>

lemma lab_executes:
  fixes s :: action_gateway_state
  assumes d: "decides l a i ''execute'' d" "pd_allowed d" and ap: "approves l a approval i False"
    and v: "preview_valid (rl_prims l) a v i (utc (rl_now l))" and r: "r = only_source a"
    and m: "accepts (rl_source l) m a new" and free: "dict_get (gst_idempotency s) (action_key a) = None"
  shows "\<exists>receipt t. execute_action (plain_env l r m) a v i approval s = (Inr receipt, t)
    \<and> rc_state receipt = AS_Executed \<and> rc_action_digest receipt = plan_digest (rl_prims l) a
    \<and> gst_dispatches t = gst_dispatches s @ [(ap_source_id a, mutation_request a)]
    \<and> gst_idempotency t = dict_set (action_key a) (plan_digest (rl_prims l) a, receipt) (gst_idempotency s)"
proof -
  let ?E = "plain_env l r m" and ?now = "utc (rl_now l)" and ?answer = "mutation_answer True True (ms_version m + 1)"
  let ?s = "s\<lparr>gst_tick := Suc (gst_tick s + 4), gst_dispatches := gst_dispatches s @ [(ap_source_id a, mutation_request a)]\<rparr>"
  have success: "result_success ?answer" by (simp add: result_success_def result_get_def mutation_answer_def)
  have "execute_action ?E a v i approval s = sm_bind (settle ?E a d ?now ?answer) (after_answer ?E a i ?answer) ?s"
    by (simp add: execute_action_def lab_checks [OF d ap v] sm_bind_def lookup_receipt_def free dispatch_action_eq r looked_up
        send_mutation_eq accepted_mutation [OF m] source_answer_def)
  moreover obtain x audit where "audit_append (rl_prims l) (action_state_value AS_Executed) (ap_action_id a) ?now
      [(''source_version'', JStr (result_version (rl_prims l) ?answer))] (gst_audit s) = Inr (x, audit)"
    using audit_append_aware [OF aware_utc] by blast
  ultimately show ?thesis
    using success
    by (simp add: settle_def after_answer_def sm_bind_def current_time_def next_tick_def audit_event_def audit_size_def Let_def
        remember_receipt_def calm_stage receipt_of_def)
qed

text \<open>The same action again is answered from the table of receipts.\<close>

lemma lab_replays:
  fixes s :: action_gateway_state
  assumes d: "decides l a i ''execute'' d" "pd_allowed d" and ap: "approves l a approval i False"
    and v: "preview_valid (rl_prims l) a v i (utc (rl_now l))"
    and bound: "dict_get (gst_idempotency s) (action_key a) = Some (plan_digest (rl_prims l) a, receipt)"
  shows "\<exists>q t. execute_action (plain_env l r m) a v i approval s = (Inr q, t) \<and> rc_state q = AS_Already_Executed
    \<and> keeps s t"
proof -
  let ?E = "plain_env l r m" and ?s = "s\<lparr>gst_tick := gst_tick s + 4\<rparr>"
  obtain x audit where audit: "audit_append (rl_prims l) ''replayed'' (ap_action_id a) (utc (rl_now l))
      [(''receipt_id'', JStr (rc_receipt_id receipt))] (gst_audit s) = Inr (x, audit)"
    using audit_append_aware [OF aware_utc] by blast
  have "execute_action ?E a v i approval s = replay_receipt ?E a i receipt (utc (rl_now l)) ?s"
    by (simp add: execute_action_def lab_checks [OF d ap v] sm_bind_def lookup_receipt_def bound)
  moreover have "\<exists>q t. replay_receipt ?E a i receipt (utc (rl_now l)) ?s = (Inr q, t) \<and> rc_state q = AS_Already_Executed"
    using audit by (simp add: replay_receipt_def audit_event_def sm_bind_def calm_stage)
  moreover have "keeps ?s t" if "replay_receipt ?E a i receipt (utc (rl_now l)) ?s = (q, t)" for q t
    using quietD [OF quiet_replay_receipt that] .
  ultimately show ?thesis by (fastforce simp: keeps_def)
qed

text \<open>The source refuses an action whose preconditions do not hold; the execution fails and binds nothing.\<close>

definition refuses :: "source_env \<Rightarrow> mutation_source \<Rightarrow> action_plan \<Rightarrow> bool" where
  "refuses env m a \<longleftrightarrow> ap_asset_id a = ms_asset_id m
     \<and> (\<exists>v n. dict_get (ap_preconditions a) ''expectedVersion'' = Some v \<and> se_int env v = Inr n \<and> n \<noteq> ms_version m)
     \<and> dict_get (ms_idempotency m) (ap_idempotency_key a) = None"

lemma refused_mutation:
  assumes "refuses env m a"
  shows "lab_mutate env (mutation_request a) m = (Inr (mutation_answer False False (ms_version m)), m)"
proof -
  have "precondition_holds env m (mutation_request a) = Inr False"
    using assms by (auto simp: refuses_def precondition_holds_def json_index_def)
  with assms show ?thesis by (simp add: lab_mutate_def refuses_def)
qed

lemma lab_fails:
  fixes s :: action_gateway_state
  assumes d: "decides l a i ''execute'' d" "pd_allowed d" and ap: "approves l a approval i False"
    and v: "preview_valid (rl_prims l) a v i (utc (rl_now l))" and r: "r = only_source a"
    and m: "refuses (rl_source l) m a" and free: "dict_get (gst_idempotency s) (action_key a) = None"
  shows "\<exists>receipt t. execute_action (plain_env l r m) a v i approval s = (Inl (Ax_Execution_Failed receipt), t)
    \<and> gst_dispatches t = gst_dispatches s @ [(ap_source_id a, mutation_request a)] \<and> gst_idempotency t = gst_idempotency s"
proof -
  let ?E = "plain_env l r m" and ?now = "utc (rl_now l)" and ?answer = "mutation_answer False False (ms_version m)"
  let ?s = "s\<lparr>gst_tick := Suc (gst_tick s + 4), gst_dispatches := gst_dispatches s @ [(ap_source_id a, mutation_request a)]\<rparr>"
  have failure: "\<not> result_success ?answer" by (simp add: result_success_def result_get_def mutation_answer_def)
  have "execute_action ?E a v i approval s = sm_bind (settle ?E a d ?now ?answer) (after_answer ?E a i ?answer) ?s"
    by (simp add: execute_action_def lab_checks [OF d ap v] sm_bind_def lookup_receipt_def free dispatch_action_eq r looked_up
        send_mutation_eq refused_mutation [OF m] source_answer_def)
  moreover obtain x audit where "audit_append (rl_prims l) (action_state_value AS_Failed) (ap_action_id a) ?now
      [(''source_version'', JStr (result_version (rl_prims l) ?answer))] (gst_audit s) = Inr (x, audit)"
    using audit_append_aware [OF aware_utc] by blast
  ultimately show ?thesis
    using failure
    by (simp add: settle_def after_answer_def sm_bind_def current_time_def next_tick_def audit_event_def audit_size_def Let_def
        calm_stage receipt_of_def)
qed

text \<open>A receipt of the action is compensated by executing the derived plan.\<close>

lemma lab_compensates:
  fixes s :: action_gateway_state
  assumes spec: "ap_compensation a = Some spec" and receipt: "rc_action_digest receipt = plan_digest (rl_prims l) a"
      "rc_state receipt \<in> {AS_Executed, AS_Recovered, AS_Already_Executed}"
    and ap: "approves l a approval i True" and mk: "mk_action_plan (derived_plan a spec) = Inr (derived_plan a spec)"
    and pre: "decides l (derived_plan a spec) i ''preview'' d1" "pd_allowed d1"
    and exe: "decides l (derived_plan a spec) i ''execute'' d2" "pd_allowed d2"
    and r: "r = only_source a" and m: "accepts (rl_source l) m (derived_plan a spec) new"
    and free: "dict_get (gst_idempotency s) (action_key (derived_plan a spec)) = None"
  shows "\<exists>q t. compensate_action (plain_env l r m) a receipt i approval s = (Inr q, t) \<and> rc_state q = AS_Compensated
    \<and> gst_dispatches t = gst_dispatches s @ [(ap_source_id a, mutation_request (derived_plan a spec))]"
proof -
  let ?E = "plain_env l r m" and ?d = "derived_plan a spec" and ?now = "utc (rl_now l)"
  let ?s = "s\<lparr>gst_tick := Suc (gst_tick s)\<rparr>" and ?v = "lab_preview_of l (derived_plan a spec) i d1"
  have r': "r = only_source ?d" using r by (simp add: derived_plan_def)
  obtain t where t: "preview_action ?E ?d i five_minutes ?s = (Inr ?v, t)" "keeps ?s t"
    using lab_previews [OF pre(1) r'] by blast
  have free': "dict_get (gst_idempotency t) (action_key ?d) = None"
    using free keeps_idempotency [OF t(2)] by simp
  have "approves l ?d None i False" by (simp add: approves_def derived_plan_def)
  from lab_executes [OF exe this _ r' m free'] pre(2) obtain q u where
    u: "execute_action ?E ?d ?v i None t = (Inr q, u)" "gst_dispatches u = gst_dispatches t @ [(ap_source_id ?d, mutation_request ?d)]"
    by (metis lab_preview_valid)
  obtain x audit where "audit_append (rl_prims l) ''compensated'' (ap_action_id a) ?now
      [(''compensation_receipt_id'', JStr (rc_receipt_id q))] (gst_audit u) = Inr (x, audit)"
    using audit_append_aware [OF aware_utc] by blast
  with t u show ?thesis
    using spec receipt mk
    by (simp add: compensate_unfold sm_bind_def current_time_def next_tick_def approved [OF ap] audit_event_def keeps_def)
      (simp add: derived_plan_def)
qed

end
