(* ===== verification/Lab_Scenarios.thy ===== *)
theory Lab_Scenarios
  imports Lab_Gateway Action_Saga
begin

text \<open>
  The governed actions of the two industry labs: the service appointment of the white-goods lab (white_goods/phase4.py and
  phase5.py) and the incident of the cold-chain lab (cold_chain/phase4.py and phase5.py), each with its approval authority,
  its exercise of the action gateway, the white-goods saga, and the recovery exercise of Lab_Recovery. The exercises are
  proved to pass for every standard library that meets two documented laws, step by step over Lab_Gateway.
\<close>

declare map_of_eq_Some_iff [simp del] Some_eq_map_of_iff [simp del]

section \<open>The two actions\<close>

record action_lab =
  \<comment> \<open>what a lab fixes: its time, approval authority, policy, source, requester and the terms of its approvals\<close>
  lb_now :: int
  lb_authority :: hmac_authority
  lb_scope :: action_scope
  lb_initial :: string
  lb_identity :: request_identity
  lb_approver :: string
  lb_nonce_prefix :: string

definition micros :: int where "micros = 1000000"

definition service_action :: action_plan where
  "service_action = \<lparr>ap_action_id = ''whitegoods-reschedule-appointment'', ap_source_id = ''whitegoods.service-actions'',
     ap_asset_id = ''service_appointments'', ap_operation = ''reschedule-appointment'',
     ap_parameters = [(''newValue'', JStr ''2026-09-02T09:00:00Z'')],
     ap_preconditions = [(''expectedVersion'', JInt 1), (''expectedValue'', JStr ''2026-09-01T09:00:00Z'')],
     ap_idempotency_key = ''wg-appointment-1001:reschedule'', ap_risk = Risk_High, ap_approval_mode = Approval_Human,
     ap_purpose = ''customer-confirmed service reschedule'',
     ap_compensation = Some \<lparr>cs_operation = ''restore-appointment'', cs_parameters = [(''newValue'', JStr ''2026-09-01T09:00:00Z'')],
       cs_preconditions = [(''expectedVersion'', JInt 2), (''expectedValue'', JStr ''2026-09-02T09:00:00Z'')]\<rparr>\<rparr>"

definition service_identity :: "string \<Rightarrow> request_identity" where
  "service_identity agent = \<lparr>id_organization_id = ''org-lab'', id_solution_id = ''whitegoods-lab'', id_agent_id = agent,
     id_request_id = ''wg-request'', id_trace_id = ''wg-trace'', id_policy_digest = ''policy:wg-v1''\<rparr>"

definition service_lab :: action_lab where
  \<comment> \<open>2026-08-27T09:00:00Z\<close>
  "service_lab = \<lparr>lb_now = 1787821200 * micros,
     lb_authority = \<lparr>ha_issuer = ''adlc-whitegoods-lab'', ha_audience = ''data-source-harness'',
       ha_secret = ''whitegoods-lab-approval-key-material''\<rparr>,
     lb_scope = \<lparr>sc_source = ''whitegoods.service-actions'', sc_asset = ''service_appointments'', sc_agent = ''agent.whitegoods-service'',
       sc_operations = [''reschedule-appointment'', ''restore-appointment'']\<rparr>,
     lb_initial = ''2026-09-01T09:00:00Z'', lb_identity = service_identity ''agent.whitegoods-service'',
     lb_approver = ''human:service-supervisor'', lb_nonce_prefix = ''wg:''\<rparr>"

definition incident_action :: "int \<Rightarrow> action_plan" where
  "incident_action expected_version = \<lparr>ap_action_id = ''coldchain-acknowledge-excursion'', ap_source_id = ''coldchain.incident-actions'',
     ap_asset_id = ''incidents'', ap_operation = ''acknowledge-excursion'', ap_parameters = [(''newValue'', JStr ''acknowledged'')],
     ap_preconditions = [(''expectedVersion'', JInt expected_version), (''expectedValue'', JStr ''open'')],
     ap_idempotency_key = ''cc-incident-0003:ack:'' @ show_int expected_version, ap_risk = Risk_High,
     ap_approval_mode = Approval_Human, ap_purpose = ''acknowledge verified temperature excursion'',
     ap_compensation = Some \<lparr>cs_operation = ''reopen-excursion'', cs_parameters = [(''newValue'', JStr ''open'')],
       cs_preconditions = [(''expectedVersion'', JInt 2), (''expectedValue'', JStr ''acknowledged'')]\<rparr>\<rparr>"

definition incident_identity :: request_identity where
  "incident_identity = \<lparr>id_organization_id = ''org-lab'', id_solution_id = ''coldchain-lab'', id_agent_id = ''agent.coldchain-responder'',
     id_request_id = ''cc-request'', id_trace_id = ''cc-trace'', id_policy_digest = ''policy:cc-v1''\<rparr>"

definition incident_lab :: action_lab where
  \<comment> \<open>2026-08-27T10:00:00Z\<close>
  "incident_lab = \<lparr>lb_now = 1787824800 * micros,
     lb_authority = \<lparr>ha_issuer = ''adlc-coldchain-lab'', ha_audience = ''data-source-harness'',
       ha_secret = ''coldchain-lab-approval-key-material''\<rparr>,
     lb_scope = \<lparr>sc_source = ''coldchain.incident-actions'', sc_asset = ''incidents'', sc_agent = ''agent.coldchain-responder'',
       sc_operations = [''acknowledge-excursion'', ''reopen-excursion'']\<rparr>,
     lb_initial = ''open'', lb_identity = incident_identity, lb_approver = ''human:logistics-supervisor'', lb_nonce_prefix = ''cc:''\<rparr>"

definition lab_approval :: "prims \<Rightarrow> action_lab \<Rightarrow> action_plan \<Rightarrow> action_approval checked" where
  "lab_approval p lab a =
     issue p (lb_authority lab) \<lparr>al_approval_id = [], al_action_digest = plan_digest p a, al_approver_id = lb_approver lab,
       al_policy_digest = id_policy_digest (lb_identity lab), al_approved_at = utc (lb_now lab - 60 * micros),
       al_expires_at = utc (lb_now lab + 600 * micros), al_allow_compensation = True\<rparr> (lb_identity lab) (lb_nonce_prefix lab @ ap_action_id a)"

definition lab_action_policy :: "prims \<Rightarrow> action_lab \<Rightarrow> authorization_request \<Rightarrow> ext_error + policy_decision" where
  \<comment> \<open>an operation of a plan is a text, so looking it up never raises\<close>
  "lab_action_policy p lab r = (case bounded_action_policy (pr_repr p) (lb_scope lab) r of
     Inl e \<Rightarrow> Inl (Ext_Exception ''TypeError'') | Inr d \<Rightarrow> Inr d)"

definition lab_source_of :: "action_lab \<Rightarrow> mutation_source" where
  "lab_source_of lab = new_mutation_source (sc_source (lb_scope lab)) (sc_asset (lb_scope lab)) (lb_initial lab) 1"

record runtime =
  \<comment> \<open>the standard library and the file of the journal\<close>
  rt_prims :: prims
  rt_fromisoformat :: "string \<Rightarrow> datetime option"
  rt_int :: "json \<Rightarrow> int checked"
  rt_database :: "journal \<Rightarrow> string"
  rt_encode :: "string \<Rightarrow> string"

definition recovery_lab_of :: "runtime \<Rightarrow> action_lab \<Rightarrow> recovery_lab" where
  "recovery_lab_of rt lab = \<lparr>rl_prims = rt_prims rt, rl_fromisoformat = rt_fromisoformat rt,
     rl_source = \<lparr>se_repr = pr_repr (rt_prims rt), se_int = rt_int rt\<rparr>, rl_policy = lab_action_policy (rt_prims rt) lab,
     rl_verifier = verify_approval (rt_prims rt) (lb_authority lab), rl_now = lb_now lab,
     rl_database = rt_database rt, rl_encode = rt_encode rt\<rparr>"

section \<open>Recovery\<close>

definition run_recovery_scenario :: "runtime \<Rightarrow> action_lab \<Rightarrow> action_plan \<Rightarrow> action_error + durable_recovery_result" where
  "run_recovery_scenario rt lab a =
     (case lab_approval (rt_prims rt) lab a of
        Inl e \<Rightarrow> Inl (Ax_Py e)
      | Inr approval \<Rightarrow> fst (run_durable_recovery (recovery_lab_of rt lab) a approval (lb_identity lab) (lab_source_of lab)))"

definition white_goods_recovery :: "runtime \<Rightarrow> action_error + durable_recovery_result" where
  "white_goods_recovery rt = run_recovery_scenario rt service_lab service_action"

definition cold_chain_recovery :: "runtime \<Rightarrow> action_error + durable_recovery_result" where
  "cold_chain_recovery rt = run_recovery_scenario rt incident_lab (incident_action 1)"

section \<open>The exercises of the action gateway\<close>

text \<open>The white-goods and the cold-chain lab exercise one gateway each; \<open>gateway_at\<close> is its environment while the source is in a state.\<close>

definition gateway_at :: "runtime \<Rightarrow> action_lab \<Rightarrow> registry \<Rightarrow> mutation_source \<Rightarrow> action_env" where
  "gateway_at rt lab r m = dx_action (recovery_env (recovery_lab_of rt lab) r None m)"

definition lab_preview :: "runtime \<Rightarrow> action_lab \<Rightarrow> registry \<Rightarrow> action_plan \<Rightarrow> request_identity \<Rightarrow> ('m, action_preview) lab_op" where
  "lab_preview rt lab r a i = at_source (recovery_lab_of rt lab) (\<lambda>m. preview_action (gateway_at rt lab r m) a i five_minutes)"

type_synonym 'a scenario_op = "(action_gateway_state \<times> mutation_source, action_error, 'a) sm"

definition lab_execute :: "runtime \<Rightarrow> action_lab \<Rightarrow> registry \<Rightarrow> action_plan \<Rightarrow> action_preview \<Rightarrow> request_identity
    \<Rightarrow> action_approval option \<Rightarrow> mutation_receipt scenario_op" where
  "lab_execute rt lab r a v i approval = at_source (recovery_lab_of rt lab) (\<lambda>m. execute_action (gateway_at rt lab r m) a v i approval)"

definition lab_compensate :: "runtime \<Rightarrow> action_lab \<Rightarrow> registry \<Rightarrow> action_plan \<Rightarrow> mutation_receipt \<Rightarrow> request_identity
    \<Rightarrow> action_approval option \<Rightarrow> mutation_receipt scenario_op" where
  "lab_compensate rt lab r a receipt i approval =
     at_source (recovery_lab_of rt lab) (\<lambda>m. compensate_action (gateway_at rt lab r m) a receipt i approval)"

definition approve :: "runtime \<Rightarrow> action_lab \<Rightarrow> action_plan \<Rightarrow> action_approval scenario_op" where
  "approve rt lab a = sm_lift (case lab_approval (rt_prims rt) lab a of Inl e \<Rightarrow> Inl (Ax_Py e) | Inr x \<Rightarrow> Inr x)"

definition idempotent_run :: "mutation_receipt \<Rightarrow> mutation_receipt \<Rightarrow> mutation_source \<Rightarrow> bool" where
  "idempotent_run receipt replay m \<longleftrightarrow> rc_state receipt = AS_Executed \<and> rc_state replay = AS_Already_Executed \<and> ms_mutation_count m = 1"

definition compensated_run :: "string \<Rightarrow> mutation_receipt \<Rightarrow> mutation_source \<Rightarrow> bool" where
  "compensated_run initial receipt m \<longleftrightarrow> rc_state receipt = AS_Compensated \<and> ms_value m = initial \<and> ms_mutation_count m = 2"

definition audit_payload_free :: "runtime \<Rightarrow> string list \<Rightarrow> audit_ledger \<Rightarrow> bool" where
  "audit_payload_free rt sensitive entries =
     list_all (\<lambda>e. list_all (\<lambda>v. py_str (pr_repr (rt_prims rt)) v \<notin> set sensitive) (map snd (ae_attributes e))) entries"

definition is_approval_required :: "action_error \<Rightarrow> bool" where
  "is_approval_required e = (case e of Ax_Approval_Required _ \<Rightarrow> True | _ \<Rightarrow> False)"

definition is_preview_mismatch :: "action_error \<Rightarrow> bool" where
  "is_preview_mismatch e = (case e of Ax_Preview_Mismatch \<Rightarrow> True | _ \<Rightarrow> False)"

definition is_execution_failed :: "action_error \<Rightarrow> bool" where
  "is_execution_failed e = (case e of Ax_Execution_Failed _ \<Rightarrow> True | _ \<Rightarrow> False)"

record white_goods_result =
  wr_previewed :: bool
  wr_unauthorized_denied :: bool
  wr_approval_denied :: bool
  wr_idempotent :: bool
  wr_compensated :: bool
  wr_audit_valid :: bool
  wr_payload_free_audit :: bool

definition unexposed_action :: action_plan where
  "unexposed_action = service_action\<lparr>ap_action_id := ''whitegoods-unexposed-operation'', ap_operation := ''delete-customer'',
     ap_idempotency_key := ''wg-unexposed''\<rparr>"

definition white_goods_scenario :: "runtime \<Rightarrow> registry \<Rightarrow> white_goods_result scenario_op" where
  "white_goods_scenario rt r =
     (let lab = service_lab; a = service_action; me = lb_identity lab; other = service_identity ''agent.other''
      in sm_bind (lab_preview rt lab r a other) (\<lambda>denied.
         sm_bind (lab_preview rt lab r unexposed_action me) (\<lambda>unexposed.
         sm_bind (approve rt lab a) (\<lambda>approval.
         sm_bind (caught is_preview_mismatch (lab_execute rt lab r a denied other (Some approval))) (\<lambda>mismatch.
         sm_bind (lab_preview rt lab r a me) (\<lambda>preview.
         sm_bind (caught is_approval_required (lab_execute rt lab r a preview me None)) (\<lambda>approval_denied.
         sm_bind (lab_execute rt lab r a preview me (Some approval)) (\<lambda>receipt.
         sm_bind (lab_execute rt lab r a preview me (Some approval)) (\<lambda>replay st.
           (let idempotent = idempotent_run receipt replay (snd st)
            in sm_bind (lab_compensate rt lab r a receipt me (Some approval)) (\<lambda>compensation st.
                 (Inr \<lparr>wr_previewed = pv_allowed preview,
                    wr_unauthorized_denied = (\<not> pv_allowed denied \<and> \<not> pv_allowed unexposed \<and> mismatch),
                    wr_approval_denied = approval_denied, wr_idempotent = idempotent,
                    wr_compensated = compensated_run (lb_initial lab) compensation (snd st),
                    wr_audit_valid = audit_verify (rt_prims rt) (gst_audit (fst st)),
                    wr_payload_free_audit = audit_payload_free rt [''2026-09-01T09:00:00Z'', ''2026-09-02T09:00:00Z''] (gst_audit (fst st))\<rparr>,
                  st)) st))))))))))"

record cold_chain_result =
  cr_previewed :: bool
  cr_precondition_denied :: bool
  cr_idempotent :: bool
  cr_compensated :: bool
  cr_audit_valid :: bool
  cr_payload_free_audit :: bool

definition cold_chain_scenario :: "runtime \<Rightarrow> registry \<Rightarrow> cold_chain_result scenario_op" where
  "cold_chain_scenario rt r =
     (let lab = incident_lab; me = lb_identity lab; stale = incident_action 99; a = incident_action 1
      in sm_bind (lab_preview rt lab r stale me) (\<lambda>stale_preview.
         sm_bind (approve rt lab stale) (\<lambda>stale_approval.
         sm_bind (caught is_execution_failed (lab_execute rt lab r stale stale_preview me (Some stale_approval))) (\<lambda>precondition_denied.
         sm_bind (lab_preview rt lab r a me) (\<lambda>preview.
         sm_bind (approve rt lab a) (\<lambda>approval.
         sm_bind (lab_execute rt lab r a preview me (Some approval)) (\<lambda>receipt.
         sm_bind (lab_execute rt lab r a preview me (Some approval)) (\<lambda>replay st.
           (let idempotent = idempotent_run receipt replay (snd st)
            in sm_bind (lab_compensate rt lab r a receipt me (Some approval)) (\<lambda>compensation st.
                 (Inr \<lparr>cr_previewed = pv_allowed preview, cr_precondition_denied = precondition_denied, cr_idempotent = idempotent,
                    cr_compensated = compensated_run ''open'' compensation (snd st),
                    cr_audit_valid = audit_verify (rt_prims rt) (gst_audit (fst st)),
                    cr_payload_free_audit = audit_payload_free rt [''open'', ''acknowledged''] (gst_audit (fst st))\<rparr>, st)) st)))))))))"

definition run_scenario :: "action_lab \<Rightarrow> (registry \<Rightarrow> 'a scenario_op) \<Rightarrow> action_error + 'a" where
  "run_scenario lab scenario =
     (case register (source_profile (sc_source (lb_scope lab))) empty_registry of
        Inl e \<Rightarrow> Inl (Ax_Registry e)
      | Inr r \<Rightarrow> fst (scenario r (action_start, lab_source_of lab)))"

definition stale_second :: action_plan where
  "stale_second = service_action\<lparr>ap_action_id := ''whitegoods-confirm-parts-stale'', ap_idempotency_key := ''wg-appointment-1001:confirm-parts'',
     ap_preconditions := [(''expectedVersion'', JInt 99), (''expectedValue'', JStr ''2026-09-02T09:00:00Z'')]\<rparr>"

definition lab_saga_gateway :: "runtime \<Rightarrow> action_lab \<Rightarrow> registry \<Rightarrow> (action_gateway_state \<times> mutation_source) saga_gateway" where
  "lab_saga_gateway rt lab r = \<lparr>sg_preview = lab_preview rt lab r, sg_execute = lab_execute rt lab r, sg_compensate = lab_compensate rt lab r\<rparr>"

definition saga_scenario :: "runtime \<Rightarrow> registry \<Rightarrow> bool scenario_op" where
  \<comment> \<open>the policy of the lab raises no foreign exception, so none is a controlled failure\<close>
  "saga_scenario rt r =
     sm_bind (approve rt service_lab service_action) (\<lambda>first.
     sm_bind (approve rt service_lab stale_second) (\<lambda>second.
     sm_bind (run_saga (\<lambda>n. False) (lab_saga_gateway rt service_lab r)
        [\<lparr>ss_action = service_action, ss_approval = Some first\<rparr>, \<lparr>ss_action = stale_second, ss_approval = Some second\<rparr>] (lb_identity service_lab)) (\<lambda>out st.
       (Inr (so_state out = Saga_Compensated \<and> length (so_receipts out) = 1 \<and> length (so_compensations out) = 1
          \<and> ms_value (snd st) = ''2026-09-01T09:00:00Z'' \<and> audit_verify (rt_prims rt) (gst_audit (fst st))), st))))"

definition sample_runtime :: "int \<Rightarrow> runtime" where
  "sample_runtime now = \<lparr>rt_prims = sample_prims, rt_fromisoformat = (\<lambda>t. Some (utc now)),
     rt_int = (\<lambda>v. case v of JInt n \<Rightarrow> Inr n | _ \<Rightarrow> Inl (ValueError ''int'')), rt_database = (\<lambda>j. []), rt_encode = id\<rparr>"

text \<open>What a lab issues it accepts, whatever the standard library computes, as long as its digests are hexadecimal.\<close>

lemma lab_approval_verifies:
  assumes "lab_approval p lab a = Inr approval" and "\<And>k m. set (pr_hmac_sha256 p k m) \<subseteq> set ''0123456789abcdef''"
  shows "verify_approval p (lb_authority lab) approval a (lb_identity lab) (utc (lb_now lab)) c = Inr True"
  using issued_approval_verifies [OF assms(1) [unfolded lab_approval_def] assms(2), of a "utc (lb_now lab)" c]
  by (simp add: micros_def)

lemma lab_approves:
  assumes "lab \<in> {service_lab, incident_lab}"
  shows "\<exists>approval. lab_approval p lab a = Inr approval"
proof -
  have "lb_nonce_prefix lab \<noteq> []" "lb_approver lab \<noteq> []" "str_startswith (lb_approver lab) ''human:''" "id_policy_digest (lb_identity lab) \<noteq> []"
    using assms by (auto simp: service_lab_def incident_lab_def service_identity_def incident_identity_def str_startswith_def)
  then show ?thesis by (simp add: lab_approval_def issue_def mk_action_approval_def plan_digest_def digest_of_def micros_def)
qed

lemma lab_policy_decides:
  assumes "id_agent_id i = sc_agent (lb_scope lab)" and "ap_source_id a = sc_source (lb_scope lab)" and "ap_asset_id a = sc_asset (lb_scope lab)"
    and "ap_preconditions a \<noteq> []" and "ap_operation a \<in> set (sc_operations (lb_scope lab))"
  shows "\<exists>d. lab_action_policy p lab (mutation_authorization p a i stage) = Inr d \<and> pd_allowed d"
  using assms bounded_policy_allows_iff [of "pr_repr p" "lb_scope lab" p a i stage] by (auto simp: lab_action_policy_def)

lemma lab_governed:
  assumes "lab_approval (rt_prims rt) lab a = Inr approval" and "\<And>k m. set (pr_hmac_sha256 (rt_prims rt) k m) \<subseteq> set ''0123456789abcdef''"
    and "rt_fromisoformat rt (pr_isoformat (rt_prims rt) (utc (lb_now lab))) = Some (utc (lb_now lab))"
    and "id_agent_id (lb_identity lab) = sc_agent (lb_scope lab)" and "ap_source_id a = sc_source (lb_scope lab)"
    and "ap_asset_id a = sc_asset (lb_scope lab)" and "ap_preconditions a \<noteq> []" and "ap_operation a \<in> set (sc_operations (lb_scope lab))"
  shows "\<exists>d. governed (recovery_lab_of rt lab) a approval (lb_identity lab) d"
proof -
  have "\<exists>d. lab_action_policy (rt_prims rt) lab (mutation_authorization (rt_prims rt) a (lb_identity lab) stage) = Inr d \<and> pd_allowed d" for stage
    using assms(4-) by (rule lab_policy_decides)
  then obtain d where "\<forall>stage. lab_action_policy (rt_prims rt) lab (mutation_authorization (rt_prims rt) a (lb_identity lab) stage) = Inr (d stage)
      \<and> pd_allowed (d stage)" by metis
  with lab_approval_verifies [OF assms(1,2)] assms(3) show ?thesis
    by (intro exI [of _ d]) (simp add: governed_def recovery_lab_of_def time_ok_def recovery_journal_def)
qed

text \<open>The two labs meet what the recovery needs.\<close>

lemma labs_accept:
  assumes "rt_int rt (JInt 1) = Inr 1"
  shows "accepts (rl_source (recovery_lab_of rt service_lab)) (lab_source_of service_lab) service_action ''2026-09-02T09:00:00Z''"
    and "accepts (rl_source (recovery_lab_of rt incident_lab)) (lab_source_of incident_lab) (incident_action 1) ''acknowledged''"
  using assms
  by (auto simp: accepts_def recovery_lab_of_def lab_source_of_def new_mutation_source_def service_lab_def incident_lab_def
      service_action_def incident_action_def)

lemma labs_governed:
  assumes "\<And>k m. set (pr_hmac_sha256 (rt_prims rt) k m) \<subseteq> set ''0123456789abcdef''"
    and "rt_fromisoformat rt (pr_isoformat (rt_prims rt) (utc (lb_now lab))) = Some (utc (lb_now lab))"
    and "(lab, a) \<in> {(service_lab, service_action), (incident_lab, incident_action 1)}"
  obtains approval d where "lab_approval (rt_prims rt) lab a = Inr approval"
    "governed (recovery_lab_of rt lab) a approval (lb_identity lab) d"
proof -
  have "lab \<in> {service_lab, incident_lab}" using assms(3) by auto
  then obtain approval where "lab_approval (rt_prims rt) lab a = Inr approval" using lab_approves by blast
  moreover from lab_governed [OF this assms(1,2)] assms(3) have "\<exists>d. governed (recovery_lab_of rt lab) a approval (lb_identity lab) d"
    by (auto simp: service_lab_def incident_lab_def service_action_def incident_action_def service_identity_def incident_identity_def)
  ultimately show thesis using that by blast
qed

theorem crash_after_effect_is_recovered_witness:
  "(\<exists>result. white_goods_recovery (sample_runtime (lb_now service_lab)) = Inr result \<and> rr_recovered result \<and> rr_blind_replay_blocked result
      \<and> rr_one_source_effect result \<and> rr_journal_valid result)
   \<and> (\<exists>result. cold_chain_recovery (sample_runtime (lb_now incident_lab)) = Inr result \<and> rr_recovered result
      \<and> rr_blind_replay_blocked result \<and> rr_one_source_effect result \<and> rr_journal_valid result)"
proof -
  let ?wg = "sample_runtime (lb_now service_lab)" and ?cc = "sample_runtime (lb_now incident_lab)"
  have runtime: "set (pr_hmac_sha256 (rt_prims (sample_runtime n)) k m) \<subseteq> set ''0123456789abcdef''"
    "rt_fromisoformat (sample_runtime n) t = Some (utc n)" "rt_int (sample_runtime n) (JInt 1) = Inr 1" for n k m t
    by (simp_all add: sample_runtime_def sample_prims_def)
  have one: "ms_mutation_count (lab_source_of lab) = 0" for lab by (simp add: lab_source_of_def new_mutation_source_def)
  obtain approval d where wg: "lab_approval (rt_prims ?wg) service_lab service_action = Inr approval"
      "governed (recovery_lab_of ?wg service_lab) service_action approval (lb_identity service_lab) d"
    by (rule labs_governed [of ?wg service_lab service_action]) (use runtime in auto)
  obtain approval' d' where cc: "lab_approval (rt_prims ?cc) incident_lab (incident_action 1) = Inr approval'"
      "governed (recovery_lab_of ?cc incident_lab) (incident_action 1) approval' (lb_identity incident_lab) d'"
    by (rule labs_governed [of ?cc incident_lab "incident_action 1"]) (use runtime in auto)
  show ?thesis
    using crash_after_effect_is_recovered [OF wg(2) labs_accept(1) one] crash_after_effect_is_recovered [OF cc(2) labs_accept(2) one]
      runtime(3) wg(1) cc(1)
    by (fastforce simp: white_goods_recovery_def cold_chain_recovery_def run_recovery_scenario_def)
qed

section \<open>The exercises pass\<close>

text \<open>The steps of Lab_Gateway on the state of an exercise: its table of receipts, and a ledger that verifies.\<close>

type_synonym receipt_table = "(string \<times> string, string \<times> mutation_receipt) dict"

definition run_state :: "prims \<Rightarrow> receipt_table \<Rightarrow> action_gateway_state \<Rightarrow> bool" where
  "run_state p table s \<longleftrightarrow> audit_verify p (gst_audit s) \<and> gst_idempotency s = table"

lemma run_stateI:
  assumes "run_state p table s" and "sm_rel (audit_kept p) op" and "op s = (x, t)" and "gst_idempotency t = table'"
  shows "run_state p table' t"
  using assms sm_relD [OF assms(2,3)] by (simp add: run_state_def audit_kept_def)

lemmas run_state_keeps = run_stateI [OF _ _ _ keeps_idempotency [THEN trans]]

lemma gateway_at_plain: "gateway_at rt lab r m = plain_env (recovery_lab_of rt lab) r m"
  by (simp add: gateway_at_def)

lemma recovery_lab_of_simps [simp]: "rl_prims (recovery_lab_of rt lab) = rt_prims rt" "rl_now (recovery_lab_of rt lab) = lb_now lab"
  by (simp_all add: recovery_lab_of_def)

lemma at_source_keeps: "op m s = (x, t) \<Longrightarrow> keeps s t \<Longrightarrow> at_source l op (s, m) = (x, t, m)"
  by (simp add: at_source_def keeps_def)

lemma at_source_sends:
  "op m s = (x, t) \<Longrightarrow> gst_dispatches t = gst_dispatches s @ [q] \<Longrightarrow> at_source l op (s, m) = (x, t, snd (lab_mutate (rl_source l) (snd q) m))"
  by (simp add: at_source_def)

text \<open>A quiet operation of the gateway leaves the table, the ledger's validity and the source.\<close>

lemma quiet_step:
  assumes "run_state (rt_prims rt) table s" and "sm_rel (audit_kept (rt_prims rt)) (op m)" and "\<exists>t. op m s = (x, t) \<and> keeps s t"
  shows "\<exists>t. at_source l op (s, m) = (x, t, m) \<and> run_state (rt_prims rt) table t"
proof -
  from assms(3) obtain t where t: "op m s = (x, t)" "keeps s t" by blast
  have "gst_idempotency s = table" using assms(1) by (simp add: run_state_def)
  with run_state_keeps [OF assms(1,2) t] at_source_keeps [where op = op, OF t] show ?thesis by blast
qed

lemma gateway_at_prims [simp]: "ax_prims (gateway_at rt lab r m) = rt_prims rt"
  by (simp add: gateway_at_def)

lemma preview_step:
  assumes "run_state (rt_prims rt) table s" and "decides (recovery_lab_of rt lab) a i ''preview'' d"
  shows "\<exists>t. lab_preview rt lab (only_source a) a i (s, m) = (Inr (lab_preview_of (recovery_lab_of rt lab) a i d), t, m)
    \<and> run_state (rt_prims rt) table t"
  unfolding lab_preview_def
  by (rule quiet_step [OF assms(1)]) (use lab_previews [OF assms(2) refl] in \<open>auto simp: gateway_at_plain intro: audit_kept_preview\<close>)

lemma denied_step:
  assumes "run_state (rt_prims rt) table s" and "\<not> pd_allowed d"
  shows "\<exists>t. lab_execute rt lab r a (lab_preview_of (recovery_lab_of rt lab) a i d) i approval (s, m)
      = (Inl Ax_Preview_Mismatch, t, m) \<and> run_state (rt_prims rt) table t"
proof -
  have "\<not> preview_valid (rl_prims (recovery_lab_of rt lab)) a (lab_preview_of (recovery_lab_of rt lab) a i d) i (utc (rl_now (recovery_lab_of rt lab)))"
    using assms(2) unfolding lab_preview_valid .
  from lab_refuses_denied [OF this] show ?thesis
    unfolding lab_execute_def gateway_at_plain
    by (intro quiet_step [OF assms(1)] audit_kept_execute) simp
qed

lemma unapproved_step:
  assumes "run_state (rt_prims rt) table s" and "pd_allowed d" and "ap_approval_mode a = Approval_Human"
  shows "\<exists>msg t. lab_execute rt lab r a (lab_preview_of (recovery_lab_of rt lab) a i d) i None (s, m)
      = (Inl (Ax_Approval_Required msg), t, m) \<and> run_state (rt_prims rt) table t"
proof -
  have "preview_valid (rl_prims (recovery_lab_of rt lab)) a (lab_preview_of (recovery_lab_of rt lab) a i d) i (utc (rl_now (recovery_lab_of rt lab)))"
    using assms(2) unfolding lab_preview_valid .
  from lab_refuses_unapproved [OF this assms(3)] obtain msg where
    "\<exists>t. execute_action (plain_env (recovery_lab_of rt lab) r m) a (lab_preview_of (recovery_lab_of rt lab) a i d) i None s
       = (Inl (Ax_Approval_Required msg), t) \<and> keeps s t" by blast
  then show ?thesis
    unfolding lab_execute_def gateway_at_plain
    by (intro exI [of _ msg] quiet_step [OF assms(1)] audit_kept_execute) simp_all
qed

text \<open>The policy of a lab decides on every plan; it allows exactly those in its scope.\<close>

definition in_scope :: "action_lab \<Rightarrow> action_plan \<Rightarrow> request_identity \<Rightarrow> bool" where
  "in_scope lab a i \<longleftrightarrow> id_agent_id i = sc_agent (lb_scope lab) \<and> ap_source_id a = sc_source (lb_scope lab)
     \<and> ap_asset_id a = sc_asset (lb_scope lab) \<and> ap_preconditions a \<noteq> [] \<and> ap_operation a \<in> set (sc_operations (lb_scope lab))"

lemma lab_decides: "\<exists>d. decides (recovery_lab_of rt lab) a i stage d \<and> (pd_allowed d \<longleftrightarrow> in_scope lab a i)"
proof -
  let ?r = "mutation_authorization (rt_prims rt) a i stage"
  have "\<exists>d. bounded_action_policy (pr_repr (rt_prims rt)) (lb_scope lab) ?r = Inr d"
    by (auto simp: bounded_action_policy_def bounded_action_allowed_def mutation_authorization_def member_def json_truthy_def
        json_scalar_def sorted_names_def ck_bind_Inr Let_def)
  then obtain d where d: "bounded_action_policy (pr_repr (rt_prims rt)) (lb_scope lab) ?r = Inr d" by blast
  with bounded_policy_allows_iff [of "pr_repr (rt_prims rt)" "lb_scope lab" "rt_prims rt" a i stage] show ?thesis
    by (intro exI [of _ d]) (simp add: decides_def recovery_lab_of_def lab_action_policy_def in_scope_def)
qed

text \<open>An execution writes the source once, is replayed from the table, fails on a stale precondition, or is compensated.\<close>

lemma executed_step:
  assumes s: "run_state (rt_prims rt) table s" and scope: "in_scope lab a i" and v: "pd_allowed d"
    and ap: "approves (recovery_lab_of rt lab) a approval i False"
    and m: "accepts (rl_source (recovery_lab_of rt lab)) m a new" and free: "dict_get table (action_key a) = None"
  shows "\<exists>receipt t. lab_execute rt lab (only_source a) a (lab_preview_of (recovery_lab_of rt lab) a i d) i approval (s, m)
      = (Inr receipt, t, written a new m) \<and> rc_state receipt = AS_Executed \<and> rc_action_digest receipt = plan_digest (rt_prims rt) a
    \<and> run_state (rt_prims rt) (dict_set (action_key a) (plan_digest (rt_prims rt) a, receipt) table) t"
proof -
  let ?L = "recovery_lab_of rt lab"
  let ?op = "\<lambda>m. execute_action (plain_env ?L (only_source a) m) a (lab_preview_of ?L a i d) i approval"
  obtain e where e: "decides ?L a i ''execute'' e" "pd_allowed e" using lab_decides scope by blast
  have valid: "preview_valid (rl_prims ?L) a (lab_preview_of ?L a i d) i (utc (rl_now ?L))"
    using v unfolding lab_preview_valid .
  have table: "gst_idempotency s = table" using s by (simp add: run_state_def)
  with free have unbound: "dict_get (gst_idempotency s) (action_key a) = None" by simp
  obtain receipt t where t: "?op m s = (Inr receipt, t)" "rc_state receipt = AS_Executed"
      "rc_action_digest receipt = plan_digest (rt_prims rt) a"
      "gst_dispatches t = gst_dispatches s @ [(ap_source_id a, mutation_request a)]"
      "gst_idempotency t = dict_set (action_key a) (plan_digest (rt_prims rt) a, receipt) table"
    using lab_executes [OF e ap valid refl m unbound] unfolding table recovery_lab_of_simps by blast
  have "run_state (rt_prims rt) (dict_set (action_key a) (plan_digest (rt_prims rt) a, receipt) table) t"
    using t(1,5) by (intro run_stateI [where op = "?op m", OF s]) (simp_all add: audit_kept_execute)
  with t(2,3) at_source_sends [where op = ?op, OF t(1,4)] show ?thesis
    by (simp add: lab_execute_def gateway_at_plain accepted_mutation [OF m])
qed

lemma replayed_step:
  assumes s: "run_state (rt_prims rt) table s" and scope: "in_scope lab a i" and v: "pd_allowed d"
    and ap: "approves (recovery_lab_of rt lab) a approval i False"
    and bound: "dict_get table (action_key a) = Some (plan_digest (rt_prims rt) a, receipt)"
  shows "\<exists>q t. lab_execute rt lab r a (lab_preview_of (recovery_lab_of rt lab) a i d) i approval (s, m) = (Inr q, t, m)
    \<and> rc_state q = AS_Already_Executed \<and> run_state (rt_prims rt) table t"
proof -
  let ?L = "recovery_lab_of rt lab"
  obtain e where e: "decides ?L a i ''execute'' e" "pd_allowed e" using lab_decides scope by blast
  have "preview_valid (rl_prims ?L) a (lab_preview_of ?L a i d) i (utc (rl_now ?L))"
    using v unfolding lab_preview_valid .
  moreover have "dict_get (gst_idempotency s) (action_key a) = Some (plan_digest (rl_prims ?L) a, receipt)"
    using s bound by (simp add: run_state_def)
  ultimately obtain q where "rc_state q = AS_Already_Executed"
      "\<exists>t. execute_action (plain_env ?L r m) a (lab_preview_of ?L a i d) i approval s = (Inr q, t) \<and> keeps s t"
    using lab_replays [OF e ap] by blast
  then show ?thesis
    unfolding lab_execute_def gateway_at_plain
    using quiet_step [OF s, of "\<lambda>m. execute_action (plain_env ?L r m) a (lab_preview_of ?L a i d) i approval" m "Inr q" ?L]
    by (auto simp: audit_kept_execute)
qed

lemma failed_step:
  assumes s: "run_state (rt_prims rt) table s" and scope: "in_scope lab a i" and v: "pd_allowed d"
    and ap: "approves (recovery_lab_of rt lab) a approval i False"
    and m: "refuses (rl_source (recovery_lab_of rt lab)) m a" and free: "dict_get table (action_key a) = None"
  shows "\<exists>receipt t. lab_execute rt lab (only_source a) a (lab_preview_of (recovery_lab_of rt lab) a i d) i approval (s, m)
      = (Inl (Ax_Execution_Failed receipt), t, m) \<and> run_state (rt_prims rt) table t"
proof -
  let ?L = "recovery_lab_of rt lab"
  let ?op = "\<lambda>m. execute_action (plain_env ?L (only_source a) m) a (lab_preview_of ?L a i d) i approval"
  obtain e where e: "decides ?L a i ''execute'' e" "pd_allowed e" using lab_decides scope by blast
  have valid: "preview_valid (rl_prims ?L) a (lab_preview_of ?L a i d) i (utc (rl_now ?L))"
    using v unfolding lab_preview_valid .
  have table: "gst_idempotency s = table" using s by (simp add: run_state_def)
  with free have unbound: "dict_get (gst_idempotency s) (action_key a) = None" by simp
  obtain receipt t where t: "?op m s = (Inl (Ax_Execution_Failed receipt), t)"
      "gst_dispatches t = gst_dispatches s @ [(ap_source_id a, mutation_request a)]" "gst_idempotency t = table"
    using lab_fails [OF e ap valid refl m unbound] unfolding table by blast
  have "run_state (rt_prims rt) table t"
    using t(1,3) by (intro run_stateI [where op = "?op m", OF s]) (simp_all add: audit_kept_execute)
  with at_source_sends [where op = ?op, OF t(1,2)] show ?thesis
    by (simp add: lab_execute_def gateway_at_plain refused_mutation [OF m])
qed

lemma compensated_step:
  assumes s: "run_state (rt_prims rt) table s" and spec: "ap_compensation a = Some spec"
    and receipt: "rc_action_digest receipt = plan_digest (rt_prims rt) a" "rc_state receipt = AS_Executed"
    and ap: "approves (recovery_lab_of rt lab) a approval i True" and mk: "mk_action_plan (derived_plan a spec) = Inr (derived_plan a spec)"
    and scope: "in_scope lab (derived_plan a spec) i"
    and m: "accepts (rl_source (recovery_lab_of rt lab)) m (derived_plan a spec) new"
    and free: "dict_get table (action_key (derived_plan a spec)) = None"
  shows "\<exists>q t. lab_compensate rt lab (only_source a) a receipt i approval (s, m) = (Inr q, t, written (derived_plan a spec) new m)
    \<and> rc_state q = AS_Compensated \<and> audit_verify (rt_prims rt) (gst_audit t)"
proof -
  let ?L = "recovery_lab_of rt lab" and ?d = "derived_plan a spec"
  let ?op = "\<lambda>m. compensate_action (plain_env ?L (only_source a) m) a receipt i approval"
  obtain d1 d2 where d: "decides ?L ?d i ''preview'' d1" "pd_allowed d1" "decides ?L ?d i ''execute'' d2" "pd_allowed d2"
    using lab_decides scope by blast
  have "dict_get (gst_idempotency s) (action_key ?d) = None" using s free by (simp add: run_state_def)
  then obtain q t where t: "?op m s = (Inr q, t)" "rc_state q = AS_Compensated"
      "gst_dispatches t = gst_dispatches s @ [(ap_source_id a, mutation_request ?d)]"
    using lab_compensates [OF spec _ _ ap mk d refl m, of receipt s] receipt by auto
  have "audit_verify (rt_prims rt) (gst_audit t)"
    using sm_relD [OF audit_kept_compensate [of "plain_env ?L (only_source a) m" "rt_prims rt"] t(1)] s
    by (simp add: run_state_def audit_kept_def)
  with t(2) at_source_sends [where op = ?op, OF t(1,3)] show ?thesis
    by (simp add: lab_compensate_def gateway_at_plain accepted_mutation [OF m])
qed

text \<open>What the two labs fix.\<close>

abbreviation undo :: "action_plan \<Rightarrow> action_plan" where
  "undo a \<equiv> derived_plan a (the (ap_compensation a))"

lemmas lab_constants = service_lab_def incident_lab_def service_action_def incident_action_def service_identity_def incident_identity_def
  unexposed_action_def stale_second_def

lemma lab_scopes:
  "in_scope service_lab service_action (lb_identity service_lab)" "in_scope service_lab (undo service_action) (lb_identity service_lab)"
  "in_scope service_lab stale_second (lb_identity service_lab)"
  "\<not> in_scope service_lab service_action (service_identity ''agent.other'')" "\<not> in_scope service_lab unexposed_action (lb_identity service_lab)"
  "in_scope incident_lab (incident_action n) (lb_identity incident_lab)" "in_scope incident_lab (undo (incident_action n)) (lb_identity incident_lab)"
  by (simp_all add: in_scope_def lab_constants derived_plan_def)

lemma lab_plans:
  "mk_action_plan (undo service_action) = Inr (undo service_action)" "mk_action_plan (undo (incident_action n)) = Inr (undo (incident_action n))"
  by (simp_all add: mk_action_plan_def lab_constants derived_plan_def)

lemma lab_keys:
  "action_key (undo a) \<noteq> action_key a" "action_key unexposed_action \<noteq> action_key service_action" "action_key stale_second \<noteq> action_key service_action"
  "action_key (undo service_action) \<noteq> action_key stale_second"
  by (simp_all add: action_key_def derived_plan_def unexposed_action_def stale_second_def service_action_def)

lemma lab_sources:
  "register (source_profile (sc_source (lb_scope service_lab))) empty_registry = Inr (only_source service_action)"
  "register (source_profile (sc_source (lb_scope incident_lab))) empty_registry = Inr (only_source (incident_action n))"
  "ap_source_id unexposed_action = ap_source_id service_action" "ap_source_id stale_second = ap_source_id service_action"
  "ap_source_id (incident_action n) = ap_source_id (incident_action 1)"
  by (simp_all add: register_def empty_registry_def source_profile_def lab_constants)

lemma lab_undoes:
  assumes "\<And>n. rt_int rt (JInt n) = Inr n"
  shows "accepts (rl_source (recovery_lab_of rt service_lab)) (written service_action ''2026-09-02T09:00:00Z'' (lab_source_of service_lab))
      (undo service_action) ''2026-09-01T09:00:00Z''"
    and "accepts (rl_source (recovery_lab_of rt incident_lab)) (written (incident_action 1) ''acknowledged'' (lab_source_of incident_lab))
      (undo (incident_action 1)) ''open''"
    and "refuses (rl_source (recovery_lab_of rt service_lab)) (written service_action ''2026-09-02T09:00:00Z'' (lab_source_of service_lab)) stale_second"
    and "refuses (rl_source (recovery_lab_of rt incident_lab)) (lab_source_of incident_lab) (incident_action 99)"
  using assms
  by (auto simp: accepts_def refuses_def recovery_lab_of_def lab_source_of_def new_mutation_source_def written_def derived_plan_def lab_constants)

lemma lab_end_states:
  "ms_mutation_count (written a x (lab_source_of lab)) = 1"
  "ms_mutation_count (written b y (written a x (lab_source_of lab))) = 2" "ms_value (written b y m) = y"
  by (simp_all add: written_def lab_source_of_def new_mutation_source_def)

lemma lab_approved:
  assumes "lab \<in> {service_lab, incident_lab}" and "\<And>k m. set (pr_hmac_sha256 (rt_prims rt) k m) \<subseteq> set ''0123456789abcdef''"
  shows "\<exists>ap. approve rt lab a st = (Inr ap, st) \<and> (\<forall>c. approves (recovery_lab_of rt lab) a (Some ap) (lb_identity lab) c)"
proof -
  obtain ap where ap: "lab_approval (rt_prims rt) lab a = Inr ap" using lab_approves [OF assms(1)] by blast
  have "\<forall>c. approves (recovery_lab_of rt lab) a (Some ap) (lb_identity lab) c"
    using lab_approval_verifies [OF ap assms(2)] by (simp add: approves_def recovery_lab_of_def)
  then show ?thesis by (simp add: approve_def ap sm_lift_def)
qed

lemma run_start: "run_state p [] action_start"
  by (simp add: run_state_def action_start_def audit_verify_def)

text \<open>A lab's action executed, repeated and compensated.\<close>

definition undoable :: "runtime \<Rightarrow> action_lab \<Rightarrow> action_plan \<Rightarrow> string \<Rightarrow> mutation_source \<Rightarrow> bool" where
  "undoable rt lab a new m \<longleftrightarrow> (\<exists>spec. ap_compensation a = Some spec) \<and> mk_action_plan (undo a) = Inr (undo a)
     \<and> in_scope lab a (lb_identity lab) \<and> in_scope lab (undo a) (lb_identity lab)
     \<and> accepts (rl_source (recovery_lab_of rt lab)) m a new
     \<and> accepts (rl_source (recovery_lab_of rt lab)) (written a new m) (undo a) (lb_initial lab)"

lemma undoable_labs:
  assumes "\<And>n. rt_int rt (JInt n) = Inr n"
  shows "undoable rt service_lab service_action ''2026-09-02T09:00:00Z'' (lab_source_of service_lab)"
    and "undoable rt incident_lab (incident_action 1) ''acknowledged'' (lab_source_of incident_lab)"
  using labs_accept [OF assms] lab_undoes [OF assms] lab_scopes lab_plans
  by (auto simp: undoable_def service_action_def incident_action_def service_lab_def incident_lab_def)

lemma round_trip:
  assumes s: "run_state (rt_prims rt) table s" and u: "undoable rt lab a new m" and v: "pd_allowed d"
    and ap: "\<forall>c. approves (recovery_lab_of rt lab) a (Some ap) (lb_identity lab) c"
    and free: "dict_get table (action_key a) = None" "dict_get table (action_key (undo a)) = None"
  obtains receipt s1 replay s2 q s3 where
    "lab_execute rt lab (only_source a) a (lab_preview_of (recovery_lab_of rt lab) a (lb_identity lab) d) (lb_identity lab) (Some ap) (s, m)
       = (Inr receipt, s1, written a new m)" "rc_state receipt = AS_Executed"
    "lab_execute rt lab (only_source a) a (lab_preview_of (recovery_lab_of rt lab) a (lb_identity lab) d) (lb_identity lab) (Some ap) (s1, written a new m)
       = (Inr replay, s2, written a new m)" "rc_state replay = AS_Already_Executed"
    "lab_compensate rt lab (only_source a) a receipt (lb_identity lab) (Some ap) (s2, written a new m)
       = (Inr q, s3, written (undo a) (lb_initial lab) (written a new m))" "rc_state q = AS_Compensated"
    "audit_verify (rt_prims rt) (gst_audit s3)"
proof -
  from u obtain spec where spec: "ap_compensation a = Some spec" "undo a = derived_plan a spec" by (auto simp: undoable_def)
  note u' = u [unfolded undoable_def spec(2)]
  obtain receipt s1 where one: "lab_execute rt lab (only_source a) a (lab_preview_of (recovery_lab_of rt lab) a (lb_identity lab) d)
        (lb_identity lab) (Some ap) (s, m) = (Inr receipt, s1, written a new m)" "rc_state receipt = AS_Executed"
      "rc_action_digest receipt = plan_digest (rt_prims rt) a"
      "run_state (rt_prims rt) (dict_set (action_key a) (plan_digest (rt_prims rt) a, receipt) table) s1"
    using executed_step [OF s _ v ap [rule_format] _ free(1)] u' by blast
  have bound: "dict_get (dict_set (action_key a) (plan_digest (rt_prims rt) a, receipt) table) (action_key a)
      = Some (plan_digest (rt_prims rt) a, receipt)" by simp
  obtain replay s2 where two: "lab_execute rt lab (only_source a) a (lab_preview_of (recovery_lab_of rt lab) a (lb_identity lab) d)
        (lb_identity lab) (Some ap) (s1, written a new m) = (Inr replay, s2, written a new m)" "rc_state replay = AS_Already_Executed"
      "run_state (rt_prims rt) (dict_set (action_key a) (plan_digest (rt_prims rt) a, receipt) table) s2"
    using replayed_step [OF one(4) _ v ap [rule_format] bound] u' by blast
  have "dict_get (dict_set (action_key a) (plan_digest (rt_prims rt) a, receipt) table) (action_key (derived_plan a spec)) = None"
    using free(2) lab_keys(1) [of a] spec by simp
  from compensated_step [OF two(3) spec(1) one(3,2) ap [rule_format] _ _ _ this] u' one(1,2) two(1,2) show thesis
    using that unfolding spec(2) by blast
qed

lemma white_goods_passes:
  assumes digests: "\<And>k m. set (pr_hmac_sha256 (rt_prims rt) k m) \<subseteq> set ''0123456789abcdef''" and ints: "\<And>n. rt_int rt (JInt n) = Inr n"
  shows "\<exists>result. run_scenario service_lab (white_goods_scenario rt) = Inr result \<and> wr_previewed result \<and> wr_unauthorized_denied result
    \<and> wr_approval_denied result \<and> wr_idempotent result \<and> wr_compensated result \<and> wr_audit_valid result"
proof -
  let ?lab = service_lab and ?a = service_action and ?m = "lab_source_of service_lab" and ?other = "service_identity ''agent.other''"
  let ?me = "lb_identity service_lab" and ?r = "only_source service_action"
  note scopes = lab_scopes(1,4,5)
  obtain d0 d1 d2 where d: "decides (recovery_lab_of rt ?lab) ?a ?other ''preview'' d0" "\<not> pd_allowed d0"
      "decides (recovery_lab_of rt ?lab) unexposed_action ?me ''preview'' d1" "\<not> pd_allowed d1"
      "decides (recovery_lab_of rt ?lab) ?a ?me ''preview'' d2" "pd_allowed d2"
    using lab_decides scopes by metis
  let ?v = "\<lambda>a i d. lab_preview_of (recovery_lab_of rt ?lab) a i d"
  obtain s1 where s1: "lab_preview rt ?lab ?r ?a ?other (action_start, ?m) = (Inr (?v ?a ?other d0), s1, ?m)" "run_state (rt_prims rt) [] s1"
    using preview_step [OF run_start d(1)] by blast
  obtain s2 where s2: "lab_preview rt ?lab ?r unexposed_action ?me (s1, ?m) = (Inr (?v unexposed_action ?me d1), s2, ?m)"
      "run_state (rt_prims rt) [] s2"
    using preview_step [OF s1(2) d(3)] unfolding lab_sources(3) by blast
  obtain ap where ap: "\<And>st. approve rt ?lab ?a st = (Inr ap, st)" "\<forall>c. approves (recovery_lab_of rt ?lab) ?a (Some ap) ?me c"
    using lab_approved [of ?lab rt ?a, OF _ digests] by (auto simp: approve_def)
  obtain s3 where s3: "lab_execute rt ?lab ?r ?a (?v ?a ?other d0) ?other (Some ap) (s2, ?m) = (Inl Ax_Preview_Mismatch, s3, ?m)"
      "run_state (rt_prims rt) [] s3"
    using denied_step [OF s2(2) d(2)] by blast
  obtain s4 where s4: "lab_preview rt ?lab ?r ?a ?me (s3, ?m) = (Inr (?v ?a ?me d2), s4, ?m)" "run_state (rt_prims rt) [] s4"
    using preview_step [OF s3(2) d(5)] by blast
  have "ap_approval_mode ?a = Approval_Human" by (simp add: service_action_def)
  then obtain msg s5 where s5: "lab_execute rt ?lab ?r ?a (?v ?a ?me d2) ?me None (s4, ?m) = (Inl (Ax_Approval_Required msg), s5, ?m)"
      "run_state (rt_prims rt) [] s5"
    using unapproved_step [OF s4(2) d(6)] by blast
  obtain receipt s6 replay s7 q s8 where run:
      "lab_execute rt ?lab ?r ?a (?v ?a ?me d2) ?me (Some ap) (s5, ?m) = (Inr receipt, s6, written ?a ''2026-09-02T09:00:00Z'' ?m)"
      "rc_state receipt = AS_Executed"
      "lab_execute rt ?lab ?r ?a (?v ?a ?me d2) ?me (Some ap) (s6, written ?a ''2026-09-02T09:00:00Z'' ?m)
        = (Inr replay, s7, written ?a ''2026-09-02T09:00:00Z'' ?m)" "rc_state replay = AS_Already_Executed"
      "lab_compensate rt ?lab ?r ?a receipt ?me (Some ap) (s7, written ?a ''2026-09-02T09:00:00Z'' ?m)
        = (Inr q, s8, written (undo ?a) (lb_initial ?lab) (written ?a ''2026-09-02T09:00:00Z'' ?m))" "rc_state q = AS_Compensated"
      "audit_verify (rt_prims rt) (gst_audit s8)"
    by (rule round_trip [OF s5(2) undoable_labs(1) [OF ints] d(6) ap(2)]) simp_all
  have "pv_allowed (?v a i d) = pd_allowed d" for a i d by (simp add: preview_of_def)
  then show ?thesis
    using d run by (simp add: run_scenario_def lab_sources(1) white_goods_scenario_def Let_def sm_bind_def s1(1) s2(1) ap(1) caught_def
        s3(1) s4(1) s5(1) is_preview_mismatch_def is_approval_required_def idempotent_run_def compensated_run_def lab_end_states
        del: recovery_lab_of_simps)
qed

lemma cold_chain_passes:
  assumes digests: "\<And>k m. set (pr_hmac_sha256 (rt_prims rt) k m) \<subseteq> set ''0123456789abcdef''" and ints: "\<And>n. rt_int rt (JInt n) = Inr n"
  shows "\<exists>result. run_scenario incident_lab (cold_chain_scenario rt) = Inr result \<and> cr_previewed result \<and> cr_precondition_denied result
    \<and> cr_idempotent result \<and> cr_compensated result \<and> cr_audit_valid result"
proof -
  let ?lab = incident_lab and ?a = "incident_action 1" and ?stale = "incident_action 99" and ?m = "lab_source_of incident_lab"
  let ?me = "lb_identity incident_lab" and ?r = "only_source (incident_action 1)"
  obtain d0 d1 where d: "decides (recovery_lab_of rt ?lab) ?stale ?me ''preview'' d0" "pd_allowed d0"
      "decides (recovery_lab_of rt ?lab) ?a ?me ''preview'' d1" "pd_allowed d1"
    using lab_decides lab_scopes(6) by metis
  let ?v = "\<lambda>a i d. lab_preview_of (recovery_lab_of rt ?lab) a i d"
  obtain s1 where s1: "lab_preview rt ?lab ?r ?stale ?me (action_start, ?m) = (Inr (?v ?stale ?me d0), s1, ?m)" "run_state (rt_prims rt) [] s1"
    using preview_step [OF run_start d(1)] unfolding lab_sources(5) [of 99] by blast
  obtain old ap where ap: "\<And>st. approve rt ?lab ?stale st = (Inr old, st)" "\<And>st. approve rt ?lab ?a st = (Inr ap, st)"
      "\<forall>c. approves (recovery_lab_of rt ?lab) ?stale (Some old) ?me c" "\<forall>c. approves (recovery_lab_of rt ?lab) ?a (Some ap) ?me c"
    using lab_approved [of ?lab rt ?stale, OF _ digests] lab_approved [of ?lab rt ?a, OF _ digests] by (auto simp: approve_def)
  obtain failed s2 where s2: "lab_execute rt ?lab ?r ?stale (?v ?stale ?me d0) ?me (Some old) (s1, ?m) = (Inl (Ax_Execution_Failed failed), s2, ?m)"
      "run_state (rt_prims rt) [] s2"
    using failed_step [OF s1(2) lab_scopes(6) d(2) ap(3) [rule_format] lab_undoes(4) [OF ints]] unfolding lab_sources(5) [of 99] by auto
  obtain s3 where s3: "lab_preview rt ?lab ?r ?a ?me (s2, ?m) = (Inr (?v ?a ?me d1), s3, ?m)" "run_state (rt_prims rt) [] s3"
    using preview_step [OF s2(2) d(3)] by blast
  obtain receipt s4 replay s5 q s6 where run:
      "lab_execute rt ?lab ?r ?a (?v ?a ?me d1) ?me (Some ap) (s3, ?m) = (Inr receipt, s4, written ?a ''acknowledged'' ?m)"
      "rc_state receipt = AS_Executed"
      "lab_execute rt ?lab ?r ?a (?v ?a ?me d1) ?me (Some ap) (s4, written ?a ''acknowledged'' ?m) = (Inr replay, s5, written ?a ''acknowledged'' ?m)"
      "rc_state replay = AS_Already_Executed"
      "lab_compensate rt ?lab ?r ?a receipt ?me (Some ap) (s5, written ?a ''acknowledged'' ?m)
        = (Inr q, s6, written (undo ?a) (lb_initial ?lab) (written ?a ''acknowledged'' ?m))" "rc_state q = AS_Compensated"
      "audit_verify (rt_prims rt) (gst_audit s6)"
    by (rule round_trip [OF s3(2) undoable_labs(2) [OF ints] d(4) ap(4)]) simp_all
  have "pv_allowed (?v a i d) = pd_allowed d" for a i d by (simp add: preview_of_def)
  moreover have "lb_initial ?lab = ''open''" by (simp add: incident_lab_def)
  ultimately show ?thesis
    using d run by (simp add: run_scenario_def lab_sources(2) [of 1] cold_chain_scenario_def Let_def sm_bind_def s1(1) s2(1) s3(1) ap(1,2)
        caught_def is_execution_failed_def idempotent_run_def compensated_run_def lab_end_states del: recovery_lab_of_simps)
qed

lemma saga_passes:
  assumes digests: "\<And>k m. set (pr_hmac_sha256 (rt_prims rt) k m) \<subseteq> set ''0123456789abcdef''" and ints: "\<And>n. rt_int rt (JInt n) = Inr n"
  shows "run_scenario service_lab (saga_scenario rt) = Inr True"
proof -
  let ?lab = service_lab and ?a = service_action and ?b = stale_second and ?m = "lab_source_of service_lab"
  let ?me = "lb_identity service_lab" and ?r = "only_source service_action" and ?new = "''2026-09-02T09:00:00Z''"
  obtain d0 d1 where d: "decides (recovery_lab_of rt ?lab) ?a ?me ''preview'' d0" "pd_allowed d0"
      "decides (recovery_lab_of rt ?lab) ?b ?me ''preview'' d1" "pd_allowed d1"
    using lab_decides lab_scopes(1,3) by metis
  let ?v = "\<lambda>a i d. lab_preview_of (recovery_lab_of rt ?lab) a i d"
  obtain ap1 ap2 where ap: "\<And>st. approve rt ?lab ?a st = (Inr ap1, st)" "\<And>st. approve rt ?lab ?b st = (Inr ap2, st)"
      "\<forall>c. approves (recovery_lab_of rt ?lab) ?a (Some ap1) ?me c" "\<forall>c. approves (recovery_lab_of rt ?lab) ?b (Some ap2) ?me c"
    using lab_approved [of ?lab rt ?a, OF _ digests] lab_approved [of ?lab rt ?b, OF _ digests] by (auto simp: approve_def)
  note undo = undoable_labs(1) [OF ints, unfolded undoable_def]
  obtain s1 where s1: "lab_preview rt ?lab ?r ?a ?me (action_start, ?m) = (Inr (?v ?a ?me d0), s1, ?m)" "run_state (rt_prims rt) [] s1"
    using preview_step [OF run_start d(1)] by blast
  obtain receipt s2 where s2: "lab_execute rt ?lab ?r ?a (?v ?a ?me d0) ?me (Some ap1) (s1, ?m) = (Inr receipt, s2, written ?a ?new ?m)"
      "rc_state receipt = AS_Executed" "rc_action_digest receipt = plan_digest (rt_prims rt) ?a"
      "run_state (rt_prims rt) [(action_key ?a, plan_digest (rt_prims rt) ?a, receipt)] s2"
    using executed_step [OF s1(2) lab_scopes(1) d(2) ap(3) [rule_format] labs_accept(1) [OF ints]] by auto
  obtain s3 where s3: "lab_preview rt ?lab ?r ?b ?me (s2, written ?a ?new ?m) = (Inr (?v ?b ?me d1), s3, written ?a ?new ?m)"
      "run_state (rt_prims rt) [(action_key ?a, plan_digest (rt_prims rt) ?a, receipt)] s3"
    using preview_step [OF s2(4) d(3)] unfolding lab_sources(4) by blast
  obtain failed s4 where s4: "lab_execute rt ?lab ?r ?b (?v ?b ?me d1) ?me (Some ap2) (s3, written ?a ?new ?m)
        = (Inl (Ax_Execution_Failed failed), s4, written ?a ?new ?m)"
      "run_state (rt_prims rt) [(action_key ?a, plan_digest (rt_prims rt) ?a, receipt)] s4"
    using failed_step [OF s3(2) lab_scopes(3) d(4) ap(4) [rule_format] lab_undoes(3) [OF ints]] lab_keys(3)
    unfolding lab_sources(4) by auto
  obtain q s5 where s5: "lab_compensate rt ?lab ?r ?a receipt ?me (Some ap1) (s4, written ?a ?new ?m)
        = (Inr q, s5, written (undo ?a) ''2026-09-01T09:00:00Z'' (written ?a ?new ?m))" "audit_verify (rt_prims rt) (gst_audit s5)"
    using compensated_step [OF s4(2) _ s2(3,2) ap(3) [rule_format] lab_plans(1) lab_scopes(2) lab_undoes(1) [OF ints]] lab_keys(1) [of ?a]
    by (auto simp: service_action_def)
  show ?thesis
    using s5(2) by (simp add: run_scenario_def lab_sources(1) saga_scenario_def sm_bind_def ap(1,2) run_saga_def saga_forward_def saga_backward_def
        lab_saga_gateway_def s1(1) s2(1) s3(1) s4(1) s5(1) lab_end_states del: recovery_lab_of_simps)
qed

text \<open>
  C14. The exercises of the two labs pass with every standard library whose HMAC digests are hexadecimal and whose
  \<open>int\<close> leaves integers alone: a foreign agent, an operation out of scope and a missing approval are refused, a
  stale precondition fails, an action is executed once, replayed from its receipt and compensated to the value before, a
  saga whose second step fails compensates its first, and the audit ledger verifies.
\<close>

theorem lab_actions_are_governed:
  assumes "\<And>k m. set (pr_hmac_sha256 (rt_prims rt) k m) \<subseteq> set ''0123456789abcdef''" and "\<And>n. rt_int rt (JInt n) = Inr n"
  shows "(\<exists>result. run_scenario service_lab (white_goods_scenario rt) = Inr result \<and> wr_previewed result
      \<and> wr_unauthorized_denied result \<and> wr_approval_denied result \<and> wr_idempotent result \<and> wr_compensated result \<and> wr_audit_valid result)
    \<and> (\<exists>result. run_scenario incident_lab (cold_chain_scenario rt) = Inr result \<and> cr_previewed result
      \<and> cr_precondition_denied result \<and> cr_idempotent result \<and> cr_compensated result \<and> cr_audit_valid result)
    \<and> run_scenario service_lab (saga_scenario rt) = Inr True"
  using white_goods_passes [OF assms] cold_chain_passes [OF assms] saga_passes [OF assms] by blast

theorem lab_actions_are_governed_witness:
  "(\<exists>result. run_scenario service_lab (white_goods_scenario (sample_runtime 0)) = Inr result \<and> wr_idempotent result \<and> wr_compensated result)
    \<and> run_scenario service_lab (saga_scenario (sample_runtime 0)) = Inr True"
proof -
  have "set (pr_hmac_sha256 (rt_prims (sample_runtime 0)) k m) \<subseteq> set ''0123456789abcdef''" "rt_int (sample_runtime 0) (JInt n) = Inr n" for k m n
    by (simp_all add: sample_runtime_def sample_prims_def)
  from lab_actions_are_governed [OF this] show ?thesis by blast
qed

end
