(* ===== verification/Reference_Worker.thy ===== *)
theory Reference_Worker
  imports White_Goods_Sources Signed_Packages
begin

text \<open>
  The worker process of the white-goods lab (white_goods/phase6_worker.py) and its conversation with the client of
  Worker_Protocol: the worker reads the line the client writes, handles the operation and prints one line, which the client
  reads. The texts of its files, the resolution of paths, \<open>int\<close>, \<open>repr\<close>, SHA-256, the bytes of a traceback and the texts of
  the exceptions of the standard library are parameters; how the pipes cut the bytes and when the wait ends are the
  operating system's.
\<close>

declare map_of_eq_Some_iff [simp del] Some_eq_map_of_iff [simp del]

section \<open>The operations\<close>

record worker_world =
  ww_service_csv :: string
  ww_telemetry :: string
  ww_fixtures :: string
  ww_documents :: string \<comment> \<open>the resolved directory of the documents\<close>
  ww_resolve :: "string \<Rightarrow> string" \<comment> \<open>\<open>(root / name).resolve()\<close>\<close>
  ww_files :: file_system
  ww_environ :: "(string, string) dict"
  ww_sha256 :: "string \<Rightarrow> string"
  ww_repr :: "json \<Rightarrow> string"
  ww_int :: "json \<Rightarrow> int checked"
  ww_float :: "string \<Rightarrow> string"
  ww_message :: "py_error \<Rightarrow> string"
  ww_traceback :: string

datatype worker_failure =
    Answered string \<comment> \<open>a KeyError, TypeError or ValueError, answered with its text\<close>
  | Uncaught \<comment> \<open>any other exception ends the process\<close>

type_synonym 'a handled = "worker_failure + 'a"

definition answered :: "worker_world \<Rightarrow> 'a checked \<Rightarrow> 'a handled" where
  \<comment> \<open>\<open>str\<close> of a KeyError is the \<open>repr\<close> of the key\<close>
  "answered w r = (case r of
     Inr x \<Rightarrow> Inr x
   | Inl (KeyError k) \<Rightarrow> Inl (Answered (ww_repr w (JStr k)))
   | Inl (ValueError m) \<Rightarrow> Inl (Answered (ww_message w (ValueError m)))
   | Inl (TypeError m) \<Rightarrow> Inl (Answered (ww_message w (TypeError m)))
   | Inl e \<Rightarrow> Inl Uncaught)"

definition asset_id :: string where "asset_id = ''service_orders''"
definition worker_source :: string where "worker_source = ''whitegoods.reference-worker''"

definition service_rows :: "worker_world \<Rightarrow> (string list \<times> row list) handled" where
  "service_rows w = (case read_table (ww_service_csv w) of Inl e \<Rightarrow> Inl Uncaught | Inr t \<Rightarrow> Inr t)"

definition first_fields :: "row list \<Rightarrow> string list handled" where
  \<comment> \<open>\<open>sorted(rows[0])\<close>; an IndexError is not answered\<close>
  "first_fields rows = (case rows of [] \<Rightarrow> Inl Uncaught | r # _ \<Rightarrow> Inr (sort (dict_keys r)))"

definition worker_version :: json where
  "worker_version = JObj [(''sourceId'', JStr worker_source), (''version'', JStr ''fixture:phase6.5''),
     (''observedAt'', JStr ''2026-08-27T12:00:00+00:00''), (''effectiveAt'', JNull)]"

definition parent_directory :: "string \<Rightarrow> string" where
  "parent_directory path = rev (drop 1 (dropWhile (\<lambda>c. c \<noteq> CHR ''/'') (rev path)))"

definition get_document :: "worker_world \<Rightarrow> (string, json) dict \<Rightarrow> (string, json) dict handled" where
  "get_document w payload =
     \<comment> \<open>resolving a name with a NUL raises a ValueError\<close>
     (let name = py_str (ww_repr w) (or_default payload ''name'' (JStr []));
          path = ww_resolve w name
      in if CHR 0x00 \<in> set name then answered w (Inl (ValueError ''embedded null byte''))
         else if \<not> fs_is_file (ww_files w) path \<or> parent_directory path \<noteq> ww_documents w then Inl (Answered ''document_not_found'')
         else let content = fs_read_bytes (ww_files w) path
              in Inr [(''bytes'', JInt (int (length content))), (''sha256'', JStr (ww_sha256 w content)), (''source'', JStr ''s3-shape'')])"

definition poll_events :: "worker_world \<Rightarrow> (string, json) dict" where
  "poll_events w =
     (let n = int (length (filter (\<lambda>line. line \<noteq> []) (str_splitlines (ww_telemetry w))))
      in [(''events'', JInt n), (''checkpoint'', JStr (show_int n)), (''source'', JStr ''kafka-shape'')])"

definition json_len :: "json \<Rightarrow> int checked" where
  "json_len v = (case v of JArr xs \<Rightarrow> Inr (int (length xs)) | JObj d \<Rightarrow> Inr (int (length d)) | JStr s \<Rightarrow> Inr (int (length s))
     | _ \<Rightarrow> Inl (TypeError ''object has no len()''))"

definition count_fixtures :: "worker_world \<Rightarrow> (string, json) dict handled" where
  "count_fixtures w = answered w
     (ck_bind (case json_loads (ww_float w) (ww_fixtures w) of Inl _ \<Rightarrow> Inl (ValueError ''JSONDecodeError'') | Inr v \<Rightarrow> Inr v) (\<lambda>document.
      ck_bind (json_len document) (\<lambda>n. Inr [(''records'', JInt n), (''source'', JStr ''rest-shape'')])))"

definition sensitive_variables :: "string list" where
  "sensitive_variables = [''AWS_SECRET_ACCESS_KEY'', ''DATABASE_PASSWORD'', ''BEARER_TOKEN'']"

definition runtime_environment :: "worker_world \<Rightarrow> (string, json) dict" where
  "runtime_environment w =
     [(''sensitiveVariablesPresent'', JArr (map JStr (filter (\<lambda>n. n \<in> set (dict_keys (ww_environ w))) sensitive_variables)))]"

definition describe_orders :: "worker_world \<Rightarrow> (string, json) dict \<Rightarrow> (string, json) dict handled" where
  "describe_orders w payload =
     (if member payload ''assetId'' \<noteq> JStr asset_id then Inl (Answered ''asset_not_found'')
      else ck_bind (service_rows w) (\<lambda>(names, rows). ck_bind (first_fields rows) (\<lambda>fields.
           Inr [(''fields'', JArr (map (\<lambda>n. JObj [(''name'', JStr n), (''logicalType'', JStr ''string''), (''nullable'', JBool True)]) fields)),
                (''version'', worker_version)])))"

text \<open>A value used as a dictionary that is none raises an AttributeError, which ends the process.\<close>

definition attribute_dict :: "json \<Rightarrow> (string, json) dict handled" where
  "attribute_dict v = (case v of JObj d \<Rightarrow> Inr d | _ \<Rightarrow> Inl Uncaught)"

definition order_matches :: "worker_world \<Rightarrow> (string, json) dict \<Rightarrow> row \<Rightarrow> bool" where
  "order_matches w wh row = list_all (\<lambda>(k, v). py_str (ww_repr w) (member row k) = py_str (ww_repr w) v) wh"

definition matched_orders :: "worker_world \<Rightarrow> json \<Rightarrow> row list \<Rightarrow> row list handled" where
  \<comment> \<open>the condition is only read when there is a row\<close>
  "matched_orders w wh rows =
     (if rows = [] then Inr [] else ck_bind (attribute_dict wh) (\<lambda>d. Inr (filter (order_matches w d) rows)))"

definition select_field :: "worker_world \<Rightarrow> row \<Rightarrow> json \<Rightarrow> (string \<times> json) handled" where
  \<comment> \<open>\<open>row[key]\<close>: a row has texts as keys\<close>
  "select_field w row k = (case k of
     JStr t \<Rightarrow> (case dict_get row t of None \<Rightarrow> Inl (Answered (ww_repr w k)) | Some v \<Rightarrow> Inr (t, v))
   | JArr xs \<Rightarrow> answered w (Inl (TypeError ''unhashable type''))
   | JObj d \<Rightarrow> answered w (Inl (TypeError ''unhashable type''))
   | _ \<Rightarrow> Inl (Answered (ww_repr w k)))"

definition project_order :: "worker_world \<Rightarrow> json \<Rightarrow> row \<Rightarrow> row handled" where
  "project_order w select row =
     (if \<not> json_truthy select then Inr row
      else ck_bind (answered w (json_elements select)) (\<lambda>ks. ck_bind (check_all (select_field w row) ks) (\<lambda>kvs.
           Inr (fold (\<lambda>(k, v). dict_set k v) kvs []))))"

definition order_lineage :: "json \<Rightarrow> json" where
  "order_lineage i = JObj [(''sourceId'', JStr worker_source), (''assetId'', JStr asset_id), (''recordId'', i), (''fieldPath'', JNull)]"

definition order_batch :: "row list \<Rightarrow> json list \<Rightarrow> (string, json) dict" where
  "order_batch output lineage =
     [(''batches'', JArr [JObj [(''kind'', JStr ''arrow''), (''payload'', JArr (map JObj output)), (''sourceVersions'', JArr [worker_version]),
        (''lineage'', JArr lineage), (''rowCount'', JInt (int (length output))),
        (''byteCount'', JInt (int (length (dumps (JArr (map JObj output))))))]])]"

definition query_orders :: "worker_world \<Rightarrow> (string, json) dict \<Rightarrow> (string, json) dict handled" where
  "query_orders w payload =
     (if member payload ''sourceId'' \<noteq> JStr worker_source then Inl (Answered ''source_mismatch'')
      else if member payload ''assetIds'' \<noteq> JArr [JStr asset_id] then Inl (Answered ''asset_scope_invalid'')
      else ck_bind (service_rows w) (\<lambda>(names, rows).
           ck_bind (attribute_dict (or_default payload ''plan'' (JObj []))) (\<lambda>plan.
           ck_bind (attribute_dict (or_default plan ''where_by_asset'' (JObj []))) (\<lambda>where_by_asset.
           ck_bind (attribute_dict (or_default plan ''select_by_asset'' (JObj []))) (\<lambda>select_by_asset.
           let wh = or_default where_by_asset asset_id (or_default plan ''where'' (JObj []));
               select = or_default select_by_asset asset_id (or_default plan ''select'' (JArr []))
           in ck_bind (matched_orders w wh rows) (\<lambda>all_matched.
              ck_bind (answered w (ww_int w (or_default payload ''limit'' (JInt 100)))) (\<lambda>limit.
              let matched = py_slice all_matched 0 limit
              in ck_bind (check_all (project_order w select) matched) (\<lambda>output.
                 ck_bind (answered w (check_all (\<lambda>row. json_index (JObj row) ''service_order_id'') matched)) (\<lambda>ids.
                 Inr (order_batch output (if ids = [] then [order_lineage (JStr ''empty-result'')] else map order_lineage ids)))))))))))"

definition handle :: "worker_world \<Rightarrow> string \<Rightarrow> (string, json) dict \<Rightarrow> (string, json) dict handled" where
  "handle w operation payload =
     (if operation = ''postgres.query'' then
        ck_bind (service_rows w) (\<lambda>(names, rows). ck_bind (first_fields rows) (\<lambda>fields.
          Inr [(''rows'', JInt (int (length rows))), (''schema'', JArr (map JStr fields)), (''source'', JStr ''postgresql-shape'')]))
      else if operation = ''s3.get'' then get_document w payload
      else if operation = ''events.poll'' then Inr (poll_events w)
      else if operation = ''rest.get'' then count_fixtures w
      else if operation = ''runtime.environment'' then Inr (runtime_environment w)
      else if operation = ''connector.health'' then
        Inr [(''healthy'', JBool True), (''observedVersion'', JStr ''0.13.0''), (''limitations'', JArr [])]
      else if operation = ''connector.discover'' then
        Inr [(''assets'', JArr [JObj [(''assetId'', JStr asset_id), (''name'', JStr ''service_orders''), (''kind'', JStr ''table''),
          (''description'', JStr ''White-goods service orders''), (''metadata'', JObj [(''transport'', JStr ''worker'')])]])]
      else if operation = ''connector.describe'' then describe_orders w payload
      else if operation = ''connector.query'' then query_orders w payload
      else Inl (Answered ''operation_not_supported''))"

section \<open>The process\<close>

datatype worker_mode = Normal | Slow | Oversize | Crash

definition response_line :: "string \<Rightarrow> json \<Rightarrow> string \<Rightarrow> string" where
  \<comment> \<open>an empty error text counts as none\<close>
  "response_line request_id result error = canonical (JObj
     [(''protocol'', JStr ''harness.worker/v1''), (''requestId'', JStr request_id), (''result'', result),
      (''error'', if error = [] then JNull else JObj [(''code'', JStr error)])]) @ [CHR 0x0A]"

definition handle_request :: "worker_world \<Rightarrow> (string, json) dict \<Rightarrow> (string, json) dict handled" where
  "handle_request w request =
     ck_bind (answered w (json_index (JObj request) ''operation'')) (\<lambda>operation.
     ck_bind (answered w (ck_bind (json_index (JObj request) ''payload'') as_dict)) (\<lambda>payload.
     handle w (py_str (ww_repr w) operation) payload))"

definition worker_main :: "worker_world \<Rightarrow> worker_mode \<Rightarrow> string \<Rightarrow> int \<times> string" where
  \<comment> \<open>the exit code and what is printed\<close>
  "worker_main w mode line =
     (case json_loads (ww_float w) line of
        Inr (JObj request) \<Rightarrow>
          (let request_id = py_str (ww_repr w) (or_default request ''requestId'' (JStr ''missing''))
           in case mode of
                Crash \<Rightarrow> (17, [])
              | Oversize \<Rightarrow> (0, response_line request_id (JObj [(''payload'', JStr (replicate 16384 CHR ''x''))]) [])
              | _ \<Rightarrow> (case handle_request w request of
                    Inr result \<Rightarrow> (0, response_line request_id (JObj result) [])
                  | Inl (Answered text) \<Rightarrow> (0, response_line request_id JNull text)
                  | Inl Uncaught \<Rightarrow> (1, [])))
      | _ \<Rightarrow> (1, []))"

definition first_line :: "string \<Rightarrow> string" where
  \<comment> \<open>\<open>readline\<close>\<close>
  "first_line s = takeWhile (\<lambda>c. c \<noteq> CHR 0x0A) s @ (if CHR 0x0A \<in> set s then [CHR 0x0A] else [])"

text \<open>The process as the client sees it: \<open>sizes\<close> is how the pipes cut the bytes, \<open>wait\<close> how the wait ends within the seconds.\<close>

definition worker_process :: "worker_world \<Rightarrow> worker_mode \<Rightarrow> nat list \<Rightarrow> (rat \<Rightarrow> wait_end)
    \<Rightarrow> string \<Rightarrow> (string, string) dict \<Rightarrow> rat \<Rightarrow> process_run" where
  "worker_process w mode sizes wait input environ seconds =
     (case worker_main (w\<lparr>ww_environ := environ\<rparr>) mode (first_line input) of (code, out) \<Rightarrow>
        \<lparr>run_pipes_open = True, run_stdout = out, run_stdout_sizes = sizes,
         run_stderr = (if code = 1 then ww_traceback w else []), run_stderr_sizes = sizes, run_stderr_first = False,
         run_exit_code = code, run_wait = wait seconds\<rparr>)"

section \<open>The conversation\<close>

text \<open>What the client makes of what the worker did.\<close>

definition client_reading :: "(string, json) dict handled \<Rightarrow> (worker_error + (string, json) dict)" where
  "client_reading r = (case r of
     Inr result \<Rightarrow> Inr (object_of (sort_keys (JObj result)))
   | Inl (Answered text) \<Rightarrow> Inl (if text = [] then Worker_Violation ''worker result must be an object'' else Worker_Remote text)
   | Inl Uncaught \<Rightarrow> Inl (Worker_Crashed 1))"

lemma canonical_line:
  assumes "plain v"
  shows "CHR 0x0A \<notin> set (canonical v)" and "plain_ascii (canonical v)"
proof -
  from assms show "CHR 0x0A \<notin> set (canonical v)"
    by (simp add: canonical_def dumps_line plain_sound plain_sort_keys)
  have "ascii_text (render (\<lambda>_. []) [] (sort_keys v) 0)"
    using assms by (intro render_ascii) (simp_all add: plain_sort_keys)
  then show "plain_ascii (canonical v)"
    unfolding canonical_def dumps_render [of _ 0] by (simp add: plain_ascii_def ascii_text_def)
qed

lemma first_line_once: "CHR 0x0A \<notin> set s \<Longrightarrow> first_line (s @ [CHR 0x0A]) = s @ [CHR 0x0A]"
  unfolding first_line_def by (subst takeWhile_append2) auto

text \<open>The answer of the worker is one line that the client parses to the envelope.\<close>

definition envelope :: "string \<Rightarrow> json \<Rightarrow> string \<Rightarrow> json" where
  "envelope rid result error = JObj [(''protocol'', JStr ''harness.worker/v1''), (''requestId'', JStr rid), (''result'', result),
     (''error'', if error = [] then JNull else JObj [(''code'', JStr error)])]"

lemma response_line_parses:
  assumes "plain result"
  shows "parse_response env (response_line rid result error) = Inr (sort_keys (envelope rid result error))"
proof -
  have e: "plain (envelope rid result error)" using assms by (simp add: envelope_def)
  note line = canonical_line [OF e]
  have "parse_response env (canonical (envelope rid result error) @ [CHR 0x0A]) = Inr (sort_keys (envelope rid result error))"
    using line loads_canonical_line [OF e]
    by (simp add: parse_response_def count_list_0_iff plain_ascii_def)
  then show ?thesis by (simp add: response_line_def envelope_def)
qed

lemma envelope_sorted:
  "sort_keys (envelope rid result error) = JObj [(''error'', if error = [] then JNull else JObj [(''code'', JStr error)]),
     (''protocol'', JStr ''harness.worker/v1''), (''requestId'', JStr rid), (''result'', sort_keys result)]"
  by (simp add: envelope_def sort_key_def)

lemma envelope_read:
  "check_response env rid (sort_keys (envelope rid result error)) =
     (if error \<noteq> [] then Inl (Worker_Remote error)
      else (case sort_keys result of JObj d \<Rightarrow> Inr d | _ \<Rightarrow> Inl (Worker_Violation ''worker result must be an object'')))"
proof -
  have "envelope_ok rid [(''error'', e), (''protocol'', JStr ''harness.worker/v1''), (''requestId'', JStr rid), (''result'', r)]" for e r
    by (auto simp: envelope_ok_def)
  then show ?thesis
    unfolding envelope_sorted by (simp add: check_response_def member_def error_code_def py_str_def)
qed

text \<open>The line of the client reads back as its request, with the keys sorted.\<close>

lemma request_members:
  assumes "plain (worker_request ws rid operation payload)"
  shows "\<exists>d. sort_keys (worker_request ws rid operation payload) = JObj d \<and> dict_get d ''operation'' = Some (JStr operation)
    \<and> dict_get d ''requestId'' = Some (JStr rid) \<and> dict_get d ''payload'' = Some (sort_keys (JObj payload))"
  by (simp add: worker_request_def sort_key_def)

lemma worker_reads_request:
  assumes "plain (worker_request ws rid operation payload)" and "mode \<in> {Normal, Slow}"
  shows "worker_main w mode (first_line (canonical (worker_request ws rid operation payload) @ [CHR 0x0A])) =
    (case handle w operation (object_of (sort_keys (JObj payload))) of
       Inr result \<Rightarrow> (0, response_line rid (JObj result) [])
     | Inl (Answered text) \<Rightarrow> (0, response_line rid JNull text)
     | Inl Uncaught \<Rightarrow> (1, []))"
proof -
  obtain d where d: "sort_keys (worker_request ws rid operation payload) = JObj d" "dict_get d ''operation'' = Some (JStr operation)"
      "dict_get d ''requestId'' = Some (JStr rid)" "dict_get d ''payload'' = Some (sort_keys (JObj payload))"
    using request_members [OF assms(1)] by blast
  have "json_loads (ww_float w) (canonical (worker_request ws rid operation payload) @ [CHR 0x0A]) = Inr (JObj d)"
    using loads_canonical_line [OF assms(1)] d(1) by simp
  moreover have "handle_request w d = handle w operation (object_of (sort_keys (JObj payload)))"
    using d by (simp add: handle_request_def json_index_def answered_def as_dict_def py_str_def object_of_def)
  ultimately show ?thesis
    using assms(2) canonical_line(1) [OF assms(1)] d(3)
    by (auto simp: worker_main_def first_line_once or_default_def py_str_def split: sum.split worker_failure.split)
qed

lemma exchange_fits:
  assumes "run_pipes_open r" and "int (length (run_stdout r)) \<le> wl_max_response_bytes l"
    and "int (length (run_stderr r)) \<le> min (wl_max_response_bytes l) (64 * 1024)"
  shows "exchange l r = Inr (run_stdout r)"
proof -
  have "0 \<le> wl_max_response_bytes l" using assms(2) by linarith
  with assms show ?thesis by (simp add: exchange_def read_bounded_eq)
qed

lemma conversation:
  assumes "encode_request ws rid operation payload = Inr encoded" and "rid = chosen_request_id request_id fresh"
    and "plain (worker_request ws rid operation payload)" and "mode \<in> {Normal, Slow}"
    and "case timeout of None \<Rightarrow> True | Some t \<Rightarrow> 0 < t" and "wait (call_timeout ws timeout) = Ends"
    and "handle (w\<lparr>ww_environ := worker_environment env ws\<rparr>) operation (object_of (sort_keys (JObj payload))) = r"
    and "case r of Inr result \<Rightarrow> plain (JObj result) | Inl _ \<Rightarrow> True"
    and "int (length (snd (worker_main (w\<lparr>ww_environ := worker_environment env ws\<rparr>) mode (encoded @ [CHR 0x0A])))) \<le> wl_max_response_bytes (ws_limits ws)"
    and "int (length (ww_traceback w)) \<le> min (wl_max_response_bytes (ws_limits ws)) (64 * 1024)"
  shows "invoke env (worker_process w mode sizes wait) ws fresh request_id timeout operation payload = (client_reading r, Exited)"
proof -
  let ?w = "w\<lparr>ww_environ := worker_environment env ws\<rparr>"
  have encoded: "encoded = canonical (worker_request ws rid operation payload)" using encode_request_Inr [OF assms(1)] by simp
  have line: "first_line (encoded @ [CHR 0x0A]) = encoded @ [CHR 0x0A]"
    unfolding encoded by (rule first_line_once) (rule canonical_line [OF assms(3)])
  define out where "out = worker_main ?w mode (encoded @ [CHR 0x0A])"
  have out: "out = (case r of Inr result \<Rightarrow> (0, response_line rid (JObj result) [])
      | Inl (Answered text) \<Rightarrow> (0, response_line rid JNull text) | Inl Uncaught \<Rightarrow> (1, []))"
    using worker_reads_request [OF assms(3,4), of ?w] line unfolding out_def assms(7) [symmetric] encoded by simp
  define run where "run = worker_process w mode sizes wait (encoded @ [CHR 0x0A]) (worker_environment env ws) (call_timeout ws timeout)"
  have run: "run_stdout run = snd out" "run_exit_code run = fst out" "run_wait run = Ends" "run_pipes_open run"
      "run_stderr run = [] \<or> run_stderr run = ww_traceback w"
    using assms(6) by (simp_all add: run_def worker_process_def line out_def [symmetric] case_prod_unfold)
  have "exchange (ws_limits ws) run = Inr (snd out)"
    using assms(9,10) run exchange_fits [of run "ws_limits ws"] by (auto simp: out_def)
  then have "call_process env ws rid timeout run = (after_exchange env rid run (snd out), Exited)"
    using assms(5) run(3) by (auto simp: call_process_def split: option.splits)
  moreover have "after_exchange env rid run (snd out) = client_reading r"
  proof (cases r)
    case (Inl f)
    then show ?thesis
      by (cases f) (simp_all add: after_exchange_def run(2) out response_line_parses ck_bind_def envelope_read client_reading_def)
  next
    case (Inr result)
    with assms(8) show ?thesis
      by (simp add: after_exchange_def run(2) out response_line_parses ck_bind_def envelope_read client_reading_def object_of_def)
  qed
  ultimately show ?thesis
    using assms(1,2) by (simp add: invoke_def Let_def run_def)
qed

lemma worker_environment_keys: "set (dict_keys (worker_environment env ws)) \<subseteq> set safe_environment \<union> set (dict_keys (ws_environment ws))"
proof -
  have "set (dict_keys (fold (\<lambda>(n, v). dict_set n v) xs d)) = set (dict_keys d) \<union> set (dict_keys xs)" for xs d :: "(string, string) dict"
    by (induction xs arbitrary: d) (simp_all add: split_def)
  then show ?thesis by (auto simp: worker_environment_def)
qed

text \<open>
  C7. The client and the worker of the lab understand each other: for every request the client encodes whose payload
  is made of texts, integers, lists and objects, whatever the pieces the pipes cut the bytes into, the client returns exactly
  what the worker's handling of that operation on that payload yields, a refusal as a remote error with its text and any
  other exception as a crash with code 1, and the process has exited. This is for a worker in its normal or slow mode that
  ends in time, with a result made of such values and outputs within the limits.
\<close>

theorem client_reads_worker:
  assumes "encode_request ws rid operation payload = Inr encoded" and "rid = chosen_request_id request_id fresh"
    and "plain (worker_request ws rid operation payload)" and "mode \<in> {Normal, Slow}"
    and "case timeout of None \<Rightarrow> True | Some t \<Rightarrow> 0 < t" and "wait (call_timeout ws timeout) = Ends"
    and "handle (w\<lparr>ww_environ := worker_environment env ws\<rparr>) operation (object_of (sort_keys (JObj payload))) = r"
    and "case r of Inr result \<Rightarrow> plain (JObj result) | Inl _ \<Rightarrow> True"
    and "int (length (snd (worker_main (w\<lparr>ww_environ := worker_environment env ws\<rparr>) mode (encoded @ [CHR 0x0A])))) \<le> wl_max_response_bytes (ws_limits ws)"
    and "int (length (ww_traceback w)) \<le> min (wl_max_response_bytes (ws_limits ws)) (64 * 1024)"
  shows "invoke env (worker_process w mode sizes wait) ws fresh request_id timeout operation payload = (client_reading r, Exited)"
  using assms by (rule conversation)

text \<open>What the worker sees of the environment holds no sensitive variable.\<close>

lemma environment_is_clean:
  assumes "mk_worker_spec fs ws = Inr ws"
  shows "runtime_environment (w\<lparr>ww_environ := worker_environment env ws\<rparr>) = [(''sensitiveVariablesPresent'', JArr [])]"
proof -
  have "set (dict_keys (ws_environment ws)) \<subseteq> set safe_environment"
    using assms by (auto simp: mk_worker_spec_def split: if_splits)
  then have "set (dict_keys (worker_environment env ws)) \<subseteq> set safe_environment"
    using worker_environment_keys [of env ws] by blast
  moreover have "n \<notin> set safe_environment" if "n \<in> set sensitive_variables" for n
    using that by (auto simp: sensitive_variables_def safe_environment_def)
  ultimately have "filter (\<lambda>n. n \<in> set (dict_keys (worker_environment env ws))) sensitive_variables = []"
    by (auto simp: filter_empty_conv)
  then show ?thesis by (simp add: runtime_environment_def)
qed

text \<open>
  No secret of the client's process reaches the worker: with a checked specification, asked for its environment the
  worker reports none of the sensitive variables, whatever the environment of the client's process holds.
\<close>

lemma no_secret_reaches_worker:
  assumes "mk_worker_spec fs ws = Inr ws"
    and "encode_request ws (chosen_request_id request_id fresh) ''runtime.environment'' [] = Inr encoded"
    and "plain (worker_request ws (chosen_request_id request_id fresh) ''runtime.environment'' [])"
    and "case timeout of None \<Rightarrow> True | Some t \<Rightarrow> 0 < t" and "wait (call_timeout ws timeout) = Ends"
    and "int (length (response_line (chosen_request_id request_id fresh) (JObj [(''sensitiveVariablesPresent'', JArr [])]) []))
      \<le> wl_max_response_bytes (ws_limits ws)"
    and "int (length (ww_traceback w)) \<le> min (wl_max_response_bytes (ws_limits ws)) (64 * 1024)"
  shows "invoke env (worker_process w Normal sizes wait) ws fresh request_id timeout ''runtime.environment'' []
    = (Inr [(''sensitiveVariablesPresent'', JArr [])], Exited)"
proof -
  let ?w = "w\<lparr>ww_environ := worker_environment env ws\<rparr>" and ?rid = "chosen_request_id request_id fresh"
  let ?result = "[(''sensitiveVariablesPresent'', JArr [])]"
  have handled: "handle ?w ''runtime.environment'' (object_of (sort_keys (JObj []))) = Inr ?result"
    using environment_is_clean [OF assms(1)] by (simp add: handle_def)
  have "worker_main ?w Normal (encoded @ [CHR 0x0A]) = (0, response_line ?rid (JObj ?result) [])"
    using worker_reads_request [OF assms(3), of Normal ?w] handled encode_request_Inr [OF assms(2)]
      first_line_once [OF canonical_line(1) [OF assms(3)]] by simp
  then have "invoke env (worker_process w Normal sizes wait) ws fresh request_id timeout ''runtime.environment'' [] = (client_reading (Inr ?result), Exited)"
    using assms(6,7) by (intro conversation [where mode = Normal and w = w and wait = wait, OF assms(2) refl assms(3) _ assms(4,5) handled]) simp_all
  then show ?thesis by (simp add: client_reading_def object_of_def sort_key_def)
qed

section \<open>Examples\<close>

definition sample_world :: worker_world where
  "sample_world = \<lparr>ww_service_csv = ''service_order_id,error_code'' @ [CHR 0x0A] @ ''SO1,E21'' @ [CHR 0x0A] @ ''SO2,E05'' @ [CHR 0x0A],
     ww_telemetry = ''{}'' @ [CHR 0x0A], ww_fixtures = ''[]'', ww_documents = ''/lab/documents'', ww_resolve = (\<lambda>n. ''/lab/documents/'' @ n),
     ww_files = \<lparr>fs_is_dir = (\<lambda>p. False), fs_is_file = (\<lambda>p. p = ''/lab/documents/manual.md''), fs_read_bytes = (\<lambda>p. ''manual'')\<rparr>,
     ww_environ = [], ww_sha256 = (\<lambda>b. ''digest''), ww_repr = (\<lambda>v. ''r''),
     ww_int = (\<lambda>v. case v of JInt n \<Rightarrow> Inr n | _ \<Rightarrow> Inl (TypeError ''int'')), ww_float = (\<lambda>t. t),
     ww_message = (\<lambda>e. ''message''), ww_traceback = ''Traceback''\<rparr>"

lemma sample_requests:
  "\<exists>encoded. encode_request sample_worker ''r1'' ''connector.health'' [] = Inr encoded"
  "\<exists>encoded. encode_request sample_worker ''r1'' ''runtime.environment'' [] = Inr encoded"
proof -
  have "\<not> isl (encode_request sample_worker ''r1'' ''connector.health'' [])"
    "\<not> isl (encode_request sample_worker ''r1'' ''runtime.environment'' [])" by code_simp+
  then show "\<exists>encoded. encode_request sample_worker ''r1'' ''connector.health'' [] = Inr encoded"
    "\<exists>encoded. encode_request sample_worker ''r1'' ''runtime.environment'' [] = Inr encoded"
    by (cases "encode_request sample_worker ''r1'' ''connector.health'' []";
        cases "encode_request sample_worker ''r1'' ''runtime.environment'' []"; simp)+
qed

lemma sample_plain: "plain (worker_request sample_worker ''r1'' operation [])"
  by (simp add: worker_request_def sample_worker_def)

lemma sample_limits:
  "wl_max_response_bytes (ws_limits sample_worker) = 1024 * 1024"
  "ww_traceback sample_world = ''Traceback''"
  by (simp_all add: sample_worker_def default_worker_limits_def sample_world_def)

theorem client_reads_worker_witness:
  "invoke sample_worker_env (worker_process sample_world Normal [7] (\<lambda>t. Ends)) sample_worker ''fresh'' (Some ''r1'') None ''connector.health'' []
    = (Inr [(''healthy'', JBool True), (''limitations'', JArr []), (''observedVersion'', JStr ''0.13.0'')], Exited)"
proof -
  let ?w = "sample_world\<lparr>ww_environ := worker_environment sample_worker_env sample_worker\<rparr>"
  let ?result = "[(''healthy'', JBool True), (''observedVersion'', JStr ''0.13.0''), (''limitations'', JArr [])]"
  obtain encoded where encoded: "encode_request sample_worker ''r1'' ''connector.health'' [] = Inr encoded"
    using sample_requests(1) by blast
  have handled: "handle ?w ''connector.health'' (object_of (sort_keys (JObj []))) = Inr ?result"
    by (simp add: handle_def)
  have short: "int (length (response_line ''r1'' (JObj ?result) [])) \<le> 1024 * 1024" by code_simp
  have main: "worker_main ?w Normal (encoded @ [CHR 0x0A]) = (0, response_line ''r1'' (JObj ?result) [])"
    using worker_reads_request [OF sample_plain, of Normal ?w] handled encode_request_Inr [OF encoded]
      first_line_once [OF canonical_line(1) [OF sample_plain]] by simp
  have "invoke sample_worker_env (worker_process sample_world Normal [7] (\<lambda>t. Ends)) sample_worker ''fresh'' (Some ''r1'') None ''connector.health'' []
      = (client_reading (Inr ?result), Exited)"
    by (rule client_reads_worker [where mode = Normal and w = sample_world, OF encoded _ sample_plain _ _ _ handled])
      (use main short in \<open>simp_all add: sample_limits chosen_request_id_def\<close>)
  then show ?thesis by (simp add: client_reading_def object_of_def sort_key_def)
qed

lemma no_secret_reaches_worker_example:
  "invoke (sample_worker_env\<lparr>we_os_environ := [(''DATABASE_PASSWORD'', ''hunter2'')]\<rparr>) (worker_process sample_world Normal [] (\<lambda>t. Ends))
     sample_worker ''r1'' None None ''runtime.environment'' [] = (Inr [(''sensitiveVariablesPresent'', JArr [])], Exited)"
proof -
  obtain encoded where encoded: "encode_request sample_worker (chosen_request_id None ''r1'') ''runtime.environment'' [] = Inr encoded"
    using sample_requests(2) by (auto simp: chosen_request_id_def)
  have short: "int (length (response_line ''r1'' (JObj [(''sensitiveVariablesPresent'', JArr [])]) [])) \<le> 1024 * 1024" by code_simp
  show ?thesis
    by (rule no_secret_reaches_worker [OF sample_spec(1) encoded])
      (use sample_plain short in \<open>simp_all add: chosen_request_id_def sample_limits\<close>)
qed

end
