(* ===== verification/Local_Only.thy ===== *)
theory Local_Only
  imports Harness_Prelude
begin

text \<open>
  local_only.py: the guard against cloud and cluster automation. Its regular expressions are terms with a meaning, a
  relation between positions of a text, and a search; the search is proved to decide the meaning. The files of the
  repository are an argument: which paths are there, and their texts.
\<close>

section \<open>Patterns\<close>

datatype pattern =
    Literal string \<comment> \<open>lower case; the expressions ignore case\<close>
  | Space \<comment> \<open>\<open>\\s\<close>\<close>
  | Boundary \<comment> \<open>\<open>\\b\<close>\<close>
  | Seq pattern pattern
  | Alt pattern pattern
  | Star pattern

text \<open>
  A letter, digit or underscore, among code points below 256. There the case-insensitive comparison of an ASCII letter is
  with its two cases; a literal is stored in lower case.
\<close>

definition word_char :: "char \<Rightarrow> bool" where
  "word_char c \<longleftrightarrow> (let n = of_char c :: nat in
     48 \<le> n \<and> n \<le> 57 \<or> 65 \<le> n \<and> n \<le> 90 \<or> n = 95 \<or> 97 \<le> n \<and> n \<le> 122
     \<or> n \<in> {170, 178, 179, 181, 185, 186, 188, 189, 190} \<or> 192 \<le> n \<and> n \<noteq> 215 \<and> n \<noteq> 247)"

definition word_at :: "string \<Rightarrow> nat \<Rightarrow> bool" where
  "word_at t i \<longleftrightarrow> i < length t \<and> word_char (t ! i)"

definition boundary_at :: "string \<Rightarrow> nat \<Rightarrow> bool" where
  "boundary_at t i \<longleftrightarrow> (0 < i \<and> word_at t (i - 1)) \<noteq> word_at t i"

definition literal_at :: "string \<Rightarrow> nat \<Rightarrow> string \<Rightarrow> bool" where
  "literal_at t i l \<longleftrightarrow> i + length l \<le> length t \<and> str_lower (take (length l) (drop i t)) = l"

text \<open>The meaning of a pattern: from which position to which it matches.\<close>

primrec matches :: "string \<Rightarrow> pattern \<Rightarrow> nat \<Rightarrow> nat \<Rightarrow> bool" where
  "matches t (Literal l) = (\<lambda>i j. literal_at t i l \<and> j = i + length l)"
| "matches t Space = (\<lambda>i j. i < length t \<and> is_space (t ! i) \<and> j = Suc i)"
| "matches t Boundary = (\<lambda>i j. boundary_at t i \<and> j = i)"
| "matches t (Seq p q) = matches t p OO matches t q"
| "matches t (Alt p q) = (\<lambda>i j. matches t p i j \<or> matches t q i j)"
| "matches t (Star p) = (matches t p)\<^sup>*\<^sup>*"

text \<open>The positions a match may end at. A repetition only continues where the last round made progress, so that as many rounds as
  the text has positions are enough.\<close>

fun rounds :: "(nat \<Rightarrow> nat list) \<Rightarrow> nat \<Rightarrow> nat \<Rightarrow> nat list" where
  "rounds f 0 i = [i]"
| "rounds f (Suc n) i = i # concat (map (rounds f n) (filter (\<lambda>j. i < j) (f i)))"

primrec ends :: "string \<Rightarrow> pattern \<Rightarrow> nat \<Rightarrow> nat list" where
  "ends t (Literal l) i = (if literal_at t i l then [i + length l] else [])"
| "ends t Space i = (if i < length t \<and> is_space (t ! i) then [Suc i] else [])"
| "ends t Boundary i = (if boundary_at t i then [i] else [])"
| "ends t (Seq p q) i = concat (map (ends t q) (ends t p i))"
| "ends t (Alt p q) i = ends t p i @ ends t q i"
| "ends t (Star p) i = rounds (ends t p) (length t) i"

definition search :: "pattern \<Rightarrow> string \<Rightarrow> bool" where
  "search p t = list_ex (\<lambda>i. ends t p i \<noteq> []) [0..<Suc (length t)]"

fun alternatives :: "string list \<Rightarrow> pattern" where
  "alternatives [] = Literal []"
| "alternatives [l] = Literal l"
| "alternatives (l # m # ls) = Alt (Literal l) (alternatives (m # ls))"

fun seqs :: "pattern list \<Rightarrow> pattern" where
  "seqs [] = Literal []"
| "seqs [p] = p"
| "seqs (p # q # ps) = Seq p (seqs (q # ps))"

definition spaces1 :: pattern where
  "spaces1 = Seq Space (Star Space)"

section \<open>The rules\<close>

definition prohibited_automation :: "(string \<times> pattern) list" where
  "prohibited_automation =
     [(''gcp-cli'', seqs [Boundary, alternatives [''gcloud'', ''gsutil''], spaces1]),
      (''cluster-cli'', seqs [Boundary, alternatives [''oc'', ''kubectl''], spaces1,
         alternatives [''apply'', ''create'', ''delete'', ''deploy'', ''new-app'', ''patch'', ''replace'', ''scale''], Boundary]),
      (''infrastructure-apply'', seqs [Boundary, alternatives [''terraform'', ''tofu'', ''pulumi''], spaces1,
         alternatives [''apply'', ''destroy'', ''up''], Boundary]),
      (''cloud-deploy-action'', seqs [alternatives [''google-github-actions'', ''redhat-actions''], Literal ''/'',
         alternatives [''auth'', ''deploy'', ''setup-gcloud'']]),
      (''remote-container-engine'', Alt (seqs [Boundary, Literal ''docker_host'', Star Space, Literal ''='', Star Space,
           alternatives [''tcp'', ''ssh''], Literal ''://''])
         (Alt (seqs [Boundary, Literal ''docker'', spaces1, Literal ''context'', spaces1, Literal ''use'', Boundary])
           (seqs [Boundary, Literal ''podman'', spaces1, Literal ''--remote'', Boundary])))]"

type_synonym path = "string list"

definition automation_roots :: "path list" where
  "automation_roots = [[''.github'', ''workflows''], [''scripts''], [''src''], [''reference_labs''], [''Makefile'']]"

definition text_suffixes :: "string list" where
  "text_suffixes = [''.py'', ''.sh'', ''.yml'', ''.yaml'', ''.toml'']"

definition path_suffix :: "path \<Rightarrow> string" where
  \<comment> \<open>from the last dot of the name, unless it is the first or the last character\<close>
  "path_suffix p = (let name = (if p = [] then [] else last p); ext = rev (takeWhile (\<lambda>c. c \<noteq> CHR ''.'') (rev name)) in
     if ext = [] \<or> length name \<le> length ext + 1 then [] else CHR ''.'' # ext)"

section \<open>The audit\<close>

record repository =
  rp_is_file :: "path \<Rightarrow> bool"
  rp_below :: "path \<Rightarrow> path list" \<comment> \<open>\<open>rglob\<close>, in any order\<close>
  rp_text :: "path \<Rightarrow> string checked"

definition exempt :: "path list" where
  "exempt = [[''scripts'', ''check-local-only.py''], [''src'', ''data_source_harness'', ''local_only.py'']]"

definition paths_of_root :: "repository \<Rightarrow> path \<Rightarrow> path list" where
  "paths_of_root r start =
     (if rp_is_file r start then [start] else sort (filter (\<lambda>p. rp_is_file r p \<and> path_suffix p \<in> set text_suffixes) (rp_below r start)))"

definition join_path :: "path \<Rightarrow> string" where
  "join_path p = (case p of [] \<Rightarrow> ''.'' | x # xs \<Rightarrow> x @ concat (map (\<lambda>y. CHR ''/'' # y) xs))"

definition path_violations :: "path \<Rightarrow> string \<Rightarrow> string list" where
  "path_violations p t = map (\<lambda>rule. join_path p @ '':'' @ fst rule) (filter (\<lambda>rule. search (snd rule) t) prohibited_automation)"

definition audited :: "repository \<Rightarrow> path list" where
  "audited r = filter (\<lambda>p. p \<notin> set exempt) (concat (map (paths_of_root r) automation_roots))"

definition audit_local_only_automation :: "repository \<Rightarrow> string list checked" where
  "audit_local_only_automation r =
     ck_bind (check_all (\<lambda>p. ck_bind (rp_text r p) (\<lambda>t. Inr (path_violations p t))) (audited r)) (\<lambda>vs. Inr (concat vs))"

definition assert_local_only_automation :: "repository \<Rightarrow> unit checked" where
  "assert_local_only_automation r =
     ck_bind (audit_local_only_automation r) (\<lambda>violations.
       if violations \<noteq> [] then Inl (ValueError ''prohibited cloud or cluster automation: '') else Inr ())"

section \<open>The search decides the meaning\<close>

lemma matches_ge: "matches t p i j \<Longrightarrow> i \<le> j"
proof (induction p arbitrary: i j)
  case (Seq p q)
  then show ?case by fastforce
next
  case (Star p)
  from Star.prems show ?case
    unfolding matches.simps by (induction rule: rtranclp_induct) (auto dest: Star.IH)
qed auto

lemma matches_le: "matches t p i j \<Longrightarrow> i \<le> length t \<Longrightarrow> j \<le> length t"
proof (induction p arbitrary: i j)
  case (Seq p q)
  then show ?case by fastforce
next
  case (Star p)
  from Star.prems show ?case
    unfolding matches.simps by (induction rule: rtranclp_induct) (auto dest: Star.IH)
qed (auto simp: literal_at_def)

text \<open>Rounds reach what the closure of a relation that never goes back reaches.\<close>

lemma rounds_sound:
  assumes "\<And>i j. i \<le> N \<Longrightarrow> j \<in> set (f i) \<Longrightarrow> R i j \<and> j \<le> N" and "i \<le> N" and "j \<in> set (rounds f n i)"
  shows "R\<^sup>*\<^sup>* i j"
  using assms(2,3)
proof (induction n arbitrary: i)
  case (Suc n)
  show ?case
  proof (cases "j = i")
    case False
    with Suc.prems(2) obtain k where k: "k \<in> set (f i)" "j \<in> set (rounds f n k)" by auto
    with assms(1) [OF Suc.prems(1) k(1)] Suc.IH [of k] show ?thesis by (meson converse_rtranclp_into_rtranclp)
  qed simp
qed simp

lemma rounds_complete:
  assumes "\<And>i j. R i j \<Longrightarrow> i \<le> N \<Longrightarrow> j \<in> set (f i) \<and> i \<le> j \<and> j \<le> N" and "R\<^sup>*\<^sup>* i j" and "i \<le> N" and "N \<le> n + i"
  shows "j \<in> set (rounds f n i)"
  using assms(2-)
proof (induction arbitrary: n rule: converse_rtranclp_induct)
  case base
  then show ?case by (cases n) simp_all
next
  case (step i k)
  from assms(1) [OF step.hyps(1) step.prems(1)] have k: "k \<in> set (f i)" "i \<le> k" "k \<le> N" by simp_all
  show ?case
  proof (cases "k = i")
    case True
    with step show ?thesis by simp
  next
    case False
    with k step.prems(2) obtain m where n: "n = Suc m" by (cases n) simp_all
    from step.IH [of m] k False step.prems(2) have "j \<in> set (rounds f m k)" by (simp add: n)
    with k False show ?thesis by (auto simp: n)
  qed
qed

lemma ends_matches: "i \<le> length t \<Longrightarrow> j \<in> set (ends t p i) \<longleftrightarrow> matches t p i j"
proof (induction p arbitrary: i j)
  case (Seq p q)
  then show ?case using matches_le [of t p i] by (fastforce simp: relcompp_apply)
next
  case (Star p)
  have complete: "j \<in> set (rounds (ends t p) (length t) i)" if "(matches t p)\<^sup>*\<^sup>* i j"
    using that Star.prems Star.IH matches_ge matches_le by (intro rounds_complete [where R = "matches t p" and N = "length t"]) auto
  have "(matches t p)\<^sup>*\<^sup>* i j" if "j \<in> set (rounds (ends t p) (length t) i)"
    by (rule rounds_sound [OF _ Star.prems that]) (use Star.IH matches_le in blast)
  with complete show ?case by auto
qed auto

lemma search_iff: "search p t \<longleftrightarrow> (\<exists>i j. i \<le> length t \<and> matches t p i j)"
proof -
  have "ends t p i \<noteq> [] \<longleftrightarrow> (\<exists>j. matches t p i j)" if "i \<le> length t" for i
    using ends_matches [OF that, of _ p] by (metis ex_in_conv set_empty2)
  moreover have "search p t \<longleftrightarrow> (\<exists>i \<in> {0..<Suc (length t)}. ends t p i \<noteq> [])"
    by (simp only: search_def list_ex_iff set_upt Bex_def)
  ultimately show ?thesis by (fastforce simp: less_Suc_eq_le)
qed

section \<open>What the audit finds\<close>

lemma path_violations_set:
  "v \<in> set (path_violations p t) \<longleftrightarrow>
     (\<exists>name rule i j. (name, rule) \<in> set prohibited_automation \<and> i \<le> length t \<and> matches t rule i j \<and> v = join_path p @ '':'' @ name)"
  by (auto simp: path_violations_def search_iff image_iff)

lemma audit_Inr:
  "audit_local_only_automation r = Inr vs \<longleftrightarrow>
     (\<forall>p \<in> set (audited r). \<exists>t. rp_text r p = Inr t)
     \<and> vs = concat (map (\<lambda>p. case rp_text r p of Inr t \<Rightarrow> path_violations p t | Inl e \<Rightarrow> []) (audited r))"
proof -
  have "check_all (\<lambda>p. ck_bind (rp_text r p) (\<lambda>t. Inr (path_violations p t))) ps = Inr vss \<longleftrightarrow>
      (\<forall>p \<in> set ps. \<exists>t. rp_text r p = Inr t) \<and> vss = map (\<lambda>p. case rp_text r p of Inr t \<Rightarrow> path_violations p t | Inl e \<Rightarrow> []) ps" for ps vss
  proof (induction ps arbitrary: vss)
    case (Cons p ps)
    then show ?case
      by (cases "rp_text r p"; cases "check_all (\<lambda>p. ck_bind (rp_text r p) (\<lambda>t. Inr (path_violations p t))) ps") auto
  qed auto
  then show ?thesis by (auto simp: audit_local_only_automation_def ck_bind_Inr)
qed

text \<open>The audit names exactly the files and rules of which the pattern matches somewhere in the text.\<close>

lemma audit_names_matches:
  assumes "audit_local_only_automation r = Inr vs"
  shows "v \<in> set vs \<longleftrightarrow> (\<exists>p \<in> set (audited r). \<exists>t name rule i j. rp_text r p = Inr t \<and> (name, rule) \<in> set prohibited_automation
    \<and> i \<le> length t \<and> matches t rule i j \<and> v = join_path p @ '':'' @ name)"
proof -
  have "v \<in> set vs \<longleftrightarrow> (\<exists>p \<in> set (audited r). \<exists>t. rp_text r p = Inr t \<and> v \<in> set (path_violations p t))"
    using assms unfolding audit_Inr by (auto simp: image_iff split: sum.splits) (metis old.sum.exhaust)+
  then show ?thesis unfolding path_violations_set by blast
qed

text \<open>
  C22. The guard passes exactly if every audited file reads as text and none of the prohibited patterns matches anywhere in any
  of them, where matching is the meaning of the regular expressions and not the search.
\<close>

theorem local_only_iff:
  "assert_local_only_automation r = Inr () \<longleftrightarrow>
     (\<forall>p \<in> set (audited r). \<exists>t. rp_text r p = Inr t
        \<and> (\<forall>(name, rule) \<in> set prohibited_automation. \<forall>i \<le> length t. \<forall>j. \<not> matches t rule i j))"
proof -
  have clean: "path_violations p t = [] \<longleftrightarrow> (\<forall>(name, rule) \<in> set prohibited_automation. \<forall>i \<le> length t. \<forall>j. \<not> matches t rule i j)" for p t
    by (auto simp: path_violations_def filter_empty_conv search_iff)
  have "assert_local_only_automation r = Inr () \<longleftrightarrow> audit_local_only_automation r = Inr []"
    by (auto simp: assert_local_only_automation_def ck_bind_Inr split: if_splits)
  also have "\<dots> \<longleftrightarrow> (\<forall>p \<in> set (audited r). \<exists>t. rp_text r p = Inr t \<and> path_violations p t = [])"
    unfolding audit_Inr by (fastforce split: sum.splits)
  finally show ?thesis unfolding clean .
qed

section \<open>Examples\<close>

definition sample_repository :: "string \<Rightarrow> repository" where
  "sample_repository t = \<lparr>rp_is_file = (\<lambda>p. p \<in> {[''scripts'', ''run.sh''], [''scripts'', ''notes.md'']}),
     rp_below = (\<lambda>p. if p = [''scripts''] then [[''scripts'', ''run.sh''], [''scripts'', ''notes.md'']] else []),
     rp_text = (\<lambda>p. Inr (if p = [''scripts'', ''run.sh''] then t else ''gcloud deploy''))\<rparr>"

lemma sample_audited: "audited (sample_repository t) = [[''scripts'', ''run.sh'']]"
  by (simp add: audited_def automation_roots_def paths_of_root_def sample_repository_def exempt_def path_suffix_def text_suffixes_def)

lemma sample_violations:
  "audit_local_only_automation (sample_repository ''gsutil ls'') = Inr [''scripts/run.sh:gcp-cli'']"
  "audit_local_only_automation (sample_repository ''OC  Apply'') = Inr [''scripts/run.sh:cluster-cli'']"
  by code_simp+

theorem local_only_iff_witness:
  "assert_local_only_automation (sample_repository ''oc logs'') = Inr ()
    \<and> \<not> matches ''oc logs'' (snd (prohibited_automation ! 1)) 0 7"
proof -
  have ok: "assert_local_only_automation (sample_repository ''oc logs'') = Inr ()" by code_simp
  then have "\<forall>(name, rule) \<in> set prohibited_automation. \<forall>i \<le> length ''oc logs''. \<forall>j. \<not> matches ''oc logs'' rule i j"
    unfolding local_only_iff sample_audited by (simp add: sample_repository_def)
  with ok show ?thesis by (simp add: prohibited_automation_def)
qed

text \<open>Options before the verb hide it: the cluster command below changes a cluster and passes the guard.\<close>

lemma options_evade_guard: "audit_local_only_automation (sample_repository ''oc -n p apply'') = Inr []"
  by code_simp

end
