(* ===== verification/Cold_Chain_Lab.thy ===== *)
theory Cold_Chain_Lab
  imports Pack_Factory Scaffolding Signed_Packages Freshness_Slo
begin

text \<open>
  The cold-chain lab (reference_labs/cold_chain): the definition of its pack and the excursions in the generated data
  (lab.py), and the referential check of its certificate (certify.py). Under every lawful random generator the pack
  generates, its references resolve and the excursions are counted without an error.
\<close>

declare map_of_eq_Some_iff [simp del] Some_eq_map_of_iff [simp del]

section \<open>The pack\<close>

definition blueprint :: "string \<Rightarrow> field_kind \<Rightarrow> field_blueprint" where
  \<comment> \<open>the defaults of \<open>FieldBlueprint\<close>\<close>
  "blueprint name kind = \<lparr>fb_name = name, fb_kind = kind, fb_values = [], fb_minimum = 0, fb_maximum = 100, fb_prefix = ''id'',
     fb_reference_dataset = None, fb_reference_field = None, fb_weights = [], fb_null_rate = Some 0\<rparr>"

definition sequence_field :: "string \<Rightarrow> string \<Rightarrow> field_blueprint" where
  "sequence_field name prefix = (blueprint name FK_Sequence)\<lparr>fb_prefix := prefix\<rparr>"

definition choice_field :: "string \<Rightarrow> string list \<Rightarrow> field_blueprint" where
  "choice_field name values = (blueprint name FK_Choice)\<lparr>fb_values := values\<rparr>"

definition reference_to :: "string \<Rightarrow> string \<Rightarrow> field_blueprint" where
  "reference_to name dataset = (blueprint name FK_Reference)\<lparr>fb_reference_dataset := Some dataset, fb_reference_field := Some name\<rparr>"

definition shipments :: dataset_blueprint where
  "shipments = \<lparr>ds_dataset_id = ''shipments'', ds_row_count = 4, ds_fields =
     [sequence_field ''shipment_id'' ''ship'', choice_field ''lane'' [''HAM-OSL'', ''RTM-PAR'', ''SIN-HKG''],
      choice_field ''maximum_celsius'' [''5'', ''8'']]\<rparr>"

definition containers :: dataset_blueprint where
  "containers = \<lparr>ds_dataset_id = ''containers'', ds_row_count = 4, ds_fields =
     [sequence_field ''container_id'' ''container'', reference_to ''shipment_id'' ''shipments'',
      choice_field ''commodity'' [''vaccines'', ''dairy'', ''fresh-produce'']]\<rparr>"

definition sensor_readings :: dataset_blueprint where
  "sensor_readings = \<lparr>ds_dataset_id = ''sensor-readings'', ds_row_count = 12, ds_fields =
     [sequence_field ''reading_id'' ''reading'', reference_to ''container_id'' ''containers'',
      (blueprint ''temperature_celsius'' FK_Integer)\<lparr>fb_minimum := - 2, fb_maximum := 14\<rparr>, blueprint ''observed_at'' FK_Timestamp]\<rparr>"

definition incidents :: dataset_blueprint where
  "incidents = \<lparr>ds_dataset_id = ''incidents'', ds_row_count = 4, ds_fields =
     [sequence_field ''incident_id'' ''incident'', reference_to ''shipment_id'' ''shipments'',
      choice_field ''severity'' [''low'', ''high''], choice_field ''status'' [''open'', ''resolved'']]\<rparr>"

definition cold_chain_pack :: Pack_Factory.pack_definition where
  "cold_chain_pack = \<lparr>pk_pack_id = ''cold-chain-excursion-response'', pk_version = ''1.0.0'', pk_seed = 20260827,
     pk_datasets = [shipments, containers, sensor_readings, incidents]\<rparr>"

definition generated_data :: "prims \<Rightarrow> 'g rng \<Rightarrow> pack_data checked" where
  "generated_data p r = generate p r cold_chain_pack"

section \<open>Excursions\<close>

definition int_of :: "json \<Rightarrow> int checked" where
  \<comment> \<open>\<open>int(v)\<close>; the data holds texts, integers and nulls\<close>
  "int_of v = (case v of JInt n \<Rightarrow> Inr n | JBool b \<Rightarrow> Inr (if b then 1 else 0)
     | JStr s \<Rightarrow> (case py_int s of None \<Rightarrow> Inl (ValueError ''invalid literal for int() with base 10'') | Some n \<Rightarrow> Inr n)
     | _ \<Rightarrow> Inl (TypeError ''int() argument must be a string or a number''))"

definition field_of :: "pack_record \<Rightarrow> string \<Rightarrow> json checked" where
  "field_of rec k = (case dict_get rec k of None \<Rightarrow> Inl (KeyError k) | Some v \<Rightarrow> Inr v)"

definition dataset_of :: "pack_data \<Rightarrow> string \<Rightarrow> pack_record list checked" where
  "dataset_of gen k = (case dict_get gen k of None \<Rightarrow> Inl (KeyError k) | Some rs \<Rightarrow> Inr rs)"

definition index_by :: "string \<Rightarrow> pack_record list \<Rightarrow> (json, pack_record) dict checked" where
  "index_by k records =
     ck_bind (check_all (\<lambda>rec. ck_bind (field_of rec k) (\<lambda>v. Inr (v, rec))) records) (\<lambda>kvs. Inr (fold (\<lambda>(v, rec). dict_set v rec) kvs []))"

definition indexed :: "(json, pack_record) dict \<Rightarrow> json \<Rightarrow> pack_record checked" where
  "indexed d v = (case dict_get d v of None \<Rightarrow> Inl (KeyError []) | Some rec \<Rightarrow> Inr rec)"

definition is_excursion :: "(json, pack_record) dict \<Rightarrow> (json, pack_record) dict \<Rightarrow> pack_record \<Rightarrow> bool checked" where
  "is_excursion shipment_by_id container_by_id row =
     ck_bind (ck_bind (field_of row ''container_id'') (indexed container_by_id)) (\<lambda>container.
     ck_bind (ck_bind (field_of container ''shipment_id'') (indexed shipment_by_id)) (\<lambda>shipment.
     ck_bind (ck_bind (field_of row ''temperature_celsius'') int_of) (\<lambda>t.
     ck_bind (ck_bind (field_of shipment ''maximum_celsius'') int_of) (\<lambda>limit. Inr (limit < t)))))"

definition excursions_in :: "pack_data \<Rightarrow> int checked" where
  "excursions_in gen =
     ck_bind (ck_bind (dataset_of gen ''shipments'') (index_by ''shipment_id'')) (\<lambda>shipment_by_id.
     ck_bind (ck_bind (dataset_of gen ''containers'') (index_by ''container_id'')) (\<lambda>container_by_id.
     ck_bind (dataset_of gen ''sensor-readings'') (\<lambda>readings.
     ck_bind (check_all (is_excursion shipment_by_id container_by_id) readings) (\<lambda>found. Inr (int (length (filter id found)))))))"

definition excursion_count :: "prims \<Rightarrow> 'g rng \<Rightarrow> int checked" where
  "excursion_count p r = ck_bind (generated_data p r) excursions_in"

definition values_of :: "pack_record list \<Rightarrow> string \<Rightarrow> json list checked" where
  "values_of records k = check_all (\<lambda>rec. field_of rec k) records"

definition references_valid :: "pack_data \<Rightarrow> bool checked" where
  \<comment> \<open>the referential check of the certificate\<close>
  "references_valid gen =
     ck_bind (dataset_of gen ''shipments'') (\<lambda>s. ck_bind (values_of s ''shipment_id'') (\<lambda>shipment_ids.
     ck_bind (dataset_of gen ''containers'') (\<lambda>c. ck_bind (values_of c ''container_id'') (\<lambda>container_ids.
     ck_bind (values_of c ''shipment_id'') (\<lambda>container_refs.
     if \<not> set container_refs \<subseteq> set shipment_ids then Inr False
     else ck_bind (dataset_of gen ''incidents'') (\<lambda>i. ck_bind (values_of i ''shipment_id'') (\<lambda>incident_refs.
       if \<not> set incident_refs \<subseteq> set shipment_ids then Inr False
       else ck_bind (dataset_of gen ''sensor-readings'') (\<lambda>r. ck_bind (values_of r ''container_id'') (\<lambda>reading_refs.
         Inr (set reading_refs \<subseteq> set container_ids))))))))))"

section \<open>The pack generates\<close>

lemma cold_chain_checked: "checked_pack cold_chain_pack" "names_fields cold_chain_pack"
  by code_simp+

lemma cold_chain_ranked:
  "ranked (\<lambda>x. if x = ''shipments'' then 0 else if x = ''sensor-readings'' then 2 else 1) cold_chain_pack"
  by code_simp

lemma cold_chain_generates:
  assumes "rng_lawful r"
  shows "\<exists>gen. generated_data p r = Inr gen \<and> generating (pk_datasets cold_chain_pack) gen []"
proof -
  obtain gen where gen: "generated_data p r = Inr gen"
    using loop_total [OF cold_chain_checked(1) assms cold_chain_checked(2) cold_chain_ranked generating_start [OF cold_chain_checked(1)]]
    by (auto simp: generated_data_def generate_def)
  with generate_generates [OF cold_chain_checked(1) assms] show ?thesis by (auto simp: generated_data_def)
qed

text \<open>The records of a dataset, and the value of a field of each.\<close>

lemma cold_chain_records:
  assumes "generating (pk_datasets cold_chain_pack) gen []" and "d \<in> {shipments, containers, sensor_readings, incidents}"
  obtains records where "dict_get gen (ds_dataset_id d) = Some records" "length records = nat (ds_row_count d)"
    "\<And>rec f. rec \<in> set records \<Longrightarrow> f \<in> set (ds_fields d) \<Longrightarrow>
       \<exists>i v. dict_get rec (fb_name f) = Some v \<and> field_conforms gen i f v"
proof -
  have "d \<in> set (pk_datasets cold_chain_pack)" using assms(2) by (auto simp: cold_chain_pack_def)
  then obtain records where r: "dict_get gen (ds_dataset_id d) = Some records" "dataset_conforms gen d records"
    using assms(1) unfolding generating_def by auto
  show thesis
  proof (rule that [OF r(1)])
    show "length records = nat (ds_row_count d)" using r(2) by (simp add: dataset_conforms_def)
    fix rec f assume "rec \<in> set records" "f \<in> set (ds_fields d)"
    then show "\<exists>i v. dict_get rec (fb_name f) = Some v \<and> field_conforms gen i f v"
      using r(2) by (fastforce simp: dataset_conforms_def record_conforms_def in_set_conv_nth)
  qed
qed

abbreviation field_value :: "string \<Rightarrow> pack_record \<Rightarrow> json" where
  "field_value k rec \<equiv> the (dict_get rec k)"

lemma values_total:
  assumes "\<And>rec. rec \<in> set records \<Longrightarrow> \<exists>v. dict_get rec k = Some v"
  shows "values_of records k = Inr (map (field_value k) records)"
  using assms unfolding values_of_def
proof (induction records)
  case (Cons rec records)
  then obtain v where "dict_get rec k = Some v" by (meson list.set_intros(1))
  with Cons show ?case by (simp add: field_of_def)
qed simp

lemma indexed_fold:
  "dict_get (fold (\<lambda>(v, rec). dict_set v rec) kvs d) v = Some rec \<Longrightarrow> (v, rec) \<in> set kvs \<or> dict_get d v = Some rec"
proof (induction kvs arbitrary: d)
  case (Cons kv kvs)
  then show ?case using Cons.IH [of "dict_set (fst kv) (snd kv) d"] by (cases kv) (auto split: if_splits)
qed simp

lemma indexed_keys: "v \<in> fst ` set kvs \<union> fst ` set d \<Longrightarrow> \<exists>rec. dict_get (fold (\<lambda>(v, rec). dict_set v rec) kvs d) v = Some rec"
proof (induction kvs arbitrary: d)
  case Nil
  then show ?case using in_keys [of v d] by auto
next
  case (Cons kv kvs)
  then show ?case using Cons.IH [of "dict_set (fst kv) (snd kv) d"] by (cases kv) auto
qed

lemma index_total:
  assumes "\<And>rec. rec \<in> set records \<Longrightarrow> \<exists>v. dict_get rec k = Some v"
  obtains d where "index_by k records = Inr d"
    "\<And>rec v. rec \<in> set records \<Longrightarrow> dict_get rec k = Some v \<Longrightarrow> \<exists>rec' \<in> set records. indexed d v = Inr rec'"
proof -
  let ?kvs = "map (\<lambda>rec. (the (dict_get rec k), rec)) records"
  have "check_all (\<lambda>rec. ck_bind (field_of rec k) (\<lambda>v. Inr (v, rec))) records = Inr ?kvs"
    using assms
  proof (induction records)
    case (Cons rec records)
    then obtain v where "dict_get rec k = Some v" by (meson list.set_intros(1))
    with Cons show ?case by (simp add: field_of_def)
  qed simp
  then have "index_by k records = Inr (fold (\<lambda>(v, rec). dict_set v rec) ?kvs [])" by (simp add: index_by_def)
  moreover have "\<exists>rec' \<in> set records. indexed (fold (\<lambda>(v, rec). dict_set v rec) ?kvs []) v = Inr rec'"
    if "rec \<in> set records" "dict_get rec k = Some v" for rec v
  proof -
    have "v \<in> fst ` set ?kvs" using that by force
    then obtain rec' where r: "dict_get (fold (\<lambda>(v, rec). dict_set v rec) ?kvs []) v = Some rec'"
      using indexed_keys [of v ?kvs "[]"] by auto
    from indexed_fold [OF this] have "rec' \<in> set records" by auto
    with r show ?thesis by (auto simp: indexed_def)
  qed
  ultimately show thesis using that by blast
qed

lemma excursion_decided:
  assumes "dict_get row ''container_id'' = Some c" "indexed cs c = Inr container"
    "dict_get container ''shipment_id'' = Some v" "indexed ss v = Inr shipment"
    "dict_get row ''temperature_celsius'' = Some (JInt t)"
    "\<exists>m \<in> {''5'', ''8''}. dict_get shipment ''maximum_celsius'' = Some (JStr m)"
  shows "\<exists>b. is_excursion ss cs row = Inr b"
proof -
  have "py_int ''5'' = Some 5" "py_int ''8'' = Some 8" by code_simp+
  then show ?thesis using assms by (auto simp: is_excursion_def field_of_def int_of_def)
qed

text \<open>What the four datasets of a generated pack hold.\<close>

abbreviation keyed :: "string \<Rightarrow> pack_record list \<Rightarrow> pack_record \<Rightarrow> bool" where
  "keyed k targets rec \<equiv> \<exists>v. dict_get rec k = Some v \<and> (\<exists>t \<in> set targets. dict_get t k = Some v)"

lemma keyed_values:
  assumes "\<forall>rec \<in> set records. keyed k targets rec"
  shows "values_of records k = Inr (map (field_value k) records)" "field_value k ` set records \<subseteq> field_value k ` set targets"
proof -
  show "values_of records k = Inr (map (field_value k) records)" using assms by (intro values_total) blast
  show "field_value k ` set records \<subseteq> field_value k ` set targets"
  proof
    fix v assume "v \<in> field_value k ` set records"
    then obtain rec where "rec \<in> set records" "v = field_value k rec" by blast
    moreover from this assms obtain t w where "t \<in> set targets" "dict_get rec k = Some w" "dict_get t k = Some w" by blast
    ultimately show "v \<in> field_value k ` set targets" by (intro image_eqI [of _ _ t]) simp_all
  qed
qed

lemma cold_chain_data:
  assumes "generating (pk_datasets cold_chain_pack) gen []"
  obtains ss cs ins rs where
    "dict_get gen ''shipments'' = Some ss" "dict_get gen ''containers'' = Some cs"
    "dict_get gen ''incidents'' = Some ins" "dict_get gen ''sensor-readings'' = Some rs" "length rs = 12"
    "\<forall>rec \<in> set ss. (\<exists>v. dict_get rec ''shipment_id'' = Some v)
       \<and> (\<exists>m \<in> {''5'', ''8''}. dict_get rec ''maximum_celsius'' = Some (JStr m))"
    "\<forall>rec \<in> set cs. (\<exists>v. dict_get rec ''container_id'' = Some v) \<and> keyed ''shipment_id'' ss rec"
    "\<forall>rec \<in> set ins. keyed ''shipment_id'' ss rec"
    "\<forall>rec \<in> set rs. keyed ''container_id'' cs rec \<and> (\<exists>t. dict_get rec ''temperature_celsius'' = Some (JInt t))"
proof -
  note fields = sequence_field_def choice_field_def reference_to_def blueprint_def field_conforms_def text_of_def
  obtain ss where ss: "dict_get gen (ds_dataset_id shipments) = Some ss" "\<And>rec f. rec \<in> set ss \<Longrightarrow> f \<in> set (ds_fields shipments) \<Longrightarrow>
      \<exists>i v. dict_get rec (fb_name f) = Some v \<and> field_conforms gen i f v"
    using cold_chain_records [OF assms, of shipments] by (metis insertI1)
  obtain cs where cs: "dict_get gen (ds_dataset_id containers) = Some cs" "\<And>rec f. rec \<in> set cs \<Longrightarrow> f \<in> set (ds_fields containers) \<Longrightarrow>
      \<exists>i v. dict_get rec (fb_name f) = Some v \<and> field_conforms gen i f v"
    using cold_chain_records [OF assms, of containers] by (metis insertI1 insertI2)
  obtain ins where ins: "dict_get gen (ds_dataset_id incidents) = Some ins" "\<And>rec f. rec \<in> set ins \<Longrightarrow> f \<in> set (ds_fields incidents) \<Longrightarrow>
      \<exists>i v. dict_get rec (fb_name f) = Some v \<and> field_conforms gen i f v"
    using cold_chain_records [OF assms, of incidents] by (metis insertI1 insertI2)
  obtain rs where rs: "dict_get gen (ds_dataset_id sensor_readings) = Some rs" "length rs = nat (ds_row_count sensor_readings)"
      "\<And>rec f. rec \<in> set rs \<Longrightarrow> f \<in> set (ds_fields sensor_readings) \<Longrightarrow>
      \<exists>i v. dict_get rec (fb_name f) = Some v \<and> field_conforms gen i f v"
    using cold_chain_records [OF assms, of sensor_readings] by (metis insertI1 insertI2)
  have ids: "ds_dataset_id shipments = ''shipments''" "ds_dataset_id containers = ''containers''"
    "ds_dataset_id incidents = ''incidents''" "ds_dataset_id sensor_readings = ''sensor-readings''"
    by (simp_all add: shipments_def containers_def incidents_def sensor_readings_def)
  note gets = ss(1) [unfolded ids] cs(1) [unfolded ids] ins(1) [unfolded ids] rs(1) [unfolded ids]
  show thesis
  proof (rule that [OF gets])
    show "length rs = 12" using rs(2) by (simp add: sensor_readings_def)
    show "\<forall>rec \<in> set ss. (\<exists>v. dict_get rec ''shipment_id'' = Some v)
       \<and> (\<exists>m \<in> {''5'', ''8''}. dict_get rec ''maximum_celsius'' = Some (JStr m))"
      using ss(2) [of _ "sequence_field ''shipment_id'' ''ship''"] ss(2) [of _ "choice_field ''maximum_celsius'' [''5'', ''8'']"]
      by (fastforce simp: shipments_def fields)
    show "\<forall>rec \<in> set cs. (\<exists>v. dict_get rec ''container_id'' = Some v) \<and> keyed ''shipment_id'' ss rec"
      using cs(2) [of _ "sequence_field ''container_id'' ''container''"] cs(2) [of _ "reference_to ''shipment_id'' ''shipments''"] gets
      by (fastforce simp: containers_def fields)
    show "\<forall>rec \<in> set ins. keyed ''shipment_id'' ss rec"
      using ins(2) [of _ "reference_to ''shipment_id'' ''shipments''"] gets by (fastforce simp: incidents_def fields)
    show "\<forall>rec \<in> set rs. keyed ''container_id'' cs rec \<and> (\<exists>t. dict_get rec ''temperature_celsius'' = Some (JInt t))"
      using rs(3) [of _ "reference_to ''container_id'' ''containers''"] gets
        rs(3) [of _ "(blueprint ''temperature_celsius'' FK_Integer)\<lparr>fb_minimum := - 2, fb_maximum := 14\<rparr>"]
      by (fastforce simp: sensor_readings_def fields)
  qed
qed

text \<open>
  The cold-chain scenario never fails: with every lawful random generator the pack of the lab generates, all its references
  resolve, and the number of temperature excursions is computed without an error and lies between 0 and the number of readings.
\<close>

lemma cold_chain_scenario_runs:
  assumes "rng_lawful r"
  shows "\<exists>gen n. generated_data p r = Inr gen \<and> references_valid gen = Inr True \<and> excursion_count p r = Inr n \<and> 0 \<le> n \<and> n \<le> 12"
proof -
  obtain gen where gen: "generated_data p r = Inr gen" "generating (pk_datasets cold_chain_pack) gen []"
    using cold_chain_generates [OF assms] by blast
  obtain ss cs ins rs where
    gets: "dict_get gen ''shipments'' = Some ss" "dict_get gen ''containers'' = Some cs"
      "dict_get gen ''incidents'' = Some ins" "dict_get gen ''sensor-readings'' = Some rs" "length rs = 12" and
    ss: "\<forall>rec \<in> set ss. (\<exists>v. dict_get rec ''shipment_id'' = Some v)
       \<and> (\<exists>m \<in> {''5'', ''8''}. dict_get rec ''maximum_celsius'' = Some (JStr m))" and
    cs: "\<forall>rec \<in> set cs. (\<exists>v. dict_get rec ''container_id'' = Some v) \<and> keyed ''shipment_id'' ss rec" and
    ins: "\<forall>rec \<in> set ins. keyed ''shipment_id'' ss rec" and
    rs: "\<forall>rec \<in> set rs. keyed ''container_id'' cs rec \<and> (\<exists>t. dict_get rec ''temperature_celsius'' = Some (JInt t))"
    by (rule cold_chain_data [OF gen(2)])
  have "references_valid gen = Inr True"
  proof -
    have "values_of ss ''shipment_id'' = Inr (map (field_value ''shipment_id'') ss)"
      "values_of cs ''container_id'' = Inr (map (field_value ''container_id'') cs)"
      using ss cs by (auto intro!: values_total)
    with keyed_values [of cs "''shipment_id''" ss] keyed_values [of ins "''shipment_id''" ss] keyed_values [of rs "''container_id''" cs]
    show ?thesis using cs ins rs gets by (simp add: references_valid_def dataset_of_def)
  qed
  moreover obtain si where si: "index_by ''shipment_id'' ss = Inr si"
      "\<And>rec v. rec \<in> set ss \<Longrightarrow> dict_get rec ''shipment_id'' = Some v \<Longrightarrow> \<exists>rec' \<in> set ss. indexed si v = Inr rec'"
    using index_total [of ss "''shipment_id''"] ss by metis
  moreover obtain ci where ci: "index_by ''container_id'' cs = Inr ci"
      "\<And>rec v. rec \<in> set cs \<Longrightarrow> dict_get rec ''container_id'' = Some v \<Longrightarrow> \<exists>rec' \<in> set cs. indexed ci v = Inr rec'"
    using index_total [of cs "''container_id''"] cs by metis
  moreover have "\<exists>b. is_excursion si ci row = Inr b" if "row \<in> set rs" for row
  proof -
    from rs that obtain c t k where c: "dict_get row ''container_id'' = Some c" "k \<in> set cs" "dict_get k ''container_id'' = Some c"
        "dict_get row ''temperature_celsius'' = Some (JInt t)" by blast
    from ci(2) [OF c(2,3)] obtain container where k: "container \<in> set cs" "indexed ci c = Inr container" by blast
    with cs obtain v s where v: "dict_get container ''shipment_id'' = Some v" "s \<in> set ss" "dict_get s ''shipment_id'' = Some v" by blast
    from si(2) [OF v(2,3)] obtain shipment where "shipment \<in> set ss" "indexed si v = Inr shipment" by blast
    with ss show ?thesis using excursion_decided [OF c(1) k(2) v(1) _ c(4)] by blast
  qed
  then obtain found where "check_all (is_excursion si ci) rs = Inr found" using check_all_total by blast
  moreover from this have "length (filter id found) \<le> 12"
    using check_all_length [of "is_excursion si ci" rs found] length_filter_le [of id found] gets(5) by linarith
  ultimately show ?thesis using gets gen(1)
    by (auto simp: excursion_count_def excursions_in_def dataset_of_def)
qed

lemma cold_chain_scenario_runs_example:
  "\<exists>gen n. generated_data sample_prims counting_rng = Inr gen \<and> references_valid gen = Inr True
    \<and> excursion_count sample_prims counting_rng = Inr n \<and> 0 \<le> n \<and> n \<le> 12"
  by (rule cold_chain_scenario_runs [OF counting_rng_lawful])

end
