(* ===== verification/Lab_Bundles.thy ===== *)
theory Lab_Bundles
  imports Signed_Packages Scaffolding Local_Only Decoder Contract_Gates
begin

text \<open>
  The offline bundles of the laboratories: white_goods/bundle.py and cold_chain/bundle.py (archives with a manifest of checksums,
  the latter around a signed connector), and white_goods/runtime_bundle.py (the signed transfer packet and its readiness). The
  file tree, the contents of files, opening an archive from its bytes and fnmatch are parameters. What was built verifies, and a
  packet is never ready: the readiness document always names what was not done.
\<close>

declare map_of_eq_Some_iff [simp del] Some_eq_map_of_iff [simp del]

section \<open>Bundles\<close>

datatype bundle_error = Bundle_Package package_error | Runtime_Error string

type_synonym 'a bundled = "bundle_error + 'a"

definition bundle_py :: "package_error + 'a \<Rightarrow> 'a bundled" where
  "bundle_py r = (case r of Inl e \<Rightarrow> Inl (Bundle_Package e) | Inr x \<Rightarrow> Inr x)"

record bundle_world =
  bw_root :: path \<comment> \<open>the parts of the repository's absolute path\<close>
  bw_is_file :: "path \<Rightarrow> bool"
  bw_below :: "path \<Rightarrow> path list" \<comment> \<open>\<open>rglob\<close> of a directory, relative to it, in any order\<close>
  bw_bytes :: "path \<Rightarrow> string"
  bw_text :: "path \<Rightarrow> string checked"
  bw_open :: "string \<Rightarrow> package_error + zip_archive"
  bw_package :: package_env

type_synonym entry = "string \<times> path"

definition white_goods_root :: path where "white_goods_root = [''reference_labs'', ''white_goods'']"
definition cold_chain_root :: path where "cold_chain_root = [''reference_labs'', ''cold_chain'']"

definition white_goods_roots :: "(string \<times> path) list" where
  "white_goods_roots =
     [(''reference_labs/white_goods'', white_goods_root), (''schemas/v1'', [''schemas'', ''v1'']), (''compatibility'', [''compatibility'']),
      (''contracts'', [''contracts'']), (''deployment/profiles'', [''deployment'', ''profiles'']),
      (''docs/architecture'', [''docs'', ''architecture'']), (''docs/testing'', [''docs'', ''testing''])]"

definition cold_chain_roots :: "(string \<times> path) list" where
  "cold_chain_roots =
     [(''reference_labs/cold_chain'', cold_chain_root), (''schemas/v1'', [''schemas'', ''v1'']), (''compatibility'', [''compatibility'']),
      (''deployment/profiles'', [''deployment'', ''profiles'']), (''docs/architecture'', [''docs'', ''architecture'']),
      (''docs/testing'', [''docs'', ''testing''])]"

definition packed :: "bundle_world \<Rightarrow> path \<Rightarrow> bool" where
  "packed w p \<longleftrightarrow> bw_is_file w p \<and> ''__pycache__'' \<notin> set (bw_root w @ p) \<and> path_suffix p \<noteq> ''.pyc''"

definition root_entries :: "bundle_world \<Rightarrow> string \<times> path \<Rightarrow> entry list" where
  "root_entries w r = (case r of (archive_root, source_root) \<Rightarrow>
     map (\<lambda>rel. (archive_root @ ''/'' @ join_path rel, source_root @ rel))
       (filter (\<lambda>rel. packed w (source_root @ rel)) (bw_below w source_root)))"

definition sort_entries :: "entry list \<Rightarrow> entry list" where
  \<comment> \<open>pairs of a name and a path compare by the name, then by the parts of the path\<close>
  "sort_entries = sort_key (\<lambda>(name, p). name # p)"

definition default_wheel :: "string \<Rightarrow> path" where
  "default_wheel version = [''dist'', ''orchestra_data_source_harness-'' @ version @ ''-py3-none-any.whl'']"

definition wheel_entry :: "string \<Rightarrow> path \<Rightarrow> entry" where
  "wheel_entry folder p = (folder @ ''/'' @ last p, p)"

definition white_goods_inputs :: "bundle_world \<Rightarrow> path \<Rightarrow> entry list bundled" where
  "white_goods_inputs w wheel =
     (if \<not> bw_is_file w wheel then Inl (Runtime_Error ''build the core harness wheel before creating the lab bundle: '')
      else Inr (sort_entries (concat (map (root_entries w) white_goods_roots) @ [wheel_entry ''wheels'' wheel])))"

definition cold_chain_inputs :: "bundle_world \<Rightarrow> path \<Rightarrow> path \<Rightarrow> entry list" where
  "cold_chain_inputs w connector wheel =
     sort_entries (concat (map (root_entries w) cold_chain_roots) @ [wheel_entry ''connectors'' connector, wheel_entry ''wheels'' wheel])"

definition bundle_manifest_path :: string where "bundle_manifest_path = ''bundle-manifest.json''"

definition entry_digests :: "bundle_world \<Rightarrow> entry list \<Rightarrow> (string, json) dict" where
  "entry_digests w entries = fold (\<lambda>(name, p). dict_set name (JStr (pr_sha256 (pe_prims (bw_package w)) (bw_bytes w p)))) entries []"

definition bundle_manifest :: "string \<Rightarrow> bundle_world \<Rightarrow> entry list \<Rightarrow> json" where
  "bundle_manifest schema w entries = JObj [(''schemaVersion'', JStr schema), (''files'', JObj (entry_digests w entries))]"

definition write_bundle :: "string \<Rightarrow> bundle_world \<Rightarrow> entry list \<Rightarrow> zip_archive \<times> string" where
  "write_bundle schema w entries =
     (let archive = write_archive (bw_package w) (map (\<lambda>(name, p). (name, bw_bytes w p)) entries
            @ [(bundle_manifest_path, document_text (bundle_manifest schema w entries))])
      in (archive, pr_sha256 (pe_prims (bw_package w)) (za_bytes archive)))"

definition white_goods_bundle :: "bundle_world \<Rightarrow> path \<Rightarrow> (zip_archive \<times> string) bundled" where
  "white_goods_bundle w wheel = ck_bind (white_goods_inputs w wheel) (\<lambda>entries. Inr (write_bundle ''whitegoods.lab.bundle/v1'' w entries))"

primrec bundle_checksums :: "prims \<Rightarrow> zip_archive \<Rightarrow> (string, json) dict \<Rightarrow> package_error + unit" where
  "bundle_checksums p a [] = Inr ()"
| "bundle_checksums p a (f # fs) =
     ck_bind (archive_read a (fst f)) (\<lambda>payload.
     ck_bind (require (JStr (pr_sha256 p payload) = snd f) ''bundle checksum mismatch: '') (\<lambda>_. bundle_checksums p a fs))"

definition check_bundle :: "bundle_world \<Rightarrow> zip_archive \<Rightarrow> package_error + unit" where
  "check_bundle w a =
     ck_bind (require (distinct (archive_names a) \<and> bundle_manifest_path \<in> set (archive_names a))
       ''bundle has duplicate entries or no manifest'') (\<lambda>_.
     ck_bind (read_document (bw_package w) a bundle_manifest_path) (\<lambda>manifest.
     ck_bind (pack_py (json_index manifest ''files'')) (\<lambda>files.
     ck_bind (json_items files) (\<lambda>digests. bundle_checksums (pe_prims (bw_package w)) a digests))))"

definition verify_bundle :: "bundle_world \<Rightarrow> zip_archive \<Rightarrow> package_error + string" where
  "verify_bundle w a = ck_bind (check_bundle w a) (\<lambda>_. Inr (pr_sha256 (pe_prims (bw_package w)) (za_bytes a)))"

section \<open>The bundle of the cold-chain lab\<close>

definition connector_path :: path where "connector_path = [''dist'', ''coldchain-carrier-api-0.1.0.zip'']"

definition cold_chain_signer :: "prims \<Rightarrow> artifact_signer" where
  "cold_chain_signer p = hmac_signer p ''cold-chain-lab-key'' ''cold-chain-reference-key-material''"

definition carrier_scaffold :: "bundle_world \<Rightarrow> connector_scaffold bundled" where
  "carrier_scaffold w = bundle_py
     (ck_bind (pack_py (bw_text w (cold_chain_root @ [''technology'', ''carrier-api'', ''openapi.json'']))) (\<lambda>t.
      ck_bind (pack_py (case json_loads (pe_float (bw_package w)) t of Inl _ \<Rightarrow> Inl (ValueError ''JSONDecodeError'') | Inr v \<Rightarrow> Inr v)) (\<lambda>v.
      case v of JObj document \<Rightarrow> pack_py (from_openapi document ''coldchain.carrier-api'' ''0.1.0'')
      | _ \<Rightarrow> Inl (Attribute_Error ''get''))))"

definition build_connector :: "bundle_world \<Rightarrow> (zip_archive \<times> string) bundled" where
  "build_connector w =
     ck_bind (carrier_scaffold w) (\<lambda>scaffold. bundle_py (build_signed_package (bw_package w) (sc_files scaffold)
       (cold_chain_signer (pe_prims (bw_package w))) (sc_connector_id scaffold) ''0.1.0'' []))"

definition write_file :: "bundle_world \<Rightarrow> path \<Rightarrow> string \<Rightarrow> bundle_world" where
  "write_file w p content = w\<lparr>bw_is_file := (bw_is_file w)(p := True), bw_bytes := (bw_bytes w)(p := content)\<rparr>"

definition cold_chain_bundle :: "bundle_world \<Rightarrow> string \<Rightarrow> (zip_archive \<times> string) bundled" where
  "cold_chain_bundle w version =
     (let wheel = default_wheel version in
      if \<not> bw_is_file w wheel then Inl (Runtime_Error ''build the core harness wheel before creating the lab bundle: '')
      else ck_bind (build_connector w) (\<lambda>(connector, _).
        let w' = write_file w connector_path (za_bytes connector)
        in Inr (write_bundle ''coldchain.lab.bundle/v1'' w' (cold_chain_inputs w' connector_path wheel))))"

definition verify_cold_chain_bundle :: "bundle_world \<Rightarrow> zip_archive \<Rightarrow> package_error + string" where
  "verify_cold_chain_bundle w a =
     ck_bind (check_bundle w a) (\<lambda>_.
     ck_bind (archive_read a (fst (wheel_entry ''connectors'' connector_path))) (\<lambda>content.
     ck_bind (bw_open w content) (\<lambda>connector.
     ck_bind (verify_signed_package (bw_package w) connector (cold_chain_signer (pe_prims (bw_package w))) None) (\<lambda>_.
     Inr (pr_sha256 (pe_prims (bw_package w)) (za_bytes a))))))"

section \<open>The signed transfer packet of the white-goods runtime\<close>

definition runtime_root :: path where "runtime_root = white_goods_root @ [''runtime'']"
definition wheelhouse :: path where "wheelhouse = [''dist'', ''wheelhouse'']"
definition wheelhouse_manifest :: path where "wheelhouse_manifest = wheelhouse @ [''wheelhouse-manifest.json'']"
definition requirements :: path where "requirements = runtime_root @ [''wheelhouse-requirements.txt'']"

definition required_wheel_prefixes :: "string list" where
  "required_wheel_prefixes = [''attrs-'', ''jsonschema-'', ''jsonschema_specifications-'', ''referencing-'', ''rpds_py-'', ''typing_extensions-'']"

definition runtime_signer :: "prims \<Rightarrow> artifact_signer" where
  "runtime_signer p = hmac_signer p ''white-goods-runtime-lab'' ''white-goods-runtime-lab-key-material''"

definition wheel_names :: "bundle_world \<Rightarrow> string list" where
  \<comment> \<open>\<open>glob("*.whl")\<close>\<close>
  "wheel_names w = map hd (filter (\<lambda>rel. length rel = 1 \<and> str_endswith (hd rel) ''.whl'') (bw_below w wheelhouse))"

definition content_digest :: "bundle_world \<Rightarrow> path \<Rightarrow> json option" where
  \<comment> \<open>reading what is no file is an OSError\<close>
  "content_digest w p = (if bw_is_file w p then Some (JStr (pr_sha256 (pe_prims (bw_package w)) (bw_bytes w p))) else None)"

definition wheels_listed :: "bundle_world \<Rightarrow> (string, json) dict \<Rightarrow> bool" where
  "wheels_listed w files \<longleftrightarrow> set (dict_keys files) = set (wheel_names w)
     \<and> list_all (\<lambda>(name, digest). content_digest w (wheelhouse @ [name]) = Some digest) files
     \<and> list_all (\<lambda>prefix. list_ex (\<lambda>name. str_startswith (str_lower name) prefix) (wheel_names w)) required_wheel_prefixes"

definition target_supported :: "json \<Rightarrow> bool bundled" where
  \<comment> \<open>a target that is no object raises an AttributeError, which is not caught\<close>
  "target_supported target = (case target of
     JObj t \<Rightarrow> Inr (member t ''platform'' = JStr ''manylinux_2_17_x86_64'' \<and> member t ''implementation'' = JStr ''cp''
       \<and> member t ''pythonVersion'' \<in> {JStr ''311'', JStr ''312''})
   | _ \<Rightarrow> Inl (Bundle_Package (Attribute_Error ''get'')))"

definition wheelhouse_complete :: "bundle_world \<Rightarrow> bool bundled" where
  "wheelhouse_complete w =
     (if \<not> bw_is_file w wheelhouse_manifest then Inr False
      else case ck_bind (bw_text w wheelhouse_manifest) (\<lambda>t.
          case json_loads (pe_float (bw_package w)) t of Inl _ \<Rightarrow> Inl (ValueError ''JSONDecodeError'') | Inr v \<Rightarrow> Inr v) of
        Inr (JObj manifest) \<Rightarrow>
          (case (dict_get manifest ''target'', dict_get manifest ''files'', content_digest w requirements) of
             (Some target, Some files, Some digest) \<Rightarrow>
               (if member manifest ''schemaVersion'' \<noteq> JStr ''data.harness.wheelhouse/v1'' then Inr False
                else ck_bind (target_supported target) (\<lambda>ok.
                  if \<not> ok \<or> member manifest ''requirementsSha256'' \<noteq> digest then Inr False
                  else case files of JObj fs \<Rightarrow> Inr (wheels_listed w fs) | _ \<Rightarrow> Inr False))
           | _ \<Rightarrow> Inr False)
      | _ \<Rightarrow> Inr False)"

fun partition_pin :: "string \<Rightarrow> string \<times> bool \<times> string" where
  \<comment> \<open>\<open>entry.partition("==")\<close>\<close>
  "partition_pin (c # d # s) =
     (if c = CHR ''='' \<and> d = CHR ''='' then ([], True, s)
      else case partition_pin (d # s) of (name, found, version) \<Rightarrow> (c # name, found, version))"
| "partition_pin s = (s, False, [])"

definition read_pin :: "string \<Rightarrow> (string, string) dict \<Rightarrow> (string, string) dict checked" where
  "read_pin line dependencies =
     (let entry = str_strip line in
      if entry = [] \<or> str_startswith entry ''#'' then Inr dependencies
      else case partition_pin entry of (name, found, version) \<Rightarrow>
        if \<not> found \<or> name = [] \<or> version = [] then Inl (ValueError ''runtime dependency must be exactly pinned: '')
        else Inr (dict_set name version dependencies))"

primrec read_pins :: "string list \<Rightarrow> (string, string) dict \<Rightarrow> (string, string) dict checked" where
  "read_pins [] dependencies = Inr dependencies"
| "read_pins (line # rest) dependencies = ck_bind (read_pin line dependencies) (read_pins rest)"

definition runtime_dependencies :: "bundle_world \<Rightarrow> (string, string) dict checked" where
  "runtime_dependencies w = ck_bind (bw_text w requirements) (\<lambda>t. read_pins (str_splitlines t) [])"

definition runtime_roots :: "(string \<times> path) list" where
  "runtime_roots = [(''runtime'', runtime_root), (''live'', white_goods_root @ [''live'']), (''schemas/v1'', [''schemas'', ''v1'']),
     (''compatibility'', [''compatibility'']), (''deployment/profiles'', [''deployment'', ''profiles''])]"

definition runtime_files :: "bundle_world \<Rightarrow> (bundle_world \<Rightarrow> bundle_world bundled) option \<Rightarrow> path \<Rightarrow> (string, string) dict bundled" where
  \<comment> \<open>the second argument is the build with uv, if it is installed\<close>
  "runtime_files w build wheel =
     ck_bind (if bw_is_file w wheel then Inr w
       else case build of None \<Rightarrow> Inl (Runtime_Error ''build the core harness wheel before the runtime packet: '') | Some b \<Rightarrow> b w) (\<lambda>w.
     if \<not> bw_is_file w wheel then Inl (Runtime_Error ''runtime packet wheel build did not produce: '')
     else let wheels = map (\<lambda>name. (''wheels/'' @ name, wheelhouse @ [name])) (sort (wheel_names w));
              manifest = (if bw_is_file w wheelhouse_manifest then [(''wheels/wheelhouse-manifest.json'', wheelhouse_manifest)] else []);
              entries = wheel_entry ''wheels'' wheel # wheels @ manifest @ concat (map (root_entries w) runtime_roots)
          in Inr (fold (\<lambda>(name, p). dict_set name (bw_bytes w p)) entries []))"

definition build_runtime_bundle :: "bundle_world \<Rightarrow> (bundle_world \<Rightarrow> bundle_world bundled) option \<Rightarrow> string \<Rightarrow> (zip_archive \<times> string) bundled" where
  "build_runtime_bundle w build version =
     ck_bind (runtime_files w build (default_wheel version)) (\<lambda>files.
     ck_bind (bundle_py (pack_py (runtime_dependencies w))) (\<lambda>dependencies.
     bundle_py (build_signed_package (bw_package w) files (runtime_signer (pe_prims (bw_package w)))
       ''white-goods-runtime-transfer'' version dependencies)))"

definition verify_runtime_bundle :: "bundle_world \<Rightarrow> zip_archive \<Rightarrow> package_error + string" where
  "verify_runtime_bundle w a = verify_signed_package (bw_package w) a (runtime_signer (pe_prims (bw_package w))) None"

definition images_resolved :: "bundle_world \<Rightarrow> bool checked" where
  \<comment> \<open>\<open>all\<close> stops at the first image without a digest\<close>
  "images_resolved w =
     ck_bind (bw_text w (white_goods_root @ [''airgap-images.lock.json''])) (\<lambda>t.
     ck_bind (case json_loads (pe_float (bw_package w)) t of Inl _ \<Rightarrow> Inl (ValueError ''JSONDecodeError'') | Inr v \<Rightarrow> Inr v) (\<lambda>lock.
     ck_bind (ck_bind (json_index lock ''images'') json_elements) (\<lambda>images.
     foldr (\<lambda>image rest. ck_bind (json_index image ''airgapDigest'') (\<lambda>d. if json_truthy d then rest else Inr False)) images (Inr True))))"

definition never_done :: "string list" where
  "never_done = [''oc-mirror-not-run'', ''live-cluster-not-available'', ''stakeholder-acceptance-missing'']"

definition readiness :: "bundle_world \<Rightarrow> zip_archive \<Rightarrow> (string, json) dict bundled" where
  "readiness w a =
     ck_bind (bundle_py (verify_runtime_bundle w a)) (\<lambda>digest.
     ck_bind (bundle_py (pack_py (images_resolved w))) (\<lambda>images.
     ck_bind (wheelhouse_complete w) (\<lambda>complete.
     let blockers = (if complete then [] else [''wheelhouse-incomplete'']) @ (if images then [] else [''image-digests-unresolved'']) @ never_done
     in Inr [(''schemaVersion'', JStr ''data.harness/v1''), (''bundleDigest'', JStr (''sha256:'' @ digest)), (''artifactIntegrity'', JBool True),
       (''wheelhouseComplete'', JBool complete), (''imageDigestsResolved'', JBool images), (''mirrorVerified'', JBool False),
       (''deployed'', JBool False), (''zeroEgressRuntimeVerified'', JBool False), (''stakeholderAccepted'', JBool False),
       (''blockers'', JArr (map JStr blockers))])))"

section \<open>What was built verifies\<close>

lemma sort_entries_set [simp]: "set (sort_entries es) = set es"
  by (simp add: sort_entries_def)

lemma entry_digests_get:
  assumes "distinct (map fst entries)"
  shows "dict_get (entry_digests w entries) name
    = (case map_of entries name of None \<Rightarrow> None | Some p \<Rightarrow> Some (JStr (pr_sha256 (pe_prims (bw_package w)) (bw_bytes w p))))"
proof -
  let ?f = "\<lambda>(name, p). dict_set name (JStr (pr_sha256 (pe_prims (bw_package w)) (bw_bytes w p)))"
  have "dict_get (fold ?f entries d) name = (case map_of entries name of None \<Rightarrow> dict_get d name
      | Some p \<Rightarrow> Some (JStr (pr_sha256 (pe_prims (bw_package w)) (bw_bytes w p))))" for d
    using assms
  proof (induction entries arbitrary: d)
    case (Cons e es)
    then have "map_of es (fst e) = None" by (simp add: map_of_eq_None_iff)
    with Cons show ?case by (cases e) (auto split: option.split)
  qed simp
  from this [of "[]"] show ?thesis by (simp add: entry_digests_def split: option.splits)
qed

lemma fold_set_wf: "dict_wf d \<Longrightarrow> dict_wf (fold (\<lambda>(k, x). dict_set k (f x)) es d)"
  by (induction es arbitrary: d) (auto simp: case_prod_unfold)

lemma entry_digests_wf: "dict_wf (entry_digests w entries)"
  using fold_set_wf [of "[]" "\<lambda>p. JStr (pr_sha256 (pe_prims (bw_package w)) (bw_bytes w p))" entries] by (simp add: entry_digests_def)

lemma bundle_checksums_all:
  "(\<And>f. f \<in> set fs \<Longrightarrow> \<exists>payload. archive_read a (fst f) = Inr payload \<and> snd f = JStr (pr_sha256 p payload)) \<Longrightarrow> bundle_checksums p a fs = Inr ()"
proof (induction fs)
  case (Cons f fs)
  then obtain payload where "archive_read a (fst f) = Inr payload" "snd f = JStr (pr_sha256 p payload)" by (meson list.set_intros(1))
  with Cons show ?case by (simp add: require_def)
qed simp

text \<open>An archive of entries with distinct names, none of them the manifest's, and none with a null character.\<close>

definition bundle_names :: "entry list \<Rightarrow> bool" where
  "bundle_names entries \<longleftrightarrow> distinct (map fst entries) \<and> bundle_manifest_path \<notin> set (map fst entries) \<and> (\<forall>e \<in> set entries. null_free (fst e))"

lemma entry_digests_member:
  assumes "bundle_names entries" "f \<in> set (entry_digests w entries)"
  obtains p where "map_of entries (fst f) = Some p" "snd f = JStr (pr_sha256 (pe_prims (bw_package w)) (bw_bytes w p))"
proof -
  have "dict_get (entry_digests w entries) (fst f) = Some (snd f)"
    using entry_digests_wf [of w entries] assms(2) by (metis map_of_is_SomeI prod.collapse)
  with entry_digests_get [of entries w "fst f"] assms(1) that show ?thesis
    by (auto simp: bundle_names_def split: option.splits)
qed

lemma digests_sorted:
  assumes "bundle_names entries"
  shows "sort_keys (JObj (entry_digests w entries)) = JObj (sort_key fst (entry_digests w entries))"
proof -
  have "map (map_prod id sort_keys) (entry_digests w entries) = entry_digests w entries"
    by (rule map_idI) (auto elim!: entry_digests_member [OF assms])
  then show ?thesis by simp
qed

lemma plain_bundle_manifest:
  assumes "bundle_names entries"
  shows "plain (bundle_manifest schema w entries)"
  using entry_digests_wf [of w entries] by (auto simp: bundle_manifest_def list_all_iff elim!: entry_digests_member [OF assms])

lemma bundle_contents:
  fixes w entries schema
  assumes "bundle_names entries"
  defines "a \<equiv> fst (write_bundle schema w entries)"
  shows "archive_names a = map fst entries @ [bundle_manifest_path]"
    "map_of entries name = Some p \<Longrightarrow> archive_read a name = Inr (bw_bytes w p)"
    "archive_read a bundle_manifest_path = Inr (document_text (bundle_manifest schema w entries))"
proof -
  let ?e = "map (\<lambda>(name, p). (name, bw_bytes w p)) entries @ [(bundle_manifest_path, document_text (bundle_manifest schema w entries))]"
  have a: "a = write_archive (bw_package w) ?e" by (simp add: a_def write_bundle_def Let_def)
  have keys: "dict_keys ?e = map fst entries @ [bundle_manifest_path]" by (simp add: comp_def case_prod_unfold)
  have wf: "dict_wf ?e" using assms(1) unfolding keys by (simp add: bundle_names_def)
  have free: "\<forall>e \<in> set ?e. null_free (fst e)"
    using assms(1) by (auto simp: bundle_names_def null_free_def bundle_manifest_path_def)
  show "archive_names a = map fst entries @ [bundle_manifest_path]" unfolding a written_names [OF free] keys ..
  have get: "dict_get ?e name = Some (bw_bytes w p)" if "map_of entries name = Some p" for name p
    using wf map_of_SomeD [OF that] by (intro map_of_is_SomeI) force+
  show "map_of entries name = Some p \<Longrightarrow> archive_read a name = Inr (bw_bytes w p)"
    unfolding a written_read [OF free wf] by (simp only: get option.case)
  have "dict_get ?e bundle_manifest_path = Some (document_text (bundle_manifest schema w entries))"
    using wf by (intro map_of_is_SomeI) simp_all
  then show "archive_read a bundle_manifest_path = Inr (document_text (bundle_manifest schema w entries))"
    unfolding a written_read [OF free wf] by (simp only: option.case)
qed

lemma written_bundle_checks:
  assumes "bundle_names entries"
  shows "check_bundle w (fst (write_bundle schema w entries)) = Inr ()"
proof -
  let ?a = "fst (write_bundle schema w entries)" and ?m = "bundle_manifest schema w entries" and ?p = "pe_prims (bw_package w)"
  note contents = bundle_contents [OF assms, where schema = schema and w = w]
  have "read_document (bw_package w) ?a bundle_manifest_path = Inr (sort_keys ?m)"
    using document_reads [OF plain_bundle_manifest [OF assms]] by (simp add: read_document_def contents(3))
  moreover have "json_index (sort_keys ?m) ''files'' = Inr (JObj (sort_key fst (entry_digests w entries)))"
    using digests_sorted [OF assms, of w] unfolding bundle_manifest_def by (intro json_index_sorted) simp_all
  moreover have "bundle_checksums ?p ?a (sort_key fst (entry_digests w entries)) = Inr ()"
  proof (rule bundle_checksums_all)
    fix f assume "f \<in> set (sort_key fst (entry_digests w entries))"
    then have "f \<in> set (entry_digests w entries)" by simp
    from entry_digests_member [OF assms this] obtain p where "map_of entries (fst f) = Some p" "snd f = JStr (pr_sha256 ?p (bw_bytes w p))" .
    with contents(2) show "\<exists>payload. archive_read ?a (fst f) = Inr payload \<and> snd f = JStr (pr_sha256 ?p payload)" by blast
  qed
  moreover have "distinct (archive_names ?a) \<and> bundle_manifest_path \<in> set (archive_names ?a)"
    using assms by (simp add: contents(1) bundle_names_def)
  ultimately show ?thesis by (simp add: check_bundle_def json_items_def require_def)
qed

text \<open>A bundle that was written verifies with the digest writing it gave.\<close>

lemma written_bundle_verifies:
  assumes "white_goods_bundle w wheel = Inr (a, d)" and "white_goods_inputs w wheel = Inr entries" and "bundle_names entries"
  shows "verify_bundle w a = Inr d"
proof -
  from assms(1,2) have "write_bundle ''whitegoods.lab.bundle/v1'' w entries = (a, d)" by (simp add: white_goods_bundle_def)
  moreover from this have "d = pr_sha256 (pe_prims (bw_package w)) (za_bytes a)" by (auto simp: write_bundle_def Let_def)
  ultimately show ?thesis
    using written_bundle_checks [OF assms(3), of w "''whitegoods.lab.bundle/v1''"] by (simp add: verify_bundle_def)
qed

text \<open>Verification looks at what the manifest lists and at nothing else: an entry added to the archive goes unnoticed.\<close>

lemma read_added:
  assumes "name \<noteq> ze_filename e"
  shows "archive_read (a\<lparr>za_entries := za_entries a @ [e]\<rparr>) name = archive_read a name"
  using assms by (simp add: archive_read_def)

lemma checksums_added:
  assumes "ze_filename e \<notin> set (archive_names a)" "bundle_checksums p a fs = Inr ()"
  shows "bundle_checksums p (a\<lparr>za_entries := za_entries a @ [e]\<rparr>) fs = Inr ()"
  using assms(2)
proof (induction fs)
  case (Cons f fs)
  then obtain payload where r: "archive_read a (fst f) = Inr payload" by (auto simp: ck_bind_Inr)
  then have "fst f \<noteq> ze_filename e" using archive_read_None [of "fst f" a] assms(1) by auto
  from read_added [OF this] Cons show ?case by (auto simp: ck_bind_Inr)
qed simp

lemma added_entry_verifies:
  assumes "check_bundle w a = Inr ()" and "ze_filename e \<notin> set (archive_names a)"
  shows "check_bundle w (a\<lparr>za_entries := za_entries a @ [e]\<rparr>) = Inr ()"
proof -
  let ?b = "a\<lparr>za_entries := za_entries a @ [e]\<rparr>"
  from assms(1) obtain manifest digests where a: "distinct (archive_names a)" "bundle_manifest_path \<in> set (archive_names a)"
      "read_document (bw_package w) a bundle_manifest_path = Inr manifest" "json_index manifest ''files'' = Inr (JObj digests)"
      "bundle_checksums (pe_prims (bw_package w)) a digests = Inr ()"
    by (auto simp: check_bundle_def ck_bind_Inr json_items_Inr)
  have names: "archive_names ?b = archive_names a @ [ze_filename e]" by (simp add: archive_names_def)
  have "bundle_manifest_path \<noteq> ze_filename e" using a(2) assms(2) by auto
  from read_added [OF this, of a] a(3) have "read_document (bw_package w) ?b bundle_manifest_path = Inr manifest"
    by (simp add: read_document_def)
  with a(1,2,4) assms(2) checksums_added [OF assms(2) a(5)] show ?thesis
    by (simp add: check_bundle_def names json_items_def require_def)
qed

subsection \<open>The signed connector inside the bundle\<close>

lemma bundle_py_Inr [simp]: "bundle_py r = Inr x \<longleftrightarrow> r = Inr x"
  by (cases r) (simp_all add: bundle_py_def)

lemma carrier_files:
  assumes "carrier_scaffold w = Inr sc"
  shows "dict_wf (sc_files sc)" "\<forall>f \<in> set (sc_files sc). null_free (fst f)"
    "set (dict_keys (sc_files sc)) \<inter> {manifest_path, sbom_path, signature_path} = {}"
proof -
  from assms obtain v where "(case v of JObj document \<Rightarrow> pack_py (from_openapi document ''coldchain.carrier-api'' ''0.1.0'')
      | _ \<Rightarrow> Inl (Attribute_Error ''get'')) = Inr sc"
    unfolding carrier_scaffold_def bundle_py_Inr ck_bind_Inr by blast
  then obtain document where "from_openapi document ''coldchain.carrier-api'' ''0.1.0'' = Inr sc" by (cases v) auto
  then obtain version catalog where "sc_files sc = scaffold_files ''coldchain.carrier-api'' ''0.1.0'' version catalog"
    by (auto simp: from_openapi_def ck_bind_Inr split: if_splits)
  then show "dict_wf (sc_files sc)" "\<forall>f \<in> set (sc_files sc). null_free (fst f)"
    "set (dict_keys (sc_files sc)) \<inter> {manifest_path, sbom_path, signature_path} = {}"
    by (auto simp: scaffold_files_def null_free_def manifest_path_def sbom_path_def signature_path_def)
qed

text \<open>Hashes are printed in ASCII, and the connector lies within the default limits.\<close>

lemma connector_verifies:
  assumes "build_connector w = Inr (connector, d)"
    and "\<And>k m. list_all (\<lambda>c. (of_char c :: nat) < 128) (pr_hmac_sha256 (pe_prims (bw_package w)) k m)"
    and "check_archive (pe_round (bw_package w)) default_limits connector = Inr ()"
  shows "verify_signed_package (bw_package w) connector (cold_chain_signer (pe_prims (bw_package w))) None = Inr d"
proof -
  let ?p = "pe_prims (bw_package w)"
  from assms(1) obtain sc where sc: "carrier_scaffold w = Inr sc"
      "build_signed_package (bw_package w) (sc_files sc) (cold_chain_signer ?p) (sc_connector_id sc) ''0.1.0'' [] = Inr (connector, d)"
    by (auto simp: build_connector_def ck_bind_Inr)
  have "sg_verify (cold_chain_signer ?p) t (JStr (sg_sign (cold_chain_signer ?p) t)) = Inr True" for t
    using assms(2) by (simp add: cold_chain_signer_def hmac_signer_def compare_digest_def)
  from built_verifies [OF sc(2) carrier_files [OF sc(1)] this, of default_limits] assms(3)
  show ?thesis by (auto simp: check_archive_def ck_bind_Inr verify_signed_package_def)
qed

text \<open>
  A bundle of the cold-chain lab verifies with its digest, the signature of the connector in it included, if opening the bytes
  of an archive gives back the archive.
\<close>

lemma cold_chain_bundle_verifies:
  assumes "cold_chain_bundle w version = Inr (a, d)" and "build_connector w = Inr (connector, dc)"
    and "bundle_names (cold_chain_inputs (write_file w connector_path (za_bytes connector)) connector_path (default_wheel version))"
    and "bw_open w (za_bytes connector) = Inr connector"
    and "\<And>k m. list_all (\<lambda>c. (of_char c :: nat) < 128) (pr_hmac_sha256 (pe_prims (bw_package w)) k m)"
    and "check_archive (pe_round (bw_package w)) default_limits connector = Inr ()"
  shows "verify_cold_chain_bundle w a = Inr d"
proof -
  let ?w = "write_file w connector_path (za_bytes connector)"
  let ?entries = "cold_chain_inputs ?w connector_path (default_wheel version)" and ?name = "fst (wheel_entry ''connectors'' connector_path)"
  from assms(1,2) have written: "write_bundle ''coldchain.lab.bundle/v1'' ?w ?entries = (a, d)"
    by (auto simp: cold_chain_bundle_def Let_def split: if_splits)
  have "(?name, connector_path) \<in> set ?entries" by (simp add: cold_chain_inputs_def wheel_entry_def)
  then have "map_of ?entries ?name = Some connector_path"
    using assms(3) by (intro map_of_is_SomeI) (simp_all add: bundle_names_def)
  from bundle_contents(2) [OF assms(3) this, where w = ?w and schema = "''coldchain.lab.bundle/v1''"] written
  have "archive_read a ?name = Inr (za_bytes connector)" by (simp add: write_file_def)
  moreover have "check_bundle w a = Inr ()"
    using written_bundle_checks [OF assms(3), of ?w "''coldchain.lab.bundle/v1''"] written
    by (simp add: check_bundle_def write_file_def)
  moreover have "d = pr_sha256 (pe_prims (bw_package w)) (za_bytes a)"
    using written by (auto simp: write_bundle_def write_file_def Let_def)
  ultimately show ?thesis
    using connector_verifies [OF assms(2,5,6)] assms(4) by (simp add: verify_cold_chain_bundle_def)
qed

section \<open>A packet is never ready\<close>

lemma wheelhouse_complete_True:
  assumes "wheelhouse_complete w = Inr True"
  obtains files where "wheels_listed w files"
  using assms that
  by (auto simp: wheelhouse_complete_def ck_bind_Inr split: if_splits sum.splits json.splits option.splits)

text \<open>
  The readiness of a packet is only stated for a packet that verifies, it always names what was not done and claims none of it,
  and it calls the wheelhouse complete only if the wheels are exactly those of its manifest with their checksums.
\<close>

lemma readiness_is_honest:
  assumes "readiness w a = Inr r"
  shows "\<exists>d. verify_runtime_bundle w a = Inr d \<and> member r ''bundleDigest'' = JStr (''sha256:'' @ d)"
    and "\<exists>blockers. member r ''blockers'' = JArr (map JStr blockers) \<and> set never_done \<subseteq> set blockers"
    and "k \<in> {''mirrorVerified'', ''deployed'', ''zeroEgressRuntimeVerified'', ''stakeholderAccepted''} \<Longrightarrow> member r k = JBool False"
    and "member r ''wheelhouseComplete'' = JBool True \<Longrightarrow> \<exists>files. wheels_listed w files"
proof -
  from assms obtain d images complete where r: "verify_runtime_bundle w a = Inr d" "wheelhouse_complete w = Inr complete"
      "r = [(''schemaVersion'', JStr ''data.harness/v1''), (''bundleDigest'', JStr (''sha256:'' @ d)), (''artifactIntegrity'', JBool True),
       (''wheelhouseComplete'', JBool complete), (''imageDigestsResolved'', JBool images), (''mirrorVerified'', JBool False),
       (''deployed'', JBool False), (''zeroEgressRuntimeVerified'', JBool False), (''stakeholderAccepted'', JBool False),
       (''blockers'', JArr (map JStr ((if complete then [] else [''wheelhouse-incomplete''])
          @ (if images then [] else [''image-digests-unresolved'']) @ never_done)))]"
    by (simp add: readiness_def ck_bind_Inr Let_def) metis
  show "\<exists>d. verify_runtime_bundle w a = Inr d \<and> member r ''bundleDigest'' = JStr (''sha256:'' @ d)"
    using r(1) by (simp add: r(3) member_def)
  show "\<exists>blockers. member r ''blockers'' = JArr (map JStr blockers) \<and> set never_done \<subseteq> set blockers"
    by (rule exI [where x = "(if complete then [] else [''wheelhouse-incomplete''])
          @ (if images then [] else [''image-digests-unresolved'']) @ never_done"]) (auto simp: r(3) member_def)
  show "k \<in> {''mirrorVerified'', ''deployed'', ''zeroEgressRuntimeVerified'', ''stakeholderAccepted''} \<Longrightarrow> member r k = JBool False"
    by (auto simp: r(3) member_def)
  show "member r ''wheelhouseComplete'' = JBool True \<Longrightarrow> \<exists>files. wheels_listed w files"
    using r(2) wheelhouse_complete_True [of w] by (auto simp: r(3) member_def)
qed

text \<open>Every dependency of the packet is pinned to a version.\<close>

lemma read_pins_pinned:
  "read_pins rows d = Inr dependencies \<Longrightarrow> (\<And>n v. (n, v) \<in> set d \<Longrightarrow> n \<noteq> [] \<and> v \<noteq> []) \<Longrightarrow> (n, v) \<in> set dependencies \<Longrightarrow> n \<noteq> [] \<and> v \<noteq> []"
proof (induction rows arbitrary: d)
  case (Cons row rows)
  have set_items: "(n', v') \<in> set (dict_set k x d) \<Longrightarrow> (n', v') = (k, x) \<or> (n', v') \<in> set d" for n' v' k x and d :: "(string, string) dict"
    by (induction d) (auto split: if_splits)
  from Cons.prems(1) obtain d' where d': "read_pin row d = Inr d'" "read_pins rows d' = Inr dependencies" by (auto simp: ck_bind_Inr)
  have kept: "n' \<noteq> [] \<and> v' \<noteq> []" if "(n', v') \<in> set d'" for n' v'
  proof -
    from d'(1) consider "d' = d" | name version where "name \<noteq> []" "version \<noteq> []" "d' = dict_set name version d"
      by (auto simp: read_pin_def Let_def split: if_splits prod.splits)
    then show ?thesis using that Cons.prems(2) using set_items by cases blast+
  qed
  from Cons.IH [OF d'(2) kept Cons.prems(3)] show ?case .
qed simp

section \<open>Examples\<close>

definition sample_tree :: "(path \<times> string) list \<Rightarrow> bundle_world" where
  "sample_tree files = \<lparr>bw_root = [''repository''], bw_is_file = (\<lambda>p. p \<in> fst ` set files),
     bw_below = (\<lambda>p. map (\<lambda>f. drop (length p) (fst f)) (filter (\<lambda>f. take (length p) (fst f) = p \<and> fst f \<noteq> p) files)),
     bw_bytes = (\<lambda>p. case map_of files p of None \<Rightarrow> [] | Some t \<Rightarrow> t),
     bw_text = (\<lambda>p. case map_of files p of None \<Rightarrow> Inl (ValueError ''no file'') | Some t \<Rightarrow> Inr t),
     bw_open = (\<lambda>_. Inl (Bad_Archive ''no archive'')), bw_package = sample_package_env\<rparr>"

definition sample_lab :: bundle_world where
  "sample_lab = sample_tree [([''dist'', ''harness.whl''], ''wheel''), ([''schemas'', ''v1'', ''b.json''], ''{}''),
     ([''schemas'', ''v1'', ''__pycache__'', ''x.py''], ''x''), ([''reference_labs'', ''white_goods'', ''lab.py''], ''lab''),
     ([''reference_labs'', ''white_goods'', ''lab.pyc''], ''compiled'')]"

lemma sample_inputs:
  "white_goods_inputs sample_lab [''dist'', ''harness.whl''] = Inr
     [(''reference_labs/white_goods/lab.py'', [''reference_labs'', ''white_goods'', ''lab.py'']),
      (''schemas/v1/b.json'', [''schemas'', ''v1'', ''b.json'']), (''wheels/harness.whl'', [''dist'', ''harness.whl''])]"
  by code_simp

lemma written_bundle_verifies_example:
  "\<exists>a d. white_goods_bundle sample_lab [''dist'', ''harness.whl''] = Inr (a, d) \<and> verify_bundle sample_lab a = Inr d"
proof -
  obtain a d where b: "white_goods_bundle sample_lab [''dist'', ''harness.whl''] = Inr (a, d)"
    by (simp add: white_goods_bundle_def sample_inputs) (metis surj_pair)
  have "bundle_names [(''reference_labs/white_goods/lab.py'', [''reference_labs'', ''white_goods'', ''lab.py'']),
      (''schemas/v1/b.json'', [''schemas'', ''v1'', ''b.json'']), (''wheels/harness.whl'', [''dist'', ''harness.whl''])]"
    by (simp add: bundle_names_def bundle_manifest_path_def null_free_def)
  from written_bundle_verifies [OF b sample_inputs this] b show ?thesis by blast
qed

text \<open>A wheelhouse manifest whose target is no object ends the readiness with an AttributeError instead of a blocker.\<close>

lemma odd_target_escapes:
  "wheelhouse_complete (sample_tree [(wheelhouse_manifest,
      ''{\"files\": {}, \"schemaVersion\": \"data.harness.wheelhouse/v1\", \"target\": 1}''), (requirements, ''httpx==1'')])
    = Inl (Bundle_Package (Attribute_Error ''get''))"
  by code_simp

lemma sample_pins:
  "read_pins [''# pinned'', [], '' attrs==25.1 '', ''httpx==0.27''] [] = Inr [(''attrs'', ''25.1''), (''httpx'', ''0.27'')]"
  "read_pins [''attrs>=25''] [] = Inl (ValueError ''runtime dependency must be exactly pinned: '')"
  by code_simp+

end
