(* ===== verification/Readiness_Campaign.thy ===== *)
theory Readiness_Campaign
  imports Acceptance_Campaign
begin

text \<open>
  The acceptance-readiness campaign of the laboratories (certify_phase7_readiness.py): the campaign built from the release-set lock
  and the observed evidence, and the attempt to forge its contract. The parsed documents of the files are parameters. Whatever the
  files hold, the campaign is not accepted and the forged contract is refused.
\<close>

section \<open>The campaign that is built\<close>

record readiness_files =
  rf_lock :: "json checked"
  rf_sources :: "json checked"
  rf_runtime :: "json checked"

definition connector_ids :: "(string, string) dict" where
  "connector_ids = [(''whitegoods.postgresql'', ''whitegoods.erp''), (''whitegoods.object-store'', ''whitegoods.documents''),
     (''whitegoods.event-stream'', ''whitegoods.telemetry''), (''whitegoods.service-api'', ''whitegoods.service-api'')]"

definition observed_at :: datetime where
  \<comment> \<open>2026-08-28T00:00:00Z\<close>
  "observed_at = utc 1787875200000000"

definition source_target :: "acceptance_env \<Rightarrow> json \<Rightarrow> json \<Rightarrow> live_source checked" where
  "source_target av evidence item =
     ck_bind (index_as item ''sourceId'' as_text) (\<lambda>source_id.
     ck_bind (index_as item ''shape'' (as_member shape_value all_shapes)) (\<lambda>shape.
     ck_bind (case dict_get connector_ids source_id of None \<Rightarrow> Inl (KeyError source_id) | Some c \<Rightarrow> Inr c) (\<lambda>connector_id.
     ck_bind (index_as item ''imageDigest'' as_opt_text) (\<lambda>image.
     ck_bind (index_as evidence ''passed'' as_bool) (\<lambda>verified.
     ck_bind (index_as item ''observedAt'' (as_time av)) (\<lambda>observed.
     ck_bind (index_as item ''references'' as_texts) (\<lambda>references.
     mk_live_source \<lparr>ls_source_id = source_id, ls_shape = shape, ls_connector_id = connector_id,
       ls_endpoint_reference = ''credential-ref://phase7/'' @ str_removeprefix source_id ''whitegoods.'',
       ls_image_digest = image, ls_live_verified = verified, ls_observed_at = Some observed, ls_references = references\<rparr>)))))))"

definition source_targets :: "acceptance_env \<Rightarrow> readiness_files \<Rightarrow> live_source list checked" where
  "source_targets av files =
     ck_bind (rf_sources files) (\<lambda>evidence.
     index_as evidence ''sources'' (parse_items (source_target av evidence)))"

definition passed_evidence :: "release_artifact \<Rightarrow> string \<Rightarrow> acceptance_stage \<Rightarrow> datetime \<Rightarrow> string list \<Rightarrow> stage_evidence checked" where
  "passed_evidence a component stage time references = mk_stage_evidence
     \<lparr>se_component = component, se_stage = stage, se_status = Ev_Passed, se_revision = ra_revision a,
      se_artifact_digest = ra_artifact_digest a, se_observed_at = time, se_references = references\<rparr>"

definition by_component :: "release_artifact list \<Rightarrow> (string, release_artifact) dict" where
  "by_component artifacts = fold (\<lambda>a. dict_set (ra_component a) a) artifacts []"

definition component_artifact :: "(string, release_artifact) dict \<Rightarrow> string \<Rightarrow> release_artifact checked" where
  "component_artifact d component = (case dict_get d component of None \<Rightarrow> Inl (KeyError component) | Some a \<Rightarrow> Inr a)"

definition exact_main_references :: "(string, string list) dict" where
  "exact_main_references =
     [(''ADLC'', [''https://github.com/caglarsubas/agent-hook-v2/actions/runs/33087853316'',
                  ''https://github.com/caglarsubas/agent-hook-v2/actions/runs/33087853263'']),
      (''model-plane'', [''https://github.com/caglarsubas/llm_inference_engine/actions/runs/32734407866''])]"

definition source_observations :: "(string, release_artifact) dict \<Rightarrow> stage_evidence list checked" where
  "source_observations d = check_all (\<lambda>(component, a). passed_evidence a component Stage_Source observed_at
     [ra_repository a @ ''/commit/'' @ ra_revision a]) d"

definition exact_main_observations :: "(string, release_artifact) dict \<Rightarrow> stage_evidence list checked" where
  "exact_main_observations d = check_all (\<lambda>(component, references). ck_bind (component_artifact d component) (\<lambda>a.
     passed_evidence a component Stage_Exact_Main_Ci observed_at references)) exact_main_references"

definition runtime_observations :: "acceptance_env \<Rightarrow> readiness_files \<Rightarrow> (string, release_artifact) dict \<Rightarrow> stage_evidence list checked" where
  "runtime_observations av files d =
     ck_bind (rf_runtime files) (\<lambda>runtime.
     ck_bind (component_artifact d ''data-source-harness'') (\<lambda>harness.
     check_all (\<lambda>stage. ck_bind (index_as runtime ''generatedAt'' (as_time av)) (\<lambda>time.
       passed_evidence harness ''data-source-harness'' stage time [''local-evidence://phase7/data-source-harness/'' @ stage_value stage]))
       [Stage_Local_Image_Load, Stage_Local_Startup, Stage_Runtime]))"

definition observed_evidence :: "acceptance_env \<Rightarrow> readiness_files \<Rightarrow> release_artifact list \<Rightarrow> stage_evidence list checked" where
  "observed_evidence av files artifacts =
     (let d = by_component artifacts in
      ck_bind (source_observations d) (\<lambda>sources.
      ck_bind (exact_main_observations d) (\<lambda>exact.
      ck_bind (runtime_observations av files d) (\<lambda>runtime. Inr (sources @ exact @ runtime)))))"

definition build_readiness_campaign :: "acceptance_env \<Rightarrow> readiness_files \<Rightarrow> campaign checked" where
  "build_readiness_campaign av files =
     ck_bind (rf_lock files) (\<lambda>lock.
     ck_bind (index_as lock ''artifacts'' (parse_items (parse_artifact av))) (\<lambda>artifacts.
     ck_bind (index_as lock ''campaignId'' as_text) (\<lambda>campaign_id.
     ck_bind (index_as lock ''releaseSet'' as_text) (\<lambda>release_set.
     ck_bind (index_as lock ''generatedAt'' (as_time av)) (\<lambda>generated_at.
     ck_bind (source_targets av files) (\<lambda>targets.
     ck_bind (observed_evidence av files artifacts) (\<lambda>evidence.
     ck_bind (mk_cost_boundary \<lparr>cb_provisioning_authorized = False, cb_resources_created = [], cb_external_mutations = []\<rparr>) (\<lambda>boundary.
     mk_campaign \<lparr>ca_campaign_id = campaign_id, ca_release_set = release_set, ca_generated_at = generated_at, ca_artifacts = artifacts,
       ca_sources = targets, ca_evidence = evidence, ca_cost_boundary = boundary\<rparr>))))))))"

section \<open>Forging the contract\<close>

definition forged_contract :: "(string, json) dict \<Rightarrow> (string, json) dict" where
  \<comment> \<open>a deep copy with the derived fields replaced\<close>
  "forged_contract contract = dict_set ''blockers'' (JArr []) (dict_set ''accepted'' (JBool True) contract)"

definition false_acceptance_count :: "acceptance_env \<Rightarrow> (string, json) dict \<Rightarrow> int checked" where
  "false_acceptance_count av contract =
     (case parse_campaign av (forged_contract contract) of
        Inr c \<Rightarrow> Inr 1 | Inl (ValueError m) \<Rightarrow> Inr 0 | Inl e \<Rightarrow> Inl e)"

section \<open>The campaign is not accepted\<close>

lemma passed_evidence_Inr:
  "passed_evidence a component stage time references = Inr e \<Longrightarrow>
     se_component e = component \<and> se_stage e = stage \<and> mk_stage_evidence e = Inr e"
  unfolding passed_evidence_def by (drule mk_stage_evidence_same) auto

lemma observed_evidence_Inr:
  assumes "observed_evidence av files artifacts = Inr es" and "e \<in> set es"
  shows "mk_stage_evidence e = Inr e \<and> (se_stage e \<in> {Stage_Source, Stage_Exact_Main_Ci} \<or> se_component e = ''data-source-harness'')"
proof -
  let ?d = "by_component artifacts"
  from assms(1) obtain sources exact runtime where parts: "source_observations ?d = Inr sources"
      "exact_main_observations ?d = Inr exact" "runtime_observations av files ?d = Inr runtime" "es = sources @ exact @ runtime"
    by (auto simp: observed_evidence_def Let_def ck_bind_Inr)
  from assms(2) parts(4) consider "e \<in> set sources" | "e \<in> set exact" | "e \<in> set runtime" by auto
  then show ?thesis
  proof cases
    case 1
    from check_all_right [OF parts(1) [unfolded source_observations_def] this] show ?thesis
      by (auto dest: passed_evidence_Inr)
  next
    case 2
    from check_all_right [OF parts(2) [unfolded exact_main_observations_def] this] show ?thesis
      by (auto simp: ck_bind_Inr dest: passed_evidence_Inr)
  next
    case 3
    from parts(3) obtain harness t where "check_all (\<lambda>stage. ck_bind t (\<lambda>time.
        passed_evidence harness ''data-source-harness'' stage time [''local-evidence://phase7/data-source-harness/'' @ stage_value stage]))
        [Stage_Local_Image_Load, Stage_Local_Startup, Stage_Runtime] = Inr runtime"
      unfolding runtime_observations_def ck_bind_Inr by blast
    from check_all_right [OF this 3] show ?thesis by (auto simp: ck_bind_Inr dest: passed_evidence_Inr)
  qed
qed

lemma source_target_Inr: "source_target av evidence item = Inr s \<Longrightarrow> mk_live_source s = Inr s"
  unfolding source_target_def ck_bind_Inr by (elim exE conjE) (drule mk_live_source_same, blast)

lemma readiness_campaign_built:
  assumes "build_readiness_campaign av files = Inr c"
  shows "campaign_built av c" "\<And>e. e \<in> set (ca_evidence c) \<Longrightarrow>
    se_stage e \<in> {Stage_Source, Stage_Exact_Main_Ci} \<or> se_component e = ''data-source-harness''"
proof -
  from assms obtain lock evidence artifacts targets es i r t b where
      "index_as lock ''artifacts'' (parse_items (parse_artifact av)) = Inr artifacts"
      "index_as evidence ''sources'' (parse_items (source_target av evidence)) = Inr targets"
      and es: "observed_evidence av files artifacts = Inr es"
      and b: "mk_cost_boundary \<lparr>cb_provisioning_authorized = False, cb_resources_created = [], cb_external_mutations = []\<rparr> = Inr b"
      and mk: "mk_campaign \<lparr>ca_campaign_id = i, ca_release_set = r, ca_generated_at = t, ca_artifacts = artifacts,
        ca_sources = targets, ca_evidence = es, ca_cost_boundary = b\<rparr> = Inr c"
    unfolding build_readiness_campaign_def source_targets_def ck_bind_Inr by blast
  then have "list_all (\<lambda>a. mk_release_artifact av a = Inr a) artifacts" "list_all (\<lambda>s. mk_live_source s = Inr s) targets"
    using parse_parts(1) source_target_Inr by (blast intro: parsed_items_all)+
  moreover have "list_all (\<lambda>e. mk_stage_evidence e = Inr e) es"
    using observed_evidence_Inr [OF es] by (simp add: list_all_iff)
  ultimately show "campaign_built av c" using mk_campaign_same [OF mk] mk_cost_boundary_same [OF b] by (auto simp: campaign_built_def)
  show "\<And>e. e \<in> set (ca_evidence c) \<Longrightarrow> se_stage e \<in> {Stage_Source, Stage_Exact_Main_Ci} \<or> se_component e = ''data-source-harness''"
    using mk_campaign_same [OF mk] observed_evidence_Inr [OF es] by auto
qed

lemma stage_missing:
  assumes "\<And>e. e \<in> set es \<Longrightarrow> evidence_key e \<noteq> (component, stage)"
  shows "stage_blockers es component stage = [component @ '':'' @ stage_value stage @ '':missing'']"
proof -
  have "dict_get (rev (map (\<lambda>e. (evidence_key e, e)) es)) (component, stage) = None"
    using assms by (fastforce simp: map_of_eq_None_iff)
  then show ?thesis by (simp add: stage_blockers_def)
qed

lemma blocker_listed:
  "component \<in> set required_components \<Longrightarrow> b \<in> set (stage_blockers (ca_evidence c) component stage) \<Longrightarrow> b \<in> set (blockers c)"
  unfolding blockers_def by auto

lemma forged_contract_refused:
  assumes "campaign_built av c" and "campaign_stamps_ok av c" and "\<not> accepted c"
  shows "false_acceptance_count av (campaign_contract (av_prims av) c) = Inr 0"
proof -
  let ?d = "campaign_contract (av_prims av) c"
  have same: "json_index (JObj (forged_contract ?d)) k = json_index (JObj ?d) k" if "k \<noteq> ''accepted''" "k \<noteq> ''blockers''" for k
    using that by (simp add: json_index_def forged_contract_def)
  from campaign_reads_back [OF assms(1,2)] obtain as ss es bv i r t b c' where parts:
      "index_as (JObj ?d) ''artifacts'' (parse_items (parse_artifact av)) = Inr as"
      "index_as (JObj ?d) ''sources'' (parse_items (parse_source av)) = Inr ss"
      "index_as (JObj ?d) ''evidence'' (parse_items (parse_evidence av)) = Inr es"
      "json_index (JObj ?d) ''costBoundary'' = Inr bv" "index_as (JObj ?d) ''campaignId'' as_text = Inr i"
      "index_as (JObj ?d) ''releaseSet'' as_text = Inr r" "index_as (JObj ?d) ''generatedAt'' (as_time av) = Inr t"
      "parse_boundary bv = Inr b" "mk_campaign \<lparr>ca_campaign_id = i, ca_release_set = r, ca_generated_at = t,
        ca_artifacts = as, ca_sources = ss, ca_evidence = es, ca_cost_boundary = b\<rparr> = Inr c'"
      "derived_fields_match (av_prims av) ?d c' = Inr c"
    unfolding parse_campaign_def ck_bind_Inr by blast
  from parts(10) have "c' = c" by (simp add: derived_fields_match_Inr)
  with parts have "parse_campaign av (forged_contract ?d) = derived_fields_match (av_prims av) (forged_contract ?d) c"
    by (simp add: parse_campaign_def index_as_def same)
  moreover have "\<exists>m. derived_fields_match (av_prims av) (forged_contract ?d) c = Inl (ValueError m)"
    using assms(3) by (simp add: derived_fields_match_def forged_contract_def)
  ultimately show ?thesis by (auto simp: false_acceptance_count_def)
qed

text \<open>
  C21. The readiness campaign cannot pass for accepted: whatever the lock and the evidence files hold, a campaign that is built
  from them lacks, for every component but the harness, the evidence of every stage but the source and the exact-main build, names each of
  them as a blocker, is not accepted, and its contract with acceptance forged into it is refused.
\<close>

theorem readiness_is_not_acceptance:
  assumes "build_readiness_campaign av files = Inr c" and "campaign_stamps_ok av c"
    and "component \<in> set required_components - {''data-source-harness''}" and "stage \<notin> {Stage_Source, Stage_Exact_Main_Ci}"
  shows "\<not> accepted c \<and> component @ '':'' @ stage_value stage @ '':missing'' \<in> set (blockers c)
    \<and> false_acceptance_count av (campaign_contract (av_prims av) c) = Inr 0"
proof -
  note built = readiness_campaign_built [OF assms(1)]
  have "stage_blockers (ca_evidence c) component stage = [component @ '':'' @ stage_value stage @ '':missing'']"
    using built(2) assms(3,4) by (intro stage_missing) auto
  then have missing: "component @ '':'' @ stage_value stage @ '':missing'' \<in> set (blockers c)"
    using assms(3) by (intro blocker_listed [of component _ _ stage]) simp_all
  then have "\<not> accepted c" by (auto simp: accepted_def)
  with missing forged_contract_refused [OF built(1) assms(2)] show ?thesis by blast
qed

section \<open>An example\<close>

definition sample_artifact :: "string \<Rightarrow> json" where
  "sample_artifact component = JObj [(''component'', JStr component), (''repository'', JStr ''https://example.org/r''),
     (''revision'', JStr sample_sha), (''artifactDigest'', JStr sample_image)]"

definition sample_source :: "string \<times> string \<Rightarrow> json" where
  "sample_source s = JObj [(''sourceId'', JStr (fst s)), (''shape'', JStr (snd s)), (''imageDigest'', JStr sample_image),
     (''observedAt'', JStr ''0''), (''references'', JArr [JStr ''run/1''])]"

definition sample_files :: readiness_files where
  "sample_files = \<lparr>rf_lock = Inr (JObj [(''campaignId'', JStr ''phase7''), (''releaseSet'', JStr ''r1''), (''generatedAt'', JStr ''0''),
       (''artifacts'', JArr (map sample_artifact required_components))]),
     rf_sources = Inr (JObj [(''passed'', JBool True), (''sources'', JArr (map sample_source
       [(''whitegoods.postgresql'', ''postgresql''), (''whitegoods.object-store'', ''s3-compatible''),
        (''whitegoods.event-stream'', ''kafka-compatible''), (''whitegoods.service-api'', ''rest'')]))]),
     rf_runtime = Inr (JObj [(''generatedAt'', JStr ''0'')])\<rparr>"

definition stamp_env :: acceptance_env where
  "stamp_env = sample_acceptance_env\<lparr>av_prims := sample_prims\<lparr>pr_isoformat := \<lambda>t. if t = utc 0 then ''0'' else ''1''\<rparr>,
     av_fromisoformat := \<lambda>t. Some (if t = ''0'' then utc 0 else observed_at)\<rparr>"

definition sample_readiness :: campaign where
  "sample_readiness = (case build_readiness_campaign stamp_env sample_files of Inr c \<Rightarrow> c | Inl _ \<Rightarrow> sample_campaign)"

lemma sample_readiness_built: "build_readiness_campaign stamp_env sample_files = Inr sample_readiness"
proof -
  have "\<not> isl (build_readiness_campaign stamp_env sample_files)" by code_simp
  then show ?thesis by (auto simp: sample_readiness_def split: sum.splits)
qed

lemma stamp_env_ok: "t \<in> {utc 0, observed_at} \<Longrightarrow> stamp_ok stamp_env t"
  by (auto simp: stamp_ok_def stamp_env_def utc_def observed_at_def)

lemma sample_readiness_times:
  "ca_generated_at sample_readiness \<in> {utc 0, observed_at}
    \<and> list_all (\<lambda>s. list_all (\<lambda>t. t \<in> {utc 0, observed_at}) (case ls_observed_at s of None \<Rightarrow> [] | Some t \<Rightarrow> [t])) (ca_sources sample_readiness)
    \<and> list_all (\<lambda>e. se_observed_at e \<in> {utc 0, observed_at}) (ca_evidence sample_readiness)"
  by code_simp

lemma sample_readiness_stamps: "campaign_stamps_ok stamp_env sample_readiness"
  using sample_readiness_times unfolding campaign_stamps_ok_def list_all_iff
  by (auto intro!: stamp_env_ok)

theorem readiness_is_not_acceptance_witness:
  "''ADLC:stakeholder:missing'' \<in> set (blockers sample_readiness)
    \<and> false_acceptance_count stamp_env (campaign_contract (av_prims stamp_env) sample_readiness) = Inr 0"
  using readiness_is_not_acceptance [OF sample_readiness_built sample_readiness_stamps, of "''ADLC''" Stage_Stakeholder]
  by (simp add: required_components_def)

end
