(* ===== verification/Lab_Context.thy ===== *)
theory Lab_Context
  imports White_Goods_Lab Query_Planning Promotion_Readiness Acceptance_Campaign
begin

text \<open>
  The trustworthy-context composition of the white-goods lab (white_goods/phase2.py): the semantic graph as a source, the governed
  mappings and freshness observations read from the committed documents, the routes, the bounded plan through the gateway, and the
  context envelopes. The parsed documents, the value of a JSON number and float rounding are parameters.
\<close>

declare map_of_eq_Some_iff [simp del] Some_eq_map_of_iff [simp del]

section \<open>The semantic graph as a source\<close>

definition graph_schemas :: "(string, field_schema list) dict" where
  "graph_schemas = [(''semantic_assertions'', [lab_field ''assertion_id'' ''string'' False, lab_field ''subject_id'' ''string'' False,
     lab_field ''predicate'' ''string'' False, lab_field ''object_id'' ''string'' False, lab_field ''confidence'' ''number'' False])]"

definition new_graph_connector :: "string \<Rightarrow> lab_connector checked" where
  "new_graph_connector digest = new_connector digest
     (lab_profile ''whitegoods.semantic-graph'' [DM_Graph] [Discover, Describe, Query] ''credential_reference'') graph_schemas"

primrec predicate_value :: "assertion_predicate \<Rightarrow> string" where
  "predicate_value Same_As = ''same_as''"
| "predicate_value Not_Same_As = ''not_same_as''"
| "predicate_value Mentions = ''mentions''"

definition assertion_row :: "lab_env \<Rightarrow> semantic_assertion \<Rightarrow> json" where
  "assertion_row env a = JObj [(''assertion_id'', JStr (sa_assertion_id a)), (''subject_id'', JStr (sa_subject_id a)),
     (''predicate'', JStr (predicate_value (sa_predicate a))), (''object_id'', JStr (sa_object_id a)),
     (''confidence'', JFloat (le_float_repr env (sa_confidence a)))]"

definition graph_batch :: "lab_env \<Rightarrow> int \<Rightarrow> 'a lab_connector_scheme \<Rightarrow> query_request \<Rightarrow> (lab_error + data_batch)" where
  \<comment> \<open>building the graph and reading it at the wall clock \<open>now\<close>; the graph of the lab contradicts nothing\<close>
  "graph_batch env now c q =
     (case semantic_graph now of
        Inl (Gr_Py e) \<Rightarrow> Inl (Lab_Raised e)
      | Inl _ \<Rightarrow> Inl (Lab_Raised (ValueError ''contradiction''))
      | Inr g \<Rightarrow>
          (let shown = py_slice (active_now g now) 0 (qr_limit q); rows = map (assertion_row env) shown
           in lab_raised (rows_batch c BK_Graph rows (concat (map sa_lineage shown)))))"

definition graph_execute :: "lab_env \<Rightarrow> int \<Rightarrow> 'a lab_connector_scheme \<Rightarrow> query_request \<Rightarrow> data_batch list \<times> lab_error option" where
  "graph_execute env now c q = generator c (ck_bind (graph_batch env now c q) (\<lambda>b. Inr ([b], None)))"

section \<open>Mappings and freshness\<close>

record context_env =
  cx_number :: "json \<Rightarrow> rat checked"
  cx_round :: "rat \<Rightarrow> rat"
  cx_mappings :: "json checked"
  cx_freshness :: "json checked"
  cx_release_set :: "json checked"

primrec review_value :: "mapping_status \<Rightarrow> string" where
  "review_value MS_Proposed = ''proposed''"
| "review_value MS_Approved = ''approved''"
| "review_value MS_Rejected = ''rejected''"
| "review_value MS_Quarantined = ''quarantined''"

definition opt_member :: "json \<Rightarrow> string \<Rightarrow> string option checked" where
  "opt_member v k = (case v of JObj d \<Rightarrow> as_opt_text (member d k) | _ \<Rightarrow> Inl (TypeError ''mapping expected''))"

definition read_mapped_lineage :: "json \<Rightarrow> lineage_ref checked" where
  "read_mapped_lineage v =
     ck_bind (index_as v ''sourceId'' as_text) (\<lambda>source_id.
     ck_bind (index_as v ''assetId'' as_text) (\<lambda>asset_id.
     ck_bind (opt_member v ''recordId'') (\<lambda>record_id.
     ck_bind (opt_member v ''fieldPath'') (\<lambda>field_path.
     mk_lineage_ref \<lparr>lin_source_id = source_id, lin_asset_id = asset_id, lin_record_id = record_id, lin_field_path = field_path\<rparr>))))"

definition read_candidate :: "context_env \<Rightarrow> json \<Rightarrow> mapping_candidate checked" where
  "read_candidate cx item =
     ck_bind (json_index item ''target'') (\<lambda>target.
     ck_bind (index_as item ''lineage'' (parse_items read_mapped_lineage)) (\<lambda>lineage.
     ck_bind (index_as item ''mappingId'' as_text) (\<lambda>mapping_id.
     ck_bind (index_as item ''conceptId'' as_text) (\<lambda>concept_id.
     ck_bind (index_as target ''sourceId'' as_text) (\<lambda>source_id.
     ck_bind (index_as target ''assetId'' as_text) (\<lambda>asset_id.
     ck_bind (index_as target ''fieldPath'' as_text) (\<lambda>field_path.
     ck_bind (index_as item ''confidence'' (cx_number cx)) (\<lambda>confidence.
     ck_bind (index_as item ''schemaDigest'' as_text) (\<lambda>digest.
     ck_bind (index_as item ''rationale'' as_text) (\<lambda>rationale.
     mk_mapping_candidate \<lparr>mc_mapping_id = mapping_id, mc_concept_id = concept_id, mc_source_id = source_id, mc_asset_id = asset_id,
       mc_field_path = field_path, mc_confidence = confidence, mc_schema_digest = digest, mc_proposed_at = fixed_time,
       mc_rationale = rationale, mc_lineage = lineage\<rparr>))))))))))"

definition read_review :: "json \<Rightarrow> string \<Rightarrow> mapping_review checked" where
  "read_review item mapping_id =
     ck_bind (json_index item ''review'') (\<lambda>review.
     ck_bind (index_as review ''status'' (as_member review_value [MS_Proposed, MS_Approved, MS_Rejected, MS_Quarantined])) (\<lambda>status.
     ck_bind (index_as review ''reviewedBy'' as_text) (\<lambda>reviewer.
     ck_bind (index_as review ''reason'' as_text) (\<lambda>reason.
     mk_mapping_review \<lparr>mr_mapping_id = mapping_id, mr_status = status, mr_reviewed_by = reviewer, mr_reviewed_at = fixed_time,
       mr_reason = reason\<rparr>))))"

definition adopt :: "mapping_candidate \<Rightarrow> mapping_review checked \<Rightarrow> mapping_registry \<Rightarrow> mapping_registry checked" where
  \<comment> \<open>a proposal and its review\<close>
  "adopt c review registry = ck_bind (propose c registry) (\<lambda>r. ck_bind review (\<lambda>v. review_mapping v r))"

primrec adopt_all :: "context_env \<Rightarrow> json list \<Rightarrow> mapping_registry \<Rightarrow> mapping_registry checked" where
  "adopt_all cx [] registry = Inr registry"
| "adopt_all cx (item # items) registry =
     ck_bind (read_candidate cx item) (\<lambda>c.
     ck_bind (adopt c (read_review item (mc_mapping_id c)) registry) (adopt_all cx items))"

definition lab_mappings :: "context_env \<Rightarrow> mapping_registry checked" where
  "lab_mappings cx =
     ck_bind (cx_mappings cx) (\<lambda>document.
     ck_bind (index_as document ''mappings'' json_elements) (\<lambda>items. adopt_all cx items empty_mappings))"

definition as_seconds :: "json \<Rightarrow> int checked" where
  "as_seconds v = (case v of JInt n \<Rightarrow> Inr n | _ \<Rightarrow> Inl (TypeError ''seconds expected''))"

definition read_observation :: "json \<Rightarrow> freshness_observation checked" where
  "read_observation item =
     ck_bind (index_as item ''sourceId'' as_text) (\<lambda>source_id.
     ck_bind (index_as item ''assetId'' as_text) (\<lambda>asset_id.
     ck_bind (index_as item ''ageSeconds'' as_seconds) (\<lambda>age.
     ck_bind (index_as item ''watermark'' as_text) (\<lambda>watermark.
     mk_freshness_observation \<lparr>ob_source_id = source_id, ob_asset_id = asset_id, ob_observed_at = fixed_time,
       ob_source_event_time = dt_add fixed_time (- age * 1000000), ob_watermark = watermark\<rparr>))))"

primrec observe_all :: "json list \<Rightarrow> observations \<Rightarrow> observations checked" where
  "observe_all [] obs = Inr obs"
| "observe_all (item # items) obs =
     ck_bind (read_observation item) (\<lambda>p. ck_bind (record_observation p obs) (observe_all items))"

definition lab_freshness :: "context_env \<Rightarrow> observations checked" where
  "lab_freshness cx =
     ck_bind (cx_freshness cx) (\<lambda>document.
     ck_bind (index_as document ''observations'' json_elements) (\<lambda>items. observe_all items []))"

section \<open>Routes\<close>

definition five_minute_slo :: freshness_slo where
  "five_minute_slo = \<lparr>slo_max_age = 300 * 1000000, slo_on_breach = Exclude\<rparr>"

definition covered_concepts :: "string list" where
  "covered_concepts = [''service.error-code'', ''telemetry.error-code'', ''diagnosis.guidance'', ''appointment.status'']"

definition lab_route_request :: "string \<Rightarrow> string list \<Rightarrow> int \<Rightarrow> route_request" where
  "lab_route_request request concepts sources = \<lparr>rq_request_id = request, rq_concept_ids = concepts, rq_max_sources = sources,
     rq_minimum_confidence = 85 / 100, rq_ambiguity_delta = 2 / 100, rq_freshness_slo = five_minute_slo\<rparr>"

definition lab_route :: "context_env \<Rightarrow> mapping_registry \<Rightarrow> observations \<Rightarrow> route_request \<Rightarrow> route_decision checked" where
  "lab_route cx registry obs request =
     ck_bind (mk_freshness_slo five_minute_slo) (\<lambda>_. ck_bind (mk_route_request request) (\<lambda>q. route (cx_round cx) registry obs q fixed_time))"

definition covered_route :: "context_env \<Rightarrow> route_decision checked" where
  "covered_route cx =
     ck_bind (lab_mappings cx) (\<lambda>registry. ck_bind (lab_freshness cx) (\<lambda>obs.
     lab_route cx registry obs (lab_route_request ''phase2-e21'' covered_concepts 4)))"

definition ambiguous_candidate :: "string \<times> string \<Rightarrow> mapping_candidate checked" where
  "ambiguous_candidate m = (case m of (mapping_id, source_id) \<Rightarrow>
     ck_bind (mk_lineage_ref \<lparr>lin_source_id = source_id, lin_asset_id = ''technical_documents'', lin_record_id = None,
       lin_field_path = Some ''component_name''\<rparr>) (\<lambda>ref.
     mk_mapping_candidate \<lparr>mc_mapping_id = mapping_id, mc_concept_id = ''component.failure'', mc_source_id = source_id,
       mc_asset_id = (if take 9 (rev source_id) = rev ''documents'' then ''technical_documents'' else ''technical_document_index''),
       mc_field_path = ''component_name'', mc_confidence = 91 / 100, mc_schema_digest = ''sha256:component-v1'',
       mc_proposed_at = fixed_time, mc_rationale = ''equal evidence requires steward selection'', mc_lineage = [ref]\<rparr>))"

definition steward_review :: "string \<Rightarrow> mapping_review checked" where
  "steward_review mapping_id = mk_mapping_review \<lparr>mr_mapping_id = mapping_id, mr_status = MS_Approved,
     mr_reviewed_by = ''human:lab-steward'', mr_reviewed_at = fixed_time, mr_reason = ''verified''\<rparr>"

primrec adopt_ambiguous :: "(string \<times> string) list \<Rightarrow> mapping_registry \<Rightarrow> mapping_registry checked" where
  "adopt_ambiguous [] registry = Inr registry"
| "adopt_ambiguous (m # ms) registry =
     ck_bind (ambiguous_candidate m) (\<lambda>c. ck_bind (adopt c (steward_review (fst m)) registry) (adopt_ambiguous ms))"

definition ambiguous_route :: "context_env \<Rightarrow> route_decision checked" where
  "ambiguous_route cx =
     ck_bind (lab_mappings cx) (\<lambda>registry.
     ck_bind (adopt_ambiguous [(''map-component-docs'', ''whitegoods.documents''), (''map-component-search'', ''whitegoods.search'')] registry) (\<lambda>registry.
     ck_bind (lab_freshness cx) (\<lambda>obs.
     ck_bind (mk_freshness_observation \<lparr>ob_source_id = ''whitegoods.documents'', ob_asset_id = ''technical_documents'',
       ob_observed_at = fixed_time, ob_source_event_time = fixed_time, ob_watermark = ''docs:4''\<rparr>) (\<lambda>p.
     ck_bind (record_observation p obs) (\<lambda>obs.
     lab_route cx registry obs (lab_route_request ''phase2-ambiguous'' [''component.failure''] 1))))))"

section \<open>The bounded plan through the gateway\<close>

definition e21_relationship :: relationship_ref where
  "e21_relationship = \<lparr>rl_left_asset = ''service_orders'', rl_left_field = ''serial_number'',
     rl_right_asset = ''installed_products'', rl_right_field = ''serial_number''\<rparr>"

definition e21_fields :: "(string, string list) dict" where
  "e21_fields = [(''service_orders'', [''service_order_id'', ''serial_number'', ''error_code'']),
     (''installed_products'', [''serial_number'', ''product_id''])]"

definition e21_intent :: query_intent where
  "e21_intent = \<lparr>qi_source_id = ''whitegoods.erp'', qi_asset_ids = [''service_orders'', ''installed_products''], qi_fields = e21_fields,
     qi_filters = [(''service_orders'', [(''error_code'', JStr ''E21'')])], qi_relationships = [e21_relationship],
     qi_limit = 20, qi_deadline_ms = 1000, qi_purpose = ''covered E21 analysis''\<rparr>"

definition e21_constraints :: planning_constraints where
  "e21_constraints = \<lparr>pc_allowed_fields = e21_fields,
     pc_allowed_relationships = [''service_orders.serial_number->installed_products.serial_number''],
     pc_max_assets = 2, pc_max_rows = 100, pc_max_deadline_ms = 2000\<rparr>"

definition bounded_e21_plan :: "plan_error + bounded_plan" where
  "bounded_e21_plan = (case mk_planning_constraints e21_constraints of Inl e \<Rightarrow> Inl (Plan_Py e) | Inr c \<Rightarrow> compile_intent e21_intent c)"

definition e21_grant :: query_access_grant where
  "e21_grant = \<lparr>gr_organization_id = ''whitegoods-lab'', gr_solution_id = ''service-quality'', gr_agent_id = ''agent-quality'',
     gr_source_id = ''whitegoods.erp'', gr_asset_fields = e21_fields,
     gr_relationships = [''service_orders.serial_number->installed_products.serial_number'']\<rparr>"

definition plan_gateway :: "lab_env \<Rightarrow> (nat \<Rightarrow> int) \<Rightarrow> (datetime \<Rightarrow> string) \<Rightarrow> white_goods_lab \<Rightarrow> harness_env" where
  \<comment> \<open>the lab's gateway with the field and relationship policy\<close>
  "plan_gateway env clock isoformat l = (lab_gateway env (\<lambda>_. None) clock isoformat l)
     \<lparr>he_policy := \<lambda>r. Inr (field_policy (le_repr env) (static_policy [(''whitegoods.erp'', Query)]) [e21_grant] r)\<rparr>"

datatype context_error = Cx_Py py_error | Cx_Plan plan_error | Cx_Gateway gateway_error | Cx_Coordination coordination_error

definition cx_py :: "'a checked \<Rightarrow> (context_error + 'a)" where
  "cx_py r = (case r of Inl e \<Rightarrow> Inl (Cx_Py e) | Inr x \<Rightarrow> Inr x)"

definition execute_bounded_e21_plan :: "lab_env \<Rightarrow> (nat \<Rightarrow> int) \<Rightarrow> (datetime \<Rightarrow> string) \<Rightarrow> white_goods_lab \<Rightarrow> context_error + data_batch list" where
  \<comment> \<open>what the stream yields, or the exception it ends in\<close>
  "execute_bounded_e21_plan env clock isoformat l =
     (case bounded_e21_plan of Inl e \<Rightarrow> Inl (Cx_Plan e) | Inr plan \<Rightarrow>
      ck_bind (cx_py (mk_query_access_grant e21_grant)) (\<lambda>_.
      ck_bind (cx_py (to_query_request plan [(''role'', JStr ''quality'')])) (\<lambda>request.
      case execute_query (plan_gateway env clock isoformat l) request (lab_identity ''agent-quality'' ''bounded-e21'') gateway_start of
        ((batches, None), _) \<Rightarrow> Inr batches | ((_, Some e), _) \<Rightarrow> Inl (Cx_Gateway e))))"

section \<open>Checkpoints and promotion\<close>

definition telemetry_token :: "string \<Rightarrow> checkpoint_token" where
  "telemetry_token position = \<lparr>ct_source_id = ''whitegoods.telemetry'', ct_stream_id = ''telemetry_events'', ct_position = position,
     ct_observed_at = fixed_time, ct_connector_version = ''1.0.0''\<rparr>"

definition ck_checkpoint :: "'a checked \<Rightarrow> (checkpoint_error + 'a)" where
  "ck_checkpoint r = (case r of Inl e \<Rightarrow> Inl (Ck_Py e) | Inr x \<Rightarrow> Inr x)"

definition checkpoint_ledger :: "checkpoint_error + checkpoints" where
  "checkpoint_ledger =
     ck_bind (ck_checkpoint (mk_checkpoint_token (telemetry_token ''8''))) (\<lambda>t. ck_bind (record_checkpoint t []) (\<lambda>ledger.
     ck_bind (ck_checkpoint (mk_checkpoint_token (telemetry_token ''9''))) (\<lambda>t. record_checkpoint t ledger)))"

definition read_entry :: "json \<Rightarrow> compatibility_entry checked" where
  "read_entry item =
     ck_bind (index_as item ''name'' as_text) (\<lambda>name.
     ck_bind (index_as item ''revision'' as_text) (\<lambda>revision.
     mk_compatibility_entry \<lparr>ce_component = name, ce_revision = revision, ce_compatible = True,
       ce_evidence_id = ''contract-pin:'' @ revision\<rparr>))"

definition lab_matrix :: "context_env \<Rightarrow> compatibility_matrix checked" where
  "lab_matrix cx =
     ck_bind (cx_release_set cx) (\<lambda>document.
     ck_bind (index_as document ''releaseSet'' as_text) (\<lambda>release_set.
     ck_bind (index_as document ''components'' (parse_items read_entry)) (\<lambda>entries.
     Inr \<lparr>cm_release_set = release_set, cm_entries = entries\<rparr>)))"

definition lab_evidence :: "bool \<Rightarrow> evidence_kind \<Rightarrow> promotion_evidence checked" where
  "lab_evidence simulated kind = mk_promotion_evidence
     \<lparr>pe_evidence_id = ''phase2-'' @ evidence_kind_value kind, pe_kind = kind, pe_status = (if simulated then Pr_Passed else Pr_Missing),
      pe_revision = replicate 40 CHR ''0'', pe_digest = ''sha256:phase2-'' @ evidence_kind_value kind\<rparr>"

definition lab_readiness :: "context_env \<Rightarrow> bool \<Rightarrow> promotion_readiness checked" where
  "lab_readiness cx simulated =
     ck_bind (check_all (lab_evidence simulated) all_kinds) (\<lambda>evidence.
     ck_bind (lab_matrix cx) (\<lambda>matrix. Inr (evaluate_promotion evidence matrix)))"

section \<open>The context envelopes\<close>

definition grounded_content :: string where
  "grounded_content = ''E21 is grounded in service, telemetry, technical guidance and appointment evidence.''"

definition record_refs :: "string \<Rightarrow> string \<Rightarrow> json list \<Rightarrow> lineage_ref list checked" where
  "record_refs source_id asset_id ids = check_all (\<lambda>v. ck_bind (as_text v) (\<lambda>i. mk_lineage_ref
     \<lparr>lin_source_id = source_id, lin_asset_id = asset_id, lin_record_id = Some i, lin_field_path = None\<rparr>)) ids"

definition brief_lineage :: "e21_brief \<Rightarrow> lineage_ref list checked" where
  "brief_lineage b =
     ck_bind (record_refs ''whitegoods.erp'' ''service_orders'' (eb_service_order_ids b)) (\<lambda>orders.
     ck_bind (record_refs ''whitegoods.telemetry'' ''telemetry_events'' (eb_telemetry_event_ids b)) (\<lambda>events.
     ck_bind (record_refs ''whitegoods.documents'' ''technical_documents'' (map JStr (eb_document_ids b))) (\<lambda>documents.
     ck_bind (record_refs ''whitegoods.service-api'' ''appointments'' (eb_appointment_ids b)) (\<lambda>appointments.
     Inr (orders @ events @ documents @ appointments)))))"

definition grounded_envelope :: "context_env \<Rightarrow> e21_brief \<Rightarrow> coverage_statement \<Rightarrow> context_envelope checked" where
  "grounded_envelope cx b coverage =
     ck_bind (covered_route cx) (\<lambda>decision.
     ck_bind (brief_lineage b) (\<lambda>lineage.
     ck_bind (mk_coverage_statement \<lparr>cov_request_id = ''phase2-e21'', cov_generated_at = cov_generated_at coverage,
       cov_included = cov_included coverage, cov_excluded = [], cov_expected_sources = []\<rparr>) (\<lambda>statement.
     mk_context_envelope \<lparr>ctx_request_id = ''phase2-e21'', ctx_outcome = Answer, ctx_content = Some grounded_content,
       ctx_route = decision, ctx_coverage = statement, ctx_lineage = lineage, ctx_reason_codes = []\<rparr>)))"

definition grounded_e21_context :: "context_env \<Rightarrow> harness_env \<Rightarrow> int \<Rightarrow> harness_state \<Rightarrow> (context_error + context_envelope) \<times> harness_state" where
  "grounded_e21_context cx h deadline s =
     (case e21_cross_source_brief h deadline s of
        (Inl e, t) \<Rightarrow> (Inl (Cx_Coordination e), t)
      | (Inr (b, coverage), t) \<Rightarrow> (cx_py (grounded_envelope cx b coverage), t))"

definition ambiguous_context :: "context_env \<Rightarrow> context_envelope checked" where
  "ambiguous_context cx =
     ck_bind (ambiguous_route cx) (\<lambda>decision.
     ck_bind (mk_coverage_exclusion \<lparr>cx_source_id = ''semantic-registry'', cx_reason_code = ''ambiguous_mapping'',
       cx_detail = ''human steward must choose the component mapping''\<rparr>) (\<lambda>exclusion.
     ck_bind (mk_coverage_statement \<lparr>cov_request_id = rd_request_id decision, cov_generated_at = fixed_time, cov_included = [],
       cov_excluded = [exclusion], cov_expected_sources = []\<rparr>) (\<lambda>statement.
     mk_context_envelope \<lparr>ctx_request_id = rd_request_id decision, ctx_outcome = Escalation, ctx_content = None, ctx_route = decision,
       ctx_coverage = statement, ctx_lineage = [], ctx_reason_codes = rd_reason_codes decision\<rparr>)))"

section \<open>The answer rests on mappings a human approved\<close>

definition human_governed :: "mapping_registry \<Rightarrow> bool" where
  "human_governed registry \<longleftrightarrow> (\<forall>k r. dict_get (mg_reviews registry) k = Some r \<longrightarrow> str_startswith (mr_reviewed_by r) ''human:'')
     \<and> (\<forall>(k, c) \<in> set (mg_candidates registry). mc_mapping_id c = k)"

lemma adopt_human:
  assumes "adopt c review registry = Inr registry'" and "\<And>v. review = Inr v \<Longrightarrow> str_startswith (mr_reviewed_by v) ''human:''"
    and "human_governed registry"
  shows "human_governed registry'"
proof -
  from assms(1) obtain r v where r: "propose c registry = Inr r" "review = Inr v" "review_mapping v r = Inr registry'"
    by (auto simp: adopt_def ck_bind_Inr)
  from r(1) have new: "mc_mapping_id c \<notin> set (dict_keys (mg_candidates registry))"
    "r = registry\<lparr>mg_candidates := dict_set (mc_mapping_id c) c (mg_candidates registry)\<rparr>"
    by (auto simp: propose_def split: if_splits)
  then have "human_governed r" using assms(3) by (auto simp: human_governed_def dict_set_new)
  moreover have "registry' = r\<lparr>mg_reviews := dict_set (mr_mapping_id v) v (mg_reviews r)\<rparr>"
    using r(3) by (auto simp: review_mapping_def split: if_splits option.splits)
  ultimately show ?thesis using assms(2) [OF r(2)] by (auto simp: human_governed_def)
qed

lemma read_review_human: "read_review item i = Inr v \<Longrightarrow> str_startswith (mr_reviewed_by v) ''human:''"
  by (auto simp: read_review_def ck_bind_Inr mk_mapping_review_def split: if_splits)

lemma adopt_all_human: "adopt_all cx items registry = Inr registry' \<Longrightarrow> human_governed registry \<Longrightarrow> human_governed registry'"
proof (induction items arbitrary: registry)
  case (Cons item items)
  then obtain c r where "adopt c (read_review item (mc_mapping_id c)) registry = Inr r" "adopt_all cx items r = Inr registry'"
    by (auto simp: ck_bind_Inr)
  with Cons show ?case using adopt_human read_review_human by blast
qed simp

lemma lab_mappings_human:
  assumes "lab_mappings cx = Inr registry"
  shows "human_governed registry"
proof -
  have "human_governed empty_mappings" by (simp add: human_governed_def empty_mappings_def)
  with assms adopt_all_human show ?thesis unfolding lab_mappings_def ck_bind_Inr by blast
qed

lemma approved_by_human:
  assumes "human_governed registry" and "w \<in> set (approved_for concept registry)"
  shows "\<exists>v. dict_get (mg_reviews registry) (mc_mapping_id w) = Some v \<and> mr_status v = MS_Approved
    \<and> str_startswith (mr_reviewed_by v) ''human:''"
proof -
  from assms(2) obtain k where "(k, w) \<in> set (mg_candidates registry)"
      "case dict_get (mg_reviews registry) k of None \<Rightarrow> False | Some r \<Rightarrow> mr_status r = MS_Approved"
    by (auto simp: approved_for_def approved_def)
  with assms(1) show ?thesis by (fastforce simp: human_governed_def split: option.splits)
qed

text \<open>
  An answer of the composition is grounded end to end: if the envelope is built, the coverage of the sources is complete, provenance
  is present, and each of the four concepts was routed by a clear, fresh winner among mappings that a human approved.
\<close>

lemma grounded_context_is_governed:
  assumes "grounded_e21_context cx h deadline s = (Inr e, t)" and "mono (cx_round cx)"
  shows "ctx_outcome e = Answer \<and> ctx_lineage e \<noteq> [] \<and> cov_excluded (ctx_coverage e) = [] \<and> (\<forall>c \<in> set (cov_included (ctx_coverage e)). sc_complete c)
    \<and> (\<exists>registry obs. lab_mappings cx = Inr registry \<and> lab_freshness cx = Inr obs \<and> (\<forall>concept \<in> set covered_concepts. \<exists>w r v.
         clear_winner (cx_round cx) (\<lambda>s a. assess (cx_round cx) obs s a five_minute_slo fixed_time) registry
           (lab_route_request ''phase2-e21'' covered_concepts 4) concept w
         \<and> r \<in> set (rd_routes (ctx_route e)) \<and> carries r w
         \<and> dict_get (mg_reviews registry) (mc_mapping_id w) = Some v \<and> mr_status v = MS_Approved
         \<and> str_startswith (mr_reviewed_by v) ''human:''))"
proof -
  let ?q = "lab_route_request ''phase2-e21'' covered_concepts 4"
  from assms(1) obtain b coverage where "grounded_envelope cx b coverage = Inr e"
    by (auto simp: grounded_e21_context_def cx_py_def split: prod.splits sum.splits)
  then obtain decision statement lineage where route: "covered_route cx = Inr decision"
      and e: "mk_context_envelope \<lparr>ctx_request_id = ''phase2-e21'', ctx_outcome = Answer, ctx_content = Some grounded_content,
       ctx_route = decision, ctx_coverage = statement, ctx_lineage = lineage, ctx_reason_codes = []\<rparr> = Inr e" (is "mk_context_envelope ?e = _")
    unfolding grounded_envelope_def ck_bind_Inr by blast
  from mk_context_envelope_Answer [OF e] have same: "e = ?e" by simp
  from route obtain registry obs where r: "lab_mappings cx = Inr registry" "lab_freshness cx = Inr obs"
      "route (cx_round cx) registry obs ?q fixed_time = Inr decision"
    by (auto simp: covered_route_def lab_route_def ck_bind_Inr mk_route_request_def split: if_splits)
  have "route (cx_round cx) registry obs ?q fixed_time = Inr (ctx_route ?e)" using r(3) by simp
  from answers_are_grounded [OF e _ this assms(2)]
  have grounded: "ctx_lineage e \<noteq> []" "cov_excluded (ctx_coverage e) = []" "\<forall>c \<in> set (cov_included (ctx_coverage e)). sc_complete c"
      "\<forall>concept \<in> set covered_concepts. \<exists>w r. clear_winner (cx_round cx) (\<lambda>s a. assess (cx_round cx) obs s a five_minute_slo fixed_time)
        registry ?q concept w \<and> r \<in> set (rd_routes (ctx_route e)) \<and> carries r w"
    by (simp_all add: same lab_route_request_def)
  have "\<exists>v. dict_get (mg_reviews registry) (mc_mapping_id w) = Some v \<and> mr_status v = MS_Approved \<and> str_startswith (mr_reviewed_by v) ''human:''"
    if "clear_winner rnd fresh registry ?q concept w" for rnd fresh concept w
    using that approved_by_human [OF lab_mappings_human [OF r(1)]] by (auto simp: clear_winner_def eligible_for_def)
  with grounded r(1,2) same show ?thesis by (metis context_envelope.select_convs(2))
qed

section \<open>The committed documents\<close>

definition sample_mapping :: "string \<Rightarrow> string \<Rightarrow> string \<Rightarrow> string \<Rightarrow> string \<Rightarrow> string \<Rightarrow> json" where
  "sample_mapping mapping_id concept source_id asset field confidence = JObj
     [(''mappingId'', JStr mapping_id), (''conceptId'', JStr concept),
      (''target'', JObj [(''sourceId'', JStr source_id), (''assetId'', JStr asset), (''fieldPath'', JStr field)]),
      (''confidence'', JFloat confidence), (''schemaDigest'', JStr ''sha256:1''), (''rationale'', JStr ''verified''),
      (''lineage'', JArr [JObj [(''sourceId'', JStr source_id), (''assetId'', JStr asset), (''fieldPath'', JStr field)]]),
      (''review'', JObj [(''status'', JStr ''approved''), (''reviewedBy'', JStr ''human:lab-steward''), (''reason'', JStr ''verified'')])]"

definition sample_age :: "string \<Rightarrow> string \<Rightarrow> int \<Rightarrow> string \<Rightarrow> json" where
  "sample_age source_id asset seconds watermark = JObj
     [(''sourceId'', JStr source_id), (''assetId'', JStr asset), (''ageSeconds'', JInt seconds), (''watermark'', JStr watermark)]"

definition committed :: "int \<Rightarrow> context_env" where
  \<comment> \<open>the argument is the age of the search index in seconds, 120 in the committed document\<close>
  "committed search_age = \<lparr>cx_number = (\<lambda>v. case v of
       JFloat t \<Rightarrow> (case py_int (drop 2 t) of None \<Rightarrow> Inl (ValueError ''float'') | Some n \<Rightarrow> Inr (of_int n / 100)) | _ \<Rightarrow> Inl (TypeError ''float'')),
     cx_round = id,
     cx_mappings = Inr (JObj [(''mappings'', JArr
       [sample_mapping ''map-service-error'' ''service.error-code'' ''whitegoods.erp'' ''service_orders'' ''error_code'' ''0.98'',
        sample_mapping ''map-telemetry-error'' ''telemetry.error-code'' ''whitegoods.telemetry'' ''telemetry_events'' ''error_code'' ''0.97'',
        sample_mapping ''map-diagnosis-guidance'' ''diagnosis.guidance'' ''whitegoods.search'' ''technical_document_index'' ''content'' ''0.96'',
        sample_mapping ''map-appointment-status'' ''appointment.status'' ''whitegoods.service-api'' ''appointments'' ''status'' ''0.99''])]),
     cx_freshness = Inr (JObj [(''observations'', JArr
       [sample_age ''whitegoods.erp'' ''service_orders'' 60 ''service:SO1006'', sample_age ''whitegoods.telemetry'' ''telemetry_events'' 20 ''event:9'',
        sample_age ''whitegoods.search'' ''technical_document_index'' search_age ''docs:4'',
        sample_age ''whitegoods.service-api'' ''appointments'' 30 ''appointment:AP003''])]),
     cx_release_set = Inr (JObj [(''releaseSet'', JStr ''r1''), (''components'', JArr
       [JObj [(''name'', JStr ''ADLC''), (''revision'', JStr (replicate 40 CHR ''a''))]])])\<rparr>"

text \<open>With the committed documents the four concepts are routed, and two equally good mappings are left to a human.\<close>

lemma committed_routes:
  "(case covered_route (committed 120) of Inl _ \<Rightarrow> None | Inr d \<Rightarrow> Some (rd_status d, map ro_mapping_ids (rd_routes d)))
    = Some (Selected, [[''map-service-error''], [''map-diagnosis-guidance''], [''map-appointment-status''], [''map-telemetry-error'']])"
  by code_simp

lemma committed_ambiguity:
  "(case ambiguous_context (committed 120) of Inl _ \<Rightarrow> None | Inr e \<Rightarrow> Some (ctx_outcome e, ctx_content e, ctx_reason_codes e))
    = Some (Escalation, None, [''ambiguous_mapping:component.failure''])"
  by code_simp

text \<open>
  The escalation rests on the age of the search index: once that is stale, one of the two mappings drops out of the comparison, the
  other is selected without a human, and the envelope of the escalation cannot be built.
\<close>

lemma stale_index_hides_ambiguity:
  "(case ambiguous_route (committed 301) of Inl _ \<Rightarrow> None | Inr d \<Rightarrow> Some (rd_status d, map ro_mapping_ids (rd_routes d)))
    = Some (Selected, [[''map-component-docs'']])"
  "ambiguous_context (committed 301) = Inl (ValueError ''refusal/escalation requires reasons and no answer content'')"
  by code_simp+

text \<open>A brief with the evidence of the four sources becomes an answer with one lineage reference per record.\<close>

lemma committed_envelope:
  "(case grounded_envelope (committed 120)
       \<lparr>eb_service_order_ids = [JStr ''SO1006''], eb_telemetry_event_ids = [JStr ''TE9''], eb_document_ids = [''DOC2''],
        eb_appointment_ids = [JStr ''AP003''], eb_lineage_count = 4\<rparr>
       \<lparr>cov_request_id = ''e21'', cov_generated_at = fixed_time,
        cov_included = [\<lparr>sc_source_id = ''whitegoods.erp'', sc_asset_ids = [''service_orders''], sc_complete = True, sc_watermark = None\<rparr>],
        cov_excluded = [], cov_expected_sources = []\<rparr>
     of Inl _ \<Rightarrow> None | Inr e \<Rightarrow> Some (ctx_outcome e, map lin_record_id (ctx_lineage e)))
    = Some (Answer, [Some ''SO1006'', Some ''TE9'', Some ''DOC2'', Some ''AP003''])"
  by code_simp

lemma lab_is_ready_only_with_evidence:
  "map_sum id rd_ready (lab_readiness (committed 120) True) = Inr True" "map_sum id rd_ready (lab_readiness (committed 120) False) = Inr False"
  by code_simp+

lemma checkpoint_advances:
  "map_sum id (\<lambda>ledger. resume ledger ''whitegoods.telemetry'' ''telemetry_events'') checkpoint_ledger = Inr (Some (telemetry_token ''9''))"
  by code_simp

text \<open>
  The bounded plan is within the planner's constraints, so it compiles to the intent itself, and the grant covers exactly its fields and
  its one relationship. Whatever the plan's execution returns is an answer of one of its two assets within the row limit, and each
  service order in it carries the error code of the plan's filter.
\<close>

definition e21_request :: query_request where
  "e21_request = \<lparr>qr_source_id = ''whitegoods.erp'', qr_asset_ids = [''service_orders'', ''installed_products''],
     qr_plan = plan_json (plan_of e21_intent), qr_limit = 20, qr_deadline_ms = 1000, qr_purpose = ''covered E21 analysis'',
     qr_policy_attributes = [(''role'', JStr ''quality'')]\<rparr>"

lemma bounded_plan_compiles: "bounded_e21_plan = Inr (plan_of e21_intent)"
  by code_simp

lemma bounded_plan_request: "to_query_request (plan_of e21_intent) [(''role'', JStr ''quality'')] = Inr e21_request"
  by code_simp

lemma bounded_plan_granted:
  "pd_allowed (field_policy (\<lambda>_. []) (static_policy [(''whitegoods.erp'', Query)]) [e21_grant]
     (query_authorization e21_request (lab_identity ''agent-quality'' ''bounded-e21'')))"
  by code_simp

lemma e21_filter: "member (object_of (asset_where e21_request ''service_orders'')) ''error_code'' = JStr ''E21''"
  by code_simp

lemma planned_batches_answer:
  assumes "execute_bounded_e21_plan env clock isoformat l = Inr batches" and "b \<in> set batches"
  shows "\<exists>a \<in> {''service_orders'', ''installed_products''}. \<exists>matched payload. answers_query env (wl_erp l) e21_request a matched payload
    \<and> db_payload b = P_Json (JArr (map JObj payload)) \<and> length matched \<le> 20
    \<and> (a = ''service_orders'' \<longrightarrow> (\<forall>row \<in> set matched. py_str (le_repr env) (member row ''error_code'') = ''E21''))"
proof -
  let ?h = "plan_gateway env clock isoformat l"
  from assms(1) obtain t where "execute_query ?h e21_request (lab_identity ''agent-quality'' ''bounded-e21'') gateway_start = ((batches, None), t)"
    by (auto simp: execute_bounded_e21_plan_def bounded_plan_compiles bounded_plan_request ck_bind_Inr cx_py_def split: sum.splits prod.splits option.splits)
  from execute_query_stream [OF this assms(2)] have "b \<in> set (fst (table_execute env (wl_erp l) e21_request))"
    by (simp add: plan_gateway_def lab_gateway_def lab_stream_def e21_request_def)
  from table_execute_answers [OF this] obtain a matched payload where a: "a \<in> set (qr_asset_ids e21_request)"
      and ans: "answers_query env (wl_erp l) e21_request a matched payload" and "db_payload b = P_Json (JArr (map JObj payload))" by blast
  moreover have "a \<in> {''service_orders'', ''installed_products''}" using a by (simp add: e21_request_def)
  moreover have "length matched \<le> 20" using answers_query_rows(3) [OF ans] by (simp add: e21_request_def)
  moreover have "py_str (le_repr env) (member row ''error_code'') = ''E21''" if "a = ''service_orders''" "row \<in> set matched" for row
    using answers_query_rows(2) [OF ans that(2)] row_matches_member e21_filter that(1) by blast
  ultimately show ?thesis by blast
qed

text \<open>The graph source yields the two active assertions of the lab.\<close>

lemma graph_rows:
  "map_sum id db_payload (graph_batch sample_lab_env 1787788800000001 sample_erp (order_request []))
    = Inr (P_Json (JArr [assertion_row sample_lab_env (lab_assertion ''wg-a1'' ''term:drainage-motor'' Same_As 1),
        assertion_row sample_lab_env (lab_assertion ''wg-a2'' ''error:E21'' Mentions (95 / 100))]))"
  by code_simp

end
