(* ===== verification/Spec2Isabelle.thy ===== *)
theory Spec2Isabelle
  imports Freshness_Slo Query_Planning Cross_Source Semantic_Memory Durable_Saga
    Promotion_Readiness Acceptance_Campaign Protocol_Profiles Signed_Packages Cross_Plane_Bridge
    Decoder Conformance Scaffolding Contract_Gates White_Goods_Lab Live_Sources Lab_Scenarios
    Reference_Worker Local_Only Cold_Chain_Lab Lab_Bundles Readiness_Campaign
    Lab_Context
begin

text \<open>
  \<^bold>\<open>The data source harness, modelled and verified.\<close>

  The program (package \<open>src/data_source_harness\<close> under src/) stands between agents and data sources. Agents ask
  for data through a gateway that authorizes, bounds and checks every query (runtime.py), plans and routes
  questions over governed mappings (planning.py, routing.py, governance.py, freshness.py), coordinates several
  sources with a statement of what was covered (coordination.py, coverage.py, context.py), and keeps an assertion
  graph and a memory promoted by human review (semantic.py, semantic_memory.py). Agents act on sources through
  governed actions: previewed, approved, idempotent, audited, compensated in sagas (actions.py), and durable
  across crashes (durability.py). Requests arrive as tool calls (protocol.py) or delegated envelopes
  (delegation.py), over the MCP and A2A profiles (protocol_profiles.py). Connectors run as worker processes
  behind an egress guard (worker.py, worker_connector.py, deployment.py); source bytes pass a decoder
  (decoder.py). Release evidence is kept apart from runtime acceptance (evidence.py, promotion.py,
  acceptance.py), evidence and rankings cross to other planes (cross_plane.py), and packages are signed
  (packaging.py). Packs, scaffolds, conformance and contract gates support the authors of connectors
  (pack_factory.py, scaffolding.py, conformance.py, contracts.py, cli.py).

  \<^bold>\<open>Theories and code.\<close> Each theory models the module named after it, its definitions in the order of the code:
  records are the dataclasses, \<open>mk_\<close> definitions their \<open>__post_init__\<close> checks, other definitions one method or
  one named part of a method each.

  \<^item> Harness_Prelude: exceptions as values, dictionaries in insertion order, strings, timestamps, the
    state-and-exception computations of the gateways, and three interfaces: \<open>write_once\<close> stores,
    \<open>invariant_system\<close>, \<open>growing_system\<close>. Canonical_Json: \<open>json.dumps\<close> with sorted keys, proved unambiguous.
    Json_Access: reading dynamic values. Json_Parser: \<open>json.loads\<close> and the round trips with the printers.
    Csv_Codec: the \<open>csv\<close> writer and the character machine of its reader, with their round trip.
    Url_Parsing: \<open>urlparse\<close> and the parts of the network location.
  \<^item> Data_Models (models.py), Connector_Registry (connector.py), Policy_Seam (policy.py), Telemetry_Events
    (telemetry.py), Freshness_Slo, Mapping_Governance, Source_Routing, Query_Planning, Coverage_Context
    (coverage.py, context.py), Harness_Gateway (runtime.py), Cross_Source (coordination.py), Assertion_Graph
    (semantic.py), Semantic_Memory.
  \<^item> Action_Plans, Audit_Ledger, Action_Gateway, Action_Saga: actions.py. The ledger discharges the interface
    \<open>hash_chain\<close>, whose client lemma is tamper evidence; the saga is a function of the three operations of a
    gateway and is proved equivalent to a big-step contract. Durable_Saga runs it over the durable gateway; both
    gateways discharge the interface \<open>sending_gateway\<close>, whose client lemma is that the receipts of a saga account
    for all it sent.
  \<^item> Action_Journal, Durable_Gateway: durability.py. The SQLite tables are a dictionary of rows under their
    primary key and a list of events; each method is one transaction. The event table is another \<open>hash_chain\<close>.
  \<^item> Northbound_Protocol (protocol.py), Action_Delegation (delegation.py), Evidence_Sets (evidence.py),
    Promotion_Readiness (promotion.py), Acceptance_Campaign (acceptance.py).
  \<^item> Protocol_Profiles (protocol_profiles.py), Signed_Packages (packaging.py), Cross_Plane_Bridge (cross_plane.py),
    Deployment_Egress (deployment.py), Decoder (decoder.py), Pack_Factory (pack_factory.py), Scaffolding, Conformance,
    Contract_Gates (contracts.py, cli.py), Local_Only (local_only.py: regular expressions as data with their meaning as a
    relation, an executable search proved to find exactly the matches, and the audit of the repository with it).
  \<^item> Worker_Protocol (worker.py): one call as a function of what the operating system and the worker do, and the
    semaphore and counters of a client as the partial step function \<open>slot_step\<close>, with the traffic as a list of events. Worker_Connector (worker_connector.py): every operation
    appends the message it sends to the state.
  \<^item> The laboratories under src/reference_labs: White_Goods_Sources and White_Goods_Lab (white_goods/lab.py: five
    connectors over tables, documents, an index, an event log and a service, the policy of the lab, and both behind the
    gateway), Idempotent_Sources (phase4_support.py), Live_Sources (white_goods/live/connectors.py and service_api.py).
    The interface \<open>idempotent_source\<close> is what the durable gateway relies on at a source: an attempt either leaves the
    source alone or has one effect and binds its key. The in-memory source and the PostgreSQL connector discharge it.
    Lab_Recovery (phase5_support.py), Lab_Gateway and Lab_Scenarios (phase4.py, phase5.py of both labs) drive the gateways
    over these sources. Reference_Worker (white_goods/phase6_worker.py) is the process at the other end of the pipes of
    Worker_Protocol, and its conversation with the client. Cold_Chain_Lab (cold_chain/lab.py, certify.py) is the second pack.
    Lab_Bundles (bundle.py of both labs, white_goods/runtime_bundle.py) builds and verifies the offline bundles over
    Signed_Packages. Readiness_Campaign (certify_phase7_readiness.py) is the campaign built from the committed evidence and the
    attempt to forge its contract. Lab_Context (white_goods/phase2.py) composes the semantic graph, the reviewed mappings, freshness,
    routing, the bounded plan and the context envelope.
  \<^item> This theory: the path from a tool call to a source.

  \<^bold>\<open>State and environment.\<close> Each gateway threads a state record (audit ledger, idempotency table or journal, trace of
  what was sent) through its operations. Policy evaluators, telemetry sinks, connectors, approval verifiers,
  hooks and the clock are fields of an environment record; each call of one consumes a tick and is given its
  number, so that they may answer differently every time, raise, time out or be cancelled. SHA-256, HMAC,
  \<open>isoformat\<close>, \<open>fromisoformat\<close>, \<open>repr\<close> of floats and the rounding of float division are parameters, as are the
  compressor of archives, the decoding of UTF-8, the events of \<open>HTMLParser\<close>, the reading of IPv6 addresses, the
  pseudo-random generator, the file system, what a worker process does and what PostgreSQL, S3 and Kafka answer; nothing is
  assumed of them except where a theorem names it, and digest theorems end in a collision of the hash.
  A message of an exception is its literal text without the parts an f-string interpolates.

  \<^bold>\<open>What the lemmas show.\<close> Constructors: what a checked value satisfies (collection \<open>checks\<close>). Stores: a binding
  is made once and survives all later attempts. Gateways: relations between states that every operation
  respects (\<open>keeps\<close>, \<open>gateway_le\<close>, \<open>adds_only\<close>, \<open>settles\<close>, \<open>durable_le\<close>), composed along \<open>sm_bind\<close> by \<open>sm_rel_bind\<close>;
  runs of operations inherit them through the interpretations of \<open>growing_system\<close> and \<open>invariant_system\<close>.
  The properties are numbered C1 to C40, the most important first.

  \<^bold>\<open>Bounds and fuel.\<close> The reader of JSON recurs on fuel of twice the length of the text, which is enough: no more
  changes any result (\<open>parse_fuel\<close>). Nothing else uses fuel. Loops are structural recursions over the list they
  traverse, or recur on a measure that a termination proof gives: the closure loop of the assertion graph, the
  worklist of the pack factory (each round that makes progress leaves fewer datasets), the bounded reader of
  a pipe (each chunk leaves fewer bytes). The paging loop of the REST client may run
  forever and is a \<open>partial_function\<close>; that it returns on the service of the lab is proved. Integers are
  Python's unbounded ones; sizes and limits are compared exactly.

  \<^bold>\<open>Simplifications that matter.\<close> One operation runs at a time: asynchronous interleavings of two operations
  and of two processes are not modelled, except for the one lemma that shows what another process between
  prepare and begin leads to (\<open>begun_elsewhere_is_resent\<close>). A restart of the process loses the in-memory audit
  ledger and keeps the journal. Strings range over code points below 256. Sets whose order the code never
  observes are lists. Where a parser reads JSON into an annotated field, a value of another type is refused.

  \<^bold>\<open>Not modelled.\<close> The HTTP host of runtime_server.py with its constant answers, argument parsing, and the drivers among the laboratories, which
  start services, call the package and print certificates of what they observed. They carry no state of the components
  above.
\<close>

section \<open>From a tool call to a source\<close>

lemma durable_execute_checks:
  assumes "durable_execute env a v i ap s = (x, t)" and "gst_dispatches t \<noteq> gst_dispatches s"
  shows "\<exists>now. now = utc (ax_clock (dx_action env) (gst_tick s)) \<and> preview_valid (ax_prims (dx_action env)) a v i now
    \<and> approval_ok (dx_action env) a ap i now False \<and> policy_allows (dx_action env) a i ''execute''"
  using assms(1) unfolding durable_execute_def
proof (cases rule: sm_bind_cases)
  case (1 e)
  with quietD [OF quiet_check_action 1(1)] assms(2) show ?thesis by (simp add: keeps_def)
next
  case (2 p u)
  then obtain now d where "check_action (dx_action env) a v i ap s = (Inr (now, d), u)" by (cases p) simp
  from check_action_Inr [OF this] show ?thesis by blast
qed

text \<open>
  C4. From a tool call to a source: if the plan of a northbound request is executed by the durable gateway
  and anything is sent, then the policy allowed the plan, the request named a tool exposed to the agent,
  what is executed is that tool's operation on that tool's source, and if the tool is of high risk a
  human approval was presented that the verifier accepted for this plan and agent at the time of the execution.
\<close>

theorem tool_call_is_governed:
  assumes "request_plan (ax_prims (dx_action env)) tools request i = Inr a"
    and "durable_execute env a v i ap s = (x, t)" and "gst_dispatches t \<noteq> gst_dispatches s"
  shows "policy_allows (dx_action env) a i ''execute'' \<and> (\<exists>tool \<in> set tools.
      id_agent_id i \<in> set (nt_allowed_agents tool)
    \<and> ap_source_id a = nt_source_id tool \<and> ap_operation a = nt_operation tool \<and> ap_asset_id a = nt_asset_id tool
    \<and> (nt_risk tool = Risk_High \<longrightarrow> (\<exists>approval verify. ap = Some approval \<and> ax_verifier (dx_action env) = Some verify
        \<and> verify approval a i (utc (ax_clock (dx_action env) (gst_tick s))) False = Inr True)))"
proof -
  from request_plan_Inr [OF assms(1)] obtain tool arguments where
      tool: "tool \<in> set (listed_tools tools i)"
    and a: "plan_from_arguments (ax_prims (dx_action env)) tool arguments = Inr a" by blast
  note bound = plan_from_arguments_Inr [OF a]
  from durable_execute_checks [OF assms(2,3)] have
      ok: "approval_ok (dx_action env) a ap i (utc (ax_clock (dx_action env) (gst_tick s))) False" "policy_allows (dx_action env) a i ''execute''" by auto
  have "ap_approval_mode a = Approval_Human" if "nt_risk tool = Risk_High"
    using bound that mk_action_plan_Inr [of a a] by metis
  with ok tool bound show ?thesis
    by (intro conjI bexI [of _ tool]) (auto simp: approval_ok_def listed_tools_def sorted_tools_def)
qed

theorem tool_call_is_governed_witness:
  "\<exists>approval verify. ax_verifier (dx_action sample_durable_env) = Some verify
     \<and> verify approval (sample_action ''k1'') sample_identity (utc (ax_clock (dx_action sample_durable_env) 0)) False = Inr True"
proof -
  let ?request = "sample_call (sample_compensation_json ''restore'')"
  have plan: "request_plan (ax_prims (dx_action sample_durable_env)) [sample_tool] ?request sample_identity
      = Inr (sample_action ''k1'')"
    unfolding sample_durable_simps sample_env by code_simp
  obtain x t where run: "durable_execute sample_durable_env (sample_action ''k1'') (sample_preview ''k1'') sample_identity
      (Some (sample_approval_of sample_prims)) durable_start = (x, t)" by force
  have "gst_dispatches t \<noteq> gst_dispatches durable_start"
    using sample_durable_run run by (auto simp: sample_durable_ops_def durable_start_def sends_to_def)
  from tool_call_is_governed [OF plan run this] show ?thesis by (auto simp: sample_tool_def durable_start_def)
qed

end
